(* ===== verification/Go_Prelude.thy ===== *)
theory Go_Prelude
  imports Main "HOL-Library.AList"
begin

text \<open>
  What the components share: Go strings as byte lists with the functions of package
  \<open>strings\<close> that the code calls, Go maps as association lists with one entry per key,
  times and durations as integers (nanoseconds), and the result type of a fallible call.
  Two interfaces are stated here as locales because several components provide them: a
  keyed store, and a store of single-use grants.

  Case mapping (\<open>to_lower\<close>, \<open>to_upper\<close>, \<open>equal_fold\<close>) and \<open>trim_space\<close> are those of Go on
  ASCII input. Every identifier the code compares this way (roles, resources, actions,
  kinds, header names) is ASCII; a byte above 127 is left as it is.
\<close>

named_theorems go_simps \<open>characteristic equations of the Go library functions\<close>
named_theorems model_defs \<open>definitions of the model that proofs unfold freely\<close>
named_theorems inv_intros \<open>preservation lemmas of the component invariants\<close>

section \<open>Results, times\<close>

type_synonym gotime = int
type_synonym duration = int

definition millisecond :: duration where "millisecond = 1000000"
definition second :: duration where "second = 1000000000"
definition minute :: duration where "minute = 60 * second"
definition hour :: duration where "hour = 60 * minute"

lemmas duration_defs = millisecond_def second_def minute_def hour_def

lemma duration_pos [simp]: "0 < millisecond" "0 < second" "0 < minute" "0 < hour"
  by (simp_all add: duration_defs)

text \<open>\<open>t.After(u)\<close> and \<open>t.Before(u)\<close> of package \<open>time\<close>.\<close>

definition after :: "gotime \<Rightarrow> gotime \<Rightarrow> bool" where
  "after t u \<longleftrightarrow> u < t"

text \<open>A statement of the SQL store: each can fail (connection lost, constraint violated).\<close>

datatype db_call = DbGet | DbList | DbCreate | DbUpdate | DbDelete | DbCount

type_synonym faults = "db_call \<Rightarrow> bool"

abbreviation no_faults :: faults where "no_faults \<equiv> \<lambda>_. False"

definition isOk :: "'e + 'a \<Rightarrow> bool" where
  "isOk r = (case r of Inl _ \<Rightarrow> False | Inr _ \<Rightarrow> True)"

lemma isOk_simps [simp]: "isOk (Inl e) = False" "isOk (Inr x) = True"
  by (simp_all add: isOk_def)

lemma isOk_iff: "isOk r \<longleftrightarrow> (\<exists>x. r = Inr x)"
  by (cases r) auto

section \<open>Strings\<close>

definition to_lower_char :: "char \<Rightarrow> char" where
  "to_lower_char c = (let n = of_char c :: nat in if 65 \<le> n \<and> n \<le> 90 then char_of (n + 32) else c)"

definition to_upper_char :: "char \<Rightarrow> char" where
  "to_upper_char c = (let n = of_char c :: nat in if 97 \<le> n \<and> n \<le> 122 then char_of (n - 32) else c)"

definition to_lower :: "string \<Rightarrow> string" where
  "to_lower s = map to_lower_char s"

definition to_upper :: "string \<Rightarrow> string" where
  "to_upper s = map to_upper_char s"

definition equal_fold :: "string \<Rightarrow> string \<Rightarrow> bool" where
  "equal_fold s t \<longleftrightarrow> to_lower s = to_lower t"

lemma to_lower_char_idem [simp]: "to_lower_char (to_lower_char c) = to_lower_char c"
  by (auto simp: to_lower_char_def Let_def)

lemma to_lower_idem [simp]: "to_lower (to_lower s) = to_lower s"
  by (simp add: to_lower_def)

lemma to_lower_Nil [simp]: "to_lower s = [] \<longleftrightarrow> s = []" "to_lower [] = []"
  by (simp_all add: to_lower_def)

lemma equal_fold_refl [simp]: "equal_fold s s"
  by (simp add: equal_fold_def)

lemma equal_fold_sym: "equal_fold s t \<longleftrightarrow> equal_fold t s"
  by (auto simp: equal_fold_def)

lemma equal_fold_trans: "equal_fold s t \<Longrightarrow> equal_fold t u \<Longrightarrow> equal_fold s u"
  by (simp add: equal_fold_def)

lemma equal_fold_lower [simp]: "equal_fold s (to_lower t) \<longleftrightarrow> equal_fold s t"
  "equal_fold (to_lower s) t \<longleftrightarrow> equal_fold s t"
  by (simp_all add: equal_fold_def)

definition is_space :: "char \<Rightarrow> bool" where
  "is_space c \<longleftrightarrow> (let n = of_char c :: nat in n = 32 \<or> (9 \<le> n \<and> n \<le> 13))"

definition trim_left_space :: "string \<Rightarrow> string" where
  "trim_left_space s = dropWhile is_space s"

definition trim_space :: "string \<Rightarrow> string" where
  "trim_space s = rev (dropWhile is_space (rev (dropWhile is_space s)))"

lemma trim_space_idem [simp]: "trim_space (trim_space s) = trim_space s"
proof -
  let ?a = "dropWhile is_space s"
  let ?b = "rev (dropWhile is_space (rev ?a))"
  have b: "trim_space s = ?b" by (simp add: trim_space_def)
  have "dropWhile is_space ?b = ?b"
  proof (cases ?b)
    case Nil
    then show ?thesis unfolding Nil by simp
  next
    case (Cons x xs)
    have "\<exists>r. ?a = ?b @ r" by (metis rev_append rev_rev_ident takeWhile_dropWhile_id)
    then obtain r where "?a = x # xs @ r" using Cons by (metis append_Cons)
    then have "\<not> is_space x" by (metis hd_dropWhile list.distinct(1) list.sel(1))
    then show ?thesis unfolding Cons by simp
  qed
  moreover have "dropWhile is_space (rev ?b) = rev ?b" by (simp add: dropWhile_idem)
  ultimately show ?thesis unfolding b by (simp add: trim_space_def)
qed

definition has_prefix :: "string \<Rightarrow> string \<Rightarrow> bool" where
  "has_prefix s p \<longleftrightarrow> take (length p) s = p"

definition has_suffix :: "string \<Rightarrow> string \<Rightarrow> bool" where
  "has_suffix s p \<longleftrightarrow> has_prefix (rev s) (rev p)"

definition trim_prefix :: "string \<Rightarrow> string \<Rightarrow> string" where
  "trim_prefix s p = (if has_prefix s p then drop (length p) s else s)"

definition trim_suffix :: "string \<Rightarrow> string \<Rightarrow> string" where
  "trim_suffix s p = (if has_suffix s p then take (length s - length p) s else s)"

fun contains :: "string \<Rightarrow> string \<Rightarrow> bool" where
  "contains [] p = (p = [])"
| "contains (c # s) p = (has_prefix (c # s) p \<or> contains s p)"

lemma has_prefix_append [simp]: "has_prefix (p @ s) p"
  by (simp add: has_prefix_def)

lemma has_prefix_iff: "has_prefix s p \<longleftrightarrow> (\<exists>r. s = p @ r)"
  by (metis append_take_drop_id has_prefix_append has_prefix_def)

lemma has_suffix_iff: "has_suffix s p \<longleftrightarrow> (\<exists>r. s = r @ p)"
  by (metis has_prefix_iff has_suffix_def rev_append rev_rev_ident)

lemma trim_prefix_append [simp]: "trim_prefix (p @ s) p = s"
  by (simp add: trim_prefix_def)

text \<open>\<open>strings.Split(s, sep)\<close> for a one-byte separator: one more part than separators.\<close>

fun split_on :: "char \<Rightarrow> string \<Rightarrow> string list" where
  "split_on c [] = [[]]"
| "split_on c (x # xs) =
     (if x = c then [] # split_on c xs
      else (case split_on c xs of [] \<Rightarrow> [[x]] | w # ws \<Rightarrow> (x # w) # ws))"

lemma split_on_not_Nil [simp]: "split_on c s \<noteq> []"
  by (induction s) (auto split: list.splits)

fun join_with :: "char \<Rightarrow> string list \<Rightarrow> string" where
  "join_with c [] = []"
| "join_with c [w] = w"
| "join_with c (w # v # ws) = w @ c # join_with c (v # ws)"

lemma join_with_Cons: "ws \<noteq> [] \<Longrightarrow> join_with c (w # ws) = w @ c # join_with c ws"
  by (cases ws) auto

lemma join_split_on [simp]: "join_with c (split_on c s) = s"
proof (induction s)
  case (Cons x xs)
  obtain w ws where s: "split_on c xs = w # ws" by (cases "split_on c xs") auto
  have "join_with c ((x # w) # ws) = x # join_with c (w # ws)" by (cases ws) auto
  with Cons s show ?case by (auto simp: join_with_Cons)
qed simp

lemma split_on_no_sep: "w \<in> set (split_on c s) \<Longrightarrow> c \<notin> set w"
  by (induction s arbitrary: w) (auto split: if_splits list.splits)

text \<open>\<open>strings.Cut(s, sep)\<close>, and \<open>strings.SplitN(s, sep, 2)\<close> when it gives two parts.\<close>

fun cut :: "char \<Rightarrow> string \<Rightarrow> (string \<times> string) option" where
  "cut c [] = None"
| "cut c (x # xs) = (if x = c then Some ([], xs) else map_option (\<lambda>(a, b). (x # a, b)) (cut c xs))"

lemma cut_Some_iff: "cut c s = Some (a, b) \<longleftrightarrow> s = a @ c # b \<and> c \<notin> set a"
proof (induction s arbitrary: a)
  case (Cons x xs)
  show ?case
  proof (cases "x = c")
    case True
    then show ?thesis by (cases a) auto
  next
    case False
    then show ?thesis by (cases a) (auto simp: Cons.IH)
  qed
qed simp

lemma cut_append [simp]: "c \<notin> set a \<Longrightarrow> cut c (a @ c # b) = Some (a, b)"
  by (simp add: cut_Some_iff)

lemma cut_None_iff: "cut c s = None \<longleftrightarrow> c \<notin> set s"
  by (induction s) auto

text \<open>\<open>strings.LastIndex(s, sep)\<close> for a one-byte separator; \<open>None\<close> stands for -1.\<close>

fun last_index :: "char \<Rightarrow> string \<Rightarrow> nat option" where
  "last_index c [] = None"
| "last_index c (x # xs) =
     (case last_index c xs of Some i \<Rightarrow> Some (Suc i) | None \<Rightarrow> if x = c then Some 0 else None)"

lemma last_index_Some:
  "last_index c s = Some i \<Longrightarrow> s = take i s @ c # drop (Suc i) s \<and> c \<notin> set (drop (Suc i) s)"
proof (induction s arbitrary: i)
  case (Cons x xs)
  show ?case
  proof (cases "last_index c xs")
    case None
    have "c \<notin> set xs" using None by (induction xs) (auto split: option.splits if_splits)
    with None Cons.prems show ?thesis by (auto split: if_splits)
  next
    case (Some j)
    with Cons show ?thesis by auto
  qed
qed simp

lemma last_index_None: "last_index c s = None \<longleftrightarrow> c \<notin> set s"
  by (induction s) (auto split: option.splits if_splits)

section \<open>Maps\<close>

text \<open>
  A Go map whose length or iteration the code uses is an association list with one entry per
  key; iteration order is never relied on by the theorems.
\<close>

type_synonym ('k, 'v) gomap = "('k \<times> 'v) list"

abbreviation gm_get :: "('k, 'v) gomap \<Rightarrow> 'k \<Rightarrow> 'v option" where "gm_get \<equiv> map_of"

definition gm_put :: "'k \<Rightarrow> 'v \<Rightarrow> ('k, 'v) gomap \<Rightarrow> ('k, 'v) gomap" where
  "gm_put k v m = AList.update k v m"

definition gm_del :: "'k \<Rightarrow> ('k, 'v) gomap \<Rightarrow> ('k, 'v) gomap" where
  "gm_del k m = AList.delete k m"

definition gm_ok :: "('k, 'v) gomap \<Rightarrow> bool" where
  "gm_ok m \<longleftrightarrow> distinct (map fst m)"

text \<open>Deleting during iteration the entries whose value satisfies a test.\<close>

definition gm_prune :: "('v \<Rightarrow> bool) \<Rightarrow> ('k, 'v) gomap \<Rightarrow> ('k, 'v) gomap" where
  "gm_prune p m = filter (\<lambda>(k, v). \<not> p v) m"

lemma gm_get_put [simp]: "gm_get (gm_put k v m) k' = (if k' = k then Some v else gm_get m k')"
  by (simp add: gm_put_def update_conv')

lemma gm_get_del [simp]: "gm_get (gm_del k m) k' = (if k' = k then None else gm_get m k')"
  by (simp add: gm_del_def delete_conv')

lemma gm_ok_empty [simp]: "gm_ok []"
  by (simp add: gm_ok_def)

lemma gm_ok_put [simp, inv_intros]: "gm_ok m \<Longrightarrow> gm_ok (gm_put k v m)"
  by (simp add: gm_ok_def gm_put_def distinct_update)

lemma gm_ok_del [simp, inv_intros]: "gm_ok m \<Longrightarrow> gm_ok (gm_del k m)"
  by (simp add: gm_ok_def gm_del_def distinct_delete)

lemma gm_ok_prune [simp, inv_intros]: "gm_ok m \<Longrightarrow> gm_ok (gm_prune p m)"
  by (induction m) (auto simp: gm_ok_def gm_prune_def)

lemma gm_get_prune:
  "gm_ok m \<Longrightarrow> gm_get (gm_prune p m) k = (case gm_get m k of Some v \<Rightarrow> if p v then None else Some v | None \<Rightarrow> None)"
  by (induction m) (auto simp: gm_ok_def gm_prune_def map_of_eq_None_iff image_iff split: option.splits)

lemma gm_get_in_set: "gm_ok m \<Longrightarrow> gm_get m k = Some v \<longleftrightarrow> (k, v) \<in> set m"
  by (simp add: gm_ok_def)

lemma gm_length_prune: "length (gm_prune p m) \<le> length m"
  by (simp add: gm_prune_def)

lemma gm_length_put: "length (gm_put k v m) = (if k \<in> fst ` set m then length m else Suc (length m))"
  by (induction m) (auto simp: gm_put_def)

lemma gm_length_del: "length (gm_del k m) \<le> length m"
  by (simp add: gm_del_def length_delete_le)

lemma gm_put_fresh: "k \<notin> fst ` set m \<Longrightarrow> gm_put k v m = m @ [(k, v)]"
  by (induction m) (auto simp: gm_put_def)

lemma gm_del_set: "set (gm_del k m) = {(k', v) \<in> set m. k' \<noteq> k}"
  by (induction m) (auto simp: gm_del_def)

lemma gm_del_filter: "gm_del k m = filter (\<lambda>(k', _). k' \<noteq> k) m"
  by (auto simp: gm_del_def AList.delete_eq intro: filter_cong)

text \<open>The contract of a keyed store, shared by every component that keeps its state in a map.\<close>

locale keyed_store =
  fixes lookup :: "'s \<Rightarrow> 'k \<Rightarrow> 'v option"
    and put :: "'k \<Rightarrow> 'v \<Rightarrow> 's \<Rightarrow> 's"
    and del :: "'k \<Rightarrow> 's \<Rightarrow> 's"
    and ok :: "'s \<Rightarrow> bool"
  assumes lookup_put: "ok s \<Longrightarrow> lookup (put k v s) k' = (if k' = k then Some v else lookup s k')"
    and lookup_del: "ok s \<Longrightarrow> lookup (del k s) k' = (if k' = k then None else lookup s k')"
    and ok_put: "ok s \<Longrightarrow> ok (put k v s)"
    and ok_del: "ok s \<Longrightarrow> ok (del k s)"
begin

lemma put_then_lookup: "ok s \<Longrightarrow> lookup (put k v s) k = Some v"
  by (simp add: lookup_put)

lemma put_overwrites: "ok s \<Longrightarrow> lookup (put k w (put k v s)) = lookup (put k w s)"
  by (simp add: lookup_put ok_put fun_eq_iff)

lemma del_after_put: "ok s \<Longrightarrow> lookup (del k (put k v s)) = lookup (del k s)"
  by (simp add: lookup_put lookup_del ok_put fun_eq_iff)

lemma put_frame: "ok s \<Longrightarrow> k' \<noteq> k \<Longrightarrow> lookup (put k v s) k' = lookup s k'"
  by (simp add: lookup_put)

end

interpretation gm: keyed_store gm_get gm_put gm_del gm_ok
  by unfold_locales auto

section \<open>Single-use grants\<close>

text \<open>
  Several components hand out a token that may be redeemed once: pending AI actions, package
  previews. \<open>take\<close> answers a request against a store; the contract says that success needs the
  key to be present, consumes it, and never creates a key.
\<close>

fun run_takes :: "('r \<Rightarrow> 's \<Rightarrow> 's \<times> 'v option) \<Rightarrow> 'r list \<Rightarrow> 's \<Rightarrow> ('r \<times> 'v option) list" where
  "run_takes tk [] s = []"
| "run_takes tk (r # rs) s = (case tk r s of (s', v) \<Rightarrow> (r, v) # run_takes tk rs s')"

definition successes :: "('r \<Rightarrow> 'k) \<Rightarrow> 'k \<Rightarrow> ('r \<times> 'v option) list \<Rightarrow> nat" where
  "successes key k log = length (filter (\<lambda>(r, v). key r = k \<and> v \<noteq> None) log)"

lemma successes_simps [simp]:
  "successes key k [] = 0"
  "successes key k ((r, v) # log) = (if key r = k \<and> v \<noteq> None then Suc (successes key k log) else successes key k log)"
  by (simp_all add: successes_def)

locale single_use =
  fixes take :: "'r \<Rightarrow> 's \<Rightarrow> 's \<times> 'v option"
    and key :: "'r \<Rightarrow> 'k"
    and present :: "'s \<Rightarrow> 'k \<Rightarrow> bool"
  assumes take_needs: "take r s = (s', Some v) \<Longrightarrow> present s (key r)"
    and take_consumes: "take r s = (s', Some v) \<Longrightarrow> \<not> present s' (key r)"
    and take_no_create: "take r s = (s', x) \<Longrightarrow> present s' k \<Longrightarrow> present s k"
begin

lemma absent_never_succeeds: "\<not> present s k \<Longrightarrow> successes key k (run_takes take rs s) = 0"
proof (induction rs arbitrary: s)
  case (Cons r rs)
  obtain s' x where t: "take r s = (s', x)" by (cases "take r s") auto
  have "\<not> present s' k" using Cons.prems take_no_create [OF t] by blast
  moreover have "key r = k \<Longrightarrow> x = None" using Cons.prems take_needs t by (cases x) auto
  ultimately show ?case using Cons.IH t by simp
qed simp

lemma at_most_once: "successes key k (run_takes take rs s) \<le> 1"
proof (induction rs arbitrary: s)
  case (Cons r rs)
  obtain s' x where t: "take r s = (s', x)" by (cases "take r s") auto
  show ?case
  proof (cases "key r = k \<and> x \<noteq> None")
    case True
    then have "\<not> present s' k" using take_consumes t by auto
    then show ?thesis using absent_never_succeeds t by simp
  next
    case False
    then show ?thesis using Cons.IH t by auto
  qed
qed simp

end

lemma find_append: "find p (xs @ ys) = (case find p xs of None \<Rightarrow> find p ys | Some x \<Rightarrow> Some x)"
  by (induction xs) auto

end
