(* ===== verification/Biz_Errors.thy ===== *)
theory Biz_Errors
  imports Go_Prelude
begin

text \<open>
  Business errors and the JSON response envelope: \<open>internal/pkg/errors/errors.go\<close> and
  \<open>internal/pkg/response/response.go\<close>. A Go \<open>error\<close> is a \<open>BizError\<close> or any other error, of
  which the code reads the text and whether it wraps \<open>context.DeadlineExceeded\<close>.
\<close>

section \<open>Error codes\<close>

definition CodeSuccess :: int where "CodeSuccess = 0"
definition CodeParamMissing :: int where "CodeParamMissing = 40001"
definition CodeParamInvalid :: int where "CodeParamInvalid = 40002"
definition CodeUnauthorized :: int where "CodeUnauthorized = 40100"
definition CodeTokenExpired :: int where "CodeTokenExpired = 40101"
definition Code2FARequired :: int where "Code2FARequired = 40102"
definition Code2FAFailed :: int where "Code2FAFailed = 40103"
definition CodeForbidden :: int where "CodeForbidden = 40300"
definition CodeNotFound :: int where "CodeNotFound = 40400"
definition CodeConflict :: int where "CodeConflict = 40900"
definition CodeValidation :: int where "CodeValidation = 42200"
definition CodeInternal :: int where "CodeInternal = 50000"
definition CodeK8sUnavailable :: int where "CodeK8sUnavailable = 50200"

lemmas code_defs = CodeSuccess_def CodeParamMissing_def CodeParamInvalid_def CodeUnauthorized_def
  CodeTokenExpired_def Code2FARequired_def Code2FAFailed_def CodeForbidden_def CodeNotFound_def
  CodeConflict_def CodeValidation_def CodeInternal_def CodeK8sUnavailable_def

definition code_messages :: "(int, string) gomap" where
  "code_messages =
     [(CodeSuccess, ''success''),
      (CodeParamMissing, ''missing required parameter''),
      (CodeParamInvalid, ''invalid parameter''),
      (CodeUnauthorized, ''unauthorized''),
      (CodeTokenExpired, ''token expired''),
      (Code2FARequired, ''two-factor authentication required''),
      (Code2FAFailed, ''two-factor authentication failed''),
      (CodeForbidden, ''forbidden''),
      (CodeNotFound, ''resource not found''),
      (CodeConflict, ''resource conflict''),
      (CodeValidation, ''validation failed''),
      (CodeInternal, ''internal server error''),
      (CodeK8sUnavailable, ''kubernetes cluster unavailable'')]"

section \<open>Errors\<close>

datatype go_error =
    BizErr (err_code: int) (err_message: string)
  | OtherErr (err_text: string) (err_deadline: bool)

text \<open>Decimal rendering of an integer, as \<open>fmt\<close> prints \<open>%d\<close>.\<close>

definition digit :: "nat \<Rightarrow> char" where
  "digit d = char_of (48 + d)"

fun dec_nat :: "nat \<Rightarrow> string" where
  "dec_nat n = (if n < 10 then [digit n] else dec_nat (n div 10) @ [digit (n mod 10)])"

declare dec_nat.simps [simp del]

definition dec_int :: "int \<Rightarrow> string" where
  "dec_int i = (if i < 0 then CHR ''-'' # dec_nat (nat (- i)) else dec_nat (nat i))"

definition error_string :: "go_error \<Rightarrow> string" where
  "error_string e = (case e of
       BizErr c m \<Rightarrow> ''['' @ dec_int c @ ''] '' @ m
     | OtherErr t _ \<Rightarrow> t)"

definition biz_new :: "int \<Rightarrow> string \<Rightarrow> go_error" where
  "biz_new c m = BizErr c m"

definition biz_new_with_code :: "int \<Rightarrow> go_error" where
  "biz_new_with_code c =
     BizErr c (case gm_get code_messages c of Some m \<Rightarrow> m | None \<Rightarrow> ''unknown error'')"

definition biz_wrap :: "int \<Rightarrow> go_error option \<Rightarrow> go_error option" where
  "biz_wrap c e = (case e of None \<Rightarrow> None | Some err \<Rightarrow> Some (BizErr c (error_string err)))"

definition biz_is :: "go_error option \<Rightarrow> int \<Rightarrow> bool" where
  "biz_is e c = (case e of Some (BizErr c' _) \<Rightarrow> c' = c | _ \<Rightarrow> False)"

definition ErrForbidden :: go_error where "ErrForbidden = biz_new_with_code CodeForbidden"
definition ErrNotFound :: go_error where "ErrNotFound = biz_new_with_code CodeNotFound"

type_synonym 'a res = "go_error + 'a"

abbreviation fail :: "int \<Rightarrow> string \<Rightarrow> 'a res" where "fail c m \<equiv> Inl (biz_new c m)"

lemma biz_new_simps [simp]:
  "err_code (biz_new c m) = c" "biz_new c m = biz_new c' m' \<longleftrightarrow> c = c' \<and> m = m'"
  "err_code (biz_new_with_code c) = c"
  by (simp_all add: biz_new_def biz_new_with_code_def)

lemma ErrForbidden_code [simp]: "err_code ErrForbidden = CodeForbidden"
  by (simp add: ErrForbidden_def)

lemma ErrNotFound_code [simp]: "err_code ErrNotFound = CodeNotFound"
  by (simp add: ErrNotFound_def)

text \<open>Has a result failed with a given business code?\<close>

definition fails_with :: "int \<Rightarrow> 'a res \<Rightarrow> bool" where
  "fails_with c r = (case r of Inl e \<Rightarrow> biz_is (Some e) c | Inr _ \<Rightarrow> False)"

lemma fails_with_simps [simp]:
  "fails_with c (Inr x) = False"
  "fails_with c (Inl (biz_new c' m)) \<longleftrightarrow> c' = c"
  "fails_with c (Inl ErrForbidden) \<longleftrightarrow> CodeForbidden = c"
  "fails_with c (Inl ErrNotFound) \<longleftrightarrow> CodeNotFound = c"
  by (simp_all add: fails_with_def biz_is_def biz_new_def ErrForbidden_def ErrNotFound_def
      biz_new_with_code_def)

section \<open>The response envelope\<close>

record resp_meta =
  meta_source :: string
  meta_stale :: bool
  meta_total :: int
  meta_request_id :: string

record 'a response =
  resp_code :: int
  resp_message :: string
  resp_data :: "'a option"
  resp_meta :: "resp_meta option"

definition resp_success :: "'a \<Rightarrow> 'a response" where
  "resp_success d = \<lparr>resp_code = CodeSuccess, resp_message = ''success'', resp_data = Some d, resp_meta = None\<rparr>"

definition resp_success_with_meta :: "'a \<Rightarrow> resp_meta \<Rightarrow> 'a response" where
  "resp_success_with_meta d m =
     \<lparr>resp_code = CodeSuccess, resp_message = ''success'', resp_data = Some d, resp_meta = Some m\<rparr>"

text \<open>\<open>requestMeta\<close>: the request id set on the context, when it is a non-empty string.\<close>

definition request_meta :: "string option \<Rightarrow> resp_meta option" where
  "request_meta rid = (case rid of
       None \<Rightarrow> None
     | Some v \<Rightarrow> if v = [] then None
         else Some \<lparr>meta_source = [], meta_stale = False, meta_total = 0, meta_request_id = v\<rparr>)"

definition resp_error :: "string option \<Rightarrow> int \<Rightarrow> string \<Rightarrow> 'a response" where
  "resp_error rid c m = \<lparr>resp_code = c, resp_message = m, resp_data = None, resp_meta = request_meta rid\<rparr>"

definition resp_error_with_biz :: "string option \<Rightarrow> go_error \<Rightarrow> 'a response" where
  "resp_error_with_biz rid e =
     \<lparr>resp_code = err_code e, resp_message = err_message e, resp_data = None, resp_meta = request_meta rid\<rparr>"

definition resp_paginated :: "'a \<Rightarrow> int \<Rightarrow> string \<Rightarrow> 'a response" where
  "resp_paginated d cnt rid =
     \<lparr>resp_code = CodeSuccess, resp_message = ''success'', resp_data = Some d,
      resp_meta = Some \<lparr>meta_source = [], meta_stale = False, meta_total = cnt, meta_request_id = rid\<rparr>\<rparr>"

lemma dec_nat_not_Nil [simp]: "dec_nat n \<noteq> []"
  by (subst dec_nat.simps) simp

lemma code_messages_ok: "gm_ok code_messages"
  by (simp add: gm_ok_def code_messages_def code_defs)

text \<open>
  Two distinct decimal renderings never coincide: the decimal value of the rendering is the
  number itself.
\<close>

fun dec_value :: "string \<Rightarrow> nat \<Rightarrow> nat" where
  "dec_value [] acc = acc"
| "dec_value (c # cs) acc = dec_value cs (10 * acc + (of_char c - 48))"

lemma dec_value_append: "dec_value (s @ t) acc = dec_value t (dec_value s acc)"
  by (induction s acc rule: dec_value.induct) auto

lemma of_digit [simp]: "d < 10 \<Longrightarrow> (of_char (digit d) :: nat) = 48 + d"
  by (simp add: digit_def)

lemma dec_value_dec_nat [simp]: "dec_value (dec_nat n) 0 = n"
proof (induction n rule: dec_nat.induct)
  case (1 n)
  then show ?case by (subst dec_nat.simps) (auto simp: dec_value_append)
qed

lemma dec_nat_inj [simp]: "dec_nat m = dec_nat n \<longleftrightarrow> m = n"
  by (metis dec_value_dec_nat)

lemma dec_nat_digits: "c \<in> set (dec_nat n) \<Longrightarrow> 48 \<le> (of_char c :: nat) \<and> (of_char c :: nat) \<le> 57"
proof (induction n rule: dec_nat.induct)
  case (1 n)
  have less: "n mod 10 < 10" by simp
  from 1 show ?case
    by (subst (asm) (2) dec_nat.simps) (auto simp: of_digit [OF less] split: if_splits)
qed

end
