(* ===== verification/Sql_Table.thy ===== *)
theory Sql_Table
  imports Biz_Errors
begin

text \<open>
  The SQL store behind the repositories (\<open>internal/repository\<close>): a table is its rows in
  primary-key order and the last key handed out. A query is a filter on the rows, \<open>First\<close> the
  first row it selects, \<open>Save\<close> an update by key that inserts when no row has the key,
  \<open>Delete\<close> a removal. Every statement may fail, which the fault parameter decides; a unique
  index is a relation that no two rows may be in. Rows with a deletion mark (soft delete) stay
  in the table: queries skip them, unique indexes do not.
\<close>

record 'r table =
  rows :: "'r list"
  seq :: nat

definition empty_table :: "'r table" where
  "empty_table = \<lparr>rows = [], seq = 0\<rparr>"

definition db_error :: go_error where "db_error = OtherErr ''database error'' False"
definition record_not_found :: go_error where "record_not_found = OtherErr ''record not found'' False"
definition unique_violation :: go_error where "unique_violation = OtherErr ''UNIQUE constraint failed'' False"

definition first_where :: "faults \<Rightarrow> ('r \<Rightarrow> bool) \<Rightarrow> 'r table \<Rightarrow> 'r res" where
  "first_where fl p t =
     (if fl DbGet then Inl db_error
      else case find p (rows t) of None \<Rightarrow> Inl record_not_found | Some r \<Rightarrow> Inr r)"

definition find_where :: "faults \<Rightarrow> ('r \<Rightarrow> bool) \<Rightarrow> 'r table \<Rightarrow> 'r list res" where
  "find_where fl p t = (if fl DbList then Inl db_error else Inr (filter p (rows t)))"

text \<open>\<open>with_id\<close> sets the key of a row. \<open>clash\<close> is the unique index.\<close>

definition create_row ::
  "faults \<Rightarrow> ('r \<Rightarrow> 'r \<Rightarrow> bool) \<Rightarrow> (nat \<Rightarrow> 'r \<Rightarrow> 'r) \<Rightarrow> 'r \<Rightarrow> 'r table \<Rightarrow> ('r table \<times> 'r) res" where
  "create_row fl clash with_id r t =
     (if fl DbCreate then Inl db_error
      else if list_ex (clash r) (rows t) then Inl unique_violation
      else let r' = with_id (Suc (seq t)) r
           in Inr (\<lparr>rows = rows t @ [r'], seq = Suc (seq t)\<rparr>, r'))"

definition save_row :: "faults \<Rightarrow> ('r \<Rightarrow> nat) \<Rightarrow> 'r \<Rightarrow> 'r table \<Rightarrow> 'r table res" where
  "save_row fl key r t =
     (if fl DbUpdate then Inl db_error
      else if list_ex (\<lambda>x. key x = key r) (rows t)
        then Inr (t\<lparr>rows := map (\<lambda>x. if key x = key r then r else x) (rows t)\<rparr>)
      else Inr \<lparr>rows = rows t @ [r], seq = max (seq t) (key r)\<rparr>)"

definition delete_where :: "faults \<Rightarrow> ('r \<Rightarrow> bool) \<Rightarrow> 'r table \<Rightarrow> 'r table res" where
  "delete_where fl p t = (if fl DbDelete then Inl db_error else Inr (t\<lparr>rows := filter (\<lambda>r. \<not> p r) (rows t)\<rparr>))"

text \<open>An \<open>UPDATE ... WHERE\<close>: the rows that match are changed, and their number is returned.\<close>

definition update_where :: "faults \<Rightarrow> ('r \<Rightarrow> bool) \<Rightarrow> ('r \<Rightarrow> 'r) \<Rightarrow> 'r table \<Rightarrow> ('r table \<times> nat) res" where
  "update_where fl p f t =
     (if fl DbUpdate then Inl db_error
      else Inr (t\<lparr>rows := map (\<lambda>r. if p r then f r else r) (rows t)\<rparr>, length (filter p (rows t))))"

definition table_ok :: "('r \<Rightarrow> nat) \<Rightarrow> 'r table \<Rightarrow> bool" where
  "table_ok key t \<longleftrightarrow> distinct (map key (rows t)) \<and> (\<forall>r \<in> set (rows t). key r \<le> seq t)"

lemma first_where_Inr: "first_where fl p t = Inr r \<longleftrightarrow> \<not> fl DbGet \<and> find p (rows t) = Some r"
  by (auto simp: first_where_def split: option.splits)

lemma first_where_Inl: "first_where fl p t = Inl e \<Longrightarrow> e = db_error \<or> e = record_not_found"
  by (auto simp: first_where_def split: option.splits if_splits)

lemma first_where_sat: "first_where fl p t = Inr r \<Longrightarrow> p r \<and> r \<in> set (rows t)"
  by (auto simp: first_where_Inr find_Some_iff)

lemma table_ok_keys: "table_ok key t \<longleftrightarrow> distinct (map key (rows t)) \<and> (\<forall>i \<in> set (map key (rows t)). i \<le> seq t)"
  by (simp add: table_ok_def)

lemma find_SomeD: "find p xs = Some x \<Longrightarrow> x \<in> set xs \<and> p x"
  by (auto simp: find_Some_iff)

lemma find_where_Inr: "find_where fl p t = Inr rs \<longleftrightarrow> \<not> fl DbList \<and> rs = filter p (rows t)"
  by (auto simp: find_where_def)

lemma create_row_Inr:
  "create_row fl clash wid r t = Inr (t', r') \<longleftrightarrow>
     \<not> fl DbCreate \<and> \<not> list_ex (clash r) (rows t) \<and> r' = wid (Suc (seq t)) r \<and>
     t' = \<lparr>rows = rows t @ [r'], seq = Suc (seq t)\<rparr>"
  by (auto simp: create_row_def Let_def)

lemma save_row_existing:
  "r0 \<in> set (rows t) \<Longrightarrow> key r = key r0 \<Longrightarrow> \<not> fl DbUpdate \<Longrightarrow>
     save_row fl key r t = Inr (t\<lparr>rows := map (\<lambda>x. if key x = key r then r else x) (rows t)\<rparr>)"
  by (auto simp: save_row_def list_ex_iff)

lemma table_ok_create [inv_intros]:
  "table_ok key t \<Longrightarrow> (\<And>i x. key (wid i x) = i) \<Longrightarrow> create_row fl clash wid r t = Inr (t', r') \<Longrightarrow> table_ok key t'"
  by (auto simp: table_ok_def create_row_Inr dest: bspec)

lemma map_key_replace: "map key (map (\<lambda>x. if key x = key r then r else x) xs) = map key xs"
  by (induction xs) auto

lemma table_ok_save [inv_intros]:
  assumes "table_ok key t" "save_row fl key r t = Inr t'"
  shows "table_ok key t'"
proof (cases "list_ex (\<lambda>x. key x = key r) (rows t)")
  case True
  with assms have t': "t' = t\<lparr>rows := map (\<lambda>x. if key x = key r then r else x) (rows t)\<rparr>"
    by (auto simp: save_row_def split: if_splits)
  have "key r \<le> seq t" using True assms(1) by (auto simp: list_ex_iff table_ok_def)
  then show ?thesis using assms(1) unfolding t' table_ok_def by (auto simp: map_key_replace simp del: map_map)
next
  case False
  with assms have "t' = \<lparr>rows = rows t @ [r], seq = max (seq t) (key r)\<rparr>"
    by (auto simp: save_row_def split: if_splits)
  then show ?thesis using assms(1) False by (fastforce simp: table_ok_def list_ex_iff)
qed

lemma table_ok_delete [inv_intros]: "table_ok key t \<Longrightarrow> delete_where fl p t = Inr t' \<Longrightarrow> table_ok key t'"
  by (auto simp: table_ok_def delete_where_def distinct_map_filter split: if_splits)

lemma find_unique:
  assumes "distinct (map key xs)" "r \<in> set xs" "p r" "\<And>x. p x \<Longrightarrow> key x = key r"
  shows "find p xs = Some r"
  using assms(1,2)
proof (induction xs)
  case (Cons x xs)
  show ?case
  proof (cases "p x")
    case True
    then have "key x = key r" by (rule assms(4))
    then have "x = r" using Cons.prems by (metis distinct.simps(2) image_eqI list.set_map list.simps(9) set_ConsD)
    with True show ?thesis by simp
  next
    case False
    then have "r \<in> set xs" using Cons.prems assms(3) by auto
    with Cons False show ?thesis by simp
  qed
qed simp

lemma find_map_replace:
  "list_ex (\<lambda>x. key x = key r) xs \<Longrightarrow>
   find (\<lambda>x. key x = key r) (map (\<lambda>x. if key x = key r then r else x) xs) = Some r"
  by (induction xs) auto

end
