(* ===== verification/Users.thy ===== *)
theory Users
  imports Sql_Table
begin

text \<open>
  User accounts: the row type (\<open>model.User\<close>), the repository (\<open>repository/user_repo.go\<close>) with its
  soft delete and unique indexes, the seeded administrator (\<open>initDefaultAdmin\<close>), and the
  operations of \<open>service/user_service.go\<close>. Password hashing (bcrypt) is a parameter.
\<close>

record user =
  u_id :: nat
  u_created :: gotime
  u_updated :: gotime
  u_deleted :: "gotime option"
  u_username :: string
  u_email :: string
  u_oauth_id :: string
  u_pk_handle :: "string option"
  u_password_hash :: string
  u_role :: string
  u_auth_provider :: string
  u_directory_id :: string
  u_display_name :: string
  u_token_version :: int
  u_totp_secret_enc :: string
  u_totp_enabled :: bool
  u_recovery_codes_enc :: string
  u_is_active :: bool
  u_last_login :: "gotime option"

type_synonym user_table = "user table"

section \<open>The repository\<close>

definition user_live :: "user \<Rightarrow> bool" where
  "user_live u \<longleftrightarrow> u_deleted u = None"

text \<open>The unique indexes on the user name and on the public-key handle; they do not skip deleted rows.\<close>

definition user_clash :: "user \<Rightarrow> user \<Rightarrow> bool" where
  "user_clash u v \<longleftrightarrow> u_username u = u_username v \<or> (u_pk_handle u \<noteq> None \<and> u_pk_handle u = u_pk_handle v)"

definition user_create :: "faults \<Rightarrow> user \<Rightarrow> user_table \<Rightarrow> (user_table \<times> user) res" where
  "user_create fl u t = create_row fl user_clash (\<lambda>i x. x\<lparr>u_id := i\<rparr>) u t"

definition user_get_by_id :: "faults \<Rightarrow> nat \<Rightarrow> user_table \<Rightarrow> user res" where
  "user_get_by_id fl i t = first_where fl (\<lambda>u. user_live u \<and> u_id u = i) t"

definition user_get_by_username :: "faults \<Rightarrow> string \<Rightarrow> user_table \<Rightarrow> user res" where
  "user_get_by_username fl n t = first_where fl (\<lambda>u. user_live u \<and> u_username u = n) t"

definition user_get_by_email :: "faults \<Rightarrow> string \<Rightarrow> user_table \<Rightarrow> user res" where
  "user_get_by_email fl e t = first_where fl (\<lambda>u. user_live u \<and> u_email u = e) t"

definition user_get_by_oauth_id :: "faults \<Rightarrow> string \<Rightarrow> string \<Rightarrow> user_table \<Rightarrow> user res" where
  "user_get_by_oauth_id fl p o_id t = first_where fl (\<lambda>u. user_live u \<and> u_auth_provider u = p \<and> u_oauth_id u = o_id) t"

definition user_get_by_directory_id :: "faults \<Rightarrow> string \<Rightarrow> user_table \<Rightarrow> user res" where
  "user_get_by_directory_id fl d t =
     first_where fl (\<lambda>u. user_live u \<and> u_auth_provider u = ''directory'' \<and> u_directory_id u = d) t"

definition user_list_by_auth_provider :: "faults \<Rightarrow> string \<Rightarrow> user_table \<Rightarrow> user list res" where
  "user_list_by_auth_provider fl p t = find_where fl (\<lambda>u. user_live u \<and> u_auth_provider u = p) t"

definition user_update :: "faults \<Rightarrow> user \<Rightarrow> user_table \<Rightarrow> user_table res" where
  "user_update fl u t = save_row fl u_id u t"

definition user_delete :: "faults \<Rightarrow> gotime \<Rightarrow> nat \<Rightarrow> user_table \<Rightarrow> user_table res" where
  "user_delete fl now i t =
     (if fl DbDelete then Inl db_error
      else Inr (t\<lparr>rows := map (\<lambda>u. if user_live u \<and> u_id u = i then u\<lparr>u_deleted := Some now\<rparr> else u) (rows t)\<rparr>))"

definition user_list :: "faults \<Rightarrow> user_table \<Rightarrow> user list res" where
  "user_list fl t = find_where fl user_live t"

lemmas user_repo_defs = user_create_def user_get_by_id_def user_get_by_username_def user_update_def
  user_delete_def user_list_def

section \<open>New accounts\<close>

text \<open>The fields a composite literal leaves out take the column defaults.\<close>

definition new_user :: "string \<Rightarrow> string \<Rightarrow> string \<Rightarrow> user" where
  "new_user name pwhash rl =
     \<lparr>u_id = 0, u_created = 0, u_updated = 0, u_deleted = None, u_username = name, u_email = [],
      u_oauth_id = [], u_pk_handle = None, u_password_hash = pwhash, u_role = rl,
      u_auth_provider = ''local'', u_directory_id = [], u_display_name = [], u_token_version = 0,
      u_totp_secret_enc = [], u_totp_enabled = False, u_recovery_codes_enc = [], u_is_active = True,
      u_last_login = None\<rparr>"

type_synonym hasher = "string \<Rightarrow> string option"

definition init_default_admin :: "faults \<Rightarrow> hasher \<Rightarrow> user_table \<Rightarrow> user_table" where
  "init_default_admin fl hash_pw t =
     (let count = (if fl DbCount then 0 else length (filter user_live (rows t))) in
      if count = 0 then
        (case hash_pw ''admin123'' of
           None \<Rightarrow> t
         | Some h \<Rightarrow>
             (case user_create fl (new_user ''admin'' h ''super-admin'') t of Inl _ \<Rightarrow> t | Inr (t', _) \<Rightarrow> t'))
      else t)"

section \<open>The user service\<close>

definition valid_roles :: "string list" where
  "valid_roles = [''super-admin'', ''admin'', ''editor'', ''viewer'', ''custom'']"

definition valid_role :: "string \<Rightarrow> bool" where
  "valid_role r \<longleftrightarrow> List.member valid_roles r"

definition min_password_len :: nat where "min_password_len = 6"

record user_detail =
  ud_id :: nat
  ud_username :: string
  ud_email :: string
  ud_role :: string
  ud_is_active :: bool
  ud_created :: gotime

definition to_user_detail :: "user \<Rightarrow> user_detail" where
  "to_user_detail u = \<lparr>ud_id = u_id u, ud_username = u_username u, ud_email = u_email u, ud_role = u_role u,
     ud_is_active = u_is_active u, ud_created = u_created u\<rparr>"

definition list_users :: "faults \<Rightarrow> user_table \<Rightarrow> user_detail list res" where
  "list_users fl t = (case user_list fl t of
       Inl _ \<Rightarrow> fail CodeInternal ''failed to list users''
     | Inr us \<Rightarrow> Inr (map to_user_detail us))"

definition get_user :: "faults \<Rightarrow> nat \<Rightarrow> user_table \<Rightarrow> user_detail res" where
  "get_user fl i t = (case user_get_by_id fl i t of
       Inl _ \<Rightarrow> fail CodeNotFound ''user not found''
     | Inr u \<Rightarrow> Inr (to_user_detail u))"

definition password_len_msg :: string where
  "password_len_msg = ''password must be at least '' @ dec_nat min_password_len @ '' characters''"

definition create_user ::
  "faults \<Rightarrow> hasher \<Rightarrow> string \<Rightarrow> string \<Rightarrow> string \<Rightarrow> user_table \<Rightarrow> (user_table \<times> user_detail) res" where
  "create_user fl hash_pw username password rl t =
     (if username = [] \<or> password = [] then fail CodeParamInvalid ''username and password are required''
      else if length password < min_password_len then fail CodeParamInvalid password_len_msg
      else if \<not> valid_role rl then fail CodeParamInvalid (''invalid role: '' @ rl)
      else case user_get_by_username fl username t of
          Inr _ \<Rightarrow> fail CodeConflict ''username already exists''
        | Inl _ \<Rightarrow>
            (case hash_pw password of
               None \<Rightarrow> fail CodeInternal ''failed to hash password''
             | Some h \<Rightarrow>
                 (case user_create fl (new_user username h rl) t of
                    Inl _ \<Rightarrow> fail CodeInternal ''failed to create user''
                  | Inr (t', u) \<Rightarrow> Inr (t', to_user_detail u))))"

definition update_user ::
  "faults \<Rightarrow> nat \<Rightarrow> nat \<Rightarrow> string \<Rightarrow> bool \<Rightarrow> user_table \<Rightarrow> (user_table \<times> user_detail) res" where
  "update_user fl i caller rl active t =
     (case user_get_by_id fl i t of
        Inl _ \<Rightarrow> fail CodeNotFound ''user not found''
      | Inr u \<Rightarrow>
          if u_role u = ''super-admin'' \<and> rl \<noteq> ''super-admin'' then
            fail CodeForbidden ''cannot change the role of the super-admin''
          else if i = caller \<and> \<not> active then fail CodeForbidden ''cannot deactivate your own account''
          else if rl \<noteq> [] \<and> \<not> valid_role rl then fail CodeParamInvalid (''invalid role: '' @ rl)
          else let u' = (if rl \<noteq> [] then u\<lparr>u_role := rl\<rparr> else u)\<lparr>u_is_active := active\<rparr> in
            (case user_update fl u' t of
               Inl _ \<Rightarrow> fail CodeInternal ''failed to update user''
             | Inr t' \<Rightarrow> Inr (t', to_user_detail u')))"

definition is_admin_user :: "user \<Rightarrow> bool" where
  "is_admin_user u \<longleftrightarrow> u_role u = ''admin'' \<or> u_role u = ''super-admin''"

definition delete_user :: "faults \<Rightarrow> gotime \<Rightarrow> nat \<Rightarrow> nat \<Rightarrow> user_table \<Rightarrow> user_table res" where
  "delete_user fl now i caller t =
     (if i = caller then fail CodeForbidden ''cannot delete your own account''
      else case user_get_by_id fl i t of
          Inl _ \<Rightarrow> fail CodeNotFound ''user not found''
        | Inr u \<Rightarrow>
            let del = (case user_delete fl now i t of
                Inl _ \<Rightarrow> fail CodeInternal ''failed to delete user'' | Inr t' \<Rightarrow> Inr t') in
            if u_role u = ''admin'' \<or> u_role u = ''super-admin'' then
              (case user_list fl t of
                 Inl _ \<Rightarrow> fail CodeInternal ''failed to verify admin count''
               | Inr us \<Rightarrow>
                   if length (filter (\<lambda>x. u_role x = ''admin'' \<or> u_role x = ''super-admin'') us) \<le> 1
                   then fail CodeForbidden ''cannot delete the last admin account''
                   else del)
            else del)"

definition reset_password :: "faults \<Rightarrow> hasher \<Rightarrow> nat \<Rightarrow> string \<Rightarrow> user_table \<Rightarrow> user_table res" where
  "reset_password fl hash_pw i new_pw t =
     (if new_pw = [] then fail CodeParamInvalid ''new password is required''
      else if length new_pw < min_password_len then fail CodeParamInvalid password_len_msg
      else case user_get_by_id fl i t of
          Inl _ \<Rightarrow> fail CodeNotFound ''user not found''
        | Inr u \<Rightarrow>
            if u_auth_provider u = ''directory'' \<and> u_password_hash u = [] then
              fail CodeForbidden ''directory-only accounts do not have a local password''
            else (case hash_pw new_pw of
                None \<Rightarrow> fail CodeInternal ''failed to hash password''
              | Some h \<Rightarrow>
                  (case user_update fl (u\<lparr>u_password_hash := h, u_token_version := u_token_version u + 1\<rparr>) t of
                     Inl _ \<Rightarrow> fail CodeInternal ''failed to reset password''
                   | Inr t' \<Rightarrow> Inr t')))"

definition change_password ::
  "faults \<Rightarrow> hasher \<Rightarrow> (string \<Rightarrow> string \<Rightarrow> bool) \<Rightarrow> nat \<Rightarrow> string \<Rightarrow> string \<Rightarrow> user_table \<Rightarrow> user_table res" where
  "change_password fl hash_pw check_pw i old_pw new_pw t =
     (if old_pw = [] \<or> new_pw = [] then fail CodeParamInvalid ''old and new passwords are required''
      else if length new_pw < min_password_len then fail CodeParamInvalid password_len_msg
      else case user_get_by_id fl i t of
          Inl _ \<Rightarrow> fail CodeNotFound ''user not found''
        | Inr u \<Rightarrow>
            if u_auth_provider u = ''directory'' \<and> u_password_hash u = [] then
              fail CodeForbidden ''directory-only accounts do not have a local password''
            else if \<not> check_pw old_pw (u_password_hash u) then fail CodeUnauthorized ''old password is incorrect''
            else (case hash_pw new_pw of
                None \<Rightarrow> fail CodeInternal ''failed to hash password''
              | Some h \<Rightarrow>
                  (case user_update fl (u\<lparr>u_password_hash := h, u_token_version := u_token_version u + 1\<rparr>) t of
                     Inl _ \<Rightarrow> fail CodeInternal ''failed to change password''
                   | Inr t' \<Rightarrow> Inr t')))"

section \<open>Integrity of the user table\<close>

definition handles :: "user list \<Rightarrow> string list" where
  "handles us = List.map_filter u_pk_handle us"

definition users_ok :: "user_table \<Rightarrow> bool" where
  "users_ok t \<longleftrightarrow> table_ok u_id t \<and> distinct (map u_username (rows t)) \<and> distinct (handles (rows t))"

lemma handles_simps [simp]:
  "handles [] = []"
  "handles (u # us) = (case u_pk_handle u of None \<Rightarrow> handles us | Some h \<Rightarrow> h # handles us)"
  "handles (us @ vs) = handles us @ handles vs"
  by (simp_all add: handles_def List.map_filter_def split: option.splits)

lemma set_handles: "set (handles us) = {h. \<exists>u \<in> set us. u_pk_handle u = Some h}"
  by (induction us) (auto split: option.splits)

lemma table_ok_same:
  "table_ok u_id t \<Longrightarrow> u \<in> set (rows t) \<Longrightarrow> x \<in> set (rows t) \<Longrightarrow> u_id x = u_id u \<Longrightarrow> x = u"
  by (auto simp: table_ok_def dest: inj_onD distinct_map [THEN iffD1])

text \<open>Rewriting rows without touching key, name and handle keeps the table well formed.\<close>

lemma users_ok_map:
  assumes "users_ok t" "\<And>x. x \<in> set (rows t) \<Longrightarrow> u_id (f x) = u_id x \<and> u_username (f x) = u_username x \<and> u_pk_handle (f x) = u_pk_handle x"
  shows "users_ok (t\<lparr>rows := map f (rows t)\<rparr>)"
proof -
  have "map u_id (map f (rows t)) = map u_id (rows t)" "map u_username (map f (rows t)) = map u_username (rows t)"
    using assms(2) by auto
  moreover have "handles (map f us) = handles us" if "set us \<subseteq> set (rows t)" for us
    using that by (induction us) (auto simp: assms(2) split: option.splits)
  ultimately show ?thesis using assms(1,2) by (auto simp: users_ok_def table_ok_def simp del: map_map)
qed

lemma user_get_by_id_Inr:
  "user_get_by_id fl i t = Inr u \<Longrightarrow> u \<in> set (rows t) \<and> user_live u \<and> u_id u = i"
  by (auto simp: user_get_by_id_def dest: first_where_sat)

text \<open>Saving back a row that was read, with key, name and handle unchanged.\<close>

lemma users_ok_update:
  assumes "users_ok t" "u \<in> set (rows t)" "user_update fl u' t = Inr t'"
    "u_id u' = u_id u" "u_username u' = u_username u" "u_pk_handle u' = u_pk_handle u"
  shows "users_ok t' \<and> rows t' = map (\<lambda>x. if u_id x = u_id u then u' else x) (rows t)"
proof -
  have t': "t' = t\<lparr>rows := map (\<lambda>x. if u_id x = u_id u then u' else x) (rows t)\<rparr>"
    using assms(2,3,4) by (auto simp: user_update_def save_row_def list_ex_iff split: if_splits)
  have "x = u" if "x \<in> set (rows t)" "u_id x = u_id u" for x
    using assms(1,2) that by (auto simp: users_ok_def dest: table_ok_same)
  then have "u_id (if u_id x = u_id u then u' else x) = u_id x \<and>
      u_username (if u_id x = u_id u then u' else x) = u_username x \<and>
      u_pk_handle (if u_id x = u_id u then u' else x) = u_pk_handle x" if "x \<in> set (rows t)" for x
    using that assms(4-6) by (cases "u_id x = u_id u") auto
  from users_ok_map [OF assms(1) this] show ?thesis by (simp add: t')
qed

text \<open>An operation on one account leaves the others as they are.\<close>

definition other_rows_kept :: "nat \<Rightarrow> user_table \<Rightarrow> user_table \<Rightarrow> bool" where
  "other_rows_kept i t t' \<longleftrightarrow> (\<forall>v. u_id v \<noteq> i \<longrightarrow> v \<in> set (rows t) \<longleftrightarrow> v \<in> set (rows t'))"

lemma other_rows_kept_refl [simp]: "other_rows_kept i t t"
  by (simp add: other_rows_kept_def)

lemma other_rows_kept_trans: "other_rows_kept i t t' \<Longrightarrow> other_rows_kept i t' t'' \<Longrightarrow> other_rows_kept i t t''"
  by (simp add: other_rows_kept_def)

lemma other_rows_kept_update:
  assumes "users_ok t" "u \<in> set (rows t)" "user_update fl u' t = Inr t'" "u_id u' = u_id u"
  shows "other_rows_kept (u_id u) t t' \<and> u' \<in> set (rows t')"
proof -
  have "t' = t\<lparr>rows := map (\<lambda>x. if u_id x = u_id u then u' else x) (rows t)\<rparr>"
    using assms(2,3,4) by (auto simp: user_update_def save_row_def list_ex_iff split: if_splits)
  with assms(2,4) show ?thesis by (auto simp: other_rows_kept_def image_iff)
qed

lemma users_ok_create:
  assumes "users_ok t" "user_create fl u t = Inr (t', u')"
  shows "users_ok t'"
proof -
  have c: "\<not> list_ex (user_clash u) (rows t)" "u' = u\<lparr>u_id := Suc (seq t)\<rparr>"
    "t' = \<lparr>rows = rows t @ [u'], seq = Suc (seq t)\<rparr>"
    using assms(2) by (auto simp: user_create_def create_row_Inr)
  have "table_ok u_id t'"
    by (rule table_ok_create [OF _ _ assms(2) [unfolded user_create_def]]) (use assms(1) in \<open>auto simp: users_ok_def\<close>)
  with c assms(1) show ?thesis
    by (auto simp: users_ok_def user_clash_def list_ex_iff set_handles split: option.splits)
qed

lemma users_ok_delete:
  "users_ok t \<Longrightarrow> user_delete fl now i t = Inr t' \<Longrightarrow> users_ok t'"
  by (auto simp: user_delete_def split: if_splits intro!: users_ok_map)

lemma create_user_Inr:
  "create_user fl hp n pw rl t = Inr (t', d) \<Longrightarrow>
     \<exists>h u'. hp pw = Some h \<and> user_create fl (new_user n h rl) t = Inr (t', u')"
  by (auto simp: create_user_def split: if_splits sum.splits option.splits)

lemma update_user_Inr:
  assumes "update_user fl i caller rl active t = Inr (t', d)"
  obtains u where "user_get_by_id fl i t = Inr u" "u_role u = ''super-admin'' \<longrightarrow> rl = ''super-admin''"
    "i = caller \<longrightarrow> active" "rl = [] \<or> valid_role rl"
    "user_update fl ((if rl \<noteq> [] then u\<lparr>u_role := rl\<rparr> else u)\<lparr>u_is_active := active\<rparr>) t = Inr t'"
  using assms by (auto simp: update_user_def Let_def split: if_splits sum.splits)

lemma reset_password_Inr:
  assumes "reset_password fl hp i pw t = Inr t'"
  obtains u h where "user_get_by_id fl i t = Inr u" "hp pw = Some h" "min_password_len \<le> length pw"
    "user_update fl (u\<lparr>u_password_hash := h, u_token_version := u_token_version u + 1\<rparr>) t = Inr t'"
  using assms by (auto simp: reset_password_def split: if_splits sum.splits option.splits)

lemma change_password_Inr:
  assumes "change_password fl hp cp i old pw t = Inr t'"
  obtains u h where "user_get_by_id fl i t = Inr u" "cp old (u_password_hash u)" "hp pw = Some h"
    "min_password_len \<le> length pw"
    "user_update fl (u\<lparr>u_password_hash := h, u_token_version := u_token_version u + 1\<rparr>) t = Inr t'"
  using assms by (auto simp: change_password_def split: if_splits sum.splits option.splits)

lemma delete_user_Inr:
  assumes "delete_user fl now i caller t = Inr t'"
  obtains u where "i \<noteq> caller" "user_get_by_id fl i t = Inr u" "user_delete fl now i t = Inr t'"
    "is_admin_user u \<Longrightarrow> \<not> fl DbList \<and> 1 < length (filter is_admin_user (filter user_live (rows t)))"
proof -
  have "i \<noteq> caller" using assms by (auto simp: delete_user_def)
  moreover from assms this obtain u where "user_get_by_id fl i t = Inr u"
    by (auto simp: delete_user_def split: sum.splits)
  moreover from calculation have "user_delete fl now i t = Inr t'"
    using assms by (auto simp: delete_user_def Let_def split: sum.splits if_splits)
  moreover from calculation have
    "is_admin_user u \<Longrightarrow> \<not> fl DbList \<and> 1 < length (filter is_admin_user (filter user_live (rows t)))"
    using assms
    by (auto simp: delete_user_def Let_def is_admin_user_def [abs_def] user_list_def find_where_def
        split: sum.splits if_splits)
  ultimately show ?thesis using that by blast
qed


definition demo_users :: user_table where
  "demo_users =
     \<lparr>rows = [(new_user ''admin'' ''h0'' ''super-admin'')\<lparr>u_id := 1\<rparr>, (new_user ''eve'' ''h1'' ''admin'')\<lparr>u_id := 2\<rparr>,
              (new_user ''bob'' ''h2'' ''viewer'')\<lparr>u_id := 3\<rparr>], seq = 3\<rparr>"

lemma demo_users_ok: "users_ok demo_users"
  by (simp add: users_ok_def table_ok_def demo_users_def new_user_def)


section \<open>The last administrator\<close>

definition admins :: "user_table \<Rightarrow> user list" where
  "admins t = filter is_admin_user (filter user_live (rows t))"

lemma admins_after_delete:
  "user_delete fl now i t = Inr t' \<Longrightarrow> admins t' = filter (\<lambda>u. u_id u \<noteq> i) (admins t)"
proof -
  have "filter is_admin_user (filter user_live (map (\<lambda>u. if user_live u \<and> u_id u = i then u\<lparr>u_deleted := Some now\<rparr> else u) us))
      = filter (\<lambda>u. u_id u \<noteq> i) (filter is_admin_user (filter user_live us))" for us
    by (induction us) (auto simp: user_live_def)
  then show "user_delete fl now i t = Inr t' \<Longrightarrow> ?thesis"
    by (auto simp: user_delete_def admins_def split: if_splits)
qed

lemma distinct_key_filter: "distinct (map k xs) \<Longrightarrow> length (filter (\<lambda>x. k x = i) xs) \<le> 1"
  by (induction xs) (auto simp: filter_empty_conv image_iff le_Suc_eq)

text \<open>
  A successful deletion never leaves the system without an administrator: if some account
  that is not deleted holds an admin role before, some other account does afterwards.
\<close>

theorem delete_user_keeps_an_admin:
  assumes "users_ok t" "admins t \<noteq> []" "delete_user fl now i caller t = Inr t'"
  shows "admins t' \<noteq> []"
  using assms(3)
proof (rule delete_user_Inr)
  fix u assume u: "user_get_by_id fl i t = Inr u" and d: "user_delete fl now i t = Inr t'"
    and a: "is_admin_user u \<Longrightarrow> \<not> fl DbList \<and> 1 < length (filter is_admin_user (filter user_live (rows t)))"
  have dist: "distinct (map u_id (admins t))"
    using assms(1) by (auto simp: admins_def users_ok_def table_ok_def distinct_map_filter)
  show ?thesis
  proof (cases "is_admin_user u")
    case True
    with a have "1 < length (admins t)" by (simp add: admins_def)
    moreover have "length (admins t) = length (filter (\<lambda>x. u_id x = i) (admins t)) + length (filter (\<lambda>x. u_id x \<noteq> i) (admins t))"
      using sum_length_filter_compl [of "\<lambda>x. u_id x = i" "admins t"] by simp
    ultimately show ?thesis using distinct_key_filter [OF dist, of i] admins_after_delete [OF d] by auto
  next
    case False
    have "u_id x \<noteq> i" if "x \<in> set (admins t)" for x
      using that False user_get_by_id_Inr [OF u] table_ok_same assms(1) by (auto simp: admins_def users_ok_def)
    then have "filter (\<lambda>u. u_id u \<noteq> i) (admins t) = admins t" by (simp add: filter_id_conv)
    then show ?thesis using assms(2) admins_after_delete [OF d] by simp
  qed
qed

theorem delete_user_keeps_an_admin_witness:
  "\<exists>t'. delete_user no_faults 9 2 1 demo_users = Inr t' \<and> admins t' \<noteq> []"
proof -
  obtain t' where d: "delete_user no_faults 9 2 1 demo_users = Inr t'"
    by (simp add: delete_user_def user_get_by_id_def first_where_def demo_users_def new_user_def user_live_def
        user_list_def find_where_def user_delete_def)
  have "admins demo_users \<noteq> []"
    by (simp add: admins_def is_admin_user_def demo_users_def new_user_def user_live_def)
  then show ?thesis using delete_user_keeps_an_admin [OF demo_users_ok _ d] d by blast
qed

text \<open>Demotion has no such guard: the only administrator can make itself a viewer.\<close>

lemma update_user_can_demote_last_admin:
  "\<exists>t t' d. users_ok t \<and> length (admins t) = 1 \<and>
     update_user no_faults 2 2 ''viewer'' True t = Inr (t', d) \<and> admins t' = []"
proof -
  let ?t = "\<lparr>rows = [(new_user ''eve'' ''h1'' ''admin'')\<lparr>u_id := 2\<rparr>], seq = 2\<rparr>"
  have "users_ok ?t" by (simp add: users_ok_def table_ok_def new_user_def)
  moreover have "length (admins ?t) = 1" by (simp add: admins_def is_admin_user_def new_user_def user_live_def)
  moreover have "\<exists>t' d. update_user no_faults 2 2 ''viewer'' True ?t = Inr (t', d) \<and> admins t' = []"
    by (simp add: update_user_def user_get_by_id_def first_where_def new_user_def user_live_def valid_role_def
        valid_roles_def user_update_def save_row_def admins_def is_admin_user_def Let_def)
  ultimately show ?thesis by blast
qed

text \<open>
  The name of a deleted account cannot be used again: the duplicate check of \<open>CreateUser\<close>
  does not see the deleted row, the unique index does, so the call ends in an internal error
  instead of a new account or a conflict.
\<close>

theorem deleted_username_blocks_creation:
  assumes "u \<in> set (rows t)" "u_deleted u = Some d" "u_username u = n"
    and "\<And>v. v \<in> set (rows t) \<Longrightarrow> user_live v \<Longrightarrow> u_username v \<noteq> n"
    and "n \<noteq> []" "min_password_len \<le> length pw" "valid_role rl" "hp pw = Some h"
  shows "create_user fl hp n pw rl t = fail CodeInternal ''failed to create user''"
proof -
  have "list_ex (user_clash (new_user n h rl)) (rows t)"
    using assms(1,3) by (auto simp: list_ex_iff user_clash_def new_user_def)
  then have c: "\<exists>e. user_create fl (new_user n h rl) t = Inl e"
    by (auto simp: user_create_def create_row_def)
  have "find (\<lambda>v. user_live v \<and> u_username v = n) (rows t) = None"
    using assms(4) by (auto simp: find_None_iff)
  then have g: "\<exists>e. user_get_by_username fl n t = Inl e"
    by (auto simp: user_get_by_username_def first_where_def)
  have "pw \<noteq> []" using assms(6) by (auto simp: min_password_len_def)
  from c obtain e1 where "user_create fl (new_user n h rl) t = Inl e1" by blast
  moreover from g obtain e2 where "user_get_by_username fl n t = Inl e2" by blast
  ultimately show ?thesis using assms(5-8) \<open>pw \<noteq> []\<close> by (simp add: create_user_def)
qed

theorem deleted_username_blocks_creation_witness:
  "\<exists>t. delete_user no_faults 9 3 1 demo_users = Inr t \<and>
    create_user no_faults Some ''bob'' ''secret1'' ''viewer'' t = fail CodeInternal ''failed to create user''"
proof -
  obtain t where d: "delete_user no_faults 9 3 1 demo_users = Inr t"
    and r: "rows t = [(new_user ''admin'' ''h0'' ''super-admin'')\<lparr>u_id := 1\<rparr>, (new_user ''eve'' ''h1'' ''admin'')\<lparr>u_id := 2\<rparr>,
              (new_user ''bob'' ''h2'' ''viewer'')\<lparr>u_id := 3, u_deleted := Some 9\<rparr>]"
    by (simp add: delete_user_def user_get_by_id_def first_where_def demo_users_def new_user_def user_live_def
        user_list_def find_where_def user_delete_def)
  have "create_user no_faults Some ''bob'' ''secret1'' ''viewer'' t = fail CodeInternal ''failed to create user''"
    by (rule deleted_username_blocks_creation [of "(new_user ''bob'' ''h2'' ''viewer'')\<lparr>u_id := 3, u_deleted := Some 9\<rparr>" _ 9 _ _ _ _ "''secret1''"])
      (auto simp: r new_user_def user_live_def min_password_len_def valid_role_def valid_roles_def)
  with d show ?thesis by blast
qed

end
