(* ===== verification/Jwt_Tokens.thy ===== *)
theory Jwt_Tokens
  imports Biz_Errors
begin

text \<open>
  The four kinds of signed token of \<open>internal/auth/jwt.go\<close>: access, refresh, second-factor and
  WebSocket ticket. The JWT library is outside the repository: \<open>sign\<close> and \<open>verify\<close> are parameters
  (of an arbitrary type \<open>'tok\<close> of token strings). Every parse function decodes the same payload
  into its own struct, so a payload is one record that holds every claim any of them reads; a
  claim that was not written decodes to the zero value of its type. Of the library the model
  uses what its documentation states: a token whose expiry has passed is rejected, and the
  issuer and audience options reject a token without them. A numeric date has whole seconds.
\<close>

datatype alg = HS256 | HS384 | HS512 | NonHMAC

record payload =
  p_iss :: string
  p_sub :: string
  p_aud :: "string list"
  p_iat :: "int option"
  p_exp :: "int option"
  p_uid :: nat
  p_username :: string
  p_role :: string
  p_cluster_roles :: "(string, string) gomap"
  p_tv :: int
  p_typ :: string
  p_pending2fa :: bool

record 'tok jwt_manager =
  jm_secret :: string
  jm_access_ttl :: duration
  jm_refresh_ttl :: duration
  jm_sign :: "string \<Rightarrow> payload \<Rightarrow> 'tok"
  jm_verify :: "string \<Rightarrow> 'tok \<Rightarrow> (alg \<times> payload) option"

definition new_jwt_manager ::
  "(string \<Rightarrow> payload \<Rightarrow> 'tok) \<Rightarrow> (string \<Rightarrow> 'tok \<Rightarrow> (alg \<times> payload) option) \<Rightarrow> string \<Rightarrow> duration \<Rightarrow> duration \<Rightarrow> 'tok jwt_manager" where
  "new_jwt_manager sg vf sec attl rttl =
     \<lparr>jm_secret = sec, jm_access_ttl = attl, jm_refresh_ttl = rttl, jm_sign = sg, jm_verify = vf\<rparr>"

text \<open>What the manager relies on: a token it signed verifies, with the method it was signed with.\<close>

definition signs_ok :: "'tok jwt_manager \<Rightarrow> bool" where
  "signs_ok m \<longleftrightarrow> (\<forall>p. jm_verify m (jm_secret m) (jm_sign m (jm_secret m) p) = Some (HS256, p))"

definition numeric_date :: "gotime \<Rightarrow> int" where
  "numeric_date t = t div second"

definition web_socket_ticket_ttl :: duration where
  "web_socket_ticket_ttl = 30 * second"

definition registered :: "nat \<Rightarrow> gotime \<Rightarrow> duration \<Rightarrow> string list \<Rightarrow> payload" where
  "registered uid now ttl aud =
     \<lparr>p_iss = ''kubevision'', p_sub = dec_nat uid, p_aud = aud, p_iat = Some (numeric_date now),
      p_exp = Some (numeric_date (now + ttl)), p_uid = uid, p_username = [], p_role = [],
      p_cluster_roles = [], p_tv = 0, p_typ = [], p_pending2fa = False\<rparr>"

text \<open>\<open>TokenClaims\<close>, without the registered claims that the generator overwrites.\<close>

record token_claims =
  tc_uid :: nat
  tc_username :: string
  tc_role :: string
  tc_cluster_roles :: "(string, string) gomap"
  tc_tv :: int

definition generate_access_token :: "'tok jwt_manager \<Rightarrow> gotime \<Rightarrow> token_claims \<Rightarrow> 'tok" where
  "generate_access_token m now c =
     jm_sign m (jm_secret m)
       ((registered (tc_uid c) now (jm_access_ttl m) [])
          \<lparr>p_username := tc_username c, p_role := tc_role c, p_cluster_roles := tc_cluster_roles c,
           p_tv := tc_tv c, p_typ := ''access''\<rparr>)"

definition generate_refresh_token :: "'tok jwt_manager \<Rightarrow> gotime \<Rightarrow> nat \<Rightarrow> int \<Rightarrow> 'tok" where
  "generate_refresh_token m now uid tv =
     jm_sign m (jm_secret m)
       ((registered uid now (jm_refresh_ttl m) [])\<lparr>p_tv := tv, p_typ := ''refresh''\<rparr>)"

definition generate_web_socket_ticket :: "'tok jwt_manager \<Rightarrow> gotime \<Rightarrow> nat \<Rightarrow> 'tok" where
  "generate_web_socket_ticket m now uid =
     jm_sign m (jm_secret m)
       ((registered uid now web_socket_ticket_ttl [''kubevision-websocket''])\<lparr>p_typ := ''websocket''\<rparr>)"

definition generate_temp_token :: "'tok jwt_manager \<Rightarrow> gotime \<Rightarrow> nat \<Rightarrow> 'tok" where
  "generate_temp_token m now uid =
     jm_sign m (jm_secret m)
       ((registered uid now (5 * minute) [])\<lparr>p_pending2fa := True, p_typ := ''2fa''\<rparr>)"

text \<open>
  \<open>jwt.ParseWithClaims\<close>: the key function accepts the method, the signature verifies, the
  expiry (when there is one) lies in the future, and the issuer and audience options hold.
\<close>

definition parse_with_claims ::
  "'tok jwt_manager \<Rightarrow> (alg \<Rightarrow> bool) \<Rightarrow> string option \<Rightarrow> string option \<Rightarrow> gotime \<Rightarrow> 'tok \<Rightarrow> payload option" where
  "parse_with_claims m alg_ok iss aud now tok =
     (case jm_verify m (jm_secret m) tok of
        None \<Rightarrow> None
      | Some (a, p) \<Rightarrow>
          if \<not> alg_ok a then None
          else if (case p_exp p of Some e \<Rightarrow> \<not> now < e * second | None \<Rightarrow> False) then None
          else if (case iss of Some i \<Rightarrow> p_iss p \<noteq> i | None \<Rightarrow> False) then None
          else if (case aud of Some x \<Rightarrow> x \<notin> set (p_aud p) | None \<Rightarrow> False) then None
          else Some p)"

definition is_hmac :: "alg \<Rightarrow> bool" where
  "is_hmac a \<longleftrightarrow> a \<noteq> NonHMAC"

definition parse_token :: "'tok jwt_manager \<Rightarrow> gotime \<Rightarrow> 'tok \<Rightarrow> token_claims option" where
  "parse_token m now tok =
     (case parse_with_claims m is_hmac None None now tok of
        None \<Rightarrow> None
      | Some p \<Rightarrow>
          if p_typ p \<noteq> [] \<and> p_typ p \<noteq> ''access'' then None
          else Some \<lparr>tc_uid = p_uid p, tc_username = p_username p, tc_role = p_role p,
                     tc_cluster_roles = p_cluster_roles p, tc_tv = p_tv p\<rparr>)"

definition parse_web_socket_ticket :: "'tok jwt_manager \<Rightarrow> gotime \<Rightarrow> 'tok \<Rightarrow> nat option" where
  "parse_web_socket_ticket m now tok =
     (case parse_with_claims m (\<lambda>a. a = HS256) (Some ''kubevision'') (Some ''kubevision-websocket'') now tok of
        None \<Rightarrow> None
      | Some p \<Rightarrow> if p_uid p = 0 \<or> p_typ p \<noteq> ''websocket'' then None else Some (p_uid p))"

definition parse_temp_token :: "'tok jwt_manager \<Rightarrow> gotime \<Rightarrow> 'tok \<Rightarrow> nat option" where
  "parse_temp_token m now tok =
     (case parse_with_claims m is_hmac None None now tok of
        None \<Rightarrow> None
      | Some p \<Rightarrow>
          if \<not> p_pending2fa p \<or> (p_typ p \<noteq> [] \<and> p_typ p \<noteq> ''2fa'') then None else Some (p_uid p))"

text \<open>\<open>RefreshTokenClaims\<close> as the pair of user and token version.\<close>

definition parse_refresh_token :: "'tok jwt_manager \<Rightarrow> gotime \<Rightarrow> 'tok \<Rightarrow> (nat \<times> int) option" where
  "parse_refresh_token m now tok =
     (case parse_with_claims m is_hmac None None now tok of
        None \<Rightarrow> None
      | Some p \<Rightarrow> if p_typ p \<noteq> [] \<and> p_typ p \<noteq> ''refresh'' then None else Some (p_uid p, p_tv p))"

lemmas jwt_generate_defs = generate_access_token_def generate_refresh_token_def
  generate_web_socket_ticket_def generate_temp_token_def registered_def

lemmas jwt_parse_defs = parse_token_def parse_web_socket_ticket_def parse_temp_token_def
  parse_refresh_token_def

lemma verify_signed: "signs_ok m \<Longrightarrow> jm_verify m (jm_secret m) (jm_sign m (jm_secret m) p) = Some (HS256, p)"
  by (simp add: signs_ok_def)

lemma parse_signed:
  "signs_ok m \<Longrightarrow> alg_ok HS256 \<Longrightarrow>
   parse_with_claims m alg_ok iss aud now (jm_sign m (jm_secret m) p) =
     (if (\<forall>e. p_exp p = Some e \<longrightarrow> now < e * second) \<and> (\<forall>i. iss = Some i \<longrightarrow> p_iss p = i) \<and>
         (\<forall>x. aud = Some x \<longrightarrow> x \<in> set (p_aud p)) then Some p else None)"
  by (auto simp: parse_with_claims_def verify_signed split: option.splits)

lemma is_hmac_HS256 [simp]: "is_hmac HS256"
  by (simp add: is_hmac_def)

lemma numeric_date_le: "numeric_date t * second \<le> t"
  by (simp add: numeric_date_def duration_defs)

lemma numeric_date_gt: "t - second < numeric_date t * second"
proof -
  have "t mod second < second" by (rule pos_mod_bound) simp
  then show ?thesis using div_mult_mod_eq [of t second] unfolding numeric_date_def by linarith
qed

lemma parse_token_None_typ:
  "signs_ok m \<Longrightarrow> p_typ p \<noteq> [] \<Longrightarrow> p_typ p \<noteq> ''access'' \<Longrightarrow>
   parse_token m now (jm_sign m (jm_secret m) p) = None"
  by (simp add: parse_token_def parse_signed)

lemma token_kinds_temp:
  "signs_ok m \<Longrightarrow> parse_token m now (generate_temp_token m t uid) = None \<and>
     parse_refresh_token m now (generate_temp_token m t uid) = None"
  by (simp add: jwt_parse_defs jwt_generate_defs parse_signed)

text \<open>
  C13. The kinds of token cannot be exchanged for one another: whatever the time, a refresh
  token, a second-factor token or a WebSocket ticket is not accepted as an access token, and
  none of the other three kinds is accepted where one is expected.
\<close>

theorem token_kinds_disjoint:
  assumes "signs_ok m"
  shows "parse_token m now (generate_refresh_token m t uid tv) = None \<and>
    parse_token m now (generate_temp_token m t uid) = None \<and>
    parse_token m now (generate_web_socket_ticket m t uid) = None \<and>
    parse_refresh_token m now (generate_access_token m t c) = None \<and>
    parse_refresh_token m now (generate_temp_token m t uid) = None \<and>
    parse_refresh_token m now (generate_web_socket_ticket m t uid) = None \<and>
    parse_temp_token m now (generate_access_token m t c) = None \<and>
    parse_temp_token m now (generate_refresh_token m t uid tv) = None \<and>
    parse_temp_token m now (generate_web_socket_ticket m t uid) = None \<and>
    parse_web_socket_ticket m now (generate_access_token m t c) = None \<and>
    parse_web_socket_ticket m now (generate_refresh_token m t uid tv) = None \<and>
    parse_web_socket_ticket m now (generate_temp_token m t uid) = None"
  using assms by (simp add: jwt_parse_defs jwt_generate_defs parse_signed)

definition demo_manager :: "payload jwt_manager" where
  "demo_manager = new_jwt_manager (\<lambda>_ p. p) (\<lambda>_ p. Some (HS256, p)) ''s3cret'' (15 * minute) (24 * hour)"

lemma demo_manager_signs: "signs_ok demo_manager"
  by (simp add: signs_ok_def demo_manager_def new_jwt_manager_def)

theorem token_kinds_disjoint_witness:
  "parse_token demo_manager 5 (generate_refresh_token demo_manager 0 7 1) = None"
  using token_kinds_disjoint [OF demo_manager_signs, of 5 0 7 1] by blast

text \<open>
  An access token parses back to the claims it was made from exactly while the truncated
  expiry lies ahead, so it is valid for its lifetime less at most one second, and never after.
\<close>

theorem access_token_roundtrip:
  assumes "signs_ok m"
  shows "parse_token m now (generate_access_token m t c) =
      (if now < numeric_date (t + jm_access_ttl m) * second then Some c else None) \<and>
    (now \<le> t + jm_access_ttl m - second \<longrightarrow> parse_token m now (generate_access_token m t c) = Some c) \<and>
    (t + jm_access_ttl m \<le> now \<longrightarrow> parse_token m now (generate_access_token m t c) = None)"
proof -
  have "parse_token m now (generate_access_token m t c) =
    (if now < numeric_date (t + jm_access_ttl m) * second then Some c else None)"
    using assms by (simp add: parse_token_def generate_access_token_def registered_def parse_signed)
  then show ?thesis
    using numeric_date_gt [of "t + jm_access_ttl m"] numeric_date_le [of "t + jm_access_ttl m"] by simp
qed

theorem access_token_roundtrip_witness:
  "parse_token demo_manager minute (generate_access_token demo_manager 0
     \<lparr>tc_uid = 7, tc_username = ''ann'', tc_role = ''viewer'', tc_cluster_roles = [], tc_tv = 3\<rparr>) =
   Some \<lparr>tc_uid = 7, tc_username = ''ann'', tc_role = ''viewer'', tc_cluster_roles = [], tc_tv = 3\<rparr>"
proof -
  have "minute \<le> 0 + jm_access_ttl demo_manager - second"
    by (simp add: demo_manager_def new_jwt_manager_def duration_defs)
  then show ?thesis using access_token_roundtrip [OF demo_manager_signs] by blast
qed

end
