(* ===== verification/Json_Values.thy ===== *)
theory Json_Values
  imports Go_Prelude
begin

text \<open>
  Values as \<open>encoding/json\<close> and the YAML decoder produce them for \<open>interface{}\<close>: the type
  switches and assertions the code makes on them are the destructors below. A number is a
  float64, kept as mantissa and binary exponent. The second part is the codec of a string
  array (\<open>json.Marshal\<close> and \<open>json.Unmarshal\<close> at type \<open>[]string\<close>), in which role permissions and
  recovery codes are stored, with its round trip.
\<close>

section \<open>Decoded values\<close>

datatype json =
    JNull
  | JBool bool
  | JNum int int
  | JStr string
  | JArr "json list"
  | JObj "(string \<times> json) list"

type_synonym fields = "(string \<times> json) list"

text \<open>The type assertions \<open>v.(map[string]any)\<close>, \<open>v.([]any)\<close>, \<open>v.(string)\<close>, \<open>v.(bool)\<close>.\<close>

definition as_obj :: "json option \<Rightarrow> fields option" where
  "as_obj v = (case v of Some (JObj m) \<Rightarrow> Some m | _ \<Rightarrow> None)"

definition as_arr :: "json option \<Rightarrow> json list option" where
  "as_arr v = (case v of Some (JArr xs) \<Rightarrow> Some xs | _ \<Rightarrow> None)"

definition as_str :: "json option \<Rightarrow> string option" where
  "as_str v = (case v of Some (JStr s) \<Rightarrow> Some s | _ \<Rightarrow> None)"

definition as_bool :: "json option \<Rightarrow> bool option" where
  "as_bool v = (case v of Some (JBool b) \<Rightarrow> Some b | _ \<Rightarrow> None)"

text \<open>The two-value forms \<open>x, _ := v.(T)\<close>: the zero value of the type when it is not a \<open>T\<close>.\<close>

definition obj_or_nil :: "json option \<Rightarrow> fields" where
  "obj_or_nil v = (case as_obj v of Some m \<Rightarrow> m | None \<Rightarrow> [])"

definition arr_or_nil :: "json option \<Rightarrow> json list" where
  "arr_or_nil v = (case as_arr v of Some xs \<Rightarrow> xs | None \<Rightarrow> [])"

definition str_or_empty :: "json option \<Rightarrow> string" where
  "str_or_empty v = (case as_str v of Some s \<Rightarrow> s | None \<Rightarrow> [])"

definition bool_or_false :: "json option \<Rightarrow> bool" where
  "bool_or_false v = (case as_bool v of Some b \<Rightarrow> b | None \<Rightarrow> False)"

text \<open>The conversion \<open>int(f)\<close> of a float64 with mantissa \<open>m\<close> and exponent \<open>e\<close> truncates towards zero.\<close>

definition trunc_num :: "int \<Rightarrow> int \<Rightarrow> int" where
  "trunc_num m e = (if 0 \<le> e then m * 2 ^ nat e else sgn m * (\<bar>m\<bar> div 2 ^ nat (- e)))"

lemmas as_defs = as_obj_def as_arr_def as_str_def as_bool_def obj_or_nil_def arr_or_nil_def
  str_or_empty_def bool_or_false_def

lemma as_simps [simp]:
  "as_obj None = None" "as_arr None = None" "as_str None = None" "as_bool None = None"
  "as_obj (Some (JObj m)) = Some m" "as_arr (Some (JArr xs)) = Some xs"
  "as_str (Some (JStr s)) = Some s" "as_bool (Some (JBool b)) = Some b"
  "as_obj (Some (JArr xs)) = None" "as_obj (Some (JStr s)) = None" "as_arr (Some (JObj m)) = None"
  "obj_or_nil (Some (JObj m)) = m" "arr_or_nil (Some (JArr xs)) = xs"
  "str_or_empty (Some (JStr s)) = s" "bool_or_false (Some (JBool b)) = b"
  "obj_or_nil None = []" "arr_or_nil None = []" "str_or_empty None = []" "bool_or_false None = False"
  by (simp_all add: as_defs)

section \<open>String arrays: encoding\<close>

definition quote :: char where "quote = CHR 0x22"
definition backslash :: char where "backslash = CHR 0x5C"

definition hex_digit :: "nat \<Rightarrow> char" where
  "hex_digit d = (if d < 10 then char_of (48 + d) else char_of (87 + d))"

text \<open>
  \<open>json.Marshal\<close> of a string: control characters, the quote, the backslash and the three HTML
  characters are escaped. Bytes above 127 are taken to be well-formed UTF-8 and kept.
\<close>

definition esc_char :: "char \<Rightarrow> string" where
  "esc_char c = (let n = of_char c :: nat in
     if c = quote \<or> c = backslash then [backslash, c]
     else if n = 8 then [backslash, CHR ''b'']
     else if n = 12 then [backslash, CHR ''f'']
     else if n = 10 then [backslash, CHR ''n'']
     else if n = 13 then [backslash, CHR ''r'']
     else if n = 9 then [backslash, CHR ''t'']
     else if n < 32 \<or> n = 60 \<or> n = 62 \<or> n = 38
       then [backslash, CHR ''u'', CHR ''0'', CHR ''0'', hex_digit (n div 16), hex_digit (n mod 16)]
     else [c])"

definition marshal_string :: "string \<Rightarrow> string" where
  "marshal_string s = quote # concat (map esc_char s) @ [quote]"

definition marshal_strings :: "string list \<Rightarrow> string" where
  "marshal_strings ss = CHR ''['' # join_with (CHR '','') (map marshal_string ss) @ '']''"

text \<open>A slice of strings that may be \<open>nil\<close>.\<close>

definition marshal_slice :: "string list option \<Rightarrow> string" where
  "marshal_slice l = (case l of None \<Rightarrow> ''null'' | Some ss \<Rightarrow> marshal_strings ss)"

text \<open>\<open>%q\<close>: the quoted form of a string; non-ASCII bytes are kept.\<close>

definition quote_char :: "char \<Rightarrow> string" where
  "quote_char c = (let n = of_char c :: nat in
     if c = quote \<or> c = backslash then [backslash, c]
     else if n = 7 then [backslash, CHR ''a''] else if n = 8 then [backslash, CHR ''b'']
     else if n = 9 then [backslash, CHR ''t''] else if n = 10 then [backslash, CHR ''n'']
     else if n = 11 then [backslash, CHR ''v''] else if n = 12 then [backslash, CHR ''f'']
     else if n = 13 then [backslash, CHR ''r'']
     else if n < 32 \<or> n = 127 then [backslash, CHR ''x'', hex_digit (n div 16), hex_digit (n mod 16)]
     else [c])"

definition go_quote :: "string \<Rightarrow> string" where
  "go_quote s = quote # concat (map quote_char s) @ [quote]"

section \<open>String arrays: decoding\<close>

definition hex_val :: "char \<Rightarrow> nat option" where
  "hex_val c = (let n = of_char c :: nat in
     if 48 \<le> n \<and> n \<le> 57 then Some (n - 48)
     else if 97 \<le> n \<and> n \<le> 102 then Some (n - 87)
     else if 65 \<le> n \<and> n \<le> 70 then Some (n - 55)
     else None)"

definition hex4 :: "char \<Rightarrow> char \<Rightarrow> char \<Rightarrow> char \<Rightarrow> nat option" where
  "hex4 a b c d = (case (hex_val a, hex_val b, hex_val c, hex_val d) of
       (Some w, Some x, Some y, Some z) \<Rightarrow> Some (((w * 16 + x) * 16 + y) * 16 + z)
     | _ \<Rightarrow> None)"

definition utf8 :: "nat \<Rightarrow> string" where
  "utf8 n =
     (if n < 128 then [char_of n]
      else if n < 2048 then [char_of (192 + n div 64), char_of (128 + n mod 64)]
      else if n < 65536
        then [char_of (224 + n div 4096), char_of (128 + n div 64 mod 64), char_of (128 + n mod 64)]
      else [char_of (240 + n div 262144), char_of (128 + n div 4096 mod 64),
            char_of (128 + n div 64 mod 64), char_of (128 + n mod 64)])"

definition simple_escape :: "char \<Rightarrow> char option" where
  "simple_escape c =
     (if c = quote \<or> c = backslash \<or> c = CHR ''/'' then Some c
      else if c = CHR ''b'' then Some (CHR 8)
      else if c = CHR ''f'' then Some (CHR 12)
      else if c = CHR ''n'' then Some (CHR 10)
      else if c = CHR ''r'' then Some (CHR 13)
      else if c = CHR ''t'' then Some (CHR 9)
      else None)"

text \<open>
  The second half of a surrogate pair, when the next escape is one: its code and what follows.
\<close>

definition low_surrogate :: "string \<Rightarrow> (nat \<times> string) option" where
  "low_surrogate s = (case s of
       c # u # a # b # d # e # r \<Rightarrow>
         if c = backslash \<and> u = CHR ''u'' then
           (case hex4 a b d e of
              Some n \<Rightarrow> if 56320 \<le> n \<and> n < 57344 then Some (n, r) else None
            | None \<Rightarrow> None)
         else None
     | _ \<Rightarrow> None)"

definition prepend :: "string \<Rightarrow> (string \<times> string) option \<Rightarrow> (string \<times> string) option" where
  "prepend w p = map_option (\<lambda>(v, r). (w @ v, r)) p"

lemma low_surrogate_length [termination_simp]:
  "low_surrogate s = Some (n, r) \<Longrightarrow> length r < length s"
  by (auto simp: low_surrogate_def split: list.splits if_splits option.splits)

text \<open>The body of a string literal after its opening quote: the text, and what follows it.\<close>

fun unquote :: "string \<Rightarrow> (string \<times> string) option" where
  "unquote [] = None"
| "unquote (c # s) =
     (if c = quote then Some ([], s)
      else if c = backslash then
        (case s of
           [] \<Rightarrow> None
         | e # s' \<Rightarrow>
             if e = CHR ''u'' then
               (case s' of
                  a # b # d # f # r \<Rightarrow>
                    (case hex4 a b d f of
                       None \<Rightarrow> None
                     | Some n \<Rightarrow>
                         if 55296 \<le> n \<and> n < 56320 then
                           (case low_surrogate r of
                              Some (m, r') \<Rightarrow> prepend (utf8 (65536 + (n - 55296) * 1024 + (m - 56320))) (unquote r')
                            | None \<Rightarrow> prepend (utf8 65533) (unquote r))
                         else if 56320 \<le> n \<and> n < 57344 then prepend (utf8 65533) (unquote r)
                         else prepend (utf8 n) (unquote r))
                | _ \<Rightarrow> None)
             else (case simple_escape e of None \<Rightarrow> None | Some x \<Rightarrow> prepend [x] (unquote s')))
      else if (of_char c :: nat) < 32 then None
      else prepend [c] (unquote s))"

lemma prepend_Some: "prepend w p = Some (v, r) \<longleftrightarrow> (\<exists>v'. p = Some (v', r) \<and> v = w @ v')"
  by (cases p) (auto simp: prepend_def)

lemma unquote_length: "unquote s = Some (w, r) \<Longrightarrow> length r < length s"
proof (induction "length s" arbitrary: s w r rule: less_induct)
  case less
  have IH: "length r' < length t" if "unquote t = Some (v, r')" "length t < length s" for t v r'
    using less.hyps that by blast
  show ?case
  proof (cases s)
    case (Cons c t)
    from less.prems Cons show ?thesis
      by (auto simp: prepend_Some split: if_splits list.splits option.splits prod.splits
          dest!: IH low_surrogate_length)
  qed (use less.prems in simp)
qed

definition is_ws :: "char \<Rightarrow> bool" where
  "is_ws c \<longleftrightarrow> (let n = of_char c :: nat in n = 9 \<or> n = 10 \<or> n = 13 \<or> n = 32)"

definition skip_ws :: "string \<Rightarrow> string" where
  "skip_ws s = dropWhile is_ws s"

lemma skip_ws_length [termination_simp]: "length (skip_ws s) \<le> length s"
  by (simp add: skip_ws_def length_dropWhile_le)

text \<open>One array element: a string literal, or \<open>null\<close>, which leaves the empty string.\<close>

definition parse_elem :: "string \<Rightarrow> (string \<times> string) option" where
  "parse_elem s =
     (if has_prefix s ''null'' then Some ([], drop 4 s)
      else case s of c # r \<Rightarrow> if c = quote then unquote r else None | [] \<Rightarrow> None)"

lemma parse_elem_length: "parse_elem s = Some (w, r) \<Longrightarrow> length r < length s"
  by (cases s) (auto simp: parse_elem_def has_prefix_def split: if_splits dest: unquote_length)

function parse_elems :: "string \<Rightarrow> (string list \<times> string) option" where
  "parse_elems s =
     (case parse_elem (skip_ws s) of
        None \<Rightarrow> None
      | Some (w, r) \<Rightarrow>
          (case skip_ws r of
             [] \<Rightarrow> None
           | c # r' \<Rightarrow>
               if c = CHR '']'' then Some ([w], r')
               else if c = CHR '','' then
                 (case parse_elems r' of None \<Rightarrow> None | Some (ws, q) \<Rightarrow> Some (w # ws, q))
               else None))"
  by pat_completeness auto
termination
proof (relation "measure length")
  fix s p w r c r'
  assume "parse_elem (skip_ws s) = Some p" "(w, r) = p" "skip_ws r = c # r'"
  then have "length r < length (skip_ws s)" "Suc (length r') \<le> length r"
    using skip_ws_length [of r] by (auto dest: parse_elem_length)
  with skip_ws_length [of s] show "(r', s) \<in> measure length" by simp
qed simp

declare parse_elems.simps [simp del]
declare unquote.simps(2) [simp del]

definition unmarshal_strings :: "string \<Rightarrow> string list option" where
  "unmarshal_strings s =
     (let t = skip_ws s in
      if has_prefix t ''null'' then (if skip_ws (drop 4 t) = [] then Some [] else None)
      else case t of
          c # r \<Rightarrow>
            if c = CHR ''['' then
              (case skip_ws r of
                 d # r' \<Rightarrow>
                   if d = CHR '']'' then (if skip_ws r' = [] then Some [] else None)
                   else (case parse_elems r of
                           Some (ws, q) \<Rightarrow> if skip_ws q = [] then Some ws else None
                         | None \<Rightarrow> None)
               | [] \<Rightarrow> None)
            else None
        | [] \<Rightarrow> None)"

section \<open>Round trip\<close>

lemma hex_val_digit [simp]: "d < 16 \<Longrightarrow> hex_val (hex_digit d) = Some d"
  by (auto simp: hex_val_def hex_digit_def Let_def)

lemma hex4_digits: "n < 256 \<Longrightarrow> hex4 (CHR ''0'') (CHR ''0'') (hex_digit (n div 16)) (hex_digit (n mod 16)) = Some n"
  by (simp add: hex4_def hex_val_def [of "CHR ''0''"])

lemma unquote_esc_char:
  "unquote (esc_char c @ s) = prepend [c] (unquote s)"
proof -
  consider "c = quote \<or> c = backslash"
    | "c \<noteq> quote" "c \<noteq> backslash" "(of_char c :: nat) \<in> {8, 9, 10, 12, 13}"
    | "c \<noteq> quote" "c \<noteq> backslash" "(of_char c :: nat) \<notin> {8, 9, 10, 12, 13}"
      "(of_char c :: nat) < 32 \<or> (of_char c :: nat) \<in> {60, 62, 38}"
    | "c \<noteq> quote" "c \<noteq> backslash" "32 \<le> (of_char c :: nat)" "(of_char c :: nat) \<notin> {60, 62, 38}"
    by force
  then show ?thesis
  proof cases
    case 1
    then show ?thesis
      by (auto simp: esc_char_def unquote.simps(2) simple_escape_def quote_def backslash_def)
  next
    case 2
    have "\<exists>d \<in> {CHR 8, CHR 9, CHR 10, CHR 12, CHR 13}. (of_char c :: nat) = of_char d"
      using 2(3) by (simp del: of_char_eq_iff)
    then have "c \<in> {CHR 8, CHR 9, CHR 10, CHR 12, CHR 13}" by (simp only: of_char_eq_iff) blast
    with 2 show ?thesis
      by (auto simp: esc_char_def unquote.simps(2) simple_escape_def quote_def backslash_def)
  next
    case 3
    let ?n = "of_char c :: nat"
    have n: "?n < 128" using 3 by auto
    have e: "esc_char c = [backslash, CHR ''u'', CHR ''0'', CHR ''0'', hex_digit (?n div 16), hex_digit (?n mod 16)]"
      using 3 by (auto simp: esc_char_def Let_def)
    show ?thesis using n
      by (simp add: e unquote.simps(2) hex4_digits utf8_def quote_def backslash_def)
  next
    case 4
    then show ?thesis by (auto simp: esc_char_def unquote.simps(2) Let_def)
  qed
qed

lemma prepend_prepend: "prepend v (prepend w p) = prepend (v @ w) p"
  by (cases p) (auto simp: prepend_def)

lemma unquote_marshal: "unquote (concat (map esc_char s) @ quote # r) = Some (s, r)"
  by (induction s) (auto simp: unquote.simps(2) unquote_esc_char prepend_def)

lemma parse_elem_marshal [simp]: "parse_elem (marshal_string s @ r) = Some (s, r)"
  by (simp add: parse_elem_def marshal_string_def has_prefix_def quote_def unquote_marshal [unfolded quote_def])

lemma skip_ws_marshal: "skip_ws (marshal_string s @ r) = marshal_string s @ r"
  by (simp add: skip_ws_def marshal_string_def is_ws_def quote_def)

lemma parse_elems_marshal:
  "ss \<noteq> [] \<Longrightarrow> parse_elems (join_with (CHR '','') (map marshal_string ss) @ CHR '']'' # r) = Some (ss, r)"
proof (induction ss)
  case (Cons s ss)
  show ?case
  proof (cases ss)
    case Nil
    then show ?thesis
      by (subst parse_elems.simps) (simp add: skip_ws_marshal skip_ws_def [of "CHR '']'' # r"] is_ws_def)
  next
    case (Cons t ts)
    let ?rest = "join_with (CHR '','') (map marshal_string ss) @ CHR '']'' # r"
    have "parse_elems ?rest = Some (ss, r)" using Cons.IH Cons by simp
    moreover have "join_with (CHR '','') (map marshal_string (s # ss)) @ CHR '']'' # r
        = marshal_string s @ CHR '','' # ?rest"
      using Cons by (simp add: join_with_Cons)
    ultimately show ?thesis
      by (subst parse_elems.simps) (simp add: skip_ws_marshal skip_ws_def [of "CHR '','' # _"] is_ws_def)
  qed
qed simp

theorem unmarshal_marshal: "unmarshal_strings (marshal_strings ss) = Some ss"
proof (cases ss)
  case Nil
  show ?thesis by (simp add: Nil unmarshal_strings_def marshal_strings_def skip_ws_def is_ws_def has_prefix_def)
next
  case (Cons s ts)
  let ?body = "join_with (CHR '','') (map marshal_string ss) @ '']''"
  have p: "parse_elems ?body = Some (ss, [])" using parse_elems_marshal [of ss "[]"] Cons by simp
  have "\<exists>b. ?body = quote # b" using Cons by (cases ts) (auto simp: marshal_string_def)
  then obtain b where b: "?body = quote # b" by blast
  have "skip_ws ?body = quote # b" by (simp add: b skip_ws_def is_ws_def quote_def)
  then show ?thesis using p
    by (simp add: unmarshal_strings_def marshal_strings_def skip_ws_def [of "CHR ''['' # _"] is_ws_def has_prefix_def
        skip_ws_def [of "[]"] quote_def)
qed

end
