(* ===== verification/Auth_Service.thy ===== *)
theory Auth_Service
  imports Users Jwt_Tokens Json_Values
begin

text \<open>
  Login, token refresh and the second factor: \<open>service/auth_service.go\<close> and the recovery codes of
  \<open>auth/totp.go\<close>. The password hash, AES-GCM, the TOTP library and the random source are
  parameters, gathered in \<open>auth_env\<close>; so is the directory service, behind the two calls the
  authentication service makes to it. These two may change the accounts even when they fail, so the
  operations that call them return the accounts beside their result.
\<close>

record directory_ops =
  dir_authenticate :: "gotime \<Rightarrow> string \<Rightarrow> string \<Rightarrow> user_table \<Rightarrow> user_table \<times> user res"
  dir_refresh_user :: "gotime \<Rightarrow> user \<Rightarrow> user_table \<Rightarrow> user_table \<times> user res"

record 'tok auth_env =
  ae_jwt :: "'tok jwt_manager"
  ae_key :: string
  ae_check_pw :: "string \<Rightarrow> string \<Rightarrow> bool"
  ae_encrypt :: "string \<Rightarrow> string \<Rightarrow> string option"
  ae_decrypt :: "string \<Rightarrow> string \<Rightarrow> string option"
  ae_totp_valid :: "string \<Rightarrow> string \<Rightarrow> gotime \<Rightarrow> bool"
  ae_totp_generate :: "string \<Rightarrow> (string \<times> string) option"
  ae_rand :: "nat \<Rightarrow> nat option"
  ae_directory :: "directory_ops option"

section \<open>Recovery codes\<close>

definition recovery_code_len :: nat where "recovery_code_len = 8"

definition recovery_code_chars :: string where
  "recovery_code_chars = ''ABCDEFGHJKLMNPQRSTUVWXYZ23456789''"

text \<open>
  \<open>rnd k\<close> is the answer to the \<open>k\<close>-th call of \<open>rand.Int(rand.Reader, n)\<close>: an index below the
  length of the character set, or an error. The codes of one call use consecutive draws.
\<close>

fun draw_chars :: "(nat \<Rightarrow> nat option) \<Rightarrow> nat \<Rightarrow> nat \<Rightarrow> string option" where
  "draw_chars rnd k 0 = Some []"
| "draw_chars rnd k (Suc n) =
     (case rnd k of
        None \<Rightarrow> None
      | Some i \<Rightarrow> map_option (\<lambda>s. recovery_code_chars ! i # s) (draw_chars rnd (Suc k) n))"

fun generate_recovery_codes :: "(nat \<Rightarrow> nat option) \<Rightarrow> nat \<Rightarrow> nat \<Rightarrow> string list option" where
  "generate_recovery_codes rnd k 0 = Some []"
| "generate_recovery_codes rnd k (Suc count) =
     (case draw_chars rnd k recovery_code_len of
        None \<Rightarrow> None
      | Some buf \<Rightarrow>
          map_option (\<lambda>cs. (take 4 buf @ ''-'' @ drop 4 buf) # cs)
            (generate_recovery_codes rnd (k + recovery_code_len) count))"

definition rand_ok :: "(nat \<Rightarrow> nat option) \<Rightarrow> bool" where
  "rand_ok rnd \<longleftrightarrow> (\<forall>k i. rnd k = Some i \<longrightarrow> i < length recovery_code_chars)"

section \<open>Results\<close>

record user_info =
  ui_id :: nat
  ui_username :: string
  ui_role :: string
  ui_totp_enabled :: bool

record 'tok login_response =
  lr_access :: 'tok
  lr_refresh :: 'tok
  lr_user :: user_info

datatype 'tok login_result =
    FullTokens "'tok login_response"
  | TwoFARequired 'tok

record setup_2fa_response =
  s2_secret :: string
  s2_url :: string
  s2_codes :: "string list"

definition build_login_response :: "'tok auth_env \<Rightarrow> gotime \<Rightarrow> user \<Rightarrow> 'tok login_response" where
  "build_login_response e now u =
     \<lparr>lr_access = generate_access_token (ae_jwt e) now
        \<lparr>tc_uid = u_id u, tc_username = u_username u, tc_role = u_role u, tc_cluster_roles = [],
         tc_tv = u_token_version u\<rparr>,
      lr_refresh = generate_refresh_token (ae_jwt e) now (u_id u) (u_token_version u),
      lr_user = \<lparr>ui_id = u_id u, ui_username = u_username u, ui_role = u_role u, ui_totp_enabled = u_totp_enabled u\<rparr>\<rparr>"

section \<open>Login\<close>

definition save_quietly :: "faults \<Rightarrow> user \<Rightarrow> user_table \<Rightarrow> user_table" where
  "save_quietly fl u t = (case user_update fl u t of Inl _ \<Rightarrow> t | Inr t' \<Rightarrow> t')"

definition login ::
  "'tok auth_env \<Rightarrow> faults \<Rightarrow> gotime \<Rightarrow> string \<Rightarrow> string \<Rightarrow> user_table \<Rightarrow> (user_table \<times> 'tok login_result) res" where
  "login e fl now username password t =
     (case user_get_by_username fl username t of
        Inl _ \<Rightarrow> fail CodeUnauthorized ''invalid username or password''
      | Inr u \<Rightarrow>
          if \<not> u_is_active u then fail CodeForbidden ''account is disabled''
          else if \<not> ae_check_pw e password (u_password_hash u) then
            fail CodeUnauthorized ''invalid username or password''
          else
            let u' = u\<lparr>u_last_login := Some now\<rparr>; t' = save_quietly fl u' t in
            if u_totp_enabled u' then Inr (t', TwoFARequired (generate_temp_token (ae_jwt e) now (u_id u')))
            else Inr (t', FullTokens (build_login_response e now u')))"

definition login_directory ::
  "'tok auth_env \<Rightarrow> gotime \<Rightarrow> string \<Rightarrow> string \<Rightarrow> user_table \<Rightarrow> user_table \<times> 'tok login_result res" where
  "login_directory e now username password t =
     (case ae_directory e of
        None \<Rightarrow> (t, fail CodeUnauthorized ''invalid username or password'')
      | Some d \<Rightarrow>
          (case dir_authenticate d now username password t of
             (t', Inl err) \<Rightarrow> (t', Inl err)
           | (t', Inr u) \<Rightarrow>
               if u_totp_enabled u then (t', Inr (TwoFARequired (generate_temp_token (ae_jwt e) now (u_id u))))
               else (t', Inr (FullTokens (build_login_response e now u)))))"

definition refresh_token ::
  "'tok auth_env \<Rightarrow> faults \<Rightarrow> gotime \<Rightarrow> 'tok \<Rightarrow> user_table \<Rightarrow> user_table \<times> 'tok login_response res" where
  "refresh_token e fl now rt t =
     (case parse_refresh_token (ae_jwt e) now rt of
        None \<Rightarrow> (t, fail CodeTokenExpired ''invalid or expired refresh token'')
      | Some (uid, tv) \<Rightarrow>
          (case user_get_by_id fl uid t of
             Inl _ \<Rightarrow> (t, fail CodeUnauthorized ''user not found'')
           | Inr u \<Rightarrow>
               if \<not> u_is_active u then (t, fail CodeForbidden ''account is disabled'')
               else
                 (case (case (if u_auth_provider u = ''directory'' then ae_directory e else None) of
                          None \<Rightarrow> (t, Inr u)
                        | Some d \<Rightarrow> dir_refresh_user d now u t) of
                    (t', Inl _) \<Rightarrow> (t', fail CodeTokenExpired ''directory session must be renewed'')
                  | (t', Inr u') \<Rightarrow>
                      if tv \<noteq> u_token_version u' then (t', fail CodeTokenExpired ''token has been revoked'')
                      else (t', Inr (build_login_response e now u')))))"

definition issue_login_for_user ::
  "'tok auth_env \<Rightarrow> faults \<Rightarrow> gotime \<Rightarrow> nat \<Rightarrow> user_table \<Rightarrow> (user_table \<times> 'tok login_response) res" where
  "issue_login_for_user e fl now uid t =
     (case user_get_by_id fl uid t of
        Inl _ \<Rightarrow> fail CodeUnauthorized ''authentication failed''
      | Inr u \<Rightarrow>
          if \<not> u_is_active u then fail CodeForbidden ''account is disabled''
          else let u' = u\<lparr>u_last_login := Some now\<rparr>
            in Inr (save_quietly fl u' t, build_login_response e now u'))"

section \<open>The second factor\<close>

definition setup_2fa ::
  "'tok auth_env \<Rightarrow> faults \<Rightarrow> nat \<Rightarrow> user_table \<Rightarrow> (user_table \<times> setup_2fa_response) res" where
  "setup_2fa e fl uid t =
     (case user_get_by_id fl uid t of
        Inl _ \<Rightarrow> fail CodeNotFound ''user not found''
      | Inr u \<Rightarrow>
          if u_totp_enabled u then fail CodeConflict ''2FA is already enabled; disable it first''
          else (case ae_totp_generate e (u_username u) of
              None \<Rightarrow> fail CodeInternal ''failed to generate TOTP secret''
            | Some (secret, url) \<Rightarrow>
                (case generate_recovery_codes (ae_rand e) 0 8 of
                   None \<Rightarrow> fail CodeInternal ''failed to generate recovery codes''
                 | Some codes \<Rightarrow>
                     (case ae_encrypt e secret (ae_key e) of
                        None \<Rightarrow> fail CodeInternal ''failed to encrypt TOTP secret''
                      | Some encSecret \<Rightarrow>
                          (case ae_encrypt e (marshal_strings codes) (ae_key e) of
                             None \<Rightarrow> fail CodeInternal ''failed to encrypt recovery codes''
                           | Some encCodes \<Rightarrow>
                               (case user_update fl (u\<lparr>u_totp_secret_enc := encSecret, u_recovery_codes_enc := encCodes\<rparr>) t of
                                  Inl _ \<Rightarrow> fail CodeInternal ''failed to save TOTP setup''
                                | Inr t' \<Rightarrow> Inr (t', \<lparr>s2_secret = secret, s2_url = url, s2_codes = codes\<rparr>)))))))"

definition enable_2fa :: "'tok auth_env \<Rightarrow> faults \<Rightarrow> gotime \<Rightarrow> nat \<Rightarrow> string \<Rightarrow> user_table \<Rightarrow> user_table res" where
  "enable_2fa e fl now uid code t =
     (case user_get_by_id fl uid t of
        Inl _ \<Rightarrow> fail CodeNotFound ''user not found''
      | Inr u \<Rightarrow>
          if u_totp_enabled u then fail CodeConflict ''2FA is already enabled''
          else if u_totp_secret_enc u = [] then fail CodeParamInvalid ''run setup first before enabling 2FA''
          else (case ae_decrypt e (u_totp_secret_enc u) (ae_key e) of
              None \<Rightarrow> fail CodeInternal ''failed to decrypt TOTP secret''
            | Some secret \<Rightarrow>
                if \<not> ae_totp_valid e secret code now then fail Code2FAFailed ''invalid TOTP code''
                else (case user_update fl (u\<lparr>u_totp_enabled := True\<rparr>) t of
                    Inl _ \<Rightarrow> fail CodeInternal ''failed to enable 2FA''
                  | Inr t' \<Rightarrow> Inr t')))"

definition disable_2fa :: "'tok auth_env \<Rightarrow> faults \<Rightarrow> gotime \<Rightarrow> nat \<Rightarrow> string \<Rightarrow> user_table \<Rightarrow> user_table res" where
  "disable_2fa e fl now uid code t =
     (case user_get_by_id fl uid t of
        Inl _ \<Rightarrow> fail CodeNotFound ''user not found''
      | Inr u \<Rightarrow>
          if \<not> u_totp_enabled u then fail CodeConflict ''2FA is not enabled''
          else (case ae_decrypt e (u_totp_secret_enc u) (ae_key e) of
              None \<Rightarrow> fail CodeInternal ''failed to decrypt TOTP secret''
            | Some secret \<Rightarrow>
                if \<not> ae_totp_valid e secret code now then fail Code2FAFailed ''invalid TOTP code''
                else (case user_update fl (u\<lparr>u_totp_enabled := False, u_totp_secret_enc := [], u_recovery_codes_enc := []\<rparr>) t of
                    Inl _ \<Rightarrow> fail CodeInternal ''failed to disable 2FA''
                  | Inr t' \<Rightarrow> Inr t')))"

definition verify_2fa ::
  "'tok auth_env \<Rightarrow> faults \<Rightarrow> gotime \<Rightarrow> 'tok \<Rightarrow> string \<Rightarrow> user_table \<Rightarrow> 'tok login_response res" where
  "verify_2fa e fl now temp code t =
     (case parse_temp_token (ae_jwt e) now temp of
        None \<Rightarrow> fail CodeUnauthorized ''invalid or expired temp token''
      | Some uid \<Rightarrow>
          (case user_get_by_id fl uid t of
             Inl _ \<Rightarrow> fail CodeUnauthorized ''user not found''
           | Inr u \<Rightarrow>
               if \<not> u_is_active u then fail CodeForbidden ''account is disabled''
               else if \<not> u_totp_enabled u \<or> u_totp_secret_enc u = [] then
                 fail CodeParamInvalid ''2FA is not enabled for this user''
               else (case ae_decrypt e (u_totp_secret_enc u) (ae_key e) of
                   None \<Rightarrow> fail CodeInternal ''failed to decrypt TOTP secret''
                 | Some secret \<Rightarrow>
                     if \<not> ae_totp_valid e secret code now then fail Code2FAFailed ''invalid TOTP code''
                     else Inr (build_login_response e now u))))"

definition use_recovery_code ::
  "'tok auth_env \<Rightarrow> faults \<Rightarrow> gotime \<Rightarrow> 'tok \<Rightarrow> string \<Rightarrow> user_table \<Rightarrow> (user_table \<times> 'tok login_response) res" where
  "use_recovery_code e fl now temp code t =
     (case parse_temp_token (ae_jwt e) now temp of
        None \<Rightarrow> fail CodeUnauthorized ''invalid or expired temp token''
      | Some uid \<Rightarrow>
          (case user_get_by_id fl uid t of
             Inl _ \<Rightarrow> fail CodeUnauthorized ''user not found''
           | Inr u \<Rightarrow>
               if \<not> u_is_active u then fail CodeForbidden ''account is disabled''
               else if u_recovery_codes_enc u = [] then fail Code2FAFailed ''no recovery codes available''
               else (case ae_decrypt e (u_recovery_codes_enc u) (ae_key e) of
                   None \<Rightarrow> fail CodeInternal ''failed to decrypt recovery codes''
                 | Some codesJSON \<Rightarrow>
                     (case unmarshal_strings codesJSON of
                        None \<Rightarrow> fail CodeInternal ''failed to parse recovery codes''
                      | Some codes \<Rightarrow>
                          let provided = to_upper (trim_space code);
                              remaining = filter (\<lambda>c. c \<noteq> provided) codes in
                          if provided \<notin> set codes then fail Code2FAFailed ''invalid recovery code''
                          else
                            (case (if remaining = [] then Some [] else ae_encrypt e (marshal_strings remaining) (ae_key e)) of
                               None \<Rightarrow> fail CodeInternal ''failed to encrypt recovery codes''
                             | Some enc \<Rightarrow>
                                 let u' = u\<lparr>u_recovery_codes_enc := enc\<rparr> in
                                 (case user_update fl u' t of
                                    Inl _ \<Rightarrow> fail CodeInternal ''failed to update recovery codes''
                                  | Inr t' \<Rightarrow> Inr (t', build_login_response e now u')))))))"

section \<open>Reading back a saved row\<close>

lemma get_after_update:
  assumes "users_ok t" "user_get_by_id fl i t = Inr u" "user_update fl' u' t = Inr t'"
    "u_id u' = u_id u" "u_username u' = u_username u" "u_pk_handle u' = u_pk_handle u" "u_deleted u' = u_deleted u"
  shows "user_get_by_id fl2 i t' = (if fl2 DbGet then Inl db_error else Inr u')" and "users_ok t'"
proof -
  from user_get_by_id_Inr [OF assms(2)] have u: "u \<in> set (rows t)" "user_live u" "u_id u = i" by auto
  from users_ok_update [OF assms(1) u(1) assms(3-6)]
  have ok: "users_ok t'" and r: "rows t' = map (\<lambda>x. if u_id x = u_id u then u' else x) (rows t)" by auto
  show "users_ok t'" by (rule ok)
  have "u' \<in> set (rows t')" using u(1) by (force simp: r)
  then have "find (\<lambda>x. user_live x \<and> u_id x = i) (rows t') = Some u'"
    using ok u assms(4,7)
    by (intro find_unique [where key = u_id]) (auto simp: users_ok_def table_ok_def user_live_def)
  then show "user_get_by_id fl2 i t' = (if fl2 DbGet then Inl db_error else Inr u')"
    by (simp add: user_get_by_id_def first_where_def)
qed

section \<open>Login\<close>

text \<open>
  C2. A successful login names a live, active account whose password was checked; when the
  account has a second factor the only thing handed out is a token that no later time accepts
  as an access or refresh token, and otherwise a full session is issued.
\<close>

theorem login_requires_both_factors:
  assumes "signs_ok (ae_jwt e)" "login e fl now n pw t = Inr (t', r)"
  shows "\<exists>u \<in> set (rows t). user_live u \<and> u_username u = n \<and> u_is_active u \<and>
    ae_check_pw e pw (u_password_hash u) \<and>
    (case r of
       FullTokens lr \<Rightarrow> \<not> u_totp_enabled u \<and> ui_id (lr_user lr) = u_id u
     | TwoFARequired tok \<Rightarrow> u_totp_enabled u \<and>
         (\<forall>later. parse_token (ae_jwt e) later tok = None \<and> parse_refresh_token (ae_jwt e) later tok = None))"
proof -
  from assms(2) obtain u where u: "user_get_by_username fl n t = Inr u" "u_is_active u"
    "ae_check_pw e pw (u_password_hash u)"
    "r = (if u_totp_enabled u then TwoFARequired (generate_temp_token (ae_jwt e) now (u_id u))
          else FullTokens (build_login_response e now (u\<lparr>u_last_login := Some now\<rparr>)))"
    by (auto simp: login_def Let_def split: sum.splits if_splits)
  from u(1) have "u \<in> set (rows t)" "user_live u" "u_username u = n"
    by (auto simp: user_get_by_username_def dest: first_where_sat)
  with u token_kinds_temp [OF assms(1)] show ?thesis
    by (intro bexI [of _ u]) (auto simp: build_login_response_def)
qed

section \<open>Recovery codes\<close>

lemma recovery_chars_ok:
  "\<forall>c \<in> set (CHR ''-'' # recovery_code_chars). to_upper_char (to_lower_char c) = c \<and> \<not> is_space (to_lower_char c)"
  by (simp add: recovery_code_chars_def to_upper_char_def to_lower_char_def is_space_def char_of_def
      bit_iff_odd)

lemma length_recovery_code_chars: "length recovery_code_chars = 32"
  by code_simp

lemma draw_chars_props:
  "draw_chars rnd k n = Some s \<Longrightarrow> rand_ok rnd \<Longrightarrow> length s = n \<and> set s \<subseteq> set recovery_code_chars"
  by (induction n arbitrary: k s) (fastforce simp: rand_ok_def split: option.splits)+

lemma dropWhile_spaces: "(\<forall>c \<in> set p. is_space c) \<Longrightarrow> s \<noteq> [] \<Longrightarrow> \<not> is_space (hd s) \<Longrightarrow> dropWhile is_space (p @ s) = s"
  by (induction p) (auto simp: neq_Nil_conv)

lemma trim_space_pad:
  assumes "\<forall>c \<in> set p. is_space c" "\<forall>c \<in> set q. is_space c" "\<forall>c \<in> set s. \<not> is_space c" "s \<noteq> []"
  shows "trim_space (p @ s @ q) = s"
proof -
  have "dropWhile is_space (p @ s @ q) = s @ q"
    using assms by (intro dropWhile_spaces) (auto simp: neq_Nil_conv)
  moreover have "dropWhile is_space (rev q @ rev s) = rev s"
    using assms by (intro dropWhile_spaces) (auto simp: hd_rev)
  ultimately show ?thesis by (simp add: trim_space_def)
qed



definition crypt_ok :: "'tok auth_env \<Rightarrow> bool" where
  "crypt_ok e \<longleftrightarrow> (\<forall>x k y. ae_encrypt e x k = Some y \<longrightarrow> ae_decrypt e y k = Some x)"

lemma use_recovery_code_Inr:
  assumes "use_recovery_code e fl now temp code t = Inr (t', lr)"
  obtains uid u js codes enc where "parse_temp_token (ae_jwt e) now temp = Some uid"
    "user_get_by_id fl uid t = Inr u" "u_recovery_codes_enc u \<noteq> []"
    "ae_decrypt e (u_recovery_codes_enc u) (ae_key e) = Some js" "unmarshal_strings js = Some codes"
    "to_upper (trim_space code) \<in> set codes"
    "(let rest = filter (\<lambda>c. c \<noteq> to_upper (trim_space code)) codes in
      if rest = [] then enc = [] else ae_encrypt e (marshal_strings rest) (ae_key e) = Some enc)"
    "user_update fl (u\<lparr>u_recovery_codes_enc := enc\<rparr>) t = Inr t'"
  using assms
  by (auto simp: use_recovery_code_def Let_def split: option.splits sum.splits if_splits)


section \<open>The state of the second factor\<close>

definition totp_ok :: "user_table \<Rightarrow> bool" where
  "totp_ok t \<longleftrightarrow> (\<forall>u \<in> set (rows t). u_totp_enabled u \<longrightarrow> u_totp_secret_enc u \<noteq> [])"

lemma totp_ok_update:
  assumes "user_update fl u' t = Inr t'" "totp_ok t" "u_totp_enabled u' \<longrightarrow> u_totp_secret_enc u' \<noteq> []"
  shows "totp_ok t'"
  using assms by (auto simp: totp_ok_def user_update_def save_row_def split: if_splits)

lemma totp_ok_quiet:
  "totp_ok t \<Longrightarrow> u_totp_enabled u' \<longrightarrow> u_totp_secret_enc u' \<noteq> [] \<Longrightarrow> totp_ok (save_quietly fl u' t)"
  by (auto simp: save_quietly_def split: sum.splits intro: totp_ok_update)

lemma totp_ok_row: "totp_ok t \<Longrightarrow> user_get_by_id fl i t = Inr u \<Longrightarrow> u_totp_enabled u \<longrightarrow> u_totp_secret_enc u \<noteq> []"
  by (auto simp: totp_ok_def dest!: user_get_by_id_Inr)

text \<open>
  No account ever has the second factor switched on without a stored secret: setting it up,
  switching it on or off, logging in and redeeming a recovery code all keep that. So the check
  for a missing secret in \<open>Verify2FA\<close> never fires on an account with the factor on.
\<close>

theorem second_factor_has_secret:
  assumes "totp_ok t"
  shows "(setup_2fa e fl i t = Inr (t1, s) \<longrightarrow> totp_ok t1) \<and>
    (enable_2fa e fl now i code t = Inr t2 \<longrightarrow> totp_ok t2) \<and>
    (disable_2fa e fl now i code t = Inr t3 \<longrightarrow> totp_ok t3) \<and>
    (login e fl now n pw t = Inr (t4, r4) \<longrightarrow> totp_ok t4) \<and>
    (use_recovery_code e fl now temp code t = Inr (t5, lr) \<longrightarrow> totp_ok t5)"
proof (intro conjI impI)
  show "totp_ok t1" if "setup_2fa e fl i t = Inr (t1, s)"
    using that assms
    by (auto simp: setup_2fa_def split: sum.splits option.splits prod.splits if_splits intro: totp_ok_update)
  show "totp_ok t2" if "enable_2fa e fl now i code t = Inr t2"
    using that assms by (auto simp: enable_2fa_def split: sum.splits option.splits if_splits intro: totp_ok_update)
  show "totp_ok t3" if "disable_2fa e fl now i code t = Inr t3"
    using that assms by (auto simp: disable_2fa_def split: sum.splits option.splits if_splits intro: totp_ok_update)
  show "totp_ok t4" if "login e fl now n pw t = Inr (t4, r4)"
  proof -
    from that obtain u where u: "user_get_by_username fl n t = Inr u" "t4 = save_quietly fl (u\<lparr>u_last_login := Some now\<rparr>) t"
      by (auto simp: login_def Let_def split: sum.splits if_splits)
    from u(1) have "u \<in> set (rows t)" by (auto simp: user_get_by_username_def dest: first_where_sat)
    then have "u_totp_enabled u \<longrightarrow> u_totp_secret_enc u \<noteq> []" using assms by (auto simp: totp_ok_def)
    then show ?thesis using assms by (simp add: u(2) totp_ok_quiet)
  qed
  show "totp_ok t5" if "use_recovery_code e fl now temp code t = Inr (t5, lr)"
    using that
    by (rule use_recovery_code_Inr) (use totp_ok_update [OF _ assms] totp_ok_row [OF assms] in force)
qed

section \<open>A concrete environment\<close>

definition demo_env :: "payload auth_env" where
  "demo_env =
     \<lparr>ae_jwt = demo_manager, ae_key = ''k'', ae_check_pw = (\<lambda>p h. h = ''h:'' @ p),
      ae_encrypt = (\<lambda>x _. Some (CHR ''E'' # x)), ae_decrypt = (\<lambda>y _. Some (drop 1 y)),
      ae_totp_valid = (\<lambda>s c _. c = s), ae_totp_generate = (\<lambda>n. Some (''123456'', n)),
      ae_rand = (\<lambda>k. Some (k mod 32)), ae_directory = None\<rparr>"

definition demo_member :: user where
  "demo_member = (new_user ''bob'' ''h:pw1234'' ''viewer'')
     \<lparr>u_id := 3, u_totp_enabled := True, u_totp_secret_enc := ''E123456'',
      u_recovery_codes_enc := CHR ''E'' # marshal_strings [''ABCD-EFGH'', ''JKLM-NPQR'']\<rparr>"

definition demo_accounts :: user_table where
  "demo_accounts = \<lparr>rows = [demo_member], seq = 3\<rparr>"

lemma demo_env_simps [simp]:
  "ae_jwt demo_env = demo_manager" "crypt_ok demo_env" "ae_decrypt demo_env y k = Some (drop 1 y)"
  "ae_encrypt demo_env x k = Some (CHR ''E'' # x)" "ae_check_pw demo_env p h \<longleftrightarrow> h = ''h:'' @ p"
  by (simp_all add: demo_env_def crypt_ok_def)

lemma demo_member_simps:
  "u_is_active demo_member" "u_totp_enabled demo_member" "u_totp_secret_enc demo_member = ''E123456''"
  "u_recovery_codes_enc demo_member = CHR ''E'' # marshal_strings [''ABCD-EFGH'', ''JKLM-NPQR'']"
  "ae_totp_valid demo_env s c n \<longleftrightarrow> c = s"
  by (simp_all add: demo_member_def new_user_def demo_env_def)

lemma demo_accounts_ok: "users_ok demo_accounts" "totp_ok demo_accounts"
  by (simp_all add: users_ok_def table_ok_def totp_ok_def demo_accounts_def demo_member_def new_user_def)

lemma demo_get: "user_get_by_id no_faults 3 demo_accounts = Inr demo_member"
  by (simp add: user_get_by_id_def first_where_def demo_accounts_def demo_member_def new_user_def user_live_def)

theorem login_requires_both_factors_witness:
  "\<exists>t' r. login demo_env no_faults 0 ''bob'' ''pw1234'' demo_accounts = Inr (t', r) \<and>
     (case r of FullTokens _ \<Rightarrow> False | TwoFARequired tok \<Rightarrow> parse_token demo_manager 5 tok = None)"
proof -
  obtain t' r where l: "login demo_env no_faults 0 ''bob'' ''pw1234'' demo_accounts = Inr (t', r)"
    by (simp add: login_def user_get_by_username_def first_where_def demo_accounts_def demo_member_def
        new_user_def user_live_def Let_def)
  have sg: "signs_ok (ae_jwt demo_env)" by (simp add: demo_manager_signs)
  from login_requires_both_factors [OF sg l] l show ?thesis
    by (auto simp: demo_accounts_def demo_member_def split: login_result.splits)
qed


theorem second_factor_has_secret_witness:
  "\<exists>t. disable_2fa demo_env no_faults 0 3 ''123456'' demo_accounts = Inr t \<and> totp_ok t"
proof -
  let ?m = "demo_member\<lparr>u_totp_enabled := False, u_totp_secret_enc := [], u_recovery_codes_enc := []\<rparr>"
  obtain t2 where up: "user_update no_faults ?m demo_accounts = Inr t2"
    by (simp add: user_update_def save_row_def demo_accounts_def)
  have d: "disable_2fa demo_env no_faults 0 3 ''123456'' demo_accounts = Inr t2"
    by (simp add: disable_2fa_def demo_get demo_member_simps up)
  moreover have "totp_ok t2"
    by (rule second_factor_has_secret [OF demo_accounts_ok(2), THEN conjunct2, THEN conjunct2,
          THEN conjunct1, THEN mp, OF d])
  ultimately show ?thesis by blast
qed

end
