(* ===== verification/Rbac.thy ===== *)
theory Rbac
  imports Sql_Table Json_Values
begin

text \<open>
  Role-based access control: the role table and its seeding (\<open>model.Role\<close>,
  \<open>repository/role_repo.go\<close>, \<open>initSystemRoles\<close> of \<open>repository/db.go\<close>), the HTTP middleware
  (\<open>middleware/rbac.go\<close>) and the WebSocket check (\<open>handler/ws/pod_helpers.go\<close>). The wildcard
  matching of permissions, which the program implements three times, is the interface
  \<open>perm_matcher\<close>, interpreted on each of them (the third in \<open>Ai_Authz\<close>).
\<close>

section \<open>Roles\<close>

record role =
  role_id :: nat
  role_created :: gotime
  role_updated :: gotime
  role_name :: string
  role_display :: string
  role_system :: bool
  role_permissions :: string

type_synonym role_table = "role table"

definition role_clash :: "role \<Rightarrow> role \<Rightarrow> bool" where
  "role_clash r r' \<longleftrightarrow> role_name r = role_name r'"

definition role_create :: "faults \<Rightarrow> role \<Rightarrow> role_table \<Rightarrow> (role_table \<times> role) res" where
  "role_create fl r t = create_row fl role_clash (\<lambda>i x. x\<lparr>role_id := i\<rparr>) r t"

definition role_get_by_id :: "faults \<Rightarrow> nat \<Rightarrow> role_table \<Rightarrow> role res" where
  "role_get_by_id fl i t = first_where fl (\<lambda>r. role_id r = i) t"

definition role_get_by_name :: "faults \<Rightarrow> string \<Rightarrow> role_table \<Rightarrow> role res" where
  "role_get_by_name fl n t = first_where fl (\<lambda>r. role_name r = n) t"

definition role_update :: "faults \<Rightarrow> role \<Rightarrow> role_table \<Rightarrow> role_table res" where
  "role_update fl r t = save_row fl role_id r t"

definition role_delete :: "faults \<Rightarrow> nat \<Rightarrow> role_table \<Rightarrow> role_table res" where
  "role_delete fl i t = delete_where fl (\<lambda>r. role_id r = i) t"

definition role_list :: "faults \<Rightarrow> role_table \<Rightarrow> role list res" where
  "role_list fl t = find_where fl (\<lambda>_. True) t"

section \<open>Seeding the system roles\<close>

definition seed_role :: "string \<Rightarrow> string \<Rightarrow> bool \<Rightarrow> string list \<Rightarrow> role" where
  "seed_role n d sys ps = \<lparr>role_id = 0, role_created = 0, role_updated = 0, role_name = n, role_display = d,
     role_system = sys, role_permissions = marshal_strings ps\<rparr>"

definition editor_perms :: "string list" where
  "editor_perms =
     [''clusters:get'', ''clusters:list'', ''resources:get'', ''resources:list'', ''resources:create'',
      ''resources:update'', ''resources:delete'', ''favorites:get'', ''favorites:list'', ''favorites:create'',
      ''favorites:delete'', ''search:list'', ''topology:list'', ''compare:create'', ''quota-summary:list'',
      ''scale:update'', ''restart:create'', ''history:list'', ''rollback:create'', ''batch-delete:create'',
      ''batch-restart:create'', ''pods:exec'', ''pods:list'', ''overview:list'', ''registry-tags:list'',
      ''package-releases:read'', ''package-releases:install'', ''package-releases:upgrade'',
      ''package-releases:rollback'', ''package-releases:remove'']"

definition viewer_perms :: "string list" where
  "viewer_perms =
     [''clusters:get'', ''clusters:list'', ''resources:get'', ''resources:list'', ''favorites:get'',
      ''favorites:list'', ''favorites:create'', ''favorites:delete'', ''search:list'', ''topology:list'',
      ''compare:create'', ''quota-summary:list'', ''history:list'', ''pods:list'', ''overview:list'',
      ''registry-tags:list'', ''package-releases:read'']"

definition custom_perms :: "string list" where
  "custom_perms = [''clusters:get'', ''clusters:list'', ''resources:get'', ''resources:list'']"

definition system_roles :: "role list" where
  "system_roles =
     [seed_role ''super-admin'' ''Super Administrator'' True [''*:*''],
      seed_role ''admin'' ''Administrator'' True [''*:*''],
      seed_role ''editor'' ''Editor'' True editor_perms,
      seed_role ''viewer'' ''Viewer'' True viewer_perms,
      seed_role ''custom'' ''Custom'' False custom_perms]"

text \<open>One pass of the loop: create a missing role, rewrite the permissions and display name of an existing one.\<close>

definition seed_one :: "faults \<Rightarrow> role_table \<Rightarrow> role \<Rightarrow> role_table" where
  "seed_one fl t r =
     (case role_get_by_name fl (role_name r) t of
        Inl _ \<Rightarrow> (case role_create fl r t of Inl _ \<Rightarrow> t | Inr (t', _) \<Rightarrow> t')
      | Inr ex \<Rightarrow>
          (case role_update fl (ex\<lparr>role_permissions := role_permissions r, role_display := role_display r\<rparr>) t of
             Inl _ \<Rightarrow> t | Inr t' \<Rightarrow> t'))"

definition init_system_roles :: "(string \<Rightarrow> faults) \<Rightarrow> role_table \<Rightarrow> role_table" where
  "init_system_roles fl t = fold (\<lambda>r t'. seed_one (fl (role_name r)) t' r) system_roles t"

section \<open>Matching permissions\<close>

text \<open>\<open>middleware.hasPermission\<close>; \<open>SplitN(perm, ":", 2)\<close> has two parts exactly when \<open>cut\<close> finds the colon.\<close>

fun has_permission :: "string list \<Rightarrow> string \<Rightarrow> string \<Rightarrow> bool" where
  "has_permission [] rsrc act = False"
| "has_permission (perm # perms) rsrc act =
     (case cut (CHR '':'') perm of
        None \<Rightarrow> has_permission perms rsrc act
      | Some (r, a) \<Rightarrow>
          (if (r = ''*'' \<or> equal_fold r rsrc) \<and> (a = ''*'' \<or> equal_fold a act) then True
           else has_permission perms rsrc act))"

definition perm_grants :: "string \<Rightarrow> string \<Rightarrow> string \<Rightarrow> bool" where
  "perm_grants perm rsrc act \<longleftrightarrow>
     (\<exists>r a. cut (CHR '':'') perm = Some (r, a) \<and>
        (r = ''*'' \<or> equal_fold r rsrc) \<and> (a = ''*'' \<or> equal_fold a act))"

lemma perm_grants_pair:
  "CHR '':'' \<notin> set x \<Longrightarrow> perm_grants (x @ CHR '':'' # y) r a \<longleftrightarrow>
     (x = ''*'' \<or> equal_fold x r) \<and> (y = ''*'' \<or> equal_fold y a)"
  by (auto simp: perm_grants_def)

lemma perm_grants_super: "perm_grants ''*:*'' r a"
  using perm_grants_pair [of "''*''" "''*''" r a] by simp

locale perm_matcher =
  fixes m :: "string list \<Rightarrow> string \<Rightarrow> string \<Rightarrow> bool"
  assumes matches: "m ps r a \<longleftrightarrow> (\<exists>p \<in> set ps. perm_grants p r a)"
begin

lemma deny_empty: "\<not> m [] r a"
  by (simp add: matches)

lemma monotone: "set ps \<subseteq> set qs \<Longrightarrow> m ps r a \<Longrightarrow> m qs r a"
  by (auto simp: matches)

lemma superuser: "''*:*'' \<in> set ps \<Longrightarrow> m ps r a"
  using perm_grants_super by (auto simp: matches)

lemma append: "m (ps @ qs) r a \<longleftrightarrow> m ps r a \<or> m qs r a"
  by (auto simp: matches)

lemma case_insensitive: "equal_fold r r' \<Longrightarrow> equal_fold a a' \<Longrightarrow> m ps r a = m ps r' a'"
  by (auto simp: matches perm_grants_def equal_fold_def)

lemma granted: "CHR '':'' \<notin> set x \<Longrightarrow> (x @ CHR '':'' # y) \<in> set ps \<Longrightarrow>
    x = ''*'' \<or> equal_fold x r \<Longrightarrow> y = ''*'' \<or> equal_fold y a \<Longrightarrow> m ps r a"
  unfolding matches by (rule bexI [of _ "x @ CHR '':'' # y"]) (simp_all add: perm_grants_pair)

lemma exact: "CHR '':'' \<notin> set r \<Longrightarrow> (r @ CHR '':'' # a) \<in> set ps \<Longrightarrow> m ps r a"
  by (rule granted) auto

end

lemma has_permission_iff: "has_permission ps r a \<longleftrightarrow> (\<exists>p \<in> set ps. perm_grants p r a)"
  by (induction ps) (auto simp: perm_grants_def split: option.splits)

interpretation http: perm_matcher has_permission
  by unfold_locales (rule has_permission_iff)

section \<open>The HTTP middleware\<close>

definition is_param :: "string \<Rightarrow> bool" where
  "is_param seg \<longleftrightarrow> has_prefix seg '':''"

text \<open>\<open>extractResource\<close>: the last segment after \<open>/api/v1/\<close> that is not empty and not a parameter.\<close>

fun last_resource :: "string \<Rightarrow> string list \<Rightarrow> string" where
  "last_resource lst [] = lst"
| "last_resource lst (seg # segs) =
     (if seg = [] \<or> is_param seg then last_resource lst segs else last_resource seg segs)"

definition extract_resource :: "string \<Rightarrow> string" where
  "extract_resource fullPath =
     (let path = trim_prefix fullPath ''/api/v1/'' in
      if path = [] \<or> path = fullPath then [] else last_resource [] (split_on (CHR ''/'') path))"

definition extract_action :: "string \<Rightarrow> string \<Rightarrow> string" where
  "extract_action meth fullPath =
     (if has_suffix fullPath ''/exec'' then ''exec''
      else if has_suffix fullPath ''/logs'' then ''logs''
      else if to_upper meth = ''GET'' then
        (if is_param (last (split_on (CHR ''/'') (trim_suffix fullPath ''/''))) then ''get'' else ''list'')
      else if to_upper meth = ''POST'' then ''create''
      else if to_upper meth = ''PUT'' then ''update''
      else if to_upper meth = ''PATCH'' then ''update''
      else if to_upper meth = ''DELETE'' then ''delete''
      else ''get'')"

text \<open>What a middleware does: hand the request on, or answer it with a business code.\<close>

datatype mw_result = Next | Abort int string

definition is_admin_role :: "string \<Rightarrow> bool" where
  "is_admin_role r \<longleftrightarrow> r = ''super-admin'' \<or> r = ''admin''"

definition rbac_middleware :: "faults \<Rightarrow> role_table \<Rightarrow> string \<Rightarrow> string \<Rightarrow> string \<Rightarrow> mw_result" where
  "rbac_middleware fl roles rl meth fullPath =
     (if rl = ''super-admin'' \<or> rl = ''admin'' then Next
      else let rsrc = extract_resource fullPath; act = extract_action meth fullPath in
        if rsrc = [] then Next
        else case role_get_by_name fl rl roles of
            Inl _ \<Rightarrow> Abort CodeForbidden ''role not found or permission denied''
          | Inr rec \<Rightarrow>
              (case unmarshal_strings (role_permissions rec) of
                 None \<Rightarrow> Abort CodeInternal ''failed to parse role permissions''
               | Some perms \<Rightarrow>
                   if has_permission perms rsrc act then Next else Abort CodeForbidden ''permission denied''))"

definition role_has_permission :: "faults \<Rightarrow> role_table \<Rightarrow> string \<Rightarrow> string \<Rightarrow> string \<Rightarrow> bool" where
  "role_has_permission fl roles rl rsrc act =
     (if rl = ''super-admin'' \<or> rl = ''admin'' then True
      else case role_get_by_name fl rl roles of
          Inl _ \<Rightarrow> False
        | Inr rec \<Rightarrow>
            (case unmarshal_strings (role_permissions rec) of
               None \<Rightarrow> False
             | Some perms \<Rightarrow> has_permission perms rsrc act))"

section \<open>The WebSocket check\<close>

fun ws_grants :: "string list \<Rightarrow> string \<Rightarrow> string \<Rightarrow> bool" where
  "ws_grants [] rsrc act = False"
| "ws_grants (perm # perms) rsrc act =
     (case cut (CHR '':'') perm of
        None \<Rightarrow> ws_grants perms rsrc act
      | Some (r, a) \<Rightarrow>
          (if (r = ''*'' \<or> equal_fold r rsrc) \<and> (a = ''*'' \<or> equal_fold a act) then True
           else ws_grants perms rsrc act))"

lemma ws_grants_iff: "ws_grants ps r a \<longleftrightarrow> (\<exists>p \<in> set ps. perm_grants p r a)"
  by (induction ps) (auto simp: perm_grants_def split: option.splits)

interpretation ws: perm_matcher ws_grants
  by unfold_locales (rule ws_grants_iff)

definition errPermissionDenied :: go_error where
  "errPermissionDenied = OtherErr ''permission denied'' False"

definition check_ws_permission :: "faults \<Rightarrow> role_table \<Rightarrow> string \<Rightarrow> string \<Rightarrow> string \<Rightarrow> go_error option" where
  "check_ws_permission fl roles rl rsrc act =
     (if rl = ''super-admin'' \<or> rl = ''admin'' then None
      else case role_get_by_name fl rl roles of
          Inl _ \<Rightarrow> Some errPermissionDenied
        | Inr rec \<Rightarrow>
            if role_permissions rec = [] then Some errPermissionDenied
            else (case unmarshal_strings (role_permissions rec) of
                    None \<Rightarrow> Some errPermissionDenied
                  | Some perms \<Rightarrow> if ws_grants perms rsrc act then None else Some errPermissionDenied))"

end
