(* ===== verification/Auth_Gate.thy ===== *)
theory Auth_Gate
  imports Auth_Service Rbac
begin

text \<open>
  Who a request is from: API keys (\<open>repository/apikey_repo.go\<close>, \<open>service/apikey_service.go\<close>), the
  authentication middleware (\<open>middleware/auth.go\<close>) and the WebSocket ticket handler
  (\<open>handler/ws/ticket.go\<close>). SHA-256 and the random bytes are parameters.
\<close>

section \<open>API keys\<close>

record api_key =
  ak_id :: nat
  ak_created :: gotime
  ak_user :: nat
  ak_name :: string
  ak_hash :: string
  ak_prefix :: string
  ak_expires :: "gotime option"

type_synonym key_table = "api_key table"

definition key_clash :: "api_key \<Rightarrow> api_key \<Rightarrow> bool" where
  "key_clash k k' \<longleftrightarrow> ak_hash k = ak_hash k'"

definition key_create :: "faults \<Rightarrow> api_key \<Rightarrow> key_table \<Rightarrow> (key_table \<times> api_key) res" where
  "key_create fl k t = create_row fl key_clash (\<lambda>i x. x\<lparr>ak_id := i\<rparr>) k t"

definition key_get_by_hash :: "faults \<Rightarrow> string \<Rightarrow> key_table \<Rightarrow> api_key res" where
  "key_get_by_hash fl h t = first_where fl (\<lambda>k. ak_hash k = h) t"

definition key_list_by_user :: "faults \<Rightarrow> nat \<Rightarrow> key_table \<Rightarrow> api_key list res" where
  "key_list_by_user fl uid t =
     (case find_where fl (\<lambda>k. ak_user k = uid) t of Inl e \<Rightarrow> Inl e | Inr ks \<Rightarrow> Inr (sort_key (\<lambda>k. - ak_created k) ks))"

definition key_delete :: "faults \<Rightarrow> nat \<Rightarrow> key_table \<Rightarrow> key_table res" where
  "key_delete fl i t = delete_where fl (\<lambda>k. ak_id k = i) t"

definition api_key_prefix :: string where "api_key_prefix = ''kv_''"

definition hex_encode :: "string \<Rightarrow> string" where
  "hex_encode bs = concat (map (\<lambda>b. [hex_digit (of_char b div 16), hex_digit (of_char b mod 16)]) bs)"

definition hash_api_key :: "(string \<Rightarrow> string) \<Rightarrow> string \<Rightarrow> string" where
  "hash_api_key sha key = hex_encode (sha key)"

record generate_key_response =
  gk_id :: nat
  gk_name :: string
  gk_prefix :: string
  gk_plain :: string
  gk_expires :: "gotime option"
  gk_created :: gotime

text \<open>\<open>raw\<close> is the answer of \<open>rand.Read\<close> on 32 bytes.\<close>

definition apikey_generate ::
  "(string \<Rightarrow> string) \<Rightarrow> faults \<Rightarrow> faults \<Rightarrow> gotime \<Rightarrow> string option \<Rightarrow> nat \<Rightarrow> string \<Rightarrow> gotime option \<Rightarrow> user_table \<Rightarrow> key_table \<Rightarrow> (key_table \<times> generate_key_response) res" where
  "apikey_generate sha ufl kfl now raw uid name expires users t =
     (case user_get_by_id ufl uid users of
        Inl _ \<Rightarrow> fail CodeNotFound ''user not found''
      | Inr _ \<Rightarrow>
          (case raw of
             None \<Rightarrow> fail CodeInternal ''failed to generate key material''
           | Some bs \<Rightarrow>
               let plain = api_key_prefix @ hex_encode bs;
                   rec = \<lparr>ak_id = 0, ak_created = now, ak_user = uid, ak_name = name, ak_hash = hash_api_key sha plain,
                          ak_prefix = take (min 10 (length plain)) plain, ak_expires = expires\<rparr> in
               (case key_create kfl rec t of
                  Inl e \<Rightarrow> fail CodeInternal (''failed to store API key: '' @ error_string e)
                | Inr (t', r) \<Rightarrow>
                    Inr (t', \<lparr>gk_id = ak_id r, gk_name = ak_name r, gk_prefix = ak_prefix r, gk_plain = plain,
                              gk_expires = ak_expires r, gk_created = ak_created r\<rparr>))))"

definition apikey_validate :: "(string \<Rightarrow> string) \<Rightarrow> faults \<Rightarrow> gotime \<Rightarrow> string \<Rightarrow> key_table \<Rightarrow> api_key res" where
  "apikey_validate sha fl now plain t =
     (case key_get_by_hash fl (hash_api_key sha plain) t of
        Inl _ \<Rightarrow> fail CodeUnauthorized ''invalid API key''
      | Inr r \<Rightarrow>
          if (case ak_expires r of Some x \<Rightarrow> after now x | None \<Rightarrow> False)
          then fail CodeTokenExpired ''API key has expired'' else Inr r)"

text \<open>\<open>APIKeyInfo\<close> is the row without its hash.\<close>

record api_key_info =
  ki_id :: nat
  ki_name :: string
  ki_prefix :: string
  ki_expires :: "gotime option"
  ki_created :: gotime

definition apikey_list_by_user :: "faults \<Rightarrow> nat \<Rightarrow> key_table \<Rightarrow> api_key_info list res" where
  "apikey_list_by_user fl uid t =
     (case key_list_by_user fl uid t of
        Inl _ \<Rightarrow> fail CodeInternal ''failed to list API keys''
      | Inr ks \<Rightarrow> Inr (map (\<lambda>k. \<lparr>ki_id = ak_id k, ki_name = ak_name k, ki_prefix = ak_prefix k,
                               ki_expires = ak_expires k, ki_created = ak_created k\<rparr>) ks))"

definition apikey_revoke :: "faults \<Rightarrow> nat \<Rightarrow> nat \<Rightarrow> key_table \<Rightarrow> key_table res" where
  "apikey_revoke fl kid uid t =
     (case key_list_by_user fl uid t of
        Inl _ \<Rightarrow> fail CodeInternal ''failed to verify key ownership''
      | Inr ks \<Rightarrow>
          if \<not> list_ex (\<lambda>k. ak_id k = kid) ks then fail CodeNotFound ''API key not found or not owned by user''
          else (case key_delete fl kid t of
              Inl _ \<Rightarrow> fail CodeInternal ''failed to delete API key''
            | Inr t' \<Rightarrow> Inr t'))"

section \<open>The authentication middleware\<close>

datatype auth_result =
    Authenticated (auth_uid: nat) (auth_username: string) (auth_role: string)
  | Rejected (auth_code: int) (auth_message: string)

text \<open>
  The API-key service may be absent (\<open>nil\<close>): then \<open>keys\<close> is \<open>None\<close>. Headers are the empty string
  when they are missing. Token strings are \<open>string\<close> here.
\<close>

definition auth_middleware ::
  "string jwt_manager \<Rightarrow> (string \<Rightarrow> string) \<Rightarrow> faults \<Rightarrow> faults \<Rightarrow> gotime \<Rightarrow> key_table option \<Rightarrow> user_table \<Rightarrow> string \<Rightarrow> string \<Rightarrow> auth_result" where
  "auth_middleware jm sha ufl kfl now keys users api_header auth_header =
     (if api_header \<noteq> [] then
        (case keys of
           None \<Rightarrow> Rejected CodeUnauthorized ''API key authentication not configured''
         | Some kt \<Rightarrow>
             (case apikey_validate sha kfl now api_header kt of
                Inl (BizErr c m) \<Rightarrow> Rejected c m
              | Inl (OtherErr _ _) \<Rightarrow> Rejected CodeUnauthorized ''invalid API key''
              | Inr rec \<Rightarrow>
                  (case user_get_by_id ufl (ak_user rec) users of
                     Inl _ \<Rightarrow> Rejected CodeUnauthorized ''user not found''
                   | Inr u \<Rightarrow>
                       if \<not> u_is_active u then Rejected CodeForbidden ''account is disabled''
                       else Authenticated (u_id u) (u_username u) (u_role u))))
      else if auth_header = [] then Rejected CodeUnauthorized ''missing authorization header''
      else (case cut (CHR '' '') auth_header of
          None \<Rightarrow> Rejected CodeUnauthorized ''invalid authorization header format''
        | Some (scheme, tok) \<Rightarrow>
            if \<not> equal_fold scheme ''Bearer'' then Rejected CodeUnauthorized ''invalid authorization header format''
            else if tok = [] then Rejected CodeUnauthorized ''empty token''
            else (case parse_token jm now tok of
                None \<Rightarrow> Rejected CodeTokenExpired ''invalid or expired token''
              | Some claims \<Rightarrow>
                  (case user_get_by_id ufl (tc_uid claims) users of
                     Inl _ \<Rightarrow> Rejected CodeUnauthorized ''user not found''
                   | Inr u \<Rightarrow>
                       if \<not> u_is_active u then Rejected CodeForbidden ''account is disabled''
                       else if tc_tv claims \<noteq> u_token_version u then
                         Rejected CodeTokenExpired ''token has been revoked''
                       else Authenticated (tc_uid claims) (tc_username claims) (u_role u)))))"

definition require_configured_auth :: auth_result where
  "require_configured_auth = Rejected CodeUnauthorized ''authentication is not configured''"

text \<open>\<open>GetUserID\<close>, \<open>GetUsername\<close>, \<open>GetUserRole\<close>: zero values when nothing was injected.\<close>

definition ctx_user_id :: "auth_result \<Rightarrow> nat" where
  "ctx_user_id r = (case r of Authenticated i _ _ \<Rightarrow> i | Rejected _ _ \<Rightarrow> 0)"

definition ctx_username :: "auth_result \<Rightarrow> string" where
  "ctx_username r = (case r of Authenticated _ n _ \<Rightarrow> n | Rejected _ _ \<Rightarrow> [])"

definition ctx_user_role :: "auth_result \<Rightarrow> string" where
  "ctx_user_role r = (case r of Authenticated _ _ rl \<Rightarrow> rl | Rejected _ _ \<Rightarrow> [])"

text \<open>\<open>TicketHandler.Create\<close>; the manager may be \<open>nil\<close>.\<close>

definition ticket_create :: "'tok jwt_manager option \<Rightarrow> gotime \<Rightarrow> nat \<Rightarrow> 'tok res" where
  "ticket_create jm now uid =
     (if uid = 0 then fail CodeUnauthorized ''unauthorized''
      else case jm of None \<Rightarrow> fail CodeUnauthorized ''unauthorized''
        | Some m \<Rightarrow> Inr (generate_web_socket_ticket m now uid))"

section \<open>Properties\<close>

lemma key_get_by_hash_Inr: "key_get_by_hash fl h t = Inr k \<Longrightarrow> k \<in> set (rows t) \<and> ak_hash k = h"
  by (auto simp: key_get_by_hash_def dest: first_where_sat)

definition keys_ok :: "key_table \<Rightarrow> bool" where
  "keys_ok t \<longleftrightarrow> table_ok ak_id t \<and> distinct (map ak_hash (rows t))"

lemma apikey_generate_Inr:
  assumes "apikey_generate sha ufl kfl now raw uid name expires users t = Inr (t', g)"
  obtains bs k where "raw = Some bs" "gk_plain g = api_key_prefix @ hex_encode bs" "gk_id g = ak_id k"
    "ak_hash k = hash_api_key sha (gk_plain g)" "ak_user k = uid" "ak_expires k = expires" "ak_id k = Suc (seq t)"
    "rows t' = rows t @ [k]" "\<forall>x \<in> set (rows t). ak_hash x \<noteq> ak_hash k"
proof -
  from assms obtain bs k where bs: "raw = Some bs" and
    c: "key_create kfl \<lparr>ak_id = 0, ak_created = now, ak_user = uid, ak_name = name,
          ak_hash = hash_api_key sha (api_key_prefix @ hex_encode bs),
          ak_prefix = take (min 10 (length (api_key_prefix @ hex_encode bs))) (api_key_prefix @ hex_encode bs),
          ak_expires = expires\<rparr> t = Inr (t', k)" and
    g: "gk_plain g = api_key_prefix @ hex_encode bs" "gk_id g = ak_id k"
    by (auto simp: apikey_generate_def Let_def split: sum.splits option.splits)
  from c have "ak_hash k = hash_api_key sha (gk_plain g)" "ak_user k = uid" "ak_expires k = expires"
    "ak_id k = Suc (seq t)" "rows t' = rows t @ [k]" "\<forall>x \<in> set (rows t). ak_hash x \<noteq> ak_hash k"
    by (auto simp: key_create_def create_row_Inr key_clash_def list_ex_iff g)
  from that [OF bs g this] show ?thesis .
qed

lemma find_append_fresh: "(\<forall>x \<in> set xs. \<not> p x) \<Longrightarrow> p k \<Longrightarrow> find p (xs @ [k]) = Some k"
  by (induction xs) auto

text \<open>
  Life of an API key. Right after it is generated the plain key validates to the row of its
  owner until its expiry and is refused after it; the table keeps only its hash and first ten
  characters. Revoking it as another user fails, revoking it as the owner makes it invalid.
\<close>

theorem api_key_lifecycle:
  assumes ok: "keys_ok t"
    and gen: "apikey_generate sha ufl kfl now raw uid name expires users t = Inr (t', g)"
    and clean: "\<not> fl DbGet" "\<not> fl DbList" "\<not> fl DbDelete"
  shows "(\<exists>k. ak_user k = uid \<and> ak_id k = gk_id g \<and>
      apikey_validate sha fl later (gk_plain g) t' =
        (case expires of Some x \<Rightarrow> if x < later then fail CodeTokenExpired ''API key has expired'' else Inr k
         | None \<Rightarrow> Inr k)) \<and>
    (other \<noteq> uid \<longrightarrow> fails_with CodeNotFound (apikey_revoke fl (gk_id g) other t')) \<and>
    (\<exists>t''. apikey_revoke fl (gk_id g) uid t' = Inr t'' \<and>
       apikey_validate sha fl' later (gk_plain g) t'' = fail CodeUnauthorized ''invalid API key'')"
  using gen
proof (rule apikey_generate_Inr)
  fix bs k
  assume k: "gk_id g = ak_id k" "ak_hash k = hash_api_key sha (gk_plain g)" "ak_user k = uid" "ak_expires k = expires"
    and kid: "ak_id k = Suc (seq t)" and r: "rows t' = rows t @ [k]" and fresh: "\<forall>x \<in> set (rows t). ak_hash x \<noteq> ak_hash k"
  have "find (\<lambda>x. ak_hash x = hash_api_key sha (gk_plain g)) (rows t') = Some k"
    using fresh unfolding r k(2) [symmetric] by (intro find_append_fresh) auto
  then have get: "key_get_by_hash fl (hash_api_key sha (gk_plain g)) t' = Inr k"
    using clean by (simp add: key_get_by_hash_def first_where_def)
  have old: "ak_id x \<noteq> ak_id k" if "x \<in> set (rows t)" for x
    using that ok kid by (fastforce simp: keys_ok_def table_ok_def)
  have owned: "x = k" if "x \<in> set (rows t')" "ak_id x = ak_id k" for x using that old by (auto simp: r)
  have lst: "key_list_by_user fl u t' = Inr (sort_key (\<lambda>k. - ak_created k) (filter (\<lambda>k. ak_user k = u) (rows t')))" for u
    using clean by (simp add: key_list_by_user_def find_where_def)
  have notfound: "fails_with CodeNotFound (apikey_revoke fl (gk_id g) other t')" if "other \<noteq> uid"
    using that owned k by (auto simp: apikey_revoke_def lst list_ex_iff)
  let ?t'' = "t'\<lparr>rows := filter (\<lambda>x. ak_id x \<noteq> ak_id k) (rows t')\<rparr>"
  have rev: "apikey_revoke fl (gk_id g) uid t' = Inr ?t''"
    using clean k by (auto simp: apikey_revoke_def lst list_ex_iff key_delete_def delete_where_def r)
  have "find (\<lambda>x. ak_hash x = hash_api_key sha (gk_plain g)) (rows ?t'') = None"
    using fresh k(2) by (auto simp: find_None_iff r)
  then have gone: "apikey_validate sha fl' later (gk_plain g) ?t'' = fail CodeUnauthorized ''invalid API key''"
    by (simp add: apikey_validate_def key_get_by_hash_def first_where_def)
  show ?thesis
    using get k notfound rev gone by (auto simp: apikey_validate_def after_def split: option.splits)
qed

definition demo_key_users :: user_table where
  "demo_key_users = \<lparr>rows = [(new_user ''bob'' ''h'' ''viewer'')\<lparr>u_id := 3\<rparr>], seq = 3\<rparr>"

theorem api_key_lifecycle_witness:
  "\<exists>t' g t''. apikey_generate id no_faults no_faults 0 (Some ''xy'') 3 ''ci'' (Some 10) demo_key_users empty_table = Inr (t', g) \<and>
     apikey_revoke no_faults (gk_id g) 3 t' = Inr t'' \<and>
     apikey_validate id no_faults 5 (gk_plain g) t'' = fail CodeUnauthorized ''invalid API key''"
proof -
  have ok: "keys_ok (empty_table :: key_table)" by (simp add: keys_ok_def table_ok_def empty_table_def)
  have "\<exists>t' g. apikey_generate id no_faults no_faults 0 (Some ''xy'') 3 ''ci'' (Some 10) demo_key_users empty_table = Inr (t', g)"
    by (simp add: apikey_generate_def user_get_by_id_def first_where_def demo_key_users_def new_user_def user_live_def
        key_create_def create_row_def empty_table_def Let_def)
  then obtain t' g where gen: "apikey_generate id no_faults no_faults 0 (Some ''xy'') 3 ''ci'' (Some 10) demo_key_users empty_table = Inr (t', g)"
    by (elim exE)
  have "\<exists>t''. apikey_revoke no_faults (gk_id g) 3 t' = Inr t'' \<and>
      apikey_validate id no_faults 5 (gk_plain g) t'' = fail CodeUnauthorized ''invalid API key''"
    using api_key_lifecycle [OF ok gen, where fl = no_faults and fl' = no_faults and later = 5 and other = 4,
        THEN conjunct2, THEN conjunct2] by simp
  with gen show ?thesis by blast
qed

lemma auth_middleware_bearer:
  assumes "auth_middleware jm sha ufl kfl now keys users [] hdr = Authenticated i n rl"
  obtains scheme tok claims u where "cut (CHR '' '') hdr = Some (scheme, tok)" "parse_token jm now tok = Some claims"
    "user_get_by_id ufl (tc_uid claims) users = Inr u" "u_is_active u" "tc_tv claims = u_token_version u"
    "i = tc_uid claims" "rl = u_role u"
  using assms by (auto simp: auth_middleware_def split: option.splits sum.splits if_splits)

text \<open>
  C1. The middleware lets a request through only as a live, active account, and the role it hands
  on is the one stored for that account now, whatever role the token was issued with.
\<close>

theorem auth_gate_sound:
  assumes "auth_middleware jm sha ufl kfl now keys users akh hdr = Authenticated i n rl"
  shows "\<exists>u \<in> set (rows users). user_live u \<and> u_is_active u \<and> u_id u = i \<and> u_role u = rl"
proof (cases "akh = []")
  case True
  from assms show ?thesis unfolding True
    by (rule auth_middleware_bearer) (auto dest!: user_get_by_id_Inr)
next
  case False
  with assms have "\<exists>j u. user_get_by_id ufl j users = Inr u \<and> u_is_active u \<and> i = u_id u \<and> rl = u_role u"
    by (auto simp: auth_middleware_def split: option.splits sum.splits go_error.splits if_splits)
  then show ?thesis by (auto dest!: user_get_by_id_Inr)
qed


definition demo_bearer :: "string jwt_manager" where
  "demo_bearer = new_jwt_manager (\<lambda>_ _. ''tok'')
     (\<lambda>_ s. if s = ''tok'' then Some (HS256, (registered 3 0 hour [])\<lparr>p_typ := ''access''\<rparr>) else None) ''s'' hour hour"

theorem auth_gate_sound_witness:
  "auth_middleware demo_bearer id no_faults no_faults 5 None demo_key_users [] ''Bearer tok'' = Authenticated 3 [] ''viewer'' \<and>
   (\<exists>u \<in> set (rows demo_key_users). user_live u \<and> u_is_active u \<and> u_id u = 3 \<and> u_role u = ''viewer'')"
proof -
  have a: "auth_middleware demo_bearer id no_faults no_faults 5 None demo_key_users [] ''Bearer tok'' = Authenticated 3 [] ''viewer''"
    by (simp add: auth_middleware_def parse_token_def parse_with_claims_def demo_bearer_def new_jwt_manager_def
        registered_def numeric_date_def duration_defs is_hmac_def user_get_by_id_def first_where_def
        demo_key_users_def new_user_def user_live_def)
  show ?thesis using auth_gate_sound [OF a] a by blast
qed


end
