(* ===== verification/Operations.thy ===== *)
theory Operations
  imports Users Json_Values
begin

text \<open>
  Durable background operations: \<open>internal/operation/types.go\<close> and
  \<open>internal/operation/manager.go\<close> over the rows \<open>model.Operation\<close> and
  \<open>model.OperationEvent\<close>. Every SQL statement and its guard is a definition of its own; the
  composed operations call them in the order of the code. Encryption of the payload
  (\<open>auth.Encrypt\<close>), the JSON encoding of payloads and results and the executors registered by
  other packages are parameters. The interleaving of several workers is the subject of
  \<open>Operation_Steps\<close>.
\<close>

section \<open>Rows\<close>

record op_row =
  o_id :: string
  o_created :: gotime
  o_updated :: gotime
  o_started :: "gotime option"
  o_completed :: "gotime option"
  o_parent :: string
  o_user :: nat
  o_username :: string
  o_kind :: string
  o_action :: string
  o_status :: string
  o_stage :: string
  o_cluster :: string
  o_namespace :: string
  o_resource :: string
  o_progress :: int
  o_error_code :: string
  o_error_message :: string
  o_suggestions_json :: string
  o_request_id :: string
  o_worker :: string
  o_heartbeat :: "gotime option"
  o_retryable :: bool
  o_rollback :: bool
  o_payload_enc :: string
  o_result_json :: string

record op_event =
  oe_id :: nat
  oe_op :: string
  oe_created :: gotime
  oe_stage :: string
  oe_status :: string
  oe_message :: string
  oe_progress :: int

record op_db =
  ops :: "op_row list"
  op_events :: "op_event list"
  ev_seq :: nat

definition StatusQueued :: string where "StatusQueued = ''queued''"
definition StatusRunning :: string where "StatusRunning = ''running''"
definition StatusSucceeded :: string where "StatusSucceeded = ''succeeded''"
definition StatusFailed :: string where "StatusFailed = ''failed''"

lemmas status_defs = StatusQueued_def StatusRunning_def StatusSucceeded_def StatusFailed_def

lemma status_distinct [simp]:
  "StatusQueued \<noteq> StatusRunning" "StatusQueued \<noteq> StatusSucceeded" "StatusQueued \<noteq> StatusFailed"
  "StatusRunning \<noteq> StatusQueued" "StatusRunning \<noteq> StatusSucceeded" "StatusRunning \<noteq> StatusFailed"
  "StatusSucceeded \<noteq> StatusQueued" "StatusSucceeded \<noteq> StatusRunning" "StatusSucceeded \<noteq> StatusFailed"
  "StatusFailed \<noteq> StatusQueued" "StatusFailed \<noteq> StatusRunning" "StatusFailed \<noteq> StatusSucceeded"
  by (simp_all add: status_defs)

definition is_active :: "string \<Rightarrow> bool" where
  "is_active s \<longleftrightarrow> s = StatusQueued \<or> s = StatusRunning"

record 'p op_input =
  in_user :: nat
  in_username :: string
  in_kind :: string
  in_action :: string
  in_cluster :: string
  in_namespace :: string
  in_resource :: string
  in_request_id :: string
  in_payload :: 'p

record principal =
  pr_user :: nat
  pr_name :: string
  pr_role :: string

text \<open>\<open>Failure\<close>; a \<open>nil\<close> slice of suggestions is \<open>None\<close>.\<close>

record failure =
  f_stage :: string
  f_code :: string
  f_message :: string
  f_suggestions :: "string list option"
  f_retryable :: bool
  f_rollback :: bool

text \<open>
  An executor run: the progress reports it makes, in order, and what it returns (a failure, or
  a result that may be \<open>nil\<close>).
\<close>

type_synonym report = "string \<times> string \<times> int"
type_synonym 'r executor = "principal \<Rightarrow> string \<Rightarrow> report list \<times> (failure + 'r option)"

record ('p, 'r) op_env =
  marshal_payload :: "'p \<Rightarrow> string option"
  marshal_result :: "'r \<Rightarrow> string option"
  encrypt :: "string \<Rightarrow> string option"
  decrypt :: "string \<Rightarrow> string option"

definition queue_size :: nat where "queue_size = 256"
definition heartbeat_interval :: duration where "heartbeat_interval = 5 * second"
definition stale_worker_after :: duration where "stale_worker_after = 30 * second"
definition history_retention :: duration where "history_retention = 30 * 24 * hour"
definition cleanup_interval :: duration where "cleanup_interval = 6 * hour"

section \<open>Statements\<close>

text \<open>\<open>UPDATE operations SET ... WHERE p\<close>, which also sets \<open>updated_at\<close>.\<close>

definition op_update_where :: "gotime \<Rightarrow> (op_row \<Rightarrow> bool) \<Rightarrow> (op_row \<Rightarrow> op_row) \<Rightarrow> op_db \<Rightarrow> op_db" where
  "op_update_where now p f db =
     db\<lparr>ops := map (\<lambda>r. if p r then (f r)\<lparr>o_updated := now\<rparr> else r) (ops db)\<rparr>"

text \<open>The insertion of a row fails on a duplicate key; creation sets both time stamps.\<close>

definition op_create :: "bool \<Rightarrow> gotime \<Rightarrow> op_row \<Rightarrow> op_db \<Rightarrow> op_db res" where
  "op_create flt now r db =
     (if flt then Inl db_error
      else if list_ex (\<lambda>x. o_id x = o_id r) (ops db) then Inl unique_violation
      else Inr (db\<lparr>ops := ops db @ [r\<lparr>o_created := now, o_updated := now\<rparr>]\<rparr>))"

definition event_create ::
  "bool \<Rightarrow> gotime \<Rightarrow> string \<Rightarrow> string \<Rightarrow> string \<Rightarrow> string \<Rightarrow> int \<Rightarrow> op_db \<Rightarrow> op_db res" where
  "event_create flt now i stage status msg prog db =
     (if flt then Inl db_error
      else Inr (db\<lparr>ev_seq := Suc (ev_seq db),
             op_events := op_events db @ [\<lparr>oe_id = Suc (ev_seq db), oe_op = i, oe_created = now,
               oe_stage = stage, oe_status = status, oe_message = msg, oe_progress = prog\<rparr>]\<rparr>))"

text \<open>\<open>eventWithContext\<close>: the message is cut to 512 bytes and an error is ignored.\<close>

definition append_event ::
  "bool \<Rightarrow> gotime \<Rightarrow> string \<Rightarrow> string \<Rightarrow> string \<Rightarrow> string \<Rightarrow> int \<Rightarrow> op_db \<Rightarrow> op_db" where
  "append_event flt now i stage status msg prog db =
     (case event_create flt now i stage status (if 512 < length msg then take 512 msg else msg) prog db of
        Inl _ \<Rightarrow> db | Inr db' \<Rightarrow> db')"

text \<open>A row and its first event in one transaction: both or nothing.\<close>

definition create_with_event :: "bool \<Rightarrow> bool \<Rightarrow> gotime \<Rightarrow> op_row \<Rightarrow> string \<Rightarrow> op_db \<Rightarrow> op_db res" where
  "create_with_event flt1 flt2 now r msg db =
     (case op_create flt1 now r db of
        Inl e \<Rightarrow> Inl e
      | Inr db' \<Rightarrow> event_create flt2 now (o_id r) (o_stage r) (o_status r) msg 0 db')"

definition recover_stale :: "bool \<Rightarrow> gotime \<Rightarrow> op_db \<Rightarrow> op_db res" where
  "recover_stale flt now db =
     (if flt then Inl db_error
      else Inr (op_update_where now
        (\<lambda>r. o_status r = StatusRunning \<and>
             (case o_heartbeat r of None \<Rightarrow> True | Some h \<Rightarrow> h < now - stale_worker_after))
        (\<lambda>r. r\<lparr>o_status := StatusFailed, o_stage := ''interrupted'', o_progress := 100,
              o_error_code := ''OPERATION_INTERRUPTED'',
              o_error_message := ''The server stopped while this operation was running'',
              o_retryable := False, o_completed := Some now, o_worker := [], o_heartbeat := None\<rparr>) db))"

text \<open>\<open>cleanupCompleted\<close>, one tick: events first, then the rows, in a transaction.\<close>

definition old_operation :: "gotime \<Rightarrow> op_row \<Rightarrow> bool" where
  "old_operation cutoff r \<longleftrightarrow> (case o_completed r of None \<Rightarrow> False | Some c \<Rightarrow> c < cutoff)"

definition cleanup_completed :: "bool \<Rightarrow> bool \<Rightarrow> gotime \<Rightarrow> op_db \<Rightarrow> op_db" where
  "cleanup_completed flt1 flt2 now db =
     (let cutoff = now - history_retention;
          old = map o_id (filter (old_operation cutoff) (ops db))
      in if flt1 \<or> flt2 then db
         else db\<lparr>op_events := filter (\<lambda>e. oe_op e \<notin> set old) (op_events db),
                 ops := filter (\<lambda>r. \<not> old_operation cutoff r) (ops db)\<rparr>)"

definition op_heartbeat :: "gotime \<Rightarrow> string \<Rightarrow> string \<Rightarrow> op_db \<Rightarrow> op_db" where
  "op_heartbeat now wid i db =
     op_update_where now (\<lambda>r. o_id r = i \<and> o_status r = StatusRunning \<and> o_worker r = wid)
       (\<lambda>r. r\<lparr>o_heartbeat := Some now\<rparr>) db"

text \<open>The compare-and-set by which a worker claims an operation, and the rows it affected.\<close>

definition op_claim :: "bool \<Rightarrow> gotime \<Rightarrow> string \<Rightarrow> string \<Rightarrow> op_db \<Rightarrow> op_db \<times> nat" where
  "op_claim flt now wid i db =
     (if flt then (db, 0)
      else (op_update_where now (\<lambda>r. o_id r = i \<and> o_status r = StatusQueued)
              (\<lambda>r. r\<lparr>o_status := StatusRunning, o_stage := ''preparing'', o_progress := 5,
                    o_started := Some now, o_worker := wid, o_heartbeat := Some now\<rparr>) db,
            length (filter (\<lambda>r. o_id r = i \<and> o_status r = StatusQueued) (ops db))))"

text \<open>
  \<open>loadClaimedOperation\<close>: up to five attempts. \<open>flt k\<close> says that the query of attempt \<open>k\<close>
  fails, \<open>cd k\<close> that the manager's context ends during the wait after it.
\<close>

definition ctx_error :: go_error where "ctx_error = OtherErr ''context canceled'' False"

fun load_attempts :: "(nat \<Rightarrow> bool) \<Rightarrow> (nat \<Rightarrow> bool) \<Rightarrow> string \<Rightarrow> op_db \<Rightarrow> nat \<Rightarrow> go_error \<Rightarrow> op_row res" where
  "load_attempts flt cd i db 0 err = Inl err"
| "load_attempts flt cd i db (Suc n) err =
     (let k = 4 - n;
          r = (if flt k then Inl db_error
               else case find (\<lambda>r. o_id r = i) (ops db) of None \<Rightarrow> Inl record_not_found | Some x \<Rightarrow> Inr x)
      in case r of
           Inr x \<Rightarrow> Inr x
         | Inl e \<Rightarrow> if cd k then Inl ctx_error else load_attempts flt cd i db n e)"

definition load_claimed_operation :: "(nat \<Rightarrow> bool) \<Rightarrow> (nat \<Rightarrow> bool) \<Rightarrow> string \<Rightarrow> op_db \<Rightarrow> op_row res" where
  "load_claimed_operation flt cd i db = load_attempts flt cd i db 5 record_not_found"

text \<open>The reporter handed to an executor: progress is kept within 5 and 95.\<close>

definition clamp_progress :: "int \<Rightarrow> int" where
  "clamp_progress p =
     (let p1 = (if p < 5 then 5 else p) in if 95 < p1 then 95 else p1)"

definition op_report :: "bool \<Rightarrow> bool \<Rightarrow> gotime \<Rightarrow> string \<Rightarrow> report \<Rightarrow> op_db \<Rightarrow> op_db" where
  "op_report flt1 flt2 now i r db =
     (case r of (stage, msg, p) \<Rightarrow>
        let p' = clamp_progress p;
            db' = (if flt1 then db
                   else op_update_where now (\<lambda>r. o_id r = i) (\<lambda>r. r\<lparr>o_stage := stage, o_progress := p'\<rparr>) db)
        in append_event flt2 now i stage StatusRunning msg p' db')"

definition marshal_suggestions :: "string list option \<Rightarrow> string" where
  "marshal_suggestions s = (case s of None \<Rightarrow> ''null'' | Some xs \<Rightarrow> marshal_strings xs)"

definition default_failure :: failure where
  "default_failure = \<lparr>f_stage = ''executing'', f_code = ''OPERATION_FAILED'', f_message = ''Operation failed'',
     f_suggestions = None, f_retryable = False, f_rollback = False\<rparr>"

definition op_fail :: "bool \<Rightarrow> bool \<Rightarrow> gotime \<Rightarrow> string \<Rightarrow> failure option \<Rightarrow> op_db \<Rightarrow> op_db" where
  "op_fail flt1 flt2 now i fo db =
     (let f = (case fo of None \<Rightarrow> default_failure | Some f \<Rightarrow> f);
          db' = (if flt1 then db
                 else op_update_where now (\<lambda>r. o_id r = i)
                   (\<lambda>r. r\<lparr>o_status := StatusFailed, o_stage := f_stage f, o_progress := 100,
                         o_error_code := f_code f, o_error_message := f_message f,
                         o_suggestions_json := marshal_suggestions (f_suggestions f),
                         o_retryable := f_retryable f, o_rollback := f_rollback f, o_completed := Some now,
                         o_worker := [], o_heartbeat := None\<rparr>) db)
      in append_event flt2 now i (f_stage f) StatusFailed (f_message f) 100 db')"

definition op_succeed :: "bool \<Rightarrow> bool \<Rightarrow> gotime \<Rightarrow> string \<Rightarrow> string \<Rightarrow> op_db \<Rightarrow> op_db" where
  "op_succeed flt1 flt2 now i result_json db =
     (let db' = (if flt1 then db
                 else op_update_where now (\<lambda>r. o_id r = i)
                   (\<lambda>r. r\<lparr>o_status := StatusSucceeded, o_stage := ''completed'', o_progress := 100,
                         o_completed := Some now, o_result_json := result_json,
                         o_worker := [], o_heartbeat := None\<rparr>) db)
      in append_event flt2 now i ''completed'' StatusSucceeded ''Operation completed'' 100 db')"

section \<open>The manager\<close>

text \<open>\<open>m_ctx\<close>: \<open>None\<close> is \<open>nil\<close>, otherwise whether the context is done.\<close>

record 'r manager =
  m_started :: bool
  m_ctx :: "bool option"
  m_executors :: "(string, 'r executor) gomap"
  m_queue :: "string list"
  m_worker_id :: string

definition new_manager :: "string \<Rightarrow> 'r manager" where
  "new_manager wid = \<lparr>m_started = False, m_ctx = None, m_executors = [], m_queue = [], m_worker_id = wid\<rparr>"

text \<open>\<open>Register\<close> panics (\<open>None\<close>) once the manager has started.\<close>

definition op_register :: "string \<Rightarrow> 'r executor \<Rightarrow> 'r manager \<Rightarrow> 'r manager option" where
  "op_register kind ex m = (if m_started m then None else Some (m\<lparr>m_executors := gm_put kind ex (m_executors m)\<rparr>))"

definition op_start :: "bool \<Rightarrow> gotime \<Rightarrow> 'r manager \<Rightarrow> op_db \<Rightarrow> ('r manager \<times> op_db) \<times> go_error option" where
  "op_start flt now m db =
     (if m_started m then ((m, db), None)
      else case recover_stale flt now db of
             Inl e \<Rightarrow> ((m\<lparr>m_ctx := None, m_started := False\<rparr>, db),
                      Some (OtherErr (''recover interrupted operations: '' @ error_string e) False))
           | Inr db' \<Rightarrow> ((m\<lparr>m_ctx := Some False, m_started := True\<rparr>, db'), None))"

definition op_stop :: "'r manager \<Rightarrow> 'r manager" where
  "op_stop m = (if \<not> m_started m then m else m\<lparr>m_started := False, m_ctx := Some True\<rparr>)"

text \<open>
  \<open>enqueue\<close> never blocks: without room the id is dropped (the row stays queued). When the context
  is done and there is room, \<open>select\<close> takes either branch; \<open>pick\<close> says which.
\<close>

definition enqueue :: "bool \<Rightarrow> string \<Rightarrow> 'r manager \<Rightarrow> 'r manager" where
  "enqueue pick i m =
     (if \<not> m_started m then m
      else if m_ctx m = Some True \<and> \<not> pick then m
      else if length (m_queue m) < queue_size then m\<lparr>m_queue := m_queue m @ [i]\<rparr>
      else m)"

definition load_queued :: "bool \<Rightarrow> bool \<Rightarrow> op_db \<Rightarrow> 'r manager \<Rightarrow> 'r manager" where
  "load_queued flt pick db m =
     (if flt then m
      else fold (enqueue pick)
             (map o_id (take queue_size (sort_key o_created (filter (\<lambda>r. o_status r = StatusQueued) (ops db))))) m)"

section \<open>Queries\<close>

record op_view =
  v_row :: op_row
  v_suggestions :: "string list"
  v_result :: string
  v_events :: "op_event list"

text \<open>
  \<open>toView\<close>: the row without its encrypted payload and worker, the decoded suggestions and
  result. The result is kept as its JSON text.
\<close>

definition to_view :: "op_row \<Rightarrow> op_event list \<Rightarrow> op_view" where
  "to_view r es =
     \<lparr>v_row = r\<lparr>o_payload_enc := [], o_worker := [], o_heartbeat := None, o_suggestions_json := [], o_result_json := []\<rparr>,
      v_suggestions = (case unmarshal_strings (o_suggestions_json r) of Some ss \<Rightarrow> ss | None \<Rightarrow> []),
      v_result = o_result_json r, v_events = es\<rparr>"

definition events_of :: "string \<Rightarrow> op_db \<Rightarrow> op_event list" where
  "events_of i db = sort_key oe_id (filter (\<lambda>e. oe_op e = i) (op_events db))"

definition visible_to :: "nat \<Rightarrow> bool \<Rightarrow> op_row \<Rightarrow> bool" where
  "visible_to uid include_all r \<longleftrightarrow> include_all \<or> o_user r = uid"

definition op_get :: "bool \<Rightarrow> string \<Rightarrow> nat \<Rightarrow> bool \<Rightarrow> op_db \<Rightarrow> op_view res" where
  "op_get flt i uid include_all db =
     (if flt then Inl db_error
      else case find (\<lambda>r. o_id r = i \<and> visible_to uid include_all r) (ops db) of
             None \<Rightarrow> Inl ErrNotFound
           | Some r \<Rightarrow> Inr (to_view r (events_of i db)))"

definition op_list :: "bool \<Rightarrow> nat \<Rightarrow> bool \<Rightarrow> int \<Rightarrow> op_db \<Rightarrow> op_view list res" where
  "op_list flt uid include_all limit db =
     (let n = (if limit \<le> 0 \<or> 200 < limit then 100 else nat limit)
      in if flt then Inl db_error
         else Inr (map (\<lambda>r. to_view r (events_of (o_id r) db))
                (take n (sort_key (\<lambda>r. - o_created r) (filter (visible_to uid include_all) (ops db))))))"

section \<open>Submit and retry\<close>

text \<open>
  \<open>new_id\<close> is the id drawn by \<open>uuid.NewString\<close>. The results carry the manager (whose queue
  grew) and the store.
\<close>

definition submitted_row :: "string \<Rightarrow> 'p op_input \<Rightarrow> string \<Rightarrow> op_row" where
  "submitted_row new_id inp enc =
     \<lparr>o_id = new_id, o_created = 0, o_updated = 0, o_started = None, o_completed = None, o_parent = [],
      o_user = in_user inp, o_username = in_username inp, o_kind = in_kind inp, o_action = in_action inp,
      o_status = StatusQueued, o_stage = ''queued'', o_cluster = in_cluster inp, o_namespace = in_namespace inp,
      o_resource = in_resource inp, o_progress = 0, o_error_code = [], o_error_message = [],
      o_suggestions_json = [], o_request_id = in_request_id inp, o_worker = [], o_heartbeat = None,
      o_retryable = False, o_rollback = False, o_payload_enc = enc, o_result_json = []\<rparr>"

record submit_faults =
  sf_create :: bool
  sf_event :: bool
  sf_get :: bool
  sf_pick :: bool

definition op_submit ::
  "('p, 'r) op_env \<Rightarrow> submit_faults \<Rightarrow> gotime \<Rightarrow> string \<Rightarrow> 'p op_input \<Rightarrow> 'r manager \<Rightarrow> op_db \<Rightarrow>
     ('r manager \<times> op_db) \<times> op_view res" where
  "op_submit env sf now new_id inp m db =
     (case marshal_payload env (in_payload inp) of
        None \<Rightarrow> ((m, db), fail CodeParamInvalid ''operation payload is invalid'')
      | Some payload \<Rightarrow>
          (case encrypt env payload of
             None \<Rightarrow> ((m, db), fail CodeInternal ''failed to protect operation payload'')
           | Some enc \<Rightarrow>
               (case create_with_event (sf_create sf) (sf_event sf) now (submitted_row new_id inp enc) ''Operation queued'' db of
                  Inl _ \<Rightarrow> ((m, db), fail CodeInternal ''failed to persist operation'')
                | Inr db' \<Rightarrow> ((enqueue (sf_pick sf) new_id m, db'), op_get (sf_get sf) new_id (in_user inp) False db'))))"

definition retry_row :: "string \<Rightarrow> op_row \<Rightarrow> op_row" where
  "retry_row new_id p =
     p\<lparr>o_id := new_id, o_parent := o_id p, o_created := 0, o_updated := 0, o_started := None, o_completed := None,
       o_status := StatusQueued, o_stage := ''queued'', o_progress := 0, o_error_code := [], o_error_message := [],
       o_suggestions_json := [], o_result_json := [], o_retryable := False, o_rollback := False,
       o_request_id := [], o_worker := [], o_heartbeat := None\<rparr>"

definition op_retry ::
  "bool \<Rightarrow> submit_faults \<Rightarrow> gotime \<Rightarrow> string \<Rightarrow> string \<Rightarrow> principal \<Rightarrow> bool \<Rightarrow> 'r manager \<Rightarrow> op_db \<Rightarrow>
     ('r manager \<times> op_db) \<times> op_view res" where
  "op_retry flt sf now new_id i pr include_all m db =
     (if flt then ((m, db), Inl db_error)
      else case find (\<lambda>r. o_id r = i \<and> visible_to (pr_user pr) include_all r) (ops db) of
        None \<Rightarrow> ((m, db), Inl ErrNotFound)
      | Some previous \<Rightarrow>
          if o_status previous \<noteq> StatusFailed \<or> \<not> o_retryable previous
          then ((m, db), fail CodeConflict ''operation cannot be retried'')
          else (case create_with_event (sf_create sf) (sf_event sf) now (retry_row new_id previous) ''Retry queued'' db of
                  Inl e \<Rightarrow> ((m, db), Inl e)
                | Inr db' \<Rightarrow> ((enqueue (sf_pick sf) new_id m, db'),
                             op_get (sf_get sf) new_id (pr_user pr) include_all db')))"

section \<open>Execution by one worker\<close>

text \<open>
  Between the claim and the executor: the owner must be a live, active account, an executor must
  be registered for the kind, the payload must decrypt. The failures are those of the code.
\<close>

definition refuse :: "string \<Rightarrow> string \<Rightarrow> string \<Rightarrow> bool \<Rightarrow> failure" where
  "refuse stage c msg retryable =
     \<lparr>f_stage = stage, f_code = c, f_message = msg, f_suggestions = None, f_retryable = retryable, f_rollback = False\<rparr>"

definition load_failure :: failure where
  "load_failure = refuse ''preparing'' ''OPERATION_LOAD_FAILED'' ''The queued operation could not be loaded'' True"

definition op_prepare ::
  "('p, 'r) op_env \<Rightarrow> 'r manager \<Rightarrow> faults \<Rightarrow> user_table \<Rightarrow> op_row \<Rightarrow> failure + principal \<times> string \<times> 'r executor" where
  "op_prepare env m ufl users r =
     (let inactive = refuse ''authorization'' ''USER_NOT_ACTIVE'' ''The operation owner is no longer active'' False
      in case user_get_by_id ufl (o_user r) users of
           Inl _ \<Rightarrow> Inl inactive
         | Inr u \<Rightarrow>
             if \<not> u_is_active u then Inl inactive
             else (case gm_get (m_executors m) (o_kind r) of
                     None \<Rightarrow> Inl (refuse ''preparing'' ''EXECUTOR_UNAVAILABLE'' ''No executor is registered for this operation'' True)
                   | Some ex \<Rightarrow>
                       (case decrypt env (o_payload_enc r) of
                          None \<Rightarrow> Inl (refuse ''preparing'' ''PAYLOAD_DECRYPT_FAILED'' ''The protected operation input could not be read'' False)
                        | Some plain \<Rightarrow>
                            Inr (\<lparr>pr_user = u_id u, pr_name = u_username u, pr_role = u_role u\<rparr>, plain, ex))))"

definition encode_result :: "('p, 'r) op_env \<Rightarrow> 'r option \<Rightarrow> string" where
  "encode_result env r =
     (case r of None \<Rightarrow> [] | Some x \<Rightarrow> (case marshal_result env x of Some s \<Rightarrow> s | None \<Rightarrow> []))"

text \<open>
  The points of \<open>execute\<close> at which the store is asked, for the faults and the clock of a run.
\<close>

datatype exec_point = PClaim | PLoad nat | PPrepEvent | PReport nat | PReportEvent nat | PFinal | PFinalEvent

fun run_reports :: "(exec_point \<Rightarrow> bool) \<Rightarrow> (exec_point \<Rightarrow> gotime) \<Rightarrow> string \<Rightarrow> nat \<Rightarrow> report list \<Rightarrow> op_db \<Rightarrow> op_db" where
  "run_reports flt clk i k [] db = db"
| "run_reports flt clk i k (r # rs) db =
     run_reports flt clk i (Suc k) rs (op_report (flt (PReport k)) (flt (PReportEvent k)) (clk (PReport k)) i r db)"

definition op_execute ::
  "('p, 'r) op_env \<Rightarrow> (exec_point \<Rightarrow> bool) \<Rightarrow> (exec_point \<Rightarrow> gotime) \<Rightarrow> (nat \<Rightarrow> bool) \<Rightarrow> bool \<Rightarrow> faults \<Rightarrow> user_table \<Rightarrow>
     'r manager \<Rightarrow> string \<Rightarrow> op_db \<Rightarrow> op_db" where
  "op_execute env flt clk cd cancelled ufl users m i db =
     (let failed = (\<lambda>f d. op_fail (flt PFinal) (flt PFinalEvent) (clk PFinal) i (Some f) d);
          (db1, n) = op_claim (flt PClaim) (clk PClaim) (m_worker_id m) i db
      in if n = 0 then db1
         else (case load_claimed_operation (\<lambda>k. flt (PLoad k)) cd i db1 of
                 Inl _ \<Rightarrow> failed load_failure db1
               | Inr r \<Rightarrow>
                   (let db2 = append_event (flt PPrepEvent) (clk PPrepEvent) i ''preparing'' StatusRunning ''Preparing operation'' 5 db1
                    in (case op_prepare env m ufl users r of
                          Inl f \<Rightarrow> failed f db2
                        | Inr (p, plain, ex) \<Rightarrow>
                            (let (reps, out) = ex p plain;
                                 db3 = run_reports flt clk i 0 reps db2
                             in if cancelled then db3
                                else (case out of
                                        Inl f \<Rightarrow> failed f db3
                                      | Inr res \<Rightarrow> op_succeed (flt PFinal) (flt PFinalEvent) (clk PFinal) i
                                                    (encode_result env res) db3))))))"

section \<open>Lookup by id\<close>

definition row_of :: "op_db \<Rightarrow> string \<Rightarrow> op_row option" where
  "row_of db i = find (\<lambda>r. o_id r = i) (ops db)"

definition ids_distinct :: "op_db \<Rightarrow> bool" where
  "ids_distinct db \<longleftrightarrow> distinct (map o_id (ops db))"

text \<open>The history of an operation: what its events say, in the order they were recorded.\<close>

definition history :: "op_db \<Rightarrow> string \<Rightarrow> (string \<times> string \<times> string \<times> int) list" where
  "history db i = map (\<lambda>e. (oe_stage e, oe_status e, oe_message e, oe_progress e)) (filter (\<lambda>e. oe_op e = i) (op_events db))"

lemma row_of_update [simp]:
  assumes "\<And>r. o_id (f r) = o_id r"
  shows "row_of (op_update_where now p f db) i =
    map_option (\<lambda>r. if p r then (f r)\<lparr>o_updated := now\<rparr> else r) (row_of db i)"
proof -
  have "find (\<lambda>r. o_id r = i) (map (\<lambda>r. if p r then (f r)\<lparr>o_updated := now\<rparr> else r) xs) =
    map_option (\<lambda>r. if p r then (f r)\<lparr>o_updated := now\<rparr> else r) (find (\<lambda>r. o_id r = i) xs)" for xs
    using assms by (induction xs) auto
  then show ?thesis by (simp add: row_of_def op_update_where_def)
qed

lemma op_update_events [simp]:
  "op_events (op_update_where now p f db) = op_events db" "ev_seq (op_update_where now p f db) = ev_seq db"
  by (simp_all add: op_update_where_def)

lemma ids_update [simp]:
  assumes "\<And>r. o_id (f r) = o_id r"
  shows "map o_id (ops (op_update_where now p f db)) = map o_id (ops db)"
  by (simp add: op_update_where_def assms comp_def if_distrib [of o_id] cong: if_cong)

lemma op_event_ops [simp]: "ops (append_event flt now i st status msg pr db) = ops db"
  by (simp add: append_event_def event_create_def)

lemma row_of_event [simp]: "row_of (append_event flt now i st status msg pr db) k = row_of db k"
  by (simp add: row_of_def)

lemma history_update [simp]: "history (op_update_where now p f db) i = history db i"
  by (simp add: history_def)

lemma history_event [simp]:
  "history (append_event flt now i st status msg pr db) k =
     history db k @ (if flt \<or> k \<noteq> i then [] else [(st, status, take 512 msg, pr)])"
  by (auto simp: history_def append_event_def event_create_def)

lemma row_of_Some: "row_of db i = Some r \<Longrightarrow> r \<in> set (ops db) \<and> o_id r = i"
  by (auto simp: row_of_def find_Some_iff)

lemma row_of_None: "row_of db i = None \<longleftrightarrow> (\<forall>r \<in> set (ops db). o_id r \<noteq> i)"
  by (auto simp: row_of_def find_None_iff)

lemma row_of_in: "ids_distinct db \<Longrightarrow> r \<in> set (ops db) \<Longrightarrow> row_of db (o_id r) = Some r"
  unfolding row_of_def ids_distinct_def by (rule find_unique [where key = o_id]) auto

lemma clamp_bounds: "5 \<le> clamp_progress p" "clamp_progress p \<le> 95"
  by (simp_all add: clamp_progress_def Let_def)

lemma clamp_id: "5 \<le> p \<Longrightarrow> p \<le> 95 \<Longrightarrow> clamp_progress p = p"
  by (simp add: clamp_progress_def)

text \<open>What each statement does to the row with a given id and to the histories.\<close>

lemma row_of_claim:
  "row_of (fst (op_claim flt now wid i db)) k =
     map_option (\<lambda>r. if \<not> flt \<and> k = i \<and> o_status r = StatusQueued
       then r\<lparr>o_status := StatusRunning, o_stage := ''preparing'', o_progress := 5, o_started := Some now,
              o_worker := wid, o_heartbeat := Some now, o_updated := now\<rparr> else r) (row_of db k)"
  by (auto simp: op_claim_def row_of_None intro!: option.map_cong0 dest: row_of_Some)
     (cases "row_of db k"; auto dest: row_of_Some)+

lemma row_of_report:
  "row_of (op_report f1 f2 now i (st, msg, p) db) k =
     map_option (\<lambda>r. if \<not> f1 \<and> k = i then r\<lparr>o_stage := st, o_progress := clamp_progress p, o_updated := now\<rparr> else r)
       (row_of db k)"
  by (cases "row_of db k") (auto simp: op_report_def Let_def dest: row_of_Some)

lemma row_of_fail:
  "row_of (op_fail f1 f2 now i (Some f) db) k =
     map_option (\<lambda>r. if \<not> f1 \<and> k = i
       then r\<lparr>o_status := StatusFailed, o_stage := f_stage f, o_progress := 100, o_error_code := f_code f,
              o_error_message := f_message f, o_suggestions_json := marshal_suggestions (f_suggestions f),
              o_retryable := f_retryable f, o_rollback := f_rollback f, o_completed := Some now,
              o_worker := [], o_heartbeat := None, o_updated := now\<rparr> else r) (row_of db k)"
  by (cases "row_of db k") (auto simp: op_fail_def Let_def dest: row_of_Some)

lemma row_of_succeed:
  "row_of (op_succeed f1 f2 now i j db) k =
     map_option (\<lambda>r. if \<not> f1 \<and> k = i
       then r\<lparr>o_status := StatusSucceeded, o_stage := ''completed'', o_progress := 100, o_completed := Some now,
              o_result_json := j, o_worker := [], o_heartbeat := None, o_updated := now\<rparr> else r) (row_of db k)"
  by (cases "row_of db k") (auto simp: op_succeed_def Let_def dest: row_of_Some)

lemma history_claim [simp]: "history (fst (op_claim flt now wid i db)) k = history db k"
  by (simp add: op_claim_def)

lemma history_report:
  "history (op_report f1 f2 now i (st, msg, p) db) k =
     history db k @ (if f2 \<or> k \<noteq> i then [] else [(st, StatusRunning, take 512 msg, clamp_progress p)])"
  by (simp add: op_report_def Let_def)

lemma history_fail:
  "history (op_fail f1 f2 now i (Some f) db) k =
     history db k @ (if f2 \<or> k \<noteq> i then [] else [(f_stage f, StatusFailed, take 512 (f_message f), 100)])"
  by (simp add: op_fail_def Let_def)

lemma history_succeed:
  "history (op_succeed f1 f2 now i j db) k =
     history db k @ (if f2 \<or> k \<noteq> i then [] else [(''completed'', StatusSucceeded, ''Operation completed'', 100)])"
  by (simp add: op_succeed_def Let_def)

lemmas row_of_statements = row_of_claim row_of_report row_of_fail row_of_succeed
lemmas history_statements = history_report history_fail history_succeed

lemma claim_affected:
  assumes "ids_distinct db"
  shows "snd (op_claim flt now wid i db) \<noteq> 0 \<longleftrightarrow>
     \<not> flt \<and> (\<exists>r. row_of db i = Some r \<and> o_status r = StatusQueued)"
proof -
  have "(\<exists>r \<in> set (ops db). o_id r = i \<and> o_status r = StatusQueued) \<longleftrightarrow>
      (\<exists>r. row_of db i = Some r \<and> o_status r = StatusQueued)"
    using row_of_Some [of db i] row_of_in [OF assms] by blast
  then show ?thesis by (simp add: op_claim_def filter_empty_conv Bex_def)
qed

lemma ids_distinct_claim [simp]: "ids_distinct (fst (op_claim flt now wid i db)) = ids_distinct db"
  by (simp add: op_claim_def ids_distinct_def)

lemma run_reports_history:
  "(\<And>j. \<not> flt (PReportEvent j)) \<Longrightarrow> history (run_reports flt clk i n rs db) k =
     history db k @ (if k = i then map (\<lambda>(st, msg, p). (st, StatusRunning, take 512 msg, clamp_progress p)) rs else [])"
proof (induction flt clk i n rs db rule: run_reports.induct)
  case (2 flt clk i n r rs db)
  obtain st msg p where r: "r = (st, msg, p)" by (cases r)
  show ?case using 2 by (simp add: r history_report)
qed simp

lemma run_reports_row:
  "\<exists>h. (\<forall>r. \<exists>st pr t. h r = r\<lparr>o_stage := st, o_progress := pr, o_updated := t\<rparr>) \<and>
     row_of (run_reports flt clk i n rs db) k = map_option (if k = i then h else id) (row_of db k)"
proof (induction flt clk i n rs db rule: run_reports.induct)
  case (1 flt clk i k' db)
  show ?case
  proof (intro exI [of _ id] conjI allI)
    fix r :: op_row
    show "\<exists>st pr t. id r = r\<lparr>o_stage := st, o_progress := pr, o_updated := t\<rparr>"
      by (intro exI [of _ "o_stage r"] exI [of _ "o_progress r"] exI [of _ "o_updated r"]) simp
  qed (simp add: option.map_id option.map_ident id_def)
next
  case (2 flt clk i n r rs db)
  obtain st msg p where r: "r = (st, msg, p)" by (cases r)
  from 2 obtain h where h: "\<forall>r. \<exists>st pr t. h r = r\<lparr>o_stage := st, o_progress := pr, o_updated := t\<rparr>" and
    e: "row_of (run_reports flt clk i n (r # rs) db) k =
      map_option (if k = i then h else id) (row_of (op_report (flt (PReport n)) (flt (PReportEvent n)) (clk (PReport n)) i r db) k)"
    by auto
  let ?g = "\<lambda>x. if \<not> flt (PReport n) then x\<lparr>o_stage := st, o_progress := clamp_progress p, o_updated := clk (PReport n)\<rparr> else x"
  have "\<exists>st pr t. h (?g x) = x\<lparr>o_stage := st, o_progress := pr, o_updated := t\<rparr>" for x
    using h [rule_format, of "?g x"] by (auto split: if_splits)
  then show ?case unfolding e unfolding r row_of_report
    by (intro exI [of _ "h \<circ> ?g"]) (auto simp: option.map_comp comp_def option.map_ident cong: if_cong)
qed

text \<open>The row that an operation becomes when it ends well, and what a run shows for it.\<close>

lemma create_with_event_Inr:
  "create_with_event f1 f2 now r msg db = Inr db' \<longleftrightarrow>
     \<not> f1 \<and> \<not> f2 \<and> row_of db (o_id r) = None \<and>
     db' = db\<lparr>ops := ops db @ [r\<lparr>o_created := now, o_updated := now\<rparr>], ev_seq := Suc (ev_seq db),
       op_events := op_events db @ [\<lparr>oe_id = Suc (ev_seq db), oe_op = o_id r, oe_created = now, oe_stage = o_stage r,
         oe_status = o_status r, oe_message = msg, oe_progress = 0\<rparr>]\<rparr>"
  by (auto simp: create_with_event_def op_create_def event_create_def row_of_None list_ex_iff)

lemma created_row:
  assumes "create_with_event f1 f2 now r msg db = Inr db'"
  shows "row_of db' k = (if k = o_id r then Some (r\<lparr>o_created := now, o_updated := now\<rparr>) else row_of db k)"
    and "history db' k = history db k @ (if k = o_id r then [(o_stage r, o_status r, msg, 0)] else [])"
    and "ids_distinct db' = ids_distinct db"
    and "\<not> f1" "\<not> f2" "row_of db (o_id r) = None"
proof -
  from assms have fresh: "row_of db (o_id r) = None" and
    db': "db' = db\<lparr>ops := ops db @ [r\<lparr>o_created := now, o_updated := now\<rparr>], ev_seq := Suc (ev_seq db),
       op_events := op_events db @ [\<lparr>oe_id = Suc (ev_seq db), oe_op = o_id r, oe_created = now, oe_stage = o_stage r,
         oe_status = o_status r, oe_message = msg, oe_progress = 0\<rparr>]\<rparr>" and ok: "\<not> f1" "\<not> f2"
    by (simp_all add: create_with_event_Inr)
  show "row_of db (o_id r) = None" "\<not> f1" "\<not> f2" by fact+
  show "row_of db' k = (if k = o_id r then Some (r\<lparr>o_created := now, o_updated := now\<rparr>) else row_of db k)"
    using fresh by (auto simp: db' row_of_def find_append split: option.splits)
  show "history db' k = history db k @ (if k = o_id r then [(o_stage r, o_status r, msg, 0)] else [])"
    by (auto simp: db' history_def)
  show "ids_distinct db' = ids_distinct db" using fresh by (auto simp: db' ids_distinct_def row_of_None)
qed

lemma load_attempts_ok: "\<not> flt (4 - n) \<Longrightarrow> load_attempts flt cd i db (Suc n) err =
    (case row_of db i of Some r \<Rightarrow> Inr r | None \<Rightarrow> if cd (4 - n) then Inl ctx_error else load_attempts flt cd i db n record_not_found)"
  by (simp add: row_of_def Let_def split: option.splits)

lemma load_claimed_ok: "\<not> flt 0 \<Longrightarrow> row_of db i = Some r \<Longrightarrow> load_claimed_operation flt cd i db = Inr r"
  unfolding load_claimed_operation_def numeral_eq_Suc pred_numeral_simps
  using load_attempts_ok [of flt 4 cd i db] by (simp add: numeral_eq_Suc)

lemma find_visible:
  assumes "ids_distinct db" "row_of db i = Some r"
  shows "find (\<lambda>r. o_id r = i \<and> visible_to u a r) (ops db) = (if visible_to u a r then Some r else None)"
proof (cases "visible_to u a r")
  case True
  have "find (\<lambda>r. o_id r = i \<and> visible_to u a r) (ops db) = Some r"
    using assms(1) row_of_Some [OF assms(2)] True unfolding ids_distinct_def by (intro find_unique [where key = o_id]) auto
  with True show ?thesis by simp
next
  case False
  have "x = r" if "x \<in> set (ops db)" "o_id x = i" for x
    using row_of_in [OF assms(1) that(1)] that(2) assms(2) by simp
  with False show ?thesis by (auto simp: find_None_iff)
qed

section \<open>Properties\<close>

text \<open>
  End to end: an operation submitted by a live, active user and run by a worker whose
  executor succeeds ends as succeeded with the encoded result. The executor was called with the
  submitted payload and with the owner's name and role as they are stored at run time, and the
  recorded history is exactly: queued, preparing, the executor's reports with their progress
  clamped, completed.
\<close>

theorem submit_then_execute:
  assumes crypt: "\<And>p e. encrypt env p = Some e \<Longrightarrow> decrypt env e = Some p"
    and ok: "ids_distinct db" "row_of db i = None" "history db i = []"
    and sub: "marshal_payload env (in_payload inp) = Some plain" "encrypt env plain = Some enc"
    and owner: "user_get_by_id no_faults (in_user inp) users = Inr u" "u_is_active u"
    and exec: "gm_get (m_executors m) (in_kind inp) = Some ex"
      "ex \<lparr>pr_user = u_id u, pr_name = u_username u, pr_role = u_role u\<rparr> plain = (reps, Inr res)"
    and clean: "\<not> sf_create sf" "\<not> sf_event sf" "\<not> sf_get sf"
  shows "\<exists>m' db' v r. op_submit env sf now i inp m db = ((m', db'), Inr v) \<and> o_status (v_row v) = StatusQueued \<and>
    (let db'' = op_execute env (\<lambda>_. False) clk cd False no_faults users m i db' in
       row_of db'' i = Some r \<and> o_status r = StatusSucceeded \<and> o_progress r = 100 \<and>
       o_result_json r = encode_result env res \<and> o_completed r = Some (clk PFinal) \<and>
       history db'' i = [(''queued'', StatusQueued, ''Operation queued'', 0), (''preparing'', StatusRunning, ''Preparing operation'', 5)]
         @ map (\<lambda>(st, msg, p). (st, StatusRunning, take 512 msg, clamp_progress p)) reps
         @ [(''completed'', StatusSucceeded, ''Operation completed'', 100)])"
proof -
  let ?r0 = "submitted_row i inp enc"
  obtain db' where db': "create_with_event False False now ?r0 ''Operation queued'' db = Inr db'"
    using ok(2) by (auto simp: create_with_event_Inr submitted_row_def)
  note cr = created_row [OF db']
  have r1: "row_of db' i = Some (?r0\<lparr>o_created := now, o_updated := now\<rparr>)"
    and h1: "history db' i = [(''queued'', StatusQueued, ''Operation queued'', 0)]"
    using cr(1,2) [of i] ok(3) by (simp_all add: submitted_row_def)
  have "op_get False i (in_user inp) False db' = Inr (to_view (?r0\<lparr>o_created := now, o_updated := now\<rparr>) (events_of i db'))"
    using find_visible [OF _ r1, of "in_user inp" False] cr(3) ok(1) by (simp add: op_get_def visible_to_def submitted_row_def)
  then have submit: "op_submit env sf now i inp m db = ((enqueue (sf_pick sf) i m, db'),
      Inr (to_view (?r0\<lparr>o_created := now, o_updated := now\<rparr>) (events_of i db')))"
    using clean by (simp add: op_submit_def sub db')
  obtain db1 n where c: "op_claim False (clk PClaim) (m_worker_id m) i db' = (db1, n)" by fastforce
  have n: "n \<noteq> 0"
    using claim_affected [of db' False "clk PClaim" "m_worker_id m" i] cr(3) ok(1) r1 c by (simp add: submitted_row_def)
  obtain r2 where r2: "row_of db1 i = Some r2" "o_user r2 = in_user inp" "o_kind r2 = in_kind inp" "o_payload_enc r2 = enc"
    using row_of_claim [of False "clk PClaim" "m_worker_id m" i db' i] r1 c by (simp add: submitted_row_def)
  have h2: "history db1 i = history db' i" using history_claim [of False "clk PClaim" "m_worker_id m" i db' i] c by simp
  let ?db2 = "append_event False (clk PPrepEvent) i ''preparing'' StatusRunning ''Preparing operation'' 5 db1"
  let ?db3 = "run_reports (\<lambda>_. False) clk i 0 reps ?db2"
  have prep: "op_prepare env m no_faults users r2 = Inr (\<lparr>pr_user = u_id u, pr_name = u_username u, pr_role = u_role u\<rparr>, plain, ex)"
    using owner exec(1) crypt [OF sub(2)] by (simp add: op_prepare_def r2)
  have run: "op_execute env (\<lambda>_. False) clk cd False no_faults users m i db' =
      op_succeed False False (clk PFinal) i (encode_result env res) ?db3"
    using n by (simp add: op_execute_def c load_claimed_ok r2(1) prep exec(2) Let_def)
  have h3: "history ?db3 i = history db1 i @ [(''preparing'', StatusRunning, ''Preparing operation'', 5)]
       @ map (\<lambda>(st, msg, p). (st, StatusRunning, take 512 msg, clamp_progress p)) reps"
    by (simp add: run_reports_history)
  obtain r3 where r3: "row_of ?db3 i = Some r3"
    using run_reports_row [of "\<lambda>_. False" clk i 0 reps ?db2 i] r2(1) by auto
  let ?res = "op_succeed False False (clk PFinal) i (encode_result env res) ?db3"
  have fin: "\<exists>r. row_of ?res i = Some r \<and> o_status r = StatusSucceeded \<and> o_progress r = 100 \<and>
       o_result_json r = encode_result env res \<and> o_completed r = Some (clk PFinal)"
    using r3 by (simp add: row_of_succeed)
  have hist: "history ?res i = [(''queued'', StatusQueued, ''Operation queued'', 0), (''preparing'', StatusRunning, ''Preparing operation'', 5)]
         @ map (\<lambda>(st, msg, p). (st, StatusRunning, take 512 msg, clamp_progress p)) reps
         @ [(''completed'', StatusSucceeded, ''Operation completed'', 100)]"
    using h1 h2 h3 by (simp add: history_succeed)
  have st: "o_status (v_row (to_view (?r0\<lparr>o_created := now, o_updated := now\<rparr>) es)) = StatusQueued" for es
    by (simp add: to_view_def submitted_row_def)
  from fin obtain r where "row_of ?res i = Some r" "o_status r = StatusSucceeded" "o_progress r = 100"
    "o_result_json r = encode_result env res" "o_completed r = Some (clk PFinal)" by blast
  with hist run submit st show ?thesis unfolding Let_def by metis
qed

definition demo_op_env :: "(string, string) op_env" where
  "demo_op_env = \<lparr>marshal_payload = Some, marshal_result = Some, encrypt = (\<lambda>p. Some (CHR ''E'' # p)),
     decrypt = (\<lambda>e. Some (tl e))\<rparr>"

definition demo_owner :: user_table where
  "demo_owner = \<lparr>rows = [(new_user ''bob'' ''h'' ''editor'')\<lparr>u_id := 3\<rparr>], seq = 3\<rparr>"

definition demo_worker :: "string manager" where
  "demo_worker = (new_manager ''w1'')\<lparr>m_started := True, m_ctx := Some False,
     m_executors := [(''package'', \<lambda>p s. ([(''installing'', ''half way'', 50), (''installing'', ''too far'', 120)], Inr (Some s)))]\<rparr>"

definition demo_input :: "string op_input" where
  "demo_input = \<lparr>in_user = 3, in_username = ''bob'', in_kind = ''package'', in_action = ''install'', in_cluster = ''c1'',
     in_namespace = ''ns'', in_resource = ''redis'', in_request_id = ''rq'', in_payload = ''{}''\<rparr>"

definition empty_op_db :: op_db where "empty_op_db = \<lparr>ops = [], op_events = [], ev_seq = 0\<rparr>"

theorem submit_then_execute_witness:
  "\<exists>m' db' v r. op_submit demo_op_env \<lparr>sf_create = False, sf_event = False, sf_get = False, sf_pick = False\<rparr> 7 ''op1''
       demo_input demo_worker empty_op_db = ((m', db'), Inr v) \<and>
     row_of (op_execute demo_op_env (\<lambda>_. False) (\<lambda>_. 9) (\<lambda>_. False) False no_faults demo_owner demo_worker ''op1'' db') ''op1'' = Some r \<and>
     o_status r = StatusSucceeded \<and> o_result_json r = ''{}''"
proof -
  have owner: "user_get_by_id no_faults (in_user demo_input) demo_owner = Inr ((new_user ''bob'' ''h'' ''editor'')\<lparr>u_id := 3\<rparr>)"
    by (simp add: user_get_by_id_def first_where_def demo_owner_def demo_input_def user_live_def new_user_def)
  have crypt: "decrypt demo_op_env e = Some p" if "encrypt demo_op_env p = Some e" for p e
    using that by (auto simp: demo_op_env_def)
  have ids: "ids_distinct empty_op_db" "row_of empty_op_db ''op1'' = None" "history empty_op_db ''op1'' = []"
    by (simp_all add: ids_distinct_def row_of_def history_def empty_op_db_def)
  note t = submit_then_execute [OF crypt ids, where inp = demo_input and plain = "''{}''" and enc = "''E{}''"
      and users = demo_owner and u = "(new_user ''bob'' ''h'' ''editor'')\<lparr>u_id := 3\<rparr>" and m = demo_worker
      and ex = "\<lambda>p s. ([(''installing'', ''half way'', 50), (''installing'', ''too far'', 120)], Inr (Some s))"
      and reps = "[(''installing'', ''half way'', 50), (''installing'', ''too far'', 120)]" and res = "Some ''{}''"
      and sf = "\<lparr>sf_create = False, sf_event = False, sf_get = False, sf_pick = False\<rparr>"
      and now = "7" and clk = "\<lambda>_. 9" and cd = "\<lambda>_. False"]
  have enc: "encode_result demo_op_env (Some ''{}'') = ''{}''" by (simp add: encode_result_def demo_op_env_def)
  have mar: "marshal_payload demo_op_env (in_payload demo_input) = Some ''{}''" "encrypt demo_op_env ''{}'' = Some ''E{}''"
    by (simp_all add: demo_op_env_def demo_input_def)
  have act: "u_is_active ((new_user ''bob'' ''h'' ''editor'')\<lparr>u_id := 3\<rparr>)" by (simp add: new_user_def)
  have reg: "gm_get (m_executors demo_worker) (in_kind demo_input) =
      Some (\<lambda>p s. ([(''installing'', ''half way'', 50), (''installing'', ''too far'', 120)], Inr (Some s)))"
    by (simp add: demo_worker_def demo_input_def)
  show ?thesis using t [OF _ mar owner act reg] by (simp add: Let_def enc) blast
qed

text \<open>
  Retry: it is granted exactly for a visible operation that failed and was marked retryable.
  A refusal changes nothing. A retry leaves every existing row as it is and adds a queued child
  with the same owner and payload, no result, and no inherited permission to be retried.
\<close>

theorem retry_spec:
  assumes "ids_distinct db" "row_of db new_id = None" "\<not> flt" "\<not> sf_create sf" "\<not> sf_event sf" "\<not> sf_get sf"
    and run: "op_retry flt sf now new_id i pr include_all m db = ((m', db'), res)"
  shows "(isOk res \<longleftrightarrow> (\<exists>p. row_of db i = Some p \<and> visible_to (pr_user pr) include_all p \<and>
            o_status p = StatusFailed \<and> o_retryable p)) \<and>
    (\<not> isOk res \<longrightarrow> db' = db \<and> m' = m) \<and>
    (isOk res \<longrightarrow> (\<forall>k. k \<noteq> new_id \<longrightarrow> row_of db' k = row_of db k \<and> history db' k = history db k) \<and>
      (\<exists>p q. row_of db i = Some p \<and> row_of db' new_id = Some q \<and> o_parent q = i \<and> o_status q = StatusQueued \<and>
        o_user q = o_user p \<and> o_kind q = o_kind p \<and> o_payload_enc q = o_payload_enc p \<and>
        \<not> o_retryable q \<and> o_started q = None \<and> o_completed q = None))"
proof (cases "\<exists>p. row_of db i = Some p \<and> visible_to (pr_user pr) include_all p \<and> o_status p = StatusFailed \<and> o_retryable p")
  case True
  then obtain p where p: "row_of db i = Some p" "visible_to (pr_user pr) include_all p" "o_status p = StatusFailed" "o_retryable p"
    by blast
  obtain d where d: "create_with_event False False now (retry_row new_id p) ''Retry queued'' db = Inr d"
    using assms(2) by (auto simp: create_with_event_Inr retry_row_def)
  note cr = created_row [OF d]
  have q: "row_of d new_id = Some ((retry_row new_id p)\<lparr>o_created := now, o_updated := now\<rparr>)"
    using cr(1) by (simp add: retry_row_def)
  have idd: "ids_distinct d" using cr(3) assms(1) by simp
  have vis: "visible_to (pr_user pr) include_all ((retry_row new_id p)\<lparr>o_created := now, o_updated := now\<rparr>)"
    using p(2) by (simp add: visible_to_def retry_row_def)
  have "isOk (op_get False new_id (pr_user pr) include_all d)"
    using find_visible [OF idd q] vis by (simp add: op_get_def)
  then have "isOk res" "db' = d"
    using run assms(3-6) p find_visible [OF assms(1) p(1)] by (auto simp: op_retry_def d)
  then show ?thesis using p q row_of_Some [OF p(1)] cr(1,2) by (auto simp: retry_row_def)
next
  case False
  have "\<not> isOk res \<and> db' = db \<and> m' = m"
  proof (cases "row_of db i")
    case None
    then have "find (\<lambda>r. o_id r = i \<and> visible_to (pr_user pr) include_all r) (ops db) = None"
      by (auto simp: row_of_None find_None_iff)
    then show ?thesis using run assms(3) by (auto simp: op_retry_def)
  next
    case (Some p)
    then show ?thesis using run assms(3) False find_visible [OF assms(1) Some]
      by (auto simp: op_retry_def split: if_splits)
  qed
  with False show ?thesis by auto
qed

definition demo_failed :: op_row where
  "demo_failed = (submitted_row ''op1'' demo_input ''E{}'')\<lparr>o_status := StatusFailed, o_retryable := True\<rparr>"

theorem retry_spec_witness:
  "\<exists>m' db' v q. op_retry False \<lparr>sf_create = False, sf_event = False, sf_get = False, sf_pick = False\<rparr> 5 ''op2'' ''op1''
       \<lparr>pr_user = 3, pr_name = ''bob'', pr_role = ''editor''\<rparr> False demo_worker \<lparr>ops = [demo_failed], op_events = [], ev_seq = 0\<rparr>
       = ((m', db'), Inr v) \<and> row_of db' ''op2'' = Some q \<and> o_parent q = ''op1''"
proof -
  let ?db = "\<lparr>ops = [demo_failed], op_events = [], ev_seq = 0\<rparr>"
  let ?sf = "\<lparr>sf_create = False, sf_event = False, sf_get = False, sf_pick = False\<rparr>"
  let ?pr = "\<lparr>pr_user = 3, pr_name = ''bob'', pr_role = ''editor''\<rparr>"
  obtain m' db' res where run: "op_retry False ?sf 5 ''op2'' ''op1'' ?pr False demo_worker ?db = ((m', db'), res)"
    by (metis prod.exhaust)
  have f: "row_of ?db ''op1'' = Some demo_failed" "row_of ?db ''op2'' = None" "ids_distinct ?db"
    by (simp_all add: row_of_def demo_failed_def submitted_row_def ids_distinct_def)
  have v: "visible_to 3 False demo_failed" "o_status demo_failed = StatusFailed" "o_retryable demo_failed"
    by (simp_all add: visible_to_def demo_failed_def submitted_row_def demo_input_def)
  have "isOk res \<and> (\<exists>q. row_of db' ''op2'' = Some q \<and> o_parent q = ''op1'')"
    using retry_spec [OF f(3,2) _ _ _ _ run] f(1) v by auto
  with run show ?thesis by (auto simp: isOk_iff)
qed

text \<open>
  What a failed run shows: the owner reads back the failure's stage, code, message and
  suggestions exactly as the executor gave them (they are stored as JSON), and may retry exactly
  when the failure said so. A reader who neither owns the row nor may see all gets "not found".
\<close>

theorem failure_is_reported:
  assumes "ids_distinct db" "row_of db i = Some r"
  shows "\<exists>r'. op_get False i uid include_all (op_fail False ef now i (Some f) db) =
      (if visible_to uid include_all r then Inr (to_view r' (events_of i (op_fail False ef now i (Some f) db))) else Inl ErrNotFound) \<and>
    v_suggestions (to_view r' es) = (case f_suggestions f of Some ss \<Rightarrow> ss | None \<Rightarrow> []) \<and>
    o_stage r' = f_stage f \<and> o_error_code r' = f_code f \<and> o_error_message r' = f_message f \<and>
    o_status r' = StatusFailed \<and> o_retryable r' = f_retryable f \<and> o_user r' = o_user r"
proof -
  let ?db = "op_fail False ef now i (Some f) db"
  obtain r' where r': "row_of ?db i = Some r'" and
    eq: "o_stage r' = f_stage f" "o_error_code r' = f_code f" "o_error_message r' = f_message f" "o_status r' = StatusFailed"
      "o_retryable r' = f_retryable f" "o_user r' = o_user r" "o_suggestions_json r' = marshal_suggestions (f_suggestions f)"
    using assms(2) by (simp add: row_of_fail)
  have "ids_distinct ?db"
    using assms(1) by (auto simp: ids_distinct_def op_fail_def Let_def)
  from find_visible [OF this r'] have "op_get False i uid include_all ?db =
      (if visible_to uid include_all r then Inr (to_view r' (events_of i ?db)) else Inl ErrNotFound)"
    using eq(6) by (simp add: op_get_def visible_to_def)
  moreover have "unmarshal_strings ''null'' = Some []"
    by (simp add: unmarshal_strings_def skip_ws_def is_ws_def has_prefix_def)
  then have "v_suggestions (to_view r' es) = (case f_suggestions f of Some ss \<Rightarrow> ss | None \<Rightarrow> [])"
    by (simp add: to_view_def eq(7) marshal_suggestions_def unmarshal_marshal split: option.splits)
  ultimately show ?thesis using eq by blast
qed

theorem failure_is_reported_witness:
  "\<exists>r'. v_suggestions (to_view r' []) = [''check the chart''] \<and> o_retryable r' \<and> o_error_code r' = ''TIMEOUT''"
  using failure_is_reported [of "\<lparr>ops = [demo_failed], op_events = [], ev_seq = 0\<rparr>" "''op1''" demo_failed "3" False False "5"
      "\<lparr>f_stage = ''s'', f_code = ''TIMEOUT'', f_message = ''m'', f_suggestions = Some [''check the chart''], f_retryable = True, f_rollback = False\<rparr>" "[]"]
  by (auto simp: ids_distinct_def row_of_def demo_failed_def submitted_row_def)

lemma sorted_take_drop_le:
  "sorted (map f xs) \<Longrightarrow> x \<in> set (take n xs) \<Longrightarrow> y \<in> set (drop n xs) \<Longrightarrow> f x \<le> (f y :: 'a::linorder)"
proof -
  assume "sorted (map f xs)" and x: "x \<in> set (take n xs)" and y: "y \<in> set (drop n xs)"
  then have "sorted (map f (take n xs) @ map f (drop n xs))" by (simp flip: map_append)
  with x y show ?thesis unfolding sorted_append by auto
qed

text \<open>
  Listing: at most the requested number (100 when the request is out of 1..200), only rows
  the reader may see, newest first, and a visible row is left out only when the list is full of
  rows that are at least as new.
\<close>

theorem list_spec:
  assumes "op_list flt uid include_all limit db = Inr vs"
  shows "length vs \<le> (if limit \<le> 0 \<or> 200 < limit then 100 else nat limit) \<and>
    (\<exists>rs. vs = map (\<lambda>r. to_view r (events_of (o_id r) db)) rs \<and> sorted (map (\<lambda>r. - o_created r) rs) \<and>
      (\<forall>r \<in> set rs. r \<in> set (ops db) \<and> visible_to uid include_all r) \<and>
      (\<forall>r \<in> set (ops db). visible_to uid include_all r \<longrightarrow> r \<in> set rs \<or>
         length rs = (if limit \<le> 0 \<or> 200 < limit then 100 else nat limit) \<and> (\<forall>x \<in> set rs. o_created r \<le> o_created x)))"
proof -
  define n where "n = (if limit \<le> 0 \<or> 200 < limit then 100 else nat limit)"
  define ss where "ss = sort_key (\<lambda>r. - o_created r) (filter (visible_to uid include_all) (ops db))"
  have vs: "vs = map (\<lambda>r. to_view r (events_of (o_id r) db)) (take n ss)"
    using assms by (auto simp: op_list_def n_def ss_def Let_def split: if_splits)
  have so: "sorted (map (\<lambda>r. - o_created r) ss)" by (simp add: ss_def)
  have mem: "set ss = {r \<in> set (ops db). visible_to uid include_all r}" by (auto simp: ss_def)
  have "r \<in> set (take n ss) \<or> length (take n ss) = n \<and> (\<forall>x \<in> set (take n ss). o_created r \<le> o_created x)"
    if "r \<in> set ss" for r
  proof (cases "r \<in> set (take n ss)")
    case False
    then have d: "r \<in> set (drop n ss)" using that by (metis Un_iff append_take_drop_id set_append)
    then have "n < length ss" by (cases "n < length ss") auto
    with d show ?thesis using sorted_take_drop_le [OF so _ d] by fastforce
  qed simp
  with mem have all: "\<forall>r \<in> set (ops db). visible_to uid include_all r \<longrightarrow> r \<in> set (take n ss) \<or>
      length (take n ss) = n \<and> (\<forall>x \<in> set (take n ss). o_created r \<le> o_created x)" by blast
  have "sorted (map (\<lambda>r. - o_created r) (take n ss))" using so by (metis sorted_wrt_take take_map)
  moreover have "\<forall>r \<in> set (take n ss). r \<in> set (ops db) \<and> visible_to uid include_all r"
    using mem by (auto dest: in_set_takeD)
  moreover have "length vs \<le> n" by (simp add: vs)
  ultimately show ?thesis using all unfolding n_def [symmetric]
    by (intro conjI exI [of _ "take n ss"]) (simp_all only: vs)
qed

theorem list_spec_witness:
  "\<exists>vs. op_list False 3 False 0 \<lparr>ops = [demo_failed], op_events = [], ev_seq = 0\<rparr> = Inr vs \<and> length vs \<le> 100"
proof -
  obtain vs where "op_list False 3 False 0 \<lparr>ops = [demo_failed], op_events = [], ev_seq = 0\<rparr> = Inr vs"
    by (simp add: op_list_def Let_def)
  with list_spec [OF this] show ?thesis by auto
qed

text \<open>
  Recovery: of the rows marked running, exactly those without a heartbeat in the last thirty
  seconds become failed, completed now and not retryable; every other row keeps all its fields.
\<close>

theorem recovery_spec:
  assumes "recover_stale flt now db = Inr db'" "row_of db i = Some r"
  shows "\<exists>r'. row_of db' i = Some r' \<and>
    (if o_status r = StatusRunning \<and> (\<forall>h. o_heartbeat r = Some h \<longrightarrow> h < now - 30 * second)
     then o_status r' = StatusFailed \<and> o_completed r' = Some now \<and> \<not> o_retryable r' \<and> o_worker r' = [] \<and>
          o_error_code r' = ''OPERATION_INTERRUPTED'' \<and> o_payload_enc r' = o_payload_enc r
     else r' = r)"
  using assms by (auto simp: recover_stale_def stale_worker_after_def split: if_splits option.splits)

theorem recovery_spec_witness:
  "\<exists>db' r'. recover_stale False (60 * second) \<lparr>ops = [demo_failed\<lparr>o_status := StatusRunning\<rparr>], op_events = [], ev_seq = 0\<rparr> = Inr db' \<and>
     row_of db' ''op1'' = Some r' \<and> o_status r' = StatusFailed"
proof -
  let ?db = "\<lparr>ops = [demo_failed\<lparr>o_status := StatusRunning\<rparr>], op_events = [], ev_seq = 0\<rparr>"
  have r: "row_of ?db ''op1'' = Some (demo_failed\<lparr>o_status := StatusRunning\<rparr>)"
    by (simp add: row_of_def demo_failed_def submitted_row_def)
  obtain db' where d: "recover_stale False (60 * second) ?db = Inr db'" by (simp add: recover_stale_def)
  with recovery_spec [OF d r] show ?thesis by (auto simp: demo_failed_def submitted_row_def)
qed

lemma filter_row_of:
  "ids_distinct db \<Longrightarrow> find (\<lambda>r. o_id r = i) (filter p (ops db)) = (case row_of db i of Some r \<Rightarrow> if p r then Some r else None | None \<Rightarrow> None)"
proof -
  have "distinct (map o_id xs) \<Longrightarrow> find (\<lambda>r. o_id r = i) (filter p xs) =
      (case find (\<lambda>r. o_id r = i) xs of Some r \<Rightarrow> if p r then Some r else None | None \<Rightarrow> None)" for xs
  proof (induction xs)
    case (Cons a xs)
    show ?case
    proof (cases "o_id a = i")
      case True
      then have "find (\<lambda>r. o_id r = i) xs = None" "find (\<lambda>r. o_id r = i) (filter p xs) = None"
        using Cons.prems by (auto simp: find_None_iff) (metis image_eqI)+
      with True show ?thesis by simp
    qed (use Cons in simp)
  qed simp
  then show "ids_distinct db \<Longrightarrow> ?thesis" by (simp add: ids_distinct_def row_of_def)
qed

text \<open>
  Cleanup removes an operation together with its whole history exactly when it completed more
  than thirty days ago; the others, and all that is still queued or running, keep row and history.
\<close>

theorem cleanup_spec:
  assumes "ids_distinct db" "row_of db i = Some r"
  shows "let db' = cleanup_completed False False now db;
             old = (\<exists>c. o_completed r = Some c \<and> c < now - 30 * 24 * hour)
    in row_of db' i = (if old then None else Some r) \<and> history db' i = (if old then [] else history db i)"
proof -
  let ?cut = "now - history_retention"
  have old: "old_operation ?cut r \<longleftrightarrow> (\<exists>c. o_completed r = Some c \<and> c < now - 30 * 24 * hour)"
    by (auto simp: old_operation_def history_retention_def split: option.splits)
  have mem: "i \<in> o_id ` {x \<in> set (ops db). old_operation ?cut x} \<longleftrightarrow> old_operation ?cut r"
  proof
    assume "i \<in> o_id ` {x \<in> set (ops db). old_operation ?cut x}"
    then obtain x where "x \<in> set (ops db)" "o_id x = i" "old_operation ?cut x" by auto
    with row_of_in [OF assms(1)] assms(2) show "old_operation ?cut r" by fastforce
  qed (use row_of_Some [OF assms(2)] in auto)
  have "row_of (cleanup_completed False False now db) i = (if old_operation ?cut r then None else Some r)"
    using filter_row_of [OF assms(1)] assms(2) by (simp add: row_of_def cleanup_completed_def Let_def)
  moreover have "history (cleanup_completed False False now db) i = (if old_operation ?cut r then [] else history db i)"
    using mem by (auto simp: history_def cleanup_completed_def Let_def intro: filter_False arg_cong [where f = "map _"] filter_cong)
  ultimately show ?thesis unfolding Let_def old [symmetric] by blast
qed

theorem cleanup_spec_witness:
  "row_of (cleanup_completed False False (40 * 24 * hour) \<lparr>ops = [demo_failed\<lparr>o_completed := Some 0\<rparr>], op_events = [], ev_seq = 0\<rparr>) ''op1'' = None"
proof -
  let ?db = "\<lparr>ops = [demo_failed\<lparr>o_completed := Some 0\<rparr>], op_events = [], ev_seq = 0\<rparr>"
  have "ids_distinct ?db" "row_of ?db ''op1'' = Some (demo_failed\<lparr>o_completed := Some 0\<rparr>)"
    by (simp_all add: ids_distinct_def row_of_def demo_failed_def submitted_row_def)
  from cleanup_spec [OF this, of "40 * 24 * hour"] show ?thesis by (simp add: Let_def duration_defs)
qed

lemma enqueue_all:
  assumes "m_started m" "m_ctx m = Some False" "length (m_queue m) \<le> queue_size"
  shows "m_queue (fold (enqueue pick) xs m) = m_queue m @ take (queue_size - length (m_queue m)) xs \<and>
    m_started (fold (enqueue pick) xs m) \<and> m_ctx (fold (enqueue pick) xs m) = Some False"
  using assms
proof (induction xs arbitrary: m)
  case (Cons x xs)
  show ?case
  proof (cases "length (m_queue m) < queue_size")
    case True
    then have e: "enqueue pick x m = m\<lparr>m_queue := m_queue m @ [x]\<rparr>" using Cons.prems by (simp add: enqueue_def)
    obtain k where k: "queue_size - length (m_queue m) = Suc k" using True by (metis Suc_diff_Suc)
    then have "queue_size - Suc (length (m_queue m)) = k" by simp
    with Cons.IH [of "m\<lparr>m_queue := m_queue m @ [x]\<rparr>"] Cons.prems True k show ?thesis by (simp add: e)
  next
    case False
    then have "enqueue pick x m = m" using Cons.prems by (simp add: enqueue_def)
    with Cons False show ?thesis by simp
  qed
qed simp

text \<open>
  The dispatcher: the in-memory queue never exceeds 256 entries, and after it has loaded the
  queued rows each of them is in the queue unless the queue is full. An operation that was
  dropped for lack of room is thus picked up again once there is room.
\<close>

theorem dispatch_spec:
  assumes "m_started m" "m_ctx m = Some False" "length (m_queue m) \<le> 256"
  shows "let m' = load_queued False pick db m in length (m_queue m') \<le> 256 \<and>
    (\<forall>r \<in> set (ops db). o_status r = StatusQueued \<longrightarrow> o_id r \<in> set (m_queue m') \<or> length (m_queue m') = 256)"
proof -
  define qs where "qs = sort_key o_created (filter (\<lambda>r. o_status r = StatusQueued) (ops db))"
  have q: "m_queue (load_queued False pick db m) =
      m_queue m @ take (queue_size - length (m_queue m)) (map o_id (take queue_size qs))"
    using enqueue_all [OF assms(1,2)] assms(3) by (simp add: load_queued_def queue_size_def qs_def)
  have "o_id r \<in> set (m_queue (load_queued False pick db m)) \<or> length (m_queue (load_queued False pick db m)) = 256"
    if "r \<in> set (ops db)" "o_status r = StatusQueued" for r
  proof (cases "queue_size - length (m_queue m) < length qs")
    case True
    then show ?thesis using assms(3) by (simp add: q queue_size_def)
  next
    case False
    moreover have "r \<in> set qs" using that by (simp add: qs_def)
    ultimately show ?thesis by (simp add: q queue_size_def take_map)
  qed
  moreover have "length (m_queue (load_queued False pick db m)) \<le> 256"
    using assms(3) by (simp add: q queue_size_def)
  ultimately show ?thesis by (simp add: Let_def)
qed

theorem dispatch_spec_witness:
  "''op1'' \<in> set (m_queue (load_queued False False \<lparr>ops = [submitted_row ''op1'' demo_input []], op_events = [], ev_seq = 0\<rparr> demo_worker))"
  using dispatch_spec [of demo_worker False "\<lparr>ops = [submitted_row ''op1'' demo_input []], op_events = [], ev_seq = 0\<rparr>"]
  by (simp add: Let_def demo_worker_def new_manager_def submitted_row_def load_queued_def enqueue_def queue_size_def)

end
