(* ===== verification/Operation_Steps.thy ===== *)
theory Operation_Steps
  imports Operations
begin

text \<open>
  Interleaving: any number of manager processes (each with its worker id and two workers) share
  one store. A step of \<open>op_step\<close> is one call of the API, one database statement of a worker with
  the event it records, or one tick of the background loops; steps of different workers
  interleave freely, may fail, and a worker may vanish at any point (crash, shutdown).
  A job is an operation some worker is busy with. \<open>sy_used\<close> is the set of ids drawn so far:
  \<open>uuid.NewString\<close> does not repeat an id.
\<close>

datatype 'r phase = Loading | Executing "report list" "failure + 'r option"

record 'r job =
  j_worker :: string
  j_op :: string
  j_phase :: "'r phase"

record 'r sys =
  sy_db :: op_db
  sy_jobs :: "'r job list"
  sy_used :: "string list"
  sy_now :: gotime

datatype label =
    LSubmit string | LRetry string string | LClaim string string
  | LInvoke string principal string | LReport string | LEnd string
  | LAbandon string | LBeat string | LRecover | LCleanup | LTick

inductive op_step :: "('p, 'r) op_env \<Rightarrow> 'r sys \<Rightarrow> label \<Rightarrow> 'r sys \<Rightarrow> bool" for env :: "('p, 'r) op_env" where
  submit: "op_submit env sf (sy_now s) i inp m (sy_db s) = ((m', db'), res) \<Longrightarrow> i \<notin> set (sy_used s) \<Longrightarrow>
    op_step env s (LSubmit i) (s\<lparr>sy_db := db', sy_used := i # sy_used s\<rparr>)"
| retry: "op_retry flt sf (sy_now s) i old pr include_all (m :: 'r manager) (sy_db s) = ((m', db'), res) \<Longrightarrow> i \<notin> set (sy_used s) \<Longrightarrow>
    op_step env s (LRetry old i) (s\<lparr>sy_db := db', sy_used := i # sy_used s\<rparr>)"
| claim: "op_claim flt (sy_now s) w i (sy_db s) = (db', n) \<Longrightarrow> n \<noteq> 0 \<Longrightarrow> w \<noteq> [] \<Longrightarrow>
    op_step env s (LClaim w i) (s\<lparr>sy_db := db', sy_jobs := \<lparr>j_worker = w, j_op = i, j_phase = Loading\<rparr> # sy_jobs s\<rparr>)"
| load_failed: "sy_jobs s = xs @ \<lparr>j_worker = w, j_op = i, j_phase = Loading\<rparr> # ys \<Longrightarrow>
    op_step env s (LEnd i) (s\<lparr>sy_db := op_fail fa fb (sy_now s) i (Some load_failure) (sy_db s), sy_jobs := xs @ ys\<rparr>)"
| refused: "sy_jobs s = xs @ \<lparr>j_worker = w, j_op = i, j_phase = Loading\<rparr> # ys \<Longrightarrow>
    load_claimed_operation flt cd i (sy_db s) = Inr r \<Longrightarrow> op_prepare env m ufl users r = Inl f \<Longrightarrow>
    op_step env s (LEnd i)
      (s\<lparr>sy_db := op_fail fa fb (sy_now s) i (Some f)
           (append_event fc (sy_now s) i ''preparing'' StatusRunning ''Preparing operation'' 5 (sy_db s)), sy_jobs := xs @ ys\<rparr>)"
| invoke: "sy_jobs s = xs @ \<lparr>j_worker = w, j_op = i, j_phase = Loading\<rparr> # ys \<Longrightarrow>
    load_claimed_operation flt cd i (sy_db s) = Inr r \<Longrightarrow> op_prepare env m ufl users r = Inr (p, plain, ex) \<Longrightarrow>
    ex p plain = (reps, out) \<Longrightarrow>
    op_step env s (LInvoke i p plain)
      (s\<lparr>sy_db := append_event fc (sy_now s) i ''preparing'' StatusRunning ''Preparing operation'' 5 (sy_db s),
         sy_jobs := xs @ \<lparr>j_worker = w, j_op = i, j_phase = Executing reps out\<rparr> # ys\<rparr>)"
| report: "sy_jobs s = xs @ \<lparr>j_worker = w, j_op = i, j_phase = Executing (rp # reps) out\<rparr> # ys \<Longrightarrow>
    op_step env s (LReport i)
      (s\<lparr>sy_db := op_report fa fb (sy_now s) i rp (sy_db s),
         sy_jobs := xs @ \<lparr>j_worker = w, j_op = i, j_phase = Executing reps out\<rparr> # ys\<rparr>)"
| failed: "sy_jobs s = xs @ \<lparr>j_worker = w, j_op = i, j_phase = Executing [] (Inl f)\<rparr> # ys \<Longrightarrow>
    op_step env s (LEnd i) (s\<lparr>sy_db := op_fail fa fb (sy_now s) i (Some f) (sy_db s), sy_jobs := xs @ ys\<rparr>)"
| succeeded: "sy_jobs s = xs @ \<lparr>j_worker = w, j_op = i, j_phase = Executing [] (Inr res)\<rparr> # ys \<Longrightarrow>
    op_step env s (LEnd i)
      (s\<lparr>sy_db := op_succeed fa fb (sy_now s) i (encode_result env res) (sy_db s), sy_jobs := xs @ ys\<rparr>)"
| abandon: "sy_jobs s = xs @ j # ys \<Longrightarrow> op_step env s (LAbandon (j_op j)) (s\<lparr>sy_jobs := xs @ ys\<rparr>)"
| beat: "sy_jobs s = xs @ \<lparr>j_worker = w, j_op = i, j_phase = Executing reps out\<rparr> # ys \<Longrightarrow>
    op_step env s (LBeat i) (s\<lparr>sy_db := op_heartbeat (sy_now s) w i (sy_db s)\<rparr>)"
| recover: "recover_stale flt (sy_now s) (sy_db s) = Inr db' \<Longrightarrow> op_step env s LRecover (s\<lparr>sy_db := db'\<rparr>)"
| cleanup: "op_step env s LCleanup (s\<lparr>sy_db := cleanup_completed fa fb (sy_now s) (sy_db s)\<rparr>)"
| tick: "sy_now s \<le> t \<Longrightarrow> op_step env s LTick (s\<lparr>sy_now := t\<rparr>)"

inductive op_run :: "('p, 'r) op_env \<Rightarrow> 'r sys \<Rightarrow> label list \<Rightarrow> 'r sys \<Rightarrow> bool" for env :: "('p, 'r) op_env" where
  none: "op_run env s [] s"
| more: "op_run env s tr s' \<Longrightarrow> op_step env s' l s'' \<Longrightarrow> op_run env s (tr @ [l]) s''"

definition initial_sys :: "gotime \<Rightarrow> 'r sys" where
  "initial_sys t = \<lparr>sy_db = empty_op_db, sy_jobs = [], sy_used = [], sy_now = t\<rparr>"

section \<open>Counting\<close>

fun is_claim :: "string \<Rightarrow> label \<Rightarrow> bool" where
  "is_claim i (LClaim w j) = (j = i)"
| "is_claim i l = False"

fun is_invoke :: "string \<Rightarrow> label \<Rightarrow> bool" where
  "is_invoke i (LInvoke j p s) = (j = i)"
| "is_invoke i l = False"

definition claims :: "label list \<Rightarrow> string \<Rightarrow> nat" where
  "claims tr i = length (filter (is_claim i) tr)"

definition invocations :: "label list \<Rightarrow> string \<Rightarrow> nat" where
  "invocations tr i = length (filter (is_invoke i) tr)"

definition loading_of :: "'r job list \<Rightarrow> string \<Rightarrow> nat" where
  "loading_of js i = length (filter (\<lambda>j. j_op j = i \<and> j_phase j = Loading) js)"

lemma count_simps [simp]:
  "claims [] i = 0" "claims (tr @ [l]) i = claims tr i + (if is_claim i l then 1 else 0)"
  "invocations [] i = 0" "invocations (tr @ [l]) i = invocations tr i + (if is_invoke i l then 1 else 0)"
  "loading_of [] i = 0"
  "loading_of (j # js) i = (if j_op j = i \<and> j_phase j = Loading then 1 else 0) + loading_of js i"
  "loading_of (js @ js') i = loading_of js i + loading_of js' i"
  by (simp_all add: claims_def invocations_def loading_of_def)

section \<open>Rows in a consistent state\<close>

definition is_terminal :: "string \<Rightarrow> bool" where
  "is_terminal st \<longleftrightarrow> st = StatusSucceeded \<or> st = StatusFailed"

definition row_ok :: "op_row \<Rightarrow> bool" where
  "row_ok r \<longleftrightarrow>
     (is_active (o_status r) \<or> is_terminal (o_status r)) \<and>
     (o_status r = StatusQueued \<longleftrightarrow> o_started r = None) \<and>
     (is_terminal (o_status r) \<longleftrightarrow> o_completed r \<noteq> None) \<and>
     0 \<le> o_progress r \<and> o_progress r \<le> 100 \<and>
     (o_status r = StatusQueued \<longrightarrow> o_progress r = 0) \<and>
     (o_status r = StatusRunning \<longleftrightarrow> o_worker r \<noteq> []) \<and>
     (o_status r = StatusRunning \<longleftrightarrow> o_heartbeat r \<noteq> None)"

lemmas row_ok_defs = row_ok_def is_terminal_def is_active_def

definition sys_inv :: "label list \<Rightarrow> 'r sys \<Rightarrow> bool" where
  "sys_inv tr s \<longleftrightarrow> ids_distinct (sy_db s) \<and>
     (\<forall>i r. row_of (sy_db s) i = Some r \<longrightarrow> i \<in> set (sy_used s) \<and> row_ok r \<and> (0 < claims tr i \<longrightarrow> o_status r \<noteq> StatusQueued)) \<and>
     (\<forall>i. claims tr i \<le> 1 \<and> invocations tr i + loading_of (sy_jobs s) i \<le> claims tr i \<and>
          (0 < claims tr i \<longrightarrow> i \<in> set (sy_used s))) \<and>
     (\<forall>j \<in> set (sy_jobs s). 0 < claims tr (j_op j))"

text \<open>A change of the store that keeps the invariant, for steps that neither claim nor invoke.\<close>

definition db_refines :: "label list \<Rightarrow> op_db \<Rightarrow> op_db \<Rightarrow> bool" where
  "db_refines tr db db' \<longleftrightarrow> (ids_distinct db \<longrightarrow> ids_distinct db' \<and>
     (\<forall>i r'. row_of db' i = Some r' \<longrightarrow> (\<exists>r. row_of db i = Some r \<and>
        (row_ok r \<and> (0 < claims tr i \<longrightarrow> o_status r \<noteq> StatusQueued) \<longrightarrow>
         row_ok r' \<and> (o_status r' = StatusQueued \<longrightarrow> o_status r = StatusQueued)))))"

lemma ids_distinct_update [simp]:
  "(\<And>r. o_id (f r) = o_id r) \<Longrightarrow> ids_distinct (op_update_where now p f db) = ids_distinct db"
  by (simp add: ids_distinct_def)

lemma ids_distinct_event [simp]: "ids_distinct (append_event flt now i st status msg pr db) = ids_distinct db"
  by (simp add: ids_distinct_def)

lemma refinesI:
  assumes "ids_distinct db' = ids_distinct db" "\<And>i. row_of db' i = map_option (h i) (row_of db i)"
    and "\<And>i r. row_ok r \<Longrightarrow> 0 < claims tr i \<longrightarrow> o_status r \<noteq> StatusQueued \<Longrightarrow>
       row_ok (h i r) \<and> (o_status (h i r) = StatusQueued \<longrightarrow> o_status r = StatusQueued)"
  shows "db_refines tr db db'"
  unfolding db_refines_def
proof (intro impI conjI allI)
  fix i r'
  assume "row_of db' i = Some r'"
  then obtain r where r: "row_of db i = Some r" "r' = h i r" using assms(2) by auto
  with assms(3) show "\<exists>r. row_of db i = Some r \<and> (row_ok r \<and> (0 < claims tr i \<longrightarrow> o_status r \<noteq> StatusQueued) \<longrightarrow>
         row_ok r' \<and> (o_status r' = StatusQueued \<longrightarrow> o_status r = StatusQueued))"
    by blast
qed (use assms(1) in simp)

lemma refinesD:
  assumes "db_refines tr db db'" "ids_distinct db"
  shows "ids_distinct db'"
    and "row_of db' i = Some r' \<Longrightarrow> \<exists>r. row_of db i = Some r \<and>
      (row_ok r \<and> (0 < claims tr i \<longrightarrow> o_status r \<noteq> StatusQueued) \<longrightarrow>
         row_ok r' \<and> (o_status r' = StatusQueued \<longrightarrow> o_status r = StatusQueued))"
  using assms unfolding db_refines_def by blast+

lemma sys_invD:
  assumes "sys_inv tr s"
  shows "ids_distinct (sy_db s)"
    and "row_of (sy_db s) i = Some r \<Longrightarrow> i \<in> set (sy_used s)"
    and "row_of (sy_db s) i = Some r \<Longrightarrow> row_ok r"
    and "row_of (sy_db s) i = Some r \<Longrightarrow> 0 < claims tr i \<longrightarrow> o_status r \<noteq> StatusQueued"
    and "claims tr i \<le> 1" "invocations tr i + loading_of (sy_jobs s) i \<le> claims tr i"
    and "0 < claims tr i \<Longrightarrow> i \<in> set (sy_used s)"
    and "j \<in> set (sy_jobs s) \<Longrightarrow> 0 < claims tr (j_op j)"
  using assms unfolding sys_inv_def by blast+

lemma refines_refl: "db_refines tr db db"
  unfolding db_refines_def by blast

lemma refines_event_then:
  "db_refines tr (append_event flt now i st status msg pr db) db' \<Longrightarrow> db_refines tr db db'"
  unfolding db_refines_def by simp

lemma refines_event: "db_refines tr db (append_event flt now i st status msg pr db)"
  unfolding db_refines_def row_of_event ids_distinct_event by blast

lemma row_ok_terminal:
  assumes "row_ok r" "o_status r \<noteq> StatusQueued" "is_terminal st" "o_status r' = st" "o_started r' = o_started r"
    "o_completed r' \<noteq> None" "o_progress r' = 100" "o_worker r' = []" "o_heartbeat r' = None"
  shows "row_ok r' \<and> o_status r' \<noteq> StatusQueued"
proof -
  have "o_started r' \<noteq> None" using assms(1,2,5) unfolding row_ok_def by simp
  moreover have "st \<noteq> StatusQueued" "st \<noteq> StatusRunning" using assms(3) by (auto simp: is_terminal_def)
  ultimately show ?thesis using assms(3-9) unfolding row_ok_def by simp
qed

lemma refines_fail: "0 < claims tr i \<Longrightarrow> db_refines tr db (op_fail f1 f2 now i (Some f) db)"
proof (rule refinesI [OF _ row_of_fail], goal_cases)
  case 1
  show ?case by (simp add: op_fail_def Let_def)
next
  case (2 k r)
  then show ?case using row_ok_terminal [of r StatusFailed] by (simp add: is_terminal_def)
qed

lemma refines_succeed: "0 < claims tr i \<Longrightarrow> db_refines tr db (op_succeed f1 f2 now i j db)"
proof (rule refinesI [OF _ row_of_succeed], goal_cases)
  case 1
  show ?case by (simp add: op_succeed_def Let_def)
next
  case (2 k r)
  then show ?case using row_ok_terminal [of r StatusSucceeded] by (simp add: is_terminal_def)
qed

lemma refines_report: "0 < claims tr i \<Longrightarrow> db_refines tr db (op_report f1 f2 now i (st, msg, p) db)"
proof (rule refinesI [OF _ row_of_report], goal_cases)
  case 1
  show ?case by (simp add: op_report_def Let_def)
next
  case (2 k r)
  with clamp_bounds [of p] show ?case by (auto simp: row_ok_def)
qed

lemma row_of_heartbeat:
  "row_of (op_heartbeat now w i db) k = map_option (\<lambda>r. if o_id r = i \<and> o_status r = StatusRunning \<and> o_worker r = w
     then r\<lparr>o_heartbeat := Some now, o_updated := now\<rparr> else r) (row_of db k)"
  by (simp add: op_heartbeat_def)

lemma refines_heartbeat: "db_refines tr db (op_heartbeat now w i db)"
proof (rule refinesI [OF _ row_of_heartbeat], goal_cases)
  case 1
  show ?case by (simp add: op_heartbeat_def)
next
  case (2 k r)
  then show ?case by (auto simp: row_ok_def)
qed

lemma row_of_recover:
  "recover_stale flt now db = Inr db' \<Longrightarrow> row_of db' k = map_option
     (\<lambda>r. if o_status r = StatusRunning \<and> (case o_heartbeat r of None \<Rightarrow> True | Some h \<Rightarrow> h < now - stale_worker_after)
      then r\<lparr>o_status := StatusFailed, o_stage := ''interrupted'', o_progress := 100,
              o_error_code := ''OPERATION_INTERRUPTED'',
              o_error_message := ''The server stopped while this operation was running'',
              o_retryable := False, o_completed := Some now, o_worker := [], o_heartbeat := None, o_updated := now\<rparr>
      else r) (row_of db k)"
  by (auto simp: recover_stale_def split: if_splits)

lemma refines_recover:
  assumes "recover_stale flt now db = Inr db'"
  shows "db_refines tr db db'"
proof (rule refinesI [OF _ row_of_recover [OF assms]], goal_cases)
  case 1
  from assms show ?case by (auto simp: recover_stale_def split: if_splits)
next
  case (2 k r)
  then show ?case using row_ok_terminal [of r StatusFailed] by (simp add: is_terminal_def)
qed

lemma refines_cleanup: "db_refines tr db (cleanup_completed f1 f2 now db)"
proof -
  have "ids_distinct (cleanup_completed f1 f2 now db)" if "ids_distinct db"
    using that by (auto simp: ids_distinct_def cleanup_completed_def Let_def intro: distinct_map_filter)
  moreover have "row_of db i = Some r'" if "ids_distinct db" "row_of (cleanup_completed f1 f2 now db) i = Some r'" for i r'
    using that(2) filter_row_of [OF that(1)]
    by (simp add: cleanup_completed_def Let_def row_of_def split: option.splits if_splits)
  ultimately show ?thesis unfolding db_refines_def by blast
qed

lemma inv_refines:
  assumes "sys_inv tr s" "db_refines tr (sy_db s) db'"
    and "\<And>k. \<not> is_claim k l" "\<And>k. (if is_invoke k l then 1 else 0) + loading_of js k \<le> loading_of (sy_jobs s) k"
    and "\<And>j. j \<in> set js \<Longrightarrow> \<exists>j' \<in> set (sy_jobs s). j_op j' = j_op j"
  shows "sys_inv (tr @ [l]) (s\<lparr>sy_db := db', sy_jobs := js, sy_now := t\<rparr>)"
  unfolding sys_inv_def
proof (intro conjI allI ballI impI)
  note inv = assms(1) [unfolded sys_inv_def]
  show "ids_distinct (sy_db (s\<lparr>sy_db := db', sy_jobs := js, sy_now := t\<rparr>))"
    using inv assms(2) by (simp add: db_refines_def)
  fix i
  show "claims (tr @ [l]) i \<le> 1" using inv assms(3) by simp
  have "invocations tr i + loading_of (sy_jobs s) i \<le> claims tr i" using inv by blast
  with assms(4) [of i] show "invocations (tr @ [l]) i + loading_of (sy_jobs (s\<lparr>sy_db := db', sy_jobs := js, sy_now := t\<rparr>)) i
      \<le> claims (tr @ [l]) i"
    by simp
  show "i \<in> set (sy_used (s\<lparr>sy_db := db', sy_jobs := js, sy_now := t\<rparr>))" if "0 < claims (tr @ [l]) i"
    using inv that assms(3) by simp
next
  fix i r'
  assume r': "row_of (sy_db (s\<lparr>sy_db := db', sy_jobs := js, sy_now := t\<rparr>)) i = Some r'"
  then have "row_of db' i = Some r'" by simp
  from refinesD(2) [OF assms(2) sys_invD(1) [OF assms(1)] this] obtain r where r: "row_of (sy_db s) i = Some r" and
    step: "row_ok r \<and> (0 < claims tr i \<longrightarrow> o_status r \<noteq> StatusQueued) \<longrightarrow>
         row_ok r' \<and> (o_status r' = StatusQueued \<longrightarrow> o_status r = StatusQueued)"
    by blast
  note sys_invD(2-4) [OF assms(1) r]
  with step assms(3) show "i \<in> set (sy_used (s\<lparr>sy_db := db', sy_jobs := js, sy_now := t\<rparr>))" "row_ok r'"
    "0 < claims (tr @ [l]) i \<Longrightarrow> o_status r' \<noteq> StatusQueued"
    by auto
next
  fix j
  assume "j \<in> set (sy_jobs (s\<lparr>sy_db := db', sy_jobs := js, sy_now := t\<rparr>))"
  with assms(5) obtain j' where j': "j' \<in> set (sy_jobs s)" "j_op j' = j_op j" by auto
  from assms(1) j'(1) have "0 < claims tr (j_op j')" unfolding sys_inv_def by blast
  then show "0 < claims (tr @ [l]) (j_op j)" by (simp add: j'(2))
qed

definition new_row :: "string \<Rightarrow> op_db \<Rightarrow> op_db \<Rightarrow> bool" where
  "new_row i db db' \<longleftrightarrow> db' = db \<or> (\<exists>f1 f2 now r msg. create_with_event f1 f2 now r msg db = Inr db' \<and> o_id r = i \<and>
     row_ok r \<and> o_status r = StatusQueued)"

lemma submitted_row_ok: "row_ok (submitted_row i inp enc)" "row_ok (retry_row i p)"
  by (simp_all add: row_ok_defs submitted_row_def retry_row_def)

lemma submit_new_row: "op_submit env sf now i inp m db = ((m', db'), res) \<Longrightarrow> new_row i db db'"
  using submitted_row_ok(1) [of i inp]
  by (fastforce simp: op_submit_def new_row_def submitted_row_def split: option.splits sum.splits)

lemma retry_new_row:
  assumes "op_retry flt sf now i old pr include_all m db = ((m', db'), res)"
  shows "new_row i db db'"
proof (rule disjE [of "db' = db"])
  show "db' = db \<or> (\<exists>p. create_with_event (sf_create sf) (sf_event sf) now (retry_row i p) ''Retry queued'' db = Inr db')"
    using assms by (auto simp: op_retry_def split: if_splits option.splits sum.splits)
next
  assume "\<exists>p. create_with_event (sf_create sf) (sf_event sf) now (retry_row i p) ''Retry queued'' db = Inr db'"
  then obtain p where "create_with_event (sf_create sf) (sf_event sf) now (retry_row i p) ''Retry queued'' db = Inr db'" ..
  moreover have "o_id (retry_row i p) = i" "o_status (retry_row i p) = StatusQueued" by (simp_all add: retry_row_def)
  ultimately show ?thesis unfolding new_row_def using submitted_row_ok(2) by blast
qed (simp add: new_row_def)

lemma new_row_cases:
  assumes "new_row i db db'"
  shows "ids_distinct db' = ids_distinct db" and "k \<noteq> i \<Longrightarrow> row_of db' k = row_of db k"
    and "row_of db' i = row_of db i \<or> (\<exists>r. row_of db' i = Some r \<and> row_ok r \<and> o_status r = StatusQueued)"
proof -
  have "ids_distinct db' = ids_distinct db \<and> (k \<noteq> i \<longrightarrow> row_of db' k = row_of db k) \<and>
     (row_of db' i = row_of db i \<or> (\<exists>r. row_of db' i = Some r \<and> row_ok r \<and> o_status r = StatusQueued))"
  proof (cases "db' = db")
    case False
    then obtain f1 f2 now r msg where c: "create_with_event f1 f2 now r msg db = Inr db'" "o_id r = i" "row_ok r" "o_status r = StatusQueued"
      using assms unfolding new_row_def by blast
    have "row_ok (r\<lparr>o_created := now, o_updated := now\<rparr>)" using c(3) by (auto simp: row_ok_def)
    with created_row(1,3) [OF c(1)] c(2,4) show ?thesis by simp
  qed simp
  then show "ids_distinct db' = ids_distinct db" "k \<noteq> i \<Longrightarrow> row_of db' k = row_of db k"
    "row_of db' i = row_of db i \<or> (\<exists>r. row_of db' i = Some r \<and> row_ok r \<and> o_status r = StatusQueued)"
    by blast+
qed

lemma inv_new_row:
  assumes inv: "sys_inv tr s" and fresh: "i \<notin> set (sy_used s)" and new: "new_row i (sy_db s) db'"
    and l: "\<And>k. \<not> is_claim k l" "\<And>k. \<not> is_invoke k l"
  shows "sys_inv (tr @ [l]) (s\<lparr>sy_db := db', sy_used := i # sy_used s\<rparr>)"
proof -
  note D = sys_invD [OF inv]
  have c0: "claims tr i = 0" using D(7) fresh by blast
  have "k \<in> set (i # sy_used s) \<and> row_ok r \<and> (0 < claims tr k \<longrightarrow> o_status r \<noteq> StatusQueued)"
    if "row_of db' k = Some r" for k r
  proof (cases "k = i")
    case True
    then show ?thesis using new_row_cases(3) [OF new] that D(2,3) c0 by auto
  next
    case False
    then have "row_of (sy_db s) k = Some r" using new_row_cases(2) [OF new False] that by simp
    with D(2-4) show ?thesis by simp
  qed
  then show ?thesis
    unfolding sys_inv_def using new_row_cases(1) [OF new] D(1,5-8) l by (simp add: le_Suc_eq)
qed

lemma inv_claim:
  assumes inv: "sys_inv tr s" and claim: "op_claim flt now w i (sy_db s) = (db', n)" and n: "n \<noteq> 0" and w: "w \<noteq> []"
  shows "sys_inv (tr @ [LClaim w i])
    (s\<lparr>sy_db := db', sy_jobs := \<lparr>j_worker = w, j_op = i, j_phase = Loading\<rparr> # sy_jobs s\<rparr>)"
proof -
  note D = sys_invD [OF inv]
  have db': "db' = fst (op_claim flt now w i (sy_db s))" using claim by simp
  obtain r0 where r0: "\<not> flt" "row_of (sy_db s) i = Some r0" "o_status r0 = StatusQueued"
    using claim_affected [OF D(1), of flt now w i] claim n by auto
  have c0: "claims tr i = 0" using D(4) [OF r0(2)] r0(3) by simp
  have row: "k \<in> set (sy_used s) \<and> row_ok r \<and> (0 < claims tr k \<or> k = i \<longrightarrow> o_status r \<noteq> StatusQueued)"
    if "row_of db' k = Some r" for k r
  proof (cases "k = i")
    case True
    have "row_ok r0" "i \<in> set (sy_used s)" using D(2,3) r0(2) by blast+
    with that r0 w show ?thesis unfolding db' row_of_claim True by (auto simp: row_ok_defs)
  next
    case False
    then have "row_of (sy_db s) k = Some r" using that unfolding db' row_of_claim by (auto simp: option.map_ident)
    with False D(2-4) show ?thesis by blast
  qed
  have i0: "invocations tr i + loading_of (sy_jobs s) i = 0" using D(6) [of i] c0 by simp
  have used: "i \<in> set (sy_used s)" using D(2) r0(2) .
  have "ids_distinct db'" using D(1) unfolding db' by simp
  moreover have "claims (tr @ [LClaim w i]) k \<le> 1" for k using D(5) [of k] c0 by auto
  moreover have "invocations (tr @ [LClaim w i]) k + loading_of (\<lparr>j_worker = w, j_op = i, j_phase = Loading\<rparr> # sy_jobs s) k
      \<le> claims (tr @ [LClaim w i]) k" for k
    using D(6) [of k] i0 c0 by auto
  moreover have "0 < claims (tr @ [LClaim w i]) (j_op j)" if "j \<in> set (sy_jobs s)" for j using D(8) [OF that] by simp
  moreover have "0 < claims (tr @ [LClaim w i]) k \<Longrightarrow> k \<in> set (sy_used s)" for k
    using D(7) [of k] used by (auto split: if_splits)
  ultimately show ?thesis unfolding sys_inv_def using row by auto
qed

lemma refines_report': "0 < claims tr i \<Longrightarrow> db_refines tr db (op_report f1 f2 now i rp db)"
  by (cases rp) (auto intro: refines_report)

lemma op_step_inv:
  assumes "op_step env s l s'" "sys_inv tr s"
  shows "sys_inv (tr @ [l]) s'"
  using assms
proof cases
  case (submit sf i inp m m' db' res)
  show ?thesis unfolding submit
    by (rule inv_new_row [OF assms(2)]) (use submit in \<open>auto intro: submit_new_row\<close>)
next
  case (retry flt sf i old pr include_all m m' db' res)
  show ?thesis unfolding retry
    by (rule inv_new_row [OF assms(2)]) (use retry in \<open>auto intro: retry_new_row\<close>)
next
  case (claim flt w i db' n)
  show ?thesis unfolding claim(1,2) by (rule inv_claim [OF assms(2) claim(3-5)])
next
  case (load_failed xs w i ys f1 f2)
  have "0 < claims tr i" using sys_invD(8) [OF assms(2)] load_failed(3) by fastforce
  from inv_refines [OF assms(2) refines_fail [OF this], where js = "xs @ ys" and t = "sy_now s"] show ?thesis
    unfolding load_failed(1,2) by (force simp: load_failed(3))
next
  case (refused xs w i ys flt cd r m ufl users f f1 f2 f3)
  have "0 < claims tr i" using sys_invD(8) [OF assms(2)] refused(3) by fastforce
  from inv_refines [OF assms(2) refines_event_then [OF refines_fail [OF this]], where js = "xs @ ys" and t = "sy_now s"]
  show ?thesis unfolding refused(1,2) by (force simp: refused(3))
next
  case (invoke xs w i ys flt cd r m ufl users p plain ex reps out f3)
  from inv_refines [OF assms(2) refines_event, where js = "xs @ \<lparr>j_worker = w, j_op = i, j_phase = Executing reps out\<rparr> # ys" and t = "sy_now s"]
  show ?thesis unfolding invoke(1,2) by (force simp: invoke(3))
next
  case (report xs w i rp reps out ys f1 f2)
  have "0 < claims tr i" using sys_invD(8) [OF assms(2)] report(3) by fastforce
  then have "sys_inv (tr @ [LReport i]) (s\<lparr>sy_db := op_report f1 f2 (sy_now s) i rp (sy_db s),
      sy_jobs := xs @ \<lparr>j_worker = w, j_op = i, j_phase = Executing reps out\<rparr> # ys, sy_now := sy_now s\<rparr>)"
    by (intro inv_refines [OF assms(2) refines_report']) (auto simp: report(3))
  then show ?thesis unfolding report(1,2) by simp
next
  case (failed xs w i f ys f1 f2)
  have "0 < claims tr i" using sys_invD(8) [OF assms(2)] failed(3) by fastforce
  from inv_refines [OF assms(2) refines_fail [OF this], where js = "xs @ ys" and t = "sy_now s"] show ?thesis
    unfolding failed(1,2) by (force simp: failed(3))
next
  case (succeeded xs w i res ys f1 f2)
  have "0 < claims tr i" using sys_invD(8) [OF assms(2)] succeeded(3) by fastforce
  from inv_refines [OF assms(2) refines_succeed [OF this], where js = "xs @ ys" and t = "sy_now s"] show ?thesis
    unfolding succeeded(1,2) by (force simp: succeeded(3))
next
  case (abandon xs j ys)
  from inv_refines [OF assms(2) refines_refl, where js = "xs @ ys" and t = "sy_now s"] show ?thesis
    unfolding abandon(1,2) by (force simp: abandon(3))
next
  case (beat xs w i reps out ys)
  from inv_refines [OF assms(2) refines_heartbeat, where js = "sy_jobs s" and t = "sy_now s"] show ?thesis
    unfolding beat(1,2) by force
next
  case (recover flt db')
  from inv_refines [OF assms(2) refines_recover [OF recover(3)], where js = "sy_jobs s" and t = "sy_now s"] show ?thesis
    unfolding recover(1,2) by force
next
  case (cleanup f1 f2)
  from inv_refines [OF assms(2) refines_cleanup, where js = "sy_jobs s" and t = "sy_now s"] show ?thesis
    unfolding cleanup(1,2) by force
next
  case (tick t)
  from inv_refines [OF assms(2) refines_refl, where js = "sy_jobs s" and t = t] show ?thesis
    unfolding tick(1,2) by force
qed

lemma initial_inv: "sys_inv [] (initial_sys t)"
  by (simp add: sys_inv_def initial_sys_def empty_op_db_def ids_distinct_def row_of_def)

lemma op_run_inv: "op_run env s tr s' \<Longrightarrow> sys_inv [] s \<Longrightarrow> sys_inv tr s'"
  by (induction rule: op_run.induct) (auto intro: op_step_inv)

section \<open>Properties\<close>

lemma load_attempts_Inr: "load_attempts flt cd i db n err = Inr r \<Longrightarrow> row_of db i = Some r"
  by (induction flt cd i db n err rule: load_attempts.induct)
    (auto simp: Let_def row_of_def split: if_splits option.splits sum.splits)

lemma load_claimed_Inr: "load_claimed_operation flt cd i db = Inr r \<Longrightarrow> row_of db i = Some r"
  by (simp only: load_claimed_operation_def load_attempts_Inr)

text \<open>
  C3. Whatever the interleaving of workers, replicas, faults, crashes and recoveries: an operation
  is claimed at most once, its executor is invoked at most once, and only after a claim. A retry
  is a new operation with an id of its own.
\<close>

theorem executor_runs_at_most_once:
  assumes "op_run env (initial_sys t) tr s"
  shows "claims tr i \<le> 1 \<and> invocations tr i \<le> claims tr i"
  using sys_invD(5,6) [OF op_run_inv [OF assms initial_inv], of i] by linarith

text \<open>
  C7. In every reachable state each row is consistent: its status is one of the four; it has a
  start time exactly when it left the queue, a completion time exactly when it is terminal, a
  worker and a heartbeat exactly while it runs; its progress is within 0 and 100.
\<close>

theorem reachable_rows_consistent:
  assumes "op_run env (initial_sys t) tr s" "r \<in> set (ops (sy_db s))"
  shows "o_status r \<in> {StatusQueued, StatusRunning, StatusSucceeded, StatusFailed} \<and>
    (o_started r = None \<longleftrightarrow> o_status r = StatusQueued) \<and>
    (o_completed r \<noteq> None \<longleftrightarrow> o_status r \<in> {StatusSucceeded, StatusFailed}) \<and>
    (o_worker r \<noteq> [] \<longleftrightarrow> o_status r = StatusRunning) \<and> (o_heartbeat r \<noteq> None \<longleftrightarrow> o_status r = StatusRunning) \<and>
    0 \<le> o_progress r \<and> o_progress r \<le> 100 \<and> distinct (map o_id (ops (sy_db s)))"
proof -
  note D = sys_invD [OF op_run_inv [OF assms(1) initial_inv]]
  have "row_ok r" using D(3) row_of_in [OF D(1) assms(2)] by blast
  with D(1) show ?thesis unfolding row_ok_defs ids_distinct_def by auto
qed

definition terminal_in :: "op_db \<Rightarrow> string \<Rightarrow> bool" where
  "terminal_in db i \<longleftrightarrow> (\<forall>r. row_of db i = Some r \<longrightarrow> is_terminal (o_status r))"

lemma terminal_in_map:
  assumes "row_of db' i = map_option h (row_of db i)" "\<And>r. is_terminal (o_status r) \<Longrightarrow> is_terminal (o_status (h r))"
  shows "terminal_in db i \<Longrightarrow> terminal_in db' i"
  using assms unfolding terminal_in_def by (cases "row_of db i") simp_all

lemma terminal_statements:
  "terminal_in db k \<Longrightarrow> terminal_in (op_fail f1 f2 now i (Some f) db) k"
  "terminal_in db k \<Longrightarrow> terminal_in (op_succeed f1 f2 now i j db) k"
  "terminal_in db k \<Longrightarrow> terminal_in (op_heartbeat now w i db) k"
  "terminal_in db k \<Longrightarrow> terminal_in (append_event flt now i st status msg pr db) k"
  "terminal_in db k \<Longrightarrow> terminal_in (op_report f1 f2 now i (st, msg, p) db) k"
  "terminal_in db k \<Longrightarrow> terminal_in (fst (op_claim flt now w i db)) k"
  subgoal by (erule terminal_in_map [OF row_of_fail, rotated]) (simp add: is_terminal_def)
  subgoal by (erule terminal_in_map [OF row_of_succeed, rotated]) (simp add: is_terminal_def)
  subgoal by (erule terminal_in_map [OF row_of_heartbeat, rotated]) (auto simp: is_terminal_def)
  subgoal by (simp add: terminal_in_def)
  subgoal by (erule terminal_in_map [OF row_of_report, rotated]) (simp add: is_terminal_def)
  subgoal by (erule terminal_in_map [OF row_of_claim, rotated]) (auto simp: is_terminal_def)
  done

lemma terminal_recover: "recover_stale flt now db = Inr db' \<Longrightarrow> terminal_in db k \<Longrightarrow> terminal_in db' k"
  by (erule terminal_in_map [OF row_of_recover, rotated -1]) (auto simp: is_terminal_def)

lemma terminal_cleanup: "ids_distinct db \<Longrightarrow> terminal_in db k \<Longrightarrow> terminal_in (cleanup_completed f1 f2 now db) k"
  by (auto simp: terminal_in_def cleanup_completed_def Let_def row_of_def filter_row_of split: option.splits if_splits)

lemma step_terminal:
  assumes "op_step env s l s'" "sys_inv tr s" "i \<in> set (sy_used s)" "terminal_in (sy_db s) i"
  shows "i \<in> set (sy_used s') \<and> terminal_in (sy_db s') i"
  using assms(1)
proof cases
  case (submit sf j inp m m' db' res)
  have "i \<noteq> j" using assms(3) submit(4) by blast
  then have "row_of db' i = row_of (sy_db s) i" by (rule new_row_cases(2) [OF submit_new_row [OF submit(3)]])
  then show ?thesis using assms(3,4) by (simp add: submit(2) terminal_in_def)
next
  case (retry flt sf j old pr include_all m m' db' res)
  have "i \<noteq> j" using assms(3) retry(4) by blast
  then have "row_of db' i = row_of (sy_db s) i" by (rule new_row_cases(2) [OF retry_new_row [OF retry(3)]])
  then show ?thesis using assms(3,4) by (simp add: retry(2) terminal_in_def)
next
  case (claim flt w j db' n)
  then show ?thesis using assms(3) terminal_statements(6) [OF assms(4), of flt "sy_now s" w j] by simp
next
  case (report xs w j rp reps out ys f1 f2)
  obtain st msg p where "rp = (st, msg, p)" by (cases rp)
  with report show ?thesis using assms(3,4) by (simp add: terminal_statements)
next
  case (recover flt db')
  then show ?thesis using assms(3,4) terminal_recover by auto
next
  case (cleanup f1 f2)
  then show ?thesis using assms(3,4) terminal_cleanup sys_invD(1) [OF assms(2)] by auto
qed (use assms(3,4) in \<open>simp_all add: terminal_statements\<close>)

lemma run_terminal:
  "op_run env s tr s' \<Longrightarrow> sys_inv tr0 s \<Longrightarrow> i \<in> set (sy_used s) \<Longrightarrow> terminal_in (sy_db s) i \<Longrightarrow>
   sys_inv (tr0 @ tr) s' \<and> i \<in> set (sy_used s') \<and> terminal_in (sy_db s') i"
proof (induction rule: op_run.induct)
  case (more s tr s' l s'')
  then have IH: "sys_inv (tr0 @ tr) s'" "i \<in> set (sy_used s')" "terminal_in (sy_db s') i" by blast+
  from op_step_inv [OF more.hyps(2) IH(1)] step_terminal [OF more.hyps(2) IH] show ?case by simp
qed simp

text \<open>
  An operation that has succeeded or failed never becomes queued or running again, whatever
  happens afterwards: every later row with its id, if cleanup has not removed it, is terminal.
\<close>

theorem terminal_is_never_reactivated:
  assumes "op_run env (initial_sys t) tr1 s1" "op_run env s1 tr2 s2"
    and "row_of (sy_db s1) i = Some r1" "\<not> is_active (o_status r1)" "row_of (sy_db s2) i = Some r2"
  shows "\<not> is_active (o_status r2)"
proof -
  note inv = op_run_inv [OF assms(1) initial_inv]
  have used: "i \<in> set (sy_used s1)" and ok: "row_ok r1" using sys_invD(2,3) [OF inv] assms(3) by blast+
  then have t1: "terminal_in (sy_db s1) i" using assms(3,4) by (auto simp: terminal_in_def row_ok_def)
  from run_terminal [OF assms(2) inv used t1] assms(5) show ?thesis
    by (auto simp: terminal_in_def is_terminal_def is_active_def)
qed

text \<open>
  An executor is invoked only on behalf of the operation's owner: with the owner's id, name
  and role as the account holds them at that moment (which must be live and active), and with the
  decrypted payload of that very operation.
\<close>

theorem invoked_for_the_owner:
  assumes "op_step env s (LInvoke i p plain) s'"
  shows "\<exists>r (users :: user_table) u. row_of (sy_db s) i = Some r \<and> decrypt env (o_payload_enc r) = Some plain \<and>
    u \<in> set (rows users) \<and> user_live u \<and> u_is_active u \<and> u_id u = o_user r \<and>
    p = \<lparr>pr_user = o_user r, pr_name = u_username u, pr_role = u_role u\<rparr>"
  using assms
proof cases
  case (invoke xs w ys flt cd r m ufl users ex reps out f3)
  from invoke(3) have r: "row_of (sy_db s) i = Some r" by (rule load_claimed_Inr)
  from invoke(4) obtain u where u: "user_get_by_id ufl (o_user r) users = Inr u" "u_is_active u"
    "decrypt env (o_payload_enc r) = Some plain" "p = \<lparr>pr_user = u_id u, pr_name = u_username u, pr_role = u_role u\<rparr>"
    by (auto simp: op_prepare_def Let_def split: sum.splits if_splits option.splits)
  from user_get_by_id_Inr [OF u(1)] have o: "u \<in> set (rows users)" "user_live u" "u_id u = o_user r" by blast+
  show ?thesis using r o u(2,3) u(4) [unfolded o(3)] by (intro exI [of _ r] exI [of _ users] exI [of _ u]) simp
qed

text \<open>
  A run in which a worker is thought dead while its executor is still busy: submit, claim, invoke,
  a minute without a heartbeat, recovery, and then the executor returns.
\<close>

definition quick_worker :: "string manager" where
  "quick_worker = (new_manager ''w1'')\<lparr>m_started := True, m_ctx := Some False,
     m_executors := [(''package'', \<lambda>p s. ([], Inr (Some s)))]\<rparr>"

definition demo_db1 :: op_db where
  "demo_db1 = snd (fst (op_submit demo_op_env \<lparr>sf_create = False, sf_event = False, sf_get = False, sf_pick = False\<rparr>
     0 ''op1'' demo_input quick_worker empty_op_db))"
definition demo_db2 :: op_db where "demo_db2 = fst (op_claim False 0 ''w1'' ''op1'' demo_db1)"
definition demo_db3 :: op_db where
  "demo_db3 = append_event False 0 ''op1'' ''preparing'' StatusRunning ''Preparing operation'' 5 demo_db2"
definition demo_db4 :: op_db where
  "demo_db4 = (case recover_stale False (60 * second) demo_db3 of Inr d \<Rightarrow> d | Inl _ \<Rightarrow> demo_db3)"
definition demo_db5 :: op_db where "demo_db5 = op_succeed False False (60 * second) ''op1'' ''{}'' demo_db4"

definition demo_job :: "string phase \<Rightarrow> string job" where
  "demo_job ph = \<lparr>j_worker = ''w1'', j_op = ''op1'', j_phase = ph\<rparr>"

definition demo_sys :: "op_db \<Rightarrow> string job list \<Rightarrow> gotime \<Rightarrow> string sys" where
  "demo_sys d js t = \<lparr>sy_db = d, sy_jobs = js, sy_used = [''op1''], sy_now = t\<rparr>"

abbreviation "demo_principal \<equiv> \<lparr>pr_user = 3, pr_name = ''bob'', pr_role = ''editor''\<rparr>"

lemma demo_rows:
  "\<exists>r. row_of demo_db1 ''op1'' = Some r \<and> o_status r = StatusQueued \<and> o_user r = 3 \<and> o_kind r = ''package'' \<and> o_payload_enc r = ''E{}''"
  "ids_distinct demo_db1"
  "\<exists>r. row_of demo_db2 ''op1'' = Some r \<and> o_status r = StatusRunning \<and> o_heartbeat r = Some 0 \<and> o_user r = 3 \<and>
     o_kind r = ''package'' \<and> o_payload_enc r = ''E{}''"
  "\<exists>r. row_of demo_db4 ''op1'' = Some r \<and> o_status r = StatusFailed \<and> o_error_code r = ''OPERATION_INTERRUPTED''"
  "\<exists>r. row_of demo_db5 ''op1'' = Some r \<and> o_status r = StatusSucceeded \<and> o_error_code r = ''OPERATION_INTERRUPTED''"
proof -
  obtain d where d: "create_with_event False False 0 (submitted_row ''op1'' demo_input ''E{}'') ''Operation queued'' empty_op_db = Inr d"
    by (simp add: create_with_event_Inr row_of_def empty_op_db_def)
  have d1: "demo_db1 = d" by (simp add: demo_db1_def op_submit_def demo_op_env_def demo_input_def d [unfolded demo_input_def])
  show one: "\<exists>r. row_of demo_db1 ''op1'' = Some r \<and> o_status r = StatusQueued \<and> o_user r = 3 \<and> o_kind r = ''package'' \<and> o_payload_enc r = ''E{}''"
    and "ids_distinct demo_db1"
    using created_row(1,3) [OF d] by (simp_all add: d1 submitted_row_def demo_input_def ids_distinct_def empty_op_db_def)
  show two: "\<exists>r. row_of demo_db2 ''op1'' = Some r \<and> o_status r = StatusRunning \<and> o_heartbeat r = Some 0 \<and> o_user r = 3 \<and>
     o_kind r = ''package'' \<and> o_payload_enc r = ''E{}''"
    using one by (auto simp: demo_db2_def row_of_claim)
  obtain d4 where d4: "recover_stale False (60 * second) demo_db3 = Inr d4" by (simp add: recover_stale_def)
  show four: "\<exists>r. row_of demo_db4 ''op1'' = Some r \<and> o_status r = StatusFailed \<and> o_error_code r = ''OPERATION_INTERRUPTED''"
  proof -
    obtain r where r: "row_of demo_db3 ''op1'' = Some r" "o_status r = StatusRunning" "o_heartbeat r = Some 0"
      using two by (auto simp: demo_db3_def)
    have "row_of demo_db4 ''op1'' = row_of d4 ''op1''" by (simp add: demo_db4_def d4)
    with r row_of_recover [OF d4, of "''op1''"] show ?thesis by (simp add: stale_worker_after_def second_def)
  qed
  show "\<exists>r. row_of demo_db5 ''op1'' = Some r \<and> o_status r = StatusSucceeded \<and> o_error_code r = ''OPERATION_INTERRUPTED''"
    using four by (auto simp: demo_db5_def row_of_succeed)
qed

lemma demo_prefix:
  "op_run demo_op_env (initial_sys 0) [LSubmit ''op1'', LClaim ''w1'' ''op1'']
     (demo_sys demo_db2 [demo_job Loading] 0)"
proof -
  have "op_submit demo_op_env \<lparr>sf_create = False, sf_event = False, sf_get = False, sf_pick = False\<rparr> 0 ''op1'' demo_input quick_worker empty_op_db
      = ((fst (fst (op_submit demo_op_env \<lparr>sf_create = False, sf_event = False, sf_get = False, sf_pick = False\<rparr> 0 ''op1'' demo_input quick_worker empty_op_db)),
         demo_db1), snd (op_submit demo_op_env \<lparr>sf_create = False, sf_event = False, sf_get = False, sf_pick = False\<rparr> 0 ''op1'' demo_input quick_worker empty_op_db))"
    by (simp add: demo_db1_def)
  from op_step.submit [where s = "initial_sys 0" and env = demo_op_env, unfolded initial_sys_def sys.simps, OF this]
  have s1: "op_step demo_op_env (initial_sys 0) (LSubmit ''op1'') (demo_sys demo_db1 [] 0)"
    by (simp add: initial_sys_def demo_sys_def)
  obtain n where n: "op_claim False 0 ''w1'' ''op1'' demo_db1 = (demo_db2, n)" by (metis demo_db2_def prod.collapse)
  have "n \<noteq> 0" using claim_affected [OF demo_rows(2), of False 0 "''w1''" "''op1''"] demo_rows(1) n by auto
  with op_step.claim [where s = "demo_sys demo_db1 [] 0" and env = demo_op_env and flt = False and w = "''w1''" and i = "''op1''" and db' = demo_db2 and n = n]
  have s2: "op_step demo_op_env (demo_sys demo_db1 [] 0) (LClaim ''w1'' ''op1'') (demo_sys demo_db2 [demo_job Loading] 0)"
    using n by (simp add: demo_sys_def demo_job_def)
  show ?thesis using op_run.more [OF op_run.more [OF op_run.none s1] s2] by simp
qed

lemma demo_invoke:
  "op_step demo_op_env (demo_sys demo_db2 [demo_job Loading] 0) (LInvoke ''op1'' demo_principal ''{}'')
     (demo_sys demo_db3 [demo_job (Executing [] (Inr (Some ''{}'')))] 0)"
proof -
  obtain r where r: "row_of demo_db2 ''op1'' = Some r" "o_user r = 3" "o_kind r = ''package''" "o_payload_enc r = ''E{}''"
    using demo_rows(3) by blast
  have l: "load_claimed_operation (\<lambda>_. False) (\<lambda>_. False) ''op1'' demo_db2 = Inr r" by (rule load_claimed_ok [OF _ r(1)]) simp
  have p: "op_prepare demo_op_env quick_worker no_faults demo_owner r = Inr (demo_principal, ''{}'', \<lambda>p s. ([], Inr (Some s)))"
    using r by (simp add: op_prepare_def demo_op_env_def quick_worker_def demo_owner_def user_get_by_id_def first_where_def
        user_live_def new_user_def)
  show ?thesis
    using op_step.invoke [where s = "demo_sys demo_db2 [demo_job Loading] 0" and env = demo_op_env and xs = "[]" and ys = "[]"
        and w = "''w1''" and i = "''op1''" and fc = False, OF _ _ p] l
    by (simp add: demo_sys_def demo_job_def demo_db3_def)
qed

lemma demo_run_invoked:
  "op_run demo_op_env (initial_sys 0) [LSubmit ''op1'', LClaim ''w1'' ''op1'', LInvoke ''op1'' demo_principal ''{}'']
     (demo_sys demo_db3 [demo_job (Executing [] (Inr (Some ''{}'')))] 0)"
  using op_run.more [OF demo_prefix demo_invoke] by simp

lemma demo_run_recovered:
  "op_run demo_op_env (initial_sys 0)
     [LSubmit ''op1'', LClaim ''w1'' ''op1'', LInvoke ''op1'' demo_principal ''{}'', LTick, LRecover]
     (demo_sys demo_db4 [demo_job (Executing [] (Inr (Some ''{}'')))] (60 * second))"
proof -
  let ?js = "[demo_job (Executing [] (Inr (Some ''{}'')))]"
  have "op_step demo_op_env (demo_sys demo_db3 ?js 0) LTick (demo_sys demo_db3 ?js (60 * second))"
    using op_step.tick [of "demo_sys demo_db3 ?js 0" "60 * second" demo_op_env] by (simp add: demo_sys_def second_def)
  note r1 = op_run.more [OF demo_run_invoked this]
  have "recover_stale False (60 * second) demo_db3 = Inr demo_db4" by (simp add: demo_db4_def recover_stale_def)
  then have "op_step demo_op_env (demo_sys demo_db3 ?js (60 * second)) LRecover (demo_sys demo_db4 ?js (60 * second))"
    using op_step.recover [of False "demo_sys demo_db3 ?js (60 * second)" demo_db4 demo_op_env] by (simp add: demo_sys_def)
  from op_run.more [OF r1 this] show ?thesis by simp
qed

lemma demo_late_success:
  "op_run demo_op_env (demo_sys demo_db4 [demo_job (Executing [] (Inr (Some ''{}'')))] (60 * second)) [LEnd ''op1'']
     (demo_sys demo_db5 [] (60 * second))"
proof -
  let ?s = "demo_sys demo_db4 [demo_job (Executing [] (Inr (Some ''{}'')))] (60 * second)"
  have "op_step demo_op_env ?s (LEnd ''op1'') (demo_sys demo_db5 [] (60 * second))"
    using op_step.succeeded [where s = ?s and env = demo_op_env and xs = "[]" and ys = "[]" and w = "''w1''"
        and i = "''op1''" and res = "Some ''{}''" and fa = False and fb = False]
    by (simp add: demo_sys_def demo_job_def demo_db5_def encode_result_def demo_op_env_def)
  from op_run.more [OF op_run.none this] show ?thesis by simp
qed

theorem executor_runs_at_most_once_witness:
  "\<exists>tr. invocations tr ''op1'' = 1 \<and> claims tr ''op1'' \<le> 1 \<and> invocations tr ''op1'' \<le> claims tr ''op1''"
proof -
  let ?tr = "[LSubmit ''op1'', LClaim ''w1'' ''op1'', LInvoke ''op1'' demo_principal ''{}'']"
  have "invocations ?tr ''op1'' = 1" by (simp add: invocations_def)
  then show ?thesis using executor_runs_at_most_once [OF demo_run_invoked, of "''op1''"] by blast
qed

theorem reachable_rows_consistent_witness:
  "\<exists>r. r \<in> set (ops demo_db4) \<and> o_status r = StatusFailed \<and> o_completed r \<noteq> None"
proof -
  obtain r where r: "row_of demo_db4 ''op1'' = Some r" "o_status r = StatusFailed" using demo_rows(4) by blast
  then have "r \<in> set (ops demo_db4)" by (simp add: row_of_Some)
  then show ?thesis using reachable_rows_consistent [OF demo_run_recovered, of r] r(2)
    by (auto simp: demo_sys_def)
qed

theorem terminal_is_never_reactivated_witness:
  "\<exists>r. row_of demo_db5 ''op1'' = Some r \<and> \<not> is_active (o_status r)"
proof -
  obtain r1 where r1: "row_of demo_db4 ''op1'' = Some r1" "o_status r1 = StatusFailed" using demo_rows(4) by blast
  obtain r2 where r2: "row_of demo_db5 ''op1'' = Some r2" using demo_rows(5) by blast
  have "\<not> is_active (o_status r2)"
    by (rule terminal_is_never_reactivated [OF demo_run_recovered demo_late_success, of "''op1''" r1])
      (use r1 r2 in \<open>simp_all add: demo_sys_def is_active_def\<close>)
  with r2 show ?thesis by blast
qed

theorem invoked_for_the_owner_witness:
  "\<exists>r. row_of demo_db2 ''op1'' = Some r \<and> o_user r = 3 \<and> decrypt demo_op_env (o_payload_enc r) = Some ''{}''"
  using invoked_for_the_owner [OF demo_invoke] by (auto simp: demo_sys_def)

text \<open>
  The status of a finished operation is not final: a running operation that missed its
  heartbeats is marked failed by recovery ("the server stopped"), and when its executor returns
  after all, the update that records the result carries no guard on status or worker, so the same
  row turns from failed to succeeded and keeps the error code of the failure.
\<close>

theorem interrupted_operation_can_succeed:
  "\<exists>tr1 tr2 s1 s2 r1 r2. op_run demo_op_env (initial_sys 0) tr1 s1 \<and> op_run demo_op_env s1 tr2 s2 \<and>
     row_of (sy_db s1) ''op1'' = Some r1 \<and> o_status r1 = StatusFailed \<and>
     row_of (sy_db s2) ''op1'' = Some r2 \<and> o_status r2 = StatusSucceeded \<and>
     o_error_code r2 = ''OPERATION_INTERRUPTED''"
proof -
  have "sy_db (demo_sys d js t) = d" for d js t by (simp add: demo_sys_def)
  with demo_run_recovered demo_late_success demo_rows(4,5) show ?thesis by metis
qed

end
