(* ===== verification/Ai_Authz.thy ===== *)
theory Ai_Authz
  imports Rbac
begin

text \<open>
  Authorization of the assistant's tool calls: \<open>internal/ai/authz.go\<close>, the tool names of
  \<open>internal/ai/tools.go\<close> and the argument accessors of \<open>tools_read.go\<close>. Decoded arguments and
  manifests are \<open>json\<close> values; the YAML decoder (\<open>sigs.k8s.io/yaml\<close>) is a parameter. A nil map and
  an empty map answer every lookup alike, so both are the empty list.
\<close>

section \<open>Arguments\<close>

definition arg_string :: "fields \<Rightarrow> string \<Rightarrow> string" where
  "arg_string args key = (case gm_get args key of Some (JStr v) \<Rightarrow> v | _ \<Rightarrow> [])"

definition arg_int :: "fields \<Rightarrow> string \<Rightarrow> int \<Rightarrow> int" where
  "arg_int args key dflt = (case gm_get args key of Some (JNum m e) \<Rightarrow> trunc_num m e | _ \<Rightarrow> dflt)"

definition arg_bool :: "fields \<Rightarrow> string \<Rightarrow> bool" where
  "arg_bool args key = bool_or_false (gm_get args key)"

section \<open>Tools and the permissions they need\<close>

definition mutation_tools :: "string list" where
  "mutation_tools = [''create_resource'', ''update_resource'', ''patch_resource'', ''delete_resource'']"

definition is_mutation :: "string \<Rightarrow> bool" where
  "is_mutation tool \<longleftrightarrow> tool \<in> set mutation_tools"

definition required_permission :: "string \<Rightarrow> fields \<Rightarrow> (string \<times> string) option" where
  "required_permission tool args =
     (let rsrc = to_lower (arg_string args ''kind'') in
      if tool = ''get_resource'' then Some (rsrc, ''get'')
      else if tool = ''list_resources'' then Some (rsrc, ''list'')
      else if tool = ''get_pod_logs'' then Some (''pods'', ''list'')
      else if tool = ''get_cluster_overview'' then Some (''overview'', ''list'')
      else if tool = ''query_prometheus'' then Some (''prometheus'', ''query'')
      else if tool = ''create_resource'' then Some (rsrc, ''create'')
      else if tool = ''update_resource'' then Some (rsrc, ''update'')
      else if tool = ''patch_resource'' then Some (rsrc, ''update'')
      else if tool = ''delete_resource'' then Some (rsrc, ''delete'')
      else None)"

fun grants :: "string list \<Rightarrow> string \<Rightarrow> string \<Rightarrow> bool" where
  "grants [] rsrc act = False"
| "grants (p # perms) rsrc act =
     (case cut (CHR '':'') p of
        None \<Rightarrow> grants perms rsrc act
      | Some (r, a) \<Rightarrow>
          (let resource_match = (r = ''*'' \<or> equal_fold r rsrc);
               action_match = (a = ''*'' \<or> equal_fold a act)
           in if resource_match \<and> action_match then True else grants perms rsrc act))"

lemma grants_iff: "grants ps r a \<longleftrightarrow> (\<exists>p \<in> set ps. perm_grants p r a)"
  by (induction ps) (auto simp: perm_grants_def Let_def split: option.splits)

interpretation ai: perm_matcher grants
  by unfold_locales (rule grants_iff)

section \<open>High-risk mutations\<close>

definition admin_only_kinds :: "string list" where
  "admin_only_kinds =
     [''clusterroles'', ''clusterrolebindings'', ''roles'', ''rolebindings'', ''serviceaccounts'',
      ''namespaces'', ''nodes'', ''persistentvolumes'', ''storageclasses'']"

definition map_value :: "fields \<Rightarrow> string \<Rightarrow> fields" where
  "map_value v key = obj_or_nil (gm_get v key)"

definition contains_map_key :: "json list \<Rightarrow> string \<Rightarrow> bool" where
  "contains_map_key items key =
     list_ex (\<lambda>item. case as_obj (Some item) of Some v \<Rightarrow> gm_get v key \<noteq> None | None \<Rightarrow> False) items"

definition contains_nonzero_int :: "json list \<Rightarrow> string \<Rightarrow> bool" where
  "contains_nonzero_int items key =
     list_ex (\<lambda>item. case as_obj (Some item) of Some v \<Rightarrow> arg_int v key 0 \<noteq> 0 | None \<Rightarrow> False) items"

definition dangerous_security_context :: "fields \<Rightarrow> bool" where
  "dangerous_security_context sec =
     (if sec = [] then False
      else if list_ex (\<lambda>key. bool_or_false (gm_get sec key)) [''privileged'', ''allowPrivilegeEscalation''] then True
      else if equal_fold (str_or_empty (gm_get sec ''procMount'')) ''Unmasked'' then True
      else if equal_fold (arg_string (map_value sec ''seccompProfile'') ''type'') ''Unconfined'' then True
      else let capabilities = map_value sec ''capabilities''
           in arr_or_nil (gm_get capabilities ''add'') \<noteq> [])"

definition container_keys :: "string list" where
  "container_keys = [''containers'', ''initContainers'', ''ephemeralContainers'']"

definition host_keys :: "string list" where
  "host_keys = [''hostNetwork'', ''hostPID'', ''hostIPC'']"

definition is_pod_spec :: "fields \<Rightarrow> bool" where
  "is_pod_spec v =
     (if list_ex (\<lambda>key. as_arr (gm_get v key) \<noteq> None) container_keys then True
      else if list_ex (\<lambda>key. bool_or_false (gm_get v key)) host_keys then True
      else as_arr (gm_get v ''volumes'') \<noteq> None)"

definition dangerous_container :: "json \<Rightarrow> bool" where
  "dangerous_container item =
     (let container = obj_or_nil (Some item) in
      if contains_nonzero_int (arr_or_nil (gm_get container ''ports'')) ''hostPort'' then True
      else dangerous_security_context (obj_or_nil (gm_get container ''securityContext'')))"

definition dangerous_pod_spec :: "fields \<Rightarrow> bool" where
  "dangerous_pod_spec spec =
     (if list_ex (\<lambda>key. bool_or_false (gm_get spec key)) host_keys then True
      else if list_ex (\<lambda>key. let v = str_or_empty (gm_get spec key) in trim_space v \<noteq> [] \<and> v \<noteq> ''default'')
                [''serviceAccount'', ''serviceAccountName''] then True
      else if contains_map_key (arr_or_nil (gm_get spec ''volumes'')) ''hostPath'' then True
      else if list_ex (\<lambda>key. list_ex dangerous_container (arr_or_nil (gm_get spec key))) container_keys then True
      else dangerous_security_context (map_value spec ''securityContext''))"

fun contains_sensitive :: "json \<Rightarrow> bool" where
  "contains_sensitive (JObj m) =
     (if is_pod_spec m \<and> dangerous_pod_spec m then True else \<exists>c \<in> set m. contains_sensitive (snd c))"
| "contains_sensitive (JArr xs) = (\<exists>c \<in> set xs. contains_sensitive c)"
| "contains_sensitive _ = False"

definition high_risk_mutation :: "(string \<Rightarrow> json option) \<Rightarrow> string \<Rightarrow> fields \<Rightarrow> string" where
  "high_risk_mutation yaml tool args =
     (if \<not> is_mutation tool then []
      else let kind = to_lower (arg_string args ''kind'') in
        if kind \<in> set admin_only_kinds then ''mutating '' @ kind
        else if tool \<noteq> ''create_resource'' \<and> tool \<noteq> ''update_resource'' \<and> tool \<noteq> ''patch_resource'' then []
        else let raw1 = arg_string args ''yaml'';
                 raw = (if raw1 = [] then arg_string args ''patch'' else raw1)
             in if raw = [] then []
                else case yaml raw of
                       None \<Rightarrow> []
                     | Some v \<Rightarrow> if contains_sensitive v then ''using privileged workload settings'' else [])"

section \<open>The decision\<close>

text \<open>The empty string means permitted.\<close>

definition authorize :: "(string \<Rightarrow> json option) \<Rightarrow> faults \<Rightarrow> role_table \<Rightarrow> string \<Rightarrow> string \<Rightarrow> fields \<Rightarrow> string" where
  "authorize yaml fl roles rl tool args =
     (if rl = ''super-admin'' \<or> rl = ''admin'' then []
      else if tool = ''query_prometheus'' then
        ''permission denied: arbitrary Prometheus queries require an administrator role''
      else (let reason = high_risk_mutation yaml tool args in
        (if reason \<noteq> [] then ''permission denied: '' @ reason @ '' requires an administrator role''
         else (case required_permission tool args of
            None \<Rightarrow> []
          | Some (rsrc, act) \<Rightarrow>
              (if rsrc = [] then ''missing required argument: kind''
               else (case role_get_by_name fl rl roles of
                  Inl _ \<Rightarrow> ''permission denied: role '' @ go_quote rl @ '' not found''
                | Inr rec \<Rightarrow>
                    (case unmarshal_strings (role_permissions rec) of
                       None \<Rightarrow> ''permission denied: cannot read role permissions''
                     | Some perms \<Rightarrow>
                         (if \<not> grants perms rsrc act \<and> \<not> grants perms ''resources'' act
                          then ''permission denied: your role '' @ go_quote rl @ '' lacks '' @ rsrc @ '':'' @ act
                          else []))))))))"

section \<open>Properties\<close>

text \<open>The objects that occur in a document, at any depth.\<close>

inductive occurs_in :: "fields \<Rightarrow> json \<Rightarrow> bool" where
  here: "occurs_in m (JObj m)"
| in_field: "c \<in> set m \<Longrightarrow> occurs_in x (snd c) \<Longrightarrow> occurs_in x (JObj m)"
| in_elem: "c \<in> set xs \<Longrightarrow> occurs_in x c \<Longrightarrow> occurs_in x (JArr xs)"

inductive_cases occurs_inE: "occurs_in x (JObj m)" "occurs_in x (JArr xs)"
inductive_simps occurs_in_simps [simp]: "occurs_in x (JObj m)" "occurs_in x (JArr xs)"
  "occurs_in x JNull" "occurs_in x (JBool b)" "occurs_in x (JNum n e)" "occurs_in x (JStr s)"

lemma occurs_in_obj: "(\<exists>x. occurs_in x (JObj m) \<and> P x) \<longleftrightarrow> P m \<or> (\<exists>c \<in> set m. \<exists>x. occurs_in x (snd c) \<and> P x)"
proof
  assume "\<exists>x. occurs_in x (JObj m) \<and> P x"
  then obtain x where x: "occurs_in x (JObj m)" "P x" by (elim exE conjE)
  from x(1) show "P m \<or> (\<exists>c \<in> set m. \<exists>x. occurs_in x (snd c) \<and> P x)"
    by (rule occurs_inE(1)) (use x(2) in blast)+
next
  assume "P m \<or> (\<exists>c \<in> set m. \<exists>x. occurs_in x (snd c) \<and> P x)"
  then show "\<exists>x. occurs_in x (JObj m) \<and> P x"
    by (elim disjE bexE exE conjE) (rule exI, rule conjI, rule occurs_in.here, assumption,
        rule exI, rule conjI, rule occurs_in.in_field)
qed

lemma occurs_in_arr: "(\<exists>x. occurs_in x (JArr xs) \<and> P x) \<longleftrightarrow> (\<exists>c \<in> set xs. \<exists>x. occurs_in x c \<and> P x)"
  unfolding occurs_in_simps by blast

lemma contains_sensitive_iff:
  "contains_sensitive v \<longleftrightarrow> (\<exists>m. occurs_in m v \<and> is_pod_spec m \<and> dangerous_pod_spec m)"
proof (induction v rule: contains_sensitive.induct)
  case (1 m)
  show ?case unfolding occurs_in_obj contains_sensitive.simps
  proof (cases "is_pod_spec m \<and> dangerous_pod_spec m")
    case False
    then have "(\<exists>c \<in> set m. contains_sensitive (snd c)) \<longleftrightarrow>
        (\<exists>c \<in> set m. \<exists>x. occurs_in x (snd c) \<and> is_pod_spec x \<and> dangerous_pod_spec x)"
      using 1 by simp
    then show "(if is_pod_spec m \<and> dangerous_pod_spec m then True else \<exists>c \<in> set m. contains_sensitive (snd c)) \<longleftrightarrow>
        (is_pod_spec m \<and> dangerous_pod_spec m) \<or>
        (\<exists>c \<in> set m. \<exists>x. occurs_in x (snd c) \<and> is_pod_spec x \<and> dangerous_pod_spec x)"
      unfolding if_not_P [OF False] using False by (simp only: simp_thms)
  qed (simp only: if_True simp_thms)
next
  case (2 xs)
  then show ?case unfolding occurs_in_arr by simp
qed simp_all

declare contains_sensitive.simps(1) [simp del]

lemma http_permission:
  "\<not> is_admin_role rl \<Longrightarrow> role_has_permission fl roles rl r a \<longleftrightarrow>
     (\<exists>rec perms. role_get_by_name fl rl roles = Inr rec \<and> unmarshal_strings (role_permissions rec) = Some perms \<and>
        has_permission perms r a)"
  by (auto simp: role_has_permission_def is_admin_role_def split: sum.splits option.splits)

lemma grants_has_permission: "grants ps r a = has_permission ps r a"
  by (simp add: grants_iff has_permission_iff)


definition reader_table :: role_table where
  "reader_table = \<lparr>rows = [seed_role ''reader'' ''Reader'' False [''pods:get'']], seq = 1\<rparr>"


text \<open>
  A non-administrator is refused every mutation of a cluster-wide or identity kind, and every
  create, update or patch whose inspected document holds a dangerous pod specification, however
  deeply it is nested in objects and lists.
\<close>

theorem high_risk_refused:
  assumes "\<not> is_admin_role rl" "tool \<in> set mutation_tools"
    and "to_lower (arg_string args ''kind'') \<in> set admin_only_kinds \<or>
      tool \<noteq> ''delete_resource'' \<and> doc = (if arg_string args ''yaml'' = [] then arg_string args ''patch'' else arg_string args ''yaml'') \<and>
      doc \<noteq> [] \<and> yaml doc = Some v \<and> occurs_in m v \<and> is_pod_spec m \<and> dangerous_pod_spec m"
  shows "authorize yaml fl roles rl tool args \<noteq> []"
proof -
  have "high_risk_mutation yaml tool args \<noteq> []"
  proof (cases "to_lower (arg_string args ''kind'') \<in> set admin_only_kinds")
    case True
    with assms(2) show ?thesis by (simp add: high_risk_mutation_def is_mutation_def Let_def)
  next
    case False
    with assms(3) have d: "tool \<noteq> ''delete_resource''" "doc = (if arg_string args ''yaml'' = [] then arg_string args ''patch'' else arg_string args ''yaml'')"
      "doc \<noteq> []" "yaml doc = Some v" and "contains_sensitive v"
      unfolding contains_sensitive_iff by blast+
    from assms(2) d(1) have "tool = ''create_resource'' \<or> tool = ''update_resource'' \<or> tool = ''patch_resource''"
      by (simp add: mutation_tools_def)
    with False d(3,4) \<open>contains_sensitive v\<close> assms(2) show ?thesis
      unfolding high_risk_mutation_def Let_def d(2) [symmetric] is_mutation_def by simp
  qed
  with assms(1) show ?thesis by (auto simp: authorize_def is_admin_role_def)
qed

text \<open>A pod specification with a privileged container inside a deployment.\<close>

definition privileged_pod :: fields where
  "privileged_pod = [(''containers'', JArr [JObj [(''securityContext'', JObj [(''privileged'', JBool True)])]])]"

definition privileged_deployment :: json where
  "privileged_deployment = JObj [(''spec'', JObj [(''template'', JObj [(''spec'', JObj privileged_pod)])])]"

lemma privileged_pod_dangerous: "is_pod_spec privileged_pod" "dangerous_pod_spec privileged_pod"
  by (simp_all add: privileged_pod_def is_pod_spec_def dangerous_pod_spec_def container_keys_def host_keys_def
      dangerous_container_def contains_nonzero_int_def dangerous_security_context_def contains_map_key_def
      Let_def trim_space_def)

theorem high_risk_refused_witness:
  "authorize (\<lambda>_. Some privileged_deployment) no_faults reader_table ''editor'' ''create_resource''
     [(''kind'', JStr ''deployments''), (''yaml'', JStr ''d'')] \<noteq> []"
  by (rule high_risk_refused [where doc = "''d''" and v = privileged_deployment and m = privileged_pod])
    (simp_all add: is_admin_role_def mutation_tools_def arg_string_def privileged_deployment_def privileged_pod_dangerous)

lemma empty_not_sensitive: "\<not> contains_sensitive (JObj [])"
  by (simp add: contains_sensitive.simps is_pod_spec_def container_keys_def host_keys_def)

definition editor_table :: role_table where
  "editor_table = \<lparr>rows = [seed_role ''editor'' ''Editor'' True editor_perms], seq = 1\<rparr>"

text \<open>
  What the screening of patches misses: the guard looks at the argument \<open>yaml\<close> first, which
  \<open>patch_resource\<close> ignores when it runs, so an editor's patch with a harmless \<open>yaml\<close> beside it is
  allowed although the patch itself holds a privileged container.
\<close>

theorem patch_screening_gap:
  "\<exists>yaml args. yaml (arg_string args ''patch'') = Some privileged_deployment \<and> contains_sensitive privileged_deployment \<and>
      authorize yaml no_faults editor_table ''editor'' ''patch_resource'' args = []"
proof -
  let ?yaml = "\<lambda>s. if s = ''p'' then Some privileged_deployment else Some (JObj [])"
  let ?args = "[(''kind'', JStr ''deployments''), (''yaml'', JStr ''x''), (''patch'', JStr ''p'')]"
  have "contains_sensitive privileged_deployment"
    using privileged_pod_dangerous unfolding contains_sensitive_iff
    by (intro exI [of _ privileged_pod]) (simp add: privileged_deployment_def)
  moreover have "authorize ?yaml no_faults editor_table ''editor'' ''patch_resource'' ?args = []"
    by (simp add: authorize_def high_risk_mutation_def is_mutation_def mutation_tools_def arg_string_def Let_def
        admin_only_kinds_def required_permission_def role_get_by_name_def first_where_def editor_table_def seed_role_def
        empty_not_sensitive unmarshal_marshal editor_perms_def to_lower_def to_lower_char_def equal_fold_def)
  ultimately show ?thesis by (intro exI [of _ ?yaml] exI [of _ ?args]) (simp add: arg_string_def)
qed

text \<open>
  A patch that only sets the service account of a pod template is not recognised as touching a pod
  specification, although a pod specification with a service account is one the screen refuses.
\<close>

lemma service_account_patch_unscreened:
  "\<not> contains_sensitive (JObj [(''spec'', JObj [(''template'', JObj [(''spec'', JObj [(''serviceAccountName'', JStr ''cluster-admin'')])])])]) \<and>
   dangerous_pod_spec [(''serviceAccountName'', JStr ''cluster-admin'')]"
  by (simp add: contains_sensitive.simps is_pod_spec_def dangerous_pod_spec_def container_keys_def host_keys_def Let_def trim_space_def is_space_def)

end
