(* ===== verification/Ai_Sessions.thy ===== *)
theory Ai_Sessions
  imports Biz_Errors
begin

text \<open>
  Pending approvals of the assistant: \<open>internal/ai/session.go\<close>, with the chat message types of
  \<open>internal/ai/openai.go\<close> that a session freezes. The store is a map from session id to session.
\<close>

record tool_call =
  tc_id :: string
  tc_type :: string
  tc_name :: string
  tc_args :: string

record message =
  msg_role :: string
  msg_content :: string
  msg_calls :: "tool_call list"
  msg_call_id :: string

definition session_ttl :: duration where "session_ttl = 15 * minute"
definition max_pending :: nat where "max_pending = 100"
definition max_pending_per_user :: nat where "max_pending_per_user = 5"

record pending_session =
  ps_id :: string
  ps_messages :: "message list"
  ps_call :: tool_call
  ps_cluster_id :: nat
  ps_cluster :: string
  ps_user :: nat
  ps_username :: string
  ps_ip :: string
  ps_corr :: string
  ps_expires :: gotime

type_synonym session_store = "(string, pending_session) gomap"

datatype take_result = SessionTaken | SessionMissing | SessionExpired | SessionForbidden

definition new_session_store :: session_store where "new_session_store = []"

definition evict_expired :: "gotime \<Rightarrow> session_store \<Rightarrow> session_store" where
  "evict_expired now st = gm_prune (\<lambda>s. after now (ps_expires s)) st"

text \<open>\<open>new_id\<close> and \<open>new_corr\<close> are the ids drawn by \<open>uuid.NewString\<close>.\<close>

definition session_save ::
  "gotime \<Rightarrow> string \<Rightarrow> string \<Rightarrow> pending_session \<Rightarrow> session_store \<Rightarrow> session_store \<times> string option" where
  "session_save now new_id new_corr sess st =
     (let st1 = evict_expired now st in
      if max_pending \<le> length st1 then (st1, None)
      else if max_pending_per_user \<le> length (filter (\<lambda>(_, x). ps_user x = ps_user sess) st1) then (st1, None)
      else (gm_put new_id (sess\<lparr>ps_id := new_id,
              ps_corr := (if ps_corr sess = [] then new_corr else ps_corr sess),
              ps_expires := now + session_ttl\<rparr>) st1, Some new_id))"

definition take_owned ::
  "gotime \<Rightarrow> string \<Rightarrow> nat \<Rightarrow> session_store \<Rightarrow> session_store \<times> pending_session option \<times> take_result" where
  "take_owned now i uid st =
     (case gm_get st i of
        None \<Rightarrow> (st, None, SessionMissing)
      | Some sess \<Rightarrow>
          if after now (ps_expires sess) then (gm_del i st, Some sess, SessionExpired)
          else if ps_user sess \<noteq> uid then (st, Some sess, SessionForbidden)
          else (gm_del i st, Some sess, SessionTaken))"

text \<open>The grant handed to a caller: the session, when it was taken.\<close>

definition redeem :: "gotime \<times> string \<times> nat \<Rightarrow> session_store \<Rightarrow> session_store \<times> pending_session option" where
  "redeem r st = (case r of (now, i, uid) \<Rightarrow>
     (case take_owned now i uid st of
        (st', s, res) \<Rightarrow> (st', if res = SessionTaken then s else None)))"

interpretation approvals: single_use redeem "\<lambda>(now, i, uid). i" "\<lambda>st i. gm_get st i \<noteq> None"
  by unfold_locales (auto simp: redeem_def take_owned_def split: option.splits if_splits prod.splits)

definition sessions_of :: "nat \<Rightarrow> session_store \<Rightarrow> nat" where
  "sessions_of uid st = length (filter (\<lambda>(_, x). ps_user x = uid) st)"

definition sessions_ok :: "session_store \<Rightarrow> bool" where
  "sessions_ok st \<longleftrightarrow> gm_ok st \<and> length st \<le> max_pending \<and> (\<forall>uid. sessions_of uid st \<le> max_pending_per_user)"

lemma length_filter_filter: "length (filter p (filter q xs)) \<le> length (filter p xs)"
  by (induction xs) auto

lemma sessions_ok_filter: "sessions_ok st \<Longrightarrow> sessions_ok (filter p st)"
proof -
  assume ok: "sessions_ok st"
  have "sessions_of uid (filter p st) \<le> sessions_of uid st" for uid
    unfolding sessions_of_def by (rule length_filter_filter)
  moreover have "length (filter p st) \<le> length st" by simp
  moreover have "distinct (map fst (filter p st))" using ok by (auto simp: sessions_ok_def gm_ok_def distinct_map_filter)
  ultimately show ?thesis using ok unfolding sessions_ok_def gm_ok_def by (meson le_trans)
qed

lemma sessions_ok_put:
  assumes ok: "sessions_ok st" and room: "length st < max_pending" "sessions_of (ps_user s) st < max_pending_per_user"
    and fresh: "gm_get st i = None"
  shows "sessions_ok (gm_put i s st)"
proof -
  have e: "gm_put i s st = st @ [(i, s)]" using fresh by (intro gm_put_fresh) (simp add: map_of_eq_None_iff)
  have "sessions_of uid (st @ [(i, s)]) = sessions_of uid st + (if ps_user s = uid then 1 else 0)" for uid
    by (simp add: sessions_of_def)
  moreover have "i \<notin> fst ` set st" using fresh by (simp add: map_of_eq_None_iff)
  ultimately show ?thesis using ok room unfolding sessions_ok_def e gm_ok_def by auto
qed

lemma save_keeps_ok:
  assumes "sessions_ok st" "gm_get st i = None"
  shows "sessions_ok (fst (session_save now i c s st))"
proof -
  have e: "evict_expired now st = filter (\<lambda>(k, v). \<not> after now (ps_expires v)) st" by (simp add: evict_expired_def gm_prune_def)
  have ok: "sessions_ok (evict_expired now st)" using sessions_ok_filter [OF assms(1)] by (simp add: e)
  have "gm_get (evict_expired now st) i = None"
    using assms by (simp add: evict_expired_def gm_get_prune sessions_ok_def)
  with ok show ?thesis
    by (auto simp: session_save_def Let_def sessions_of_def [symmetric] intro!: sessions_ok_put)
qed

lemma take_keeps_ok: "sessions_ok st \<Longrightarrow> sessions_ok (fst (take_owned now i uid st))"
  by (auto simp: take_owned_def gm_del_filter sessions_ok_filter split: option.splits)

section \<open>Properties\<close>

datatype session_op = Save gotime string string pending_session | Take gotime string nat

fun session_apply :: "session_op \<Rightarrow> session_store \<Rightarrow> session_store" where
  "session_apply (Save now i c s) st = fst (session_save now i c s st)"
| "session_apply (Take now i uid) st = fst (take_owned now i uid st)"

fun fresh_ids :: "session_op list \<Rightarrow> session_store \<Rightarrow> bool" where
  "fresh_ids [] st \<longleftrightarrow> True"
| "fresh_ids (Save now i c s # xs) st \<longleftrightarrow> gm_get st i = None \<and> fresh_ids xs (session_apply (Save now i c s) st)"
| "fresh_ids (x # xs) st \<longleftrightarrow> fresh_ids xs (session_apply x st)"

text \<open>
  Whatever sequence of saves and takes is run from the empty store (ids being fresh), at most
  one hundred approvals are pending, and at most five of any one user.
\<close>

theorem pending_sessions_bounded:
  assumes "fresh_ids xs new_session_store"
  shows "length (fold session_apply xs new_session_store) \<le> 100 \<and>
    (\<forall>uid. sessions_of uid (fold session_apply xs new_session_store) \<le> 5)"
proof -
  have "sessions_ok st \<Longrightarrow> fresh_ids xs st \<Longrightarrow> sessions_ok (fold session_apply xs st)" for st
  proof (induction xs arbitrary: st)
    case (Cons x xs)
    then show ?case by (cases x) (simp_all add: save_keeps_ok take_keeps_ok)
  qed simp
  moreover have "sessions_ok new_session_store"
    by (simp add: sessions_ok_def new_session_store_def sessions_of_def)
  ultimately have "sessions_ok (fold session_apply xs new_session_store)" using assms by blast
  then show ?thesis unfolding sessions_ok_def max_pending_def max_pending_per_user_def by blast
qed

definition demo_session :: pending_session where
  "demo_session = \<lparr>ps_id = [], ps_messages = [], ps_call = \<lparr>tc_id = ''c1'', tc_type = ''function'',
     tc_name = ''delete_resource'', tc_args = ''{}''\<rparr>, ps_cluster_id = 1, ps_cluster = ''prod'', ps_user = 3,
     ps_username = ''bob'', ps_ip = [], ps_corr = [], ps_expires = 0\<rparr>"

theorem pending_sessions_bounded_witness:
  "length (fold session_apply [Save 0 ''a'' ''x'' demo_session, Take 1 ''a'' 3] new_session_store) \<le> 100"
  using pending_sessions_bounded [of "[Save 0 ''a'' ''x'' demo_session, Take 1 ''a'' 3]"]
  by (simp add: new_session_store_def)

text \<open>
  C12. A pending action is approved at most once, however often and by whomever the id is sent; an
  approval succeeds only for the user who asked for it, at or before its expiry; and an attempt by
  another user leaves it pending for its owner.
\<close>

theorem approval_once_and_by_owner:
  "successes (\<lambda>(now, i, uid). i) i (run_takes redeem rs st) \<le> 1 \<and>
   (\<forall>now uid s. snd (redeem (now, i, uid) st) = Some s \<longrightarrow> gm_get st i = Some s \<and> ps_user s = uid \<and> now \<le> ps_expires s) \<and>
   (\<forall>now uid s. gm_get st i = Some s \<longrightarrow> ps_user s \<noteq> uid \<longrightarrow> now \<le> ps_expires s \<longrightarrow>
      fst (redeem (now, i, uid) st) = st)"
proof (intro conjI allI impI)
  show "successes (\<lambda>(now, i, uid). i) i (run_takes redeem rs st) \<le> 1" by (rule approvals.at_most_once)
qed (auto simp: redeem_def take_owned_def after_def split: option.splits if_splits)

theorem approval_once_and_by_owner_witness:
  "fst (redeem (1, ''a'', 4) [(''a'', demo_session\<lparr>ps_expires := 5\<rparr>)]) = [(''a'', demo_session\<lparr>ps_expires := 5\<rparr>)]"
proof -
  have "gm_get [(''a'', demo_session\<lparr>ps_expires := 5\<rparr>)] ''a'' = Some (demo_session\<lparr>ps_expires := 5\<rparr>)"
    "ps_user (demo_session\<lparr>ps_expires := 5\<rparr>) \<noteq> 4" "1 \<le> ps_expires (demo_session\<lparr>ps_expires := 5\<rparr>)"
    by (simp_all add: demo_session_def)
  with approval_once_and_by_owner [of "''a''" "[]" "[(''a'', demo_session\<lparr>ps_expires := 5\<rparr>)]"] show ?thesis by blast
qed

end
