(* ===== verification/Resource_Registry.thy ===== *)
theory Resource_Registry
  imports Biz_Errors Json_Values
begin

text \<open>
  The table of Kubernetes resource types: \<open>internal/kubernetes/resource/resource.go\<close>. The
  registry is a map from the plural name to the metadata; only the built-in entries exist.
\<close>

datatype scope = NamespaceScoped | ClusterScoped

record gvr =
  gvr_group :: string
  gvr_version :: string
  gvr_resource :: string

record gvk =
  gvk_group :: string
  gvk_version :: string
  gvk_kind :: string

record res_meta =
  rm_name :: string
  rm_gvr :: gvr
  rm_gvk :: gvk
  rm_scope :: scope
  rm_cached :: bool

type_synonym registry = "(string, res_meta) gomap"

definition builtin :: "string \<Rightarrow> string \<Rightarrow> string \<Rightarrow> string \<Rightarrow> scope \<Rightarrow> bool \<Rightarrow> string \<times> res_meta" where
  "builtin name grp ver kind sc cached =
     (name, \<lparr>rm_name = name, rm_gvr = \<lparr>gvr_group = grp, gvr_version = ver, gvr_resource = name\<rparr>,
       rm_gvk = \<lparr>gvk_group = grp, gvk_version = ver, gvk_kind = kind\<rparr>, rm_scope = sc, rm_cached = cached\<rparr>)"

definition cached_builtins :: registry where
  "cached_builtins =
     [builtin ''pods'' [] ''v1'' ''Pod'' NamespaceScoped True,
      builtin ''deployments'' ''apps'' ''v1'' ''Deployment'' NamespaceScoped True,
      builtin ''statefulsets'' ''apps'' ''v1'' ''StatefulSet'' NamespaceScoped True,
      builtin ''daemonsets'' ''apps'' ''v1'' ''DaemonSet'' NamespaceScoped True,
      builtin ''replicasets'' ''apps'' ''v1'' ''ReplicaSet'' NamespaceScoped True,
      builtin ''services'' [] ''v1'' ''Service'' NamespaceScoped True,
      builtin ''nodes'' [] ''v1'' ''Node'' ClusterScoped True,
      builtin ''namespaces'' [] ''v1'' ''Namespace'' ClusterScoped True]"

definition uncached_builtins :: registry where
  "uncached_builtins =
     [builtin ''jobs'' ''batch'' ''v1'' ''Job'' NamespaceScoped False,
      builtin ''cronjobs'' ''batch'' ''v1'' ''CronJob'' NamespaceScoped False,
      builtin ''ingresses'' ''networking.k8s.io'' ''v1'' ''Ingress'' NamespaceScoped False,
      builtin ''configmaps'' [] ''v1'' ''ConfigMap'' NamespaceScoped False,
      builtin ''secrets'' [] ''v1'' ''Secret'' NamespaceScoped False,
      builtin ''events'' [] ''v1'' ''Event'' NamespaceScoped False,
      builtin ''persistentvolumes'' [] ''v1'' ''PersistentVolume'' ClusterScoped False,
      builtin ''persistentvolumeclaims'' [] ''v1'' ''PersistentVolumeClaim'' NamespaceScoped False,
      builtin ''storageclasses'' ''storage.k8s.io'' ''v1'' ''StorageClass'' ClusterScoped False,
      builtin ''serviceaccounts'' [] ''v1'' ''ServiceAccount'' NamespaceScoped False,
      builtin ''roles'' ''rbac.authorization.k8s.io'' ''v1'' ''Role'' NamespaceScoped False,
      builtin ''clusterroles'' ''rbac.authorization.k8s.io'' ''v1'' ''ClusterRole'' ClusterScoped False,
      builtin ''rolebindings'' ''rbac.authorization.k8s.io'' ''v1'' ''RoleBinding'' NamespaceScoped False,
      builtin ''clusterrolebindings'' ''rbac.authorization.k8s.io'' ''v1'' ''ClusterRoleBinding'' ClusterScoped False,
      builtin ''horizontalpodautoscalers'' ''autoscaling'' ''v2'' ''HorizontalPodAutoscaler'' NamespaceScoped False,
      builtin ''endpoints'' [] ''v1'' ''Endpoints'' NamespaceScoped False,
      builtin ''networkpolicies'' ''networking.k8s.io'' ''v1'' ''NetworkPolicy'' NamespaceScoped False,
      builtin ''resourcequotas'' [] ''v1'' ''ResourceQuota'' NamespaceScoped False,
      builtin ''limitranges'' [] ''v1'' ''LimitRange'' NamespaceScoped False]"

definition new_registry :: registry where
  "new_registry = fold (\<lambda>(k, v) r. gm_put k v r) (cached_builtins @ uncached_builtins) []"

definition reg_get :: "registry \<Rightarrow> string \<Rightarrow> res_meta option" where
  "reg_get r name = gm_get r name"

definition reg_all :: "registry \<Rightarrow> registry" where
  "reg_all r = r"

definition cached_gvrs :: "registry \<Rightarrow> gvr list" where
  "cached_gvrs r = map rm_gvr (filter rm_cached (map snd r))"

lemmas builtin_defs = builtin_def cached_builtins_def uncached_builtins_def

lemma map_fst_builtin: "fst (builtin n g v k sc c) = n"
  by (simp add: builtin_def)

lemma builtin_keys: "distinct (map fst (cached_builtins @ uncached_builtins))"
  by (simp add: cached_builtins_def uncached_builtins_def map_fst_builtin)

lemma fold_put_fresh:
  "distinct (map fst (acc @ xs)) \<Longrightarrow> fold (\<lambda>(k, v) r. gm_put k v r) xs acc = acc @ xs"
proof (induction xs arbitrary: acc)
  case (Cons x xs)
  then have "gm_put (fst x) (snd x) acc = acc @ [x]" by (subst gm_put_fresh) auto
  moreover have "distinct (map fst ((acc @ [x]) @ xs))" using Cons.prems by auto
  ultimately show ?case using Cons.IH [of "acc @ [x]"] by (simp add: case_prod_unfold)
qed simp

lemma new_registry_eq: "new_registry = cached_builtins @ uncached_builtins"
  using fold_put_fresh [of "[]" "cached_builtins @ uncached_builtins"] builtin_keys by (simp add: new_registry_def)

lemma new_registry_ok: "gm_ok new_registry"
  unfolding new_registry_eq gm_ok_def by (rule builtin_keys)

text \<open>Each entry is filed under its own name, which is also the resource of its GVR.\<close>

lemma registry_keys: "reg_get new_registry name = Some m \<Longrightarrow> rm_name m = name \<and> gvr_resource (rm_gvr m) = name"
proof -
  have "list_all (\<lambda>(n, m). rm_name m = n \<and> gvr_resource (rm_gvr m) = n) new_registry"
    by (simp add: new_registry_eq builtin_defs)
  then show "reg_get new_registry name = Some m \<Longrightarrow> ?thesis"
    by (auto simp: reg_get_def list_all_iff dest: map_of_SomeD)
qed

text \<open>The informer cache watches exactly the entries marked as cached.\<close>

lemma cached_gvrs_iff: "g \<in> set (cached_gvrs new_registry) \<longleftrightarrow> (\<exists>n m. reg_get new_registry n = Some m \<and> rm_cached m \<and> rm_gvr m = g)"
proof -
  have "(\<exists>n m. (n, m) \<in> set new_registry \<and> rm_cached m \<and> rm_gvr m = g) \<longleftrightarrow>
      (\<exists>n m. reg_get new_registry n = Some m \<and> rm_cached m \<and> rm_gvr m = g)"
    using gm_get_in_set [OF new_registry_ok] by (simp add: reg_get_def)
  then show ?thesis by (force simp: cached_gvrs_def)
qed

end
