(* ===== verification/Kube_Types.thy ===== *)
theory Kube_Types
  imports Resource_Registry
begin

text \<open>
  What the Kubernetes repository exchanges with its callers (\<open>repository/interfaces.go\<close>): a resource with
  the usage metrics that can be attached to it, the options of a listing and its result. The resource
  services, the assistant and the package manager share these types.
\<close>

record container_metrics =
  mc_name :: string
  mc_cpu :: int
  mc_memory :: int
  mc_cpu_request :: int
  mc_cpu_limit :: int
  mc_memory_request :: int
  mc_memory_limit :: int

record pod_metrics =
  pm_timestamp :: "gotime option"
  pm_window :: string
  pm_cpu :: int
  pm_memory :: int
  pm_cpu_request :: int
  pm_cpu_limit :: int
  pm_memory_request :: int
  pm_memory_limit :: int
  pm_containers :: "container_metrics list"

record k8s_obj =
  ko_api :: string
  ko_kind :: string
  ko_name :: string
  ko_namespace :: string
  ko_raw :: fields
  ko_metrics :: "pod_metrics option"
  ko_metrics_status :: string

record list_options =
  lo_label :: string
  lo_field :: string
  lo_limit :: int
  lo_continue :: string

record resource_list =
  rl_items :: "k8s_obj list"
  rl_total :: int
  rl_continue :: string
  rl_stale :: bool

text \<open>\<open>fmt.Errorf\<close> with \<open>%w\<close>: the text of the error is appended, and it is still a deadline if it was one.\<close>

definition wrap_error :: "string \<Rightarrow> go_error \<Rightarrow> 'a res" where
  "wrap_error msg e = Inl (OtherErr (msg @ '': '' @ error_string e) (case e of OtherErr _ d \<Rightarrow> d | BizErr _ _ \<Rightarrow> False))"

text \<open>How a handler answers with the error of a service: business errors as they are, others without their text.\<close>

definition respond_error :: "string option \<Rightarrow> go_error \<Rightarrow> 'a response" where
  "respond_error rid e =
     (case e of
        BizErr c m \<Rightarrow> resp_error_with_biz rid (BizErr c m)
      | OtherErr _ _ \<Rightarrow> resp_error rid CodeInternal ''internal server error'')"

text \<open>The metadata of a list answer that only carries its total.\<close>

definition total_meta :: "int \<Rightarrow> resp_meta" where
  "total_meta n = \<lparr>meta_source = [], meta_stale = False, meta_total = n, meta_request_id = []\<rparr>"

lemma wrap_error_simps [simp]: "\<not> isOk (wrap_error m e)" "wrap_error m e \<noteq> Inr x"
  by (simp_all add: wrap_error_def)

end
