(* ===== verification/Json_Parse.thy ===== *)
theory Json_Parse
  imports Json_Values
begin

text \<open>
  \<open>json.Unmarshal\<close> at type \<open>map[string]any\<close>, which decodes the arguments of a tool call and request
  bodies: a recursive-descent parser on the byte string, with the nesting limit of the decoder. Every
  nested value consumes at least one byte, so the length of the input is enough fuel. Reading the
  digits of a number as a float64 (\<open>strconv.ParseFloat\<close>) is the parameter \<open>pf\<close>; its failure is
  a number out of range. The replacement of invalid UTF-8 is not modelled.
\<close>

definition max_nesting :: nat where "max_nesting = 10000"

definition is_digit :: "char \<Rightarrow> bool" where
  "is_digit c \<longleftrightarrow> (let n = of_char c :: nat in 48 \<le> n \<and> n \<le> 57)"

text \<open>The number token: minus, integer part without leading zeros, fraction, exponent.\<close>

definition take_digits :: "string \<Rightarrow> string \<times> string" where
  "take_digits s = (takeWhile is_digit s, dropWhile is_digit s)"

definition scan_int :: "string \<Rightarrow> (string \<times> string) option" where
  "scan_int s =
     (case s of
        [] \<Rightarrow> None
      | c # r \<Rightarrow> if c = CHR ''0'' then Some ([c], r)
                 else if is_digit c then Some (take_digits s) else None)"

definition scan_frac :: "string \<Rightarrow> (string \<times> string) option" where
  "scan_frac s =
     (case s of
        c # r \<Rightarrow> if c = CHR ''.'' then (case take_digits r of (ds, q) \<Rightarrow> if ds = [] then None else Some (c # ds, q))
                 else Some ([], s)
      | [] \<Rightarrow> Some ([], s))"

definition scan_exp :: "string \<Rightarrow> (string \<times> string) option" where
  "scan_exp s =
     (case s of
        c # r \<Rightarrow>
          if c = CHR ''e'' \<or> c = CHR ''E'' then
            (case (case r of d # r' \<Rightarrow> if d = CHR ''+'' \<or> d = CHR ''-'' then ([d], r') else ([], r) | [] \<Rightarrow> ([], r)) of
               (sgn_part, r2) \<Rightarrow>
                 (case take_digits r2 of (ds, q) \<Rightarrow> if ds = [] then None else Some (c # sgn_part @ ds, q)))
          else Some ([], s)
      | [] \<Rightarrow> Some ([], s))"

definition scan_number :: "string \<Rightarrow> (string \<times> string) option" where
  "scan_number s =
     (let (neg, s1) = (case s of c # r \<Rightarrow> if c = CHR ''-'' then ([c], r) else ([], s) | [] \<Rightarrow> ([], s)) in
      case scan_int s1 of
        None \<Rightarrow> None
      | Some (i, s2) \<Rightarrow>
          (case scan_frac s2 of
             None \<Rightarrow> None
           | Some (f, s3) \<Rightarrow>
               (case scan_exp s3 of None \<Rightarrow> None | Some (e, s4) \<Rightarrow> Some (neg @ i @ f @ e, s4))))"

text \<open>
  A parse gives the value, whether a number was out of range (the decoder goes on and reports an
  error at the end), and the rest of the input.
\<close>

type_synonym 'a parse = "('a \<times> bool \<times> string) option"
type_synonym float_reader = "string \<Rightarrow> (int \<times> int) option"

definition value_step :: "float_reader \<Rightarrow> (nat \<Rightarrow> string \<Rightarrow> json list parse) \<Rightarrow> (nat \<Rightarrow> string \<Rightarrow> fields parse) \<Rightarrow>
    nat \<Rightarrow> string \<Rightarrow> json parse" where
  "value_step pf parr pobj d s =
     (case skip_ws s of
        [] \<Rightarrow> None
      | c # r \<Rightarrow>
          if c = quote then map_option (\<lambda>(w, q). (JStr w, False, q)) (unquote r)
          else if c = CHR ''{'' then
            (if max_nesting < Suc d then None
             else (case skip_ws r of
                     e # q \<Rightarrow> if e = CHR ''}'' then Some (JObj [], False, q)
                              else map_option (\<lambda>(m, b, q'). (JObj m, b, q')) (pobj (Suc d) r)
                   | [] \<Rightarrow> None))
          else if c = CHR ''['' then
            (if max_nesting < Suc d then None
             else (case skip_ws r of
                     e # q \<Rightarrow> if e = CHR '']'' then Some (JArr [], False, q)
                              else map_option (\<lambda>(xs, b, q'). (JArr xs, b, q')) (parr (Suc d) r)
                   | [] \<Rightarrow> None))
          else if has_prefix (c # r) ''true'' then Some (JBool True, False, drop 3 r)
          else if has_prefix (c # r) ''false'' then Some (JBool False, False, drop 4 r)
          else if has_prefix (c # r) ''null'' then Some (JNull, False, drop 3 r)
          else (case scan_number (c # r) of
                  None \<Rightarrow> None
                | Some (tok, q) \<Rightarrow>
                    (case pf tok of Some (m, e) \<Rightarrow> Some (JNum m e, False, q) | None \<Rightarrow> Some (JNull, True, q))))"

definition array_step :: "(string \<Rightarrow> json parse) \<Rightarrow> (string \<Rightarrow> json list parse) \<Rightarrow> string \<Rightarrow> json list parse" where
  "array_step pval parr s =
     (case pval s of
        None \<Rightarrow> None
      | Some (v, b, r) \<Rightarrow>
          (case skip_ws r of
             [] \<Rightarrow> None
           | c # q \<Rightarrow>
               if c = CHR '']'' then Some ([v], b, q)
               else if c = CHR '','' then map_option (\<lambda>(vs, b', q'). (v # vs, b \<or> b', q')) (parr q)
               else None))"

definition object_step :: "(string \<Rightarrow> json parse) \<Rightarrow> (fields \<Rightarrow> string \<Rightarrow> fields parse) \<Rightarrow> fields \<Rightarrow> string \<Rightarrow> fields parse" where
  "object_step pval pobj acc s =
     (case skip_ws s of
        [] \<Rightarrow> None
      | c # r \<Rightarrow>
          if c \<noteq> quote then None
          else (case unquote r of
                  None \<Rightarrow> None
                | Some (k, r1) \<Rightarrow>
                    (case skip_ws r1 of
                       [] \<Rightarrow> None
                     | e # r2 \<Rightarrow>
                         if e \<noteq> CHR '':'' then None
                         else (case pval r2 of
                                 None \<Rightarrow> None
                               | Some (v, b, r3) \<Rightarrow>
                                   (case skip_ws r3 of
                                      [] \<Rightarrow> None
                                    | f # q \<Rightarrow>
                                        if f = CHR ''}'' then Some (gm_put k v acc, b, q)
                                        else if f = CHR '','' then
                                          map_option (\<lambda>(m, b', q'). (m, b \<or> b', q')) (pobj (gm_put k v acc) q)
                                        else None)))))"

fun parse_value :: "float_reader \<Rightarrow> nat \<Rightarrow> nat \<Rightarrow> string \<Rightarrow> json parse"
  and parse_array :: "float_reader \<Rightarrow> nat \<Rightarrow> nat \<Rightarrow> string \<Rightarrow> json list parse"
  and parse_object :: "float_reader \<Rightarrow> nat \<Rightarrow> nat \<Rightarrow> fields \<Rightarrow> string \<Rightarrow> fields parse"
where
  "parse_value pf 0 d s = None"
| "parse_value pf (Suc n) d s =
     value_step pf (\<lambda>d' r. parse_array pf n d' r) (\<lambda>d' r. parse_object pf n d' [] r) d s"
| "parse_array pf 0 d s = None"
| "parse_array pf (Suc n) d s = array_step (\<lambda>r. parse_value pf n d r) (\<lambda>r. parse_array pf n d r) s"
| "parse_object pf 0 d acc s = None"
| "parse_object pf (Suc n) d acc s =
     object_step (\<lambda>r. parse_value pf n d r) (\<lambda>acc' r. parse_object pf n d acc' r) acc s"

text \<open>The whole input must be one value; a map can be read from an object or from \<open>null\<close>.\<close>

definition unmarshal_map :: "(string \<Rightarrow> (int \<times> int) option) \<Rightarrow> string \<Rightarrow> fields option" where
  "unmarshal_map pf s =
     (case parse_value pf (2 * Suc (length s)) 0 s of
        Some (v, b, r) \<Rightarrow>
          (if skip_ws r \<noteq> [] then None
           else if b then None
           else (case v of JObj m \<Rightarrow> Some m | JNull \<Rightarrow> Some [] | _ \<Rightarrow> None))
      | None \<Rightarrow> None)"

text \<open>Keys are unique in what the parser returns: a repeated key overwrites, as in a Go map.\<close>

lemma parse_object_ok: "parse_object pf n d acc s = Some (m, b, r) \<Longrightarrow> gm_ok acc \<Longrightarrow> gm_ok m"
proof (induction n arbitrary: acc s m b r)
  case (Suc n)
  then show ?case
    by (auto simp: object_step_def split: list.splits option.splits if_splits)
qed simp

lemma parse_value_ok: "parse_value pf n d s = Some (JObj m, b, r) \<Longrightarrow> gm_ok m"
  by (cases n) (auto simp: value_step_def split: list.splits if_splits option.splits dest!: parse_object_ok)

lemma unmarshal_map_ok: "unmarshal_map pf s = Some m \<Longrightarrow> gm_ok m"
  unfolding unmarshal_map_def
  by (auto simp del: parse_value.simps split: option.splits json.splits if_splits intro: parse_value_ok)

end
