(* ===== verification/Audit_Trail.thy ===== *)
theory Audit_Trail
  imports Rbac Json_Parse
begin

text \<open>
  The audit trail: the row \<open>model.AuditLog\<close> and its repository (\<open>repository/audit_repo.go\<close>), the
  buffering service (\<open>service/audit_service.go\<close>) and the HTTP middleware that redacts and records
  requests (\<open>middleware/audit.go\<close>). The flush loop is a step function on its three places: the
  channel, the current batch, the table. JSON encoding of the redacted body is a parameter.
\<close>

section \<open>Rows and repository\<close>

record audit_log =
  al_id :: nat
  al_created :: gotime
  al_user :: nat
  al_username :: string
  al_action :: string
  al_resource :: string
  al_name :: string
  al_namespace :: string
  al_cluster :: string
  al_status :: int
  al_duration :: int
  al_method :: string
  al_port :: string
  al_path :: string
  al_ip :: string
  al_source :: string
  al_tool :: string
  al_corr :: string
  al_outcome :: string
  al_body :: string

type_synonym audit_table = "audit_log table"

definition empty_log :: audit_log where
  "empty_log = \<lparr>al_id = 0, al_created = 0, al_user = 0, al_username = [], al_action = [], al_resource = [], al_name = [],
     al_namespace = [], al_cluster = [], al_status = 0, al_duration = 0, al_method = [], al_port = [], al_path = [],
     al_ip = [], al_source = [], al_tool = [], al_corr = [], al_outcome = [], al_body = []\<rparr>"

text \<open>\<open>BatchCreate\<close>: keys are handed out in order; \<open>CreateInBatches\<close> runs in one transaction.\<close>

definition audit_batch_create :: "bool \<Rightarrow> audit_log list \<Rightarrow> audit_table \<Rightarrow> audit_table res" where
  "audit_batch_create flt logs t =
     (if flt then Inl db_error
      else Inr \<lparr>rows = rows t @ map (\<lambda>(i, l). l\<lparr>al_id := seq t + i\<rparr>) (zip [1..<Suc (length logs)] logs),
                seq = seq t + length logs\<rparr>)"

record audit_filter =
  af_user :: nat
  af_action :: string
  af_cluster :: string
  af_since :: "gotime option"
  af_offset :: int
  af_limit :: int

text \<open>A negative offset or limit is no clause at all, as in \<open>gorm\<close>.\<close>

definition audit_matches :: "audit_filter \<Rightarrow> audit_log \<Rightarrow> bool" where
  "audit_matches f l \<longleftrightarrow>
     (0 < af_user f \<longrightarrow> al_user l = af_user f) \<and>
     (af_action f \<noteq> [] \<longrightarrow> al_action l = af_action f) \<and>
     (af_cluster f \<noteq> [] \<longrightarrow> al_cluster l = af_cluster f) \<and>
     (case af_since f of None \<Rightarrow> True | Some s \<Rightarrow> s \<le> al_created l)"

definition audit_list :: "faults \<Rightarrow> audit_filter \<Rightarrow> audit_table \<Rightarrow> (audit_log list \<times> nat) res" where
  "audit_list fl f t =
     (if fl DbCount then Inl db_error
      else if fl DbList then Inl db_error
      else let ms = sort_key (\<lambda>l. - al_created l) (filter (audit_matches f) (rows t));
               ms1 = (if 0 < af_offset f then drop (nat (af_offset f)) ms else ms);
               ms2 = (if 0 \<le> af_limit f then take (nat (af_limit f)) ms1 else ms1)
           in Inr (ms2, length (filter (audit_matches f) (rows t))))"

definition audit_purge :: "bool \<Rightarrow> gotime \<Rightarrow> audit_table \<Rightarrow> (audit_table \<times> nat) res" where
  "audit_purge flt before t =
     (if flt then Inl db_error
      else Inr (t\<lparr>rows := filter (\<lambda>l. \<not> al_created l < before) (rows t)\<rparr>,
                length (filter (\<lambda>l. al_created l < before) (rows t))))"

section \<open>The buffering service\<close>

definition audit_channel_size :: nat where "audit_channel_size = 1000"
definition audit_batch_size :: nat where "audit_batch_size = 100"
definition audit_flush_every :: duration where "audit_flush_every = 5 * second"

record audit_config =
  ac_enabled :: bool
  ac_sync :: bool
  ac_flush :: duration
  ac_batch :: int
  ac_retention :: int

record audit_service =
  as_cfg :: audit_config
  as_chan :: "audit_log list"
  as_batch :: "audit_log list"
  as_table :: audit_table
  as_done :: bool

definition effective_batch :: "audit_service \<Rightarrow> nat" where
  "effective_batch s = (if ac_batch (as_cfg s) \<le> 0 then audit_batch_size else nat (ac_batch (as_cfg s)))"

definition effective_flush :: "audit_service \<Rightarrow> duration" where
  "effective_flush s = (if ac_flush (as_cfg s) \<le> 0 then audit_flush_every else ac_flush (as_cfg s))"

text \<open>\<open>Record\<close>: never blocks; a full channel drops the entry.\<close>

definition audit_record :: "bool \<Rightarrow> audit_log \<Rightarrow> audit_service \<Rightarrow> audit_service" where
  "audit_record flt l s =
     (if \<not> ac_enabled (as_cfg s) then s
      else if ac_sync (as_cfg s) then
        (case audit_batch_create flt [l] (as_table s) of Inl _ \<Rightarrow> s | Inr t \<Rightarrow> s\<lparr>as_table := t\<rparr>)
      else if length (as_chan s) < audit_channel_size then s\<lparr>as_chan := as_chan s @ [l]\<rparr>
      else s)"

text \<open>\<open>flush\<close>: the batch is emptied whether or not the insert succeeded.\<close>

definition audit_flush :: "bool \<Rightarrow> audit_service \<Rightarrow> audit_service" where
  "audit_flush flt s =
     (if as_batch s = [] then s
      else (case audit_batch_create flt (as_batch s) (as_table s) of
              Inl _ \<Rightarrow> s\<lparr>as_batch := []\<rparr>
            | Inr t \<Rightarrow> s\<lparr>as_batch := [], as_table := t\<rparr>))"

text \<open>The three cases of the loop's \<open>select\<close>: an entry, a tick, the stop signal (drain, flush, exit).\<close>

definition audit_receive :: "bool \<Rightarrow> audit_service \<Rightarrow> audit_service" where
  "audit_receive flt s =
     (case as_chan s of
        [] \<Rightarrow> s
      | l # ls \<Rightarrow>
          (let s' = s\<lparr>as_chan := ls, as_batch := as_batch s @ [l]\<rparr>
           in if effective_batch s \<le> length (as_batch s') then audit_flush flt s' else s'))"

definition audit_tick :: "bool \<Rightarrow> audit_service \<Rightarrow> audit_service" where
  "audit_tick flt s = audit_flush flt s"

definition audit_stop :: "bool \<Rightarrow> audit_service \<Rightarrow> audit_service" where
  "audit_stop flt s = (audit_flush flt (s\<lparr>as_chan := [], as_batch := as_batch s @ as_chan s\<rparr>))\<lparr>as_done := True\<rparr>"

definition audit_purge_tick :: "bool \<Rightarrow> gotime \<Rightarrow> audit_service \<Rightarrow> audit_service" where
  "audit_purge_tick flt now s =
     (if ac_retention (as_cfg s) \<le> 0 then s
      else case audit_purge flt (now - ac_retention (as_cfg s) * 24 * hour) (as_table s) of
             Inl _ \<Rightarrow> s | Inr (t, _) \<Rightarrow> s\<lparr>as_table := t\<rparr>)"

datatype audit_op = Rec audit_log | Receive | Tick

fun audit_apply :: "audit_op \<Rightarrow> audit_service \<Rightarrow> audit_service" where
  "audit_apply (Rec l) s = audit_record False l s"
| "audit_apply Receive s = audit_receive False s"
| "audit_apply Tick s = audit_tick False s"

section \<open>The HTTP middleware\<close>

definition sensitive_fields :: "string list" where
  "sensitive_fields =
     [''password'', ''newpassword'', ''oldpassword'', ''bindpassword'', ''secret'', ''totpcode'', ''recoverycode'',
      ''kubeconfig'', ''token'', ''refreshtoken'', ''credential'', ''privatekey'', ''apikey'']"

definition redacted :: json where "redacted = JStr ''[REDACTED]''"

text \<open>Objects are redacted in place; of the elements of an array only those that are objects.\<close>

fun redact_value :: "json \<Rightarrow> json" where
  "redact_value (JObj m) =
     JObj (map (\<lambda>kv. (fst kv,
       if to_lower (fst kv) \<in> set sensitive_fields then redacted
       else (case snd kv of
               JObj n \<Rightarrow> redact_value (snd kv)
             | JArr xs \<Rightarrow> JArr (map (\<lambda>x. case x of JObj n \<Rightarrow> redact_value x | _ \<Rightarrow> x) xs)
             | _ \<Rightarrow> snd kv))) m)"
| "redact_value v = v"

definition redact_sensitive_fields :: "(string \<Rightarrow> (int \<times> int) option) \<Rightarrow> (json \<Rightarrow> string option) \<Rightarrow> string \<Rightarrow> string" where
  "redact_sensitive_fields pf mj body =
     (if body = [] then body
      else (case unmarshal_map pf body of
              None \<Rightarrow> ''[UNAVAILABLE]''
            | Some parsed \<Rightarrow> (case mj (redact_value (JObj parsed)) of Some out \<Rightarrow> out | None \<Rightarrow> body)))"

definition max_request_body :: nat where "max_request_body = 4 * 1024"

definition write_methods :: "string list" where
  "write_methods = [''POST'', ''PUT'', ''DELETE'', ''PATCH'']"

record http_req =
  rq_method :: string
  rq_path :: string
  rq_params :: "(string, string) gomap"
  rq_body :: "string option"
  rq_ip :: string

definition param :: "http_req \<Rightarrow> string \<Rightarrow> string" where
  "param q k = (case gm_get (rq_params q) k of Some v \<Rightarrow> v | None \<Rightarrow> [])"

definition omit_audit_body :: "http_req \<Rightarrow> bool" where
  "omit_audit_body q =
     (let path = rq_path q in
      has_prefix path ''/api/v1/auth/public-key/'' \<or>
      path = ''/api/v1/ai/chat'' \<or> path = ''/api/v1/ai/continue-action'' \<or>
      contains path ''/package-releases/preview/'' \<or>
      has_suffix path ''/package-releases/install'' \<or>
      has_suffix path ''/package-releases/upgrade'' \<or>
      contains path ''/helm/repositories'' \<or>
      contains path ''/helm/charts/upload'' \<or>
      contains path ''/helm/upgrade-policies'' \<or>
      (contains path ''/resources/:resource'' \<and> equal_fold (param q ''resource'') ''secrets''))"

definition audit_outcome :: "int \<Rightarrow> string" where
  "audit_outcome st =
     (if 200 \<le> st \<and> st < 400 then ''succeeded''
      else if st = 401 \<or> st = 403 then ''denied''
      else ''failed'')"

definition extract_name_param :: "http_req \<Rightarrow> string" where
  "extract_name_param q = (let n = param q ''name'' in if n \<noteq> [] then trim_prefix n ''/'' else [])"

text \<open>
  The middleware around a handler that answers with a status and leaves the caller's identity on
  the context. \<open>rerr\<close>: reading the body failed. The results are the body the handler reads and the
  entry handed to the service, if any.
\<close>

definition audit_middleware ::
  "(string \<Rightarrow> (int \<times> int) option) \<Rightarrow> (json \<Rightarrow> string option) \<Rightarrow> bool \<Rightarrow> gotime \<Rightarrow> gotime \<Rightarrow> http_req \<Rightarrow>
     (string option \<Rightarrow> int \<times> nat \<times> string) \<Rightarrow> string option \<times> audit_log option" where
  "audit_middleware pf mj rerr t0 t1 q handler =
     (if to_upper (rq_method q) \<notin> set write_methods then (rq_body q, None)
      else let (seen, body_str) =
               (case rq_body q of
                  None \<Rightarrow> (None, [])
                | Some b \<Rightarrow>
                    if omit_audit_body q then (Some b, [])
                    else if rerr then (Some b, [])
                    else let raw = take max_request_body b
                         in (Some (raw @ drop max_request_body b), redact_sensitive_fields pf mj raw));
             (status, uid, uname) = handler seen
         in (seen, Some (empty_log\<lparr>al_created := t1, al_user := uid, al_username := uname,
               al_action := extract_action (rq_method q) (rq_path q), al_resource := extract_resource (rq_path q),
               al_name := extract_name_param q, al_namespace := param q ''namespace'', al_cluster := param q ''id'',
               al_status := status, al_duration := (t1 - t0) div millisecond, al_ip := rq_ip q,
               al_method := rq_method q, al_path := rq_path q, al_source := ''http'',
               al_outcome := audit_outcome status, al_body := body_str\<rparr>)))"

section \<open>Properties\<close>

definition no_id :: "audit_log \<Rightarrow> audit_log" where
  "no_id l = l\<lparr>al_id := 0\<rparr>"

text \<open>Everything the service holds, in the order of recording, without the keys.\<close>

definition held :: "audit_service \<Rightarrow> audit_log list" where
  "held s = map no_id (rows (as_table s) @ as_batch s @ as_chan s)"

text \<open>The entries among some operations that \<open>Record\<close> accepted (enabled, channel not full).\<close>

fun accepted :: "audit_op list \<Rightarrow> audit_service \<Rightarrow> audit_log list" where
  "accepted [] s = []"
| "accepted (Rec l # os) s =
     (if ac_enabled (as_cfg s) \<and> length (as_chan s) < audit_channel_size then [l] else []) @ accepted os (audit_apply (Rec l) s)"
| "accepted (x # os) s = accepted os (audit_apply x s)"

lemma batch_create_rows:
  "audit_batch_create flt ls t = Inr t' \<Longrightarrow> map no_id (rows t') = map no_id (rows t) @ map no_id ls"
proof -
  have "map (\<lambda>(i, l). no_id (l\<lparr>al_id := k + i\<rparr>)) (zip ns xs) = map no_id xs" if "length ns = length xs" for k ns xs
    using that by (induction ns xs rule: list_induct2) (auto simp: no_id_def)
  then show "audit_batch_create flt ls t = Inr t' \<Longrightarrow> ?thesis"
    by (auto simp: audit_batch_create_def comp_def case_prod_unfold simp del: upt_Suc split: if_splits)
qed

lemma held_flush [simp]: "held (audit_flush False s) = held s" "as_cfg (audit_flush flt s) = as_cfg s"
  "as_chan (audit_flush flt s) = as_chan s" "as_batch (audit_flush flt s) = []"
proof -
  obtain t' where "audit_batch_create False (as_batch s) (as_table s) = Inr t'" by (simp add: audit_batch_create_def)
  with batch_create_rows [OF this] show "held (audit_flush False s) = held s"
    by (simp add: held_def audit_flush_def)
qed (auto simp: audit_flush_def split: sum.splits)

lemma held_apply:
  "\<not> ac_sync (as_cfg s) \<Longrightarrow> held (audit_apply x s) =
     held s @ map no_id (case x of Rec l \<Rightarrow> if ac_enabled (as_cfg s) \<and> length (as_chan s) < audit_channel_size then [l] else [] | _ \<Rightarrow> [])"
  "as_cfg (audit_apply x s) = as_cfg s"
proof -
  show "as_cfg (audit_apply x s) = as_cfg s"
    by (cases x) (auto simp: audit_record_def audit_receive_def audit_tick_def Let_def split: list.splits sum.splits)
  assume sync: "\<not> ac_sync (as_cfg s)"
  show "held (audit_apply x s) =
     held s @ map no_id (case x of Rec l \<Rightarrow> if ac_enabled (as_cfg s) \<and> length (as_chan s) < audit_channel_size then [l] else [] | _ \<Rightarrow> [])"
  proof (cases x)
    case (Rec l)
    with sync show ?thesis by (auto simp: audit_record_def held_def)
  next
    case Receive
    show ?thesis
    proof (cases "as_chan s")
      case Nil
      with Receive show ?thesis by (simp add: audit_receive_def)
    next
      case (Cons l ls)
      have "held (s\<lparr>as_chan := ls, as_batch := as_batch s @ [l]\<rparr>) = held s" using Cons by (simp add: held_def)
      with Receive Cons show ?thesis by (simp add: audit_receive_def Let_def)
    qed
  qed (simp add: audit_tick_def)
qed

text \<open>
  C10. The audit pipeline neither loses nor duplicates nor reorders: whatever the interleaving of
  recording, receiving and ticks (and while the store works), the table followed by the batch and
  the channel holds exactly what was there before and the accepted entries, in order; and stopping
  moves all of it to the table.
\<close>

theorem audit_pipeline_exact:
  assumes "\<not> ac_sync (as_cfg s)"
  shows "held (fold audit_apply xs s) = held s @ map no_id (accepted xs s) \<and>
    map no_id (rows (as_table (audit_stop False (fold audit_apply xs s)))) = held s @ map no_id (accepted xs s)"
proof -
  have h: "held (fold audit_apply xs s) = held s @ map no_id (accepted xs s)"
    using assms
  proof (induction xs arbitrary: s)
    case (Cons x xs)
    from Cons.prems have "\<not> ac_sync (as_cfg (audit_apply x s))" by (simp add: held_apply(2))
    from Cons.IH [OF this] held_apply(1) [OF Cons.prems, of x] show ?case by (cases x) simp_all
  qed simp
  have "map no_id (rows (as_table (audit_stop False u))) = held u" for u
  proof -
    let ?u = "audit_flush False (u\<lparr>as_chan := [], as_batch := as_batch u @ as_chan u\<rparr>)"
    have "held ?u = held u" by (simp add: held_def [of u] held_def [of "u\<lparr>as_chan := [], as_batch := as_batch u @ as_chan u\<rparr>"])
    moreover have "held ?u = map no_id (rows (as_table ?u))" by (simp add: held_def)
    ultimately show ?thesis by (simp add: audit_stop_def)
  qed
  with h show ?thesis by simp
qed

definition demo_audit :: audit_service where
  "demo_audit = \<lparr>as_cfg = \<lparr>ac_enabled = True, ac_sync = False, ac_flush = 0, ac_batch = 2, ac_retention = 0\<rparr>,
     as_chan = [], as_batch = [], as_table = empty_table, as_done = False\<rparr>"

theorem audit_pipeline_exact_witness:
  "map no_id (rows (as_table (audit_stop False
     (fold audit_apply [Rec (empty_log\<lparr>al_action := ''create''\<rparr>), Receive, Rec (empty_log\<lparr>al_action := ''delete''\<rparr>)] demo_audit)))) =
   [empty_log\<lparr>al_action := ''create''\<rparr>, empty_log\<lparr>al_action := ''delete''\<rparr>]"
proof -
  have sync: "\<not> ac_sync (as_cfg demo_audit)" by (simp add: demo_audit_def)
  have h: "held demo_audit = []" by (simp add: held_def demo_audit_def empty_table_def)
  have acc: "accepted [Rec x, Receive, Rec y] demo_audit = [x, y]" for x y
    by (simp add: demo_audit_def audit_record_def audit_receive_def audit_channel_size_def Let_def effective_batch_def)
  show ?thesis
    unfolding audit_pipeline_exact [OF sync, THEN conjunct2] h acc by (simp add: no_id_def empty_log_def)
qed

text \<open>A document without a sensitive value: every sensitive field, at any depth, holds the placeholder.\<close>

fun sanitised :: "json \<Rightarrow> bool" where
  "sanitised (JObj m) = (\<forall>kv \<in> set m. (to_lower (fst kv) \<in> set sensitive_fields \<longrightarrow> snd kv = redacted) \<and> sanitised (snd kv))"
| "sanitised (JArr xs) = (\<forall>x \<in> set xs. sanitised x)"
| "sanitised _ = True"

text \<open>No array is an element of an array.\<close>

fun flat_arrays :: "json \<Rightarrow> bool" where
  "flat_arrays (JObj m) = (\<forall>kv \<in> set m. flat_arrays (snd kv))"
| "flat_arrays (JArr xs) = (\<forall>x \<in> set xs. as_arr (Some x) = None \<and> flat_arrays x)"
| "flat_arrays _ = True"

lemma redact_sanitised: "flat_arrays v \<Longrightarrow> (\<nexists>xs. v = JArr xs) \<Longrightarrow> sanitised (redact_value v)"
proof (induction v rule: redact_value.induct)
  case (1 m)
  have "sanitised (JArr (map (\<lambda>x. case x of JObj n \<Rightarrow> redact_value x | _ \<Rightarrow> x) xs))"
    if kv: "kv \<in> set m" "to_lower (fst kv) \<notin> set sensitive_fields" "snd kv = JArr xs" for kv xs
  proof -
    have "flat_arrays (JArr xs)" using 1(3) kv(1,3) by auto
    then have fl: "as_arr (Some x) = None" "flat_arrays x" if "x \<in> set xs" for x using that by auto
    have "sanitised (case x of JObj n \<Rightarrow> redact_value x | _ \<Rightarrow> x)" if x: "x \<in> set xs" for x
    proof (cases x)
      case (JObj n)
      have "sanitised (redact_value x)" by (rule 1(1) [OF kv x JObj fl(2) [OF x]]) (simp add: JObj)
      with JObj show ?thesis by simp
    qed (use fl [OF x] in \<open>simp_all add: as_arr_def\<close>)
    then show ?thesis by simp
  qed
  note arr = this
  have obj: "sanitised (redact_value (snd kv))"
    if kv: "kv \<in> set m" "to_lower (fst kv) \<notin> set sensitive_fields" "snd kv = JObj n" for kv n
  proof (rule 1(2) [OF kv])
    show "flat_arrays (snd kv)" using 1(3) kv(1) by simp
  qed (simp add: kv(3))
  have "sanitised (if to_lower (fst kv) \<in> set sensitive_fields then redacted
       else (case snd kv of
               JObj n \<Rightarrow> redact_value (snd kv)
             | JArr xs \<Rightarrow> JArr (map (\<lambda>x. case x of JObj n \<Rightarrow> redact_value x | _ \<Rightarrow> x) xs)
             | _ \<Rightarrow> snd kv))" if "kv \<in> set m" for kv
  proof (cases "snd kv")
    case (JArr xs)
    with arr [OF that _ JArr] show ?thesis by (simp add: redacted_def del: sanitised.simps(2))
  next
    case (JObj n)
    with obj [OF that _ JObj] show ?thesis by (simp add: redacted_def del: sanitised.simps(1) redact_value.simps)
  qed (simp_all add: redacted_def)
  then show ?case by simp
qed simp_all

text \<open>
  C20. Redaction is complete on documents whose arrays do not directly nest: at every depth each
  field whose name is sensitive in any letter case holds only the placeholder.
\<close>

theorem redaction_complete:
  assumes "flat_arrays (JObj m)"
  shows "sanitised (redact_value (JObj m))"
  by (rule redact_sanitised [OF assms]) simp

theorem redaction_complete_witness:
  "sanitised (redact_value (JObj [(''user'', JObj [(''PassWord'', JStr ''x'')]), (''keys'', JArr [JObj [(''apiKey'', JStr ''y'')]])]))"
  by (rule redaction_complete) (simp add: as_arr_def)

text \<open>
  An object inside an array inside an array is not visited, so a password there reaches the
  stored audit entry in clear.
\<close>

theorem nested_array_not_redacted:
  "redact_value (JObj [(''items'', JArr [JArr [JObj [(''password'', JStr ''pw'')]]])]) =
     JObj [(''items'', JArr [JArr [JObj [(''password'', JStr ''pw'')]]])] \<and>
   \<not> sanitised (JObj [(''items'', JArr [JArr [JObj [(''password'', JStr ''pw'')]]])])"
  by (simp add: sensitive_fields_def to_lower_def to_lower_char_def redacted_def)

text \<open>
  The middleware is transparent to the handler, which reads the whole body however long it is;
  it records exactly the requests with a writing method; and nothing of the body is recorded on the
  routes that carry credentials or charts.
\<close>

theorem audit_middleware_transparent:
  "fst (audit_middleware pf mj rerr t0 t1 q h) = rq_body q \<and>
   (snd (audit_middleware pf mj rerr t0 t1 q h) \<noteq> None \<longleftrightarrow> to_upper (rq_method q) \<in> {''POST'', ''PUT'', ''DELETE'', ''PATCH''}) \<and>
   (\<forall>e. snd (audit_middleware pf mj rerr t0 t1 q h) = Some e \<longrightarrow> omit_audit_body q \<longrightarrow> al_body e = [])"
  by (auto simp: audit_middleware_def write_methods_def Let_def split: option.splits prod.splits)

definition demo_chat :: http_req where
  "demo_chat = \<lparr>rq_method = ''POST'', rq_path = ''/api/v1/ai/chat'', rq_params = [], rq_body = Some ''{}'', rq_ip = []\<rparr>"

theorem audit_middleware_transparent_witness:
  "\<exists>e. snd (audit_middleware (\<lambda>_. None) (\<lambda>_. None) False 0 1 demo_chat (\<lambda>_. (200, 3, ''bob''))) = Some e \<and> al_body e = []"
proof -
  have "omit_audit_body demo_chat" "to_upper (rq_method demo_chat) = ''POST''"
    by (simp_all add: demo_chat_def omit_audit_body_def to_upper_def to_upper_char_def)
  with audit_middleware_transparent [of "\<lambda>_. None" "\<lambda>_. None" False 0 1 demo_chat "\<lambda>_. (200, 3, ''bob'')"]
  show ?thesis by auto
qed

end
