(* ===== verification/Ai_Agent.thy ===== *)
theory Ai_Agent
  imports Ai_Authz Ai_Sessions Kube_Types Audit_Trail Operations
begin

text \<open>
  The assistant: tool execution (\<open>internal/ai/tools.go\<close>, \<open>tools_read.go\<close>, \<open>tools_mutate.go\<close>), the
  events sent to the client (\<open>events.go\<close>), the agent loop with its approval pause and the execution
  of approved actions (\<open>agent.go\<close>), and the background executor (\<open>operations.go\<close>). The
  Kubernetes cluster is an abstract state \<open>'w\<close>; the operations of \<open>K8sResourceRepo\<close> on it, the pod
  log stream, Prometheus, the YAML codec and the language model are parameters. Queries of the
  cluster cannot change its state, which is their type.
\<close>

section \<open>The world of the tools\<close>

text \<open>
  \<open>te_prom\<close>: \<open>None\<close> when no getter is set, \<open>Some None\<close> when the plugin is unavailable.
  \<open>te_yaml\<close> decodes into \<open>any\<close>, \<open>te_yaml_map\<close> into a map (\<open>None\<close> is a nil map).
\<close>

record 'w tool_env =
  te_get :: "'w \<Rightarrow> string \<Rightarrow> string \<Rightarrow> string \<Rightarrow> string \<Rightarrow> k8s_obj res"
  te_list :: "'w \<Rightarrow> string \<Rightarrow> string \<Rightarrow> string \<Rightarrow> list_options \<Rightarrow> k8s_obj list res"
  te_create :: "'w \<Rightarrow> string \<Rightarrow> string \<Rightarrow> string \<Rightarrow> fields \<Rightarrow> 'w \<times> k8s_obj res"
  te_update :: "'w \<Rightarrow> string \<Rightarrow> string \<Rightarrow> string \<Rightarrow> string \<Rightarrow> fields \<Rightarrow> 'w \<times> k8s_obj res"
  te_patch :: "'w \<Rightarrow> string \<Rightarrow> string \<Rightarrow> string \<Rightarrow> string \<Rightarrow> string \<Rightarrow> 'w \<times> k8s_obj res"
  te_delete :: "'w \<Rightarrow> string \<Rightarrow> string \<Rightarrow> string \<Rightarrow> string \<Rightarrow> 'w \<times> unit res"
  te_logs :: "'w \<Rightarrow> string \<Rightarrow> string \<Rightarrow> string \<Rightarrow> string \<Rightarrow> bool \<Rightarrow> int \<Rightarrow> string res"
  te_prom :: "('w \<Rightarrow> string \<Rightarrow> string res) option option"
  te_yaml :: "string \<Rightarrow> string + json"
  te_yaml_map :: "string \<Rightarrow> string + fields option"
  te_yaml_out :: "fields \<Rightarrow> string res"
  te_float :: float_reader

abbreviation err :: "string \<Rightarrow> 'a res" where "err m \<equiv> Inl (OtherErr m False)"

section \<open>Reading tools\<close>

definition max_log_bytes :: nat where "max_log_bytes = 16 * 1024"
definition max_tool_result_bytes :: nat where "max_tool_result_bytes = 64 * 1024"

definition or_null :: "json option \<Rightarrow> json" where
  "or_null v = (case v of None \<Rightarrow> JNull | Some x \<Rightarrow> x)"

definition redact_secret_data :: "fields \<Rightarrow> fields" where
  "redact_secret_data raw =
     [(''apiVersion'', or_null (gm_get raw ''apiVersion'')), (''kind'', or_null (gm_get raw ''kind'')),
      (''type'', or_null (gm_get raw ''type'')), (''data'', JStr ''[REDACTED]'')] @
     (case as_obj (gm_get raw ''metadata'') of
        None \<Rightarrow> []
      | Some meta \<Rightarrow> [(''metadata'', JObj [(''name'', or_null (gm_get meta ''name'')),
          (''namespace'', or_null (gm_get meta ''namespace'')), (''labels'', or_null (gm_get meta ''labels'')),
          (''creationTimestamp'', or_null (gm_get meta ''creationTimestamp''))])])"

definition get_resource :: "'w tool_env \<Rightarrow> string \<Rightarrow> 'w \<Rightarrow> fields \<Rightarrow> string res" where
  "get_resource te cl w args =
     (let kind = arg_string args ''kind''; name = arg_string args ''name'' in
      if kind = [] \<or> name = [] then err ''kind and name are required''
      else case te_get te w cl kind (arg_string args ''namespace'') name of
             Inl e \<Rightarrow> Inl e
           | Inr o_res \<Rightarrow> te_yaml_out te (if equal_fold kind ''secrets'' then redact_secret_data (ko_raw o_res) else ko_raw o_res))"

definition limit_tool_result :: "string \<Rightarrow> string" where
  "limit_tool_result r =
     (if length r \<le> max_tool_result_bytes then r
      else take max_tool_result_bytes r @ CHR 10 # ''...(truncated)...'')"

definition pod_phase :: "fields \<Rightarrow> string" where
  "pod_phase raw =
     (case as_obj (gm_get raw ''status'') of None \<Rightarrow> [] | Some st \<Rightarrow> str_or_empty (gm_get st ''phase''))"

definition summarize_status :: "fields \<Rightarrow> string" where
  "summarize_status raw = (let p = pod_phase raw in if p \<noteq> [] then p else [])"

definition list_line :: "k8s_obj \<Rightarrow> string" where
  "list_line item =
     (if ko_namespace item \<noteq> [] then ''- '' @ ko_namespace item @ ''/'' @ ko_name item else ''- '' @ ko_name item) @
     (let st = summarize_status (ko_raw item) in if st \<noteq> [] then '' ['' @ st @ '']'' else []) @ [CHR 10]"

definition list_resources :: "'w tool_env \<Rightarrow> string \<Rightarrow> 'w \<Rightarrow> fields \<Rightarrow> string res" where
  "list_resources te cl w args =
     (let kind = arg_string args ''kind'' in
      if kind = [] then err ''kind is required''
      else case te_list te w cl kind (arg_string args ''namespace'')
                  \<lparr>lo_label = arg_string args ''labelSelector'', lo_field = [], lo_limit = 500, lo_continue = []\<rparr> of
             Inl e \<Rightarrow> Inl e
           | Inr items \<Rightarrow>
               if items = [] then Inr (''No '' @ kind @ '' found.'')
               else Inr (dec_nat (length items) @ '' '' @ kind @ '':'' @ [CHR 10] @ concat (map list_line items)))"

definition get_pod_logs :: "'w tool_env \<Rightarrow> string \<Rightarrow> 'w \<Rightarrow> fields \<Rightarrow> string res" where
  "get_pod_logs te cl w args =
     (let ns = arg_string args ''namespace''; name = arg_string args ''name'' in
      if ns = [] \<or> name = [] then err ''namespace and name are required''
      else case te_logs te w cl ns name (arg_string args ''container'') (arg_bool args ''previous'') (arg_int args ''tailLines'' 200) of
             Inl e \<Rightarrow> Inl e
           | Inr out \<Rightarrow>
               if max_log_bytes < length out
               then Inr (''...(truncated)...'' @ CHR 10 # drop (length out - max_log_bytes) out)
               else if out = [] then Inr ''(no log output)'' else Inr out)"

definition overview_opts :: list_options where
  "overview_opts = \<lparr>lo_label = [], lo_field = [], lo_limit = 1000, lo_continue = []\<rparr>"

definition overview_count :: "'w tool_env \<Rightarrow> string \<Rightarrow> 'w \<Rightarrow> string \<Rightarrow> string" where
  "overview_count te cl w kind =
     (case te_list te w cl kind [] overview_opts of
        Inl e \<Rightarrow> (if error_string e \<noteq> [] then ''- '' @ kind @ '': unavailable ('' @ error_string e @ '')'' @ [CHR 10]
                  else ''- '' @ kind @ '': 0'' @ [CHR 10])
      | Inr items \<Rightarrow> ''- '' @ kind @ '': '' @ dec_nat (length items) @ [CHR 10])"

definition get_cluster_overview :: "'w tool_env \<Rightarrow> string \<Rightarrow> 'w \<Rightarrow> string res" where
  "get_cluster_overview te cl w =
     Inr (''Cluster overview:'' @ [CHR 10] @
       concat (map (overview_count te cl w) [''nodes'', ''namespaces'', ''pods'', ''deployments'', ''services'']) @
       (case te_list te w cl ''pods'' [] overview_opts of
          Inl _ \<Rightarrow> []
        | Inr pods \<Rightarrow>
            let bad = filter (\<lambda>p. let ph = pod_phase (ko_raw p) in ph \<noteq> [] \<and> ph \<noteq> ''Running'' \<and> ph \<noteq> ''Succeeded'') pods
            in if bad = [] then []
               else ''Pods not Running/Succeeded ('' @ dec_nat (length bad) @ ''):'' @ [CHR 10] @
                 concat (map (\<lambda>p. ''- '' @ ko_namespace p @ ''/'' @ ko_name p @ '' ('' @ pod_phase (ko_raw p) @ '')'' @ [CHR 10]) bad)))"

definition query_prometheus :: "'w tool_env \<Rightarrow> 'w \<Rightarrow> fields \<Rightarrow> string res" where
  "query_prometheus te w args =
     (let q = arg_string args ''query'' in
      if q = [] then err ''query is required''
      else case te_prom te of
             None \<Rightarrow> err ''prometheus is not configured''
           | Some None \<Rightarrow> err ''prometheus plugin is not available''
           | Some (Some run) \<Rightarrow> run w q)"

section \<open>Mutating tools\<close>

definition parse_manifest :: "'w tool_env \<Rightarrow> string \<Rightarrow> fields res" where
  "parse_manifest te raw =
     (case te_yaml_map te raw of
        Inl e \<Rightarrow> err (''invalid manifest: '' @ e)
      | Inr None \<Rightarrow> err ''empty manifest''
      | Inr (Some m) \<Rightarrow> Inr m)"

definition manifest_namespace :: "fields \<Rightarrow> string" where
  "manifest_namespace m =
     (case as_obj (gm_get m ''metadata'') of None \<Rightarrow> [] | Some meta \<Rightarrow> str_or_empty (gm_get meta ''namespace''))"

definition validate_manifest_kind :: "string \<Rightarrow> fields \<Rightarrow> unit res" where
  "validate_manifest_kind rname m =
     (case reg_get new_registry (to_lower rname) of
        None \<Rightarrow> err (''unknown resource kind: '' @ rname)
      | Some meta \<Rightarrow>
          let k = str_or_empty (gm_get m ''kind'') in
          if k = [] \<or> \<not> equal_fold k (gvk_kind (rm_gvk meta))
          then err (''manifest kind '' @ go_quote k @ '' does not match requested resource '' @ go_quote rname)
          else Inr ())"

definition validate_manifest_target :: "string \<Rightarrow> string \<Rightarrow> fields \<Rightarrow> unit res" where
  "validate_manifest_target name ns m =
     (let meta = obj_or_nil (gm_get m ''metadata'');
          mname = str_or_empty (gm_get meta ''name''); mns = str_or_empty (gm_get meta ''namespace'') in
      if mname = [] then err ''manifest metadata.name is required''
      else if name \<noteq> [] \<and> mname \<noteq> name
        then err (''manifest name '' @ go_quote mname @ '' does not match requested name '' @ go_quote name)
      else if ns \<noteq> [] \<and> mns \<noteq> [] \<and> mns \<noteq> ns
        then err (''manifest namespace '' @ go_quote mns @ '' does not match requested namespace '' @ go_quote ns)
      else Inr ())"

definition done_message :: "string \<Rightarrow> k8s_obj \<Rightarrow> string" where
  "done_message verb r = verb @ '' '' @ ko_kind r @ '' '' @ ko_namespace r @ ''/'' @ ko_name r @ ''.''"

definition create_resource :: "'w tool_env \<Rightarrow> string \<Rightarrow> 'w \<Rightarrow> fields \<Rightarrow> 'w \<times> string res" where
  "create_resource te cl w args =
     (let kind = arg_string args ''kind''; raw = arg_string args ''yaml''; ns0 = arg_string args ''namespace'' in
      if kind = [] \<or> raw = [] then (w, err ''kind and yaml are required'')
      else (case parse_manifest te raw of Inl e \<Rightarrow> (w, Inl e) | Inr m \<Rightarrow>
           (case validate_manifest_kind kind m of Inl e \<Rightarrow> (w, Inl e) | Inr _ \<Rightarrow>
           (case validate_manifest_target [] ns0 m of Inl e \<Rightarrow> (w, Inl e) | Inr _ \<Rightarrow>
            let ns = (if ns0 = [] then manifest_namespace m else ns0) in
            (case te_create te w cl kind ns m of
               (w', Inl e) \<Rightarrow> (w', Inl e)
             | (w', Inr r) \<Rightarrow> (w', Inr (done_message ''Created'' r)))))))"

definition update_resource :: "'w tool_env \<Rightarrow> string \<Rightarrow> 'w \<Rightarrow> fields \<Rightarrow> 'w \<times> string res" where
  "update_resource te cl w args =
     (let kind = arg_string args ''kind''; name = arg_string args ''name''; raw = arg_string args ''yaml'';
          ns0 = arg_string args ''namespace'' in
      if kind = [] \<or> name = [] \<or> raw = [] then (w, err ''kind, name and yaml are required'')
      else (case parse_manifest te raw of Inl e \<Rightarrow> (w, Inl e) | Inr m \<Rightarrow>
           (case validate_manifest_kind kind m of Inl e \<Rightarrow> (w, Inl e) | Inr _ \<Rightarrow>
           (case validate_manifest_target name ns0 m of Inl e \<Rightarrow> (w, Inl e) | Inr _ \<Rightarrow>
            let ns = (if ns0 = [] then manifest_namespace m else ns0) in
            (case te_update te w cl kind ns name m of
               (w', Inl e) \<Rightarrow> (w', Inl e)
             | (w', Inr r) \<Rightarrow> (w', Inr (done_message ''Updated'' r)))))))"

definition patch_resource :: "'w tool_env \<Rightarrow> string \<Rightarrow> 'w \<Rightarrow> fields \<Rightarrow> 'w \<times> string res" where
  "patch_resource te cl w args =
     (let kind = arg_string args ''kind''; name = arg_string args ''name''; patch = arg_string args ''patch'' in
      if kind = [] \<or> name = [] \<or> patch = [] then (w, err ''kind, name and patch are required'')
      else (case te_patch te w cl kind (arg_string args ''namespace'') name patch of
              (w', Inl e) \<Rightarrow> (w', Inl e)
            | (w', Inr r) \<Rightarrow> (w', Inr (done_message ''Patched'' r))))"

definition delete_resource :: "'w tool_env \<Rightarrow> string \<Rightarrow> 'w \<Rightarrow> fields \<Rightarrow> 'w \<times> string res" where
  "delete_resource te cl w args =
     (let kind = arg_string args ''kind''; name = arg_string args ''name''; ns = arg_string args ''namespace'' in
      if kind = [] \<or> name = [] then (w, err ''kind and name are required'')
      else (case te_delete te w cl kind ns name of
              (w', Inl e) \<Rightarrow> (w', Inl e)
            | (w', Inr _) \<Rightarrow> (w', Inr (''Deleted '' @ kind @ '' '' @ ns @ ''/'' @ name @ ''.''))))"

definition execute_tool :: "'w tool_env \<Rightarrow> string \<Rightarrow> 'w \<Rightarrow> string \<Rightarrow> fields \<Rightarrow> 'w \<times> string res" where
  "execute_tool te cl w tool args =
     (if tool = ''get_resource'' then (w, get_resource te cl w args)
      else if tool = ''list_resources'' then (w, list_resources te cl w args)
      else if tool = ''get_pod_logs'' then (w, get_pod_logs te cl w args)
      else if tool = ''get_cluster_overview'' then (w, get_cluster_overview te cl w)
      else if tool = ''query_prometheus'' then (w, query_prometheus te w args)
      else if tool = ''create_resource'' then create_resource te cl w args
      else if tool = ''update_resource'' then update_resource te cl w args
      else if tool = ''patch_resource'' then patch_resource te cl w args
      else if tool = ''delete_resource'' then delete_resource te cl w args
      else (w, err (''unknown tool: '' @ tool)))"

lemma execute_reads_only: "\<not> is_mutation tool \<Longrightarrow> fst (execute_tool te cl w tool args) = w"
  by (simp add: execute_tool_def is_mutation_def mutation_tools_def)

section \<open>Events\<close>

datatype sse =
    EvMessage string
  | EvToolCall string string fields
  | EvToolResult string string string bool
  | EvActionRequired string string fields string
  | EvError string
  | EvDone

definition event_name :: "sse \<Rightarrow> string" where
  "event_name e = (case e of
       EvMessage _ \<Rightarrow> ''message'' | EvToolCall _ _ _ \<Rightarrow> ''tool_call'' | EvToolResult _ _ _ _ \<Rightarrow> ''tool_result''
     | EvActionRequired _ _ _ _ \<Rightarrow> ''action_required'' | EvError _ \<Rightarrow> ''error'' | EvDone \<Rightarrow> ''done'')"

definition event_data :: "sse \<Rightarrow> fields" where
  "event_data e = (case e of
       EvMessage c \<Rightarrow> [(''content'', JStr c)]
     | EvToolCall t i a \<Rightarrow> [(''tool'', JStr t), (''tool_call_id'', JStr i), (''args'', JObj a)]
     | EvToolResult t i r b \<Rightarrow> [(''tool'', JStr t), (''tool_call_id'', JStr i), (''result'', JStr r), (''is_error'', JBool b)]
     | EvActionRequired t i a sid \<Rightarrow> [(''tool'', JStr t), (''tool_call_id'', JStr i), (''args'', JObj a), (''session_id'', JStr sid)]
     | EvError m \<Rightarrow> [(''message'', JStr m)]
     | EvDone \<Rightarrow> [])"

section \<open>The agent loop\<close>

definition max_iterations :: nat where "max_iterations = 12"
definition max_empty_responses :: nat where "max_empty_responses = 2"

record actor =
  a_user :: nat
  a_name :: string
  a_role :: string
  a_ip :: string

record run =
  r_actor :: actor
  r_cluster_id :: nat
  r_cluster :: string

text \<open>
  \<open>ae_llm\<close>: the model's answer to a conversation, as the text deltas it streams and then an error
  or the complete message. \<open>ae_now\<close> and the two ids serve the session that a turn may save.
\<close>

record 'w agent_env =
  ae_tools :: "'w tool_env"
  ae_llm :: "message list \<Rightarrow> string list \<times> (string + message)"
  ae_roles :: role_table
  ae_faults :: faults
  ae_now :: gotime
  ae_new_id :: string
  ae_new_corr :: string

definition decode_args :: "float_reader \<Rightarrow> string \<Rightarrow> fields" where
  "decode_args pf raw = (if raw = [] then [] else case unmarshal_map pf raw of None \<Rightarrow> [] | Some m \<Rightarrow> m)"

definition call_args :: "'w agent_env \<Rightarrow> tool_call \<Rightarrow> fields" where
  "call_args ae tc = decode_args (te_float (ae_tools ae)) (tc_args tc)"

definition yaml_value :: "'w tool_env \<Rightarrow> string \<Rightarrow> json option" where
  "yaml_value te s = (case te_yaml te s of Inl _ \<Rightarrow> None | Inr v \<Rightarrow> Some v)"

definition may_run :: "'w agent_env \<Rightarrow> string \<Rightarrow> string \<Rightarrow> fields \<Rightarrow> string" where
  "may_run ae rl tool args = authorize (yaml_value (ae_tools ae)) (ae_faults ae) (ae_roles ae) rl tool args"

definition tool_result_message :: "string \<Rightarrow> string \<Rightarrow> message" where
  "tool_result_message call_id content = \<lparr>msg_role = ''tool'', msg_content = content, msg_calls = [], msg_call_id = call_id\<rparr>"

definition skipped_text :: string where
  "skipped_text = ''Skipped: only one change is processed at a time. Re-request after the pending action is resolved.''"

text \<open>The tool calls of one turn; the first authorized mutation becomes pending, later calls are skipped.\<close>

fun agent_calls :: "'w agent_env \<Rightarrow> run \<Rightarrow> 'w \<Rightarrow> tool_call list \<Rightarrow> (tool_call \<times> fields) option \<Rightarrow>
    'w \<times> (tool_call \<times> fields) option \<times> message list \<times> sse list" where
  "agent_calls ae r w [] pend = (w, pend, [], [])"
| "agent_calls ae r w (tc # tcs) pend =
     (let args = call_args ae tc;
          announce = EvToolCall (tc_name tc) (tc_id tc) args;
          answer = (\<lambda>w' res is_err. case agent_calls ae r w' tcs pend of
             (w2, p2, ms, evs) \<Rightarrow> (w2, p2, tool_result_message (tc_id tc) res # ms,
                                  announce # EvToolResult (tc_name tc) (tc_id tc) res is_err # evs));
          deny = may_run ae (a_role (r_actor r)) (tc_name tc) args
      in if pend \<noteq> None then answer w skipped_text False
         else if deny \<noteq> [] then answer w (''Forbidden: '' @ deny) True
         else if is_mutation (tc_name tc) then
           (case agent_calls ae r w tcs (Some (tc, args)) of (w2, p2, ms, evs) \<Rightarrow> (w2, p2, ms, announce # evs))
         else (case execute_tool (ae_tools ae) (r_cluster r) w (tc_name tc) args of
                 (w', Inl e) \<Rightarrow> answer w' (limit_tool_result (''Tool error: '' @ error_string e)) True
               | (w', Inr res) \<Rightarrow> answer w' (limit_tool_result res) False))"

definition nudge :: message where
  "nudge = \<lparr>msg_role = ''system'', msg_content =
     ''Your previous response was empty. Continue from the tool results and provide a concise final answer. If the requested change is ready, call the required mutation tool for approval.'',
     msg_calls = [], msg_call_id = []\<rparr>"

definition paused_session :: "run \<Rightarrow> message list \<Rightarrow> tool_call \<Rightarrow> pending_session" where
  "paused_session r msgs tc = \<lparr>ps_id = [], ps_messages = msgs, ps_call = tc, ps_cluster_id = r_cluster_id r,
     ps_cluster = r_cluster r, ps_user = a_user (r_actor r), ps_username = a_name (r_actor r),
     ps_ip = a_ip (r_actor r), ps_corr = [], ps_expires = 0\<rparr>"

fun agent_loop :: "'w agent_env \<Rightarrow> run \<Rightarrow> nat \<Rightarrow> nat \<Rightarrow> message list \<Rightarrow> 'w \<Rightarrow> session_store \<Rightarrow>
    'w \<times> session_store \<times> sse list" where
  "agent_loop ae r 0 empties msgs w st = (w, st, [EvError ''reached the maximum number of tool iterations''])"
| "agent_loop ae r (Suc n) empties msgs w st =
     (case ae_llm ae msgs of
        (deltas, Inl e) \<Rightarrow> (w, st, map EvMessage deltas @ [EvError e])
      | (deltas, Inr asst) \<Rightarrow>
          (let msgs1 = msgs @ [asst]; streamed = map EvMessage deltas in
           if msg_calls asst = [] \<and> trim_space (msg_content asst) = [] then
             (if max_empty_responses \<le> Suc empties
              then (w, st, streamed @ [EvError ''the AI provider ended without a final response; please retry''])
              else (case agent_loop ae r n (Suc empties) (msgs1 @ [nudge]) w st of
                      (w2, st2, evs) \<Rightarrow> (w2, st2, streamed @ evs)))
           else if msg_calls asst = [] then (w, st, streamed @ [EvDone])
           else (case agent_calls ae r w (msg_calls asst) None of
                   (w1, None, ms, evs1) \<Rightarrow>
                     (case agent_loop ae r n 0 (msgs1 @ ms) w1 st of
                        (w2, st2, evs) \<Rightarrow> (w2, st2, streamed @ evs1 @ evs))
                 | (w1, Some (tc, args), ms, evs1) \<Rightarrow>
                     (case session_save (ae_now ae) (ae_new_id ae) (ae_new_corr ae) (paused_session r (msgs1 @ ms) tc) st of
                        (st1, None) \<Rightarrow> (w1, st1, streamed @ evs1 @
                          [EvError ''too many pending AI actions; approve or dismiss an existing action before creating another''])
                      | (st1, Some sid) \<Rightarrow> (w1, st1, streamed @ evs1 @
                          [EvActionRequired (tc_name tc) (tc_id tc) args sid])))))"

section \<open>Audit entries\<close>

definition approval_audit :: "gotime \<Rightarrow> pending_session \<Rightarrow> actor \<Rightarrow> take_result \<Rightarrow> audit_log" where
  "approval_audit now sess a tr =
     (let (outcome, st) = (if tr = SessionExpired then (''expired'', 410) else (''denied'', 403))
      in empty_log\<lparr>al_created := now, al_user := a_user a, al_username := a_name a, al_action := ''approve'',
           al_resource := ''ai-action'', al_cluster := ps_cluster sess, al_status := st, al_ip := a_ip a,
           al_source := ''ai-assistant'', al_tool := tc_name (ps_call sess), al_corr := ps_corr sess, al_outcome := outcome\<rparr>)"

definition mutation_action :: "string \<Rightarrow> string" where
  "mutation_action tool =
     (if tool = ''create_resource'' then ''create'' else if tool = ''delete_resource'' then ''delete'' else ''update'')"

definition mutation_target :: "'w tool_env \<Rightarrow> string \<Rightarrow> fields \<Rightarrow> string \<times> string \<times> string" where
  "mutation_target te tool args =
     (let rsrc = arg_string args ''kind''; name = arg_string args ''name''; ns = arg_string args ''namespace'' in
      if tool = ''create_resource'' \<or> tool = ''update_resource'' then
        (case parse_manifest te (arg_string args ''yaml'') of
           Inl _ \<Rightarrow> (rsrc, name, ns)
         | Inr m \<Rightarrow>
             (rsrc,
              (if name = [] then (case as_obj (gm_get m ''metadata'') of
                  None \<Rightarrow> name | Some meta \<Rightarrow> str_or_empty (gm_get meta ''name'')) else name),
              (if ns = [] then manifest_namespace m else ns)))
      else (rsrc, name, ns))"

definition mutation_audit ::
  "'w tool_env \<Rightarrow> gotime \<Rightarrow> pending_session \<Rightarrow> actor \<Rightarrow> fields \<Rightarrow> int \<Rightarrow> string \<Rightarrow> duration \<Rightarrow> audit_log" where
  "mutation_audit te now sess a args st outcome dur =
     (let (rsrc, name, ns) = mutation_target te (tc_name (ps_call sess)) args
      in empty_log\<lparr>al_created := now, al_user := a_user a, al_username := a_name a,
           al_action := mutation_action (tc_name (ps_call sess)), al_resource := rsrc, al_name := name,
           al_namespace := ns, al_cluster := ps_cluster sess, al_status := st, al_duration := dur div millisecond,
           al_ip := a_ip a, al_source := ''ai-assistant'', al_tool := tc_name (ps_call sess),
           al_corr := ps_corr sess, al_outcome := outcome\<rparr>)"

section \<open>Approval\<close>

text \<open>\<open>ready\<close>: the configuration was loaded and is usable. \<open>dur\<close> is the measured duration.\<close>

definition continue_action ::
  "'w agent_env \<Rightarrow> bool \<Rightarrow> duration \<Rightarrow> string \<Rightarrow> actor \<Rightarrow> 'w \<Rightarrow> session_store \<Rightarrow> 'w \<times> session_store \<times> audit_log list \<times> sse list" where
  "continue_action ae ready dur sid a w st =
     (case take_owned (ae_now ae) sid (a_user a) st of
        (st1, so, SessionTaken) \<Rightarrow>
          (case so of None \<Rightarrow> (w, st1, [], [])
           | Some sess \<Rightarrow>
              if \<not> ready then (w, st1, [], [EvError ''AI assistant is not configured''])
              else
                (let tc = ps_call sess; args = call_args ae tc;
                     deny = may_run ae (a_role a) (tc_name tc) args;
                     (w1, result, is_err, code, outcome) =
                       (if deny \<noteq> [] then (w, ''Forbidden: '' @ deny, True, 403, ''denied'')
                        else case execute_tool (ae_tools ae) (ps_cluster sess) w (tc_name tc) args of
                               (w', Inl e) \<Rightarrow> (w', ''Tool error: '' @ error_string e, True, 500, ''failed'')
                             | (w', Inr res) \<Rightarrow> (w', res, False, 200, ''succeeded''));
                     shown = limit_tool_result result;
                     (w2, st2, evs) = agent_loop ae \<lparr>r_actor = a, r_cluster_id = ps_cluster_id sess, r_cluster = ps_cluster sess\<rparr>
                        max_iterations 0 (ps_messages sess @ [tool_result_message (tc_id tc) shown]) w1 st1
                 in (w2, st2, [mutation_audit (ae_tools ae) (ae_now ae) sess a args code outcome dur],
                     EvToolResult (tc_name tc) (tc_id tc) shown is_err # evs)))
      | (st1, so, tr) \<Rightarrow>
          (w, st1, (case so of None \<Rightarrow> [] | Some sess \<Rightarrow> [approval_audit (ae_now ae) sess a tr]),
           [EvError (if tr = SessionForbidden then ''this action belongs to another user''
                     else ''this action has expired or was already handled'')]))"

record approved_action =
  aa_call :: tool_call
  aa_cluster_id :: nat
  aa_cluster :: string
  aa_ip :: string
  aa_corr :: string

definition approve_action ::
  "gotime \<Rightarrow> string \<Rightarrow> actor \<Rightarrow> session_store \<Rightarrow> session_store \<times> audit_log list \<times> approved_action res" where
  "approve_action now sid a st =
     (case take_owned now sid (a_user a) st of
        (st1, Some sess, SessionTaken) \<Rightarrow>
          (st1, [], Inr \<lparr>aa_call = ps_call sess, aa_cluster_id = ps_cluster_id sess, aa_cluster = ps_cluster sess,
             aa_ip = ps_ip sess, aa_corr = ps_corr sess\<rparr>)
      | (st1, so, tr) \<Rightarrow>
          (st1, (case so of None \<Rightarrow> [] | Some sess \<Rightarrow> [approval_audit now sess a tr]),
           if tr = SessionForbidden then Inl ErrForbidden
           else fail CodeValidation ''this action has expired or was already handled''))"

definition execute_approved ::
  "'w agent_env \<Rightarrow> bool \<Rightarrow> duration \<Rightarrow> approved_action \<Rightarrow> actor \<Rightarrow> 'w \<Rightarrow> 'w \<times> audit_log list \<times> string res" where
  "execute_approved ae ready dur ap a w =
     (if \<not> ready then (w, [], fail CodeValidation ''AI assistant is not configured'')
      else
        (let args = call_args ae (aa_call ap);
             sess = \<lparr>ps_id = [], ps_messages = [], ps_call = aa_call ap, ps_cluster_id = aa_cluster_id ap,
               ps_cluster = aa_cluster ap, ps_user = a_user a, ps_username = a_name a, ps_ip = aa_ip ap,
               ps_corr = aa_corr ap, ps_expires = 0\<rparr>;
             deny = may_run ae (a_role a) (tc_name (aa_call ap)) args
         in if deny \<noteq> [] then
              (w, [mutation_audit (ae_tools ae) (ae_now ae) sess a args 403 ''denied'' dur], fail CodeForbidden deny)
            else (case execute_tool (ae_tools ae) (aa_cluster ap) w (tc_name (aa_call ap)) args of
                    (w', Inl e) \<Rightarrow> (w', [mutation_audit (ae_tools ae) (ae_now ae) sess a args 500 ''failed'' dur],
                                   fail CodeK8sUnavailable (error_string e))
                  | (w', Inr res) \<Rightarrow> (w', [mutation_audit (ae_tools ae) (ae_now ae) sess a args 200 ''succeeded'' dur],
                                     Inr (limit_tool_result res)))))"

text \<open>
  The background executor of kind \<open>ai_change\<close>; \<open>dec\<close> decodes the saved task. Its reports and outcome
  are those an \<open>'r executor\<close> of \<open>Operations\<close> returns.
\<close>

definition ai_failure :: "go_error \<Rightarrow> failure" where
  "ai_failure e =
     (let f = \<lparr>f_stage = ''applying_resources'', f_code = ''AI_CHANGE_FAILED'', f_message = ''The approved AI change failed'',
            f_suggestions = Some [''Inspect the target resources and Kubernetes events'',
              ''Ask the AI assistant to inspect the current state before proposing another change''],
            f_retryable = False, f_rollback = False\<rparr>
      in case e of
           OtherErr _ _ \<Rightarrow> f
         | BizErr c m \<Rightarrow>
             (let g = f\<lparr>f_message := m\<rparr> in
              if c = CodeForbidden then g\<lparr>f_stage := ''authorization'', f_code := ''PERMISSION_DENIED''\<rparr>
              else if c = CodeValidation then g\<lparr>f_stage := ''validation'', f_code := ''AI_CONFIGURATION_INVALID''\<rparr>
              else g))"

definition ai_operation_executor ::
  "'w agent_env \<Rightarrow> bool \<Rightarrow> duration \<Rightarrow> (string \<Rightarrow> approved_action option) \<Rightarrow> principal \<Rightarrow> string \<Rightarrow> 'w \<Rightarrow>
     'w \<times> audit_log list \<times> report list \<times> (failure + fields option)" where
  "ai_operation_executor ae ready dur dec p raw w =
     (case dec raw of
        None \<Rightarrow> (w, [], [], Inl (refuse ''preparing'' ''INVALID_OPERATION_INPUT'' ''The saved AI action is invalid'' False))
      | Some task \<Rightarrow>
          (case execute_approved ae ready dur task
                  \<lparr>a_user = pr_user p, a_name = pr_name p, a_role = pr_role p, a_ip = aa_ip task\<rparr> w of
             (w', logs, Inl e) \<Rightarrow>
               (w', logs, [(''applying_resources'', ''Executing approved AI change'', 40)], Inl (ai_failure e))
           | (w', logs, Inr _) \<Rightarrow>
               (w', logs, [(''applying_resources'', ''Executing approved AI change'', 40),
                           (''verifying_release'', ''AI change completed'', 90)],
                Inr (Some [(''tool'', JStr (tc_name (aa_call task))), (''applied'', JBool True)]))))"

section \<open>Properties\<close>

lemma fst_agent_calls: "fst (agent_calls ae r w tcs pend) = w"
proof (induction tcs arbitrary: pend)
  case (Cons tc tcs)
  have "fst (execute_tool (ae_tools ae) (r_cluster r) w (tc_name tc) a) = w" if "\<not> is_mutation (tc_name tc)" for a
    using that by (rule execute_reads_only)
  then have ex: "\<exists>x. execute_tool (ae_tools ae) (r_cluster r) w (tc_name tc) a = (w, x)" if "\<not> is_mutation (tc_name tc)" for a
    using that by (metis prod.collapse)
  show ?case
  proof (cases "is_mutation (tc_name tc)")
    case True
    with Cons show ?thesis by (simp add: Let_def split_def)
  next
    case False
    then obtain x where "execute_tool (ae_tools ae) (r_cluster r) w (tc_name tc) (call_args ae tc) = (w, x)"
      using ex by blast
    with False Cons show ?thesis by (cases x) (simp_all add: Let_def split_def)
  qed
qed simp

lemma agent_calls_world: "agent_calls ae r w tcs pend = (w', p', ms, evs) \<Longrightarrow> w' = w"
  using fst_agent_calls [of ae r w tcs pend] by simp

lemma agent_calls_pending:
  "agent_calls ae r w tcs pend = (w', Some (tc, args), ms, evs) \<Longrightarrow>
   pend = Some (tc, args) \<or> pend = None \<and> tc \<in> set tcs \<and> args = call_args ae tc \<and> is_mutation (tc_name tc) \<and>
     may_run ae (a_role (r_actor r)) (tc_name tc) args = []"
proof (induction tcs arbitrary: w pend w' ms evs)
  case (Cons x tcs)
  from Cons.prems show ?case
    by (cases pend) (auto simp: Let_def split: prod.splits if_splits sum.splits dest!: Cons.IH)
qed simp

lemma agent_loop_world:
  "fst (agent_loop ae r n empties msgs w st) = w"
proof (induction ae r n empties msgs w st rule: agent_loop.induct)
  case (2 ae r n empties msgs w st)
  obtain deltas out where o: "ae_llm ae msgs = (deltas, out)" by fastforce
  show ?case
  proof (cases out)
    case (Inr asst)
    obtain w1 p ms evs where c: "agent_calls ae r w (msg_calls asst) None = (w1, p, ms, evs)" by (metis prod_cases4)
    then have w1: "w1 = w" by (rule agent_calls_world)
    have ih1: "fst (agent_loop ae r n (Suc empties) (msgs @ [asst] @ [nudge]) w st) = w"
      if "msg_calls asst = []" "trim_space (msg_content asst) = []" "\<not> max_empty_responses \<le> Suc empties"
      using 2(1) o Inr that by simp
    have ih2: "fst (agent_loop ae r n 0 (msgs @ [asst] @ ms) w st) = w" if "msg_calls asst \<noteq> []" "p = None"
      using 2(2) o Inr that c w1 by simp
    show ?thesis using o Inr c w1 ih1 ih2
      by (auto simp: Let_def split: prod.splits option.splits)
  qed (simp add: o)
qed simp

text \<open>
  C4. No chat turn ever changes the cluster: whatever the model answers and however many tools it
  calls, the agent loop leaves the cluster state as it was. Mutations only wait for approval.
\<close>

theorem agent_loop_never_mutates:
  "fst (agent_loop ae r n empties msgs w st) = w"
  by (rule agent_loop_world)

lemma saved_session:
  "session_save now i c sess st = (st', x) \<Longrightarrow> gm_get st i = None \<Longrightarrow> gm_ok st \<Longrightarrow> gm_get st' i = Some s \<Longrightarrow>
     s = sess\<lparr>ps_id := i, ps_corr := (if ps_corr sess = [] then c else ps_corr sess), ps_expires := now + session_ttl\<rparr>"
  by (auto simp: session_save_def Let_def evict_expired_def gm_get_prune split: if_splits)

lemma agent_loop_store:
  "fst (snd (agent_loop ae r n empties msgs w st)) = st \<or>
   (\<exists>msgs' tc. fst (snd (agent_loop ae r n empties msgs w st)) =
       fst (session_save (ae_now ae) (ae_new_id ae) (ae_new_corr ae) (paused_session r msgs' tc) st) \<and>
     is_mutation (tc_name tc) \<and> may_run ae (a_role (r_actor r)) (tc_name tc) (call_args ae tc) = [])"
proof (induction ae r n empties msgs w st rule: agent_loop.induct)
  case (2 ae r n empties msgs w st)
  obtain deltas out where o: "ae_llm ae msgs = (deltas, out)" by fastforce
  show ?case
  proof (cases out)
    case (Inr asst)
    obtain w1 p ms evs where c: "agent_calls ae r w (msg_calls asst) None = (w1, p, ms, evs)" by (metis prod_cases4)
    show ?thesis
    proof (cases "msg_calls asst = []")
      case True
      with o Inr 2(1) show ?thesis by (simp add: Let_def split_def)
    next
      case False
      show ?thesis
      proof (cases p)
        case None
        with o Inr False c 2(2) show ?thesis by (simp add: Let_def split_def)
      next
        case (Some q)
        obtain tc args where q: "q = (tc, args)" by (cases q)
        have "is_mutation (tc_name tc)" "may_run ae (a_role (r_actor r)) (tc_name tc) (call_args ae tc) = []"
          using agent_calls_pending [OF c [unfolded Some q]] by auto
        moreover have "fst (snd (agent_loop ae r (Suc n) empties msgs w st)) =
            fst (session_save (ae_now ae) (ae_new_id ae) (ae_new_corr ae) (paused_session r ((msgs @ [asst]) @ ms) tc) st)"
          using o Inr False c Some q by (simp add: Let_def split: prod.splits option.splits)
        ultimately show ?thesis by blast
      qed
    qed
  qed (simp add: o)
qed simp

text \<open>
  Whatever the model answers, the action a chat turn puts up for approval is one of the four
  mutations, is addressed to the user and cluster of the turn, expires fifteen minutes later, and
  was authorized for the user's role with exactly the arguments it will run with.
\<close>

theorem pending_action_was_authorized:
  assumes "gm_ok st" "gm_get st (ae_new_id ae) = None"
    and "agent_loop ae r n empties msgs w st = (w', st', evs)" "gm_get st' (ae_new_id ae) = Some s"
  shows "tc_name (ps_call s) \<in> {''create_resource'', ''update_resource'', ''patch_resource'', ''delete_resource''} \<and>
    may_run ae (a_role (r_actor r)) (tc_name (ps_call s)) (call_args ae (ps_call s)) = [] \<and>
    ps_user s = a_user (r_actor r) \<and> ps_cluster s = r_cluster r \<and> ps_expires s = ae_now ae + 15 * minute"
proof -
  have "fst (snd (agent_loop ae r n empties msgs w st)) = st'" using assms(3) by simp
  with agent_loop_store [of ae r n empties msgs w st]
  consider "st' = st" | msgs' tc where "st' = fst (session_save (ae_now ae) (ae_new_id ae) (ae_new_corr ae) (paused_session r msgs' tc) st)"
    "is_mutation (tc_name tc)" "may_run ae (a_role (r_actor r)) (tc_name tc) (call_args ae tc) = []"
    by blast
  then show ?thesis
  proof cases
    case 1
    with assms(2,4) show ?thesis by simp
  next
    case (2 msgs' tc)
    obtain x where "session_save (ae_now ae) (ae_new_id ae) (ae_new_corr ae) (paused_session r msgs' tc) st = (st', x)"
      using 2(1) by (metis prod.collapse)
    from saved_session [OF this assms(2,1,4)] 2(2,3) show ?thesis
      by (simp add: paused_session_def is_mutation_def mutation_tools_def session_ttl_def)
  qed
qed

definition demo_tools :: "nat tool_env" where
  "demo_tools = \<lparr>te_get = \<lambda>_ _ _ _ _. err ''none'', te_list = \<lambda>_ _ _ _ _. Inr [], te_create = \<lambda>w _ _ _ _. (w, err ''none''),
     te_update = \<lambda>w _ _ _ _ _. (w, err ''none''), te_patch = \<lambda>w _ _ _ _ _. (w, err ''none''),
     te_delete = \<lambda>w _ _ _ _. (w + 1, Inr ()), te_logs = \<lambda>_ _ _ _ _ _ _. Inr [], te_prom = None,
     te_yaml = \<lambda>_. Inl ''no yaml'', te_yaml_map = \<lambda>_. Inl ''no yaml'', te_yaml_out = \<lambda>_. Inr [], te_float = \<lambda>_. None\<rparr>"

definition demo_call :: tool_call where
  "demo_call = \<lparr>tc_id = ''c1'', tc_type = ''function'', tc_name = ''delete_resource'', tc_args = []\<rparr>"

definition demo_agent :: "nat agent_env" where
  "demo_agent = \<lparr>ae_tools = demo_tools,
     ae_llm = \<lambda>_. ([''deleting''], Inr \<lparr>msg_role = ''assistant'', msg_content = ''ok'', msg_calls = [demo_call], msg_call_id = []\<rparr>),
     ae_roles = empty_table, ae_faults = no_faults, ae_now = 5, ae_new_id = ''s1'', ae_new_corr = ''k1''\<rparr>"

definition demo_run :: run where
  "demo_run = \<lparr>r_actor = \<lparr>a_user = 7, a_name = ''root'', a_role = ''admin'', a_ip = []\<rparr>, r_cluster_id = 1, r_cluster = ''prod''\<rparr>"

theorem pending_action_was_authorized_witness:
  "\<exists>w' st' evs s. agent_loop demo_agent demo_run 1 0 [] 0 [] = (w', st', evs) \<and> gm_get st' ''s1'' = Some s \<and>
     tc_name (ps_call s) \<in> {''create_resource'', ''update_resource'', ''patch_resource'', ''delete_resource''} \<and> ps_user s = 7"
proof -
  obtain w' st' evs where l: "agent_loop demo_agent demo_run 1 0 [] 0 [] = (w', st', evs)" by (metis prod_cases3)
  have "gm_get st' ''s1'' \<noteq> None"
    using l by (auto simp: demo_agent_def demo_run_def demo_call_def Let_def is_mutation_def mutation_tools_def may_run_def
        authorize_def session_save_def evict_expired_def gm_prune_def max_pending_def max_pending_per_user_def)
  then obtain s where s: "gm_get st' ''s1'' = Some s" by auto
  have i: "ae_new_id demo_agent = ''s1''" "a_user (r_actor demo_run) = 7" by (simp_all add: demo_agent_def demo_run_def)
  show ?thesis
    using pending_action_was_authorized [OF gm_ok_empty _ l, of s] l s by (auto simp: i)
qed

text \<open>
  C5. An approval changes the cluster only by the saved call itself: continuing an action runs that
  one tool call, with its own arguments and on its own cluster, and nothing else, exactly when the
  caller owns it, it has not expired, the assistant is configured and the caller's role still permits
  it at that moment; in every other case the cluster stays as it was.
\<close>

theorem continue_runs_only_the_saved_call:
  "fst (continue_action ae ready dur sid a w st) =
    (case gm_get st sid of
       Some s \<Rightarrow>
         if ps_user s = a_user a \<and> ae_now ae \<le> ps_expires s \<and> ready \<and>
            may_run ae (a_role a) (tc_name (ps_call s)) (call_args ae (ps_call s)) = []
         then fst (execute_tool (ae_tools ae) (ps_cluster s) w (tc_name (ps_call s)) (call_args ae (ps_call s)))
         else w
     | None \<Rightarrow> w)"
proof (cases "gm_get st sid")
  case (Some s)
  obtain w' res where x: "execute_tool (ae_tools ae) (ps_cluster s) w (tc_name (ps_call s)) (call_args ae (ps_call s)) = (w', res)"
    by fastforce
  show ?thesis
    using agent_loop_world x Some
    by (cases res) (auto simp: continue_action_def take_owned_def after_def Let_def split_def)
qed (simp add: continue_action_def take_owned_def)

end
