(* ===== verification/Informers.thy ===== *)
theory Informers
  imports Resource_Registry
begin

text \<open>
  The informer manager: \<open>internal/kubernetes/informer/informer.go\<close>. A runtime is one shared
  informer factory with its cancel function, identified by the order of its start. The goroutine
  that waits for the caches to sync takes two steps, which other operations may come between:
  reading the sync results and the context (\<open>inf_settle\<close>), and recording the outcome under the lock
  (\<open>inf_apply\<close>). The caches themselves belong to client-go; listing from them is a parameter.
\<close>

definition stale_duration :: duration where "stale_duration = 5 * minute"

record 'dyn runtime =
  rt_id :: nat
  rt_client :: 'dyn
  rt_gvrs :: "gvr list"
  rt_resync :: duration
  rt_synced :: bool
  rt_last :: "gotime option"

record ('dyn, 'l) informers =
  im_clusters :: "(string, 'dyn runtime) gomap"
  im_next :: nat
  im_cancelled :: "nat list"
  im_waiting :: "(string \<times> nat) list"
  im_settled :: "(string \<times> nat \<times> bool) list"
  im_listeners :: "'l list"

definition new_informers :: "('dyn, 'l) informers" where
  "new_informers = \<lparr>im_clusters = [], im_next = 0, im_cancelled = [], im_waiting = [], im_settled = [], im_listeners = []\<rparr>"

record sync_result =
  sr_canceled :: bool
  sr_all :: bool
  sr_failed :: "gvr list"

definition summarize_cache_sync :: "bool \<Rightarrow> (gvr, bool) gomap \<Rightarrow> sync_result" where
  "summarize_cache_sync ctx_done syncs =
     (if ctx_done then \<lparr>sr_canceled = True, sr_all = False, sr_failed = []\<rparr>
      else fold (\<lambda>(g, synced) res. if synced then res else res\<lparr>sr_all := False, sr_failed := sr_failed res @ [g]\<rparr>)
             syncs \<lparr>sr_canceled = False, sr_all = True, sr_failed = []\<rparr>)"

definition add_listener :: "'l \<Rightarrow> ('dyn, 'l) informers \<Rightarrow> ('dyn, 'l) informers" where
  "add_listener l m = m\<lparr>im_listeners := im_listeners m @ [l]\<rparr>"

definition inf_start :: "string \<Rightarrow> 'dyn \<Rightarrow> gvr list \<Rightarrow> duration \<Rightarrow> ('dyn, 'l) informers \<Rightarrow> ('dyn, 'l) informers" where
  "inf_start cl client gvrs resync m =
     (let i = im_next m;
          cr = \<lparr>rt_id = i, rt_client = client, rt_gvrs = gvrs, rt_resync = resync, rt_synced = False, rt_last = None\<rparr>
      in m\<lparr>im_next := Suc i,
           im_cancelled := (case gm_get (im_clusters m) cl of None \<Rightarrow> im_cancelled m | Some ex \<Rightarrow> rt_id ex # im_cancelled m),
           im_clusters := gm_put cl cr (im_clusters m),
           im_waiting := (cl, i) # im_waiting m\<rparr>)"

definition inf_settle :: "string \<Rightarrow> nat \<Rightarrow> (gvr, bool) gomap \<Rightarrow> ('dyn, 'l) informers \<Rightarrow> ('dyn, 'l) informers" where
  "inf_settle cl i syncs m =
     (if (cl, i) \<notin> set (im_waiting m) then m
      else let r = summarize_cache_sync (i \<in> set (im_cancelled m)) syncs;
               m' = m\<lparr>im_waiting := remove1 (cl, i) (im_waiting m)\<rparr>
           in if sr_canceled r then m' else m'\<lparr>im_settled := (cl, i, sr_all r) # im_settled m'\<rparr>)"

definition inf_apply :: "gotime \<Rightarrow> string \<Rightarrow> nat \<Rightarrow> bool \<Rightarrow> ('dyn, 'l) informers \<Rightarrow> ('dyn, 'l) informers" where
  "inf_apply now cl i ok m =
     (if (cl, i, ok) \<notin> set (im_settled m) then m
      else let m' = m\<lparr>im_settled := remove1 (cl, i, ok) (im_settled m)\<rparr>
           in case gm_get (im_clusters m') cl of
                None \<Rightarrow> m'
              | Some rt \<Rightarrow> m'\<lparr>im_clusters := gm_put cl (rt\<lparr>rt_synced := ok, rt_last := Some now\<rparr>) (im_clusters m')\<rparr>)"

definition inf_stop :: "string \<Rightarrow> ('dyn, 'l) informers \<Rightarrow> ('dyn, 'l) informers" where
  "inf_stop cl m =
     (case gm_get (im_clusters m) cl of
        None \<Rightarrow> m
      | Some cr \<Rightarrow> m\<lparr>im_cancelled := rt_id cr # im_cancelled m, im_clusters := gm_del cl (im_clusters m)\<rparr>)"

definition inf_stop_all :: "('dyn, 'l) informers \<Rightarrow> ('dyn, 'l) informers" where
  "inf_stop_all m = m\<lparr>im_cancelled := map (\<lambda>(_, cr). rt_id cr) (im_clusters m) @ im_cancelled m, im_clusters := []\<rparr>"

text \<open>
  \<open>List\<close> and \<open>Get\<close>: \<open>lister\<close> answers from the caches of a runtime. A cache object that is not
  unstructured is \<open>None\<close>. The zero time is longer ago than any threshold.
\<close>

definition is_stale :: "gotime \<Rightarrow> 'dyn runtime \<Rightarrow> bool" where
  "is_stale now cr \<longleftrightarrow> \<not> rt_synced cr \<or> (case rt_last cr of None \<Rightarrow> True | Some t \<Rightarrow> stale_duration < now - t)"

definition inf_list ::
  "('dyn runtime \<Rightarrow> gvr \<Rightarrow> string \<Rightarrow> string + 'o option list) \<Rightarrow> gotime \<Rightarrow> string \<Rightarrow> gvr \<Rightarrow> string \<Rightarrow> ('dyn, 'l) informers \<Rightarrow>
     string + ('o list \<times> bool)" where
  "inf_list lister now cl g ns m =
     (case gm_get (im_clusters m) cl of
        None \<Rightarrow> Inl (''cluster '' @ cl @ '' not found'')
      | Some cr \<Rightarrow>
          (case lister cr g ns of
             Inl e \<Rightarrow> Inl (''list '' @ gvr_resource g @ '' in cluster '' @ cl @ '': '' @ e)
           | Inr objs \<Rightarrow> Inr (List.map_filter id objs, is_stale now cr)))"

definition inf_get ::
  "('dyn runtime \<Rightarrow> gvr \<Rightarrow> string \<Rightarrow> string \<Rightarrow> string + 'o option) \<Rightarrow> string \<Rightarrow> gvr \<Rightarrow> string \<Rightarrow> string \<Rightarrow> ('dyn, 'l) informers \<Rightarrow> string + 'o" where
  "inf_get getter cl g ns name m =
     (case gm_get (im_clusters m) cl of
        None \<Rightarrow> Inl (''cluster '' @ cl @ '' not found'')
      | Some cr \<Rightarrow>
          (case getter cr g ns name of
             Inl e \<Rightarrow> Inl (''get '' @ gvr_resource g @ ''/'' @ name @ '' in cluster '' @ cl @ '': '' @ e)
           | Inr None \<Rightarrow> Inl (''unexpected object type for '' @ gvr_resource g @ ''/'' @ name)
           | Inr (Some u) \<Rightarrow> Inr u))"

text \<open>A watch notification: an object, a tombstone around one, or something else.\<close>

record resource_event =
  re_type :: string
  re_cluster :: string
  re_resource :: string
  re_namespace :: string
  re_name :: string
  re_object :: fields

datatype watch_obj = Unstructured string string fields | Tombstone "watch_obj option" | OtherObj

definition watch_payload :: "watch_obj \<Rightarrow> (string \<times> string \<times> fields) option" where
  "watch_payload obj = (case obj of
       Unstructured ns name raw \<Rightarrow> Some (ns, name, raw)
     | Tombstone (Some (Unstructured ns name raw)) \<Rightarrow> Some (ns, name, raw)
     | _ \<Rightarrow> None)"

definition inf_notify :: "string \<Rightarrow> string \<Rightarrow> string \<Rightarrow> watch_obj \<Rightarrow> ('dyn, 'l) informers \<Rightarrow> ('l \<times> resource_event) list" where
  "inf_notify cl ty rsrc obj m =
     (case watch_payload obj of
        None \<Rightarrow> []
      | Some (ns, name, raw) \<Rightarrow>
          map (\<lambda>l. (l, \<lparr>re_type = ty, re_cluster = cl, re_resource = rsrc, re_namespace = ns, re_name = name, re_object = raw\<rparr>))
            (im_listeners m))"

section \<open>Properties\<close>

definition live_ids :: "('dyn, 'l) informers \<Rightarrow> nat list" where
  "live_ids m = map (\<lambda>c. rt_id (snd c)) (im_clusters m)"

text \<open>No leak: each runtime ever started is either the one its cluster holds or has been cancelled, never both.\<close>

definition ids_partition :: "nat list \<Rightarrow> nat list \<Rightarrow> nat \<Rightarrow> bool" where
  "ids_partition live cancelled n \<longleftrightarrow> distinct live \<and> set live \<inter> set cancelled = {} \<and> set live \<union> set cancelled = {..<n}"

definition inf_ok :: "('dyn, 'l) informers \<Rightarrow> bool" where
  "inf_ok m \<longleftrightarrow> gm_ok (im_clusters m) \<and> ids_partition (live_ids m) (im_cancelled m) (im_next m)"

lemma partition_replace:
  "ids_partition (xs @ e # ys) cs n \<Longrightarrow> ids_partition (xs @ n # ys) (e # cs) (Suc n)"
  by (auto simp: ids_partition_def lessThan_Suc)

lemma partition_append: "ids_partition xs cs n \<Longrightarrow> ids_partition (xs @ [n]) cs (Suc n)"
  by (auto simp: ids_partition_def lessThan_Suc)

lemma partition_remove: "ids_partition (xs @ e # ys) cs n \<Longrightarrow> ids_partition (xs @ ys) (e # cs) n"
  by (auto simp: ids_partition_def)

lemma partition_remove_all: "ids_partition xs cs n \<Longrightarrow> ids_partition [] (xs @ cs) n"
  by (auto simp: ids_partition_def)

datatype 'dyn inf_op =
    IStart string 'dyn "gvr list" duration | ISettle string nat "(gvr, bool) gomap" | IApply gotime string nat bool
  | IStop string | IStopAll

fun inf_step :: "'dyn inf_op \<Rightarrow> ('dyn, 'l) informers \<Rightarrow> ('dyn, 'l) informers" where
  "inf_step (IStart cl c gs d) m = inf_start cl c gs d m"
| "inf_step (ISettle cl i sy) m = inf_settle cl i sy m"
| "inf_step (IApply now cl i ok) m = inf_apply now cl i ok m"
| "inf_step (IStop cl) m = inf_stop cl m"
| "inf_step IStopAll m = inf_stop_all m"

lemma gm_split:
  assumes "gm_ok xs" "gm_get xs k = Some v"
  shows "\<exists>ys zs. xs = ys @ (k, v) # zs \<and> (\<forall>v'. gm_put k v' xs = ys @ (k, v') # zs) \<and> gm_del k xs = ys @ zs"
proof -
  from map_of_SomeD [OF assms(2)] obtain ys zs where xs: "xs = ys @ (k, v) # zs" by (meson split_list)
  then have ks: "k \<notin> fst ` set ys" "k \<notin> fst ` set zs" using assms(1) by (auto simp: gm_ok_def)
  have up: "AList.update k v' (ys @ (k, v) # zs) = ys @ (k, v') # zs" for v' using ks(1) by (induction ys) auto
  have "AList.delete k zs = zs" using ks(2) by (induction zs) auto
  then have "AList.delete k (ys @ (k, v) # zs) = ys @ zs" using ks(1) by (induction ys) auto
  with xs up show ?thesis by (auto simp: gm_put_def gm_del_def)
qed

lemma inf_ok_start: "inf_ok m \<Longrightarrow> inf_ok (inf_start cl c gs d m)"
proof (cases "gm_get (im_clusters m) cl")
  case None
  assume ok: "inf_ok m"
  from None have "cl \<notin> fst ` set (im_clusters m)" by (simp add: map_of_eq_None_iff)
  note put = gm_put_fresh [OF this]
  from ok have "gm_ok (gm_put cl v (im_clusters m))" for v by (simp add: inf_ok_def)
  with put ok None show ?thesis by (simp add: inf_ok_def inf_start_def Let_def live_ids_def partition_append)
next
  case (Some ex)
  assume ok: "inf_ok m"
  with gm_split [OF _ Some] obtain ys zs where s: "im_clusters m = ys @ (cl, ex) # zs"
    "\<And>v. gm_put cl v (im_clusters m) = ys @ (cl, v) # zs"
    unfolding inf_ok_def by blast
  from ok have "gm_ok (gm_put cl v (im_clusters m))" for v by (simp add: inf_ok_def)
  moreover from ok have "ids_partition (map (\<lambda>c. rt_id (snd c)) ys @ rt_id ex # map (\<lambda>c. rt_id (snd c)) zs) (im_cancelled m) (im_next m)"
    by (simp add: inf_ok_def live_ids_def s(1))
  from partition_replace [OF this] have "ids_partition (map (\<lambda>c. rt_id (snd c)) ys @ im_next m # map (\<lambda>c. rt_id (snd c)) zs)
      (rt_id ex # im_cancelled m) (Suc (im_next m))" .
  ultimately show ?thesis
    using Some by (simp add: inf_ok_def inf_start_def Let_def live_ids_def s(2))
qed

lemma inf_ok_stop: "inf_ok m \<Longrightarrow> inf_ok (inf_stop cl m)"
proof (cases "gm_get (im_clusters m) cl")
  case (Some ex)
  assume ok: "inf_ok m"
  with gm_split [OF _ Some] obtain ys zs where s: "im_clusters m = ys @ (cl, ex) # zs" "gm_del cl (im_clusters m) = ys @ zs"
    unfolding inf_ok_def by blast
  from ok have "gm_ok (gm_del cl (im_clusters m))" by (simp add: inf_ok_def)
  moreover from ok have "ids_partition (map (\<lambda>c. rt_id (snd c)) ys @ rt_id ex # map (\<lambda>c. rt_id (snd c)) zs) (im_cancelled m) (im_next m)"
    by (simp add: inf_ok_def live_ids_def s(1))
  from partition_remove [OF this] have "ids_partition (map (\<lambda>c. rt_id (snd c)) ys @ map (\<lambda>c. rt_id (snd c)) zs) (rt_id ex # im_cancelled m) (im_next m)" .
  ultimately show ?thesis using Some by (simp add: inf_ok_def inf_stop_def live_ids_def s(2))
qed (simp add: inf_stop_def)

lemma inf_ok_apply: "inf_ok m \<Longrightarrow> inf_ok (inf_apply now cl i ok m)"
proof (cases "gm_get (im_clusters m) cl")
  case (Some ex)
  assume ok: "inf_ok m"
  with gm_split [OF _ Some] obtain ys zs where s: "im_clusters m = ys @ (cl, ex) # zs"
    "\<And>v. gm_put cl v (im_clusters m) = ys @ (cl, v) # zs"
    unfolding inf_ok_def by blast
  from ok have "gm_ok (gm_put cl v (im_clusters m))" for v by (simp add: inf_ok_def)
  with ok Some s show ?thesis by (simp add: inf_ok_def inf_apply_def Let_def live_ids_def)
qed (simp add: inf_apply_def Let_def inf_ok_def live_ids_def)

lemma inf_ok_step: "inf_ok m \<Longrightarrow> inf_ok (inf_step x m)"
proof (cases x)
  case (ISettle cl i sy)
  assume "inf_ok m"
  with ISettle show ?thesis by (simp add: inf_settle_def Let_def inf_ok_def live_ids_def)
next
  case IStopAll
  assume "inf_ok m"
  then have "ids_partition [] (live_ids m @ im_cancelled m) (im_next m)"
    unfolding inf_ok_def by (blast intro: partition_remove_all)
  with IStopAll show ?thesis by (simp add: inf_ok_def inf_stop_all_def live_ids_def split_def)
qed (simp_all add: inf_ok_start inf_ok_stop inf_ok_apply)

text \<open>
  Informers do not leak: whatever sequence of starts, syncs and stops is run, every factory
  ever started is either the current one of a cluster or has been cancelled, never both; starting
  a cluster again cancels its previous factory, and stopping everything cancels them all.
\<close>

theorem informers_never_leak:
  "let m = fold inf_step xs (new_informers :: ('dyn, 'l) informers) in
     distinct (live_ids m) \<and> set (live_ids m) \<inter> set (im_cancelled m) = {} \<and>
     set (live_ids m) \<union> set (im_cancelled m) = {..<im_next m} \<and>
     set (im_cancelled (inf_stop_all m)) = {..<im_next m}"
proof -
  have "inf_ok m \<Longrightarrow> inf_ok (fold inf_step xs m)" for m :: "('dyn, 'l) informers"
    by (induction xs arbitrary: m) (simp_all add: inf_ok_step)
  moreover have "inf_ok (new_informers :: ('dyn, 'l) informers)"
    by (simp add: inf_ok_def new_informers_def live_ids_def ids_partition_def)
  ultimately have ok: "inf_ok (fold inf_step xs (new_informers :: ('dyn, 'l) informers))" by blast
  then show ?thesis
    unfolding Let_def inf_ok_def ids_partition_def
    by (simp add: inf_stop_all_def live_ids_def split_def)
qed

text \<open>
  The outcome of a sync is recorded on whatever factory the cluster holds by then: if a cluster
  is started again between the moment the goroutine of the first factory has found its context alive
  and the moment it takes the lock, the second factory is marked synced, and its cache listed as
  fresh, although it has not synced at all.
\<close>

theorem stale_sync_marks_new_runtime:
  "\<exists>m rt. m = fold inf_step [IStart ''c'' (1::nat) [] 0, ISettle ''c'' 0 [], IStart ''c'' 2 [] 0, IApply 9 ''c'' 0 True]
        (new_informers :: (nat, unit) informers) \<and>
     gm_get (im_clusters m) ''c'' = Some rt \<and> rt_id rt = 1 \<and> rt_synced rt \<and> \<not> is_stale 10 rt \<and> (''c'', 1) \<in> set (im_waiting m)"
  by (simp add: inf_start_def inf_settle_def inf_apply_def new_informers_def summarize_cache_sync_def Let_def gm_put_def
      is_stale_def stale_duration_def duration_defs)

end
