(* ===== verification/Clusters.thy ===== *)
theory Clusters
  imports Sql_Table Informers
begin

text \<open>
  Clusters: the row \<open>model.Cluster\<close> and its repository (\<open>repository/cluster_repo.go\<close>), the connection
  manager (\<open>internal/kubernetes/cluster/cluster.go\<close>) and the service that keeps table, connections
  and informers together (\<open>service/cluster_service.go\<close>). client-go is the parameter record
  \<open>kube_lib\<close>: parsing of credentials, construction of clients and the two probe requests.
\<close>

section \<open>Rows\<close>

record cluster =
  c_id :: nat
  c_created :: gotime
  c_updated :: gotime
  c_deleted :: "gotime option"
  c_name :: string
  c_api :: string
  c_auth :: string
  c_kubeconfig_enc :: string
  c_token_enc :: string
  c_status :: string
  c_version :: string

type_synonym cluster_table = "cluster table"

definition cluster_live :: "cluster \<Rightarrow> bool" where
  "cluster_live c \<longleftrightarrow> c_deleted c = None"

definition cluster_clash :: "cluster \<Rightarrow> cluster \<Rightarrow> bool" where
  "cluster_clash c d \<longleftrightarrow> c_name c = c_name d"

definition cluster_create :: "faults \<Rightarrow> cluster \<Rightarrow> cluster_table \<Rightarrow> (cluster_table \<times> cluster) res" where
  "cluster_create fl c t = create_row fl cluster_clash (\<lambda>i x. x\<lparr>c_id := i\<rparr>) c t"

definition cluster_get_by_id :: "faults \<Rightarrow> nat \<Rightarrow> cluster_table \<Rightarrow> cluster res" where
  "cluster_get_by_id fl i t = first_where fl (\<lambda>c. cluster_live c \<and> c_id c = i) t"

definition cluster_get_by_name :: "faults \<Rightarrow> string \<Rightarrow> cluster_table \<Rightarrow> cluster res" where
  "cluster_get_by_name fl n t = first_where fl (\<lambda>c. cluster_live c \<and> c_name c = n) t"

definition cluster_update :: "faults \<Rightarrow> cluster \<Rightarrow> cluster_table \<Rightarrow> cluster_table res" where
  "cluster_update fl c t = save_row fl c_id c t"

text \<open>A hard delete.\<close>

definition cluster_delete :: "faults \<Rightarrow> nat \<Rightarrow> cluster_table \<Rightarrow> cluster_table res" where
  "cluster_delete fl i t = delete_where fl (\<lambda>c. c_id c = i) t"

definition cluster_list :: "faults \<Rightarrow> cluster_table \<Rightarrow> cluster list res" where
  "cluster_list fl t = find_where fl cluster_live t"

section \<open>Connections\<close>

text \<open>A request fails with a flag (was it \<open>Unauthorized\<close>) and a text.\<close>

record ('cfg, 'dyn) kube_lib =
  kl_rest :: "string \<Rightarrow> string + 'cfg"
  kl_in_cluster :: "string + 'cfg"
  kl_dynamic :: "'cfg \<Rightarrow> string + 'dyn"
  kl_discovery :: "'cfg \<Rightarrow> string + unit"
  kl_get :: "'cfg \<Rightarrow> string \<Rightarrow> (bool \<times> string) + string"
  kl_version :: "string \<Rightarrow> string + string"
  kl_host :: "'cfg \<Rightarrow> string"
  kl_in_pod :: bool

type_synonym ('cfg, 'dyn) conns = "(string, 'cfg \<times> 'dyn) gomap"

record cluster_info =
  ci_id :: string
  ci_api :: string
  ci_version :: string

abbreviation failing :: "string \<Rightarrow> 'a res" where "failing m \<equiv> Inl (OtherErr m False)"

definition not_connected :: "string \<Rightarrow> 'a res" where
  "not_connected i = failing (''cluster '' @ i @ '' not found'')"

definition cm_put :: "('cfg, 'dyn) kube_lib \<Rightarrow> string \<Rightarrow> 'cfg \<Rightarrow> ('cfg, 'dyn) conns \<Rightarrow> ('cfg, 'dyn) conns res" where
  "cm_put lib i cfg m =
     (case kl_dynamic lib cfg of
        Inl e \<Rightarrow> failing (''create dynamic client for cluster '' @ i @ '': '' @ e)
      | Inr dyn \<Rightarrow> Inr (gm_put i (cfg, dyn) m))"

definition cm_add :: "('cfg, 'dyn) kube_lib \<Rightarrow> string \<Rightarrow> string \<Rightarrow> ('cfg, 'dyn) conns \<Rightarrow> ('cfg, 'dyn) conns res" where
  "cm_add lib i kubeconfig m =
     (case kl_rest lib kubeconfig of
        Inl e \<Rightarrow> failing (''parse kubeconfig for cluster '' @ i @ '': '' @ e)
      | Inr cfg \<Rightarrow> cm_put lib i cfg m)"

definition cm_add_in_cluster :: "('cfg, 'dyn) kube_lib \<Rightarrow> string \<Rightarrow> ('cfg, 'dyn) conns \<Rightarrow> ('cfg, 'dyn) conns res" where
  "cm_add_in_cluster lib i m =
     (case kl_in_cluster lib of
        Inl e \<Rightarrow> failing (''in-cluster config for cluster '' @ i @ '': '' @ e)
      | Inr cfg \<Rightarrow> cm_put lib i cfg m)"

definition cm_remove :: "string \<Rightarrow> ('cfg, 'dyn) conns \<Rightarrow> ('cfg, 'dyn) conns" where
  "cm_remove i m = gm_del i m"

definition cm_dynamic_client :: "string \<Rightarrow> ('cfg, 'dyn) conns \<Rightarrow> 'dyn res" where
  "cm_dynamic_client i m = (case gm_get m i of None \<Rightarrow> not_connected i | Some (_, d) \<Rightarrow> Inr d)"

definition cm_rest_config :: "string \<Rightarrow> ('cfg, 'dyn) conns \<Rightarrow> 'cfg res" where
  "cm_rest_config i m = (case gm_get m i of None \<Rightarrow> not_connected i | Some (c, _) \<Rightarrow> Inr c)"

definition cm_discovery_client :: "('cfg, 'dyn) kube_lib \<Rightarrow> string \<Rightarrow> ('cfg, 'dyn) conns \<Rightarrow> unit res" where
  "cm_discovery_client lib i m =
     (case gm_get m i of None \<Rightarrow> not_connected i
      | Some (c, _) \<Rightarrow> (case kl_discovery lib c of Inl e \<Rightarrow> failing e | Inr u \<Rightarrow> Inr u))"

definition probe_error :: "('cfg, 'dyn) kube_lib \<Rightarrow> 'cfg \<Rightarrow> bool \<times> string \<Rightarrow> 'a res" where
  "probe_error lib cfg e =
     (if fst e then failing (''authenticate to Kubernetes API server '' @ kl_host lib cfg @ '': '' @ snd e)
      else failing (''connect to Kubernetes API server '' @ kl_host lib cfg @ '': '' @ snd e))"

definition cm_probe :: "('cfg, 'dyn) kube_lib \<Rightarrow> string \<Rightarrow> ('cfg, 'dyn) conns \<Rightarrow> cluster_info res" where
  "cm_probe lib i m =
     (case gm_get m i of
        None \<Rightarrow> not_connected i
      | Some (cfg, _) \<Rightarrow>
          (case kl_discovery lib cfg of
             Inl e \<Rightarrow> failing (''create discovery client for cluster '' @ i @ '': '' @ e)
           | Inr _ \<Rightarrow>
               (case kl_get lib cfg ''/api'' of
                  Inl e \<Rightarrow> probe_error lib cfg e
                | Inr _ \<Rightarrow>
                    (case kl_get lib cfg ''/version'' of
                       Inl e \<Rightarrow> probe_error lib cfg e
                     | Inr raw \<Rightarrow>
                         (case kl_version lib raw of
                            Inl e \<Rightarrow> failing (''decode Kubernetes API server version: '' @ e)
                          | Inr v \<Rightarrow> Inr \<lparr>ci_id = i, ci_api = kl_host lib cfg, ci_version = v\<rparr>)))))"

definition cm_list_ids :: "('cfg, 'dyn) conns \<Rightarrow> string list" where
  "cm_list_ids m = map fst m"

section \<open>The service\<close>

text \<open>Encryption of the kubeconfig is a parameter, as in the other services.\<close>

record ('cfg, 'dyn) cluster_state =
  cs_table :: cluster_table
  cs_conns :: "('cfg, 'dyn) conns"
  cs_inf :: "('dyn, unit) informers"

record cluster_env =
  ce_encrypt :: "string \<Rightarrow> string option"
  ce_decrypt :: "string \<Rightarrow> string + string"
  ce_registry :: registry

record cluster_response =
  cr_id :: nat
  cr_name :: string
  cr_api :: string
  cr_auth :: string
  cr_status :: string
  cr_version :: string
  cr_created :: gotime

definition to_cluster_response :: "cluster \<Rightarrow> cluster_response" where
  "to_cluster_response c = \<lparr>cr_id = c_id c, cr_name = c_name c, cr_api = c_api c, cr_auth = c_auth c,
     cr_status = c_status c, cr_version = c_version c, cr_created = c_created c\<rparr>"

record add_request =
  rq_name :: string
  rq_auth :: string
  rq_kubeconfig :: string

definition resync_period :: duration where "resync_period = 30 * minute"

text \<open>The connection step of \<open>Add\<close>, by authentication type.\<close>

definition add_connect ::
  "('cfg, 'dyn) kube_lib \<Rightarrow> string \<Rightarrow> add_request \<Rightarrow> ('cfg, 'dyn) conns \<Rightarrow> ('cfg, 'dyn) conns res" where
  "add_connect lib name req m =
     (let wrap = (\<lambda>r. case r of Inl e \<Rightarrow> fail CodeK8sUnavailable (''failed to connect: '' @ error_string e) | Inr m' \<Rightarrow> Inr m') in
      if rq_auth req = ''kubeconfig'' then
        (if trim_space (rq_kubeconfig req) = [] then fail CodeParamInvalid (''kubeconfig is required for auth type '' @ [CHR 0x27] @ ''kubeconfig'' @ [CHR 0x27])
         else wrap (cm_add lib name (rq_kubeconfig req) m))
      else if rq_auth req = ''in-cluster'' then
        (if \<not> kl_in_pod lib then
           fail CodeParamInvalid ''in-cluster authentication is only available when KubeVision runs inside Kubernetes; use a kubeconfig for local development''
         else wrap (cm_add_in_cluster lib name m))
      else fail CodeParamInvalid (''unsupported auth type: '' @ rq_auth req))"

definition start_informers :: "cluster_env \<Rightarrow> string \<Rightarrow> ('cfg, 'dyn) cluster_state \<Rightarrow> ('cfg, 'dyn) cluster_state res" where
  "start_informers ce name st =
     (case cm_dynamic_client name (cs_conns st) of
        Inl e \<Rightarrow> Inl e
      | Inr d \<Rightarrow> Inr (st\<lparr>cs_inf := inf_start name d (cached_gvrs (ce_registry ce)) resync_period (cs_inf st)\<rparr>))"

text \<open>Only a kubeconfig that is present is encrypted.\<close>

definition seal_kubeconfig :: "cluster_env \<Rightarrow> string \<Rightarrow> string option" where
  "seal_kubeconfig ce k = (if k = [] then Some [] else ce_encrypt ce k)"

definition cluster_add ::
  "('cfg, 'dyn) kube_lib \<Rightarrow> cluster_env \<Rightarrow> faults \<Rightarrow> gotime \<Rightarrow> add_request \<Rightarrow> ('cfg, 'dyn) cluster_state \<Rightarrow>
     ('cfg, 'dyn) cluster_state \<times> cluster_response res" where
  "cluster_add lib ce fl now req st =
     (let name = trim_space (rq_name req) in
      if name = [] then (st, fail CodeParamInvalid ''cluster name is required'')
      else if isOk (cluster_get_by_name fl name (cs_table st))
        then (st, fail CodeConflict (''cluster '' @ go_quote name @ '' already exists''))
      else
        (case add_connect lib name req (cs_conns st) of
           Inl e \<Rightarrow> (st, Inl e)
         | Inr conns1 \<Rightarrow>
             (let undo = st\<lparr>cs_conns := cm_remove name conns1\<rparr> in
              case cm_probe lib name conns1 of
                Inl e \<Rightarrow> (undo, fail CodeK8sUnavailable (''cluster health check failed: '' @ error_string e))
              | Inr info \<Rightarrow>
                  (case seal_kubeconfig ce (rq_kubeconfig req) of
                     None \<Rightarrow> (undo, fail CodeInternal ''failed to encrypt kubeconfig'')
                   | Some enc \<Rightarrow>
                       (case cluster_create fl \<lparr>c_id = 0, c_created = now, c_updated = now, c_deleted = None, c_name = name,
                               c_api = ci_api info, c_auth = rq_auth req, c_kubeconfig_enc = enc, c_token_enc = [],
                               c_status = ''healthy'', c_version = ci_version info\<rparr> (cs_table st) of
                          Inl _ \<Rightarrow> (undo, fail CodeInternal ''failed to save cluster'')
                        | Inr (t', c) \<Rightarrow>
                            (let st1 = st\<lparr>cs_table := t', cs_conns := conns1\<rparr>
                             in ((case start_informers ce name st1 of Inl _ \<Rightarrow> st1 | Inr st2 \<Rightarrow> st2),
                                 Inr (to_cluster_response c))))))))"

definition cluster_svc_list :: "faults \<Rightarrow> ('cfg, 'dyn) cluster_state \<Rightarrow> cluster_response list res" where
  "cluster_svc_list fl st =
     (case cluster_list fl (cs_table st) of
        Inl _ \<Rightarrow> fail CodeInternal ''failed to list clusters''
      | Inr cs \<Rightarrow> Inr (map to_cluster_response cs))"

definition cluster_svc_get :: "faults \<Rightarrow> nat \<Rightarrow> ('cfg, 'dyn) cluster_state \<Rightarrow> cluster_response res" where
  "cluster_svc_get fl i st =
     (case cluster_get_by_id fl i (cs_table st) of
        Inl _ \<Rightarrow> fail CodeNotFound ''cluster not found''
      | Inr c \<Rightarrow> Inr (to_cluster_response c))"

definition cluster_svc_remove :: "faults \<Rightarrow> nat \<Rightarrow> ('cfg, 'dyn) cluster_state \<Rightarrow> ('cfg, 'dyn) cluster_state \<times> unit res" where
  "cluster_svc_remove fl i st =
     (case cluster_get_by_id fl i (cs_table st) of
        Inl _ \<Rightarrow> (st, fail CodeNotFound ''cluster not found'')
      | Inr c \<Rightarrow>
          (let st1 = st\<lparr>cs_inf := inf_stop (c_name c) (cs_inf st), cs_conns := cm_remove (c_name c) (cs_conns st)\<rparr>
           in (case cluster_delete fl i (cs_table st) of
                 Inl _ \<Rightarrow> (st1, fail CodeInternal ''failed to delete cluster'')
               | Inr t' \<Rightarrow> (st1\<lparr>cs_table := t'\<rparr>, Inr ()))))"

definition connect_persisted ::
  "('cfg, 'dyn) kube_lib \<Rightarrow> cluster_env \<Rightarrow> cluster \<Rightarrow> ('cfg, 'dyn) conns \<Rightarrow> ('cfg, 'dyn) conns res" where
  "connect_persisted lib ce c m =
     (if c_auth c = ''kubeconfig'' then
        (if c_kubeconfig_enc c = [] then failing ''cluster has no kubeconfig''
         else (case ce_decrypt ce (c_kubeconfig_enc c) of
                 Inl e \<Rightarrow> failing (''decrypt kubeconfig: '' @ e)
               | Inr k \<Rightarrow> cm_add lib (c_name c) k m))
      else if c_auth c = ''in-cluster'' then cm_add_in_cluster lib (c_name c) m
      else failing (''unsupported auth type '' @ go_quote (c_auth c)))"

text \<open>\<open>refreshClusterHealth\<close>; \<open>c\<close> is the row as it was listed. Saving sets \<open>updated_at\<close>.\<close>

definition refresh_health_of ::
  "('cfg, 'dyn) kube_lib \<Rightarrow> cluster_env \<Rightarrow> faults \<Rightarrow> gotime \<Rightarrow> cluster \<Rightarrow> bool \<Rightarrow> ('cfg, 'dyn) cluster_state \<Rightarrow>
     ('cfg, 'dyn) cluster_state \<times> go_error option" where
  "refresh_health_of lib ce fl now c start st =
     (let restored = (if isOk (cm_rest_config (c_name c) (cs_conns st)) then Inr (st, start)
                      else case connect_persisted lib ce c (cs_conns st) of
                             Inl e \<Rightarrow> Inl (OtherErr (''restore cluster connection: '' @ error_string e) False)
                           | Inr m \<Rightarrow> Inr (st\<lparr>cs_conns := m\<rparr>, True))
      in case restored of
           Inl e \<Rightarrow> (st, Some e)
         | Inr (st1, start1) \<Rightarrow>
             (case cm_probe lib (c_name c) (cs_conns st1) of
                Inl pe \<Rightarrow>
                  (let st2 = st1\<lparr>cs_inf := inf_stop (c_name c) (cs_inf st1)\<rparr> in
                   if c_status c \<noteq> ''unhealthy'' then
                     (case cluster_update fl (c\<lparr>c_status := ''unhealthy'', c_updated := now\<rparr>) (cs_table st2) of
                        Inl e \<Rightarrow> (st2, Some (OtherErr (''persist unhealthy cluster status: '' @ error_string e) False))
                      | Inr t' \<Rightarrow> (st2\<lparr>cs_table := t'\<rparr>, Some pe))
                   else (st2, Some pe))
              | Inr info \<Rightarrow>
                  (let was_healthy = (c_status c = ''healthy'');
                       changed = (\<not> was_healthy \<or> c_api c \<noteq> ci_api info \<or> c_version c \<noteq> ci_version info);
                       c' = c\<lparr>c_status := ''healthy'', c_api := ci_api info, c_version := ci_version info\<rparr>;
                       saved = (if changed then
                                  (case cluster_update fl (c'\<lparr>c_updated := now\<rparr>) (cs_table st1) of
                                     Inl e \<Rightarrow> Inl (OtherErr (''persist healthy cluster status: '' @ error_string e) False)
                                   | Inr t' \<Rightarrow> Inr (st1\<lparr>cs_table := t'\<rparr>))
                                else Inr st1)
                   in (case saved of
                         Inl e \<Rightarrow> (st1, Some e)
                       | Inr st2 \<Rightarrow>
                           if start1 \<or> \<not> was_healthy then
                             (case start_informers ce (c_name c) st2 of
                                Inl e \<Rightarrow> (st2, Some e)
                              | Inr st3 \<Rightarrow> (st3, None))
                           else (st2, None)))))"

definition refresh_health ::
  "('cfg, 'dyn) kube_lib \<Rightarrow> cluster_env \<Rightarrow> faults \<Rightarrow> gotime \<Rightarrow> ('cfg, 'dyn) cluster_state \<Rightarrow> ('cfg, 'dyn) cluster_state" where
  "refresh_health lib ce fl now st =
     (case cluster_list fl (cs_table st) of
        Inl _ \<Rightarrow> st
      | Inr cs \<Rightarrow> fold (\<lambda>c s. fst (refresh_health_of lib ce fl now c False s)) cs st)"

text \<open>Start-up: connect every row, mark it unhealthy when that fails, otherwise check its health.\<close>

definition init_one ::
  "('cfg, 'dyn) kube_lib \<Rightarrow> cluster_env \<Rightarrow> faults \<Rightarrow> gotime \<Rightarrow> cluster \<Rightarrow> ('cfg, 'dyn) cluster_state \<Rightarrow> ('cfg, 'dyn) cluster_state" where
  "init_one lib ce fl now c st =
     (case connect_persisted lib ce c (cs_conns st) of
        Inl _ \<Rightarrow>
          (case cluster_update fl (c\<lparr>c_status := ''unhealthy'', c_updated := now\<rparr>) (cs_table st) of
             Inl _ \<Rightarrow> st | Inr t' \<Rightarrow> st\<lparr>cs_table := t'\<rparr>)
      | Inr m \<Rightarrow> fst (refresh_health_of lib ce fl now c True (st\<lparr>cs_conns := m\<rparr>)))"

definition init_clusters ::
  "('cfg, 'dyn) kube_lib \<Rightarrow> cluster_env \<Rightarrow> faults \<Rightarrow> gotime \<Rightarrow> ('cfg, 'dyn) cluster_state \<Rightarrow> ('cfg, 'dyn) cluster_state" where
  "init_clusters lib ce fl now st =
     (case cluster_list fl (cs_table st) of
        Inl _ \<Rightarrow> st
      | Inr cs \<Rightarrow> fold (init_one lib ce fl now) cs st)"

text \<open>\<open>strconv.ParseUint(s, 10, 64)\<close>.\<close>

definition parse_uint :: "string \<Rightarrow> nat option" where
  "parse_uint s =
     (if s \<noteq> [] \<and> list_all (\<lambda>c. 48 \<le> (of_char c :: nat) \<and> (of_char c :: nat) \<le> 57) s \<and> dec_value s 0 < 2 ^ 64
      then Some (dec_value s 0) else None)"

definition resolve_cluster_id :: "faults \<Rightarrow> string \<Rightarrow> ('cfg, 'dyn) cluster_state \<Rightarrow> string res" where
  "resolve_cluster_id fl s st =
     (case (case parse_uint s of
              Some i \<Rightarrow> cluster_get_by_id fl i (cs_table st)
            | None \<Rightarrow> cluster_get_by_name fl s (cs_table st)) of
        Inl _ \<Rightarrow> fail CodeNotFound ''cluster not found''
      | Inr c \<Rightarrow> Inr (c_name c))"

section \<open>Properties\<close>

lemma cm_put_Inr: "cm_put lib i cfg m = Inr m' \<Longrightarrow> \<exists>a b. m' = gm_put i (a, b) m"
  by (auto simp: cm_put_def split: sum.splits)

lemma add_connect_Inr: "add_connect lib n req m = Inr m' \<Longrightarrow> \<exists>a b. m' = gm_put n (a, b) m"
  by (auto simp: add_connect_def cm_add_def cm_add_in_cluster_def Let_def split: if_splits sum.splits dest: cm_put_Inr)

lemma connect_persisted_Inr: "connect_persisted lib ce c m = Inr m' \<Longrightarrow> \<exists>a b. m' = gm_put (c_name c) (a, b) m"
  by (auto simp: connect_persisted_def cm_add_def cm_add_in_cluster_def split: if_splits sum.splits dest: cm_put_Inr)

lemma rest_config_iff: "isOk (cm_rest_config n m) \<longleftrightarrow> gm_get m n \<noteq> None"
  by (auto simp: cm_rest_config_def not_connected_def split: option.splits)

lemma start_informers_Inr:
  "start_informers ce n st = Inr st' \<Longrightarrow> gm_get (cs_conns st) n \<noteq> None \<and> cs_table st' = cs_table st \<and> cs_conns st' = cs_conns st \<and>
     (\<forall>k. gm_get (im_clusters (cs_inf st')) k \<noteq> None \<longleftrightarrow> k = n \<or> gm_get (im_clusters (cs_inf st)) k \<noteq> None)"
  by (auto simp: start_informers_def cm_dynamic_client_def not_connected_def inf_start_def Let_def split: option.splits if_splits)

lemma start_informers_ok: "gm_get (cs_conns st) n \<noteq> None \<Longrightarrow> \<exists>st'. start_informers ce n st = Inr st'"
  by (auto simp: start_informers_def cm_dynamic_client_def)

lemma inf_stop_get: "gm_get (im_clusters (inf_stop n m)) k = (if k = n then None else gm_get (im_clusters m) k)"
  by (auto simp: inf_stop_def split: option.splits)

text \<open>The equations of \<open>Add\<close>, one for each exit after the name checks.\<close>

lemma cluster_add_early:
  "trim_space (rq_name req) = [] \<or> isOk (cluster_get_by_name fl (trim_space (rq_name req)) (cs_table st)) \<Longrightarrow>
     \<exists>e. cluster_add lib ce fl now req st = (st, Inl e)"
  by (cases "trim_space (rq_name req) = []") (auto simp: cluster_add_def Let_def)

lemma cluster_add_connect_fails:
  assumes "add_connect lib (trim_space (rq_name req)) req (cs_conns st) = Inl e"
  shows "\<exists>e. cluster_add lib ce fl now req st = (st, Inl e)"
  using assms by (auto simp: cluster_add_def Let_def)

lemma cluster_add_connected:
  assumes ne: "trim_space (rq_name req) \<noteq> []"
    and new: "\<not> isOk (cluster_get_by_name fl (trim_space (rq_name req)) (cs_table st))"
    and conn: "add_connect lib (trim_space (rq_name req)) req (cs_conns st) = Inr m"
  shows "(\<exists>e. cluster_add lib ce fl now req st = (st\<lparr>cs_conns := cm_remove (trim_space (rq_name req)) m\<rparr>, Inl e)) \<or>
    (\<exists>info row t c. cm_probe lib (trim_space (rq_name req)) m = Inr info \<and>
       c_name row = trim_space (rq_name req) \<and> c_status row = ''healthy'' \<and> c_deleted row = None \<and>
       cluster_create fl row (cs_table st) = Inr (t, c) \<and>
       cluster_add lib ce fl now req st =
         (case start_informers ce (trim_space (rq_name req)) (st\<lparr>cs_table := t, cs_conns := m\<rparr>) of
            Inl _ \<Rightarrow> st\<lparr>cs_table := t, cs_conns := m\<rparr> | Inr st2 \<Rightarrow> st2, Inr (to_cluster_response c)))"
proof (cases "cm_probe lib (trim_space (rq_name req)) m")
  case (Inl e)
  then show ?thesis by (simp add: cluster_add_def Let_def ne new conn)
next
  case (Inr info)
  note probe = this
  show ?thesis
  proof (cases "seal_kubeconfig ce (rq_kubeconfig req)")
    case None
    with probe show ?thesis by (simp add: cluster_add_def Let_def ne new conn)
  next
    case (Some enc)
    let ?row = "\<lparr>c_id = 0, c_created = now, c_updated = now, c_deleted = None, c_name = trim_space (rq_name req),
      c_api = ci_api info, c_auth = rq_auth req, c_kubeconfig_enc = enc, c_token_enc = [],
      c_status = ''healthy'', c_version = ci_version info\<rparr>"
    show ?thesis
    proof (cases "cluster_create fl ?row (cs_table st)")
      case (Inl e)
      with probe Some show ?thesis by (simp add: cluster_add_def Let_def ne new conn)
    next
      case (Inr p)
      obtain t c where p: "p = (t, c)" by (cases p)
      have "cluster_add lib ce fl now req st =
         (case start_informers ce (trim_space (rq_name req)) (st\<lparr>cs_table := t, cs_conns := m\<rparr>) of
            Inl _ \<Rightarrow> st\<lparr>cs_table := t, cs_conns := m\<rparr> | Inr st2 \<Rightarrow> st2, Inr (to_cluster_response c))"
        using probe Some Inr p by (simp add: cluster_add_def Let_def ne new conn)
      with probe Inr p show ?thesis
        by (intro disjI2 exI [of _ info] exI [of _ ?row] exI [of _ t] exI [of _ c]) simp
    qed
  qed
qed

text \<open>
  Adding a cluster is all or nothing: if no connection of that name existed, a failing addition
  leaves table, connections and informers as they were, and a successful one has stored a healthy
  row, a connection and a running informer under the trimmed name.
\<close>

theorem add_is_all_or_nothing:
  assumes fresh: "gm_get (cs_conns st) (trim_space (rq_name req)) = None"
    and run: "cluster_add lib ce fl now req st = (st', r)"
  shows "(\<not> isOk r \<longrightarrow> cs_table st' = cs_table st \<and> cs_inf st' = cs_inf st \<and> gm_get (cs_conns st') = gm_get (cs_conns st)) \<and>
    (isOk r \<longrightarrow> (\<exists>c \<in> set (rows (cs_table st')). c_name c = trim_space (rq_name req) \<and> c_status c = ''healthy'') \<and>
       gm_get (cs_conns st') (trim_space (rq_name req)) \<noteq> None \<and>
       gm_get (im_clusters (cs_inf st')) (trim_space (rq_name req)) \<noteq> None)"
proof (cases "trim_space (rq_name req) = [] \<or> isOk (cluster_get_by_name fl (trim_space (rq_name req)) (cs_table st))")
  case True
  with cluster_add_early [OF this, of lib ce now] run show ?thesis by auto
next
  case new: False
  let ?n = "trim_space (rq_name req)"
  show ?thesis
  proof (cases "add_connect lib ?n req (cs_conns st)")
    case (Inl e)
    with cluster_add_connect_fails [OF this, of ce fl now] run show ?thesis by auto
  next
    case (Inr m)
    obtain a b where m: "m = gm_put ?n (a, b) (cs_conns st)" using add_connect_Inr [OF Inr] by blast
    have undo: "gm_get (cm_remove ?n m) = gm_get (cs_conns st)"
      using fresh by (auto simp: cm_remove_def m fun_eq_iff)
    have ne: "?n \<noteq> []" and nb: "\<not> isOk (cluster_get_by_name fl ?n (cs_table st))" using new by auto
    from cluster_add_connected [OF ne nb Inr, of ce now] show ?thesis
    proof (elim disjE exE conjE)
      fix e assume "cluster_add lib ce fl now req st = (st\<lparr>cs_conns := cm_remove ?n m\<rparr>, Inl e)"
      with run undo show ?thesis by auto
    next
      fix info row t c
      assume row: "c_name row = ?n" "c_status row = ''healthy''" and create: "cluster_create fl row (cs_table st) = Inr (t, c)"
        and eq: "cluster_add lib ce fl now req st =
         (case start_informers ce ?n (st\<lparr>cs_table := t, cs_conns := m\<rparr>) of
            Inl _ \<Rightarrow> st\<lparr>cs_table := t, cs_conns := m\<rparr> | Inr st2 \<Rightarrow> st2, Inr (to_cluster_response c))"
      obtain s2 where s2: "start_informers ce ?n (st\<lparr>cs_table := t, cs_conns := m\<rparr>) = Inr s2"
        using start_informers_ok [of "st\<lparr>cs_table := t, cs_conns := m\<rparr>" ?n] m by auto
      have "\<exists>c \<in> set (rows t). c_name c = ?n \<and> c_status c = ''healthy''"
        using create row by (auto simp: cluster_create_def create_row_Inr)
      then show ?thesis using start_informers_Inr [OF s2] eq s2 run m by auto
    qed
  qed
qed

section \<open>Table, connections and informers stay wired together\<close>

definition cluster_names :: "('cfg, 'dyn) cluster_state \<Rightarrow> string set" where
  "cluster_names st = c_name ` set (filter cluster_live (rows (cs_table st)))"

text \<open>Every informer runtime has a connection, and every connection a row.\<close>

definition cluster_wired :: "('cfg, 'dyn) cluster_state \<Rightarrow> bool" where
  "cluster_wired st \<longleftrightarrow> table_ok c_id (cs_table st) \<and>
     (\<forall>n. gm_get (im_clusters (cs_inf st)) n \<noteq> None \<longrightarrow> gm_get (cs_conns st) n \<noteq> None) \<and>
     (\<forall>n. gm_get (cs_conns st) n \<noteq> None \<longrightarrow> n \<in> cluster_names st)"

lemma cluster_wiredI [intro?]:
  "table_ok c_id (cs_table st) \<Longrightarrow>
   (\<And>n. gm_get (im_clusters (cs_inf st)) n \<noteq> None \<Longrightarrow> gm_get (cs_conns st) n \<noteq> None) \<Longrightarrow>
   (\<And>n. gm_get (cs_conns st) n \<noteq> None \<Longrightarrow> n \<in> cluster_names st) \<Longrightarrow> cluster_wired st"
  unfolding cluster_wired_def by blast

lemma cluster_wiredD:
  assumes "cluster_wired st"
  shows "table_ok c_id (cs_table st)"
    and "gm_get (im_clusters (cs_inf st)) n \<noteq> None \<Longrightarrow> gm_get (cs_conns st) n \<noteq> None"
    and "gm_get (cs_conns st) n \<noteq> None \<Longrightarrow> n \<in> cluster_names st"
  using assms unfolding cluster_wired_def by blast+

text \<open>A connection may be added for a name that has a row; connections and informers of one name may go together.\<close>

lemma wired_connect:
  "cluster_wired st \<Longrightarrow> n \<in> cluster_names st \<Longrightarrow> cluster_wired (st\<lparr>cs_conns := gm_put n v (cs_conns st)\<rparr>)"
  by (auto simp: cluster_wired_def cluster_names_def)

lemma wired_stop: "cluster_wired st \<Longrightarrow> cluster_wired (st\<lparr>cs_inf := inf_stop n (cs_inf st)\<rparr>)"
  by (auto simp: cluster_wired_def cluster_names_def inf_stop_get)

lemma wired_start:
  assumes w: "cluster_wired st" and s: "start_informers ce n st = Inr st'"
  shows "cluster_wired st'"
proof (rule cluster_wiredI)
  note i = start_informers_Inr [OF s]
  show "table_ok c_id (cs_table st')" using i cluster_wiredD(1) [OF w] by simp
  show "gm_get (cs_conns st') k \<noteq> None" if "gm_get (im_clusters (cs_inf st')) k \<noteq> None" for k
    using that i cluster_wiredD(2) [OF w] by metis
  show "k \<in> cluster_names st'" if "gm_get (cs_conns st') k \<noteq> None" for k
    using that i cluster_wiredD(3) [OF w] by (simp add: cluster_names_def)
qed

lemma wired_table:
  "cluster_wired st \<Longrightarrow> table_ok c_id t \<Longrightarrow>
   (\<And>n. n \<in> cluster_names st \<Longrightarrow> \<exists>c \<in> set (rows t). cluster_live c \<and> c_name c = n) \<Longrightarrow> cluster_wired (st\<lparr>cs_table := t\<rparr>)"
  unfolding cluster_wired_def cluster_names_def by fastforce

text \<open>A row that is saved over the live row of the same key and name.\<close>

definition has_row :: "cluster \<Rightarrow> ('cfg, 'dyn) cluster_state \<Rightarrow> bool" where
  "has_row c st \<longleftrightarrow> (\<exists>r \<in> set (rows (cs_table st)). c_id r = c_id c \<and> c_name r = c_name c \<and> c_deleted r = None \<and> c_deleted c = None)"

lemma has_row_name: "has_row c st \<Longrightarrow> c_name c \<in> cluster_names st"
  unfolding has_row_def cluster_names_def cluster_live_def set_filter by (metis (mono_tags, lifting) image_eqI mem_Collect_eq)

lemma has_row_cong: "cs_table st' = cs_table st \<Longrightarrow> has_row c st' = has_row c st"
  by (simp add: has_row_def)

lemma key_unique: "table_ok key t \<Longrightarrow> x \<in> set (rows t) \<Longrightarrow> y \<in> set (rows t) \<Longrightarrow> key x = key y \<Longrightarrow> x = y"
  by (auto simp: table_ok_def distinct_map dest: inj_onD)

lemma update_rows:
  assumes ok: "table_ok c_id (cs_table st)" and row: "has_row c st" and c': "c_id c' = c_id c" "c_name c' = c_name c" "c_deleted c' = c_deleted c"
    and up: "cluster_update fl c' (cs_table st) = Inr t"
  shows "rows t = map (\<lambda>x. if c_id x = c_id c' then c' else x) (rows (cs_table st))"
proof -
  have "list_ex (\<lambda>x. c_id x = c_id c') (rows (cs_table st))" using row c' by (force simp: has_row_def list_ex_iff)
  then show ?thesis using up by (auto simp: cluster_update_def save_row_def split: if_splits)
qed

lemma wired_update:
  assumes w: "cluster_wired st" and row: "has_row c st" and c': "c_id c' = c_id c" "c_name c' = c_name c" "c_deleted c' = c_deleted c"
    and up: "cluster_update fl c' (cs_table st) = Inr t"
  shows "cluster_wired (st\<lparr>cs_table := t\<rparr>)"
proof (rule wired_table [OF w])
  note ok = cluster_wiredD(1) [OF w]
  show "table_ok c_id t" using ok up by (auto simp: cluster_update_def intro: table_ok_save)
  fix n assume "n \<in> cluster_names st"
  then obtain x where x: "x \<in> set (rows (cs_table st))" "cluster_live x" "c_name x = n" by (auto simp: cluster_names_def)
  obtain r where r: "r \<in> set (rows (cs_table st))" "c_id r = c_id c" "c_name r = c_name c" "c_deleted c = None"
    using row by (auto simp: has_row_def)
  have same: "c_name x = c_name c" if "c_id x = c_id c" using key_unique [OF ok x(1) r(1)] that r by simp
  have rt: "rows t = map (\<lambda>x. if c_id x = c_id c' then c' else x) (rows (cs_table st))" by (rule update_rows [OF ok row c' up])
  show "\<exists>c \<in> set (rows t). cluster_live c \<and> c_name c = n"
  proof (cases "c_id x = c_id c")
    case True
    then have "c' \<in> set (rows t)" using x c' by (auto simp: rt)
    then show ?thesis using True same x r c' by (auto simp: cluster_live_def)
  next
    case False
    then have "x \<in> set (rows t)" using x c' by (auto simp: rt image_iff)
    then show ?thesis using x by auto
  qed
qed

lemma has_row_update:
  assumes "table_ok c_id (cs_table st)" "has_row c st" "c_id c' = c_id c" "c_name c' = c_name c" "c_deleted c' = c_deleted c"
    and "cluster_update fl c' (cs_table st) = Inr t" and d: "has_row d st"
  shows "has_row d (st\<lparr>cs_table := t\<rparr>)"
proof -
  obtain r where r: "r \<in> set (rows (cs_table st))" "c_id r = c_id d" "c_name r = c_name d" "c_deleted r = None" "c_deleted d = None"
    using d by (auto simp: has_row_def)
  obtain r' where r': "r' \<in> set (rows (cs_table st))" "c_id r' = c_id c" "c_name r' = c_name c" "c_deleted c = None"
    using assms(2) by (auto simp: has_row_def)
  have same: "r = r'" if "c_id r = c_id c" using key_unique [OF assms(1) r(1) r'(1)] that r' by simp
  let ?x = "if c_id r = c_id c' then c' else r"
  have "?x \<in> set (rows t)" using r by (auto simp: update_rows [OF assms(1-6)])
  moreover have "c_id ?x = c_id d \<and> c_name ?x = c_name d \<and> c_deleted ?x = None" using r r' same assms(3-5) by auto
  ultimately show ?thesis using r by (auto simp: has_row_def)
qed

text \<open>The exits of \<open>refreshClusterHealth\<close>: what is left once the connection is there.\<close>

definition probed_row :: "cluster \<Rightarrow> cluster_info \<Rightarrow> cluster" where
  "probed_row c info = c\<lparr>c_status := ''healthy'', c_api := ci_api info, c_version := ci_version info\<rparr>"

definition keeps_wiring :: "cluster list \<Rightarrow> ('cfg, 'dyn) cluster_state \<Rightarrow> ('cfg, 'dyn) cluster_state \<Rightarrow> bool" where
  "keeps_wiring cs st st' \<longleftrightarrow> cluster_wired st' \<and> (\<forall>d \<in> set cs. has_row d st \<longrightarrow> has_row d st')"

lemma refresh_unconnected:
  assumes "gm_get (cs_conns st) (c_name c) = None" "connect_persisted lib ce c (cs_conns st) = Inl e"
  shows "\<exists>e. refresh_health_of lib ce fl now c start st = (st, Some e)"
  using assms by (simp add: refresh_health_of_def rest_config_iff)

lemma refresh_restored:
  assumes "gm_get (cs_conns st) (c_name c) = None" "connect_persisted lib ce c (cs_conns st) = Inr m"
  shows "refresh_health_of lib ce fl now c start st = refresh_health_of lib ce fl now c True (st\<lparr>cs_conns := m\<rparr>)"
proof -
  have "gm_get m (c_name c) \<noteq> None" using connect_persisted_Inr [OF assms(2)] by auto
  then show ?thesis using assms by (simp add: refresh_health_of_def rest_config_iff)
qed

lemma refresh_probe_fails:
  assumes "gm_get (cs_conns st) (c_name c) \<noteq> None" "cm_probe lib (c_name c) (cs_conns st) = Inl e"
  shows "refresh_health_of lib ce fl now c start st =
    (let st2 = st\<lparr>cs_inf := inf_stop (c_name c) (cs_inf st)\<rparr> in
     if c_status c = ''unhealthy'' then (st2, Some e)
     else case cluster_update fl (c\<lparr>c_status := ''unhealthy'', c_updated := now\<rparr>) (cs_table st) of
            Inl e' \<Rightarrow> (st2, Some (OtherErr (''persist unhealthy cluster status: '' @ error_string e') False))
          | Inr t \<Rightarrow> (st2\<lparr>cs_table := t\<rparr>, Some e))"
  using assms by (simp add: refresh_health_of_def rest_config_iff Let_def)

lemma refresh_probe_unchanged:
  assumes "gm_get (cs_conns st) (c_name c) \<noteq> None" "cm_probe lib (c_name c) (cs_conns st) = Inr info"
    and "c_status c = ''healthy''" "c_api c = ci_api info" "c_version c = ci_version info"
  shows "refresh_health_of lib ce fl now c start st =
    (if start then (case start_informers ce (c_name c) st of Inl e \<Rightarrow> (st, Some e) | Inr st' \<Rightarrow> (st', None)) else (st, None))"
  using assms by (simp add: refresh_health_of_def rest_config_iff Let_def)

lemma refresh_probe_changed:
  assumes conn: "gm_get (cs_conns st) (c_name c) \<noteq> None" and probe: "cm_probe lib (c_name c) (cs_conns st) = Inr info"
    and ch: "\<not> (c_status c = ''healthy'' \<and> c_api c = ci_api info \<and> c_version c = ci_version info)"
  shows "refresh_health_of lib ce fl now c start st =
    (case cluster_update fl ((probed_row c info)\<lparr>c_updated := now\<rparr>) (cs_table st) of
       Inl e \<Rightarrow> (st, Some (OtherErr (''persist healthy cluster status: '' @ error_string e) False))
     | Inr t \<Rightarrow>
         (if start \<or> c_status c \<noteq> ''healthy'' then
            (case start_informers ce (c_name c) (st\<lparr>cs_table := t\<rparr>) of Inl e \<Rightarrow> (st\<lparr>cs_table := t\<rparr>, Some e) | Inr st' \<Rightarrow> (st', None))
          else (st\<lparr>cs_table := t\<rparr>, None)))"
proof -
  have "(c_status c \<noteq> ''healthy'' \<or> c_api c \<noteq> ci_api info \<or> c_version c \<noteq> ci_version info) = True" using ch by blast
  with conn probe show ?thesis
    unfolding refresh_health_of_def Let_def probed_row_def rest_config_iff
    by (cases "cluster_update fl ((probed_row c info)\<lparr>c_updated := now\<rparr>) (cs_table st)") (simp_all add: probed_row_def)
qed

lemma started_keeps_wiring:
  assumes "cluster_wired st" "start_informers ce n st = Inr st'"
  shows "keeps_wiring cs st st'"
proof -
  have t: "cs_table st' = cs_table st" using start_informers_Inr [OF assms(2)] by blast
  show ?thesis unfolding keeps_wiring_def has_row_cong [OF t] using wired_start [OF assms] by blast
qed

lemma keeps_wiring_trans: "keeps_wiring cs a b \<Longrightarrow> keeps_wiring cs b c \<Longrightarrow> keeps_wiring cs a c"
  by (auto simp: keeps_wiring_def)

lemma update_keeps_wiring:
  assumes "cluster_wired st" "has_row c st" "c_id c' = c_id c" "c_name c' = c_name c" "c_deleted c' = c_deleted c"
    "cluster_update fl c' (cs_table st) = Inr t"
  shows "keeps_wiring cs st (st\<lparr>cs_table := t\<rparr>)"
  unfolding keeps_wiring_def
proof (intro conjI ballI impI)
  show "cluster_wired (st\<lparr>cs_table := t\<rparr>)" by (rule wired_update [OF assms])
  show "has_row d (st\<lparr>cs_table := t\<rparr>)" if "has_row d st" for d
    by (rule has_row_update [OF cluster_wiredD(1) [OF assms(1)] assms(2-6) that])
qed

lemma stop_keeps_wiring: "cluster_wired st \<Longrightarrow> keeps_wiring cs st (st\<lparr>cs_inf := inf_stop n (cs_inf st)\<rparr>)"
  by (simp add: keeps_wiring_def wired_stop has_row_def)

lemma connect_keeps_wiring:
  assumes "cluster_wired st" "has_row c st" "connect_persisted lib ce c (cs_conns st) = Inr m"
  shows "keeps_wiring cs st (st\<lparr>cs_conns := m\<rparr>)"
proof -
  obtain a b where "m = gm_put (c_name c) (a, b) (cs_conns st)" using connect_persisted_Inr [OF assms(3)] by blast
  with wired_connect [OF assms(1) has_row_name [OF assms(2)]] show ?thesis by (simp add: keeps_wiring_def has_row_def)
qed

lemma keeps_wiring_refl: "cluster_wired st \<Longrightarrow> keeps_wiring cs st st"
  by (simp add: keeps_wiring_def)

lemma wired_of: "keeps_wiring cs st st' \<Longrightarrow> cluster_wired st'"
  by (simp add: keeps_wiring_def)

lemma refresh_connected_wiring:
  assumes w: "cluster_wired st" and row: "has_row c st" and conn: "gm_get (cs_conns st) (c_name c) \<noteq> None"
  shows "keeps_wiring cs st (fst (refresh_health_of lib ce fl now c start st))"
proof (cases "cm_probe lib (c_name c) (cs_conns st)")
  case (Inl e)
  let ?s2 = "st\<lparr>cs_inf := inf_stop (c_name c) (cs_inf st)\<rparr>"
  have k2: "keeps_wiring cs st ?s2" by (rule stop_keeps_wiring [OF w])
  have row2: "has_row c ?s2" using row by (simp add: has_row_def)
  show ?thesis
  proof (cases "cluster_update fl (c\<lparr>c_status := ''unhealthy'', c_updated := now\<rparr>) (cs_table st)")
    case (Inl e')
    with k2 show ?thesis by (simp add: refresh_probe_fails [OF conn \<open>cm_probe _ _ _ = _\<close>] Let_def)
  next
    case (Inr t)
    have "keeps_wiring cs ?s2 (?s2\<lparr>cs_table := t\<rparr>)"
      by (rule update_keeps_wiring [OF wired_of [OF k2] row2, of "c\<lparr>c_status := ''unhealthy'', c_updated := now\<rparr>"]) (use Inr in simp_all)
    from keeps_wiring_trans [OF k2 this] k2 Inr show ?thesis
      by (simp add: refresh_probe_fails [OF conn \<open>cm_probe _ _ _ = _\<close>] Let_def)
  qed
next
  case (Inr info)
  note probe = this
  show ?thesis
  proof (cases "c_status c = ''healthy'' \<and> c_api c = ci_api info \<and> c_version c = ci_version info")
    case True
    then show ?thesis using keeps_wiring_refl [OF w] started_keeps_wiring [OF w]
      by (auto simp: refresh_probe_unchanged [OF conn probe] split: sum.splits)
  next
    case False
    show ?thesis
    proof (cases "cluster_update fl ((probed_row c info)\<lparr>c_updated := now\<rparr>) (cs_table st)")
      case (Inl e)
      then show ?thesis using keeps_wiring_refl [OF w] by (simp add: refresh_probe_changed [OF conn probe False])
    next
      case (Inr t)
      have k: "keeps_wiring cs st (st\<lparr>cs_table := t\<rparr>)"
        by (rule update_keeps_wiring [OF w row _ _ _ Inr]) (simp_all add: probed_row_def)
      have "fst (refresh_health_of lib ce fl now c start st) = st\<lparr>cs_table := t\<rparr> \<or>
          start_informers ce (c_name c) (st\<lparr>cs_table := t\<rparr>) = Inr (fst (refresh_health_of lib ce fl now c start st))"
        using Inr by (simp add: refresh_probe_changed [OF conn probe False] split: sum.split)
      then show ?thesis using k keeps_wiring_trans [OF k started_keeps_wiring [OF wired_of [OF k]]] by auto
    qed
  qed
qed

lemma refresh_wiring:
  assumes w: "cluster_wired st" and row: "has_row c st"
  shows "keeps_wiring cs st (fst (refresh_health_of lib ce fl now c start st))"
proof (cases "gm_get (cs_conns st) (c_name c)")
  case (Some v)
  then show ?thesis by (intro refresh_connected_wiring w row) simp
next
  case None
  show ?thesis
  proof (cases "connect_persisted lib ce c (cs_conns st)")
    case (Inl e)
    with refresh_unconnected [OF None this, of fl now start] keeps_wiring_refl [OF w] show ?thesis by auto
  next
    case (Inr m)
    have k: "keeps_wiring cs st (st\<lparr>cs_conns := m\<rparr>)" by (rule connect_keeps_wiring [OF w row Inr])
    have "gm_get m (c_name c) \<noteq> None" using connect_persisted_Inr [OF Inr] by auto
    then have "keeps_wiring cs (st\<lparr>cs_conns := m\<rparr>) (fst (refresh_health_of lib ce fl now c True (st\<lparr>cs_conns := m\<rparr>)))"
      using row by (intro refresh_connected_wiring wired_of [OF k]) (simp_all add: has_row_def)
    with keeps_wiring_trans [OF k] show ?thesis by (simp add: refresh_restored [OF None Inr])
  qed
qed

lemma init_one_wiring:
  assumes w: "cluster_wired st" and row: "has_row c st"
  shows "keeps_wiring cs st (init_one lib ce fl now c st)"
proof (cases "connect_persisted lib ce c (cs_conns st)")
  case (Inl e)
  show ?thesis
  proof (cases "cluster_update fl (c\<lparr>c_status := ''unhealthy'', c_updated := now\<rparr>) (cs_table st)")
    case (Inl e')
    then show ?thesis using \<open>connect_persisted _ _ _ _ = _\<close> keeps_wiring_refl [OF w] by (simp add: init_one_def)
  next
    case (Inr t)
    have "keeps_wiring cs st (st\<lparr>cs_table := t\<rparr>)"
      by (rule update_keeps_wiring [OF w row _ _ _ Inr]) simp_all
    then show ?thesis using \<open>connect_persisted _ _ _ _ = _\<close> Inr by (simp add: init_one_def)
  qed
next
  case (Inr m)
  have k: "keeps_wiring cs st (st\<lparr>cs_conns := m\<rparr>)" by (rule connect_keeps_wiring [OF w row Inr])
  have "has_row c (st\<lparr>cs_conns := m\<rparr>)" using row by (simp add: has_row_def)
  from keeps_wiring_trans [OF k refresh_wiring [OF wired_of [OF k] this]] Inr show ?thesis by (simp add: init_one_def)
qed

text \<open>A sweep over the rows that were listed keeps the wiring if each step does.\<close>

lemma sweep_wiring:
  assumes "\<And>c st. cluster_wired st \<Longrightarrow> has_row c st \<Longrightarrow> keeps_wiring cs st (f c st)"
  shows "set ds \<subseteq> set cs \<Longrightarrow> cluster_wired st \<Longrightarrow> \<forall>d \<in> set cs. has_row d st \<Longrightarrow> cluster_wired (fold f ds st)"
proof (induction ds arbitrary: st)
  case (Cons d ds)
  then have k: "keeps_wiring cs st (f d st)" using assms by simp
  then have "cluster_wired (f d st)" "\<forall>x \<in> set cs. has_row x (f d st)" using Cons.prems by (auto simp: keeps_wiring_def)
  with Cons show ?case by simp
qed simp

lemma listed_has_row: "cluster_list fl (cs_table st) = Inr cs \<Longrightarrow> c \<in> set cs \<Longrightarrow> has_row c st"
  by (auto simp: cluster_list_def find_where_Inr has_row_def cluster_live_def)

lemma refresh_health_wired: "cluster_wired st \<Longrightarrow> cluster_wired (refresh_health lib ce fl now st)"
  unfolding refresh_health_def
  by (cases "cluster_list fl (cs_table st)")
    (auto intro!: sweep_wiring intro: refresh_wiring listed_has_row)

lemma init_clusters_wired: "cluster_wired st \<Longrightarrow> cluster_wired (init_clusters lib ce fl now st)"
  unfolding init_clusters_def
  by (cases "cluster_list fl (cs_table st)")
    (auto intro!: sweep_wiring intro: init_one_wiring listed_has_row)

lemma remove_wired:
  assumes w: "cluster_wired st"
  shows "cluster_wired (fst (cluster_svc_remove fl i st))"
proof (cases "cluster_get_by_id fl i (cs_table st)")
  case (Inl e)
  with w show ?thesis by (simp add: cluster_svc_remove_def)
next
  case (Inr c)
  have c: "c_id c = i" "c \<in> set (rows (cs_table st))"
    using first_where_sat [OF Inr [unfolded cluster_get_by_id_def]] by auto
  let ?s1 = "st\<lparr>cs_inf := inf_stop (c_name c) (cs_inf st), cs_conns := cm_remove (c_name c) (cs_conns st)\<rparr>"
  have w1: "cluster_wired ?s1"
    using w by (auto simp: cluster_wired_def cluster_names_def inf_stop_get cm_remove_def)
  show ?thesis
  proof (cases "cluster_delete fl i (cs_table st)")
    case (Inl e)
    with Inr w1 \<open>cluster_get_by_id _ _ _ = _\<close> show ?thesis by (simp add: cluster_svc_remove_def Let_def)
  next
    case (Inr t)
    have t: "rows t = filter (\<lambda>r. c_id r \<noteq> i) (rows (cs_table st))"
      using Inr by (auto simp: cluster_delete_def delete_where_def split: if_splits)
    have "cluster_wired (?s1\<lparr>cs_table := t\<rparr>)"
    proof (rule cluster_wiredI)
      show "table_ok c_id (cs_table (?s1\<lparr>cs_table := t\<rparr>))"
        using table_ok_delete [OF cluster_wiredD(1) [OF w]] Inr by (simp add: cluster_delete_def)
      show "gm_get (cs_conns (?s1\<lparr>cs_table := t\<rparr>)) n \<noteq> None"
        if "gm_get (im_clusters (cs_inf (?s1\<lparr>cs_table := t\<rparr>))) n \<noteq> None" for n
        using that cluster_wiredD(2) [OF w1] by simp
      show "n \<in> cluster_names (?s1\<lparr>cs_table := t\<rparr>)" if n: "gm_get (cs_conns (?s1\<lparr>cs_table := t\<rparr>)) n \<noteq> None" for n
      proof -
        have ne: "n \<noteq> c_name c" "gm_get (cs_conns st) n \<noteq> None" using n by (auto simp: cm_remove_def split: if_splits)
        then obtain x where x: "x \<in> set (rows (cs_table st))" "cluster_live x" "c_name x = n"
          using cluster_wiredD(3) [OF w] by (fastforce simp: cluster_names_def)
        have "c_id x \<noteq> i" using key_unique [OF cluster_wiredD(1) [OF w] x(1) c(2)] c x ne by auto
        then show ?thesis using x by (auto simp: cluster_names_def t)
      qed
    qed
    then show ?thesis using Inr \<open>cluster_get_by_id _ _ _ = _\<close> by (simp add: cluster_svc_remove_def Let_def)
  qed
qed

lemma wired_cong:
  "cluster_wired st \<Longrightarrow> gm_get m = gm_get (cs_conns st) \<Longrightarrow> cluster_wired (st\<lparr>cs_conns := m\<rparr>)"
  by (simp add: cluster_wired_def cluster_names_def)

lemma add_wired:
  assumes w: "cluster_wired st" and fl: "\<not> fl DbGet"
  shows "cluster_wired (fst (cluster_add lib ce fl now req st))"
proof (cases "trim_space (rq_name req) = [] \<or> isOk (cluster_get_by_name fl (trim_space (rq_name req)) (cs_table st))")
  case True
  with cluster_add_early [OF this, of lib ce now] w show ?thesis by auto
next
  case new: False
  let ?n = "trim_space (rq_name req)"
  have ne: "?n \<noteq> []" and nb: "\<not> isOk (cluster_get_by_name fl ?n (cs_table st))" using new by auto
  have "?n \<notin> cluster_names st"
    using nb fl by (auto simp: cluster_get_by_name_def first_where_def cluster_names_def find_None_iff split: option.splits)
  then have free: "gm_get (cs_conns st) ?n = None" using cluster_wiredD(3) [OF w] by blast
  show ?thesis
  proof (cases "add_connect lib ?n req (cs_conns st)")
    case (Inl e)
    with cluster_add_connect_fails [OF this, of ce fl now] w show ?thesis by auto
  next
    case (Inr m)
    obtain a b where m: "m = gm_put ?n (a, b) (cs_conns st)" using add_connect_Inr [OF Inr] by blast
    have undo: "gm_get (cm_remove ?n m) = gm_get (cs_conns st)" using free by (auto simp: cm_remove_def m fun_eq_iff)
    from cluster_add_connected [OF ne nb Inr, of ce now] show ?thesis
    proof (elim disjE exE conjE)
      fix e assume "cluster_add lib ce fl now req st = (st\<lparr>cs_conns := cm_remove ?n m\<rparr>, Inl e)"
      then show ?thesis using wired_cong [OF w undo] by simp
    next
      fix info row t c
      assume row: "c_name row = ?n" and create: "cluster_create fl row (cs_table st) = Inr (t, c)"
        and del: "c_deleted row = None"
        and eq: "cluster_add lib ce fl now req st =
         (case start_informers ce ?n (st\<lparr>cs_table := t, cs_conns := m\<rparr>) of
            Inl _ \<Rightarrow> st\<lparr>cs_table := t, cs_conns := m\<rparr> | Inr st2 \<Rightarrow> st2, Inr (to_cluster_response c))"
      have t: "rows t = rows (cs_table st) @ [c]" "c_name c = ?n" "c_deleted c = None"
        using create row del by (auto simp: cluster_create_def create_row_Inr)
      have ok: "table_ok c_id t"
        using table_ok_create [OF cluster_wiredD(1) [OF w] _ create [unfolded cluster_create_def]] by simp
      have "cluster_wired (st\<lparr>cs_table := t\<rparr>)" by (rule wired_table [OF w ok]) (auto simp: cluster_names_def t)
      moreover have "?n \<in> cluster_names (st\<lparr>cs_table := t\<rparr>)" using t by (auto simp: cluster_names_def cluster_live_def)
      ultimately have w1: "cluster_wired (st\<lparr>cs_table := t, cs_conns := m\<rparr>)"
        using wired_connect [of "st\<lparr>cs_table := t\<rparr>" ?n "(a, b)"] m by simp
      obtain s2 where "start_informers ce ?n (st\<lparr>cs_table := t, cs_conns := m\<rparr>) = Inr s2"
        using start_informers_ok [of "st\<lparr>cs_table := t, cs_conns := m\<rparr>" ?n] m by auto
      with wired_start [OF w1 this] eq show ?thesis by simp
    qed
  qed
qed

text \<open>Requests to the service; what the API servers answer may change from one to the next.\<close>

datatype ('cfg, 'dyn) cluster_cmd =
    CAdd "('cfg, 'dyn) kube_lib" faults gotime add_request
  | CRemove faults nat
  | CRefresh "('cfg, 'dyn) kube_lib" faults gotime
  | CInit "('cfg, 'dyn) kube_lib" faults gotime

primrec cluster_exec :: "cluster_env \<Rightarrow> ('cfg, 'dyn) cluster_cmd \<Rightarrow> ('cfg, 'dyn) cluster_state \<Rightarrow> ('cfg, 'dyn) cluster_state" where
  "cluster_exec ce (CAdd lib fl now req) st = fst (cluster_add lib ce fl now req st)"
| "cluster_exec ce (CRemove fl i) st = fst (cluster_svc_remove fl i st)"
| "cluster_exec ce (CRefresh lib fl now) st = refresh_health lib ce fl now st"
| "cluster_exec ce (CInit lib fl now) st = init_clusters lib ce fl now st"

definition lookup_works :: "('cfg, 'dyn) cluster_cmd \<Rightarrow> bool" where
  "lookup_works c = (case c of CAdd _ fl _ _ \<Rightarrow> \<not> fl DbGet | _ \<Rightarrow> True)"

lemma exec_wired: "cluster_wired st \<Longrightarrow> lookup_works c \<Longrightarrow> cluster_wired (cluster_exec ce c st)"
  by (cases c) (simp_all add: lookup_works_def add_wired remove_wired refresh_health_wired init_clusters_wired)

lemma exec_all_wired:
  "cluster_wired st \<Longrightarrow> list_all lookup_works cs \<Longrightarrow> cluster_wired (fold (cluster_exec ce) cs st)"
  by (induction cs arbitrary: st) (auto intro: exec_wired)

definition boot_state :: "cluster_table \<Rightarrow> ('cfg, 'dyn) cluster_state" where
  "boot_state t = \<lparr>cs_table = t, cs_conns = [], cs_inf = new_informers\<rparr>"

lemma boot_wired: "table_ok c_id t \<Longrightarrow> cluster_wired (boot_state t)"
  by (simp add: boot_state_def cluster_wired_def new_informers_def)

text \<open>
  C8. Table, connections and informers stay wired together: starting from a restart on any table
  with unique keys, whatever additions, removals, health sweeps and start-ups follow, with whatever
  answers of the API servers and database faults (the name lookup of an addition excepted), every
  running informer belongs to a connected cluster and every connection to a stored cluster.
\<close>

theorem clusters_stay_wired:
  assumes "table_ok c_id t" and "list_all lookup_works cs"
  shows "cluster_wired (fold (cluster_exec ce) cs (boot_state t))"
  by (rule exec_all_wired [OF boot_wired [OF assms(1)] assms(2)])

text \<open>A row, a client library whose requests all succeed, and one whose probes fail.\<close>

definition sample_row :: cluster where
  "sample_row = \<lparr>c_id = 1, c_created = 0, c_updated = 0, c_deleted = None, c_name = ''a'', c_api = ''h'',
     c_auth = ''kubeconfig'', c_kubeconfig_enc = ''k'', c_token_enc = [], c_status = ''healthy'', c_version = ''v1''\<rparr>"

definition live_lib :: "(string, string) kube_lib" where
  "live_lib = \<lparr>kl_rest = Inr, kl_in_cluster = Inl ''no'', kl_dynamic = Inr, kl_discovery = (\<lambda>_. Inr ()),
     kl_get = (\<lambda>_ _. Inr ''v1''), kl_version = Inr, kl_host = (\<lambda>_. ''h''), kl_in_pod = False\<rparr>"

definition dead_lib :: "(string, string) kube_lib" where
  "dead_lib = live_lib\<lparr>kl_get := (\<lambda>_ _. Inl (False, ''refused''))\<rparr>"

definition sample_env :: cluster_env where
  "sample_env = \<lparr>ce_encrypt = Some, ce_decrypt = Inr, ce_registry = cached_builtins\<rparr>"

lemmas sample_defs = sample_row_def live_lib_def dead_lib_def sample_env_def

theorem clusters_stay_wired_witness:
  "cluster_wired (fold (cluster_exec sample_env) [CInit live_lib (\<lambda>_. False) 1, CRefresh dead_lib (\<lambda>_. True) 2, CRemove (\<lambda>_. False) 1]
     (boot_state \<lparr>rows = [sample_row], seq = 1\<rparr>))"
  by (rule clusters_stay_wired) (simp_all add: table_ok_def sample_row_def lookup_works_def)

definition sample_add :: add_request where
  "sample_add = \<lparr>rq_name = '' b '', rq_auth = ''kubeconfig'', rq_kubeconfig = ''k''\<rparr>"

lemma sample_name: "trim_space (rq_name sample_add) = ''b''"
  by (simp add: sample_add_def trim_space_def is_space_def)

lemma dead_add_fails: "\<not> isOk (snd (cluster_add dead_lib sample_env (\<lambda>_. False) 5 sample_add (boot_state empty_table)))"
  by code_simp

theorem add_is_all_or_nothing_witness:
  "gm_get (cs_conns (fst (cluster_add dead_lib sample_env (\<lambda>_. False) 5 sample_add (boot_state empty_table)))) = gm_get []"
proof -
  have f: "gm_get (cs_conns (boot_state empty_table)) (trim_space (rq_name sample_add)) = None"
    by (simp add: boot_state_def)
  show ?thesis using add_is_all_or_nothing [OF f prod.collapse [symmetric], of dead_lib sample_env "\<lambda>_. False" 5] dead_add_fails
    by (simp add: boot_state_def)
qed

section \<open>Health checks\<close>

lemma started_gets_informer: "start_informers ce n st = Inr st' \<Longrightarrow> gm_get (im_clusters (cs_inf st')) n \<noteq> None"
  using start_informers_Inr by blast

lemma update_succeeds: "\<not> fl DbUpdate \<Longrightarrow> \<exists>t'. cluster_update fl c t = Inr t'"
  by (simp add: cluster_update_def save_row_def)

text \<open>
  What one health check does to a connected cluster when the database works: a failed probe is
  the error returned, stops the informers and leaves the row \<open>unhealthy\<close>; a successful one
  leaves the row \<open>healthy\<close> with the address and version probed, and the informers of a cluster
  that was not healthy before are running again. No other row is touched.
\<close>

theorem health_check_outcome:
  assumes "table_ok c_id (cs_table st)" and "has_row c st" and "gm_get (cs_conns st) (c_name c) \<noteq> None" and "\<not> fl DbUpdate"
    and "c \<in> set (rows (cs_table st))" and "refresh_health_of lib ce fl now c start st = (st', r)"
  shows "case cm_probe lib (c_name c) (cs_conns st) of
      Inl e \<Rightarrow> r = Some e \<and> gm_get (im_clusters (cs_inf st')) (c_name c) = None \<and>
        rows (cs_table st') = map (\<lambda>x. if c_id x = c_id c \<and> c_status c \<noteq> ''unhealthy''
          then c\<lparr>c_status := ''unhealthy'', c_updated := now\<rparr> else x) (rows (cs_table st))
    | Inr info \<Rightarrow> r = None \<and> (start \<or> c_status c \<noteq> ''healthy'' \<longrightarrow> gm_get (im_clusters (cs_inf st')) (c_name c) \<noteq> None) \<and>
        rows (cs_table st') = map (\<lambda>x. if c_id x = c_id c \<and> probed_row c info \<noteq> c
          then (probed_row c info)\<lparr>c_updated := now\<rparr> else x) (rows (cs_table st))"
proof (cases "cm_probe lib (c_name c) (cs_conns st)")
  case (Inl e)
  let ?c' = "c\<lparr>c_status := ''unhealthy'', c_updated := now\<rparr>"
  show ?thesis
  proof (cases "c_status c = ''unhealthy''")
    case True
    then show ?thesis using Inl assms(6) refresh_probe_fails [OF assms(3) Inl, of ce fl now start]
      by (auto simp: inf_stop_get)
  next
    case False
    obtain t where t: "cluster_update fl ?c' (cs_table st) = Inr t"
      using update_succeeds assms(4) by blast
    have "rows t = map (\<lambda>x. if c_id x = c_id ?c' then ?c' else x) (rows (cs_table st))"
      by (rule update_rows [OF assms(1,2) _ _ _ t]) simp_all
    then show ?thesis using Inl t False assms(6) refresh_probe_fails [OF assms(3) Inl, of ce fl now start]
      by (auto simp: inf_stop_get Let_def)
  qed
next
  case (Inr info)
  show ?thesis
  proof (cases "c_status c = ''healthy'' \<and> c_api c = ci_api info \<and> c_version c = ci_version info")
    case True
    then have same: "probed_row c info = c" by (simp add: probed_row_def)
    obtain s where s: "start_informers ce (c_name c) st = Inr s" using start_informers_ok [OF assms(3)] by blast
    show ?thesis using assms(6) True same Inr s start_informers_Inr [OF s] refresh_probe_unchanged [OF assms(3) Inr, of ce fl now start]
      by (auto split: if_splits)
  next
    case False
    then have diff: "probed_row c info \<noteq> c" by (auto simp: probed_row_def dest: arg_cong [of _ _ c_status] arg_cong [of _ _ c_api] arg_cong [of _ _ c_version])
    obtain t where t: "cluster_update fl ((probed_row c info)\<lparr>c_updated := now\<rparr>) (cs_table st) = Inr t"
      using update_succeeds assms(4) by blast
    have rt: "rows t = map (\<lambda>x. if c_id x = c_id ((probed_row c info)\<lparr>c_updated := now\<rparr>) then (probed_row c info)\<lparr>c_updated := now\<rparr> else x) (rows (cs_table st))"
      by (rule update_rows [OF assms(1,2) _ _ _ t]) (simp_all add: probed_row_def)
    have id: "c_id (probed_row c info) = c_id c" by (simp add: probed_row_def)
    obtain s where s: "start_informers ce (c_name c) (st\<lparr>cs_table := t\<rparr>) = Inr s"
      using start_informers_ok [of "st\<lparr>cs_table := t\<rparr>" "c_name c"] assms(3) by auto
    show ?thesis using assms(6) diff Inr s t rt id start_informers_Inr [OF s] refresh_probe_changed [OF assms(3) Inr False, of ce fl now start]
      by (auto split: if_splits)
  qed
qed

definition connected_state :: "(string, string) cluster_state" where
  "connected_state = \<lparr>cs_table = \<lparr>rows = [sample_row], seq = 1\<rparr>, cs_conns = [(''a'', ''k'', ''k'')], cs_inf = new_informers\<rparr>"

theorem health_check_outcome_witness:
  "map c_status (rows (cs_table (fst (refresh_health_of dead_lib sample_env (\<lambda>_. False) 9 sample_row False connected_state)))) = [''unhealthy'']"
proof -
  have h: "table_ok c_id (cs_table connected_state)" "has_row sample_row connected_state"
    "gm_get (cs_conns connected_state) (c_name sample_row) \<noteq> None" "sample_row \<in> set (rows (cs_table connected_state))"
    by (simp_all add: connected_state_def sample_row_def table_ok_def has_row_def)
  have p: "\<exists>e. cm_probe dead_lib (c_name sample_row) (cs_conns connected_state) = Inl e"
    by (simp add: cm_probe_def connected_state_def sample_defs probe_error_def)
  from health_check_outcome [OF h(1-3) _ h(4) prod.collapse [symmetric], of "\<lambda>_. False" dead_lib sample_env 9 False] p
  show ?thesis by (auto simp: connected_state_def sample_row_def)
qed

text \<open>
  When the status cannot be saved, a failed probe stops the informers while the row stays
  \<open>healthy\<close>; the next successful check then sees a cluster that was healthy and does not start
  them again.
\<close>

lemma informers_lost_after_failed_status_update:
  assumes "gm_get (cs_conns st) (c_name c) \<noteq> None" and "c_status c = ''healthy''" and "fl DbUpdate"
    and "cm_probe lib (c_name c) (cs_conns st) = Inl e"
    and "cm_probe lib' (c_name c) (cs_conns st) = Inr info" and "c_api c = ci_api info" and "c_version c = ci_version info"
  shows "\<exists>st1 e'. refresh_health_of lib ce fl now c False st = (st1, Some e') \<and> cs_table st1 = cs_table st \<and>
    refresh_health_of lib' ce fl' now' c False st1 = (st1, None) \<and> gm_get (im_clusters (cs_inf st1)) (c_name c) = None"
proof -
  let ?s1 = "st\<lparr>cs_inf := inf_stop (c_name c) (cs_inf st)\<rparr>"
  have "\<exists>e'. refresh_health_of lib ce fl now c False st = (?s1, Some e')"
    using assms by (simp add: refresh_probe_fails [OF assms(1,4)] cluster_update_def save_row_def)
  moreover have "refresh_health_of lib' ce fl' now' c False ?s1 = (?s1, None)"
    using assms by (subst refresh_probe_unchanged) simp_all
  ultimately show ?thesis by (auto simp: inf_stop_get)
qed

text \<open>A connection that cannot be restored leaves the stored status as it was.\<close>

lemma restore_failure_keeps_status:
  assumes "gm_get (cs_conns st) (c_name c) = None" and "connect_persisted lib ce c (cs_conns st) = Inl e"
  shows "fst (refresh_health_of lib ce fl now c start st) = st"
  using refresh_unconnected [OF assms, of fl now start] by auto

text \<open>An addition whose name lookup fails takes the name for free: when it then fails to store the row, it drops the live connection of the existing cluster.\<close>

lemma add_drops_live_connection:
  "cs_conns (fst (cluster_add live_lib sample_env (\<lambda>f. f = DbGet) 9 (sample_add\<lparr>rq_name := ''a''\<rparr>)
     connected_state)) = []"
  by code_simp

text \<open>A state with one connected cluster, for the witnesses of the components above.\<close>

definition demo_cluster :: cluster where
  "demo_cluster = \<lparr>c_id = 1, c_created = 0, c_updated = 0, c_deleted = None, c_name = ''prod'', c_api = ''https://prod'',
     c_auth = ''kubeconfig'', c_kubeconfig_enc = ''sealed'', c_token_enc = [], c_status = ''healthy'', c_version = ''v1''\<rparr>"

definition demo_clusters :: "(string, string) cluster_state" where
  "demo_clusters = \<lparr>cs_table = \<lparr>rows = [demo_cluster], seq = 1\<rparr>, cs_conns = [(''prod'', ''cfg'', ''dyn'')],
     cs_inf = inf_start ''prod'' ''dyn'' [] 0 new_informers\<rparr>"

end
