(* ===== verification/Router.thy ===== *)
theory Router
  imports Rbac
begin

text \<open>
  The route table: \<open>RegisterRoutes\<close> of \<open>internal/server/router.go\<close>. A route is its method, its
  template and the chain of middlewares that runs before its handler. The handlers and middlewares
  present in a deployment are the parameter \<open>has\<close>, one constructor of \<open>dep\<close> for each field of
  \<open>RouterDeps\<close> that the code tests for \<open>nil\<close>. Together with \<open>Rbac\<close> the table determines what each
  role can reach, which is computed here for the seeded roles.
\<close>

datatype dep =
    DAuth | DPublicKey | DUser | DCluster | DResource | DSearch | DAction | DFavorite | DQuota | DOverview | DAudit
  | DApiKey | DWebhook | DTerminalSession | DCompare | DTopology | DCrd | DOAuth | DPlugin | DTemplate | DAi
  | DRegistry | DDirectory | DPackage | DOperation | DHub | DTerminal | DLogs | DTicket | DHttpAccess
  | DAuthMiddleware | DRbacMiddleware | DAuditMiddleware

text \<open>
  \<open>MRequire\<close> is \<open>RequireConfiguredAuth\<close>, which stands in for a missing \<open>AuthMiddleware\<close> and refuses
  every request. The global middlewares (headers, request id, log) run on every route and decide nothing.
\<close>

datatype mw = MRate | MAuth | MRequire | MRbac | MAudit

record route =
  rt_method :: string
  rt_path :: string
  rt_chain :: "mw list"

definition rt :: "mw list \<Rightarrow> string \<Rightarrow> string \<Rightarrow> route" where
  "rt ms m p = \<lparr>rt_method = m, rt_path = p, rt_chain = ms\<rparr>"

text \<open>A group of routes under a prefix, registered when its handlers are there.\<close>

definition grp :: "bool \<Rightarrow> string \<Rightarrow> mw list \<Rightarrow> (string \<times> string) list \<Rightarrow> route list" where
  "grp present prefix ms rs = (if present then map (\<lambda>(m, p). rt ms m (prefix @ p)) rs else [])"

definition health_routes :: "route list" where
  "health_routes = grp True [] [] [(''GET'', ''/healthz''), (''GET'', ''/readyz'')]"

text \<open>Sign-in: no authentication, rate limited by address.\<close>

definition public_routes :: "(dep \<Rightarrow> bool) \<Rightarrow> route list" where
  "public_routes has =
     grp (has DAuth) ''/api/v1/auth'' [MRate]
       [(''POST'', ''/login''),
        (''POST'', ''/refresh''),
        (''POST'', ''/2fa/verify''),
        (''POST'', ''/2fa/recovery'')] @
     grp (has DPublicKey) ''/api/v1/auth'' [MRate]
       [(''GET'', ''/public-key/config''),
        (''POST'', ''/public-key/login/begin''),
        (''POST'', ''/public-key/login/finish'')] @
     grp (has DOAuth) ''/api/v1/auth/oauth'' [MRate]
       [(''GET'', ''/providers''),
        (''GET'', ''/:provider/authorize''),
        (''GET'', ''/:provider/callback'')]"

definition auth_mw :: "(dep \<Rightarrow> bool) \<Rightarrow> mw list" where
  "auth_mw has = (if has DAuthMiddleware then [MAuth] else [MRequire])"

definition audit_mw :: "(dep \<Rightarrow> bool) \<Rightarrow> mw list" where
  "audit_mw has = (if has DAuditMiddleware then [MAudit] else [])"

text \<open>Open to every authenticated account; the handlers authorize by themselves where they must.\<close>

definition auth_only_routes :: "(dep \<Rightarrow> bool) \<Rightarrow> route list" where
  "auth_only_routes has =
    (let au = auth_mw has; wr = audit_mw has in
     grp (has DTicket) ''/api/v1'' au
       [(''POST'', ''/ws/ticket'')] @
     grp (has DOperation) ''/api/v1/operations'' au
       [(''GET'', ''''),
        (''GET'', ''/:id'')] @
     grp (has DOperation) ''/api/v1/operations'' (au @ wr)
       [(''POST'', ''/:id/retry'')] @
     grp (has DPackage) ''/api/v1/clusters/:id/package-releases'' au
       [(''GET'', ''''),
        (''GET'', ''/:namespace/:name''),
        (''GET'', ''/:namespace/:name/history'')] @
     grp (has DPackage) ''/api/v1/clusters/:id/package-releases'' (au @ wr)
       [(''POST'', ''/preview/:operation''),
        (''POST'', ''/install''),
        (''POST'', ''/upgrade''),
        (''POST'', ''/:namespace/:name/check-upgrade''),
        (''POST'', ''/:namespace/:name/rollback''),
        (''DELETE'', ''/:namespace/:name'')] @
     grp (has DPackage) ''/api/v1/clusters/:id/helm'' au
       [(''GET'', ''/repositories''),
        (''GET'', ''/repositories/:repositoryId/charts''),
        (''GET'', ''/artifact-hub/search''),
        (''POST'', ''/charts/inspect''),
        (''GET'', ''/upgrade-policies'')] @
     grp (has DPackage) ''/api/v1/clusters/:id/helm'' (au @ wr)
       [(''POST'', ''/repositories''),
        (''PUT'', ''/repositories/:repositoryId''),
        (''DELETE'', ''/repositories/:repositoryId''),
        (''POST'', ''/repositories/:repositoryId/test''),
        (''POST'', ''/charts/upload''),
        (''POST'', ''/upgrade-policies''),
        (''PUT'', ''/upgrade-policies/:policyId''),
        (''DELETE'', ''/upgrade-policies/:policyId''),
        (''POST'', ''/upgrade-policies/:policyId/check'')] @
     grp (has DAuth) ''/api/v1'' au
       [(''GET'', ''/users/me'')] @
     grp (has DAuth) ''/api/v1'' (au @ wr)
       [(''POST'', ''/auth/2fa/setup''),
        (''POST'', ''/auth/2fa/enable''),
        (''POST'', ''/auth/2fa/disable'')] @
     grp (has DPublicKey) ''/api/v1/auth/public-key'' au
       [(''GET'', ''/credentials'')] @
     grp (has DPublicKey) ''/api/v1/auth/public-key'' (au @ wr)
       [(''POST'', ''/register/begin''),
        (''POST'', ''/register/finish''),
        (''PUT'', ''/credentials/:id''),
        (''DELETE'', ''/credentials/:id'')] @
     grp (has DUser) ''/api/v1'' (au @ wr)
       [(''PUT'', ''/users/me/password'')] @
     grp (has DAi) ''/api/v1/ai'' au
       [(''GET'', ''/config''),
        (''POST'', ''/models''),
        (''POST'', ''/chat''),
        (''POST'', ''/continue-action'')] @
     grp (has DAi) ''/api/v1/ai'' (au @ wr)
       [(''PUT'', ''/config'')])"

text \<open>The proxy to pods and services checks the permission of the object in its handler.\<close>

definition http_access_routes :: "(dep \<Rightarrow> bool) \<Rightarrow> route list" where
  "http_access_routes has =
     grp (has DHttpAccess) ''/api/v1/clusters/:id/namespaces/:namespace/http/:kind/:name'' (auth_mw has)
       [(''GET'', ''''),
        (''GET'', ''/*path''),
        (''HEAD'', ''''),
        (''HEAD'', ''/*path'')]"

definition protected_mw :: "(dep \<Rightarrow> bool) \<Rightarrow> mw list" where
  "protected_mw has = auth_mw has @ (if has DRbacMiddleware then [MRbac] else []) @ audit_mw has"

definition protected_routes :: "(dep \<Rightarrow> bool) \<Rightarrow> route list" where
  "protected_routes has =
    (let ms = protected_mw has in
     grp (has DPublicKey) ''/api/v1/users'' ms
       [(''DELETE'', ''/:id/public-key-credentials/:credentialId'')] @
     grp (has DRegistry) ''/api/v1'' ms
       [(''GET'', ''/registry-tags'')] @
     grp (has DDirectory) ''/api/v1/directory'' ms
       [(''GET'', ''/config''),
        (''PUT'', ''/config''),
        (''POST'', ''/test''),
        (''POST'', ''/preview'')] @
     grp (has DUser) ''/api/v1/users'' ms
       [(''GET'', ''''),
        (''POST'', ''''),
        (''GET'', ''/:id''),
        (''PUT'', ''/:id''),
        (''DELETE'', ''/:id''),
        (''PUT'', ''/:id/reset-password'')] @
     grp (has DCluster) ''/api/v1/clusters'' ms
       [(''GET'', ''''),
        (''GET'', ''/:id''),
        (''POST'', ''''),
        (''DELETE'', ''/:id'')] @
     grp (has DCluster \<and> has DResource) ''/api/v1/clusters/:id/resources'' ms
       [(''GET'', ''/:resource''),
        (''GET'', ''/:resource/:name''),
        (''POST'', ''/:resource''),
        (''PUT'', ''/:resource/:name''),
        (''DELETE'', ''/:resource/:name''),
        (''PATCH'', ''/:resource/:name''),
        (''POST'', ''/:resource/dry-run''),
        (''PUT'', ''/:resource/:name/dry-run'')] @
     grp (has DCluster \<and> has DResource) ''/api/v1/clusters'' ms
       [(''POST'', ''/:id/resources/batch-delete''),
        (''POST'', ''/:id/batch-restart'')] @
     grp (has DCluster \<and> has DQuota) ''/api/v1/clusters'' ms
       [(''GET'', ''/:id/quota-summary'')] @
     grp (has DCluster \<and> has DOverview) ''/api/v1/clusters'' ms
       [(''GET'', ''/:id/overview'')] @
     grp (has DCluster \<and> has DSearch) ''/api/v1/clusters'' ms
       [(''GET'', ''/:id/search'')] @
     grp (has DCluster \<and> has DAction) ''/api/v1/clusters/:id/namespaces/:namespace'' ms
       [(''PUT'', ''/:kind/:name/scale''),
        (''POST'', ''/:kind/:name/restart''),
        (''GET'', ''/deployments/:name/history''),
        (''POST'', ''/deployments/:name/rollback'')] @
     grp (has DCrd \<and> has DCluster) ''/api/v1/clusters'' ms
       [(''GET'', ''/:id/crds''),
        (''POST'', ''/:id/crds/refresh'')] @
     grp (has DPlugin) ''/api/v1/plugins'' ms
       [(''GET'', ''''),
        (''GET'', ''/:name''),
        (''PUT'', ''/:name''),
        (''GET'', ''/:name/health''),
        (''GET'', ''/prometheus/query''),
        (''GET'', ''/grafana/dashboards''),
        (''GET'', ''/argocd/applications'')] @
     grp (has DFavorite) ''/api/v1/favorites'' ms
       [(''GET'', ''''),
        (''POST'', ''''),
        (''DELETE'', ''/:id''),
        (''POST'', ''/toggle''),
        (''PUT'', ''/reorder''),
        (''GET'', ''/check'')] @
     grp (has DTemplate) ''/api/v1/templates'' ms
       [(''GET'', ''''),
        (''GET'', ''/:id''),
        (''POST'', ''''),
        (''DELETE'', ''/:id'')] @
     grp (has DAudit) ''/api/v1'' ms
       [(''GET'', ''/audit-logs'')] @
     grp (has DApiKey) ''/api/v1/api-keys'' ms
       [(''GET'', ''''),
        (''POST'', ''''),
        (''DELETE'', ''/:id'')] @
     grp (has DWebhook) ''/api/v1/webhooks'' ms
       [(''GET'', ''''),
        (''POST'', ''''),
        (''PUT'', ''/:id''),
        (''DELETE'', ''/:id''),
        (''POST'', ''/:id/test'')] @
     grp (has DTerminalSession) ''/api/v1/terminal-sessions'' ms
       [(''GET'', ''''),
        (''GET'', ''/:id''),
        (''GET'', ''/:id/play'')] @
     grp (has DCompare) ''/api/v1'' ms
       [(''POST'', ''/compare'')] @
     grp (has DTopology \<and> has DCluster) ''/api/v1/clusters'' ms
       [(''GET'', ''/:id/namespaces/:namespace/topology'')] @
     grp (has DHub) ''/api/v1'' ms
       [(''GET'', ''/ws/watch'')])"

text \<open>Terminal and log streams authenticate inside their handlers, with a WebSocket ticket.\<close>

definition stream_routes :: "(dep \<Rightarrow> bool) \<Rightarrow> route list" where
  "stream_routes has =
     grp (has DTerminal) ''/api/v1/clusters/:id/namespaces/:namespace/pods/:name'' []
       [(''GET'', ''/exec'')] @
     grp (has DLogs) ''/api/v1/clusters/:id/namespaces/:namespace/pods/:name'' []
       [(''GET'', ''/logs'')]"

definition register_routes :: "(dep \<Rightarrow> bool) \<Rightarrow> route list" where
  "register_routes has = health_routes @ public_routes has @ auth_only_routes has @ http_access_routes has @
     protected_routes has @ stream_routes has"

section \<open>Every route is guarded\<close>

definition endpoint :: "route \<Rightarrow> string \<times> string" where
  "endpoint r = (rt_method r, rt_path r)"

definition guarded :: "route \<Rightarrow> bool" where
  "guarded r \<longleftrightarrow> MAuth \<in> set (rt_chain r) \<or> MRequire \<in> set (rt_chain r)"

definition is_write :: "route \<Rightarrow> bool" where
  "is_write r \<longleftrightarrow> rt_method r \<noteq> ''GET'' \<and> rt_method r \<noteq> ''HEAD''"

lemma set_grp: "r \<in> set (grp b p ms rs) \<longleftrightarrow> b \<and> (\<exists>m x. (m, x) \<in> set rs \<and> r = rt ms m (p @ x))"
  by (force simp: grp_def)

lemma rt_sel [simp]: "rt_method (rt ms m p) = m" "rt_path (rt ms m p) = p" "rt_chain (rt ms m p) = ms"
  by (simp_all add: rt_def)

lemma guarded_auth: "guarded (rt (auth_mw has @ ms) m p)" "guarded (rt (auth_mw has) m p)"
  by (auto simp: guarded_def auth_mw_def)

lemma guarded_groups:
  "r \<in> set (auth_only_routes has @ http_access_routes has @ protected_routes has) \<Longrightarrow> guarded r"
  unfolding auth_only_routes_def http_access_routes_def protected_routes_def protected_mw_def Let_def set_append Un_iff set_grp
  by (elim disjE conjE exE) (simp_all only: guarded_auth)

lemma unguarded_groups: "r \<in> set (health_routes @ public_routes has @ stream_routes has) \<Longrightarrow> \<not> guarded r"
  unfolding health_routes_def public_routes_def stream_routes_def set_append Un_iff set_grp
  by (elim disjE conjE exE) (simp_all add: guarded_def)

lemma filter_none: "(\<And>x. x \<in> set xs \<Longrightarrow> \<not> P x) \<Longrightarrow> filter P xs = []"
  by (induction xs) auto

lemma unguarded_routes:
  "filter (\<lambda>r. \<not> guarded r) (register_routes has) = health_routes @ public_routes has @ stream_routes has"
proof -
  let ?g = "auth_only_routes has @ http_access_routes has @ protected_routes has"
  have "filter (\<lambda>r. \<not> guarded r) ?g = []" using guarded_groups by (intro filter_none) auto
  have "filter (\<lambda>r. \<not> guarded r) xs = xs" if "set xs \<subseteq> set (health_routes @ public_routes has @ stream_routes has)" for xs
    using that unguarded_groups by (intro filter_True) blast
  from this [of "health_routes @ public_routes has @ stream_routes has"]
  have "filter (\<lambda>r. \<not> guarded r) (health_routes @ public_routes has @ stream_routes has) = health_routes @ public_routes has @ stream_routes has" by simp
  then show ?thesis using \<open>filter _ ?g = []\<close> unfolding register_routes_def filter_append by simp
qed

section \<open>What the seeded roles reach\<close>

definition seeded_roles :: role_table where
  "seeded_roles = init_system_roles (\<lambda>_. no_faults) empty_table"

definition passes :: "string \<Rightarrow> route \<Rightarrow> bool" where
  "passes rl r \<longleftrightarrow> rbac_middleware no_faults seeded_roles rl (rt_method r) (rt_path r) = Next"

definition seeded_perms :: "(string \<times> string list) list" where
  "seeded_perms = [(''editor'', editor_perms), (''viewer'', viewer_perms), (''custom'', custom_perms)]"

lemma seeded_lookup:
  "(rl, ps) \<in> set seeded_perms \<Longrightarrow> \<exists>r. role_get_by_name no_faults rl seeded_roles = Inr r \<and> role_permissions r = marshal_strings ps"
  by (auto simp: seeded_perms_def seeded_roles_def init_system_roles_def system_roles_def seed_one_def seed_role_def
      role_get_by_name_def first_where_def role_create_def create_row_def role_clash_def empty_table_def Let_def)

lemma passes_iff:
  assumes "(rl, ps) \<in> set seeded_perms"
  shows "passes rl r \<longleftrightarrow> extract_resource (rt_path r) = [] \<or>
    has_permission ps (extract_resource (rt_path r)) (extract_action (rt_method r) (rt_path r))"
proof -
  have "rl \<noteq> ''super-admin''" "rl \<noteq> ''admin''" using assms by (auto simp: seeded_perms_def)
  with seeded_lookup [OF assms] show ?thesis by (auto simp: passes_def rbac_middleware_def Let_def unmarshal_marshal split: if_splits)
qed

text \<open>For plain permissions (lower case, no wildcard) the matching is membership.\<close>

definition plain_perm :: "string \<Rightarrow> bool" where
  "plain_perm p \<longleftrightarrow> to_lower p = p \<and> (case cut (CHR '':'') p of None \<Rightarrow> False | Some (r, a) \<Rightarrow> r \<noteq> ''*'' \<and> a \<noteq> ''*'')"

definition plain_name :: "string \<Rightarrow> bool" where
  "plain_name s \<longleftrightarrow> to_lower s = s \<and> CHR '':'' \<notin> set s \<and> s \<noteq> []"

lemma plain_has_permission:
  assumes ps: "list_all plain_perm ps" and r: "plain_name r" and a: "plain_name a"
  shows "has_permission ps r a \<longleftrightarrow> List.member ps (r @ CHR '':'' # a)"
proof -
  have "perm_grants p r a \<longleftrightarrow> p = r @ CHR '':'' # a" if "p \<in> set ps" for p
  proof -
    have pp: "plain_perm p" using ps that by (simp add: list_all_iff)
    then obtain x y where c: "cut (CHR '':'') p = Some (x, y)" "x \<noteq> ''*''" "y \<noteq> ''*''" and l: "to_lower p = p"
      by (cases "cut (CHR '':'') p") (auto simp: plain_perm_def)
    have p: "p = x @ CHR '':'' # y" "CHR '':'' \<notin> set x" using c(1) by (auto simp: cut_Some_iff)
    have "to_lower x = x" "to_lower y = y" using l by (auto simp: p to_lower_def)
    then have e: "equal_fold x r \<longleftrightarrow> x = r" "equal_fold y a \<longleftrightarrow> y = a"
      using r a by (simp_all add: equal_fold_def plain_name_def)
    have n: "CHR '':'' \<notin> set r" using r by (simp add: plain_name_def)
    have "x @ CHR '':'' # y = r @ CHR '':'' # a \<longleftrightarrow> x = r \<and> y = a"
      using p(2) n by (metis cut_append option.inject prod.inject)
    then show ?thesis unfolding p(1) perm_grants_pair [OF p(2)] e using c(2,3) by simp
  qed
  then show ?thesis by (auto simp: has_permission_iff)
qed

definition requirement :: "route \<Rightarrow> string \<times> string \<times> string \<times> string" where
  "requirement r = (rt_method r, rt_path r, extract_resource (rt_path r), extract_action (rt_method r) (rt_path r))"

text \<open>The permission that each protected route of a full deployment asks for.\<close>

lemma requirements:
  "map requirement (protected_routes (\<lambda>_. True)) =
    [(''DELETE'', ''/api/v1/users/:id/public-key-credentials/:credentialId'', ''public-key-credentials'', ''delete''),
     (''GET'', ''/api/v1/registry-tags'', ''registry-tags'', ''list''),
     (''GET'', ''/api/v1/directory/config'', ''config'', ''list''),
     (''PUT'', ''/api/v1/directory/config'', ''config'', ''update''),
     (''POST'', ''/api/v1/directory/test'', ''test'', ''create''),
     (''POST'', ''/api/v1/directory/preview'', ''preview'', ''create''),
     (''GET'', ''/api/v1/users'', ''users'', ''list''),
     (''POST'', ''/api/v1/users'', ''users'', ''create''),
     (''GET'', ''/api/v1/users/:id'', ''users'', ''get''),
     (''PUT'', ''/api/v1/users/:id'', ''users'', ''update''),
     (''DELETE'', ''/api/v1/users/:id'', ''users'', ''delete''),
     (''PUT'', ''/api/v1/users/:id/reset-password'', ''reset-password'', ''update''),
     (''GET'', ''/api/v1/clusters'', ''clusters'', ''list''),
     (''GET'', ''/api/v1/clusters/:id'', ''clusters'', ''get''),
     (''POST'', ''/api/v1/clusters'', ''clusters'', ''create''),
     (''DELETE'', ''/api/v1/clusters/:id'', ''clusters'', ''delete''),
     (''GET'', ''/api/v1/clusters/:id/resources/:resource'', ''resources'', ''get''),
     (''GET'', ''/api/v1/clusters/:id/resources/:resource/:name'', ''resources'', ''get''),
     (''POST'', ''/api/v1/clusters/:id/resources/:resource'', ''resources'', ''create''),
     (''PUT'', ''/api/v1/clusters/:id/resources/:resource/:name'', ''resources'', ''update''),
     (''DELETE'', ''/api/v1/clusters/:id/resources/:resource/:name'', ''resources'', ''delete''),
     (''PATCH'', ''/api/v1/clusters/:id/resources/:resource/:name'', ''resources'', ''update''),
     (''POST'', ''/api/v1/clusters/:id/resources/:resource/dry-run'', ''dry-run'', ''create''),
     (''PUT'', ''/api/v1/clusters/:id/resources/:resource/:name/dry-run'', ''dry-run'', ''update''),
     (''POST'', ''/api/v1/clusters/:id/resources/batch-delete'', ''batch-delete'', ''create''),
     (''POST'', ''/api/v1/clusters/:id/batch-restart'', ''batch-restart'', ''create''),
     (''GET'', ''/api/v1/clusters/:id/quota-summary'', ''quota-summary'', ''list''),
     (''GET'', ''/api/v1/clusters/:id/overview'', ''overview'', ''list''),
     (''GET'', ''/api/v1/clusters/:id/search'', ''search'', ''list''),
     (''PUT'', ''/api/v1/clusters/:id/namespaces/:namespace/:kind/:name/scale'', ''scale'', ''update''),
     (''POST'', ''/api/v1/clusters/:id/namespaces/:namespace/:kind/:name/restart'', ''restart'', ''create''),
     (''GET'', ''/api/v1/clusters/:id/namespaces/:namespace/deployments/:name/history'', ''history'', ''list''),
     (''POST'', ''/api/v1/clusters/:id/namespaces/:namespace/deployments/:name/rollback'', ''rollback'', ''create''),
     (''GET'', ''/api/v1/clusters/:id/crds'', ''crds'', ''list''),
     (''POST'', ''/api/v1/clusters/:id/crds/refresh'', ''refresh'', ''create''),
     (''GET'', ''/api/v1/plugins'', ''plugins'', ''list''),
     (''GET'', ''/api/v1/plugins/:name'', ''plugins'', ''get''),
     (''PUT'', ''/api/v1/plugins/:name'', ''plugins'', ''update''),
     (''GET'', ''/api/v1/plugins/:name/health'', ''health'', ''list''),
     (''GET'', ''/api/v1/plugins/prometheus/query'', ''query'', ''list''),
     (''GET'', ''/api/v1/plugins/grafana/dashboards'', ''dashboards'', ''list''),
     (''GET'', ''/api/v1/plugins/argocd/applications'', ''applications'', ''list''),
     (''GET'', ''/api/v1/favorites'', ''favorites'', ''list''),
     (''POST'', ''/api/v1/favorites'', ''favorites'', ''create''),
     (''DELETE'', ''/api/v1/favorites/:id'', ''favorites'', ''delete''),
     (''POST'', ''/api/v1/favorites/toggle'', ''toggle'', ''create''),
     (''PUT'', ''/api/v1/favorites/reorder'', ''reorder'', ''update''),
     (''GET'', ''/api/v1/favorites/check'', ''check'', ''list''),
     (''GET'', ''/api/v1/templates'', ''templates'', ''list''),
     (''GET'', ''/api/v1/templates/:id'', ''templates'', ''get''),
     (''POST'', ''/api/v1/templates'', ''templates'', ''create''),
     (''DELETE'', ''/api/v1/templates/:id'', ''templates'', ''delete''),
     (''GET'', ''/api/v1/audit-logs'', ''audit-logs'', ''list''),
     (''GET'', ''/api/v1/api-keys'', ''api-keys'', ''list''),
     (''POST'', ''/api/v1/api-keys'', ''api-keys'', ''create''),
     (''DELETE'', ''/api/v1/api-keys/:id'', ''api-keys'', ''delete''),
     (''GET'', ''/api/v1/webhooks'', ''webhooks'', ''list''),
     (''POST'', ''/api/v1/webhooks'', ''webhooks'', ''create''),
     (''PUT'', ''/api/v1/webhooks/:id'', ''webhooks'', ''update''),
     (''DELETE'', ''/api/v1/webhooks/:id'', ''webhooks'', ''delete''),
     (''POST'', ''/api/v1/webhooks/:id/test'', ''test'', ''create''),
     (''GET'', ''/api/v1/terminal-sessions'', ''terminal-sessions'', ''list''),
     (''GET'', ''/api/v1/terminal-sessions/:id'', ''terminal-sessions'', ''get''),
     (''GET'', ''/api/v1/terminal-sessions/:id/play'', ''play'', ''list''),
     (''POST'', ''/api/v1/compare'', ''compare'', ''create''),
     (''GET'', ''/api/v1/clusters/:id/namespaces/:namespace/topology'', ''topology'', ''list''),
     (''GET'', ''/api/v1/ws/watch'', ''watch'', ''list'')]"
  by code_simp

definition grants_requirement :: "string list \<Rightarrow> string \<times> string \<times> string \<times> string \<Rightarrow> bool" where
  "grants_requirement ps q = (case q of (_, _, r, a) \<Rightarrow> List.member ps (r @ CHR '':'' # a))"

lemma plain_requirements: "list_all (\<lambda>(_, _, r, a). plain_name r \<and> plain_name a) (map requirement (protected_routes (\<lambda>_. True)))"
  unfolding requirements by code_simp

lemma plain_perms: "list_all (\<lambda>(_, ps). list_all plain_perm ps) seeded_perms"
  by code_simp

lemma passes_requirement:
  assumes ps: "(rl, ps) \<in> set seeded_perms" and r: "r \<in> set (protected_routes (\<lambda>_. True))"
  shows "passes rl r \<longleftrightarrow> grants_requirement ps (requirement r)"
proof -
  have "plain_name (extract_resource (rt_path r))" "plain_name (extract_action (rt_method r) (rt_path r))"
    using plain_requirements r by (auto simp: list_all_iff requirement_def)
  moreover have "list_all plain_perm ps" using plain_perms ps by (auto simp: list_all_iff)
  ultimately show ?thesis
    by (simp add: passes_iff [OF ps] plain_has_permission grants_requirement_def requirement_def) (simp add: plain_name_def)
qed

lemma reach:
  assumes ps: "(rl, ps) \<in> set seeded_perms" and Q: "\<And>r. Q r = Q' (requirement r)"
  shows "map endpoint (filter (\<lambda>r. Q r \<and> passes rl r) (protected_routes (\<lambda>_. True))) =
    map (\<lambda>(m, p, _). (m, p)) (filter (\<lambda>q. Q' q \<and> grants_requirement ps q) (map requirement (protected_routes (\<lambda>_. True))))"
proof -
  have "filter (\<lambda>r. Q r \<and> passes rl r) (protected_routes (\<lambda>_. True)) =
      filter (\<lambda>r. Q' (requirement r) \<and> grants_requirement ps (requirement r)) (protected_routes (\<lambda>_. True))"
    by (rule filter_cong) (simp_all add: Q passes_requirement [OF ps])
  then show ?thesis by (simp add: filter_map comp_def endpoint_def requirement_def)
qed

text \<open>
  Only sign-in, the health checks and the two ticket-authenticated streams can be reached without
  the authentication middleware: these are exactly the unguarded routes, whatever handlers and
  middlewares a deployment has.
\<close>

theorem unauthenticated_surface:
  "map endpoint (filter (\<lambda>r. \<not> guarded r) (register_routes has)) =
    map endpoint health_routes @ map endpoint (public_routes has) @ map endpoint (stream_routes has)"
  by (simp add: unguarded_routes)

text \<open>
  A seeded viewer can write nothing but its own favorites: of the writing routes behind the
  role check the middleware lets it pass to creating and deleting a favorite and to the comparison
  of two objects, which changes nothing.
\<close>

theorem viewer_writes:
  "map endpoint (filter (\<lambda>r. is_write r \<and> passes ''viewer'' r) (protected_routes (\<lambda>_. True))) =
    [(''POST'', ''/api/v1/favorites''),
     (''DELETE'', ''/api/v1/favorites/:id''),
     (''POST'', ''/api/v1/compare'')]"
proof -
  have "map (\<lambda>(m, p, _). (m, p)) (filter (\<lambda>q. (case q of (m, _) \<Rightarrow> m \<noteq> ''GET'' \<and> m \<noteq> ''HEAD'') \<and> grants_requirement viewer_perms q)
      (map requirement (protected_routes (\<lambda>_. True)))) =
    [(''POST'', ''/api/v1/favorites''),
     (''DELETE'', ''/api/v1/favorites/:id''),
     (''POST'', ''/api/v1/compare'')]"
    unfolding requirements by code_simp
  then show ?thesis
    by (subst reach [where ps = viewer_perms and Q' = "\<lambda>q. case q of (m, _) \<Rightarrow> m \<noteq> ''GET'' \<and> m \<noteq> ''HEAD''"])
      (simp_all add: seeded_perms_def is_write_def requirement_def)
qed

text \<open>
  What a seeded editor reaches behind the role check, exactly: reading, writing and acting on
  Kubernetes objects, favorites, overview, search, topology, comparison and registry tags, and
  neither users, clusters, plugins, templates, audit log, API keys, webhooks nor recordings.
\<close>

theorem editor_reach:
  "map endpoint (filter (passes ''editor'') (protected_routes (\<lambda>_. True))) =
    [(''GET'', ''/api/v1/registry-tags''),
     (''GET'', ''/api/v1/clusters''),
     (''GET'', ''/api/v1/clusters/:id''),
     (''GET'', ''/api/v1/clusters/:id/resources/:resource''),
     (''GET'', ''/api/v1/clusters/:id/resources/:resource/:name''),
     (''POST'', ''/api/v1/clusters/:id/resources/:resource''),
     (''PUT'', ''/api/v1/clusters/:id/resources/:resource/:name''),
     (''DELETE'', ''/api/v1/clusters/:id/resources/:resource/:name''),
     (''PATCH'', ''/api/v1/clusters/:id/resources/:resource/:name''),
     (''POST'', ''/api/v1/clusters/:id/resources/batch-delete''),
     (''POST'', ''/api/v1/clusters/:id/batch-restart''),
     (''GET'', ''/api/v1/clusters/:id/quota-summary''),
     (''GET'', ''/api/v1/clusters/:id/overview''),
     (''GET'', ''/api/v1/clusters/:id/search''),
     (''PUT'', ''/api/v1/clusters/:id/namespaces/:namespace/:kind/:name/scale''),
     (''POST'', ''/api/v1/clusters/:id/namespaces/:namespace/:kind/:name/restart''),
     (''GET'', ''/api/v1/clusters/:id/namespaces/:namespace/deployments/:name/history''),
     (''POST'', ''/api/v1/clusters/:id/namespaces/:namespace/deployments/:name/rollback''),
     (''GET'', ''/api/v1/favorites''),
     (''POST'', ''/api/v1/favorites''),
     (''DELETE'', ''/api/v1/favorites/:id''),
     (''POST'', ''/api/v1/compare''),
     (''GET'', ''/api/v1/clusters/:id/namespaces/:namespace/topology'')]"
proof -
  have "map (\<lambda>(m, p, _). (m, p)) (filter (\<lambda>q. True \<and> grants_requirement editor_perms q) (map requirement (protected_routes (\<lambda>_. True)))) =
    [(''GET'', ''/api/v1/registry-tags''),
     (''GET'', ''/api/v1/clusters''),
     (''GET'', ''/api/v1/clusters/:id''),
     (''GET'', ''/api/v1/clusters/:id/resources/:resource''),
     (''GET'', ''/api/v1/clusters/:id/resources/:resource/:name''),
     (''POST'', ''/api/v1/clusters/:id/resources/:resource''),
     (''PUT'', ''/api/v1/clusters/:id/resources/:resource/:name''),
     (''DELETE'', ''/api/v1/clusters/:id/resources/:resource/:name''),
     (''PATCH'', ''/api/v1/clusters/:id/resources/:resource/:name''),
     (''POST'', ''/api/v1/clusters/:id/resources/batch-delete''),
     (''POST'', ''/api/v1/clusters/:id/batch-restart''),
     (''GET'', ''/api/v1/clusters/:id/quota-summary''),
     (''GET'', ''/api/v1/clusters/:id/overview''),
     (''GET'', ''/api/v1/clusters/:id/search''),
     (''PUT'', ''/api/v1/clusters/:id/namespaces/:namespace/:kind/:name/scale''),
     (''POST'', ''/api/v1/clusters/:id/namespaces/:namespace/:kind/:name/restart''),
     (''GET'', ''/api/v1/clusters/:id/namespaces/:namespace/deployments/:name/history''),
     (''POST'', ''/api/v1/clusters/:id/namespaces/:namespace/deployments/:name/rollback''),
     (''GET'', ''/api/v1/favorites''),
     (''POST'', ''/api/v1/favorites''),
     (''DELETE'', ''/api/v1/favorites/:id''),
     (''POST'', ''/api/v1/compare''),
     (''GET'', ''/api/v1/clusters/:id/namespaces/:namespace/topology'')]"
    unfolding requirements by code_simp
  with reach [of "''editor''" editor_perms "\<lambda>_. True" "\<lambda>_. True"] show ?thesis by (simp add: seeded_perms_def)
qed

text \<open>
  Neither the editor nor the viewer may toggle, reorder or check favorites, although both are meant
  to manage them, and the editor may not preview a change by a dry run: these routes ask for
  permissions named after their last segment, which no seeded role holds.
\<close>

lemma favorites_and_dry_run_denied:
  "list_all (\<lambda>q. \<not> grants_requirement editor_perms q \<and> \<not> grants_requirement viewer_perms q)
     (filter (\<lambda>(_, p, _). p = ''/api/v1/favorites/toggle'' \<or> p = ''/api/v1/favorites/reorder'' \<or> p = ''/api/v1/favorites/check'' \<or>
        has_suffix p ''/dry-run'') (map requirement (protected_routes (\<lambda>_. True))))"
  unfolding requirements by code_simp

text \<open>The test of a webhook and the test of the directory ask for the same permission.\<close>

lemma test_routes_share_a_permission:
  "extract_resource ''/api/v1/webhooks/:id/test'' = extract_resource ''/api/v1/directory/test'' \<and>
   extract_action ''POST'' ''/api/v1/webhooks/:id/test'' = extract_action ''POST'' ''/api/v1/directory/test''"
  by code_simp

end
