(* ===== verification/Favorites.thy ===== *)
theory Favorites
  imports Sql_Table
begin

text \<open>
  Favorites: \<open>model.Favorite\<close>, \<open>repository/favorite_repo.go\<close> and \<open>service/favorite_service.go\<close>. Every
  operation works on behalf of one user; a listing is ordered by the sort order, then by creation.
\<close>

record favorite =
  f_id :: nat
  f_created :: gotime
  f_user :: nat
  f_cluster :: string
  f_namespace :: string
  f_type :: string
  f_name :: string
  f_display :: string
  f_order :: nat

type_synonym favorite_table = "favorite table"

section \<open>The repository\<close>

definition favorite_create :: "faults \<Rightarrow> gotime \<Rightarrow> favorite \<Rightarrow> favorite_table \<Rightarrow> (favorite_table \<times> favorite) res" where
  "favorite_create fl now f t = create_row fl (\<lambda>_ _. False) (\<lambda>i x. x\<lparr>f_id := i, f_created := now\<rparr>) f t"

definition favorite_delete :: "faults \<Rightarrow> nat \<Rightarrow> favorite_table \<Rightarrow> favorite_table res" where
  "favorite_delete fl i t = delete_where fl (\<lambda>f. f_id f = i) t"

definition favorite_list_by_user :: "faults \<Rightarrow> nat \<Rightarrow> favorite_table \<Rightarrow> favorite list res" where
  "favorite_list_by_user fl uid t =
     (case find_where fl (\<lambda>f. f_user f = uid) t of
        Inl e \<Rightarrow> Inl e | Inr fs \<Rightarrow> Inr (sort_key f_order (sort_key f_created fs)))"

definition update_sort_order :: "bool \<Rightarrow> nat \<Rightarrow> nat \<Rightarrow> favorite_table \<Rightarrow> favorite_table res" where
  "update_sort_order flt i n t =
     (if flt then Inl db_error
      else Inr (t\<lparr>rows := map (\<lambda>f. if f_id f = i then f\<lparr>f_order := n\<rparr> else f) (rows t)\<rparr>))"

definition same_resource :: "nat \<Rightarrow> string \<Rightarrow> string \<Rightarrow> string \<Rightarrow> string \<Rightarrow> favorite \<Rightarrow> bool" where
  "same_resource uid cl ty nm ns f \<longleftrightarrow>
     f_user f = uid \<and> f_cluster f = cl \<and> f_type f = ty \<and> f_name f = nm \<and> f_namespace f = ns"

text \<open>A missing row is not an error: it is \<open>nil\<close>.\<close>

definition get_by_user_and_resource ::
  "faults \<Rightarrow> nat \<Rightarrow> string \<Rightarrow> string \<Rightarrow> string \<Rightarrow> string \<Rightarrow> favorite_table \<Rightarrow> favorite option res" where
  "get_by_user_and_resource fl uid cl ty nm ns t =
     (if fl DbGet then Inl db_error else Inr (find (same_resource uid cl ty nm ns) (rows t)))"

section \<open>The service\<close>

record add_favorite_request =
  af_cluster :: string
  af_namespace :: string
  af_type :: string
  af_name :: string
  af_display :: string

definition list_favorites :: "faults \<Rightarrow> nat \<Rightarrow> favorite_table \<Rightarrow> favorite list res" where
  "list_favorites fl uid t =
     (case favorite_list_by_user fl uid t of Inl _ \<Rightarrow> fail CodeInternal ''failed to list favorites'' | Inr fs \<Rightarrow> Inr fs)"

definition lookup_request :: "faults \<Rightarrow> nat \<Rightarrow> add_favorite_request \<Rightarrow> favorite_table \<Rightarrow> favorite option res" where
  "lookup_request fl uid rq t = get_by_user_and_resource fl uid (af_cluster rq) (af_type rq) (af_name rq) (af_namespace rq) t"

definition add_favorite ::
  "faults \<Rightarrow> gotime \<Rightarrow> nat \<Rightarrow> add_favorite_request \<Rightarrow> favorite_table \<Rightarrow> (favorite_table \<times> favorite) res" where
  "add_favorite fl now uid rq t =
     (let display = (if af_display rq = [] then af_name rq else af_display rq) in
      case lookup_request fl uid rq t of
        Inl _ \<Rightarrow> fail CodeInternal ''failed to check for existing favorite''
      | Inr (Some _) \<Rightarrow> fail CodeConflict ''resource is already favorited''
      | Inr None \<Rightarrow>
          (case favorite_list_by_user fl uid t of
             Inl _ \<Rightarrow> fail CodeInternal ''failed to determine sort order''
           | Inr all \<Rightarrow>
               (case favorite_create fl now \<lparr>f_id = 0, f_created = 0, f_user = uid, f_cluster = af_cluster rq,
                       f_namespace = af_namespace rq, f_type = af_type rq, f_name = af_name rq, f_display = display,
                       f_order = length all\<rparr> t of
                  Inl _ \<Rightarrow> fail CodeInternal ''failed to create favorite''
                | Inr r \<Rightarrow> Inr r)))"

definition remove_favorite :: "faults \<Rightarrow> nat \<Rightarrow> nat \<Rightarrow> favorite_table \<Rightarrow> favorite_table res" where
  "remove_favorite fl uid i t =
     (case favorite_list_by_user fl uid t of
        Inl _ \<Rightarrow> fail CodeInternal ''failed to load favorites''
      | Inr favs \<Rightarrow>
          if \<not> list_ex (\<lambda>f. f_id f = i) favs then fail CodeNotFound ''favorite not found''
          else (case favorite_delete fl i t of
                  Inl _ \<Rightarrow> fail CodeInternal ''failed to delete favorite'' | Inr t' \<Rightarrow> Inr t'))"

text \<open>\<open>None\<close>: no longer favorited; \<open>Some\<close>: the favorite that was added.\<close>

definition toggle_favorite ::
  "faults \<Rightarrow> gotime \<Rightarrow> nat \<Rightarrow> add_favorite_request \<Rightarrow> favorite_table \<Rightarrow> (favorite_table \<times> favorite option) res" where
  "toggle_favorite fl now uid rq t =
     (case lookup_request fl uid rq t of
        Inl _ \<Rightarrow> fail CodeInternal ''failed to check for existing favorite''
      | Inr (Some f) \<Rightarrow>
          (case favorite_delete fl (f_id f) t of
             Inl _ \<Rightarrow> fail CodeInternal ''failed to remove favorite'' | Inr t' \<Rightarrow> Inr (t', None))
      | Inr None \<Rightarrow>
          (case add_favorite fl now uid rq t of
             Inl e \<Rightarrow> Inl e | Inr (t', f) \<Rightarrow> Inr (t', Some f)))"

text \<open>
  The updates of \<open>ReorderFavorites\<close>, one statement each: \<open>flt k\<close> says that the statement of position
  \<open>k\<close> fails, which leaves the earlier ones in place.
\<close>

fun apply_order :: "(nat \<Rightarrow> bool) \<Rightarrow> nat \<Rightarrow> nat list \<Rightarrow> favorite_table \<Rightarrow> favorite_table \<times> bool" where
  "apply_order flt k [] t = (t, True)"
| "apply_order flt k (i # is) t =
     (case update_sort_order (flt k) i k t of
        Inl _ \<Rightarrow> (t, False) | Inr t' \<Rightarrow> apply_order flt (Suc k) is t')"

definition reorder_favorites ::
  "faults \<Rightarrow> (nat \<Rightarrow> bool) \<Rightarrow> nat \<Rightarrow> nat list \<Rightarrow> favorite_table \<Rightarrow> favorite_table \<times> unit res" where
  "reorder_favorites fl flt uid ids t =
     (case favorite_list_by_user fl uid t of
        Inl _ \<Rightarrow> (t, fail CodeInternal ''failed to load favorites'')
      | Inr favs \<Rightarrow>
          if \<not> list_all (\<lambda>i. i \<in> set (map f_id favs)) ids then (t, fail CodeNotFound ''one or more favorites not found'')
          else (case apply_order flt 0 ids t of
                  (t', True) \<Rightarrow> (t', Inr ())
                | (t', False) \<Rightarrow> (t', fail CodeInternal ''failed to update sort order'')))"

definition check_favorite :: "faults \<Rightarrow> nat \<Rightarrow> add_favorite_request \<Rightarrow> favorite_table \<Rightarrow> favorite option res" where
  "check_favorite fl uid rq t =
     (case lookup_request fl uid rq t of
        Inl _ \<Rightarrow> fail CodeInternal ''failed to check favorite status'' | Inr f \<Rightarrow> Inr f)"

section \<open>Integrity\<close>

definition resource_of :: "favorite \<Rightarrow> nat \<times> string \<times> string \<times> string \<times> string" where
  "resource_of f = (f_user f, f_cluster f, f_type f, f_name f, f_namespace f)"

definition favorites_ok :: "favorite_table \<Rightarrow> bool" where
  "favorites_ok t \<longleftrightarrow> table_ok f_id t \<and> distinct (map resource_of (rows t))"

definition others :: "nat \<Rightarrow> favorite_table \<Rightarrow> favorite list" where
  "others uid t = filter (\<lambda>f. f_user f \<noteq> uid) (rows t)"

lemma set_listed: "favorite_list_by_user fl uid t = Inr fs \<Longrightarrow> set fs = {f \<in> set (rows t). f_user f = uid}"
  by (auto simp: favorite_list_by_user_def find_where_def split: sum.splits if_splits)

lemma lookup_request_Inr:
  "lookup_request fl uid rq t = Inr r \<longleftrightarrow> \<not> fl DbGet \<and>
     r = find (same_resource uid (af_cluster rq) (af_type rq) (af_name rq) (af_namespace rq)) (rows t)"
  by (auto simp: lookup_request_def get_by_user_and_resource_def)

lemma add_favorite_Inr:
  assumes "add_favorite fl now uid rq t = Inr (t', f)"
  shows "f_user f = uid \<and> f_cluster f = af_cluster rq \<and> f_type f = af_type rq \<and> f_name f = af_name rq \<and>
      f_namespace f = af_namespace rq \<and> f_id f = Suc (seq t) \<and> t' = \<lparr>rows = rows t @ [f], seq = Suc (seq t)\<rparr> \<and>
      find (same_resource uid (af_cluster rq) (af_type rq) (af_name rq) (af_namespace rq)) (rows t) = None"
  using assms
  by (auto simp: add_favorite_def Let_def favorite_create_def create_row_Inr lookup_request_Inr
      split: sum.splits option.splits)

lemma add_keeps_ok:
  assumes "favorites_ok t" "add_favorite fl now uid rq t = Inr (t', f)"
  shows "favorites_ok t' \<and> others uid t' = others uid t"
proof -
  note a = add_favorite_Inr [OF assms(2)]
  have no: "\<not> same_resource uid (af_cluster rq) (af_type rq) (af_name rq) (af_namespace rq) x" if "x \<in> set (rows t)" for x
    using a that by (auto simp: find_None_iff)
  then have "resource_of f \<noteq> resource_of x" if "x \<in> set (rows t)" for x
    using a no [OF that] by (auto simp: resource_of_def same_resource_def)
  then have "resource_of f \<notin> resource_of ` set (rows t)" by blast
  then show ?thesis using assms(1) a by (auto simp: favorites_ok_def table_ok_def others_def dest: bspec)
qed

lemma delete_keeps_ok:
  assumes ok: "favorites_ok t" and f: "f \<in> set (rows t)" "f_user f = uid" "f_id f = i" and d: "favorite_delete fl i t = Inr t'"
  shows "favorites_ok t' \<and> others uid t' = others uid t"
proof -
  have t': "rows t' = filter (\<lambda>f. f_id f \<noteq> i) (rows t)" using d by (auto simp: favorite_delete_def delete_where_def split: if_splits)
  have "favorites_ok t'"
    using ok table_ok_delete [of f_id t] d by (auto simp: favorites_ok_def favorite_delete_def t' distinct_map_filter)
  moreover have "f_id x \<noteq> i" if "x \<in> set (rows t)" "f_user x \<noteq> uid" for x
  proof
    assume "f_id x = i"
    then have "x = f" using ok f that by (auto simp: favorites_ok_def table_ok_def distinct_map dest: inj_onD)
    then show False using that f by simp
  qed
  then have "others uid t' = others uid t" unfolding others_def t' filter_filter by (intro filter_cong) auto
  ultimately show ?thesis by blast
qed

lemma remove_keeps_ok:
  assumes "favorites_ok t" "remove_favorite fl uid i t = Inr t'"
  shows "favorites_ok t' \<and> others uid t' = others uid t"
proof -
  obtain favs f where f: "favorite_list_by_user fl uid t = Inr favs" "f \<in> set favs" "f_id f = i" and d: "favorite_delete fl i t = Inr t'"
    using assms(2) by (auto simp: remove_favorite_def list_ex_iff split: sum.splits if_splits)
  show ?thesis by (rule delete_keeps_ok [OF assms(1) _ _ f(3) d]) (use f set_listed [OF f(1)] in auto)
qed

lemma toggle_keeps_ok:
  assumes "favorites_ok t" "toggle_favorite fl now uid rq t = Inr (t', r)"
  shows "favorites_ok t' \<and> others uid t' = others uid t"
proof (cases "lookup_request fl uid rq t")
  case (Inl e)
  with assms show ?thesis by (simp add: toggle_favorite_def)
next
  case (Inr fo)
  show ?thesis
  proof (cases fo)
    case None
    with Inr assms show ?thesis by (auto simp: toggle_favorite_def split: sum.splits dest: add_keeps_ok [OF assms(1)])
  next
    case (Some f)
    with Inr have f: "f \<in> set (rows t)" "f_user f = uid"
      by (auto simp: lookup_request_Inr same_resource_def dest!: find_SomeD sym [of "Some f"])
    have "favorite_delete fl (f_id f) t = Inr t'" using Inr Some assms(2) by (auto simp: toggle_favorite_def split: sum.splits)
    from delete_keeps_ok [OF assms(1) f refl this] show ?thesis .
  qed
qed

section \<open>Reordering\<close>

fun reorder_row :: "nat \<Rightarrow> nat list \<Rightarrow> favorite \<Rightarrow> favorite" where
  "reorder_row k [] f = f"
| "reorder_row k (i # is) f = reorder_row (Suc k) is (if f_id f = i then f\<lparr>f_order := k\<rparr> else f)"

lemma reorder_row_sel [simp]:
  "f_id (reorder_row k is f) = f_id f" "f_user (reorder_row k is f) = f_user f"
  "resource_of (reorder_row k is f) = resource_of f"
  by (induction k "is" f rule: reorder_row.induct) (auto simp: resource_of_def)

lemma reorder_row_absent: "f_id f \<notin> set is \<Longrightarrow> reorder_row k is f = f"
  by (induction k "is" f rule: reorder_row.induct) auto

lemma reorder_row_order:
  "distinct is \<Longrightarrow> f_id f \<in> set is \<Longrightarrow>
     \<exists>j < length is. is ! j = f_id f \<and> f_order (reorder_row k is f) = k + j"
proof (induction k "is" f rule: reorder_row.induct)
  case (2 k i "is" f)
  show ?case
  proof (cases "f_id f = i")
    case True
    then have "reorder_row (Suc k) is (f\<lparr>f_order := k\<rparr>) = f\<lparr>f_order := k\<rparr>"
      using 2(2) by (intro reorder_row_absent) auto
    with True show ?thesis by (intro exI [of _ 0]) simp
  next
    case False
    with 2 obtain j where "j < length is" "is ! j = f_id f" "f_order (reorder_row (Suc k) is f) = Suc k + j" by auto
    with False show ?thesis by (intro exI [of _ "Suc j"]) simp
  qed
qed simp

lemma reorder_row_Nil: "reorder_row k [] = (\<lambda>f. f)"
  by auto

lemma apply_order_ok:
  "(\<And>j. \<not> flt j) \<Longrightarrow> apply_order flt k is t = (t\<lparr>rows := map (reorder_row k is) (rows t)\<rparr>, True)"
  by (induction flt k "is" t rule: apply_order.induct) (auto simp: update_sort_order_def comp_def reorder_row_Nil intro!: map_cong)

lemma apply_order_rows:
  "apply_order flt k is t = (t', b) \<Longrightarrow>
     seq t' = seq t \<and> map f_id (rows t') = map f_id (rows t) \<and> map resource_of (rows t') = map resource_of (rows t) \<and>
     filter (\<lambda>f. f_id f \<notin> set is) (rows t') = filter (\<lambda>f. f_id f \<notin> set is) (rows t)"
proof (induction flt k "is" t rule: apply_order.induct)
  case (2 flt k i "is" t)
  show ?case
  proof (cases "flt k")
    case True
    with 2(2) show ?thesis by (auto simp: update_sort_order_def)
  next
    case False
    let ?t1 = "t\<lparr>rows := map (\<lambda>f. if f_id f = i then f\<lparr>f_order := k\<rparr> else f) (rows t)\<rparr>"
    have ih: "seq t' = seq ?t1 \<and> map f_id (rows t') = map f_id (rows ?t1) \<and> map resource_of (rows t') = map resource_of (rows ?t1) \<and>
      filter (\<lambda>f. f_id f \<notin> set is) (rows t') = filter (\<lambda>f. f_id f \<notin> set is) (rows ?t1)"
      using 2(1) [of ?t1] 2(2) False by (simp add: update_sort_order_def)
    have "filter (\<lambda>f. f_id f \<notin> set (i # is)) (rows t') = filter (\<lambda>f. f_id f \<noteq> i) (filter (\<lambda>f. f_id f \<notin> set is) (rows t'))"
      by (auto intro: filter_cong)
    also have "\<dots> = filter (\<lambda>f. f_id f \<noteq> i) (filter (\<lambda>f. f_id f \<notin> set is) (rows ?t1))" using ih by simp
    also have "\<dots> = filter (\<lambda>f. f_id f \<notin> set (i # is)) (rows t)"
      by (simp add: filter_map comp_def) (rule trans [OF map_idI filter_cong], auto)
    finally have others: "filter (\<lambda>f. f_id f \<notin> set (i # is)) (rows t') = filter (\<lambda>f. f_id f \<notin> set (i # is)) (rows t)" .
    have "map f_id (rows ?t1) = map f_id (rows t)" by simp
    moreover have "map resource_of (rows ?t1) = map resource_of (rows t)" by (simp add: resource_of_def)
    ultimately show ?thesis using ih others by simp
  qed
qed auto

lemma reorder_keeps_ok:
  assumes ok: "favorites_ok t" and r: "reorder_favorites fl flt uid ids t = (t', res)"
  shows "favorites_ok t' \<and> others uid t' = others uid t"
proof -
  have "t' = t \<or> (\<exists>b. apply_order flt 0 ids t = (t', b) \<and> (\<forall>i \<in> set ids. \<exists>f \<in> set (rows t). f_user f = uid \<and> f_id f = i))"
    using r set_listed [of fl uid t]
    by (fastforce simp: reorder_favorites_def list_all_iff split: sum.splits if_splits prod.splits bool.splits)
  then show ?thesis
  proof (elim disjE exE conjE)
    fix b assume a: "apply_order flt 0 ids t = (t', b)" and own: "\<forall>i \<in> set ids. \<exists>f \<in> set (rows t). f_user f = uid \<and> f_id f = i"
    note ar = apply_order_rows [OF a]
    have "table_ok f_id t'" using ok ar unfolding favorites_ok_def table_ok_keys by simp
    moreover have "f_id x \<notin> set ids" if x: "x \<in> set (rows t)" "f_user x \<noteq> uid" for x
    proof
      assume "f_id x \<in> set ids"
      then obtain f where "f \<in> set (rows t)" "f_user f = uid" "f_id f = f_id x" using own by metis
      then have "f = x" using ok x by (auto simp: favorites_ok_def table_ok_def distinct_map dest: inj_onD)
      then show False using x \<open>f_user f = uid\<close> by simp
    qed
    then have o: "others uid t = filter (\<lambda>f. f_user f \<noteq> uid) (filter (\<lambda>f. f_id f \<notin> set ids) (rows t))"
      unfolding others_def filter_filter by (intro filter_cong) auto
    moreover have "f_id x \<notin> set ids" if x: "x \<in> set (rows t')" "f_user x \<noteq> uid" for x
    proof -
      obtain k where k: "k < length (rows t')" "rows t' ! k = x" using x(1) by (auto simp: in_set_conv_nth)
      have len: "length (rows t') = length (rows t)" using ar by (metis length_map)
      have "map f_id (rows t') ! k = map f_id (rows t) ! k" "map resource_of (rows t') ! k = map resource_of (rows t) ! k"
        using ar by simp_all
      then have "f_id x = f_id (rows t ! k)" "f_user x = f_user (rows t ! k)" using k len by (auto simp: resource_of_def)
      with \<open>\<And>x. x \<in> set (rows t) \<Longrightarrow> f_user x \<noteq> uid \<Longrightarrow> f_id x \<notin> set ids\<close> x k len show ?thesis by (metis nth_mem)
    qed
    then have "others uid t' = filter (\<lambda>f. f_user f \<noteq> uid) (filter (\<lambda>f. f_id f \<notin> set ids) (rows t'))"
      unfolding others_def filter_filter by (intro filter_cong) auto
    ultimately show ?thesis using ok ar by (simp add: favorites_ok_def)
  qed (use ok in simp)
qed

datatype favorite_cmd =
    FAdd faults gotime nat add_favorite_request | FRemove faults nat nat
  | FToggle faults gotime nat add_favorite_request | FReorder faults "nat \<Rightarrow> bool" nat "nat list"

primrec cmd_user :: "favorite_cmd \<Rightarrow> nat" where
  "cmd_user (FAdd fl now uid rq) = uid"
| "cmd_user (FRemove fl uid i) = uid"
| "cmd_user (FToggle fl now uid rq) = uid"
| "cmd_user (FReorder fl flt uid ids) = uid"

primrec favorite_exec :: "favorite_cmd \<Rightarrow> favorite_table \<Rightarrow> favorite_table" where
  "favorite_exec (FAdd fl now uid rq) t = (case add_favorite fl now uid rq t of Inl _ \<Rightarrow> t | Inr (t', _) \<Rightarrow> t')"
| "favorite_exec (FRemove fl uid i) t = (case remove_favorite fl uid i t of Inl _ \<Rightarrow> t | Inr t' \<Rightarrow> t')"
| "favorite_exec (FToggle fl now uid rq) t = (case toggle_favorite fl now uid rq t of Inl _ \<Rightarrow> t | Inr (t', _) \<Rightarrow> t')"
| "favorite_exec (FReorder fl flt uid ids) t = fst (reorder_favorites fl flt uid ids t)"

lemma exec_keeps_ok:
  "favorites_ok t \<Longrightarrow> favorites_ok (favorite_exec c t) \<and> others (cmd_user c) (favorite_exec c t) = others (cmd_user c) t"
proof (cases c)
  case (FReorder fl flt uid ids)
  assume "favorites_ok t"
  from reorder_keeps_ok [OF this prod.collapse [symmetric], of fl flt uid ids] FReorder show ?thesis by simp
qed (auto split: sum.splits dest: add_keeps_ok remove_keeps_ok toggle_keeps_ok)

lemma exec_all_ok: "favorites_ok t \<Longrightarrow> favorites_ok (fold favorite_exec cs t)"
  by (induction cs arbitrary: t) (simp_all add: exec_keeps_ok)

text \<open>
  Favorites stay unique and private: whatever users do, one request at a time, in whatever order and
  with whatever database faults, no user ever has the same resource twice, and a request changes no row of any
  other user.
\<close>

theorem favorites_unique_and_private:
  "favorites_ok (fold favorite_exec cs empty_table) \<and>
   others (cmd_user c) (favorite_exec c (fold favorite_exec cs empty_table)) = others (cmd_user c) (fold favorite_exec cs empty_table)"
proof -
  have "favorites_ok empty_table" by (simp add: favorites_ok_def table_ok_def empty_table_def)
  from exec_all_ok [OF this] show ?thesis using exec_keeps_ok by blast
qed

lemma listing_by_position:
  assumes d: "distinct is" and ids: "set (map f_id xs) = set is" and dx: "distinct (map f_id xs)"
    and pos: "\<And>x. x \<in> set xs \<Longrightarrow> f_order x < length is \<and> is ! f_order x = f_id x"
  shows "map f_id (sort_key f_order xs) = is"
proof -
  let ?L = "sort_key f_order xs"
  have len: "length xs = length is" using d dx ids by (metis distinct_card length_map)
  have inj: "inj_on f_order (set xs)"
    using pos dx by (auto simp: inj_on_def distinct_map) metis
  have "distinct (map f_order ?L)" using dx inj by (simp add: distinct_map distinct_sort)
  moreover have "set (map f_order ?L) = {0..<length is}"
  proof (rule card_subset_eq)
    show "set (map f_order ?L) \<subseteq> {0..<length is}" using pos by auto
    have "distinct xs" using dx by (simp add: distinct_map)
    then show "card (set (map f_order ?L)) = card {0..<length is}"
      using inj len by (simp add: card_image distinct_card)
  qed simp
  ultimately have ord: "map f_order ?L = [0..<length is]"
    by (intro sorted_distinct_set_unique) (simp_all add: sorted_sort_key)
  show ?thesis
  proof (rule nth_equalityI)
    show "length (map f_id ?L) = length is" using len by simp
    fix k assume "k < length (map f_id ?L)"
    then have k: "k < length ?L" by simp
    have "f_order (?L ! k) = k" using arg_cong [OF ord, of "\<lambda>l. l ! k"] k len by simp
    moreover have "?L ! k \<in> set xs" using nth_mem [OF k] by simp
    ultimately show "map f_id ?L ! k = is ! k" using pos k by fastforce
  qed
qed

text \<open>
  Reordering does what it says: when the ids are exactly those of the user's favorites, once
  each, and the database works, the next listing shows them in the order given.
\<close>

theorem reorder_lists_in_order:
  assumes "favorites_ok t" and "distinct ids" and "set ids = f_id ` {f \<in> set (rows t). f_user f = uid}"
  shows "\<exists>t' fs. reorder_favorites no_faults (\<lambda>_. False) uid ids t = (t', Inr ()) \<and>
    list_favorites no_faults uid t' = Inr fs \<and> map f_id fs = ids"
proof -
  let ?t' = "t\<lparr>rows := map (reorder_row 0 ids) (rows t)\<rparr>"
  let ?xs = "sort_key f_created (filter (\<lambda>f. f_user f = uid) (rows ?t'))"
  have "reorder_favorites no_faults (\<lambda>_. False) uid ids t = (?t', Inr ())"
    using assms(3) by (simp add: reorder_favorites_def favorite_list_by_user_def find_where_def apply_order_ok list_all_iff)
  moreover have "map f_id (sort_key f_order ?xs) = ids"
  proof (rule listing_by_position [OF assms(2)])
    show "set (map f_id ?xs) = set ids" using assms(3) by (simp add: filter_map comp_def image_image)
    have "distinct (map f_id (rows t))" using assms(1) by (simp add: favorites_ok_def table_ok_def)
    then have "distinct (map f_id (rows ?t'))" by (simp add: comp_def)
    then have "distinct (map f_id (filter (\<lambda>f. f_user f = uid) (rows ?t')))" by (rule distinct_map_filter)
    then show "distinct (map f_id ?xs)" by (simp add: distinct_map distinct_sort)
    fix x assume "x \<in> set ?xs"
    then obtain f where f: "f \<in> set (rows t)" "f_user f = uid" "x = reorder_row 0 ids f" by auto
    then have "f_id f \<in> set ids" using assms(3) by auto
    from reorder_row_order [OF assms(2) this, of 0] f show "f_order x < length ids \<and> ids ! f_order x = f_id x" by auto
  qed
  ultimately show ?thesis by (simp add: list_favorites_def favorite_list_by_user_def find_where_def)
qed

definition sample_favorite :: "nat \<Rightarrow> nat \<Rightarrow> string \<Rightarrow> nat \<Rightarrow> favorite" where
  "sample_favorite i uid nm n = \<lparr>f_id = i, f_created = int i, f_user = uid, f_cluster = ''c'', f_namespace = ''n'',
     f_type = ''pods'', f_name = nm, f_display = nm, f_order = n\<rparr>"

definition sample_favorites :: favorite_table where
  "sample_favorites = \<lparr>rows = [sample_favorite 1 7 ''a'' 0, sample_favorite 2 8 ''a'' 0, sample_favorite 3 7 ''b'' 1], seq = 3\<rparr>"

theorem reorder_lists_in_order_witness:
  "\<exists>t' fs. reorder_favorites no_faults (\<lambda>_. False) 7 [3, 1] sample_favorites = (t', Inr ()) \<and>
    list_favorites no_faults 7 t' = Inr fs \<and> map f_id fs = [3, 1]"
proof (rule reorder_lists_in_order)
  show "favorites_ok sample_favorites"
    by (simp add: favorites_ok_def table_ok_def sample_favorites_def sample_favorite_def resource_of_def)
  show "set [3, 1] = f_id ` {f \<in> set (rows sample_favorites). f_user f = 7}"
    by (auto simp: sample_favorites_def sample_favorite_def image_iff conj_disj_distribR ex_disj_distrib)
qed simp

text \<open>
  A new favorite is not always appended at the end: its sort order is the number of favorites its
  user has, so after removals it can come before older ones.
\<close>

lemma new_favorite_listed_first:
  "let rq = (\<lambda>nm. \<lparr>af_cluster = ''c'', af_namespace = ''n'', af_type = ''pods'', af_name = nm, af_display = []\<rparr>);
       t = fold favorite_exec [FAdd no_faults 1 7 (rq ''a''), FAdd no_faults 2 7 (rq ''b''), FAdd no_faults 3 7 (rq ''d''),
             FRemove no_faults 7 1, FRemove no_faults 7 2, FAdd no_faults 4 7 (rq ''e'')] empty_table
   in map_sum id (map f_name) (list_favorites no_faults 7 t) = Inr [''e'', ''d'']"
  by code_simp

end
