(* ===== verification/Helm_Access.thy ===== *)
theory Helm_Access
  imports Clusters Audit_Trail
begin

text \<open>
  Who may work on Helm releases: \<open>packages/access.go\<close> with the types it uses from
  \<open>packages/types.go\<close>. A user without cluster roles (\<open>model.UserClusterRole\<close>) is judged by the role of
  the session; a user who has some is judged by the role mapped for the cluster, within the
  namespaces of the mapping. The interface \<open>package_authorizer\<close> is what the package service
  relies on.
\<close>

definition PermissionRead :: string where "PermissionRead = ''package-releases:read''"
definition PermissionInstall :: string where "PermissionInstall = ''package-releases:install''"
definition PermissionUpgrade :: string where "PermissionUpgrade = ''package-releases:upgrade''"
definition PermissionRollback :: string where "PermissionRollback = ''package-releases:rollback''"
definition PermissionRemove :: string where "PermissionRemove = ''package-releases:remove''"

lemmas permission_defs = PermissionRead_def PermissionInstall_def PermissionUpgrade_def
  PermissionRollback_def PermissionRemove_def

record package_actor =
  ac_user :: nat
  ac_name :: string
  ac_role :: string
  ac_ip :: string
  ac_preview_only :: bool

definition is_admin :: "package_actor \<Rightarrow> bool" where
  "is_admin a \<longleftrightarrow> ac_role a = ''admin'' \<or> ac_role a = ''super-admin''"

record user_cluster_role =
  ucr_id :: nat
  ucr_user :: nat
  ucr_cluster :: nat
  ucr_role :: nat
  ucr_namespaces :: string

text \<open>
  The three tables the authorizer reads, and which of its three statements fail: the count, the
  join and the lookup of the role.
\<close>

record access_db =
  ad_ucr :: "user_cluster_role table"
  ad_clusters :: cluster_table
  ad_roles :: role_table

record access_faults =
  xf_count :: bool
  xf_join :: bool
  xf_role :: faults

definition no_access_faults :: access_faults where
  "no_access_faults = \<lparr>xf_count = False, xf_join = False, xf_role = no_faults\<rparr>"

section \<open>The role of a user in a cluster\<close>

text \<open>
  The inner join of mappings, clusters and roles; \<open>Take\<close> has no order clause and returns the first row,
  here the first mapping. The raw join does not skip deleted clusters.
\<close>

definition scoped_rows :: "access_db \<Rightarrow> nat \<Rightarrow> string \<Rightarrow> (string \<times> string) list" where
  "scoped_rows db uid cl =
     concat (map (\<lambda>u. concat (map (\<lambda>c. map (\<lambda>r. (role_name r, ucr_namespaces u))
         (filter (\<lambda>r. role_id r = ucr_role u) (rows (ad_roles db))))
       (filter (\<lambda>c. c_id c = ucr_cluster u \<and> c_name c = cl) (rows (ad_clusters db)))))
     (filter (\<lambda>u. ucr_user u = uid) (rows (ad_ucr db))))"

definition in_namespaces :: "string \<Rightarrow> string \<Rightarrow> bool" where
  "in_namespaces nss ns \<longleftrightarrow> list_ex (\<lambda>a. trim_space a = ns) (split_on (CHR '','') nss)"

definition scoped_role :: "access_faults \<Rightarrow> access_db \<Rightarrow> nat \<Rightarrow> string \<Rightarrow> string \<Rightarrow> string \<times> bool" where
  "scoped_role fl db uid cl ns =
     (if uid = 0 then ([], False)
      else if xf_count fl \<or> \<not> list_ex (\<lambda>u. ucr_user u = uid) (rows (ad_ucr db)) then ([], False)
      else if xf_join fl then ([], True)
      else case scoped_rows db uid cl of
          [] \<Rightarrow> ([], True)
        | (rn, nss) # _ \<Rightarrow>
            if trim_space nss = [] then (rn, True)
            else if ns = [] then ([], True)
            else if in_namespaces nss ns then (rn, True)
            else ([], True))"

fun package_grant :: "string \<Rightarrow> string list \<Rightarrow> bool" where
  "package_grant perm [] = False"
| "package_grant perm (c # cs) =
     (if c = ''*:*'' \<or> c = perm then True
      else if c = ''package-releases:*'' then True
      else package_grant perm cs)"

lemma package_grant_iff: "package_grant perm ps \<longleftrightarrow> ''*:*'' \<in> set ps \<or> perm \<in> set ps \<or> ''package-releases:*'' \<in> set ps"
  by (induction ps) auto

text \<open>\<open>Allowed\<close> once the role is known.\<close>

definition role_grants :: "access_faults \<Rightarrow> access_db \<Rightarrow> string \<Rightarrow> string \<Rightarrow> bool" where
  "role_grants fl db rn perm =
     (case role_get_by_name (xf_role fl) rn (ad_roles db) of
        Inl _ \<Rightarrow> False
      | Inr r \<Rightarrow>
          (case unmarshal_strings (role_permissions r) of
             None \<Rightarrow> False | Some ps \<Rightarrow> package_grant perm ps))"

definition role_allowed :: "access_faults \<Rightarrow> access_db \<Rightarrow> package_actor \<Rightarrow> string \<Rightarrow> string \<Rightarrow> string \<Rightarrow> bool" where
  "role_allowed fl db a perm cl ns =
     (if ac_role a = ''super-admin'' \<or> ac_role a = ''admin'' then True
      else case scoped_role fl db (ac_user a) cl ns of (rn, scoped) \<Rightarrow>
        if scoped \<and> rn = [] then False
        else role_grants fl db (if rn = [] then ac_role a else rn) perm)"

section \<open>Audit entries\<close>

record package_event =
  pe_actor :: package_actor
  pe_action :: string
  pe_cluster :: string
  pe_namespace :: string
  pe_release :: string
  pe_revision :: int
  pe_options :: string
  pe_outcome :: string
  pe_duration :: int

definition audit_status :: "string \<Rightarrow> int" where
  "audit_status outcome = (if outcome = ''succeeded'' then 200 else 500)"

text \<open>\<open>RecordPackageAudit\<close>: the entry handed to the audit service.\<close>

definition package_audit :: "package_event \<Rightarrow> audit_log" where
  "package_audit e = empty_log\<lparr>al_user := ac_user (pe_actor e), al_username := ac_name (pe_actor e), al_action := pe_action e,
     al_resource := ''package-releases'', al_name := pe_release e, al_namespace := pe_namespace e, al_cluster := pe_cluster e,
     al_status := audit_status (pe_outcome e), al_duration := pe_duration e div millisecond, al_ip := ac_ip (pe_actor e),
     al_source := ''http'', al_outcome := pe_outcome e,
     al_body := ''{'' @ go_quote ''revision'' @ '':'' @ dec_int (pe_revision e) @ '','' @ go_quote ''options'' @ '':'' @
       go_quote (pe_options e) @ '','' @ go_quote ''outcome'' @ '':'' @ go_quote (pe_outcome e) @ ''}''\<rparr>"

section \<open>Confinement\<close>

definition covers :: "string \<Rightarrow> string \<Rightarrow> bool" where
  "covers nss ns \<longleftrightarrow> trim_space nss = [] \<or> ns \<noteq> [] \<and> in_namespaces nss ns"

definition mapped_in :: "access_db \<Rightarrow> nat \<Rightarrow> string \<Rightarrow> string \<Rightarrow> string \<Rightarrow> bool" where
  "mapped_in db uid cl ns rn \<longleftrightarrow>
     (\<exists>u \<in> set (rows (ad_ucr db)). \<exists>c \<in> set (rows (ad_clusters db)). \<exists>r \<in> set (rows (ad_roles db)).
        ucr_user u = uid \<and> c_id c = ucr_cluster u \<and> c_name c = cl \<and> role_id r = ucr_role u \<and> role_name r = rn \<and>
        covers (ucr_namespaces u) ns)"

lemma scoped_rows_mem:
  "(rn, nss) \<in> set (scoped_rows db uid cl) \<longleftrightarrow>
     (\<exists>u \<in> set (rows (ad_ucr db)). \<exists>c \<in> set (rows (ad_clusters db)). \<exists>r \<in> set (rows (ad_roles db)).
        ucr_user u = uid \<and> c_id c = ucr_cluster u \<and> c_name c = cl \<and> role_id r = ucr_role u \<and> role_name r = rn \<and>
        nss = ucr_namespaces u)"
  unfolding scoped_rows_def by fastforce

text \<open>Every way \<open>scopedRole\<close> ends: unscoped, scoped to nothing, or scoped to the role of the first mapping.\<close>

lemma scoped_role_exits:
  obtains (unscoped) "scoped_role fl db uid cl ns = ([], False)"
      "uid = 0 \<or> xf_count fl \<or> (\<forall>u \<in> set (rows (ad_ucr db)). ucr_user u \<noteq> uid)"
  | (nothing) "scoped_role fl db uid cl ns = ([], True)"
  | (mapped) rn nss rest where "scoped_role fl db uid cl ns = (rn, True)" "scoped_rows db uid cl = (rn, nss) # rest" "covers nss ns"
proof (cases "uid = 0 \<or> xf_count fl \<or> \<not> list_ex (\<lambda>u. ucr_user u = uid) (rows (ad_ucr db))")
  case True
  then show thesis by (intro unscoped) (auto simp: scoped_role_def list_ex_iff)
next
  case go: False
  show thesis
  proof (cases "scoped_rows db uid cl")
    case Nil
    with go have "scoped_role fl db uid cl ns = ([], True)" by (simp add: scoped_role_def)
    then show thesis by (rule nothing)
  next
    case (Cons p rest)
    obtain rn nss where p: "p = (rn, nss)" by (cases p)
    show thesis
    proof (cases "xf_join fl \<or> \<not> covers nss ns")
      case True
      with go Cons p have "scoped_role fl db uid cl ns = ([], True)" by (auto simp: scoped_role_def covers_def)
      then show thesis by (rule nothing)
    next
      case False
      with go Cons p have "scoped_role fl db uid cl ns = (rn, True)" by (auto simp: scoped_role_def covers_def)
      then show thesis using Cons p False by (intro mapped) auto
    qed
  qed
qed

lemma scoped_role_mapped:
  assumes "scoped_role fl db uid cl ns = (rn, True)" "rn \<noteq> []"
  shows "mapped_in db uid cl ns rn"
proof (cases rule: scoped_role_exits [of fl db uid cl ns])
  case (mapped rn' nss rest)
  then have "(rn, nss) \<in> set (scoped_rows db uid cl)" using assms by simp
  with mapped(3) show ?thesis unfolding scoped_rows_mem mapped_in_def by blast
qed (use assms in auto)

text \<open>
  C19. A user with cluster roles is confined to them: when the database answers the count, whatever the
  session role says short of administrator, an allowed action is in a cluster the user is mapped
  to, in a namespace of that mapping, and granted by the role of that mapping.
\<close>

theorem scoped_user_confined:
  assumes "\<not> is_admin a" "ac_user a \<noteq> 0" "u \<in> set (rows (ad_ucr db))" "ucr_user u = ac_user a" "\<not> xf_count fl"
    and "role_allowed fl db a perm cl ns"
  shows "\<exists>rn. mapped_in db (ac_user a) cl ns rn \<and> role_grants fl db rn perm"
proof (cases rule: scoped_role_exits [of fl db "ac_user a" cl ns])
  case unscoped
  with assms show ?thesis by auto
next
  case nothing
  with assms show ?thesis by (simp add: role_allowed_def is_admin_def)
next
  case (mapped rn nss rest)
  then have "rn \<noteq> []" "role_grants fl db rn perm" using assms by (auto simp: role_allowed_def is_admin_def split: if_splits)
  with scoped_role_mapped [OF mapped(1)] show ?thesis by blast
qed

section \<open>What the package service relies on\<close>

locale package_authorizer =
  fixes allowed :: "package_actor \<Rightarrow> string \<Rightarrow> string \<Rightarrow> string \<Rightarrow> bool"
  assumes admin_allowed: "is_admin a \<Longrightarrow> allowed a perm cl ns"
    and trim_allowed: "allowed a perm cl ns \<Longrightarrow> trim_space ns \<noteq> [] \<Longrightarrow> allowed a perm cl (trim_space ns)"
begin

lemma denied_not_admin: "\<not> allowed a perm cl ns \<Longrightarrow> \<not> is_admin a"
  using admin_allowed by blast

end

lemma covers_trim: "covers nss ns \<Longrightarrow> trim_space ns \<noteq> [] \<Longrightarrow> covers nss (trim_space ns)"
  by (auto simp: covers_def in_namespaces_def list_ex_iff)

lemma scoped_role_trim:
  assumes "scoped_role fl db uid cl ns = (rn, sc)" "trim_space ns \<noteq> []" "\<not> (sc \<and> rn = [])"
  shows "scoped_role fl db uid cl (trim_space ns) = (rn, sc)"
proof (cases rule: scoped_role_exits [of fl db uid cl ns])
  case unscoped
  with assms show ?thesis by (auto simp: scoped_role_def list_ex_iff)
next
  case (mapped rn' nss rest)
  then have "\<not> (uid = 0 \<or> xf_count fl \<or> \<not> list_ex (\<lambda>u. ucr_user u = uid) (rows (ad_ucr db)))" "\<not> xf_join fl"
    using assms by (auto simp: scoped_role_def split: if_splits)
  with mapped assms covers_trim [OF mapped(3) assms(2)] show ?thesis
    by (auto simp: scoped_role_def covers_def)
qed (use assms in auto)

interpretation roles: package_authorizer "role_allowed fl db"
proof
  fix a perm cl ns
  show "is_admin a \<Longrightarrow> role_allowed fl db a perm cl ns" by (auto simp: is_admin_def role_allowed_def)
  assume a: "role_allowed fl db a perm cl ns" and t: "trim_space ns \<noteq> []"
  obtain rn sc where s: "scoped_role fl db (ac_user a) cl ns = (rn, sc)" by (cases "scoped_role fl db (ac_user a) cl ns") auto
  show "role_allowed fl db a perm cl (trim_space ns)"
  proof (cases "is_admin a \<or> sc \<and> rn = []")
    case True
    with a s show ?thesis by (auto simp: role_allowed_def is_admin_def split: if_splits)
  next
    case False
    with scoped_role_trim [OF s t] a s show ?thesis by (auto simp: role_allowed_def is_admin_def split: if_splits)
  qed
qed

section \<open>A concrete deployment\<close>

definition sample_cluster :: "nat \<Rightarrow> string \<Rightarrow> cluster" where
  "sample_cluster i n = \<lparr>c_id = i, c_created = 0, c_updated = 0, c_deleted = None, c_name = n, c_api = [], c_auth = [],
     c_kubeconfig_enc = [], c_token_enc = [], c_status = [], c_version = []\<rparr>"

definition sample_role :: "nat \<Rightarrow> string \<Rightarrow> string list \<Rightarrow> role" where
  "sample_role i n ps = (seed_role n n True ps)\<lparr>role_id := i\<rparr>"

text \<open>User 7 is an editor by session role, and mapped as a viewer to two namespaces of one cluster.\<close>

definition sample_access :: access_db where
  "sample_access = \<lparr>ad_ucr = \<lparr>rows = [\<lparr>ucr_id = 1, ucr_user = 7, ucr_cluster = 1, ucr_role = 2, ucr_namespaces = ''team-a, team-b''\<rparr>], seq = 1\<rparr>,
     ad_clusters = \<lparr>rows = [sample_cluster 1 ''prod'', sample_cluster 2 ''dev''], seq = 2\<rparr>,
     ad_roles = \<lparr>rows = [sample_role 1 ''editor'' [PermissionRead, PermissionInstall], sample_role 2 ''viewer'' [PermissionRead]], seq = 2\<rparr>\<rparr>"

definition sample_actor :: package_actor where
  "sample_actor = \<lparr>ac_user = 7, ac_name = ''eve'', ac_role = ''editor'', ac_ip = [], ac_preview_only = False\<rparr>"

theorem scoped_user_confined_witness:
  "\<exists>rn. mapped_in sample_access (ac_user sample_actor) ''prod'' ''team-b'' rn \<and>
     role_grants no_access_faults sample_access rn PermissionRead"
proof (rule scoped_user_confined)
  show "hd (rows (ad_ucr sample_access)) \<in> set (rows (ad_ucr sample_access))" by (simp add: sample_access_def)
  show "role_allowed no_access_faults sample_access sample_actor PermissionRead ''prod'' ''team-b''" by code_simp
qed (simp_all add: is_admin_def sample_actor_def sample_access_def no_access_faults_def)

text \<open>
  A failed count widens instead of denying: the same user, denied an installation everywhere by the
  mapping, may install in any cluster and namespace when the count fails.
\<close>

lemma count_failure_widens:
  "\<not> role_allowed no_access_faults sample_access sample_actor PermissionInstall ''prod'' ''team-b'' \<and>
   \<not> role_allowed no_access_faults sample_access sample_actor PermissionInstall ''dev'' ''kube-system'' \<and>
   role_allowed (no_access_faults\<lparr>xf_count := True\<rparr>) sample_access sample_actor PermissionInstall ''dev'' ''kube-system''"
  by code_simp

end
