(* ===== verification/Go_Sort.thy ===== *)
theory Go_Sort
  imports Go_Prelude "HOL-Library.Multiset"
begin

text \<open>
  Package \<open>sort\<close>: \<open>sort_by lt\<close> is the stable sort for a comparison \<open>lt\<close> as the source writes it (\<open>sort.Slice\<close>
  leaves the order of elements that compare equal open; here they keep it), \<open>str_less\<close> compares
  strings byte by byte. The lemmas say what a caller may rely on.
\<close>

fun str_less :: "string \<Rightarrow> string \<Rightarrow> bool" where
  "str_less s [] = False"
| "str_less [] (y # ys) = True"
| "str_less (x # xs) (y # ys) =
     ((of_char x :: nat) < of_char y \<or> x = y \<and> str_less xs ys)"

fun insert_by :: "('a \<Rightarrow> 'a \<Rightarrow> bool) \<Rightarrow> 'a \<Rightarrow> 'a list \<Rightarrow> 'a list" where
  "insert_by lt x [] = [x]"
| "insert_by lt x (y # ys) = (if lt y x then y # insert_by lt x ys else x # y # ys)"

definition sort_by :: "('a \<Rightarrow> 'a \<Rightarrow> bool) \<Rightarrow> 'a list \<Rightarrow> 'a list" where
  "sort_by lt xs = foldr (insert_by lt) xs []"

lemma sort_by_Nil [simp]: "sort_by lt xs = [] \<longleftrightarrow> xs = []"
proof -
  have "insert_by lt x ys \<noteq> []" for x :: 'a and ys by (cases ys) auto
  then show ?thesis by (cases xs) (auto simp: sort_by_def)
qed

lemma set_insert_by [simp]: "set (insert_by lt x ys) = insert x (set ys)"
  by (induction ys) auto

lemma set_sort_by [simp]: "set (sort_by lt xs) = set xs"
  by (induction xs) (auto simp: sort_by_def)

lemma hd_insert_by: "hd (insert_by lt x ys) = (if ys = [] \<or> \<not> lt (hd ys) x then x else hd ys)"
  by (cases ys) auto

text \<open>The first of a sorted list: nothing comes before it.\<close>

lemma hd_sort_by:
  assumes tr: "\<And>x y z. lt x y \<Longrightarrow> lt y z \<Longrightarrow> lt x z" and ir: "\<And>x. \<not> lt x x"
    and neg: "\<And>x y z. \<not> lt x y \<Longrightarrow> \<not> lt y z \<Longrightarrow> \<not> lt x z"
  shows "y \<in> set xs \<Longrightarrow> \<not> lt y (hd (sort_by lt xs))"
proof (induction xs)
  case (Cons x xs)
  have s: "sort_by lt (x # xs) = insert_by lt x (sort_by lt xs)" by (simp add: sort_by_def)
  show ?case
  proof (cases "xs = []")
    case True
    with Cons ir show ?thesis by (simp add: sort_by_def)
  next
    case False
    then have hd: "hd (sort_by lt (x # xs)) = (if lt (hd (sort_by lt xs)) x then hd (sort_by lt xs) else x)"
      unfolding s hd_insert_by by simp
    show ?thesis
    proof (cases "y \<in> set xs")
      case True
      with Cons.IH have "\<not> lt y (hd (sort_by lt xs))" by simp
      then show ?thesis unfolding hd using neg [of y "hd (sort_by lt xs)" x] by simp
    next
      case False
      with Cons.prems have "y = x" by simp
      moreover have "\<not> lt x (hd (sort_by lt xs))" if "lt (hd (sort_by lt xs)) x"
        using tr [OF _ that, of x] ir [of x] by blast
      ultimately show ?thesis unfolding hd using ir [of x] by simp
    qed
  qed
qed simp

lemma mset_insert_by [simp]: "mset (insert_by lt x ys) = add_mset x (mset ys)"
  by (induction ys) auto

lemma mset_sort_by [simp]: "mset (sort_by lt xs) = mset xs"
  by (induction xs) (auto simp: sort_by_def)

lemma length_sort_by [simp]: "length (sort_by lt xs) = length xs"
  by (metis mset_sort_by size_mset)

lemma distinct_sort_by [simp]: "distinct (sort_by lt xs) = distinct xs"
  by (metis mset_sort_by mset_eq_imp_distinct_iff)

text \<open>A strict weak order, which \<open>sort\<close> asks for.\<close>

definition weak_order :: "('a \<Rightarrow> 'a \<Rightarrow> bool) \<Rightarrow> bool" where
  "weak_order lt \<longleftrightarrow> (\<forall>x. \<not> lt x x) \<and> (\<forall>x y z. lt x y \<longrightarrow> lt y z \<longrightarrow> lt x z) \<and>
     (\<forall>x y z. \<not> lt x y \<longrightarrow> \<not> lt y z \<longrightarrow> \<not> lt x z)"

lemma weak_order_asym: "weak_order lt \<Longrightarrow> lt x y \<Longrightarrow> \<not> lt y x"
  unfolding weak_order_def by blast

definition in_order :: "('a \<Rightarrow> 'a \<Rightarrow> bool) \<Rightarrow> 'a list \<Rightarrow> bool" where
  "in_order lt xs \<longleftrightarrow> sorted_wrt (\<lambda>x y. \<not> lt y x) xs"

lemma in_order_insert_by: "weak_order lt \<Longrightarrow> in_order lt ys \<Longrightarrow> in_order lt (insert_by lt x ys)"
proof (induction ys)
  case (Cons y ys)
  show ?case
  proof (cases "lt y x")
    case True
    with Cons show ?thesis using weak_order_asym [OF Cons.prems(1) True] by (auto simp: in_order_def)
  next
    case False
    have "\<not> lt z x" if "z \<in> set ys" for z
    proof -
      from Cons.prems(2) that have "\<not> lt z y" by (simp add: in_order_def)
      with False Cons.prems(1) show ?thesis unfolding weak_order_def by blast
    qed
    with False Cons.prems(2) show ?thesis by (auto simp: in_order_def)
  qed
qed (simp add: in_order_def)

lemma in_order_sort_by: "weak_order lt \<Longrightarrow> in_order lt (sort_by lt xs)"
proof (induction xs)
  case (Cons x xs)
  then show ?case using in_order_insert_by [of lt "sort_by lt xs" x] by (simp add: sort_by_def)
qed (simp add: sort_by_def in_order_def)

lemma in_order_sublist: "in_order lt xs \<Longrightarrow> in_order lt (take n (drop k xs))"
  unfolding in_order_def by (intro sorted_wrt_take sorted_wrt_drop)

lemma str_less_irrefl [simp]: "\<not> str_less x x"
  by (induction x) auto

lemma str_less_trans: "str_less x y \<Longrightarrow> str_less y z \<Longrightarrow> str_less x z"
proof (induction x y arbitrary: z rule: str_less.induct)
  case (3 x xs y ys)
  then show ?case by (cases z) auto
next
  case (2 y ys)
  then show ?case by (cases z) auto
qed simp

lemma str_less_linear: "str_less x y \<or> x = y \<or> str_less y x"
proof (induction x y rule: str_less.induct)
  case (1 s)
  show ?case by (cases s) simp_all
next
  case (3 x xs y ys)
  consider "(of_char x :: nat) < of_char y" | "x = y" | "(of_char y :: nat) < of_char x"
  proof (cases "(of_char x :: nat) = of_char y")
    case True
    then have "x = y" by (simp only: of_char_eq_iff)
    then show ?thesis using that by blast
  next
    case False
    then show ?thesis using that by (meson linorder_neqE_nat)
  qed
  then show ?case using 3 by cases simp_all
qed simp

lemma weak_order_str_less: "weak_order str_less"
  unfolding weak_order_def using str_less_trans str_less_linear by (metis str_less_irrefl)

lemma weak_order_key: "weak_order lt \<Longrightarrow> weak_order (\<lambda>x y. lt (f x) (f y))"
  unfolding weak_order_def by blast

end
