(* ===== verification/Go_Net.thy ===== *)
theory Go_Net
  imports Main
begin

text \<open>
  \<open>net.IP\<close> is 4 or 16 bytes; \<open>To4\<close> and the predicates are those of package \<open>net\<close>, with the bit masks written
  as divisions.
\<close>

type_synonym ip = "nat list"

definition ip_to4 :: "ip \<Rightarrow> ip option" where
  "ip_to4 i =
     (if length i = 4 then Some i
      else if length i = 16 \<and> take 12 i = replicate 10 0 @ [255, 255] then Some (drop 12 i)
      else None)"

definition ip_loopback :: "ip \<Rightarrow> bool" where
  "ip_loopback i = (case ip_to4 i of Some j \<Rightarrow> j ! 0 = 127 | None \<Rightarrow> i = replicate 15 0 @ [1])"

definition ip_unspecified :: "ip \<Rightarrow> bool" where
  "ip_unspecified i = (case ip_to4 i of Some j \<Rightarrow> j = [0, 0, 0, 0] | None \<Rightarrow> i = replicate 16 0)"

definition ip_multicast :: "ip \<Rightarrow> bool" where
  "ip_multicast i = (case ip_to4 i of Some j \<Rightarrow> j ! 0 div 16 = 14 | None \<Rightarrow> length i = 16 \<and> i ! 0 = 255)"

definition ip_link_local :: "ip \<Rightarrow> bool" where
  "ip_link_local i = (case ip_to4 i of Some j \<Rightarrow> j ! 0 = 169 \<and> j ! 1 = 254
     | None \<Rightarrow> length i = 16 \<and> i ! 0 = 254 \<and> i ! 1 div 64 = 2)"

definition ip_private :: "ip \<Rightarrow> bool" where
  "ip_private i = (case ip_to4 i of
       Some j \<Rightarrow> j ! 0 = 10 \<or> (j ! 0 = 172 \<and> j ! 1 div 16 = 1) \<or> (j ! 0 = 192 \<and> j ! 1 = 168)
     | None \<Rightarrow> length i = 16 \<and> i ! 0 div 2 = 126)"

definition ip_global_unicast :: "ip \<Rightarrow> bool" where
  "ip_global_unicast i \<longleftrightarrow> (length i = 4 \<or> length i = 16) \<and> ip_to4 i \<noteq> Some [255, 255, 255, 255] \<and>
     \<not> ip_unspecified i \<and> \<not> ip_loopback i \<and> \<not> ip_multicast i \<and> \<not> ip_link_local i"

text \<open>\<open>net.IPNet\<close>: the network number and the length of its mask. \<open>Contains\<close> compares the masked bytes.\<close>

fun prefix_match :: "nat \<Rightarrow> nat list \<Rightarrow> nat list \<Rightarrow> bool" where
  "prefix_match n (x # xs) (y # ys) =
     (if n = 0 then True else if 8 \<le> n then x = y \<and> prefix_match (n - 8) xs ys else x div 2 ^ (8 - n) = y div 2 ^ (8 - n))"
| "prefix_match n xs ys = True"

definition net_contains :: "ip \<times> nat \<Rightarrow> ip \<Rightarrow> bool" where
  "net_contains nw i =
     (let j = (case ip_to4 i of Some x \<Rightarrow> x | None \<Rightarrow> i) in
      length j = length (fst nw) \<and> prefix_match (snd nw) (fst nw) j)"

lemma net_contains_v4:
  "ip_to4 i = Some j \<Longrightarrow> length j = 4 \<Longrightarrow> net_contains (nw, n) i \<longleftrightarrow> length nw = 4 \<and> prefix_match n nw j"
  by (auto simp: net_contains_def)

lemma net_contains_v6:
  "ip_to4 i = None \<Longrightarrow> length i = 16 \<Longrightarrow> net_contains (nw, n) i \<longleftrightarrow> length nw = 16 \<and> prefix_match n nw i"
  by (auto simp: net_contains_def)

lemma prefix_match_whole: "length xs = length ys \<Longrightarrow> prefix_match (8 * length xs) xs ys \<longleftrightarrow> xs = ys"
  by (induction xs ys rule: list_induct2) auto

lemma prefix_match_bytes:
  "prefix_match 0 xs ys" "prefix_match 8 (x # xs) (y # ys) \<longleftrightarrow> x = y"
  "prefix_match 16 (x # x' # xs) (y # y' # ys) \<longleftrightarrow> x = y \<and> x' = y'"
  "prefix_match 12 (x # x' # xs) (y # y' # ys) \<longleftrightarrow> x = y \<and> x' div 16 = y' div 16"
  "prefix_match 10 (x # x' # xs) (y # y' # ys) \<longleftrightarrow> x = y \<and> x' div 64 = y' div 64"
  "prefix_match 7 (x # xs) (y # ys) \<longleftrightarrow> x div 2 = y div 2"
proof -
  show z: "prefix_match 0 us vs" for us vs by (cases us; cases vs) auto
  show "prefix_match 8 (x # xs) (y # ys) \<longleftrightarrow> x = y" by (simp add: z)
  show "prefix_match 16 (x # x' # xs) (y # y' # ys) \<longleftrightarrow> x = y \<and> x' = y'" by (simp add: z)
qed simp_all

text \<open>An address as \<open>ParseIP\<close> yields it.\<close>

definition ip_ok :: "ip \<Rightarrow> bool" where
  "ip_ok i \<longleftrightarrow> (length i = 4 \<or> length i = 16) \<and> (\<forall>b \<in> set i. b < 256)"

end
