(* ===== verification/Helm_Charts.thy ===== *)
theory Helm_Charts
  imports Helm_Access Go_Sort Go_Net
begin

text \<open>
  Charts, their sources and the risks of a rendered change: the functions of
  \<open>packages/helm_adapter.go\<close> that need no cluster, with the types of \<open>packages/types.go\<close>. URL parsing, name
  resolution, YAML decoding, SHA-256 and the accessors of \<open>unstructured\<close> objects are parameters.
\<close>

section \<open>Types\<close>

record chart_source =
  cs_chart :: string
  cs_repo_url :: string
  cs_version :: string
  cs_repo_id :: nat
  cs_upload :: string
  cs_username :: string
  cs_password :: string
  cs_private :: bool

definition no_source :: chart_source where
  "no_source = \<lparr>cs_chart = [], cs_repo_url = [], cs_version = [], cs_repo_id = 0, cs_upload = [], cs_username = [],
     cs_password = [], cs_private = False\<rparr>"

record change_options =
  co_release :: string
  co_namespace :: string
  co_source :: chart_source
  co_values :: fields
  co_create_ns :: bool
  co_wait :: bool
  co_atomic :: bool
  co_timeout :: duration
  co_token :: string
  co_digest :: string

record risk =
  rk_level :: string
  rk_code :: string
  rk_message :: string
  rk_resource :: string

record resource_ref =
  rr_api :: string
  rr_kind :: string
  rr_namespace :: string
  rr_name :: string

text \<open>Of a chart: what the code reads of \<open>chart.Chart\<close>; the two JSON texts are the marshalled metadata and values.\<close>

datatype chart = Chart
  (ch_name: string) (ch_version: string) (ch_app_version: string) (ch_description: string)
  (ch_meta_json: string) (ch_values_json: string) (ch_values: fields)
  (ch_raw: "(string \<times> string) list") (ch_templates: "(string \<times> string) list") (ch_files: "(string \<times> string) list")
  (ch_deps: "chart list")

section \<open>Public addresses\<close>

definition is_public_ip :: "ip \<Rightarrow> bool" where
  "is_public_ip i \<longleftrightarrow> ip_global_unicast i \<and> \<not> ip_private i \<and> \<not> ip_loopback i \<and> \<not> ip_link_local i"

section \<open>Source validation\<close>

record url =
  u_scheme :: string
  u_host :: string
  u_user :: bool

text \<open>
  The network the functions see: \<open>url.ParseRequestURI\<close>, \<open>url.Parse\<close> (\<open>None\<close> is an error), the resolver, and an
  HTTP exchange (URL, credentials, the addresses it may dial) with its status and body.
\<close>

record net =
  n_parse_request :: "string \<Rightarrow> url option"
  n_parse :: "string \<Rightarrow> url option"
  n_lookup :: "string \<Rightarrow> ip list option"
  n_get :: "string \<Rightarrow> (string \<times> string) option \<Rightarrow> (ip list \<Rightarrow> ip option) \<Rightarrow> (int \<times> string) res"

definition plain_error :: "string \<Rightarrow> go_error" where "plain_error m = OtherErr m False"

definition validate_public_host :: "net \<Rightarrow> string \<Rightarrow> go_error option" where
  "validate_public_host n host =
     (case n_lookup n host of
        None \<Rightarrow> Some (plain_error ''host could not be resolved'')
      | Some as \<Rightarrow>
          if as = [] then Some (plain_error ''host could not be resolved'')
          else if list_ex (\<lambda>a. \<not> is_public_ip a) as then Some (plain_error ''private or local hosts are not allowed'')
          else None)"

definition validate_repository_url :: "net \<Rightarrow> string \<Rightarrow> bool \<Rightarrow> go_error option" where
  "validate_repository_url n raw allow =
     (case n_parse_request n raw of
        None \<Rightarrow> Some (plain_error ''only absolute HTTPS URLs are allowed'')
      | Some u \<Rightarrow>
          if u_scheme u \<noteq> ''https'' \<or> u_host u = [] then Some (plain_error ''only absolute HTTPS URLs are allowed'')
          else if u_user u then Some (plain_error ''credentials in URLs are not allowed'')
          else if allow then None
          else validate_public_host n (u_host u))"

definition validate_oci_base :: "net \<Rightarrow> string \<Rightarrow> bool \<Rightarrow> go_error option" where
  "validate_oci_base n raw allow =
     (case n_parse n raw of
        None \<Rightarrow> Some (plain_error ''a valid oci:// URL is required'')
      | Some u \<Rightarrow>
          if u_scheme u \<noteq> ''oci'' \<or> u_host u = [] \<or> u_user u then Some (plain_error ''a valid oci:// URL is required'')
          else if allow then None
          else validate_public_host n (u_host u))"

definition validate_chart_source :: "net \<Rightarrow> chart_source \<Rightarrow> go_error option" where
  "validate_chart_source n src =
     (let ref = trim_space (cs_chart src); repo = trim_space (cs_repo_url src) in
      if has_prefix ref ''/'' \<or> has_prefix ref ''.'' \<or> has_prefix ref ''file:'' then Some (plain_error ''local chart paths are not allowed'')
      else if repo \<noteq> [] then
        if contains ref ''://'' then Some (plain_error ''chart must be a repository chart name when repoUrl is set'')
        else (case validate_repository_url n repo (cs_private src) of
                Some e \<Rightarrow> Some (plain_error (''invalid repository URL: '' @ error_string e)) | None \<Rightarrow> None)
      else if has_prefix ref ''oci://'' then
        (case n_parse n ref of
           None \<Rightarrow> Some (plain_error ''invalid OCI chart reference'')
         | Some u \<Rightarrow>
             if u_host u = [] \<or> u_user u then Some (plain_error ''invalid OCI chart reference'')
             else if cs_private src then None
             else validate_public_host n (u_host u))
      else validate_repository_url n ref (cs_private src))"

text \<open>
  The dialer: the first address that may be dialled. A body is read up to one byte beyond the limit,
  which shows that it is too long.
\<close>

fun dial_target :: "bool \<Rightarrow> ip list \<Rightarrow> ip option" where
  "dial_target allow [] = None"
| "dial_target allow (a # as) = (if allow \<or> is_public_ip a then Some a else dial_target allow as)"

definition fetch_with_source :: "net \<Rightarrow> string \<Rightarrow> int \<Rightarrow> chart_source \<Rightarrow> string res" where
  "fetch_with_source n raw limit src =
     (case validate_repository_url n raw (cs_private src) of
        Some e \<Rightarrow> Inl e
      | None \<Rightarrow>
          (case n_get n raw (if cs_username src \<noteq> [] \<or> cs_password src \<noteq> [] then Some (cs_username src, cs_password src) else None)
                  (dial_target (cs_private src)) of
             Inl e \<Rightarrow> Inl e
           | Inr (status, body) \<Rightarrow>
               if status < 200 \<or> 300 \<le> status then Inl (plain_error (''unexpected HTTP status '' @ dec_int status))
               else if limit < int (length body) then Inl (plain_error (''download exceeds '' @ dec_int limit @ '' byte limit''))
               else Inr body))"

section \<open>Templates that query the cluster\<close>

definition is_word_char :: "char \<Rightarrow> bool" where
  "is_word_char c \<longleftrightarrow> c = CHR ''_'' \<or> c = CHR ''-'' \<or> (let n = of_char c :: nat in
     97 \<le> n \<and> n \<le> 122 \<or> 65 \<le> n \<and> n \<le> 90 \<or> 48 \<le> n \<and> n \<le> 57)"

text \<open>\<open>strings.FieldsFunc\<close>: the maximal runs of word characters.\<close>

fun words_from :: "string \<Rightarrow> string \<Rightarrow> string list" where
  "words_from acc [] = (if acc = [] then [] else [acc])"
| "words_from acc (c # cs) =
     (if is_word_char c then words_from (acc @ [c]) cs
      else (if acc = [] then [] else [acc]) @ words_from [] cs)"

definition uses_lookup :: "string \<Rightarrow> bool" where
  "uses_lookup tmpl = list_ex (\<lambda>w. w = ''lookup'') (words_from [] tmpl)"

definition lookup_error :: go_error where
  "lookup_error = biz_new CodeValidation ''chart templates using Helm lookup are not supported for security reasons''"

fun reject_cluster_lookups :: "chart \<Rightarrow> go_error option"
  and reject_dependencies :: "chart list \<Rightarrow> go_error option" where
  "reject_cluster_lookups (Chart nm v av d mj vj vs rw ts fs deps) =
     (if list_ex (\<lambda>(_, data). uses_lookup data) ts then Some lookup_error else reject_dependencies deps)"
| "reject_dependencies [] = None"
| "reject_dependencies (c # cs) =
     (case reject_cluster_lookups c of Some e \<Rightarrow> Some e | None \<Rightarrow> reject_dependencies cs)"

inductive subchart :: "chart \<Rightarrow> chart \<Rightarrow> bool" where
  here: "subchart c c"
| below: "d \<in> set (ch_deps c) \<Longrightarrow> subchart x d \<Longrightarrow> subchart x c"

section \<open>Digests\<close>

fun digest_entries :: "string \<Rightarrow> chart \<Rightarrow> (string \<times> string) list"
  and digest_dep_entries :: "string \<Rightarrow> chart list \<Rightarrow> (string \<times> string) list" where
  "digest_entries prefix (Chart nm v av d mj vj vs rw ts fs deps) =
     (prefix @ ''Chart.json'', mj) # (prefix @ ''values.json'', vj) #
       map (\<lambda>(n, b). (prefix @ n, b)) (rw @ ts @ fs) @ digest_dep_entries prefix deps"
| "digest_dep_entries prefix [] = []"
| "digest_dep_entries prefix (c # cs) = digest_entries (prefix @ ch_name c @ ''/'') c @ digest_dep_entries prefix cs"

text \<open>What is hashed: names and contents in the order of the names, a NUL byte between the two.\<close>

definition digest_input :: "chart \<Rightarrow> string" where
  "digest_input c = concat (map (\<lambda>(n, b). n @ CHR 0x00 # b) (sort_by (\<lambda>x y. str_less (fst x) (fst y)) (digest_entries [] c)))"

definition chart_digest :: "(string \<Rightarrow> string) \<Rightarrow> chart \<Rightarrow> string" where
  "chart_digest sha c = sha (digest_input c)"

definition change_digest :: "(string \<Rightarrow> string) \<Rightarrow> chart \<Rightarrow> string \<Rightarrow> string" where
  "change_digest sha c manifest = sha (chart_digest sha c @ CHR 0x00 # manifest)"

text \<open>\<open>releaseManifest\<close>: the manifest and the hooks that are not blank.\<close>

definition release_manifest :: "string \<Rightarrow> string list \<Rightarrow> string" where
  "release_manifest m hooks =
     foldl (\<lambda>acc h. acc @ CHR 0x0A # ''---'' @ CHR 0x0A # h) m (filter (\<lambda>h. trim_space h \<noteq> []) hooks)"

section \<open>Risks of a manifest\<close>

text \<open>The accessors of \<open>unstructured\<close>: \<open>None\<close> when the field is absent or of another type.\<close>

record accessors =
  nested_map :: "fields \<Rightarrow> string list \<Rightarrow> fields option"
  nested_bool :: "fields \<Rightarrow> string list \<Rightarrow> bool option"
  nested_slice :: "fields \<Rightarrow> string list \<Rightarrow> json list option"
  nested_int :: "fields \<Rightarrow> string list \<Rightarrow> int option"
  nested_strings :: "fields \<Rightarrow> string list \<Rightarrow> string list option"
  nested_string :: "fields \<Rightarrow> string list \<Rightarrow> string option"

definition critical :: "string \<Rightarrow> string \<Rightarrow> string \<Rightarrow> risk" where
  "critical code msg rsrc = \<lparr>rk_level = ''critical'', rk_code = code, rk_message = msg, rk_resource = rsrc\<rparr>"

definition workload_pod_spec_path :: "string \<Rightarrow> string list" where
  "workload_pod_spec_path kind =
     (if kind = ''Pod'' then [''spec'']
      else if kind = ''CronJob'' then [''spec'', ''jobTemplate'', ''spec'', ''template'', ''spec'']
      else if kind = ''Deployment'' \<or> kind = ''StatefulSet'' \<or> kind = ''DaemonSet'' \<or> kind = ''ReplicaSet'' \<or> kind = ''Job''
        then [''spec'', ''template'', ''spec'']
      else [''_missing''])"

definition is_true :: "bool option \<Rightarrow> bool" where "is_true b \<longleftrightarrow> b = Some True"

definition host_path_volume :: "json \<Rightarrow> bool" where
  "host_path_volume v = (case v of JObj m \<Rightarrow> gm_get m ''hostPath'' \<noteq> None | _ \<Rightarrow> False)"

definition host_port :: "accessors \<Rightarrow> json \<Rightarrow> bool" where
  "host_port acc v = (case v of
       JObj m \<Rightarrow> (case nested_int acc m [''hostPort''] of Some p \<Rightarrow> 0 < p | None \<Rightarrow> False)
     | _ \<Rightarrow> False)"

definition slice_or_nil :: "json list option \<Rightarrow> json list" where
  "slice_or_nil s = (case s of Some xs \<Rightarrow> xs | None \<Rightarrow> [])"

definition container_risks :: "accessors \<Rightarrow> string \<Rightarrow> json \<Rightarrow> risk list" where
  "container_risks acc rsrc v = (case v of
       JObj c \<Rightarrow>
         (if is_true (nested_bool acc c [''securityContext'', ''privileged'']) then [critical ''privileged-container'' ''runs a privileged container'' rsrc] else []) @
         (if is_true (nested_bool acc c [''securityContext'', ''allowPrivilegeEscalation'']) then [critical ''privilege-escalation'' ''allows process privilege escalation'' rsrc] else []) @
         (if nested_int acc c [''securityContext'', ''runAsUser''] = Some 0 then [critical ''root-container'' ''explicitly runs as root'' rsrc] else []) @
         (case nested_strings acc c [''securityContext'', ''capabilities'', ''add''] of
            Some caps \<Rightarrow> if 0 < length caps then [critical ''linux-capabilities'' ''adds Linux capabilities'' rsrc] else []
          | None \<Rightarrow> []) @
         (if list_ex (host_port acc) (slice_or_nil (nested_slice acc c [''ports''])) then [critical ''host-port'' ''binds a port on the host'' rsrc] else [])
     | _ \<Rightarrow> [])"

definition inspect_pod_spec :: "accessors \<Rightarrow> fields \<Rightarrow> string \<Rightarrow> risk list" where
  "inspect_pod_spec acc spec rsrc =
     concat (map (\<lambda>f. if is_true (nested_bool acc spec [f]) then [critical ''host-access'' (f @ '' is enabled'') rsrc] else [])
       [''hostNetwork'', ''hostPID'', ''hostIPC'']) @
     concat (map (\<lambda>v. if host_path_volume v then [critical ''host-path'' ''mounts a hostPath volume'' rsrc] else [])
       (slice_or_nil (nested_slice acc spec [''volumes'']))) @
     concat (map (\<lambda>g. concat (map (container_risks acc rsrc) (slice_or_nil (nested_slice acc spec [g]))))
       [''containers'', ''initContainers'', ''ephemeralContainers''])"

definition sensitive_kind :: "string \<Rightarrow> bool" where
  "sensitive_kind k \<longleftrightarrow> k \<in> set [''CustomResourceDefinition'', ''ClusterRole'', ''ClusterRoleBinding'', ''Role'', ''RoleBinding'',
     ''MutatingWebhookConfiguration'', ''ValidatingWebhookConfiguration'', ''Namespace'']"

text \<open>\<open>GetKind\<close>, \<open>GetName\<close>, \<open>GetNamespace\<close>, \<open>GetAPIVersion\<close>: empty when the field is missing.\<close>

definition str_at :: "accessors \<Rightarrow> fields \<Rightarrow> string list \<Rightarrow> string" where
  "str_at acc o' path = (case nested_string acc o' path of Some s \<Rightarrow> s | None \<Rightarrow> [])"

definition object_ref :: "accessors \<Rightarrow> fields \<Rightarrow> resource_ref" where
  "object_ref acc ob = \<lparr>rr_api = str_at acc ob [''apiVersion''], rr_kind = str_at acc ob [''kind''],
     rr_namespace = str_at acc ob [''metadata'', ''namespace''], rr_name = str_at acc ob [''metadata'', ''name'']\<rparr>"

definition inspect_object :: "accessors \<Rightarrow> fields \<Rightarrow> (resource_ref \<times> risk list) option" where
  "inspect_object acc ob =
     (let ref = object_ref acc ob; rsrc = rr_kind ref @ ''/'' @ rr_name ref in
      if rr_kind ref = [] \<or> rr_name ref = [] then None
      else Some (ref,
        (if sensitive_kind (rr_kind ref) then [critical ''security-sensitive-resource'' ''creates or changes a security-sensitive resource'' rsrc] else []) @
        (case nested_map acc ob (workload_pod_spec_path (rr_kind ref)) of
           Some spec \<Rightarrow> inspect_pod_spec acc spec rsrc | None \<Rightarrow> [])))"

text \<open>
  \<open>docs\<close> are the objects the YAML decoder delivers before the end, and whether it ended in an error.
\<close>

definition inspect_manifest :: "accessors \<Rightarrow> (string \<Rightarrow> fields list \<times> bool) \<Rightarrow> string \<Rightarrow> resource_ref list \<times> risk list" where
  "inspect_manifest acc docs m =
     (case docs m of (obs, err) \<Rightarrow>
        let found = List.map_filter (inspect_object acc) obs in
        (map fst found,
         concat (map snd found) @
           (if err then [\<lparr>rk_level = ''critical'', rk_code = ''manifest-parse'',
              rk_message = ''rendered manifest could not be fully inspected'', rk_resource = []\<rparr>] else [])))"

definition has_critical_risk :: "risk list \<Rightarrow> bool" where
  "has_critical_risk rs = list_ex (\<lambda>r. rk_level r = ''critical'') rs"

section \<open>Redaction of a manifest\<close>

definition redacted_data :: json where
  "redacted_data = JObj [(''redacted'', JStr ''[REDACTED]'')]"

definition redact_object :: "fields \<Rightarrow> fields" where
  "redact_object ob =
     (if as_str (gm_get ob ''kind'') = Some ''Secret'' then gm_put ''stringData'' redacted_data (gm_put ''data'' redacted_data ob) else ob)"

definition redact_manifest :: "(string \<Rightarrow> fields list \<times> bool) \<Rightarrow> (fields \<Rightarrow> string option) \<Rightarrow> string \<Rightarrow> string" where
  "redact_manifest docs marshal m =
     (case List.map_filter (\<lambda>ob. if ob = [] then None else marshal (redact_object ob)) (fst (docs m)) of
        [] \<Rightarrow> []
      | d # ds \<Rightarrow> foldl (\<lambda>acc x. acc @ ''---'' @ CHR 0x0A # x) d ds)"

section \<open>Properties of the checks\<close>

definition delimited :: "string \<Rightarrow> string \<Rightarrow> string \<Rightarrow> bool" where
  "delimited a w b \<longleftrightarrow> list_all is_word_char w \<and> w \<noteq> [] \<and> list_all (\<lambda>c. \<not> is_word_char c) (take 1 (rev a)) \<and>
     list_all (\<lambda>c. \<not> is_word_char c) (take 1 b)"

lemma words_from_run:
  "list_all is_word_char w \<Longrightarrow> words_from acc (w @ s) = words_from (acc @ w) s"
  by (induction w arbitrary: acc) auto

lemma words_from_sound:
  "list_all is_word_char acc \<Longrightarrow> w \<in> set (words_from acc s) \<Longrightarrow> \<exists>a b. acc @ s = a @ w @ b \<and> delimited a w b"
proof (induction acc s rule: words_from.induct)
  case (1 acc)
  then show ?case by (intro exI [of _ "[]"]) (auto simp: delimited_def split: if_splits)
next
  case (2 acc c cs)
  show ?case
  proof (cases "is_word_char c")
    case True
    then show ?thesis using 2(1) [OF True] 2(3,4) by simp
  next
    case False
    show ?thesis
    proof (cases "w \<in> set (words_from [] cs)")
      case True
      then obtain a b where ab: "cs = a @ w @ b" "delimited a w b" using 2(2) [OF False] by auto
      then have "delimited (acc @ c # a) w b" using False by (cases a rule: rev_cases) (auto simp: delimited_def)
      with ab show ?thesis by (intro exI [of _ "acc @ c # a"] exI [of _ b]) simp
    next
      case not_later: False
      then have "w = acc" "acc \<noteq> []" using 2(4) False by (auto split: if_splits)
      then have "delimited [] w (c # cs)" using 2(3) False by (simp add: delimited_def)
      then show ?thesis using \<open>w = acc\<close> by (intro exI [of _ "[]"] exI [of _ "c # cs"]) simp
    qed
  qed
qed

lemma words_from_rest: "words_from acc (c # s) = (if acc = [] then [] else [acc]) @ words_from [] s" if "\<not> is_word_char c"
  using that by simp

lemma words_from_complete: "delimited a w b \<Longrightarrow> list_all is_word_char acc \<Longrightarrow> a \<noteq> [] \<or> acc = [] \<Longrightarrow> w \<in> set (words_from acc (a @ w @ b))"
proof (induction a arbitrary: acc)
  case Nil
  then have "words_from acc (w @ b) = words_from w b" by (simp add: words_from_run delimited_def)
  also have "w \<in> set (words_from w b)" using Nil(1) by (cases b) (auto simp: delimited_def)
  finally show ?case by simp
next
  case (Cons c a)
  show ?case
  proof (cases "is_word_char c")
    case True
    then have "a \<noteq> []" using Cons.prems(1) by (auto simp: delimited_def)
    then have "delimited a w b" using Cons.prems(1) by (cases a rule: rev_cases) (auto simp: delimited_def)
    with Cons True \<open>a \<noteq> []\<close> show ?thesis by simp
  next
    case False
    have "delimited a w b" using Cons.prems(1) by (cases a rule: rev_cases) (auto simp: delimited_def)
    with Cons.IH [of "[]"] False show ?thesis by simp
  qed
qed

lemma uses_lookup_iff: "uses_lookup t \<longleftrightarrow> (\<exists>a b. t = a @ ''lookup'' @ b \<and> delimited a ''lookup'' b)"
  using words_from_sound [of "[]" "''lookup''" t] words_from_complete [of _ "''lookup''" _ "[]"]
  by (auto simp: uses_lookup_def list_ex_iff)

inductive_simps subchart_Chart: "subchart x (Chart nm v av d mj vj vs rw ts fs deps)"

lemma rejects_iff:
  "reject_cluster_lookups c \<noteq> None \<longleftrightarrow> (\<exists>x p. subchart x c \<and> p \<in> set (ch_templates x) \<and> uses_lookup (snd p))"
  "reject_dependencies cs \<noteq> None \<longleftrightarrow> (\<exists>c x p. c \<in> set cs \<and> subchart x c \<and> p \<in> set (ch_templates x) \<and> uses_lookup (snd p))"
proof (induction c and cs rule: reject_cluster_lookups_reject_dependencies.induct)
  case (1 nm v av d mj vj vs rw ts fs deps)
  let ?c = "Chart nm v av d mj vj vs rw ts fs deps"
  let ?R = "\<exists>x p. subchart x ?c \<and> p \<in> set (ch_templates x) \<and> uses_lookup (snd p)"
  have R: "?R \<longleftrightarrow> (\<exists>p \<in> set ts. uses_lookup (snd p)) \<or>
      (\<exists>c x p. c \<in> set deps \<and> subchart x c \<and> p \<in> set (ch_templates x) \<and> uses_lookup (snd p))"
    unfolding subchart_Chart by (metis chart.sel(9))
  show ?case
  proof (cases "\<exists>p \<in> set ts. uses_lookup (snd p)")
    case True
    then have "list_ex (\<lambda>(_, data). uses_lookup data) ts" by (simp add: list_ex_iff case_prod_beta)
    with True R show ?thesis by simp
  next
    case False
    then have "\<not> list_ex (\<lambda>(_, data). uses_lookup data) ts" by (simp add: list_ex_iff case_prod_beta)
    with False R 1 show ?thesis by simp
  qed
next
  case (3 c cs)
  show ?case
  proof (cases "reject_cluster_lookups c = None")
    case True
    have "\<not> (\<exists>x p. subchart x c \<and> p \<in> set (ch_templates x) \<and> uses_lookup (snd p))" using 3(1) True by blast
    moreover have "reject_dependencies (c # cs) = reject_dependencies cs" using True by simp
    ultimately show ?thesis using 3(2) [OF True] by (metis list.set_intros(2) set_ConsD)
  next
    case False
    then have "reject_dependencies (c # cs) \<noteq> None" by auto
    moreover have "\<exists>x p. subchart x c \<and> p \<in> set (ch_templates x) \<and> uses_lookup (snd p)" using 3(1) False by blast
    ultimately show ?thesis by (metis list.set_intros(1))
  qed
qed simp

text \<open>
  A chart passes the screening exactly when no template of it, or of any chart it depends on at any
  depth, contains the word lookup: the recursion misses no chart and no occurrence, and rejects
  nothing else.
\<close>

theorem lookup_screening_exact:
  "reject_cluster_lookups c = None \<longleftrightarrow>
     \<not> (\<exists>x name a b. subchart x c \<and> (name, a @ ''lookup'' @ b) \<in> set (ch_templates x) \<and> delimited a ''lookup'' b)"
proof -
  have "(\<exists>x p. subchart x c \<and> p \<in> set (ch_templates x) \<and> uses_lookup (snd p)) \<longleftrightarrow>
    (\<exists>x name a b. subchart x c \<and> (name, a @ ''lookup'' @ b) \<in> set (ch_templates x) \<and> delimited a ''lookup'' b)"
    unfolding uses_lookup_iff by (metis prod.collapse snd_conv)
  with rejects_iff(1) [of c] show ?thesis by blast
qed

section \<open>What a change without critical risk may contain\<close>

definition risky_container :: "accessors \<Rightarrow> fields \<Rightarrow> bool" where
  "risky_container acc c \<longleftrightarrow>
     nested_bool acc c [''securityContext'', ''privileged''] = Some True \<or>
     nested_bool acc c [''securityContext'', ''allowPrivilegeEscalation''] = Some True \<or>
     nested_int acc c [''securityContext'', ''runAsUser''] = Some 0 \<or>
     (\<exists>x xs. nested_strings acc c [''securityContext'', ''capabilities'', ''add''] = Some (x # xs)) \<or>
     (\<exists>ports m p. nested_slice acc c [''ports''] = Some ports \<and> JObj m \<in> set ports \<and> nested_int acc m [''hostPort''] = Some p \<and> 0 < p)"

definition risky_pod :: "accessors \<Rightarrow> fields \<Rightarrow> bool" where
  "risky_pod acc spec \<longleftrightarrow>
     (\<exists>f \<in> {''hostNetwork'', ''hostPID'', ''hostIPC''}. nested_bool acc spec [f] = Some True) \<or>
     (\<exists>vs m. nested_slice acc spec [''volumes''] = Some vs \<and> JObj m \<in> set vs \<and> ''hostPath'' \<in> fst ` set m) \<or>
     (\<exists>g \<in> {''containers'', ''initContainers'', ''ephemeralContainers''}. \<exists>cs c.
        nested_slice acc spec [g] = Some cs \<and> JObj c \<in> set cs \<and> risky_container acc c)"

definition risky_object :: "accessors \<Rightarrow> fields \<Rightarrow> bool" where
  "risky_object acc ob \<longleftrightarrow> rr_kind (object_ref acc ob) \<noteq> [] \<and> rr_name (object_ref acc ob) \<noteq> [] \<and>
     (sensitive_kind (rr_kind (object_ref acc ob)) \<or>
      (\<exists>spec. nested_map acc ob (workload_pod_spec_path (rr_kind (object_ref acc ob))) = Some spec \<and> risky_pod acc spec))"

lemma critical_level [simp]: "rk_level (critical c m r) = ''critical''"
  by (simp add: critical_def)

lemma crit_if: "(\<exists>r \<in> set (if b then [critical c m rs] else []). rk_level r = ''critical'') \<longleftrightarrow> b"
  by auto

lemma crit_concat:
  "(\<exists>r \<in> set (concat (map (\<lambda>x. if P x then [critical c (m x) rs] else []) xs)). rk_level r = ''critical'') \<longleftrightarrow> (\<exists>x \<in> set xs. P x)"
  by auto

lemma found_concat:
  "(\<exists>r \<in> set (concat (map snd (List.map_filter f xs))). P r) \<longleftrightarrow>
     (\<exists>x. x \<in> set xs \<and> (\<exists>a b. f x = Some (a, b) \<and> (\<exists>r \<in> set b. P r)))"
proof (induction xs)
  case (Cons x xs)
  show ?case
  proof (cases "f x")
    case None
    with Cons show ?thesis by (auto simp: List.map_filter_def)
  next
    case (Some ab)
    then obtain a b where ab: "f x = Some (a, b)" by (cases ab) auto
    then have "set (concat (map snd (List.map_filter f (x # xs)))) = set b \<union> set (concat (map snd (List.map_filter f xs)))"
      by (simp add: List.map_filter_def)
    then have "(\<exists>r \<in> set (concat (map snd (List.map_filter f (x # xs)))). P r) \<longleftrightarrow>
        (\<exists>r \<in> set b. P r) \<or> (\<exists>r \<in> set (concat (map snd (List.map_filter f xs))). P r)" by blast
    with Cons ab show ?thesis by auto
  qed
qed (simp add: List.map_filter_def)

lemma host_port_iff: "host_port acc v \<longleftrightarrow> (\<exists>m p. v = JObj m \<and> nested_int acc m [''hostPort''] = Some p \<and> 0 < p)"
  by (auto simp: host_port_def split: json.splits option.splits)

lemma host_path_iff: "host_path_volume v \<longleftrightarrow> (\<exists>m. v = JObj m \<and> ''hostPath'' \<in> fst ` set m)"
  by (auto simp: host_path_volume_def map_of_eq_None_iff split: json.splits)

lemma slice_mem: "x \<in> set (slice_or_nil s) \<longleftrightarrow> (\<exists>xs. s = Some xs \<and> x \<in> set xs)"
  by (auto simp: slice_or_nil_def split: option.splits)

lemma container_risks_iff:
  "(\<exists>r \<in> set (container_risks acc rs v). rk_level r = ''critical'') \<longleftrightarrow> (\<exists>c. v = JObj c \<and> risky_container acc c)"
proof (cases v)
  case (JObj c)
  have caps: "(\<exists>r \<in> set (case x of Some caps \<Rightarrow> if 0 < length caps then [critical k m rs] else [] | None \<Rightarrow> []). rk_level r = ''critical'')
      \<longleftrightarrow> (\<exists>y ys. x = Some (y # ys))" for x :: "string list option" and k m
    by (auto simp: neq_Nil_conv split: option.splits)
  show ?thesis
    unfolding JObj container_risks_def json.case set_append bex_Un caps crit_if risky_container_def is_true_def
    by (auto simp: list_ex_iff slice_mem host_port_iff)
qed (simp_all add: container_risks_def)

lemma pod_risks_iff: "(\<exists>r \<in> set (inspect_pod_spec acc spec rs). rk_level r = ''critical'') \<longleftrightarrow> risky_pod acc spec"
proof -
  have a: "(\<exists>r \<in> set (concat (map (\<lambda>f. if is_true (nested_bool acc spec [f]) then [critical ''host-access'' (f @ '' is enabled'') rs] else [])
      [''hostNetwork'', ''hostPID'', ''hostIPC''])). rk_level r = ''critical'') \<longleftrightarrow>
    (\<exists>f \<in> {''hostNetwork'', ''hostPID'', ''hostIPC''}. nested_bool acc spec [f] = Some True)"
    unfolding crit_concat by (simp add: is_true_def)
  have b: "(\<exists>r \<in> set (concat (map (\<lambda>v. if host_path_volume v then [critical ''host-path'' ''mounts a hostPath volume'' rs] else [])
      (slice_or_nil (nested_slice acc spec [''volumes''])))). rk_level r = ''critical'') \<longleftrightarrow>
    (\<exists>vs m. nested_slice acc spec [''volumes''] = Some vs \<and> JObj m \<in> set vs \<and> ''hostPath'' \<in> fst ` set m)"
    by (subst crit_concat) (unfold Bex_def host_path_iff slice_mem, blast)
  have c: "(\<exists>r \<in> set (concat (map (\<lambda>g. concat (map (container_risks acc rs) (slice_or_nil (nested_slice acc spec [g]))))
      [''containers'', ''initContainers'', ''ephemeralContainers''])). rk_level r = ''critical'') \<longleftrightarrow>
    (\<exists>g \<in> {''containers'', ''initContainers'', ''ephemeralContainers''}. \<exists>cs c.
      nested_slice acc spec [g] = Some cs \<and> JObj c \<in> set cs \<and> risky_container acc c)"
  proof -
    let ?gs = "[''containers'', ''initContainers'', ''ephemeralContainers'']"
    have "(\<exists>r \<in> set (concat (map (\<lambda>g. concat (map (container_risks acc rs) (slice_or_nil (nested_slice acc spec [g])))) gs)). rk_level r = ''critical'')
      \<longleftrightarrow> (\<exists>g \<in> set gs. \<exists>v \<in> set (slice_or_nil (nested_slice acc spec [g])). \<exists>r \<in> set (container_risks acc rs v). rk_level r = ''critical'')" for gs
      by auto
    note all = this [of ?gs, unfolded container_risks_iff]
    have "(\<exists>g \<in> set ?gs. \<exists>v \<in> set (slice_or_nil (nested_slice acc spec [g])). \<exists>c. v = JObj c \<and> risky_container acc c) \<longleftrightarrow>
      (\<exists>g \<in> set ?gs. \<exists>cs c. nested_slice acc spec [g] = Some cs \<and> JObj c \<in> set cs \<and> risky_container acc c)"
      unfolding Bex_def slice_mem by blast
    with all show ?thesis by (simp only: list.set)
  qed
  show ?thesis unfolding inspect_pod_spec_def risky_pod_def set_append bex_Un a b c by blast
qed

lemma object_risks_iff:
  "(\<exists>ref rs. inspect_object acc ob = Some (ref, rs) \<and> (\<exists>r \<in> set rs. rk_level r = ''critical'')) \<longleftrightarrow> risky_object acc ob"
proof (cases "rr_kind (object_ref acc ob) = [] \<or> rr_name (object_ref acc ob) = []")
  case True
  then show ?thesis by (auto simp: inspect_object_def Let_def risky_object_def)
next
  case False
  have "(\<exists>r \<in> set (case nested_map acc ob path of Some spec \<Rightarrow> inspect_pod_spec acc spec rs | None \<Rightarrow> []). rk_level r = ''critical'')
      \<longleftrightarrow> (\<exists>spec. nested_map acc ob path = Some spec \<and> risky_pod acc spec)" for path rs
    by (cases "nested_map acc ob path") (simp_all add: pod_risks_iff)
  with False show ?thesis unfolding risky_object_def inspect_object_def Let_def by (simp add: bex_Un del: bex_simps)
qed

text \<open>
  C17. The risk assessment is exact for what it looks at: a change is free of critical risks if and only
  if its manifest was read to the end and none of its named objects is of a security-sensitive kind
  or has, where its kind puts it, a pod specification with host access, a host path, or a privileged,
  escalating, root, capability-adding or host-port container.
\<close>

theorem risk_assessment_exact:
  "has_critical_risk (snd (inspect_manifest acc docs m)) \<longleftrightarrow>
     snd (docs m) \<or> (\<exists>ob. ob \<in> set (fst (docs m)) \<and> risky_object acc ob)"
proof -
  obtain obs err where d: "docs m = (obs, err)" by (cases "docs m")
  have "(\<exists>r \<in> set (concat (map snd (List.map_filter (inspect_object acc) obs))). rk_level r = ''critical'') \<longleftrightarrow>
      (\<exists>ob. ob \<in> set obs \<and> risky_object acc ob)"
    unfolding found_concat object_risks_iff [symmetric] ..
  then show ?thesis
    by (auto simp: inspect_manifest_def d Let_def has_critical_risk_def list_ex_iff)
qed

section \<open>Where charts are fetched from\<close>

lemma dial_target_public: "dial_target False as = Some a \<Longrightarrow> a \<in> set as \<and> is_public_ip a"
  by (induction as) (auto split: if_splits)

text \<open>The reserved IPv4 blocks that are never dialled; they are recognised inside IPv6 as well.\<close>

definition reserved4 :: "nat \<Rightarrow> nat \<Rightarrow> bool" where
  "reserved4 a b \<longleftrightarrow> a = 10 \<or> a = 127 \<or> (a = 169 \<and> b = 254) \<or> (a = 172 \<and> 16 \<le> b \<and> b \<le> 31) \<or> (a = 192 \<and> b = 168) \<or>
     (224 \<le> a \<and> a \<le> 239)"

lemma div_block: "(k :: nat) * n \<le> x \<Longrightarrow> x \<le> k * n + (n - 1) \<Longrightarrow> 0 < n \<Longrightarrow> x div n = k"
  by (rule div_nat_eqI) (simp_all add: mult.commute)

lemma public_not_reserved:
  assumes "is_public_ip i" "ip_to4 i = Some [a, b, c, d]"
  shows "\<not> reserved4 a b"
proof -
  have "\<not> ip_private i" "\<not> ip_loopback i" "\<not> ip_link_local i" "\<not> ip_multicast i"
    using assms(1) by (simp_all add: is_public_ip_def ip_global_unicast_def)
  then have "a \<noteq> 10" "\<not> (a = 172 \<and> b div 16 = 1)" "\<not> (a = 192 \<and> b = 168)" "a \<noteq> 127" "\<not> (a = 169 \<and> b = 254)" "a div 16 \<noteq> 14"
    by (simp_all add: assms(2) ip_private_def ip_loopback_def ip_link_local_def ip_multicast_def)
  then show ?thesis
    using div_block [of 1 16 b] div_block [of 14 16 a] unfolding reserved4_def by simp linarith
qed

lemma validated_url:
  assumes "validate_repository_url n raw allow = None"
  shows "\<exists>u. n_parse_request n raw = Some u \<and> u_scheme u = ''https'' \<and> u_host u \<noteq> [] \<and> \<not> u_user u \<and>
    (allow \<or> (\<exists>as. n_lookup n (u_host u) = Some as \<and> as \<noteq> [] \<and> list_all is_public_ip as))"
  using assms by (auto simp: validate_repository_url_def validate_public_host_def list_ex_iff list_all_iff split: option.splits if_splits)

text \<open>
  What is fetched comes over HTTPS, without credentials in its URL, and is no longer than its limit;
  unless the repository is marked private, its host resolved to public addresses only, none of
  them in a reserved IPv4 block.
\<close>

theorem fetched_within_bounds:
  assumes "fetch_with_source n raw limit src = Inr body"
  shows "int (length body) \<le> limit \<and>
    (\<exists>u. n_parse_request n raw = Some u \<and> u_scheme u = ''https'' \<and> \<not> u_user u \<and>
       (cs_private src \<or> (\<exists>as. n_lookup n (u_host u) = Some as \<and> as \<noteq> [] \<and>
          list_all (\<lambda>i. is_public_ip i \<and> (case ip_to4 i of Some [a, b, c, d] \<Rightarrow> \<not> reserved4 a b | _ \<Rightarrow> True)) as)))"
proof -
  have v: "validate_repository_url n raw (cs_private src) = None" and l: "int (length body) \<le> limit"
    using assms by (auto simp: fetch_with_source_def split: option.splits sum.splits if_splits)
  obtain u where u: "n_parse_request n raw = Some u" "u_scheme u = ''https''" "\<not> u_user u"
    and r: "cs_private src \<or> (\<exists>as. n_lookup n (u_host u) = Some as \<and> as \<noteq> [] \<and> list_all is_public_ip as)"
    using validated_url [OF v] by blast
  have "list_all is_public_ip as \<Longrightarrow>
      list_all (\<lambda>i. is_public_ip i \<and> (case ip_to4 i of Some [a, b, c, d] \<Rightarrow> \<not> reserved4 a b | _ \<Rightarrow> True)) as" for as
    by (auto simp: list_all_iff public_not_reserved split: option.splits list.splits)
  with u r l show ?thesis by blast
qed

definition sample_net :: net where
  "sample_net = \<lparr>n_parse_request = (\<lambda>_. Some \<lparr>u_scheme = ''https'', u_host = ''charts.example'', u_user = False\<rparr>),
     n_parse = (\<lambda>_. None), n_lookup = (\<lambda>_. Some [[93, 184, 216, 34]]), n_get = (\<lambda>_ _ _. Inr (200, ''entries''))\<rparr>"

theorem fetched_within_bounds_witness:
  "int (length ''entries'') \<le> 100 \<and>
    (\<exists>u. n_parse_request sample_net ''https://charts.example/index.yaml'' = Some u \<and> u_scheme u = ''https'' \<and> \<not> u_user u \<and>
       (cs_private no_source \<or> (\<exists>as. n_lookup sample_net (u_host u) = Some as \<and> as \<noteq> [] \<and>
          list_all (\<lambda>i. is_public_ip i \<and> (case ip_to4 i of Some [a, b, c, d] \<Rightarrow> \<not> reserved4 a b | _ \<Rightarrow> True)) as)))"
  by (rule fetched_within_bounds) code_simp

text \<open>The shared address space 100.64.0.0/10, where some clouds keep their metadata service, counts as public.\<close>

lemma shared_address_space_is_public: "is_public_ip [100, 100, 100, 200] \<and> is_public_ip [100, 64, 0, 1]"
  by code_simp

section \<open>What the assessment does not look at\<close>

text \<open>Accessors that behave as documented, for concrete runs.\<close>

fun nested_field :: "fields \<Rightarrow> string list \<Rightarrow> json option" where
  "nested_field m [] = Some (JObj m)"
| "nested_field m (k # ks) = (case gm_get m k of
     None \<Rightarrow> None
   | Some v \<Rightarrow> if ks = [] then Some v else (case v of JObj m' \<Rightarrow> nested_field m' ks | _ \<Rightarrow> None))"

definition std_accessors :: accessors where
  "std_accessors = \<lparr>nested_map = (\<lambda>m p. as_obj (nested_field m p)), nested_bool = (\<lambda>m p. as_bool (nested_field m p)),
     nested_slice = (\<lambda>m p. as_arr (nested_field m p)),
     nested_int = (\<lambda>m p. case nested_field m p of Some (JNum k e) \<Rightarrow> Some (trunc_num k e) | _ \<Rightarrow> None),
     nested_strings = (\<lambda>m p. map_option (\<lambda>xs. List.map_filter (\<lambda>v. as_str (Some v)) xs) (as_arr (nested_field m p))),
     nested_string = (\<lambda>m p. as_str (nested_field m p))\<rparr>"

definition privileged_pod :: fields where
  "privileged_pod = [(''containers'', JArr [JObj [(''securityContext'', JObj [(''privileged'', JBool True)])]])]"

definition privileged_object :: "string \<Rightarrow> fields" where
  "privileged_object kind = [(''kind'', JStr kind), (''metadata'', JObj [(''name'', JStr ''x'')]),
     (''spec'', JObj [(''template'', JObj [(''spec'', JObj privileged_pod)])])]"

text \<open>
  A privileged pod is found in a deployment; it is not found in a replication controller, nor is
  anything found in a list object, whose items Helm applies one by one: a list has no name and is
  skipped. The same list keeps the secrets in it unredacted in the preview.
\<close>

lemma unseen_workloads:
  "has_critical_risk (snd (inspect_manifest std_accessors (\<lambda>_. ([privileged_object ''Deployment''], False)) [])) \<and>
   \<not> has_critical_risk (snd (inspect_manifest std_accessors (\<lambda>_. ([privileged_object ''ReplicationController''], False)) [])) \<and>
   \<not> has_critical_risk (snd (inspect_manifest std_accessors
        (\<lambda>_. ([[(''kind'', JStr ''List''), (''items'', JArr [JObj (privileged_object ''Deployment'')])]], False)) []))"
  by code_simp

lemma list_secrets_not_redacted:
  "redact_object [(''kind'', JStr ''List''), (''items'', JArr [JObj [(''kind'', JStr ''Secret''), (''data'', JObj [(''k'', JStr ''v'')])]])] =
     [(''kind'', JStr ''List''), (''items'', JArr [JObj [(''kind'', JStr ''Secret''), (''data'', JObj [(''k'', JStr ''v'')])]])]"
  by code_simp

definition file_chart :: "(string \<times> string) list \<Rightarrow> chart" where
  "file_chart fs = Chart ''c'' ''1'' [] [] [] [] [] [] [] fs []"

text \<open>
  Names and contents are hashed one after the other without their lengths, so two charts with
  different files can have the same digest: a file whose content embeds a NUL byte reads as two.
\<close>

lemma chart_digest_ambiguous:
  "file_chart [(''a'', ''1b'' @ [CHR 0x00] @ ''2'')] \<noteq> file_chart [(''a'', ''1''), (''b'', ''2'')] \<and>
   chart_digest sha (file_chart [(''a'', ''1b'' @ [CHR 0x00] @ ''2'')]) = chart_digest sha (file_chart [(''a'', ''1''), (''b'', ''2'')])"
proof
  have "digest_input (file_chart [(''a'', ''1b'' @ [CHR 0x00] @ ''2'')]) = digest_input (file_chart [(''a'', ''1''), (''b'', ''2'')])"
    by code_simp
  then show "chart_digest sha (file_chart [(''a'', ''1b'' @ [CHR 0x00] @ ''2'')]) = chart_digest sha (file_chart [(''a'', ''1''), (''b'', ''2'')])"
    by (simp only: chart_digest_def)
qed (simp add: file_chart_def)

end
