(* ===== verification/Helm_Catalog.thy ===== *)
theory Helm_Catalog
  imports Helm_Charts
begin

text \<open>
  The chart catalogue: managed repositories, the recorded source of each release, uploaded chart
  archives (\<open>packages/catalog.go\<close>) and the loading of remote charts (\<open>loadRemoteChart\<close> of
  \<open>packages/helm_adapter.go\<close>). The Helm SDK (archive and OCI loading, index lookup), semantic versions,
  the cipher and the network are fields of \<open>helm_lib\<close>.
\<close>

section \<open>State\<close>

record helm_repository =
  hr_id :: nat
  hr_created :: gotime
  hr_updated :: gotime
  hr_name :: string
  hr_type :: string
  hr_url :: string
  hr_username :: string
  hr_password_enc :: string
  hr_private :: bool
  hr_enabled :: bool
  hr_checked :: "gotime option"
  hr_error :: string

record release_source =
  rs_id :: nat
  rs_created :: gotime
  rs_updated :: gotime
  rs_cluster :: string
  rs_namespace :: string
  rs_release :: string
  rs_chart :: string
  rs_repo_id :: nat
  rs_repo_url :: string

record upgrade_policy =
  up_id :: nat
  up_created :: gotime
  up_updated :: gotime
  up_cluster :: string
  up_namespace :: string
  up_release :: string
  up_repo_id :: nat
  up_chart :: string
  up_constraint :: string
  up_values_json :: string
  up_interval :: int
  up_enabled :: bool
  up_status :: string
  up_last_version :: string
  up_last_error :: string
  up_last_checked :: "gotime option"
  up_next_check :: "gotime option"

record upload_entry =
  ue_data :: string
  ue_created :: gotime
  ue_user :: nat

record catalog =
  ct_repos :: "helm_repository table"
  ct_sources :: "release_source table"
  ct_policies :: "upgrade_policy table"
  ct_uploads :: "(string, upload_entry) gomap"
  ct_upload_size :: int

record chart_version =
  cv_version :: string
  cv_app :: string
  cv_description :: string

type_synonym repo_index = "(string, chart_version list) gomap"

text \<open>
  A loaded chart comes with the information whether its metadata are present. A parsed version is
  named by its text.
\<close>

record helm_lib =
  hl_net :: net
  hl_archive :: "string \<Rightarrow> (chart \<times> bool) option"
  hl_workspace :: "go_error option"
  hl_oci :: "chart_source \<Rightarrow> (chart \<times> bool) res"
  hl_index :: "string \<Rightarrow> (repo_index, go_error) sum"
  hl_index_get :: "string \<Rightarrow> string \<Rightarrow> string \<Rightarrow> string list option"
  hl_resolve :: "string \<Rightarrow> string \<Rightarrow> string option"
  hl_semver :: "string \<Rightarrow> bool"
  hl_prerelease :: "string \<Rightarrow> string"
  hl_greater :: "string \<Rightarrow> string \<Rightarrow> bool"
  hl_constraint :: "string \<Rightarrow> bool"
  hl_check :: "string \<Rightarrow> string \<Rightarrow> bool"
  hl_encrypt :: "string \<Rightarrow> string res"
  hl_decrypt :: "string \<Rightarrow> string res"
  hl_key :: string
  hl_sha :: "string \<Rightarrow> string"

definition max_uploaded_chart_bytes :: int where "max_uploaded_chart_bytes = 50 * 1048576"
definition max_upload_store :: int where "max_upload_store = 256 * 1048576"
definition upload_ttl :: duration where "upload_ttl = 30 * minute"

definition max_index :: int where "max_index = 10 * 1048576"
definition max_archive :: int where "max_archive = 50 * 1048576"

text \<open>\<open>strings.TrimRight(s, "/")\<close> and \<open>TrimLeft\<close>.\<close>

definition trim_right_slash :: "string \<Rightarrow> string" where
  "trim_right_slash s = rev (dropWhile (\<lambda>c. c = CHR ''/'') (rev s))"

definition trim_left_slash :: "string \<Rightarrow> string" where
  "trim_left_slash s = dropWhile (\<lambda>c. c = CHR ''/'') s"

section \<open>Sources of releases\<close>

definition same_release :: "string \<Rightarrow> string \<Rightarrow> string \<Rightarrow> release_source \<Rightarrow> bool" where
  "same_release cl ns rel r \<longleftrightarrow> rs_cluster r = cl \<and> rs_namespace r = ns \<and> rs_release r = rel"

text \<open>The insertion updates the row of the release when there is one.\<close>

definition save_release_source ::
  "bool \<Rightarrow> gotime \<Rightarrow> string \<Rightarrow> string \<Rightarrow> string \<Rightarrow> chart_source \<Rightarrow> catalog \<Rightarrow> catalog \<times> go_error option" where
  "save_release_source flt now cl ns rel src c =
     (if cs_upload src \<noteq> [] then (c, None)
      else let chart = trim_space (cs_chart src); url = trim_right_slash (trim_space (cs_repo_url src)); t = ct_sources c in
        if chart = [] then (c, Some (biz_new CodeValidation ''chart source cannot be saved without a chart''))
        else if flt then (c, Some db_error)
        else if list_ex (same_release cl ns rel) (rows t)
          then (c\<lparr>ct_sources := t\<lparr>rows := map (\<lambda>r. if same_release cl ns rel r
                  then r\<lparr>rs_chart := chart, rs_repo_id := cs_repo_id src, rs_repo_url := url, rs_updated := now\<rparr> else r) (rows t)\<rparr>\<rparr>, None)
        else (c\<lparr>ct_sources := \<lparr>rows = rows t @ [\<lparr>rs_id = Suc (seq t), rs_created = now, rs_updated = now, rs_cluster = cl,
                  rs_namespace = ns, rs_release = rel, rs_chart = chart, rs_repo_id = cs_repo_id src, rs_repo_url = url\<rparr>],
                  seq = Suc (seq t)\<rparr>\<rparr>, None))"

definition release_source_of :: "bool \<Rightarrow> string \<Rightarrow> string \<Rightarrow> string \<Rightarrow> catalog \<Rightarrow> (chart_source \<times> bool) res" where
  "release_source_of flt cl ns rel c =
     (if flt then Inl db_error
      else case find (same_release cl ns rel) (rows (ct_sources c)) of
          None \<Rightarrow> Inr (no_source, False)
        | Some r \<Rightarrow> Inr (no_source\<lparr>cs_chart := rs_chart r, cs_repo_url := rs_repo_url r, cs_repo_id := rs_repo_id r\<rparr>, True))"

definition delete_release_source :: "bool \<Rightarrow> string \<Rightarrow> string \<Rightarrow> string \<Rightarrow> catalog \<Rightarrow> catalog \<times> go_error option" where
  "delete_release_source flt cl ns rel c =
     (if flt then (c, Some db_error)
      else (c\<lparr>ct_sources := (ct_sources c)\<lparr>rows := filter (\<lambda>r. \<not> same_release cl ns rel r) (rows (ct_sources c))\<rparr>\<rparr>, None))"

section \<open>Repositories\<close>

record repository_input =
  ri_name :: string
  ri_type :: string
  ri_url :: string
  ri_username :: string
  ri_password :: string
  ri_private :: bool
  ri_enabled :: bool

definition repository_source :: "helm_lib \<Rightarrow> bool \<Rightarrow> nat \<Rightarrow> catalog \<Rightarrow> (chart_source \<times> helm_repository) res" where
  "repository_source lib flt i c =
     (if flt then Inl db_error
      else case find (\<lambda>r. hr_id r = i) (rows (ct_repos c)) of
          None \<Rightarrow> Inl record_not_found
        | Some r \<Rightarrow>
            if \<not> hr_enabled r then fail CodeValidation ''repository is disabled''
            else (case (if hr_password_enc r = [] then Inr [] else hl_decrypt lib (hr_password_enc r)) of
                    Inl e \<Rightarrow> Inl (plain_error (''decrypt repository credential: '' @ error_string e))
                  | Inr pw \<Rightarrow> Inr (no_source\<lparr>cs_repo_url := hr_url r, cs_username := hr_username r, cs_password := pw,
                                     cs_private := hr_private r, cs_repo_id := hr_id r\<rparr>, r)))"

definition resolve_source :: "helm_lib \<Rightarrow> bool \<Rightarrow> chart_source \<Rightarrow> catalog \<Rightarrow> chart_source res" where
  "resolve_source lib flt src c =
     (if cs_upload src \<noteq> [] then Inr src
      else if cs_repo_id src = 0 then Inr src
      else case repository_source lib flt (cs_repo_id src) c of
          Inl e \<Rightarrow> Inl e
        | Inr (res, item) \<Rightarrow>
            let r1 = res\<lparr>cs_chart := cs_chart src, cs_version := cs_version src, cs_repo_id := cs_repo_id src\<rparr> in
            Inr (if hr_type item = ''oci''
                 then r1\<lparr>cs_chart := trim_right_slash (hr_url item) @ ''/'' @ trim_left_slash (cs_chart src), cs_repo_url := []\<rparr>
                 else r1))"

definition list_repositories :: "faults \<Rightarrow> package_actor \<Rightarrow> catalog \<Rightarrow> helm_repository list res" where
  "list_repositories fl a c =
     (if \<not> is_admin a then Inl ErrForbidden
      else case find_where fl (\<lambda>_. True) (ct_repos c) of
          Inl e \<Rightarrow> Inl e
        | Inr rs \<Rightarrow> Inr (map (\<lambda>r. r\<lparr>hr_password_enc := []\<rparr>) (sort_by (\<lambda>x y. str_less (hr_name x) (hr_name y)) rs)))"

text \<open>
  An insertion writes the column default for a zero value: \<open>Enabled\<close> has the default true, so the
  new row is enabled whatever the input says. The unique index is on the name.
\<close>

definition repository_create :: "faults \<Rightarrow> gotime \<Rightarrow> helm_repository \<Rightarrow> helm_repository table \<Rightarrow> (helm_repository table \<times> helm_repository) res" where
  "repository_create fl now r t =
     create_row fl (\<lambda>x y. hr_name x = hr_name y)
       (\<lambda>i x. x\<lparr>hr_id := i, hr_created := now, hr_updated := now, hr_enabled := True\<rparr>) r t"

definition repository_save :: "faults \<Rightarrow> gotime \<Rightarrow> helm_repository \<Rightarrow> helm_repository table \<Rightarrow> helm_repository table res" where
  "repository_save fl now r t =
     (if list_ex (\<lambda>x. hr_id x \<noteq> hr_id r \<and> hr_name x = hr_name r) (rows t) then Inl unique_violation
      else save_row fl hr_id (r\<lparr>hr_updated := now\<rparr>) t)"

definition validate_repository_input :: "net \<Rightarrow> repository_input \<Rightarrow> go_error option" where
  "validate_repository_input n i =
     (if ri_name i = [] \<or> ri_url i = [] \<or> (ri_type i \<noteq> ''helm'' \<and> ri_type i \<noteq> ''oci'')
        then Some (biz_new CodeParamInvalid ''name, URL, and a valid repository type are required'')
      else case (if ri_type i = ''helm'' then validate_repository_url n (ri_url i) (ri_private i)
                 else validate_oci_base n (ri_url i) (ri_private i)) of
          Some e \<Rightarrow> Some (biz_new CodeValidation (error_string e)) | None \<Rightarrow> None)"

definition empty_repository :: helm_repository where
  "empty_repository = \<lparr>hr_id = 0, hr_created = 0, hr_updated = 0, hr_name = [], hr_type = [], hr_url = [], hr_username = [],
     hr_password_enc = [], hr_private = False, hr_enabled = False, hr_checked = None, hr_error = []\<rparr>"

definition trimmed_repository_input :: "repository_input \<Rightarrow> repository_input" where
  "trimmed_repository_input i = i\<lparr>ri_name := trim_space (ri_name i), ri_type := to_lower (trim_space (ri_type i)),
     ri_url := trim_right_slash (trim_space (ri_url i))\<rparr>"

definition seal_password :: "helm_lib \<Rightarrow> string \<Rightarrow> string \<Rightarrow> string res" where
  "seal_password lib pw old =
     (if pw = [] then Inr old
      else if hl_key lib = [] then fail CodeValidation ''credential encryption is not configured''
      else hl_encrypt lib pw)"

definition save_repository ::
  "helm_lib \<Rightarrow> faults \<Rightarrow> gotime \<Rightarrow> package_actor \<Rightarrow> nat \<Rightarrow> repository_input \<Rightarrow> catalog \<Rightarrow> catalog \<times> helm_repository res" where
  "save_repository lib fl now a i input c =
     (let inp = trimmed_repository_input input; t = ct_repos c in
      if \<not> is_admin a then (c, Inl ErrForbidden)
      else case validate_repository_input (hl_net lib) inp of
        Some e \<Rightarrow> (c, Inl e)
      | None \<Rightarrow>
          (case (if i = 0 then Inr empty_repository else first_where fl (\<lambda>r. hr_id r = i) t) of
             Inl e \<Rightarrow> (c, Inl e)
           | Inr item \<Rightarrow>
               (case seal_password lib (ri_password inp) (hr_password_enc item) of
                  Inl e \<Rightarrow> (c, Inl e)
                | Inr enc \<Rightarrow>
                    let item' = item\<lparr>hr_name := ri_name inp, hr_type := ri_type inp, hr_url := ri_url inp,
                          hr_username := trim_space (ri_username inp), hr_private := ri_private inp, hr_enabled := ri_enabled inp,
                          hr_password_enc := enc\<rparr> in
                    if i = 0 then
                      (case repository_create fl now item' t of
                         Inl e \<Rightarrow> (c, Inl e)
                       | Inr (t', r) \<Rightarrow> (c\<lparr>ct_repos := t'\<rparr>, Inr (r\<lparr>hr_password_enc := []\<rparr>)))
                    else
                      (case repository_save fl now item' t of
                         Inl e \<Rightarrow> (c, Inl e)
                       | Inr t' \<Rightarrow> (c\<lparr>ct_repos := t'\<rparr>, Inr (item'\<lparr>hr_updated := now, hr_password_enc := []\<rparr>))))))"

text \<open>The three deletions are one transaction.\<close>

definition delete_repository :: "bool \<Rightarrow> package_actor \<Rightarrow> nat \<Rightarrow> catalog \<Rightarrow> catalog \<times> go_error option" where
  "delete_repository flt a i c =
     (if \<not> is_admin a then (c, Some ErrForbidden)
      else if flt then (c, Some db_error)
      else (c\<lparr>ct_policies := (ct_policies c)\<lparr>rows := filter (\<lambda>p. up_repo_id p \<noteq> i) (rows (ct_policies c))\<rparr>,
              ct_sources := (ct_sources c)\<lparr>rows := filter (\<lambda>s. rs_repo_id s \<noteq> i) (rows (ct_sources c))\<rparr>,
              ct_repos := (ct_repos c)\<lparr>rows := filter (\<lambda>r. hr_id r \<noteq> i) (rows (ct_repos c))\<rparr>\<rparr>, None))"

definition fetch_index :: "helm_lib \<Rightarrow> chart_source \<Rightarrow> string res" where
  "fetch_index lib src = fetch_with_source (hl_net lib) (trim_right_slash (cs_repo_url src) @ ''/index.yaml'') max_index src"

definition test_repository :: "helm_lib \<Rightarrow> bool \<Rightarrow> bool \<Rightarrow> gotime \<Rightarrow> package_actor \<Rightarrow> nat \<Rightarrow> catalog \<Rightarrow> catalog \<times> go_error option" where
  "test_repository lib flt1 flt2 now a i c =
     (if \<not> is_admin a then (c, Some ErrForbidden)
      else case repository_source lib flt1 i c of
        Inl e \<Rightarrow> (c, Some e)
      | Inr (src, item) \<Rightarrow>
          let err = (if hr_type item = ''helm'' then (case fetch_index lib src of Inl e \<Rightarrow> Some e | Inr _ \<Rightarrow> None)
                     else validate_chart_source (hl_net lib) src);
              t = ct_repos c;
              mark = (\<lambda>r. r\<lparr>hr_checked := Some now, hr_error := (case err of None \<Rightarrow> [] | Some e \<Rightarrow> error_string e), hr_updated := now\<rparr>)
          in (if flt2 then c else c\<lparr>ct_repos := t\<lparr>rows := map (\<lambda>r. if hr_id r = i then mark r else r) (rows t)\<rparr>\<rparr>, err))"

section \<open>Charts of a repository\<close>

record chart_summary =
  su_name :: string
  su_description :: string
  su_version :: string
  su_app :: string
  su_versions :: "string list"

definition latest_stable_chart_version :: "helm_lib \<Rightarrow> repo_index \<Rightarrow> string \<Rightarrow> chart_summary res" where
  "latest_stable_chart_version lib idx chart =
     (let versions = (case gm_get idx chart of None \<Rightarrow> [] | Some vs \<Rightarrow> vs);
          candidates = filter (\<lambda>v. hl_semver lib (cv_version v) \<and> hl_prerelease lib (cv_version v) = []) versions in
      if versions = [] then fail CodeNotFound ''chart was not found in the configured repository''
      else case sort_by (\<lambda>x y. hl_greater lib (cv_version x) (cv_version y)) candidates of
          [] \<Rightarrow> fail CodeValidation ''repository has no stable semantic chart versions''
        | latest # _ \<Rightarrow> Inr \<lparr>su_name = chart, su_description = cv_description latest, su_version = cv_version latest,
                             su_app = cv_app latest, su_versions = []\<rparr>)"

definition latest_version :: "helm_lib \<Rightarrow> bool \<Rightarrow> package_actor \<Rightarrow> chart_source \<Rightarrow> catalog \<Rightarrow> chart_summary res" where
  "latest_version lib flt a src c =
     (if cs_repo_id src \<noteq> 0 \<and> \<not> is_admin a then Inl ErrForbidden
      else case resolve_source lib flt src c of
        Inl e \<Rightarrow> Inl e
      | Inr r \<Rightarrow>
          if cs_repo_url r = [] then fail CodeValidation ''one-click update checks require an indexed Helm repository''
          else (case fetch_index lib r of
                  Inl e \<Rightarrow> Inl e
                | Inr data \<Rightarrow>
                    (case hl_index lib data of
                       Inr e \<Rightarrow> Inl (plain_error (''parse repository index: '' @ error_string e))
                     | Inl idx \<Rightarrow> latest_stable_chart_version lib idx (cs_chart r))))"

definition repository_charts :: "helm_lib \<Rightarrow> bool \<Rightarrow> package_actor \<Rightarrow> nat \<Rightarrow> string \<Rightarrow> catalog \<Rightarrow> chart_summary list res" where
  "repository_charts lib flt a i query c =
     (if \<not> is_admin a then Inl ErrForbidden
      else case repository_source lib flt i c of
        Inl e \<Rightarrow> Inl e
      | Inr (src, item) \<Rightarrow>
          if hr_type item \<noteq> ''helm'' then fail CodeValidation
            ''OCI repositories do not provide a portable chart catalog; enter a chart path to inspect it''
          else (case fetch_index lib src of
                  Inl e \<Rightarrow> Inl e
                | Inr data \<Rightarrow>
                    (case hl_index lib data of
                       Inr e \<Rightarrow> Inl e
                     | Inl idx \<Rightarrow>
                         let q = to_lower (trim_space query) in
                         Inr (sort_by (\<lambda>x y. str_less (su_name x) (su_name y))
                           (List.map_filter (\<lambda>(name, vs). case vs of
                                [] \<Rightarrow> None
                              | v # _ \<Rightarrow>
                                  if q \<noteq> [] \<and> \<not> contains (to_lower (name @ '' '' @ cv_description v)) q then None
                                  else Some \<lparr>su_name = name, su_description = cv_description v, su_version = cv_version v,
                                              su_app = cv_app v, su_versions = map cv_version vs\<rparr>) idx)))))"

section \<open>Uploaded charts\<close>

definition expired_upload :: "gotime \<Rightarrow> upload_entry \<Rightarrow> bool" where
  "expired_upload now e \<longleftrightarrow> upload_ttl < now - ue_created e"

definition upload_bytes :: "(string \<times> upload_entry) list \<Rightarrow> int" where
  "upload_bytes m = sum_list (map (\<lambda>(_, e). int (length (ue_data e))) m)"

definition prune_uploads :: "gotime \<Rightarrow> catalog \<Rightarrow> catalog" where
  "prune_uploads now c = c\<lparr>ct_upload_size := ct_upload_size c - upload_bytes (filter (\<lambda>(_, e). expired_upload now e) (ct_uploads c)),
     ct_uploads := gm_prune (expired_upload now) (ct_uploads c)\<rparr>"

record chart_inspection =
  in_summary :: chart_summary
  in_readme :: string
  in_values :: fields
  in_templates :: "string list"
  in_deps :: "chart_summary list"
  in_digest :: string
  in_upload :: string

definition summary_of :: "chart \<Rightarrow> chart_summary" where
  "summary_of ch = \<lparr>su_name = ch_name ch, su_description = ch_description ch, su_version = ch_version ch, su_app = ch_app_version ch,
     su_versions = []\<rparr>"

definition is_readme :: "string \<Rightarrow> bool" where
  "is_readme n \<longleftrightarrow> equal_fold n ''README.md'' \<or> has_suffix (to_lower n) ''/readme.md''"

definition inspect_chart :: "helm_lib \<Rightarrow> chart \<Rightarrow> chart_inspection" where
  "inspect_chart lib ch = \<lparr>in_summary = summary_of ch,
     in_readme = (case find (\<lambda>(n, _). is_readme n) (ch_raw ch) of Some (_, d) \<Rightarrow> d | None \<Rightarrow> []),
     in_values = ch_values ch, in_templates = sort_by str_less (map fst (ch_templates ch)),
     in_deps = map summary_of (ch_deps ch), in_digest = chart_digest (hl_sha lib) ch, in_upload = []\<rparr>"

text \<open>\<open>data\<close> is what the reader delivers (\<open>None\<close>: it failed); at most one byte more than the maximum is read.\<close>

definition read_limited :: "string option \<Rightarrow> string option" where
  "read_limited data = (case data of None \<Rightarrow> None
     | Some d \<Rightarrow> if max_uploaded_chart_bytes < int (length d) then None else Some d)"

definition store_upload :: "gotime \<Rightarrow> string \<Rightarrow> nat \<Rightarrow> string \<Rightarrow> catalog \<Rightarrow> catalog \<times> bool" where
  "store_upload now tok uid d c =
     (let c1 = prune_uploads now c in
      if 50 \<le> length (ct_uploads c1) \<or> max_upload_store < ct_upload_size c1 + int (length d) then (c1, False)
      else (c1\<lparr>ct_uploads := gm_put tok \<lparr>ue_data = d, ue_created = now, ue_user = uid\<rparr> (ct_uploads c1),
               ct_upload_size := ct_upload_size c1 + int (length d)\<rparr>, True))"

definition catalog_upload ::
  "helm_lib \<Rightarrow> gotime \<Rightarrow> string res \<Rightarrow> package_actor \<Rightarrow> string option \<Rightarrow> int \<Rightarrow> catalog \<Rightarrow> catalog \<times> chart_inspection res" where
  "catalog_upload lib now tok a data sz c =
     (if \<not> is_admin a \<and> ac_role a \<noteq> ''editor'' then (c, Inl ErrForbidden)
      else if sz \<le> 0 \<or> max_uploaded_chart_bytes < sz
        then (c, fail CodeParamInvalid ''chart archive must be between 1 byte and 50 MiB'')
      else case read_limited data of
        None \<Rightarrow> (c, fail CodeParamInvalid ''chart archive is too large'')
      | Some d \<Rightarrow>
          (case hl_archive lib d of
             None \<Rightarrow> (c, fail CodeValidation ''invalid Helm chart archive'')
           | Some (ch, _) \<Rightarrow>
               (case reject_cluster_lookups ch of
                  Some e \<Rightarrow> (c, fail CodeValidation (error_string e))
                | None \<Rightarrow>
                    (case tok of
                       Inl e \<Rightarrow> (c, Inl e)
                     | Inr t \<Rightarrow>
                         (case store_upload now t (ac_user a) d c of
                            (c', False) \<Rightarrow> (c', fail CodeConflict ''temporary chart storage is full'')
                          | (c', True) \<Rightarrow> (c', Inr ((inspect_chart lib ch)\<lparr>in_upload := t\<rparr>)))))))"

definition authorize_upload :: "gotime \<Rightarrow> package_actor \<Rightarrow> string \<Rightarrow> catalog \<Rightarrow> catalog \<times> go_error option" where
  "authorize_upload now a i c =
     (if i = [] then (c, None)
      else let c1 = prune_uploads now c in
        case gm_get (ct_uploads c1) i of
          None \<Rightarrow> (c1, Some (biz_new CodeNotFound ''uploaded chart expired or was not found''))
        | Some e \<Rightarrow> if ue_user e \<noteq> ac_user a \<and> \<not> is_admin a then (c1, Some ErrForbidden) else (c1, None))"

section \<open>Loading a chart\<close>

definition checked_chart :: "chart \<times> bool \<Rightarrow> chart res" where
  "checked_chart cm = (case cm of (ch, meta) \<Rightarrow>
     (if \<not> meta then Inl (plain_error ''chart metadata is missing'')
      else (case reject_cluster_lookups ch of Some e \<Rightarrow> Inl e | None \<Rightarrow> Inr ch)))"

text \<open>The URL of the archive: looked up in the index when there is a repository.\<close>

definition archive_url :: "helm_lib \<Rightarrow> chart_source \<Rightarrow> string res" where
  "archive_url lib src =
     (if cs_repo_url src = [] then Inr (cs_chart src)
      else let base = trim_right_slash (cs_repo_url src) @ ''/'' in
        case hl_resolve lib base ''index.yaml'' of
          None \<Rightarrow> Inl (plain_error ''download repository index: invalid URL'')
        | Some iurl \<Rightarrow>
            (case fetch_with_source (hl_net lib) iurl max_index src of
               Inl e \<Rightarrow> Inl (plain_error (''download repository index: '' @ error_string e))
             | Inr data \<Rightarrow>
                 (case hl_index lib data of
                    Inr e \<Rightarrow> Inl (plain_error (''parse repository index: '' @ error_string e))
                  | Inl _ \<Rightarrow>
                      (case hl_index_get lib data (cs_chart src) (cs_version src) of
                         None \<Rightarrow> Inl (plain_error ''chart version not found in repository'')
                       | Some [] \<Rightarrow> Inl (plain_error ''chart version not found in repository'')
                       | Some (u # _) \<Rightarrow>
                           (case hl_resolve lib base u of
                              None \<Rightarrow> Inl (plain_error ''invalid chart URL in repository'')
                            | Some curl \<Rightarrow> Inr curl)))))"

definition load_remote_chart :: "helm_lib \<Rightarrow> chart_source \<Rightarrow> chart res" where
  "load_remote_chart lib src =
     (case validate_chart_source (hl_net lib) src of
        Some e \<Rightarrow> fail CodeValidation (error_string e)
      | None \<Rightarrow>
          (case hl_workspace lib of
             Some e \<Rightarrow> Inl (plain_error (''create chart workspace: '' @ error_string e))
           | None \<Rightarrow>
               if has_prefix (cs_chart src) ''oci://'' then
                 (case hl_oci lib src of Inl e \<Rightarrow> Inl e | Inr cm \<Rightarrow> checked_chart cm)
               else
                 (case archive_url lib src of
                    Inl e \<Rightarrow> Inl e
                  | Inr url \<Rightarrow>
                      (case fetch_with_source (hl_net lib) url max_archive src of
                         Inl e \<Rightarrow> Inl (plain_error (''download chart: '' @ error_string e))
                       | Inr data \<Rightarrow>
                           (case hl_archive lib data of
                              None \<Rightarrow> Inl (plain_error ''load chart'')
                            | Some cm \<Rightarrow> checked_chart cm)))))"

definition load_chart :: "helm_lib \<Rightarrow> gotime \<Rightarrow> chart_source \<Rightarrow> catalog \<Rightarrow> catalog \<times> chart res" where
  "load_chart lib now src c =
     (if cs_upload src = [] then (c, load_remote_chart lib src)
      else let c1 = prune_uploads now c in
        case gm_get (ct_uploads c1) (cs_upload src) of
          None \<Rightarrow> (c1, fail CodeNotFound ''uploaded chart expired or was not found'')
        | Some e \<Rightarrow>
            (c1, case hl_archive lib (ue_data e) of None \<Rightarrow> Inl (plain_error ''load chart'') | Some (ch, _) \<Rightarrow> Inr ch))"

definition catalog_inspect :: "helm_lib \<Rightarrow> bool \<Rightarrow> gotime \<Rightarrow> package_actor \<Rightarrow> chart_source \<Rightarrow> catalog \<Rightarrow> catalog \<times> chart_inspection res" where
  "catalog_inspect lib flt now a src c =
     (if cs_repo_id src \<noteq> 0 \<and> \<not> is_admin a then (c, Inl ErrForbidden)
      else case authorize_upload now a (cs_upload src) c of
        (c1, Some e) \<Rightarrow> (c1, Inl e)
      | (c1, None) \<Rightarrow>
          (case resolve_source lib flt src c1 of
             Inl e \<Rightarrow> (c1, Inl e)
           | Inr r \<Rightarrow> (case load_chart lib now r c1 of
                 (c2, Inl e) \<Rightarrow> (c2, Inl e) | (c2, Inr ch) \<Rightarrow> (c2, Inr (inspect_chart lib ch)))))"

section \<open>The upload store stays within its limits\<close>

definition uploads_ok :: "catalog \<Rightarrow> bool" where
  "uploads_ok c \<longleftrightarrow> gm_ok (ct_uploads c) \<and> length (ct_uploads c) \<le> 50 \<and>
     upload_bytes (ct_uploads c) \<le> ct_upload_size c \<and> ct_upload_size c \<le> max_upload_store \<and>
     list_all (\<lambda>(_, e). int (length (ue_data e)) \<le> max_uploaded_chart_bytes) (ct_uploads c)"

lemma upload_bytes_simps [simp]:
  "upload_bytes [] = 0" "upload_bytes ((k, e) # m) = int (length (ue_data e)) + upload_bytes m"
  "upload_bytes (m @ n) = upload_bytes m + upload_bytes n"
  by (simp_all add: upload_bytes_def)

lemma upload_bytes_nonneg: "0 \<le> upload_bytes m"
  by (induction m) auto

lemma upload_bytes_prune: "upload_bytes (gm_prune p m) = upload_bytes m - upload_bytes (filter (\<lambda>(_, e). p e) m)"
  by (induction m) (auto simp: gm_prune_def)

lemma upload_bytes_put: "upload_bytes (gm_put k e m) \<le> upload_bytes m + int (length (ue_data e))"
  by (induction m) (auto simp: gm_put_def)

lemma set_gm_put: "set (gm_put k e m) \<subseteq> insert (k, e) (set m)"
  by (induction m) (auto simp: gm_put_def)

lemma prune_keeps [inv_intros]: "uploads_ok c \<Longrightarrow> uploads_ok (prune_uploads now c)"
proof -
  assume ok: "uploads_ok c"
  have "length (gm_prune (expired_upload now) (ct_uploads c)) \<le> 50"
    using ok gm_length_prune [of "expired_upload now" "ct_uploads c"] by (simp add: uploads_ok_def)
  moreover have "0 \<le> upload_bytes (filter (\<lambda>(_, e). expired_upload now e) (ct_uploads c))" by (rule upload_bytes_nonneg)
  moreover have "list_all (\<lambda>(_, e). int (length (ue_data e)) \<le> max_uploaded_chart_bytes) (gm_prune (expired_upload now) (ct_uploads c))"
    using ok by (auto simp: uploads_ok_def list_all_iff gm_prune_def)
  ultimately show ?thesis using ok by (auto simp: uploads_ok_def prune_uploads_def upload_bytes_prune)
qed

lemma store_upload_keeps:
  assumes ok: "uploads_ok c" and d: "int (length d) \<le> max_uploaded_chart_bytes"
  shows "uploads_ok (fst (store_upload now tok uid d c))"
proof -
  let ?c = "prune_uploads now c" and ?e = "\<lparr>ue_data = d, ue_created = now, ue_user = uid\<rparr>"
  have c: "uploads_ok ?c" using ok by (rule prune_keeps)
  show ?thesis
  proof (cases "50 \<le> length (ct_uploads ?c) \<or> max_upload_store < ct_upload_size ?c + int (length d)")
    case True
    with c show ?thesis by (simp add: store_upload_def Let_def)
  next
    case False
    have "length (gm_put tok ?e (ct_uploads ?c)) \<le> 50" using False by (simp add: gm_length_put)
    moreover have "upload_bytes (gm_put tok ?e (ct_uploads ?c)) \<le> ct_upload_size ?c + int (length d)"
      using upload_bytes_put [of tok ?e "ct_uploads ?c"] c by (simp add: uploads_ok_def)
    moreover have "list_all (\<lambda>(_, e). int (length (ue_data e)) \<le> max_uploaded_chart_bytes) (gm_put tok ?e (ct_uploads ?c))"
      using c d set_gm_put [of tok ?e "ct_uploads ?c"] by (fastforce simp: uploads_ok_def list_all_iff)
    ultimately show ?thesis using c False by (auto simp: store_upload_def Let_def uploads_ok_def)
  qed
qed

lemma upload_keeps [inv_intros]: "uploads_ok c \<Longrightarrow> uploads_ok (fst (catalog_upload lib now tok a data sz c))"
proof (cases "read_limited data")
  case (Some d)
  assume ok: "uploads_ok c"
  have d: "int (length d) \<le> max_uploaded_chart_bytes" using Some by (auto simp: read_limited_def split: option.splits if_splits)
  have fst_case: "fst (case p of (c', False) \<Rightarrow> (c', x) | (c', True) \<Rightarrow> (c', y)) = fst p" for p :: "catalog \<times> bool" and x y :: "chart_inspection res"
    by (auto split: prod.splits bool.splits)
  have "fst (catalog_upload lib now tok a data sz c) = c \<or>
      (\<exists>t. fst (catalog_upload lib now tok a data sz c) = fst (store_upload now t (ac_user a) d c))"
    using Some by (auto simp: catalog_upload_def fst_case split: option.split sum.split)
  with ok store_upload_keeps [OF ok d] show ?thesis by metis
qed (auto simp: catalog_upload_def)

lemma authorize_upload_keeps [inv_intros]: "uploads_ok c \<Longrightarrow> uploads_ok (fst (authorize_upload now a i c))"
  by (auto simp: authorize_upload_def Let_def prune_keeps split: option.splits)

lemma load_chart_keeps [inv_intros]: "uploads_ok c \<Longrightarrow> uploads_ok (fst (load_chart lib now src c))"
  by (auto simp: load_chart_def Let_def prune_keeps split: option.splits)

lemma inspect_keeps [inv_intros]: "uploads_ok c \<Longrightarrow> uploads_ok (fst (catalog_inspect lib flt now a src c))"
proof -
  assume ok: "uploads_ok c"
  obtain c1 e where a: "authorize_upload now a (cs_upload src) c = (c1, e)" by (cases "authorize_upload now a (cs_upload src) c")
  then have "uploads_ok c1" using authorize_upload_keeps [OF ok, of now a "cs_upload src"] by simp
  then show ?thesis using ok a load_chart_keeps [of c1 lib now]
    by (auto simp: catalog_inspect_def split: option.splits sum.splits prod.splits) (metis fst_conv)+
qed

text \<open>Everything the catalogue does, as commands.\<close>

datatype catalog_cmd =
    CUpload gotime "string res" package_actor "string option" int
  | CAuthorize gotime package_actor string
  | CInspect bool gotime package_actor chart_source
  | CLoad gotime chart_source
  | CSaveRepo faults gotime package_actor nat repository_input
  | CDeleteRepo bool package_actor nat
  | CTestRepo bool bool gotime package_actor nat
  | CSaveSource bool gotime string string string chart_source
  | CDeleteSource bool string string string

primrec catalog_exec :: "helm_lib \<Rightarrow> catalog_cmd \<Rightarrow> catalog \<Rightarrow> catalog" where
  "catalog_exec lib (CUpload now tok a data sz) c = fst (catalog_upload lib now tok a data sz c)"
| "catalog_exec lib (CAuthorize now a i) c = fst (authorize_upload now a i c)"
| "catalog_exec lib (CInspect flt now a src) c = fst (catalog_inspect lib flt now a src c)"
| "catalog_exec lib (CLoad now src) c = fst (load_chart lib now src c)"
| "catalog_exec lib (CSaveRepo fl now a i inp) c = fst (save_repository lib fl now a i inp c)"
| "catalog_exec lib (CDeleteRepo flt a i) c = fst (delete_repository flt a i c)"
| "catalog_exec lib (CTestRepo f1 f2 now a i) c = fst (test_repository lib f1 f2 now a i c)"
| "catalog_exec lib (CSaveSource flt now cl ns rel src) c = fst (save_release_source flt now cl ns rel src c)"
| "catalog_exec lib (CDeleteSource flt cl ns rel) c = fst (delete_release_source flt cl ns rel c)"

lemma same_uploads: "ct_uploads c' = ct_uploads c \<Longrightarrow> ct_upload_size c' = ct_upload_size c \<Longrightarrow> uploads_ok c \<Longrightarrow> uploads_ok c'"
  by (simp add: uploads_ok_def)

lemma save_repository_uploads [simp]:
  "ct_uploads (fst (save_repository lib fl now a i inp c)) = ct_uploads c"
  "ct_upload_size (fst (save_repository lib fl now a i inp c)) = ct_upload_size c"
  "ct_sources (fst (save_repository lib fl now a i inp c)) = ct_sources c"
  by (auto simp: save_repository_def Let_def split: option.splits sum.splits prod.splits)

lemma other_uploads [simp]:
  "ct_uploads (fst (delete_repository flt a i c)) = ct_uploads c"
  "ct_upload_size (fst (delete_repository flt a i c)) = ct_upload_size c"
  "ct_uploads (fst (test_repository lib f1 f2 now a i c)) = ct_uploads c"
  "ct_upload_size (fst (test_repository lib f1 f2 now a i c)) = ct_upload_size c"
  "ct_uploads (fst (save_release_source flt now cl ns rel src c)) = ct_uploads c"
  "ct_upload_size (fst (save_release_source flt now cl ns rel src c)) = ct_upload_size c"
  "ct_uploads (fst (delete_release_source flt cl ns rel c)) = ct_uploads c"
  "ct_upload_size (fst (delete_release_source flt cl ns rel c)) = ct_upload_size c"
  by (auto simp: delete_repository_def test_repository_def save_release_source_def delete_release_source_def Let_def
      split: sum.splits prod.splits)

lemma catalog_exec_keeps: "uploads_ok c \<Longrightarrow> uploads_ok (catalog_exec lib cmd c)"
  by (cases cmd) (auto intro: same_uploads inv_intros)

definition new_catalog :: catalog where
  "new_catalog = \<lparr>ct_repos = empty_table, ct_sources = empty_table, ct_policies = empty_table, ct_uploads = [], ct_upload_size = 0\<rparr>"

text \<open>
  Uploaded charts never exceed their limits: whatever is uploaded, inspected or installed, in
  whatever order, at most 50 archives are kept, none larger than 50 MiB, all together at most
  256 MiB, and the recorded size never falls below what is really stored.
\<close>

theorem uploads_bounded:
  "uploads_ok (fold (catalog_exec lib) cmds new_catalog)"
proof -
  have "uploads_ok c \<Longrightarrow> uploads_ok (fold (catalog_exec lib) cmds c)" for c
    by (induction cmds arbitrary: c) (simp_all add: catalog_exec_keeps)
  moreover have "uploads_ok new_catalog" by (simp add: uploads_ok_def new_catalog_def max_upload_store_def)
  ultimately show ?thesis by blast
qed

section \<open>Uploaded charts are private and come back unchanged\<close>

lemma prune_lookup:
  "gm_ok (ct_uploads c) \<Longrightarrow> gm_get (ct_uploads (prune_uploads now c)) i = Some e \<longleftrightarrow>
     gm_get (ct_uploads c) i = Some e \<and> \<not> expired_upload now e"
  by (auto simp: prune_uploads_def gm_get_prune split: option.splits)

lemma prune_twice: "gm_ok (ct_uploads c) \<Longrightarrow> gm_get (ct_uploads (prune_uploads now (prune_uploads now c))) i = gm_get (ct_uploads (prune_uploads now c)) i"
  by (auto simp: prune_uploads_def gm_get_prune split: option.splits)

lemma authorize_upload_None:
  assumes "gm_ok (ct_uploads c)" "i \<noteq> []" "authorize_upload now a i c = (c1, None)"
  shows "\<exists>e. gm_get (ct_uploads c) i = Some e \<and> \<not> expired_upload now e \<and> (ue_user e = ac_user a \<or> is_admin a) \<and> c1 = prune_uploads now c"
  using assms by (auto simp: authorize_upload_def Let_def prune_lookup split: option.splits if_splits)

text \<open>
  An uploaded chart can be read only by whoever uploaded it or an administrator, within 30 minutes,
  and what is read is the archive that was stored under the identifier.
\<close>

theorem uploaded_chart_private:
  assumes "uploads_ok c" and "cs_upload src \<noteq> []" and "catalog_inspect lib flt now a src c = (c', Inr r)"
  shows "\<exists>e ch meta. gm_get (ct_uploads c) (cs_upload src) = Some e \<and> now - ue_created e \<le> upload_ttl \<and>
    (ue_user e = ac_user a \<or> is_admin a) \<and> hl_archive lib (ue_data e) = Some (ch, meta) \<and> r = inspect_chart lib ch"
proof -
  have ok: "gm_ok (ct_uploads c)" using assms(1) by (simp add: uploads_ok_def)
  obtain c1 x where a: "authorize_upload now a (cs_upload src) c = (c1, x)" by (cases "authorize_upload now a (cs_upload src) c")
  have x: "x = None" using assms(3) a by (cases x) (auto simp: catalog_inspect_def split: if_splits)
  obtain e where e: "gm_get (ct_uploads c) (cs_upload src) = Some e" "\<not> expired_upload now e" "ue_user e = ac_user a \<or> is_admin a"
    and c1: "c1 = prune_uploads now c" using authorize_upload_None [OF ok assms(2) a [unfolded x]] by blast
  have "gm_get (ct_uploads (prune_uploads now c1)) (cs_upload src) = Some e"
    using ok e by (simp add: c1 prune_twice prune_lookup)
  with assms(2,3) a x have "\<exists>ch meta. hl_archive lib (ue_data e) = Some (ch, meta) \<and> r = inspect_chart lib ch"
    by (auto simp: catalog_inspect_def resolve_source_def load_chart_def Let_def split: if_splits option.splits)
  with e show ?thesis by (auto simp: expired_upload_def)
qed

text \<open>\<open>GreaterThan\<close> of the version library: a strict order in which incomparable versions are equal.\<close>

definition version_order :: "helm_lib \<Rightarrow> bool" where
  "version_order lib \<longleftrightarrow> (\<forall>x. \<not> hl_greater lib x x) \<and>
     (\<forall>x y z. hl_greater lib x y \<longrightarrow> hl_greater lib y z \<longrightarrow> hl_greater lib x z) \<and>
     (\<forall>x y z. \<not> hl_greater lib x y \<longrightarrow> \<not> hl_greater lib y z \<longrightarrow> \<not> hl_greater lib x z)"

definition stable_version :: "helm_lib \<Rightarrow> chart_version \<Rightarrow> bool" where
  "stable_version lib v \<longleftrightarrow> hl_semver lib (cv_version v) \<and> hl_prerelease lib (cv_version v) = []"

text \<open>
  The version offered for an upgrade is a stable version of that chart in the index, and no other
  stable version of it is greater.
\<close>

theorem latest_is_greatest_stable:
  assumes "version_order lib" and "latest_stable_chart_version lib idx chart = Inr r"
  shows "\<exists>vs v. gm_get idx chart = Some vs \<and> v \<in> set vs \<and> stable_version lib v \<and> su_version r = cv_version v \<and>
    (\<forall>w \<in> set vs. stable_version lib w \<longrightarrow> \<not> hl_greater lib (cv_version w) (su_version r))"
proof -
  let ?lt = "\<lambda>x y. hl_greater lib (cv_version x) (cv_version y)"
  obtain vs where vs: "gm_get idx chart = Some vs" "vs \<noteq> []"
    using assms(2) by (cases "gm_get idx chart") (auto simp: latest_stable_chart_version_def Let_def split: if_splits)
  let ?cs = "filter (stable_version lib) vs"
  have cs: "filter (\<lambda>v. hl_semver lib (cv_version v) \<and> hl_prerelease lib (cv_version v) = []) vs = ?cs"
    by (rule filter_cong) (simp_all add: stable_version_def)
  obtain v rest where v: "sort_by ?lt ?cs = v # rest" "su_version r = cv_version v"
    using assms(2) vs by (cases "sort_by ?lt ?cs") (auto simp: latest_stable_chart_version_def Let_def cs)
  have "v \<in> set ?cs" using v(1) set_sort_by [of ?lt ?cs] by (metis list.set_intros(1))
  moreover have "\<not> ?lt w v" if "w \<in> set ?cs" for w
  proof -
    have "\<not> ?lt w (hd (sort_by ?lt ?cs))"
      by (rule hd_sort_by [OF _ _ _ that]) (use assms(1) in \<open>unfold version_order_def, blast+\<close>)
    then show ?thesis using v(1) by simp
  qed
  ultimately show ?thesis using vs v(2) by auto
qed

section \<open>The source of a release\<close>

lemma find_map_upd: "(\<And>r. p (f r) = p r) \<Longrightarrow> find p (map (\<lambda>r. if p r then f r else r) xs) = map_option f (find p xs)"
  by (induction xs) auto

lemma find_map_other: "(\<And>r. q r \<Longrightarrow> \<not> p r) \<Longrightarrow> (\<And>r. q (f r) = q r) \<Longrightarrow> find q (map (\<lambda>r. if p r then f r else r) xs) = find q xs"
  by (induction xs) auto

lemma find_filter_not: "find p (filter (\<lambda>r. \<not> p r) xs) = None"
  by (induction xs) auto

text \<open>
  The recorded source of a release is the last one saved, and saving it touches no other release;
  deleting it forgets it.
\<close>

theorem release_source_roundtrip:
  assumes "cs_upload src = []" and "trim_space (cs_chart src) \<noteq> []"
  shows "\<exists>c'. save_release_source False now cl ns rel src c = (c', None) \<and>
    release_source_of False cl ns rel c' = Inr (no_source\<lparr>cs_chart := trim_space (cs_chart src),
      cs_repo_url := trim_right_slash (trim_space (cs_repo_url src)), cs_repo_id := cs_repo_id src\<rparr>, True) \<and>
    release_source_of False cl ns rel (fst (delete_release_source False cl ns rel c')) = Inr (no_source, False) \<and>
    (\<forall>cl' ns' rel'. (cl', ns', rel') \<noteq> (cl, ns, rel) \<longrightarrow> release_source_of False cl' ns' rel' c' = release_source_of False cl' ns' rel' c)"
proof -
  let ?p = "same_release cl ns rel" and ?t = "ct_sources c"
  let ?f = "\<lambda>r. r\<lparr>rs_chart := trim_space (cs_chart src), rs_repo_id := cs_repo_id src,
    rs_repo_url := trim_right_slash (trim_space (cs_repo_url src)), rs_updated := now\<rparr>"
  let ?new = "\<lparr>rs_id = Suc (seq ?t), rs_created = now, rs_updated = now, rs_cluster = cl, rs_namespace = ns, rs_release = rel,
    rs_chart = trim_space (cs_chart src), rs_repo_id = cs_repo_id src, rs_repo_url = trim_right_slash (trim_space (cs_repo_url src))\<rparr>"
  have other: "\<not> ?p r" if "same_release cl' ns' rel' r" "(cl', ns', rel') \<noteq> (cl, ns, rel)" for cl' ns' rel' r
    using that by (auto simp: same_release_def)
  have pf: "same_release cl' ns' rel' (?f r) = same_release cl' ns' rel' r" for cl' ns' rel' r by (simp add: same_release_def)
  show ?thesis
  proof (cases "list_ex ?p (rows ?t)")
    case True
    let ?c = "c\<lparr>ct_sources := ?t\<lparr>rows := map (\<lambda>r. if ?p r then ?f r else r) (rows ?t)\<rparr>\<rparr>"
    obtain r0 where r0: "find ?p (rows ?t) = Some r0" using True by (auto simp: list_ex_iff find_None_iff dest: find_None_iff [THEN iffD1] intro: option.exhaust [of "find ?p (rows ?t)"])
    have "find (same_release cl' ns' rel') (rows (ct_sources ?c)) = find (same_release cl' ns' rel') (rows ?t)"
      if "(cl', ns', rel') \<noteq> (cl, ns, rel)" for cl' ns' rel'
      using find_map_other [of "same_release cl' ns' rel'" ?p ?f "rows ?t"] other [OF _ that] pf by simp
    moreover have "find ?p (rows (ct_sources ?c)) = Some (?f r0)" using find_map_upd [of ?p ?f "rows ?t"] pf r0 by simp
    moreover have "save_release_source False now cl ns rel src c = (?c, None)" using assms True by (simp add: save_release_source_def Let_def)
    ultimately show ?thesis by (auto simp: release_source_of_def delete_release_source_def find_filter_not)
  next
    case False
    let ?c = "c\<lparr>ct_sources := \<lparr>rows = rows ?t @ [?new], seq = Suc (seq ?t)\<rparr>\<rparr>"
    have none: "find ?p (rows ?t) = None" using False by (simp add: find_None_iff list_ex_iff)
    have new: "?p ?new" by (simp add: same_release_def)
    have "find (same_release cl' ns' rel') (rows (ct_sources ?c)) = find (same_release cl' ns' rel') (rows ?t)"
      if "(cl', ns', rel') \<noteq> (cl, ns, rel)" for cl' ns' rel'
      using other [OF _ that, of ?new] new by (auto simp: find_append split: option.split)
    moreover have "find ?p (rows (ct_sources ?c)) = Some ?new" using none new by (simp add: find_append)
    moreover have "save_release_source False now cl ns rel src c = (?c, None)" using assms False by (simp add: save_release_source_def Let_def)
    ultimately show ?thesis by (auto simp: release_source_of_def delete_release_source_def find_filter_not)
  qed
qed

section \<open>A concrete library and catalogue\<close>

text \<open>Versions that are single digits, archives that are their own name; the index is fixed.\<close>

definition tiny_chart :: "string \<Rightarrow> chart" where
  "tiny_chart n = Chart n ''1'' [] [] [] [] [] [] [] [] []"

definition sample_lib :: helm_lib where
  "sample_lib = \<lparr>hl_net = sample_net, hl_archive = (\<lambda>d. Some (tiny_chart d, True)), hl_workspace = None,
     hl_oci = (\<lambda>_. Inl db_error), hl_index = (\<lambda>_. Inl []), hl_index_get = (\<lambda>_ _ _. None), hl_resolve = (\<lambda>b r. Some (b @ r)),
     hl_semver = (\<lambda>v. length v = 1), hl_prerelease = (\<lambda>_. []),
     hl_greater = (\<lambda>x y. (of_char (hd x) :: nat) > of_char (hd y)), hl_constraint = (\<lambda>_. True), hl_check = (\<lambda>_ _. True),
     hl_encrypt = Inr, hl_decrypt = Inr, hl_key = ''k'', hl_sha = (\<lambda>s. s)\<rparr>"

definition sample_catalog :: catalog where
  "sample_catalog = new_catalog\<lparr>ct_uploads := [(''t'', \<lparr>ue_data = ''web'', ue_created = 0, ue_user = 7\<rparr>)], ct_upload_size := 3\<rparr>"

theorem uploaded_chart_private_witness:
  "\<exists>e ch meta. gm_get (ct_uploads sample_catalog) (cs_upload (no_source\<lparr>cs_upload := ''t''\<rparr>)) = Some e \<and>
    5 - ue_created e \<le> upload_ttl \<and> (ue_user e = ac_user sample_actor \<or> is_admin sample_actor) \<and>
    hl_archive sample_lib (ue_data e) = Some (ch, meta) \<and> inspect_chart sample_lib (tiny_chart ''web'') = inspect_chart sample_lib ch"
proof (rule uploaded_chart_private)
  show "uploads_ok sample_catalog" by code_simp
  show "cs_upload (no_source\<lparr>cs_upload := ''t''\<rparr>) \<noteq> []" by simp
  show "catalog_inspect sample_lib False 5 sample_actor (no_source\<lparr>cs_upload := ''t''\<rparr>) sample_catalog =
      (sample_catalog, Inr (inspect_chart sample_lib (tiny_chart ''web'')))"
    by (simp add: catalog_inspect_def authorize_upload_def prune_uploads_def gm_prune_def resolve_source_def load_chart_def
        sample_catalog_def new_catalog_def sample_lib_def sample_actor_def expired_upload_def upload_ttl_def minute_def second_def
        upload_bytes_def no_source_def)
qed

definition sample_versions :: repo_index where
  "sample_versions = [(''web'', [\<lparr>cv_version = ''1'', cv_app = [], cv_description = []\<rparr>, \<lparr>cv_version = ''3'', cv_app = [], cv_description = []\<rparr>,
     \<lparr>cv_version = ''2'', cv_app = [], cv_description = []\<rparr>])]"

definition sample_summary :: chart_summary where
  "sample_summary = \<lparr>su_name = ''web'', su_description = [], su_version = ''3'', su_app = [], su_versions = []\<rparr>"

theorem latest_is_greatest_stable_witness:
  "\<exists>vs v. gm_get sample_versions ''web'' = Some vs \<and> v \<in> set vs \<and> stable_version sample_lib v \<and> su_version sample_summary = cv_version v \<and>
    (\<forall>w \<in> set vs. stable_version sample_lib w \<longrightarrow> \<not> hl_greater sample_lib (cv_version w) (su_version sample_summary))"
proof (rule latest_is_greatest_stable)
  show "version_order sample_lib" by (auto simp: version_order_def sample_lib_def)
  show "latest_stable_chart_version sample_lib sample_versions ''web'' = Inr sample_summary" by code_simp
qed

theorem release_source_roundtrip_witness:
  "\<exists>c'. save_release_source False 1 ''c'' ''n'' ''r'' (no_source\<lparr>cs_chart := ''web''\<rparr>) new_catalog = (c', None) \<and>
    release_source_of False ''c'' ''n'' ''r'' c' = Inr (no_source\<lparr>cs_chart := trim_space (cs_chart (no_source\<lparr>cs_chart := ''web''\<rparr>)),
      cs_repo_url := trim_right_slash (trim_space (cs_repo_url (no_source\<lparr>cs_chart := ''web''\<rparr>))),
      cs_repo_id := cs_repo_id (no_source\<lparr>cs_chart := ''web''\<rparr>)\<rparr>, True) \<and>
    release_source_of False ''c'' ''n'' ''r'' (fst (delete_release_source False ''c'' ''n'' ''r'' c')) = Inr (no_source, False) \<and>
    (\<forall>cl' ns' rel'. (cl', ns', rel') \<noteq> (''c'', ''n'', ''r'') \<longrightarrow>
       release_source_of False cl' ns' rel' c' = release_source_of False cl' ns' rel' new_catalog)"
  by (rule release_source_roundtrip) (simp_all add: no_source_def trim_space_def is_space_def)

section \<open>Two surprises\<close>

text \<open>A new repository is enabled even when the administrator asks for a disabled one.\<close>

lemma new_repository_enabled:
  assumes "save_repository lib fl now a 0 input c = (c', Inr r)"
  shows "hr_enabled r \<and> (\<exists>r' \<in> set (rows (ct_repos c')). hr_id r' = hr_id r \<and> hr_enabled r')"
  using assms by (auto simp: save_repository_def repository_create_def create_row_Inr Let_def split: option.splits sum.splits if_splits)

text \<open>
  Testing an OCI repository always reports an error, although such a repository can be saved and
  used: the test applies the rule for indexed repositories, whose URL must be HTTPS.
\<close>

lemma oci_test_always_fails:
  assumes "find (\<lambda>r. hr_id r = i) (rows (ct_repos c)) = Some r" "hr_type r = ''oci''" "trim_space (hr_url r) \<noteq> []"
    and "case n_parse_request (hl_net lib) (trim_space (hr_url r)) of Some u \<Rightarrow> u_scheme u \<noteq> ''https'' | None \<Rightarrow> True"
  shows "snd (test_repository lib f1 f2 now a i c) \<noteq> None"
proof -
  have v: "validate_repository_url (hl_net lib) (trim_space (hr_url r)) allow \<noteq> None" for allow
    using assms(4) by (auto simp: validate_repository_url_def split: option.splits)
  have fails: "validate_chart_source (hl_net lib) src \<noteq> None" if "cs_repo_url src = hr_url r" for src
    using v [of "cs_private src"] assms(3) that by (auto simp: validate_chart_source_def Let_def)
  have rs: "cs_repo_url src = hr_url r \<and> item = r" if "repository_source lib f1 i c = Inr (src, item)" for src item
    using that assms(1) by (auto simp: repository_source_def split: if_splits sum.splits)
  show ?thesis
  proof (cases "is_admin a")
    case True
    show ?thesis
    proof (cases "repository_source lib f1 i c")
      case (Inr p)
      obtain src item where p: "p = (src, item)" by (cases p)
      note rs' = rs [OF Inr [unfolded p]]
      have "snd (test_repository lib f1 f2 now a i c) = validate_chart_source (hl_net lib) src"
        using True Inr p rs' assms(2) by (simp add: test_repository_def Let_def)
      with fails [of src] rs' show ?thesis by simp
    qed (simp add: test_repository_def True)
  qed (simp add: test_repository_def)
qed

end
