(* ===== verification/Helm_Adapter.thy ===== *)
theory Helm_Adapter
  imports Helm_Catalog
begin

text \<open>
  The adapter to Helm: \<open>HelmAdapter\<close> of \<open>packages/helm_adapter.go\<close> and the types of \<open>packages/types.go\<close> it
  returns. Helm itself is the parameter \<open>helm_sdk\<close>, acting on an abstract cluster state. The interface
  \<open>helm_backend\<close> states what the package service relies on: a change is applied only when what it
  renders to now is what was previewed.
\<close>

section \<open>Releases and previews\<close>

record release =
  re_name :: string
  re_namespace :: string
  re_revision :: int
  re_status :: string
  re_chart :: string
  re_chart_version :: string
  re_app :: string
  re_updated :: gotime
  re_notes :: string
  re_values :: fields
  re_resources :: "resource_ref list"
  re_source :: "chart_source option"

record preview =
  pv_operation :: string
  pv_chart :: string
  pv_chart_version :: string
  pv_app :: string
  pv_digest :: string
  pv_manifest :: string
  pv_resources :: "resource_ref list"
  pv_risks :: "risk list"
  pv_can_execute :: bool
  pv_token :: string
  pv_expires :: gotime

record release_list_options =
  lo_namespace :: string
  lo_state :: string
  lo_label :: string
  lo_limit :: int

record rollback_options =
  ro_revision :: int
  ro_wait :: bool
  ro_atomic :: bool
  ro_timeout :: duration

record remove_options =
  rm_confirmation :: string
  rm_keep :: bool
  rm_wait :: bool
  rm_timeout :: duration

text \<open>What the code reads of Helm's own \<open>release.Release\<close>.\<close>

record sdk_release =
  sr_name :: string
  sr_namespace :: string
  sr_version :: int
  sr_config :: fields
  sr_info :: "(string \<times> gotime \<times> string) option"
  sr_manifest :: string
  sr_chart :: "(string \<times> string \<times> string) option"

record 'w helm_sdk =
  sd_config :: "string \<Rightarrow> string \<Rightarrow> go_error option"
  sd_list :: "'w \<Rightarrow> string \<Rightarrow> string \<Rightarrow> string \<Rightarrow> int \<Rightarrow> sdk_release option list res"
  sd_get :: "'w \<Rightarrow> string \<Rightarrow> string \<Rightarrow> string \<Rightarrow> int \<Rightarrow> sdk_release res"
  sd_last :: "'w \<Rightarrow> string \<Rightarrow> string \<Rightarrow> string \<Rightarrow> sdk_release res"
  sd_history :: "'w \<Rightarrow> string \<Rightarrow> string \<Rightarrow> string \<Rightarrow> int \<Rightarrow> sdk_release option list res"
  sd_rollback :: "'w \<Rightarrow> string \<Rightarrow> string \<Rightarrow> string \<Rightarrow> rollback_options \<Rightarrow> 'w \<times> go_error option"
  sd_remove :: "'w \<Rightarrow> string \<Rightarrow> string \<Rightarrow> string \<Rightarrow> remove_options \<Rightarrow> 'w \<times> go_error option"
  sd_render :: "'w \<Rightarrow> string \<Rightarrow> string \<Rightarrow> chart \<Rightarrow> change_options \<Rightarrow> (string \<times> string list) res"
  sd_install :: "'w \<Rightarrow> string \<Rightarrow> chart \<Rightarrow> change_options \<Rightarrow> 'w \<times> go_error option"
  sd_upgrade :: "'w \<Rightarrow> string \<Rightarrow> chart \<Rightarrow> change_options \<Rightarrow> 'w \<times> go_error option"
  sd_objects :: "string \<Rightarrow> fields list \<times> bool"
  sd_header :: "string \<Rightarrow> resource_ref option"
  sd_accessors :: accessors

section \<open>Reading releases\<close>

text \<open>\<open>strings.Split\<close> for a separator of any length; the number counts what is left of a separator to skip.\<close>

fun split_str :: "string \<Rightarrow> nat \<Rightarrow> string \<Rightarrow> string \<Rightarrow> string list" where
  "split_str sep k acc [] = [acc]"
| "split_str sep (Suc k) acc (c # cs) = split_str sep k acc cs"
| "split_str sep 0 acc (c # cs) =
     (if has_prefix (c # cs) sep then acc # split_str sep (length sep - 1) [] cs
      else split_str sep 0 (acc @ [c]) cs)"

definition parse_release_manifest :: "'w helm_sdk \<Rightarrow> string \<Rightarrow> resource_ref list" where
  "parse_release_manifest sdk m =
     List.map_filter (\<lambda>part. case sd_header sdk part of
         None \<Rightarrow> None
       | Some h \<Rightarrow> if rr_kind h \<noteq> [] \<and> rr_name h \<noteq> [] then Some h else None)
       (split_str ''---'' 0 [] m)"

definition map_release :: "'w helm_sdk \<Rightarrow> sdk_release \<Rightarrow> release" where
  "map_release sdk i =
     (let r0 = \<lparr>re_name = sr_name i, re_namespace = sr_namespace i, re_revision = sr_version i, re_status = [], re_chart = [],
            re_chart_version = [], re_app = [], re_updated = 0, re_notes = [], re_values = sr_config i, re_resources = [], re_source = None\<rparr>;
          r1 = (case sr_info i of None \<Rightarrow> r0
                | Some (st, tm, notes) \<Rightarrow> r0\<lparr>re_status := st, re_updated := tm, re_notes := notes,
                    re_resources := parse_release_manifest sdk (sr_manifest i)\<rparr>)
      in case sr_chart i of None \<Rightarrow> r1
         | Some (n, v, a) \<Rightarrow> r1\<lparr>re_chart := n, re_chart_version := v, re_app := a\<rparr>)"

definition map_releases :: "'w helm_sdk \<Rightarrow> sdk_release option list \<Rightarrow> release list" where
  "map_releases sdk is = List.map_filter (map_option (map_release sdk)) is"

definition ad_list :: "'w helm_sdk \<Rightarrow> string \<Rightarrow> release_list_options \<Rightarrow> 'w \<Rightarrow> release list res" where
  "ad_list sdk cl o' w =
     (case sd_config sdk cl (lo_namespace o') of
        Some e \<Rightarrow> Inl e
      | None \<Rightarrow>
          (case sd_list sdk w cl (lo_namespace o') (lo_label o') (lo_limit o') of
             Inl e \<Rightarrow> Inl e
           | Inr items \<Rightarrow>
               let out = map_releases sdk items in
               Inr (if lo_state o' \<noteq> [] then filter (\<lambda>r. equal_fold (re_status r) (lo_state o')) out else out)))"

definition ad_get :: "'w helm_sdk \<Rightarrow> string \<Rightarrow> string \<Rightarrow> string \<Rightarrow> int \<Rightarrow> 'w \<Rightarrow> release res" where
  "ad_get sdk cl ns nm rv w =
     (case sd_config sdk cl ns of
        Some e \<Rightarrow> Inl e
      | None \<Rightarrow>
          (case (if 0 < rv then sd_get sdk w cl ns nm rv else sd_last sdk w cl ns nm) of
             Inl e \<Rightarrow> Inl e | Inr i \<Rightarrow> Inr (map_release sdk i)))"

definition ad_history :: "'w helm_sdk \<Rightarrow> string \<Rightarrow> string \<Rightarrow> string \<Rightarrow> 'w \<Rightarrow> release list res" where
  "ad_history sdk cl ns nm w =
     (case sd_config sdk cl ns of
        Some e \<Rightarrow> Inl e
      | None \<Rightarrow>
          (case sd_history sdk w cl ns nm 256 of
             Inl e \<Rightarrow> Inl e
           | Inr items \<Rightarrow> Inr (sort_by (\<lambda>x y. re_revision x > re_revision y) (map_releases sdk items))))"

section \<open>Changing releases\<close>

definition ad_rollback :: "'w helm_sdk \<Rightarrow> string \<Rightarrow> string \<Rightarrow> string \<Rightarrow> rollback_options \<Rightarrow> 'w \<Rightarrow> 'w \<times> go_error option" where
  "ad_rollback sdk cl ns nm o' w =
     (case sd_config sdk cl ns of Some e \<Rightarrow> (w, Some e) | None \<Rightarrow> sd_rollback sdk w cl ns nm o')"

definition ad_remove :: "'w helm_sdk \<Rightarrow> string \<Rightarrow> string \<Rightarrow> string \<Rightarrow> remove_options \<Rightarrow> 'w \<Rightarrow> 'w \<times> go_error option" where
  "ad_remove sdk cl ns nm o' w =
     (case sd_config sdk cl ns of Some e \<Rightarrow> (w, Some e) | None \<Rightarrow> sd_remove sdk w cl ns nm o')"

text \<open>\<open>renderChange\<close>: any operation but an installation renders an upgrade.\<close>

definition render_change :: "'w helm_sdk \<Rightarrow> string \<Rightarrow> string \<Rightarrow> chart \<Rightarrow> change_options \<Rightarrow> 'w \<Rightarrow> (string \<times> string list) res" where
  "render_change sdk op cl ch o' w = sd_render sdk w (if op = ''install'' then ''install'' else ''upgrade'') cl ch o'"

definition ad_preview ::
  "'w helm_sdk \<Rightarrow> helm_lib \<Rightarrow> gotime \<Rightarrow> string \<Rightarrow> string \<Rightarrow> change_options \<Rightarrow> catalog \<Rightarrow> 'w \<Rightarrow> catalog \<times> preview res" where
  "ad_preview sdk lib now op cl o' c w =
     (case sd_config sdk cl (co_namespace o') of
        Some e \<Rightarrow> (c, Inl e)
      | None \<Rightarrow>
          (case load_chart lib now (co_source o') c of
             (c1, Inl e) \<Rightarrow> (c1, Inl e)
           | (c1, Inr ch) \<Rightarrow>
               (c1, case render_change sdk op cl ch o' w of
                      Inl e \<Rightarrow> Inl e
                    | Inr (m, hooks) \<Rightarrow>
                        let manifest = release_manifest m hooks; rr = inspect_manifest (sd_accessors sdk) (sd_objects sdk) manifest in
                        Inr \<lparr>pv_operation = [], pv_chart = ch_name ch, pv_chart_version = ch_version ch, pv_app = ch_app_version ch,
                           pv_digest = change_digest (hl_sha lib) ch manifest, pv_manifest = manifest, pv_resources = fst rr,
                           pv_risks = snd rr, pv_can_execute = False, pv_token = [], pv_expires = 0\<rparr>)))"

text \<open>What \<open>Install\<close> and \<open>Upgrade\<close> have in common: render, compare with the expected digest, apply.\<close>

definition apply_change ::
  "'w helm_sdk \<Rightarrow> helm_lib \<Rightarrow> gotime \<Rightarrow> string \<Rightarrow> (chart \<Rightarrow> 'w \<Rightarrow> 'w \<times> go_error option) \<Rightarrow> string \<Rightarrow> change_options \<Rightarrow> catalog \<Rightarrow> 'w \<Rightarrow>
    (catalog \<times> 'w) \<times> go_error option" where
  "apply_change sdk lib now op run cl o' c w =
     (case sd_config sdk cl (co_namespace o') of
        Some e \<Rightarrow> ((c, w), Some e)
      | None \<Rightarrow>
          (case load_chart lib now (co_source o') c of
             (c1, Inl e) \<Rightarrow> ((c1, w), Some e)
           | (c1, Inr ch) \<Rightarrow>
               (case render_change sdk op cl ch o' w of
                  Inl e \<Rightarrow> ((c1, w), Some e)
                | Inr (m, hooks) \<Rightarrow>
                    if change_digest (hl_sha lib) ch (release_manifest m hooks) \<noteq> co_digest o'
                      then ((c1, w), Some (plain_error ''rendered resources changed after preview''))
                    else (case run ch w of (w', e) \<Rightarrow> ((c1, w'), e)))))"

definition ad_install ::
  "'w helm_sdk \<Rightarrow> helm_lib \<Rightarrow> gotime \<Rightarrow> string \<Rightarrow> change_options \<Rightarrow> catalog \<Rightarrow> 'w \<Rightarrow> (catalog \<times> 'w) \<times> go_error option" where
  "ad_install sdk lib now cl o' c w = apply_change sdk lib now ''install'' (\<lambda>ch w. sd_install sdk w cl ch o') cl o' c w"

definition ad_upgrade ::
  "'w helm_sdk \<Rightarrow> helm_lib \<Rightarrow> gotime \<Rightarrow> string \<Rightarrow> change_options \<Rightarrow> catalog \<Rightarrow> 'w \<Rightarrow> (catalog \<times> 'w) \<times> go_error option" where
  "ad_upgrade sdk lib now cl o' c w = apply_change sdk lib now ''upgrade'' (\<lambda>ch w. sd_upgrade sdk w cl ch o') cl o' c w"

definition ad_change ::
  "'w helm_sdk \<Rightarrow> helm_lib \<Rightarrow> gotime \<Rightarrow> string \<Rightarrow> string \<Rightarrow> change_options \<Rightarrow> catalog \<Rightarrow> 'w \<Rightarrow> (catalog \<times> 'w) \<times> go_error option" where
  "ad_change sdk lib now op cl o' c w =
     (if op = ''install'' then ad_install sdk lib now cl o' c w else ad_upgrade sdk lib now cl o' c w)"

section \<open>What the package service relies on\<close>

locale helm_backend =
  fixes render :: "string \<Rightarrow> string \<Rightarrow> change_options \<Rightarrow> catalog \<Rightarrow> 'w \<Rightarrow> catalog \<times> preview res"
    and change :: "string \<Rightarrow> string \<Rightarrow> change_options \<Rightarrow> catalog \<Rightarrow> 'w \<Rightarrow> (catalog \<times> 'w) \<times> go_error option"
  assumes as_previewed: "change op cl o' c w = ((c', w'), None) \<Longrightarrow>
      \<exists>p. snd (render op cl o' c w) = Inr p \<and> pv_digest p = co_digest o'"
    and changed_as_previewed: "change op cl o' c w = ((c', w'), e) \<Longrightarrow> w' \<noteq> w \<Longrightarrow>
      \<exists>p. snd (render op cl o' c w) = Inr p \<and> pv_digest p = co_digest o'"
    and change_keeps_uploads: "uploads_ok c \<Longrightarrow> uploads_ok (fst (fst (change op cl o' c w)))"
begin

lemma unexpected_digest_changes_nothing:
  assumes "\<And>p. snd (render op cl o' c w) = Inr p \<Longrightarrow> pv_digest p \<noteq> co_digest o'"
  shows "snd (fst (change op cl o' c w)) = w \<and> snd (change op cl o' c w) \<noteq> None"
proof -
  obtain c' w' e where ch: "change op cl o' c w = ((c', w'), e)" by (metis prod.collapse)
  with assms as_previewed changed_as_previewed show ?thesis by (metis fst_conv snd_conv)
qed

end

lemma apply_change_previewed:
  assumes "apply_change sdk lib now op run cl o' c w = ((c', w'), e)" "e = None \<or> w' \<noteq> w"
  shows "\<exists>p. snd (ad_preview sdk lib now op cl o' c w) = Inr p \<and> pv_digest p = co_digest o'"
proof (cases "sd_config sdk cl (co_namespace o')")
  case None
  obtain c1 r where l: "load_chart lib now (co_source o') c = (c1, r)" by (cases "load_chart lib now (co_source o') c")
  show ?thesis
  proof (cases r)
    case (Inl e')
    with None l assms show ?thesis by (auto simp: apply_change_def)
  next
    case (Inr ch)
    show ?thesis
    proof (cases "render_change sdk op cl ch o' w")
      case (Inl e')
      with None l \<open>r = Inr ch\<close> assms show ?thesis by (auto simp: apply_change_def)
    next
      case rd: (Inr mh)
      obtain m hooks where mh: "mh = (m, hooks)" by (cases mh)
      have "change_digest (hl_sha lib) ch (release_manifest m hooks) = co_digest o'"
        using assms None l Inr rd mh by (auto simp: apply_change_def split: if_splits)
      then show ?thesis using None l Inr rd mh by (simp add: ad_preview_def Let_def)
    qed
  qed
qed (use assms in \<open>auto simp: apply_change_def\<close>)

lemma render_upgrade:
  assumes "op \<noteq> ''install''"
  shows "ad_preview sdk lib now ''upgrade'' cl o' c w = ad_preview sdk lib now op cl o' c w"
proof -
  have "render_change sdk ''upgrade'' cl ch o' w = render_change sdk op cl ch o' w" for ch
    using assms by (simp add: render_change_def)
  then show ?thesis unfolding ad_preview_def by (simp only:)
qed

lemma ad_change_apply:
  obtains op' run where "ad_change sdk lib now op cl o' c w = apply_change sdk lib now op' run cl o' c w"
    "ad_preview sdk lib now op' cl o' c w = ad_preview sdk lib now op cl o' c w"
proof (cases "op = ''install''")
  case True
  then show thesis by (intro that [of "''install''" "\<lambda>ch w. sd_install sdk w cl ch o'"]) (simp_all add: ad_change_def ad_install_def)
next
  case False
  then show thesis
    by (intro that [of "''upgrade''" "\<lambda>ch w. sd_upgrade sdk w cl ch o'"]) (simp_all add: ad_change_def ad_upgrade_def render_upgrade)
qed

lemma ad_change_previewed:
  "ad_change sdk lib now op cl o' c w = ((c', w'), e) \<Longrightarrow> e = None \<or> w' \<noteq> w \<Longrightarrow>
     \<exists>p. snd (ad_preview sdk lib now op cl o' c w) = Inr p \<and> pv_digest p = co_digest o'"
  using ad_change_apply [of sdk lib now op cl o' c w] apply_change_previewed by metis

lemma apply_change_catalog: "fst (fst (apply_change sdk lib now op run cl o' c w)) = c \<or>
    fst (fst (apply_change sdk lib now op run cl o' c w)) = fst (load_chart lib now (co_source o') c)"
  by (auto simp: apply_change_def split: option.splits prod.splits sum.splits)

interpretation helm: helm_backend "ad_preview sdk lib now" "ad_change sdk lib now"
proof
  fix op cl o' c w c' w' e
  show "ad_change sdk lib now op cl o' c w = ((c', w'), None) \<Longrightarrow>
      \<exists>p. snd (ad_preview sdk lib now op cl o' c w) = Inr p \<and> pv_digest p = co_digest o'"
    by (erule ad_change_previewed) simp
  show "ad_change sdk lib now op cl o' c w = ((c', w'), e) \<Longrightarrow> w' \<noteq> w \<Longrightarrow>
      \<exists>p. snd (ad_preview sdk lib now op cl o' c w) = Inr p \<and> pv_digest p = co_digest o'"
    by (erule ad_change_previewed) simp
  assume ok: "uploads_ok c"
  obtain op' run where "ad_change sdk lib now op cl o' c w = apply_change sdk lib now op' run cl o' c w"
    by (rule ad_change_apply)
  then show "uploads_ok (fst (fst (ad_change sdk lib now op cl o' c w)))"
    using ok load_chart_keeps [OF ok, of lib now "co_source o'"] apply_change_catalog [of sdk lib now op' run cl o' c w] by metis
qed

end
