(* ===== verification/Helm_Service.thy ===== *)
theory Helm_Service
  imports Helm_Adapter Operation_Steps
begin

text \<open>
  The package service: \<open>packages/service.go\<close> and the background executor of
  \<open>packages/operations.go\<close>. A change is previewed first; the preview hands out a confirmation that one
  request may redeem for exactly the change previewed. The catalogue is always present, as
  \<open>cmd/kubevision/main.go\<close> wires it. One value of the clock serves a whole call.
\<close>

section \<open>Errors\<close>

fun index_str :: "string \<Rightarrow> string \<Rightarrow> nat option" where
  "index_str p [] = (if p = [] then Some 0 else None)"
| "index_str p (c # cs) = (if has_prefix (c # cs) p then Some 0 else map_option Suc (index_str p cs))"

fun last_index_str :: "string \<Rightarrow> string \<Rightarrow> nat option" where
  "last_index_str p [] = (if p = [] then Some 0 else None)"
| "last_index_str p (c # cs) =
     (case last_index_str p cs of Some i \<Rightarrow> Some (Suc i) | None \<Rightarrow> if has_prefix (c # cs) p then Some 0 else None)"

definition before_newline :: "string \<Rightarrow> string" where
  "before_newline s = takeWhile (\<lambda>c. c \<noteq> CHR 0x0A \<and> c \<noteq> CHR 0x0D) s"

definition chart_validation_message :: "string \<Rightarrow> string option" where
  "chart_validation_message text =
     (case last_index_str ''execution error at ('' text of
        None \<Rightarrow> None
      | Some i \<Rightarrow>
          (case index_str ''): '' (drop i text) of
             None \<Rightarrow> None
           | Some j \<Rightarrow>
               let d0 = trim_space (drop (i + j + 3) text);
                   d = (if before_newline d0 = d0 then d0 else trim_space (before_newline d0)) in
               if d = [] then None else Some (if 512 < length d then take 512 d else d)))"

text \<open>The first \<open>n\<close> code points of a UTF-8 string.\<close>

fun take_runes :: "nat \<Rightarrow> string \<Rightarrow> string" where
  "take_runes n [] = []"
| "take_runes n (c # cs) =
     (let b = of_char c :: nat; cont = 128 \<le> b \<and> b < 192 in
      if cont then c # take_runes n cs
      else case n of 0 \<Rightarrow> [] | Suc m \<Rightarrow> c # take_runes m cs)"

text \<open>The world of the service: the replacements of its three regular expressions are parameters.\<close>

record change_view =
  vw_release :: string
  vw_namespace :: string
  vw_chart :: string
  vw_repo_url :: string
  vw_version :: string
  vw_repo_id :: nat
  vw_upload :: string
  vw_values :: fields
  vw_create_ns :: bool
  vw_wait :: bool
  vw_atomic :: bool

record 'w helm_env =
  hv_sdk :: "'w helm_sdk"
  hv_lib :: helm_lib
  hv_allowed :: "package_actor \<Rightarrow> string \<Rightarrow> string \<Rightarrow> string \<Rightarrow> bool"
  hv_hash :: "change_view \<Rightarrow> string"
  hv_marshal :: "fields \<Rightarrow> string option"
  hv_yaml_docs :: "string \<Rightarrow> fields list \<times> bool"
  hv_yaml_marshal :: "fields \<Rightarrow> string option"
  hv_duration :: "duration \<Rightarrow> string"
  hv_key_re :: "string \<Rightarrow> string"
  hv_cred_re :: "string \<Rightarrow> string"
  hv_url_re :: "string \<Rightarrow> string"

definition no_breaks :: "string \<Rightarrow> string" where
  "no_breaks s = map (\<lambda>c. if c = CHR 0x0D \<or> c = CHR 0x0A then CHR '' '' else c) s"

definition safe_adapter_error_detail :: "'w helm_env \<Rightarrow> go_error \<Rightarrow> string" where
  "safe_adapter_error_detail env e =
     (let d1 = trim_space (no_breaks (hv_key_re env (error_string e)));
          d = take_runes 512 (hv_url_re env (hv_cred_re env d1)) in
      if d = [] then ''unknown Helm error'' else d)"

definition any_of :: "string \<Rightarrow> string list \<Rightarrow> bool" where
  "any_of text ps = list_ex (contains text) ps"

definition map_adapter_error :: "'w helm_env \<Rightarrow> go_error \<Rightarrow> go_error" where
  "map_adapter_error env e =
     (case e of
        BizErr c m \<Rightarrow> e
      | OtherErr t dl \<Rightarrow>
          (case chart_validation_message t of
             Some m \<Rightarrow> biz_new CodeValidation (''chart values are invalid: '' @ m)
           | None \<Rightarrow>
               let text = to_lower t; detail = safe_adapter_error_detail env e in
               if contains text ''cannot re-use a name that is still in use''
                 then biz_new CodeConflict ''release already exists; upgrade or remove it before reinstalling''
               else if contains text ''not found'' then biz_new CodeNotFound ''release or revision not found''
               else if dl \<or> any_of text [''timed out'', ''timeout'']
                 then biz_new CodeK8sUnavailable ''timed out waiting for release resources; inspect Pods and Events, then retry with a longer timeout''
               else if any_of text [''failed pre-install'', ''failed post-install'', ''failed pre-upgrade'', ''failed post-upgrade'']
                 then biz_new CodeValidation (''Helm hook failed: '' @ detail)
               else if any_of text [''unable to build kubernetes objects'', ''rendered manifests contain'', ''cannot patch'', ''is invalid'']
                 then biz_new CodeValidation (''Kubernetes rejected the rendered resources: '' @ detail)
               else if any_of text [''connection refused'', ''no route to host'', ''tls handshake'', ''server is currently unable'']
                 then biz_new CodeK8sUnavailable (''cannot reach the Kubernetes API: '' @ detail)
               else biz_new CodeK8sUnavailable (''package operation failed: '' @ detail)))"

section \<open>Redaction of values\<close>

definition secret_key :: "string \<Rightarrow> bool" where
  "secret_key k \<longleftrightarrow> any_of (to_lower k) [''secret'', ''password'', ''token'', ''privatekey'', ''certificate'']"

definition redacted :: json where "redacted = JStr ''[REDACTED]''"

fun redact_map :: "fields \<Rightarrow> fields"
  and redact_entry :: "json \<Rightarrow> json"
  and redact_items :: "json list \<Rightarrow> json list"
  and redact_item :: "json \<Rightarrow> json" where
  "redact_map [] = []"
| "redact_map ((k, v) # m) = (k, if secret_key k then redacted else redact_entry v) # redact_map m"
| "redact_entry (JObj m) = JObj (redact_map m)"
| "redact_entry (JArr xs) = JArr (redact_items xs)"
| "redact_entry JNull = JNull"
| "redact_entry (JBool b) = JBool b"
| "redact_entry (JNum n e) = JNum n e"
| "redact_entry (JStr s) = JStr s"
| "redact_items [] = []"
| "redact_items (x # xs) = redact_item x # redact_items xs"
| "redact_item (JObj m) = JObj (redact_map m)"
| "redact_item (JArr xs) = JArr xs"
| "redact_item JNull = JNull"
| "redact_item (JBool b) = JBool b"
| "redact_item (JNum n e) = JNum n e"
| "redact_item (JStr s) = JStr s"

definition sanitize_release :: "release \<Rightarrow> release" where
  "sanitize_release r = r\<lparr>re_values := redact_map (re_values r),
     re_resources := map (\<lambda>x. if rr_kind x = ''Secret'' then x\<lparr>rr_name := ''[REDACTED]''\<rparr> else x) (re_resources r)\<rparr>"

section \<open>State\<close>

record grant =
  pg_actor :: nat
  pg_operation :: string
  pg_cluster :: string
  pg_fingerprint :: string
  pg_digest :: string
  pg_expires :: gotime

record 'w helm_world =
  hw_kube :: 'w
  hw_catalog :: catalog
  hw_previews :: "(string, grant) gomap"
  hw_active :: "string list"
  hw_audit :: "package_event list"

definition preview_ttl :: duration where "preview_ttl = 10 * minute"
definition max_previews :: int where "max_previews = 5000"

section \<open>Checks shared by the operations\<close>

definition change_permission :: "string \<Rightarrow> string res" where
  "change_permission op =
     (if op = ''install'' then Inr PermissionInstall
      else if op = ''upgrade'' then Inr PermissionUpgrade
      else fail CodeParamInvalid ''operation must be install or upgrade'')"

definition timeout_ok :: "duration \<Rightarrow> bool" where
  "timeout_ok t \<longleftrightarrow> \<not> (t < second \<or> 30 * minute < t)"

definition default_timeout :: "duration \<Rightarrow> duration" where
  "default_timeout t = (if t = 0 then 5 * minute else t)"

definition max_values_json :: int where "max_values_json = 512 * 1024"

definition trimmed_options :: "change_options \<Rightarrow> change_options" where
  "trimmed_options o' = o'\<lparr>co_release := trim_space (co_release o'), co_namespace := trim_space (co_namespace o'),
     co_source := (co_source o')\<lparr>cs_chart := trim_space (cs_chart (co_source o'))\<rparr>\<rparr>"

definition validate_change_options :: "'w helm_env \<Rightarrow> change_options \<Rightarrow> change_options res" where
  "validate_change_options env o0 =
     (let o' = trimmed_options o0; src = co_source o' in
      if co_release o' = [] \<or> co_namespace o' = [] \<or> cs_chart src = [] \<and> cs_upload src = []
        then fail CodeParamInvalid ''release name, namespace, and chart are required''
      else if (53 :: int) < int (length (co_release o')) \<or> (63 :: int) < int (length (co_namespace o')) \<or>
            (2048 :: int) < int (length (cs_chart src)) \<or> (2048 :: int) < int (length (cs_repo_url src))
        then fail CodeParamInvalid ''package input is too long''
      else if \<not> timeout_ok (default_timeout (co_timeout o'))
        then fail CodeParamInvalid ''timeout must be between 1 second and 30 minutes''
      else case hv_marshal env (co_values o') of
          None \<Rightarrow> fail CodeParamInvalid ''values must be valid JSON and no larger than 512 KiB''
        | Some j \<Rightarrow>
            if max_values_json < int (length j) then fail CodeParamInvalid ''values must be valid JSON and no larger than 512 KiB''
            else Inr (o'\<lparr>co_timeout := default_timeout (co_timeout o')\<rparr>))"

text \<open>
  The fingerprint hashes the JSON of the options without token and digest; the credentials, the
  private-network mark and the timeout have no place in that JSON.
\<close>

definition view_of :: "change_options \<Rightarrow> change_view" where
  "view_of o' = \<lparr>vw_release = co_release o', vw_namespace = co_namespace o', vw_chart = cs_chart (co_source o'),
     vw_repo_url = cs_repo_url (co_source o'), vw_version = cs_version (co_source o'), vw_repo_id = cs_repo_id (co_source o'),
     vw_upload = cs_upload (co_source o'), vw_values = co_values o', vw_create_ns = co_create_ns o', vw_wait = co_wait o',
     vw_atomic = co_atomic o'\<rparr>"

definition change_fingerprint :: "'w helm_env \<Rightarrow> change_options \<Rightarrow> string" where
  "change_fingerprint env o' = hv_hash env (view_of o')"

text \<open>The source check with which \<open>Preview\<close>, \<open>PrepareChange\<close> and \<open>ExecutePreparedChange\<close> begin.\<close>

definition resolve_options ::
  "'w helm_env \<Rightarrow> bool \<Rightarrow> gotime \<Rightarrow> package_actor \<Rightarrow> change_options \<Rightarrow> 'w helm_world \<Rightarrow> 'w helm_world \<times> change_options res" where
  "resolve_options env flt now a o' w =
     (case authorize_upload now a (cs_upload (co_source o')) (hw_catalog w) of
        (c1, Some e) \<Rightarrow> (w\<lparr>hw_catalog := c1\<rparr>, Inl e)
      | (c1, None) \<Rightarrow>
          (w\<lparr>hw_catalog := c1\<rparr>,
           case resolve_source (hv_lib env) flt (co_source o') c1 of
             Inl e \<Rightarrow> Inl (map_adapter_error env e)
           | Inr src \<Rightarrow> Inr (o'\<lparr>co_source := src\<rparr>)))"

definition admit_change :: "'w helm_env \<Rightarrow> bool \<Rightarrow> gotime \<Rightarrow> package_actor \<Rightarrow> string \<Rightarrow> string \<Rightarrow> change_options \<Rightarrow> 'w helm_world \<Rightarrow>
    'w helm_world \<times> change_options res" where
  "admit_change env flt now a op cl o' w =
     (case resolve_options env flt now a o' w of
        (w1, Inl e) \<Rightarrow> (w1, Inl e)
      | (w1, Inr o1) \<Rightarrow>
          (w1, case change_permission op of
                 Inl e \<Rightarrow> Inl e
               | Inr perm \<Rightarrow>
                   if \<not> hv_allowed env a perm cl (co_namespace o1) then Inl ErrForbidden
                   else validate_change_options env o1))"

section \<open>Preview\<close>

definition prune_previews :: "gotime \<Rightarrow> (string, grant) gomap \<Rightarrow> (string, grant) gomap" where
  "prune_previews now m = gm_prune (\<lambda>g. after now (pg_expires g)) m"

definition namespace_risk :: "change_options \<Rightarrow> risk list" where
  "namespace_risk o' = (if co_create_ns o'
     then [\<lparr>rk_level = ''critical'', rk_code = ''namespace-create'',
            rk_message = ''creates the target namespace outside the rendered manifest'', rk_resource = ''Namespace/'' @ co_namespace o'\<rparr>]
     else [])"

definition assessed :: "package_actor \<Rightarrow> string \<Rightarrow> change_options \<Rightarrow> preview \<Rightarrow> preview" where
  "assessed a op o' p =
     (let risks = pv_risks p @ namespace_risk o' in
      p\<lparr>pv_risks := risks, pv_operation := op, pv_can_execute := \<not> has_critical_risk risks \<or> is_admin a\<rparr>)"

definition redacted_preview :: "'w helm_env \<Rightarrow> preview \<Rightarrow> preview" where
  "redacted_preview env p = p\<lparr>pv_manifest := redact_manifest (hv_yaml_docs env) (hv_yaml_marshal env) (pv_manifest p)\<rparr>"

text \<open>\<open>tok\<close> is the random token, or the error of the random source.\<close>

definition service_preview ::
  "'w helm_env \<Rightarrow> bool \<Rightarrow> gotime \<Rightarrow> string res \<Rightarrow> package_actor \<Rightarrow> string \<Rightarrow> string \<Rightarrow> change_options \<Rightarrow> 'w helm_world \<Rightarrow>
    'w helm_world \<times> preview res" where
  "service_preview env flt now tok a op cl o0 w =
     (if cs_repo_id (co_source o0) \<noteq> 0 \<and> \<not> is_admin a then (w, Inl ErrForbidden)
      else case admit_change env flt now a op cl o0 w of
        (w1, Inl e) \<Rightarrow> (w1, Inl e)
      | (w1, Inr o') \<Rightarrow>
          (case ad_preview (hv_sdk env) (hv_lib env) now op cl o' (hw_catalog w1) (hw_kube w1) of
             (c2, Inl e) \<Rightarrow> (w1\<lparr>hw_catalog := c2\<rparr>, Inl (map_adapter_error env e))
           | (c2, Inr p0) \<Rightarrow>
               let w2 = w1\<lparr>hw_catalog := c2\<rparr>; p = assessed a op o' p0 in
               if pv_can_execute p \<and> \<not> ac_preview_only a then
                 (case tok of
                    Inl _ \<Rightarrow> (w2, fail CodeInternal ''could not create confirmation'')
                  | Inr t \<Rightarrow>
                      let pr = prune_previews now (hw_previews w2); expires = now + preview_ttl in
                      if max_previews \<le> int (length pr)
                        then (w2\<lparr>hw_previews := pr\<rparr>, fail CodeConflict ''too many pending package previews; try again later'')
                      else (w2\<lparr>hw_previews := gm_put t \<lparr>pg_actor = ac_user a, pg_operation = op, pg_cluster = cl,
                                pg_fingerprint = change_fingerprint env o', pg_digest = pv_digest p, pg_expires = expires\<rparr> pr\<rparr>,
                            Inr (redacted_preview env (p\<lparr>pv_token := t, pv_expires := expires\<rparr>))))
               else (w2, Inr (redacted_preview env p))))"

section \<open>Redeeming a confirmation\<close>

record prepared =
  pc_operation :: string
  pc_cluster :: string
  pc_options :: change_options
  pc_digest :: string

definition permission_or_empty :: "string \<Rightarrow> string" where
  "permission_or_empty op = (case change_permission op of Inl _ \<Rightarrow> [] | Inr p \<Rightarrow> p)"

definition redeem_preview ::
  "'w helm_env \<Rightarrow> gotime \<Rightarrow> package_actor \<Rightarrow> string \<Rightarrow> string \<Rightarrow> change_options \<Rightarrow> (string, grant) gomap \<Rightarrow> grant option" where
  "redeem_preview env now a op cl o' m =
     (case gm_get m (co_token o') of
        None \<Rightarrow> None
      | Some g \<Rightarrow>
          if after now (pg_expires g) \<or> pg_actor g \<noteq> ac_user a \<or> pg_operation g \<noteq> op \<or> pg_cluster g \<noteq> cl \<or>
             pg_fingerprint g \<noteq> change_fingerprint env o' then None
          else Some g)"

definition prepare_change ::
  "'w helm_env \<Rightarrow> bool \<Rightarrow> gotime \<Rightarrow> package_actor \<Rightarrow> string \<Rightarrow> string \<Rightarrow> change_options \<Rightarrow> 'w helm_world \<Rightarrow>
    'w helm_world \<times> prepared res" where
  "prepare_change env flt now a op cl o0 w =
     (if cs_repo_id (co_source o0) \<noteq> 0 \<and> \<not> is_admin a then (w, Inl ErrForbidden)
      else case resolve_options env flt now a o0 w of
        (w1, Inl e) \<Rightarrow> (w1, Inl e)
      | (w1, Inr o1) \<Rightarrow>
          if \<not> hv_allowed env a (permission_or_empty op) cl (co_namespace o1) then (w1, Inl ErrForbidden)
          else (case validate_change_options env o1 of
             Inl e \<Rightarrow> (w1, Inl e)
           | Inr o' \<Rightarrow>
               let w2 = w1\<lparr>hw_previews := gm_del (co_token o') (hw_previews w1)\<rparr> in
               (case redeem_preview env now a op cl o' (hw_previews w1) of
                  None \<Rightarrow> (w2, fail CodeValidation ''preview expired or does not match this operation; preview again'')
                | Some g \<Rightarrow> (w2, Inr \<lparr>pc_operation = op, pc_cluster = cl, pc_options = o'\<lparr>co_source := co_source o0\<rparr>,
                                     pc_digest = pg_digest g\<rparr>))))"

section \<open>Changing a release\<close>

definition release_key :: "string \<Rightarrow> string \<Rightarrow> string \<Rightarrow> string" where
  "release_key cl ns nm = cl @ CHR 0x00 # ns @ CHR 0x00 # nm"

text \<open>\<open>mutate\<close>: one operation per release at a time, and an audit entry for each that ran for \<open>el\<close>.\<close>

definition mutate_begin :: "string \<Rightarrow> 'w helm_world \<Rightarrow> 'w helm_world option" where
  "mutate_begin key w = (if key \<in> set (hw_active w) then None else Some (w\<lparr>hw_active := key # hw_active w\<rparr>))"

definition mutate_end :: "string \<Rightarrow> package_event \<Rightarrow> 'w helm_world \<Rightarrow> 'w helm_world" where
  "mutate_end key ev w = w\<lparr>hw_active := filter (\<lambda>k. k \<noteq> key) (hw_active w), hw_audit := hw_audit w @ [ev]\<rparr>"

definition mutate ::
  "'w helm_env \<Rightarrow> int \<Rightarrow> package_actor \<Rightarrow> string \<Rightarrow> string \<Rightarrow> string \<Rightarrow> string \<Rightarrow> int \<Rightarrow> string \<Rightarrow>
    ('w helm_world \<Rightarrow> 'w helm_world \<times> go_error option) \<Rightarrow> 'w helm_world \<Rightarrow> 'w helm_world \<times> go_error option" where
  "mutate env el a act cl ns nm rv summary fn w =
     (case mutate_begin (release_key cl ns nm) w of
        None \<Rightarrow> (w, Some (biz_new CodeConflict ''another release operation is already running''))
      | Some w1 \<Rightarrow>
          (case fn w1 of (w2, e0) \<Rightarrow>
             let e = map_option (map_adapter_error env) e0 in
             (mutate_end (release_key cl ns nm)
                \<lparr>pe_actor = a, pe_action = act, pe_cluster = cl, pe_namespace = ns, pe_release = nm, pe_revision = rv,
                 pe_options = summary, pe_outcome = (if e = None then ''succeeded'' else ''failed''), pe_duration = el\<rparr> w2, e)))"

definition bool_text :: "bool \<Rightarrow> string" where
  "bool_text b = (if b then ''true'' else ''false'')"

definition change_summary :: "'w helm_env \<Rightarrow> change_options \<Rightarrow> string" where
  "change_summary env o' = ''chart='' @ cs_chart (co_source o') @ '',version='' @ cs_version (co_source o') @ '',wait='' @
     bool_text (co_wait o') @ '',atomic='' @ bool_text (co_atomic o') @ '',timeout='' @ hv_duration env (co_timeout o')"

definition run_change :: "'w helm_env \<Rightarrow> gotime \<Rightarrow> string \<Rightarrow> string \<Rightarrow> change_options \<Rightarrow> 'w helm_world \<Rightarrow> 'w helm_world \<times> go_error option" where
  "run_change env now op cl o' w =
     (case ad_change (hv_sdk env) (hv_lib env) now op cl o' (hw_catalog w) (hw_kube w) of
        ((c, k), e) \<Rightarrow> (w\<lparr>hw_catalog := c, hw_kube := k\<rparr>, e))"

text \<open>The source is recorded as the user gave it; a failure to record it is ignored.\<close>

definition execute_prepared_change ::
  "'w helm_env \<Rightarrow> faults \<Rightarrow> gotime \<Rightarrow> int \<Rightarrow> package_actor \<Rightarrow> prepared \<Rightarrow> 'w helm_world \<Rightarrow> 'w helm_world \<times> go_error option" where
  "execute_prepared_change env fl now el a pc w =
     (case admit_change env (fl DbGet) now a (pc_operation pc) (pc_cluster pc) (pc_options pc) w of
        (w1, Inl e) \<Rightarrow> (w1, Some e)
      | (w1, Inr o1) \<Rightarrow>
          let o' = o1\<lparr>co_digest := pc_digest pc\<rparr> in
          (case mutate env el a (pc_operation pc) (pc_cluster pc) (co_namespace o') (co_release o') 0 (change_summary env o')
                  (run_change env now (pc_operation pc) (pc_cluster pc) o') w1 of
             (w2, Some e) \<Rightarrow> (w2, Some e)
           | (w2, None) \<Rightarrow>
               (w2\<lparr>hw_catalog := fst (save_release_source (fl DbCreate) now (pc_cluster pc) (co_namespace o') (co_release o')
                    (co_source (pc_options pc)) (hw_catalog w2))\<rparr>, None)))"

definition service_change ::
  "'w helm_env \<Rightarrow> faults \<Rightarrow> gotime \<Rightarrow> int \<Rightarrow> package_actor \<Rightarrow> string \<Rightarrow> string \<Rightarrow> change_options \<Rightarrow> 'w helm_world \<Rightarrow>
    'w helm_world \<times> go_error option" where
  "service_change env fl now el a op cl o' w =
     (case prepare_change env (fl DbGet) now a op cl o' w of
        (w1, Inl e) \<Rightarrow> (w1, Some e)
      | (w1, Inr pc) \<Rightarrow> execute_prepared_change env fl now el a pc w1)"

definition service_install where "service_install env fl now el a = service_change env fl now el a ''install''"
definition service_upgrade where "service_upgrade env fl now el a = service_change env fl now el a ''upgrade''"

definition service_rollback ::
  "'w helm_env \<Rightarrow> int \<Rightarrow> package_actor \<Rightarrow> string \<Rightarrow> string \<Rightarrow> string \<Rightarrow> rollback_options \<Rightarrow> 'w helm_world \<Rightarrow> 'w helm_world \<times> go_error option" where
  "service_rollback env el a cl ns nm o0 w =
     (let o' = o0\<lparr>ro_timeout := default_timeout (ro_timeout o0)\<rparr> in
      if \<not> hv_allowed env a PermissionRollback cl ns then (w, Some ErrForbidden)
      else if ro_revision o' < 1 then (w, Some (biz_new CodeParamInvalid ''revision must be positive''))
      else if \<not> timeout_ok (ro_timeout o')
        then (w, Some (biz_new CodeParamInvalid ''timeout must be between 1 second and 30 minutes''))
      else case ad_get (hv_sdk env) cl ns nm (ro_revision o') (hw_kube w) of
          Inl e \<Rightarrow> (w, Some (map_adapter_error env e))
        | Inr r \<Rightarrow>
            if re_revision r \<noteq> ro_revision o' then (w, Some ErrNotFound)
            else mutate env el a ''rollback'' cl ns nm (ro_revision o')
              (''wait='' @ bool_text (ro_wait o') @ '',atomic='' @ bool_text (ro_atomic o') @ '',timeout='' @ hv_duration env (ro_timeout o'))
              (\<lambda>w1. case ad_rollback (hv_sdk env) cl ns nm o' (hw_kube w1) of (k, e) \<Rightarrow> (w1\<lparr>hw_kube := k\<rparr>, e)) w)"

definition service_remove ::
  "'w helm_env \<Rightarrow> faults \<Rightarrow> int \<Rightarrow> package_actor \<Rightarrow> string \<Rightarrow> string \<Rightarrow> string \<Rightarrow> remove_options \<Rightarrow> 'w helm_world \<Rightarrow> 'w helm_world \<times> go_error option" where
  "service_remove env fl el a cl ns nm o0 w =
     (let o' = o0\<lparr>rm_timeout := default_timeout (rm_timeout o0)\<rparr> in
      if \<not> hv_allowed env a PermissionRemove cl ns then (w, Some ErrForbidden)
      else if rm_confirmation o' \<noteq> nm then (w, Some (biz_new CodeValidation ''confirmation must exactly match the release name''))
      else if \<not> timeout_ok (rm_timeout o')
        then (w, Some (biz_new CodeParamInvalid ''timeout must be between 1 second and 30 minutes''))
      else case mutate env el a ''remove'' cl ns nm 0
              (''keepHistory='' @ bool_text (rm_keep o') @ '',wait='' @ bool_text (rm_wait o') @ '',timeout='' @ hv_duration env (rm_timeout o'))
              (\<lambda>w1. case ad_remove (hv_sdk env) cl ns nm o' (hw_kube w1) of (k, e) \<Rightarrow> (w1\<lparr>hw_kube := k\<rparr>, e)) w of
          (w2, Some e) \<Rightarrow> (w2, Some e)
        | (w2, None) \<Rightarrow> (w2\<lparr>hw_catalog := fst (delete_release_source (fl DbDelete) cl ns nm (hw_catalog w2))\<rparr>, None))"

section \<open>Reading releases\<close>

definition service_list :: "'w helm_env \<Rightarrow> package_actor \<Rightarrow> string \<Rightarrow> release_list_options \<Rightarrow> 'w helm_world \<Rightarrow> release list res" where
  "service_list env a cl o0 w =
     (let o' = (if lo_limit o0 = 0 then o0\<lparr>lo_limit := 100\<rparr> else o0) in
      if \<not> hv_allowed env a PermissionRead cl (lo_namespace o') then Inl ErrForbidden
      else if lo_limit o' < 1 \<or> 200 < lo_limit o' then fail CodeParamInvalid ''limit must be between 1 and 200''
      else case ad_list (hv_sdk env) cl o' (hw_kube w) of
          Inl e \<Rightarrow> Inl (map_adapter_error env e) | Inr rs \<Rightarrow> Inr (map sanitize_release rs))"

definition service_get :: "'w helm_env \<Rightarrow> bool \<Rightarrow> package_actor \<Rightarrow> string \<Rightarrow> string \<Rightarrow> string \<Rightarrow> int \<Rightarrow> 'w helm_world \<Rightarrow> release res" where
  "service_get env flt a cl ns nm rv w =
     (if \<not> hv_allowed env a PermissionRead cl ns then Inl ErrForbidden
      else case ad_get (hv_sdk env) cl ns nm rv (hw_kube w) of
          Inl e \<Rightarrow> Inl (map_adapter_error env e)
        | Inr r \<Rightarrow>
            let r' = (if rv = 0 then
                        (case release_source_of flt cl ns nm (hw_catalog w) of
                           Inr (src, True) \<Rightarrow> r\<lparr>re_source := Some src\<rparr> | _ \<Rightarrow> r)
                      else r)
            in Inr (sanitize_release r'))"

definition service_history :: "'w helm_env \<Rightarrow> package_actor \<Rightarrow> string \<Rightarrow> string \<Rightarrow> string \<Rightarrow> 'w helm_world \<Rightarrow> release list res" where
  "service_history env a cl ns nm w =
     (if \<not> hv_allowed env a PermissionRead cl ns then Inl ErrForbidden
      else case ad_history (hv_sdk env) cl ns nm (hw_kube w) of
          Inl e \<Rightarrow> Inl (map_adapter_error env e)
        | Inr rs \<Rightarrow> Inr (sort_by (\<lambda>x y. re_revision x > re_revision y) (map sanitize_release rs)))"

record upgrade_candidate =
  uc_required :: bool
  uc_available :: bool
  uc_current :: string
  uc_latest :: string
  uc_app :: string
  uc_source :: chart_source

definition check_upgrade ::
  "'w helm_env \<Rightarrow> faults \<Rightarrow> gotime \<Rightarrow> package_actor \<Rightarrow> string \<Rightarrow> string \<Rightarrow> string \<Rightarrow> chart_source option \<Rightarrow> 'w helm_world \<Rightarrow>
    'w helm_world \<times> upgrade_candidate res" where
  "check_upgrade env fl now a cl ns nm provided w =
     (let lib = hv_lib env; c = hw_catalog w in
      if \<not> hv_allowed env a PermissionUpgrade cl ns then (w, Inl ErrForbidden)
      else case ad_get (hv_sdk env) cl ns nm 0 (hw_kube w) of
        Inl e \<Rightarrow> (w, Inl (map_adapter_error env e))
      | Inr r \<Rightarrow>
          (case (case provided of Some src \<Rightarrow> Inr (src, True) | None \<Rightarrow> release_source_of (fl DbGet) cl ns nm c) of
             Inl e \<Rightarrow> (w, Inl (map_adapter_error env e))
           | Inr (src0, found) \<Rightarrow>
               let src = src0\<lparr>cs_chart := trim_space (cs_chart src0)\<rparr> in
               if \<not> found then (w, Inr \<lparr>uc_required = True, uc_available = False, uc_current = re_chart_version r, uc_latest = [],
                                     uc_app = [], uc_source = no_source\<rparr>)
               else if cs_chart src = [] \<or> cs_chart src \<noteq> re_chart r
                 then (w, fail CodeValidation ''chart source must match the installed release chart'')
               else (case latest_version lib (fl DbList) a src c of
                  Inl e \<Rightarrow> (w, Inl (map_adapter_error env e))
                | Inr latest \<Rightarrow>
                    if \<not> hl_semver lib (re_chart_version r) \<or> \<not> hl_semver lib (su_version latest)
                      then (w, fail CodeValidation ''installed and repository chart versions must use semantic versioning'')
                    else (case (if provided = None then (c, None) else save_release_source (fl DbCreate) now cl ns nm src c) of
                       (c', Some e) \<Rightarrow> (w\<lparr>hw_catalog := c'\<rparr>, Inl (map_adapter_error env e))
                     | (c', None) \<Rightarrow>
                         (w\<lparr>hw_catalog := c'\<rparr>,
                          Inr \<lparr>uc_required = False, uc_available = hl_greater lib (su_version latest) (re_chart_version r),
                             uc_current = re_chart_version r, uc_latest = su_version latest, uc_app = su_app latest,
                             uc_source = src\<lparr>cs_version := su_version latest\<rparr>\<rparr>)))))"

section \<open>The background executor\<close>

record operation_task =
  ot_action :: string
  ot_cluster :: string
  ot_namespace :: string
  ot_name :: string
  ot_source :: chart_source
  ot_values :: fields
  ot_create_ns :: bool
  ot_wait :: bool
  ot_atomic :: bool
  ot_timeout :: int
  ot_digest :: string
  ot_revision :: int
  ot_confirmation :: string
  ot_keep :: bool

definition new_change_operation_task :: "prepared \<Rightarrow> operation_task" where
  "new_change_operation_task pc =
     (let o' = pc_options pc in
      \<lparr>ot_action = pc_operation pc, ot_cluster = pc_cluster pc, ot_namespace = co_namespace o', ot_name = co_release o',
       ot_source = co_source o', ot_values = co_values o', ot_create_ns = co_create_ns o', ot_wait = co_wait o',
       ot_atomic = co_atomic o', ot_timeout = co_timeout o' div second, ot_digest = pc_digest pc, ot_revision = 0,
       ot_confirmation = [], ot_keep = False\<rparr>)"

definition prepared_of_task :: "operation_task \<Rightarrow> prepared" where
  "prepared_of_task t = \<lparr>pc_operation = ot_action t, pc_cluster = ot_cluster t,
     pc_options = \<lparr>co_release = ot_name t, co_namespace = ot_namespace t, co_source = ot_source t, co_values = ot_values t,
       co_create_ns = ot_create_ns t, co_wait = ot_wait t, co_atomic = ot_atomic t, co_timeout = ot_timeout t * second,
       co_token = [], co_digest = []\<rparr>, pc_digest = ot_digest t\<rparr>"

definition package_operation_failure :: "go_error \<Rightarrow> string \<Rightarrow> failure" where
  "package_operation_failure e act =
     (let f = \<lparr>f_stage = ''applying_resources'', f_code = ''PACKAGE_OPERATION_FAILED'', f_message = error_string e,
           f_suggestions = None, f_retryable = False, f_rollback = (act = ''upgrade'')\<rparr> in
      case e of
        OtherErr _ _ \<Rightarrow> f
      | BizErr c m \<Rightarrow>
          let g = f\<lparr>f_message := m\<rparr> in
          if c = CodeForbidden then g\<lparr>f_stage := ''authorization'', f_code := ''PERMISSION_DENIED'', f_retryable := False\<rparr>
          else if c = CodeValidation \<or> c = CodeParamInvalid
            then g\<lparr>f_stage := ''validation'', f_code := ''VALUES_OR_RESOURCE_INVALID'', f_retryable := False\<rparr>
          else if c = CodeConflict then g\<lparr>f_code := ''RELEASE_CONFLICT'', f_retryable := True\<rparr>
          else if c = CodeNotFound then g\<lparr>f_code := ''RELEASE_NOT_FOUND'', f_retryable := False\<rparr>
          else if c = CodeK8sUnavailable then
            (if contains (to_lower m) ''timed out''
             then g\<lparr>f_stage := ''wait_readiness'', f_code := ''POD_READINESS_TIMEOUT'',
                    f_suggestions := Some [''Inspect Pod status and events'', ''Inspect container logs'', ''Retry with a longer timeout'']\<rparr>
             else g\<lparr>f_code := ''KUBERNETES_UNAVAILABLE'',
                    f_suggestions := Some [''Check cluster connectivity'', ''Inspect Kubernetes events'']\<rparr>)
          else g)"

datatype op_result = OpRemoved | OpNamed string string | OpRelease release

definition actor_of :: "principal \<Rightarrow> package_actor" where
  "actor_of p = \<lparr>ac_user = pr_user p, ac_name = pr_name p, ac_role = pr_role p, ac_ip = [], ac_preview_only = False\<rparr>"

definition run_task :: "'w helm_env \<Rightarrow> faults \<Rightarrow> gotime \<Rightarrow> int \<Rightarrow> package_actor \<Rightarrow> operation_task \<Rightarrow> 'w helm_world \<Rightarrow>
    ('w helm_world \<times> go_error option) option" where
  "run_task env fl now el a t w =
     (if ot_action t = ''install'' \<or> ot_action t = ''upgrade'' then Some (execute_prepared_change env fl now el a (prepared_of_task t) w)
      else if ot_action t = ''rollback'' then Some (service_rollback env el a (ot_cluster t) (ot_namespace t) (ot_name t)
        \<lparr>ro_revision = ot_revision t, ro_wait = ot_wait t, ro_atomic = ot_atomic t, ro_timeout = ot_timeout t * second\<rparr> w)
      else if ot_action t = ''remove'' then Some (service_remove env fl el a (ot_cluster t) (ot_namespace t) (ot_name t)
        \<lparr>rm_confirmation = ot_confirmation t, rm_keep = ot_keep t, rm_wait = ot_wait t, rm_timeout = ot_timeout t * second\<rparr> w)
      else None)"

text \<open>\<open>parse\<close> decodes the saved input; the reports come before the result they precede in the code.\<close>

definition helm_executor :: "'w helm_env \<Rightarrow> (string \<Rightarrow> operation_task option) \<Rightarrow> faults \<Rightarrow> gotime \<Rightarrow> int \<Rightarrow> principal \<Rightarrow> string \<Rightarrow>
    'w helm_world \<Rightarrow> 'w helm_world \<times> report list \<times> (failure + op_result)" where
  "helm_executor env parse fl now el p raw w =
     (case parse raw of
        None \<Rightarrow> (w, [], Inl \<lparr>f_stage = ''preparing'', f_code = ''INVALID_OPERATION_INPUT'',
                   f_message = ''The saved operation input is invalid'', f_suggestions = None, f_retryable = False, f_rollback = False\<rparr>)
      | Some t \<Rightarrow>
          let applying = (''applying_resources'', ''Applying Helm release resources'', 35);
              verifying = (''verifying_release'', ''Verifying Helm release state'', 90) in
          (case run_task env fl now el (actor_of p) t w of
             None \<Rightarrow> (w, [applying], Inl \<lparr>f_stage = ''preparing'', f_code = ''UNSUPPORTED_OPERATION'',
                       f_message = ''This package operation is not supported'', f_suggestions = None, f_retryable = False, f_rollback = False\<rparr>)
           | Some (w', Some e) \<Rightarrow> (w', [applying], Inl (package_operation_failure e (ot_action t)))
           | Some (w', None) \<Rightarrow>
               (w', [applying, verifying],
                if ot_action t = ''remove'' then Inr OpRemoved
                else (case service_get env (fl DbList) (actor_of p) (ot_cluster t) (ot_namespace t) (ot_name t) 0 w' of
                        Inl _ \<Rightarrow> Inr (OpNamed (ot_name t) (ot_namespace t))
                      | Inr r \<Rightarrow> Inr (OpRelease r)))))"

end
