(* ===== verification/Helm_Safety.thy ===== *)
theory Helm_Safety
  imports Helm_Service
begin

text \<open>
  What holds of the package service as a whole: every change was previewed by its author and applies
  the preview, a confirmation works once, changes stay within the author's permissions, and a
  release has one operation at a time.
\<close>

section \<open>What an operation leaves alone\<close>

lemma resolve_options_frame:
  "resolve_options env flt now a o' w = (w1, r) \<Longrightarrow>
     hw_previews w1 = hw_previews w \<and> hw_kube w1 = hw_kube w \<and> hw_active w1 = hw_active w"
  by (auto simp: resolve_options_def split: prod.splits option.splits)

lemma resolve_options_namespace:
  "resolve_options env flt now a o' w = (w1, Inr o1) \<Longrightarrow> co_namespace o1 = co_namespace o' \<and> co_token o1 = co_token o'"
  by (auto simp: resolve_options_def split: prod.splits option.splits sum.splits)

lemma validate_options_fields:
  "validate_change_options env o0 = Inr o' \<Longrightarrow> co_namespace o' = trim_space (co_namespace o0) \<and> co_namespace o' \<noteq> [] \<and>
     co_release o' = trim_space (co_release o0) \<and> co_token o' = co_token o0 \<and> timeout_ok (co_timeout o')"
  by (auto simp: validate_change_options_def Let_def trimmed_options_def split: if_splits option.splits)

lemma admit_change_frame:
  "admit_change env flt now a op cl o' w = (w1, r) \<Longrightarrow>
     hw_previews w1 = hw_previews w \<and> hw_kube w1 = hw_kube w \<and> hw_active w1 = hw_active w"
  by (auto simp: admit_change_def split: prod.splits sum.splits dest: resolve_options_frame)

lemma admit_change_Inr:
  assumes "admit_change env flt now a op cl o0 w = (w1, Inr o')"
  obtains perm where "change_permission op = Inr perm" "hv_allowed env a perm cl (co_namespace o0)"
    "co_namespace o' = trim_space (co_namespace o0)" "co_namespace o' \<noteq> []" "co_release o' = trim_space (co_release o0)"
proof -
  obtain w2 r where r: "resolve_options env flt now a o0 w = (w2, r)" by (cases "resolve_options env flt now a o0 w")
  then obtain o1 where o1: "r = Inr o1" using assms by (cases r) (auto simp: admit_change_def)
  note ns = resolve_options_namespace [OF r [unfolded o1]]
  obtain perm where p: "change_permission op = Inr perm"
    using assms r o1 by (cases "change_permission op") (auto simp: admit_change_def)
  have al: "hv_allowed env a perm cl (co_namespace o0)" and v: "validate_change_options env o1 = Inr o'"
    using assms r o1 p ns by (auto simp: admit_change_def split: if_splits)
  have "co_release o1 = co_release o0" using r o1 by (auto simp: resolve_options_def split: prod.splits option.splits sum.splits)
  with validate_options_fields [OF v] ns that [OF p al] show thesis by metis
qed

lemma mutate_cases:
  fixes fn :: "'w helm_world \<Rightarrow> 'w helm_world \<times> go_error option"
  obtains (busy) e where "release_key cl ns nm \<in> set (hw_active w)" "mutate env el a act cl ns nm rv s fn w = (w, Some e)"
  | (ran) w2 e0 ev where "release_key cl ns nm \<notin> set (hw_active w)"
      "fn (w\<lparr>hw_active := release_key cl ns nm # hw_active w\<rparr>) = (w2, e0)"
      "mutate env el a act cl ns nm rv s fn w = (mutate_end (release_key cl ns nm) ev w2, map_option (map_adapter_error env) e0)"
proof (cases "release_key cl ns nm \<in> set (hw_active w)")
  case True
  then show thesis by (intro busy) (auto simp: mutate_def mutate_begin_def)
next
  case False
  obtain w2 e0 where "fn (w\<lparr>hw_active := release_key cl ns nm # hw_active w\<rparr>) = (w2, e0)" by fastforce
  with False show thesis by (intro ran) (auto simp: mutate_def mutate_begin_def Let_def)
qed

lemma mutate_end_sel [simp]:
  "hw_previews (mutate_end k ev w) = hw_previews w" "hw_kube (mutate_end k ev w) = hw_kube w"
  "hw_catalog (mutate_end k ev w) = hw_catalog w"
  "hw_active (mutate_end k ev w) = filter (\<lambda>x. x \<noteq> k) (hw_active w)"
  by (simp_all add: mutate_end_def)

lemma mutate_previews:
  assumes "\<And>w. hw_previews (fst (fn w)) = hw_previews w"
  shows "hw_previews (fst (mutate env el a act cl ns nm rv s fn w)) = hw_previews w"
proof (cases rule: mutate_cases [of cl ns nm w env el a act rv s fn])
  case (ran w2 e0 ev)
  then show ?thesis using assms [of "w\<lparr>hw_active := release_key cl ns nm # hw_active w\<rparr>"] by simp
qed simp

lemma run_change_previews: "hw_previews (fst (run_change env now op cl o' w)) = hw_previews w"
  by (simp add: run_change_def split: prod.split)

lemma execute_previews: "hw_previews (fst (execute_prepared_change env fl now el a pc w)) = hw_previews w"
proof -
  obtain w1 r where ad: "admit_change env (fl DbGet) now a (pc_operation pc) (pc_cluster pc) (pc_options pc) w = (w1, r)"
    by (cases "admit_change env (fl DbGet) now a (pc_operation pc) (pc_cluster pc) (pc_options pc) w")
  note f = admit_change_frame [OF ad]
  show ?thesis
  proof (cases r)
    case (Inl e)
    with ad f show ?thesis by (simp add: execute_prepared_change_def)
  next
    case (Inr o1)
    let ?m = "mutate env el a (pc_operation pc) (pc_cluster pc) (co_namespace o1) (co_release o1) 0
       (change_summary env (o1\<lparr>co_digest := pc_digest pc\<rparr>)) (run_change env now (pc_operation pc) (pc_cluster pc) (o1\<lparr>co_digest := pc_digest pc\<rparr>)) w1"
    have "hw_previews (fst ?m) = hw_previews w1" by (rule mutate_previews) (rule run_change_previews)
    moreover obtain w2 e where "?m = (w2, e)" by (cases ?m)
    ultimately show ?thesis using ad f Inr by (cases e) (simp_all add: execute_prepared_change_def Let_def)
  qed
qed

lemma rollback_previews: "hw_previews (fst (service_rollback env el a cl ns nm o' w)) = hw_previews w"
  by (auto simp: service_rollback_def Let_def mutate_previews split: sum.split prod.split)

lemma remove_previews: "hw_previews (fst (service_remove env fl el a cl ns nm o' w)) = hw_previews w"
proof -
  have m: "hw_previews (fst (mutate env el a act cl ns nm rv s
      (\<lambda>w1. case ad_remove (hv_sdk env) cl ns nm o1 (hw_kube w1) of (k, e) \<Rightarrow> (w1\<lparr>hw_kube := k\<rparr>, e)) w)) = hw_previews w" for act rv s o1
    by (rule mutate_previews) (simp split: prod.split)
  have c: "hw_previews (fst (case p of (w2, Some e) \<Rightarrow> (w2, Some e) | (w2, None) \<Rightarrow> (f w2, None))) = hw_previews (fst p)"
    if "\<And>x. hw_previews (f x) = hw_previews x" for p :: "'a helm_world \<times> go_error option" and f
    using that by (auto split: prod.split option.split)
  show ?thesis unfolding service_remove_def Let_def by (simp add: m c)
qed

lemma prepare_previews:
  assumes "prepare_change env flt now a op cl o0 w = (w', r)"
  shows "hw_previews w' = hw_previews w \<or> hw_previews w' = gm_del (co_token o0) (hw_previews w)"
proof -
  obtain w1 x where ro: "resolve_options env flt now a o0 w = (w1, x)" by (cases "resolve_options env flt now a o0 w")
  show ?thesis
  proof (cases x)
    case (Inl e)
    with ro assms show ?thesis by (auto simp: prepare_change_def dest: resolve_options_frame split: if_splits)
  next
    case (Inr o1)
    note f = resolve_options_frame [OF ro] resolve_options_namespace [OF ro [unfolded Inr]]
    show ?thesis
    proof (cases "validate_change_options env o1")
      case (Inl e)
      with ro \<open>x = Inr o1\<close> assms f show ?thesis by (auto simp: prepare_change_def split: if_splits)
    next
      case v: (Inr o')
      have "co_token o' = co_token o0" using validate_options_fields [OF v] f by simp
      with ro Inr v assms f show ?thesis by (auto simp: prepare_change_def Let_def split: if_splits option.splits)
    qed
  qed
qed

text \<open>What a successful preparation had to find.\<close>

lemma prepare_Inr:
  assumes "prepare_change env flt now a op cl o0 w = (w', Inr pc)"
  obtains o1 o' g where "snd (resolve_options env flt now a o0 w) = Inr o1" "validate_change_options env o1 = Inr o'"
    "gm_get (hw_previews w) (co_token o0) = Some g" "now \<le> pg_expires g" "pg_actor g = ac_user a" "pg_operation g = op"
    "pg_cluster g = cl" "pg_fingerprint g = change_fingerprint env o'" "pc_digest pc = pg_digest g"
    "hw_previews w' = gm_del (co_token o0) (hw_previews w)" "pc_operation pc = op" "pc_cluster pc = cl"
    "hv_allowed env a (permission_or_empty op) cl (co_namespace o0)" "pc_options pc = o'\<lparr>co_source := co_source o0\<rparr>"
proof -
  obtain w1 x where ro: "resolve_options env flt now a o0 w = (w1, x)" by (cases "resolve_options env flt now a o0 w")
  obtain o1 where x: "x = Inr o1" using assms ro by (cases x) (auto simp: prepare_change_def split: if_splits)
  note f = resolve_options_frame [OF ro] resolve_options_namespace [OF ro [unfolded x]]
  obtain o' where v: "validate_change_options env o1 = Inr o'"
    using assms ro x by (cases "validate_change_options env o1") (auto simp: prepare_change_def split: if_splits)
  have t: "co_token o' = co_token o0" using validate_options_fields [OF v] f by simp
  obtain g where g: "redeem_preview env now a op cl o' (hw_previews w1) = Some g" and pc: "pc_digest pc = pg_digest g"
      "hw_previews w' = gm_del (co_token o0) (hw_previews w)" "pc_operation pc = op" "pc_cluster pc = cl"
      "pc_options pc = o'\<lparr>co_source := co_source o0\<rparr>"
    and al: "hv_allowed env a (permission_or_empty op) cl (co_namespace o0)"
    using assms ro x v f t by (auto simp: prepare_change_def Let_def split: if_splits option.splits)
  have "gm_get (hw_previews w) (co_token o0) = Some g" "now \<le> pg_expires g" "pg_actor g = ac_user a" "pg_operation g = op"
    "pg_cluster g = cl" "pg_fingerprint g = change_fingerprint env o'"
    using g f t by (auto simp: redeem_preview_def after_def split: option.splits if_splits)
  then show thesis using that [of o1 o' g] ro x v pc al by simp
qed

section \<open>Every grant comes from a preview\<close>

definition issued_by ::
  "'w helm_env \<Rightarrow> bool \<Rightarrow> gotime \<Rightarrow> package_actor \<Rightarrow> string \<Rightarrow> string \<Rightarrow> change_options \<Rightarrow> 'w helm_world \<Rightarrow> preview res \<Rightarrow> string \<Rightarrow> grant \<Rightarrow> bool" where
  "issued_by env flt now a op cl o0 w r t g \<longleftrightarrow>
     (\<exists>p o'. r = Inr p \<and> snd (admit_change env flt now a op cl o0 w) = Inr o' \<and> pv_token p = t \<and>
        g = \<lparr>pg_actor = ac_user a, pg_operation = op, pg_cluster = cl, pg_fingerprint = change_fingerprint env o',
             pg_digest = pv_digest p, pg_expires = now + preview_ttl\<rparr> \<and>
        \<not> ac_preview_only a \<and> (\<not> has_critical_risk (pv_risks p) \<or> is_admin a))"

lemma set_gm_prune: "set (gm_prune q m) \<subseteq> set m"
  by (auto simp: gm_prune_def)

lemma assessed_sel [simp]:
  "pv_digest (assessed a op o' p) = pv_digest p"
  "pv_can_execute (assessed a op o' p) \<longleftrightarrow> \<not> has_critical_risk (pv_risks (assessed a op o' p)) \<or> is_admin a"
  by (simp_all add: assessed_def Let_def)

lemma redacted_preview_sel [simp]:
  "pv_digest (redacted_preview env p) = pv_digest p" "pv_risks (redacted_preview env p) = pv_risks p"
  "pv_token (redacted_preview env p) = pv_token p"
  by (simp_all add: redacted_preview_def)

lemma service_preview_grants:
  assumes "service_preview env flt now tok a op cl o0 w = (w', r)" "(t, g) \<in> set (hw_previews w')"
  shows "(t, g) \<in> set (hw_previews w) \<or> issued_by env flt now a op cl o0 w r t g"
proof (cases "cs_repo_id (co_source o0) \<noteq> 0 \<and> \<not> is_admin a")
  case True
  with assms show ?thesis by (simp add: service_preview_def)
next
  case mr: False
  obtain w1 x where ad: "admit_change env flt now a op cl o0 w = (w1, x)" by (cases "admit_change env flt now a op cl o0 w")
  note f = admit_change_frame [OF ad]
  show ?thesis
  proof (cases x)
    case (Inl e)
    with mr ad assms f show ?thesis by (auto simp: service_preview_def)
  next
    case (Inr o')
    obtain c2 y where pv: "ad_preview (hv_sdk env) (hv_lib env) now op cl o' (hw_catalog w1) (hw_kube w1) = (c2, y)"
      by (cases "ad_preview (hv_sdk env) (hv_lib env) now op cl o' (hw_catalog w1) (hw_kube w1)")
    show ?thesis
    proof (cases y)
      case (Inl e)
      with mr ad \<open>x = Inr o'\<close> pv assms f show ?thesis by (auto simp: service_preview_def)
    next
      case y: (Inr p0)
      let ?p = "assessed a op o' p0"
      show ?thesis
      proof (cases "pv_can_execute ?p \<and> \<not> ac_preview_only a")
        case False
        with mr ad Inr pv y assms f show ?thesis by (auto simp: service_preview_def Let_def)
      next
        case can: True
        show ?thesis
        proof (cases tok)
          case (Inl e)
          with mr ad \<open>x = Inr o'\<close> pv y can assms f show ?thesis by (auto simp: service_preview_def Let_def)
        next
          case tk: (Inr t')
          let ?pr = "prune_previews now (hw_previews w)"
          have sub: "set ?pr \<subseteq> set (hw_previews w)" unfolding prune_previews_def by (rule set_gm_prune)
          show ?thesis
          proof (cases "max_previews \<le> int (length ?pr)")
            case True
            with mr ad Inr pv y can tk assms f have "hw_previews w' = ?pr" by (auto simp: service_preview_def Let_def)
            with assms(2) have "(t, g) \<in> set ?pr" by simp
            with sub show ?thesis by blast
          next
            case room: False
            let ?g = "\<lparr>pg_actor = ac_user a, pg_operation = op, pg_cluster = cl, pg_fingerprint = change_fingerprint env o',
                        pg_digest = pv_digest ?p, pg_expires = now + preview_ttl\<rparr>"
            let ?res = "redacted_preview env (?p\<lparr>pv_token := t', pv_expires := now + preview_ttl\<rparr>)"
            have w': "hw_previews w' = gm_put t' ?g ?pr" and r: "r = Inr ?res"
              using mr ad Inr pv y can tk room assms(1) f by (auto simp: service_preview_def Let_def)
            have "(t, g) = (t', ?g) \<or> (t, g) \<in> set (hw_previews w)"
              using assms(2) unfolding w' using sub set_gm_put [of t' ?g ?pr] by blast
            moreover have "issued_by env flt now a op cl o0 w r t' ?g"
              unfolding issued_by_def using r ad Inr can by (intro exI [of _ ?res] exI [of _ o']) auto
            ultimately show ?thesis by auto
          qed
        qed
      qed
    qed
  qed
qed

text \<open>Everything the service is asked to do, in any order.\<close>

datatype helm_cmd =
    HPreview bool gotime "string res" package_actor string string change_options
  | HPrepare bool gotime package_actor string string change_options
  | HExecute faults gotime int package_actor prepared
  | HRollback int package_actor string string string rollback_options
  | HRemove faults int package_actor string string string remove_options
  | HCatalog catalog_cmd

primrec helm_exec :: "'w helm_env \<Rightarrow> helm_cmd \<Rightarrow> 'w helm_world \<Rightarrow> 'w helm_world" where
  "helm_exec env (HPreview flt now tok a op cl o') w = fst (service_preview env flt now tok a op cl o' w)"
| "helm_exec env (HPrepare flt now a op cl o') w = fst (prepare_change env flt now a op cl o' w)"
| "helm_exec env (HExecute fl now el a pc) w = fst (execute_prepared_change env fl now el a pc w)"
| "helm_exec env (HRollback el a cl ns nm o') w = fst (service_rollback env el a cl ns nm o' w)"
| "helm_exec env (HRemove fl el a cl ns nm o') w = fst (service_remove env fl el a cl ns nm o' w)"
| "helm_exec env (HCatalog c) w = w\<lparr>hw_catalog := catalog_exec (hv_lib env) c (hw_catalog w)\<rparr>"

definition helm_run :: "'w helm_env \<Rightarrow> helm_cmd list \<Rightarrow> 'w helm_world \<Rightarrow> 'w helm_world" where
  "helm_run env cmds w = fold (helm_exec env) cmds w"

definition new_service :: "'w \<Rightarrow> 'w helm_world" where
  "new_service k = \<lparr>hw_kube = k, hw_catalog = new_catalog, hw_previews = [], hw_active = [], hw_audit = []\<rparr>"

definition previewed ::
  "'w helm_env \<Rightarrow> helm_cmd list \<Rightarrow> 'w helm_world \<Rightarrow> string \<Rightarrow> grant \<Rightarrow> bool" where
  "previewed env cmds w0 t g \<longleftrightarrow>
     (\<exists>pre flt now tok a op cl o' post. cmds = pre @ HPreview flt now tok a op cl o' # post \<and>
        issued_by env flt now a op cl o' (helm_run env pre w0) (snd (service_preview env flt now tok a op cl o' (helm_run env pre w0))) t g)"

lemma helm_exec_grants:
  assumes "(t, g) \<in> set (hw_previews (helm_exec env c w))"
  shows "(t, g) \<in> set (hw_previews w) \<or>
    (\<exists>flt now tok a op cl o'. c = HPreview flt now tok a op cl o' \<and>
       issued_by env flt now a op cl o' w (snd (service_preview env flt now tok a op cl o' w)) t g)"
proof (cases c)
  case (HPreview flt now tok a op cl o')
  with assms service_preview_grants [OF prod.collapse [symmetric], of t g env flt now tok a op cl o' w] show ?thesis by auto
next
  case (HPrepare flt now a op cl o')
  with assms prepare_previews [OF prod.collapse [symmetric], of env flt now a op cl o' w] show ?thesis by (auto simp: gm_del_set)
qed (use assms in \<open>simp_all add: execute_previews rollback_previews remove_previews\<close>)

lemma grants_previewed: "(t, g) \<in> set (hw_previews (helm_run env cmds (new_service k))) \<Longrightarrow> previewed env cmds (new_service k) t g"
proof (induction cmds rule: rev_induct)
  case Nil
  then show ?case by (simp add: helm_run_def new_service_def)
next
  case (snoc c cmds)
  let ?w = "helm_run env cmds (new_service k)"
  have "(t, g) \<in> set (hw_previews (helm_exec env c ?w))" using snoc.prems by (simp add: helm_run_def)
  from helm_exec_grants [OF this] show ?case
  proof
    assume "(t, g) \<in> set (hw_previews ?w)"
    with snoc.IH obtain pre flt now tok a op cl o' post where c: "cmds = pre @ HPreview flt now tok a op cl o' # post"
      "issued_by env flt now a op cl o' (helm_run env pre (new_service k))
         (snd (service_preview env flt now tok a op cl o' (helm_run env pre (new_service k)))) t g"
      unfolding previewed_def by blast
    moreover have "cmds @ [c] = pre @ HPreview flt now tok a op cl o' # (post @ [c])" using c by simp
    ultimately show ?thesis unfolding previewed_def by blast
  next
    assume "\<exists>flt now tok a op cl o'. c = HPreview flt now tok a op cl o' \<and>
       issued_by env flt now a op cl o' ?w (snd (service_preview env flt now tok a op cl o' ?w)) t g"
    then obtain flt now tok a op cl o' where "cmds @ [c] = cmds @ HPreview flt now tok a op cl o' # []"
      "issued_by env flt now a op cl o' ?w (snd (service_preview env flt now tok a op cl o' ?w)) t g" by blast
    then show ?thesis unfolding previewed_def by blast
  qed
qed

text \<open>
  No change without its preview: when a change is prepared, the same user had earlier previewed the
  same operation on the same cluster with options of the same fingerprint, no more than 10 minutes
  before, got the confirmation now redeemed, and saw the digest that will be enforced; and that
  preview was free of critical risks, or its author an administrator.
\<close>

theorem changes_were_previewed:
  assumes "prepare_change env flt now a op cl o0 (helm_run env cmds (new_service k)) = (w', Inr pc)"
  shows "\<exists>pre flt' t tok ap op0 post p o1 o2 o3. cmds = pre @ HPreview flt' t tok ap op cl op0 # post \<and>
    snd (service_preview env flt' t tok ap op cl op0 (helm_run env pre (new_service k))) = Inr p \<and>
    snd (admit_change env flt' t ap op cl op0 (helm_run env pre (new_service k))) = Inr o1 \<and>
    snd (resolve_options env flt now a o0 (helm_run env cmds (new_service k))) = Inr o2 \<and>
    validate_change_options env o2 = Inr o3 \<and> change_fingerprint env o1 = change_fingerprint env o3 \<and>
    pv_token p = co_token o0 \<and> pv_digest p = pc_digest pc \<and> ac_user ap = ac_user a \<and> now \<le> t + preview_ttl \<and>
    (\<not> has_critical_risk (pv_risks p) \<or> is_admin ap)"
proof -
  obtain o2 o3 g where p: "snd (resolve_options env flt now a o0 (helm_run env cmds (new_service k))) = Inr o2"
      "validate_change_options env o2 = Inr o3" "gm_get (hw_previews (helm_run env cmds (new_service k))) (co_token o0) = Some g"
      "now \<le> pg_expires g" "pg_actor g = ac_user a" "pg_operation g = op" "pg_cluster g = cl"
      "pg_fingerprint g = change_fingerprint env o3" "pc_digest pc = pg_digest g"
    by (rule prepare_Inr [OF assms]) blast
  have "previewed env cmds (new_service k) (co_token o0) g" by (rule grants_previewed) (rule map_of_SomeD [OF p(3)])
  then obtain pre flt' t tok ap op' cl' op0 post where c: "cmds = pre @ HPreview flt' t tok ap op' cl' op0 # post"
      and i: "issued_by env flt' t ap op' cl' op0 (helm_run env pre (new_service k))
        (snd (service_preview env flt' t tok ap op' cl' op0 (helm_run env pre (new_service k)))) (co_token o0) g"
    unfolding previewed_def by blast
  from i obtain q o1 where q: "snd (service_preview env flt' t tok ap op' cl' op0 (helm_run env pre (new_service k))) = Inr q"
      "snd (admit_change env flt' t ap op' cl' op0 (helm_run env pre (new_service k))) = Inr o1" "pv_token q = co_token o0"
      "g = \<lparr>pg_actor = ac_user ap, pg_operation = op', pg_cluster = cl', pg_fingerprint = change_fingerprint env o1,
            pg_digest = pv_digest q, pg_expires = t + preview_ttl\<rparr>" "\<not> has_critical_risk (pv_risks q) \<or> is_admin ap"
    unfolding issued_by_def by blast
  show ?thesis
    by (rule exI [of _ pre], rule exI [of _ flt'], rule exI [of _ t], rule exI [of _ tok], rule exI [of _ ap], rule exI [of _ op0],
        rule exI [of _ post], rule exI [of _ q], rule exI [of _ o1], rule exI [of _ o2], rule exI [of _ o3])
      (use c q p in auto)
qed

section \<open>A confirmation works once\<close>

record prepare_request =
  pq_fault :: bool
  pq_now :: gotime
  pq_actor :: package_actor
  pq_operation :: string
  pq_cluster :: string
  pq_options :: change_options

definition redeem_request :: "'w helm_env \<Rightarrow> prepare_request \<Rightarrow> 'w helm_world \<Rightarrow> 'w helm_world \<times> prepared option" where
  "redeem_request env q w =
     (case prepare_change env (pq_fault q) (pq_now q) (pq_actor q) (pq_operation q) (pq_cluster q) (pq_options q) w of
        (w', Inl _) \<Rightarrow> (w', None) | (w', Inr pc) \<Rightarrow> (w', Some pc))"

definition confirmation_of :: "prepare_request \<Rightarrow> string" where
  "confirmation_of q = co_token (pq_options q)"

definition pending :: "'w helm_world \<Rightarrow> string \<Rightarrow> bool" where
  "pending w t \<longleftrightarrow> gm_get (hw_previews w) t \<noteq> None"

interpretation confirmations: single_use "redeem_request env" confirmation_of pending
proof
  fix q w w' v
  assume "redeem_request env q w = (w', Some v)"
  then have "prepare_change env (pq_fault q) (pq_now q) (pq_actor q) (pq_operation q) (pq_cluster q) (pq_options q) w = (w', Inr v)"
    by (auto simp: redeem_request_def split: prod.splits sum.splits)
  then obtain g where "gm_get (hw_previews w) (confirmation_of q) = Some g" "hw_previews w' = gm_del (confirmation_of q) (hw_previews w)"
    unfolding confirmation_of_def by (rule prepare_Inr) blast
  then show "pending w (confirmation_of q)" "\<not> pending w' (confirmation_of q)" by (simp_all add: pending_def)
next
  fix q w w' x t
  assume "redeem_request env q w = (w', x)" "pending w' t"
  moreover from this obtain r where
    "prepare_change env (pq_fault q) (pq_now q) (pq_actor q) (pq_operation q) (pq_cluster q) (pq_options q) w = (w', r)"
    by (auto simp: redeem_request_def split: prod.splits sum.splits)
  from prepare_previews [OF this] calculation show "pending w t" by (auto simp: pending_def split: if_splits)
qed

text \<open>
  A confirmation is redeemed at most once: of all the requests that carry it, from whomever and
  whenever, at most one is prepared for execution.
\<close>

theorem confirmation_single_use:
  "successes confirmation_of t (run_takes (redeem_request env) qs w) \<le> 1"
  by (rule confirmations.at_most_once)

section \<open>What reaches the cluster\<close>

lemma run_change_kube:
  assumes "run_change env now op cl o' w = (w2, e)" "e = None \<or> hw_kube w2 \<noteq> hw_kube w"
  shows "\<exists>p. snd (ad_preview (hv_sdk env) (hv_lib env) now op cl o' (hw_catalog w) (hw_kube w)) = Inr p \<and> pv_digest p = co_digest o'"
proof -
  obtain c k x where a: "ad_change (hv_sdk env) (hv_lib env) now op cl o' (hw_catalog w) (hw_kube w) = ((c, k), x)"
    by (metis prod.collapse)
  then have "x = None \<or> k \<noteq> hw_kube w" using assms by (auto simp: run_change_def)
  then show ?thesis
  proof
    assume "x = None"
    then show ?thesis using helm.as_previewed a by simp
  next
    assume "k \<noteq> hw_kube w"
    then show ?thesis by (rule helm.changed_as_previewed [OF a])
  qed
qed

lemma mutate_kube:
  assumes "mutate env el a act cl ns nm rv s fn w = (w', e)" "e = None \<or> hw_kube w' \<noteq> hw_kube w"
  obtains w2 e0 where "fn (w\<lparr>hw_active := release_key cl ns nm # hw_active w\<rparr>) = (w2, e0)" "hw_kube w' = hw_kube w2"
    "e0 = None \<or> hw_kube w2 \<noteq> hw_kube w"
proof (cases rule: mutate_cases [of cl ns nm w env el a act rv s fn])
  case (busy x)
  with assms show thesis by simp
next
  case (ran w2 e0 ev)
  with assms that [of w2 e0] show thesis by auto
qed

lemma execute_reaches_cluster:
  assumes ex: "execute_prepared_change env fl now el a pc w = (w', e)" and ch: "e = None \<or> hw_kube w' \<noteq> hw_kube w"
  obtains w1 o1 where "admit_change env (fl DbGet) now a (pc_operation pc) (pc_cluster pc) (pc_options pc) w = (w1, Inr o1)"
    "\<exists>p. snd (ad_preview (hv_sdk env) (hv_lib env) now (pc_operation pc) (pc_cluster pc) (o1\<lparr>co_digest := pc_digest pc\<rparr>) (hw_catalog w1) (hw_kube w)) = Inr p \<and>
       pv_digest p = pc_digest pc"
proof -
  obtain w1 r where ad: "admit_change env (fl DbGet) now a (pc_operation pc) (pc_cluster pc) (pc_options pc) w = (w1, r)"
    by (cases "admit_change env (fl DbGet) now a (pc_operation pc) (pc_cluster pc) (pc_options pc) w")
  note f = admit_change_frame [OF ad]
  obtain o1 where o1: "r = Inr o1" using ex ch ad f by (cases r) (auto simp: execute_prepared_change_def)
  let ?o = "o1\<lparr>co_digest := pc_digest pc\<rparr>"
  let ?m = "mutate env el a (pc_operation pc) (pc_cluster pc) (co_namespace o1) (co_release o1) 0
       (change_summary env ?o) (run_change env now (pc_operation pc) (pc_cluster pc) ?o) w1"
  obtain w2 x where m: "?m = (w2, x)" by (cases ?m)
  have "x = e \<and> hw_kube w2 = hw_kube w'" using ex ad o1 m by (cases x) (auto simp: execute_prepared_change_def Let_def)
  then have "x = None \<or> hw_kube w2 \<noteq> hw_kube w1" using ch f by auto
  then obtain w3 e0 where "run_change env now (pc_operation pc) (pc_cluster pc) ?o
      (w1\<lparr>hw_active := release_key (pc_cluster pc) (co_namespace o1) (co_release o1) # hw_active w1\<rparr>) = (w3, e0)"
      "e0 = None \<or> hw_kube w3 \<noteq> hw_kube w1"
    by (rule mutate_kube [OF m])
  from run_change_kube [OF this(1)] this(2) f
  have "\<exists>p. snd (ad_preview (hv_sdk env) (hv_lib env) now (pc_operation pc) (pc_cluster pc) ?o (hw_catalog w1) (hw_kube w)) = Inr p \<and>
       pv_digest p = pc_digest pc" by simp
  with ad o1 show thesis by (intro that) simp_all
qed


text \<open>Rollback and removal touch the cluster only with their own permission in the namespace named.\<close>

lemma rollback_within_access:
  "hw_kube (fst (service_rollback env el a cl ns nm o' w)) \<noteq> hw_kube w \<Longrightarrow>
     hv_allowed env a PermissionRollback cl ns \<and> 1 \<le> ro_revision o'"
  by (auto simp: service_rollback_def Let_def split: if_splits)

lemma remove_within_access:
  "hw_kube (fst (service_remove env fl el a cl ns nm o' w)) \<noteq> hw_kube w \<Longrightarrow>
     hv_allowed env a PermissionRemove cl ns \<and> rm_confirmation o' = nm"
  by (auto simp: service_remove_def Let_def split: if_splits)

section \<open>The executor\<close>

lemma run_task_kube:
  assumes "run_task env fl now el a t w = Some (w', e)" "hw_kube w' \<noteq> hw_kube w"
  shows "\<exists>perm ns. hv_allowed env a perm (ot_cluster t) ns \<and>
    (perm, ot_action t) \<in> {(PermissionInstall, ''install''), (PermissionUpgrade, ''upgrade''),
      (PermissionRollback, ''rollback''), (PermissionRemove, ''remove'')} \<and> ns = ot_namespace t"
proof (cases "ot_action t = ''install'' \<or> ot_action t = ''upgrade''")
  case True
  then have "execute_prepared_change env fl now el a (prepared_of_task t) w = (w', e)" using assms(1) by (simp add: run_task_def)
  then obtain w1 o1 where "admit_change env (fl DbGet) now a (ot_action t) (ot_cluster t) (pc_options (prepared_of_task t)) w = (w1, Inr o1)"
    by (rule execute_reaches_cluster) (use assms(2) in \<open>auto simp: prepared_of_task_def\<close>)
  then show ?thesis
    by (rule admit_change_Inr) (use True in \<open>auto simp: prepared_of_task_def change_permission_def split: if_splits\<close>)
next
  case False
  then show ?thesis
    using assms rollback_within_access [of env el a "ot_cluster t" "ot_namespace t" "ot_name t" _ w]
      remove_within_access [of env fl el a "ot_cluster t" "ot_namespace t" "ot_name t" _ w]
    by (auto simp: run_task_def split: if_splits) (metis fst_conv)+
qed

text \<open>
  The background executor acts for nobody but the user of the operation: if running a saved task
  changes the cluster, the task is one of the four known operations and the role that user has now
  grants it in the task's cluster and namespace; otherwise the failure says at which stage it stopped.
\<close>

theorem executor_within_access:
  assumes "helm_executor env parse fl now el p raw w = (w', reports, r)"
  shows "(hw_kube w' \<noteq> hw_kube w \<longrightarrow> (\<exists>t perm. parse raw = Some t \<and> hv_allowed env (actor_of p) perm (ot_cluster t) (ot_namespace t) \<and>
      (perm, ot_action t) \<in> {(PermissionInstall, ''install''), (PermissionUpgrade, ''upgrade''),
        (PermissionRollback, ''rollback''), (PermissionRemove, ''remove'')})) \<and>
    (\<forall>f. r = Inl f \<longrightarrow> f_stage f \<in> {''preparing'', ''authorization'', ''validation'', ''applying_resources'', ''wait_readiness''})"
proof (cases "parse raw")
  case None
  with assms show ?thesis by (auto simp: helm_executor_def)
next
  case (Some t)
  show ?thesis
  proof (cases "run_task env fl now el (actor_of p) t w")
    case None
    with Some assms show ?thesis by (auto simp: helm_executor_def Let_def)
  next
    case rt: (Some x)
    obtain w2 e where x: "x = (w2, e)" by (cases x)
    have w2: "w' = w2" using assms Some rt x by (cases e) (auto simp: helm_executor_def Let_def)
    have "f_stage (package_operation_failure err act) \<in> {''authorization'', ''validation'', ''applying_resources'', ''wait_readiness''}" for err act
      by (cases err) (auto simp: package_operation_failure_def Let_def)
    then have "\<forall>f. r = Inl f \<longrightarrow> f_stage f \<in> {''preparing'', ''authorization'', ''validation'', ''applying_resources'', ''wait_readiness''}"
      using assms Some rt x by (cases e) (auto simp: helm_executor_def Let_def split: sum.splits if_splits)
    moreover have "hw_kube w' \<noteq> hw_kube w \<longrightarrow> (\<exists>perm. hv_allowed env (actor_of p) perm (ot_cluster t) (ot_namespace t) \<and>
      (perm, ot_action t) \<in> {(PermissionInstall, ''install''), (PermissionUpgrade, ''upgrade''),
        (PermissionRollback, ''rollback''), (PermissionRemove, ''remove'')})"
      using run_task_kube [OF rt [unfolded x]] w2 by blast
    ultimately show ?thesis using Some by blast
  qed
qed

text \<open>
  The timeout failure suggests a retry, yet is not retryable: the operation manager will refuse it.
\<close>

lemma timeout_not_retryable:
  "\<not> f_retryable (package_operation_failure (map_adapter_error env (OtherErr ''timed out waiting for the condition'' True)) ''upgrade'') \<and>
   f_suggestions (package_operation_failure (map_adapter_error env (OtherErr ''timed out waiting for the condition'' True)) ''upgrade'')
     = Some [''Inspect Pod status and events'', ''Inspect container logs'', ''Retry with a longer timeout'']"
proof -
  have "map_adapter_error env (OtherErr ''timed out waiting for the condition'' True) =
    biz_new CodeK8sUnavailable ''timed out waiting for release resources; inspect Pods and Events, then retry with a longer timeout''"
  proof -
    have "chart_validation_message ''timed out waiting for the condition'' = None"
      "contains (to_lower ''timed out waiting for the condition'') ''cannot re-use a name that is still in use'' = False"
      "contains (to_lower ''timed out waiting for the condition'') ''not found'' = False" by code_simp+
    then show ?thesis by (simp add: map_adapter_error_def Let_def)
  qed
  moreover have "package_operation_failure (biz_new CodeK8sUnavailable m) ''upgrade'' =
      (package_operation_failure (BizErr CodeK8sUnavailable m) ''upgrade'')" for m by (simp add: biz_new_def)
  moreover have "contains (to_lower ''timed out waiting for release resources; inspect Pods and Events, then retry with a longer timeout'') ''timed out''"
    by code_simp
  ultimately show ?thesis by (simp add: package_operation_failure_def code_defs)
qed

section \<open>One operation per release\<close>

text \<open>
  Operations of different requests interleave: each locks its release at its begin, works, and
  unlocks it at its end. The second component lists the keys of the operations that are running.
\<close>

inductive mutate_step :: "'w helm_world \<times> string list \<Rightarrow> 'w helm_world \<times> string list \<Rightarrow> bool" where
  starts: "mutate_begin key w = Some w' \<Longrightarrow> mutate_step (w, ks) (w', key # ks)"
| works: "hw_active w' = hw_active w \<Longrightarrow> mutate_step (w, ks) (w', ks)"
| ends: "key \<in> set ks \<Longrightarrow> mutate_step (w, ks) (mutate_end key ev w, remove1 key ks)"

inductive_cases mutate_stepE: "mutate_step (w, ks) s"

lemma mutate_step_inv:
  "mutate_step s s' \<Longrightarrow> distinct (snd s) \<and> set (hw_active (fst s)) = set (snd s) \<Longrightarrow>
     distinct (snd s') \<and> set (hw_active (fst s')) = set (snd s')"
proof (induction rule: mutate_step.induct)
  case (starts key w w' ks)
  have "key \<notin> set (hw_active w)" "hw_active w' = key # hw_active w"
    using starts(1) by (cases "key \<in> set (hw_active w)"; simp add: mutate_begin_def; fastforce)+
  with starts(2) show ?case by simp
next
  case (works w' w ks)
  then show ?case by simp
next
  case (ends key ks w ev)
  then have "distinct ks" "set (hw_active w) = set ks" by simp_all
  then show ?case by (simp add: set_remove1_eq) blast
qed

text \<open>
  A release has at most one operation at a time, in every interleaving: the keys of the running
  operations are distinct, and they are exactly the locked ones, so no lock is left behind.
\<close>

theorem one_operation_per_release:
  assumes "mutate_step\<^sup>*\<^sup>* (new_service k, []) (w, ks)"
  shows "distinct ks \<and> set (hw_active w) = set ks"
proof -
  have "distinct (snd s) \<and> set (hw_active (fst s)) = set (snd s)" if "mutate_step\<^sup>*\<^sup>* (new_service k, []) s" for s
    using that by (induction rule: rtranclp_induct) (auto simp: new_service_def dest: mutate_step_inv)
  from this [OF assms] show ?thesis by simp
qed

theorem one_operation_per_release_witness:
  "distinct [''a''] \<and> set (hw_active ((new_service (0 :: nat))\<lparr>hw_active := [''a'']\<rparr>)) = set [''a'']"
proof (rule one_operation_per_release)
  have "mutate_step (new_service (0 :: nat), []) ((new_service 0)\<lparr>hw_active := [''a'']\<rparr>, [''a''])"
    by (rule mutate_step.starts) (simp add: mutate_begin_def new_service_def)
  then show "mutate_step\<^sup>*\<^sup>* (new_service (0 :: nat), []) ((new_service 0)\<lparr>hw_active := [''a'']\<rparr>, [''a''])" by blast
qed

section \<open>A concrete run\<close>

text \<open>A cluster that counts what is applied to it, and a chart that renders to nothing.\<close>

definition sample_sdk :: "nat helm_sdk" where
  "sample_sdk = \<lparr>sd_config = (\<lambda>_ _. None), sd_list = (\<lambda>_ _ _ _ _. Inr []), sd_get = (\<lambda>_ _ _ _ _. Inl db_error),
     sd_last = (\<lambda>_ _ _ _. Inl db_error), sd_history = (\<lambda>_ _ _ _ _. Inr []), sd_rollback = (\<lambda>w _ _ _ _. (Suc w, None)),
     sd_remove = (\<lambda>w _ _ _ _. (Suc w, None)), sd_render = (\<lambda>_ _ _ _ _. Inr ([], [])), sd_install = (\<lambda>w _ _ _. (Suc w, None)),
     sd_upgrade = (\<lambda>w _ _ _. (Suc w, None)), sd_objects = (\<lambda>_. ([], False)), sd_header = (\<lambda>_. None), sd_accessors = std_accessors\<rparr>"

definition sample_helm :: "nat helm_env" where
  "sample_helm = \<lparr>hv_sdk = sample_sdk, hv_lib = sample_lib, hv_allowed = role_allowed no_access_faults sample_access,
     hv_hash = vw_release, hv_marshal = (\<lambda>_. Some []), hv_yaml_docs = (\<lambda>_. ([], False)), hv_yaml_marshal = (\<lambda>_. None),
     hv_duration = (\<lambda>_. []), hv_key_re = (\<lambda>s. s), hv_cred_re = (\<lambda>s. s), hv_url_re = (\<lambda>s. s)\<rparr>"

definition root_actor :: package_actor where
  "root_actor = \<lparr>ac_user = 1, ac_name = ''root'', ac_role = ''admin'', ac_ip = [], ac_preview_only = False\<rparr>"

definition sample_options :: "string \<Rightarrow> change_options" where
  "sample_options t = \<lparr>co_release = ''web'', co_namespace = ''team-b'', co_source = no_source\<lparr>cs_chart := ''web'', cs_upload := ''u''\<rparr>,
     co_values = [], co_create_ns = False, co_wait = False, co_atomic = False, co_timeout = 0, co_token = t, co_digest = []\<rparr>"

definition sample_upload :: helm_cmd where
  "sample_upload = HCatalog (CUpload 0 (Inr ''u'') root_actor (Some ''archive'') 7)"

definition sample_previewing :: helm_cmd where
  "sample_previewing = HPreview False 1 (Inr ''tok'') root_actor ''install'' ''prod'' (sample_options [])"

definition sample_prepared :: prepared where
  "sample_prepared = (case prepare_change sample_helm False 2 root_actor ''install'' ''prod'' (sample_options ''tok'')
      (helm_run sample_helm [sample_upload, sample_previewing] (new_service 0)) of
        (_, Inr pc) \<Rightarrow> pc | (_, Inl _) \<Rightarrow> \<lparr>pc_operation = [], pc_cluster = [], pc_options = sample_options [], pc_digest = []\<rparr>)"

lemma sample_prepares:
  "snd (prepare_change sample_helm False 2 root_actor ''install'' ''prod'' (sample_options ''tok'')
      (helm_run sample_helm [sample_upload, sample_previewing] (new_service 0))) = Inr sample_prepared"
  by code_simp

theorem changes_were_previewed_witness:
  "\<exists>pre flt' t tok ap op0 post p o1 o2 o3. [sample_upload, sample_previewing] = pre @ HPreview flt' t tok ap ''install'' ''prod'' op0 # post \<and>
    snd (service_preview sample_helm flt' t tok ap ''install'' ''prod'' op0 (helm_run sample_helm pre (new_service 0))) = Inr p \<and>
    snd (admit_change sample_helm flt' t ap ''install'' ''prod'' op0 (helm_run sample_helm pre (new_service 0))) = Inr o1 \<and>
    snd (resolve_options sample_helm False 2 root_actor (sample_options ''tok'') (helm_run sample_helm [sample_upload, sample_previewing] (new_service 0))) = Inr o2 \<and>
    validate_change_options sample_helm o2 = Inr o3 \<and> change_fingerprint sample_helm o1 = change_fingerprint sample_helm o3 \<and>
    pv_token p = co_token (sample_options ''tok'') \<and> pv_digest p = pc_digest sample_prepared \<and> ac_user ap = ac_user root_actor \<and>
    2 \<le> t + preview_ttl \<and> (\<not> has_critical_risk (pv_risks p) \<or> is_admin ap)"
proof (rule changes_were_previewed)
  show "prepare_change sample_helm False 2 root_actor ''install'' ''prod'' (sample_options ''tok'')
      (helm_run sample_helm [sample_upload, sample_previewing] (new_service 0)) =
    (fst (prepare_change sample_helm False 2 root_actor ''install'' ''prod'' (sample_options ''tok'')
      (helm_run sample_helm [sample_upload, sample_previewing] (new_service 0))), Inr sample_prepared)"
    using sample_prepares by (metis prod.collapse)
qed

definition sample_world :: "nat helm_world" where
  "sample_world = helm_run sample_helm [sample_upload] (new_service 0)"

lemma sample_executes: "snd (execute_prepared_change sample_helm no_faults 3 0 root_actor sample_prepared sample_world) = None"
  by code_simp


definition removal_task :: operation_task where
  "removal_task = \<lparr>ot_action = ''remove'', ot_cluster = ''prod'', ot_namespace = ''team-b'', ot_name = ''web'', ot_source = no_source,
     ot_values = [], ot_create_ns = False, ot_wait = False, ot_atomic = False, ot_timeout = 0, ot_digest = [], ot_revision = 0,
     ot_confirmation = ''web'', ot_keep = False\<rparr>"

definition sample_removal where
  "sample_removal = helm_executor sample_helm (\<lambda>_. Some removal_task) no_faults 3 0 \<lparr>pr_user = 1, pr_name = ''root'', pr_role = ''admin''\<rparr> [] sample_world"

theorem executor_within_access_witness:
  "(hw_kube (fst sample_removal) \<noteq> hw_kube sample_world \<longrightarrow> (\<exists>t perm. Some removal_task = Some t \<and>
      hv_allowed sample_helm (actor_of \<lparr>pr_user = 1, pr_name = ''root'', pr_role = ''admin''\<rparr>) perm (ot_cluster t) (ot_namespace t) \<and>
      (perm, ot_action t) \<in> {(PermissionInstall, ''install''), (PermissionUpgrade, ''upgrade''),
        (PermissionRollback, ''rollback''), (PermissionRemove, ''remove'')})) \<and>
    (\<forall>f. snd (snd sample_removal) = Inl f \<longrightarrow>
       f_stage f \<in> {''preparing'', ''authorization'', ''validation'', ''applying_resources'', ''wait_readiness''})"
proof (rule executor_within_access)
  show "helm_executor sample_helm (\<lambda>_. Some removal_task) no_faults 3 0 \<lparr>pr_user = 1, pr_name = ''root'', pr_role = ''admin''\<rparr> [] sample_world =
      (fst sample_removal, fst (snd sample_removal), snd (snd sample_removal))"
    by (simp only: sample_removal_def prod.collapse)
qed

text \<open>A removal really reaches the cluster in that run.\<close>

lemma sample_removal_applies: "hw_kube (fst sample_removal) = Suc (hw_kube sample_world)"
  by code_simp

text \<open>
  A request that carries somebody else's confirmation is refused but consumes it: the owner has to
  preview again.
\<close>

lemma foreign_request_consumes_confirmation:
  "let w = helm_run sample_helm [sample_upload, sample_previewing] (new_service 0);
       intruder = root_actor\<lparr>ac_user := 2\<rparr>;
       (w', r) = prepare_change sample_helm False 2 intruder ''install'' ''prod'' (sample_options ''tok'') w
   in \<not> isOk r \<and> pending w ''tok'' \<and> \<not> pending w' ''tok''"
  by code_simp

section \<open>Redaction\<close>

text \<open>Arrays inside arrays are not searched, here as in the audit trail.\<close>

lemma nested_array_values_not_redacted:
  "redact_map [(''users'', JArr [JArr [JObj [(''password'', JStr ''hunter2'')]]])] =
     [(''users'', JArr [JArr [JObj [(''password'', JStr ''hunter2'')]]])]"
  by code_simp

end
