(* ===== verification/Helm_Upgrades.thy ===== *)
theory Helm_Upgrades
  imports Helm_Safety
begin

text \<open>
  Automatic upgrades: \<open>packages/upgrades.go\<close>. The world outside (Helm, network, access rules) may
  change between the calls one check makes, so a check takes the environment of each call:
  \<open>env 0\<close> for the lookup of version and release, \<open>env 1\<close> and \<open>env 2\<close> for the two previews, \<open>env 3\<close>
  for the upgrade.
\<close>

section \<open>Policies\<close>

record policy_input =
  pi_cluster :: string
  pi_namespace :: string
  pi_release :: string
  pi_repo_id :: nat
  pi_chart :: string
  pi_constraint :: string
  pi_values :: fields
  pi_interval :: int
  pi_enabled :: bool

definition list_policies :: "faults \<Rightarrow> package_actor \<Rightarrow> catalog \<Rightarrow> upgrade_policy list res" where
  "list_policies fl a c =
     (if \<not> is_admin a then Inl ErrForbidden
      else case find_where fl (\<lambda>_. True) (ct_policies c) of
          Inl e \<Rightarrow> Inl e | Inr ps \<Rightarrow> Inr (sort_by (\<lambda>x y. str_less (up_release x) (up_release y)) ps))"

definition trimmed_policy_input :: "policy_input \<Rightarrow> policy_input" where
  "trimmed_policy_input i = i\<lparr>pi_cluster := trim_space (pi_cluster i), pi_namespace := trim_space (pi_namespace i),
     pi_release := trim_space (pi_release i), pi_chart := trim_space (pi_chart i),
     pi_constraint := (let k = trim_space (pi_constraint i) in if k = [] then ''~0'' else k)\<rparr>"

definition empty_policy :: upgrade_policy where
  "empty_policy = \<lparr>up_id = 0, up_created = 0, up_updated = 0, up_cluster = [], up_namespace = [], up_release = [], up_repo_id = 0,
     up_chart = [], up_constraint = [], up_values_json = [], up_interval = 0, up_enabled = False, up_status = [], up_last_version = [],
     up_last_error = [], up_last_checked = None, up_next_check = None\<rparr>"

definition policy_values :: "'w helm_env \<Rightarrow> policy_input \<Rightarrow> string res" where
  "policy_values env i =
     (case hv_marshal env (pi_values i) of
        None \<Rightarrow> fail CodeValidation ''values are invalid or too large''
      | Some j \<Rightarrow> if max_values_json < int (length j) then fail CodeValidation ''values are invalid or too large'' else Inr j)"

definition save_policy ::
  "'w helm_env \<Rightarrow> faults \<Rightarrow> gotime \<Rightarrow> package_actor \<Rightarrow> nat \<Rightarrow> policy_input \<Rightarrow> catalog \<Rightarrow> catalog \<times> upgrade_policy res" where
  "save_policy env fl now a i input c =
     (let inp = trimmed_policy_input input; lib = hv_lib env; t = ct_policies c in
      if \<not> is_admin a then (c, Inl ErrForbidden)
      else if pi_cluster inp = [] \<or> pi_namespace inp = [] \<or> pi_release inp = [] \<or> pi_chart inp = [] \<or> pi_repo_id inp = 0
        then (c, fail CodeParamInvalid ''cluster, namespace, release, repository, and chart are required'')
      else if \<not> hl_constraint lib (pi_constraint inp) then (c, fail CodeValidation ''invalid semantic version constraint'')
      else if pi_interval inp < 15 \<or> 10080 < pi_interval inp
        then (c, fail CodeValidation ''interval must be between 15 and 10080 minutes'')
      else case first_where fl (\<lambda>r. hr_id r = pi_repo_id inp) (ct_repos c) of
        Inl e \<Rightarrow> (c, Inl e)
      | Inr repo \<Rightarrow>
          if hr_type repo \<noteq> ''helm''
            then (c, fail CodeValidation ''automatic upgrades currently require a managed Helm repository'')
          else (case policy_values env inp of
            Inl e \<Rightarrow> (c, Inl e)
          | Inr vj \<Rightarrow>
              (case (if i = 0 then Inr empty_policy else first_where fl (\<lambda>p. up_id p = i) t) of
                 Inl e \<Rightarrow> (c, Inl e)
               | Inr item \<Rightarrow>
                   let item' = item\<lparr>up_cluster := pi_cluster inp, up_namespace := pi_namespace inp, up_release := pi_release inp,
                         up_repo_id := pi_repo_id inp, up_chart := pi_chart inp, up_constraint := pi_constraint inp,
                         up_values_json := vj, up_interval := pi_interval inp, up_enabled := pi_enabled inp, up_next_check := Some now,
                         up_status := (if up_status item = [] then ''idle'' else up_status item), up_updated := now\<rparr> in
                   if i = 0 then
                     (case create_row fl (\<lambda>_ _. False) (\<lambda>k p. p\<lparr>up_id := k, up_created := now\<rparr>) item' t of
                        Inl e \<Rightarrow> (c, Inl e) | Inr (t', p) \<Rightarrow> (c\<lparr>ct_policies := t'\<rparr>, Inr p))
                   else
                     (case save_row fl up_id item' t of
                        Inl e \<Rightarrow> (c, Inl e) | Inr t' \<Rightarrow> (c\<lparr>ct_policies := t'\<rparr>, Inr item')))))"

definition delete_policy :: "faults \<Rightarrow> package_actor \<Rightarrow> nat \<Rightarrow> catalog \<Rightarrow> catalog \<times> go_error option" where
  "delete_policy fl a i c =
     (if \<not> is_admin a then (c, Some ErrForbidden)
      else case delete_where fl (\<lambda>p. up_id p = i) (ct_policies c) of
          Inl e \<Rightarrow> (c, Some e) | Inr t \<Rightarrow> (c\<lparr>ct_policies := t\<rparr>, None))"

section \<open>One check\<close>

definition policy_latest_version :: "helm_lib \<Rightarrow> bool \<Rightarrow> upgrade_policy \<Rightarrow> catalog \<Rightarrow> string res" where
  "policy_latest_version lib flt p c =
     (case repository_source lib flt (up_repo_id p) c of
        Inl e \<Rightarrow> Inl e
      | Inr (src, repo) \<Rightarrow>
          if hr_type repo \<noteq> ''helm'' then Inl (plain_error ''automatic OCI upgrades are not supported'')
          else (case fetch_index lib src of
            Inl e \<Rightarrow> Inl e
          | Inr data \<Rightarrow>
              (case hl_index lib data of
                 Inr e \<Rightarrow> Inl e
               | Inl idx \<Rightarrow>
                   let versions = (case gm_get idx (up_chart p) of None \<Rightarrow> [] | Some vs \<Rightarrow> vs);
                       candidates = filter (\<lambda>v. hl_semver lib v \<and> hl_check lib (up_constraint p) v) (map cv_version versions) in
                   if versions = [] then Inl (plain_error ''chart not found'')
                   else (case sort_by (hl_greater lib) candidates of
                           [] \<Rightarrow> Inl (plain_error ''no version matches the constraint'')
                         | v # _ \<Rightarrow> Inr v))))"

text \<open>The columns a check writes; \<open>None\<close> leaves the version as it is.\<close>

record verdict =
  vd_status :: string
  vd_error :: string
  vd_version :: "string option"

definition apply_verdict :: "gotime \<Rightarrow> upgrade_policy \<Rightarrow> verdict \<Rightarrow> upgrade_policy \<Rightarrow> upgrade_policy" where
  "apply_verdict now item v p = p\<lparr>up_status := vd_status v, up_last_error := vd_error v,
     up_last_version := (case vd_version v of None \<Rightarrow> up_last_version p | Some x \<Rightarrow> x),
     up_last_checked := Some now, up_next_check := Some (now + up_interval item * minute), up_updated := now\<rparr>"

text \<open>
  \<open>update\<close>: the row is written (a failure is only logged), and of the policy in memory the status,
  error and version are set, but not the times of this and the next check.
\<close>

definition record_verdict :: "bool \<Rightarrow> gotime \<Rightarrow> upgrade_policy \<Rightarrow> verdict \<Rightarrow> 'w helm_world \<Rightarrow> 'w helm_world \<times> upgrade_policy" where
  "record_verdict flt now item v w =
     (let c = hw_catalog w; t = ct_policies c in
      (if flt then w
       else w\<lparr>hw_catalog := c\<lparr>ct_policies := t\<lparr>rows := map (\<lambda>p. if up_id p = up_id item then apply_verdict now item v p else p) (rows t)\<rparr>\<rparr>\<rparr>,
       item\<lparr>up_status := vd_status v, up_last_error := vd_error v,
            up_last_version := (case vd_version v of None \<Rightarrow> up_last_version item | Some x \<Rightarrow> x)\<rparr>))"

definition policy_options :: "upgrade_policy \<Rightarrow> string \<Rightarrow> fields \<Rightarrow> change_options" where
  "policy_options p v vals = \<lparr>co_release = up_release p, co_namespace = up_namespace p,
     co_source = no_source\<lparr>cs_repo_id := up_repo_id p, cs_chart := up_chart p, cs_version := v\<rparr>, co_values = vals,
     co_create_ns = False, co_wait = True, co_atomic = True, co_timeout = 10 * minute, co_token = [], co_digest = []\<rparr>"

definition failed_verdict :: "string \<Rightarrow> go_error \<Rightarrow> verdict" where
  "failed_verdict st e = \<lparr>vd_status = st, vd_error = error_string e, vd_version = None\<rparr>"

text \<open>The part of a check that may change the cluster: two previews, then the upgrade.\<close>

definition attempt_upgrade ::
  "(nat \<Rightarrow> 'w helm_env) \<Rightarrow> faults \<Rightarrow> gotime \<Rightarrow> int \<Rightarrow> string res \<Rightarrow> package_actor \<Rightarrow> upgrade_policy \<Rightarrow> string \<Rightarrow> change_options \<Rightarrow>
    'w helm_world \<Rightarrow> 'w helm_world \<times> verdict" where
  "attempt_upgrade env fl now el tok a p v o' w =
     (case service_preview (env 1) (fl DbGet) now tok (a\<lparr>ac_preview_only := True\<rparr>) ''upgrade'' (up_cluster p) o' w of
        (w1, Inl e) \<Rightarrow> (w1, failed_verdict ''blocked'' e)
      | (w1, Inr pv) \<Rightarrow>
          if has_critical_risk (pv_risks pv)
            then (w1, \<lparr>vd_status = ''blocked'', vd_error = ''new version requires manual review'', vd_version = Some v\<rparr>)
          else (case service_preview (env 2) (fl DbGet) now tok a ''upgrade'' (up_cluster p) o' w1 of
             (w2, Inl e) \<Rightarrow> (w2, failed_verdict ''blocked'' e)
           | (w2, Inr approved) \<Rightarrow>
               (case service_upgrade (env 3) fl now el a (up_cluster p) (o'\<lparr>co_token := pv_token approved\<rparr>) w2 of
                  (w3, Some e) \<Rightarrow> (w3, failed_verdict ''failed'' e)
                | (w3, None) \<Rightarrow> (w3, \<lparr>vd_status = ''upgraded'', vd_error = [], vd_version = Some v\<rparr>))))"

definition policy_verdict ::
  "(nat \<Rightarrow> 'w helm_env) \<Rightarrow> (string \<Rightarrow> fields option) \<Rightarrow> faults \<Rightarrow> gotime \<Rightarrow> int \<Rightarrow> string res \<Rightarrow> package_actor \<Rightarrow> upgrade_policy \<Rightarrow>
    'w helm_world \<Rightarrow> 'w helm_world \<times> verdict" where
  "policy_verdict env parse fl now el tok a p w =
     (let lib = hv_lib (env 0) in
      case policy_latest_version lib (fl DbList) p (hw_catalog w) of
        Inl e \<Rightarrow> (w, failed_verdict ''failed'' e)
      | Inr v \<Rightarrow>
          (case service_get (env 0) (fl DbCount) a (up_cluster p) (up_namespace p) (up_release p) 0 w of
             Inl e \<Rightarrow> (w, failed_verdict ''failed'' e)
           | Inr r \<Rightarrow>
               if \<not> hl_semver lib (re_chart_version r) \<or> \<not> hl_semver lib v \<or> \<not> hl_greater lib v (re_chart_version r)
                 then (w, \<lparr>vd_status = ''current'', vd_error = [], vd_version = Some v\<rparr>)
               else (case parse (up_values_json p) of
                  None \<Rightarrow> (w, \<lparr>vd_status = ''failed'', vd_error = ''stored values are invalid'', vd_version = None\<rparr>)
                | Some vals \<Rightarrow> attempt_upgrade env fl now el tok a p v (policy_options p v vals) w)))"

definition policy_check ::
  "(nat \<Rightarrow> 'w helm_env) \<Rightarrow> (string \<Rightarrow> fields option) \<Rightarrow> faults \<Rightarrow> gotime \<Rightarrow> int \<Rightarrow> string res \<Rightarrow> package_actor \<Rightarrow> upgrade_policy \<Rightarrow>
    'w helm_world \<Rightarrow> 'w helm_world \<times> upgrade_policy" where
  "policy_check env parse fl now el tok a p w =
     (case policy_verdict env parse fl now el tok a p w of (w1, v) \<Rightarrow> record_verdict (fl DbUpdate) now p v w1)"

definition check_now ::
  "(nat \<Rightarrow> 'w helm_env) \<Rightarrow> (string \<Rightarrow> fields option) \<Rightarrow> faults \<Rightarrow> gotime \<Rightarrow> int \<Rightarrow> string res \<Rightarrow> package_actor \<Rightarrow> nat \<Rightarrow>
    'w helm_world \<Rightarrow> 'w helm_world \<times> upgrade_policy res" where
  "check_now env parse fl now el tok a i w =
     (if \<not> is_admin a then (w, Inl ErrForbidden)
      else case first_where fl (\<lambda>p. up_id p = i) (ct_policies (hw_catalog w)) of
          Inl e \<Rightarrow> (w, Inl e)
        | Inr p \<Rightarrow> (case policy_check env parse fl now el tok a p w of (w', p') \<Rightarrow> (w', Inr p')))"

section \<open>The schedule\<close>

definition auto_actor :: package_actor where
  "auto_actor = \<lparr>ac_user = 0, ac_name = ''helm-auto-upgrade'', ac_role = ''super-admin'', ac_ip = [], ac_preview_only = False\<rparr>"

definition policy_due :: "gotime \<Rightarrow> upgrade_policy \<Rightarrow> bool" where
  "policy_due now p \<longleftrightarrow> up_enabled p \<and> (case up_next_check p of None \<Rightarrow> True | Some t \<Rightarrow> t \<le> now)"

text \<open>\<open>cancelled k\<close>: the context has ended before the \<open>k\<close>-th policy; each check has its own token and world.\<close>

fun run_policies ::
  "(nat \<Rightarrow> bool) \<Rightarrow> (nat \<Rightarrow> nat \<Rightarrow> 'w helm_env) \<Rightarrow> (string \<Rightarrow> fields option) \<Rightarrow> faults \<Rightarrow> gotime \<Rightarrow> int \<Rightarrow> (nat \<Rightarrow> string res) \<Rightarrow> nat \<Rightarrow>
    upgrade_policy list \<Rightarrow> 'w helm_world \<Rightarrow> 'w helm_world" where
  "run_policies cancelled env parse fl now el tok k [] w = w"
| "run_policies cancelled env parse fl now el tok k (p # ps) w =
     (if cancelled k then w
      else run_policies cancelled env parse fl now el tok (Suc k) ps
             (fst (policy_check (env k) parse fl now el (tok k) auto_actor p w)))"

definition run_due ::
  "(nat \<Rightarrow> bool) \<Rightarrow> (nat \<Rightarrow> nat \<Rightarrow> 'w helm_env) \<Rightarrow> (string \<Rightarrow> fields option) \<Rightarrow> bool \<Rightarrow> faults \<Rightarrow> gotime \<Rightarrow> int \<Rightarrow> (nat \<Rightarrow> string res) \<Rightarrow>
    'w helm_world \<Rightarrow> 'w helm_world" where
  "run_due cancelled env parse flt fl now el tok w =
     (if flt then w
      else run_policies cancelled env parse fl now el tok 0
        (take 25 (filter (policy_due now) (rows (ct_policies (hw_catalog w))))) w)"

section \<open>What an automatic upgrade has gone through\<close>

lemma service_preview_kube: "hw_kube (fst (service_preview env flt now tok a op cl o0 w)) = hw_kube w"
proof -
  obtain w1 x where ad: "admit_change env flt now a op cl o0 w = (w1, x)" by (cases "admit_change env flt now a op cl o0 w")
  have k: "hw_kube w1 = hw_kube w" using admit_change_frame [OF ad] by blast
  show ?thesis
  proof (cases x)
    case (Inl e)
    with ad k show ?thesis by (simp add: service_preview_def)
  next
    case (Inr o')
    obtain c2 y where "ad_preview (hv_sdk env) (hv_lib env) now op cl o' (hw_catalog w1) (hw_kube w1) = (c2, y)"
      by (cases "ad_preview (hv_sdk env) (hv_lib env) now op cl o' (hw_catalog w1) (hw_kube w1)")
    with ad k Inr show ?thesis
      by (cases y; cases tok) (auto simp: service_preview_def Let_def)
  qed
qed

lemma attempt_upgrade_clean:
  assumes "attempt_upgrade env fl now el tok a p v o' w = (w', vd)" "hw_kube w' \<noteq> hw_kube w \<or> vd_status vd = ''upgraded''"
  shows "\<exists>pv. snd (service_preview (env 1) (fl DbGet) now tok (a\<lparr>ac_preview_only := True\<rparr>) ''upgrade'' (up_cluster p) o' w) = Inr pv \<and>
    \<not> has_critical_risk (pv_risks pv)"
proof -
  let ?s = "service_preview (env 1) (fl DbGet) now tok (a\<lparr>ac_preview_only := True\<rparr>) ''upgrade'' (up_cluster p) o' w"
  obtain w1 x where s: "?s = (w1, x)" by (cases ?s)
  have k: "hw_kube w1 = hw_kube w" using service_preview_kube [of "env 1" "fl DbGet" now tok] s by (metis fst_conv)
  show ?thesis
  proof (cases x)
    case (Inl e)
    with s k assms show ?thesis by (auto simp: attempt_upgrade_def failed_verdict_def)
  next
    case (Inr pv)
    with s k assms show ?thesis by (cases "has_critical_risk (pv_risks pv)") (auto simp: attempt_upgrade_def)
  qed
qed

lemma policy_latest_Inr:
  assumes "policy_latest_version lib flt p c = Inr v"
  shows "hl_semver lib v \<and> hl_check lib (up_constraint p) v"
proof -
  have "v \<in> set (sort_by (hl_greater lib) (filter (\<lambda>v. hl_semver lib v \<and> hl_check lib (up_constraint p) v) xs)) \<Longrightarrow>
      hl_semver lib v \<and> hl_check lib (up_constraint p) v" for xs by simp
  with assms show ?thesis
    by (auto simp: policy_latest_version_def Let_def split: sum.splits prod.splits if_splits list.splits simp del: set_sort_by)
      (metis list.set_intros(1))+
qed


text \<open>A checked policy is not due again before its interval has passed.\<close>

lemma checked_policy_waits:
  "0 < up_interval item \<Longrightarrow> now' < now + up_interval item * minute \<Longrightarrow> \<not> policy_due now' (apply_verdict now item v p)"
  by (simp add: policy_due_def apply_verdict_def)

section \<open>A concrete upgrade\<close>

definition upgrade_lib :: helm_lib where
  "upgrade_lib = sample_lib\<lparr>hl_index := (\<lambda>_. Inl sample_versions), hl_index_get := (\<lambda>_ _ _. Some [''web.tgz''])\<rparr>"

definition upgrade_sdk :: "(fields list \<times> bool) \<Rightarrow> nat helm_sdk" where
  "upgrade_sdk objs = sample_sdk\<lparr>sd_last := (\<lambda>_ _ ns nm. Inr \<lparr>sr_name = nm, sr_namespace = ns, sr_version = 1, sr_config = [],
     sr_info = None, sr_manifest = [], sr_chart = Some (''web'', ''1'', [])\<rparr>), sd_objects := (\<lambda>_. objs)\<rparr>"

definition upgrade_env :: "(fields list \<times> bool) \<Rightarrow> nat helm_env" where
  "upgrade_env objs = sample_helm\<lparr>hv_lib := upgrade_lib, hv_sdk := upgrade_sdk objs\<rparr>"

definition upgrade_world :: "nat helm_world" where
  "upgrade_world = (new_service 0)\<lparr>hw_catalog := new_catalog\<lparr>ct_repos := \<lparr>rows = [empty_repository\<lparr>hr_id := 1, hr_name := ''r'',
     hr_type := ''helm'', hr_url := ''https://charts.example'', hr_enabled := True\<rparr>], seq = 1\<rparr>\<rparr>\<rparr>"

definition sample_policy :: upgrade_policy where
  "sample_policy = empty_policy\<lparr>up_id := 1, up_cluster := ''prod'', up_namespace := ''team-b'', up_release := ''web'', up_repo_id := 1,
     up_chart := ''web'', up_interval := 60, up_enabled := True\<rparr>"

definition sample_check where
  "sample_check later = policy_verdict (\<lambda>k. upgrade_env (if k < 2 then ([], False) else later)) (\<lambda>_. Some []) no_faults 5 0 (Inr ''tok'')
     auto_actor sample_policy upgrade_world"

lemma sample_check_upgrades: "vd_status (snd (sample_check ([], False))) = ''upgraded''"
  by code_simp


text \<open>
  The risks of the second preview, whose confirmation the upgrade redeems, are not looked at: when the
  chart changes between the two previews, here to one with a privileged workload, it is applied.
\<close>

lemma second_preview_risks_ignored:
  "let objs = ([privileged_object ''Deployment''], False) in
     has_critical_risk (snd (inspect_manifest std_accessors (sd_objects (upgrade_sdk objs)) [])) \<and>
     vd_status (snd (sample_check objs)) = ''upgraded'' \<and> hw_kube (fst (sample_check objs)) = 1"
  by code_simp

text \<open>An immediate check answers with the times of the previous one.\<close>

lemma check_now_returns_old_times:
  assumes "policy_check env parse fl now el tok a p w = (w', p')"
  shows "up_last_checked p' = up_last_checked p \<and> up_next_check p' = up_next_check p"
  using assms by (auto simp: policy_check_def record_verdict_def Let_def split: prod.splits)

end
