(* ===== verification/Kube_Resources.thy ===== *)
theory Kube_Resources
  imports Clusters Json_Parse Kube_Types
begin

text \<open>
  Reading and changing Kubernetes resources: the repository over the informer caches and the API server
  (\<open>repository/k8s_repo.go\<close>), the service with its checks (\<open>service/resource_service.go\<close>) and the HTTP
  handlers with the batch deletion (\<open>handler/resource_handler.go\<close>). The API server, the caches of
  client-go and the accessors of an unstructured object are the parameter record \<open>kube_api\<close> over an
  abstract state \<open>'w\<close>; reading requests have no state in their result, which is their type.
\<close>

section \<open>The repository\<close>

text \<open>The flag of a creation and of an update is the dry-run option of the request.\<close>

record ('dyn, 'w) kube_api =
  ka_list :: "'dyn \<Rightarrow> gvr \<Rightarrow> string option \<Rightarrow> list_options \<Rightarrow> 'w \<Rightarrow> (fields list \<times> string) res"
  ka_get :: "'dyn \<Rightarrow> gvr \<Rightarrow> string option \<Rightarrow> string \<Rightarrow> 'w \<Rightarrow> fields res"
  ka_create :: "'dyn \<Rightarrow> gvr \<Rightarrow> string option \<Rightarrow> bool \<Rightarrow> fields \<Rightarrow> 'w \<Rightarrow> 'w \<times> fields res"
  ka_update :: "'dyn \<Rightarrow> gvr \<Rightarrow> string option \<Rightarrow> bool \<Rightarrow> fields \<Rightarrow> 'w \<Rightarrow> 'w \<times> fields res"
  ka_delete :: "'dyn \<Rightarrow> gvr \<Rightarrow> string option \<Rightarrow> string \<Rightarrow> 'w \<Rightarrow> 'w \<times> unit res"
  ka_patch :: "'dyn \<Rightarrow> gvr \<Rightarrow> string option \<Rightarrow> string \<Rightarrow> string \<Rightarrow> 'w \<Rightarrow> 'w \<times> fields res"
  ka_lister :: "'w \<Rightarrow> 'dyn runtime \<Rightarrow> gvr \<Rightarrow> string \<Rightarrow> string + fields option list"
  ka_getter :: "'w \<Rightarrow> 'dyn runtime \<Rightarrow> gvr \<Rightarrow> string \<Rightarrow> string \<Rightarrow> string + fields option"
  ka_api_version :: "fields \<Rightarrow> string"
  ka_kind :: "fields \<Rightarrow> string"
  ka_name :: "fields \<Rightarrow> string"
  ka_namespace :: "fields \<Rightarrow> string"
  ka_set_name :: "string \<Rightarrow> fields \<Rightarrow> fields"

text \<open>The empty namespace sends a request without one.\<close>

definition ns_scope :: "string \<Rightarrow> string option" where
  "ns_scope ns = (if ns \<noteq> [] then Some ns else None)"

definition to_resource :: "('dyn, 'w) kube_api \<Rightarrow> fields \<Rightarrow> k8s_obj" where
  "to_resource api u =
     \<lparr>ko_api = ka_api_version api u, ko_kind = ka_kind api u, ko_name = ka_name api u,
      ko_namespace = ka_namespace api u, ko_raw = u, ko_metrics = None, ko_metrics_status = []\<rparr>"

definition sent_options :: "list_options \<Rightarrow> list_options" where
  "sent_options opts = opts\<lparr>lo_limit := (if 0 < lo_limit opts then lo_limit opts else 0)\<rparr>"

definition unknown_kind :: "string \<Rightarrow> 'a res" where
  "unknown_kind kind = failing (''unknown resource kind: '' @ kind)"

text \<open>The client of an operation: the metadata of the kind, then the connection of the cluster.\<close>

definition kind_client :: "registry \<Rightarrow> ('cfg, 'dyn) conns \<Rightarrow> string \<Rightarrow> string \<Rightarrow> (res_meta \<times> 'dyn) res" where
  "kind_client reg conns cl kind =
     (case reg_get reg kind of
        None \<Rightarrow> unknown_kind kind
      | Some meta \<Rightarrow>
          (case cm_dynamic_client cl conns of
             Inl e \<Rightarrow> wrap_error (''get dynamic client for cluster '' @ cl) e
           | Inr d \<Rightarrow> Inr (meta, d)))"

definition list_from_cache ::
  "('dyn, 'w) kube_api \<Rightarrow> gotime \<Rightarrow> string \<Rightarrow> string \<Rightarrow> res_meta \<Rightarrow> string \<Rightarrow> ('dyn, 'l) informers \<Rightarrow> 'w \<Rightarrow> resource_list res" where
  "list_from_cache api now cl kind meta ns im w =
     (case inf_list (ka_lister api w) now cl (rm_gvr meta) ns im of
        Inl e \<Rightarrow> failing (''list '' @ kind @ '' from cache: '' @ e)
      | Inr (items, stale) \<Rightarrow>
          Inr \<lparr>rl_items = map (to_resource api) items, rl_total = int (length items), rl_continue = [], rl_stale = stale\<rparr>)"

definition repo_list ::
  "('dyn, 'w) kube_api \<Rightarrow> registry \<Rightarrow> gotime \<Rightarrow> ('cfg, 'dyn) cluster_state \<Rightarrow> string \<Rightarrow> string \<Rightarrow> string \<Rightarrow> list_options \<Rightarrow> 'w \<Rightarrow>
     resource_list res" where
  "repo_list api reg now st cl kind ns opts w =
     (case reg_get reg kind of
        None \<Rightarrow> unknown_kind kind
      | Some meta \<Rightarrow>
          if rm_cached meta then list_from_cache api now cl kind meta ns (cs_inf st) w
          else (case kind_client reg (cs_conns st) cl kind of
                  Inl e \<Rightarrow> Inl e
                | Inr (_, d) \<Rightarrow>
                    (case ka_list api d (rm_gvr meta) (ns_scope ns) (sent_options opts) w of
                       Inl e \<Rightarrow> wrap_error (''list '' @ kind @ '' from API server'') e
                     | Inr (items, cont) \<Rightarrow>
                         Inr \<lparr>rl_items = map (to_resource api) items, rl_total = int (length items),
                              rl_continue = cont, rl_stale = False\<rparr>)))"

definition repo_get ::
  "('dyn, 'w) kube_api \<Rightarrow> registry \<Rightarrow> ('cfg, 'dyn) cluster_state \<Rightarrow> string \<Rightarrow> string \<Rightarrow> string \<Rightarrow> string \<Rightarrow> 'w \<Rightarrow> k8s_obj res" where
  "repo_get api reg st cl kind ns name w =
     (case reg_get reg kind of
        None \<Rightarrow> unknown_kind kind
      | Some meta \<Rightarrow>
          if rm_cached meta then
            (case inf_get (ka_getter api w) cl (rm_gvr meta) ns name (cs_inf st) of
               Inl e \<Rightarrow> failing (''get '' @ kind @ ''/'' @ name @ '' from cache: '' @ e)
             | Inr u \<Rightarrow> Inr (to_resource api u))
          else (case kind_client reg (cs_conns st) cl kind of
                  Inl e \<Rightarrow> Inl e
                | Inr (_, d) \<Rightarrow>
                    (case ka_get api d (rm_gvr meta) (ns_scope ns) name w of
                       Inl e \<Rightarrow> wrap_error (''get '' @ kind @ ''/'' @ name @ '' from API server'') e
                     | Inr u \<Rightarrow> Inr (to_resource api u))))"

text \<open>The end of a write: the error with its prefix, or the object the server answered with.\<close>

definition written :: "('dyn, 'w) kube_api \<Rightarrow> string \<Rightarrow> 'w \<times> fields res \<Rightarrow> 'w \<times> k8s_obj res" where
  "written api msg r =
     (case r of (w', Inl e) \<Rightarrow> (w', wrap_error msg e) | (w', Inr u) \<Rightarrow> (w', Inr (to_resource api u)))"

definition repo_create ::
  "('dyn, 'w) kube_api \<Rightarrow> registry \<Rightarrow> ('cfg, 'dyn) conns \<Rightarrow> string \<Rightarrow> string \<Rightarrow> string \<Rightarrow> fields \<Rightarrow> 'w \<Rightarrow> 'w \<times> k8s_obj res" where
  "repo_create api reg conns cl kind ns obj w =
     (case kind_client reg conns cl kind of
        Inl e \<Rightarrow> (w, Inl e)
      | Inr (meta, d) \<Rightarrow> written api (''create '' @ kind) (ka_create api d (rm_gvr meta) (ns_scope ns) False obj w))"

definition repo_update ::
  "('dyn, 'w) kube_api \<Rightarrow> registry \<Rightarrow> ('cfg, 'dyn) conns \<Rightarrow> string \<Rightarrow> string \<Rightarrow> string \<Rightarrow> string \<Rightarrow> fields \<Rightarrow> 'w \<Rightarrow>
     'w \<times> k8s_obj res" where
  "repo_update api reg conns cl kind ns name obj w =
     (case kind_client reg conns cl kind of
        Inl e \<Rightarrow> (w, Inl e)
      | Inr (meta, d) \<Rightarrow>
          written api (''update '' @ kind @ ''/'' @ name)
            (ka_update api d (rm_gvr meta) (ns_scope ns) False (ka_set_name api name obj) w))"

definition repo_delete ::
  "('dyn, 'w) kube_api \<Rightarrow> registry \<Rightarrow> ('cfg, 'dyn) conns \<Rightarrow> string \<Rightarrow> string \<Rightarrow> string \<Rightarrow> string \<Rightarrow> 'w \<Rightarrow> 'w \<times> unit res" where
  "repo_delete api reg conns cl kind ns name w =
     (case kind_client reg conns cl kind of
        Inl e \<Rightarrow> (w, Inl e)
      | Inr (meta, d) \<Rightarrow>
          (case ka_delete api d (rm_gvr meta) (ns_scope ns) name w of
             (w', Inl e) \<Rightarrow> (w', wrap_error (''delete '' @ kind @ ''/'' @ name) e)
           | (w', Inr _) \<Rightarrow> (w', Inr ())))"

definition repo_patch ::
  "('dyn, 'w) kube_api \<Rightarrow> registry \<Rightarrow> ('cfg, 'dyn) conns \<Rightarrow> string \<Rightarrow> string \<Rightarrow> string \<Rightarrow> string \<Rightarrow> string \<Rightarrow> 'w \<Rightarrow>
     'w \<times> k8s_obj res" where
  "repo_patch api reg conns cl kind ns name patch w =
     (case kind_client reg conns cl kind of
        Inl e \<Rightarrow> (w, Inl e)
      | Inr (meta, d) \<Rightarrow>
          written api (''patch '' @ kind @ ''/'' @ name) (ka_patch api d (rm_gvr meta) (ns_scope ns) name patch w))"

definition repo_dry_run_create ::
  "('dyn, 'w) kube_api \<Rightarrow> registry \<Rightarrow> ('cfg, 'dyn) conns \<Rightarrow> string \<Rightarrow> string \<Rightarrow> string \<Rightarrow> fields \<Rightarrow> 'w \<Rightarrow> 'w \<times> k8s_obj res" where
  "repo_dry_run_create api reg conns cl kind ns obj w =
     (case kind_client reg conns cl kind of
        Inl e \<Rightarrow> (w, Inl e)
      | Inr (meta, d) \<Rightarrow> written api (''dry-run create '' @ kind) (ka_create api d (rm_gvr meta) (ns_scope ns) True obj w))"

definition repo_dry_run_update ::
  "('dyn, 'w) kube_api \<Rightarrow> registry \<Rightarrow> ('cfg, 'dyn) conns \<Rightarrow> string \<Rightarrow> string \<Rightarrow> string \<Rightarrow> string \<Rightarrow> fields \<Rightarrow> 'w \<Rightarrow>
     'w \<times> (k8s_obj \<times> k8s_obj) res" where
  "repo_dry_run_update api reg conns cl kind ns name obj w =
     (case kind_client reg conns cl kind of
        Inl e \<Rightarrow> (w, Inl e)
      | Inr (meta, d) \<Rightarrow>
          (case ka_get api d (rm_gvr meta) (ns_scope ns) name w of
             Inl e \<Rightarrow> (w, wrap_error (''get current '' @ kind @ ''/'' @ name) e)
           | Inr current \<Rightarrow>
               (case ka_update api d (rm_gvr meta) (ns_scope ns) True (ka_set_name api name obj) w of
                  (w', Inl e) \<Rightarrow> (w', wrap_error (''dry-run update '' @ kind @ ''/'' @ name) e)
                | (w', Inr proposed) \<Rightarrow> (w', Inr (to_resource api current, to_resource api proposed)))))"

section \<open>The service\<close>

record ('cfg, 'dyn, 'w) resource_env =
  re_api :: "('dyn, 'w) kube_api"
  re_registry :: registry
  re_float :: float_reader
  re_faults :: faults
  re_now :: gotime
  re_state :: "('cfg, 'dyn) cluster_state"

text \<open>The checks every operation starts with: a known cluster and a registered type; the key is the name of the cluster.\<close>

definition resource_target :: "('cfg, 'dyn, 'w) resource_env \<Rightarrow> nat \<Rightarrow> string \<Rightarrow> string res" where
  "resource_target env i kind =
     (case cluster_get_by_id (re_faults env) i (cs_table (re_state env)) of
        Inl _ \<Rightarrow> fail CodeNotFound (''cluster '' @ dec_nat i @ '' not found'')
      | Inr c \<Rightarrow>
          (case reg_get (re_registry env) kind of
             None \<Rightarrow> fail CodeParamInvalid (''unknown resource type: '' @ kind)
           | Some _ \<Rightarrow> Inr (c_name c)))"

text \<open>The text of a decoding error comes from the JSON package: it is not modelled beyond its prefix.\<close>

definition json_body :: "('cfg, 'dyn, 'w) resource_env \<Rightarrow> string \<Rightarrow> string \<Rightarrow> fields res" where
  "json_body env what body =
     (case unmarshal_map (re_float env) body of
        None \<Rightarrow> fail CodeParamInvalid (''invalid '' @ what)
      | Some obj \<Rightarrow> Inr obj)"

definition svc_list_resources ::
  "('cfg, 'dyn, 'w) resource_env \<Rightarrow> nat \<Rightarrow> string \<Rightarrow> string \<Rightarrow> list_options \<Rightarrow> 'w \<Rightarrow> resource_list res" where
  "svc_list_resources env i kind ns opts w =
     (case resource_target env i kind of
        Inl e \<Rightarrow> Inl e
      | Inr cl \<Rightarrow>
          (case repo_list (re_api env) (re_registry env) (re_now env) (re_state env) cl kind ns opts w of
             Inl e \<Rightarrow> fail CodeInternal (''failed to list '' @ kind @ '': '' @ error_string e)
           | Inr l \<Rightarrow> Inr l))"

definition svc_get_resource :: "('cfg, 'dyn, 'w) resource_env \<Rightarrow> nat \<Rightarrow> string \<Rightarrow> string \<Rightarrow> string \<Rightarrow> 'w \<Rightarrow> k8s_obj res" where
  "svc_get_resource env i kind ns name w =
     (case resource_target env i kind of
        Inl e \<Rightarrow> Inl e
      | Inr cl \<Rightarrow>
          (case repo_get (re_api env) (re_registry env) (re_state env) cl kind ns name w of
             Inl e \<Rightarrow> fail CodeNotFound (''failed to get '' @ kind @ ''/'' @ name @ '': '' @ error_string e)
           | Inr r \<Rightarrow> Inr r))"

definition svc_create_resource ::
  "('cfg, 'dyn, 'w) resource_env \<Rightarrow> nat \<Rightarrow> string \<Rightarrow> string \<Rightarrow> string \<Rightarrow> 'w \<Rightarrow> 'w \<times> k8s_obj res" where
  "svc_create_resource env i kind ns body w =
     (case resource_target env i kind of
        Inl e \<Rightarrow> (w, Inl e)
      | Inr cl \<Rightarrow>
          (case json_body env ''JSON body'' body of
             Inl e \<Rightarrow> (w, Inl e)
           | Inr obj \<Rightarrow>
               (case repo_create (re_api env) (re_registry env) (cs_conns (re_state env)) cl kind ns obj w of
                  (w', Inl e) \<Rightarrow> (w', fail CodeInternal (''failed to create '' @ kind @ '': '' @ error_string e))
                | (w', Inr r) \<Rightarrow> (w', Inr r))))"

definition svc_update_resource ::
  "('cfg, 'dyn, 'w) resource_env \<Rightarrow> nat \<Rightarrow> string \<Rightarrow> string \<Rightarrow> string \<Rightarrow> string \<Rightarrow> 'w \<Rightarrow> 'w \<times> k8s_obj res" where
  "svc_update_resource env i kind ns name body w =
     (case resource_target env i kind of
        Inl e \<Rightarrow> (w, Inl e)
      | Inr cl \<Rightarrow>
          (case json_body env ''JSON body'' body of
             Inl e \<Rightarrow> (w, Inl e)
           | Inr obj \<Rightarrow>
               (case repo_update (re_api env) (re_registry env) (cs_conns (re_state env)) cl kind ns name obj w of
                  (w', Inl e) \<Rightarrow> (w', fail CodeInternal (''failed to update '' @ kind @ ''/'' @ name @ '': '' @ error_string e))
                | (w', Inr r) \<Rightarrow> (w', Inr r))))"

definition svc_delete_resource ::
  "('cfg, 'dyn, 'w) resource_env \<Rightarrow> nat \<Rightarrow> string \<Rightarrow> string \<Rightarrow> string \<Rightarrow> 'w \<Rightarrow> 'w \<times> unit res" where
  "svc_delete_resource env i kind ns name w =
     (case resource_target env i kind of
        Inl e \<Rightarrow> (w, Inl e)
      | Inr cl \<Rightarrow>
          (case repo_delete (re_api env) (re_registry env) (cs_conns (re_state env)) cl kind ns name w of
             (w', Inl e) \<Rightarrow> (w', fail CodeInternal (''failed to delete '' @ kind @ ''/'' @ name @ '': '' @ error_string e))
           | (w', Inr _) \<Rightarrow> (w', Inr ())))"

definition svc_patch_resource ::
  "('cfg, 'dyn, 'w) resource_env \<Rightarrow> nat \<Rightarrow> string \<Rightarrow> string \<Rightarrow> string \<Rightarrow> string \<Rightarrow> 'w \<Rightarrow> 'w \<times> k8s_obj res" where
  "svc_patch_resource env i kind ns name patch w =
     (case resource_target env i kind of
        Inl e \<Rightarrow> (w, Inl e)
      | Inr cl \<Rightarrow>
          (case json_body env ''patch JSON'' patch of
             Inl e \<Rightarrow> (w, Inl e)
           | Inr _ \<Rightarrow>
               (case repo_patch (re_api env) (re_registry env) (cs_conns (re_state env)) cl kind ns name patch w of
                  (w', Inl e) \<Rightarrow> (w', fail CodeInternal (''failed to patch '' @ kind @ ''/'' @ name @ '': '' @ error_string e))
                | (w', Inr r) \<Rightarrow> (w', Inr r))))"

record dry_run_result =
  dr_current :: "k8s_obj option"
  dr_proposed :: "k8s_obj option"
  dr_valid :: bool
  dr_errors :: "string list"

definition rejected :: "go_error \<Rightarrow> dry_run_result" where
  "rejected e = \<lparr>dr_current = None, dr_proposed = None, dr_valid = False, dr_errors = [error_string e]\<rparr>"

definition svc_dry_run_create ::
  "('cfg, 'dyn, 'w) resource_env \<Rightarrow> nat \<Rightarrow> string \<Rightarrow> string \<Rightarrow> string \<Rightarrow> 'w \<Rightarrow> 'w \<times> dry_run_result res" where
  "svc_dry_run_create env i kind ns body w =
     (case resource_target env i kind of
        Inl e \<Rightarrow> (w, Inl e)
      | Inr cl \<Rightarrow>
          (case json_body env ''JSON body'' body of
             Inl e \<Rightarrow> (w, Inl e)
           | Inr obj \<Rightarrow>
               (case repo_dry_run_create (re_api env) (re_registry env) (cs_conns (re_state env)) cl kind ns obj w of
                  (w', Inl e) \<Rightarrow> (w', Inr (rejected e))
                | (w', Inr r) \<Rightarrow>
                    (w', Inr \<lparr>dr_current = None, dr_proposed = Some r, dr_valid = True, dr_errors = []\<rparr>))))"

definition svc_dry_run_update ::
  "('cfg, 'dyn, 'w) resource_env \<Rightarrow> nat \<Rightarrow> string \<Rightarrow> string \<Rightarrow> string \<Rightarrow> string \<Rightarrow> 'w \<Rightarrow> 'w \<times> dry_run_result res" where
  "svc_dry_run_update env i kind ns name body w =
     (case resource_target env i kind of
        Inl e \<Rightarrow> (w, Inl e)
      | Inr cl \<Rightarrow>
          (case json_body env ''JSON body'' body of
             Inl e \<Rightarrow> (w, Inl e)
           | Inr obj \<Rightarrow>
               (case repo_dry_run_update (re_api env) (re_registry env) (cs_conns (re_state env)) cl kind ns name obj w of
                  (w', Inl e) \<Rightarrow> (w', Inr (rejected e))
                | (w', Inr (cur, prop)) \<Rightarrow>
                    (w', Inr \<lparr>dr_current = Some cur, dr_proposed = Some prop, dr_valid = True, dr_errors = []\<rparr>))))"

end
