(* ===== verification/Go_Integers.thy ===== *)
theory Go_Integers
  imports Go_Prelude
begin

text \<open>
  Integers of the source at their width and the decimal parser of package \<open>strconv\<close>. An int64 is an
  \<open>int\<close> that \<open>int64\<close> wraps after each operation that can overflow. \<open>ParseInt\<close> answers with a value even
  when it fails (0 for a syntax error, the nearest bound for a range error), and it stops at the
  digit that overflows, whatever follows.
\<close>

definition int64 :: "int \<Rightarrow> int" where
  "int64 i = (i + 2 ^ 63) mod 2 ^ 64 - 2 ^ 63"

lemma int64_mod [simp]: "int64 a mod 2 ^ 64 = a mod 2 ^ 64"
  by (simp add: int64_def mod_diff_left_eq)

lemma int64_add: "int64 (int64 a + b) = int64 (a + b)"
proof -
  have "(int64 a + b + 2 ^ 63) mod 2 ^ 64 = (a + b + 2 ^ 63) mod 2 ^ 64"
    by (metis int64_mod add.assoc mod_add_left_eq)
  then show ?thesis by (simp add: int64_def)
qed

lemma int64_add_right: "int64 (b + int64 a) = int64 (b + a)"
  using int64_add [of a b] by (simp add: add.commute)

lemma int64_range: "- (2 ^ 63) \<le> int64 i \<and> int64 i < 2 ^ 63"
  using pos_mod_bound [of "2 ^ 64" "i + 2 ^ 63"] pos_mod_sign [of "2 ^ 64" "i + 2 ^ 63"] by (simp add: int64_def)

lemma int64_id: "- (2 ^ 63) \<le> i \<Longrightarrow> i < 2 ^ 63 \<Longrightarrow> int64 i = i"
  by (simp add: int64_def)

section \<open>Parsing\<close>

text \<open>\<open>ParseUint\<close> in base 10: \<open>None\<close> is a syntax error, \<open>Some None\<close> a range error.\<close>

fun scan_uint :: "string \<Rightarrow> int \<Rightarrow> int option option" where
  "scan_uint [] n = Some (Some n)"
| "scan_uint (c # cs) n =
     (let d = int (of_char c) in
      if d < 48 \<or> 57 < d then None
      else if (2 ^ 64 - 1) div 10 + 1 \<le> n then Some None
      else if 2 ^ 64 \<le> n * 10 + (d - 48) then Some None
      else scan_uint cs (n * 10 + (d - 48)))"

definition unsigned :: "string \<Rightarrow> int option option" where
  "unsigned s = (if s = [] then None else scan_uint s 0)"

text \<open>\<open>strconv.ParseInt(s, 10, bits)\<close> with its error as a flag.\<close>

definition parse_int :: "nat \<Rightarrow> string \<Rightarrow> int \<times> bool" where
  "parse_int bits s =
     (let neg = (case s of c # _ \<Rightarrow> c = CHR ''-'' | [] \<Rightarrow> False);
          digits = (case s of c # r \<Rightarrow> if c = CHR ''-'' \<or> c = CHR ''+'' then r else s | [] \<Rightarrow> s);
          cutoff = 2 ^ (bits - 1) in
      case unsigned digits of
        None \<Rightarrow> (0, False)
      | Some r \<Rightarrow>
          let un = (case r of Some n \<Rightarrow> n | None \<Rightarrow> 2 ^ 64 - 1) in
          if \<not> neg \<and> cutoff \<le> un then (cutoff - 1, False)
          else if neg \<and> cutoff < un then (- cutoff, False)
          else ((if neg then - un else un), True))"

text \<open>The two-value form with the error dropped: the value counts whether it parsed or not.\<close>

abbreviation parse_int_or :: "string \<Rightarrow> int" where
  "parse_int_or s \<equiv> fst (parse_int 64 s)"

definition atoi :: "string \<Rightarrow> int \<times> bool" where
  "atoi s = parse_int 64 s"

lemma parse_int_range:
  "0 < bits \<Longrightarrow> - (2 ^ (bits - 1)) \<le> fst (parse_int bits s) \<and> fst (parse_int bits s) < 2 ^ (bits - 1)"
proof -
  have nonneg: "scan_uint t n = Some (Some m) \<Longrightarrow> 0 \<le> n \<Longrightarrow> 0 \<le> m" for t n m
    by (induction t n rule: scan_uint.induct) (auto simp: Let_def split: if_splits)
  then have "unsigned t = Some (Some m) \<Longrightarrow> 0 \<le> m" for t m by (auto simp: unsigned_def split: if_splits)
  moreover have "(0::int) < 2 ^ (bits - 1)" by simp
  ultimately show ?thesis
    by (auto simp: parse_int_def Let_def split: option.splits)
       (smt (verit) zero_less_power)+
qed

end
