(* ===== verification/Kube_Metrics.thy ===== *)
theory Kube_Metrics
  imports Kube_Resources Go_Integers
begin

text \<open>
  Usage of pods as the metrics server reports it (\<open>service/pod_metrics_service.go\<close>): reading the objects
  of the metrics API, adding up the containers of a pod, and joining the requests and limits of the pod
  specification by container name. The parser of quantities and of timestamps belongs to
  libraries: it is the parameter \<open>quantity_lib\<close>. Sums are int64 and wrap around.
\<close>

record quantity_lib =
  ql_milli :: "string \<Rightarrow> int option"
  ql_value :: "string \<Rightarrow> int option"
  ql_time :: "string \<Rightarrow> gotime option"

definition cpu_milli :: "quantity_lib \<Rightarrow> string \<Rightarrow> int" where
  "cpu_milli q v = (if v = [] then 0 else (case ql_milli q v of None \<Rightarrow> 0 | Some n \<Rightarrow> n))"

definition quantity_value :: "quantity_lib \<Rightarrow> string \<Rightarrow> int" where
  "quantity_value q v = (if v = [] then 0 else (case ql_value q v of None \<Rightarrow> 0 | Some n \<Rightarrow> n))"

definition pod_metrics_gvr :: gvr where
  "pod_metrics_gvr = \<lparr>gvr_group = ''metrics.k8s.io'', gvr_version = ''v1beta1'', gvr_resource = ''pods''\<rparr>"

definition pod_metrics_key :: "string \<Rightarrow> string \<Rightarrow> string" where
  "pod_metrics_key ns name = ns @ ''/'' @ name"

text \<open>An element of the containers that is not an object is left out.\<close>

definition container_usage :: "quantity_lib \<Rightarrow> json \<Rightarrow> container_metrics option" where
  "container_usage q raw =
     (case as_obj (Some raw) of
        None \<Rightarrow> None
      | Some c \<Rightarrow>
          let usage = obj_or_nil (gm_get c ''usage'') in
          Some \<lparr>mc_name = str_or_empty (gm_get c ''name''), mc_cpu = cpu_milli q (str_or_empty (gm_get usage ''cpu'')),
            mc_memory = quantity_value q (str_or_empty (gm_get usage ''memory'')),
            mc_cpu_request = 0, mc_cpu_limit = 0, mc_memory_request = 0, mc_memory_limit = 0\<rparr>)"

definition add_usage :: "container_metrics \<Rightarrow> pod_metrics \<Rightarrow> pod_metrics" where
  "add_usage e m = m\<lparr>pm_cpu := int64 (pm_cpu m + mc_cpu e), pm_memory := int64 (pm_memory m + mc_memory e),
     pm_containers := pm_containers m @ [e]\<rparr>"

definition parse_pod_metrics :: "quantity_lib \<Rightarrow> fields \<Rightarrow> (pod_metrics \<times> string \<times> string) option" where
  "parse_pod_metrics q obj =
     (let metadata = obj_or_nil (gm_get obj ''metadata'');
          name = str_or_empty (gm_get metadata ''name''); ns = str_or_empty (gm_get metadata ''namespace'');
          stamp = str_or_empty (gm_get obj ''timestamp'') in
      if name = [] then None
      else
        (let m0 = \<lparr>pm_timestamp = (if stamp = [] then None else ql_time q stamp),
                   pm_window = str_or_empty (gm_get obj ''window''), pm_cpu = 0, pm_memory = 0, pm_cpu_request = 0,
                   pm_cpu_limit = 0, pm_memory_request = 0, pm_memory_limit = 0, pm_containers = []\<rparr>;
             cs = List.map_filter (container_usage q) (arr_or_nil (gm_get obj ''containers''))
         in Some (fold add_usage cs m0, name, ns)))"

definition index_metrics :: "quantity_lib \<Rightarrow> fields list \<Rightarrow> (string, pod_metrics) gomap" where
  "index_metrics q items =
     fold (\<lambda>item acc. case parse_pod_metrics q item of
             None \<Rightarrow> acc | Some (m, name, ns) \<Rightarrow> gm_put (pod_metrics_key ns name) m acc) items []"

definition list_pod_metrics ::
  "quantity_lib \<Rightarrow> ('cfg, 'dyn, 'w) resource_env \<Rightarrow> nat \<Rightarrow> string \<Rightarrow> 'w \<Rightarrow> (string, pod_metrics) gomap res" where
  "list_pod_metrics q env i ns w =
     (case cluster_get_by_id (re_faults env) i (cs_table (re_state env)) of
        Inl e \<Rightarrow> wrap_error (''get cluster '' @ dec_nat i) e
      | Inr c \<Rightarrow>
          (case cm_dynamic_client (c_name c) (cs_conns (re_state env)) of
             Inl e \<Rightarrow> wrap_error ''get metrics client'' e
           | Inr d \<Rightarrow>
               (case ka_list (re_api env) d pod_metrics_gvr (ns_scope ns)
                       \<lparr>lo_label = [], lo_field = [], lo_limit = 0, lo_continue = []\<rparr> w of
                  Inl e \<Rightarrow> wrap_error ''list pod metrics'' e
                | Inr (items, _) \<Rightarrow> Inr (index_metrics q items))))"

section \<open>Requests and limits\<close>

text \<open>Containers of the specification by name: of two with the same name the later one counts.\<close>

definition containers_by_name :: "fields \<Rightarrow> (string, fields) gomap" where
  "containers_by_name raw =
     fold (\<lambda>rc acc. case as_obj (Some rc) of
             None \<Rightarrow> acc | Some c \<Rightarrow> gm_put (str_or_empty (gm_get c ''name'')) c acc)
       (arr_or_nil (gm_get (obj_or_nil (gm_get raw ''spec'')) ''containers'')) []"

definition allocate :: "quantity_lib \<Rightarrow> (string, fields) gomap \<Rightarrow> container_metrics \<Rightarrow> container_metrics" where
  "allocate q by_name e =
     (let container = (case gm_get by_name (mc_name e) of None \<Rightarrow> [] | Some c \<Rightarrow> c);
          resources = obj_or_nil (gm_get container ''resources'');
          requests = obj_or_nil (gm_get resources ''requests''); limits = obj_or_nil (gm_get resources ''limits'') in
      e\<lparr>mc_cpu_request := cpu_milli q (str_or_empty (gm_get requests ''cpu'')),
        mc_cpu_limit := cpu_milli q (str_or_empty (gm_get limits ''cpu'')),
        mc_memory_request := quantity_value q (str_or_empty (gm_get requests ''memory'')),
        mc_memory_limit := quantity_value q (str_or_empty (gm_get limits ''memory''))\<rparr>)"

definition add_allocation :: "container_metrics \<Rightarrow> pod_metrics \<Rightarrow> pod_metrics" where
  "add_allocation e m =
     m\<lparr>pm_cpu_request := int64 (pm_cpu_request m + mc_cpu_request e), pm_cpu_limit := int64 (pm_cpu_limit m + mc_cpu_limit e),
       pm_memory_request := int64 (pm_memory_request m + mc_memory_request e),
       pm_memory_limit := int64 (pm_memory_limit m + mc_memory_limit e)\<rparr>"

definition apply_allocations :: "quantity_lib \<Rightarrow> fields \<Rightarrow> pod_metrics \<Rightarrow> pod_metrics" where
  "apply_allocations q raw m =
     (let cs = map (allocate q (containers_by_name raw)) (pm_containers m)
      in (fold add_allocation cs m)\<lparr>pm_containers := cs\<rparr>)"

text \<open>\<open>attachPodMetrics\<close>: \<open>None\<close> when the handler has no metrics service.\<close>

definition with_status :: "string \<Rightarrow> k8s_obj \<Rightarrow> k8s_obj" where
  "with_status s r = r\<lparr>ko_metrics_status := s\<rparr>"

definition attach_one :: "quantity_lib \<Rightarrow> (string, pod_metrics) gomap \<Rightarrow> k8s_obj \<Rightarrow> k8s_obj" where
  "attach_one q metrics r =
     (case gm_get metrics (ko_namespace r @ ''/'' @ ko_name r) of
        None \<Rightarrow> with_status ''pending'' r
      | Some m \<Rightarrow> r\<lparr>ko_metrics := Some (apply_allocations q (ko_raw r) m), ko_metrics_status := ''available''\<rparr>)"

definition attach_pod_metrics ::
  "quantity_lib option \<Rightarrow> ('cfg, 'dyn, 'w) resource_env \<Rightarrow> nat \<Rightarrow> string \<Rightarrow> 'w \<Rightarrow> k8s_obj list \<Rightarrow> k8s_obj list" where
  "attach_pod_metrics q env i ns w rs =
     (case q of
        None \<Rightarrow> map (with_status ''unavailable'') rs
      | Some lib \<Rightarrow>
          (case list_pod_metrics lib env i ns w of
             Inl _ \<Rightarrow> map (with_status ''unavailable'') rs
           | Inr metrics \<Rightarrow> map (attach_one lib metrics) rs))"

section \<open>Sums\<close>

lemma int64_idem [simp]: "int64 (int64 a) = int64 a"
  using int64_add [of a 0] by simp

lemma int64_zero [simp]: "int64 0 = 0"
  by (simp add: int64_def)

lemma fold_add_usage:
  "pm_containers (fold add_usage cs m) = pm_containers m @ cs \<and>
   int64 (pm_cpu (fold add_usage cs m)) = int64 (pm_cpu m + sum_list (map mc_cpu cs)) \<and>
   int64 (pm_memory (fold add_usage cs m)) = int64 (pm_memory m + sum_list (map mc_memory cs))"
  by (induction cs arbitrary: m) (simp_all add: add_usage_def int64_add int64_add_right add_ac)

lemma fold_usage_wrapped:
  "int64 (pm_cpu m) = pm_cpu m \<Longrightarrow> int64 (pm_memory m) = pm_memory m \<Longrightarrow>
   int64 (pm_cpu (fold add_usage cs m)) = pm_cpu (fold add_usage cs m) \<and>
   int64 (pm_memory (fold add_usage cs m)) = pm_memory (fold add_usage cs m)"
  by (induction cs arbitrary: m) (simp_all add: add_usage_def)

lemma fold_add_allocation:
  "pm_containers (fold add_allocation cs m) = pm_containers m \<and>
   pm_cpu (fold add_allocation cs m) = pm_cpu m \<and> pm_memory (fold add_allocation cs m) = pm_memory m \<and>
   int64 (pm_cpu_request (fold add_allocation cs m)) = int64 (pm_cpu_request m + sum_list (map mc_cpu_request cs)) \<and>
   int64 (pm_memory_limit (fold add_allocation cs m)) = int64 (pm_memory_limit m + sum_list (map mc_memory_limit cs))"
  by (induction cs arbitrary: m) (simp_all add: add_allocation_def int64_add int64_add_right add_ac)

text \<open>
  The usage reported for a pod is the sum of its containers in 64-bit arithmetic, and joining the
  specification fills in requests and limits without changing the usage.
\<close>

theorem pod_usage_adds_up:
  assumes "parse_pod_metrics q obj = Some (m, name, ns)"
  shows "name \<noteq> [] \<and> pm_cpu m = int64 (sum_list (map mc_cpu (pm_containers m))) \<and>
    pm_memory m = int64 (sum_list (map mc_memory (pm_containers m))) \<and>
    pm_cpu (apply_allocations q raw m) = pm_cpu m \<and> pm_memory (apply_allocations q raw m) = pm_memory m \<and>
    map mc_name (pm_containers (apply_allocations q raw m)) = map mc_name (pm_containers m)"
proof -
  from assms obtain m0 cs where m: "name \<noteq> []" "m = fold add_usage cs m0" "pm_cpu m0 = 0" "pm_memory m0 = 0" "pm_containers m0 = []"
    by (auto simp: parse_pod_metrics_def Let_def split: if_splits)
  have "map mc_name (map (allocate q b) cs) = map mc_name cs" for b and cs :: "container_metrics list"
    by (simp add: allocate_def Let_def)
  with m fold_add_usage [of cs m0] fold_usage_wrapped [of m0 cs] fold_add_allocation show ?thesis
    by (simp add: apply_allocations_def Let_def)
qed

text \<open>Attaching metrics says for each pod what it knows, and leaves the pods as they were otherwise.\<close>

lemma attach_pod_metrics_frame:
  "map ko_raw (attach_pod_metrics q env i ns w rs) = map ko_raw rs \<and> map ko_name (attach_pod_metrics q env i ns w rs) = map ko_name rs \<and>
   (\<forall>r \<in> set (attach_pod_metrics q env i ns w rs). ko_metrics_status r \<in> {''unavailable'', ''pending'', ''available''})"
  by (auto simp: attach_pod_metrics_def with_status_def attach_one_def comp_def split: option.splits sum.splits)

end
