(* ===== verification/Kube_Actions.thy ===== *)
theory Kube_Actions
  imports Kube_Metrics
begin

text \<open>
  The life cycle of workloads: scaling, restarting, the rollout history of a deployment and rolling back
  to a revision of it (\<open>service/resource_action_service.go\<close>). The typed client is the parameter record
  \<open>workload_api\<close>; what the code reads of a pod, a deployment and a replica set is a record each. The
  contents of a pod template are opaque: only its JSON text is used.
\<close>

definition scalable_kinds :: "string set" where
  "scalable_kinds = {''deployments'', ''statefulsets'', ''replicasets''}"

definition restartable_kinds :: "string set" where
  "restartable_kinds = {''deployments'', ''statefulsets'', ''daemonsets'', ''pods''}"

record owner_ref =
  or_kind :: string
  or_uid :: string
  or_controller :: "bool option"

record deployment =
  dp_uid :: string
  dp_annotations :: "(string, string) gomap"

record 'tpl replica_set =
  rs_owners :: "owner_ref list"
  rs_annotations :: "(string, string) gomap"
  rs_template :: 'tpl

text \<open>
  \<open>wa_scale\<close> is a merge patch of the scale subresource, \<open>wa_patch\<close> a strategic merge patch; both name
  the kind, the namespace and the object, and take the body.
\<close>

record ('cfg, 'cs, 'tpl, 'w) workload_api =
  wa_client :: "'cfg \<Rightarrow> string + 'cs"
  wa_scale :: "'cs \<Rightarrow> string \<Rightarrow> string \<Rightarrow> string \<Rightarrow> string \<Rightarrow> 'w \<Rightarrow> 'w \<times> unit res"
  wa_patch :: "'cs \<Rightarrow> string \<Rightarrow> string \<Rightarrow> string \<Rightarrow> string \<Rightarrow> 'w \<Rightarrow> 'w \<times> unit res"
  wa_get_pod :: "'cs \<Rightarrow> string \<Rightarrow> string \<Rightarrow> 'w \<Rightarrow> owner_ref list res"
  wa_delete_pod :: "'cs \<Rightarrow> string \<Rightarrow> string \<Rightarrow> 'w \<Rightarrow> 'w \<times> unit res"
  wa_get_deployment :: "'cs \<Rightarrow> string \<Rightarrow> string \<Rightarrow> 'w \<Rightarrow> deployment res"
  wa_list_replica_sets :: "'cs \<Rightarrow> string \<Rightarrow> 'w \<Rightarrow> 'tpl replica_set list res"
  wa_template_json :: "'tpl \<Rightarrow> string option"

record ('cfg, 'dyn, 'cs, 'tpl, 'w) action_env =
  an_api :: "('cfg, 'cs, 'tpl, 'w) workload_api"
  an_faults :: faults
  an_now :: string
  an_state :: "('cfg, 'dyn) cluster_state"

definition typed_client :: "('cfg, 'dyn, 'cs, 'tpl, 'w) action_env \<Rightarrow> nat \<Rightarrow> 'cs res" where
  "typed_client env i =
     (case cluster_get_by_id (an_faults env) i (cs_table (an_state env)) of
        Inl _ \<Rightarrow> fail CodeNotFound (''cluster '' @ dec_nat i @ '' not found'')
      | Inr c \<Rightarrow>
          (case cm_rest_config (c_name c) (cs_conns (an_state env)) of
             Inl e \<Rightarrow> fail CodeK8sUnavailable (''cluster '' @ go_quote (c_name c) @ '' is not connected: '' @ error_string e)
           | Inr cfg \<Rightarrow>
               (case wa_client (an_api env) cfg of
                  Inl e \<Rightarrow> fail CodeInternal (''failed to build Kubernetes client: '' @ e)
                | Inr cs \<Rightarrow> Inr cs)))"

text \<open>A JSON object with one field, as the patches are written.\<close>

definition json_field :: "string \<Rightarrow> string \<Rightarrow> string" where
  "json_field k v = ''{'' @ [quote] @ k @ [quote] @ '':'' @ v @ ''}''"

definition scale_patch :: "int \<Rightarrow> string" where
  "scale_patch n = json_field ''spec'' (json_field ''replicas'' (dec_int n))"

definition scale :: "('cfg, 'dyn, 'cs, 'tpl, 'w) action_env \<Rightarrow> nat \<Rightarrow> string \<Rightarrow> string \<Rightarrow> string \<Rightarrow> int \<Rightarrow> 'w \<Rightarrow> 'w \<times> unit res" where
  "scale env i kind ns name replicas w =
     (if kind \<notin> scalable_kinds then
        (w, fail CodeParamInvalid (''resource type '' @ go_quote kind @ '' does not support scaling; supported: deployments, statefulsets, replicasets''))
      else if replicas < 0 then (w, fail CodeParamInvalid ''replicas must be >= 0'')
      else (case typed_client env i of
              Inl e \<Rightarrow> (w, Inl e)
            | Inr cs \<Rightarrow>
                (case wa_scale (an_api env) cs kind ns name (scale_patch replicas) w of
                   (w', Inl e) \<Rightarrow> (w', fail CodeInternal (''failed to scale '' @ kind @ '' '' @ go_quote name @ '': '' @ error_string e))
                 | (w', Inr _) \<Rightarrow> (w', Inr ()))))"

definition restart_patch :: "string \<Rightarrow> string" where
  "restart_patch now =
     json_field ''spec'' (json_field ''template'' (json_field ''metadata''
       (json_field ''annotations'' (json_field ''kubectl.kubernetes.io/restartedAt'' (go_quote now)))))"

definition restart_failed :: "string \<Rightarrow> string \<Rightarrow> 'w \<times> unit res \<Rightarrow> 'w \<times> unit res" where
  "restart_failed kind name r =
     (case r of
        (w', Inl e) \<Rightarrow> (w', fail CodeInternal (''failed to restart '' @ kind @ '' '' @ go_quote name @ '': '' @ error_string e))
      | (w', Inr _) \<Rightarrow> (w', Inr ()))"

definition managed :: "owner_ref list \<Rightarrow> bool" where
  "managed refs \<longleftrightarrow> list_ex (\<lambda>r. or_controller r = Some True) refs"

definition restart :: "('cfg, 'dyn, 'cs, 'tpl, 'w) action_env \<Rightarrow> nat \<Rightarrow> string \<Rightarrow> string \<Rightarrow> string \<Rightarrow> 'w \<Rightarrow> 'w \<times> unit res" where
  "restart env i kind ns name w =
     (if kind \<notin> restartable_kinds then
        (w, fail CodeParamInvalid (''resource type '' @ go_quote kind @ '' does not support restart; supported: deployments, statefulsets, daemonsets''))
      else (case typed_client env i of
              Inl e \<Rightarrow> (w, Inl e)
            | Inr cs \<Rightarrow>
                if kind = ''pods'' then
                  (case wa_get_pod (an_api env) cs ns name w of
                     Inl e \<Rightarrow> (w, fail CodeNotFound (''pod '' @ go_quote name @ '' not found in namespace '' @ go_quote ns @ '': '' @ error_string e))
                   | Inr refs \<Rightarrow>
                       if \<not> managed refs
                       then (w, fail CodeParamInvalid (''pod '' @ go_quote name @ '' has no controller; restarting would permanently delete it''))
                       else restart_failed kind name (wa_delete_pod (an_api env) cs ns name w))
                else restart_failed kind name (wa_patch (an_api env) cs kind ns name (restart_patch (an_now env)) w)))"

section \<open>Revisions of a deployment\<close>

record rollout_revision =
  rr_revision :: int
  rr_change_cause :: string

definition revision_key :: string where "revision_key = ''deployment.kubernetes.io/revision''"

definition owned_by_deployment :: "'tpl replica_set \<Rightarrow> deployment \<Rightarrow> bool" where
  "owned_by_deployment rs d \<longleftrightarrow> list_ex (\<lambda>r. or_kind r = ''Deployment'' \<and> or_uid r = dp_uid d) (rs_owners rs)"

definition annotation :: "(string, string) gomap \<Rightarrow> string \<Rightarrow> string" where
  "annotation m k = (case gm_get m k of Some v \<Rightarrow> v | None \<Rightarrow> [])"

text \<open>The deployment and the replica sets of its namespace, which both operations read.\<close>

definition load_rollout ::
  "('cfg, 'dyn, 'cs, 'tpl, 'w) action_env \<Rightarrow> 'cs \<Rightarrow> string \<Rightarrow> string \<Rightarrow> 'w \<Rightarrow> (deployment \<times> 'tpl replica_set list) res" where
  "load_rollout env cs ns name w =
     (case wa_get_deployment (an_api env) cs ns name w of
        Inl e \<Rightarrow> fail CodeNotFound (''deployment '' @ go_quote name @ '' not found in namespace '' @ go_quote ns @ '': '' @ error_string e)
      | Inr d \<Rightarrow>
          (case wa_list_replica_sets (an_api env) cs ns w of
             Inl e \<Rightarrow> fail CodeInternal (''failed to list ReplicaSets: '' @ error_string e)
           | Inr rss \<Rightarrow> Inr (d, rss)))"

definition revision_of :: "deployment \<Rightarrow> 'tpl replica_set \<Rightarrow> rollout_revision option" where
  "revision_of d rs =
     (if \<not> owned_by_deployment rs d then None
      else (case gm_get (rs_annotations rs) revision_key of
              None \<Rightarrow> None
            | Some s \<Rightarrow>
                (case parse_int 64 s of
                   (_, False) \<Rightarrow> None
                 | (n, True) \<Rightarrow>
                     Some \<lparr>rr_revision = n, rr_change_cause = annotation (rs_annotations rs) ''kubernetes.io/change-cause''\<rparr>)))"

text \<open>\<open>sort.Slice\<close> leaves the order of equal revisions open; here they keep the order of the listing.\<close>

definition rollout_history ::
  "('cfg, 'dyn, 'cs, 'tpl, 'w) action_env \<Rightarrow> nat \<Rightarrow> string \<Rightarrow> string \<Rightarrow> 'w \<Rightarrow> rollout_revision list res" where
  "rollout_history env i ns name w =
     (case typed_client env i of
        Inl e \<Rightarrow> Inl e
      | Inr cs \<Rightarrow>
          (case load_rollout env cs ns name w of
             Inl e \<Rightarrow> Inl e
           | Inr (d, rss) \<Rightarrow> Inr (sort_key rr_revision (List.map_filter (revision_of d) rss))))"

definition target_revision :: "deployment \<Rightarrow> int \<Rightarrow> int" where
  "target_revision d requested =
     (if requested = 0 then int64 (parse_int_or (annotation (dp_annotations d) revision_key) - 1) else requested)"

definition is_target :: "deployment \<Rightarrow> int \<Rightarrow> 'tpl replica_set \<Rightarrow> bool" where
  "is_target d target rs \<longleftrightarrow>
     owned_by_deployment rs d \<and> parse_int_or (annotation (rs_annotations rs) revision_key) = target"

definition rollback_patch :: "string \<Rightarrow> string" where
  "rollback_patch template = json_field ''spec'' (json_field ''template'' template)"

definition rollback ::
  "('cfg, 'dyn, 'cs, 'tpl, 'w) action_env \<Rightarrow> nat \<Rightarrow> string \<Rightarrow> string \<Rightarrow> int \<Rightarrow> 'w \<Rightarrow> 'w \<times> unit res" where
  "rollback env i ns name requested w =
     (case typed_client env i of
        Inl e \<Rightarrow> (w, Inl e)
      | Inr cs \<Rightarrow>
          (case load_rollout env cs ns name w of
             Inl e \<Rightarrow> (w, Inl e)
           | Inr (d, rss) \<Rightarrow>
               let target = target_revision d requested in
               if target \<le> 0 then (w, fail CodeParamInvalid ''no previous revision is available to roll back to'')
               else (case find (is_target d target) rss of
                       None \<Rightarrow> (w, fail CodeNotFound (''revision '' @ dec_int target @ '' not found in rollout history''))
                     | Some rs \<Rightarrow>
                         (case wa_template_json (an_api env) (rs_template rs) of
                            None \<Rightarrow> (w, fail CodeInternal ''failed to build rollback patch'')
                          | Some tpl \<Rightarrow>
                              (case wa_patch (an_api env) cs ''deployments'' ns name (rollback_patch tpl) w of
                                 (w', Inl e) \<Rightarrow> (w', fail CodeInternal (''failed to apply rollback patch: '' @ error_string e))
                               | (w', Inr _) \<Rightarrow> (w', Inr ()))))))"

section \<open>Properties\<close>

lemma restart_failed_sel:
  "fst (restart_failed kind name r) = fst r" "snd (restart_failed kind name r) = Inr () \<longleftrightarrow> isOk (snd r)"
  by (auto simp: restart_failed_def split: prod.splits sum.splits)

lemma restart_pods:
  assumes "typed_client env i = Inr cs"
  shows "restart env i ''pods'' ns name w =
    (case wa_get_pod (an_api env) cs ns name w of
       Inl e \<Rightarrow> (w, fail CodeNotFound (''pod '' @ go_quote name @ '' not found in namespace '' @ go_quote ns @ '': '' @ error_string e))
     | Inr refs \<Rightarrow>
         if managed refs then restart_failed ''pods'' name (wa_delete_pod (an_api env) cs ns name w)
         else (w, fail CodeParamInvalid (''pod '' @ go_quote name @ '' has no controller; restarting would permanently delete it'')))"
  using assms by (simp add: restart_def restartable_kinds_def split: sum.split)

lemma restart_template:
  assumes "typed_client env i = Inr cs" "kind \<in> restartable_kinds" "kind \<noteq> ''pods''"
  shows "restart env i kind ns name w =
    restart_failed kind name (wa_patch (an_api env) cs kind ns name (restart_patch (an_now env)) w)"
  using assms by (simp add: restart_def)

text \<open>
  C21. A restart that changes the cluster either deletes the named pod, which then had a controller that
  recreates it, or patches the restart annotation of the template of the named deployment, stateful set
  or daemon set; it does nothing else.
\<close>

theorem restart_deletes_only_managed_pods:
  assumes "fst (restart env i kind ns name w) \<noteq> w"
  shows "\<exists>cs. typed_client env i = Inr cs \<and>
    (if kind = ''pods'' then
       (\<exists>refs r. wa_get_pod (an_api env) cs ns name w = Inr refs \<and> r \<in> set refs \<and> or_controller r = Some True \<and>
          fst (restart env i kind ns name w) = fst (wa_delete_pod (an_api env) cs ns name w))
     else kind \<in> {''deployments'', ''statefulsets'', ''daemonsets''} \<and>
       fst (restart env i kind ns name w) = fst (wa_patch (an_api env) cs kind ns name (restart_patch (an_now env)) w))"
proof -
  from assms have k: "kind \<in> restartable_kinds" by (auto simp: restart_def split: if_splits)
  with assms obtain cs where cs: "typed_client env i = Inr cs" by (auto simp: restart_def split: sum.splits)
  show ?thesis
  proof (cases "kind = ''pods''")
    case True
    with assms cs obtain refs where "wa_get_pod (an_api env) cs ns name w = Inr refs" "managed refs"
      by (auto simp: restart_pods split: sum.splits if_splits)
    with True cs show ?thesis by (auto simp: restart_pods restart_failed_sel managed_def list_ex_iff)
  next
    case False
    with k cs show ?thesis by (auto simp: restart_template restart_failed_sel restartable_kinds_def)
  qed
qed

lemma load_rollout_Inr:
  "load_rollout env cs ns name w = Inr (d, rss) \<longleftrightarrow>
   wa_get_deployment (an_api env) cs ns name w = Inr d \<and> wa_list_replica_sets (an_api env) cs ns w = Inr rss"
  by (auto simp: load_rollout_def split: sum.splits)

lemma rollout_history_Inr:
  assumes "rollout_history env i ns name w = Inr h"
  obtains cs d rss where "typed_client env i = Inr cs" "load_rollout env cs ns name w = Inr (d, rss)"
    "h = sort_key rr_revision (List.map_filter (revision_of d) rss)"
  using assms by (auto simp: rollout_history_def split: sum.splits)

lemma set_map_filter: "set (List.map_filter f xs) = {y. \<exists>x \<in> set xs. f x = Some y}"
  by (induction xs) (auto simp: map_filter_simps split: option.splits)

lemma revision_is_target: "revision_of d rs = Some r \<Longrightarrow> is_target d (rr_revision r) rs"
  by (auto simp: revision_of_def is_target_def annotation_def split: if_splits option.splits prod.splits bool.splits)

lemma rollback_found:
  assumes "typed_client env i = Inr cs" "load_rollout env cs ns name w = Inr (d, rss)"
    "0 < target_revision d n" "rs \<in> set rss" "is_target d (target_revision d n) rs"
  shows "\<exists>rs' \<in> set rss. is_target d (target_revision d n) rs' \<and> rollback env i ns name n w =
    (case wa_template_json (an_api env) (rs_template rs') of
       None \<Rightarrow> (w, fail CodeInternal ''failed to build rollback patch'')
     | Some tpl \<Rightarrow>
         (case wa_patch (an_api env) cs ''deployments'' ns name (rollback_patch tpl) w of
            (w', Inl e) \<Rightarrow> (w', fail CodeInternal (''failed to apply rollback patch: '' @ error_string e))
          | (w', Inr _) \<Rightarrow> (w', Inr ())))"
proof (cases "find (is_target d (target_revision d n)) rss")
  case None
  with assms(4,5) show ?thesis by (auto simp: find_None_iff)
next
  case (Some rs')
  then have "rs' \<in> set rss" "is_target d (target_revision d n) rs'" by (auto simp: find_Some_iff)
  moreover have "rollback env i ns name n w =
    (case wa_template_json (an_api env) (rs_template rs') of
       None \<Rightarrow> (w, fail CodeInternal ''failed to build rollback patch'')
     | Some tpl \<Rightarrow>
         (case wa_patch (an_api env) cs ''deployments'' ns name (rollback_patch tpl) w of
            (w', Inl e) \<Rightarrow> (w', fail CodeInternal (''failed to apply rollback patch: '' @ error_string e))
          | (w', Inr _) \<Rightarrow> (w', Inr ())))"
    using assms(1-3) Some by (simp add: rollback_def Let_def)
  ultimately show ?thesis by blast
qed

text \<open>
  The rollout history is sorted by revision, has one entry for each replica set the deployment owns with
  a readable revision, and a rollback to a positive revision of it is applied: it patches the template
  of an owned replica set of that revision into the deployment.
\<close>

theorem listed_revision_is_restored:
  assumes "rollout_history env i ns name w = Inr h"
  shows "sorted (map rr_revision h) \<and>
    (\<forall>r \<in> set h. 0 < rr_revision r \<longrightarrow>
       (\<exists>cs d rss rs. typed_client env i = Inr cs \<and> load_rollout env cs ns name w = Inr (d, rss) \<and> rs \<in> set rss \<and>
          owned_by_deployment rs d \<and> parse_int_or (annotation (rs_annotations rs) revision_key) = rr_revision r \<and>
          rollback env i ns name (rr_revision r) w =
            (case wa_template_json (an_api env) (rs_template rs) of
               None \<Rightarrow> (w, fail CodeInternal ''failed to build rollback patch'')
             | Some tpl \<Rightarrow>
                 (case wa_patch (an_api env) cs ''deployments'' ns name (rollback_patch tpl) w of
                    (w', Inl e) \<Rightarrow> (w', fail CodeInternal (''failed to apply rollback patch: '' @ error_string e))
                  | (w', Inr _) \<Rightarrow> (w', Inr ())))))"
proof -
  from assms obtain cs d rss where c: "typed_client env i = Inr cs" "load_rollout env cs ns name w = Inr (d, rss)"
    and h: "h = sort_key rr_revision (List.map_filter (revision_of d) rss)" by (rule rollout_history_Inr)
  {
    fix r assume r: "r \<in> set h" "0 < rr_revision r"
    then obtain rs where rs: "rs \<in> set rss" "revision_of d rs = Some r" by (auto simp: h set_map_filter)
    from r(2) have t: "target_revision d (rr_revision r) = rr_revision r" by (simp add: target_revision_def)
    from rollback_found [OF c, of "rr_revision r" rs] rs revision_is_target [OF rs(2)] r(2) c
    have "\<exists>cs d rss rs. typed_client env i = Inr cs \<and> load_rollout env cs ns name w = Inr (d, rss) \<and> rs \<in> set rss \<and>
          owned_by_deployment rs d \<and> parse_int_or (annotation (rs_annotations rs) revision_key) = rr_revision r \<and>
          rollback env i ns name (rr_revision r) w =
            (case wa_template_json (an_api env) (rs_template rs) of
               None \<Rightarrow> (w, fail CodeInternal ''failed to build rollback patch'')
             | Some tpl \<Rightarrow>
                 (case wa_patch (an_api env) cs ''deployments'' ns name (rollback_patch tpl) w of
                    (w', Inl e) \<Rightarrow> (w', fail CodeInternal (''failed to apply rollback patch: '' @ error_string e))
                  | (w', Inr _) \<Rightarrow> (w', Inr ())))"
      unfolding t is_target_def by blast
  }
  then show ?thesis by (simp add: h)
qed

section \<open>Examples\<close>

definition demo_set :: "string \<Rightarrow> string \<Rightarrow> string \<Rightarrow> string replica_set" where
  "demo_set uid n tpl = \<lparr>rs_owners = [\<lparr>or_kind = ''Deployment'', or_uid = uid, or_controller = Some True\<rparr>],
     rs_annotations = [(revision_key, n)], rs_template = tpl\<rparr>"

text \<open>The state of this cluster is the list of requests it has received.\<close>

definition demo_workloads :: "(string, string, string, string list) workload_api" where
  "demo_workloads = \<lparr>wa_client = Inr,
     wa_scale = (\<lambda>cs kind ns name body w. (w @ [body], Inr ())),
     wa_patch = (\<lambda>cs kind ns name body w. (w @ [body], Inr ())),
     wa_get_pod = (\<lambda>cs ns name w. Inr (if name = ''web-1''
        then [\<lparr>or_kind = ''ReplicaSet'', or_uid = ''u'', or_controller = Some True\<rparr>] else [])),
     wa_delete_pod = (\<lambda>cs ns name w. (w @ [''delete ''@ name], Inr ())),
     wa_get_deployment = (\<lambda>cs ns name w. Inr \<lparr>dp_uid = ''d'', dp_annotations = [(revision_key, ''3'')]\<rparr>),
     wa_list_replica_sets = (\<lambda>cs ns w. Inr [demo_set ''d'' ''3'' ''T3'', demo_set ''x'' ''2'' ''X2'', demo_set ''d'' ''2'' ''T2'', demo_set ''d'' ''one'' ''T1'']),
     wa_template_json = Some\<rparr>"

definition demo_actions :: "(string, string, string, string, string list) action_env" where
  "demo_actions = \<lparr>an_api = demo_workloads, an_faults = no_faults, an_now = ''2025-01-01T00:00:00Z'', an_state = demo_clusters\<rparr>"

lemma demo_restarts:
  "restart demo_actions 1 ''pods'' ''default'' ''web-1'' [] = ([''delete web-1''], Inr ())"
  "fst (restart demo_actions 1 ''pods'' ''default'' ''single'' []) = []"
  by code_simp+

lemma demo_history:
  "rollout_history demo_actions 1 ''default'' ''web'' [] =
     Inr [\<lparr>rr_revision = 2, rr_change_cause = []\<rparr>, \<lparr>rr_revision = 3, rr_change_cause = []\<rparr>]"
  "rollback demo_actions 1 ''default'' ''web'' 0 [] = ([rollback_patch ''T2''], Inr ())"
  by code_simp+

theorem restart_deletes_only_managed_pods_witness:
  "\<exists>cs refs r. wa_get_pod demo_workloads cs ''default'' ''web-1'' [] = Inr refs \<and> r \<in> set refs \<and> or_controller r = Some True"
proof -
  have "fst (restart demo_actions 1 ''pods'' ''default'' ''web-1'' []) \<noteq> []" by (simp only: demo_restarts(1)) simp
  from restart_deletes_only_managed_pods [OF this] show ?thesis unfolding demo_actions_def by auto
qed

theorem listed_revision_is_restored_witness:
  "\<exists>h. rollout_history demo_actions 1 ''default'' ''web'' [] = Inr h \<and> sorted (map rr_revision h) \<and> length h = 2"
  using listed_revision_is_restored [OF demo_history(1)] demo_history(1) by simp

end
