(* ===== verification/Kube_Handlers.thy ===== *)
theory Kube_Handlers
  imports Kube_Actions
begin

text \<open>
  The HTTP handlers over resources (\<open>handler/resource_handler.go\<close>) and over workload actions
  (\<open>handler/resource_action_handler.go\<close>). A request is the record of what the handlers read of it; the
  binding of the query and of a JSON body into a structure belongs to gin, so its outcome is part of
  the record (\<open>None\<close> when it failed).
\<close>

record resource_request =
  hr_cluster :: string
  hr_kind :: string
  hr_name :: string
  hr_namespace :: string
  hr_metrics :: string
  hr_options :: "list_options option"
  hr_body :: "string option"
  hr_id :: "string option"

definition max_body_bytes :: nat where "max_body_bytes = 2 * 1024 * 1024"

text \<open>The body up to the limit: what is beyond it is cut off without an error.\<close>

definition read_body :: "resource_request \<Rightarrow> string option" where
  "read_body rq = map_option (take max_body_bytes) (hr_body rq)"

definition parse_cluster_id :: "resource_request \<Rightarrow> nat option" where
  "parse_cluster_id rq = parse_uint (hr_cluster rq)"

text \<open>
  The checks of the path parameters at the start of a handler; the name is checked where there is one.
  The result is the id of the cluster, or the error response.
\<close>

definition path_params :: "bool \<Rightarrow> resource_request \<Rightarrow> 'a response + nat" where
  "path_params named rq =
     (case parse_cluster_id rq of
        None \<Rightarrow> Inl (resp_error (hr_id rq) CodeParamInvalid ''invalid clusterID'')
      | Some i \<Rightarrow>
          if hr_kind rq = [] then Inl (resp_error (hr_id rq) CodeParamMissing ''resource type is required'')
          else if named \<and> hr_name rq = [] then Inl (resp_error (hr_id rq) CodeParamMissing ''resource name is required'')
          else Inr i)"

definition path_and_body :: "bool \<Rightarrow> resource_request \<Rightarrow> 'a response + (nat \<times> string)" where
  "path_and_body named rq =
     (case path_params named rq of
        Inl r \<Rightarrow> Inl r
      | Inr i \<Rightarrow>
          (case read_body rq of
             None \<Rightarrow> Inl (resp_error (hr_id rq) CodeParamInvalid ''failed to read request body'')
           | Some b \<Rightarrow>
               if b = [] then Inl (resp_error (hr_id rq) CodeParamMissing ''request body is required'') else Inr (i, b)))"

definition answer :: "string option \<Rightarrow> 'a res \<Rightarrow> 'a response" where
  "answer rid r = (case r of Inl e \<Rightarrow> respond_error rid e | Inr x \<Rightarrow> resp_success x)"

definition wants_metrics :: "resource_request \<Rightarrow> bool" where
  "wants_metrics rq \<longleftrightarrow> hr_kind rq = ''pods'' \<and> hr_metrics rq = ''true''"

definition handle_list ::
  "quantity_lib option \<Rightarrow> ('cfg, 'dyn, 'w) resource_env \<Rightarrow> resource_request \<Rightarrow> 'w \<Rightarrow> k8s_obj list response" where
  "handle_list q env rq w =
     (case path_params False rq of
        Inl r \<Rightarrow> r
      | Inr i \<Rightarrow>
          (case hr_options rq of
             None \<Rightarrow> resp_error (hr_id rq) CodeParamInvalid ''invalid query parameters''
           | Some opts \<Rightarrow>
               (case svc_list_resources env i (hr_kind rq) (hr_namespace rq) opts w of
                  Inl e \<Rightarrow> respond_error (hr_id rq) e
                | Inr l \<Rightarrow>
                    resp_success_with_meta
                      (if wants_metrics rq then attach_pod_metrics q env i (hr_namespace rq) w (rl_items l) else rl_items l)
                      \<lparr>meta_source = [], meta_stale = rl_stale l, meta_total = rl_total l, meta_request_id = []\<rparr>)))"

definition handle_get ::
  "quantity_lib option \<Rightarrow> ('cfg, 'dyn, 'w) resource_env \<Rightarrow> resource_request \<Rightarrow> 'w \<Rightarrow> k8s_obj response" where
  "handle_get q env rq w =
     (case path_params True rq of
        Inl r \<Rightarrow> r
      | Inr i \<Rightarrow>
          (case svc_get_resource env i (hr_kind rq) (hr_namespace rq) (hr_name rq) w of
             Inl e \<Rightarrow> respond_error (hr_id rq) e
           | Inr r \<Rightarrow>
               resp_success (if wants_metrics rq then hd (attach_pod_metrics q env i (hr_namespace rq) w [r]) else r)))"

definition handle_create :: "('cfg, 'dyn, 'w) resource_env \<Rightarrow> resource_request \<Rightarrow> 'w \<Rightarrow> 'w \<times> k8s_obj response" where
  "handle_create env rq w =
     (case path_and_body False rq of
        Inl r \<Rightarrow> (w, r)
      | Inr (i, body) \<Rightarrow> map_prod id (answer (hr_id rq)) (svc_create_resource env i (hr_kind rq) (hr_namespace rq) body w))"

definition handle_update :: "('cfg, 'dyn, 'w) resource_env \<Rightarrow> resource_request \<Rightarrow> 'w \<Rightarrow> 'w \<times> k8s_obj response" where
  "handle_update env rq w =
     (case path_and_body True rq of
        Inl r \<Rightarrow> (w, r)
      | Inr (i, body) \<Rightarrow>
          map_prod id (answer (hr_id rq)) (svc_update_resource env i (hr_kind rq) (hr_namespace rq) (hr_name rq) body w))"

definition handle_delete :: "('cfg, 'dyn, 'w) resource_env \<Rightarrow> resource_request \<Rightarrow> 'w \<Rightarrow> 'w \<times> unit response" where
  "handle_delete env rq w =
     (case path_params True rq of
        Inl r \<Rightarrow> (w, r)
      | Inr i \<Rightarrow>
          map_prod id (answer (hr_id rq)) (svc_delete_resource env i (hr_kind rq) (hr_namespace rq) (hr_name rq) w))"

definition handle_patch :: "('cfg, 'dyn, 'w) resource_env \<Rightarrow> resource_request \<Rightarrow> 'w \<Rightarrow> 'w \<times> k8s_obj response" where
  "handle_patch env rq w =
     (case path_and_body True rq of
        Inl r \<Rightarrow> (w, r)
      | Inr (i, body) \<Rightarrow>
          map_prod id (answer (hr_id rq)) (svc_patch_resource env i (hr_kind rq) (hr_namespace rq) (hr_name rq) body w))"

definition handle_dry_run_create :: "('cfg, 'dyn, 'w) resource_env \<Rightarrow> resource_request \<Rightarrow> 'w \<Rightarrow> 'w \<times> dry_run_result response" where
  "handle_dry_run_create env rq w =
     (case path_and_body False rq of
        Inl r \<Rightarrow> (w, r)
      | Inr (i, body) \<Rightarrow> map_prod id (answer (hr_id rq)) (svc_dry_run_create env i (hr_kind rq) (hr_namespace rq) body w))"

definition handle_dry_run_update :: "('cfg, 'dyn, 'w) resource_env \<Rightarrow> resource_request \<Rightarrow> 'w \<Rightarrow> 'w \<times> dry_run_result response" where
  "handle_dry_run_update env rq w =
     (case path_and_body True rq of
        Inl r \<Rightarrow> (w, r)
      | Inr (i, body) \<Rightarrow>
          map_prod id (answer (hr_id rq)) (svc_dry_run_update env i (hr_kind rq) (hr_namespace rq) (hr_name rq) body w))"

section \<open>Batches\<close>

record batch_item =
  bi_kind :: string
  bi_name :: string
  bi_namespace :: string

record batch_result =
  br_item :: batch_item
  br_success :: bool
  br_error :: string

definition max_batch :: nat where "max_batch = 50"

definition item_result :: "batch_item \<Rightarrow> unit res \<Rightarrow> batch_result" where
  "item_result it r = \<lparr>br_item = it, br_success = isOk r, br_error = (case r of Inl e \<Rightarrow> error_string e | Inr _ \<Rightarrow> [])\<rparr>"

text \<open>One item after another; a failed one does not stop the batch.\<close>

fun run_batch :: "(batch_item \<Rightarrow> 'w \<Rightarrow> 'w \<times> unit res) \<Rightarrow> batch_item list \<Rightarrow> 'w \<Rightarrow> 'w \<times> batch_result list" where
  "run_batch f [] w = (w, [])"
| "run_batch f (it # its) w =
     (let (w1, r) = f it w; (w2, rs) = run_batch f its w1 in (w2, item_result it r # rs))"

definition checked_items :: "string option \<Rightarrow> batch_item list option \<Rightarrow> 'a response + batch_item list" where
  "checked_items rid items =
     (case items of
        None \<Rightarrow> Inl (resp_error rid CodeParamInvalid ''invalid request body'')
      | Some its \<Rightarrow>
          if its = [] then Inl (resp_error rid CodeParamMissing ''at least one item is required'')
          else if max_batch < length its then Inl (resp_error rid CodeParamInvalid ''maximum 50 items per batch'')
          else Inr its)"

definition handle_batch_delete ::
  "('cfg, 'dyn, 'w) resource_env \<Rightarrow> resource_request \<Rightarrow> batch_item list option \<Rightarrow> 'w \<Rightarrow> 'w \<times> batch_result list response" where
  "handle_batch_delete env rq items w =
     (case parse_cluster_id rq of
        None \<Rightarrow> (w, resp_error (hr_id rq) CodeParamInvalid ''invalid clusterID'')
      | Some i \<Rightarrow>
          (case checked_items (hr_id rq) items of
             Inl r \<Rightarrow> (w, r)
           | Inr its \<Rightarrow>
               map_prod id resp_success
                 (run_batch (\<lambda>it. svc_delete_resource env i (bi_kind it) (bi_namespace it) (bi_name it)) its w)))"

definition handle_batch_restart ::
  "('cfg, 'dyn, 'cs, 'tpl, 'w) action_env option \<Rightarrow> resource_request \<Rightarrow> batch_item list option \<Rightarrow> 'w \<Rightarrow>
     'w \<times> batch_result list response" where
  "handle_batch_restart actions rq items w =
     (case actions of
        None \<Rightarrow> (w, resp_error (hr_id rq) CodeInternal ''restart service not available'')
      | Some env \<Rightarrow>
          (case parse_cluster_id rq of
             None \<Rightarrow> (w, resp_error (hr_id rq) CodeParamInvalid ''invalid clusterID'')
           | Some i \<Rightarrow>
               (case checked_items (hr_id rq) items of
                  Inl r \<Rightarrow> (w, r)
                | Inr its \<Rightarrow>
                    map_prod id resp_success
                      (run_batch (\<lambda>it. restart env i (bi_kind it) (bi_namespace it) (bi_name it)) its w))))"

section \<open>Workload actions\<close>

definition action_params :: "resource_request \<Rightarrow> bool \<Rightarrow> string \<Rightarrow> 'a response + nat" where
  "action_params rq missing msg =
     (case parse_cluster_id rq of
        None \<Rightarrow> Inl (resp_error (hr_id rq) CodeParamInvalid ''invalid cluster id'')
      | Some i \<Rightarrow> if missing then Inl (resp_error (hr_id rq) CodeParamMissing msg) else Inr i)"

definition no_target :: "resource_request \<Rightarrow> bool" where
  "no_target rq \<longleftrightarrow> hr_kind rq = [] \<or> hr_namespace rq = [] \<or> hr_name rq = []"

definition handle_scale ::
  "('cfg, 'dyn, 'cs, 'tpl, 'w) action_env \<Rightarrow> resource_request \<Rightarrow> int option \<Rightarrow> 'w \<Rightarrow> 'w \<times> unit response" where
  "handle_scale env rq replicas w =
     (case action_params rq (no_target rq) ''kind, namespace, and name are required'' of
        Inl r \<Rightarrow> (w, r)
      | Inr i \<Rightarrow>
          (case replicas of
             None \<Rightarrow> (w, resp_error (hr_id rq) CodeParamInvalid ''invalid request body: replicas field is required'')
           | Some n \<Rightarrow>
               map_prod id (answer (hr_id rq)) (scale env i (hr_kind rq) (hr_namespace rq) (hr_name rq) n w)))"

definition handle_restart :: "('cfg, 'dyn, 'cs, 'tpl, 'w) action_env \<Rightarrow> resource_request \<Rightarrow> 'w \<Rightarrow> 'w \<times> unit response" where
  "handle_restart env rq w =
     (case action_params rq (no_target rq) ''kind, namespace, and name are required'' of
        Inl r \<Rightarrow> (w, r)
      | Inr i \<Rightarrow> map_prod id (answer (hr_id rq)) (restart env i (hr_kind rq) (hr_namespace rq) (hr_name rq) w))"

definition handle_rollout_history ::
  "('cfg, 'dyn, 'cs, 'tpl, 'w) action_env \<Rightarrow> resource_request \<Rightarrow> 'w \<Rightarrow> rollout_revision list response" where
  "handle_rollout_history env rq w =
     (case action_params rq (hr_namespace rq = [] \<or> hr_name rq = []) ''namespace and name are required'' of
        Inl r \<Rightarrow> r
      | Inr i \<Rightarrow> answer (hr_id rq) (rollout_history env i (hr_namespace rq) (hr_name rq) w))"

text \<open>The body of a rollback is optional: one that cannot be read counts as revision 0.\<close>

definition handle_rollback ::
  "('cfg, 'dyn, 'cs, 'tpl, 'w) action_env \<Rightarrow> resource_request \<Rightarrow> int option \<Rightarrow> 'w \<Rightarrow> 'w \<times> unit response" where
  "handle_rollback env rq revision w =
     (case action_params rq (hr_namespace rq = [] \<or> hr_name rq = []) ''namespace and name are required'' of
        Inl r \<Rightarrow> (w, r)
      | Inr i \<Rightarrow>
          map_prod id (answer (hr_id rq))
            (rollback env i (hr_namespace rq) (hr_name rq) (case revision of Some n \<Rightarrow> n | None \<Rightarrow> 0) w))"

section \<open>Properties\<close>

lemma code_distinct: "distinct [CodeSuccess, CodeParamMissing, CodeParamInvalid, CodeNotFound, CodeInternal, CodeForbidden]"
  by (simp add: code_defs)

lemma answer_code:
  "resp_code (answer rid (Inr x)) = CodeSuccess"
  "resp_code (answer rid (fail c m)) = c"
  by (simp_all add: answer_def resp_success_def respond_error_def biz_new_def resp_error_with_biz_def)

lemma resp_error_code [simp]: "resp_code (resp_error rid c m) = c"
  by (simp add: resp_error_def)

lemma resource_target_Inl: "resource_target env i kind = Inl e \<Longrightarrow> \<exists>c m. e = biz_new c m \<and> c \<in> {CodeNotFound, CodeParamInvalid}"
  by (auto simp: resource_target_def split: sum.splits option.splits)

lemma json_body_Inl: "json_body env what b = Inl e \<Longrightarrow> \<exists>m. e = biz_new CodeParamInvalid m"
  by (auto simp: json_body_def split: option.splits)

text \<open>A service operation that changed the cluster has succeeded or failed at the API server.\<close>

definition touched_late :: "'w \<Rightarrow> 'w \<times> 'a res \<Rightarrow> bool" where
  "touched_late w r \<longleftrightarrow> fst r = w \<or> isOk (snd r) \<or> (\<exists>m. snd r = fail CodeInternal m)"

lemma svc_touched:
  "touched_late w (svc_create_resource env i kind ns body w)"
  "touched_late w (svc_update_resource env i kind ns name body w)"
  "touched_late w (svc_patch_resource env i kind ns name body w)"
  "touched_late w (svc_delete_resource env i kind ns name w)"
  by (auto simp: touched_late_def svc_create_resource_def svc_update_resource_def svc_patch_resource_def
      svc_delete_resource_def split: sum.splits prod.splits)

lemma touched_code:
  assumes "touched_late w r" "fst r \<noteq> w"
  shows "resp_code (answer rid (snd r)) \<in> {CodeSuccess, CodeInternal}"
  using assms by (auto simp: touched_late_def isOk_iff answer_code)

definition touched_response :: "'w \<Rightarrow> 'w \<times> 'a response \<Rightarrow> bool" where
  "touched_response w r \<longleftrightarrow> fst r = w \<or> resp_code (snd r) \<in> {CodeSuccess, CodeInternal}"

lemma answered_touched: "touched_late w r \<Longrightarrow> touched_response w (map_prod id (answer rid) r)"
  using touched_code [of w r rid] by (cases r) (auto simp: touched_response_def)

lemma guarded_touched:
  assumes "\<And>x. touched_response w (g x)"
  shows "touched_response w (case p of Inl e \<Rightarrow> (w, e) | Inr x \<Rightarrow> g x)"
  using assms by (cases p) (simp_all add: touched_response_def)

lemma handlers_touched:
  "touched_response w (handle_create env rq w)" "touched_response w (handle_update env rq w)"
  "touched_response w (handle_patch env rq w)" "touched_response w (handle_delete env rq w)"
  unfolding handle_create_def handle_update_def handle_patch_def handle_delete_def
  by (rule guarded_touched, auto intro: answered_touched svc_touched)+


text \<open>What the API server documents of a dry run: it persists nothing.\<close>

definition dry_runs_persist_nothing :: "('dyn, 'w) kube_api \<Rightarrow> bool" where
  "dry_runs_persist_nothing api \<longleftrightarrow>
     (\<forall>d g ns obj w. fst (ka_create api d g ns True obj w) = w \<and> fst (ka_update api d g ns True obj w) = w)"

lemma written_fst: "fst (written api m r) = fst r"
  by (simp add: written_def split: prod.splits sum.splits)

lemma repo_dry_run_fst:
  assumes "dry_runs_persist_nothing api"
  shows "fst (repo_dry_run_create api reg conns cl kind ns obj w) = w"
    and "fst (repo_dry_run_update api reg conns cl kind ns name obj w) = w"
proof -
  have c: "fst (ka_create api d g n True x w) = w" "fst (ka_update api d g n True x w) = w" for d g n x
    using assms by (simp_all add: dry_runs_persist_nothing_def)
  show "fst (repo_dry_run_create api reg conns cl kind ns obj w) = w"
    by (simp add: repo_dry_run_create_def written_fst c split: sum.split prod.split)
  show "fst (repo_dry_run_update api reg conns cl kind ns name obj w) = w"
    using c(2) by (auto simp: repo_dry_run_update_def split: sum.splits prod.splits) (metis fst_conv)+
qed

definition dry_run_consistent :: "dry_run_result \<Rightarrow> bool" where
  "dry_run_consistent r \<longleftrightarrow> (dr_valid r \<longleftrightarrow> dr_proposed r \<noteq> None) \<and> (dr_valid r \<longleftrightarrow> dr_errors r = [])"

definition previews :: "'w \<Rightarrow> 'w \<times> dry_run_result res \<Rightarrow> bool" where
  "previews w r \<longleftrightarrow> fst r = w \<and> (\<forall>x. snd r = Inr x \<longrightarrow> dry_run_consistent x)"

lemma previews_split:
  "previews w (case x of Inl e \<Rightarrow> (w, Inl e) | Inr y \<Rightarrow> f y) \<longleftrightarrow> (\<forall>y. x = Inr y \<longrightarrow> previews w (f y))"
  by (cases x) (simp_all add: previews_def)

lemma svc_dry_run_previews:
  assumes "dry_runs_persist_nothing (re_api env)"
  shows "previews w (svc_dry_run_create env i kind ns body w)"
    and "previews w (svc_dry_run_update env i kind ns name body w)"
proof -
  have "previews w (case r of (w', Inl e) \<Rightarrow> (w', Inr (rejected e)) | (w', Inr (x :: k8s_obj)) \<Rightarrow>
      (w', Inr \<lparr>dr_current = None, dr_proposed = Some x, dr_valid = True, dr_errors = []\<rparr>))" if "fst r = w" for r
    using that by (auto simp: previews_def dry_run_consistent_def rejected_def split: prod.split sum.split)
  then show "previews w (svc_dry_run_create env i kind ns body w)"
    unfolding svc_dry_run_create_def previews_split using repo_dry_run_fst(1) [OF assms] by blast
  have "previews w (case r of (w', Inl e) \<Rightarrow> (w', Inr (rejected e)) | (w', Inr (c, x)) \<Rightarrow>
      (w', Inr \<lparr>dr_current = Some c, dr_proposed = Some x, dr_valid = True, dr_errors = []\<rparr>))" if "fst r = w" for r
    using that by (auto simp: previews_def dry_run_consistent_def rejected_def split: prod.split sum.split)
  then show "previews w (svc_dry_run_update env i kind ns name body w)"
    unfolding svc_dry_run_update_def previews_split using repo_dry_run_fst(2) [OF assms] by blast
qed

lemma refused_no_data: "path_and_body b rq = Inl r \<Longrightarrow> resp_data r = None"
  by (auto simp: path_and_body_def path_params_def resp_error_def split: sum.splits option.splits if_splits)

lemma answer_data: "resp_data (answer rid r) = Some x \<longleftrightarrow> r = Inr x"
  by (auto simp: answer_def respond_error_def resp_error_def resp_error_with_biz_def resp_success_def split: sum.splits go_error.splits)

definition preview_response :: "'w \<Rightarrow> 'w \<times> dry_run_result response \<Rightarrow> bool" where
  "preview_response w r \<longleftrightarrow> fst r = w \<and> (\<forall>x. resp_data (snd r) = Some x \<longrightarrow> dry_run_consistent x)"

lemma answered_preview: "previews w r \<Longrightarrow> preview_response w (map_prod id (answer rid) r)"
  by (cases r) (auto simp: previews_def preview_response_def answer_data)

lemma guarded_preview:
  assumes "\<And>x. preview_response w (g x)" and "\<And>e. p = Inl e \<Longrightarrow> resp_data e = None"
  shows "preview_response w (case p of Inl e \<Rightarrow> (w, e) | Inr x \<Rightarrow> g x)"
  using assms by (cases p) (simp_all add: preview_response_def)

lemma dry_run_handlers:
  assumes "dry_runs_persist_nothing (re_api env)"
  shows "preview_response w (handle_dry_run_create env rq w)" "preview_response w (handle_dry_run_update env rq w)"
  unfolding handle_dry_run_create_def handle_dry_run_update_def
  by (rule guarded_preview, auto intro: answered_preview svc_dry_run_previews [OF assms] dest: refused_no_data)+

text \<open>
  A dry run leaves the cluster as it is, and a change the API server would refuse is a successful
  response that says so: the proposal is present exactly when the result is valid, and an invalid result
  carries the reason.
\<close>

theorem dry_run_previews_only:
  assumes "dry_runs_persist_nothing (re_api env)"
  shows "fst (handle_dry_run_create env rq w) = w \<and> fst (handle_dry_run_update env rq w) = w \<and>
    (\<forall>r. resp_data (snd (handle_dry_run_create env rq w)) = Some r \<or> resp_data (snd (handle_dry_run_update env rq w)) = Some r \<longrightarrow>
       (dr_valid r \<longleftrightarrow> dr_proposed r \<noteq> None) \<and> (dr_valid r \<longleftrightarrow> dr_errors r = []))"
  using dry_run_handlers [OF assms, of w rq] unfolding preview_response_def dry_run_consistent_def by blast

section \<open>Batches and single requests\<close>

definition single_request :: "resource_request \<Rightarrow> batch_item \<Rightarrow> resource_request" where
  "single_request rq it = rq\<lparr>hr_kind := bi_kind it, hr_name := bi_name it, hr_namespace := bi_namespace it\<rparr>"

lemma run_batch_world: "fst (run_batch f its w) = fold (\<lambda>it w. fst (f it w)) its w"
  by (induction its arbitrary: w) (simp_all add: case_prod_unfold Let_def)

lemma run_batch_length [simp]: "length (snd (run_batch f its w)) = length its"
  by (induction its arbitrary: w) (simp_all add: case_prod_unfold Let_def)

lemma run_batch_nth:
  "k < length its \<Longrightarrow>
   snd (run_batch f its w) ! k = item_result (its ! k) (snd (f (its ! k) (fold (\<lambda>it w. fst (f it w)) (take k its) w)))"
proof (induction its arbitrary: k w)
  case (Cons it its)
  then show ?case by (cases k) (simp_all add: case_prod_unfold Let_def)
qed simp

lemma handle_delete_single:
  assumes "parse_cluster_id rq = Some i" "bi_kind it \<noteq> []" "bi_name it \<noteq> []"
  shows "handle_delete env (single_request rq it) w =
    map_prod id (answer (hr_id rq)) (svc_delete_resource env i (bi_kind it) (bi_namespace it) (bi_name it) w)"
  using assms by (simp add: handle_delete_def path_params_def parse_cluster_id_def single_request_def)

lemma delete_success_code:
  "resp_code (answer rid (snd (svc_delete_resource env i kind ns name w))) = CodeSuccess \<longleftrightarrow>
   isOk (snd (svc_delete_resource env i kind ns name w))"
  by (auto simp: svc_delete_resource_def resource_target_def answer_code code_defs split: sum.splits option.splits prod.splits)

text \<open>
  A batch deletion does what the same deletions do as single requests, one after another: the cluster
  ends the same, and an item is reported as a success exactly when its single request, made
  at that point, answers with success. A failed item does not stop the others.
\<close>

theorem batch_delete_is_single_deletes:
  assumes "parse_cluster_id rq = Some i" and "its \<noteq> []" and "length its \<le> max_batch"
    and "\<forall>it \<in> set its. bi_kind it \<noteq> [] \<and> bi_name it \<noteq> []"
  shows "\<exists>rs. resp_data (snd (handle_batch_delete env rq (Some its) w)) = Some rs \<and> map br_item rs = its \<and>
    fst (handle_batch_delete env rq (Some its) w) = fold (\<lambda>it w. fst (handle_delete env (single_request rq it) w)) its w \<and>
    (\<forall>k < length its. br_success (rs ! k) \<longleftrightarrow>
       resp_code (snd (handle_delete env (single_request rq (its ! k))
         (fold (\<lambda>it w. fst (handle_delete env (single_request rq it) w)) (take k its) w))) = CodeSuccess)"
proof -
  let ?f = "\<lambda>it. svc_delete_resource env i (bi_kind it) (bi_namespace it) (bi_name it)"
  let ?g = "\<lambda>it w. fst (handle_delete env (single_request rq it) w)"
  let ?rs = "snd (run_batch ?f its w)"
  have h: "handle_batch_delete env rq (Some its) w = map_prod id resp_success (run_batch ?f its w)"
    using assms(1-3) by (simp add: handle_batch_delete_def checked_items_def)
  have same: "it \<in> set its \<Longrightarrow> ?g it v = fst (?f it v)" for it v
    using assms(4) by (simp add: handle_delete_single [OF assms(1)])
  have folds: "set xs \<subseteq> set its \<Longrightarrow> fold ?g xs v = fold (\<lambda>it w. fst (?f it w)) xs v" for xs v
    by (intro fold_cong) (auto simp: same)
  have item: "br_item (item_result it r) = it" "br_success (item_result it r) \<longleftrightarrow> isOk r" for it r
    by (simp_all add: item_result_def)
  have "map br_item ?rs = its" by (rule nth_equalityI) (simp_all add: run_batch_nth item)
  moreover have "br_success (?rs ! k) \<longleftrightarrow> resp_code (snd (handle_delete env (single_request rq (its ! k)) (fold ?g (take k its) w))) = CodeSuccess"
    if "k < length its" for k
  proof -
    have "its ! k \<in> set its" using that by simp
    with assms(4) have "bi_kind (its ! k) \<noteq> []" "bi_name (its ! k) \<noteq> []" by auto
    then show ?thesis using folds [of "take k its" w] set_take_subset [of k its] that
      by (simp add: run_batch_nth item handle_delete_single [OF assms(1)] delete_success_code)
  qed
  ultimately show ?thesis using folds [of its w] by (simp add: h run_batch_world resp_success_def)
qed

text \<open>Listing a cached kind ignores selectors and limit, and a listing never hands out the token that continues it.\<close>

lemma cached_list_ignores_options:
  assumes "reg_get (re_registry env) kind = Some meta" "rm_cached meta"
  shows "svc_list_resources env i kind ns opts w = svc_list_resources env i kind ns opts' w"
proof -
  have "repo_list (re_api env) (re_registry env) now (re_state env) cl kind ns opts w = repo_list (re_api env) (re_registry env) now (re_state env) cl kind ns opts' w"
    for now cl using assms by (simp add: repo_list_def)
  then show ?thesis unfolding svc_list_resources_def by presburger
qed

text \<open>A scale request whose body has no replicas field binds to zero: the workload is scaled to nothing.\<close>

lemma scale_without_field_scales_to_zero:
  assumes "parse_cluster_id rq = Some i" "hr_kind rq = ''deployments''" "hr_namespace rq \<noteq> []" "hr_name rq \<noteq> []"
    and "typed_client env i = Inr cs"
  shows "fst (handle_scale env rq (Some 0) w) =
    fst (wa_scale (an_api env) cs ''deployments'' (hr_namespace rq) (hr_name rq) (scale_patch 0) w)"
  using assms by (simp add: handle_scale_def action_params_def no_target_def scale_def scalable_kinds_def split: prod.split sum.split)

section \<open>Examples\<close>

text \<open>An API server whose state is the list of the object names; a dry run answers with the object it was given.\<close>

definition demo_api :: "(string, string list) kube_api" where
  "demo_api = \<lparr>ka_list = (\<lambda>d g ns opts w. Inr (map (\<lambda>n. [(''name'', JStr n)]) w, [])),
     ka_get = (\<lambda>d g ns n w. if n \<in> set w then Inr [(''name'', JStr n)] else failing ''not found''),
     ka_create = (\<lambda>d g ns dry obj w. (if dry then w else str_or_empty (gm_get obj ''name'') # w, Inr obj)),
     ka_update = (\<lambda>d g ns dry obj w. (w, Inr obj)),
     ka_delete = (\<lambda>d g ns n w. if n \<in> set w then (removeAll n w, Inr ()) else (w, failing ''not found'')),
     ka_patch = (\<lambda>d g ns n body w. (w, Inr [])),
     ka_lister = (\<lambda>w rt g ns. Inr []), ka_getter = (\<lambda>w rt g ns n. Inl ''none''),
     ka_api_version = (\<lambda>u. ''v1''), ka_kind = (\<lambda>u. ''ConfigMap''), ka_name = (\<lambda>u. str_or_empty (gm_get u ''name'')),
     ka_namespace = (\<lambda>u. []), ka_set_name = (\<lambda>n u. gm_put ''name'' (JStr n) u)\<rparr>"

definition demo_resources :: "(string, string, string list) resource_env" where
  "demo_resources = \<lparr>re_api = demo_api, re_registry = new_registry, re_float = (\<lambda>_. None), re_faults = no_faults, re_now = 0,
     re_state = demo_clusters\<rparr>"

definition demo_request :: resource_request where
  "demo_request = \<lparr>hr_cluster = ''1'', hr_kind = ''configmaps'', hr_name = ''a'', hr_namespace = [], hr_metrics = [],
     hr_options = None, hr_body = Some (json_field ''name'' (go_quote ''c'')), hr_id = None\<rparr>"

definition demo_items :: "batch_item list" where
  "demo_items = [\<lparr>bi_kind = ''configmaps'', bi_name = ''x'', bi_namespace = []\<rparr>,
     \<lparr>bi_kind = ''configmaps'', bi_name = ''a'', bi_namespace = []\<rparr>]"

lemma demo_cluster_id: "parse_cluster_id demo_request = Some 1"
  by (simp add: parse_cluster_id_def parse_uint_def demo_request_def)

lemma demo_deletes:
  "fst (svc_delete_resource demo_resources 1 ''configmaps'' [] ''x'' [''a'', ''b'']) = [''a'', ''b'']"
  "\<not> isOk (snd (svc_delete_resource demo_resources 1 ''configmaps'' [] ''x'' [''a'', ''b'']))"
  "svc_delete_resource demo_resources 1 ''configmaps'' [] ''a'' [''a'', ''b''] = ([''b''], Inr ())"
  by code_simp+

lemma demo_batch:
  "fst (handle_batch_delete demo_resources demo_request (Some demo_items) [''a'', ''b'']) = [''b'']"
  using demo_deletes
  by (simp add: handle_batch_delete_def demo_cluster_id checked_items_def demo_items_def max_batch_def
      case_prod_unfold Let_def One_nat_def [symmetric] del: One_nat_def)

theorem batch_delete_is_single_deletes_witness:
  "fold (\<lambda>it w. fst (handle_delete demo_resources (single_request demo_request it) w)) demo_items [''a'', ''b''] = [''b'']"
proof -
  have "parse_cluster_id demo_request = Some 1" by (rule demo_cluster_id)
  moreover have "demo_items \<noteq> []" "length demo_items \<le> max_batch" "\<forall>it \<in> set demo_items. bi_kind it \<noteq> [] \<and> bi_name it \<noteq> []"
    by (simp_all add: demo_items_def max_batch_def)
  ultimately show ?thesis
    using batch_delete_is_single_deletes [of demo_request 1 demo_items demo_resources "[''a'', ''b'']"] demo_batch by auto
qed

theorem dry_run_previews_only_witness:
  "dry_runs_persist_nothing (re_api demo_resources) \<and> fst (handle_dry_run_create demo_resources demo_request [''a'']) = [''a'']"
proof -
  have "dry_runs_persist_nothing (re_api demo_resources)"
    by (simp add: dry_runs_persist_nothing_def demo_resources_def demo_api_def)
  with dry_run_previews_only [of demo_resources demo_request "[''a'']"] show ?thesis by blast
qed

end
