(* ===== verification/Watch_Hub.thy ===== *)
theory Watch_Hub
  imports Informers "HOL-Library.Sublist"
begin

text \<open>
  The WebSocket hub (\<open>handler/ws/hub.go\<close>): the loop that owns the set of clients, the bounded channels
  between it and the connections, the read and write pump of each connection. A goroutine
  is a family of steps of \<open>hub_step\<close>; each arm of the loop's select is one step, so that every order
  of them is a run. Go panics when a closed channel is closed again or sent to: \<open>hb_panic\<close> records
  that this happened. The fields \<open>wc_taken\<close>, \<open>wc_written\<close>, \<open>wc_since\<close> and \<open>hb_done\<close> keep what has
  been received, written and broadcast; no step reads them.
\<close>

definition send_buffer_size :: nat where "send_buffer_size = 256"
definition broadcast_size :: nat where "broadcast_size = 1024"

section \<open>Origins\<close>

definition parse_allowed_origins :: "string \<Rightarrow> string set" where
  "parse_allowed_origins raw = set (filter (\<lambda>e. e \<noteq> []) (map trim_space (split_on CHR '','' raw)))"

text \<open>\<open>url.Parse\<close> is a parameter: it gives the host with its port, and the host name alone.\<close>

definition check_origin :: "(string \<Rightarrow> (string \<times> string) option) \<Rightarrow> bool \<Rightarrow> string set \<Rightarrow> string \<Rightarrow> string \<Rightarrow> bool" where
  "check_origin parse release allowed origin host =
     (if origin = [] then True
      else (case parse origin of
              None \<Rightarrow> False
            | Some (ohost, hostname) \<Rightarrow>
                if ohost = host then True
                else if ohost \<in> allowed then True
                else if \<not> release then hostname = ''localhost'' \<or> hostname = ''127.0.0.1'' \<or> hostname = ''::1''
                else False))"

section \<open>State\<close>

record ws_client =
  wc_send :: "string list"
  wc_closed :: bool
  wc_topics :: "string set"
  wc_conn :: bool
  wc_reader :: bool
  wc_leaving :: bool
  wc_writer :: bool
  wc_taken :: "string list"
  wc_written :: "string list"
  wc_since :: nat

record hub =
  hb_clients :: "nat list"
  hb_chan :: "string list"
  hb_stop :: bool
  hb_running :: bool
  hb_peer :: "nat \<Rightarrow> ws_client"
  hb_next :: nat
  hb_panic :: bool
  hb_done :: "string list"

definition new_client :: "nat \<Rightarrow> ws_client" where
  "new_client since = \<lparr>wc_send = [], wc_closed = False, wc_topics = {}, wc_conn = True, wc_reader = True, wc_leaving = False,
     wc_writer = True, wc_taken = [], wc_written = [], wc_since = since\<rparr>"

definition new_hub :: hub where
  "new_hub = \<lparr>hb_clients = [], hb_chan = [], hb_stop = False, hb_running = True, hb_peer = (\<lambda>_. new_client 0), hb_next = 0,
     hb_panic = False, hb_done = []\<rparr>"

definition upd_peer :: "nat \<Rightarrow> (ws_client \<Rightarrow> ws_client) \<Rightarrow> hub \<Rightarrow> hub" where
  "upd_peer i f h = h\<lparr>hb_peer := (hb_peer h)(i := f (hb_peer h i))\<rparr>"

section \<open>Operations\<close>

definition close_send :: "nat \<Rightarrow> hub \<Rightarrow> hub" where
  "close_send i h =
     (if wc_closed (hb_peer h i) then h\<lparr>hb_panic := True\<rparr> else upd_peer i (\<lambda>c. c\<lparr>wc_closed := True\<rparr>) h)"

definition delete_client :: "nat \<Rightarrow> hub \<Rightarrow> hub" where
  "delete_client i h = h\<lparr>hb_clients := filter (\<lambda>j. j \<noteq> i) (hb_clients h)\<rparr>"

text \<open>The non-blocking send of the loop: a client whose buffer is full is disconnected.\<close>

definition send_to :: "string \<Rightarrow> nat \<Rightarrow> hub \<Rightarrow> hub" where
  "send_to m i h =
     (if wc_closed (hb_peer h i) then h\<lparr>hb_panic := True\<rparr>
      else if length (wc_send (hb_peer h i)) < send_buffer_size then upd_peer i (\<lambda>c. c\<lparr>wc_send := wc_send c @ [m]\<rparr>) h
      else delete_client i (close_send i h))"

definition loop_register :: "hub \<Rightarrow> hub" where
  "loop_register h = h\<lparr>hb_clients := hb_clients h @ [hb_next h],
     hb_peer := (hb_peer h)(hb_next h := new_client (length (hb_done h))), hb_next := Suc (hb_next h)\<rparr>"

definition loop_unregister :: "nat \<Rightarrow> hub \<Rightarrow> hub" where
  "loop_unregister i h = (if i \<in> set (hb_clients h) then close_send i (delete_client i h) else h)"

definition loop_broadcast :: "string \<Rightarrow> hub \<Rightarrow> hub" where
  "loop_broadcast m h = (fold (send_to m) (hb_clients h) h)\<lparr>hb_done := hb_done h @ [m]\<rparr>"

definition loop_shutdown :: "hub \<Rightarrow> hub" where
  "loop_shutdown h =
     (fold (\<lambda>i h. upd_peer i (\<lambda>c. c\<lparr>wc_conn := False\<rparr>) (close_send i (delete_client i h))) (hb_clients h) h)\<lparr>hb_running := False\<rparr>"

text \<open>\<open>OnResourceEvent\<close>: \<open>None\<close> when the event cannot be serialised; a full channel drops the event.\<close>

definition on_resource_event :: "(resource_event \<Rightarrow> string option) \<Rightarrow> resource_event \<Rightarrow> hub \<Rightarrow> hub" where
  "on_resource_event marshal e h =
     (case marshal e of
        None \<Rightarrow> h
      | Some m \<Rightarrow> if length (hb_chan h) < broadcast_size then h\<lparr>hb_chan := hb_chan h @ [m]\<rparr> else h)"

datatype subscribe_message = Subscribe "string list" | Unsubscribe "string list" | OtherAction

definition apply_subscription :: "subscribe_message \<Rightarrow> string set \<Rightarrow> string set" where
  "apply_subscription msg ts =
     (case msg of Subscribe xs \<Rightarrow> ts \<union> set xs | Unsubscribe xs \<Rightarrow> ts - set xs | OtherAction \<Rightarrow> ts)"

text \<open>\<open>quick\<close> is the partial decoding of a message into the cluster id and the resource.\<close>

definition is_subscribed :: "(string \<Rightarrow> (string \<times> string) option) \<Rightarrow> string set \<Rightarrow> string \<Rightarrow> bool" where
  "is_subscribed quick topics m =
     (if topics = {} then True
      else (case quick m of None \<Rightarrow> True | Some (cl, rsrc) \<Rightarrow> cl @ '':'' @ rsrc \<in> topics))"

definition take_message :: "(string \<Rightarrow> (string \<times> string) option) \<Rightarrow> ws_client \<Rightarrow> ws_client" where
  "take_message quick c =
     (case wc_send c of
        [] \<Rightarrow> c
      | m # ms \<Rightarrow> c\<lparr>wc_send := ms, wc_taken := wc_taken c @ [m],
          wc_written := (if is_subscribed quick (wc_topics c) m then wc_written c @ [m] else wc_written c)\<rparr>)"

text \<open>
  The steps. Registration and unregistration are rendezvous with the loop, which must be running; after
  \<open>Stop\<close> a pump may leave without the loop. The reader ends on any read error, the writer on a write
  error, or when its channel is closed and empty; both close the connection.
\<close>

inductive hub_step :: "(resource_event \<Rightarrow> string option) \<Rightarrow> (string \<Rightarrow> (string \<times> string) option) \<Rightarrow> hub \<Rightarrow> hub \<Rightarrow> bool"
  for marshal quick where
  connect: "hb_running h \<Longrightarrow> hub_step marshal quick h (loop_register h)"
| event: "hub_step marshal quick h (on_resource_event marshal e h)"
| stop: "hub_step marshal quick h (h\<lparr>hb_stop := True\<rparr>)"
| shutdown: "hb_running h \<Longrightarrow> hb_stop h \<Longrightarrow> hub_step marshal quick h (loop_shutdown h)"
| broadcast: "hb_running h \<Longrightarrow> hb_chan h = m # ms \<Longrightarrow> hub_step marshal quick h (loop_broadcast m (h\<lparr>hb_chan := ms\<rparr>))"
| subscribe: "i < hb_next h \<Longrightarrow> wc_reader (hb_peer h i) \<Longrightarrow>
    hub_step marshal quick h (upd_peer i (\<lambda>c. c\<lparr>wc_topics := apply_subscription msg (wc_topics c)\<rparr>) h)"
| read_error: "i < hb_next h \<Longrightarrow> wc_reader (hb_peer h i) \<Longrightarrow>
    hub_step marshal quick h (upd_peer i (\<lambda>c. c\<lparr>wc_reader := False, wc_leaving := True\<rparr>) h)"
| unregister: "hb_running h \<Longrightarrow> i < hb_next h \<Longrightarrow> wc_leaving (hb_peer h i) \<Longrightarrow>
    hub_step marshal quick h (upd_peer i (\<lambda>c. c\<lparr>wc_leaving := False, wc_conn := False\<rparr>) (loop_unregister i h))"
| leave: "hb_stop h \<Longrightarrow> i < hb_next h \<Longrightarrow> wc_leaving (hb_peer h i) \<Longrightarrow>
    hub_step marshal quick h (upd_peer i (\<lambda>c. c\<lparr>wc_leaving := False, wc_conn := False\<rparr>) h)"
| take_one: "i < hb_next h \<Longrightarrow> wc_writer (hb_peer h i) \<Longrightarrow> hub_step marshal quick h (upd_peer i (take_message quick) h)"
| drained: "i < hb_next h \<Longrightarrow> wc_writer (hb_peer h i) \<Longrightarrow> wc_closed (hb_peer h i) \<Longrightarrow> wc_send (hb_peer h i) = [] \<Longrightarrow>
    hub_step marshal quick h (upd_peer i (\<lambda>c. c\<lparr>wc_writer := False, wc_conn := False\<rparr>) h)"
| write_error: "i < hb_next h \<Longrightarrow> wc_writer (hb_peer h i) \<Longrightarrow>
    hub_step marshal quick h (upd_peer i (\<lambda>c. c\<lparr>wc_writer := False, wc_conn := False\<rparr>) h)"

inductive hub_reachable :: "(resource_event \<Rightarrow> string option) \<Rightarrow> (string \<Rightarrow> (string \<times> string) option) \<Rightarrow> hub \<Rightarrow> bool"
  for marshal quick where
  start: "hub_reachable marshal quick new_hub"
| step: "hub_reachable marshal quick h \<Longrightarrow> hub_step marshal quick h h' \<Longrightarrow> hub_reachable marshal quick h'"

section \<open>The invariant\<close>

text \<open>
  A client in the map has an open channel and has received exactly what was broadcast since it
  registered; a client that was disconnected has received a prefix of that.
\<close>

definition client_ok :: "hub \<Rightarrow> nat \<Rightarrow> bool" where
  "client_ok h i \<longleftrightarrow>
     (let c = hb_peer h i; seen = wc_taken c @ wc_send c; all = drop (wc_since c) (hb_done h) in
      wc_since c \<le> length (hb_done h) \<and> length (wc_send c) \<le> send_buffer_size \<and> prefix seen all \<and>
      subseq (wc_written c) (wc_taken c) \<and> (i \<in> set (hb_clients h) \<longrightarrow> \<not> wc_closed c \<and> seen = all))"

definition hub_ok :: "hub \<Rightarrow> bool" where
  "hub_ok h \<longleftrightarrow> \<not> hb_panic h \<and> distinct (hb_clients h) \<and> (\<forall>i \<in> set (hb_clients h). i < hb_next h) \<and>
     length (hb_chan h) \<le> broadcast_size \<and> (\<not> hb_running h \<longrightarrow> hb_clients h = []) \<and> (\<forall>i < hb_next h. client_ok h i)"

lemma upd_peer_sel [simp]:
  "hb_peer (upd_peer i f h) = (hb_peer h)(i := f (hb_peer h i))" "hb_clients (upd_peer i f h) = hb_clients h"
  "hb_chan (upd_peer i f h) = hb_chan h" "hb_next (upd_peer i f h) = hb_next h" "hb_panic (upd_peer i f h) = hb_panic h"
  "hb_done (upd_peer i f h) = hb_done h" "hb_running (upd_peer i f h) = hb_running h" "hb_stop (upd_peer i f h) = hb_stop h"
  by (simp_all add: upd_peer_def)

lemma delete_client_sel [simp]:
  "hb_peer (delete_client i h) = hb_peer h" "hb_clients (delete_client i h) = filter (\<lambda>j. j \<noteq> i) (hb_clients h)"
  "hb_chan (delete_client i h) = hb_chan h" "hb_next (delete_client i h) = hb_next h" "hb_panic (delete_client i h) = hb_panic h"
  "hb_done (delete_client i h) = hb_done h" "hb_running (delete_client i h) = hb_running h"
  by (simp_all add: delete_client_def)

lemma close_send_open:
  "\<not> wc_closed (hb_peer h i) \<Longrightarrow> close_send i h = upd_peer i (\<lambda>c. c\<lparr>wc_closed := True\<rparr>) h"
  by (simp add: close_send_def)

lemma client_ok_cong:
  assumes "hb_peer h' i = hb_peer h i" "hb_done h' = hb_done h" "i \<in> set (hb_clients h') \<Longrightarrow> i \<in> set (hb_clients h)"
  shows "client_ok h i \<Longrightarrow> client_ok h' i"
  using assms by (auto simp: client_ok_def Let_def)

lemma hub_ok_quiet:
  assumes "hub_ok h"
    and f: "\<And>c. wc_since (f c) = wc_since c" "\<And>c. wc_taken (f c) @ wc_send (f c) = wc_taken c @ wc_send c"
      "\<And>c. length (wc_send (f c)) \<le> length (wc_send c)" "\<And>c. wc_closed (f c) = wc_closed c"
      "\<And>c. subseq (wc_written c) (wc_taken c) \<Longrightarrow> subseq (wc_written (f c)) (wc_taken (f c))"
  shows "hub_ok (upd_peer i f h)"
proof -
  have "client_ok (upd_peer i f h) j" if "client_ok h j" for j
    using that f(3) [of "hb_peer h i"] f(5) [of "hb_peer h i"]
    by (auto simp: client_ok_def Let_def f(1,2,4))
  with assms(1) show ?thesis by (simp add: hub_ok_def)
qed

lemma take_message_quiet:
  "wc_since (take_message quick c) = wc_since c"
  "wc_taken (take_message quick c) @ wc_send (take_message quick c) = wc_taken c @ wc_send c"
  "length (wc_send (take_message quick c)) \<le> length (wc_send c)"
  "wc_closed (take_message quick c) = wc_closed c"
  "subseq (wc_written c) (wc_taken c) \<Longrightarrow> subseq (wc_written (take_message quick c)) (wc_taken (take_message quick c))"
  by (auto simp: take_message_def intro: list_emb_prefix split: list.split)

lemma hub_ok_unregister:
  assumes "hub_ok h"
  shows "hub_ok (loop_unregister i h)"
proof (cases "i \<in> set (hb_clients h)")
  case True
  with assms have o: "\<not> wc_closed (hb_peer h i)" by (auto simp: hub_ok_def client_ok_def Let_def)
  have "client_ok (upd_peer i (\<lambda>c. c\<lparr>wc_closed := True\<rparr>) (delete_client i h)) j" if "client_ok h j" for j
    using that by (auto simp: client_ok_def Let_def)
  with assms o True show ?thesis by (auto simp: loop_unregister_def close_send_open hub_ok_def)
qed (use assms in \<open>simp add: loop_unregister_def\<close>)

lemma hub_ok_register:
  assumes "hub_ok h" "hb_running h"
  shows "hub_ok (loop_register h)"
proof -
  have "hb_next h \<notin> set (hb_clients h)" using assms by (auto simp: hub_ok_def)
  moreover have "client_ok (loop_register h) (hb_next h)"
    by (simp add: client_ok_def loop_register_def new_client_def send_buffer_size_def)
  moreover have "client_ok (loop_register h) j" if "j < hb_next h" for j
    using assms that client_ok_cong [of "loop_register h" j h] by (auto simp: hub_ok_def loop_register_def)
  ultimately show ?thesis using assms by (auto simp: hub_ok_def loop_register_def less_Suc_eq)
qed

text \<open>In the middle of a broadcast: the clients \<open>xs\<close> are still to be served.\<close>

definition serving :: "string \<Rightarrow> nat list \<Rightarrow> hub \<Rightarrow> nat \<Rightarrow> bool" where
  "serving m xs h i \<longleftrightarrow>
     (let c = hb_peer h i; seen = wc_taken c @ wc_send c; all = drop (wc_since c) (hb_done h) in
      wc_since c \<le> length (hb_done h) \<and> length (wc_send c) \<le> send_buffer_size \<and> prefix seen (all @ [m]) \<and>
      subseq (wc_written c) (wc_taken c) \<and>
      (i \<in> set (hb_clients h) \<longrightarrow> \<not> wc_closed c \<and> seen = (if i \<in> set xs then all else all @ [m])))"

definition mid_broadcast :: "string \<Rightarrow> nat list \<Rightarrow> hub \<Rightarrow> bool" where
  "mid_broadcast m xs h \<longleftrightarrow> \<not> hb_panic h \<and> distinct (hb_clients h) \<and> (\<forall>i \<in> set (hb_clients h). i < hb_next h) \<and>
     distinct xs \<and> set xs \<subseteq> set (hb_clients h) \<and> (\<forall>i < hb_next h. serving m xs h i)"

lemma send_to_frame:
  "hb_chan (send_to m i h) = hb_chan h \<and> hb_next (send_to m i h) = hb_next h \<and> hb_done (send_to m i h) = hb_done h \<and>
   hb_running (send_to m i h) = hb_running h"
  by (simp add: send_to_def close_send_def)

lemma send_to_mid:
  assumes "mid_broadcast m (x # xs) h"
  shows "mid_broadcast m xs (send_to m x h)"
proof -
  from assms have x: "x \<in> set (hb_clients h)" "x \<notin> set xs" "distinct xs" "set xs \<subseteq> set (hb_clients h)" "x < hb_next h"
    and cl: "distinct (hb_clients h)" "\<forall>i \<in> set (hb_clients h). i < hb_next h" "\<not> hb_panic h"
    and sv: "\<And>i. i < hb_next h \<Longrightarrow> serving m (x # xs) h i" by (auto simp: mid_broadcast_def)
  from sv [OF x(5)] x(1) have xo: "\<not> wc_closed (hb_peer h x)"
    "wc_taken (hb_peer h x) @ wc_send (hb_peer h x) = drop (wc_since (hb_peer h x)) (hb_done h)"
    by (auto simp: serving_def Let_def)
  have other: "serving m xs h' i" if "i < hb_next h" "i \<noteq> x" "hb_peer h' i = hb_peer h i" "hb_done h' = hb_done h"
    "i \<in> set (hb_clients h') \<longleftrightarrow> i \<in> set (hb_clients h)" for h' i
    using sv [OF that(1)] that(2-) by (simp add: serving_def Let_def)
  show ?thesis
  proof (cases "length (wc_send (hb_peer h x)) < send_buffer_size")
    case True
    let ?h = "upd_peer x (\<lambda>c. c\<lparr>wc_send := wc_send c @ [m]\<rparr>) h"
    from xo True have eq: "send_to m x h = ?h" by (simp add: send_to_def)
    have "serving m xs ?h x" using sv [OF x(5)] xo True x by (simp add: serving_def Let_def flip: append_assoc)
    then have "serving m xs ?h i" if "i < hb_next h" for i using other [of i ?h] that by (cases "i = x") auto
    with x cl show ?thesis by (auto simp: mid_broadcast_def eq)
  next
    case False
    let ?h = "delete_client x (upd_peer x (\<lambda>c. c\<lparr>wc_closed := True\<rparr>) h)"
    from xo False have eq: "send_to m x h = ?h" by (simp add: send_to_def close_send_open)
    have "serving m xs ?h x" using sv [OF x(5)] by (simp add: serving_def Let_def)
    then have "serving m xs ?h i" if "i < hb_next h" for i using other [of i ?h] that by (cases "i = x") auto
    with x cl show ?thesis by (auto simp: mid_broadcast_def eq)
  qed
qed

lemma fold_send_mid:
  "mid_broadcast m xs h \<Longrightarrow> mid_broadcast m [] (fold (send_to m) xs h) \<and> hb_chan (fold (send_to m) xs h) = hb_chan h \<and>
   hb_next (fold (send_to m) xs h) = hb_next h \<and> hb_done (fold (send_to m) xs h) = hb_done h \<and>
   hb_running (fold (send_to m) xs h) = hb_running h"
  by (induction xs arbitrary: h) (auto simp: send_to_frame dest: send_to_mid)

lemma hub_ok_broadcast:
  assumes "hub_ok h" "hb_running h" "hb_chan h = m # ms"
  shows "hub_ok (loop_broadcast m (h\<lparr>hb_chan := ms\<rparr>))"
proof -
  let ?h = "h\<lparr>hb_chan := ms\<rparr>"
  let ?g = "fold (send_to m) (hb_clients h) ?h"
  have "mid_broadcast m (hb_clients h) ?h"
    using assms(1) by (auto simp: hub_ok_def mid_broadcast_def serving_def client_ok_def Let_def)
  from fold_send_mid [OF this] have g: "mid_broadcast m [] ?g" "hb_chan ?g = ms" "hb_next ?g = hb_next h"
    "hb_done ?g = hb_done h" "hb_running ?g = hb_running h" by simp_all
  have "client_ok (?g\<lparr>hb_done := hb_done h @ [m]\<rparr>) i" if "i < hb_next h" for i
    using g(1) that by (auto simp: mid_broadcast_def serving_def client_ok_def Let_def g(3,4))
  with g assms show ?thesis by (auto simp: hub_ok_def loop_broadcast_def mid_broadcast_def)
qed

lemma loop_unregister_sel:
  "hb_clients (loop_unregister i h) = filter (\<lambda>j. j \<noteq> i) (hb_clients h)" "hb_next (loop_unregister i h) = hb_next h"
  "hb_running (loop_unregister i h) = hb_running h" "hb_chan (loop_unregister i h) = hb_chan h"
  by (auto simp: loop_unregister_def close_send_def intro!: filter_True [symmetric])

lemma fold_shutdown:
  assumes "hub_ok h" "distinct xs" "set xs \<subseteq> set (hb_clients h)"
  defines "g \<equiv> \<lambda>i h. upd_peer i (\<lambda>c. c\<lparr>wc_conn := False\<rparr>) (close_send i (delete_client i h))"
  shows "hub_ok (fold g xs h) \<and> hb_clients (fold g xs h) = filter (\<lambda>j. j \<notin> set xs) (hb_clients h) \<and>
    hb_next (fold g xs h) = hb_next h"
  using assms(1-3)
proof (induction xs arbitrary: h)
  case (Cons x xs)
  then have eq: "g x h = upd_peer x (\<lambda>c. c\<lparr>wc_conn := False\<rparr>) (loop_unregister x h)"
    by (simp add: g_def loop_unregister_def)
  have "hub_ok (g x h)" unfolding eq by (rule hub_ok_quiet [OF hub_ok_unregister [OF Cons.prems(1)]]) simp_all
  moreover have "hb_clients (g x h) = filter (\<lambda>j. j \<noteq> x) (hb_clients h)" "hb_next (g x h) = hb_next h"
    by (simp_all add: eq loop_unregister_sel)
  ultimately show ?case using Cons.IH [of "g x h"] Cons.prems(2,3) by (auto intro: filter_cong)
qed simp

lemma hub_ok_shutdown:
  assumes "hub_ok h"
  shows "hub_ok (loop_shutdown h) \<and> hb_clients (loop_shutdown h) = [] \<and> \<not> hb_running (loop_shutdown h)"
proof -
  let ?h = "fold (\<lambda>i h. upd_peer i (\<lambda>c. c\<lparr>wc_conn := False\<rparr>) (close_send i (delete_client i h))) (hb_clients h) h"
  from assms have "distinct (hb_clients h)" by (simp add: hub_ok_def)
  from fold_shutdown [OF assms this] have g: "hub_ok ?h" "hb_clients ?h = []" by auto
  have "client_ok (?h\<lparr>hb_running := False\<rparr>) i" if "client_ok ?h i" for i
    using that by (rule client_ok_cong [rotated 3]) simp_all
  with g show ?thesis by (simp add: loop_shutdown_def hub_ok_def)
qed

lemma hub_ok_same:
  "hub_ok h \<Longrightarrow> hub_ok (h\<lparr>hb_stop := b\<rparr>)"
  "hub_ok h \<Longrightarrow> hub_ok (on_resource_event marshal e h)"
proof -
  show "hub_ok h \<Longrightarrow> hub_ok (h\<lparr>hb_stop := b\<rparr>)"
    by (auto simp: hub_ok_def intro: client_ok_cong)
  have "client_ok (on_resource_event marshal e h) i" if "client_ok h i" for i
    using that by (rule client_ok_cong [rotated 3]) (auto simp: on_resource_event_def split: option.splits if_splits)
  then show "hub_ok h \<Longrightarrow> hub_ok (on_resource_event marshal e h)"
    by (auto simp: hub_ok_def on_resource_event_def split: option.splits)
qed

lemma hub_step_ok: "hub_step marshal quick h h' \<Longrightarrow> hub_ok h \<Longrightarrow> hub_ok h'"
proof (induction rule: hub_step.induct)
  case (unregister h i)
  then show ?case by (intro hub_ok_quiet hub_ok_unregister) simp_all
next
  case (take_one h i)
  then show ?case by (intro hub_ok_quiet take_message_quiet) simp_all
qed (auto intro: hub_ok_register hub_ok_same hub_ok_broadcast hub_ok_quiet simp: hub_ok_shutdown)

lemma new_hub_ok: "hub_ok new_hub"
  by (simp add: hub_ok_def new_hub_def)

lemma reachable_ok: "hub_reachable marshal quick h \<Longrightarrow> hub_ok h"
  by (induction rule: hub_reachable.induct) (auto intro: new_hub_ok hub_step_ok)

section \<open>Properties\<close>

text \<open>
  C23. However registrations, events, read and write errors, slow clients and the stop interleave, the hub
  never closes a channel twice nor sends to a closed one (which would crash the process), and its
  buffers stay within their sizes.
\<close>

theorem hub_never_panics:
  assumes "hub_reachable marshal quick h"
  shows "\<not> hb_panic h \<and> length (hb_chan h) \<le> broadcast_size \<and> (\<forall>i < hb_next h. length (wc_send (hb_peer h i)) \<le> send_buffer_size)"
  using reachable_ok [OF assms] by (auto simp: hub_ok_def client_ok_def Let_def)

text \<open>
  C24. No gaps and no reordering: a connected client has received, or has waiting in its buffer, exactly the
  messages broadcast since it registered, and one that was disconnected a prefix of them; what
  it was written is a subsequence of what it received.
\<close>

theorem clients_receive_in_order:
  assumes "hub_reachable marshal quick h" and "i < hb_next h"
  shows "\<exists>all. all = drop (wc_since (hb_peer h i)) (hb_done h) \<and>
    prefix (wc_taken (hb_peer h i) @ wc_send (hb_peer h i)) all \<and>
    subseq (wc_written (hb_peer h i)) all \<and>
    (i \<in> set (hb_clients h) \<longrightarrow> wc_taken (hb_peer h i) @ wc_send (hb_peer h i) = all)"
proof -
  let ?c = "hb_peer h i"
  from reachable_ok [OF assms(1)] assms(2) have c: "client_ok h i" by (simp add: hub_ok_def)
  then have p: "prefix (wc_taken ?c @ wc_send ?c) (drop (wc_since ?c) (hb_done h))" and "subseq (wc_written ?c) (wc_taken ?c)"
    by (simp_all add: client_ok_def Let_def)
  then have "subseq (wc_written ?c) (wc_taken ?c @ wc_send ?c)" by (blast intro: list_emb_prefix)
  moreover from p have "subseq (wc_taken ?c @ wc_send ?c) (drop (wc_since ?c) (hb_done h))" by (auto simp: prefix_def intro: list_emb_prefix)
  ultimately have "subseq (wc_written ?c) (drop (wc_since ?c) (hb_done h))" by (rule subseq_order.trans)
  with c p show ?thesis by (auto simp: client_ok_def Let_def)
qed

text \<open>
  Once the loop has taken the stop, no client is left, and nothing registers again.
\<close>

lemma stopped_hub_is_empty: "hub_reachable marshal quick h \<Longrightarrow> \<not> hb_running h \<Longrightarrow> hb_clients h = []"
  using reachable_ok by (auto simp: hub_ok_def)

text \<open>A client that takes back its last topic is subscribed to everything again.\<close>

lemma unsubscribing_all_receives_all:
  "is_subscribed quick (apply_subscription (Unsubscribe [t]) (apply_subscription (Subscribe [t]) {})) m"
  by (simp add: is_subscribed_def apply_subscription_def)

section \<open>Examples\<close>

definition demo_event :: resource_event where
  "demo_event = \<lparr>re_type = ''ADDED'', re_cluster = ''prod'', re_resource = ''pods'', re_namespace = ''default'', re_name = ''web'', re_object = []\<rparr>"

definition demo_hub :: hub where
  "demo_hub = upd_peer 0 (take_message (\<lambda>_. None))
     (loop_broadcast ''web'' ((on_resource_event (\<lambda>e. Some (re_name e)) demo_event (loop_register new_hub))\<lparr>hb_chan := []\<rparr>))"

lemma demo_hub_reachable: "hub_reachable (\<lambda>e. Some (re_name e)) (\<lambda>_. None) demo_hub"
proof -
  let ?m = "\<lambda>e. Some (re_name e)" and ?q = "\<lambda>_ :: string. None :: (string \<times> string) option"
  let ?h1 = "loop_register new_hub"
  let ?h2 = "on_resource_event ?m demo_event ?h1"
  let ?h3 = "loop_broadcast ''web'' (?h2\<lparr>hb_chan := []\<rparr>)"
  have r1: "hub_reachable ?m ?q ?h1"
    by (rule hub_reachable.step [OF hub_reachable.start hub_step.connect]) (simp add: new_hub_def)
  have r2: "hub_reachable ?m ?q ?h2" by (rule hub_reachable.step [OF r1 hub_step.event])
  have r3: "hub_reachable ?m ?q ?h3"
    by (rule hub_reachable.step [OF r2 hub_step.broadcast])
      (simp_all add: new_hub_def loop_register_def on_resource_event_def broadcast_size_def demo_event_def)
  have "hub_step ?m ?q ?h3 (upd_peer 0 (take_message ?q) ?h3)"
    by (rule hub_step.take_one)
      (simp_all add: new_hub_def loop_register_def on_resource_event_def loop_broadcast_def send_to_def new_client_def
        send_buffer_size_def demo_event_def broadcast_size_def)
  from hub_reachable.step [OF r3 this] show ?thesis by (simp add: demo_hub_def)
qed

lemma demo_hub_state:
  "hb_next demo_hub = 1" "wc_written (hb_peer demo_hub 0) = [''web'']" "hb_done demo_hub = [''web'']"
  by (simp_all add: demo_hub_def new_hub_def loop_register_def on_resource_event_def loop_broadcast_def send_to_def
      new_client_def send_buffer_size_def demo_event_def broadcast_size_def take_message_def is_subscribed_def)

theorem hub_never_panics_witness: "\<not> hb_panic demo_hub"
  using hub_never_panics [OF demo_hub_reachable] by blast

theorem clients_receive_in_order_witness: "subseq [''web''] (drop (wc_since (hb_peer demo_hub 0)) [''web''])"
  using clients_receive_in_order [OF demo_hub_reachable, of 0] by (auto simp: demo_hub_state)

end
