(* ===== verification/Image_Registry.thy ===== *)
theory Image_Registry
  imports Biz_Errors Go_Sort
begin

text \<open>
  Image references and tag discovery: the parser that normalises an OCI image reference
  (\<open>internal/registry/reference.go\<close>) and the service with its bounded cache of tag pages
  (\<open>internal/registry/service.go\<close>). The three regular expressions are predicates on strings; the client that
  asks a registry for tags is a parameter.
\<close>

section \<open>References\<close>

record reference =
  rf_registry :: string
  rf_repository :: string
  rf_tag :: string
  rf_digest :: string

abbreviation invalid_image :: "string \<Rightarrow> 'a res" where "invalid_image m \<equiv> Inl (OtherErr m False)"

definition in_range :: "char \<Rightarrow> char \<Rightarrow> char \<Rightarrow> bool" where
  "in_range a b c \<longleftrightarrow> (of_char a :: nat) \<le> of_char c \<and> (of_char c :: nat) \<le> of_char b"

definition lower_alnum :: "char \<Rightarrow> bool" where
  "lower_alnum c \<longleftrightarrow> in_range CHR ''a'' CHR ''z'' c \<or> in_range CHR ''0'' CHR ''9'' c"

definition letter :: "char \<Rightarrow> bool" where
  "letter c \<longleftrightarrow> in_range CHR ''a'' CHR ''z'' c \<or> in_range CHR ''A'' CHR ''Z'' c"

definition word_char :: "char \<Rightarrow> bool" where
  "word_char c \<longleftrightarrow> letter c \<or> in_range CHR ''0'' CHR ''9'' c \<or> c = CHR ''_''"

text \<open>Runs of lower-case letters and digits with single separators between them; the flag says whether a run is open.\<close>

fun name_runs :: "bool \<Rightarrow> string \<Rightarrow> bool" where
  "name_runs r [] = r"
| "name_runs r (c # s) =
     (if lower_alnum c then name_runs True s
      else if c = CHR ''.'' \<or> c = CHR ''_'' \<or> c = CHR ''-'' then r \<and> name_runs False s
      else False)"

definition name_part :: "string \<Rightarrow> bool" where "name_part s \<longleftrightarrow> name_runs False s"

definition tag_pattern :: "string \<Rightarrow> bool" where
  "tag_pattern s \<longleftrightarrow>
     (case s of
        [] \<Rightarrow> False
      | c # r \<Rightarrow> word_char c \<and> length r \<le> 127 \<and> list_all (\<lambda>d. word_char d \<or> d = CHR ''.'' \<or> d = CHR ''-'') r)"

definition hex_char :: "char \<Rightarrow> bool" where
  "hex_char c \<longleftrightarrow> in_range CHR ''A'' CHR ''F'' c \<or> in_range CHR ''a'' CHR ''f'' c \<or> in_range CHR ''0'' CHR ''9'' c"

definition digest_pattern :: "string \<Rightarrow> bool" where
  "digest_pattern s \<longleftrightarrow>
     (case cut CHR '':'' s of
        Some (c # alg, hex) \<Rightarrow>
          letter c \<and> list_all (\<lambda>d. word_char d \<or> d = CHR ''+'' \<or> d = CHR ''.'' \<or> d = CHR ''-'') alg \<and>
          32 \<le> length hex \<and> list_all hex_char hex
      | _ \<Rightarrow> False)"

definition forbidden_char :: "char \<Rightarrow> bool" where
  "forbidden_char c \<longleftrightarrow> c \<in> {CHR '' '', CHR 0x09, CHR 0x0D, CHR 0x0A, CHR ''?'', CHR ''#''}"

definition is_registry_component :: "string \<Rightarrow> bool" where
  "is_registry_component v \<longleftrightarrow> v = ''localhost'' \<or> contains v ''.'' \<or> contains v '':''"

text \<open>The digest after the first at-sign, and the tag after a colon that no slash follows.\<close>

definition split_digest :: "string \<Rightarrow> (string \<times> string) option" where
  "split_digest v =
     (case cut CHR ''@'' v of
        None \<Rightarrow> Some (v, [])
      | Some (before, rest) \<Rightarrow>
          if CHR ''@'' \<in> set rest \<or> \<not> digest_pattern rest then None else Some (before, rest))"

definition split_tag :: "string \<Rightarrow> (string \<times> string) option" where
  "split_tag v =
     (case last_index CHR '':'' v of
        None \<Rightarrow> Some (v, [])
      | Some c \<Rightarrow>
          if (case last_index CHR ''/'' v of None \<Rightarrow> True | Some s \<Rightarrow> s < c)
          then (if tag_pattern (drop (Suc c) v) then Some (take c v, drop (Suc c) v) else None)
          else Some (v, []))"

definition docker_io :: string where "docker_io = ''docker.io''"

definition split_registry :: "string list \<Rightarrow> string \<times> string list" where
  "split_registry parts =
     (let (host, ps) = (if 1 < length parts \<and> is_registry_component (hd parts) then (to_lower (hd parts), tl parts)
                        else (docker_io, parts));
          host' = (if host = ''index.docker.io'' \<or> host = ''registry-1.docker.io'' then docker_io else host)
      in (host', if length ps = 1 \<and> host' = docker_io then ''library'' # ps else ps))"

definition parse_reference :: "string \<Rightarrow> reference res" where
  "parse_reference value =
     (let v = trim_space value in
      if v = [] \<or> contains v ''://'' \<or> list_ex forbidden_char v then invalid_image ''invalid image reference''
      else (case split_digest v of
              None \<Rightarrow> invalid_image ''invalid image digest''
            | Some (v1, digest) \<Rightarrow>
                (case split_tag v1 of
                   None \<Rightarrow> invalid_image ''invalid image tag''
                 | Some (v2, tag) \<Rightarrow>
                     (case split_registry (split_on CHR ''/'' v2) of
                        (host, parts) \<Rightarrow>
                          if parts = [] then invalid_image ''missing image repository''
                          else if list_ex (\<lambda>p. length p = 0 \<or> 255 < length p \<or> \<not> name_part p) parts
                            then invalid_image ''invalid image repository''
                          else if 255 < length host \<or> has_prefix host ''.'' \<or> has_suffix host ''.''
                            then invalid_image ''invalid registry''
                          else Inr \<lparr>rf_registry = host, rf_repository = join_with CHR ''/'' parts, rf_tag = tag, rf_digest = digest\<rparr>))))"

section \<open>Tag discovery\<close>

record tag_page =
  tp_reference :: reference
  tp_tags :: "string list"
  tp_next :: string
  tp_cached :: bool

record tag_entry =
  te_page :: tag_page
  te_expires :: gotime
  te_touched :: gotime

record tag_service =
  ts_ttl :: duration
  ts_max_entries :: int
  ts_max_tags :: int
  ts_cache :: "(string, tag_entry) gomap"

definition new_tag_service :: "duration \<Rightarrow> int \<Rightarrow> int \<Rightarrow> tag_service" where
  "new_tag_service ttl entries tags =
     \<lparr>ts_ttl = (if ttl \<le> 0 then 30 * second else ttl), ts_max_entries = (if entries \<le> 0 then 128 else entries),
      ts_max_tags = (if tags \<le> 0 then 100 else tags), ts_cache = []\<rparr>"

definition tag_load :: "gotime \<Rightarrow> string \<Rightarrow> tag_service \<Rightarrow> tag_service \<times> tag_page option" where
  "tag_load now key s =
     (case gm_get (ts_cache s) key of
        None \<Rightarrow> (s, None)
      | Some e \<Rightarrow>
          if \<not> after (te_expires e) now then (s\<lparr>ts_cache := gm_del key (ts_cache s)\<rparr>, None)
          else (s\<lparr>ts_cache := gm_put key (e\<lparr>te_touched := now\<rparr>) (ts_cache s)\<rparr>, Some (te_page e)))"

text \<open>
  The key of the entry touched longest ago, as the loop over the map finds it; the empty key means
  none yet. The order of a Go map is open, so with several such entries any may be found; here the first.
\<close>

definition oldest_key :: "(string, tag_entry) gomap \<Rightarrow> string" where
  "oldest_key cache =
     fst (fold (\<lambda>(k, v) (ok, ot). if ok = [] \<or> te_touched v < ot then (k, te_touched v) else (ok, ot)) cache ([], 0))"

definition tag_store :: "gotime \<Rightarrow> string \<Rightarrow> tag_page \<Rightarrow> tag_service \<Rightarrow> tag_service" where
  "tag_store now key page s =
     (let live = gm_prune (\<lambda>v. \<not> after (te_expires v) now) (ts_cache s);
          room = (if ts_max_entries s \<le> int (length live) then gm_del (oldest_key live) live else live)
      in s\<lparr>ts_cache := gm_put key \<lparr>te_page = page, te_expires = now + ts_ttl s, te_touched = now\<rparr> room\<rparr>)"

definition tag_key :: "reference \<Rightarrow> string \<Rightarrow> string \<Rightarrow> int \<Rightarrow> string" where
  "tag_key r prefix cursor limit =
     join_with CHR 0x00 [rf_registry r, rf_repository r, ''anonymous'', prefix, cursor, dec_int limit]"

definition tag_limit :: "tag_service \<Rightarrow> int \<Rightarrow> int" where
  "tag_limit s limit = (let l = (if limit \<le> 0 then 25 else limit) in if ts_max_tags s < l then ts_max_tags s else l)"

text \<open>The clock is read in \<open>load\<close> and, after the answer of the registry, in \<open>store\<close>.\<close>

definition discover ::
  "(reference \<Rightarrow> int \<Rightarrow> string \<Rightarrow> (string list \<times> string) res) \<Rightarrow> gotime \<Rightarrow> gotime \<Rightarrow> string \<Rightarrow> string \<Rightarrow> int \<Rightarrow> string \<Rightarrow>
     tag_service \<Rightarrow> tag_service \<times> tag_page res" where
  "discover tags now now' img pre limit0 cursor s =
     (case parse_reference img of
        Inl e \<Rightarrow> (s, Inl e)
      | Inr r \<Rightarrow>
          let limit = tag_limit s limit0 in
          if 128 < length pre \<or> 128 < length cursor then (s, invalid_image ''filter or cursor is too long'')
          else
            (let key = tag_key r pre cursor limit in
             (case tag_load now key s of
                (s1, Some page) \<Rightarrow> (s1, Inr (page\<lparr>tp_cached := True\<rparr>))
              | (s1, None) \<Rightarrow>
                  (case tags r limit cursor of
                     Inl e \<Rightarrow> (s1, Inl e)
                   | Inr (found, next) \<Rightarrow>
                       (let page = \<lparr>tp_reference = r,
                                    tp_tags = sort_by str_less (filter (\<lambda>t. pre = [] \<or> has_prefix t pre) found),
                                    tp_next = next, tp_cached = False\<rparr>
                        in (tag_store now' key page s1, Inr page))))))"

section \<open>Splitting\<close>

lemma split_on_fresh: "c \<notin> set w \<Longrightarrow> split_on c w = [w]"
  by (induction w) auto

lemma split_on_sep: "c \<notin> set w \<Longrightarrow> split_on c (w @ c # s) = w # split_on c s"
  by (induction w) auto

lemma split_on_join: "ws \<noteq> [] \<Longrightarrow> (\<forall>w \<in> set ws. c \<notin> set w) \<Longrightarrow> split_on c (join_with c ws) = ws"
  by (induction c ws rule: join_with.induct) (auto simp: split_on_sep split_on_fresh)

lemma join_snoc: "ws \<noteq> [] \<Longrightarrow> join_with c ws @ z = join_with c (butlast ws @ [last ws @ z])"
  by (induction c ws rule: join_with.induct) (auto simp: join_with_Cons)

lemma last_join: "w \<noteq> [] \<Longrightarrow> join_with c (ws @ [w]) \<noteq> [] \<and> last (join_with c (ws @ [w])) = last w"
  by (induction ws) (auto simp: join_with_Cons)

lemma set_join: "set (join_with c ws) \<subseteq> insert c (\<Union>(set ` set ws))"
  by (induction c ws rule: join_with.induct) auto

lemma split_on_double: "[] \<in> set (tl (split_on c (a @ c # c # b)))"
proof (induction a)
  case (Cons x a)
  then show ?case by (cases "split_on c (a @ c # c # b)") auto
qed simp

lemma contains_split: "contains s p \<Longrightarrow> \<exists>a b. s = a @ p @ b"
proof (induction s p rule: contains.induct)
  case (2 x s p)
  then show ?case by (metis append_Cons append_Nil contains.simps(2) has_prefix_iff)
qed simp

lemma contains_url:
  assumes "contains s ''://''"
  shows "[] \<in> set (tl (split_on CHR ''/'' s))"
proof -
  from contains_split [OF assms] obtain a b where "s = (a @ '':'') @ CHR ''/'' # CHR ''/'' # b" by auto
  then show ?thesis using split_on_double [of "CHR ''/''" "a @ '':''" b] by (simp only:)
qed

lemma last_index_skip: "c \<notin> set ys \<Longrightarrow> last_index c (xs @ ys) = last_index c xs"
proof (induction xs)
  case Nil
  then show ?case by (induction ys) auto
qed (auto split: option.split)

lemma last_index_at: "c \<notin> set ys \<Longrightarrow> last_index c (xs @ c # ys) = Some (length xs)"
proof (induction xs)
  case Nil
  then show ?case using last_index_skip [of c ys "[]"] by simp
qed auto

lemma last_index_bound: "last_index c xs = Some i \<Longrightarrow> i < length xs \<and> xs ! i = c"
  by (induction xs arbitrary: i) (auto split: option.splits if_splits)

lemma contains_char: "contains s [c] \<longleftrightarrow> c \<in> set s"
  by (induction s) (auto simp: has_prefix_def)

section \<open>Characters of the parts\<close>

definition plain_char :: "char \<Rightarrow> bool" where
  "plain_char c \<longleftrightarrow> \<not> is_space c \<and> \<not> forbidden_char c \<and> c \<noteq> CHR ''/'' \<and> c \<noteq> CHR ''@''"

definition part_char :: "char \<Rightarrow> bool" where
  "part_char c \<longleftrightarrow> plain_char c \<and> c \<noteq> CHR '':''"

lemma part_char_plain: "part_char c \<Longrightarrow> plain_char c"
  by (simp add: part_char_def)

lemma range_part:
  "in_range CHR ''a'' CHR ''z'' c \<Longrightarrow> part_char c" "in_range CHR ''A'' CHR ''Z'' c \<Longrightarrow> part_char c"
  "in_range CHR ''0'' CHR ''9'' c \<Longrightarrow> part_char c"
  by (auto simp: in_range_def part_char_def plain_char_def is_space_def forbidden_char_def Let_def)

lemma punct_part [simp]: "part_char CHR ''.''" "part_char CHR ''_''" "part_char CHR ''-''" "part_char CHR ''+''"
  by (simp_all add: part_char_def plain_char_def is_space_def forbidden_char_def)

lemma letter_part: "letter c \<Longrightarrow> part_char c"
  by (auto simp: letter_def intro: range_part)

lemma word_part: "word_char c \<Longrightarrow> part_char c"
  by (auto simp: word_char_def intro: letter_part range_part)

lemma hex_plain: "hex_char h \<Longrightarrow> plain_char h"
  by (auto simp: hex_char_def in_range_def plain_char_def is_space_def forbidden_char_def Let_def)

lemma name_runs_part: "name_runs r s \<Longrightarrow> list_all part_char s"
  by (induction r s rule: name_runs.induct) (auto simp: lower_alnum_def intro: range_part split: if_splits)

lemma name_part_chars: "name_part s \<Longrightarrow> list_all part_char s"
  unfolding name_part_def by (rule name_runs_part)

lemma tag_chars: "tag_pattern s \<Longrightarrow> list_all part_char s"
proof (cases s)
  case (Cons c r)
  assume "tag_pattern s"
  then have "word_char c" "list_all (\<lambda>d. word_char d \<or> d = CHR ''.'' \<or> d = CHR ''-'') r"
    by (simp_all add: tag_pattern_def Cons)
  then show ?thesis by (auto simp: Cons list_all_iff intro: word_part)
qed simp

lemma digest_chars:
  assumes "digest_pattern s"
  shows "list_all plain_char s"
proof -
  from assms obtain a hex where s: "s = a @ CHR '':'' # hex" and d: "case a of [] \<Rightarrow> False | x # alg \<Rightarrow> letter x \<and>
      list_all (\<lambda>d. word_char d \<or> d = CHR ''+'' \<or> d = CHR ''.'' \<or> d = CHR ''-'') alg \<and> list_all hex_char hex"
    by (auto simp: digest_pattern_def cut_Some_iff split: option.splits list.splits)
  from d obtain x alg where a: "a = x # alg" "letter x" "list_all hex_char hex"
    "list_all (\<lambda>d. word_char d \<or> d = CHR ''+'' \<or> d = CHR ''.'' \<or> d = CHR ''-'') alg" by (cases a) auto
  have "list_all part_char alg" using a(4) unfolding list_all_iff by (auto intro: word_part)
  moreover have "plain_char CHR '':''" by (simp add: plain_char_def is_space_def forbidden_char_def)
  ultimately show ?thesis using a(1-3) by (auto simp: s list_all_iff intro: part_char_plain letter_part hex_plain)
qed

section \<open>Normal forms\<close>

definition print_reference :: "reference \<Rightarrow> string" where
  "print_reference r = rf_registry r @ CHR ''/'' # rf_repository r @
     (if rf_tag r = [] then [] else CHR '':'' # rf_tag r) @ (if rf_digest r = [] then [] else CHR ''@'' # rf_digest r)"

definition host_ok :: "string \<Rightarrow> bool" where
  "host_ok h \<longleftrightarrow> h \<noteq> [] \<and> CHR ''/'' \<notin> set h \<and> CHR ''@'' \<notin> set h \<and> \<not> list_ex forbidden_char h \<and> \<not> is_space (hd h) \<and>
     to_lower h = h \<and> is_registry_component h \<and> h \<notin> {''index.docker.io'', ''registry-1.docker.io''} \<and>
     length h \<le> 255 \<and> \<not> has_prefix h ''.'' \<and> \<not> has_suffix h ''.''"

definition part_ok :: "string \<Rightarrow> bool" where
  "part_ok p \<longleftrightarrow> p \<noteq> [] \<and> length p \<le> 255 \<and> name_part p"

definition reference_ok :: "reference \<Rightarrow> string list \<Rightarrow> bool" where
  "reference_ok r ps \<longleftrightarrow> host_ok (rf_registry r) \<and> rf_repository r = join_with CHR ''/'' ps \<and> ps \<noteq> [] \<and> list_all part_ok ps \<and>
     (rf_registry r = docker_io \<longrightarrow> 2 \<le> length ps) \<and> (rf_tag r = [] \<or> tag_pattern (rf_tag r)) \<and>
     (rf_digest r = [] \<or> digest_pattern (rf_digest r))"

lemma trim_space_id:
  assumes "s \<noteq> []" "\<not> is_space (hd s)" "\<not> is_space (last s)"
  shows "trim_space s = s"
proof -
  from assms(1,2) have a: "dropWhile is_space s = s" by (cases s) auto
  from assms(1,3) have "dropWhile is_space (rev s) = rev s" by (cases "rev s") (auto simp: hd_rev [symmetric])
  with a show ?thesis by (simp add: trim_space_def)
qed

lemma part_ok_chars: "part_ok p \<Longrightarrow> c \<in> set p \<Longrightarrow> part_char c"
  using name_part_chars [of p] by (simp add: part_ok_def list_all_iff)

lemma part_char_neq: "part_char c \<Longrightarrow> c \<noteq> CHR ''/'' \<and> c \<noteq> CHR ''@'' \<and> c \<noteq> CHR '':'' \<and> \<not> is_space c \<and> \<not> forbidden_char c"
  by (simp add: part_char_def plain_char_def)

lemma repository_chars:
  assumes "list_all part_ok ps" "c \<in> set (join_with CHR ''/'' ps)"
  shows "c \<noteq> CHR ''@'' \<and> c \<noteq> CHR '':'' \<and> \<not> is_space c \<and> \<not> forbidden_char c"
proof -
  have "c = CHR ''/'' \<or> (\<exists>p \<in> set ps. c \<in> set p)" using set_join [of "CHR ''/''" ps] assms(2) by auto
  with assms(1) show ?thesis
    by (auto simp: list_all_iff is_space_def forbidden_char_def dest!: part_ok_chars part_char_neq)
qed

text \<open>The printed form of a normal reference, cut at its slashes.\<close>

lemma print_slashes:
  assumes "reference_ok r ps"
  defines "z \<equiv> (if rf_tag r = [] then [] else CHR '':'' # rf_tag r) @ (if rf_digest r = [] then [] else CHR ''@'' # rf_digest r)"
  shows "print_reference r = join_with CHR ''/'' (rf_registry r # butlast ps @ [last ps @ z])"
    and "\<forall>c \<in> set z. \<not> is_space c \<and> \<not> forbidden_char c \<and> c \<noteq> CHR ''/''"
proof -
  from assms(1) have r: "rf_repository r = join_with CHR ''/'' ps" "ps \<noteq> []" "rf_tag r = [] \<or> tag_pattern (rf_tag r)"
    "rf_digest r = [] \<or> digest_pattern (rf_digest r)" by (simp_all add: reference_ok_def)
  show "print_reference r = join_with CHR ''/'' (rf_registry r # butlast ps @ [last ps @ z])"
    using join_snoc [OF r(2), of "CHR ''/''" z] by (simp add: print_reference_def z_def r(1) join_with_Cons)
  show "\<forall>c \<in> set z. \<not> is_space c \<and> \<not> forbidden_char c \<and> c \<noteq> CHR ''/''"
    using r(3,4) tag_chars [of "rf_tag r"] digest_chars [of "rf_digest r"]
    by (auto simp: z_def list_all_iff part_char_def plain_char_def is_space_def forbidden_char_def)
qed

lemma split_digest_at:
  assumes "CHR ''@'' \<notin> set x" "d = [] \<or> digest_pattern d \<and> CHR ''@'' \<notin> set d"
  shows "split_digest (x @ (if d = [] then [] else CHR ''@'' # d)) = Some (x, d)"
  using assms cut_None_iff [of "CHR ''@''" x] by (auto simp: split_digest_def)

lemma print_split:
  assumes "reference_ok r ps"
  shows "split_digest (print_reference r) = Some (rf_registry r @ CHR ''/'' # rf_repository r @
      (if rf_tag r = [] then [] else CHR '':'' # rf_tag r), rf_digest r)"
    and "split_tag (rf_registry r @ CHR ''/'' # rf_repository r @ (if rf_tag r = [] then [] else CHR '':'' # rf_tag r)) =
      Some (rf_registry r @ CHR ''/'' # rf_repository r, rf_tag r)"
    and "split_registry (split_on CHR ''/'' (rf_registry r @ CHR ''/'' # rf_repository r)) = (rf_registry r, ps)"
proof -
  let ?h = "rf_registry r" and ?p = "rf_repository r" and ?t = "if rf_tag r = [] then [] else CHR '':'' # rf_tag r"
  from assms have r: "?p = join_with CHR ''/'' ps" "ps \<noteq> []" "list_all part_ok ps" "rf_tag r = [] \<or> tag_pattern (rf_tag r)"
    "rf_digest r = [] \<or> digest_pattern (rf_digest r)" "?h = docker_io \<longrightarrow> 2 \<le> length ps" by (simp_all add: reference_ok_def)
  from assms have h: "CHR ''/'' \<notin> set ?h" "CHR ''@'' \<notin> set ?h" "to_lower ?h = ?h" "is_registry_component ?h"
    "?h \<notin> {''index.docker.io'', ''registry-1.docker.io''}" by (simp_all add: reference_ok_def host_ok_def)
  have p: "CHR ''@'' \<notin> set ?p" "CHR '':'' \<notin> set ?p" using repository_chars [OF r(3)] by (auto simp: r(1))
  have t: "CHR ''@'' \<notin> set (rf_tag r) \<and> CHR '':'' \<notin> set (rf_tag r) \<and> CHR ''/'' \<notin> set (rf_tag r)"
    using r(4) tag_chars [of "rf_tag r"] by (auto simp: list_all_iff part_char_def plain_char_def)
  have d: "CHR ''@'' \<notin> set (rf_digest r)" using r(5) digest_chars [of "rf_digest r"] by (auto simp: list_all_iff plain_char_def)
  have no_at: "CHR ''@'' \<notin> set (?h @ CHR ''/'' # ?p @ ?t)" using h p t by auto
  have "print_reference r = (?h @ CHR ''/'' # ?p @ ?t) @ (if rf_digest r = [] then [] else CHR ''@'' # rf_digest r)"
    by (simp add: print_reference_def)
  then show "split_digest (print_reference r) = Some (?h @ CHR ''/'' # ?p @ ?t, rf_digest r)"
    using split_digest_at [OF no_at] d r(5) by (simp del: append.simps append_assoc)
  show "split_tag (?h @ CHR ''/'' # ?p @ ?t) = Some (?h @ CHR ''/'' # ?p, rf_tag r)"
  proof (cases "rf_tag r = []")
    case True
    have "last_index CHR '':'' (?h @ CHR ''/'' # ?p) = last_index CHR '':'' ?h" using p(2) by (intro last_index_skip) auto
    moreover have "\<exists>i. last_index CHR ''/'' (?h @ CHR ''/'' # ?p) = Some i \<and> length ?h \<le> i"
    proof (cases "last_index CHR ''/'' ?p")
      case None
      then have "CHR ''/'' \<notin> set ?p"
        by (simp add: last_index_None)
      then show ?thesis using last_index_at [of "CHR ''/''" ?p ?h] by simp
    next
      case (Some j)
      then have "last_index CHR ''/'' (xs @ ?p) = Some (length xs + j)" for xs by (induction xs) auto
      from this [of "?h @ [CHR ''/'']"] show ?thesis by simp
    qed
    ultimately show ?thesis using True last_index_bound [of "CHR '':''" ?h]
      by (auto simp: split_tag_def split: option.split)
  next
    case False
    have colon: "last_index CHR '':'' ((?h @ CHR ''/'' # ?p) @ CHR '':'' # rf_tag r) = Some (length (?h @ CHR ''/'' # ?p))"
      using t by (intro last_index_at) simp
    have "last_index CHR ''/'' ((?h @ CHR ''/'' # ?p) @ CHR '':'' # rf_tag r) = last_index CHR ''/'' (?h @ CHR ''/'' # ?p)"
      using t by (intro last_index_skip) simp
    with last_index_bound [of "CHR ''/''" "?h @ CHR ''/'' # ?p"]
    have "case last_index CHR ''/'' ((?h @ CHR ''/'' # ?p) @ CHR '':'' # rf_tag r) of None \<Rightarrow> True | Some k \<Rightarrow> k < length (?h @ CHR ''/'' # ?p)"
      by (auto split: option.split)
    with colon False r(4) show ?thesis by (auto simp: split_tag_def split: option.splits)
  qed
  have "split_on CHR ''/'' (?h @ CHR ''/'' # ?p) = ?h # ps"
    using split_on_sep [OF h(1), of ?p] split_on_join [of ps "CHR ''/''"] r(1-3) part_ok_chars part_char_neq
    by (fastforce simp: list_all_iff)
  with h r(2,6) show "split_registry (split_on CHR ''/'' (?h @ CHR ''/'' # ?p)) = (?h, ps)"
    by (cases ps) (auto simp: split_registry_def Let_def)
qed

lemma reference_ok_parses:
  assumes "reference_ok r ps"
  shows "parse_reference (print_reference r) = Inr r"
proof -
  let ?s = "print_reference r"
  from assms have r: "ps \<noteq> []" "list_all part_ok ps" "host_ok (rf_registry r)" "rf_repository r = join_with CHR ''/'' ps"
    by (simp_all add: reference_ok_def)
  obtain z where s: "?s = join_with CHR ''/'' (rf_registry r # butlast ps @ [last ps @ z])"
    and z: "\<forall>c \<in> set z. \<not> is_space c \<and> \<not> forbidden_char c \<and> c \<noteq> CHR ''/''"
    and zc: "?s = rf_registry r @ CHR ''/'' # rf_repository r @ z"
    using print_slashes [OF assms] by (auto simp: print_reference_def)
  from r have h: "rf_registry r \<noteq> []" "CHR ''/'' \<notin> set (rf_registry r)" "\<not> is_space (hd (rf_registry r))"
    "\<not> list_ex forbidden_char (rf_registry r)" "length (rf_registry r) \<le> 255" "\<not> has_prefix (rf_registry r) ''.''"
    "\<not> has_suffix (rf_registry r) ''.''" by (simp_all add: host_ok_def)
  have lp: "part_ok (last ps)" "\<And>p. p \<in> set (butlast ps) \<Longrightarrow> part_ok p" using r(1,2) by (auto simp: list_all_iff dest: in_set_butlastD)
  have ne: "?s \<noteq> []" "\<not> is_space (hd ?s)" using h(1,3) by (simp_all add: zc)
  have "last ?s = last (last ps @ z)"
  proof -
    have "last ps @ z \<noteq> []" using lp(1) by (simp add: part_ok_def)
    then show ?thesis unfolding s using last_join [of "last ps @ z" "CHR ''/''" "rf_registry r # butlast ps"] by simp
  qed
  moreover have "last (last ps @ z) \<in> set (last ps) \<union> set z"
  proof -
    have "last ps @ z \<noteq> []" using lp(1) by (simp add: part_ok_def)
    from last_in_set [OF this] show ?thesis by (simp only: set_append)
  qed
  ultimately have "last ?s \<in> set (last ps) \<or> last ?s \<in> set z" by simp
  then have sp: "\<not> is_space (last ?s)" using z part_ok_chars [OF lp(1)] part_char_neq by blast
  have trim: "trim_space ?s = ?s" by (rule trim_space_id) fact+
  have "split_on CHR ''/'' ?s = (rf_registry r # butlast ps @ [last ps @ z])"
    unfolding s
  proof (rule split_on_join)
    have "CHR ''/'' \<notin> set p" if "part_ok p" for p using part_ok_chars [OF that] part_char_neq by blast
    with lp z h(2) show "\<forall>w \<in> set (rf_registry r # butlast ps @ [last ps @ z]). CHR ''/'' \<notin> set w" by auto
  qed simp
  then have "[] \<notin> set (tl (split_on CHR ''/'' ?s))" using lp by (auto simp: part_ok_def)
  then have url: "\<not> contains ?s ''://''" using contains_url by blast
  have slash: "\<not> forbidden_char CHR ''/''" by (simp add: forbidden_char_def)
  have repo: "\<not> forbidden_char c" if "c \<in> set (rf_repository r)" for c
    using repository_chars [OF r(2)] that unfolding r(4) by blast
  have "\<not> list_ex forbidden_char ?s"
    using h(4) z slash repo unfolding zc list_ex_iff set_append list.set by blast
  moreover have "\<not> list_ex (\<lambda>p. length p = 0 \<or> 255 < length p \<or> \<not> name_part p) ps"
    using r(2) by (auto simp: list_ex_iff list_all_iff part_ok_def)
  ultimately show ?thesis
    unfolding parse_reference_def Let_def trim print_split(1) [OF assms] option.case prod.case
      print_split(2) [OF assms] print_split(3) [OF assms]
    using ne(1) url h r(1) by (simp add: r(4) [symmetric])
qed

text \<open>What the parser accepts is in normal form.\<close>

lemma split_digest_Some:
  assumes "split_digest v = Some (v1, d)"
  shows "(d = [] \<or> digest_pattern d) \<and> CHR ''@'' \<notin> set v1 \<and> set v1 \<subseteq> set v \<and> (v1 = [] \<or> hd v1 = hd v)"
proof (cases "cut CHR ''@'' v")
  case None
  with assms show ?thesis by (auto simp: split_digest_def cut_None_iff)
next
  case (Some p)
  then obtain a b where p: "cut CHR ''@'' v = Some (a, b)" by (cases p) auto
  then have "v = a @ CHR ''@'' # b" "CHR ''@'' \<notin> set a" by (simp_all add: cut_Some_iff)
  with assms p show ?thesis by (cases a) (auto simp: split_digest_def split: if_splits)
qed

lemma split_tag_Some:
  assumes "split_tag v = Some (v1, t)"
  shows "(t = [] \<or> tag_pattern t) \<and> (\<exists>r. v = v1 @ r)"
proof -
  have "v = take n v @ drop n v" for n by simp
  with assms show ?thesis by (auto simp: split_tag_def split: option.splits if_splits) (metis append_take_drop_id)+
qed

lemma docker_host_ok: "host_ok docker_io"
  by code_simp

lemma to_lower_char_cases:
  "to_lower_char c = c \<or> 97 \<le> (of_char (to_lower_char c) :: nat) \<and> (of_char (to_lower_char c) :: nat) \<le> 122"
  by (auto simp: to_lower_char_def Let_def)

lemma lower_mem:
  assumes "(of_char d :: nat) < 65"
  shows "d \<in> set (to_lower s) \<longleftrightarrow> d \<in> set s"
proof -
  have "to_lower_char d = d" using assms by (simp add: to_lower_char_def Let_def)
  moreover have "c = d" if "to_lower_char c = d" for c using to_lower_char_cases [of c] assms that by auto
  ultimately show ?thesis unfolding to_lower_def by force
qed

lemma lower_at: "CHR ''@'' \<in> set (to_lower s) \<longleftrightarrow> CHR ''@'' \<in> set s"
proof -
  have "c = CHR ''@''" if "to_lower_char c = CHR ''@''" for c using to_lower_char_cases [of c] that by auto
  moreover have "to_lower_char CHR ''@'' = CHR ''@''" by code_simp
  ultimately show ?thesis unfolding to_lower_def by force
qed

lemma lower_space: "s \<noteq> [] \<Longrightarrow> is_space (hd (to_lower s)) \<longleftrightarrow> is_space (hd s)"
  using to_lower_char_cases [of "hd s"]
  by (cases s) (auto simp: to_lower_def is_space_def Let_def to_lower_char_def)

lemma lower_forbidden: "list_ex forbidden_char (to_lower s) \<longleftrightarrow> list_ex forbidden_char s"
proof -
  have "forbidden_char d \<Longrightarrow> (of_char d :: nat) < 65" for d by (auto simp: forbidden_char_def)
  then show ?thesis unfolding list_ex_iff using lower_mem by metis
qed

lemma lower_registry: "is_registry_component s \<Longrightarrow> is_registry_component (to_lower s)"
proof -
  assume s: "is_registry_component s"
  have "to_lower ''localhost'' = ''localhost''" by code_simp
  moreover have "contains (to_lower s) [c] \<longleftrightarrow> contains s [c]" if "(of_char c :: nat) < 65" for c
    using lower_mem [OF that] by (simp add: contains_char)
  ultimately show ?thesis using s unfolding is_registry_component_def by auto
qed

lemma split_on_hd: "s \<noteq> [] \<Longrightarrow> hd (split_on c s) \<noteq> [] \<Longrightarrow> hd (hd (split_on c s)) = hd s"
  by (cases s) (auto split: list.splits)

lemma split_on_subset: "w \<in> set (split_on c s) \<Longrightarrow> set w \<subseteq> set s"
  by (induction s arbitrary: w) (fastforce split: if_splits list.splits)+

text \<open>The host and the parts of an accepted reference.\<close>

lemma split_registry_ok:
  assumes "split_registry (split_on CHR ''/'' v) = (h, ps)" "list_all part_ok ps" "ps \<noteq> []"
    and "length h \<le> 255" "\<not> has_prefix h ''.''" "\<not> has_suffix h ''.''"
    and v: "CHR ''@'' \<notin> set v" "\<not> list_ex forbidden_char v" "v = [] \<or> \<not> is_space (hd v)"
  shows "host_ok h \<and> (h = docker_io \<longrightarrow> 2 \<le> length ps)"
proof -
  let ?ws = "split_on CHR ''/'' v"
  define h0 where "h0 = (if 1 < length ?ws \<and> is_registry_component (hd ?ws) then to_lower (hd ?ws) else docker_io)"
  have h: "h = (if h0 = ''index.docker.io'' \<or> h0 = ''registry-1.docker.io'' then docker_io else h0)"
    using assms(1) by (auto simp: split_registry_def Let_def h0_def)
  define ps0 where "ps0 = (if 1 < length ?ws \<and> is_registry_component (hd ?ws) then tl ?ws else ?ws)"
  have "ps = (if length ps0 = 1 \<and> h = docker_io then ''library'' # ps0 else ps0)"
    using assms(1) unfolding split_registry_def Let_def ps0_def by (auto split: if_splits)
  with assms(3) have two: "h = docker_io \<longrightarrow> 2 \<le> length ps" by (cases ps0) (auto simp: Suc_le_eq split: if_splits)
  show ?thesis
  proof (cases "h = docker_io")
    case True
    then show ?thesis using docker_host_ok two by simp
  next
    case False
    then have e: "h = to_lower (hd ?ws)" "is_registry_component (hd ?ws)" "h \<notin> {''index.docker.io'', ''registry-1.docker.io''}"
      using h by (auto simp: h0_def split: if_splits)
    let ?w = "hd ?ws"
    have w: "?w \<in> set ?ws" "?w \<noteq> []" using e(2) by (auto simp: is_registry_component_def)
    then have "set ?w \<subseteq> set v" "CHR ''/'' \<notin> set ?w" using split_on_subset split_on_no_sep by metis+
    moreover have "v \<noteq> []" using w by auto
    then have "\<not> is_space (hd ?w)" using split_on_hd [of v "CHR ''/''"] w(2) v(3) by simp
    moreover have "\<not> list_ex forbidden_char ?w" using v(2) \<open>set ?w \<subseteq> set v\<close> unfolding list_ex_iff by blast
    moreover have "CHR ''/'' \<notin> set (to_lower ?w)" using \<open>CHR ''/'' \<notin> set ?w\<close> lower_mem [of "CHR ''/''" ?w] by simp
    ultimately show ?thesis using v(1) w(2) e two assms(4-6)
      by (auto simp: host_ok_def lower_at lower_space lower_forbidden lower_registry)
  qed
qed

lemma trim_space_hd:
  assumes "trim_space s \<noteq> []"
  shows "\<not> is_space (hd (trim_space s))"
proof -
  let ?a = "dropWhile is_space s"
  have "\<exists>r. ?a = trim_space s @ r"
    unfolding trim_space_def by (metis rev_append rev_rev_ident takeWhile_dropWhile_id)
  then obtain r where "?a = trim_space s @ r" by blast
  with assms have "?a \<noteq> []" "hd ?a = hd (trim_space s)" by auto
  then show ?thesis using hd_dropWhile by metis
qed

lemma parsed_reference_ok:
  assumes "parse_reference value = Inr r"
  shows "\<exists>ps. reference_ok r ps"
proof -
  let ?v = "trim_space value"
  from assms obtain v1 d v2 t h ps where p: "?v \<noteq> []" "\<not> list_ex forbidden_char ?v" "split_digest ?v = Some (v1, d)"
    "split_tag v1 = Some (v2, t)" "split_registry (split_on CHR ''/'' v2) = (h, ps)" "ps \<noteq> []"
    "\<not> list_ex (\<lambda>p. length p = 0 \<or> 255 < length p \<or> \<not> name_part p) ps" "length h \<le> 255" "\<not> has_prefix h ''.''" "\<not> has_suffix h ''.''"
    and r: "r = \<lparr>rf_registry = h, rf_repository = join_with CHR ''/'' ps, rf_tag = t, rf_digest = d\<rparr>"
    unfolding parse_reference_def Let_def by (auto split: if_splits option.splits prod.splits)
  from p(7) have parts: "list_all part_ok ps" by (auto simp: list_ex_iff list_all_iff part_ok_def)
  note d = split_digest_Some [OF p(3)] and t = split_tag_Some [OF p(4)]
  from t obtain z where z: "v1 = v2 @ z" by blast
  have sub: "set v2 \<subseteq> set ?v" "CHR ''@'' \<notin> set v2" using d z by auto
  have "\<not> is_space (hd ?v)" by (rule trim_space_hd) (rule p(1))
  then have hd: "v2 = [] \<or> \<not> is_space (hd v2)" using d z by (cases v2) auto
  have "\<not> list_ex forbidden_char v2" using p(2) sub(1) unfolding list_ex_iff by blast
  from split_registry_ok [OF p(5) parts p(6,8-10) sub(2) this hd] show ?thesis
    using p(6) parts d t by (auto simp: reference_ok_def r)
qed

section \<open>Properties\<close>

text \<open>
  C26. What the parser accepts is a normal form: printing the reference and parsing it again gives the
  same reference, whatever shorthand it was written in; its registry is in lower case and every part of
  its repository is a well-formed name.
\<close>

theorem reference_normal_form:
  assumes "parse_reference value = Inr r"
  shows "parse_reference (print_reference r) = Inr r \<and> to_lower (rf_registry r) = rf_registry r \<and> length (rf_registry r) \<le> 255 \<and>
    (\<exists>ps. rf_repository r = join_with CHR ''/'' ps \<and> ps \<noteq> [] \<and> list_all (\<lambda>p. p \<noteq> [] \<and> length p \<le> 255 \<and> name_part p) ps) \<and>
    (rf_tag r \<noteq> [] \<longrightarrow> tag_pattern (rf_tag r)) \<and> (rf_digest r \<noteq> [] \<longrightarrow> digest_pattern (rf_digest r))"
proof -
  from parsed_reference_ok [OF assms] obtain ps where ok: "reference_ok r ps" by blast
  with reference_ok_parses [OF ok] show ?thesis
    by (auto simp: reference_ok_def host_ok_def part_ok_def list_all_iff)
qed

definition tag_service_ok :: "tag_service \<Rightarrow> bool" where
  "tag_service_ok s \<longleftrightarrow> gm_ok (ts_cache s) \<and> [] \<notin> fst ` set (ts_cache s) \<and> 0 < ts_max_entries s \<and>
     int (length (ts_cache s)) \<le> ts_max_entries s"

lemma oldest_key_mem:
  assumes "cache \<noteq> []" "[] \<notin> fst ` set cache"
  shows "oldest_key cache \<in> fst ` set cache"
proof -
  let ?f = "\<lambda>(k :: string, v) (ok, ot). if ok = [] \<or> te_touched v < ot then (k, te_touched v) else (ok, ot)"
  have in_fold: "fst (fold ?f xs a) = fst a \<or> fst (fold ?f xs a) \<in> fst ` set xs" for xs :: "(string \<times> tag_entry) list" and a
  proof (induction xs arbitrary: a)
    case (Cons x xs)
    have "fst (?f x a) = fst a \<or> fst (?f x a) = fst x" by (cases x; cases a) simp
    with Cons.IH [of "?f x a"] show ?case by auto
  qed simp
  obtain k v rest where c: "cache = (k, v) # rest" using assms(1) by (cases cache) auto
  then show ?thesis using in_fold [of rest "(k, te_touched v)"] by (auto simp: oldest_key_def)
qed

lemma gm_prune_keys: "fst ` set (gm_prune p m) \<subseteq> fst ` set m"
  by (auto simp: gm_prune_def)

lemma gm_del_length: "gm_ok m \<Longrightarrow> k \<in> fst ` set m \<Longrightarrow> Suc (length (gm_del k m)) = length m"
proof (induction m)
  case (Cons x m)
  show ?case
  proof (cases "fst x = k")
    case True
    with Cons.prems(1) have "k \<notin> fst ` set m" by (auto simp: gm_ok_def)
    then have "gm_del k m = m" by (force simp: gm_del_filter intro!: filter_True)
    with True show ?thesis by (simp add: gm_del_filter case_prod_unfold)
  next
    case False
    with Cons show ?thesis by (auto simp: gm_del_filter gm_ok_def case_prod_unfold)
  qed
qed simp

lemma tag_store_ok:
  assumes "tag_service_ok s" "key \<noteq> []"
  shows "tag_service_ok (tag_store now key page s)"
proof -
  let ?p = "\<lambda>v. \<not> after (te_expires v) now"
  let ?live = "gm_prune ?p (ts_cache s)"
  let ?room = "if ts_max_entries s \<le> int (length ?live) then gm_del (oldest_key ?live) ?live else ?live"
  from assms(1) have s: "gm_ok (ts_cache s)" "[] \<notin> fst ` set (ts_cache s)" "0 < ts_max_entries s" "int (length (ts_cache s)) \<le> ts_max_entries s"
    by (simp_all add: tag_service_ok_def)
  have live: "gm_ok ?live" "[] \<notin> fst ` set ?live" "length ?live \<le> length (ts_cache s)"
    using s(1,2) gm_prune_keys [of ?p "ts_cache s"] gm_length_prune by auto
  have "int (length ?room) < ts_max_entries s"
  proof (cases "ts_max_entries s \<le> int (length ?live)")
    case True
    with s(3) have "?live \<noteq> []" by auto
    from gm_del_length [OF live(1) oldest_key_mem [OF this live(2)]] True s(4) live(3) show ?thesis by simp
  qed simp
  moreover have "gm_ok ?room" "[] \<notin> fst ` set ?room" using live by (auto simp: gm_del_set)
  moreover have "fst ` set (gm_put key e m) = insert key (fst ` set m)" for e and m :: "(string, tag_entry) gomap"
    by (simp add: gm_put_def dom_update)
  ultimately show ?thesis using assms(2) s(3) gm_length_put [of key _ ?room]
    by (auto simp: tag_service_ok_def tag_store_def Let_def)
qed

lemma tag_key_not_Nil [simp]: "tag_key r pre cursor limit \<noteq> []"
  by (simp add: tag_key_def)

lemma gm_put_keys: "fst ` set (gm_put key x m) = insert key (fst ` set m)"
  by (simp add: gm_put_def dom_update)

lemma tag_load_keeps:
  assumes "tag_load now key s = (s1, p)"
  shows "ts_ttl s1 = ts_ttl s \<and> ts_max_entries s1 = ts_max_entries s \<and> ts_max_tags s1 = ts_max_tags s \<and>
    (tag_service_ok s \<longrightarrow> tag_service_ok s1)"
proof (cases "gm_get (ts_cache s) key")
  case None
  with assms show ?thesis by (simp add: tag_load_def)
next
  case (Some e)
  then have mem: "key \<in> fst ` set (ts_cache s)" by (metis map_of_eq_None_iff option.distinct(1))
  have len: "length (gm_put key x (ts_cache s)) = length (ts_cache s)" for x using mem by (simp add: gm_length_put)
  show ?thesis
  proof (cases "after (te_expires e) now")
    case True
    with assms Some have "s1 = s\<lparr>ts_cache := gm_put key (e\<lparr>te_touched := now\<rparr>) (ts_cache s)\<rparr>" by (simp add: tag_load_def)
    then show ?thesis using mem by (auto simp: tag_service_ok_def gm_put_keys len simp del: split_paired_All)
  next
    case False
    with assms Some have "s1 = s\<lparr>ts_cache := gm_del key (ts_cache s)\<rparr>" by (simp add: tag_load_def)
    then show ?thesis using gm_length_del [of key "ts_cache s"] by (auto simp: tag_service_ok_def gm_del_set)
  qed
qed

lemma tag_store_sel:
  "ts_ttl (tag_store now key p s) = ts_ttl s \<and> ts_max_entries (tag_store now key p s) = ts_max_entries s \<and>
   ts_max_tags (tag_store now key p s) = ts_max_tags s"
  by (simp add: tag_store_def Let_def)

lemma tag_store_get:
  "gm_get (ts_cache (tag_store now key p s)) key = Some \<lparr>te_page = p, te_expires = now + ts_ttl s, te_touched = now\<rparr>"
  by (simp add: tag_store_def Let_def)

lemma discover_fetched:
  assumes "discover tags now now' img pre limit0 cursor s = (s', Inr page)" "\<not> tp_cached page"
  obtains r s1 where "parse_reference img = Inr r" "tag_load now (tag_key r pre cursor (tag_limit s limit0)) s = (s1, None)"
    "s' = tag_store now' (tag_key r pre cursor (tag_limit s limit0)) page s1" "\<not> (128 < length pre \<or> 128 < length cursor)"
  using assms by (auto simp: discover_def Let_def split: sum.splits if_splits prod.splits option.splits)

lemma discover_cases:
  "fst (discover tags now now' img pre limit0 cursor s) = s \<or>
   (\<exists>key s1 q. key \<noteq> [] \<and> tag_load now key s = (s1, q) \<and>
      (fst (discover tags now now' img pre limit0 cursor s) = s1 \<or>
       (\<exists>page. fst (discover tags now now' img pre limit0 cursor s) = tag_store now' key page s1)))"
proof (cases "parse_reference img")
  case (Inr r)
  obtain s1 q where l: "tag_load now (tag_key r pre cursor (tag_limit s limit0)) s = (s1, q)" by fastforce
  show ?thesis
  proof (cases "128 < length pre \<or> 128 < length cursor")
    case False
    then have "fst (discover tags now now' img pre limit0 cursor s) = s1 \<or>
      (\<exists>page. fst (discover tags now now' img pre limit0 cursor s) = tag_store now' (tag_key r pre cursor (tag_limit s limit0)) page s1)"
      by (auto simp: discover_def Let_def Inr l split: option.split sum.split)
    with l tag_key_not_Nil show ?thesis by metis
  qed (auto simp: discover_def Let_def Inr)
qed (simp add: discover_def)

lemma discover_keeps:
  assumes "tag_service_ok s"
  shows "tag_service_ok (fst (discover tags now now' img pre limit0 cursor s)) \<and>
    ts_max_entries (fst (discover tags now now' img pre limit0 cursor s)) = ts_max_entries s"
  using discover_cases [of tags now now' img pre limit0 cursor s]
proof (elim disjE exE conjE)
  fix key s1 q
  assume l: "tag_load now key s = (s1, q)" and k: "key \<noteq> []"
  from tag_load_keeps [OF l] assms have s1: "tag_service_ok s1" "ts_max_entries s1 = ts_max_entries s" by simp_all
  show ?thesis if "fst (discover tags now now' img pre limit0 cursor s) = s1" using that s1 by simp
  show ?thesis if "fst (discover tags now now' img pre limit0 cursor s) = tag_store now' key page s1" for page
    using that s1 tag_store_ok [OF s1(1) k] by (simp add: tag_store_sel)
qed (use assms in simp)

text \<open>
  The cache of tag pages never holds more entries than its limit, and a page that was fetched is
  answered from the cache, marked so, until it expires: the registry is not asked again.
\<close>

theorem tag_cache_bounded_and_faithful:
  assumes "tag_service_ok s" and "discover tags now now' img pre limit0 cursor s = (s', Inr page)"
  shows "int (length (ts_cache s')) \<le> ts_max_entries s \<and>
    (\<not> tp_cached page \<and> later < now' + ts_ttl s \<longrightarrow>
       snd (discover tags' later later' img pre limit0 cursor s') = Inr (page\<lparr>tp_cached := True\<rparr>))"
proof -
  from discover_keeps [OF assms(1), of tags now now' img pre limit0 cursor] assms(2)
  have "int (length (ts_cache s')) \<le> ts_max_entries s" by (simp add: tag_service_ok_def)
  moreover have "snd (discover tags' later later' img pre limit0 cursor s') = Inr (page\<lparr>tp_cached := True\<rparr>)"
    if f: "\<not> tp_cached page" and t: "later < now' + ts_ttl s"
  proof -
    from discover_fetched [OF assms(2) f] obtain r s1 where d: "parse_reference img = Inr r"
      "tag_load now (tag_key r pre cursor (tag_limit s limit0)) s = (s1, None)"
      "s' = tag_store now' (tag_key r pre cursor (tag_limit s limit0)) page s1" "\<not> (128 < length pre \<or> 128 < length cursor)" .
    from tag_load_keeps [OF d(2)] have s1: "ts_ttl s1 = ts_ttl s" "ts_max_tags s1 = ts_max_tags s" by simp_all
    then have l: "tag_limit s' limit0 = tag_limit s limit0" by (simp add: d(3) tag_limit_def tag_store_sel)
    have "tag_load later (tag_key r pre cursor (tag_limit s limit0)) s' =
      (s'\<lparr>ts_cache := gm_put (tag_key r pre cursor (tag_limit s limit0))
          \<lparr>te_page = page, te_expires = now' + ts_ttl s, te_touched = later\<rparr> (ts_cache s')\<rparr>, Some page)"
      using tag_store_get [of now' "tag_key r pre cursor (tag_limit s limit0)" page s1] t s1
      by (simp add: tag_load_def d(3) after_def)
    with d(1,4) l show ?thesis by (simp add: discover_def Let_def)
  qed
  ultimately show ?thesis by blast
qed

text \<open>The parts of the cache key are joined by NUL bytes, which a filter and a cursor can contain.\<close>

lemma tag_key_ambiguous:
  "tag_key r (''a'' @ [CHR 0x00] @ ''b'') ''c'' n = tag_key r ''a'' (''b'' @ [CHR 0x00] @ ''c'') n"
  by (simp add: tag_key_def)

section \<open>Examples\<close>

lemma demo_image:
  "parse_reference '' nginx:1.25 '' = Inr \<lparr>rf_registry = ''docker.io'', rf_repository = ''library/nginx'', rf_tag = ''1.25'', rf_digest = []\<rparr>"
  "parse_reference ''GHCR.io/acme/app'' = Inr \<lparr>rf_registry = ''ghcr.io'', rf_repository = ''acme/app'', rf_tag = [], rf_digest = []\<rparr>"
  by code_simp+

theorem reference_normal_form_witness: "parse_reference ''docker.io/library/nginx:1.25'' = parse_reference '' nginx:1.25 ''"
  using reference_normal_form [OF demo_image(1)] by (simp add: demo_image print_reference_def)

lemma demo_discovery:
  "snd (discover (\<lambda>r n c. Inr ([''2.0'', ''1.25'', ''1.24''], [])) 0 1 ''nginx'' ''1.'' 10 [] (new_tag_service 0 0 0)) =
     Inr \<lparr>tp_reference = \<lparr>rf_registry = ''docker.io'', rf_repository = ''library/nginx'', rf_tag = [], rf_digest = []\<rparr>,
       tp_tags = [''1.24'', ''1.25''], tp_next = [], tp_cached = False\<rparr>"
  by code_simp

theorem tag_cache_bounded_and_faithful_witness:
  "\<exists>s' page. snd (discover (\<lambda>r n c. Inl (OtherErr ''down'' False)) 5 6 ''nginx'' ''1.'' 10 [] s') = Inr page \<and> tp_tags page = [''1.24'', ''1.25'']"
proof -
  let ?t = "\<lambda>r n c. Inr ([''2.0'', ''1.25'', ''1.24''], [])" and ?s = "new_tag_service 0 0 0"
  have ok: "tag_service_ok ?s" by (simp add: tag_service_ok_def new_tag_service_def)
  obtain s' where d: "discover ?t 0 1 ''nginx'' ''1.'' 10 [] ?s = (s', Inr \<lparr>tp_reference = \<lparr>rf_registry = ''docker.io'',
      rf_repository = ''library/nginx'', rf_tag = [], rf_digest = []\<rparr>, tp_tags = [''1.24'', ''1.25''], tp_next = [], tp_cached = False\<rparr>)"
    using demo_discovery by (metis prod.collapse)
  from tag_cache_bounded_and_faithful [OF ok d, of 5 "\<lambda>r n c. Inl (OtherErr ''down'' False)" 6]
  have "snd (discover (\<lambda>r n c. Inl (OtherErr ''down'' False)) 5 6 ''nginx'' ''1.'' 10 [] s') = Inr \<lparr>tp_reference = \<lparr>rf_registry = ''docker.io'',
      rf_repository = ''library/nginx'', rf_tag = [], rf_digest = []\<rparr>, tp_tags = [''1.24'', ''1.25''], tp_next = [], tp_cached = True\<rparr>"
    by (simp add: new_tag_service_def second_def)
  then show ?thesis by (intro exI conjI) (assumption, simp)
qed

end
