(* ===== verification/Terminal_Sessions.thy ===== *)
theory Terminal_Sessions
  imports Auth_Gate Clusters Go_Integers Kube_Types "HOL-Library.Multiset"
begin

text \<open>
  Recordings of terminal sessions: \<open>model.TerminalSession\<close>, \<open>repository/terminal_session_repo.go\<close>,
  \<open>service/terminal_session_service.go\<close> and \<open>handler/terminal_session_handler.go\<close>. An instant counts
  from the zero time of package \<open>time\<close>, so 0 is the time that \<open>IsZero\<close> recognises. The pagination
  slices in memory: \<open>None\<close> is the panic of a slice with bad bounds.
\<close>

record terminal_session =
  se_id :: nat
  se_created :: gotime
  se_user :: nat
  se_cluster :: string
  se_namespace :: string
  se_pod :: string
  se_container :: string
  se_recording :: string
  se_duration :: int
  se_expires :: gotime

type_synonym session_table = "terminal_session table"

section \<open>The repository\<close>

definition session_create :: "faults \<Rightarrow> gotime \<Rightarrow> terminal_session \<Rightarrow> session_table \<Rightarrow> (session_table \<times> terminal_session) res" where
  "session_create fl now s t = create_row fl (\<lambda>_ _. False) (\<lambda>i x. x\<lparr>se_id := i, se_created := now\<rparr>) s t"

definition session_get_by_id :: "faults \<Rightarrow> nat \<Rightarrow> session_table \<Rightarrow> terminal_session res" where
  "session_get_by_id fl i t = first_where fl (\<lambda>s. se_id s = i) t"

text \<open>Newest first, without the recordings; user 0 stands for every user.\<close>

definition session_list_by_user :: "faults \<Rightarrow> nat \<Rightarrow> session_table \<Rightarrow> terminal_session list res" where
  "session_list_by_user fl uid t =
     (case find_where fl (\<lambda>s. uid \<noteq> 0 \<longrightarrow> se_user s = uid) t of
        Inl e \<Rightarrow> Inl e
      | Inr ss \<Rightarrow> Inr (map (\<lambda>s. s\<lparr>se_recording := []\<rparr>) (sort_key (\<lambda>s. - se_created s) ss)))"

definition repo_purge_expired :: "faults \<Rightarrow> gotime \<Rightarrow> session_table \<Rightarrow> (session_table \<times> nat) res" where
  "repo_purge_expired fl now t =
     (case delete_where fl (\<lambda>s. se_expires s < now) t of
        Inl e \<Rightarrow> Inl e
      | Inr t' \<Rightarrow> Inr (t', length (filter (\<lambda>s. se_expires s < now) (rows t))))"

section \<open>The service\<close>

record session_meta =
  sm_id :: nat
  sm_created :: gotime
  sm_user :: nat
  sm_cluster :: string
  sm_namespace :: string
  sm_pod :: string
  sm_container :: string
  sm_duration :: int
  sm_expires :: gotime

definition to_session_meta :: "terminal_session \<Rightarrow> session_meta" where
  "to_session_meta s =
     \<lparr>sm_id = se_id s, sm_created = se_created s, sm_user = se_user s, sm_cluster = se_cluster s,
      sm_namespace = se_namespace s, sm_pod = se_pod s, sm_container = se_container s,
      sm_duration = se_duration s, sm_expires = se_expires s\<rparr>"

definition save_session :: "faults \<Rightarrow> gotime \<Rightarrow> terminal_session \<Rightarrow> session_table \<Rightarrow> session_table res" where
  "save_session fl now s t =
     (let s' = (if se_expires s = 0 then s\<lparr>se_expires := now + 30 * 24 * hour\<rparr> else s) in
      case session_create fl now s' t of
        Inl _ \<Rightarrow> fail CodeInternal ''failed to save terminal session''
      | Inr (t', _) \<Rightarrow> Inr t')"

definition svc_get_session :: "faults \<Rightarrow> nat \<Rightarrow> session_table \<Rightarrow> terminal_session res" where
  "svc_get_session fl i t =
     (case session_get_by_id fl i t of Inl _ \<Rightarrow> fail CodeNotFound ''terminal session not found'' | Inr s \<Rightarrow> Inr s)"

text \<open>\<open>sessions[start:end]\<close> after the clamping of both ends.\<close>

definition page_of :: "int \<Rightarrow> int \<Rightarrow> 'a list \<Rightarrow> 'a list option" where
  "page_of offset limit xs =
     (let n = int (length xs);
          start = (if n < offset then n else offset);
          stop = int64 (start + limit);
          stop' = (if n < stop then n else stop) in
      if 0 \<le> start \<and> start \<le> stop' then Some (take (nat (stop' - start)) (drop (nat start) xs)) else None)"

text \<open>\<open>ListByUser\<close>; \<open>ListAll\<close> repeats its code for user 0.\<close>

definition svc_list_sessions :: "faults \<Rightarrow> nat \<Rightarrow> int \<Rightarrow> int \<Rightarrow> session_table \<Rightarrow> (session_meta list \<times> int) res option" where
  "svc_list_sessions fl uid offset limit t =
     (case session_list_by_user fl uid t of
        Inl _ \<Rightarrow> Some (fail CodeInternal ''failed to list terminal sessions'')
      | Inr ss \<Rightarrow> map_option (\<lambda>page. Inr (map to_session_meta page, int (length ss))) (page_of offset limit ss))"

definition svc_list_all_sessions :: "faults \<Rightarrow> int \<Rightarrow> int \<Rightarrow> session_table \<Rightarrow> (session_meta list \<times> int) res option" where
  "svc_list_all_sessions fl offset limit t = svc_list_sessions fl 0 offset limit t"

definition svc_purge_expired :: "faults \<Rightarrow> gotime \<Rightarrow> session_table \<Rightarrow> (session_table \<times> nat) res" where
  "svc_purge_expired fl now t =
     (case repo_purge_expired fl now t of Inl _ \<Rightarrow> fail CodeInternal ''failed to purge expired sessions'' | Inr r \<Rightarrow> Inr r)"

section \<open>The handlers\<close>

text \<open>What the handlers read of a request: who asks, the path parameter, the query parameters that are present.\<close>

record session_request =
  sr_auth :: auth_result
  sr_id :: string
  sr_offset :: "string option"
  sr_limit :: "string option"
  sr_request :: "string option"

definition query_or :: "string option \<Rightarrow> string \<Rightarrow> string" where
  "query_or q d = (case q of Some v \<Rightarrow> v | None \<Rightarrow> d)"

definition page_limit :: "session_request \<Rightarrow> int" where
  "page_limit rq =
     (let n = fst (atoi (query_or (sr_limit rq) ''50'')) in if n \<le> 0 \<or> 200 < n then 50 else n)"

definition page_offset :: "session_request \<Rightarrow> int" where
  "page_offset rq = fst (atoi (query_or (sr_offset rq) ''0''))"

definition handle_session_list :: "faults \<Rightarrow> session_request \<Rightarrow> session_table \<Rightarrow> session_meta list response option" where
  "handle_session_list fl rq t =
     (let found =
        (if ctx_user_role (sr_auth rq) = ''admin'' then svc_list_all_sessions fl (page_offset rq) (page_limit rq) t
         else svc_list_sessions fl (ctx_user_id (sr_auth rq)) (page_offset rq) (page_limit rq) t) in
      map_option (\<lambda>r. case r of
          Inl e \<Rightarrow> respond_error (sr_request rq) e
        | Inr (ms, n) \<Rightarrow> resp_success_with_meta ms (total_meta n)) found)"

definition handle_session_get :: "faults \<Rightarrow> session_request \<Rightarrow> session_table \<Rightarrow> session_meta response" where
  "handle_session_get fl rq t =
     (case parse_uint (sr_id rq) of
        None \<Rightarrow> resp_error (sr_request rq) CodeParamInvalid ''invalid session id''
      | Some i \<Rightarrow>
          (case svc_get_session fl i t of
             Inl e \<Rightarrow> respond_error (sr_request rq) e
           | Inr s \<Rightarrow> resp_success (to_session_meta s)))"

record playback =
  pb_id :: nat
  pb_recording :: string
  pb_duration :: int

definition handle_session_play :: "faults \<Rightarrow> session_request \<Rightarrow> session_table \<Rightarrow> playback response" where
  "handle_session_play fl rq t =
     (case parse_uint (sr_id rq) of
        None \<Rightarrow> resp_error (sr_request rq) CodeParamInvalid ''invalid session id''
      | Some i \<Rightarrow>
          (case svc_get_session fl i t of
             Inl e \<Rightarrow> respond_error (sr_request rq) e
           | Inr s \<Rightarrow> resp_success \<lparr>pb_id = se_id s, pb_recording = se_recording s, pb_duration = se_duration s\<rparr>))"

section \<open>Paging\<close>

lemma page_of_in_range:
  assumes "0 \<le> offset" "0 \<le> limit" "offset + limit < 2 ^ 63"
  shows "page_of offset limit xs = Some (take (nat limit) (drop (nat offset) xs))"
proof (cases "int (length xs) < offset")
  case True
  moreover from this assms have "int64 (int (length xs) + limit) = int (length xs) + limit" by (intro int64_id) auto
  ultimately show ?thesis using assms by (auto simp: page_of_def Let_def)
next
  case False
  moreover from assms have "int64 (offset + limit) = offset + limit" by (intro int64_id) auto
  moreover have "nat (int (length xs) - offset) = length xs - nat offset" using False assms by linarith
  ultimately show ?thesis using assms by (auto simp: page_of_def Let_def)
qed

lemma page_of_negative: "offset < 0 \<Longrightarrow> page_of offset limit xs = None"
  by (simp add: page_of_def Let_def)

lemma concat_pages: "concat (map (\<lambda>k. take l (drop (k * l) xs)) [0..<m]) = take (m * l) xs"
proof (induction m)
  case (Suc m)
  have "take (m * l) xs @ take l (drop (m * l) xs) = take (m * l + l) xs" by (simp add: take_add)
  with Suc show ?case by (simp add: add.commute)
qed simp

lemma list_by_user_Inr:
  "\<not> fl DbList \<Longrightarrow> session_list_by_user fl uid t =
     Inr (map (\<lambda>s. s\<lparr>se_recording := []\<rparr>) (sort_key (\<lambda>s. - se_created s) (filter (\<lambda>s. uid \<noteq> 0 \<longrightarrow> se_user s = uid) (rows t))))"
  by (simp add: session_list_by_user_def find_where_def)

lemma meta_without_recording [simp]: "to_session_meta (s\<lparr>se_recording := r\<rparr>) = to_session_meta s"
  by (simp add: to_session_meta_def)

text \<open>What a user gets to see, newest first.\<close>

definition visible_metas :: "nat \<Rightarrow> session_table \<Rightarrow> session_meta list" where
  "visible_metas uid t =
     map to_session_meta (sort_key (\<lambda>s. - se_created s) (filter (\<lambda>s. uid \<noteq> 0 \<longrightarrow> se_user s = uid) (rows t)))"

lemma list_sessions_page:
  assumes "\<not> fl DbList" "0 \<le> offset" "0 \<le> limit" "offset + limit < 2 ^ 63"
  shows "svc_list_sessions fl uid offset limit t =
    Some (Inr (take (nat limit) (drop (nat offset) (visible_metas uid t)), int (length (visible_metas uid t))))"
  using assms by (simp add: svc_list_sessions_def list_by_user_Inr page_of_in_range visible_metas_def take_map drop_map comp_def)

lemma list_sessions_visible:
  assumes "svc_list_sessions fl uid offset limit t = Some (Inr (ms, n))"
  shows "set ms \<subseteq> set (visible_metas uid t)"
proof -
  from assms have fl: "\<not> fl DbList" by (auto simp: svc_list_sessions_def session_list_by_user_def find_where_def split: if_splits)
  from assms obtain page where p: "page_of offset limit (map (\<lambda>s. s\<lparr>se_recording := []\<rparr>)
      (sort_key (\<lambda>s. - se_created s) (filter (\<lambda>s. uid \<noteq> 0 \<longrightarrow> se_user s = uid) (rows t)))) = Some page" "ms = map to_session_meta page"
    using list_by_user_Inr [where fl = fl, OF fl] by (auto simp: svc_list_sessions_def)
  have "set page \<subseteq> set xs" if "page_of offset limit xs = Some page" for xs :: "terminal_session list"
    using that by (auto simp: page_of_def Let_def split: if_splits dest!: in_set_takeD in_set_dropD)
  from this [OF p(1)] p(2) show ?thesis by (auto simp: visible_metas_def)
qed

lemma visible_metas_owner: "uid \<noteq> 0 \<Longrightarrow> m \<in> set (visible_metas uid t) \<Longrightarrow> sm_user m = uid"
  by (auto simp: visible_metas_def to_session_meta_def)

lemma mset_visible_metas:
  "uid \<noteq> 0 \<Longrightarrow> mset (visible_metas uid t) = image_mset to_session_meta (filter_mset (\<lambda>s. se_user s = uid) (mset (rows t)))"
  by (simp add: visible_metas_def flip: mset_filter)

lemma sorted_visible_metas: "sorted_wrt (\<lambda>a b. sm_created b \<le> sm_created a) (visible_metas uid t)"
proof -
  have "sorted (map (\<lambda>s. - se_created s) (sort_key (\<lambda>s. - se_created s) xs))" for xs by (rule sorted_sort_key)
  then show ?thesis by (simp add: visible_metas_def sorted_wrt_map to_session_meta_def)
qed

text \<open>
  The listing of a user's own sessions is private and complete: the successive pages of any size, put
  together, are exactly the sessions of that user, each once and newest first.
\<close>

theorem session_pages_are_own_sessions:
  assumes "\<not> fl DbList" "uid \<noteq> 0" "0 < l" "length (rows t) \<le> m * l" "int (m * l) < 2 ^ 62"
  shows "\<exists>pages total. (\<forall>k < m. svc_list_sessions fl uid (int (k * l)) (int l) t = Some (Inr (pages k, total))) \<and>
    mset (concat (map pages [0..<m])) = image_mset to_session_meta (filter_mset (\<lambda>s. se_user s = uid) (mset (rows t))) \<and>
    sorted_wrt (\<lambda>a b. sm_created b \<le> sm_created a) (concat (map pages [0..<m]))"
proof (intro exI conjI allI impI)
  let ?v = "visible_metas uid t"
  let ?pages = "\<lambda>k. take l (drop (k * l) ?v)"
  have len: "length ?v \<le> m * l"
    using assms(4) le_trans [OF length_filter_le] by (simp add: visible_metas_def del: length_filter_le)
  show "svc_list_sessions fl uid (int (k * l)) (int l) t = Some (Inr (?pages k, int (length ?v)))" if "k < m" for k
  proof -
    from that have "Suc k * l \<le> m * l" by (intro mult_le_mono1) simp
    then have "int (k * l) + int l \<le> int (m * l)" by (simp flip: of_nat_add of_nat_mult)
    with assms(5) have "int (k * l) + int l < 2 ^ 63" by simp
    from list_sessions_page [where fl = fl, OF assms(1) _ _ this, of uid t] show ?thesis by (simp add: nat_mult_distrib)
  qed
  have whole: "concat (map ?pages [0..<m]) = ?v" using len by (simp only: concat_pages take_all)
  show "mset (concat (map ?pages [0..<m])) = image_mset to_session_meta (filter_mset (\<lambda>s. se_user s = uid) (mset (rows t)))"
    unfolding whole by (rule mset_visible_metas [OF assms(2)])
  show "sorted_wrt (\<lambda>a b. sm_created b \<le> sm_created a) (concat (map ?pages [0..<m]))"
    unfolding whole by (rule sorted_visible_metas)
qed

lemma listed_to_others_only_own:
  assumes "handle_session_list fl rq t = Some r" "resp_data r = Some ms" "m \<in> set ms"
    "sr_auth rq = Authenticated uid name rl" "rl \<noteq> ''admin''" "uid \<noteq> 0"
  shows "sm_user m = uid"
proof -
  from assms(1,4,5) obtain z where z: "svc_list_sessions fl uid (page_offset rq) (page_limit rq) t = Some z"
    "r = (case z of Inl e \<Rightarrow> respond_error (sr_request rq) e | Inr (ms, n) \<Rightarrow> resp_success_with_meta ms (total_meta n))"
    by (auto simp: handle_session_list_def ctx_user_role_def ctx_user_id_def)
  from assms(2) z(2) obtain n where "z = Inr (ms, n)"
    by (cases z) (auto simp: respond_error_def resp_error_def resp_error_with_biz_def resp_success_with_meta_def split: go_error.splits)
  with list_sessions_visible visible_metas_owner z(1) assms(3,6) show ?thesis by blast
qed

lemma page_limit_bounds: "1 \<le> page_limit rq \<and> page_limit rq \<le> 200"
  by (simp add: page_limit_def Let_def)

section \<open>Life of a recording\<close>

lemma session_lookup_new:
  assumes "table_ok se_id t" "session_create fl now s t = Inr (t', s')"
  shows "find (\<lambda>x. se_id x = Suc (seq t)) (rows t') = Some s' \<and> s' = s\<lparr>se_id := Suc (seq t), se_created := now\<rparr>"
proof -
  from assms(2) have t': "s' = s\<lparr>se_id := Suc (seq t), se_created := now\<rparr>" "rows t' = rows t @ [s']"
    by (auto simp: session_create_def create_row_Inr)
  from assms(1) have "find (\<lambda>x. se_id x = Suc (seq t)) (rows t) = None"
    by (fastforce simp: table_ok_def find_None_iff)
  with t' show ?thesis by (simp add: find_append)
qed

lemma find_filter_keeps: "find p xs = Some x \<Longrightarrow> q x \<Longrightarrow> find p (filter q xs) = Some x"
  by (induction xs) (auto split: if_splits)

lemma find_filter_drops: "distinct (map k xs) \<Longrightarrow> find (\<lambda>y. k y = i) xs = Some x \<Longrightarrow> \<not> q x \<Longrightarrow> find (\<lambda>y. k y = i) (filter q xs) = None"
proof -
  assume "distinct (map k xs)" "find (\<lambda>y. k y = i) xs = Some x" "\<not> q x"
  moreover from this(2) have "x \<in> set xs" "k x = i" by (auto dest: find_SomeD)
  ultimately have "y = x" if "y \<in> set xs" "k y = i" for y using that by (auto simp: distinct_map dest: inj_onD)
  with \<open>\<not> q x\<close> show ?thesis by (auto simp: find_None_iff)
qed

text \<open>
  A recording that is saved without an expiry of its own can be played back, whole, for thirty days: a
  purge up to that instant leaves it alone, and the first purge after it removes it.
\<close>

theorem recording_lives_thirty_days:
  assumes "table_ok se_id t" "se_expires s = 0" "save_session fl now s t = Inr t'"
    "svc_purge_expired fl' later t' = Inr (t'', n)" "\<not> fl2 DbGet" "parse_uint (sr_id rq) = Some (Suc (seq t))"
  shows "handle_session_play fl2 rq t' =
      resp_success \<lparr>pb_id = Suc (seq t), pb_recording = se_recording s, pb_duration = se_duration s\<rparr> \<and>
    handle_session_play fl2 rq t'' =
      (if later \<le> now + 30 * 24 * hour
       then resp_success \<lparr>pb_id = Suc (seq t), pb_recording = se_recording s, pb_duration = se_duration s\<rparr>
       else resp_error (sr_request rq) CodeNotFound ''terminal session not found'')"
proof -
  let ?s = "s\<lparr>se_expires := now + 30 * 24 * hour\<rparr>"
  from assms(2,3) obtain s' where c: "session_create fl now ?s t = Inr (t', s')"
    by (auto simp: save_session_def split: sum.splits)
  note new = session_lookup_new [OF assms(1) c]
  have ok: "table_ok se_id t'" using c assms(1) unfolding session_create_def by (rule table_ok_create [rotated 2]) simp
  from assms(4) have t'': "rows t'' = filter (\<lambda>s. \<not> se_expires s < later) (rows t')"
    by (auto simp: svc_purge_expired_def repo_purge_expired_def delete_where_def split: if_splits)
  have "find (\<lambda>x. se_id x = Suc (seq t)) (rows t'') = (if later \<le> now + 30 * 24 * hour then Some s' else None)"
    using new ok find_filter_keeps [of "\<lambda>x. se_id x = Suc (seq t)" "rows t'" s' "\<lambda>s. \<not> se_expires s < later"]
      find_filter_drops [of se_id "rows t'" "Suc (seq t)" s' "\<lambda>s. \<not> se_expires s < later"]
    unfolding t'' table_ok_def by auto
  with new assms(5,6) show ?thesis
    by (simp add: handle_session_play_def svc_get_session_def session_get_by_id_def first_where_def respond_error_def
        resp_error_def resp_error_with_biz_def biz_new_def)
qed

section \<open>Behaviours worth knowing, and witnesses\<close>

text \<open>A negative offset is not refused: the slice panics.\<close>

lemma negative_offset_panics:
  assumes "\<not> fl DbList" "page_offset rq < 0"
  shows "handle_session_list fl rq t = None"
  using list_by_user_Inr [where fl = fl, OF assms(1)] assms(2)
  by (simp add: handle_session_list_def svc_list_all_sessions_def svc_list_sessions_def page_of_negative)

text \<open>A user who does not see a session in the listing can still fetch and play it by its key.\<close>

lemma playback_ignores_the_caller:
  "handle_session_get fl (rq\<lparr>sr_auth := a\<rparr>) t = handle_session_get fl rq t"
  "handle_session_play fl (rq\<lparr>sr_auth := a\<rparr>) t = handle_session_play fl rq t"
  by (cases "parse_uint (sr_id rq)"; cases "svc_get_session fl (the (parse_uint (sr_id rq))) t"; simp add: handle_session_get_def handle_session_play_def)+

definition demo_session :: "nat \<Rightarrow> nat \<Rightarrow> gotime \<Rightarrow> terminal_session" where
  "demo_session i u c =
     \<lparr>se_id = i, se_created = c, se_user = u, se_cluster = ''prod'', se_namespace = ''web'', se_pod = ''api-0'',
      se_container = [], se_recording = ''ls'', se_duration = 5, se_expires = 0\<rparr>"

definition demo_sessions :: session_table where
  "demo_sessions = \<lparr>rows = [demo_session 1 7 10, demo_session 2 8 20, demo_session 3 7 30], seq = 3\<rparr>"

definition demo_play :: session_request where
  "demo_play = \<lparr>sr_auth = Authenticated 7 ''eve'' ''viewer'', sr_id = ''4'', sr_offset = None, sr_limit = None, sr_request = None\<rparr>"

theorem session_pages_are_own_sessions_witness:
  "\<exists>pages total. (\<forall>k < 3. svc_list_sessions no_faults 7 (int (k * 1)) (int 1) demo_sessions = Some (Inr (pages k, total))) \<and>
    mset (concat (map pages [0..<3])) = image_mset to_session_meta (filter_mset (\<lambda>s. se_user s = 7) (mset (rows demo_sessions))) \<and>
    sorted_wrt (\<lambda>a b. sm_created b \<le> sm_created a) (concat (map pages [0..<3]))"
  by (rule session_pages_are_own_sessions) (simp_all add: demo_sessions_def)

theorem recording_lives_thirty_days_witness:
  "\<exists>t' t'' n. save_session no_faults 100 (demo_session 0 7 0) demo_sessions = Inr t' \<and>
    svc_purge_expired no_faults 200 t' = Inr (t'', n) \<and>
    handle_session_play no_faults demo_play t'' = resp_success \<lparr>pb_id = 4, pb_recording = ''ls'', pb_duration = 5\<rparr>"
proof -
  have ok: "table_ok se_id demo_sessions" by (simp add: table_ok_def demo_sessions_def demo_session_def)
  obtain t' where t': "save_session no_faults 100 (demo_session 0 7 0) demo_sessions = Inr t'"
    by (simp add: save_session_def session_create_def create_row_def Let_def list_ex_iff)
  obtain t'' n where t'': "svc_purge_expired no_faults 200 t' = Inr (t'', n)"
    by (simp add: svc_purge_expired_def repo_purge_expired_def delete_where_def)
  have i: "parse_uint (sr_id demo_play) = Some (Suc (seq demo_sessions))"
    by (simp add: parse_uint_def demo_play_def demo_sessions_def)
  have h: "(200::int) \<le> 100 + 30 * 24 * hour" by (simp add: duration_defs)
  from recording_lives_thirty_days [where fl = no_faults and fl' = no_faults and ?fl2.0 = no_faults, OF ok _ t' t'' _ i] h
  have "handle_session_play no_faults demo_play t'' = resp_success \<lparr>pb_id = 4, pb_recording = ''ls'', pb_duration = 5\<rparr>"
    by (simp add: demo_session_def demo_sessions_def)
  with t' t'' show ?thesis by blast
qed

end
