(* ===== verification/Terminals.thy ===== *)
theory Terminals
  imports Terminal_Sessions
begin

text \<open>
  The WebSocket endpoints of a pod: the interactive terminal (\<open>handler/ws/terminal.go\<close>) and the log
  stream (\<open>handler/ws/logs.go\<close>). First what is decided before the connection is upgraded; then the life
  of a terminal session, whose goroutines (the remote command that writes output, the reader of the
  browser's messages, the handler that tears the session down) interleave, as a step relation; then the
  log stream, line by line. The Kubernetes client, the exec protocol and the WebSocket library are
  outside: what they deliver is the input of the definitions.
\<close>

section \<open>Admission\<close>

text \<open>The reasons for a refusal, with the error of the call that failed where there is one.\<close>

datatype refusal =
    MissingTicket
  | BadTicket
  | UnknownUser go_error
  | AccountDisabled
  | PermissionDenied
  | ClusterNotFound go_error
  | ClusterUnavailable go_error
  | NoClient string

record ('tok, 'cfg, 'dyn) ws_env =
  we_jwt :: "'tok jwt_manager"
  we_now :: gotime
  we_user_faults :: faults
  we_users :: user_table
  we_roles :: "(faults \<times> role_table) option"
  we_cluster_faults :: faults
  we_state :: "('cfg, 'dyn) cluster_state"

text \<open>\<open>authenticateTicket\<close>, the same code in both handlers: the id of the ticket and the role the account has now.\<close>

definition authenticate_ticket :: "('tok, 'cfg, 'dyn) ws_env \<Rightarrow> 'tok \<Rightarrow> refusal + (nat \<times> string)" where
  "authenticate_ticket env tok =
     (case parse_web_socket_ticket (we_jwt env) (we_now env) tok of
        None \<Rightarrow> Inl BadTicket
      | Some uid \<Rightarrow>
          (case user_get_by_id (we_user_faults env) uid (we_users env) of
             Inl e \<Rightarrow> Inl (UnknownUser e)
           | Inr u \<Rightarrow> if \<not> u_is_active u then Inl AccountDisabled else Inr (uid, u_role u)))"

text \<open>The role repository may be missing, in which case nothing is checked.\<close>

definition ws_permitted :: "('tok, 'cfg, 'dyn) ws_env \<Rightarrow> string \<Rightarrow> string \<Rightarrow> string \<Rightarrow> bool" where
  "ws_permitted env rl rsrc act =
     (case we_roles env of
        None \<Rightarrow> True
      | Some (fl, roles) \<Rightarrow> check_ws_permission fl roles rl rsrc act = None)"

definition resolve_ws_cluster :: "faults \<Rightarrow> string \<Rightarrow> cluster_table \<Rightarrow> string res" where
  "resolve_ws_cluster fl s t =
     (case parse_uint s of
        Some i \<Rightarrow> (case cluster_get_by_id fl i t of Inl e \<Rightarrow> Inl e | Inr c \<Rightarrow> Inr (c_name c))
      | None \<Rightarrow> (case cluster_get_by_name fl s t of Inl e \<Rightarrow> Inl e | Inr c \<Rightarrow> Inr (c_name c)))"

text \<open>The checks both handlers start with; an absent ticket is \<open>None\<close>.\<close>

definition ws_admit :: "('tok, 'cfg, 'dyn) ws_env \<Rightarrow> string \<Rightarrow> string \<Rightarrow> 'tok option \<Rightarrow> refusal + nat" where
  "ws_admit env rsrc act ticket =
     (case ticket of
        None \<Rightarrow> Inl MissingTicket
      | Some tok \<Rightarrow>
          (case authenticate_ticket env tok of
             Inl r \<Rightarrow> Inl r
           | Inr (uid, rl) \<Rightarrow> if ws_permitted env rl rsrc act then Inr uid else Inl PermissionDenied))"

definition resolve_cluster_config :: "('tok, 'cfg, 'dyn) ws_env \<Rightarrow> string \<Rightarrow> refusal + (string \<times> 'cfg)" where
  "resolve_cluster_config env s =
     (case resolve_ws_cluster (we_cluster_faults env) s (cs_table (we_state env)) of
        Inl e \<Rightarrow> Inl (ClusterNotFound e)
      | Inr n \<Rightarrow>
          (case cm_rest_config n (cs_conns (we_state env)) of
             Inl e \<Rightarrow> Inl (ClusterUnavailable e)
           | Inr cfg \<Rightarrow> Inr (n, cfg)))"

text \<open>
  The checks of \<open>HandleExec\<close>. The name of the cluster is read a second time for the recording (\<open>again\<close>
  are the faults of that statement); when that fails the recording has no cluster name.
\<close>

definition exec_admit :: "('tok, 'cfg, 'dyn) ws_env \<Rightarrow> faults \<Rightarrow> 'tok option \<Rightarrow> string \<Rightarrow> refusal + (nat \<times> 'cfg \<times> string)" where
  "exec_admit env again ticket cl =
     (case ws_admit env ''pods'' ''exec'' ticket of
        Inl r \<Rightarrow> Inl r
      | Inr uid \<Rightarrow>
          (case resolve_cluster_config env cl of
             Inl r \<Rightarrow> Inl r
           | Inr (_, cfg) \<Rightarrow>
               Inr (uid, cfg, case resolve_ws_cluster again cl (cs_table (we_state env)) of Inl _ \<Rightarrow> [] | Inr n \<Rightarrow> n)))"

text \<open>The checks of \<open>HandleLogs\<close>; \<open>client\<close> is \<open>kubernetes.NewForConfig\<close>.\<close>

definition logs_admit ::
  "('tok, 'cfg, 'dyn) ws_env \<Rightarrow> ('cfg \<Rightarrow> string + 'cs) \<Rightarrow> 'tok option \<Rightarrow> string \<Rightarrow> refusal + 'cs" where
  "logs_admit env client ticket cl =
     (case ws_admit env ''pods'' ''list'' ticket of
        Inl r \<Rightarrow> Inl r
      | Inr _ \<Rightarrow>
          (case resolve_cluster_config env cl of
             Inl r \<Rightarrow> Inl r
           | Inr (_, cfg) \<Rightarrow>
               (case client cfg of
                  Inl e \<Rightarrow> Inl (NoClient (''create kubernetes clientset: '' @ e))
                | Inr cs \<Rightarrow> Inr cs)))"

text \<open>The HTTP status of a refusal: always 400 for the terminal.\<close>

definition exec_status :: "refusal \<Rightarrow> int" where
  "exec_status r = 400"

definition logs_status :: "refusal \<Rightarrow> int" where
  "logs_status r =
     (case r of
        MissingTicket \<Rightarrow> 400
      | BadTicket \<Rightarrow> 401 | UnknownUser _ \<Rightarrow> 401 | AccountDisabled \<Rightarrow> 401
      | PermissionDenied \<Rightarrow> 403
      | ClusterNotFound _ \<Rightarrow> 404 | ClusterUnavailable _ \<Rightarrow> 404
      | NoClient _ \<Rightarrow> 500)"

section \<open>The shell\<close>

definition shell_candidates :: "string list" where
  "shell_candidates = [''/bin/bash'', ''/bin/sh'', ''bash'', ''sh'']"

text \<open>\<open>probe sh\<close>: a session can be made and \<open>sh -c true\<close> exits successfully in the container.\<close>

definition detect_shell :: "(string \<Rightarrow> bool) \<Rightarrow> string" where
  "detect_shell probe = (case find probe shell_candidates of Some s \<Rightarrow> s | None \<Rightarrow> [])"

datatype term_type = TermInput | TermOutput | TermResize | TermError | TermClose

type_synonym frame = "term_type \<times> string"

definition detecting :: frame where
  "detecting = (TermOutput, CHR 0x1B # ''[90mDetecting available shell...'' @ CHR 0x1B # ''[0m'' @ [CHR 0x0D, CHR 0x0A])"

definition session_ended :: frame where "session_ended = (TermClose, ''session ended'')"

text \<open>The dash of the message is the three bytes of its UTF-8 form.\<close>

definition no_shell :: frame where
  "no_shell = (TermError, ''no shell found in container (tried /bin/bash, /bin/sh, bash, sh) '' @
     [CHR 0xE2, CHR 0x80, CHR 0x94] @ '' this container may be distroless'')"

text \<open>The shell to run, or none, and what the browser has been sent meanwhile.\<close>

definition choose_shell :: "string \<Rightarrow> (string \<Rightarrow> bool) \<Rightarrow> frame list \<times> string option" where
  "choose_shell wanted probe =
     (if wanted \<noteq> [] then ([], Some wanted)
      else let s = detect_shell probe in
        if s = [] then ([detecting, no_shell, session_ended], None) else ([detecting], Some s))"

text \<open>The start of a session: the shell, then the exec client (\<open>client\<close> is the error of making it).\<close>

definition open_terminal :: "string \<Rightarrow> (string \<Rightarrow> bool) \<Rightarrow> string option \<Rightarrow> frame list \<times> string option" where
  "open_terminal wanted probe client =
     (case choose_shell wanted probe of
        (fs, None) \<Rightarrow> (fs, None)
      | (fs, Some sh) \<Rightarrow>
          (case client of
             Some e \<Rightarrow> (fs @ [(TermError, ''failed to create exec session: '' @ e)], None)
           | None \<Rightarrow> (fs, Some sh)))"

section \<open>A terminal session\<close>

text \<open>
  The stages of the handler: the command runs; it has ended; then the deferred calls, last first: the
  stdin pipe is closed, the size queue is closed, the context is cancelled, the connection is closed.
\<close>

datatype stage = Running | Ended | PipeClosed | QueueClosed | Cancelled | Finished

definition size_queue_size :: nat where "size_queue_size = 16"

record term_state =
  tm_stage :: stage
  tm_frames :: "frame list"
  tm_record :: "(duration \<times> string) list"
  tm_stdin :: "string list"
  tm_sizes :: "(int \<times> int) list"
  tm_ctx :: bool
  tm_reader :: bool
  tm_saved :: "(duration \<times> string) list option"
  tm_panic :: bool

definition term_start :: "frame list \<Rightarrow> term_state" where
  "term_start fs =
     \<lparr>tm_stage = Running, tm_frames = fs, tm_record = [], tm_stdin = [], tm_sizes = [], tm_ctx = True,
      tm_reader = True, tm_saved = None, tm_panic = False\<rparr>"

text \<open>
  \<open>recordingWriter.Write\<close>. The chunk is sent first; only what was sent is recorded. \<open>sent\<close>: whether the
  library could write it. The result is the number of bytes and whether there was no error.
\<close>

definition write_output :: "duration \<Rightarrow> bool \<Rightarrow> string \<Rightarrow> term_state \<Rightarrow> term_state \<times> nat \<times> bool" where
  "write_output elapsed sent p s =
     (if p = [] then (s, 0, True)
      else if \<not> sent then (s, 0, False)
      else (s\<lparr>tm_frames := tm_frames s @ [(TermOutput, p)], tm_record := tm_record s @ [(elapsed, p)]\<rparr>, length p, True))"

text \<open>\<open>push\<close>: dropped when the queue is full; sending on a closed channel panics.\<close>

definition push_size :: "int \<times> int \<Rightarrow> term_state \<Rightarrow> term_state" where
  "push_size sz s =
     (if tm_stage s \<in> {QueueClosed, Cancelled, Finished} then s\<lparr>tm_panic := True, tm_reader := False\<rparr>
      else if length (tm_sizes s) < size_queue_size then s\<lparr>tm_sizes := tm_sizes s @ [sz]\<rparr>
      else s)"

text \<open>The messages of the browser; what is not JSON goes to the command as it is.\<close>

datatype browser_message = RawBytes string | InputMsg string | ResizeMsg int int | OtherMsg

definition write_stdin :: "string \<Rightarrow> term_state \<Rightarrow> term_state" where
  "write_stdin p s = (if tm_stage s \<in> {Running, Ended} then s\<lparr>tm_stdin := tm_stdin s @ [p]\<rparr> else s)"

definition handle_browser :: "browser_message \<Rightarrow> term_state \<Rightarrow> term_state" where
  "handle_browser m s =
     (case m of
        RawBytes p \<Rightarrow> write_stdin p s
      | InputMsg p \<Rightarrow> write_stdin p s
      | ResizeMsg cols rws \<Rightarrow> if 0 < cols \<and> 0 < rws then push_size (cols, rws) s else s
      | OtherMsg \<Rightarrow> s)"

text \<open>The text of a recording: the header, then a line per chunk; \<open>event\<close> is the JSON of one chunk.\<close>

definition recording_header :: "int \<Rightarrow> string \<Rightarrow> string \<Rightarrow> string" where
  "recording_header unix ns pod =
     ''{\"version\":2,\"width\":220,\"height\":50,\"timestamp\":'' @ dec_int unix @ '',\"title\":\"'' @ ns @ ''/'' @ pod @ ''\"}''"

definition recording_text :: "(duration \<Rightarrow> string \<Rightarrow> string) \<Rightarrow> string \<Rightarrow> (duration \<times> string) list \<Rightarrow> string" where
  "recording_text event header cs =
     header @ [CHR 0x0A] @ concat (map (\<lambda>(d, p). event d p @ [CHR 0x0A]) cs)"

definition recorded_session :: "nat \<Rightarrow> string \<Rightarrow> string \<Rightarrow> string \<Rightarrow> string \<Rightarrow> string \<Rightarrow> duration \<Rightarrow> terminal_session" where
  "recorded_session uid cl ns pod cont text dur =
     \<lparr>se_id = 0, se_created = 0, se_user = uid, se_cluster = cl, se_namespace = ns, se_pod = pod, se_container = cont,
      se_recording = text, se_duration = dur div millisecond, se_expires = 0\<rparr>"

text \<open>
  After \<open>Exec\<close> returns: an error is shown unless the context was cancelled, the session is closed, and
  the recording (which always holds its header) is handed to the service when there is one.
\<close>

definition exec_returned :: "bool \<Rightarrow> string option \<Rightarrow> term_state \<Rightarrow> term_state" where
  "exec_returned recording err s =
     s\<lparr>tm_stage := Ended,
       tm_frames := tm_frames s @ (case err of Some e \<Rightarrow> if tm_ctx s then [(TermError, e)] else [] | None \<Rightarrow> []) @ [session_ended],
       tm_saved := (if recording then Some (tm_record s) else None)\<rparr>"

text \<open>
  The interleaving. The reader may still hold a message it has read when the connection is closed, and
  the exec library may still ask for a size when the command has ended; a panic ends the process.
\<close>

inductive term_step :: "bool \<Rightarrow> term_state \<Rightarrow> term_state \<Rightarrow> bool" for recording where
  chunk: "tm_stage s = Running \<Longrightarrow> term_step recording s (fst (write_output elapsed sent p s))"
| browser: "tm_reader s \<Longrightarrow> term_step recording s (handle_browser m s)"
| next_size: "tm_sizes s = sz # szs \<Longrightarrow> term_step recording s (s\<lparr>tm_sizes := szs\<rparr>)"
| reader_ends: "tm_reader s \<Longrightarrow> term_step recording s (s\<lparr>tm_reader := False, tm_ctx := False\<rparr>)"
| returned: "tm_stage s = Running \<Longrightarrow> term_step recording s (exec_returned recording err s)"
| close_pipe: "tm_stage s = Ended \<Longrightarrow> term_step recording s (s\<lparr>tm_stage := PipeClosed\<rparr>)"
| close_queue: "tm_stage s = PipeClosed \<Longrightarrow> term_step recording s (s\<lparr>tm_stage := QueueClosed\<rparr>)"
| cancel: "tm_stage s = QueueClosed \<Longrightarrow> term_step recording s (s\<lparr>tm_stage := Cancelled, tm_ctx := False\<rparr>)"
| close_conn: "tm_stage s = Cancelled \<Longrightarrow> term_step recording s (s\<lparr>tm_stage := Finished\<rparr>)"

inductive term_reachable :: "bool \<Rightarrow> frame list \<Rightarrow> term_state \<Rightarrow> bool" for recording fs where
  start: "term_reachable recording fs (term_start fs)"
| step: "term_reachable recording fs s \<Longrightarrow> \<not> tm_panic s \<Longrightarrow> term_step recording s s' \<Longrightarrow> term_reachable recording fs s'"

section \<open>What a session shows and records\<close>

definition recorded_chunks :: "term_state \<Rightarrow> frame list" where
  "recorded_chunks s = map (\<lambda>(_, p). (TermOutput, p)) (tm_record s)"

text \<open>
  The frames are those sent before the session, then the recorded output, then at most an error and the
  end; the queue is bounded; nothing is saved before the end.
\<close>

definition term_ok :: "frame list \<Rightarrow> term_state \<Rightarrow> bool" where
  "term_ok fs s \<longleftrightarrow>
     (\<exists>closing. tm_frames s = fs @ recorded_chunks s @ closing \<and>
        (if tm_stage s = Running then closing = [] else \<exists>errs. closing = errs @ [session_ended] \<and> (\<forall>f \<in> set errs. fst f = TermError))) \<and>
     (\<forall>(_, p) \<in> set (tm_record s). p \<noteq> []) \<and>
     length (tm_sizes s) \<le> size_queue_size \<and>
     (tm_saved s \<noteq> None \<longrightarrow> tm_stage s \<noteq> Running \<and> tm_saved s = Some (tm_record s)) \<and>
     (tm_panic s \<longrightarrow> tm_stage s \<in> {QueueClosed, Cancelled, Finished})"

lemma term_ok_start: "term_ok fs (term_start fs)"
  by (simp add: term_ok_def term_start_def recorded_chunks_def)

lemma handle_browser_frame [simp]:
  "tm_stage (handle_browser m s) = tm_stage s" "tm_frames (handle_browser m s) = tm_frames s"
  "tm_record (handle_browser m s) = tm_record s" "tm_saved (handle_browser m s) = tm_saved s"
  by (cases m; auto simp: handle_browser_def write_stdin_def push_size_def)+

lemma handle_browser_bounded:
  "length (tm_sizes s) \<le> size_queue_size \<Longrightarrow> length (tm_sizes (handle_browser m s)) \<le> size_queue_size"
  by (cases m) (auto simp: handle_browser_def write_stdin_def push_size_def)

lemma handle_browser_panic:
  "tm_panic (handle_browser m s) \<Longrightarrow> tm_panic s \<or> tm_stage s \<in> {QueueClosed, Cancelled, Finished}"
  by (cases m) (auto simp: handle_browser_def write_stdin_def push_size_def split: if_splits)

lemma term_ok_step: "term_step recording s s' \<Longrightarrow> term_ok fs s \<Longrightarrow> term_ok fs s'"
proof (induction rule: term_step.induct)
  case (chunk s elapsed sent p)
  then show ?case by (auto simp: term_ok_def write_output_def recorded_chunks_def)
next
  case (browser s m)
  then show ?case using handle_browser_bounded [of s m] handle_browser_panic [of m s]
    by (auto simp: term_ok_def recorded_chunks_def)
next
  case (returned s err)
  have "\<exists>errs. (case err of Some e \<Rightarrow> if tm_ctx s then [(TermError, e)] else [] | None \<Rightarrow> []) @ [session_ended] = errs @ [session_ended] \<and>
      (\<forall>f \<in> set errs. fst f = TermError)" by (auto split: option.split)
  with returned show ?case by (auto simp: term_ok_def exec_returned_def recorded_chunks_def)
qed (auto simp: term_ok_def recorded_chunks_def)

lemma term_reachable_ok: "term_reachable recording fs s \<Longrightarrow> term_ok fs s"
  by (induction rule: term_reachable.induct) (simp_all add: term_ok_start term_ok_step)

section \<open>The log stream\<close>

record log_options =
  lg_container :: string
  lg_follow :: bool
  lg_previous :: bool
  lg_tail :: "int option"
  lg_timestamps :: bool

text \<open>The query parameters; a number of lines that is not a positive integer counts as none.\<close>

definition parse_log_query :: "string \<Rightarrow> string \<Rightarrow> string \<Rightarrow> string \<Rightarrow> string \<Rightarrow> log_options" where
  "parse_log_query container follow previous tail stamps =
     \<lparr>lg_container = container, lg_follow = (follow = ''true''), lg_previous = (previous = ''true''),
      lg_tail = (if tail = [] then None
                 else case parse_int 64 tail of (n, ok) \<Rightarrow> if ok \<and> 0 < n then Some n else None),
      lg_timestamps = (stamps = ''true'')\<rparr>"

definition newline :: char where "newline = CHR 0x0A"

text \<open>
  \<open>bufio.Scanner\<close> over the bytes of the stream, with its buffer of \<open>m\<close> bytes: the lines without their
  line ends, and what is left unread when it gives up on a line that does not fit.
\<close>

definition drop_cr :: "string \<Rightarrow> string" where
  "drop_cr l = (if l \<noteq> [] \<and> last l = CHR 0x0D then butlast l else l)"

function scan_lines :: "nat \<Rightarrow> string \<Rightarrow> string list \<times> string option" where
  "scan_lines m s =
     (if s = [] then ([], None)
      else case cut newline s of
          None \<Rightarrow> if length s < m then ([drop_cr s], None) else ([], Some (drop m s))
        | Some (l, r) \<Rightarrow>
            if length l < m then (let (ls, left) = scan_lines m r in (drop_cr l # ls, left))
            else ([], Some (drop m s)))"
  by pat_completeness auto
termination by (relation "measure (\<lambda>(m, s). length s)") (auto simp: cut_Some_iff)

declare scan_lines.simps [simp del]

definition max_line :: nat where "max_line = 256 * 1024"

datatype log_type = LogLine | LogError | LogClose

definition log_lines :: "string list \<Rightarrow> (log_type \<times> string) list" where
  "log_lines ls = map (Pair LogLine) ls"

text \<open>
  The frames of a log session, and whether the handler returns. \<open>err\<close> is the result of the stream,
  \<open>gone = Some k\<close> says that the client was found gone before line \<open>k\<close>. When the scanner has given up and
  the stream still has bytes, nobody reads the pipe any more: the streaming goroutine blocks on it and
  the handler waits for that goroutine.
\<close>

definition stream_frames :: "nat \<Rightarrow> string \<Rightarrow> string option \<Rightarrow> nat option \<Rightarrow> (log_type \<times> string) list \<times> bool" where
  "stream_frames m s err gone =
     (let (ls, left) = scan_lines m s;
          ended = (case left of
              Some (_ # _) \<Rightarrow> (log_lines ls, False)
            | _ \<Rightarrow> (log_lines ls @ (case err of Some e \<Rightarrow> if gone = None then [(LogError, e)] else [] | None \<Rightarrow> []) @
                     [(LogClose, ''stream ended'')], True)) in
      case gone of
        Some k \<Rightarrow> if k \<le> length ls then (log_lines (take k ls) @ [(LogClose, ''session ended'')], True) else ended
      | None \<Rightarrow> ended)"

text \<open>The lines of a text: what its newlines separate, without an empty rest after the last one.\<close>

definition lines_of :: "string \<Rightarrow> string list" where
  "lines_of s = (let ps = split_on newline s in if last ps = [] then butlast ps else ps)"

lemma split_on_append: "c \<notin> set l \<Longrightarrow> split_on c (l @ c # r) = l # split_on c r"
  by (induction l) auto

lemma split_on_none: "c \<notin> set l \<Longrightarrow> split_on c l = [l]"
  by (induction l) auto

lemma lines_of_cut: "newline \<notin> set l \<Longrightarrow> lines_of (l @ newline # r) = l # lines_of r"
  by (simp add: lines_of_def Let_def split_on_append)

lemma scan_lines_whole:
  "\<forall>l \<in> set (lines_of s). length l < m \<Longrightarrow> scan_lines m s = (map drop_cr (lines_of s), None)"
proof (induction m s rule: scan_lines.induct)
  case (1 m s)
  show ?case
  proof (cases "cut newline s")
    case None
    then have "split_on newline s = [s]" by (simp add: cut_None_iff split_on_none)
    with 1 None show ?thesis by (subst scan_lines.simps) (auto simp: lines_of_def)
  next
    case (Some lr)
    obtain l r where lr: "lr = (l, r)" by (cases lr)
    with Some have s: "s = l @ newline # r" "newline \<notin> set l" by (auto simp: cut_Some_iff)
    then have lines: "lines_of s = l # lines_of r" by (simp add: lines_of_cut)
    with "1.prems" have short: "length l < m" "\<forall>l \<in> set (lines_of r). length l < m" by auto
    from s(1) have ne: "s \<noteq> []" by simp
    from "1.IH" [OF ne Some [unfolded lr] refl short(1,2)] short(1) Some lr ne lines show ?thesis
      by (subst scan_lines.simps) simp
  qed
qed


text \<open>A line that does not fit the buffer, with more of the stream behind it, leaves the handler waiting for ever.\<close>

lemma long_line_stalls:
  assumes "newline \<notin> set l" "m \<le> length l" "0 < m" "gone = None \<or> gone = Some k \<and> 0 < k"
  shows "stream_frames m (l @ newline # r) err gone = ([], False)"
proof -
  from assms(2) have d: "drop m (l @ newline # r) \<noteq> []" by simp
  then obtain c cs where "drop m (l @ newline # r) = c # cs" by (cases "drop m (l @ newline # r)") auto
  with assms have "scan_lines m (l @ newline # r) = ([], Some (c # cs))"
    by (subst scan_lines.simps) simp
  with assms(4) show ?thesis by (auto simp: stream_frames_def log_lines_def)
qed

section \<open>Properties of the terminal\<close>


lemma authenticate_ticket_Inr:
  "authenticate_ticket env tok = Inr (uid, rl) \<longleftrightarrow>
     parse_web_socket_ticket (we_jwt env) (we_now env) tok = Some uid \<and>
     (\<exists>u. user_get_by_id (we_user_faults env) uid (we_users env) = Inr u \<and> u_is_active u \<and> rl = u_role u)"
  by (auto simp: authenticate_ticket_def split: option.splits sum.splits if_splits)

lemma ws_admit_Inr:
  "ws_admit env rsrc act ticket = Inr uid \<longleftrightarrow>
     (\<exists>tok rl. ticket = Some tok \<and> authenticate_ticket env tok = Inr (uid, rl) \<and> ws_permitted env rl rsrc act)"
  by (auto simp: ws_admit_def split: option.splits sum.splits if_splits)

lemma resolve_cluster_config_Inr:
  "resolve_cluster_config env cl = Inr (n, cfg) \<longleftrightarrow>
     resolve_ws_cluster (we_cluster_faults env) cl (cs_table (we_state env)) = Inr n \<and>
     cm_rest_config n (cs_conns (we_state env)) = Inr cfg"
  by (auto simp: resolve_cluster_config_def split: sum.splits)

lemma ws_permitted_role:
  assumes "ws_permitted env rl rsrc act" "we_roles env = Some (fl, roles)"
  shows "rl \<in> {''admin'', ''super-admin''} \<or>
    (\<exists>r perms. role_get_by_name fl rl roles = Inr r \<and> unmarshal_strings (role_permissions r) = Some perms \<and>
       (\<exists>p \<in> set perms. perm_grants p rsrc act))"
  using assms ws_grants_iff
  by (fastforce simp: ws_permitted_def check_ws_permission_def split: if_splits sum.splits option.splits)

text \<open>
  A shell in a pod is opened only for the holder of a valid ticket whose account exists, is enabled and
  has, at that moment, a role that may execute in pods (the two administrator roles, or a role whose
  stored permissions grant it), and only on the connection of the cluster that was named.
\<close>

theorem terminal_opens_only_with_permission:
  assumes "exec_admit env again ticket cl = Inr (uid, cfg, name)" "we_roles env = Some (fl, roles)"
  shows "(\<exists>tok. ticket = Some tok \<and> parse_web_socket_ticket (we_jwt env) (we_now env) tok = Some uid) \<and>
    (\<exists>u \<in> set (rows (we_users env)). user_live u \<and> u_id u = uid \<and> u_is_active u \<and>
       (u_role u \<in> {''admin'', ''super-admin''} \<or>
        (\<exists>r perms. role_get_by_name fl (u_role u) roles = Inr r \<and> unmarshal_strings (role_permissions r) = Some perms \<and>
           (\<exists>p \<in> set perms. perm_grants p ''pods'' ''exec'')))) \<and>
    (\<exists>n. resolve_ws_cluster (we_cluster_faults env) cl (cs_table (we_state env)) = Inr n \<and>
       cm_rest_config n (cs_conns (we_state env)) = Inr cfg)"
proof -
  from assms(1) obtain n where a: "ws_admit env ''pods'' ''exec'' ticket = Inr uid"
    "resolve_cluster_config env cl = Inr (n, cfg)"
    by (auto simp: exec_admit_def split: sum.splits prod.splits)
  then obtain tok u where u: "ticket = Some tok" "parse_web_socket_ticket (we_jwt env) (we_now env) tok = Some uid"
    "user_get_by_id (we_user_faults env) uid (we_users env) = Inr u" "u_is_active u"
    "ws_permitted env (u_role u) ''pods'' ''exec''"
    by (auto simp: ws_admit_Inr authenticate_ticket_Inr)
  from u(3) have "user_live u" "u_id u = uid" "u \<in> set (rows (we_users env))"
    by (auto simp: user_get_by_id_def dest: first_where_sat)
  with u a(2) ws_permitted_role [OF u(5) assms(2)] show ?thesis by (auto simp: resolve_cluster_config_Inr)
qed

text \<open>
  A resize that arrives while the handler is tearing the session down sends on the closed queue: the
  reader's goroutine panics, which nothing recovers.
\<close>

lemma late_resize_panics: "\<exists>s. term_reachable True [] s \<and> tm_panic s"
proof -
  let ?s0 = "term_start []"
  let ?s1 = "exec_returned True None ?s0"
  let ?s2 = "?s1\<lparr>tm_stage := PipeClosed\<rparr>"
  let ?s3 = "?s2\<lparr>tm_stage := QueueClosed\<rparr>"
  have "term_reachable True [] ?s0" by (rule term_reachable.start)
  from term_reachable.step [OF this _ returned] have "term_reachable True [] ?s1" by (simp add: term_start_def)
  from term_reachable.step [OF this _ close_pipe] have "term_reachable True [] ?s2" by (simp add: term_start_def exec_returned_def)
  from term_reachable.step [OF this _ close_queue] have "term_reachable True [] ?s3" by (simp add: term_start_def exec_returned_def)
  from term_reachable.step [OF this _ browser [where m = "ResizeMsg 80 24"]]
  have "term_reachable True [] (handle_browser (ResizeMsg 80 24) ?s3)" by (simp add: term_start_def exec_returned_def)
  moreover have "tm_panic (handle_browser (ResizeMsg 80 24) ?s3)" by (simp add: handle_browser_def push_size_def)
  ultimately show ?thesis by blast
qed

section \<open>Witnesses\<close>

definition demo_term :: term_state where
  "demo_term = exec_returned True (Some ''exit 1'') (fst (write_output 5 True ''ls'' (term_start [detecting])))"



definition demo_admin :: user_table where
  "demo_admin = \<lparr>rows = [(new_user ''ann'' ''h'' ''admin'')\<lparr>u_id := 3\<rparr>], seq = 3\<rparr>"

definition demo_ws :: "(payload, string, string) ws_env" where
  "demo_ws =
     \<lparr>we_jwt = demo_manager, we_now = 5, we_user_faults = no_faults, we_users = demo_admin,
      we_roles = Some (no_faults, empty_table), we_cluster_faults = no_faults, we_state = demo_clusters\<rparr>"

definition demo_ticket :: payload where
  "demo_ticket = generate_web_socket_ticket demo_manager 0 3"

lemma demo_ticket_valid: "parse_web_socket_ticket demo_manager 5 demo_ticket = Some 3"
  by (simp add: demo_ticket_def parse_web_socket_ticket_def parse_with_claims_def generate_web_socket_ticket_def
      demo_manager_def new_jwt_manager_def registered_def numeric_date_def web_socket_ticket_ttl_def duration_defs)

lemma demo_exec_admit: "exec_admit demo_ws no_faults (Some demo_ticket) ''prod'' = Inr (3, ''cfg'', ''prod'')"
  using demo_ticket_valid
  by (simp add: exec_admit_def ws_admit_def authenticate_ticket_def demo_ws_def user_get_by_id_def first_where_def demo_admin_def
      new_user_def user_live_def ws_permitted_def check_ws_permission_def resolve_cluster_config_def resolve_ws_cluster_def
      parse_uint_def cluster_get_by_name_def demo_clusters_def demo_cluster_def cluster_live_def cm_rest_config_def)

theorem terminal_opens_only_with_permission_witness:
  "\<exists>u \<in> set (rows demo_admin). u_id u = 3 \<and> u_is_active u"
  using terminal_opens_only_with_permission [OF demo_exec_admit] by (auto simp: demo_ws_def)

end
