(* ===== verification/Webhooks.thy ===== *)
theory Webhooks
  imports Sql_Table Json_Values Informers Go_Net Clusters Kube_Types "HOL-Library.Multiset"
begin

text \<open>
  Webhooks: \<open>model.Webhook\<close>, \<open>repository/webhook_repo.go\<close>, \<open>service/webhook_service.go\<close> and
  \<open>handler/webhook_handler.go\<close>. The URL parser, the resolver, the HTTP client, the JSON of an event and
  HMAC-SHA256 are parameters. A list of a request that is absent is \<open>None\<close>, which is stored as \<open>null\<close>.
\<close>

record webhook =
  wh_id :: nat
  wh_created :: gotime
  wh_updated :: gotime
  wh_name :: string
  wh_url :: string
  wh_secret :: string
  wh_events :: string
  wh_clusters :: string
  wh_resources :: string
  wh_active :: bool

type_synonym webhook_table = "webhook table"

section \<open>The repository\<close>

text \<open>The column \<open>is_active\<close> has the default true, which gorm uses for a false value of a new row.\<close>

definition webhook_create :: "faults \<Rightarrow> gotime \<Rightarrow> webhook \<Rightarrow> webhook_table \<Rightarrow> (webhook_table \<times> webhook) res" where
  "webhook_create fl now w t =
     create_row fl (\<lambda>_ _. False) (\<lambda>i x. x\<lparr>wh_id := i, wh_created := now, wh_updated := now, wh_active := True\<rparr>) w t"

definition webhook_get_by_id :: "faults \<Rightarrow> nat \<Rightarrow> webhook_table \<Rightarrow> webhook res" where
  "webhook_get_by_id fl i t = first_where fl (\<lambda>w. wh_id w = i) t"

definition webhook_update :: "faults \<Rightarrow> gotime \<Rightarrow> webhook \<Rightarrow> webhook_table \<Rightarrow> (webhook_table \<times> webhook) res" where
  "webhook_update fl now w t =
     (let w' = w\<lparr>wh_updated := now\<rparr> in
      case save_row fl wh_id w' t of Inl e \<Rightarrow> Inl e | Inr t' \<Rightarrow> Inr (t', w'))"

definition webhook_delete :: "faults \<Rightarrow> nat \<Rightarrow> webhook_table \<Rightarrow> webhook_table res" where
  "webhook_delete fl i t = delete_where fl (\<lambda>w. wh_id w = i) t"

definition webhook_list :: "faults \<Rightarrow> webhook_table \<Rightarrow> webhook list res" where
  "webhook_list fl t = find_where fl (\<lambda>_. True) t"

definition webhook_list_active :: "faults \<Rightarrow> webhook_table \<Rightarrow> webhook list res" where
  "webhook_list_active fl t = find_where fl wh_active t"

section \<open>Where a webhook may point\<close>

definition private_ip_nets :: "(ip \<times> nat) list" where
  "private_ip_nets =
     [([127, 0, 0, 0], 8), ([10, 0, 0, 0], 8), ([172, 16, 0, 0], 12), ([192, 168, 0, 0], 16), ([169, 254, 0, 0], 16),
      (replicate 15 0 @ [1], 128), (252 # replicate 15 0, 7), (254 # 128 # replicate 14 0, 10)]"

text \<open>
  The network: \<open>url.ParseRequestURI\<close> with the scheme and the host name of the result, and \<open>LookupHost\<close>,
  each address as \<open>ParseIP\<close> reads it. \<open>wn_post\<close> is the HTTP exchange: its error, or the status.
\<close>

record webhook_post =
  wp_url :: string
  wp_body :: string
  wp_signature :: "string option"

record webhook_net =
  wn_parse :: "string \<Rightarrow> string + (string \<times> string)"
  wn_lookup :: "string \<Rightarrow> string + ip option list"
  wn_post :: "webhook_post \<Rightarrow> string + int"
  wn_hmac :: "string \<Rightarrow> string \<Rightarrow> string"

definition private_address :: "ip option \<Rightarrow> bool" where
  "private_address a = (case a of None \<Rightarrow> False | Some i \<Rightarrow> list_ex (\<lambda>nw. net_contains nw i) private_ip_nets)"

definition validate_webhook_url :: "webhook_net \<Rightarrow> string \<Rightarrow> string option" where
  "validate_webhook_url n raw =
     (case wn_parse n raw of
        Inl e \<Rightarrow> Some (''invalid webhook URL: '' @ e)
      | Inr (sch, hostname) \<Rightarrow>
          if sch \<noteq> ''http'' \<and> sch \<noteq> ''https'' then Some ''webhook URL must use http or https scheme''
          else (case wn_lookup n hostname of
                  Inl e \<Rightarrow> Some (''webhook URL hostname could not be resolved: '' @ e)
                | Inr as \<Rightarrow>
                    if list_ex private_address as then Some ''webhook URL resolves to a private/internal IP address'' else None))"

section \<open>The service\<close>

record webhook_request =
  wr_name :: string
  wr_url :: string
  wr_secret :: string
  wr_events :: "string list option"
  wr_clusters :: "string list option"
  wr_resources :: "string list option"
  wr_active :: bool

record webhook_response =
  ws_id :: nat
  ws_created :: gotime
  ws_updated :: gotime
  ws_name :: string
  ws_url :: string
  ws_events :: "string list"
  ws_clusters :: "string list"
  ws_resources :: "string list"
  ws_active :: bool

definition stored_list :: "string \<Rightarrow> string list" where
  "stored_list s = (case unmarshal_strings s of Some ss \<Rightarrow> ss | None \<Rightarrow> [])"

definition to_webhook_response :: "webhook \<Rightarrow> webhook_response" where
  "to_webhook_response w =
     \<lparr>ws_id = wh_id w, ws_created = wh_created w, ws_updated = wh_updated w, ws_name = wh_name w, ws_url = wh_url w,
      ws_events = stored_list (wh_events w), ws_clusters = stored_list (wh_clusters w),
      ws_resources = stored_list (wh_resources w), ws_active = wh_active w\<rparr>"

definition svc_webhook_create ::
  "webhook_net \<Rightarrow> faults \<Rightarrow> gotime \<Rightarrow> webhook_request \<Rightarrow> webhook_table \<Rightarrow> (webhook_table \<times> webhook_response) res" where
  "svc_webhook_create n fl now rq t =
     (case validate_webhook_url n (wr_url rq) of
        Some e \<Rightarrow> fail CodeParamInvalid e
      | None \<Rightarrow>
          (case webhook_create fl now
                  \<lparr>wh_id = 0, wh_created = 0, wh_updated = 0, wh_name = wr_name rq, wh_url = wr_url rq, wh_secret = wr_secret rq,
                   wh_events = marshal_slice (wr_events rq), wh_clusters = marshal_slice (wr_clusters rq),
                   wh_resources = marshal_slice (wr_resources rq), wh_active = wr_active rq\<rparr> t of
             Inl _ \<Rightarrow> fail CodeInternal ''failed to create webhook''
           | Inr (t', w) \<Rightarrow> Inr (t', to_webhook_response w)))"

definition svc_webhook_get :: "faults \<Rightarrow> nat \<Rightarrow> webhook_table \<Rightarrow> webhook_response res" where
  "svc_webhook_get fl i t =
     (case webhook_get_by_id fl i t of
        Inl _ \<Rightarrow> fail CodeNotFound ''webhook not found'' | Inr w \<Rightarrow> Inr (to_webhook_response w))"

definition svc_webhook_update ::
  "webhook_net \<Rightarrow> faults \<Rightarrow> gotime \<Rightarrow> nat \<Rightarrow> webhook_request \<Rightarrow> webhook_table \<Rightarrow> (webhook_table \<times> webhook_response) res" where
  "svc_webhook_update n fl now i rq t =
     (case validate_webhook_url n (wr_url rq) of
        Some e \<Rightarrow> fail CodeParamInvalid e
      | None \<Rightarrow>
          (case webhook_get_by_id fl i t of
             Inl _ \<Rightarrow> fail CodeNotFound ''webhook not found''
           | Inr w \<Rightarrow>
               (let w1 = w\<lparr>wh_name := wr_name rq, wh_url := wr_url rq, wh_events := marshal_slice (wr_events rq),
                      wh_clusters := marshal_slice (wr_clusters rq), wh_resources := marshal_slice (wr_resources rq),
                      wh_active := wr_active rq\<rparr>;
                    w2 = (if wr_secret rq \<noteq> [] then w1\<lparr>wh_secret := wr_secret rq\<rparr> else w1) in
                case webhook_update fl now w2 t of
                  Inl _ \<Rightarrow> fail CodeInternal ''failed to update webhook''
                | Inr (t', w') \<Rightarrow> Inr (t', to_webhook_response w'))))"

definition svc_webhook_delete :: "faults \<Rightarrow> nat \<Rightarrow> webhook_table \<Rightarrow> webhook_table res" where
  "svc_webhook_delete fl i t =
     (case webhook_get_by_id fl i t of
        Inl _ \<Rightarrow> fail CodeNotFound ''webhook not found''
      | Inr _ \<Rightarrow>
          (case webhook_delete fl i t of
             Inl _ \<Rightarrow> fail CodeInternal ''failed to delete webhook'' | Inr t' \<Rightarrow> Inr t'))"

definition svc_webhook_list :: "faults \<Rightarrow> webhook_table \<Rightarrow> webhook_response list res" where
  "svc_webhook_list fl t =
     (case webhook_list fl t of
        Inl _ \<Rightarrow> fail CodeInternal ''failed to list webhooks'' | Inr ws \<Rightarrow> Inr (map to_webhook_response ws))"

section \<open>Dispatch\<close>

record webhook_event =
  we_type :: string
  we_cluster :: string
  we_resource :: string
  we_name :: string
  we_namespace :: string
  we_action :: string
  we_time :: gotime

text \<open>A filter that is empty, or that cannot be read, lets everything pass.\<close>

definition filter_passes :: "string \<Rightarrow> (string \<Rightarrow> bool) \<Rightarrow> bool" where
  "filter_passes stored hit =
     (if stored \<noteq> [] \<and> stored \<noteq> ''[]'' \<and> stored \<noteq> ''null'' then
        (case unmarshal_strings stored of
           Some ss \<Rightarrow> ss \<noteq> [] \<longrightarrow> list_ex hit ss
         | None \<Rightarrow> True)
      else True)"

definition matches_webhook :: "webhook \<Rightarrow> webhook_event \<Rightarrow> bool" where
  "matches_webhook w e \<longleftrightarrow>
     filter_passes (wh_events w) (\<lambda>s. s = we_type e \<or> s = we_action e) \<and>
     filter_passes (wh_clusters w) (\<lambda>s. s = we_cluster e) \<and>
     filter_passes (wh_resources w) (\<lambda>s. s = we_resource e)"

text \<open>The request of \<open>sendPayload\<close>, and what counts as success.\<close>

definition payload_post :: "webhook_net \<Rightarrow> (webhook_event \<Rightarrow> string) \<Rightarrow> webhook \<Rightarrow> webhook_event \<Rightarrow> webhook_post" where
  "payload_post n marshal w e =
     \<lparr>wp_url = wh_url w, wp_body = marshal e,
      wp_signature = (if wh_secret w \<noteq> [] then Some (''sha256='' @ wn_hmac n (marshal e) (wh_secret w)) else None)\<rparr>"

definition send_payload :: "webhook_net \<Rightarrow> (webhook_event \<Rightarrow> string) \<Rightarrow> webhook \<Rightarrow> webhook_event \<Rightarrow> string option" where
  "send_payload n marshal w e =
     (case wn_post n (payload_post n marshal w e) of
        Inl err \<Rightarrow> Some (''send request: '' @ err)
      | Inr status \<Rightarrow> if status < 200 \<or> 300 \<le> status then Some (''non-2xx response: '' @ dec_int status) else None)"

definition event_of :: "gotime \<Rightarrow> resource_event \<Rightarrow> webhook_event" where
  "event_of now e =
     \<lparr>we_type = re_type e, we_cluster = re_cluster e, we_resource = re_resource e, we_name = re_name e,
      we_namespace = re_namespace e, we_action = re_type e, we_time = now\<rparr>"

definition test_event :: "gotime \<Rightarrow> webhook_event" where
  "test_event now =
     \<lparr>we_type = ''test'', we_cluster = ''test-cluster'', we_resource = ''pods'', we_name = ''test-pod'',
      we_namespace = ''default'', we_action = ''test'', we_time = now\<rparr>"

definition test_webhook ::
  "webhook_net \<Rightarrow> (webhook_event \<Rightarrow> string) \<Rightarrow> faults \<Rightarrow> gotime \<Rightarrow> nat \<Rightarrow> webhook_table \<Rightarrow> webhook_post list \<times> unit res" where
  "test_webhook n marshal fl now i t =
     (case webhook_get_by_id fl i t of
        Inl _ \<Rightarrow> ([], fail CodeNotFound ''webhook not found'')
      | Inr w \<Rightarrow>
          ([payload_post n marshal w (test_event now)],
           case send_payload n marshal w (test_event now) of
             Some e \<Rightarrow> fail CodeInternal (''webhook test failed: '' @ e)
           | None \<Rightarrow> Inr ()))"

text \<open>The webhooks a dispatch sends to, in order.\<close>

definition dispatch_targets :: "faults \<Rightarrow> webhook_event \<Rightarrow> webhook_table \<Rightarrow> webhook list" where
  "dispatch_targets fl e t =
     (case webhook_list_active fl t of Inl _ \<Rightarrow> [] | Inr ws \<Rightarrow> filter (\<lambda>w. matches_webhook w e) ws)"

text \<open>
  The senders: what the running dispatches still have to start, what is being sent, what is done. A
  slot of the semaphore is taken before the goroutine starts and given back when it ends. The dispatches
  of several informers interleave, so any of what is left may come next.
\<close>

definition dispatch_concurrency :: nat where "dispatch_concurrency = 10"

record senders =
  sd_queue :: "webhook_post list"
  sd_flying :: "webhook_post list"
  sd_done :: "webhook_post list"

inductive sender_step :: "senders \<Rightarrow> senders \<Rightarrow> bool" where
  spawn: "p \<in> set (sd_queue s) \<Longrightarrow> length (sd_flying s) < dispatch_concurrency \<Longrightarrow>
    sender_step s (s\<lparr>sd_queue := remove1 p (sd_queue s), sd_flying := sd_flying s @ [p]\<rparr>)"
| sent: "p \<in> set (sd_flying s) \<Longrightarrow> sender_step s (s\<lparr>sd_flying := remove1 p (sd_flying s), sd_done := sd_done s @ [p]\<rparr>)"

definition dispatch_event :: "webhook_net \<Rightarrow> (webhook_event \<Rightarrow> string) \<Rightarrow> faults \<Rightarrow> webhook_event \<Rightarrow> webhook_table \<Rightarrow> senders \<Rightarrow> senders" where
  "dispatch_event n marshal fl e t s =
     s\<lparr>sd_queue := sd_queue s @ map (\<lambda>w. payload_post n marshal w e) (dispatch_targets fl e t)\<rparr>"

section \<open>The handlers\<close>

text \<open>The body of a request is what gin bound, or the message of its error.\<close>

definition handle_webhook_list :: "faults \<Rightarrow> string option \<Rightarrow> webhook_table \<Rightarrow> webhook_response list response" where
  "handle_webhook_list fl rid t =
     (case svc_webhook_list fl t of Inl e \<Rightarrow> respond_error rid e | Inr ws \<Rightarrow> resp_success ws)"

definition webhook_saved ::
  "string option \<Rightarrow> webhook_table \<Rightarrow> (webhook_table \<times> webhook_response) res \<Rightarrow> webhook_table \<times> webhook_response response" where
  "webhook_saved rid t r = (case r of Inl e \<Rightarrow> (t, respond_error rid e) | Inr (t', w) \<Rightarrow> (t', resp_success w))"

definition handle_webhook_create ::
  "webhook_net \<Rightarrow> faults \<Rightarrow> gotime \<Rightarrow> string option \<Rightarrow> string + webhook_request \<Rightarrow> webhook_table \<Rightarrow> webhook_table \<times> webhook_response response" where
  "handle_webhook_create n fl now rid body t =
     (case body of
        Inl e \<Rightarrow> (t, resp_error rid CodeParamInvalid e)
      | Inr rq \<Rightarrow> webhook_saved rid t (svc_webhook_create n fl now rq t))"

definition handle_webhook_update ::
  "webhook_net \<Rightarrow> faults \<Rightarrow> gotime \<Rightarrow> string option \<Rightarrow> string \<Rightarrow> string + webhook_request \<Rightarrow> webhook_table \<Rightarrow> webhook_table \<times> webhook_response response" where
  "handle_webhook_update n fl now rid raw body t =
     (case parse_uint raw of
        None \<Rightarrow> (t, resp_error rid CodeParamInvalid ''invalid webhook id'')
      | Some i \<Rightarrow>
          (case body of
             Inl e \<Rightarrow> (t, resp_error rid CodeParamInvalid e)
           | Inr rq \<Rightarrow> webhook_saved rid t (svc_webhook_update n fl now i rq t)))"

definition handle_webhook_delete :: "faults \<Rightarrow> string option \<Rightarrow> string \<Rightarrow> webhook_table \<Rightarrow> webhook_table \<times> unit response" where
  "handle_webhook_delete fl rid raw t =
     (case parse_uint raw of
        None \<Rightarrow> (t, resp_error rid CodeParamInvalid ''invalid webhook id'')
      | Some i \<Rightarrow>
          (case svc_webhook_delete fl i t of
             Inl e \<Rightarrow> (t, respond_error rid e)
           | Inr t' \<Rightarrow> (t', resp_success ())))"

definition handle_webhook_test ::
  "webhook_net \<Rightarrow> (webhook_event \<Rightarrow> string) \<Rightarrow> faults \<Rightarrow> gotime \<Rightarrow> string option \<Rightarrow> string \<Rightarrow> webhook_table \<Rightarrow> webhook_post list \<times> string response" where
  "handle_webhook_test n marshal fl now rid raw t =
     (case parse_uint raw of
        None \<Rightarrow> ([], resp_error rid CodeParamInvalid ''invalid webhook id'')
      | Some i \<Rightarrow>
          (case test_webhook n marshal fl now i t of
             (ps, Inl e) \<Rightarrow> (ps, respond_error rid e)
           | (ps, Inr _) \<Rightarrow> (ps, resp_success ''test webhook sent successfully'')))"

section \<open>Properties\<close>

lemma private_address_iff: "private_address (Some i) \<longleftrightarrow> (\<exists>nw \<in> set private_ip_nets. net_contains nw i)"
  by (simp add: private_address_def list_ex_iff)

text \<open>
  The table of private ranges is exactly what package \<open>net\<close> calls loopback, private and link-local
  unicast, for both families and for IPv4 addresses in IPv6 form.
\<close>

theorem private_ranges_exact:
  assumes "ip_ok i"
  shows "private_address (Some i) \<longleftrightarrow> ip_loopback i \<or> ip_private i \<or> ip_link_local i"
proof (cases "ip_to4 i")
  case (Some j)
  then have "length j = 4" by (auto simp: ip_to4_def split: if_splits)
  moreover from this obtain a b c d where "j = [a, b, c, d]" by (auto simp: numeral_eq_Suc length_Suc_conv)
  ultimately show ?thesis
    using Some by (simp add: private_address_iff private_ip_nets_def net_contains_v4 prefix_match_bytes
        ip_loopback_def ip_private_def ip_link_local_def) metis
next
  case None
  with assms have l: "length i = 16" by (auto simp: ip_ok_def ip_to4_def split: if_splits)
  then obtain a b r where i: "i = a # b # r" by (cases i; cases "tl i") auto
  have one: "prefix_match 128 (replicate 15 0 @ [1]) i \<longleftrightarrow> i = replicate 15 0 @ [1]"
    using prefix_match_whole [of "replicate 15 0 @ [1]" i] l by (auto simp del: replicate.simps)
  have "prefix_match 7 (252 # replicate 15 0) i \<longleftrightarrow> a div 2 = 126" "prefix_match 10 (254 # 128 # replicate 14 0) i \<longleftrightarrow> a = 254 \<and> b div 64 = 2"
    unfolding i by (auto simp: prefix_match_bytes simp del: replicate.simps)
  with None one l i show ?thesis
    by (simp add: private_address_iff private_ip_nets_def net_contains_v6 ip_loopback_def ip_private_def ip_link_local_def
        del: replicate.simps)
qed

text \<open>What the filters of a request ask for: a list that is absent or empty asks for everything.\<close>

definition asked :: "string list option \<Rightarrow> (string \<Rightarrow> bool) \<Rightarrow> bool" where
  "asked l hit \<longleftrightarrow> l = None \<or> l = Some [] \<or> (\<exists>ss. l = Some ss \<and> (\<exists>s \<in> set ss. hit s))"

lemma marshal_strings_long: "ss \<noteq> [] \<Longrightarrow> marshal_strings ss \<noteq> ''[]'' \<and> marshal_strings ss \<noteq> [] \<and> marshal_strings ss \<noteq> ''null''"
  by (cases ss; cases "tl ss") (auto simp: marshal_strings_def marshal_string_def join_with_Cons)

lemma unmarshal_marshalled: "unmarshal_strings (marshal_strings ss) = Some ss"
  by (rule unmarshal_marshal)

lemma filter_passes_marshalled: "filter_passes (marshal_slice l) hit \<longleftrightarrow> asked l hit"
proof (cases l)
  case None
  then show ?thesis by (simp add: filter_passes_def marshal_slice_def asked_def)
next
  case (Some ss)
  show ?thesis
  proof (cases "ss = []")
    case True
    with Some show ?thesis by (simp add: filter_passes_def marshal_slice_def asked_def marshal_strings_def)
  next
    case False
    with Some marshal_strings_long [OF False] show ?thesis
      by (simp add: filter_passes_def marshal_slice_def asked_def unmarshal_marshalled list_ex_iff)
  qed
qed

lemma webhook_create_Inr:
  assumes "svc_webhook_create n fl now rq t = Inr (t', r)"
  obtains w where "rows t' = rows t @ [w]" "wh_id w = Suc (seq t)" "wh_url w = wr_url rq" "wh_active w"
    "wh_events w = marshal_slice (wr_events rq)" "wh_clusters w = marshal_slice (wr_clusters rq)"
    "wh_resources w = marshal_slice (wr_resources rq)" "wh_secret w = wr_secret rq" "r = to_webhook_response w"
    "validate_webhook_url n (wr_url rq) = None"
  using assms by (auto simp: svc_webhook_create_def webhook_create_def create_row_Inr split: option.splits sum.splits)

text \<open>
  The filters of a webhook mean what was asked for: an event is sent to a webhook that was just created
  exactly when its type or action is among the events, its cluster among the clusters and its resource
  among the resources, where an absent or empty list stands for all of them.
\<close>

theorem new_webhook_selects_what_was_asked:
  assumes "svc_webhook_create n fl now rq t = Inr (t', r)" "\<not> fl' DbList"
  shows "\<exists>w. rows t' = rows t @ [w] \<and>
    dispatch_targets fl' e t' = dispatch_targets fl' e t @
      (if asked (wr_events rq) (\<lambda>s. s = we_type e \<or> s = we_action e) \<and> asked (wr_clusters rq) (\<lambda>s. s = we_cluster e) \<and>
          asked (wr_resources rq) (\<lambda>s. s = we_resource e) then [w] else [])"
proof -
  from webhook_create_Inr [OF assms(1)] obtain w where w: "rows t' = rows t @ [w]" "wh_active w"
    "wh_events w = marshal_slice (wr_events rq)" "wh_clusters w = marshal_slice (wr_clusters rq)"
    "wh_resources w = marshal_slice (wr_resources rq)" by metis
  then show ?thesis using assms(2)
    by (auto simp: dispatch_targets_def webhook_list_active_def find_where_def matches_webhook_def filter_passes_marshalled)
qed

text \<open>Every stored URL passed the validation.\<close>

definition urls_ok :: "webhook_net \<Rightarrow> webhook_table \<Rightarrow> bool" where
  "urls_ok n t \<longleftrightarrow> (\<forall>w \<in> set (rows t). validate_webhook_url n (wh_url w) = None)"

lemma urls_ok_create: "svc_webhook_create n fl now rq t = Inr (t', r) \<Longrightarrow> urls_ok n t \<Longrightarrow> urls_ok n t'"
  by (erule webhook_create_Inr) (auto simp: urls_ok_def)

lemma urls_ok_update:
  assumes "svc_webhook_update n fl now i rq t = Inr (t', r)" "urls_ok n t"
  shows "urls_ok n t'"
proof -
  from assms(1) obtain w w' where v: "validate_webhook_url n (wr_url rq) = None" "wh_url w = wr_url rq"
    "webhook_update fl now w t = Inr (t', w')"
    by (force simp: svc_webhook_update_def Let_def split: option.splits sum.splits if_splits)
  then show ?thesis using assms(2)
    by (auto simp: webhook_update_def save_row_def urls_ok_def Let_def split: sum.splits if_splits)
qed

lemma urls_ok_delete: "svc_webhook_delete fl i t = Inr t' \<Longrightarrow> urls_ok n t \<Longrightarrow> urls_ok n t'"
  by (auto simp: svc_webhook_delete_def webhook_delete_def delete_where_def urls_ok_def split: sum.splits if_splits)

text \<open>
  No handler stores a webhook that the resolver places on a loopback, private or link-local address: if
  no stored webhook was on one, none is after any request to create, change or delete one.
\<close>

definition points_outside :: "webhook_net \<Rightarrow> webhook \<Rightarrow> bool" where
  "points_outside n w \<longleftrightarrow>
     (\<exists>sch host as. wn_parse n (wh_url w) = Inr (sch, host) \<and> sch \<in> {''http'', ''https''} \<and> wn_lookup n host = Inr as \<and>
        (\<forall>i. Some i \<in> set as \<longrightarrow> \<not> private_address (Some i)))"

lemma validate_points_outside: "validate_webhook_url n (wh_url w) = None \<longleftrightarrow> points_outside n w"
proof -
  have "list_ex private_address as \<longleftrightarrow> (\<exists>i. Some i \<in> set as \<and> private_address (Some i))" for as
    unfolding list_ex_iff by (metis option.exhaust private_address_def option.simps(4))
  then show ?thesis
    by (auto simp: validate_webhook_url_def points_outside_def split: sum.splits)
qed

theorem stored_webhooks_point_outside:
  assumes "\<forall>w \<in> set (rows t). points_outside n w"
  shows "\<forall>w \<in> set (rows (fst (handle_webhook_create n fl now rid body t))) \<union>
      set (rows (fst (handle_webhook_update n fl now rid raw body t))) \<union>
      set (rows (fst (handle_webhook_delete fl rid raw t))). points_outside n w"
proof -
  from assms have ok: "urls_ok n t" by (simp add: urls_ok_def validate_points_outside)
  then have "urls_ok n (fst (handle_webhook_create n fl now rid body t))"
    by (auto simp: handle_webhook_create_def webhook_saved_def split: sum.splits intro: urls_ok_create)
  moreover from ok have "urls_ok n (fst (handle_webhook_update n fl now rid raw body t))"
    by (auto simp: handle_webhook_update_def webhook_saved_def split: sum.splits option.splits intro: urls_ok_update)
  moreover from ok have "urls_ok n (fst (handle_webhook_delete fl rid raw t))"
    by (auto simp: handle_webhook_delete_def split: sum.splits option.splits intro: urls_ok_delete)
  ultimately show ?thesis by (auto simp: urls_ok_def validate_points_outside)
qed

section \<open>The senders end\<close>

definition sender_work :: "senders \<Rightarrow> nat" where
  "sender_work s = 2 * length (sd_queue s) + length (sd_flying s)"

definition all_posts :: "senders \<Rightarrow> webhook_post multiset" where
  "all_posts s = mset (sd_queue s) + mset (sd_flying s) + mset (sd_done s)"

lemma sender_step_work: "sender_step s s' \<Longrightarrow> sender_work s' < sender_work s"
proof (induction rule: sender_step.induct)
  case (spawn p s)
  then have pos: "0 < length (sd_queue s)" by (metis length_pos_if_in_set)
  with spawn have "Suc (length (remove1 p (sd_queue s))) = length (sd_queue s)"
    by (simp add: length_remove1 pos del: length_greater_0_conv)
  then show ?case by (simp add: sender_work_def)
next
  case (sent p s)
  then show ?case using length_pos_if_in_set [of p "sd_flying s"] by (auto simp: sender_work_def length_remove1)
qed

lemma sender_step_posts: "sender_step s s' \<Longrightarrow> all_posts s' = all_posts s"
  by (induction rule: sender_step.induct) (auto simp: all_posts_def)

lemma sender_step_bound:
  "sender_step s s' \<Longrightarrow> length (sd_flying s) \<le> dispatch_concurrency \<Longrightarrow> length (sd_flying s') \<le> dispatch_concurrency"
  by (induction rule: sender_step.induct) (auto simp: length_remove1)

lemma sender_stuck: "(\<forall>s'. \<not> sender_step s s') \<Longrightarrow> sd_queue s = [] \<and> sd_flying s = []"
proof (rule ccontr)
  assume no: "\<forall>s'. \<not> sender_step s s'" and "\<not> (sd_queue s = [] \<and> sd_flying s = [])"
  then consider p where "p \<in> set (sd_flying s)" | p where "p \<in> set (sd_queue s)" "sd_flying s = []"
    by (metis list.set_intros(1) neq_Nil_conv)
  then show False
  proof cases
    case 1
    with no show False using sender_step.sent by blast
  next
    case 2
    then have "length (sd_flying s) < dispatch_concurrency" by (simp add: dispatch_concurrency_def)
    with no 2(1) show False using sender_step.spawn by blast
  qed
qed

lemma sender_steps: "sender_step\<^sup>*\<^sup>* s s' \<Longrightarrow> all_posts s' = all_posts s \<and>
    (length (sd_flying s) \<le> dispatch_concurrency \<longrightarrow> length (sd_flying s') \<le> dispatch_concurrency)"
  by (induction rule: rtranclp_induct) (auto simp: sender_step_posts sender_step_bound)


section \<open>Behaviours worth knowing, and witnesses\<close>

text \<open>A webhook that is created inactive is stored, and answered, as active.\<close>

lemma inactive_webhook_created_active:
  assumes "svc_webhook_create n fl now rq t = Inr (t', r)"
  shows "ws_active r"
  using webhook_create_Inr [OF assms] by (metis to_webhook_response_def webhook_response.select_convs(9))

text \<open>The unspecified address, which reaches the local host, and the shared address space pass.\<close>

lemma unspecified_address_passes: "\<not> private_address (Some [0, 0, 0, 0])" "\<not> private_address (Some [100, 64, 0, 1])"
  by (simp_all add: private_address_iff private_ip_nets_def net_contains_v4 ip_to4_def prefix_match_bytes)

text \<open>The URL is validated when it is stored, not when it is used: a test posts wherever the name points now.\<close>

lemma test_does_not_validate:
  "webhook_get_by_id fl i t = Inr w \<Longrightarrow> fst (test_webhook n marshal fl now i t) = [payload_post n marshal w (test_event now)]"
  by (simp add: test_webhook_def)

definition demo_hooks :: webhook_net where
  "demo_hooks =
     \<lparr>wn_parse = (\<lambda>s. Inr (''https'', s)), wn_lookup = (\<lambda>h. Inr [Some (if h = ''in'' then [10, 0, 0, 1] else [93, 184, 216, 34])]),
      wn_post = (\<lambda>p. Inr 204), wn_hmac = (\<lambda>b k. k)\<rparr>"

definition demo_hook_request :: webhook_request where
  "demo_hook_request =
     \<lparr>wr_name = ''ci'', wr_url = ''out'', wr_secret = ''k'', wr_events = Some [''DELETED''], wr_clusters = None, wr_resources = Some [],
      wr_active = True\<rparr>"

definition demo_change :: webhook_event where
  "demo_change = (test_event 0)\<lparr>we_type := ''DELETED''\<rparr>"

theorem private_ranges_exact_witness: "private_address (Some [10, 0, 0, 1])"
  using private_ranges_exact [of "[10, 0, 0, 1]"] by (simp add: ip_ok_def ip_private_def ip_to4_def)

lemma demo_hook_created: "\<exists>t' r. svc_webhook_create demo_hooks no_faults 5 demo_hook_request empty_table = Inr (t', r)"
  by (simp add: svc_webhook_create_def validate_webhook_url_def demo_hooks_def demo_hook_request_def private_address_iff
      private_ip_nets_def net_contains_v4 ip_to4_def prefix_match_bytes webhook_create_def create_row_def empty_table_def
      Let_def list_ex_iff)

theorem new_webhook_selects_what_was_asked_witness:
  "\<exists>t' w. rows t' = [w] \<and> dispatch_targets no_faults demo_change t' = [w] \<and> dispatch_targets no_faults (test_event 0) t' = []"
proof -
  obtain t' r where c: "svc_webhook_create demo_hooks no_faults 5 demo_hook_request empty_table = Inr (t', r)"
    using demo_hook_created by blast
  have e: "dispatch_targets no_faults e (empty_table :: webhook_table) = []" for e
    by (simp add: dispatch_targets_def webhook_list_active_def find_where_def empty_table_def)
  have q: "wr_events demo_hook_request = Some [''DELETED'']" "wr_clusters demo_hook_request = None" "wr_resources demo_hook_request = Some []"
    "we_type demo_change = ''DELETED''" "we_type (test_event 0) = ''test''" "we_action (test_event 0) = ''test''"
    by (simp_all add: demo_hook_request_def demo_change_def test_event_def)
  have "rows (empty_table :: webhook_table) = []" by (simp add: empty_table_def)
  with new_webhook_selects_what_was_asked [where fl' = no_faults and e = demo_change, OF c]
    new_webhook_selects_what_was_asked [where fl' = no_faults and e = "test_event 0", OF c]
  show ?thesis by (simp add: e q asked_def) metis
qed

theorem stored_webhooks_point_outside_witness:
  "\<exists>w. rows (fst (handle_webhook_create demo_hooks no_faults 5 None (Inr demo_hook_request) empty_table)) = [w] \<and>
     points_outside demo_hooks w"
proof -
  obtain t' r where c: "svc_webhook_create demo_hooks no_faults 5 demo_hook_request empty_table = Inr (t', r)"
    using demo_hook_created by blast
  then have h: "fst (handle_webhook_create demo_hooks no_faults 5 None (Inr demo_hook_request) empty_table) = t'"
    by (simp add: handle_webhook_create_def webhook_saved_def)
  from c obtain w where "rows t' = [w]"
    by (auto simp: svc_webhook_create_def webhook_create_def create_row_Inr empty_table_def Let_def split: option.splits sum.splits)
  with h stored_webhooks_point_outside [of empty_table demo_hooks no_faults 5 None "Inr demo_hook_request"] show ?thesis
    by (simp add: empty_table_def)
qed


end
