(* ===== verification/Resource_Search.thy ===== *)
theory Resource_Search
  imports Kube_Resources Go_Sort
begin

text \<open>
  The search over all resource types of a cluster: \<open>service/search_service.go\<close> and
  \<open>handler/search_handler.go\<close>. It reads the same cache and API server as the resource repository, scores
  every object against the query, and pages per type. The labels of an object are a parameter.
\<close>

definition default_search_limit :: int where "default_search_limit = 10"
definition max_search_limit :: int where "max_search_limit = 100"
definition score_exact :: nat where "score_exact = 3"
definition score_prefix :: nat where "score_prefix = 2"
definition score_substring :: nat where "score_substring = 1"

lemmas score_defs = score_exact_def score_prefix_def score_substring_def

record search_item =
  si_name :: string
  si_namespace :: string
  si_kind :: string
  si_type :: string
  si_api :: string
  si_labels :: "(string, string) gomap"
  si_score :: nat

record search_group =
  sg_type :: string
  sg_items :: "search_item list"
  sg_total :: nat

record search_response =
  sp_results :: "search_group list"
  sp_total :: nat

record search_options =
  so_query :: string
  so_namespace :: string
  so_types :: "string list"
  so_limit :: int
  so_offset :: int

definition match_score :: "string \<Rightarrow> string \<Rightarrow> string \<Rightarrow> (string, string) gomap \<Rightarrow> nat" where
  "match_score q name ns labels =
     (let lower = to_lower name in
      if lower = q then score_exact
      else if has_prefix lower q then score_prefix
      else if contains lower q then score_substring
      else if ns \<noteq> [] \<and> contains (to_lower ns) q then score_substring
      else if list_ex (\<lambda>(k, v). contains (to_lower k) q \<or> contains (to_lower v) q) labels then score_substring
      else 0)"

definition build_api_version :: "res_meta \<Rightarrow> string" where
  "build_api_version m =
     (if gvk_group (rm_gvk m) = [] then gvk_version (rm_gvk m)
      else gvk_group (rm_gvk m) @ ''/'' @ gvk_version (rm_gvk m))"

definition score_before :: "search_item \<Rightarrow> search_item \<Rightarrow> bool" where
  "score_before a b \<longleftrightarrow>
     (if si_score a \<noteq> si_score b then si_score b < si_score a else str_less (si_name a) (si_name b))"

definition sort_by_score :: "search_item list \<Rightarrow> search_item list" where
  "sort_by_score xs = sort_by score_before xs"

text \<open>The item of an object, and those of a list whose score is not zero.\<close>

definition search_item_of ::
  "('dyn, 'w) kube_api \<Rightarrow> (fields \<Rightarrow> (string, string) gomap) \<Rightarrow> res_meta \<Rightarrow> string \<Rightarrow> fields \<Rightarrow> search_item" where
  "search_item_of api labels meta q u =
     \<lparr>si_name = ka_name api u, si_namespace = ka_namespace api u, si_kind = gvk_kind (rm_gvk meta), si_type = rm_name meta,
      si_api = build_api_version meta, si_labels = labels u,
      si_score = match_score q (ka_name api u) (ka_namespace api u) (labels u)\<rparr>"

definition matched_items ::
  "('dyn, 'w) kube_api \<Rightarrow> (fields \<Rightarrow> (string, string) gomap) \<Rightarrow> res_meta \<Rightarrow> string \<Rightarrow> fields list \<Rightarrow> search_item list" where
  "matched_items api labels meta q objs =
     filter (\<lambda>i. si_score i \<noteq> 0) (map (search_item_of api labels meta q) objs)"

definition no_options :: list_options where
  "no_options = \<lparr>lo_label = [], lo_field = [], lo_limit = 0, lo_continue = []\<rparr>"

text \<open>The objects of a type, from the cache or from the API server.\<close>

definition searched_objects ::
  "('cfg, 'dyn, 'w) resource_env \<Rightarrow> string \<Rightarrow> res_meta \<Rightarrow> string \<Rightarrow> 'w \<Rightarrow> fields list res" where
  "searched_objects env cl meta ns w =
     (if rm_cached meta then
        (case inf_list (ka_lister (re_api env) w) (re_now env) cl (rm_gvr meta) ns (cs_inf (re_state env)) of
           Inl e \<Rightarrow> failing e | Inr (objs, _) \<Rightarrow> Inr objs)
      else
        (case cm_dynamic_client cl (cs_conns (re_state env)) of
           Inl e \<Rightarrow> wrap_error (''get dynamic client for cluster '' @ cl) e
         | Inr d \<Rightarrow>
             (case ka_list (re_api env) d (rm_gvr meta) (ns_scope ns) no_options w of
                Inl e \<Rightarrow> wrap_error (''list '' @ rm_name meta @ '' from API server'') e
              | Inr (objs, _) \<Rightarrow> Inr objs)))"

definition search_resource ::
  "('cfg, 'dyn, 'w) resource_env \<Rightarrow> (fields \<Rightarrow> (string, string) gomap) \<Rightarrow> string \<Rightarrow> res_meta \<Rightarrow> string \<Rightarrow> string \<Rightarrow> 'w \<Rightarrow> search_item list res" where
  "search_resource env labels cl meta q ns w =
     (case searched_objects env cl meta ns w of
        Inl e \<Rightarrow> Inl e
      | Inr objs \<Rightarrow> Inr (sort_by_score (matched_items (re_api env) labels meta (to_lower q) objs)))"

definition search_limit :: "int \<Rightarrow> int" where
  "search_limit l = (let n = (if l \<le> 0 then default_search_limit else l) in if max_search_limit < n then max_search_limit else n)"

definition search_offset :: "int \<Rightarrow> int" where
  "search_offset n = (if n < 0 then 0 else n)"

definition search_page :: "search_options \<Rightarrow> 'a list \<Rightarrow> 'a list" where
  "search_page opts xs = take (nat (search_limit (so_limit opts))) (drop (nat (search_offset (so_offset opts))) xs)"

definition type_wanted :: "string list \<Rightarrow> string \<Rightarrow> bool" where
  "type_wanted ts name \<longleftrightarrow>
     (let wanted = map to_lower (filter (\<lambda>t. t \<noteq> []) ts) in wanted = [] \<or> to_lower name \<in> set wanted)"

text \<open>The loop over the types: a type that fails is skipped, a type without a match counts for nothing.\<close>

fun search_types ::
  "(string \<Rightarrow> search_item list res option) \<Rightarrow> search_options \<Rightarrow> string list \<Rightarrow> search_group list \<times> nat" where
  "search_types find_in opts [] = ([], 0)"
| "search_types find_in opts (name # names) =
     (let (gs, n) = search_types find_in opts names in
      case find_in name of
        None \<Rightarrow> (gs, n)
      | Some (Inl _) \<Rightarrow> (gs, n)
      | Some (Inr found) \<Rightarrow>
          if length found = 0 then (gs, n)
          else (\<lparr>sg_type = name, sg_items = search_page opts found, sg_total = length found\<rparr> # gs, length found + n))"

text \<open>What is found in a type: nothing when the filter leaves it out.\<close>

definition find_in_type ::
  "('cfg, 'dyn, 'w) resource_env \<Rightarrow> (fields \<Rightarrow> (string, string) gomap) \<Rightarrow> string \<Rightarrow> search_options \<Rightarrow> 'w \<Rightarrow> string \<Rightarrow> search_item list res option" where
  "find_in_type env labels cl opts w name =
     (case reg_get (re_registry env) name of
        None \<Rightarrow> None
      | Some meta \<Rightarrow>
          if \<not> type_wanted (so_types opts) name then None
          else Some (search_resource env labels cl meta (trim_space (so_query opts)) (so_namespace opts) w))"

definition search_all ::
  "('cfg, 'dyn, 'w) resource_env \<Rightarrow> (fields \<Rightarrow> (string, string) gomap) \<Rightarrow> nat \<Rightarrow> search_options \<Rightarrow> 'w \<Rightarrow> search_response res" where
  "search_all env labels i opts w =
     (if trim_space (so_query opts) = [] then Inr \<lparr>sp_results = [], sp_total = 0\<rparr>
      else (case cluster_get_by_id (re_faults env) i (cs_table (re_state env)) of
              Inl _ \<Rightarrow> fail CodeNotFound (''cluster '' @ dec_nat i @ '' not found'')
            | Inr c \<Rightarrow>
                (let (gs, n) = search_types (find_in_type env labels (c_name c) opts w) opts
                       (sort_by str_less (map fst (reg_all (re_registry env)))) in
                 Inr \<lparr>sp_results = gs, sp_total = n\<rparr>)))"

section \<open>The handler\<close>

text \<open>The query as gin binds it (\<open>None\<close>: a number that does not parse); the types are a comma-separated list.\<close>

record search_params =
  sq_query :: string
  sq_namespace :: string
  sq_types :: string
  sq_limit :: int
  sq_offset :: int

definition split_types :: "string \<Rightarrow> string list" where
  "split_types s = filter (\<lambda>t. t \<noteq> []) (map trim_space (split_on CHR '','' s))"

definition handle_search ::
  "('cfg, 'dyn, 'w) resource_env \<Rightarrow> (fields \<Rightarrow> (string, string) gomap) \<Rightarrow> string option \<Rightarrow> string \<Rightarrow> search_params option \<Rightarrow> 'w \<Rightarrow> search_response response" where
  "handle_search env labels rid raw params w =
     (case parse_uint raw of
        None \<Rightarrow> resp_error rid CodeParamInvalid ''invalid cluster id''
      | Some i \<Rightarrow>
          (case params of
             None \<Rightarrow> resp_error rid CodeParamInvalid ''invalid query parameters''
           | Some p \<Rightarrow>
               if trim_space (sq_query p) = [] then resp_error rid CodeParamMissing (''query parameter '' @ [CHR 0x27] @ ''q'' @ [CHR 0x27] @ '' is required'')
               else (case search_all env labels i
                            \<lparr>so_query = sq_query p, so_namespace = sq_namespace p,
                             so_types = (if sq_types p \<noteq> [] then split_types (sq_types p) else []),
                             so_limit = sq_limit p, so_offset = sq_offset p\<rparr> w of
                       Inl e \<Rightarrow> respond_error rid e
                     | Inr r \<Rightarrow> resp_success_with_meta r (total_meta (int (sp_total r))))))"

section \<open>What a search returns\<close>

lemma match_score_values: "match_score q nm ns ls \<in> {0, score_substring, score_prefix, score_exact}"
  by (simp add: match_score_def Let_def)

lemma weak_order_score: "weak_order score_before"
  unfolding weak_order_def score_before_def
  using weak_order_str_less unfolding weak_order_def by (smt (verit) less_trans linorder_neqE_nat less_irrefl)

text \<open>Whether an object is hit at all: its name, its namespace or one of its labels contains the query.\<close>

definition hits :: "string \<Rightarrow> string \<Rightarrow> string \<Rightarrow> (string, string) gomap \<Rightarrow> bool" where
  "hits q name ns labels \<longleftrightarrow>
     contains (to_lower name) q \<or> ns \<noteq> [] \<and> contains (to_lower ns) q \<or>
     (\<exists>(k, v) \<in> set labels. contains (to_lower k) q \<or> contains (to_lower v) q)"

lemma contains_prefix: "has_prefix s p \<Longrightarrow> contains s p"
  by (cases s) (auto simp: has_prefix_def)

lemma contains_self: "contains s s"
  by (rule contains_prefix) (simp add: has_prefix_def)

lemma match_score_hits: "match_score q nm ns ls \<noteq> 0 \<longleftrightarrow> hits q nm ns ls"
  using contains_prefix [of "to_lower nm" q] contains_self [of q]
  by (auto simp: match_score_def hits_def Let_def score_defs list_ex_iff case_prod_unfold)

lemma matched_items_hits:
  "matched_items api labels meta q objs =
     map (search_item_of api labels meta q) (filter (\<lambda>u. hits q (ka_name api u) (ka_namespace api u) (labels u)) objs)"
  by (simp add: matched_items_def filter_map comp_def search_item_of_def match_score_hits flip: match_score_hits)

text \<open>The matches of a type: those of a type that is left out or fails are none.\<close>

definition type_matches ::
  "('cfg, 'dyn, 'w) resource_env \<Rightarrow> (fields \<Rightarrow> (string, string) gomap) \<Rightarrow> string \<Rightarrow> search_options \<Rightarrow> 'w \<Rightarrow> string \<Rightarrow> search_item list" where
  "type_matches env labels cl opts w name =
     (case find_in_type env labels cl opts w name of Some (Inr found) \<Rightarrow> found | _ \<Rightarrow> [])"

lemma search_types_matches:
  assumes "\<And>name. found name = (case find_in name of Some (Inr xs) \<Rightarrow> xs | _ \<Rightarrow> [])"
  shows "search_types find_in opts names =
    (map (\<lambda>n. \<lparr>sg_type = n, sg_items = search_page opts (found n), sg_total = length (found n)\<rparr>) (filter (\<lambda>n. found n \<noteq> []) names),
     sum_list (map (\<lambda>n. length (found n)) names))"
proof (induction names)
  case (Cons name names)
  show ?case
  proof (cases "find_in name")
    case None
    with assms [of name] have "found name = []" by simp
    with None Cons.IH show ?thesis by simp
  next
    case (Some r)
    show ?thesis
    proof (cases r)
      case (Inl e)
      with Some assms [of name] have "found name = []" by simp
      with Some Inl Cons.IH show ?thesis by simp
    next
      case (Inr xs)
      with Some assms [of name] have "found name = xs" by simp
      with Some Inr Cons.IH show ?thesis by simp
    qed
  qed
qed simp

lemma type_matches_ranked:
  assumes "reg_get (re_registry env) name = Some meta" "type_wanted (so_types opts) name"
    "searched_objects env cl meta (so_namespace opts) w = Inr objs"
  shows "mset (type_matches env labels cl opts w name) =
      image_mset (search_item_of (re_api env) labels meta (to_lower (trim_space (so_query opts))))
        (filter_mset (\<lambda>u. hits (to_lower (trim_space (so_query opts))) (ka_name (re_api env) u) (ka_namespace (re_api env) u) (labels u)) (mset objs)) \<and>
    in_order score_before (type_matches env labels cl opts w name)"
  using assms in_order_sort_by [OF weak_order_score]
  by (simp add: type_matches_def find_in_type_def search_resource_def sort_by_score_def matched_items_hits)

text \<open>
  What a search returns: the registered types in order of their names, and of each type that is wanted
  and can be read exactly the objects whose name, namespace or labels contain the query, ranked by score
  and then by name, cut to the page that was asked for; the totals count all matches, whatever the page,
  and a type that fails neither appears nor disturbs the others.
\<close>

theorem search_returns_ranked_matches:
  fixes env :: "('cfg, 'dyn, 'w) resource_env"
  assumes "trim_space (so_query opts) \<noteq> []" "cluster_get_by_id (re_faults env) i (cs_table (re_state env)) = Inr c"
  shows "search_all env labels i opts w = Inr
      \<lparr>sp_results = map (\<lambda>n. \<lparr>sg_type = n, sg_items = search_page opts (type_matches env labels (c_name c) opts w n),
           sg_total = length (type_matches env labels (c_name c) opts w n)\<rparr>)
         (filter (\<lambda>n. type_matches env labels (c_name c) opts w n \<noteq> []) (sort_by str_less (map fst (reg_all (re_registry env))))),
       sp_total = sum_list (map (\<lambda>n. length (type_matches env labels (c_name c) opts w n)) (sort_by str_less (map fst (reg_all (re_registry env)))))\<rparr> \<and>
    (\<forall>name meta objs. reg_get (re_registry env) name = Some meta \<longrightarrow> type_wanted (so_types opts) name \<longrightarrow>
       searched_objects env (c_name c) meta (so_namespace opts) w = Inr objs \<longrightarrow>
       mset (type_matches env labels (c_name c) opts w name) =
         image_mset (search_item_of (re_api env) labels meta (to_lower (trim_space (so_query opts))))
           (filter_mset (\<lambda>u. hits (to_lower (trim_space (so_query opts))) (ka_name (re_api env) u) (ka_namespace (re_api env) u) (labels u)) (mset objs)) \<and>
       in_order score_before (type_matches env labels (c_name c) opts w name))"
proof (intro conjI allI impI)
  have "search_types (find_in_type env labels (c_name c) opts w) opts names =
      (map (\<lambda>n. \<lparr>sg_type = n, sg_items = search_page opts (type_matches env labels (c_name c) opts w n),
           sg_total = length (type_matches env labels (c_name c) opts w n)\<rparr>) (filter (\<lambda>n. type_matches env labels (c_name c) opts w n \<noteq> []) names),
       sum_list (map (\<lambda>n. length (type_matches env labels (c_name c) opts w n)) names))" for names
    by (rule search_types_matches) (simp add: type_matches_def)
  with assms show "search_all env labels i opts w = Inr
      \<lparr>sp_results = map (\<lambda>n. \<lparr>sg_type = n, sg_items = search_page opts (type_matches env labels (c_name c) opts w n),
           sg_total = length (type_matches env labels (c_name c) opts w n)\<rparr>)
         (filter (\<lambda>n. type_matches env labels (c_name c) opts w n \<noteq> []) (sort_by str_less (map fst (reg_all (re_registry env))))),
       sp_total = sum_list (map (\<lambda>n. length (type_matches env labels (c_name c) opts w n)) (sort_by str_less (map fst (reg_all (re_registry env)))))\<rparr>"
    by (simp add: search_all_def)
qed (erule (2) type_matches_ranked [THEN conjunct1], erule (2) type_matches_ranked [THEN conjunct2])

lemma search_page_bounded: "length (search_page opts xs) \<le> 100"
  by (auto simp: search_page_def search_limit_def default_search_limit_def max_search_limit_def Let_def)

section \<open>Witness\<close>

text \<open>An object is its name, as a JSON string under a key.\<close>

definition demo_name :: "fields \<Rightarrow> string" where
  "demo_name u = (case gm_get u ''name'' of Some (JStr s) \<Rightarrow> s | _ \<Rightarrow> [])"

definition demo_searchable :: "(string, unit) kube_api" where
  "demo_searchable =
     \<lparr>ka_list = (\<lambda>d g ns lo w. Inr ([[(''name'', JStr ''api'')], [(''name'', JStr ''web-api'')], [(''name'', JStr ''db'')]], [])),
      ka_get = (\<lambda>d g ns n w. Inr []), ka_create = (\<lambda>d g ns b u w. (w, Inr u)), ka_update = (\<lambda>d g ns b u w. (w, Inr u)),
      ka_delete = (\<lambda>d g ns n w. (w, Inr ())), ka_patch = (\<lambda>d g ns n b w. (w, Inr [])),
      ka_lister = (\<lambda>w r g ns. Inl ''no cache''), ka_getter = (\<lambda>w r g ns n. Inl ''no cache''), ka_api_version = (\<lambda>u. []),
      ka_kind = (\<lambda>u. []), ka_name = demo_name, ka_namespace = (\<lambda>u. []), ka_set_name = (\<lambda>n u. u)\<rparr>"

definition demo_search_env :: "(string, string, unit) resource_env" where
  "demo_search_env =
     \<lparr>re_api = demo_searchable,
      re_registry = [(''jobs'', \<lparr>rm_name = ''jobs'', rm_gvr = \<lparr>gvr_group = ''batch'', gvr_version = ''v1'', gvr_resource = ''jobs''\<rparr>,
         rm_gvk = \<lparr>gvk_group = ''batch'', gvk_version = ''v1'', gvk_kind = ''Job''\<rparr>, rm_scope = NamespaceScoped, rm_cached = False\<rparr>)],
      re_float = (\<lambda>_. None), re_faults = no_faults, re_now = 0, re_state = demo_clusters\<rparr>"

theorem search_returns_ranked_matches_witness:
  "\<exists>r. search_all demo_search_env (\<lambda>_. []) 1
      \<lparr>so_query = '' API '', so_namespace = [], so_types = [], so_limit = 1, so_offset = 1\<rparr> () = Inr r \<and>
     map (\<lambda>g. (sg_type g, map si_name (sg_items g), sg_total g)) (sp_results r) = [(''jobs'', [''web-api''], 2)]"
proof -
  let ?o = "\<lparr>so_query = '' API '', so_namespace = [], so_types = [], so_limit = 1, so_offset = 1\<rparr>"
  have c: "cluster_get_by_id (re_faults demo_search_env) 1 (cs_table (re_state demo_search_env)) = Inr demo_cluster"
    by (simp add: demo_search_env_def demo_clusters_def demo_cluster_def cluster_get_by_id_def first_where_def cluster_live_def)
  have q: "trim_space (so_query ?o) \<noteq> []" by code_simp
  have m: "type_matches demo_search_env (\<lambda>_. []) (c_name demo_cluster) ?o () ''jobs'' =
      [\<lparr>si_name = ''api'', si_namespace = [], si_kind = ''Job'', si_type = ''jobs'', si_api = ''batch/v1'', si_labels = [], si_score = 3\<rparr>,
       \<lparr>si_name = ''web-api'', si_namespace = [], si_kind = ''Job'', si_type = ''jobs'', si_api = ''batch/v1'', si_labels = [], si_score = 1\<rparr>]"
    by code_simp
  have names: "sort_by str_less (map fst (reg_all (re_registry demo_search_env))) = [''jobs'']"
    by (simp add: demo_search_env_def reg_all_def sort_by_def)
  from search_returns_ranked_matches [OF q c, of "\<lambda>_. []" "()"] show ?thesis
    by (simp add: m names search_page_def search_limit_def search_offset_def default_search_limit_def max_search_limit_def)
qed

end
