(* ===== verification/Passkeys.thy ===== *)
theory Passkeys
  imports Auth_Service Kube_Types
begin

text \<open>
  Public-key sign-in (WebAuthn): \<open>model.PublicKeyCredential\<close>, \<open>model.PublicKeyCeremony\<close>,
  \<open>repository/publickey_repo.go\<close> and \<open>service/publickey_service.go\<close>. The WebAuthn library is the record
  \<open>wa_engine\<close>; identifiers, random bytes and the JSON of a session come from outside too. \<open>fl k\<close> are the
  faults of the \<open>k\<close>-th statement an operation sends to the store.
\<close>

section \<open>Rows\<close>

record pk_credential =
  pc_id :: nat
  pc_created :: gotime
  pc_updated :: gotime
  pc_user :: nat
  pc_credential :: string
  pc_key :: string
  pc_attestation :: string
  pc_transports :: string
  pc_aaguid :: string
  pc_attachment :: string
  pc_count :: int
  pc_eligible :: bool
  pc_backup :: bool
  pc_label :: string
  pc_last_used :: "gotime option"
  pc_revoked :: "gotime option"

record pk_ceremony =
  pm_id :: string
  pm_created :: gotime
  pm_user :: nat
  pm_kind :: string
  pm_session :: string
  pm_label :: string
  pm_expires :: gotime
  pm_consumed :: "gotime option"

record pk_state =
  pk_users :: user_table
  pk_creds :: "pk_credential table"
  pk_ceremonies :: "(string, pk_ceremony) gomap"

section \<open>The repository\<close>

definition ceremony_unavailable :: go_error where
  "ceremony_unavailable = OtherErr ''public key ceremony unavailable'' False"

definition last_authentication_method :: go_error where
  "last_authentication_method = OtherErr ''cannot remove the last authentication method'' False"

definition counter_race :: go_error where
  "counter_race = OtherErr ''credential counter changed concurrently'' False"

definition no_handle :: "user \<Rightarrow> bool" where
  "no_handle u \<longleftrightarrow> u_pk_handle u = None \<or> u_pk_handle u = Some []"

definition set_user_handle :: "faults \<Rightarrow> gotime \<Rightarrow> nat \<Rightarrow> string \<Rightarrow> user_table \<Rightarrow> user_table res" where
  "set_user_handle fl now i h t =
     (case update_where fl (\<lambda>u. user_live u \<and> u_id u = i \<and> no_handle u) (\<lambda>u. u\<lparr>u_pk_handle := Some h, u_updated := now\<rparr>) t of
        Inl e \<Rightarrow> Inl e
      | Inr (t', n) \<Rightarrow>
          if n = 0 then Inl record_not_found
          else if list_ex (\<lambda>u. u_pk_handle u = Some h) (rows t) then Inl unique_violation
          else Inr t')"

definition find_user_by_handle :: "faults \<Rightarrow> string \<Rightarrow> user_table \<Rightarrow> user res" where
  "find_user_by_handle fl h t = first_where fl (\<lambda>u. user_live u \<and> u_pk_handle u = Some h) t"

text \<open>The table of ceremonies, by their primary key.\<close>

definition create_ceremony :: "faults \<Rightarrow> pk_ceremony \<Rightarrow> (string, pk_ceremony) gomap \<Rightarrow> (string, pk_ceremony) gomap res" where
  "create_ceremony fl c cs =
     (if fl DbCreate then Inl db_error
      else if gm_get cs (pm_id c) \<noteq> None then Inl unique_violation
      else Inr (gm_put (pm_id c) c cs))"

definition open_ceremony :: "string \<Rightarrow> gotime \<Rightarrow> pk_ceremony \<Rightarrow> bool" where
  "open_ceremony kind now c \<longleftrightarrow> pm_kind c = kind \<and> pm_consumed c = None \<and> now < pm_expires c"

text \<open>One conditional update, which returns the row.\<close>

definition consume_ceremony ::
  "faults \<Rightarrow> string \<Rightarrow> string \<Rightarrow> gotime \<Rightarrow> (string, pk_ceremony) gomap \<Rightarrow> ((string, pk_ceremony) gomap \<times> pk_ceremony) res" where
  "consume_ceremony fl i kind now cs =
     (if fl DbUpdate then Inl db_error
      else case gm_get cs i of
        None \<Rightarrow> Inl ceremony_unavailable
      | Some c \<Rightarrow>
          if \<not> open_ceremony kind now c then Inl ceremony_unavailable
          else (let c' = c\<lparr>pm_consumed := Some now\<rparr> in Inr (gm_put i c' cs, c')))"

text \<open>The identifier of a credential is unique among all credentials, revoked ones included.\<close>

definition create_credential ::
  "faults \<Rightarrow> gotime \<Rightarrow> pk_credential \<Rightarrow> pk_credential table \<Rightarrow> (pk_credential table \<times> pk_credential) res" where
  "create_credential fl now c t =
     create_row fl (\<lambda>a b. pc_credential a = pc_credential b) (\<lambda>i x. x\<lparr>pc_id := i, pc_created := now, pc_updated := now\<rparr>) c t"

definition cred_active :: "pk_credential \<Rightarrow> bool" where
  "cred_active c \<longleftrightarrow> pc_revoked c = None"

definition list_active_credentials :: "faults \<Rightarrow> nat \<Rightarrow> pk_credential table \<Rightarrow> pk_credential list res" where
  "list_active_credentials fl uid t =
     (case find_where fl (\<lambda>c. pc_user c = uid \<and> cred_active c) t of
        Inl e \<Rightarrow> Inl e | Inr cs \<Rightarrow> Inr (sort_key pc_created cs))"

definition find_active_credential :: "faults \<Rightarrow> string \<Rightarrow> pk_credential table \<Rightarrow> pk_credential res" where
  "find_active_credential fl cid t = first_where fl (\<lambda>c. pc_credential c = cid \<and> cred_active c) t"

definition repo_rename_credential :: "faults \<Rightarrow> gotime \<Rightarrow> nat \<Rightarrow> nat \<Rightarrow> string \<Rightarrow> pk_credential table \<Rightarrow> pk_credential table res" where
  "repo_rename_credential fl now uid i label t =
     (case update_where fl (\<lambda>c. pc_id c = i \<and> pc_user c = uid \<and> cred_active c) (\<lambda>c. c\<lparr>pc_label := label, pc_updated := now\<rparr>) t of
        Inl e \<Rightarrow> Inl e
      | Inr (t', n) \<Rightarrow> if n \<noteq> 1 then Inl record_not_found else Inr t')"

text \<open>One transaction: a failing statement leaves the tables as they were.\<close>

definition repo_revoke ::
  "(nat \<Rightarrow> faults) \<Rightarrow> gotime \<Rightarrow> nat \<Rightarrow> nat \<Rightarrow> bool \<Rightarrow> user_table \<Rightarrow> pk_credential table \<Rightarrow> pk_credential table res" where
  "repo_revoke fl now uid i other users t =
     (case user_get_by_id (fl 1) uid users of
        Inl e \<Rightarrow> Inl e
      | Inr _ \<Rightarrow>
          (case first_where (fl 2) (\<lambda>c. pc_id c = i \<and> pc_user c = uid \<and> cred_active c) t of
             Inl e \<Rightarrow> Inl e
           | Inr c \<Rightarrow>
               if \<not> other \<and> fl 3 DbCount then Inl db_error
               else if \<not> other \<and> length (filter (\<lambda>c. pc_user c = uid \<and> cred_active c) (rows t)) \<le> 1
                 then Inl last_authentication_method
               else (case update_where (fl 4) (\<lambda>d. pc_id d = pc_id c \<and> cred_active d)
                            (\<lambda>d. d\<lparr>pc_revoked := Some now, pc_updated := now\<rparr>) t of
                       Inl e \<Rightarrow> Inl e | Inr (t', _) \<Rightarrow> Inr t')))"

definition update_after_login ::
  "faults \<Rightarrow> nat \<Rightarrow> int \<Rightarrow> int \<Rightarrow> bool \<Rightarrow> gotime \<Rightarrow> pk_credential table \<Rightarrow> pk_credential table res" where
  "update_after_login fl i prev cnt backup now t =
     (case update_where fl (\<lambda>c. pc_id c = i \<and> cred_active c \<and> pc_count c = prev)
             (\<lambda>c. c\<lparr>pc_count := cnt, pc_backup := backup, pc_last_used := Some now, pc_updated := now\<rparr>) t of
        Inl e \<Rightarrow> Inl e
      | Inr (t', n) \<Rightarrow> if n \<noteq> 1 then Inl counter_race else Inr t')"

section \<open>The library\<close>

record wa_credential =
  wc_id :: string
  wc_key :: string
  wc_attestation :: string
  wc_transports :: "string list option"
  wc_aaguid :: string
  wc_attachment :: string
  wc_count :: int
  wc_eligible :: bool
  wc_backup :: bool
  wc_clone :: bool

text \<open>
  \<open>we_assertion\<close>: the credential id and the user handle of an answer, which the library passes to the
  callback of \<open>FinishPasskeyLogin\<close> before it validates the answer for the account the callback finds.
\<close>

record ('s, 'rq) wa_engine =
  wn_begin_registration :: "user \<Rightarrow> wa_credential list \<Rightarrow> (string \<times> 's) option"
  wn_finish_registration :: "user \<Rightarrow> wa_credential list \<Rightarrow> 's \<Rightarrow> 'rq \<Rightarrow> wa_credential option"
  wn_begin_login :: "user \<Rightarrow> wa_credential list \<Rightarrow> (string \<times> 's) option"
  wn_begin_discoverable :: "(string \<times> 's) option"
  wn_finish_login :: "user \<Rightarrow> wa_credential list \<Rightarrow> 's \<Rightarrow> 'rq \<Rightarrow> wa_credential option"
  wn_assertion :: "'s \<Rightarrow> 'rq \<Rightarrow> (string \<times> string) option"
  wn_validate_passkey :: "user \<Rightarrow> wa_credential list \<Rightarrow> 's \<Rightarrow> 'rq \<Rightarrow> wa_credential option"
  wn_marshal :: "'s \<Rightarrow> string option"
  wn_unmarshal :: "string \<Rightarrow> 's option"
  wn_expires :: "'s \<Rightarrow> gotime"

record ('s, 'rq, 'tok) pk_env =
  pv_configured :: bool
  pv_engine :: "('s, 'rq) wa_engine"
  pv_ttl :: duration
  pv_policy :: string
  pv_auth :: "'tok auth_env"

section \<open>Configuration\<close>

record pk_config =
  pg_enabled :: bool
  pg_rp_id :: string
  pg_rp_name :: string
  pg_origins :: "string list"
  pg_verification :: string
  pg_policy :: string
  pg_ttl :: duration

record origin_url =
  ou_scheme :: string
  ou_host :: string
  ou_user :: bool
  ou_path :: string
  ou_query :: string
  ou_fragment :: string

definition origin_valid :: "origin_url \<Rightarrow> bool" where
  "origin_valid o' \<longleftrightarrow>
     \<not> ((ou_scheme o' \<noteq> ''https'' \<and> \<not> (ou_scheme o' = ''http'' \<and> (ou_host o' = ''localhost'' \<or> ou_host o' = ''127.0.0.1''))) \<or>
        ou_host o' = [] \<or> ou_user o' \<or> (ou_path o' \<noteq> [] \<and> ou_path o' \<noteq> ''/'') \<or> ou_query o' \<noteq> [] \<or> ou_fragment o' \<noteq> [])"

definition within_rp :: "string \<Rightarrow> origin_url \<Rightarrow> bool" where
  "within_rp rp o' \<longleftrightarrow>
     (let host = to_lower (ou_host o'); r = to_lower rp in host = r \<or> has_suffix host (CHR ''.'' # r))"

fun check_origins :: "(string \<Rightarrow> origin_url option) \<Rightarrow> string \<Rightarrow> string list \<Rightarrow> string option" where
  "check_origins parse rp [] = None"
| "check_origins parse rp (raw # raws) =
     (case parse raw of
        None \<Rightarrow> Some (''invalid public key origin '' @ go_quote raw)
      | Some o' \<Rightarrow>
          if \<not> origin_valid o' then Some (''invalid public key origin '' @ go_quote raw)
          else if \<not> within_rp rp o' then
            Some (''public key origin host '' @ go_quote (to_lower (ou_host o')) @ '' is not within RP ID '' @ go_quote rp)
          else check_origins parse rp raws)"

text \<open>\<open>NewPublicKeyService\<close>: the error, or whether the service is configured. \<open>engine\<close> is the error of the library.\<close>

definition new_public_key_service :: "(string \<Rightarrow> origin_url option) \<Rightarrow> string option \<Rightarrow> pk_config \<Rightarrow> string + bool" where
  "new_public_key_service parse engine cfg =
     (if \<not> pg_enabled cfg then Inr False
      else if pg_rp_id cfg = [] \<or> pg_rp_name cfg = [] \<or> pg_origins cfg = []
        then Inl ''public key authentication requires rp_id, rp_display_name, and origins''
      else case check_origins parse (pg_rp_id cfg) (pg_origins cfg) of
        Some e \<Rightarrow> Inl e
      | None \<Rightarrow>
          if pg_verification cfg \<notin> {''required'', ''preferred'', ''discouraged''}
            then Inl (''invalid public key user_verification '' @ go_quote (pg_verification cfg))
          else if pg_policy cfg \<noteq> ''deny'' \<and> pg_policy cfg \<noteq> ''warn''
            then Inl (''invalid public key counter_policy '' @ go_quote (pg_policy cfg))
          else if pg_ttl cfg < minute \<or> 10 * minute < pg_ttl cfg
            then Inl ''public key challenge_ttl must be between 1m and 10m''
          else (case engine of Some e \<Rightarrow> Inl (''initialize WebAuthn: '' @ e) | None \<Rightarrow> Inr True))"

section \<open>The service\<close>

definition ceremony_registration :: string where "ceremony_registration = ''registration''"
definition ceremony_login :: string where "ceremony_login = ''login''"

definition not_enabled :: go_error where
  "not_enabled = biz_new CodeNotFound ''public key authentication is not enabled''"

definition to_wa_credential :: "pk_credential \<Rightarrow> wa_credential res" where
  "to_wa_credential c =
     (case (if pc_transports c \<noteq> [] then unmarshal_strings (pc_transports c) else Some []) of
        None \<Rightarrow> Inl (OtherErr ''invalid transports'' False)
      | Some ts \<Rightarrow>
          Inr \<lparr>wc_id = pc_credential c, wc_key = pc_key c, wc_attestation = pc_attestation c, wc_transports = Some ts,
               wc_aaguid = pc_aaguid c, wc_attachment = pc_attachment c, wc_count = pc_count c, wc_eligible = pc_eligible c,
               wc_backup = pc_backup c, wc_clone = False\<rparr>)"

definition from_wa_credential :: "nat \<Rightarrow> string \<Rightarrow> wa_credential \<Rightarrow> pk_credential" where
  "from_wa_credential uid label c =
     \<lparr>pc_id = 0, pc_created = 0, pc_updated = 0, pc_user = uid, pc_credential = wc_id c, pc_key = wc_key c,
      pc_attestation = wc_attestation c, pc_transports = marshal_slice (wc_transports c), pc_aaguid = wc_aaguid c,
      pc_attachment = wc_attachment c, pc_count = wc_count c, pc_eligible = wc_eligible c, pc_backup = wc_backup c,
      pc_label = label, pc_last_used = None, pc_revoked = None\<rparr>"

record credential_info =
  cf_id :: nat
  cf_label :: string
  cf_transports :: "string list"
  cf_created :: gotime
  cf_last_used :: "gotime option"
  cf_eligible :: bool
  cf_backup :: bool

definition credential_info_of :: "pk_credential \<Rightarrow> credential_info" where
  "credential_info_of c =
     \<lparr>cf_id = pc_id c, cf_label = pc_label c,
      cf_transports = (case unmarshal_strings (pc_transports c) of Some ts \<Rightarrow> ts | None \<Rightarrow> []),
      cf_created = pc_created c, cf_last_used = pc_last_used c, cf_eligible = pc_eligible c, cf_backup = pc_backup c\<rparr>"

fun convert_all :: "pk_credential list \<Rightarrow> wa_credential list res" where
  "convert_all [] = Inr []"
| "convert_all (c # cs) =
     (case to_wa_credential c of
        Inl e \<Rightarrow> Inl e
      | Inr w \<Rightarrow> (case convert_all cs of Inl e \<Rightarrow> Inl e | Inr ws \<Rightarrow> Inr (w # ws)))"

definition load_credentials :: "faults \<Rightarrow> user \<Rightarrow> pk_credential table \<Rightarrow> wa_credential list res" where
  "load_credentials fl u t =
     (case list_active_credentials fl (u_id u) t of Inl e \<Rightarrow> Inl e | Inr cs \<Rightarrow> convert_all cs)"

definition verify_reauthentication :: "'tok auth_env \<Rightarrow> gotime \<Rightarrow> user \<Rightarrow> string \<Rightarrow> string \<Rightarrow> bool" where
  "verify_reauthentication ae now u pw totp \<longleftrightarrow>
     (if pw \<noteq> [] \<and> ae_check_pw ae pw (u_password_hash u) then True
      else if \<not> u_totp_enabled u \<or> totp = [] \<or> u_totp_secret_enc u = [] then False
      else (case ae_decrypt ae (u_totp_secret_enc u) (ae_key ae) of
              None \<Rightarrow> False | Some secret \<Rightarrow> ae_totp_valid ae secret totp now))"

text \<open>A ceremony is stored with the earlier of the two expiries; the answer is its id and the options.\<close>

definition store_ceremony ::
  "('s, 'rq, 'tok) pk_env \<Rightarrow> faults \<Rightarrow> gotime \<Rightarrow> string \<Rightarrow> nat \<Rightarrow> string \<Rightarrow> string \<Rightarrow> string \<times> 's \<Rightarrow> pk_state \<Rightarrow>
     pk_state \<times> (string \<times> string) res" where
  "store_ceremony env fl now uuid uid kind label begun st =
     (case wn_marshal (pv_engine env) (snd begun) of
        None \<Rightarrow> (st, Inl (OtherErr ''json: unsupported value'' False))
      | Some data \<Rightarrow>
          (let e1 = now + pv_ttl env;
               e2 = wn_expires (pv_engine env) (snd begun);
               expires = (if e2 \<noteq> 0 \<and> e2 < e1 then e2 else e1) in
           case create_ceremony fl \<lparr>pm_id = uuid, pm_created = now, pm_user = uid, pm_kind = kind, pm_session = data,
                  pm_label = label, pm_expires = expires, pm_consumed = None\<rparr> (pk_ceremonies st) of
             Inl e \<Rightarrow> (st, Inl e)
           | Inr cs \<Rightarrow> (st\<lparr>pk_ceremonies := cs\<rparr>, Inr (uuid, fst begun))))"

text \<open>A ceremony is consumed before its session is read.\<close>

definition consume ::
  "('s, 'rq, 'tok) pk_env \<Rightarrow> faults \<Rightarrow> gotime \<Rightarrow> string \<Rightarrow> string \<Rightarrow> pk_state \<Rightarrow> pk_state \<times> (pk_ceremony \<times> 's) option" where
  "consume env fl now i kind st =
     (case consume_ceremony fl i kind now (pk_ceremonies st) of
        Inl _ \<Rightarrow> (st, None)
      | Inr (cs, c) \<Rightarrow>
          (st\<lparr>pk_ceremonies := cs\<rparr>,
           case wn_unmarshal (pv_engine env) (pm_session c) of None \<Rightarrow> None | Some s \<Rightarrow> Some (c, s)))"

definition label_ok :: "string \<Rightarrow> bool" where
  "label_ok l \<longleftrightarrow> l \<noteq> [] \<and> length l \<le> 128"

text \<open>The account with a handle: one is drawn (\<open>rnd\<close>, absent when the generator fails) when it has none.\<close>

definition with_handle ::
  "(nat \<Rightarrow> faults) \<Rightarrow> gotime \<Rightarrow> string option \<Rightarrow> user \<Rightarrow> user_table \<Rightarrow> user_table \<times> user res" where
  "with_handle fl now rnd u t =
     (if \<not> no_handle u then (t, Inr u)
      else case rnd of
        None \<Rightarrow> (t, fail CodeInternal ''failed to initialize credential identity'')
      | Some h \<Rightarrow>
          (case (case set_user_handle (fl 2) now (u_id u) h t of
                   Inr t' \<Rightarrow> Inr t'
                 | Inl e \<Rightarrow> if e = record_not_found then Inr t else Inl e) of
             Inl _ \<Rightarrow> (t, fail CodeInternal ''failed to initialize credential identity'')
           | Inr t' \<Rightarrow>
               (case user_get_by_id (fl 3) (u_id u) t' of
                  Inl _ \<Rightarrow> (t', fail CodeInternal ''failed to load account'')
                | Inr u' \<Rightarrow> (t', Inr u'))))"

definition begin_registration ::
  "('s, 'rq, 'tok) pk_env \<Rightarrow> (nat \<Rightarrow> faults) \<Rightarrow> gotime \<Rightarrow> string \<Rightarrow> string option \<Rightarrow> nat \<Rightarrow> string \<Rightarrow> string \<Rightarrow> string \<Rightarrow> pk_state \<Rightarrow>
     pk_state \<times> (string \<times> string) res" where
  "begin_registration env fl now uuid rnd uid label pw totp st =
     (if \<not> pv_configured env then (st, Inl not_enabled)
      else if \<not> label_ok (trim_space label) then (st, fail CodeParamInvalid ''credential label is required'')
      else case user_get_by_id (fl 1) uid (pk_users st) of
        Inl _ \<Rightarrow> (st, fail CodeUnauthorized ''reauthentication failed'')
      | Inr u \<Rightarrow>
          if \<not> u_is_active u \<or> \<not> verify_reauthentication (pv_auth env) now u pw totp
            then (st, fail CodeUnauthorized ''reauthentication failed'')
          else (case with_handle fl now rnd u (pk_users st) of
                  (t, Inl e) \<Rightarrow> (st\<lparr>pk_users := t\<rparr>, Inl e)
                | (t, Inr u') \<Rightarrow>
                    (let st1 = st\<lparr>pk_users := t\<rparr> in
                     case load_credentials (fl 4) u' (pk_creds st) of
                       Inl _ \<Rightarrow> (st1, fail CodeInternal ''failed to load credentials'')
                     | Inr ws \<Rightarrow>
                         (case wn_begin_registration (pv_engine env) u' ws of
                            None \<Rightarrow> (st1, fail CodeInternal ''failed to begin registration'')
                          | Some begun \<Rightarrow>
                              store_ceremony env (fl 5) now uuid (u_id u') ceremony_registration (trim_space label) begun st1))))"

definition is_unique_violation :: "go_error \<Rightarrow> bool" where
  "is_unique_violation e \<longleftrightarrow>
     contains (to_lower (error_string e)) ''unique'' \<or> contains (to_lower (error_string e)) ''duplicate''"

definition finish_registration ::
  "('s, 'rq, 'tok) pk_env \<Rightarrow> (nat \<Rightarrow> faults) \<Rightarrow> gotime \<Rightarrow> nat \<Rightarrow> string \<Rightarrow> 'rq \<Rightarrow> pk_state \<Rightarrow> pk_state \<times> credential_info res" where
  "finish_registration env fl now uid cid rq st =
     (if \<not> pv_configured env then (st, Inl not_enabled)
      else case consume env (fl 1) now cid ceremony_registration st of
        (st1, None) \<Rightarrow> (st1, fail CodeUnauthorized ''registration ceremony is invalid or expired'')
      | (st1, Some (c, s)) \<Rightarrow>
          if pm_user c \<noteq> uid then (st1, fail CodeUnauthorized ''registration ceremony is invalid or expired'')
          else (case user_get_by_id (fl 2) uid (pk_users st1) of
                  Inl _ \<Rightarrow> (st1, fail CodeUnauthorized ''registration failed'')
                | Inr u \<Rightarrow>
                    if \<not> u_is_active u then (st1, fail CodeUnauthorized ''registration failed'')
                    else (case load_credentials (fl 3) u (pk_creds st1) of
                            Inl _ \<Rightarrow> (st1, fail CodeInternal ''registration failed'')
                          | Inr ws \<Rightarrow>
                              (case wn_finish_registration (pv_engine env) u ws s rq of
                                 None \<Rightarrow> (st1, fail CodeUnauthorized ''registration failed'')
                               | Some w \<Rightarrow>
                                   (case create_credential (fl 4) now (from_wa_credential uid (pm_label c) w) (pk_creds st1) of
                                      Inl e \<Rightarrow>
                                        (st1, if is_unique_violation e then fail CodeConflict ''credential is already registered''
                                              else fail CodeInternal ''failed to store credential'')
                                    | Inr (t, r) \<Rightarrow> (st1\<lparr>pk_creds := t\<rparr>, Inr (credential_info_of r)))))))"

text \<open>
  A login may name an account; when it cannot be used (unknown, disabled, without credentials) the login
  quietly becomes one for whatever account the authenticator holds.
\<close>

definition login_begun ::
  "('s, 'rq, 'tok) pk_env \<Rightarrow> (nat \<Rightarrow> faults) \<Rightarrow> string \<Rightarrow> pk_state \<Rightarrow> ((string \<times> 's) \<times> nat) option" where
  "login_begun env fl name st =
     (if trim_space name = [] then None
      else case user_get_by_username (fl 1) (trim_space name) (pk_users st) of
        Inl _ \<Rightarrow> None
      | Inr u \<Rightarrow>
          if \<not> u_is_active u then None
          else (case load_credentials (fl 2) u (pk_creds st) of
                  Inl _ \<Rightarrow> None
                | Inr ws \<Rightarrow>
                    if ws = [] then None
                    else (case wn_begin_login (pv_engine env) u ws of None \<Rightarrow> None | Some b \<Rightarrow> Some (b, u_id u))))"

definition begin_login ::
  "('s, 'rq, 'tok) pk_env \<Rightarrow> (nat \<Rightarrow> faults) \<Rightarrow> gotime \<Rightarrow> string \<Rightarrow> string \<Rightarrow> pk_state \<Rightarrow> pk_state \<times> (string \<times> string) res" where
  "begin_login env fl now uuid name st =
     (if \<not> pv_configured env then (st, Inl not_enabled)
      else case login_begun env fl name st of
        Some (b, uid) \<Rightarrow> store_ceremony env (fl 3) now uuid uid ceremony_login [] b st
      | None \<Rightarrow>
          (case wn_begin_discoverable (pv_engine env) of
             None \<Rightarrow> (st, fail CodeInternal ''authentication unavailable'')
           | Some b \<Rightarrow> store_ceremony env (fl 3) now uuid 0 ceremony_login [] b st))"

text \<open>Whose answer it is and what the library made of it, for both kinds of login.\<close>

definition validate_login ::
  "('s, 'rq, 'tok) pk_env \<Rightarrow> (nat \<Rightarrow> faults) \<Rightarrow> pk_ceremony \<Rightarrow> 's \<Rightarrow> 'rq \<Rightarrow> pk_state \<Rightarrow> (user \<times> wa_credential) option" where
  "validate_login env fl c s rq st =
     (if pm_user c \<noteq> 0 then
        (case user_get_by_id (fl 2) (pm_user c) (pk_users st) of
           Inl _ \<Rightarrow> None
         | Inr u \<Rightarrow>
             if \<not> u_is_active u then None
             else (case load_credentials (fl 3) u (pk_creds st) of
                     Inl _ \<Rightarrow> None
                   | Inr ws \<Rightarrow> map_option (Pair u) (wn_finish_login (pv_engine env) u ws s rq)))
      else
        (case wn_assertion (pv_engine env) s rq of
           None \<Rightarrow> None
         | Some (raw, handle) \<Rightarrow>
             (case find_user_by_handle (fl 2) handle (pk_users st) of
                Inl _ \<Rightarrow> None
              | Inr u \<Rightarrow>
                  if \<not> u_is_active u then None
                  else (case load_credentials (fl 3) u (pk_creds st) of
                          Inl _ \<Rightarrow> None
                        | Inr ws \<Rightarrow>
                            if \<not> list_ex (\<lambda>w. wc_id w = raw) ws then None
                            else map_option (Pair u) (wn_validate_passkey (pv_engine env) u ws s rq)))))"

definition auth_failed :: "'a res" where
  "auth_failed = fail CodeUnauthorized ''authentication failed''"

definition finish_login ::
  "('s, 'rq, 'tok) pk_env \<Rightarrow> (nat \<Rightarrow> faults) \<Rightarrow> gotime \<Rightarrow> string \<Rightarrow> 'rq \<Rightarrow> pk_state \<Rightarrow> pk_state \<times> 'tok login_response res" where
  "finish_login env fl now cid rq st =
     (if \<not> pv_configured env then (st, Inl not_enabled)
      else case consume env (fl 1) now cid ceremony_login st of
        (st1, None) \<Rightarrow> (st1, auth_failed)
      | (st1, Some (c, s)) \<Rightarrow>
          (case validate_login env fl c s rq st1 of
             None \<Rightarrow> (st1, auth_failed)
           | Some (u, w) \<Rightarrow>
               (case find_active_credential (fl 4) (wc_id w) (pk_creds st1) of
                  Inl _ \<Rightarrow> (st1, auth_failed)
                | Inr r \<Rightarrow>
                    if pc_user r \<noteq> u_id u then (st1, auth_failed)
                    else if wc_clone w \<and> pv_policy env = ''deny'' then (st1, auth_failed)
                    else (case update_after_login (fl 5) (pc_id r) (pc_count r) (wc_count w) (wc_backup w) now (pk_creds st1) of
                            Inl e \<Rightarrow>
                              (st1, if e = counter_race then auth_failed else fail CodeInternal ''authentication failed'')
                          | Inr t \<Rightarrow>
                              (case issue_login_for_user (pv_auth env) (fl 6) now (u_id u) (pk_users st1) of
                                 Inl e \<Rightarrow> (st1\<lparr>pk_creds := t\<rparr>, Inl e)
                               | Inr (ut, lr) \<Rightarrow> (st1\<lparr>pk_creds := t, pk_users := ut\<rparr>, Inr lr))))))"

definition list_credentials :: "faults \<Rightarrow> nat \<Rightarrow> pk_credential table \<Rightarrow> credential_info list res" where
  "list_credentials fl uid t =
     (case list_active_credentials fl uid t of Inl e \<Rightarrow> Inl e | Inr cs \<Rightarrow> Inr (map credential_info_of cs))"

definition rename_credential :: "faults \<Rightarrow> gotime \<Rightarrow> nat \<Rightarrow> nat \<Rightarrow> string \<Rightarrow> pk_credential table \<Rightarrow> pk_credential table res" where
  "rename_credential fl now uid i label t =
     (if \<not> label_ok (trim_space label) then fail CodeParamInvalid ''credential label is required''
      else case repo_rename_credential fl now uid i (trim_space label) t of
        Inl _ \<Rightarrow> fail CodeNotFound ''credential not found'' | Inr t' \<Rightarrow> Inr t')"

definition other_method :: "user \<Rightarrow> bool" where
  "other_method u \<longleftrightarrow>
     u_password_hash u \<noteq> [] \<or> u_totp_enabled u \<or> u_recovery_codes_enc u \<noteq> [] \<or>
     (u_auth_provider u \<noteq> [] \<and> u_auth_provider u \<noteq> ''local'')"

definition revoke_credential :: "(nat \<Rightarrow> faults) \<Rightarrow> gotime \<Rightarrow> nat \<Rightarrow> nat \<Rightarrow> user_table \<Rightarrow> pk_credential table \<Rightarrow> pk_credential table res" where
  "revoke_credential fl now uid i users t =
     (case user_get_by_id (fl 0) uid users of
        Inl _ \<Rightarrow> fail CodeNotFound ''user not found''
      | Inr u \<Rightarrow>
          (case repo_revoke fl now uid i (other_method u) users t of
             Inl e \<Rightarrow>
               if e = last_authentication_method
                 then fail CodeConflict ''add another authentication or recovery method before revoking this credential''
               else fail CodeNotFound ''credential not found''
           | Inr t' \<Rightarrow> Inr t'))"

text \<open>\<open>PublicKeyHandler.AdminRevoke\<close>: the only operation on somebody else's credentials.\<close>

definition handle_admin_revoke ::
  "(nat \<Rightarrow> faults) \<Rightarrow> gotime \<Rightarrow> string \<Rightarrow> nat option \<Rightarrow> nat option \<Rightarrow> user_table \<Rightarrow> pk_credential table \<Rightarrow> pk_credential table res" where
  "handle_admin_revoke fl now rl uid i users t =
     (if rl \<noteq> ''admin'' \<and> rl \<noteq> ''super-admin'' then fail CodeForbidden ''forbidden''
      else case (uid, i) of
        (Some u, Some c) \<Rightarrow> revoke_credential fl now u c users t
      | _ \<Rightarrow> fail CodeParamInvalid ''invalid user or credential id'')"

section \<open>Properties\<close>

lemma consume_ceremony_Inr:
  "consume_ceremony fl i kind now cs = Inr (cs', c) \<longleftrightarrow>
     \<not> fl DbUpdate \<and> (\<exists>c0. gm_get cs i = Some c0 \<and> open_ceremony kind now c0 \<and> c = c0\<lparr>pm_consumed := Some now\<rparr> \<and> cs' = gm_put i c cs)"
  by (auto simp: consume_ceremony_def Let_def split: option.splits)

lemma consume_Some:
  assumes "consume env fl now i kind st = (st1, Some (c, s))"
  shows "\<exists>c0. gm_get (pk_ceremonies st) i = Some c0 \<and> open_ceremony kind now c0 \<and> c = c0\<lparr>pm_consumed := Some now\<rparr> \<and>
    st1 = st\<lparr>pk_ceremonies := gm_put i c (pk_ceremonies st)\<rparr> \<and> wn_unmarshal (pv_engine env) (pm_session c0) = Some s"
  using assms by (auto simp: consume_def consume_ceremony_Inr split: sum.splits prod.splits option.splits)

text \<open>A ceremony is a single-use grant, whatever becomes of the attempt that consumed it.\<close>

definition ceremony_open :: "pk_state \<Rightarrow> string \<Rightarrow> bool" where
  "ceremony_open st i \<longleftrightarrow> (\<exists>c. gm_get (pk_ceremonies st) i = Some c \<and> pm_consumed c = None)"

definition take_ceremony ::
  "('s, 'rq, 'tok) pk_env \<Rightarrow> faults \<times> gotime \<times> string \<times> string \<Rightarrow> pk_state \<Rightarrow> pk_state \<times> (pk_ceremony \<times> 's) option" where
  "take_ceremony env r st = (case r of (fl, now, kind, i) \<Rightarrow> consume env fl now i kind st)"

interpretation ceremonies: single_use "take_ceremony env" "\<lambda>(fl, now, kind, i). i" ceremony_open
proof
  fix r :: "faults \<times> gotime \<times> string \<times> string" and s s' :: pk_state and v x k
  obtain fl now kind i where r: "r = (fl, now, kind, i)" by (cases r)
  show "take_ceremony env r s = (s', Some v) \<Longrightarrow> ceremony_open s (case r of (fl, now, kind, i) \<Rightarrow> i)"
    by (cases v) (auto simp: r take_ceremony_def ceremony_open_def open_ceremony_def dest!: consume_Some)
  show "take_ceremony env r s = (s', Some v) \<Longrightarrow> \<not> ceremony_open s' (case r of (fl, now, kind, i) \<Rightarrow> i)"
    by (cases v) (auto simp: r take_ceremony_def ceremony_open_def dest!: consume_Some)
  show "take_ceremony env r s = (s', x) \<Longrightarrow> ceremony_open s' k \<Longrightarrow> ceremony_open s k"
    by (auto simp: r take_ceremony_def ceremony_open_def consume_def consume_ceremony_Inr split: sum.splits if_splits)
qed

text \<open>
  A ceremony is good for one attempt: of any number of attempts to finish it, of either kind and at any
  times, at most one gets past the check of the ceremony.
\<close>

theorem ceremony_single_use:
  "successes (\<lambda>(fl, now, kind, i). i) k (run_takes (take_ceremony env) attempts st) \<le> 1"
  by (rule ceremonies.at_most_once)

lemma validate_login_Some:
  assumes "validate_login env fl c s rq st = Some (u, w)"
  shows "u \<in> set (rows (pk_users st)) \<and> user_live u \<and> u_is_active u \<and> (pm_user c \<noteq> 0 \<longrightarrow> u_id u = pm_user c) \<and>
    (\<exists>ws. load_credentials (fl 3) u (pk_creds st) = Inr ws \<and>
      (if pm_user c \<noteq> 0 then wn_finish_login (pv_engine env) u ws s rq = Some w
       else wn_validate_passkey (pv_engine env) u ws s rq = Some w \<and>
         (\<exists>raw h. wn_assertion (pv_engine env) s rq = Some (raw, h) \<and> u_pk_handle u = Some h \<and> raw \<in> wc_id ` set ws)))"
proof (cases "pm_user c = 0")
  case True
  from assms True obtain raw h where a: "wn_assertion (pv_engine env) s rq = Some (raw, h)"
    by (simp add: validate_login_def split: option.splits) auto
  with assms True obtain u' where u: "find_user_by_handle (fl 2) h (pk_users st) = Inr u'" "u_is_active u'"
    by (simp add: validate_login_def split: sum.splits if_splits)
  with assms True a obtain ws where ws: "load_credentials (fl 3) u' (pk_creds st) = Inr ws"
    by (simp add: validate_login_def split: sum.splits)
  with assms True a u have "list_ex (\<lambda>w. wc_id w = raw) ws" "u' = u" "wn_validate_passkey (pv_engine env) u ws s rq = Some w"
    by (auto simp: validate_login_def split: if_splits)
  moreover from u(1) have "user_live u'" "u_pk_handle u' = Some h" "u' \<in> set (rows (pk_users st))"
    by (auto simp: find_user_by_handle_def dest: first_where_sat)
  ultimately show ?thesis using True a u ws by (auto simp: list_ex_iff)
next
  case False
  with assms obtain u' where u: "user_get_by_id (fl 2) (pm_user c) (pk_users st) = Inr u'" "u_is_active u'"
    by (simp add: validate_login_def split: sum.splits if_splits)
  with assms False obtain ws where ws: "load_credentials (fl 3) u' (pk_creds st) = Inr ws"
    by (simp add: validate_login_def split: sum.splits)
  with assms False u have "u' = u" "wn_finish_login (pv_engine env) u ws s rq = Some w"
    by (auto simp: validate_login_def)
  moreover from u(1) have "user_live u'" "u_id u' = pm_user c" "u' \<in> set (rows (pk_users st))"
    by (auto simp: user_get_by_id_def dest: first_where_sat)
  ultimately show ?thesis using False u ws by auto
qed

lemma update_after_login_Inr:
  assumes "update_after_login fl i prev cnt backup now t = Inr t'"
  shows "\<exists>c \<in> set (rows t). pc_id c = i \<and> cred_active c \<and> pc_count c = prev"
proof -
  from assms have "length (filter (\<lambda>c. pc_id c = i \<and> cred_active c \<and> pc_count c = prev) (rows t)) = 1"
    by (auto simp: update_after_login_def update_where_def split: if_splits)
  then have "filter (\<lambda>c. pc_id c = i \<and> cred_active c \<and> pc_count c = prev) (rows t) \<noteq> []" by auto
  then show ?thesis by (metis (mono_tags, lifting) filter_empty_conv)
qed

text \<open>A second commit that read the same counter loses, when the first one changed it.\<close>

lemma stale_counter_rejected:
  assumes "update_after_login fl i prev cnt backup now t = Inr t'" "cnt \<noteq> prev" "\<not> fl' DbUpdate"
  shows "update_after_login fl' i prev cnt' backup' now' t' = Inl counter_race"
proof -
  from assms(1) have t': "rows t' = map (\<lambda>c. if pc_id c = i \<and> cred_active c \<and> pc_count c = prev
      then c\<lparr>pc_count := cnt, pc_backup := backup, pc_last_used := Some now, pc_updated := now\<rparr> else c) (rows t)"
    by (auto simp: update_after_login_def update_where_def split: if_splits)
  have "\<not> (pc_id d = i \<and> cred_active d \<and> pc_count d = prev)" if "d \<in> set (rows t')" for d
  proof -
    from that obtain c where d: "d = (if pc_id c = i \<and> cred_active c \<and> pc_count c = prev
        then c\<lparr>pc_count := cnt, pc_backup := backup, pc_last_used := Some now, pc_updated := now\<rparr> else c)"
      unfolding t' set_map by blast
    show ?thesis unfolding d using assms(2) by (cases "pc_id c = i \<and> cred_active c \<and> pc_count c = prev") simp_all
  qed
  then have "filter (\<lambda>c. pc_id c = i \<and> cred_active c \<and> pc_count c = prev) (rows t') = []"
    by (simp add: filter_empty_conv)
  with assms(3) show ?thesis by (simp add: update_after_login_def update_where_def)
qed

lemma issue_login_Inr:
  assumes "issue_login_for_user e fl now uid t = Inr (t', lr)"
  shows "ui_id (lr_user lr) = uid"
  using assms by (auto simp: issue_login_for_user_def build_login_response_def user_get_by_id_def Let_def
      dest!: first_where_sat split: sum.splits if_splits)


text \<open>
  C30. Revoking never locks an account out: when an account has no other way to sign in or to recover, a
  successful revocation leaves it an active credential; and in every case exactly the named credential
  of that account is revoked.
\<close>

theorem revocation_keeps_a_way_in:
  assumes "revoke_credential fl now uid i users t = Inr t'" "table_ok pc_id t"
  shows "\<exists>u c. u \<in> set (rows users) \<and> user_live u \<and> u_id u = uid \<and> c \<in> set (rows t) \<and> pc_id c = i \<and> pc_user c = uid \<and> cred_active c \<and>
    rows t' = map (\<lambda>d. if pc_id d = i then d\<lparr>pc_revoked := Some now, pc_updated := now\<rparr> else d) (rows t) \<and>
    (other_method u \<or> (\<exists>d \<in> set (rows t'). pc_user d = uid \<and> cred_active d))"
proof -
  from assms(1) obtain u where u: "user_get_by_id (fl 0) uid users = Inr u" "repo_revoke fl now uid i (other_method u) users t = Inr t'"
    by (auto simp: revoke_credential_def split: sum.splits if_splits)
  from u(2) obtain c where c: "first_where (fl 2) (\<lambda>c. pc_id c = i \<and> pc_user c = uid \<and> cred_active c) t = Inr c"
    by (auto simp: repo_revoke_def split: sum.splits)
  with u(2) have n: "other_method u \<or> 1 < length (filter (\<lambda>c. pc_user c = uid \<and> cred_active c) (rows t))"
    and up: "\<exists>n. update_where (fl 4) (\<lambda>d. pc_id d = pc_id c \<and> cred_active d) (\<lambda>d. d\<lparr>pc_revoked := Some now, pc_updated := now\<rparr>) t = Inr (t', n)"
    by (auto simp: repo_revoke_def split: sum.splits if_splits)
  from first_where_sat [OF c] have c': "pc_id c = i" "pc_user c = uid" "cred_active c" "c \<in> set (rows t)" by auto
  have only: "d = c" if "d \<in> set (rows t)" "pc_id d = i" for d
    using assms(2) that c' by (auto simp: table_ok_def distinct_map dest: inj_onD)
  have rows': "rows t' = map (\<lambda>d. if pc_id d = i then d\<lparr>pc_revoked := Some now, pc_updated := now\<rparr> else d) (rows t)"
  proof -
    from up have "rows t' = map (\<lambda>d. if pc_id d = pc_id c \<and> cred_active d then d\<lparr>pc_revoked := Some now, pc_updated := now\<rparr> else d) (rows t)"
      by (auto simp: update_where_def split: if_splits)
    also have "\<dots> = map (\<lambda>d. if pc_id d = i then d\<lparr>pc_revoked := Some now, pc_updated := now\<rparr> else d) (rows t)"
      by (rule map_cong [OF refl]) (use only c' in metis)
    finally show ?thesis .
  qed
  have "\<exists>d \<in> set (rows t'). pc_user d = uid \<and> cred_active d" if "\<not> other_method u"
  proof -
    let ?xs = "filter (\<lambda>c. pc_user c = uid \<and> cred_active c) (rows t)"
    from n that have "1 < length ?xs" by simp
    moreover have "distinct ?xs" using assms(2) by (auto simp: table_ok_def distinct_map)
    ultimately have "1 < card (set ?xs)" by (simp only: distinct_card)
    then have "\<not> set ?xs \<subseteq> {c}" by (metis card_mono card.insert card.empty empty_iff finite.intros leD One_nat_def)
    then obtain d where "d \<in> set (rows t)" "pc_user d = uid" "cred_active d" "d \<noteq> c" by auto
    with only have "d \<in> set (rows t')" unfolding rows' by (auto simp: image_iff intro!: bexI [of _ d])
    with \<open>pc_user d = uid\<close> \<open>cred_active d\<close> show ?thesis by blast
  qed
  moreover from u(1) have "u \<in> set (rows users)" "user_live u" "u_id u = uid"
    by (auto simp: user_get_by_id_def dest: first_where_sat)
  ultimately show ?thesis using c' rows' by blast
qed

section \<open>Witnesses\<close>

definition demo_engine :: "(unit, unit) wa_engine" where
  "demo_engine =
     \<lparr>wn_begin_registration = (\<lambda>u ws. Some (''create'', ())), wn_finish_registration = (\<lambda>u ws s rq. None),
      wn_begin_login = (\<lambda>u ws. Some (''get'', ())), wn_begin_discoverable = Some (''get'', ()),
      wn_finish_login = (\<lambda>u ws s rq. case ws of [] \<Rightarrow> None | w # _ \<Rightarrow> Some (w\<lparr>wc_count := wc_count w + 1\<rparr>)),
      wn_assertion = (\<lambda>s rq. None), wn_validate_passkey = (\<lambda>u ws s rq. None), wn_marshal = (\<lambda>s. Some ''s''),
      wn_unmarshal = (\<lambda>s. Some ()), wn_expires = (\<lambda>s. 0)\<rparr>"

definition demo_auth :: "payload auth_env" where
  "demo_auth =
     \<lparr>ae_jwt = demo_manager, ae_key = [], ae_check_pw = (=), ae_encrypt = (\<lambda>x k. Some x), ae_decrypt = (\<lambda>x k. Some x),
      ae_totp_valid = (\<lambda>s c n. False), ae_totp_generate = (\<lambda>n. None), ae_rand = (\<lambda>n. None), ae_directory = None\<rparr>"

definition demo_pk_env :: "(unit, unit, payload) pk_env" where
  "demo_pk_env = \<lparr>pv_configured = True, pv_engine = demo_engine, pv_ttl = minute, pv_policy = ''deny'', pv_auth = demo_auth\<rparr>"

definition demo_passkey :: "nat \<Rightarrow> pk_credential" where
  "demo_passkey i =
     \<lparr>pc_id = i, pc_created = 0, pc_updated = 0, pc_user = 3, pc_credential = replicate i (CHR ''c''), pc_key = ''k'', pc_attestation = [],
      pc_transports = [], pc_aaguid = [], pc_attachment = [], pc_count = 4, pc_eligible = False, pc_backup = False,
      pc_label = ''laptop'', pc_last_used = None, pc_revoked = None\<rparr>"

definition demo_pk_state :: pk_state where
  "demo_pk_state =
     \<lparr>pk_users = \<lparr>rows = [(new_user ''bob'' [] ''viewer'')\<lparr>u_id := 3\<rparr>], seq = 3\<rparr>,
      pk_creds = \<lparr>rows = [demo_passkey 1, demo_passkey 2], seq = 2\<rparr>,
      pk_ceremonies = [(''x'', \<lparr>pm_id = ''x'', pm_created = 0, pm_user = 3, pm_kind = ''login'', pm_session = ''s'', pm_label = [],
         pm_expires = 60, pm_consumed = None\<rparr>)]\<rparr>"


theorem revocation_keeps_a_way_in_witness:
  "\<exists>t'. revoke_credential (\<lambda>_. no_faults) 9 3 1 (pk_users demo_pk_state) (pk_creds demo_pk_state) = Inr t' \<and>
     (\<exists>d \<in> set (rows t'). pc_user d = 3 \<and> cred_active d)"
proof -
  have "isOk (revoke_credential (\<lambda>_. no_faults) 9 3 1 (pk_users demo_pk_state) (pk_creds demo_pk_state))" by code_simp
  then obtain t' where r: "revoke_credential (\<lambda>_. no_faults) 9 3 1 (pk_users demo_pk_state) (pk_creds demo_pk_state) = Inr t'"
    by (auto simp: isOk_iff)
  have ok: "table_ok pc_id (pk_creds demo_pk_state)" by (simp add: table_ok_def demo_pk_state_def demo_passkey_def)
  have "\<not> other_method u" if "u \<in> set (rows (pk_users demo_pk_state))" for u
    using that by (auto simp: demo_pk_state_def other_method_def new_user_def)
  with revocation_keeps_a_way_in [OF r ok] have "\<exists>d \<in> set (rows t'). pc_user d = 3 \<and> cred_active d" by blast
  with r show ?thesis by blast
qed

end
