(* ===== verification/Directory_Sync.thy ===== *)
theory Directory_Sync
  imports Auth_Service Rbac Go_Sort Go_Integers Kube_Types
begin

text \<open>
  Sign-in through a company directory: the client of \<open>directory/client.go\<close>, the settings and role
  mappings of \<open>repository/directory_repo.go\<close>, the operations of \<open>service/directory_service.go\<close> and the
  handlers of \<open>handler/directory_handler.go\<close>. The LDAP library, \<open>net/url\<close>, the certificate pool and the
  hash are parameters, gathered in \<open>ldap_env\<close>; the two operations the authentication service calls are
  put together as the value \<open>directory_of\<close> of its record \<open>directory_ops\<close>.
\<close>

section \<open>The client\<close>

record dir_client_config =
  dc_server :: string
  dc_ca :: string
  dc_bind_dn :: string
  dc_bind_password :: string
  dc_base :: string
  dc_filter :: string
  dc_id_attr :: string
  dc_user_attr :: string
  dc_display_attr :: string
  dc_email_attr :: string
  dc_group_attr :: string
  dc_starttls :: bool
  dc_plaintext :: bool
  dc_connect :: duration
  dc_search :: duration

record dir_identity =
  id_stable :: string
  id_username :: string
  id_display :: string
  id_email :: string
  id_groups :: "string list"

datatype dir_error = ErrInvalidConfig | ErrUnavailable | ErrNoMatch | ErrAmbiguous | ErrCredentials | ContextDone

text \<open>
  The environment. A URL is its scheme, host, whether it names a user, and path. An entry of a search is its
  distinguished name, the first raw value of an attribute and the values of an attribute; a search is
  made with the base, the time limit and the size limit 2 of the configuration, over the whole subtree.
\<close>

record ldap_url =
  lu_scheme :: string
  lu_host :: string
  lu_user :: bool
  lu_path :: string

record ldap_entry =
  en_dn :: string
  en_raw :: "string \<Rightarrow> string"
  en_values :: "string \<Rightarrow> string list"

record ldap_env =
  le_parse :: "string \<Rightarrow> ldap_url option"
  le_gin_mode :: string
  le_pem :: "string \<Rightarrow> bool"
  le_dial :: "dir_client_config \<Rightarrow> bool"
  le_ctx_done :: bool
  le_tls :: "dir_client_config \<Rightarrow> bool"
  le_bind :: "dir_client_config \<Rightarrow> string \<Rightarrow> string \<Rightarrow> bool"
  le_anonymous :: "dir_client_config \<Rightarrow> bool"
  le_search :: "dir_client_config \<Rightarrow> string \<Rightarrow> string list \<Rightarrow> ldap_entry list option"
  le_escape :: "string \<Rightarrow> string"
  le_sha :: "string \<Rightarrow> string"
  le_unicode :: "string \<Rightarrow> bool"

text \<open>
  \<open>le_unicode v\<close> says that the runes of \<open>v\<close> outside ASCII are letters or digits by the tables of package
  \<open>unicode\<close>.
\<close>

definition ascii_alnum :: "char \<Rightarrow> bool" where
  "ascii_alnum c \<longleftrightarrow> (let n = of_char c :: nat in 48 \<le> n \<and> n \<le> 57 \<or> 65 \<le> n \<and> n \<le> 90 \<or> 97 \<le> n \<and> n \<le> 122)"

definition valid_attribute :: "ldap_env \<Rightarrow> string \<Rightarrow> bool" where
  "valid_attribute e v \<longleftrightarrow>
     v \<noteq> [] \<and> le_unicode e v \<and>
     list_all (\<lambda>c. (128::nat) \<le> of_char c \<or> ascii_alnum c \<or> c = CHR ''-'' \<or> c = CHR ''.'') v"

fun count_of :: "string \<Rightarrow> string \<Rightarrow> nat" where
  "count_of w [] = 0"
| "count_of w (c # s) = (if has_prefix (c # s) w then Suc (count_of w (drop (length w - 1) s)) else count_of w s)"

fun replace_first :: "string \<Rightarrow> string \<Rightarrow> string \<Rightarrow> string" where
  "replace_first w r [] = []"
| "replace_first w r (c # s) = (if has_prefix (c # s) w then r @ drop (length w - 1) s else c # replace_first w r s)"

definition username_slot :: string where "username_slot = ''{{username}}''"

definition in_release :: "ldap_env \<Rightarrow> bool" where
  "in_release e \<longleftrightarrow> equal_fold (le_gin_mode e) ''release''"

definition url_bad :: "ldap_url \<Rightarrow> bool" where
  "url_bad u \<longleftrightarrow> lu_host u = [] \<or> (lu_scheme u \<noteq> ''ldap'' \<and> lu_scheme u \<noteq> ''ldaps'') \<or> lu_user u \<or>
     (lu_path u \<noteq> [] \<and> lu_path u \<noteq> ''/'')"

definition validate_config :: "ldap_env \<Rightarrow> dir_client_config \<Rightarrow> dir_error + ldap_url" where
  "validate_config e c =
     (case le_parse e (dc_server c) of
        None \<Rightarrow> Inl ErrInvalidConfig
      | Some u \<Rightarrow>
          if url_bad u then Inl ErrInvalidConfig
          else if lu_scheme u = ''ldap'' \<and> \<not> dc_starttls c \<and> \<not> dc_plaintext c then Inl ErrInvalidConfig
          else if lu_scheme u = ''ldap'' \<and> \<not> dc_starttls c \<and> dc_plaintext c \<and> in_release e then Inl ErrInvalidConfig
          else if dc_base c = [] \<or> count_of username_slot (dc_filter c) \<noteq> 1 then Inl ErrInvalidConfig
          else if list_ex (\<lambda>a. a \<noteq> [] \<and> \<not> valid_attribute e a)
                    [dc_id_attr c, dc_user_attr c, dc_display_attr c, dc_email_attr c, dc_group_attr c]
            then Inl ErrInvalidConfig
          else if dc_ca c \<noteq> [] \<and> \<not> le_pem e (dc_ca c) then Inl ErrInvalidConfig
          else Inr u)"

definition ldap_connect :: "ldap_env \<Rightarrow> dir_client_config \<Rightarrow> dir_error + ldap_url" where
  "ldap_connect e c =
     (case validate_config e c of
        Inl err \<Rightarrow> Inl err
      | Inr u \<Rightarrow>
          if \<not> le_dial e c then Inl (if le_ctx_done e then ContextDone else ErrUnavailable)
          else if lu_scheme u = ''ldap'' \<and> dc_starttls c \<and> \<not> le_tls e c then Inl ErrUnavailable
          else Inr u)"

definition bind_service :: "ldap_env \<Rightarrow> dir_client_config \<Rightarrow> bool" where
  "bind_service e c = (if dc_bind_dn c = [] then le_anonymous e c else le_bind e c (dc_bind_dn c) (dc_bind_password c))"

text \<open>\<open>unique\<close>: the values that are not empty, each once, in the order of their first occurrence.\<close>

definition unique_values :: "string list \<Rightarrow> string list" where
  "unique_values vs = rev (foldl (\<lambda>out v. if v = [] \<or> v \<in> set out then out else v # out) [] vs)"

definition attribute :: "ldap_entry \<Rightarrow> string \<Rightarrow> string" where
  "attribute en a = (case en_values en a of [] \<Rightarrow> [] | v # _ \<Rightarrow> v)"

definition stable_id :: "ldap_env \<Rightarrow> dir_client_config \<Rightarrow> ldap_entry \<Rightarrow> string" where
  "stable_id e c en = concat (map (\<lambda>b. [hex_digit (of_char b div 16), hex_digit (of_char b mod 16)])
     (le_sha e (to_lower (dc_server c) @ [CHR 0x00] @ en_raw en (dc_id_attr c))))"

definition identity_of :: "ldap_env \<Rightarrow> dir_client_config \<Rightarrow> ldap_entry \<Rightarrow> dir_identity" where
  "identity_of e c en =
     \<lparr>id_stable = stable_id e c en, id_username = trim_space (attribute en (dc_user_attr c)),
      id_display = trim_space (attribute en (dc_display_attr c)), id_email = trim_space (attribute en (dc_email_attr c)),
      id_groups = unique_values (en_values en (dc_group_attr c))\<rparr>"

definition search_filter :: "ldap_env \<Rightarrow> dir_client_config \<Rightarrow> string \<Rightarrow> string" where
  "search_filter e c identifier = replace_first username_slot (le_escape e identifier) (dc_filter c)"

definition search_attributes :: "dir_client_config \<Rightarrow> string list" where
  "search_attributes c = unique_values [dc_id_attr c, dc_user_attr c, dc_display_attr c, dc_email_attr c, dc_group_attr c]"

definition search_one :: "ldap_env \<Rightarrow> dir_client_config \<Rightarrow> string \<Rightarrow> dir_error + (ldap_entry \<times> dir_identity)" where
  "search_one e c identifier =
     (case le_search e c (search_filter e c identifier) (search_attributes c) of
        None \<Rightarrow> Inl ErrUnavailable
      | Some [] \<Rightarrow> Inl ErrNoMatch
      | Some [en] \<Rightarrow>
          if en_raw en (dc_id_attr c) = [] then Inl ErrNoMatch
          else if trim_space (attribute en (dc_user_attr c)) = [] then Inl ErrNoMatch
          else Inr (en, identity_of e c en)
      | Some _ \<Rightarrow> Inl ErrAmbiguous)"

definition ldap_authenticate :: "ldap_env \<Rightarrow> dir_client_config \<Rightarrow> string \<Rightarrow> string \<Rightarrow> dir_error + dir_identity" where
  "ldap_authenticate e c identifier password =
     (if password = [] then Inl ErrCredentials
      else case ldap_connect e c of
        Inl err \<Rightarrow> Inl err
      | Inr _ \<Rightarrow>
          if \<not> bind_service e c then Inl ErrUnavailable
          else (case search_one e c identifier of
                  Inl err \<Rightarrow> Inl err
                | Inr (en, ident) \<Rightarrow> if le_bind e c (en_dn en) password then Inr ident else Inl ErrCredentials))"

definition ldap_lookup :: "ldap_env \<Rightarrow> dir_client_config \<Rightarrow> string \<Rightarrow> dir_error + dir_identity" where
  "ldap_lookup e c identifier =
     (case ldap_connect e c of
        Inl err \<Rightarrow> Inl err
      | Inr _ \<Rightarrow>
          if \<not> bind_service e c then Inl ErrUnavailable
          else (case search_one e c identifier of Inl err \<Rightarrow> Inl err | Inr (en, ident) \<Rightarrow> Inr ident))"

definition ldap_ping :: "ldap_env \<Rightarrow> dir_client_config \<Rightarrow> dir_error option" where
  "ldap_ping e c =
     (case ldap_connect e c of
        Inl err \<Rightarrow> Some err
      | Inr _ \<Rightarrow> if bind_service e c then None else Some ErrCredentials)"

definition classify :: "dir_error option \<Rightarrow> string" where
  "classify err =
     (case err of
        None \<Rightarrow> ''ok''
      | Some ErrInvalidConfig \<Rightarrow> ''configuration''
      | Some ContextDone \<Rightarrow> ''timeout''
      | Some ErrCredentials \<Rightarrow> ''bind''
      | Some _ \<Rightarrow> ''connection'')"

section \<open>Settings\<close>

record dir_mapping =
  dm_id :: nat
  dm_group :: string
  dm_role :: string
  dm_priority :: int

record dir_config =
  cf_updated :: gotime
  cf_enabled :: bool
  cf_server :: string
  cf_starttls :: bool
  cf_plaintext :: bool
  cf_ca :: string
  cf_bind_dn :: string
  cf_bind_enc :: string
  cf_connect :: int
  cf_search :: int
  cf_base :: string
  cf_filter :: string
  cf_id_attr :: string
  cf_user_attr :: string
  cf_display_attr :: string
  cf_email_attr :: string
  cf_group_attr :: string
  cf_fallback :: string
  cf_refresh :: bool

record dir_settings =
  st_enabled :: bool
  st_starttls :: bool
  st_plaintext :: bool
  st_refresh :: bool
  st_server :: string
  st_ca :: string
  st_bind_dn :: string
  st_bind_password :: string
  st_base :: string
  st_filter :: string
  st_id_attr :: string
  st_user_attr :: string
  st_display_attr :: string
  st_email_attr :: string
  st_group_attr :: string
  st_fallback :: string
  st_connect :: int
  st_search :: int
  st_mappings :: "dir_mapping list"
  st_credential :: bool

record dir_store =
  ds_config :: "dir_config option"
  ds_mappings :: "dir_mapping table"

definition get_config :: "faults \<Rightarrow> dir_store \<Rightarrow> dir_config option res" where
  "get_config fl d = (if fl DbGet then Inl db_error else Inr (ds_config d))"

definition mapping_before :: "dir_mapping \<Rightarrow> dir_mapping \<Rightarrow> bool" where
  "mapping_before m n \<longleftrightarrow> dm_priority m < dm_priority n"

definition stored_mappings :: "dir_store \<Rightarrow> dir_mapping list" where
  "stored_mappings d =
     sort_by (\<lambda>m n. dm_priority m < dm_priority n \<or> (dm_priority m = dm_priority n \<and> dm_id m < dm_id n)) (rows (ds_mappings d))"

definition list_mappings :: "faults \<Rightarrow> dir_store \<Rightarrow> dir_mapping list res" where
  "list_mappings fl d = (if fl DbList then Inl db_error else Inr (stored_mappings d))"

text \<open>\<open>SaveConfig\<close> is one transaction: the row, the deletion of the old mappings, and the new ones.\<close>

fun create_mappings :: "faults \<Rightarrow> dir_mapping list \<Rightarrow> dir_mapping table \<Rightarrow> dir_mapping table res" where
  "create_mappings fl [] t = Inr t"
| "create_mappings fl (m # ms) t =
     (case create_row fl (\<lambda>_ _. False) (\<lambda>i x. x\<lparr>dm_id := i\<rparr>) m t of
        Inl err \<Rightarrow> Inl err
      | Inr (t', _) \<Rightarrow> create_mappings fl ms t')"

definition save_config :: "faults \<Rightarrow> gotime \<Rightarrow> dir_config \<Rightarrow> dir_mapping list \<Rightarrow> dir_store \<Rightarrow> dir_store res" where
  "save_config fl now cfg ms d =
     (if fl DbUpdate then Inl db_error
      else case delete_where fl (\<lambda>_. True) (ds_mappings d) of
        Inl err \<Rightarrow> Inl err
      | Inr t \<Rightarrow>
          (case create_mappings fl ms t of
             Inl err \<Rightarrow> Inl err
           | Inr t' \<Rightarrow> Inr \<lparr>ds_config = Some (cfg\<lparr>cf_updated := now\<rparr>), ds_mappings = t'\<rparr>))"

definition settings_from_model :: "dir_config \<Rightarrow> dir_mapping list \<Rightarrow> dir_settings" where
  "settings_from_model c ms =
     \<lparr>st_enabled = cf_enabled c, st_starttls = cf_starttls c, st_plaintext = cf_plaintext c, st_refresh = cf_refresh c,
      st_server = cf_server c, st_ca = cf_ca c, st_bind_dn = cf_bind_dn c, st_bind_password = [], st_base = cf_base c,
      st_filter = cf_filter c, st_id_attr = cf_id_attr c, st_user_attr = cf_user_attr c, st_display_attr = cf_display_attr c,
      st_email_attr = cf_email_attr c, st_group_attr = cf_group_attr c, st_fallback = cf_fallback c,
      st_connect = cf_connect c, st_search = cf_search c, st_mappings = ms, st_credential = (cf_bind_enc c \<noteq> [])\<rparr>"

definition default_directory_settings :: dir_settings where
  "default_directory_settings =
     \<lparr>st_enabled = False, st_starttls = True, st_plaintext = False, st_refresh = False, st_server = [], st_ca = [],
      st_bind_dn = [], st_bind_password = [], st_base = [], st_filter = ''(uid={{username}})'', st_id_attr = ''entryUUID'',
      st_user_attr = ''uid'', st_display_attr = ''displayName'', st_email_attr = ''mail'', st_group_attr = ''memberOf'',
      st_fallback = ''viewer'', st_connect = 5, st_search = 8, st_mappings = [], st_credential = False\<rparr>"

definition to_client_config :: "dir_settings \<Rightarrow> string \<Rightarrow> dir_client_config" where
  "to_client_config s password =
     \<lparr>dc_server = st_server s, dc_ca = st_ca s, dc_bind_dn = st_bind_dn s, dc_bind_password = password, dc_base = st_base s,
      dc_filter = st_filter s, dc_id_attr = st_id_attr s, dc_user_attr = st_user_attr s, dc_display_attr = st_display_attr s,
      dc_email_attr = st_email_attr s, dc_group_attr = st_group_attr s, dc_starttls = st_starttls s,
      dc_plaintext = st_plaintext s, dc_connect = int64 (st_connect s * second), dc_search = int64 (st_search s * second)\<rparr>"

definition get_settings :: "faults \<Rightarrow> dir_store \<Rightarrow> dir_settings res" where
  "get_settings fl d =
     (case get_config fl d of
        Inl err \<Rightarrow> Inl err
      | Inr None \<Rightarrow> Inr default_directory_settings
      | Inr (Some c) \<Rightarrow>
          (case list_mappings fl d of Inl err \<Rightarrow> Inl err | Inr ms \<Rightarrow> Inr (settings_from_model c ms)))"

fun check_mappings :: "(string \<Rightarrow> bool) \<Rightarrow> string list \<Rightarrow> int list \<Rightarrow> dir_mapping list \<Rightarrow> go_error option" where
  "check_mappings known gs ps [] = None"
| "check_mappings known gs ps (m # ms) =
     (if trim_space (dm_group m) = [] \<or> dm_group m \<in> set gs \<or> dm_priority m \<in> set ps \<or> dm_role m = ''super-admin''
        then Some (BizErr CodeParamInvalid ''directory mappings must have unique exact groups and priorities'')
      else if \<not> known (dm_role m) then Some (BizErr CodeParamInvalid ''mapping role does not exist'')
      else check_mappings known (dm_group m # gs) (dm_priority m # ps) ms)"

definition validate_settings :: "ldap_env \<Rightarrow> faults \<Rightarrow> role_table \<Rightarrow> dir_settings \<Rightarrow> go_error option" where
  "validate_settings e fl roles s =
     (let known = (\<lambda>r. isOk (role_get_by_name fl r roles)) in
      if st_connect s < 1 \<or> 30 < st_connect s \<or> st_search s < 1 \<or> 60 < st_search s
        then Some (BizErr CodeParamInvalid ''directory timeouts are outside the allowed range'')
      else if st_fallback s = ''super-admin'' then Some (BizErr CodeParamInvalid ''directory fallback cannot grant super-admin'')
      else if \<not> known (st_fallback s) then Some (BizErr CodeParamInvalid ''fallback role does not exist'')
      else case check_mappings known [] [] (st_mappings s) of
        Some err \<Rightarrow> Some err
      | None \<Rightarrow>
          if \<not> st_enabled s \<and> trim_space (st_server s) = [] then None
          else (case validate_config e (to_client_config s []) of
                  Inl _ \<Rightarrow> Some (BizErr CodeParamInvalid ''invalid directory connection settings'')
                | Inr _ \<Rightarrow> None))"

record dir_env =
  de_ldap :: ldap_env
  de_key :: string
  de_encrypt :: "string \<Rightarrow> string \<Rightarrow> string option"
  de_decrypt :: "string \<Rightarrow> string \<Rightarrow> string option"

definition config_of_settings :: "dir_settings \<Rightarrow> string \<Rightarrow> dir_config" where
  "config_of_settings s enc =
     \<lparr>cf_updated = 0, cf_enabled = st_enabled s, cf_server = trim_space (st_server s), cf_starttls = st_starttls s,
      cf_plaintext = st_plaintext s, cf_ca = st_ca s, cf_bind_dn = trim_space (st_bind_dn s), cf_bind_enc = enc,
      cf_connect = st_connect s, cf_search = st_search s, cf_base = trim_space (st_base s),
      cf_filter = trim_space (st_filter s), cf_id_attr = st_id_attr s, cf_user_attr = st_user_attr s,
      cf_display_attr = st_display_attr s, cf_email_attr = st_email_attr s, cf_group_attr = st_group_attr s,
      cf_fallback = st_fallback s, cf_refresh = st_refresh s\<rparr>"

text \<open>
  The unique index on the user name, which a save can run into here because the name follows the
  directory; \<open>flu k\<close> are the faults of the \<open>k\<close>-th statement of the loop that ends the sessions.
\<close>

definition user_save :: "faults \<Rightarrow> user \<Rightarrow> user_table \<Rightarrow> user_table res" where
  "user_save fl u t =
     (if \<not> fl DbUpdate \<and> list_ex (\<lambda>v. u_id v \<noteq> u_id u \<and> user_clash u v) (rows t) then Inl unique_violation
      else user_update fl u t)"

fun end_sessions :: "(nat \<Rightarrow> faults) \<Rightarrow> nat \<Rightarrow> user list \<Rightarrow> user_table \<Rightarrow> user_table \<times> unit res" where
  "end_sessions flu k [] t = (t, Inr ())"
| "end_sessions flu k (u # us) t =
     (case user_save (flu k) (u\<lparr>u_token_version := u_token_version u + 1\<rparr>) t of
        Inl _ \<Rightarrow> (t, fail CodeInternal ''failed to revoke directory sessions'')
      | Inr t' \<Rightarrow> end_sessions flu (Suc k) us t')"

definition save_settings ::
  "dir_env \<Rightarrow> faults \<Rightarrow> (nat \<Rightarrow> faults) \<Rightarrow> faults \<Rightarrow> gotime \<Rightarrow> role_table \<Rightarrow> dir_settings \<Rightarrow> dir_store \<Rightarrow> user_table \<Rightarrow>
    dir_store \<times> user_table \<times> unit res" where
  "save_settings e fl flu flr now roles s d t =
     (case validate_settings (de_ldap e) flr roles s of
        Some err \<Rightarrow> (d, t, Inl err)
      | None \<Rightarrow>
          (case get_config fl d of
             Inl _ \<Rightarrow> (d, t, fail CodeInternal ''failed to read directory settings'')
           | Inr current \<Rightarrow>
               (let kept = (case current of None \<Rightarrow> [] | Some c \<Rightarrow> cf_bind_enc c) in
                case (if st_bind_password s = [] then Some kept else de_encrypt e (st_bind_password s) (de_key e)) of
                  None \<Rightarrow> (d, t, fail CodeInternal ''failed to protect bind credential'')
                | Some enc \<Rightarrow>
                    (case save_config fl now (config_of_settings s enc) (sort_by mapping_before (st_mappings s)) d of
                       Inl _ \<Rightarrow> (d, t, fail CodeInternal ''failed to save directory settings'')
                     | Inr d' \<Rightarrow>
                         (case user_list_by_auth_provider (flu 0) ''directory'' t of
                            Inl _ \<Rightarrow> (d', t, fail CodeInternal ''failed to revoke directory sessions'')
                          | Inr us \<Rightarrow> (d', end_sessions flu 1 us t))))))"

definition runtime_settings :: "dir_env \<Rightarrow> faults \<Rightarrow> dir_store \<Rightarrow> (dir_settings \<times> string) res" where
  "runtime_settings e fl d =
     (case get_config fl d of
        Inl _ \<Rightarrow> Inl (OtherErr ''directory not configured'' False)
      | Inr None \<Rightarrow> Inl (OtherErr ''directory not configured'' False)
      | Inr (Some c) \<Rightarrow>
          (case list_mappings fl d of
             Inl err \<Rightarrow> Inl err
           | Inr ms \<Rightarrow>
               (case (if cf_bind_enc c = [] then Some [] else de_decrypt e (cf_bind_enc c) (de_key e)) of
                  None \<Rightarrow> Inl (OtherErr ''decryption failed'' False)
                | Some secret \<Rightarrow> Inr (settings_from_model c ms, secret))))"

section \<open>Accounts\<close>

definition select_role :: "string list \<Rightarrow> dir_mapping list \<Rightarrow> string \<Rightarrow> string \<times> dir_mapping option" where
  "select_role groups ms fallback =
     (case find (\<lambda>m. dm_group m \<in> set groups) (sort_by mapping_before ms) of
        Some m \<Rightarrow> (dm_role m, Some m)
      | None \<Rightarrow> (fallback, None))"

definition directory_user :: "dir_identity \<Rightarrow> string \<Rightarrow> user" where
  "directory_user ident r =
     (new_user (id_username ident) [] (if r = [] then ''viewer'' else r))
       \<lparr>u_email := id_email ident, u_display_name := id_display ident, u_directory_id := id_stable ident,
        u_auth_provider := ''directory''\<rparr>"

definition synced :: "dir_identity \<Rightarrow> string \<Rightarrow> user \<Rightarrow> user" where
  "synced ident r u =
     (let u' = (if u_role u \<noteq> r then u\<lparr>u_role := r, u_token_version := u_token_version u + 1\<rparr> else u)
      in u'\<lparr>u_username := id_username ident, u_email := id_email ident, u_display_name := id_display ident\<rparr>)"

definition stamp_login :: "faults \<Rightarrow> gotime \<Rightarrow> user \<Rightarrow> user_table \<Rightarrow> user_table \<times> user res" where
  "stamp_login fl now u t =
     (let u' = u\<lparr>u_last_login := Some now\<rparr> in
      case user_save fl u' t of
        Inl _ \<Rightarrow> (t, fail CodeInternal ''failed to update directory identity'')
      | Inr t' \<Rightarrow> (t', Inr u'))"

definition needs_linking :: "'a res" where
  "needs_linking = fail CodeConflict ''directory identity requires administrator linking''"

definition reconcile ::
  "faults \<Rightarrow> gotime \<Rightarrow> dir_identity \<Rightarrow> dir_mapping list \<Rightarrow> string \<Rightarrow> user_table \<Rightarrow> user_table \<times> user res" where
  "reconcile fl now ident ms fallback t =
     (let r = fst (select_role (id_groups ident) ms fallback) in
      case user_get_by_directory_id fl (id_stable ident) t of
        Inl err \<Rightarrow>
          if err \<noteq> record_not_found then (t, fail CodeInternal ''failed to reconcile directory identity'')
          else if isOk (user_get_by_username fl (id_username ident) t) then (t, needs_linking)
          else if id_email ident \<noteq> [] \<and> isOk (user_get_by_email fl (id_email ident) t) then (t, needs_linking)
          else (case user_create fl (directory_user ident r) t of
                  Inl _ \<Rightarrow> (t, needs_linking)
                | Inr (t', u) \<Rightarrow> stamp_login fl now u t')
      | Inr u \<Rightarrow>
          if \<not> u_is_active u then (t, fail CodeForbidden ''account is disabled'')
          else stamp_login fl now (synced ident r u) t)"

definition bad_credentials :: "'a res" where
  "bad_credentials = fail CodeUnauthorized ''invalid username or password''"

definition directory_authenticate ::
  "dir_env \<Rightarrow> faults \<Rightarrow> faults \<Rightarrow> dir_store \<Rightarrow> gotime \<Rightarrow> string \<Rightarrow> string \<Rightarrow> user_table \<Rightarrow> user_table \<times> user res" where
  "directory_authenticate e fl flu d now identifier password t =
     (case runtime_settings e fl d of
        Inl _ \<Rightarrow> (t, bad_credentials)
      | Inr (s, secret) \<Rightarrow>
          if \<not> st_enabled s then (t, bad_credentials)
          else (case ldap_authenticate (de_ldap e) (to_client_config s secret) identifier password of
                  Inl _ \<Rightarrow> (t, bad_credentials)
                | Inr ident \<Rightarrow> reconcile flu now ident (st_mappings s) (st_fallback s) t))"

definition refresh_user ::
  "dir_env \<Rightarrow> faults \<Rightarrow> faults \<Rightarrow> dir_store \<Rightarrow> gotime \<Rightarrow> user \<Rightarrow> user_table \<Rightarrow> user_table \<times> user res" where
  "refresh_user e fl flu d now u t =
     (case runtime_settings e fl d of
        Inl err \<Rightarrow> (t, Inl err)
      | Inr (s, secret) \<Rightarrow>
          if \<not> st_enabled s \<or> \<not> st_refresh s then (t, Inr u)
          else
            (let lost = (case user_save flu (u\<lparr>u_token_version := u_token_version u + 1\<rparr>) t of Inl _ \<Rightarrow> t | Inr t' \<Rightarrow> t') in
             case ldap_lookup (de_ldap e) (to_client_config s secret) (u_username u) of
               Inl _ \<Rightarrow> (lost, fail CodeUnauthorized ''directory identity could not be refreshed'')
             | Inr ident \<Rightarrow>
                 if id_stable ident \<noteq> u_directory_id u
                   then (lost, fail CodeUnauthorized ''directory identity could not be refreshed'')
                 else reconcile flu now ident (st_mappings s) (st_fallback s) t))"

text \<open>What the authentication service sees of the directory.\<close>

definition directory_of :: "dir_env \<Rightarrow> faults \<Rightarrow> faults \<Rightarrow> dir_store \<Rightarrow> directory_ops" where
  "directory_of e fl flu d =
     \<lparr>dir_authenticate = directory_authenticate e fl flu d, dir_refresh_user = refresh_user e fl flu d\<rparr>"

record dir_preview =
  dp_username :: string
  dp_display :: string
  dp_email :: string
  dp_groups :: "string list"
  dp_rule :: "dir_mapping option"
  dp_role :: string

definition directory_preview :: "dir_env \<Rightarrow> faults \<Rightarrow> dir_store \<Rightarrow> string \<Rightarrow> dir_preview res" where
  "directory_preview e fl d identifier =
     (case runtime_settings e fl d of
        Inl err \<Rightarrow> Inl err
      | Inr (s, secret) \<Rightarrow>
          (case ldap_lookup (de_ldap e) (to_client_config s secret) identifier of
             Inl _ \<Rightarrow> fail CodeK8sUnavailable ''directory lookup failed''
           | Inr ident \<Rightarrow>
               (let (r, rule) = select_role (id_groups ident) (st_mappings s) (st_fallback s) in
                Inr \<lparr>dp_username = id_username ident, dp_display = id_display ident, dp_email = id_email ident,
                     dp_groups = id_groups ident, dp_rule = rule, dp_role = r\<rparr>)))"

text \<open>The connection test; its second component is the configuration the client was asked to try.\<close>

definition test_target :: "dir_env \<Rightarrow> faults \<Rightarrow> dir_store \<Rightarrow> dir_settings option \<Rightarrow> dir_client_config option" where
  "test_target e fl d candidate =
     (let stored = runtime_settings e fl d in
      case candidate of
        Some s \<Rightarrow>
          Some (to_client_config s
            (if st_bind_password s \<noteq> [] then st_bind_password s
             else (case stored of Inl _ \<Rightarrow> [] | Inr (_, secret) \<Rightarrow> secret)))
      | None \<Rightarrow> (case stored of Inl _ \<Rightarrow> None | Inr (s, secret) \<Rightarrow> Some (to_client_config s secret)))"

definition test_connection :: "dir_env \<Rightarrow> faults \<Rightarrow> dir_store \<Rightarrow> dir_settings option \<Rightarrow> string" where
  "test_connection e fl d candidate =
     (case test_target e fl d candidate of
        None \<Rightarrow> ''configuration''
      | Some c \<Rightarrow> classify (ldap_ping (de_ldap e) c))"

section \<open>The handlers\<close>

definition directory_admin :: "string \<Rightarrow> bool" where
  "directory_admin r \<longleftrightarrow> r = ''admin'' \<or> r = ''super-admin''"

definition not_directory_admin :: "string option \<Rightarrow> 'a response" where
  "not_directory_admin rid = resp_error rid CodeForbidden ''administrator access required''"

definition write_directory_error :: "string option \<Rightarrow> go_error \<Rightarrow> 'a response" where
  "write_directory_error rid err =
     (case err of
        BizErr c m \<Rightarrow> respond_error rid err
      | OtherErr _ _ \<Rightarrow> resp_error rid CodeInternal ''directory operation failed'')"

definition handle_directory_get :: "faults \<Rightarrow> string option \<Rightarrow> string \<Rightarrow> dir_store \<Rightarrow> dir_settings response" where
  "handle_directory_get fl rid r d =
     (if \<not> directory_admin r then not_directory_admin rid
      else case get_settings fl d of
        Inl _ \<Rightarrow> resp_error rid CodeInternal ''failed to read directory settings''
      | Inr s \<Rightarrow> resp_success s)"

definition handle_directory_update ::
  "dir_env \<Rightarrow> faults \<Rightarrow> (nat \<Rightarrow> faults) \<Rightarrow> faults \<Rightarrow> gotime \<Rightarrow> string option \<Rightarrow> string \<Rightarrow> role_table \<Rightarrow> dir_settings option \<Rightarrow>
    dir_store \<Rightarrow> user_table \<Rightarrow> dir_store \<times> user_table \<times> bool response" where
  "handle_directory_update e fl flu flr now rid r roles body d t =
     (if \<not> directory_admin r then (d, t, not_directory_admin rid)
      else case body of
        None \<Rightarrow> (d, t, resp_error rid CodeParamInvalid ''invalid directory settings'')
      | Some s \<Rightarrow>
          (case save_settings e fl flu flr now roles s d t of
             (d', t', Inl err) \<Rightarrow> (d', t', write_directory_error rid err)
           | (d', t', Inr _) \<Rightarrow> (d', t', resp_success True)))"

text \<open>The body of a test: absent, unreadable, or settings.\<close>

definition handle_directory_test ::
  "dir_env \<Rightarrow> faults \<Rightarrow> string option \<Rightarrow> string \<Rightarrow> dir_settings option option \<Rightarrow> dir_store \<Rightarrow> (bool \<times> string) response" where
  "handle_directory_test e fl rid r body d =
     (if \<not> directory_admin r then not_directory_admin rid
      else case body of
        Some None \<Rightarrow> resp_error rid CodeParamInvalid ''invalid directory settings''
      | _ \<Rightarrow> (let cat = test_connection e fl d (case body of Some s \<Rightarrow> s | None \<Rightarrow> None) in resp_success (cat = ''ok'', cat)))"

definition handle_directory_preview ::
  "dir_env \<Rightarrow> faults \<Rightarrow> string option \<Rightarrow> string \<Rightarrow> string \<Rightarrow> dir_store \<Rightarrow> dir_preview response" where
  "handle_directory_preview e fl rid r identifier d =
     (if \<not> directory_admin r then not_directory_admin rid
      else if identifier = [] then resp_error rid CodeParamInvalid ''identifier is required''
      else case directory_preview e fl d identifier of
        Inl err \<Rightarrow> write_directory_error rid err
      | Inr p \<Rightarrow> resp_success p)"

section \<open>Roles\<close>

lemma mapping_before_weak: "weak_order mapping_before"
  by (auto simp: weak_order_def mapping_before_def)

lemma find_in_order:
  "in_order lt xs \<Longrightarrow> find p xs = Some x \<Longrightarrow> x \<in> set xs \<and> p x \<and> (\<forall>y \<in> set xs. p y \<longrightarrow> x = y \<or> \<not> lt y x)"
  by (induction xs) (auto simp: in_order_def split: if_splits)

lemma select_role_first:
  assumes "select_role gs ms fb = (r, Some m)"
  shows "m \<in> set ms \<and> dm_group m \<in> set gs \<and> r = dm_role m \<and>
     (\<forall>n \<in> set ms. dm_group n \<in> set gs \<longrightarrow> dm_priority m \<le> dm_priority n)"
proof -
  from assms have f: "find (\<lambda>m. dm_group m \<in> set gs) (sort_by mapping_before ms) = Some m" and r: "r = dm_role m"
    by (auto simp: select_role_def split: option.splits)
  from find_in_order [OF in_order_sort_by [OF mapping_before_weak] f] r show ?thesis
    by (auto simp: mapping_before_def)
qed

lemma select_role_fallback: "select_role gs ms fb = (r, None) \<longleftrightarrow> r = fb \<and> (\<forall>m \<in> set ms. dm_group m \<notin> set gs)"
  by (auto simp: select_role_def find_None_iff split: option.splits dest!: find_SomeD)

section \<open>Reconciling an account\<close>

lemma user_save_Inr:
  "user_save fl u t = Inr t' \<longleftrightarrow>
     user_update fl u t = Inr t' \<and> \<not> list_ex (\<lambda>v. u_id v \<noteq> u_id u \<and> user_clash u v) (rows t)"
  by (auto simp: user_save_def user_update_def save_row_def split: if_splits)

lemma user_save_rows:
  assumes "user_save fl u' t = Inr t'" "u \<in> set (rows t)" "u_id u' = u_id u"
  shows "t' = t\<lparr>rows := map (\<lambda>x. if u_id x = u_id u then u' else x) (rows t)\<rparr>"
  using assms by (auto simp: user_save_Inr user_update_def save_row_def list_ex_iff split: if_splits)

lemma handles_map_same:
  "(\<And>x. x \<in> set us \<Longrightarrow> u_pk_handle (f x) = u_pk_handle x) \<Longrightarrow> handles (map f us) = handles us"
  by (induction us) (auto split: option.splits)

lemma distinct_replace:
  assumes "distinct (map k xs)" "distinct (map n xs)" "\<And>x. x \<in> set xs \<Longrightarrow> k x \<noteq> k u' \<Longrightarrow> n x \<noteq> n u'"
  shows "distinct (map n (map (\<lambda>x. if k x = k u' then u' else x) xs))"
proof -
  have "distinct xs" "inj_on k (set xs)" "inj_on n (set xs)" using assms(1,2) by (auto simp: distinct_map)
  moreover have "x = y" if xy: "x \<in> set xs" "y \<in> set xs" and e: "n (if k x = k u' then u' else x) = n (if k y = k u' then u' else y)" for x y
  proof (cases "k x = k u'"; cases "k y = k u'")
    assume "k x = k u'" "k y = k u'"
    with xy \<open>inj_on k (set xs)\<close> show ?thesis by (auto simp: inj_on_def)
  next
    assume "k x \<noteq> k u'" "k y \<noteq> k u'"
    with xy e \<open>inj_on n (set xs)\<close> show ?thesis by (auto simp: inj_on_def)
  qed (use xy e assms(3) in auto)
  ultimately show ?thesis by (auto simp: distinct_map inj_on_def)
qed

lemma users_ok_save:
  assumes "users_ok t" "u \<in> set (rows t)" "user_save fl u' t = Inr t'" "u_id u' = u_id u" "u_pk_handle u' = u_pk_handle u"
  shows "users_ok t'"
proof -
  have t': "t' = t\<lparr>rows := map (\<lambda>x. if u_id x = u_id u' then u' else x) (rows t)\<rparr>"
    using user_save_rows [OF assms(3,2,4)] assms(4) by simp
  have "table_ok u_id t'"
    using assms(1,3) table_ok_save [of u_id t fl u' t'] by (simp add: users_ok_def user_save_Inr user_update_def)
  moreover have "distinct (map u_username (rows t'))"
    unfolding t' using assms(1,3)
    by (auto simp: users_ok_def table_ok_def user_save_Inr user_clash_def list_ex_iff simp del: map_map intro!: distinct_replace)
  moreover have "handles (rows t') = handles (rows t)"
    unfolding t' using assms(1,2,4,5) by (auto simp: users_ok_def intro!: handles_map_same dest: table_ok_same)
  ultimately show ?thesis using assms(1) by (simp add: users_ok_def)
qed

lemma stamp_login_Inr:
  assumes "stamp_login fl now u t = (t', Inr u')" "u0 \<in> set (rows t)" "u_id u = u_id u0"
  shows "u' = u\<lparr>u_last_login := Some now\<rparr> \<and> u' \<in> set (rows t') \<and> other_rows_kept (u_id u) t t'"
proof -
  from assms(1) have u': "u' = u\<lparr>u_last_login := Some now\<rparr>" and s: "user_save fl u' t = Inr t'"
    by (auto simp: stamp_login_def Let_def split: sum.splits)
  from user_save_rows [OF s assms(2)] u' assms(3)
  have "t' = t\<lparr>rows := map (\<lambda>x. if u_id x = u_id u0 then u' else x) (rows t)\<rparr>" by simp
  with u' assms(2,3) show ?thesis by (auto simp: other_rows_kept_def image_iff)
qed

definition role_to_grant :: "dir_identity \<Rightarrow> dir_mapping list \<Rightarrow> string \<Rightarrow> string" where
  "role_to_grant ident ms fb = fst (select_role (id_groups ident) ms fb)"

text \<open>Either the account exists, or it is created; both ways it is stamped with the time of the login.\<close>

lemma reconcile_existing:
  assumes "reconcile fl now ident ms fb t = (t', Inr u)" "user_get_by_directory_id fl (id_stable ident) t = Inr v"
  shows "u_is_active v \<and> stamp_login fl now (synced ident (role_to_grant ident ms fb) v) t = (t', Inr u)"
  using assms by (auto simp: reconcile_def role_to_grant_def Let_def split: if_splits)

lemma reconcile_new:
  assumes "reconcile fl now ident ms fb t = (t', Inr u)" "user_get_by_directory_id fl (id_stable ident) t = Inl err"
  obtains t1 u1 where "user_create fl (directory_user ident (role_to_grant ident ms fb)) t = Inr (t1, u1)"
    "stamp_login fl now u1 t1 = (t', Inr u)"
  using assms by (auto simp: reconcile_def role_to_grant_def Let_def needs_linking_def split: if_splits sum.splits)

lemma synced_simps [simp]:
  "u_id (synced ident r u) = u_id u" "u_pk_handle (synced ident r u) = u_pk_handle u"
  "u_is_active (synced ident r u) = u_is_active u" "u_auth_provider (synced ident r u) = u_auth_provider u"
  "u_directory_id (synced ident r u) = u_directory_id u" "u_role (synced ident r u) = r"
  "u_username (synced ident r u) = id_username ident" "u_deleted (synced ident r u) = u_deleted u"
  "u_token_version (synced ident r u) = (if u_role u = r then u_token_version u else u_token_version u + 1)"
  by (simp_all add: synced_def Let_def)

lemma directory_user_simps [simp]:
  "u_is_active (directory_user ident r)" "u_auth_provider (directory_user ident r) = ''directory''"
  "u_directory_id (directory_user ident r) = id_stable ident" "u_username (directory_user ident r) = id_username ident"
  "u_role (directory_user ident r) = (if r = [] then ''viewer'' else r)"
  by (simp_all add: directory_user_def new_user_def)

definition same_directory_account :: "dir_identity \<Rightarrow> user \<Rightarrow> bool" where
  "same_directory_account ident v \<longleftrightarrow>
     user_live v \<and> u_auth_provider v = ''directory'' \<and> u_directory_id v = id_stable ident"

lemma reconcile_Inr:
  assumes ok: "users_ok t" and r: "reconcile fl now ident ms fb t = (t', Inr u)"
  shows "users_ok t'" and "other_rows_kept (u_id u) t t'" and "u \<in> set (rows t')"
    and "u_is_active u" and "same_directory_account ident u"
    and "u_role u = role_to_grant ident ms fb \<or> role_to_grant ident ms fb = []"
    and "\<forall>v \<in> set (rows t). u_id v = u_id u \<longrightarrow> same_directory_account ident v \<and>
      u_token_version u = (if u_role v = u_role u then u_token_version v else u_token_version v + 1)"
proof -
  let ?r = "role_to_grant ident ms fb"
  have "users_ok t' \<and> other_rows_kept (u_id u) t t' \<and> u \<in> set (rows t') \<and> u_is_active u \<and>
      same_directory_account ident u \<and> (u_role u = ?r \<or> ?r = []) \<and>
      (\<forall>v \<in> set (rows t). u_id v = u_id u \<longrightarrow> same_directory_account ident v \<and>
        u_token_version u = (if u_role v = u_role u then u_token_version v else u_token_version v + 1))"
  proof (cases "user_get_by_directory_id fl (id_stable ident) t")
    case (Inr v)
    then have v: "v \<in> set (rows t)" "same_directory_account ident v"
      by (auto simp: user_get_by_directory_id_def same_directory_account_def dest: first_where_sat)
    from reconcile_existing [OF r Inr] have act: "u_is_active v" and st: "stamp_login fl now (synced ident ?r v) t = (t', Inr u)"
      by simp_all
    from stamp_login_Inr [OF st v(1)] have u: "u = (synced ident ?r v)\<lparr>u_last_login := Some now\<rparr>" "u \<in> set (rows t')"
      "other_rows_kept (u_id v) t t'" by auto
    from st u have "user_save fl u t = Inr t'" by (auto simp: stamp_login_def Let_def split: sum.splits)
    then have "users_ok t'" by (rule users_ok_save [OF ok v(1)]) (simp_all add: u(1))
    moreover have "w = v" if "w \<in> set (rows t)" "u_id w = u_id u" for w
      using ok v(1) that u(1) by (auto simp: users_ok_def dest: table_ok_same)
    moreover have "u_id u = u_id v" "u_is_active u" "same_directory_account ident u" "u_role u = ?r"
      "u_token_version u = (if u_role v = ?r then u_token_version v else u_token_version v + 1)"
      using act v(2) by (simp_all add: u(1) same_directory_account_def user_live_def)
    ultimately show ?thesis using u(2,3) v(2) by metis
  next
    case (Inl err)
    from r Inl obtain t1 u1 where c: "user_create fl (directory_user ident ?r) t = Inr (t1, u1)"
      and st: "stamp_login fl now u1 t1 = (t', Inr u)" by (rule reconcile_new)
    from c have u1: "u1 = (directory_user ident ?r)\<lparr>u_id := Suc (seq t)\<rparr>" "rows t1 = rows t @ [u1]"
      by (auto simp: user_create_def create_row_Inr)
    have ok1: "users_ok t1" using ok c by (rule users_ok_create)
    from u1 have m: "u1 \<in> set (rows t1)" by simp
    from stamp_login_Inr [OF st m] have u: "u = u1\<lparr>u_last_login := Some now\<rparr>" "u \<in> set (rows t')"
      "other_rows_kept (u_id u1) t1 t'" by auto
    from st u have "user_save fl u t1 = Inr t'" by (auto simp: stamp_login_def Let_def split: sum.splits)
    then have "users_ok t'" by (rule users_ok_save [OF ok1 m]) (simp_all add: u(1))
    moreover have "u_id v \<noteq> Suc (seq t)" if "v \<in> set (rows t)" for v
      using ok that by (fastforce simp: users_ok_def table_ok_def)
    moreover have "user_live u" by (simp add: u(1) u1(1) user_live_def directory_user_def new_user_def)
    moreover have "u_id u = Suc (seq t)" "u_is_active u" "same_directory_account ident u" "u_role u = ?r \<or> ?r = []"
      using \<open>user_live u\<close> by (simp_all add: u(1) u1(1) same_directory_account_def user_live_def)
    moreover have "other_rows_kept (Suc (seq t)) t t'"
      using u(3) by (auto simp: u1 other_rows_kept_def)
    ultimately show ?thesis using u(2) by metis
  qed
  then show "users_ok t'" "other_rows_kept (u_id u) t t'" "u \<in> set (rows t')" "u_is_active u"
    "same_directory_account ident u" "u_role u = ?r \<or> ?r = []"
    "\<forall>v \<in> set (rows t). u_id v = u_id u \<longrightarrow> same_directory_account ident v \<and>
      u_token_version u = (if u_role v = u_role u then u_token_version v else u_token_version v + 1)" by blast+
qed

section \<open>What a login through the directory shows\<close>

text \<open>The connection over which credentials are sent.\<close>

definition protected_channel :: "ldap_env \<Rightarrow> dir_client_config \<Rightarrow> bool" where
  "protected_channel e c \<longleftrightarrow>
     (\<exists>u. le_parse e (dc_server c) = Some u \<and>
        (lu_scheme u = ''ldaps'' \<or> (lu_scheme u = ''ldap'' \<and> dc_starttls c \<and> le_tls e c) \<or> (dc_plaintext c \<and> \<not> in_release e)))"

lemma connect_protected: "ldap_connect e c = Inr u \<Longrightarrow> protected_channel e c"
  by (auto simp: ldap_connect_def validate_config_def protected_channel_def url_bad_def split: option.splits sum.splits if_splits)

lemma search_one_Inr:
  "search_one e c i = Inr (en, ident) \<Longrightarrow>
     le_search e c (search_filter e c i) (search_attributes c) = Some [en] \<and> ident = identity_of e c en"
  by (auto simp: search_one_def split: option.splits list.splits if_splits)

lemma ldap_authenticate_Inr:
  assumes "ldap_authenticate e c i pw = Inr ident"
  obtains en where "pw \<noteq> []" "protected_channel e c"
    "le_search e c (search_filter e c i) (search_attributes c) = Some [en]" "le_bind e c (en_dn en) pw" "ident = identity_of e c en"
proof -
  from assms have pw: "pw \<noteq> []" by (auto simp: ldap_authenticate_def)
  with assms obtain u where u: "ldap_connect e c = Inr u" by (auto simp: ldap_authenticate_def split: sum.splits)
  with assms pw obtain en where "search_one e c i = Inr (en, ident)" "le_bind e c (en_dn en) pw"
    by (auto simp: ldap_authenticate_def split: sum.splits if_splits)
  with pw connect_protected [OF u] search_one_Inr that show ?thesis by blast
qed

lemma runtime_settings_Inr:
  "runtime_settings e fl d = Inr (s, secret) \<Longrightarrow> \<exists>c. ds_config d = Some c \<and> s = settings_from_model c (stored_mappings d)"
  by (auto simp: runtime_settings_def get_config_def list_mappings_def split: if_splits sum.splits option.splits)

lemma settings_from_model_simps [simp]:
  "st_enabled (settings_from_model c ms) = cf_enabled c" "st_mappings (settings_from_model c ms) = ms"
  "st_fallback (settings_from_model c ms) = cf_fallback c" "st_refresh (settings_from_model c ms) = cf_refresh c"
  by (simp_all add: settings_from_model_def)

lemma directory_authenticate_Inr:
  assumes "directory_authenticate e fl flu d now i pw t = (t', Inr u)"
  obtains s secret ident where "runtime_settings e fl d = Inr (s, secret)" "st_enabled s"
    "ldap_authenticate (de_ldap e) (to_client_config s secret) i pw = Inr ident"
    "reconcile flu now ident (st_mappings s) (st_fallback s) t = (t', Inr u)"
  using assms by (auto simp: directory_authenticate_def bad_credentials_def split: sum.splits if_splits)

text \<open>
  C27. A login through the directory needs the directory to be enabled, a password that is not empty and
  with which the single entry found for the name could bind, over a protected connection (outside
  release mode the settings may ask for a plain one). The account that is logged in is active, belongs
  to the directory and to that entry, and has the role of the first matching mapping, by priority, or the
  fallback; a local account is never taken over, a changed role ends the earlier sessions, no other
  account is touched, and names stay unique.
\<close>

theorem directory_login_sound:
  assumes "users_ok t" "directory_authenticate e fl flu d now i pw t = (t', Inr u)"
  shows "\<exists>c secret en. ds_config d = Some c \<and> cf_enabled c \<and> pw \<noteq> [] \<and>
      (let cc = to_client_config (settings_from_model c (stored_mappings d)) secret;
           ident = identity_of (de_ldap e) cc en;
           r = fst (select_role (id_groups ident) (stored_mappings d) (cf_fallback c))
       in protected_channel (de_ldap e) cc \<and>
          le_search (de_ldap e) cc (search_filter (de_ldap e) cc i) (search_attributes cc) = Some [en] \<and>
          le_bind (de_ldap e) cc (en_dn en) pw \<and>
          u_is_active u \<and> same_directory_account ident u \<and> (u_role u = r \<or> r = []) \<and>
          (\<forall>v \<in> set (rows t). u_id v = u_id u \<longrightarrow> same_directory_account ident v \<and>
             u_token_version u = (if u_role v = u_role u then u_token_version v else u_token_version v + 1)) \<and>
          u \<in> set (rows t') \<and> other_rows_kept (u_id u) t t' \<and> users_ok t')"
proof -
  from assms(2) obtain s secret ident where s: "runtime_settings e fl d = Inr (s, secret)" "st_enabled s"
    and a: "ldap_authenticate (de_ldap e) (to_client_config s secret) i pw = Inr ident"
    and r: "reconcile flu now ident (st_mappings s) (st_fallback s) t = (t', Inr u)"
    by (rule directory_authenticate_Inr)
  from runtime_settings_Inr [OF s(1)] obtain c where
    c: "ds_config d = Some c" "s = settings_from_model c (stored_mappings d)" by blast
  from a obtain en where en: "pw \<noteq> []" "protected_channel (de_ldap e) (to_client_config s secret)"
    "le_search (de_ldap e) (to_client_config s secret) (search_filter (de_ldap e) (to_client_config s secret) i)
       (search_attributes (to_client_config s secret)) = Some [en]"
    "le_bind (de_ldap e) (to_client_config s secret) (en_dn en) pw" "ident = identity_of (de_ldap e) (to_client_config s secret) en"
    by (rule ldap_authenticate_Inr)
  note acc = reconcile_Inr [OF assms(1) r]
  from acc(6) have "u_role u = fst (select_role (id_groups ident) (stored_mappings d) (cf_fallback c)) \<or>
      fst (select_role (id_groups ident) (stored_mappings d) (cf_fallback c)) = []"
    by (simp add: role_to_grant_def c(2))
  with acc(1-5,7) en c(1) s(2) show ?thesis
    unfolding Let_def c(2) settings_from_model_simps by blast
qed

section \<open>No super-administrator comes from the directory\<close>

definition dir_safe :: "dir_store \<Rightarrow> bool" where
  "dir_safe d \<longleftrightarrow> (case ds_config d of None \<Rightarrow> True | Some c \<Rightarrow> cf_fallback c \<noteq> ''super-admin'') \<and>
     (\<forall>m \<in> set (rows (ds_mappings d)). dm_role m \<noteq> ''super-admin'')"

definition no_directory_super :: "user_table \<Rightarrow> bool" where
  "no_directory_super t \<longleftrightarrow> (\<forall>v \<in> set (rows t). u_auth_provider v = ''directory'' \<longrightarrow> u_role v \<noteq> ''super-admin'')"

lemma user_save_subset: "user_save fl u t = Inr t' \<Longrightarrow> set (rows t') \<subseteq> insert u (set (rows t))"
  by (auto simp: user_save_Inr user_update_def save_row_def split: if_splits)

lemma no_super_save:
  "no_directory_super t \<Longrightarrow> user_save fl u t = Inr t' \<Longrightarrow>
     u_auth_provider u = ''directory'' \<longrightarrow> u_role u \<noteq> ''super-admin'' \<Longrightarrow> no_directory_super t'"
  using user_save_subset [of fl u t t'] by (auto simp: no_directory_super_def)

lemma no_super_end_sessions:
  "no_directory_super t \<Longrightarrow> \<forall>u \<in> set us. u_auth_provider u = ''directory'' \<longrightarrow> u_role u \<noteq> ''super-admin'' \<Longrightarrow>
     no_directory_super (fst (end_sessions flu k us t))"
proof (induction us arbitrary: k t)
  case (Cons u us)
  show ?case
  proof (cases "user_save (flu k) (u\<lparr>u_token_version := u_token_version u + 1\<rparr>) t")
    case (Inr t')
    have "no_directory_super t'" by (rule no_super_save [OF Cons.prems(1) Inr]) (use Cons.prems(2) in simp)
    with Inr Cons.IH [of t' "Suc k"] Cons.prems(2) show ?thesis by simp
  qed (use Cons.prems(1) in simp)
qed simp

lemma check_mappings_safe: "check_mappings known gs ps ms = None \<Longrightarrow> m \<in> set ms \<Longrightarrow> dm_role m \<noteq> ''super-admin''"
  by (induction known gs ps ms rule: check_mappings.induct) (auto split: if_splits)

lemma create_mappings_roles:
  assumes "create_mappings fl ms t = Inr t'" "\<forall>m \<in> set ms. dm_role m \<noteq> x" "\<forall>m \<in> set (rows t). dm_role m \<noteq> x"
  shows "\<forall>m \<in> set (rows t'). dm_role m \<noteq> x"
  using assms
proof (induction ms arbitrary: t)
  case (Cons m ms)
  from Cons.prems(1) obtain t1 m1 where c: "create_row fl (\<lambda>_ _. False) (\<lambda>i x. x\<lparr>dm_id := i\<rparr>) m t = Inr (t1, m1)"
    and n: "create_mappings fl ms t1 = Inr t'" by (auto split: sum.splits)
  from c Cons.prems(2,3) have "\<forall>m \<in> set (rows t1). dm_role m \<noteq> x" by (auto simp: create_row_Inr)
  with Cons.IH [OF n] Cons.prems(2) show ?case by simp
qed simp

lemma save_config_safe:
  assumes "save_config fl now cfg ms d = Inr d'" "cf_fallback cfg \<noteq> ''super-admin''" "\<forall>m \<in> set ms. dm_role m \<noteq> ''super-admin''"
  shows "dir_safe d'"
proof -
  from assms(1) obtain t where d': "d' = \<lparr>ds_config = Some (cfg\<lparr>cf_updated := now\<rparr>), ds_mappings = t\<rparr>"
    and "create_mappings fl ms ((ds_mappings d)\<lparr>rows := []\<rparr>) = Inr t"
    by (auto simp: save_config_def delete_where_def split: if_splits sum.splits)
  from create_mappings_roles [OF this(2), of "''super-admin''"] assms(3) have "\<forall>m \<in> set (rows t). dm_role m \<noteq> ''super-admin''" by simp
  with assms(2) show ?thesis by (simp add: d' dir_safe_def)
qed

lemma validated_roles:
  assumes "validate_settings e fl roles s = None"
  shows "st_fallback s \<noteq> ''super-admin'' \<and> (\<forall>m \<in> set (st_mappings s). dm_role m \<noteq> ''super-admin'')"
proof
  show "st_fallback s \<noteq> ''super-admin''"
    using assms unfolding validate_settings_def Let_def by (metis option.distinct(1))
  have "check_mappings (\<lambda>r. isOk (role_get_by_name fl r roles)) [] [] (st_mappings s) = None"
    using assms unfolding validate_settings_def Let_def
    by (cases "check_mappings (\<lambda>r. isOk (role_get_by_name fl r roles)) [] [] (st_mappings s)") (simp_all split: if_split_asm)
  then show "\<forall>m \<in> set (st_mappings s). dm_role m \<noteq> ''super-admin''" using check_mappings_safe by blast
qed

lemma save_settings_cases:
  assumes "save_settings e fl flu flr now roles s d t = (d', t', r)"
  shows "(d' = d \<and> t' = t \<and> \<not> isOk r) \<or>
    (\<exists>enc. validate_settings (de_ldap e) flr roles s = None \<and>
       save_config fl now (config_of_settings s enc) (sort_by mapping_before (st_mappings s)) d = Inr d' \<and>
       (t' = t \<and> \<not> isOk r \<or>
        (\<exists>us. user_list_by_auth_provider (flu 0) ''directory'' t = Inr us \<and> (t', r) = end_sessions flu 1 us t)))"
  using assms by (auto simp: save_settings_def Let_def split: option.splits sum.splits if_splits)

lemma save_settings_safe:
  assumes "dir_safe d" "no_directory_super t" "save_settings e fl flu flr now roles s d t = (d', t', r)"
  shows "dir_safe d' \<and> no_directory_super t'"
proof -
  have saved: "dir_safe d'" if "validate_settings (de_ldap e) flr roles s = None"
    "save_config fl now (config_of_settings s enc) (sort_by mapping_before (st_mappings s)) d = Inr d'" for enc
    using validated_roles [OF that(1)] by (intro save_config_safe [OF that(2)]) (auto simp: config_of_settings_def)
  have "no_directory_super t'" if "user_list_by_auth_provider (flu 0) ''directory'' t = Inr us" "(t', r) = end_sessions flu 1 us t" for us
    using that assms(2) no_super_end_sessions [OF assms(2), of us flu 1]
    by (auto simp: user_list_by_auth_provider_def find_where_Inr no_directory_super_def fst_def split: prod.splits)
  with save_settings_cases [OF assms(3)] saved assms(1,2) show ?thesis by blast
qed

lemma safe_role_granted:
  assumes "dir_safe d" "runtime_settings e fl d = Inr (s, secret)"
  shows "role_to_grant ident (st_mappings s) (st_fallback s) \<noteq> ''super-admin''"
proof -
  from runtime_settings_Inr [OF assms(2)] obtain c where
    c: "ds_config d = Some c" "s = settings_from_model c (stored_mappings d)" by blast
  have "set (stored_mappings d) = set (rows (ds_mappings d))" by (simp add: stored_mappings_def)
  with assms(1) c show ?thesis
    by (auto simp: role_to_grant_def select_role_def dir_safe_def split: option.splits dest!: find_SomeD)
qed

lemma no_super_stamp:
  assumes "no_directory_super t" "u_role u \<noteq> ''super-admin''"
  shows "no_directory_super (fst (stamp_login fl now u t))"
  using assms no_super_save [OF assms(1), of fl "u\<lparr>u_last_login := Some now\<rparr>"]
  by (auto simp: stamp_login_def Let_def split: sum.splits)

lemma no_super_create:
  assumes "no_directory_super t" "user_create fl (directory_user ident r) t = Inr (t1, u1)" "r \<noteq> ''super-admin''"
  shows "no_directory_super t1 \<and> u_role u1 \<noteq> ''super-admin''"
  using assms by (auto simp: user_create_def create_row_Inr no_directory_super_def)

lemma no_super_reconcile:
  assumes n: "no_directory_super t" and r: "role_to_grant ident ms fb \<noteq> ''super-admin''"
  shows "no_directory_super (fst (reconcile fl now ident ms fb t))"
proof (cases "user_get_by_directory_id fl (id_stable ident) t")
  case (Inr u)
  with n no_super_stamp [OF n, of "synced ident (role_to_grant ident ms fb) u" fl now] r show ?thesis
    by (simp add: reconcile_def role_to_grant_def)
next
  case (Inl err)
  show ?thesis
  proof (cases "user_create fl (directory_user ident (role_to_grant ident ms fb)) t")
    case (Inr p)
    obtain t1 u1 where p: "p = (t1, u1)" by (cases p)
    from no_super_create [OF n Inr [unfolded p] r] have "no_directory_super (fst (stamp_login fl now u1 t1))"
      by (intro no_super_stamp) auto
    with n Inl Inr p show ?thesis by (simp add: reconcile_def role_to_grant_def Let_def)
  qed (use n Inl in \<open>simp add: reconcile_def role_to_grant_def Let_def\<close>)
qed

text \<open>
  However the settings are edited and whoever signs in or renews a session, no account of the
  directory becomes super-administrator: the validation refuses that role in the settings, and both
  the login and the refresh write only roles the settings name.
\<close>

theorem directory_grants_no_super_admin:
  assumes "dir_safe d" "no_directory_super t"
  shows "dir_safe (fst (handle_directory_update e fl flus flr now rid r roles body d t)) \<and>
    no_directory_super (fst (snd (handle_directory_update e fl flus flr now rid r roles body d t))) \<and>
    no_directory_super (fst (directory_authenticate e fl flu d now i pw t)) \<and>
    (u \<in> set (rows t) \<longrightarrow> no_directory_super (fst (refresh_user e fl flu d now u t)))"
proof -
  have "dir_safe (fst (handle_directory_update e fl flus flr now rid r roles body d t)) \<and>
      no_directory_super (fst (snd (handle_directory_update e fl flus flr now rid r roles body d t)))"
    using assms save_settings_safe [OF assms]
    by (auto simp: handle_directory_update_def split: option.splits prod.splits sum.splits)
  moreover have "no_directory_super (fst (directory_authenticate e fl flu d now i pw t))"
    using assms(2) no_super_reconcile [OF assms(2) safe_role_granted [OF assms(1)]]
    by (auto simp: directory_authenticate_def split: sum.splits)
  moreover have "no_directory_super (fst (refresh_user e fl flu d now u t))" if u: "u \<in> set (rows t)"
  proof -
    have "no_directory_super t'" if "user_save flu (u\<lparr>u_token_version := u_token_version u + 1\<rparr>) t = Inr t'" for t'
      by (rule no_super_save [OF assms(2) that]) (use u assms(2) in \<open>simp add: no_directory_super_def\<close>)
    with assms(2) no_super_reconcile [OF assms(2) safe_role_granted [OF assms(1)]] show ?thesis
      by (auto simp: refresh_user_def Let_def split: sum.splits)
  qed
  ultimately show ?thesis by blast
qed

section \<open>Renewing a session\<close>

text \<open>One account per entry of the directory; every operation that asks the directory keeps it so.\<close>

definition dir_ids_ok :: "user_table \<Rightarrow> bool" where
  "dir_ids_ok t \<longleftrightarrow> (\<forall>u \<in> set (rows t). \<forall>v \<in> set (rows t).
     user_live u \<and> user_live v \<and> u_auth_provider u = ''directory'' \<and> u_auth_provider v = ''directory'' \<and>
     u_directory_id u = u_directory_id v \<longrightarrow> u_id u = u_id v)"

lemma reconcile_refreshed:
  assumes ok: "users_ok t" "dir_ids_ok t" and u: "u \<in> set (rows t)" "same_directory_account ident u"
    and r: "reconcile fl now ident ms fb t = (t', Inr u')"
  shows "u_id u' = u_id u \<and> (u_role u' = role_to_grant ident ms fb) \<and>
    u_token_version u' = (if u_role u = role_to_grant ident ms fb then u_token_version u else u_token_version u + 1)"
proof (cases "user_get_by_directory_id fl (id_stable ident) t")
  case (Inl err)
  with u have "err = db_error"
    by (auto simp: user_get_by_directory_id_def first_where_def same_directory_account_def find_None_iff split: if_splits option.splits)
  with r Inl show ?thesis by (simp add: reconcile_def db_error_def record_not_found_def)
next
  case (Inr v)
  then have v: "v \<in> set (rows t)" "same_directory_account ident v"
    by (auto simp: user_get_by_directory_id_def same_directory_account_def dest: first_where_sat)
  from u(2) v(2) have "u_directory_id v = u_directory_id u" by (simp add: same_directory_account_def)
  with ok(2) u v have "u_id v = u_id u" unfolding dir_ids_ok_def same_directory_account_def by blast
  with ok(1) u(1) v(1) have "v = u" by (auto simp: users_ok_def dest: table_ok_same)
  with reconcile_existing [OF r Inr] have "stamp_login fl now (synced ident (role_to_grant ident ms fb) u) t = (t', Inr u')" by simp
  from stamp_login_Inr [OF this u(1)] show ?thesis by auto
qed

lemma refresh_user_Inr:
  assumes "refresh_user e fl flu d now u t = (t', Inr u')"
  shows "(\<exists>s secret. runtime_settings e fl d = Inr (s, secret) \<and> \<not> (st_enabled s \<and> st_refresh s) \<and> t' = t \<and> u' = u) \<or>
    (\<exists>s secret ident. runtime_settings e fl d = Inr (s, secret) \<and> st_enabled s \<and> st_refresh s \<and>
       ldap_lookup (de_ldap e) (to_client_config s secret) (u_username u) = Inr ident \<and> id_stable ident = u_directory_id u \<and>
       reconcile flu now ident (st_mappings s) (st_fallback s) t = (t', Inr u'))"
  using assms by (auto simp: refresh_user_def Let_def split: sum.splits if_splits)

lemma refresh_token_Inr:
  assumes "refresh_token e fl now rt t = (t', Inr lr)"
  obtains tv u u' where "parse_refresh_token (ae_jwt e) now rt = Some (u_id u, tv)" "u \<in> set (rows t)" "user_live u"
    "u_is_active u" "tv = u_token_version u'" "lr = build_login_response e now u'"
    "(if u_auth_provider u = ''directory'' \<and> ae_directory e \<noteq> None then dir_refresh_user (the (ae_directory e)) now u t else (t, Inr u))
       = (t', Inr u')"
proof -
  from assms obtain uid tv u where p: "parse_refresh_token (ae_jwt e) now rt = Some (uid, tv)"
    and g: "user_get_by_id fl uid t = Inr u" and a: "u_is_active u"
    by (auto simp: refresh_token_def split: option.splits sum.splits if_splits)
  let ?r = "case (if u_auth_provider u = ''directory'' then ae_directory e else None) of
      None \<Rightarrow> (t, Inr u) | Some d \<Rightarrow> dir_refresh_user d now u t"
  obtain t1 x where r: "?r = (t1, x)" by (cases ?r)
  with assms p g a obtain u' where "x = Inr u'" "t1 = t'" "tv = u_token_version u'" "lr = build_login_response e now u'"
    by (auto simp: refresh_token_def split: sum.splits if_splits)
  note last = this
  have "(if u_auth_provider u = ''directory'' \<and> ae_directory e \<noteq> None then dir_refresh_user (the (ae_directory e)) now u t else (t, Inr u))
      = (t', Inr u')"
    using r last(1,2) by (cases "ae_directory e"; cases "u_auth_provider u = ''directory''") simp_all
  moreover from user_get_by_id_Inr [OF g] p have "parse_refresh_token (ae_jwt e) now rt = Some (u_id u, tv)"
    "u \<in> set (rows t)" "user_live u" by simp_all
  ultimately show ?thesis using that last(3,4) a by blast
qed

text \<open>
  A session is renewed only for an active account at the version its token was issued for, and never
  with another role than the account had. For an account of a directory whose mapping is refreshed,
  the directory still knows the entry, and the role is the one its groups give now; a role that has
  changed refuses the renewal and ends the session. (A token carries at most the version of its account.)
\<close>

theorem renewed_session_keeps_its_role:
  assumes "users_ok t" "dir_ids_ok t" "ae_directory e = Some (directory_of de fld flu d)"
    and issued: "\<And>uid tv u. parse_refresh_token (ae_jwt e) now rt = Some (uid, tv) \<Longrightarrow> u \<in> set (rows t) \<Longrightarrow> u_id u = uid \<Longrightarrow>
      tv \<le> u_token_version u"
    and "refresh_token e fl now rt t = (t', Inr lr)"
  shows "\<exists>u \<in> set (rows t). parse_refresh_token (ae_jwt e) now rt = Some (u_id u, u_token_version u) \<and> user_live u \<and>
    u_is_active u \<and> ui_id (lr_user lr) = u_id u \<and> ui_role (lr_user lr) = u_role u \<and>
    (u_auth_provider u = ''directory'' \<longrightarrow>
      (\<exists>s secret. runtime_settings de fld d = Inr (s, secret) \<and>
        (st_enabled s \<and> st_refresh s \<longrightarrow>
          (\<exists>ident. ldap_lookup (de_ldap de) (to_client_config s secret) (u_username u) = Inr ident \<and>
             id_stable ident = u_directory_id u \<and> u_role u = role_to_grant ident (st_mappings s) (st_fallback s)))))"
proof -
  from assms(5) obtain tv u u' where p: "parse_refresh_token (ae_jwt e) now rt = Some (u_id u, tv)"
    and u: "u \<in> set (rows t)" "user_live u" "u_is_active u"
    and tv: "tv = u_token_version u'" and lr: "lr = build_login_response e now u'"
    and r: "(if u_auth_provider u = ''directory'' \<and> ae_directory e \<noteq> None
        then dir_refresh_user (the (ae_directory e)) now u t else (t, Inr u)) = (t', Inr u')"
    by (rule refresh_token_Inr)
  have le: "tv \<le> u_token_version u" using issued p u(1) by blast
  show ?thesis
  proof (cases "u_auth_provider u = ''directory''")
    case False
    with r have "u' = u" by simp
    with False p u tv lr show ?thesis by (auto simp: build_login_response_def)
  next
    case True
    with r assms(3) have "refresh_user de fld flu d now u t = (t', Inr u')" by (simp add: directory_of_def)
    from refresh_user_Inr [OF this] show ?thesis
    proof (elim disjE exE conjE)
      fix s secret assume "runtime_settings de fld d = Inr (s, secret)" "\<not> (st_enabled s \<and> st_refresh s)" "u' = u"
      with p u tv lr show ?thesis by (intro bexI [of _ u]) (auto simp: build_login_response_def)
    next
      fix s secret ident
      assume s: "runtime_settings de fld d = Inr (s, secret)"
        and l: "ldap_lookup (de_ldap de) (to_client_config s secret) (u_username u) = Inr ident" "id_stable ident = u_directory_id u"
        and rc: "reconcile flu now ident (st_mappings s) (st_fallback s) t = (t', Inr u')"
      from l u True have "same_directory_account ident u" by (simp add: same_directory_account_def)
      from reconcile_refreshed [OF assms(1,2) u(1) this rc] le tv
      have "u_id u' = u_id u" "u_role u' = u_role u" "u_role u = role_to_grant ident (st_mappings s) (st_fallback s)" "tv = u_token_version u"
        by (auto split: if_splits)
      with p u lr s l show ?thesis by (intro bexI [of _ u]) (auto simp: build_login_response_def)
    qed
  qed
qed

section \<open>Instances\<close>

definition demo_entry :: ldap_entry where
  "demo_entry = \<lparr>en_dn = ''uid=ann'', en_raw = (\<lambda>_. ''7''),
     en_values = (\<lambda>a. if a = ''uid'' then [''ann''] else if a = ''memberOf'' then [''ops'', ''staff''] else [])\<rparr>"

definition demo_ldap :: ldap_env where
  "demo_ldap = \<lparr>le_parse = (\<lambda>s. Some \<lparr>lu_scheme = ''ldaps'', lu_host = s, lu_user = False, lu_path = []\<rparr>),
     le_gin_mode = ''release'', le_pem = (\<lambda>_. True), le_dial = (\<lambda>_. True), le_ctx_done = False, le_tls = (\<lambda>_. True),
     le_bind = (\<lambda>c dn pw. pw = ''secret''), le_anonymous = (\<lambda>_. True),
     le_search = (\<lambda>c f as. if f = ''(uid=ann)'' then Some [demo_entry] else Some []),
     le_escape = (\<lambda>s. s), le_sha = (\<lambda>s. s), le_unicode = (\<lambda>_. True)\<rparr>"

definition demo_dir_env :: dir_env where
  "demo_dir_env = \<lparr>de_ldap = demo_ldap, de_key = ''k'', de_encrypt = (\<lambda>s k. Some s), de_decrypt = (\<lambda>s k. Some s)\<rparr>"

definition demo_mappings :: "dir_mapping list" where
  "demo_mappings = [\<lparr>dm_id = 1, dm_group = ''staff'', dm_role = ''viewer'', dm_priority = 2\<rparr>,
     \<lparr>dm_id = 2, dm_group = ''ops'', dm_role = ''editor'', dm_priority = 1\<rparr>]"

definition demo_settings :: dir_settings where
  "demo_settings = default_directory_settings\<lparr>st_enabled := True, st_refresh := True, st_server := ''ldaps://a'', st_base := ''dc=x''\<rparr>"

definition demo_store :: dir_store where
  "demo_store = \<lparr>ds_config = Some (config_of_settings demo_settings []), ds_mappings = \<lparr>rows = demo_mappings, seq = 2\<rparr>\<rparr>"

definition demo_login :: "user_table \<times> user res" where
  "demo_login = directory_authenticate demo_dir_env no_faults no_faults demo_store 1 ''ann'' ''secret'' empty_table"

lemma demo_login_ok: "isOk (snd demo_login)"
  by code_simp

lemma demo_login_row:
  "map (\<lambda>u. (u_id u, u_username u, u_role u, u_auth_provider u, u_token_version u, u_is_active u, u_deleted u)) (rows (fst demo_login)) =
     [(1, ''ann'', ''editor'', ''directory'', 0, True, None)]"
  by code_simp

lemma empty_users_ok: "users_ok empty_table"
  by (simp add: users_ok_def table_ok_def empty_table_def)

theorem directory_login_sound_witness:
  "\<exists>t' u. directory_authenticate demo_dir_env no_faults no_faults demo_store 1 ''ann'' ''secret'' empty_table = (t', Inr u) \<and>
     u \<in> set (rows t') \<and> u_is_active u \<and> users_ok t'"
proof -
  obtain t' u where l: "directory_authenticate demo_dir_env no_faults no_faults demo_store 1 ''ann'' ''secret'' empty_table = (t', Inr u)"
    using demo_login_ok by (auto simp: demo_login_def isOk_iff) (metis prod.collapse)
  from directory_login_sound [OF empty_users_ok l] have "u \<in> set (rows t') \<and> u_is_active u \<and> users_ok t'"
    unfolding Let_def by blast
  with l show ?thesis by blast
qed

lemma demo_store_safe: "dir_safe demo_store"
  by (simp add: dir_safe_def demo_store_def demo_mappings_def demo_settings_def config_of_settings_def default_directory_settings_def)

theorem directory_grants_no_super_admin_witness:
  "no_directory_super (fst (directory_authenticate demo_dir_env no_faults no_faults demo_store 1 ''ann'' ''secret'' empty_table))"
  using directory_grants_no_super_admin [OF demo_store_safe, of empty_table]
  by (simp add: no_directory_super_def empty_table_def)

definition demo_session_env :: "payload auth_env" where
  "demo_session_env = demo_env\<lparr>ae_directory := Some (directory_of demo_dir_env no_faults no_faults demo_store)\<rparr>"

lemma demo_login_users: "users_ok (fst demo_login)"
proof -
  obtain t' u where l: "directory_authenticate demo_dir_env no_faults no_faults demo_store 1 ''ann'' ''secret'' empty_table = (t', Inr u)"
    using demo_login_ok by (auto simp: demo_login_def isOk_iff) (metis prod.collapse)
  from l obtain s :: dir_settings and secret :: string and ident where "reconcile no_faults 1 ident (st_mappings s) (st_fallback s) empty_table = (t', Inr u)"
    by (rule directory_authenticate_Inr) blast
  from reconcile_Inr(1) [OF empty_users_ok this] l show ?thesis by (simp add: demo_login_def)
qed

definition demo_refreshed :: "user_table \<times> user res" where
  "demo_refreshed = refresh_user demo_dir_env no_faults no_faults demo_store 5 (hd (rows (fst demo_login))) (fst demo_login)"

lemma demo_refreshed_ok:
  "map_sum (\<lambda>_. ()) u_token_version (snd demo_refreshed) = Inr 0"
  by code_simp

lemma demo_refresh_parses: "parse_refresh_token demo_manager 5 (generate_refresh_token demo_manager 0 1 0) = Some (1, 0)"
proof -
  have "jm_refresh_ttl demo_manager = 24 * hour" by (simp add: demo_manager_def new_jwt_manager_def)
  then show ?thesis
    by (simp add: parse_refresh_token_def generate_refresh_token_def registered_def parse_signed demo_manager_signs
        is_hmac_def numeric_date_def duration_defs)
qed

lemma demo_refresh_ok:
  "isOk (snd (refresh_token demo_session_env no_faults 5 (generate_refresh_token demo_manager 0 1 0) (fst demo_login)))"
proof -
  obtain x where x: "rows (fst demo_login) = [x]" "u_id x = 1" "u_auth_provider x = ''directory''" "u_is_active x" "user_live x"
    using demo_login_row by (auto simp: map_eq_Cons_conv user_live_def)
  obtain t' u where r: "refresh_user demo_dir_env no_faults no_faults demo_store 5 x (fst demo_login) = (t', Inr u)" "u_token_version u = 0"
    using demo_refreshed_ok x(1) by (cases demo_refreshed; cases "snd demo_refreshed") (auto simp: demo_refreshed_def)
  have "user_get_by_id no_faults 1 (fst demo_login) = Inr x" using x by (simp add: user_get_by_id_def first_where_def)
  with x r show ?thesis
    by (simp add: refresh_token_def demo_session_env_def demo_refresh_parses [simplified] directory_of_def)
qed

theorem renewed_session_keeps_its_role_witness:
  "\<exists>u \<in> set (rows (fst demo_login)). user_live u \<and> u_is_active u \<and>
     (\<exists>t' lr. refresh_token demo_session_env no_faults 5 (generate_refresh_token demo_manager 0 1 0) (fst demo_login) = (t', Inr lr) \<and>
        ui_role (lr_user lr) = u_role u)"
proof -
  let ?rt = "generate_refresh_token demo_manager 0 1 0"
  obtain t' lr where r: "refresh_token demo_session_env no_faults 5 ?rt (fst demo_login) = (t', Inr lr)"
    using demo_refresh_ok by (metis isOk_iff prod.collapse)
  have d: "ae_directory demo_session_env = Some (directory_of demo_dir_env no_faults no_faults demo_store)"
    by (simp add: demo_session_env_def)
  obtain x where x: "rows (fst demo_login) = [x]" "u_token_version x = 0" using demo_login_row by (auto simp: map_eq_Cons_conv)
  then have i: "dir_ids_ok (fst demo_login)" by (simp add: dir_ids_ok_def)
  have "parse_refresh_token (ae_jwt demo_session_env) 5 ?rt = Some (1, 0)"
    by (simp add: demo_session_env_def demo_refresh_parses [simplified])
  then have le: "tv \<le> u_token_version u" if "parse_refresh_token (ae_jwt demo_session_env) 5 ?rt = Some (uid, tv)"
    "u \<in> set (rows (fst demo_login))" "u_id u = uid" for uid tv u
    using that x by simp
  have "\<exists>u \<in> set (rows (fst demo_login)). user_live u \<and> u_is_active u \<and> ui_role (lr_user lr) = u_role u"
    using renewed_session_keeps_its_role [OF demo_login_users i d _ r] le by blast
  with r show ?thesis by blast
qed

section \<open>What the model shows beside\<close>

text \<open>
  The test of a connection hands the stored password of the service account to whatever server the
  candidate names, unless the candidate brings a password of its own; the candidate is not validated.
\<close>

lemma test_sends_stored_password:
  assumes "runtime_settings e fl d = Inr (s0, secret)" "st_bind_password s = []"
  shows "\<exists>c. test_target e fl d (Some s) = Some c \<and> dc_server c = st_server s \<and> dc_bind_dn c = st_bind_dn s \<and>
    dc_bind_password c = secret"
  using assms by (simp add: test_target_def to_client_config_def Let_def)

text \<open>
  The identifier of an account is made from the text of the server URL: when that text changes, the same
  entry of the same directory no longer finds its account, and its own user name then refuses the login.
\<close>

definition moved_store :: dir_store where
  "moved_store = demo_store\<lparr>ds_config := map_option (\<lambda>c. c\<lparr>cf_server := ''ldaps://a:636''\<rparr>) (ds_config demo_store)\<rparr>"

lemma server_change_locks_out:
  "map_sum err_message (\<lambda>_. ()) (snd (directory_authenticate demo_dir_env no_faults no_faults moved_store 2 ''ann'' ''secret''
     (fst demo_login))) = Inl ''directory identity requires administrator linking''"
  by code_simp

text \<open>The settings are stored before the sessions are ended: a failure in between leaves every session as it was.\<close>

lemma settings_saved_sessions_kept:
  assumes "validate_settings (de_ldap e) flr roles s = None" "\<not> fl DbGet" "\<not> fl DbUpdate" "\<not> fl DbDelete" "\<not> fl DbCreate"
    "st_bind_password s = []" "flu 0 DbList"
  shows "\<exists>d' msg. save_settings e fl flu flr now roles s d t = (d', t, fail CodeInternal msg) \<and> ds_config d' \<noteq> None"
proof -
  have c: "\<exists>t'. create_mappings fl ms t = Inr t'" for ms t
    using assms(5) by (induction ms arbitrary: t) (simp_all add: create_row_def Let_def list_ex_iff)
  obtain enc where enc: "enc = (case ds_config d of None \<Rightarrow> [] | Some c \<Rightarrow> cf_bind_enc c)" by blast
  obtain t' where "create_mappings fl (sort_by mapping_before (st_mappings s)) ((ds_mappings d)\<lparr>rows := []\<rparr>) = Inr t'" using c by blast
  then have "\<exists>d'. save_config fl now (config_of_settings s enc) (sort_by mapping_before (st_mappings s)) d = Inr d' \<and> ds_config d' \<noteq> None"
    using assms(3,4) by (simp add: save_config_def delete_where_def)
  with assms enc show ?thesis
    by (auto simp: save_settings_def get_config_def user_list_by_auth_provider_def find_where_def)
qed

end
