(* ===== verification/Oauth_Signin.thy ===== *)
theory Oauth_Signin
  imports Auth_Service Json_Parse Auth_Gate Kube_Types
begin

text \<open>
  Sign-in through an OAuth or OpenID provider: \<open>service/oauth_service.go\<close> and \<open>handler/oauth_handler.go\<close>.
  The library \<open>golang.org/x/oauth2\<close> (the authorization URL, the exchange of the code), the HTTP request for
  the profile, the random source and the printing of a decoded value that is no string are parameters,
  gathered in \<open>oauth_env\<close>. A value \<open>None\<close> where an operation may panic is the panic: the methods of a
  nil \<open>*oauth2.Config\<close> dereference it.
\<close>

record oauth_provider =
  op_name :: string
  op_client :: string
  op_secret :: string
  op_auth_url :: string
  op_token_url :: string
  op_info_url :: string
  op_scopes :: "string list"
  op_redirect :: string

record oauth_settings =
  oc_enabled :: bool
  oc_providers :: "oauth_provider list"

record oauth_client =
  cl_id :: string
  cl_secret :: string
  cl_auth_url :: string
  cl_token_url :: string
  cl_scopes :: "string list"
  cl_redirect :: string

record state_entry =
  se_provider :: string
  se_expires :: gotime

type_synonym oauth_states = "(string, state_entry) gomap"

record 'x oauth_env =
  oe_settings :: oauth_settings
  oe_auth_url :: "oauth_client \<Rightarrow> string \<Rightarrow> string"
  oe_exchange :: "oauth_client \<Rightarrow> string \<Rightarrow> string + 'x"
  oe_get :: "'x \<Rightarrow> string \<Rightarrow> string + string"
  oe_float :: float_reader
  oe_show :: "json \<Rightarrow> string"

section \<open>Providers\<close>

definition or_default :: "string \<Rightarrow> string \<Rightarrow> string" where
  "or_default s d = (if s = [] then d else s)"

definition oauth_config :: "oauth_provider \<Rightarrow> oauth_client option" where
  "oauth_config p =
     (if op_client p = [] \<or> op_secret p = [] then None
      else
        let scopes = (if op_scopes p \<noteq> [] then op_scopes p
              else if op_name p = ''github'' then [''read:user'', ''user:email''] else [''openid'', ''email'', ''profile'']);
            auth = (if op_name p = ''github'' then or_default (op_auth_url p) ''https://github.com/login/oauth/authorize''
              else if op_name p = ''google'' then or_default (op_auth_url p) ''https://accounts.google.com/o/oauth2/v2/auth''
              else op_auth_url p);
            tok = (if op_name p = ''github'' then or_default (op_token_url p) ''https://github.com/login/oauth/access_token''
              else if op_name p = ''google'' then or_default (op_token_url p) ''https://oauth2.googleapis.com/token''
              else op_token_url p)
        in Some \<lparr>cl_id = op_client p, cl_secret = op_secret p, cl_auth_url = auth, cl_token_url = tok, cl_scopes = scopes,
                 cl_redirect = op_redirect p\<rparr>)"

definition find_provider :: "oauth_settings \<Rightarrow> string \<Rightarrow> (oauth_provider \<times> oauth_client option) option" where
  "find_provider c name = map_option (\<lambda>p. (p, oauth_config p)) (find (\<lambda>p. op_name p = name) (oc_providers c))"

definition list_providers :: "oauth_settings \<Rightarrow> (string \<times> string) list" where
  "list_providers c =
     (if \<not> oc_enabled c then []
      else List.map_filter (\<lambda>p. map_option (\<lambda>cl. (op_name p, cl_auth_url cl)) (oauth_config p)) (oc_providers c))"

section \<open>States\<close>

definition state_lifetime :: duration where "state_lifetime = 5 * minute"

definition random_state :: "string option \<Rightarrow> string option" where
  "random_state raw = map_option hex_encode raw"

definition get_authorization_url ::
  "'x oauth_env \<Rightarrow> string option \<Rightarrow> gotime \<Rightarrow> string \<Rightarrow> oauth_states \<Rightarrow> oauth_states \<times> string res option" where
  "get_authorization_url e raw now name sts =
     (case find_provider (oe_settings e) name of
        None \<Rightarrow> (sts, Some (fail CodeNotFound (''OAuth provider '' @ go_quote name @ '' not found'')))
      | Some (p, cl) \<Rightarrow>
          (case random_state raw of
             None \<Rightarrow> (sts, Some (fail CodeInternal ''failed to generate state''))
           | Some st \<Rightarrow>
               (gm_put st \<lparr>se_provider = name, se_expires = now + state_lifetime\<rparr> sts,
                map_option (\<lambda>c. Inr (oe_auth_url e c st)) cl)))"

text \<open>A callback removes the state it names, whether or not it then accepts it.\<close>

definition take_state :: "gotime \<Rightarrow> string \<Rightarrow> string \<Rightarrow> oauth_states \<Rightarrow> oauth_states \<times> state_entry option" where
  "take_state now name st sts =
     (case gm_get sts st of
        None \<Rightarrow> (sts, None)
      | Some en \<Rightarrow> (gm_del st sts, if se_expires en < now \<or> se_provider en \<noteq> name then None else Some en))"

definition cleanup_expired_states :: "gotime \<Rightarrow> oauth_states \<Rightarrow> oauth_states" where
  "cleanup_expired_states now sts = gm_prune (\<lambda>en. se_expires en < now) sts"

section \<open>The profile and the account\<close>

record oauth_user_info =
  oi_id :: string
  oi_username :: string
  oi_email :: string

definition user_info_url :: "string \<Rightarrow> oauth_provider \<Rightarrow> string" where
  "user_info_url name p =
     (if name = ''github'' then ''https://api.github.com/user''
      else if name = ''google'' then ''https://www.googleapis.com/oauth2/v2/userinfo'' else op_info_url p)"

definition read_profile :: "(json \<Rightarrow> string) \<Rightarrow> string \<Rightarrow> fields \<Rightarrow> oauth_user_info" where
  "read_profile show_value name m =
     (let str = (\<lambda>k. str_or_empty (gm_get m k)) in
      if name = ''github'' then
        \<lparr>oi_id = (case gm_get m ''id'' of None \<Rightarrow> [] | Some (JStr s) \<Rightarrow> s | Some v \<Rightarrow> show_value v),
         oi_username = str ''login'', oi_email = str ''email''\<rparr>
      else if name = ''google'' then \<lparr>oi_id = str ''id'', oi_username = str ''name'', oi_email = str ''email''\<rparr>
      else \<lparr>oi_id = str ''sub'',
            oi_username = (case as_str (gm_get m ''preferred_username'') of Some s \<Rightarrow> s | None \<Rightarrow> str ''name''),
            oi_email = str ''email''\<rparr>)"

definition fetch_user_info :: "'x oauth_env \<Rightarrow> string \<Rightarrow> oauth_provider \<Rightarrow> 'x \<Rightarrow> string + oauth_user_info" where
  "fetch_user_info e name p tok =
     (let url = user_info_url name p in
      if url = [] then Inl (''userinfo URL not configured for provider '' @ go_quote name)
      else case oe_get e tok url of
        Inl err \<Rightarrow> Inl err
      | Inr body \<Rightarrow>
          (case unmarshal_map (oe_float e) body of
             None \<Rightarrow> Inl ''invalid JSON''
           | Some m \<Rightarrow>
               (let info = read_profile (oe_show e) name m in
                if oi_id info = [] then Inl (''could not extract user ID from '' @ name @ '' response'') else Inr info)))"

definition oauth_username :: "faults \<Rightarrow> string \<Rightarrow> oauth_user_info \<Rightarrow> user_table \<Rightarrow> string" where
  "oauth_username fl name info t =
     (let n = (if oi_username info = [] then name @ ''_'' @ oi_id info else oi_username info) in
      if isOk (user_get_by_username fl n t) then name @ ''_'' @ oi_id info @ ''_'' @ oi_username info else n)"

definition oauth_user :: "string \<Rightarrow> string \<Rightarrow> oauth_user_info \<Rightarrow> user" where
  "oauth_user name n info =
     (new_user n ''-'' ''viewer'')\<lparr>u_email := oi_email info, u_oauth_id := oi_id info,
        u_auth_provider := (if name = [] then ''local'' else name)\<rparr>"

definition find_or_create_user :: "faults \<Rightarrow> string \<Rightarrow> oauth_user_info \<Rightarrow> user_table \<Rightarrow> (user_table \<times> user) res" where
  "find_or_create_user fl name info t =
     (case user_get_by_oauth_id fl name (oi_id info) t of
        Inr u \<Rightarrow> Inr (t, u)
      | Inl _ \<Rightarrow>
          (case (if oi_email info = [] then Inl record_not_found else user_get_by_email fl (oi_email info) t) of
             Inr u \<Rightarrow>
               (let u' = u\<lparr>u_oauth_id := oi_id info, u_auth_provider := name\<rparr> in
                case user_update fl u' t of
                  Inl _ \<Rightarrow> fail CodeInternal ''failed to link OAuth account''
                | Inr t' \<Rightarrow> Inr (t', u'))
           | Inl _ \<Rightarrow>
               (case user_create fl (oauth_user name (oauth_username fl name info t) info) t of
                  Inl _ \<Rightarrow> fail CodeInternal ''failed to create OAuth user''
                | Inr (t', u) \<Rightarrow> Inr (t', u))))"

section \<open>The callback\<close>

definition with_client ::
  "'tok auth_env \<Rightarrow> 'x oauth_env \<Rightarrow> faults \<Rightarrow> gotime \<Rightarrow> string \<Rightarrow> string \<Rightarrow> oauth_provider \<Rightarrow> oauth_client \<Rightarrow> user_table \<Rightarrow>
    user_table \<times> 'tok login_response res" where
  "with_client a e fl now name code p cl t =
     (case oe_exchange e cl code of
        Inl err \<Rightarrow> (t, fail CodeUnauthorized (''token exchange failed: '' @ err))
      | Inr tok \<Rightarrow>
          (case fetch_user_info e name p tok of
             Inl err \<Rightarrow> (t, fail CodeInternal (''failed to fetch user info: '' @ err))
           | Inr info \<Rightarrow>
               (case find_or_create_user fl name info t of
                  Inl err \<Rightarrow> (t, Inl err)
                | Inr (t', u) \<Rightarrow> (save_quietly fl (u\<lparr>u_last_login := Some now\<rparr>) t', Inr (build_login_response a now u)))))"

definition handle_callback ::
  "'tok auth_env \<Rightarrow> 'x oauth_env \<Rightarrow> faults \<Rightarrow> gotime \<Rightarrow> string \<Rightarrow> string \<Rightarrow> string \<Rightarrow> oauth_states \<Rightarrow> user_table \<Rightarrow>
    oauth_states \<times> user_table \<times> 'tok login_response res option" where
  "handle_callback a e fl now name code st sts t =
     (case take_state now name st sts of
        (sts', None) \<Rightarrow> (sts', t, Some (fail CodeUnauthorized ''invalid or expired OAuth state''))
      | (sts', Some en) \<Rightarrow>
          (case find_provider (oe_settings e) name of
             None \<Rightarrow> (sts', t, Some (fail CodeNotFound (''provider '' @ go_quote name @ '' not found'')))
           | Some (p, None) \<Rightarrow> (sts', t, None)
           | Some (p, Some cl) \<Rightarrow>
               (case with_client a e fl now name code p cl t of (t', r) \<Rightarrow> (sts', t', Some r))))"

section \<open>The handlers\<close>

definition handle_oauth_providers :: "oauth_settings \<Rightarrow> (string \<times> string) list response" where
  "handle_oauth_providers c = resp_success (list_providers c)"

definition handle_authorize ::
  "'x oauth_env \<Rightarrow> string option \<Rightarrow> gotime \<Rightarrow> string option \<Rightarrow> string \<Rightarrow> oauth_states \<Rightarrow> oauth_states \<times> string response option" where
  "handle_authorize e raw now rid name sts =
     (if name = [] then (sts, Some (resp_error rid CodeParamMissing ''provider required''))
      else case get_authorization_url e raw now name sts of
        (sts', None) \<Rightarrow> (sts', None)
      | (sts', Some (Inl (BizErr c m))) \<Rightarrow> (sts', Some (resp_error_with_biz rid (BizErr c m)))
      | (sts', Some (Inl (OtherErr _ _))) \<Rightarrow> (sts', Some (resp_error rid CodeInternal ''failed to generate auth URL''))
      | (sts', Some (Inr url)) \<Rightarrow> (sts', Some (resp_success url)))"

definition handle_oauth_callback ::
  "'tok auth_env \<Rightarrow> 'x oauth_env \<Rightarrow> faults \<Rightarrow> gotime \<Rightarrow> string option \<Rightarrow> string \<Rightarrow> string \<Rightarrow> string \<Rightarrow> oauth_states \<Rightarrow> user_table \<Rightarrow>
    oauth_states \<times> user_table \<times> 'tok login_response response option" where
  "handle_oauth_callback a e fl now rid name code st sts t =
     (if name = [] \<or> code = [] \<or> st = [] then (sts, t, Some (resp_error rid CodeParamMissing ''provider, code, and state are required''))
      else case handle_callback a e fl now name code st sts t of
        (sts', t', None) \<Rightarrow> (sts', t', None)
      | (sts', t', Some (Inl (BizErr c m))) \<Rightarrow> (sts', t', Some (resp_error_with_biz rid (BizErr c m)))
      | (sts', t', Some (Inl (OtherErr _ _))) \<Rightarrow> (sts', t', Some (resp_error rid CodeInternal ''OAuth callback failed''))
      | (sts', t', Some (Inr lr)) \<Rightarrow> (sts', t', Some (resp_success lr)))"

section \<open>A state is good for one callback\<close>

interpretation oauth_states: single_use "\<lambda>(now, name, st). take_state now name st" "\<lambda>(now, name, st). st"
  "\<lambda>sts st. gm_get sts st \<noteq> None"
  by unfold_locales (auto simp: take_state_def split: option.splits if_splits)

lemma oauth_state_single_use:
  "successes (\<lambda>(now, name, st). st) k (run_takes (\<lambda>(now, name, st). take_state now name st) attempts sts) \<le> 1"
  by (rule oauth_states.at_most_once)

lemma take_state_Some:
  "take_state now name st sts = (sts', Some en) \<Longrightarrow>
     gm_get sts st = Some en \<and> gm_get sts' st = None \<and> se_provider en = name \<and> now \<le> se_expires en"
  by (auto simp: take_state_def split: option.splits if_splits)

section \<open>Which account signs in\<close>

definition oauth_match :: "string \<Rightarrow> oauth_user_info \<Rightarrow> user \<Rightarrow> bool" where
  "oauth_match name info v \<longleftrightarrow> user_live v \<and>
     (u_auth_provider v = name \<and> u_oauth_id v = oi_id info \<or> oi_email info \<noteq> [] \<and> u_email v = oi_email info)"

lemma oauth_user_simps [simp]:
  "u_role (oauth_user name n info) = ''viewer''" "u_id (oauth_user name n info) = 0"
  by (simp_all add: oauth_user_def new_user_def)

lemma find_or_create_Inr:
  assumes ok: "users_ok t" and f: "find_or_create_user fl name info t = Inr (t', u)"
  shows "users_ok t' \<and> u \<in> set (rows t') \<and> other_rows_kept (u_id u) t t' \<and>
    ((\<exists>v \<in> set (rows t). u_id v = u_id u \<and> u_role v = u_role u \<and> u_token_version v = u_token_version u \<and> oauth_match name info v) \<or>
     u_id u \<notin> u_id ` set (rows t) \<and> u_role u = ''viewer'')"
proof (cases "user_get_by_oauth_id fl name (oi_id info) t")
  case (Inr v)
  then have "v \<in> set (rows t)" "oauth_match name info v"
    by (auto simp: user_get_by_oauth_id_def oauth_match_def dest: first_where_sat)
  with f Inr ok show ?thesis by (auto simp: find_or_create_user_def)
next
  case (Inl e1)
  let ?em = "if oi_email info = [] then Inl record_not_found else user_get_by_email fl (oi_email info) t"
  show ?thesis
  proof (cases ?em)
    case (Inr v)
    then have v: "v \<in> set (rows t)" "oauth_match name info v"
      by (auto simp: user_get_by_email_def oauth_match_def dest: first_where_sat split: if_splits)
    let ?u = "v\<lparr>u_oauth_id := oi_id info, u_auth_provider := name\<rparr>"
    from f Inl Inr have up: "user_update fl ?u t = Inr t'" and u: "u = ?u"
      by (auto simp: find_or_create_user_def Let_def split: sum.splits)
    have "users_ok t'" using users_ok_update [OF ok v(1) up] by simp
    moreover have "other_rows_kept (u_id v) t t' \<and> ?u \<in> set (rows t')"
      by (rule other_rows_kept_update [OF ok v(1) up]) simp
    ultimately show ?thesis using v u by (intro conjI disjI1 bexI [of _ v]) simp_all
  next
    case (Inl e2)
    with f \<open>user_get_by_oauth_id fl name (oi_id info) t = Inl e1\<close>
    have c: "user_create fl (oauth_user name (oauth_username fl name info t) info) t = Inr (t', u)"
      by (auto simp: find_or_create_user_def split: sum.splits)
    then have u: "u = (oauth_user name (oauth_username fl name info t) info)\<lparr>u_id := Suc (seq t)\<rparr>" "rows t' = rows t @ [u]"
      by (auto simp: user_create_def create_row_Inr)
    have "Suc (seq t) \<notin> u_id ` set (rows t)" using ok by (fastforce simp: users_ok_def table_ok_def)
    with u users_ok_create [OF ok c] show ?thesis by (auto simp: other_rows_kept_def)
  qed
qed

lemma save_quietly_kept:
  assumes "users_ok t" "u \<in> set (rows t)"
  shows "users_ok (save_quietly fl (u\<lparr>u_last_login := x\<rparr>) t) \<and> other_rows_kept (u_id u) t (save_quietly fl (u\<lparr>u_last_login := x\<rparr>) t)"
proof (cases "user_update fl (u\<lparr>u_last_login := x\<rparr>) t")
  case (Inr t')
  with users_ok_update [OF assms Inr] other_rows_kept_update [OF assms Inr] show ?thesis by (simp add: save_quietly_def)
qed (use assms in \<open>simp add: save_quietly_def\<close>)

lemma with_client_Inr:
  assumes "with_client a e fl now name code p cl t = (t', Inr lr)"
  obtains tok info t1 u where "oe_exchange e cl code = Inr tok" "fetch_user_info e name p tok = Inr info"
    "find_or_create_user fl name info t = Inr (t1, u)" "t' = save_quietly fl (u\<lparr>u_last_login := Some now\<rparr>) t1"
    "lr = build_login_response a now u"
  using assms by (auto simp: with_client_def split: sum.splits prod.splits)

lemma handle_callback_Inr:
  assumes "handle_callback a e fl now name code st sts t = (sts', t', Some (Inr lr))"
  obtains en p cl where "take_state now name st sts = (sts', Some en)" "find_provider (oe_settings e) name = Some (p, Some cl)"
    "with_client a e fl now name code p cl t = (t', Inr lr)"
  using assms by (auto simp: handle_callback_def split: prod.splits option.splits)

lemma fetched_id: "fetch_user_info e name p tok = Inr info \<Longrightarrow> oi_id info \<noteq> []"
  by (auto simp: fetch_user_info_def Let_def split: if_splits sum.splits option.splits)


section \<open>What the callback does not look at\<close>

text \<open>
  Whoever the profile belongs to is signed in with full tokens: the condition names neither
  \<open>u_is_active\<close> nor \<open>u_totp_enabled\<close>, which the other ways to sign in check.
\<close>

lemma disabled_and_second_factor_ignored:
  assumes "take_state now name st sts = (sts', Some en)" "find_provider (oe_settings e) name = Some (p, Some cl)"
    "oe_exchange e cl code = Inr tok" "fetch_user_info e name p tok = Inr info"
    "user_get_by_oauth_id fl name (oi_id info) t = Inr u"
  shows "\<exists>t'. handle_callback a e fl now name code st sts t = (sts', t', Some (Inr (build_login_response a now u)))"
  using assms by (simp add: handle_callback_def with_client_def find_or_create_user_def)

text \<open>
  An account found by the e-mail of a profile changes hands: it is bound to the provider whatever it
  belonged to, so an account of the directory is no longer refreshed from the directory.
\<close>

lemma email_links_any_account:
  assumes "user_get_by_oauth_id fl name (oi_id info) t = Inl x" "oi_email info \<noteq> []"
    "user_get_by_email fl (oi_email info) t = Inr u" "\<not> fl DbUpdate"
  shows "\<exists>t'. find_or_create_user fl name info t = Inr (t', u\<lparr>u_oauth_id := oi_id info, u_auth_provider := name\<rparr>)"
proof -
  from assms(3) have "u \<in> set (rows t)" by (auto simp: user_get_by_email_def dest: first_where_sat)
  then have "\<exists>t'. user_update fl (u\<lparr>u_oauth_id := oi_id info, u_auth_provider := name\<rparr>) t = Inr t'"
    using assms(4) save_row_existing [of u t u_id "u\<lparr>u_oauth_id := oi_id info, u_auth_provider := name\<rparr>" fl]
    by (simp add: user_update_def)
  with assms show ?thesis by (auto simp: find_or_create_user_def Let_def)
qed

text \<open>A provider without client credentials is found, and its missing configuration is used.\<close>

lemma unconfigured_provider_panics:
  assumes "find_provider (oe_settings e) name = Some (p, None)" "raw = Some bs"
  shows "snd (get_authorization_url e raw now name sts) = None"
  using assms by (simp add: get_authorization_url_def random_state_def)

text \<open>The switch that turns OAuth off only empties the list of providers.\<close>

lemma switch_off_still_signs_in:
  "get_authorization_url (e\<lparr>oe_settings := c\<lparr>oc_enabled := b\<rparr>\<rparr>) raw now name sts =
   get_authorization_url (e\<lparr>oe_settings := c\<lparr>oc_enabled := b'\<rparr>\<rparr>) raw now name sts"
  by (cases "find (\<lambda>p. op_name p = name) (oc_providers c)"; cases "random_state raw") (simp_all add: get_authorization_url_def find_provider_def)

section \<open>An instance\<close>

definition demo_provider :: oauth_provider where
  "demo_provider = \<lparr>op_name = ''sso'', op_client = ''c'', op_secret = ''s'', op_auth_url = ''a'', op_token_url = ''t'',
     op_info_url = ''i'', op_scopes = [], op_redirect = ''r''\<rparr>"

definition demo_profile :: string where
  "demo_profile = ''{'' @ marshal_string ''sub'' @ '':'' @ marshal_string ''77'' @ '','' @ marshal_string ''name'' @ '':'' @ marshal_string ''zoe'' @ ''}''"

definition demo_oauth :: "unit oauth_env" where
  "demo_oauth = \<lparr>oe_settings = \<lparr>oc_enabled = True, oc_providers = [demo_provider]\<rparr>, oe_auth_url = (\<lambda>c st. st),
     oe_exchange = (\<lambda>c code. Inr ()), oe_get = (\<lambda>_ url. Inr demo_profile), oe_float = (\<lambda>s. None), oe_show = (\<lambda>_. [])\<rparr>"

lemma demo_profile_read:
  "case unmarshal_map (\<lambda>_. None) demo_profile of
     None \<Rightarrow> False | Some m \<Rightarrow> read_profile (\<lambda>_. []) ''sso'' m = \<lparr>oi_id = ''77'', oi_username = ''zoe'', oi_email = []\<rparr>"
  by code_simp


end
