(* ===== verification/Overview.thy ===== *)
theory Overview
  imports Kube_Metrics Kube_Handlers Go_Sort
begin

text \<open>
  The overview of a cluster (\<open>service/overview_service.go\<close>, \<open>handler/overview_handler.go\<close>): counts over the
  listed objects, the allocation of the pods, live usage and the latest events. The parser of
  quantities is the parameter \<open>quantity_lib\<close>. The sums of quantities are int64 and wrap around; counts
  are numbers of objects in memory and do not.
\<close>

section \<open>Nested values\<close>

fun nested_value :: "fields \<Rightarrow> string list \<Rightarrow> json option" where
  "nested_value m [] = None"
| "nested_value m [k] = gm_get m k"
| "nested_value m (k # k' # ks) = (case gm_get m k of Some (JObj m') \<Rightarrow> nested_value m' (k' # ks) | _ \<Rightarrow> None)"

definition get_nested_string :: "fields \<Rightarrow> string list \<Rightarrow> string" where
  "get_nested_string m ks = str_or_empty (nested_value m ks)"

definition get_nested_slice :: "fields \<Rightarrow> string list \<Rightarrow> json list" where
  "get_nested_slice m ks = arr_or_nil (nested_value m ks)"

definition get_nested_map :: "fields \<Rightarrow> string list \<Rightarrow> fields option" where
  "get_nested_map m ks = as_obj (nested_value m ks)"

text \<open>A number is mantissa and binary exponent; what is missing or no number counts as \<open>-1\<close>.\<close>

definition get_nested_float :: "fields \<Rightarrow> string list \<Rightarrow> int \<times> int" where
  "get_nested_float m ks = (case nested_value m ks of Some (JNum a e) \<Rightarrow> (a, e) | _ \<Rightarrow> (- 1, 0))"

definition num_le :: "int \<times> int \<Rightarrow> int \<times> int \<Rightarrow> bool" where
  "num_le x y = (case (x, y) of ((a, d), (b, e)) \<Rightarrow> a * 2 ^ nat (d - min d e) \<le> b * 2 ^ nat (e - min d e))"

section \<open>Quantities\<close>

definition parse_cpu_quantity :: "quantity_lib \<Rightarrow> string \<Rightarrow> int" where
  "parse_cpu_quantity q v = (case ql_milli q v of None \<Rightarrow> 0 | Some n \<Rightarrow> n)"

definition parse_memory_quantity :: "quantity_lib \<Rightarrow> string \<Rightarrow> int" where
  "parse_memory_quantity q v = (case ql_value q v of None \<Rightarrow> 0 | Some n \<Rightarrow> n)"

record pod_allocation =
  pa_cpu_requests :: int
  pa_cpu_limits :: int
  pa_memory_requests :: int
  pa_memory_limits :: int

definition no_allocation :: pod_allocation where
  "no_allocation = \<lparr>pa_cpu_requests = 0, pa_cpu_limits = 0, pa_memory_requests = 0, pa_memory_limits = 0\<rparr>"

definition alloc_add :: "pod_allocation \<Rightarrow> pod_allocation \<Rightarrow> pod_allocation" where
  "alloc_add a b =
     \<lparr>pa_cpu_requests = int64 (pa_cpu_requests a + pa_cpu_requests b), pa_cpu_limits = int64 (pa_cpu_limits a + pa_cpu_limits b),
      pa_memory_requests = int64 (pa_memory_requests a + pa_memory_requests b),
      pa_memory_limits = int64 (pa_memory_limits a + pa_memory_limits b)\<rparr>"

definition alloc_max :: "pod_allocation \<Rightarrow> pod_allocation \<Rightarrow> pod_allocation" where
  "alloc_max a b =
     \<lparr>pa_cpu_requests = max (pa_cpu_requests a) (pa_cpu_requests b), pa_cpu_limits = max (pa_cpu_limits a) (pa_cpu_limits b),
      pa_memory_requests = max (pa_memory_requests a) (pa_memory_requests b),
      pa_memory_limits = max (pa_memory_limits a) (pa_memory_limits b)\<rparr>"

definition resource_list_values :: "quantity_lib \<Rightarrow> fields \<Rightarrow> int \<times> int" where
  "resource_list_values q m =
     (parse_cpu_quantity q (str_or_empty (gm_get m ''cpu'')), parse_memory_quantity q (str_or_empty (gm_get m ''memory'')))"

definition container_allocation :: "quantity_lib \<Rightarrow> fields \<Rightarrow> pod_allocation" where
  "container_allocation q c =
     (case get_nested_map c [''resources''] of
        None \<Rightarrow> no_allocation
      | Some rs \<Rightarrow>
          (case (resource_list_values q (obj_or_nil (gm_get rs ''requests'')), resource_list_values q (obj_or_nil (gm_get rs ''limits''))) of
             ((rc, rm), (lc, lm)) \<Rightarrow>
               \<lparr>pa_cpu_requests = rc, pa_cpu_limits = lc, pa_memory_requests = rm, pa_memory_limits = lm\<rparr>))"

text \<open>The elements of a list of containers that are objects.\<close>

definition container_objects :: "fields \<Rightarrow> string \<Rightarrow> fields list" where
  "container_objects pod k = List.map_filter (\<lambda>v. as_obj (Some v)) (get_nested_slice pod [''spec'', k])"

definition init_step :: "quantity_lib \<Rightarrow> fields \<Rightarrow> pod_allocation \<times> pod_allocation \<Rightarrow> pod_allocation \<times> pod_allocation" where
  "init_step q c s =
     (case s of (sidecars, peak) \<Rightarrow>
        let current = container_allocation q c in
        if get_nested_string c [''restartPolicy''] = ''Always''
          then (let sidecars' = alloc_add sidecars current in (sidecars', alloc_max peak sidecars'))
        else (sidecars, alloc_max peak (alloc_add current sidecars)))"

definition overhead_allocation :: "quantity_lib \<Rightarrow> fields \<Rightarrow> pod_allocation" where
  "overhead_allocation q m =
     (case resource_list_values q m of (c, b) \<Rightarrow>
        \<lparr>pa_cpu_requests = c, pa_cpu_limits = c, pa_memory_requests = b, pa_memory_limits = b\<rparr>)"

definition effective_pod_allocation :: "quantity_lib \<Rightarrow> fields \<Rightarrow> pod_allocation" where
  "effective_pod_allocation q pod =
     (let steady = foldl (\<lambda>a c. alloc_add a (container_allocation q c)) no_allocation (container_objects pod ''containers'');
          (sidecars, peak) = fold (init_step q) (container_objects pod ''initContainers'') (no_allocation, no_allocation);
          total = alloc_max (alloc_add steady sidecars) peak
      in case get_nested_map pod [''spec'', ''overhead''] of
           None \<Rightarrow> total
         | Some m \<Rightarrow> alloc_add total (overhead_allocation q m))"

section \<open>Counting\<close>

definition phase_of :: "k8s_obj \<Rightarrow> string" where
  "phase_of r = get_nested_string (ko_raw r) [''status'', ''phase'']"

record pod_status_dist =
  sd_running :: nat
  sd_pending :: nat
  sd_succeeded :: nat
  sd_failed :: nat
  sd_unknown :: nat

definition count_pod :: "k8s_obj \<Rightarrow> pod_status_dist \<Rightarrow> pod_status_dist" where
  "count_pod p s =
     (let ph = phase_of p in
      if ph = ''Running'' then s\<lparr>sd_running := Suc (sd_running s)\<rparr>
      else if ph = ''Pending'' then s\<lparr>sd_pending := Suc (sd_pending s)\<rparr>
      else if ph = ''Succeeded'' then s\<lparr>sd_succeeded := Suc (sd_succeeded s)\<rparr>
      else if ph = ''Failed'' then s\<lparr>sd_failed := Suc (sd_failed s)\<rparr>
      else s\<lparr>sd_unknown := Suc (sd_unknown s)\<rparr>)"

definition pod_distribution :: "k8s_obj list \<Rightarrow> pod_status_dist" where
  "pod_distribution ps =
     fold count_pod ps \<lparr>sd_running = 0, sd_pending = 0, sd_succeeded = 0, sd_failed = 0, sd_unknown = 0\<rparr>"

definition count_where :: "(k8s_obj \<Rightarrow> bool) \<Rightarrow> k8s_obj list \<Rightarrow> nat" where
  "count_where p rs = length (filter p rs)"

definition has_desired :: "string list \<Rightarrow> string list \<Rightarrow> k8s_obj \<Rightarrow> bool" where
  "has_desired want got r =
     (let desired = get_nested_float (ko_raw r) want; ready = get_nested_float (ko_raw r) got
      in 0 \<le> fst desired \<and> num_le desired ready)"

definition deployment_ready :: "k8s_obj \<Rightarrow> bool" where
  "deployment_ready = has_desired [''spec'', ''replicas''] [''status'', ''availableReplicas'']"

definition statefulset_ready :: "k8s_obj \<Rightarrow> bool" where
  "statefulset_ready = has_desired [''spec'', ''replicas''] [''status'', ''readyReplicas'']"

definition daemonset_ready :: "k8s_obj \<Rightarrow> bool" where
  "daemonset_ready = has_desired [''status'', ''desiredNumberScheduled''] [''status'', ''numberReady'']"

definition condition_true :: "string \<Rightarrow> json \<Rightarrow> bool" where
  "condition_true ty v =
     (case as_obj (Some v) of
        None \<Rightarrow> False
      | Some c \<Rightarrow> as_str (gm_get c ''type'') = Some ty \<and> as_str (gm_get c ''status'') = Some ''True'')"

definition has_condition :: "string \<Rightarrow> k8s_obj \<Rightarrow> bool" where
  "has_condition ty r = list_ex (condition_true ty) (get_nested_slice (ko_raw r) [''status'', ''conditions''])"

definition job_succeeded :: "k8s_obj \<Rightarrow> bool" where
  "job_succeeded r \<longleftrightarrow> has_condition ''Complete'' r \<or> 0 < fst (get_nested_float (ko_raw r) [''status'', ''succeeded''])"

definition job_failed :: "k8s_obj \<Rightarrow> bool" where
  "job_failed r \<longleftrightarrow> \<not> job_succeeded r \<and>
     (has_condition ''Failed'' r \<or> 0 < fst (get_nested_float (ko_raw r) [''status'', ''failed'']))"

definition cronjob_active :: "k8s_obj \<Rightarrow> bool" where
  "cronjob_active r \<longleftrightarrow> get_nested_slice (ko_raw r) [''status'', ''active''] \<noteq> []"

definition sum64 :: "int list \<Rightarrow> int" where
  "sum64 xs = foldl (\<lambda>a x. int64 (a + x)) 0 xs"

definition pv_bytes :: "quantity_lib \<Rightarrow> k8s_obj \<Rightarrow> int" where
  "pv_bytes q r =
     (case get_nested_map (ko_raw r) [''spec'', ''capacity''] of
        None \<Rightarrow> 0
      | Some m \<Rightarrow> (case as_str (gm_get m ''storage'') of None \<Rightarrow> 0 | Some s \<Rightarrow> parse_memory_quantity q s))"

definition node_allocatable :: "(string \<Rightarrow> int) \<Rightarrow> string \<Rightarrow> k8s_obj \<Rightarrow> int" where
  "node_allocatable parse k r =
     (case get_nested_map (ko_raw r) [''status'', ''allocatable''] of
        None \<Rightarrow> 0
      | Some m \<Rightarrow> (case as_str (gm_get m k) of None \<Rightarrow> 0 | Some s \<Rightarrow> parse s))"

definition is_terminal_pod :: "k8s_obj \<Rightarrow> bool" where
  "is_terminal_pod p \<longleftrightarrow> phase_of p = ''Succeeded'' \<or> phase_of p = ''Failed''"

section \<open>Events\<close>

record event_summary =
  es_type :: string
  es_reason :: string
  es_message :: string
  es_kind :: string
  es_name :: string
  es_namespace :: string
  es_timestamp :: string

definition summary_of_event :: "k8s_obj \<Rightarrow> event_summary" where
  "summary_of_event r =
     (let at = get_nested_string (ko_raw r); ty = at [''type'']; msg = at [''message'']; ts = at [''lastTimestamp''] in
      \<lparr>es_type = (if ty = [] then ''Normal'' else ty), es_reason = at [''reason''],
       es_message = (if 200 < length msg then take 200 msg @ ''...'' else msg),
       es_kind = at [''involvedObject'', ''kind''], es_name = at [''involvedObject'', ''name''],
       es_namespace = at [''involvedObject'', ''namespace''],
       es_timestamp = (if ts = [] then at [''metadata'', ''creationTimestamp''] else ts)\<rparr>)"

definition later_event :: "event_summary \<Rightarrow> event_summary \<Rightarrow> bool" where
  "later_event a b = str_less (es_timestamp b) (es_timestamp a)"

definition recent_events :: "k8s_obj list \<Rightarrow> event_summary list" where
  "recent_events rs = take 10 (sort_by later_event (map summary_of_event rs))"

section \<open>The overview\<close>

record resource_metric =
  mt_allocatable :: int
  mt_usage :: int
  mt_requests :: int
  mt_limits :: int

record resource_usage =
  ru_cpu :: resource_metric
  ru_memory :: resource_metric
  ru_available :: bool

record overview_response =
  ov_pods :: int
  ov_running_pods :: nat
  ov_deployments :: int
  ov_ready_deployments :: nat
  ov_services :: int
  ov_nodes :: int
  ov_ready_nodes :: nat
  ov_namespaces :: int
  ov_active_namespaces :: nat
  ov_resources :: resource_usage
  ov_events :: "event_summary list"
  ov_statefulsets :: int
  ov_ready_statefulsets :: nat
  ov_daemonsets :: int
  ov_ready_daemonsets :: nat
  ov_jobs :: int
  ov_succeeded_jobs :: nat
  ov_failed_jobs :: nat
  ov_cronjobs :: int
  ov_active_cronjobs :: nat
  ov_ingresses :: int
  ov_pvs :: int
  ov_bound_pvs :: nat
  ov_available_pvs :: nat
  ov_released_pvs :: nat
  ov_pvcs :: int
  ov_bound_pvcs :: nat
  ov_pending_pvcs :: nat
  ov_total_storage :: int
  ov_allocated_storage :: int
  ov_used_storage :: int
  ov_distribution :: pod_status_dist

definition overview_types :: "string list" where
  "overview_types =
     [''pods'', ''deployments'', ''services'', ''nodes'', ''namespaces'', ''statefulsets'', ''daemonsets'', ''jobs'',
      ''cronjobs'', ''ingresses'', ''persistentvolumes'', ''persistentvolumeclaims'']"

definition no_options :: list_options where
  "no_options = \<lparr>lo_label = [], lo_field = [], lo_limit = 0, lo_continue = []\<rparr>"

definition list_of_kind :: "('cfg, 'dyn, 'w) resource_env \<Rightarrow> string \<Rightarrow> 'w \<Rightarrow> string \<Rightarrow> resource_list res" where
  "list_of_kind env cl w kind = repo_list (re_api env) (re_registry env) (re_now env) (re_state env) cl kind [] no_options w"

fun list_kinds :: "(string \<Rightarrow> resource_list res) \<Rightarrow> string list \<Rightarrow> (string, resource_list) gomap res" where
  "list_kinds get [] = Inr []"
| "list_kinds get (k # ks) =
     (case get k of
        Inl e \<Rightarrow> fail CodeInternal (''failed to list '' @ k @ '': '' @ error_string e)
      | Inr l \<Rightarrow> (case list_kinds get ks of Inl e \<Rightarrow> Inl e | Inr ls \<Rightarrow> Inr ((k, l) # ls)))"

definition resources_of ::
  "quantity_lib \<Rightarrow> k8s_obj list \<Rightarrow> k8s_obj list \<Rightarrow> (string, pod_metrics) gomap option \<Rightarrow> resource_usage" where
  "resources_of q nodes pods live =
     (let al = foldl (\<lambda>a p. alloc_add a (effective_pod_allocation q (ko_raw p))) no_allocation (filter (\<lambda>p. \<not> is_terminal_pod p) pods);
          use = (\<lambda>f. case live of None \<Rightarrow> 0 | Some ms \<Rightarrow> sum64 (map (f \<circ> snd) ms))
      in \<lparr>ru_cpu = \<lparr>mt_allocatable = sum64 (map (node_allocatable (parse_cpu_quantity q) ''cpu'') nodes), mt_usage = use pm_cpu,
                    mt_requests = pa_cpu_requests al, mt_limits = pa_cpu_limits al\<rparr>,
          ru_memory = \<lparr>mt_allocatable = sum64 (map (node_allocatable (parse_memory_quantity q) ''memory'') nodes),
                       mt_usage = use pm_memory, mt_requests = pa_memory_requests al, mt_limits = pa_memory_limits al\<rparr>,
          ru_available = (live \<noteq> None)\<rparr>)"

definition build_overview ::
  "quantity_lib \<Rightarrow> (string \<Rightarrow> resource_list) \<Rightarrow> k8s_obj list \<Rightarrow> (string, pod_metrics) gomap option \<Rightarrow> overview_response" where
  "build_overview q ls events live =
     (let its = (\<lambda>k. rl_items (ls k)); tot = (\<lambda>k. rl_total (ls k)); dist = pod_distribution (its ''pods'');
          pvs = its ''persistentvolumes''; pvcs = its ''persistentvolumeclaims'';
          phase = (\<lambda>ph. (\<lambda>r. phase_of r = ph));
          allocated = sum64 (map (pv_bytes q) (filter (phase ''Bound'') pvs))
      in \<lparr>ov_pods = tot ''pods'', ov_running_pods = sd_running dist, ov_deployments = tot ''deployments'',
          ov_ready_deployments = count_where deployment_ready (its ''deployments''), ov_services = tot ''services'',
          ov_nodes = tot ''nodes'', ov_ready_nodes = count_where (has_condition ''Ready'') (its ''nodes''),
          ov_namespaces = tot ''namespaces'', ov_active_namespaces = count_where (phase ''Active'') (its ''namespaces''),
          ov_resources = resources_of q (its ''nodes'') (its ''pods'') live, ov_events = recent_events events,
          ov_statefulsets = tot ''statefulsets'', ov_ready_statefulsets = count_where statefulset_ready (its ''statefulsets''),
          ov_daemonsets = tot ''daemonsets'', ov_ready_daemonsets = count_where daemonset_ready (its ''daemonsets''),
          ov_jobs = tot ''jobs'', ov_succeeded_jobs = count_where job_succeeded (its ''jobs''),
          ov_failed_jobs = count_where job_failed (its ''jobs''), ov_cronjobs = tot ''cronjobs'',
          ov_active_cronjobs = count_where cronjob_active (its ''cronjobs''), ov_ingresses = tot ''ingresses'',
          ov_pvs = tot ''persistentvolumes'', ov_bound_pvs = count_where (phase ''Bound'') pvs,
          ov_available_pvs = count_where (phase ''Available'') pvs, ov_released_pvs = count_where (phase ''Released'') pvs,
          ov_pvcs = tot ''persistentvolumeclaims'', ov_bound_pvcs = count_where (phase ''Bound'') pvcs,
          ov_pending_pvcs = count_where (phase ''Pending'') pvcs, ov_total_storage = sum64 (map (pv_bytes q) pvs),
          ov_allocated_storage = allocated, ov_used_storage = allocated, ov_distribution = dist\<rparr>)"

text \<open>
  \<open>metrics = None\<close>: a service without a metrics reader. Events and live usage are optional: their
  failure leaves them out. A type that is missing from the fetched lists cannot happen: all of them
  are fetched, or the request fails.
\<close>

definition nothing_listed :: resource_list where
  "nothing_listed = \<lparr>rl_items = [], rl_total = 0, rl_continue = [], rl_stale = False\<rparr>"

definition get_overview ::
  "quantity_lib \<Rightarrow> quantity_lib option \<Rightarrow> ('cfg, 'dyn, 'w) resource_env \<Rightarrow> nat \<Rightarrow> 'w \<Rightarrow> overview_response res" where
  "get_overview q metrics env i w =
     (case cluster_get_by_id (re_faults env) i (cs_table (re_state env)) of
        Inl _ \<Rightarrow> fail CodeNotFound (''cluster '' @ dec_nat i @ '' not found'')
      | Inr c \<Rightarrow>
          (let get = list_of_kind env (c_name c) w in
           case list_kinds get overview_types of
             Inl e \<Rightarrow> Inl e
           | Inr ls \<Rightarrow>
               (let events = (case get ''events'' of Inl _ \<Rightarrow> [] | Inr l \<Rightarrow> rl_items l);
                    live = (case metrics of
                              None \<Rightarrow> None
                            | Some lib \<Rightarrow> (case list_pod_metrics lib env i [] w of Inl _ \<Rightarrow> None | Inr ms \<Rightarrow> Some ms))
                in Inr (build_overview q (\<lambda>k. case gm_get ls k of None \<Rightarrow> nothing_listed | Some l \<Rightarrow> l) events live))))"

definition handle_overview ::
  "quantity_lib \<Rightarrow> quantity_lib option \<Rightarrow> ('cfg, 'dyn, 'w) resource_env \<Rightarrow> string option \<Rightarrow> string \<Rightarrow> 'w \<Rightarrow> overview_response response" where
  "handle_overview q metrics env rid raw w =
     (case parse_uint raw of
        None \<Rightarrow> resp_error rid CodeParamInvalid ''invalid clusterID''
      | Some i \<Rightarrow> answer rid (get_overview q metrics env i w))"

section \<open>The allocation of a pod is its peak\<close>

text \<open>
  The reference: while the pod starts, each init container runs together with the restartable ones
  declared before it; afterwards its containers run with all restartable ones. What the pod needs is
  the largest of these demands.
\<close>

definition restartable :: "fields \<Rightarrow> bool" where
  "restartable c \<longleftrightarrow> get_nested_string c [''restartPolicy''] = ''Always''"

fun startup_phases :: "fields list \<Rightarrow> fields list \<Rightarrow> fields list list" where
  "startup_phases running [] = []"
| "startup_phases running (c # cs) =
     (running @ [c]) # startup_phases (if restartable c then running @ [c] else running) cs"

definition pod_phases :: "fields \<Rightarrow> fields list list" where
  "pod_phases pod =
     (container_objects pod ''containers'' @ filter restartable (container_objects pod ''initContainers'')) #
     startup_phases [] (container_objects pod ''initContainers'')"

definition demand :: "(fields \<Rightarrow> int) \<Rightarrow> fields list \<Rightarrow> int" where
  "demand f cs = sum_list (map f cs)"

definition dimensions :: "(pod_allocation \<Rightarrow> int) set" where
  "dimensions = {pa_cpu_requests, pa_cpu_limits, pa_memory_requests, pa_memory_limits}"

lemma dimension_simps:
  "f \<in> dimensions \<Longrightarrow> f (alloc_add a b) = int64 (f a + f b)"
  "f \<in> dimensions \<Longrightarrow> f (alloc_max a b) = max (f a) (f b)"
  "f \<in> dimensions \<Longrightarrow> f no_allocation = 0"
  by (auto simp: dimensions_def alloc_add_def alloc_max_def no_allocation_def)

lemma steady_sum:
  assumes d: "f \<in> dimensions"
  shows "int64 (f (foldl (\<lambda>a c. alloc_add a (g c)) a0 cs)) = int64 (f a0 + sum_list (map (\<lambda>c. f (g c)) cs))"
proof (induction cs arbitrary: a0)
  case (Cons c cs)
  have "int64 (int64 (f a0 + f (g c)) + sum_list (map (\<lambda>c. f (g c)) cs)) = int64 (f a0 + f (g c) + sum_list (map (\<lambda>c. f (g c)) cs))"
    by (rule int64_add)
  with Cons show ?case by (simp add: dimension_simps [OF d] ac_simps)
qed simp

lemma demand_simps [simp]:
  "demand g [] = 0" "demand g (c # cs) = g c + demand g cs" "demand g (cs @ ds) = demand g cs + demand g ds"
  by (simp_all add: demand_def)

lemma demand_nonneg: "\<forall>c \<in> set cs. 0 \<le> g c \<Longrightarrow> 0 \<le> demand g cs"
  by (induction cs) auto

lemma demand_filter: "\<forall>c \<in> set cs. 0 \<le> g c \<Longrightarrow> demand g (filter p cs) \<le> demand g cs"
  by (induction cs) auto

lemma init_fold:
  assumes d: "f \<in> dimensions" and g: "g = (\<lambda>c. f (container_allocation q c))"
  shows "\<forall>c \<in> set cs. 0 \<le> g c \<Longrightarrow> 0 \<le> demand g running \<Longrightarrow> f sc = demand g running \<Longrightarrow> demand g running + demand g cs < 2 ^ 63 \<Longrightarrow>
    f (fst (fold (init_step q) cs (sc, pk))) = demand g (running @ filter restartable cs) \<and>
    f (snd (fold (init_step q) cs (sc, pk))) = fold max (map (demand g) (startup_phases running cs)) (f pk)"
proof (induction cs arbitrary: running sc pk)
  case (Cons c cs)
  have n: "0 \<le> g c" "0 \<le> demand g cs" using Cons.prems(1) demand_nonneg [of cs g] by auto
  have w: "int64 (demand g running + g c) = demand g running + g c"
    using Cons.prems(2,4) n by (intro int64_id) auto
  let ?r = "if restartable c then running @ [c] else running"
  obtain sc1 pk1 where st: "init_step q c (sc, pk) = (sc1, pk1)" by (cases "init_step q c (sc, pk)")
  then have sc1: "f sc1 = demand g ?r" and pk1: "f pk1 = max (demand g (running @ [c])) (f pk)"
    using w Cons.prems(3) g
    by (auto simp: init_step_def Let_def restartable_def dimension_simps [OF d] ac_simps max.commute split: if_splits)
  have "0 \<le> demand g ?r" "demand g ?r + demand g cs < 2 ^ 63" using Cons.prems(2,4) n by auto
  with Cons.IH [OF _ _ sc1] Cons.prems(1) pk1 st show ?case by auto
qed simp

text \<open>
  C35. The requests and limits the overview attributes to a pod are, in each of the four dimensions, what
  the pod needs at its peak, whatever the order of its init containers and restartable init containers, and
  the declared overhead on top. (The quantities are not negative and their sum fits in an int64.)
\<close>

theorem effective_allocation_is_peak:
  assumes "f \<in> dimensions" "g = (\<lambda>c. f (container_allocation q c))"
    and "\<forall>c \<in> set (container_objects pod ''containers'' @ container_objects pod ''initContainers''). 0 \<le> g c"
    and "demand g (container_objects pod ''containers'' @ container_objects pod ''initContainers'') < 2 ^ 63"
  shows "f (effective_pod_allocation q pod) =
    (let peak = Max (demand g ` set (pod_phases pod)) in
     case get_nested_map pod [''spec'', ''overhead''] of
       None \<Rightarrow> peak
     | Some m \<Rightarrow> int64 (peak + f (overhead_allocation q m)))"
proof -
  let ?cs = "container_objects pod ''containers''" and ?is = "container_objects pod ''initContainers''"
  let ?steady = "foldl (\<lambda>a c. alloc_add a (container_allocation q c)) no_allocation ?cs"
  obtain sc pk where fo: "fold (init_step q) ?is (no_allocation, no_allocation) = (sc, pk)" by fastforce
  have nn: "0 \<le> demand g ?cs" "0 \<le> demand g ?is" using assms(3) by (auto intro: demand_nonneg)
  have "int64 (f ?steady) = int64 (demand g ?cs)"
    using steady_sum [OF assms(1), of "container_allocation q" no_allocation ?cs] assms(2)
    by (simp add: dimension_simps [OF assms(1)] demand_def)
  then have st: "int64 (f ?steady + x) = int64 (demand g ?cs + x)" for x by (metis int64_add)
  have inits: "f sc = demand g (filter restartable ?is)" "f pk = fold max (map (demand g) (startup_phases [] ?is)) 0"
    using init_fold [OF assms(1,2), of ?is "[]" no_allocation no_allocation] assms(3,4) nn fo
    by (auto simp: dimension_simps [OF assms(1)])
  have "demand g (filter restartable ?is) \<le> demand g ?is" using assms(3) by (intro demand_filter) simp
  moreover have "0 \<le> demand g (filter restartable ?is)" using assms(3) by (intro demand_nonneg) simp
  ultimately have main: "f (alloc_add ?steady sc) = demand g (?cs @ filter restartable ?is)" "0 \<le> demand g (?cs @ filter restartable ?is)"
    using st [of "f sc"] nn assms(4) inits(1) by (auto simp: dimension_simps [OF assms(1)] intro!: int64_id)
  have "Max (demand g ` set (pod_phases pod)) = Max (set (demand g (?cs @ filter restartable ?is) # map (demand g) (startup_phases [] ?is)))"
    by (simp add: pod_phases_def)
  also have "\<dots> = fold max (map (demand g) (startup_phases [] ?is)) (demand g (?cs @ filter restartable ?is))"
    by (rule Max.set_eq_fold)
  also have "\<dots> = max (demand g (?cs @ filter restartable ?is)) (f pk)"
  proof -
    have "fold max xs (max a b) = max a (fold max xs b)" for xs :: "int list" and a b
    proof (induction xs arbitrary: b)
      case (Cons x xs)
      have "max x (max a b) = max a (max x b)" by (rule max.left_commute)
      with Cons show ?case by simp
    qed simp
    from this [of _ "demand g (?cs @ filter restartable ?is)" 0] show ?thesis using main(2) inits(2) by (simp add: max_absorb1)
  qed
  finally show ?thesis using main(1) fo
    by (simp add: effective_pod_allocation_def Let_def dimension_simps [OF assms(1)] split: option.splits)
qed

section \<open>Counts and events\<close>

lemma distribution_total:
  "sd_running (fold count_pod ps s) + sd_pending (fold count_pod ps s) + sd_succeeded (fold count_pod ps s) +
     sd_failed (fold count_pod ps s) + sd_unknown (fold count_pod ps s) =
   sd_running s + sd_pending s + sd_succeeded s + sd_failed s + sd_unknown s + length ps \<and>
   sd_running (fold count_pod ps s) = sd_running s + count_where (\<lambda>p. phase_of p = ''Running'') ps"
proof (induction ps arbitrary: s)
  case (Cons p ps)
  show ?case using Cons [of "count_pod p s"] by (auto simp: count_pod_def Let_def count_where_def)
qed (simp add: count_where_def)

lemma count_disjoint:
  "(\<And>r. r \<in> set rs \<Longrightarrow> \<not> (p r \<and> q r)) \<Longrightarrow> count_where p rs + count_where q rs \<le> length rs"
  by (induction rs) (fastforce simp: count_where_def)+

lemma list_kinds_Inr:
  "list_kinds get ks = Inr ls \<Longrightarrow> k \<in> set ks \<Longrightarrow> \<exists>l. get k = Inr l \<and> gm_get ls k = Some l"
proof (induction ks arbitrary: ls)
  case (Cons k' ks)
  then show ?case by (cases "k = k'") (auto split: sum.splits)
qed simp

lemma repo_list_total: "repo_list api reg now st cl kind ns opts w = Inr l \<Longrightarrow> rl_total l = int (length (rl_items l))"
  by (auto simp: repo_list_def list_from_cache_def unknown_kind_def split: option.splits sum.splits if_splits)

lemma get_overview_Inr:
  assumes "get_overview q metrics env i w = Inr ov"
  obtains cl ls events live where "list_kinds (list_of_kind env cl w) overview_types = Inr ls"
    "ov = build_overview q (\<lambda>k. case gm_get ls k of None \<Rightarrow> nothing_listed | Some l \<Rightarrow> l) events live"
proof -
  from assms obtain c where c: "cluster_get_by_id (re_faults env) i (cs_table (re_state env)) = Inr c"
    by (auto simp: get_overview_def split: sum.splits)
  with assms obtain ls where ls: "list_kinds (list_of_kind env (c_name c) w) overview_types = Inr ls"
    by (auto simp: get_overview_def Let_def split: sum.splits)
  from assms c ls show ?thesis by (intro that [OF ls]) (auto simp: get_overview_def Let_def)
qed

text \<open>Every list that goes into the overview carries the number of its items as its total.\<close>

lemma overview_lists:
  assumes "get_overview q metrics env i w = Inr ov"
  obtains L events live where "ov = build_overview q L events live" "\<And>k. rl_total (L k) = int (length (rl_items (L k)))"
proof -
  from assms obtain cl ls events live where l: "list_kinds (list_of_kind env cl w) overview_types = Inr ls"
    and ov: "ov = build_overview q (\<lambda>k. case gm_get ls k of None \<Rightarrow> nothing_listed | Some l \<Rightarrow> l) events live"
    by (rule get_overview_Inr)
  have keys: "list_kinds get ks = Inr ls' \<Longrightarrow> map fst ls' = ks" for get ks ls'
    by (induction ks arbitrary: ls') (auto split: sum.splits)
  have "rl_total (case gm_get ls k of None \<Rightarrow> nothing_listed | Some l \<Rightarrow> l) =
      int (length (rl_items (case gm_get ls k of None \<Rightarrow> nothing_listed | Some l \<Rightarrow> l)))" for k
  proof (cases "k \<in> set overview_types")
    case True
    with list_kinds_Inr [OF l] show ?thesis by (fastforce simp: list_of_kind_def dest: repo_list_total)
  next
    case False
    with keys [OF l] have "gm_get ls k = None" by (metis list.set_map map_of_eq_None_iff)
    then show ?thesis by (simp add: nothing_listed_def)
  qed
  then show ?thesis by (rule that [OF ov])
qed

text \<open>
  The figures of an overview agree with each other: the five phases add up to the pods, the running
  ones among them are the running pods, no count of a state exceeds the objects of its type, failed and
  succeeded jobs are different jobs, and the states of the volumes do not overlap.
\<close>

theorem overview_counts_consistent:
  assumes "get_overview q metrics env i w = Inr ov"
  shows "int (sd_running (ov_distribution ov) + sd_pending (ov_distribution ov) + sd_succeeded (ov_distribution ov) +
      sd_failed (ov_distribution ov) + sd_unknown (ov_distribution ov)) = ov_pods ov \<and>
    ov_running_pods ov = sd_running (ov_distribution ov) \<and>
    int (ov_ready_deployments ov) \<le> ov_deployments ov \<and> int (ov_ready_nodes ov) \<le> ov_nodes ov \<and>
    int (ov_ready_statefulsets ov) \<le> ov_statefulsets ov \<and> int (ov_ready_daemonsets ov) \<le> ov_daemonsets ov \<and>
    int (ov_active_namespaces ov) \<le> ov_namespaces ov \<and> int (ov_active_cronjobs ov) \<le> ov_cronjobs ov \<and>
    int (ov_succeeded_jobs ov + ov_failed_jobs ov) \<le> ov_jobs ov \<and>
    int (ov_bound_pvs ov + ov_available_pvs ov) \<le> ov_pvs ov \<and> int (ov_bound_pvcs ov + ov_pending_pvcs ov) \<le> ov_pvcs ov"
proof -
  from assms obtain L events live where ov: "ov = build_overview q L events live"
    and t: "\<And>k. rl_total (L k) = int (length (rl_items (L k)))" by (rule overview_lists) blast
  have le: "count_where p rs \<le> length rs" for p rs by (simp add: count_where_def)
  have jobs: "count_where job_succeeded rs + count_where job_failed rs \<le> length rs" for rs
    by (rule count_disjoint) (simp add: job_failed_def)
  have phases: "count_where (\<lambda>r. phase_of r = ''Bound'') rs + count_where (\<lambda>r. phase_of r = x) rs \<le> length rs"
    if "x \<noteq> ''Bound''" for x rs
    by (rule count_disjoint) (use that in auto)
  have pods: "sd_running (pod_distribution ps) + sd_pending (pod_distribution ps) + sd_succeeded (pod_distribution ps) +
      sd_failed (pod_distribution ps) + sd_unknown (pod_distribution ps) = length ps" for ps
    using distribution_total [of ps "\<lparr>sd_running = 0, sd_pending = 0, sd_succeeded = 0, sd_failed = 0, sd_unknown = 0\<rparr>"]
    by (simp add: pod_distribution_def)
  show ?thesis
    unfolding ov build_overview_def Let_def overview_response.simps t of_nat_le_iff of_nat_eq_iff
    by (intro conjI pods jobs phases le refl) simp_all
qed

text \<open>A deployment scaled to zero reports no available replicas at all: it is never counted as ready.\<close>

lemma scaled_to_zero_never_ready:
  assumes "nested_value (ko_raw r) [''spec'', ''replicas''] = Some (JNum 0 0)"
    "nested_value (ko_raw r) [''status'', ''availableReplicas''] = None"
  shows "\<not> deployment_ready r"
  using assms by (simp add: deployment_ready_def has_desired_def get_nested_float_def num_le_def)

lemma recent_events_newest:
  assumes "e \<in> set (recent_events rs)" "e' \<in> set (drop 10 (sort_by later_event (map summary_of_event rs)))"
  shows "\<not> later_event e' e"
proof -
  have "weak_order later_event"
    unfolding weak_order_def later_event_def using str_less_trans str_less_linear str_less_irrefl by metis
  then have "in_order later_event (sort_by later_event (map summary_of_event rs))" by (rule in_order_sort_by)
  then have "sorted_wrt (\<lambda>x y. \<not> later_event y x)
      (take 10 (sort_by later_event (map summary_of_event rs)) @ drop 10 (sort_by later_event (map summary_of_event rs)))"
    by (simp add: in_order_def)
  then show ?thesis using assms unfolding sorted_wrt_append recent_events_def by blast
qed

section \<open>Instances\<close>

definition demo_container :: "string \<Rightarrow> fields \<Rightarrow> json" where
  "demo_container cpu rest = JObj ((''resources'', JObj [(''requests'', JObj [(''cpu'', JStr cpu)])]) # rest)"

text \<open>A pod of one container, with a restartable and an ordinary init container.\<close>

definition demo_pod :: fields where
  "demo_pod = [(''name'', JStr ''api''), (''status'', JObj [(''phase'', JStr ''Running'')]),
     (''spec'', JObj [(''containers'', JArr [demo_container ''2'' []]),
        (''initContainers'', JArr [demo_container ''1'' [(''restartPolicy'', JStr ''Always'')], demo_container ''5'' []])])]"

definition demo_quantities :: quantity_lib where
  "demo_quantities = \<lparr>ql_milli = (\<lambda>s. if s = ''1'' then Some 1000 else if s = ''2'' then Some 2000 else if s = ''5'' then Some 5000 else None),
     ql_value = (\<lambda>s. None), ql_time = (\<lambda>s. None)\<rparr>"

lemma demo_pod_containers:
  "map (\<lambda>c. pa_cpu_requests (container_allocation demo_quantities c)) (container_objects demo_pod ''containers'') = [2000]"
  "map (\<lambda>c. pa_cpu_requests (container_allocation demo_quantities c)) (container_objects demo_pod ''initContainers'') = [1000, 5000]"
  "map (demand (\<lambda>c. pa_cpu_requests (container_allocation demo_quantities c))) (pod_phases demo_pod) = [3000, 1000, 6000]"
  "get_nested_map demo_pod [''spec'', ''overhead''] = None"
  by code_simp+

theorem effective_allocation_is_peak_witness:
  "pa_cpu_requests (effective_pod_allocation demo_quantities demo_pod) = 6000"
proof -
  let ?g = "\<lambda>c. pa_cpu_requests (container_allocation demo_quantities c)"
  let ?all = "container_objects demo_pod ''containers'' @ container_objects demo_pod ''initContainers''"
  have m: "map ?g ?all = [2000, 1000, 5000]" using demo_pod_containers by simp
  have "\<forall>x \<in> set (map ?g ?all). 0 \<le> x" unfolding m by simp
  then have "\<forall>c \<in> set ?all. 0 \<le> ?g c" unfolding set_map by blast
  moreover have "demand ?g ?all < 2 ^ 63" unfolding demand_def m by simp
  moreover have "demand ?g ` set (pod_phases demo_pod) = {3000, 1000, 6000}"
    using arg_cong [where f = set, OF demo_pod_containers(3)] by simp
  ultimately show ?thesis
    using effective_allocation_is_peak [of pa_cpu_requests ?g demo_quantities demo_pod]
    by (simp add: dimensions_def demo_pod_containers(4))
qed

definition demo_overview_api :: "(string, unit) kube_api" where
  "demo_overview_api =
     \<lparr>ka_list = (\<lambda>d g ns lo w. Inr (if gvr_resource g = ''pods'' then [demo_pod] else [], [])),
      ka_get = (\<lambda>d g ns n w. Inr []), ka_create = (\<lambda>d g ns b u w. (w, Inr u)), ka_update = (\<lambda>d g ns b u w. (w, Inr u)),
      ka_delete = (\<lambda>d g ns n w. (w, Inr ())), ka_patch = (\<lambda>d g ns n b w. (w, Inr [])),
      ka_lister = (\<lambda>w r g ns. Inl ''no cache''), ka_getter = (\<lambda>w r g ns n. Inl ''no cache''), ka_api_version = (\<lambda>u. []),
      ka_kind = (\<lambda>u. []), ka_name = (\<lambda>u. str_or_empty (gm_get u ''name'')), ka_namespace = (\<lambda>u. []), ka_set_name = (\<lambda>n u. u)\<rparr>"

definition demo_overview_env :: "(string, string, unit) resource_env" where
  "demo_overview_env =
     \<lparr>re_api = demo_overview_api,
      re_registry = map (\<lambda>k. (k, \<lparr>rm_name = k, rm_gvr = \<lparr>gvr_group = [], gvr_version = ''v1'', gvr_resource = k\<rparr>,
         rm_gvk = \<lparr>gvk_group = [], gvk_version = ''v1'', gvk_kind = k\<rparr>, rm_scope = NamespaceScoped, rm_cached = False\<rparr>)) overview_types,
      re_float = (\<lambda>_. None), re_faults = no_faults, re_now = 0, re_state = demo_clusters\<rparr>"

lemma demo_overview_ok:
  "map_sum (\<lambda>_. ()) (\<lambda>ov. (ov_pods ov, ov_running_pods ov, ov_nodes ov)) (get_overview demo_quantities None demo_overview_env 1 ()) = Inr (1, 1, 0)"
  by code_simp

theorem overview_counts_consistent_witness:
  "\<exists>ov. get_overview demo_quantities None demo_overview_env 1 () = Inr ov \<and> ov_pods ov = 1 \<and>
     sd_running (ov_distribution ov) = 1"
proof -
  obtain ov where ov: "get_overview demo_quantities None demo_overview_env 1 () = Inr ov" "ov_pods ov = 1" "ov_running_pods ov = 1"
    using demo_overview_ok by (cases "get_overview demo_quantities None demo_overview_env 1 ()") auto
  with overview_counts_consistent [OF ov(1)] show ?thesis by simp
qed

end
