(* ===== verification/Cluster_Reports.thy ===== *)
theory Cluster_Reports
  imports Kube_Handlers
begin

text \<open>
  Two reports over listed objects: the summary of resource quotas (\<open>service/quota_service.go\<close>) and the
  comparison of two objects (\<open>service/compare_service.go\<close>), with their handlers. Printing a decoded value
  (\<open>fmt\<close> with \<open>%v\<close>) and writing YAML are parameters. Go visits a map in an arbitrary order: a list made
  from one stands for its elements in some order.
\<close>

section \<open>Quotas\<close>

record quota_entry =
  qe_name :: string
  qe_hard :: "(string, string) gomap"
  qe_used :: "(string, string) gomap"

type_synonym quota_summary = "(string \<times> quota_entry list) list"

definition printed_values :: "(json \<Rightarrow> string) \<Rightarrow> json option \<Rightarrow> (string, string) gomap" where
  "printed_values show_value v = (case as_obj v of None \<Rightarrow> [] | Some m \<Rightarrow> map (\<lambda>(k, x). (k, show_value x)) m)"

definition quota_entry_from_raw :: "(json \<Rightarrow> string) \<Rightarrow> string \<Rightarrow> fields \<Rightarrow> quota_entry" where
  "quota_entry_from_raw show_value name raw =
     (case as_obj (gm_get raw ''status'') of
        None \<Rightarrow> \<lparr>qe_name = name, qe_hard = [], qe_used = []\<rparr>
      | Some status \<Rightarrow>
          \<lparr>qe_name = name, qe_hard = printed_values show_value (gm_get status ''hard''),
           qe_used = printed_values show_value (gm_get status ''used'')\<rparr>)"

definition quota_namespace :: "k8s_obj \<Rightarrow> string" where
  "quota_namespace r = (if ko_namespace r = [] then ''default'' else ko_namespace r)"

definition add_quota :: "(json \<Rightarrow> string) \<Rightarrow> k8s_obj \<Rightarrow> (string, quota_entry list) gomap \<Rightarrow> (string, quota_entry list) gomap" where
  "add_quota show_value r m =
     (let ns = quota_namespace r; old = (case gm_get m ns of None \<Rightarrow> [] | Some es \<Rightarrow> es)
      in gm_put ns (old @ [quota_entry_from_raw show_value (ko_name r) (ko_raw r)]) m)"

definition group_quotas :: "(json \<Rightarrow> string) \<Rightarrow> k8s_obj list \<Rightarrow> (string, quota_entry list) gomap" where
  "group_quotas show_value rs = fold (add_quota show_value) rs []"

definition get_quota_summary ::
  "(json \<Rightarrow> string) \<Rightarrow> ('cfg, 'dyn, 'w) resource_env \<Rightarrow> nat \<Rightarrow> string \<Rightarrow> 'w \<Rightarrow> quota_summary res" where
  "get_quota_summary show_value env i ns w =
     (case cluster_get_by_id (re_faults env) i (cs_table (re_state env)) of
        Inl _ \<Rightarrow> fail CodeNotFound (''cluster '' @ dec_nat i @ '' not found'')
      | Inr c \<Rightarrow>
          (case repo_list (re_api env) (re_registry env) (re_now env) (re_state env) (c_name c) ''resourcequotas'' ns
                  \<lparr>lo_label = [], lo_field = [], lo_limit = 0, lo_continue = []\<rparr> w of
             Inl e \<Rightarrow> fail CodeInternal (''failed to list resourcequotas: '' @ error_string e)
           | Inr l \<Rightarrow>
               (let m = group_quotas show_value (rl_items l) in
                Inr (if ns \<noteq> [] then [(ns, case gm_get m ns of None \<Rightarrow> [] | Some es \<Rightarrow> es)] else m))))"

definition handle_quota_summary ::
  "(json \<Rightarrow> string) \<Rightarrow> ('cfg, 'dyn, 'w) resource_env \<Rightarrow> string option \<Rightarrow> string \<Rightarrow> string \<Rightarrow> 'w \<Rightarrow> quota_summary response" where
  "handle_quota_summary show_value env rid raw ns w =
     (case parse_uint raw of
        None \<Rightarrow> resp_error rid CodeParamInvalid ''invalid clusterID''
      | Some i \<Rightarrow> answer rid (get_quota_summary show_value env i ns w))"

text \<open>What a summary should say of a namespace: the quotas of its objects, in the order of the list.\<close>

definition quotas_in :: "(json \<Rightarrow> string) \<Rightarrow> string \<Rightarrow> k8s_obj list \<Rightarrow> quota_entry list" where
  "quotas_in show_value ns rs =
     map (\<lambda>r. quota_entry_from_raw show_value (ko_name r) (ko_raw r)) (filter (\<lambda>r. quota_namespace r = ns) rs)"

lemma fold_add_quota:
  "gm_ok m \<Longrightarrow> gm_ok (fold (add_quota sv) rs m) \<and>
     gm_get (fold (add_quota sv) rs m) ns =
       (case gm_get m ns of
          None \<Rightarrow> if quotas_in sv ns rs = [] then None else Some (quotas_in sv ns rs)
        | Some es \<Rightarrow> Some (es @ quotas_in sv ns rs))"
proof (induction rs arbitrary: m)
  case Nil
  then show ?case by (simp add: quotas_in_def split: option.split)
next
  case (Cons r rs)
  have "gm_ok (add_quota sv r m)" using Cons.prems by (simp add: add_quota_def Let_def)
  with Cons.IH [of "add_quota sv r m"] show ?case
    by (auto simp: add_quota_def Let_def quotas_in_def split: option.split)
qed

lemma group_quotas_exact:
  "gm_ok (group_quotas sv rs) \<and>
   gm_get (group_quotas sv rs) ns = (if quotas_in sv ns rs = [] then None else Some (quotas_in sv ns rs))"
  using fold_add_quota [of "[]" sv rs ns] by (simp add: group_quotas_def)

text \<open>
  The summary lists every quota once, under its namespace and in the order of the list: with a namespace
  asked for, that namespace alone, even when it has none; without, exactly the namespaces that have
  one, each once.
\<close>

theorem quota_summary_exact:
  assumes "get_quota_summary sv env i ns w = Inr s"
  shows "\<exists>c l. cluster_get_by_id (re_faults env) i (cs_table (re_state env)) = Inr c \<and>
    repo_list (re_api env) (re_registry env) (re_now env) (re_state env) (c_name c) ''resourcequotas'' ns
      \<lparr>lo_label = [], lo_field = [], lo_limit = 0, lo_continue = []\<rparr> w = Inr l \<and>
    (if ns \<noteq> [] then s = [(ns, quotas_in sv ns (rl_items l))]
     else distinct (map fst s) \<and>
       (\<forall>n es. (n, es) \<in> set s \<longleftrightarrow> es = quotas_in sv n (rl_items l) \<and> es \<noteq> []))"
proof -
  from assms obtain c l where c: "cluster_get_by_id (re_faults env) i (cs_table (re_state env)) = Inr c"
    and l: "repo_list (re_api env) (re_registry env) (re_now env) (re_state env) (c_name c) ''resourcequotas'' ns
      \<lparr>lo_label = [], lo_field = [], lo_limit = 0, lo_continue = []\<rparr> w = Inr l"
    by (auto simp: get_quota_summary_def split: sum.splits)
  let ?m = "group_quotas sv (rl_items l)"
  from assms c l have s: "s = (if ns \<noteq> [] then [(ns, case gm_get ?m ns of None \<Rightarrow> [] | Some es \<Rightarrow> es)] else ?m)"
    by (simp add: get_quota_summary_def Let_def)
  have "if ns \<noteq> [] then s = [(ns, quotas_in sv ns (rl_items l))]
     else distinct (map fst s) \<and> (\<forall>n es. (n, es) \<in> set s \<longleftrightarrow> es = quotas_in sv n (rl_items l) \<and> es \<noteq> [])"
  proof (cases "ns = []")
    case True
    have ok: "gm_ok ?m" using group_quotas_exact by blast
    have "(n, es) \<in> set ?m \<longleftrightarrow> es = quotas_in sv n (rl_items l) \<and> es \<noteq> []" for n es
      unfolding gm_get_in_set [OF ok, symmetric] using group_quotas_exact [of sv "rl_items l" n] by auto
    with True s ok show ?thesis by (simp add: gm_ok_def)
  next
    case False
    with s group_quotas_exact [of sv "rl_items l" ns] show ?thesis by simp
  qed
  with c l show ?thesis by blast
qed

section \<open>Comparison\<close>

record compare_target =
  ct_cluster :: string
  ct_namespace :: string
  ct_resource :: string
  ct_name :: string

record compare_result =
  cr_source_yaml :: string
  cr_target_yaml :: string
  cr_source_ref :: string
  cr_target_ref :: string

definition compare_ref :: "compare_target \<Rightarrow> string" where
  "compare_ref t = ct_cluster t @ ''/'' @ ct_namespace t @ ''/'' @ ct_resource t @ ''/'' @ ct_name t"

definition compare_get :: "('cfg, 'dyn, 'w) resource_env \<Rightarrow> compare_target \<Rightarrow> 'w \<Rightarrow> k8s_obj res" where
  "compare_get env t w =
     repo_get (re_api env) (re_registry env) (re_state env) (ct_cluster t) (ct_resource t) (ct_namespace t) (ct_name t) w"

definition compare_objects ::
  "(fields \<Rightarrow> string option) \<Rightarrow> ('cfg, 'dyn, 'w) resource_env \<Rightarrow> compare_target \<Rightarrow> compare_target \<Rightarrow> 'w \<Rightarrow> compare_result res" where
  "compare_objects yaml env src tgt w =
     (case compare_get env src w of
        Inl e \<Rightarrow> fail CodeNotFound (''source resource not found: '' @ error_string e)
      | Inr a \<Rightarrow>
          (case compare_get env tgt w of
             Inl e \<Rightarrow> fail CodeNotFound (''target resource not found: '' @ error_string e)
           | Inr b \<Rightarrow>
               (case yaml (ko_raw a) of
                  None \<Rightarrow> fail CodeInternal ''failed to convert source resource to YAML''
                | Some ya \<Rightarrow>
                    (case yaml (ko_raw b) of
                       None \<Rightarrow> fail CodeInternal ''failed to convert target resource to YAML''
                     | Some yb \<Rightarrow>
                         Inr \<lparr>cr_source_yaml = ya, cr_target_yaml = yb, cr_source_ref = compare_ref src, cr_target_ref = compare_ref tgt\<rparr>))))"

text \<open>The body as gin binds it: the text of the binding error, or the two targets.\<close>

definition handle_compare ::
  "(fields \<Rightarrow> string option) \<Rightarrow> ('cfg, 'dyn, 'w) resource_env \<Rightarrow> string option \<Rightarrow> string + compare_target \<times> compare_target \<Rightarrow> 'w \<Rightarrow>
    compare_result response" where
  "handle_compare yaml env rid body w =
     (case body of
        Inl e \<Rightarrow> resp_error rid CodeParamInvalid e
      | Inr (src, tgt) \<Rightarrow> answer rid (compare_objects yaml env src tgt w))"

text \<open>Comparing an object with itself shows no difference.\<close>

lemma compare_reflexive:
  "compare_objects yaml env t t w = Inr r \<Longrightarrow> cr_source_yaml r = cr_target_yaml r \<and> cr_source_ref r = cr_target_ref r"
  by (auto simp: compare_objects_def split: sum.splits option.splits)

end
