(* ===== verification/Rate_Limit.thy ===== *)
theory Rate_Limit
  imports Go_Prelude
begin

text \<open>
  The limit on sign-in requests per client address (\<open>middleware/ratelimit.go\<close>). The token bucket is the
  library \<open>golang.org/x/time/rate\<close>: a fresh bucket for a rate and a capacity, and \<open>Allow\<close>, which takes
  the time and answers with the bucket afterwards. A request looks up its bucket and asks it at one
  instant; the loop that evicts entries is the operation it performs at each tick.
\<close>

record 'l bucket_lib =
  bl_new :: "duration \<Rightarrow> nat \<Rightarrow> 'l"
  bl_allow :: "gotime \<Rightarrow> 'l \<Rightarrow> 'l \<times> bool"

record 'l ip_limiter =
  il_limiter :: 'l
  il_seen :: gotime

text \<open>\<open>rl_every\<close> is the interval of \<open>rate.Every\<close>: one token per interval.\<close>

record 'l ip_rate_limiter =
  rl_limiters :: "(string, 'l ip_limiter) gomap"
  rl_every :: duration
  rl_burst :: nat

definition new_ip_rate_limiter :: "duration \<Rightarrow> nat \<Rightarrow> 'l ip_rate_limiter" where
  "new_ip_rate_limiter every burst = \<lparr>rl_limiters = [], rl_every = every, rl_burst = burst\<rparr>"

definition stale_after :: duration where "stale_after = 5 * minute"

definition get_limiter :: "'l bucket_lib \<Rightarrow> gotime \<Rightarrow> string \<Rightarrow> 'l ip_rate_limiter \<Rightarrow> 'l ip_limiter" where
  "get_limiter b now ip rl =
     (case gm_get (rl_limiters rl) ip of
        None \<Rightarrow> \<lparr>il_limiter = bl_new b (rl_every rl) (rl_burst rl), il_seen = now\<rparr>
      | Some e \<Rightarrow> e\<lparr>il_seen := now\<rparr>)"

definition allow_ip :: "'l bucket_lib \<Rightarrow> gotime \<Rightarrow> string \<Rightarrow> 'l ip_rate_limiter \<Rightarrow> 'l ip_rate_limiter \<times> bool" where
  "allow_ip b now ip rl =
     (let e = get_limiter b now ip rl; (l, ok) = bl_allow b now (il_limiter e)
      in (rl\<lparr>rl_limiters := gm_put ip (e\<lparr>il_limiter := l\<rparr>) (rl_limiters rl)\<rparr>, ok))"

definition cleanup_tick :: "gotime \<Rightarrow> 'l ip_rate_limiter \<Rightarrow> 'l ip_rate_limiter" where
  "cleanup_tick now rl = rl\<lparr>rl_limiters := gm_prune (\<lambda>e. stale_after < now - il_seen e) (rl_limiters rl)\<rparr>"

record 'l auth_limits =
  al_login :: "'l ip_rate_limiter"
  al_refresh :: "'l ip_rate_limiter"

definition initial_limits :: "'l auth_limits" where
  "initial_limits = \<lparr>al_login = new_ip_rate_limiter (12 * second) 5, al_refresh = new_ip_rate_limiter (6 * second) 10\<rparr>"

text \<open>The answer \<open>False\<close> is the refusal with status 429; otherwise the request goes on.\<close>

definition auth_rate_limit :: "'l bucket_lib \<Rightarrow> gotime \<Rightarrow> string \<Rightarrow> string \<Rightarrow> 'l auth_limits \<Rightarrow> 'l auth_limits \<times> bool" where
  "auth_rate_limit b now ip path s =
     (if path = ''/api/v1/auth/refresh''
        then (case allow_ip b now ip (al_refresh s) of (r, ok) \<Rightarrow> (s\<lparr>al_refresh := r\<rparr>, ok))
      else (case allow_ip b now ip (al_login s) of (r, ok) \<Rightarrow> (s\<lparr>al_login := r\<rparr>, ok)))"

text \<open>A run of the limiter of one group of routes: requests, and ticks of its eviction loop.\<close>

datatype limit_event = Request string | Tick

fun run_limits :: "'l bucket_lib \<Rightarrow> (gotime \<times> limit_event) list \<Rightarrow> 'l ip_rate_limiter \<Rightarrow> bool list" where
  "run_limits b [] rl = []"
| "run_limits b ((now, Request ip) # es) rl = (case allow_ip b now ip rl of (rl', ok) \<Rightarrow> ok # run_limits b es rl')"
| "run_limits b ((now, Tick) # es) rl = run_limits b es (cleanup_tick now rl)"

definition requests_only :: "(gotime \<times> limit_event) list \<Rightarrow> (gotime \<times> limit_event) list" where
  "requests_only es = filter (\<lambda>(_, ev). ev \<noteq> Tick) es"

section \<open>Eviction does not show\<close>

text \<open>
  What the eviction relies on: a bucket refills within the five minutes after which its entry is
  dropped, so that one not asked for longer answers like a new one.
\<close>

definition refills :: "'l bucket_lib \<Rightarrow> duration \<Rightarrow> nat \<Rightarrow> bool" where
  "refills b every burst \<longleftrightarrow>
     (\<forall>l s now. stale_after < now - s \<longrightarrow> bl_allow b now (fst (bl_allow b s l)) = bl_allow b now (bl_new b every burst))"

definition asked_when_seen :: "'l bucket_lib \<Rightarrow> 'l ip_limiter \<Rightarrow> bool" where
  "asked_when_seen b e \<longleftrightarrow> (\<exists>l. il_limiter e = fst (bl_allow b (il_seen e) l))"

text \<open>The limiter that evicts against the one that does not: they differ by entries that are stale.\<close>

definition evicted_from :: "'l bucket_lib \<Rightarrow> gotime \<Rightarrow> 'l ip_rate_limiter \<Rightarrow> 'l ip_rate_limiter \<Rightarrow> bool" where
  "evicted_from b t full small \<longleftrightarrow>
     rl_every small = rl_every full \<and> rl_burst small = rl_burst full \<and> gm_ok (rl_limiters full) \<and> gm_ok (rl_limiters small) \<and>
     (\<forall>ip e. gm_get (rl_limiters full) ip = Some e \<longrightarrow> asked_when_seen b e) \<and>
     (\<forall>ip. gm_get (rl_limiters small) ip = gm_get (rl_limiters full) ip \<or>
        gm_get (rl_limiters small) ip = None \<and>
        (\<exists>e. gm_get (rl_limiters full) ip = Some e \<and> stale_after < t - il_seen e))"

lemma evicted_later: "evicted_from b t full small \<Longrightarrow> t \<le> t' \<Longrightarrow> evicted_from b t' full small"
  unfolding evicted_from_def by (smt (verit, best))

lemma evicted_tick:
  assumes "evicted_from b t full small" "t \<le> now"
  shows "evicted_from b now full (cleanup_tick now small)"
proof -
  note later = evicted_later [OF assms]
  let ?m = "gm_prune (\<lambda>e. stale_after < now - il_seen e) (rl_limiters small)"
  have p: "gm_get ?m ip = (case gm_get (rl_limiters small) ip of None \<Rightarrow> None | Some e \<Rightarrow> if stale_after < now - il_seen e then None else Some e)" for ip
    using later by (simp add: evicted_from_def gm_get_prune)
  have "gm_get ?m ip = gm_get (rl_limiters full) ip \<or>
      gm_get ?m ip = None \<and> (\<exists>e. gm_get (rl_limiters full) ip = Some e \<and> stale_after < now - il_seen e)" for ip
  proof (cases "gm_get (rl_limiters small) ip")
    case None
    with later p [of ip] show ?thesis unfolding evicted_from_def by (metis option.simps(4))
  next
    case (Some e)
    with later have "gm_get (rl_limiters full) ip = Some e" unfolding evicted_from_def by (metis option.distinct(1))
    with p [of ip] Some show ?thesis by simp
  qed
  with later show ?thesis by (simp add: evicted_from_def cleanup_tick_def)
qed

lemma allow_same_decision:
  assumes r: "refills b (rl_every full) (rl_burst full)" and ev: "evicted_from b t full small" and t: "t \<le> now"
  shows "bl_allow b now (il_limiter (get_limiter b now ip small)) = bl_allow b now (il_limiter (get_limiter b now ip full))"
proof (cases "gm_get (rl_limiters small) ip = gm_get (rl_limiters full) ip")
  case True
  with ev show ?thesis by (simp add: get_limiter_def evicted_from_def split: option.split)
next
  case False
  with evicted_later [OF ev t] obtain e where e: "gm_get (rl_limiters small) ip = None" "gm_get (rl_limiters full) ip = Some e"
    "stale_after < now - il_seen e" "asked_when_seen b e" unfolding evicted_from_def by metis
  then obtain l where "il_limiter e = fst (bl_allow b (il_seen e) l)" by (auto simp: asked_when_seen_def)
  with e(3) r have "bl_allow b now (il_limiter e) = bl_allow b now (bl_new b (rl_every full) (rl_burst full))"
    by (simp add: refills_def)
  with e(1,2) ev show ?thesis by (simp add: get_limiter_def evicted_from_def)
qed

lemma allow_keeps_relation:
  assumes r: "refills b (rl_every full) (rl_burst full)" and ev: "evicted_from b t full small" and t: "t \<le> now"
  shows "evicted_from b now (fst (allow_ip b now ip full)) (fst (allow_ip b now ip small)) \<and>
    snd (allow_ip b now ip full) = snd (allow_ip b now ip small)"
proof -
  obtain l ok where a: "bl_allow b now (il_limiter (get_limiter b now ip full)) = (l, ok)" by fastforce
  then have as: "bl_allow b now (il_limiter (get_limiter b now ip small)) = (l, ok)" using allow_same_decision [OF r ev t] by simp
  have "(get_limiter b now ip full)\<lparr>il_limiter := l\<rparr> = \<lparr>il_limiter = l, il_seen = now\<rparr>"
    "(get_limiter b now ip small)\<lparr>il_limiter := l\<rparr> = \<lparr>il_limiter = l, il_seen = now\<rparr>"
    by (simp_all add: get_limiter_def split: option.splits)
  moreover have "asked_when_seen b \<lparr>il_limiter = l, il_seen = now\<rparr>" unfolding asked_when_seen_def using a by (metis fst_conv ip_limiter.select_convs(1,2))
  ultimately show ?thesis
    using evicted_later [OF ev t] a as by (auto simp: allow_ip_def evicted_from_def)
qed

lemma run_same_decisions:
  "refills b (rl_every full) (rl_burst full) \<Longrightarrow> evicted_from b t full small \<Longrightarrow> sorted (t # map fst es) \<Longrightarrow>
     run_limits b es small = run_limits b (requests_only es) full"
proof (induction es arbitrary: t full small)
  case (Cons e es)
  obtain now ev where e: "e = (now, ev)" by (cases e)
  with Cons.prems have t: "t \<le> now" and s: "sorted (now # map fst es)" by auto
  show ?case
  proof (cases ev)
    case Tick
    with e evicted_tick [OF Cons.prems(2) t] Cons.IH [OF Cons.prems(1) _ s] show ?thesis by (simp add: requests_only_def)
  next
    case (Request ip)
    obtain f1 ok1 s1 ok2 where a: "allow_ip b now ip full = (f1, ok1)" "allow_ip b now ip small = (s1, ok2)" by fastforce
    with allow_keeps_relation [OF Cons.prems(1,2) t, of ip] have "evicted_from b now f1 s1" "ok1 = ok2" by simp_all
    moreover from a(1) have "rl_every f1 = rl_every full" "rl_burst f1 = rl_burst full"
      by (auto simp: allow_ip_def Let_def split: prod.splits)
    ultimately show ?thesis using e Request a Cons.IH [of f1 now s1] Cons.prems(1) s by (simp add: requests_only_def)
  qed
qed (simp add: requests_only_def)

text \<open>
  Dropping the entries that were idle for five minutes bounds the memory of the limiter and changes no
  decision: for any requests in the order of time, with any ticks between them, the answers are those
  of a limiter that never forgets. (The buckets refill within that time, which they do: five tokens at
  one per twelve seconds, ten at one per six.)
\<close>

theorem eviction_is_unobservable:
  assumes "refills b every burst" "sorted (map fst es)"
  shows "run_limits b es (new_ip_rate_limiter every burst) = run_limits b (requests_only es) (new_ip_rate_limiter every burst)"
proof (cases es)
  case (Cons e es')
  have "evicted_from b (fst e) (new_ip_rate_limiter every burst) (new_ip_rate_limiter every burst)"
    by (simp add: evicted_from_def new_ip_rate_limiter_def)
  with run_same_decisions [of b "new_ip_rate_limiter every burst" "fst e" _ es] assms Cons show ?thesis
    by (simp add: new_ip_rate_limiter_def)
qed (simp add: requests_only_def)

section \<open>A token bucket\<close>

text \<open>The bucket of the library: tokens in units of one interval's time, at most the capacity, refilled as time passes.\<close>

record token_bucket =
  tb_every :: duration
  tb_burst :: nat
  tb_tokens :: int
  tb_last :: "gotime option"

definition bucket_allow :: "gotime \<Rightarrow> token_bucket \<Rightarrow> token_bucket \<times> bool" where
  "bucket_allow now l =
     (let cap = int (tb_burst l) * tb_every l;
          tokens = (case tb_last l of None \<Rightarrow> cap | Some s \<Rightarrow> min cap (max 0 (tb_tokens l) + (now - s))) in
      if tb_every l \<le> tokens then (l\<lparr>tb_tokens := tokens - tb_every l, tb_last := Some now\<rparr>, True)
      else (l\<lparr>tb_tokens := tokens, tb_last := Some now\<rparr>, False))"

definition login_buckets :: "token_bucket bucket_lib" where
  "login_buckets =
     \<lparr>bl_new = (\<lambda>every burst. \<lparr>tb_every = 12 * second, tb_burst = 5, tb_tokens = 0, tb_last = None\<rparr>),
      bl_allow = (\<lambda>now l. bucket_allow now (l\<lparr>tb_every := 12 * second, tb_burst := 5\<rparr>))\<rparr>"

lemma login_buckets_refill: "refills login_buckets (12 * second) 5"
proof -
  have "bl_allow login_buckets now (fst (bl_allow login_buckets s l)) = bl_allow login_buckets now (bl_new login_buckets (12 * second) 5)"
    if "stale_after < now - s" for l s now
    using that by (simp add: login_buckets_def bucket_allow_def Let_def stale_after_def duration_defs)
  then show ?thesis by (simp add: refills_def)
qed

theorem eviction_is_unobservable_witness:
  "run_limits login_buckets (map (\<lambda>i. (i, Request ''10.0.0.7'')) [0, 1, 2, 3, 4, 5] @ [(400 * second, Tick), (401 * second, Request ''10.0.0.7'')])
     (new_ip_rate_limiter (12 * second) 5) = [True, True, True, True, True, False, True]"
proof -
  have "run_limits login_buckets (requests_only (map (\<lambda>i. (i, Request ''10.0.0.7'')) [0, 1, 2, 3, 4, 5] @ [(400 * second, Tick), (401 * second, Request ''10.0.0.7'')]))
     (new_ip_rate_limiter (12 * second) 5) = [True, True, True, True, True, False, True]"
    by code_simp
  then show ?thesis
    using eviction_is_unobservable [OF login_buckets_refill,
        of "map (\<lambda>i. (i, Request ''10.0.0.7'')) [0, 1, 2, 3, 4, 5] @ [(400 * second, Tick), (401 * second, Request ''10.0.0.7'')]"]
    by (simp add: second_def)
qed

end
