(* ===== verification/Registry_Client.thy ===== *)
theory Registry_Client
  imports Image_Registry Go_Net
begin

text \<open>
  The client that asks an image registry for tags (\<open>internal/registry/client.go\<close>) and the handler
  (\<open>handler/registry_handler.go\<close>). The resolver, the dialer, the servers, the URL parser and the JSON decoder are
  parameters; each answer depends on the number of events so far, so that two lookups of a name may
  differ. The redirect loop of \<open>http.Client\<close> and the reuse of idle connections by \<open>http.Transport\<close> are
  modelled, for host names in ASCII. Every lookup, dial and request is recorded. A sentinel error stands
  also for the errors that wrap it.
\<close>

definition ErrNotAllowed :: go_error where "ErrNotAllowed = OtherErr ''registry is not allowed'' False"
definition ErrUnsafeAddress :: go_error where "ErrUnsafeAddress = OtherErr ''registry resolved to a blocked address'' False"
definition ErrAuthentication :: go_error where "ErrAuthentication = OtherErr ''registry authentication failed'' False"

section \<open>Host names and addresses\<close>

text \<open>\<open>net.SplitHostPort\<close>.\<close>

definition split_host_port :: "string \<Rightarrow> (string \<times> string) option" where
  "split_host_port hp =
     (case last_index CHR '':'' hp of
        None \<Rightarrow> None
      | Some i \<Rightarrow>
          if has_prefix hp ''['' then
            (case cut CHR '']'' hp of
               None \<Rightarrow> None
             | Some (before, rest) \<Rightarrow>
                 if Suc (length before) \<noteq> i \<or> CHR ''['' \<in> set (drop 1 before) \<or> CHR ''['' \<in> set rest \<or> CHR '']'' \<in> set rest
                 then None else Some (drop 1 before, drop (Suc i) hp))
          else if CHR '':'' \<in> set (take i hp) \<or> CHR ''['' \<in> set hp \<or> CHR '']'' \<in> set hp then None
          else Some (take i hp, drop (Suc i) hp))"

definition is_bracket :: "char \<Rightarrow> bool" where "is_bracket c \<longleftrightarrow> c = CHR ''['' \<or> c = CHR '']''"

definition trim_brackets :: "string \<Rightarrow> string" where
  "trim_brackets s = rev (dropWhile is_bracket (rev (dropWhile is_bracket s)))"

definition address_host :: "string \<Rightarrow> string" where
  "address_host a = (case split_host_port a of Some (h, _) \<Rightarrow> trim_brackets h | None \<Rightarrow> trim_brackets a)"

definition ip_link_local_multicast :: "ip \<Rightarrow> bool" where
  "ip_link_local_multicast i = (case ip_to4 i of Some j \<Rightarrow> j ! 0 = 224 \<and> j ! 1 = 0 \<and> j ! 2 = 0
     | None \<Rightarrow> length i = 16 \<and> i ! 0 = 255 \<and> i ! 1 mod 16 = 2)"

definition unsafe_ip :: "ip \<Rightarrow> bool" where
  "unsafe_ip i \<longleftrightarrow> ip_loopback i \<or> ip_private i \<or> ip_link_local i \<or> ip_link_local_multicast i \<or> ip_unspecified i \<or> ip_multicast i"

text \<open>\<open>url.URL\<close>; the query is the encoded text. \<open>Hostname\<close> and \<open>Port\<close> split the host as package \<open>url\<close> does.\<close>

record rurl =
  ru_scheme :: string
  ru_user :: bool
  ru_host :: string
  ru_path :: string
  ru_query :: string

definition is_digit_char :: "char \<Rightarrow> bool" where "is_digit_char c \<longleftrightarrow> in_range CHR ''0'' CHR ''9'' c"

definition unbracket :: "string \<Rightarrow> string" where
  "unbracket h = (if has_prefix h ''['' \<and> has_suffix h '']'' then butlast (drop 1 h) else h)"

definition hostname_port :: "string \<Rightarrow> string \<times> string" where
  "hostname_port hp =
     (case last_index CHR '':'' hp of
        None \<Rightarrow> (unbracket hp, [])
      | Some i \<Rightarrow>
          if list_all is_digit_char (drop (Suc i) hp) then (unbracket (take i hp), drop (Suc i) hp)
          else (unbracket hp, []))"

definition hostname :: "rurl \<Rightarrow> string" where "hostname u = fst (hostname_port (ru_host u))"

text \<open>The address the transport dials: the port of the URL, or that of its scheme.\<close>

definition join_host_port :: "string \<Rightarrow> string \<Rightarrow> string" where
  "join_host_port h p =
     (if CHR '':'' \<in> set h \<or> CHR ''%'' \<in> set h then ''['' @ h @ '']:'' @ p else h @ '':'' @ p)"

definition canonical_addr :: "rurl \<Rightarrow> string" where
  "canonical_addr u =
     (let (h, p) = hostname_port (ru_host u) in
      join_host_port h (if p \<noteq> [] then p else if ru_scheme u = ''https'' then ''443'' else ''80''))"

section \<open>The client\<close>

record client_config =
  cc_registries :: "string list"
  cc_auth_hosts :: "string list"
  cc_private :: bool
  cc_http :: bool
  cc_connect :: duration
  cc_header :: duration
  cc_total :: duration
  cc_max :: int

record reg_client =
  rc_config :: client_config
  rc_registries :: "string list"
  rc_auth_hosts :: "string list"

record reg_answer =
  ra_status :: int
  ra_location :: string
  ra_challenge :: string
  ra_body :: string

text \<open>
  The outside: \<open>url.Parse\<close>, the URL of a request made from the text of one, \<open>URL.Parse\<close> on a location, the query with
  keys set, a lookup, a dial (its error), the idle connection that is still open, the answer to a request
  with its authorization, and the JSON decoders, which give also the number of bytes they took.
\<close>

record reg_net =
  rn_parse :: "string \<Rightarrow> rurl option"
  rn_request :: "rurl \<Rightarrow> rurl option"
  rn_locate :: "rurl \<Rightarrow> string \<Rightarrow> rurl option"
  rn_query :: "(string \<times> string) list \<Rightarrow> string \<Rightarrow> string"
  rn_lookup :: "nat \<Rightarrow> string \<Rightarrow> string + ip list"
  rn_dial :: "nat \<Rightarrow> ip \<Rightarrow> string \<Rightarrow> string option"
  rn_idle :: "nat \<Rightarrow> nat option"
  rn_answer :: "nat \<Rightarrow> rurl \<Rightarrow> string \<Rightarrow> ip \<Rightarrow> string + reg_answer"
  rn_tags :: "string \<Rightarrow> (string list \<times> nat) option"
  rn_token :: "string \<Rightarrow> (string \<times> string \<times> nat) option"

datatype reg_event =
    Looked string
  | Dialed ip string
  | Sent rurl string ip

text \<open>The events so far, and the open connections with the scheme and the address they were made for.\<close>

record reg_state =
  rs_events :: "reg_event list"
  rs_conns :: "((string \<times> string) \<times> ip) list"

definition now_at :: "reg_state \<Rightarrow> nat" where "now_at st = length (rs_events st)"

definition record_event :: "reg_event \<Rightarrow> reg_state \<Rightarrow> reg_state" where
  "record_event ev st = st\<lparr>rs_events := rs_events st @ [ev]\<rparr>"

definition normalize_authority :: "reg_net \<Rightarrow> string \<Rightarrow> string" where
  "normalize_authority e v =
     (case rn_parse e (''//'' @ trim_space v) of Some u \<Rightarrow> to_lower (ru_host u) | None \<Rightarrow> [])"

definition host_set :: "reg_net \<Rightarrow> string list \<Rightarrow> string list" where
  "host_set e vs = filter (\<lambda>h. h \<noteq> []) (map (normalize_authority e) vs)"

definition new_registry_client :: "reg_net \<Rightarrow> client_config \<Rightarrow> reg_client" where
  "new_registry_client e cfg =
     \<lparr>rc_config = cfg\<lparr>cc_connect := (if cc_connect cfg \<le> 0 then 3 * second else cc_connect cfg),
                     cc_header := (if cc_header cfg \<le> 0 then 5 * second else cc_header cfg),
                     cc_total := (if cc_total cfg \<le> 0 then 10 * second else cc_total cfg),
                     cc_max := (if cc_max cfg \<le> 0 then 2 * 2 ^ 20 else cc_max cfg)\<rparr>,
      rc_registries = host_set e ([''docker.io'', ''registry-1.docker.io''] @ cc_registries cfg),
      rc_auth_hosts = host_set e ([''auth.docker.io''] @ cc_auth_hosts cfg)\<rparr>"

section \<open>Which addresses may be reached\<close>

definition blocked :: "reg_client \<Rightarrow> ip list \<Rightarrow> bool" where
  "blocked c as \<longleftrightarrow> as = [] \<or> (\<not> cc_private (rc_config c) \<and> list_ex unsafe_ip as)"

definition validate_address :: "reg_net \<Rightarrow> reg_client \<Rightarrow> string \<Rightarrow> reg_state \<Rightarrow> reg_state \<times> go_error option" where
  "validate_address e c address st =
     (let host = address_host address; st' = record_event (Looked host) st in
      case rn_lookup e (now_at st) host of
        Inl m \<Rightarrow> (st', Some (OtherErr m False))
      | Inr as \<Rightarrow> (st', if blocked c as then Some ErrUnsafeAddress else None))"

datatype url_kind = RegistryUrl | AuthUrl | RedirectUrl

definition kind_allows :: "reg_client \<Rightarrow> url_kind \<Rightarrow> string \<Rightarrow> bool" where
  "kind_allows c k host =
     (case k of
        AuthUrl \<Rightarrow> host \<in> set (rc_auth_hosts c)
      | RedirectUrl \<Rightarrow> host \<in> set (rc_registries c) \<or> host \<in> set (rc_auth_hosts c)
      | RegistryUrl \<Rightarrow> host \<in> set (rc_registries c))"

definition validate_url :: "reg_net \<Rightarrow> reg_client \<Rightarrow> url_kind \<Rightarrow> rurl \<Rightarrow> reg_state \<Rightarrow> reg_state \<times> go_error option" where
  "validate_url e c k u st =
     (if ru_user u \<or> ru_host u = [] then (st, Some ErrNotAllowed)
      else if ru_scheme u \<noteq> ''https'' \<and> \<not> (cc_http (rc_config c) \<and> ru_scheme u = ''http'') then (st, Some ErrNotAllowed)
      else if \<not> kind_allows c k (normalize_authority e (ru_host u)) then (st, Some ErrNotAllowed)
      else validate_address e c (ru_host u) st)"

fun dial_each :: "reg_net \<Rightarrow> ip list \<Rightarrow> string \<Rightarrow> string \<Rightarrow> reg_state \<Rightarrow> reg_state \<times> ip res" where
  "dial_each e [] port err st = (st, Inl (OtherErr err False))"
| "dial_each e (a # as) port err st =
     (let st' = record_event (Dialed a port) st in
      case rn_dial e (now_at st) a port of None \<Rightarrow> (st', Inr a) | Some m \<Rightarrow> dial_each e as port m st')"

definition dial_validated :: "reg_net \<Rightarrow> reg_client \<Rightarrow> string \<Rightarrow> reg_state \<Rightarrow> reg_state \<times> ip res" where
  "dial_validated e c address st =
     (case split_host_port address of
        None \<Rightarrow> (st, Inl (OtherErr ''registry dial address must include a port'' False))
      | Some (host, port) \<Rightarrow>
          (let h = trim_brackets host; st' = record_event (Looked h) st in
           (case rn_lookup e (now_at st) h of
              Inl m \<Rightarrow> (st', Inl (OtherErr m False))
            | Inr as \<Rightarrow> if blocked c as then (st', Inl ErrUnsafeAddress) else dial_each e as port [] st')))"

section \<open>The HTTP exchange\<close>

text \<open>\<open>RoundTrip\<close>: over an open connection for the same scheme and address, or over a new one, which stays open.\<close>

definition open_conns :: "rurl \<Rightarrow> reg_state \<Rightarrow> ip list" where
  "open_conns u st = map snd (filter (\<lambda>x. fst x = (ru_scheme u, canonical_addr u)) (rs_conns st))"

definition reused :: "reg_net \<Rightarrow> rurl \<Rightarrow> reg_state \<Rightarrow> ip option" where
  "reused e u st =
     (case rn_idle e (now_at st) of
        Some n \<Rightarrow> if n < length (open_conns u st) then Some (open_conns u st ! n) else None
      | None \<Rightarrow> None)"

definition connect :: "reg_net \<Rightarrow> reg_client \<Rightarrow> rurl \<Rightarrow> reg_state \<Rightarrow> reg_state \<times> ip res" where
  "connect e c u st =
     (case reused e u st of
        Some a \<Rightarrow> (st, Inr a)
      | None \<Rightarrow>
          (case dial_validated e c (canonical_addr u) st of
             (st', Inl m) \<Rightarrow> (st', Inl m)
           | (st', Inr a) \<Rightarrow> (st'\<lparr>rs_conns := ((ru_scheme u, canonical_addr u), a) # rs_conns st'\<rparr>, Inr a)))"

definition round_trip :: "reg_net \<Rightarrow> reg_client \<Rightarrow> rurl \<Rightarrow> string \<Rightarrow> reg_state \<Rightarrow> reg_state \<times> reg_answer res" where
  "round_trip e c u auth st =
     (case connect e c u st of
        (st', Inl m) \<Rightarrow> (st', Inl m)
      | (st', Inr a) \<Rightarrow>
          (record_event (Sent u auth a) st',
           case rn_answer e (now_at st') u auth a of Inl m \<Rightarrow> Inl (OtherErr m False) | Inr r \<Rightarrow> Inr r))"

definition same_authority :: "rurl \<Rightarrow> rurl \<Rightarrow> bool" where
  "same_authority a b \<longleftrightarrow> equal_fold (ru_scheme a) (ru_scheme b) \<and> equal_fold (ru_host a) (ru_host b)"

text \<open>\<open>CheckRedirect\<close>: the error of a redirect to \<open>u\<close> after the requests \<open>via\<close>, and the authorization that is left.\<close>

definition check_redirect ::
  "reg_net \<Rightarrow> reg_client \<Rightarrow> rurl list \<Rightarrow> rurl \<Rightarrow> string \<Rightarrow> reg_state \<Rightarrow> reg_state \<times> string res" where
  "check_redirect e c via u auth st =
     (if 3 \<le> length via then (st, Inl (OtherErr ''too many redirects'' False))
      else (case validate_url e c RedirectUrl u st of
              (st', Some m) \<Rightarrow> (st', Inl m)
            | (st', None) \<Rightarrow> (st', Inr (if via \<noteq> [] \<and> \<not> same_authority (last via) u then [] else auth))))"

text \<open>
  The loop of \<open>http.Client\<close>: the headers of a redirected request are those of the very first one, without
  the sensitive ones as soon as a redirect has left the domain of the first URL.
\<close>

definition sub_domain :: "string \<Rightarrow> string \<Rightarrow> bool" where
  "sub_domain sub parent \<longleftrightarrow>
     sub = parent \<or>
     (CHR '':'' \<notin> set sub \<and> CHR ''%'' \<notin> set sub \<and> has_suffix sub parent \<and> has_suffix (take (length sub - length parent) sub) ''.'')"

definition leaves_domain :: "rurl \<Rightarrow> rurl \<Rightarrow> bool" where
  "leaves_domain u0 u \<longleftrightarrow> ru_host u0 \<noteq> ru_host u \<and> \<not> sub_domain (hostname u) (hostname u0)"

definition is_redirect :: "reg_answer \<Rightarrow> bool" where
  "is_redirect a \<longleftrightarrow> ra_status a \<in> {301, 302, 303, 307, 308} \<and> ra_location a \<noteq> []"

function http_follow ::
  "reg_net \<Rightarrow> reg_client \<Rightarrow> string \<Rightarrow> rurl list \<Rightarrow> bool \<Rightarrow> rurl \<Rightarrow> string \<Rightarrow> reg_state \<Rightarrow> reg_state \<times> reg_answer res" where
  "http_follow e c auth0 via strip u auth st =
     (case round_trip e c u auth st of
        (st1, Inl m) \<Rightarrow> (st1, Inl m)
      | (st1, Inr a) \<Rightarrow>
          if \<not> is_redirect a then (st1, Inr a)
          else (case rn_locate e u (ra_location a) of
                  None \<Rightarrow> (st1, Inl (OtherErr ''failed to parse Location header'' False))
                | Some u' \<Rightarrow>
                    (let strip' = (strip \<or> leaves_domain (hd (via @ [u])) u') in
                     (case check_redirect e c (via @ [u]) u' (if strip' then [] else auth0) st1 of
                        (st2, Inl m) \<Rightarrow> (st2, Inl m)
                      | (st2, Inr auth') \<Rightarrow> http_follow e c auth0 (via @ [u]) strip' u' auth' st2))))"
  by pat_completeness auto

lemma check_redirect_few: "check_redirect e c via u auth st = (st', Inr a) \<Longrightarrow> length via < 3"
  by (auto simp: check_redirect_def split: if_splits)

termination http_follow
  apply (relation "measure (\<lambda>(e, c, auth0, via, strip, u, auth, st). 3 - length via)")
   apply simp
  apply (simp only: in_measure prod.case)
  apply (drule check_redirect_few [OF sym])
  apply simp
  done

definition reg_request :: "reg_net \<Rightarrow> reg_client \<Rightarrow> rurl \<Rightarrow> string \<Rightarrow> reg_state \<Rightarrow> reg_state \<times> reg_answer res" where
  "reg_request e c u auth st =
     (case rn_request e u of
        None \<Rightarrow> (st, Inl (OtherErr ''invalid URL'' False))
      | Some u' \<Rightarrow> http_follow e c auth [] False u' auth st)"

section \<open>The challenge and the token\<close>

definition index_of :: "char \<Rightarrow> string \<Rightarrow> nat" where "index_of ch s = length (takeWhile (\<lambda>x. x \<noteq> ch) s)"

text \<open>One turn of the loop: a key, its value, and what is left; \<open>None\<close> ends the loop.\<close>

definition challenge_step :: "string \<Rightarrow> (string \<times> string \<times> string) option" where
  "challenge_step raw0 =
     (let raw = trim_space (trim_prefix raw0 '','') in
      case cut CHR ''='' raw of
        None \<Rightarrow> None
      | Some (k, rest) \<Rightarrow>
          if k = [] then None
          else (let v = trim_space rest in
                if \<not> has_prefix v [CHR 0x22] then None
                else (case cut CHR 0x22 (drop 1 v) of
                        None \<Rightarrow> None
                      | Some (val, left) \<Rightarrow> Some (to_lower (trim_space k), val, left))))"

lemma trim_space_length: "length (trim_space s) \<le> length s"
  unfolding trim_space_def by (metis length_dropWhile_le length_rev order_trans)

lemma cut_length: "cut c s = Some (a, b) \<Longrightarrow> length b < length s"
  by (auto simp: cut_Some_iff)

lemma challenge_step_shorter:
  assumes "challenge_step raw = Some (k, v, left)"
  shows "length left < length raw"
proof -
  let ?r = "trim_space (trim_prefix raw '','')"
  from assms obtain k' rest where c: "cut CHR ''='' ?r = Some (k', rest)"
    "cut CHR 0x22 (drop 1 (trim_space rest)) = Some (v, left)"
    by (auto simp: challenge_step_def Let_def split: option.splits if_splits)
  have "length left < length (drop 1 (trim_space rest))" by (rule cut_length [OF c(2)])
  also have "\<dots> \<le> length rest" using trim_space_length [of rest] by simp
  also have "\<dots> < length ?r" by (rule cut_length [OF c(1)])
  also have "\<dots> \<le> length (trim_prefix raw '','')" by (rule trim_space_length)
  also have "\<dots> \<le> length raw" by (simp add: trim_prefix_def)
  finally show ?thesis .
qed

function parse_challenge_loop :: "(string, string) gomap \<Rightarrow> string \<Rightarrow> (string, string) gomap" where
  "parse_challenge_loop m raw =
     (if raw = [] then m
      else (case challenge_step raw of
              None \<Rightarrow> m
            | Some (k, v, left) \<Rightarrow> parse_challenge_loop (gm_put k v m) left))"
  by pat_completeness auto
termination
  by (relation "measure (\<lambda>(m, raw). length raw)") (auto intro: challenge_step_shorter)

declare parse_challenge_loop.simps [simp del] http_follow.simps [simp del]

definition parse_challenge :: "string \<Rightarrow> (string, string) gomap" where
  "parse_challenge raw = parse_challenge_loop [] raw"

definition challenge_param :: "(string, string) gomap \<Rightarrow> string \<Rightarrow> string" where
  "challenge_param m k = (case gm_get m k of Some v \<Rightarrow> v | None \<Rightarrow> [])"

text \<open>The decoder is offered one byte more than the limit; when it has taken them all, the answer is too long.\<close>

definition decode_limited :: "(string \<Rightarrow> ('a \<times> nat) option) \<Rightarrow> int \<Rightarrow> string \<Rightarrow> 'a res" where
  "decode_limited dec mx body =
     (case dec (take (nat (mx + 1)) body) of
        None \<Rightarrow> Inl (OtherErr ''invalid JSON'' False)
      | Some (x, n) \<Rightarrow> if mx + 1 - int n \<le> 0 then Inl (OtherErr ''registry response exceeds size limit'' False) else Inr x)"

definition token_of :: "string \<times> string \<Rightarrow> string res" where
  "token_of p =
     (let t = (if fst p = [] then snd p else fst p) in if t = [] then Inl ErrAuthentication else Inr t)"

definition read_token :: "reg_net \<Rightarrow> int \<Rightarrow> string \<Rightarrow> string res" where
  "read_token e mx body =
     (case decode_limited (\<lambda>b. map_option (\<lambda>(t, a, n). ((t, a), n)) (rn_token e b)) mx body of
        Inl m \<Rightarrow> Inl m | Inr p \<Rightarrow> token_of p)"

definition realm_of :: "reg_net \<Rightarrow> string \<Rightarrow> (rurl \<times> (string, string) gomap) option" where
  "realm_of e header =
     (case cut CHR '' '' (trim_space header) of
        None \<Rightarrow> None
      | Some (scheme, raw) \<Rightarrow>
          if \<not> equal_fold scheme ''Bearer'' then None
          else (let params = parse_challenge raw in
                case rn_parse e (challenge_param params ''realm'') of
                  None \<Rightarrow> None | Some realm \<Rightarrow> if ru_host realm = [] then None else Some (realm, params)))"

definition with_challenge :: "reg_net \<Rightarrow> (string, string) gomap \<Rightarrow> rurl \<Rightarrow> rurl" where
  "with_challenge e params realm =
     realm\<lparr>ru_query := rn_query e
       (filter (\<lambda>(k, v). v \<noteq> []) (map (\<lambda>k. (k, challenge_param params k)) [''service'', ''scope''])) (ru_query realm)\<rparr>"

definition bearer_token :: "reg_net \<Rightarrow> reg_client \<Rightarrow> string \<Rightarrow> reg_state \<Rightarrow> reg_state \<times> string res" where
  "bearer_token e c header st =
     (case realm_of e header of
        None \<Rightarrow> (st, Inl ErrAuthentication)
      | Some (realm, params) \<Rightarrow>
          (case validate_url e c AuthUrl realm st of
             (st1, Some m) \<Rightarrow> (st1, Inl m)
           | (st1, None) \<Rightarrow>
               (case reg_request e c (with_challenge e params realm) [] st1 of
                  (st2, Inl m) \<Rightarrow> (st2, Inl m)
                | (st2, Inr a) \<Rightarrow>
                    (st2, if ra_status a \<noteq> 200 then Inl ErrAuthentication
                          else read_token e (cc_max (rc_config c)) (ra_body a)))))"

section \<open>The tags of a repository\<close>

text \<open>\<open>url.PathEscape\<close>.\<close>

definition path_keeps :: "char \<Rightarrow> bool" where
  "path_keeps ch \<longleftrightarrow> word_char ch \<or> ch \<in> set ''-.~$&+:=@''"

definition upper_hex :: "nat \<Rightarrow> char" where
  "upper_hex d = (if d < 10 then char_of (48 + d) else char_of (55 + d))"

definition path_escape :: "string \<Rightarrow> string" where
  "path_escape s = concat (map (\<lambda>ch. if path_keeps ch then [ch]
     else [CHR ''%'', upper_hex (of_char ch div 16), upper_hex (of_char ch mod 16)]) s)"

definition escape_repository :: "string \<Rightarrow> string" where
  "escape_repository repo = join_with CHR ''/'' (map path_escape (split_on CHR ''/'' repo))"

definition tags_url :: "reg_net \<Rightarrow> reg_client \<Rightarrow> reference \<Rightarrow> int \<Rightarrow> string \<Rightarrow> rurl" where
  "tags_url e c r limit cursor =
     \<lparr>ru_scheme = (if cc_http (rc_config c) then ''http'' else ''https''), ru_user = False,
      ru_host = (if rf_registry r = ''docker.io'' then ''registry-1.docker.io'' else rf_registry r),
      ru_path = ''/v2/'' @ escape_repository (rf_repository r) @ ''/tags/list'',
      ru_query = rn_query e ((''n'', dec_int limit) # (if cursor = [] then [] else [(''last'', cursor)])) []\<rparr>"

text \<open>
  The last tag is the cursor of the next page when the page is full. Every limit that \<open>discover\<close> asks for is
  positive (\<open>tag_limit_pos\<close>), so the page is not empty then.
\<close>

lemma tag_limit_pos: "0 < ts_max_tags s \<Longrightarrow> 0 < tag_limit s limit"
  by (simp add: tag_limit_def Let_def)

text \<open>The first request, and the second with a token when the first was not authorized.\<close>

definition fetch_tags :: "reg_net \<Rightarrow> reg_client \<Rightarrow> rurl \<Rightarrow> reg_state \<Rightarrow> reg_state \<times> reg_answer res" where
  "fetch_tags e c u st =
     (case reg_request e c u [] st of
        (st1, Inl m) \<Rightarrow> (st1, Inl m)
      | (st1, Inr a) \<Rightarrow>
          if ra_status a \<noteq> 401 then (st1, Inr a)
          else (case bearer_token e c (ra_challenge a) st1 of
                  (st2, Inl m) \<Rightarrow> (st2, Inl m)
                | (st2, Inr token) \<Rightarrow> reg_request e c u (''Bearer '' @ token) st2))"

definition read_tags :: "reg_net \<Rightarrow> reg_client \<Rightarrow> int \<Rightarrow> reg_answer \<Rightarrow> (string list \<times> string) res" where
  "read_tags e c limit a =
     (if ra_status a = 401 \<or> ra_status a = 403 then Inl ErrAuthentication
      else if ra_status a \<noteq> 200 then Inl (OtherErr (''registry returned status '' @ dec_int (ra_status a)) False)
      else (case decode_limited (rn_tags e) (cc_max (rc_config c)) (ra_body a) of
              Inl m \<Rightarrow> Inl m
            | Inr tags \<Rightarrow> Inr (tags, if int (length tags) = limit \<and> tags \<noteq> [] then last tags else [])))"

definition client_tags ::
  "reg_net \<Rightarrow> reg_client \<Rightarrow> reference \<Rightarrow> int \<Rightarrow> string \<Rightarrow> reg_state \<Rightarrow> reg_state \<times> (string list \<times> string) res" where
  "client_tags e c r limit cursor st =
     (if normalize_authority e (rf_registry r) \<notin> set (rc_registries c) then (st, Inl ErrNotAllowed)
      else (case validate_url e c RegistryUrl (tags_url e c r limit cursor) st of
              (st1, Some m) \<Rightarrow> (st1, Inl m)
            | (st1, None) \<Rightarrow>
                (case fetch_tags e c (tags_url e c r limit cursor) st1 of
                   (st2, Inl m) \<Rightarrow> (st2, Inl m)
                 | (st2, Inr a) \<Rightarrow> (st2, read_tags e c limit a))))"

section \<open>The handler\<close>

record registry_query =
  rq_image :: string
  rq_prefix :: string
  rq_limit :: int
  rq_cursor :: string

definition registry_error :: "string option \<Rightarrow> string \<Rightarrow> go_error \<Rightarrow> tag_page response" where
  "registry_error rid img err =
     (if err = ErrNotAllowed \<or> err = ErrUnsafeAddress then resp_error rid CodeForbidden ''registry access is not allowed''
      else if err = ErrAuthentication then resp_error rid CodeUnauthorized ''registry authentication failed''
      else case parse_reference img of
             Inl _ \<Rightarrow> resp_error rid CodeParamInvalid ''invalid image reference''
           | Inr _ \<Rightarrow> resp_error rid CodeK8sUnavailable ''registry is unavailable'')"

text \<open>The query is \<open>None\<close> when it does not bind; the tags of the client are those of its state.\<close>

definition handle_list_tags ::
  "reg_net \<Rightarrow> reg_client \<Rightarrow> reg_state \<Rightarrow> gotime \<Rightarrow> gotime \<Rightarrow> string option \<Rightarrow> registry_query option \<Rightarrow> tag_service \<Rightarrow>
     tag_service \<times> tag_page response" where
  "handle_list_tags e c st now now' rid q s =
     (case q of
        None \<Rightarrow> (s, resp_error rid CodeParamInvalid ''invalid query parameters'')
      | Some q \<Rightarrow>
          if trim_space (rq_image q) = [] then (s, resp_error rid CodeParamMissing ''image is required'')
          else (case discover (\<lambda>r n cursor. snd (client_tags e c r n cursor st)) now now' (rq_image q) (rq_prefix q)
                       (rq_limit q) (rq_cursor q) s of
                  (s', Inl err) \<Rightarrow> (s', registry_error rid (rq_image q) err)
                | (s', Inr page) \<Rightarrow>
                    (s', resp_success_with_meta page 
                       \<lparr>meta_source = ''registry'', meta_stale = False, meta_total = int (length (tp_tags page)), meta_request_id = []\<rparr>)))"

section \<open>What is reached\<close>

text \<open>
  An event is inside the boundary when an address dialled is not blocked, and a request goes to an allowed
  host with an allowed scheme over a connection to such an address.
\<close>

definition address_ok :: "reg_client \<Rightarrow> ip \<Rightarrow> bool" where
  "address_ok c a \<longleftrightarrow> cc_private (rc_config c) \<or> \<not> unsafe_ip a"

definition url_inside :: "reg_net \<Rightarrow> reg_client \<Rightarrow> rurl \<Rightarrow> bool" where
  "url_inside e c u \<longleftrightarrow>
     (ru_scheme u = ''https'' \<or> cc_http (rc_config c) \<and> ru_scheme u = ''http'') \<and>
     (normalize_authority e (ru_host u) \<in> set (rc_registries c) \<or> normalize_authority e (ru_host u) \<in> set (rc_auth_hosts c))"

fun event_inside :: "reg_net \<Rightarrow> reg_client \<Rightarrow> reg_event \<Rightarrow> bool" where
  "event_inside e c (Looked h) = True"
| "event_inside e c (Dialed a p) = address_ok c a"
| "event_inside e c (Sent u auth a) = (url_inside e c u \<and> address_ok c a)"

definition conns_inside :: "reg_client \<Rightarrow> reg_state \<Rightarrow> bool" where
  "conns_inside c st \<longleftrightarrow> list_all (\<lambda>x. address_ok c (snd x)) (rs_conns st)"

definition state_inside :: "reg_net \<Rightarrow> reg_client \<Rightarrow> reg_state \<Rightarrow> bool" where
  "state_inside e c st \<longleftrightarrow> list_all (event_inside e c) (rs_events st) \<and> conns_inside c st"

text \<open>Making a request from the text of a URL keeps its scheme and host.\<close>

definition authority_kept :: "reg_net \<Rightarrow> bool" where
  "authority_kept e \<longleftrightarrow> (\<forall>u v. rn_request e u = Some v \<longrightarrow> ru_scheme v = ru_scheme u \<and> ru_host v = ru_host u)"

lemma state_inside_record [simp]:
  "state_inside e c (record_event ev st) \<longleftrightarrow> state_inside e c st \<and> event_inside e c ev"
  by (auto simp: state_inside_def record_event_def conns_inside_def)

lemma validate_address_inside:
  "state_inside e c st \<Longrightarrow> state_inside e c (fst (validate_address e c h st))"
  by (simp add: validate_address_def Let_def split: sum.split)

lemma validate_url_inside:
  assumes "state_inside e c st"
  shows "state_inside e c (fst (validate_url e c k u st))"
    and "snd (validate_url e c k u st) = None \<Longrightarrow> url_inside e c u \<and> kind_allows c k (normalize_authority e (ru_host u))"
  using assms
  by (auto simp: validate_url_def validate_address_inside url_inside_def kind_allows_def split: url_kind.splits if_splits)

lemma dial_each_inside:
  assumes "state_inside e c st" "list_all (address_ok c) as"
  shows "state_inside e c (fst (dial_each e as port err st)) \<and>
    (\<forall>a. snd (dial_each e as port err st) = Inr a \<longrightarrow> address_ok c a)"
  using assms by (induction e as port err st rule: dial_each.induct) (auto simp: Let_def split: option.split)

lemma dial_validated_inside:
  assumes "state_inside e c st"
  shows "state_inside e c (fst (dial_validated e c addr st)) \<and>
    (\<forall>a. snd (dial_validated e c addr st) = Inr a \<longrightarrow> address_ok c a)"
proof (cases "split_host_port addr")
  case (Some hp)
  obtain h p where hp: "hp = (h, p)" by (cases hp)
  let ?st = "record_event (Looked (trim_brackets h)) st"
  have st: "state_inside e c ?st" using assms by simp
  show ?thesis
  proof (cases "rn_lookup e (now_at st) (trim_brackets h)")
    case (Inr as)
    have "list_all (address_ok c) as" if "\<not> blocked c as"
      using that by (auto simp: blocked_def address_ok_def list_all_iff list_ex_iff)
    with dial_each_inside [OF st, of as p "[]"] assms show ?thesis
      by (cases "blocked c as") (simp_all add: dial_validated_def Some hp Inr Let_def)
  qed (use assms in \<open>simp add: dial_validated_def Some hp Let_def\<close>)
qed (simp add: dial_validated_def assms)

lemma reused_inside: "conns_inside c st \<Longrightarrow> reused e u st = Some a \<Longrightarrow> address_ok c a"
  by (auto simp: reused_def open_conns_def conns_inside_def list_all_iff split: option.splits if_splits
      dest!: nth_mem)

lemma connect_inside:
  assumes "state_inside e c st"
  shows "state_inside e c (fst (connect e c u st)) \<and> (\<forall>a. snd (connect e c u st) = Inr a \<longrightarrow> address_ok c a)"
proof (cases "reused e u st")
  case None
  obtain st' r where d: "dial_validated e c (canonical_addr u) st = (st', r)" by fastforce
  from dial_validated_inside [OF assms, of "canonical_addr u"] d show ?thesis
    by (cases r) (auto simp: connect_def None state_inside_def conns_inside_def)
next
  case (Some a)
  then show ?thesis using assms reused_inside by (auto simp: connect_def state_inside_def)
qed

lemma round_trip_inside:
  assumes "state_inside e c st" "url_inside e c u"
  shows "state_inside e c (fst (round_trip e c u auth st))"
proof -
  obtain st' r where d: "connect e c u st = (st', r)" by fastforce
  from connect_inside [OF assms(1), of u] d assms(2) show ?thesis by (cases r) (auto simp: round_trip_def)
qed

lemma check_redirect_inside:
  assumes "state_inside e c st"
  shows "state_inside e c (fst (check_redirect e c via u auth st)) \<and>
    (\<forall>a. snd (check_redirect e c via u auth st) = Inr a \<longrightarrow> url_inside e c u)"
proof (cases "3 \<le> length via")
  case False
  obtain st' m where v: "validate_url e c RedirectUrl u st = (st', m)" by fastforce
  with validate_url_inside [OF assms, of RedirectUrl u] False show ?thesis
    by (cases m) (auto simp: check_redirect_def)
qed (simp add: check_redirect_def assms)

text \<open>What holds before every turn of the redirect loop, and then of the state it ends in.\<close>

lemma http_follow_invariant:
  assumes turn: "\<And>via strip u auth st. I via strip u auth st \<Longrightarrow> Q (fst (round_trip e c u auth st))"
    and check: "\<And>via strip u auth st u' st2 r.
      I via strip u auth st \<Longrightarrow>
      check_redirect e c (via @ [u]) u' (if strip \<or> leaves_domain (hd (via @ [u])) u' then [] else auth0)
        (fst (round_trip e c u auth st)) = (st2, r) \<Longrightarrow>
      case r of Inl m \<Rightarrow> Q st2 | Inr auth' \<Rightarrow> I (via @ [u]) (strip \<or> leaves_domain (hd (via @ [u])) u') u' auth' st2"
    and start: "I via strip u auth st"
  shows "Q (fst (http_follow e c auth0 via strip u auth st))"
  using start
proof (induction "3 - length via" arbitrary: via strip u auth st rule: less_induct)
  case less
  note unfold = http_follow.simps [of e c auth0 via]
  obtain st1 r where rt: "round_trip e c u auth st = (st1, r)" by fastforce
  with turn [OF less.prems] have Q: "Q st1" by simp
  show ?case
  proof (cases "\<exists>a u'. r = Inr a \<and> is_redirect a \<and> rn_locate e u (ra_location a) = Some u'")
    case False
    then have "fst (http_follow e c auth0 via strip u auth st) = st1"
      by (auto simp: unfold rt split: sum.split option.split)
    with Q show ?thesis by simp
  next
    case True
    then obtain a u' where a: "r = Inr a" "is_redirect a" "rn_locate e u (ra_location a) = Some u'" by blast
    let ?strip = "strip \<or> leaves_domain (hd (via @ [u])) u'"
    obtain st2 q where q: "check_redirect e c (via @ [u]) u' (if ?strip then [] else auth0) st1 = (st2, q)" by fastforce
    note ch = check [OF less.prems, unfolded rt fst_conv, OF q]
    show ?thesis
    proof (cases q)
      case (Inl m)
      then show ?thesis using ch q by (simp add: unfold rt a Let_def)
    next
      case (Inr auth')
      from check_redirect_few [OF q [unfolded Inr]] have "3 - length (via @ [u]) < 3 - length via" by simp
      from less.hyps [OF this] ch Inr have "Q (fst (http_follow e c auth0 (via @ [u]) ?strip u' auth' st2))" by simp
      then show ?thesis using q Inr by (simp add: unfold rt a Let_def)
    qed
  qed
qed

lemma http_follow_inside:
  assumes "state_inside e c st" "url_inside e c u"
  shows "state_inside e c (fst (http_follow e c auth0 via strip u auth st))"
proof (rule http_follow_invariant [where I = "\<lambda>via strip u auth st. state_inside e c st \<and> url_inside e c u"])
  show "state_inside e c (fst (round_trip e c u auth st))" if "state_inside e c st \<and> url_inside e c u" for u auth st
    using that by (blast intro: round_trip_inside)
  fix via strip u auth st u' st2 r
  assume "state_inside e c st \<and> url_inside e c u"
    and q: "check_redirect e c (via @ [u]) u' (if strip \<or> leaves_domain (hd (via @ [u])) u' then [] else auth0)
      (fst (round_trip e c u auth st)) = (st2, r)"
  then have "state_inside e c (fst (round_trip e c u auth st))" by (blast intro: round_trip_inside)
  from check_redirect_inside [OF this, of "via @ [u]" u' "if strip \<or> leaves_domain (hd (via @ [u])) u' then [] else auth0"] q
  show "case r of Inl m \<Rightarrow> state_inside e c st2 | Inr auth' \<Rightarrow> state_inside e c st2 \<and> url_inside e c u'"
    by (simp split: sum.split)
qed (use assms in simp)

lemma reg_request_inside:
  assumes "authority_kept e" "state_inside e c st" "url_inside e c u"
  shows "state_inside e c (fst (reg_request e c u auth st))"
proof (cases "rn_request e u")
  case (Some v)
  with assms have "url_inside e c v" by (simp add: authority_kept_def url_inside_def)
  from http_follow_inside [OF assms(2) this] show ?thesis by (simp add: reg_request_def Some)
qed (simp add: reg_request_def assms)

lemma bearer_token_inside:
  assumes "authority_kept e" "state_inside e c st"
  shows "state_inside e c (fst (bearer_token e c header st))"
proof (cases "realm_of e header")
  case (Some rp)
  obtain realm params where rp: "rp = (realm, params)" by (cases rp)
  obtain st1 m where v: "validate_url e c AuthUrl realm st = (st1, m)" by fastforce
  from validate_url_inside [OF assms(2), of AuthUrl realm] v
  have st1: "state_inside e c st1" "m = None \<Longrightarrow> url_inside e c (with_challenge e params realm)"
    by (auto simp: with_challenge_def url_inside_def)
  show ?thesis
  proof (cases m)
    case None
    obtain st2 r where r: "reg_request e c (with_challenge e params realm) [] st1 = (st2, r)" by fastforce
    from reg_request_inside [OF assms(1) st1(1) st1(2) [OF None], of "[]"] r have "state_inside e c st2" by simp
    then show ?thesis by (cases r) (simp_all add: bearer_token_def Some rp v None r)
  qed (use st1 v in \<open>simp add: bearer_token_def Some rp\<close>)
qed (simp add: bearer_token_def assms)

lemma fetch_tags_inside:
  assumes "authority_kept e" "state_inside e c st" "url_inside e c u"
  shows "state_inside e c (fst (fetch_tags e c u st))"
proof -
  obtain st1 r where r: "reg_request e c u [] st = (st1, r)" by fastforce
  with reg_request_inside [OF assms, of "[]"] have st1: "state_inside e c st1" by simp
  show ?thesis
  proof (cases r)
    case (Inr a)
    obtain st2 t where t: "bearer_token e c (ra_challenge a) st1 = (st2, t)" by fastforce
    with bearer_token_inside [OF assms(1) st1, of "ra_challenge a"] have "state_inside e c st2" by simp
    with reg_request_inside [OF assms(1) this assms(3)] show ?thesis
      by (cases t) (auto simp: fetch_tags_def r Inr t st1)
  qed (simp add: fetch_tags_def r st1)
qed

lemma client_tags_inside:
  assumes "authority_kept e" "state_inside e c st"
  shows "state_inside e c (fst (client_tags e c ref limit cursor st))"
proof -
  obtain st1 m where v: "validate_url e c RegistryUrl (tags_url e c ref limit cursor) st = (st1, m)" by fastforce
  from validate_url_inside [OF assms(2), of RegistryUrl "tags_url e c ref limit cursor"] v
  have st1: "state_inside e c st1" "m = None \<Longrightarrow> url_inside e c (tags_url e c ref limit cursor)" by auto
  obtain st2 r where r: "fetch_tags e c (tags_url e c ref limit cursor) st1 = (st2, r)" by fastforce
  from fetch_tags_inside [OF assms(1) st1] r have st2: "m = None \<Longrightarrow> state_inside e c st2" by auto
  show ?thesis using assms(2) st1 st2
    by (cases "normalize_authority e (rf_registry ref) \<in> set (rc_registries c)"; cases m; cases r)
      (simp_all add: client_tags_def v r)
qed

section \<open>How many requests are made, and where the token goes\<close>

fun is_sent :: "reg_event \<Rightarrow> bool" where "is_sent (Sent u auth a) = True" | "is_sent ev = False"

definition sent_count :: "reg_state \<Rightarrow> nat" where "sent_count st = length (filter is_sent (rs_events st))"

lemma sent_count_record [simp]:
  "sent_count (record_event ev st) = sent_count st + (if is_sent ev then 1 else 0)"
  by (simp add: sent_count_def record_event_def)

lemma validate_url_sends_none [simp]: "sent_count (fst (validate_url e c k u st)) = sent_count st"
  by (simp add: validate_url_def validate_address_def Let_def split: sum.split)

lemma dial_each_sends_none: "sent_count (fst (dial_each e as port err st)) = sent_count st"
  by (induction e as port err st rule: dial_each.induct) (simp add: Let_def split: option.split)+

lemma connect_sends_none: "sent_count (fst (connect e c u st)) = sent_count st"
proof (cases "reused e u st")
  case None
  have d: "sent_count (fst (dial_validated e c (canonical_addr u) st)) = sent_count st"
    by (auto simp: dial_validated_def Let_def dial_each_sends_none split: option.split sum.split)
  obtain st' r where "dial_validated e c (canonical_addr u) st = (st', r)" by fastforce
  with d show ?thesis by (cases r) (simp_all add: connect_def None sent_count_def)
qed (simp add: connect_def)

lemma round_trip_sends_one: "sent_count (fst (round_trip e c u auth st)) \<le> Suc (sent_count st)"
proof -
  obtain st' r where "connect e c u st = (st', r)" by fastforce
  with connect_sends_none [of e c u st] show ?thesis by (cases r) (simp_all add: round_trip_def)
qed

lemma check_redirect_sends_none: "sent_count (fst (check_redirect e c via u auth st)) = sent_count st"
proof (cases "3 \<le> length via")
  case False
  obtain st' m where "validate_url e c RedirectUrl u st = (st', m)" by fastforce
  with validate_url_sends_none [of e c RedirectUrl u st] False show ?thesis by (cases m) (simp_all add: check_redirect_def)
qed (simp add: check_redirect_def)

lemma http_follow_sends_few: "sent_count (fst (http_follow e c auth0 [] False u auth st)) \<le> sent_count st + 3"
proof (rule http_follow_invariant [where I = "\<lambda>via strip u auth st'. length via < 3 \<and> sent_count st' \<le> sent_count st + length via"])
  fix via :: "rurl list" and strip :: bool and u auth st'
  assume I: "length via < 3 \<and> sent_count st' \<le> sent_count st + length via"
  with round_trip_sends_one [of e c u auth st']
  show "sent_count (fst (round_trip e c u auth st')) \<le> sent_count st + 3" by simp
  fix u' st2 r
  assume q: "check_redirect e c (via @ [u]) u' (if strip \<or> leaves_domain (hd (via @ [u])) u' then [] else auth0)
    (fst (round_trip e c u auth st')) = (st2, r)"
  from check_redirect_sends_none [of e c "via @ [u]" u' _ "fst (round_trip e c u auth st')"] q
  have "sent_count st2 = sent_count (fst (round_trip e c u auth st'))" by (metis fst_conv)
  with I round_trip_sends_one [of e c u auth st'] q
  show "case r of Inl m \<Rightarrow> sent_count st2 \<le> sent_count st + 3
    | Inr auth' \<Rightarrow> length (via @ [u]) < 3 \<and> sent_count st2 \<le> sent_count st + length (via @ [u])"
    by (auto split: sum.split dest: check_redirect_few)
qed simp

lemma reg_request_sends_few: "sent_count (fst (reg_request e c u auth st)) \<le> sent_count st + 3"
  using http_follow_sends_few by (simp add: reg_request_def split: option.split)

lemma bearer_token_sends_few: "sent_count (fst (bearer_token e c header st)) \<le> sent_count st + 3"
proof (cases "realm_of e header")
  case (Some rp)
  obtain realm params where rp: "rp = (realm, params)" by (cases rp)
  obtain st1 m where v: "validate_url e c AuthUrl realm st = (st1, m)" by fastforce
  obtain st2 r where r: "reg_request e c (with_challenge e params realm) [] st1 = (st2, r)" by fastforce
  from validate_url_sends_none [of e c AuthUrl realm st] v have "sent_count st1 = sent_count st" by simp
  moreover from reg_request_sends_few [of e c "with_challenge e params realm" "[]" st1] r have "sent_count st2 \<le> sent_count st1 + 3" by simp
  ultimately show ?thesis by (cases m; cases r) (simp_all add: bearer_token_def Some rp v r)
qed (simp add: bearer_token_def)

lemma fetch_tags_sends_few: "sent_count (fst (fetch_tags e c u st)) \<le> sent_count st + 9"
proof -
  obtain st1 r where r: "reg_request e c u [] st = (st1, r)" by fastforce
  with reg_request_sends_few [of e c u "[]" st] have st1: "sent_count st1 \<le> sent_count st + 3" by simp
  show ?thesis
  proof (cases r)
    case (Inr a)
    obtain st2 t where t: "bearer_token e c (ra_challenge a) st1 = (st2, t)" by fastforce
    with bearer_token_sends_few [of e c "ra_challenge a" st1] st1 have st2: "sent_count st2 \<le> sent_count st + 6" by simp
    have "sent_count (fst (reg_request e c u (''Bearer '' @ tok) st2)) \<le> sent_count st + 9" for tok
      using reg_request_sends_few [of e c u "''Bearer '' @ tok" st2] st2 by simp
    with st1 st2 show ?thesis by (cases t) (auto simp: fetch_tags_def r Inr t)
  qed (use st1 in \<open>simp add: fetch_tags_def r\<close>)
qed

lemma client_tags_sends_few: "sent_count (fst (client_tags e c ref limit cursor st)) \<le> sent_count st + 9"
proof -
  obtain st1 m where v: "validate_url e c RegistryUrl (tags_url e c ref limit cursor) st = (st1, m)" by fastforce
  with validate_url_sends_none [of e c RegistryUrl "tags_url e c ref limit cursor" st] have "sent_count st1 = sent_count st" by simp
  moreover obtain st2 r where r: "fetch_tags e c (tags_url e c ref limit cursor) st1 = (st2, r)" by fastforce
  ultimately show ?thesis using fetch_tags_sends_few [of e c "tags_url e c ref limit cursor" st1]
    by (cases m; cases r) (simp_all add: client_tags_def v)
qed

text \<open>A request with an authorization stays in the domain of the first URL.\<close>

fun token_near :: "rurl \<Rightarrow> reg_event \<Rightarrow> bool" where
  "token_near u0 (Sent u auth a) = (auth = [] \<or> \<not> leaves_domain u0 u)"
| "token_near u0 ev = True"

definition tokens_near :: "rurl \<Rightarrow> reg_state \<Rightarrow> bool" where
  "tokens_near u0 st \<longleftrightarrow> list_all (token_near u0) (rs_events st)"

lemma tokens_near_record [simp]: "tokens_near u0 (record_event ev st) \<longleftrightarrow> tokens_near u0 st \<and> token_near u0 ev"
  by (simp add: tokens_near_def record_event_def)

lemma validate_url_near [simp]: "tokens_near u0 (fst (validate_url e c k u st)) = tokens_near u0 st"
  by (simp add: validate_url_def validate_address_def Let_def split: sum.split)

lemma dial_each_near: "tokens_near u0 (fst (dial_each e as port err st)) = tokens_near u0 st"
  by (induction e as port err st rule: dial_each.induct) (simp add: Let_def split: option.split)+

lemma connect_near: "tokens_near u0 (fst (connect e c u st)) = tokens_near u0 st"
proof (cases "reused e u st")
  case None
  have d: "tokens_near u0 (fst (dial_validated e c (canonical_addr u) st)) = tokens_near u0 st"
    by (auto simp: dial_validated_def Let_def dial_each_near split: option.split sum.split)
  obtain st' r where "dial_validated e c (canonical_addr u) st = (st', r)" by fastforce
  with d show ?thesis by (cases r) (simp_all add: connect_def None tokens_near_def)
qed (simp add: connect_def)

lemma round_trip_near:
  assumes "tokens_near u0 st" "auth = [] \<or> \<not> leaves_domain u0 u"
  shows "tokens_near u0 (fst (round_trip e c u auth st))"
proof -
  obtain st' r where "connect e c u st = (st', r)" by fastforce
  with connect_near [of u0 e c u st] assms show ?thesis by (cases r) (simp_all add: round_trip_def)
qed

lemma check_redirect_near: "tokens_near u0 (fst (check_redirect e c via u auth st)) = tokens_near u0 st"
proof (cases "3 \<le> length via")
  case False
  obtain st' m where "validate_url e c RedirectUrl u st = (st', m)" by fastforce
  with validate_url_near [of u0 e c RedirectUrl u st] False show ?thesis by (cases m) (simp_all add: check_redirect_def)
qed (simp add: check_redirect_def)

lemma check_redirect_auth:
  "check_redirect e c via u auth st = (st', Inr auth') \<Longrightarrow> auth' = [] \<or> auth' = auth"
  by (auto simp: check_redirect_def split: if_splits prod.splits option.splits)

lemma http_follow_near:
  assumes "tokens_near u0 st"
  shows "tokens_near u0 (fst (http_follow e c auth0 [] False u0 auth0 st))"
proof (rule http_follow_invariant [where I = "\<lambda>via strip u auth st. tokens_near u0 st \<and> hd (via @ [u]) = u0 \<and>
    (auth = [] \<or> \<not> leaves_domain u0 u)"])
  fix via :: "rurl list" and strip :: bool and u and auth :: string and st
  assume I: "tokens_near u0 st \<and> hd (via @ [u]) = u0 \<and> (auth = [] \<or> \<not> leaves_domain u0 u)"
  then show near: "tokens_near u0 (fst (round_trip e c u auth st))" by (blast intro: round_trip_near)
  fix u' st2 r
  assume q: "check_redirect e c (via @ [u]) u' (if strip \<or> leaves_domain (hd (via @ [u])) u' then [] else auth0)
    (fst (round_trip e c u auth st)) = (st2, r)"
  from check_redirect_near [of u0 e c "via @ [u]" u' _ "fst (round_trip e c u auth st)"] q near have "tokens_near u0 st2"
    by (metis fst_conv)
  moreover have "hd ((via @ [u]) @ [u']) = u0" using I by (cases via) auto
  moreover have "auth' = [] \<or> \<not> leaves_domain u0 u'" if "r = Inr auth'" for auth'
    using check_redirect_auth [OF q [unfolded that]] I by (auto split: if_splits)
  ultimately show "case r of Inl m \<Rightarrow> tokens_near u0 st2
    | Inr auth' \<Rightarrow> tokens_near u0 st2 \<and> hd ((via @ [u]) @ [u']) = u0 \<and> (auth' = [] \<or> \<not> leaves_domain u0 u')"
    by (simp split: sum.split)
qed (use assms in \<open>simp add: leaves_domain_def\<close>)

text \<open>A request without an authorization never carries one.\<close>

lemma leaves_domain_host: "ru_host v = ru_host u \<Longrightarrow> leaves_domain v w \<longleftrightarrow> leaves_domain u w"
  by (simp add: leaves_domain_def hostname_def)

lemma token_near_host: "ru_host v = ru_host u \<Longrightarrow> token_near v ev \<longleftrightarrow> token_near u ev"
  by (cases ev) (simp_all add: leaves_domain_host [of v u])

lemma tokens_near_host:
  assumes "ru_host v = ru_host u"
  shows "tokens_near v st \<longleftrightarrow> tokens_near u st"
  by (simp only: tokens_near_def token_near_host [OF assms] cong: list.pred_cong)

lemma http_follow_bare:
  assumes "tokens_near u0 st"
  shows "tokens_near u0 (fst (http_follow e c [] via strip u [] st))"
proof (rule http_follow_invariant [where I = "\<lambda>via strip u auth st. tokens_near u0 st \<and> auth = []"])
  fix via :: "rurl list" and strip :: bool and u and auth :: string and st
  assume I: "tokens_near u0 st \<and> auth = []"
  then show near: "tokens_near u0 (fst (round_trip e c u auth st))" by (blast intro: round_trip_near)
  fix u' st2 r
  assume q: "check_redirect e c (via @ [u]) u' (if strip \<or> leaves_domain (hd (via @ [u])) u' then [] else [])
    (fst (round_trip e c u auth st)) = (st2, r)"
  from check_redirect_near [of u0 e c "via @ [u]" u' _ "fst (round_trip e c u auth st)"] q near have "tokens_near u0 st2"
    by (metis fst_conv)
  with q show "case r of Inl m \<Rightarrow> tokens_near u0 st2 | Inr auth' \<Rightarrow> tokens_near u0 st2 \<and> auth' = []"
    by (auto split: sum.split dest!: check_redirect_auth)
qed (use assms in simp)

lemma reg_request_near:
  assumes "authority_kept e" "tokens_near u st"
  shows "tokens_near u (fst (reg_request e c u auth st))"
proof (cases "rn_request e u")
  case (Some v)
  with assms(1) have h: "ru_host v = ru_host u" by (simp add: authority_kept_def)
  from http_follow_near [of v st e c auth] assms(2) show ?thesis by (simp add: reg_request_def Some tokens_near_host [OF h])
qed (simp add: reg_request_def assms)

lemma reg_request_bare: "tokens_near u0 st \<Longrightarrow> tokens_near u0 (fst (reg_request e c u [] st))"
  using http_follow_bare by (simp add: reg_request_def split: option.split)

lemma bearer_token_near:
  assumes "tokens_near u0 st"
  shows "tokens_near u0 (fst (bearer_token e c header st))"
proof (cases "realm_of e header")
  case (Some rp)
  obtain realm params where rp: "rp = (realm, params)" by (cases rp)
  obtain st1 m where v: "validate_url e c AuthUrl realm st = (st1, m)" by fastforce
  with validate_url_near [of u0 e c AuthUrl realm st] assms have st1: "tokens_near u0 st1" by simp
  obtain st2 r where r: "reg_request e c (with_challenge e params realm) [] st1 = (st2, r)" by fastforce
  with reg_request_bare [OF st1, of e c "with_challenge e params realm"] have "tokens_near u0 st2" by simp
  with st1 show ?thesis by (cases m; cases r) (simp_all add: bearer_token_def Some rp v r)
qed (simp add: bearer_token_def assms)

lemma fetch_tags_near:
  assumes "authority_kept e" "tokens_near u st"
  shows "tokens_near u (fst (fetch_tags e c u st))"
proof -
  obtain st1 r where r: "reg_request e c u [] st = (st1, r)" by fastforce
  with reg_request_near [OF assms, of c "[]"] have st1: "tokens_near u st1" by simp
  show ?thesis
  proof (cases r)
    case (Inr a)
    obtain st2 t where t: "bearer_token e c (ra_challenge a) st1 = (st2, t)" by fastforce
    with bearer_token_near [OF st1, of e c "ra_challenge a"] have "tokens_near u st2" by simp
    with reg_request_near [OF assms(1) this] show ?thesis by (cases t) (auto simp: fetch_tags_def r Inr t st1)
  qed (simp add: fetch_tags_def r st1)
qed

lemma client_tags_near:
  assumes "authority_kept e" "tokens_near (tags_url e c ref limit cursor) st"
  shows "tokens_near (tags_url e c ref limit cursor) (fst (client_tags e c ref limit cursor st))"
proof -
  let ?u = "tags_url e c ref limit cursor"
  obtain st1 m where v: "validate_url e c RegistryUrl ?u st = (st1, m)" by fastforce
  with validate_url_near [of ?u e c RegistryUrl ?u st] assms(2) have st1: "tokens_near ?u st1" by simp
  obtain st2 r where r: "fetch_tags e c ?u st1 = (st2, r)" by fastforce
  with fetch_tags_near [OF assms(1) st1] have "tokens_near ?u st2" by (metis fst_conv)
  with assms(2) st1 show ?thesis
    by (cases "normalize_authority e (rf_registry ref) \<in> set (rc_registries c)"; cases m; cases r)
      (simp_all add: client_tags_def v r)
qed

section \<open>Properties\<close>

text \<open>
  C25. Whatever the resolver and the servers answer, and however the answers of the resolver change between
  the validation and the dial: a listing of tags dials no blocked address, makes at most nine requests, each
  of them to an allowed registry or authentication host, with an allowed scheme and over a connection to an
  address that is not blocked, and sends the token only within the domain of the registry.
\<close>

theorem registry_requests_confined:
  assumes "authority_kept e" and "rs_events st = []" and "conns_inside c st"
    and "client_tags e c ref limit cursor st = (st', result)"
  shows "list_all (event_inside e c) (rs_events st') \<and>
    list_all (token_near (tags_url e c ref limit cursor)) (rs_events st') \<and>
    length (filter is_sent (rs_events st')) \<le> 9"
proof -
  let ?st = "fst (client_tags e c ref limit cursor st)"
  have "state_inside e c st" "tokens_near (tags_url e c ref limit cursor) st"
    using assms(2,3) by (simp_all add: state_inside_def tokens_near_def)
  then have "state_inside e c ?st" "tokens_near (tags_url e c ref limit cursor) ?st" "sent_count ?st \<le> sent_count st + 9"
    by (simp_all add: client_tags_inside client_tags_near client_tags_sends_few assms(1))
  then show ?thesis using assms(2,4) by (simp add: state_inside_def tokens_near_def sent_count_def)
qed

text \<open>The path of a request spells the repository as it is written: none of its characters is escaped.\<close>

lemma path_escape_plain: "list_all path_keeps s \<Longrightarrow> path_escape s = s"
  by (induction s) (auto simp: path_escape_def)

lemma name_runs_keeps: "name_runs r s \<Longrightarrow> list_all path_keeps s"
  by (induction r s rule: name_runs.induct)
    (auto simp: path_keeps_def word_char_def letter_def lower_alnum_def split: if_splits)

theorem registry_path_literal:
  assumes "parse_reference img = Inr r"
  shows "ru_path (tags_url e c r limit cursor) = ''/v2/'' @ rf_repository r @ ''/tags/list''"
proof -
  from parsed_reference_ok [OF assms] obtain ps where ok: "reference_ok r ps" by blast
  then have ps: "rf_repository r = join_with CHR ''/'' ps" "ps \<noteq> []" "list_all part_ok ps" by (simp_all add: reference_ok_def)
  then have keep: "\<forall>p \<in> set ps. list_all path_keeps p"
    by (auto simp: list_all_iff part_ok_def name_part_def intro: name_runs_keeps [unfolded list_all_iff, rule_format])
  have "\<not> path_keeps CHR ''/''" by (simp add: path_keeps_def word_char_def letter_def in_range_def)
  with keep have "\<forall>p \<in> set ps. CHR ''/'' \<notin> set p" unfolding list_all_iff by blast
  from split_on_join [OF ps(2) this] keep have "escape_repository (rf_repository r) = join_with CHR ''/'' ps"
    by (simp add: escape_repository_def ps(1) path_escape_plain map_idI)
  with ps(1) show ?thesis by (simp add: tags_url_def)
qed

section \<open>Examples\<close>

definition demo_reg_url :: "string \<Rightarrow> rurl" where
  "demo_reg_url h = \<lparr>ru_scheme = ''https'', ru_user = False, ru_host = h, ru_path = [], ru_query = []\<rparr>"

definition demo_net :: "(rurl \<Rightarrow> string \<Rightarrow> reg_answer) \<Rightarrow> reg_net" where
  "demo_net ans =
     \<lparr>rn_parse = (\<lambda>s. Some (demo_reg_url (if has_prefix s ''//'' then drop 2 s else ''auth.docker.io''))),
      rn_request = Some, rn_locate = (\<lambda>u loc. Some (u\<lparr>ru_host := loc\<rparr>)), rn_query = (\<lambda>kvs q. q),
      rn_lookup = (\<lambda>n h. Inr [[203, 0, 113, 9]]), rn_dial = (\<lambda>n a p. None), rn_idle = (\<lambda>n. None),
      rn_answer = (\<lambda>n u auth a. Inr (ans u auth)), rn_tags = (\<lambda>b. Some ([b], length b)), rn_token = (\<lambda>b. Some (b, [], length b))\<rparr>"

definition demo_reg_client :: "(rurl \<Rightarrow> string \<Rightarrow> reg_answer) \<Rightarrow> reg_client" where
  "demo_reg_client ans =
     new_registry_client (demo_net ans)
       \<lparr>cc_registries = [''r.io:5443'', ''r.io''], cc_auth_hosts = [], cc_private = False, cc_http = False,
        cc_connect = 1, cc_header = 1, cc_total = 1, cc_max = 5\<rparr>"

definition demo_reg_answer :: "rurl \<Rightarrow> string \<Rightarrow> reg_answer" where
  "demo_reg_answer u auth =
     (if ru_host u = ''auth.docker.io'' then \<lparr>ra_status = 200, ra_location = [], ra_challenge = [], ra_body = ''t''\<rparr>
      else if auth = [] then \<lparr>ra_status = 401, ra_location = [], ra_challenge = ''Bearer realm='' @ [CHR 0x22] @ ''a'' @ [CHR 0x22], ra_body = []\<rparr>
      else \<lparr>ra_status = 200, ra_location = [], ra_challenge = [], ra_body = ''v1''\<rparr>)"

definition demo_reg_ref :: reference where
  "demo_reg_ref = \<lparr>rf_registry = ''r.io'', rf_repository = ''app'', rf_tag = [], rf_digest = []\<rparr>"

lemma demo_tags_result:
  "snd (client_tags (demo_net demo_reg_answer) (demo_reg_client demo_reg_answer) demo_reg_ref 10 [] \<lparr>rs_events = [], rs_conns = []\<rparr>) =
     Inr ([''v1''], [])"
  by code_simp

theorem registry_requests_confined_witness:
  "\<exists>st'. client_tags (demo_net demo_reg_answer) (demo_reg_client demo_reg_answer) demo_reg_ref 10 [] \<lparr>rs_events = [], rs_conns = []\<rparr> =
       (st', Inr ([''v1''], [])) \<and>
     list_all (event_inside (demo_net demo_reg_answer) (demo_reg_client demo_reg_answer)) (rs_events st') \<and>
     length (filter is_sent (rs_events st')) \<le> 9"
proof -
  obtain st' where t: "client_tags (demo_net demo_reg_answer) (demo_reg_client demo_reg_answer) demo_reg_ref 10 []
      \<lparr>rs_events = [], rs_conns = []\<rparr> = (st', Inr ([''v1''], []))"
    using demo_tags_result by (metis prod.collapse)
  have "authority_kept (demo_net demo_reg_answer)" by (simp add: authority_kept_def demo_net_def)
  from registry_requests_confined [OF this _ _ t] t show ?thesis by (simp add: conns_inside_def)
qed

theorem registry_path_literal_witness:
  "ru_path (tags_url (demo_net demo_reg_answer) (demo_reg_client demo_reg_answer)
     \<lparr>rf_registry = ''docker.io'', rf_repository = ''library/nginx'', rf_tag = ''1.25'', rf_digest = []\<rparr> 10 []) =
   ''/v2/library/nginx/tags/list''"
  by (simp add: registry_path_literal [OF demo_image(1)])

text \<open>
  A server that redirects twice gets the token back: the second redirect stays at the authority of the first,
  so \<open>CheckRedirect\<close> keeps the authorization, which \<open>http.Client\<close> takes again from the first request.
\<close>

definition leak_answer :: "rurl \<Rightarrow> string \<Rightarrow> reg_answer" where
  "leak_answer u auth =
     (if ru_host u = ''r.io:5443'' \<or> auth = [] then \<lparr>ra_status = 302, ra_location = ''r.io'', ra_challenge = [], ra_body = []\<rparr>
      else \<lparr>ra_status = 200, ra_location = [], ra_challenge = [], ra_body = []\<rparr>)"

lemma authorization_reappears:
  "filter is_sent (rs_events (fst (reg_request (demo_net leak_answer) (demo_reg_client leak_answer) (demo_reg_url ''r.io:5443'')
      ''Bearer t'' \<lparr>rs_events = [], rs_conns = []\<rparr>))) =
   [Sent (demo_reg_url ''r.io:5443'') ''Bearer t'' [203, 0, 113, 9], Sent (demo_reg_url ''r.io'') [] [203, 0, 113, 9],
    Sent (demo_reg_url ''r.io'') ''Bearer t'' [203, 0, 113, 9]]"
  by code_simp

text \<open>Allowing HTTP makes every registry be asked over HTTP, not only one that has nothing else.\<close>

lemma allowed_http_is_used: "cc_http (rc_config c) \<Longrightarrow> ru_scheme (tags_url e c r limit cursor) = ''http''"
  by (simp add: tags_url_def)

end
