(* ===== verification/Http_Access.thy ===== *)
theory Http_Access
  imports Kube_Resources Rbac Audit_Trail Image_Registry Go_Integers
begin

text \<open>
  Read-only HTTP access to pods and services through the API server: the handler
  (\<open>handler/http_access_handler.go\<close>) and the client it uses (\<open>kubernetes/httpaccess/access.go\<close>). The
  validators of names and of port names, the parsing of the server's URL and the transport are parameters.
  A request that fails at the transport or by its 30 s is an answer \<open>None\<close>; the reader of the response is
  taken to read on.
\<close>

type_synonym headers = "(string, string list) gomap"

section \<open>Paths\<close>

text \<open>\<open>path.Clean\<close> works on the elements, the last one first; \<open>path.Join\<close> cleans what it joins.\<close>

definition clean_step :: "bool \<Rightarrow> string \<Rightarrow> string list \<Rightarrow> string list" where
  "clean_step rooted w stack =
     (if w = [] \<or> w = ''.'' then stack
      else if w = ''..'' then
        (case stack of
           [] \<Rightarrow> if rooted then [] else [w]
         | v # below \<Rightarrow> if v = ''..'' then w # stack else below)
      else w # stack)"

definition path_clean :: "string \<Rightarrow> string" where
  "path_clean s =
     (let rooted = has_prefix s ''/'';
          res = (if rooted then ''/'' else []) @ join_with CHR ''/'' (rev (fold (clean_step rooted) (split_on CHR ''/'' s) []))
      in if res = [] then ''.'' else res)"

definition path_join :: "string list \<Rightarrow> string" where
  "path_join ws = (if list_all (\<lambda>w. w = []) ws then [] else path_clean (join_with CHR ''/'' (dropWhile (\<lambda>w. w = []) ws)))"

text \<open>\<open>url.PathUnescape\<close>.\<close>

definition hex_value :: "char \<Rightarrow> nat option" where
  "hex_value ch =
     (if in_range CHR ''0'' CHR ''9'' ch then Some (of_char ch - 48)
      else if in_range CHR ''a'' CHR ''f'' ch then Some (of_char ch - 87)
      else if in_range CHR ''A'' CHR ''F'' ch then Some (of_char ch - 55) else None)"

fun path_unescape :: "string \<Rightarrow> string option" where
  "path_unescape [] = Some []"
| "path_unescape (ch # s) =
     (if ch = CHR ''%'' then
        (case s of
           a # b # r \<Rightarrow>
             (case (hex_value a, hex_value b) of
                (Some x, Some y) \<Rightarrow> map_option (\<lambda>t. char_of (16 * x + y) # t) (path_unescape r)
              | _ \<Rightarrow> None)
         | _ \<Rightarrow> None)
      else map_option (\<lambda>t. ch # t) (path_unescape s))"

definition unsafe_part :: "string \<Rightarrow> bool" where
  "unsafe_part v \<longleftrightarrow> v = ''.'' \<or> v = ''..'' \<or> list_ex (\<lambda>ch. ch \<in> {CHR ''/'', CHR 0x5C, CHR 0x00}) v \<or> CHR ''%'' \<in> set v"

fun decode_parts :: "string list \<Rightarrow> string list option" where
  "decode_parts [] = Some []"
| "decode_parts (p # ps) =
     (case path_unescape p of
        None \<Rightarrow> None
      | Some v \<Rightarrow>
          if unsafe_part v then None
          else map_option (\<lambda>vs. if v \<noteq> [] then v # vs else vs) (decode_parts ps))"

definition normalized_http_path :: "string \<Rightarrow> string option" where
  "normalized_http_path raw =
     (if raw = [] \<or> raw = ''/'' then Some ''/''
      else if contains (to_lower raw) ''%25'' \<or> contains raw [CHR 0x00] then None
      else (case decode_parts (split_on CHR ''/'' (trim_prefix raw ''/'')) of
              None \<Rightarrow> None
            | Some decoded \<Rightarrow> Some (if decoded = [] then ''/'' else ''/'' @ path_join decoded)))"

section \<open>Headers\<close>

text \<open>\<open>http.CanonicalHeaderKey\<close>: a name that is not a token stays as it is.\<close>

definition token_char :: "char \<Rightarrow> bool" where
  "token_char ch \<longleftrightarrow> word_char ch \<or> ch \<in> set ''!#$%&'' \<or> ch \<in> {CHR 0x27, CHR ''*'', CHR ''+'', CHR ''-'', CHR ''.'', CHR ''^'', CHR 0x60, CHR ''|'', CHR ''~''}"

fun canonical_chars :: "bool \<Rightarrow> string \<Rightarrow> string" where
  "canonical_chars up [] = []"
| "canonical_chars up (ch # s) = (if up then to_upper_char ch else to_lower_char ch) # canonical_chars (ch = CHR ''-'') s"

definition canonical_key :: "string \<Rightarrow> string" where
  "canonical_key k = (if list_all token_char k then canonical_chars True k else k)"

definition header_get :: "headers \<Rightarrow> string \<Rightarrow> string" where
  "header_get h k = (case gm_get h (canonical_key k) of Some (v # vs) \<Rightarrow> v | _ \<Rightarrow> [])"

definition header_del :: "string \<Rightarrow> headers \<Rightarrow> headers" where "header_del k h = gm_del (canonical_key k) h"

definition header_add :: "string \<Rightarrow> string \<Rightarrow> headers \<Rightarrow> headers" where
  "header_add k v h =
     gm_put (canonical_key k) ((case gm_get h (canonical_key k) of Some vs \<Rightarrow> vs | None \<Rightarrow> []) @ [v]) h"

definition header_set :: "string \<Rightarrow> string \<Rightarrow> headers \<Rightarrow> headers" where
  "header_set k v h = gm_put (canonical_key k) [v] h"

definition blocked_headers :: "string list" where
  "blocked_headers =
     [''Authorization'', ''Cookie'', ''Proxy-Authorization'', ''Connection'', ''Keep-Alive'', ''Proxy-Authenticate'',
      ''Te'', ''Trailer'', ''Transfer-Encoding'', ''Upgrade'', ''Forwarded'', ''X-Forwarded-For'', ''X-Forwarded-Host'',
      ''X-Forwarded-Proto'', ''X-Real-Ip'', ''X-Api-Key'']"

definition connection_tokens :: "headers \<Rightarrow> string list" where
  "connection_tokens h = map (\<lambda>t. canonical_key (trim_space t)) (split_on CHR '','' (header_get h ''Connection''))"

definition header_blocked :: "bool \<Rightarrow> headers \<Rightarrow> string \<Rightarrow> bool" where
  "header_blocked request source k \<longleftrightarrow>
     k \<in> set blocked_headers \<or> k \<in> set (connection_tokens source) \<or> (\<not> request \<and> k = ''Set-Cookie'')"

definition filter_headers :: "headers \<Rightarrow> bool \<Rightarrow> headers" where
  "filter_headers source request =
     fold (\<lambda>(k, vs) h. if header_blocked request source (canonical_key k) then h else gm_put (canonical_key k) vs h) source []"

definition filter_request_headers :: "headers \<Rightarrow> headers" where
  "filter_request_headers source = filter_headers source True"

definition filter_response_headers :: "headers \<Rightarrow> headers" where
  "filter_response_headers source = filter_headers source False"

section \<open>The client\<close>

record upstream_request =
  up_method :: string
  up_scheme :: string
  up_host :: string
  up_path :: string
  up_query :: headers
  up_headers :: headers
  up_length :: int
  up_encoded :: bool

record upstream_response =
  ur_status :: int
  ur_length :: int
  ur_headers :: headers
  ur_body :: string

record access_request =
  hq_method :: string
  hq_length :: int
  hq_encoded :: bool
  hq_id :: string
  hq_kind :: string
  hq_ns :: string
  hq_name :: string
  hq_path :: string
  hq_query :: headers
  hq_headers :: headers
  hq_user :: nat
  hq_username :: string
  hq_role :: string
  hq_ip :: string
  hq_rid :: "string option"

text \<open>
  The URL of the API server is given by its scheme, host and path when it parses. The state of the cluster is
  read only, to look up the object that a port is named in.
\<close>

record ('cfg, 'dyn, 'w) access_env =
  hx_faults :: faults
  hx_roles :: role_table
  hx_state :: "('cfg, 'dyn) cluster_state"
  hx_get :: "'dyn \<Rightarrow> gvr \<Rightarrow> string \<Rightarrow> string \<Rightarrow> 'w \<Rightarrow> fields option"
  hx_world :: 'w
  hx_subdomain :: "string \<Rightarrow> bool"
  hx_port_name :: "string \<Rightarrow> bool"
  hx_url :: "'cfg \<Rightarrow> (string \<times> string \<times> string) option"
  hx_transport :: "'cfg \<Rightarrow> bool"
  hx_send :: "'cfg \<Rightarrow> upstream_request \<Rightarrow> upstream_response option"

definition new_access_client :: "('cfg, 'dyn, 'w) access_env \<Rightarrow> 'cfg \<Rightarrow> (string \<times> string \<times> string) option" where
  "new_access_client env cfg =
     (case hx_url env cfg of
        None \<Rightarrow> None
      | Some (scheme, host, base) \<Rightarrow>
          if scheme = [] \<or> host = [] then None
          else if hx_transport env cfg then Some (scheme, host, base) else None)"

definition upstream_path :: "string \<Rightarrow> string \<Rightarrow> string \<Rightarrow> string \<Rightarrow> string \<Rightarrow> string \<Rightarrow> string" where
  "upstream_path base kind ns name port rel =
     trim_suffix base ''/'' @ ''/'' @
     path_join [''api'', ''v1'', ''namespaces'', ns, kind, name @ '':'' @ port, ''proxy''] @
     (if rel \<noteq> ''/'' then rel else ''/'')"

text \<open>The request that is sent, without a body.\<close>

definition forward_request ::
  "string \<times> string \<times> string \<Rightarrow> access_request \<Rightarrow> string \<Rightarrow> string \<Rightarrow> headers \<Rightarrow> upstream_request" where
  "forward_request server rq port rel query =
     (case server of (scheme, host, base) \<Rightarrow>
        \<lparr>up_method = hq_method rq, up_scheme = scheme, up_host = host,
         up_path = upstream_path base (hq_kind rq) (hq_ns rq) (hq_name rq) port rel, up_query = query,
         up_headers = header_del ''Content-Length'' (filter_request_headers (hq_headers rq)),
         up_length = 0, up_encoded = False\<rparr>)"

section \<open>The handler\<close>

definition max_access_bytes :: int where "max_access_bytes = 32 * 2 ^ 20"

definition query_first :: "headers \<Rightarrow> string \<Rightarrow> string" where
  "query_first q k = (case gm_get q k of Some (v # vs) \<Rightarrow> v | _ \<Rightarrow> [])"

definition names_port :: "string \<Rightarrow> json \<Rightarrow> bool" where
  "names_port wanted item = (case item of JObj m \<Rightarrow> gm_get m ''name'' = Some (JStr wanted) | _ \<Rightarrow> False)"

definition declared_named_port :: "fields \<Rightarrow> string \<Rightarrow> string \<Rightarrow> bool" where
  "declared_named_port obj kind wanted =
     (let spec = obj_or_nil (gm_get obj ''spec'') in
      if kind = ''services'' then list_ex (names_port wanted) (arr_or_nil (gm_get spec ''ports''))
      else list_ex (\<lambda>item. list_ex (names_port wanted) (arr_or_nil (gm_get (obj_or_nil (Some item)) ''ports'')))
             (arr_or_nil (gm_get spec ''containers'')))"

definition validate_port ::
  "('cfg, 'dyn, 'w) access_env \<Rightarrow> string \<Rightarrow> string \<Rightarrow> string \<Rightarrow> string \<Rightarrow> string \<Rightarrow> string option" where
  "validate_port env cl kind ns name port =
     (if snd (atoi port)
      then (if fst (atoi port) < 1 \<or> 65535 < fst (atoi port) then Some ''port must be between 1 and 65535'' else None)
      else if port = [] \<or> \<not> hx_port_name env port then Some ''invalid port''
      else (case cm_dynamic_client cl (cs_conns (hx_state env)) of
              Inl _ \<Rightarrow> Some ''kubernetes cluster unavailable''
            | Inr d \<Rightarrow>
                (case hx_get env d \<lparr>gvr_group = [], gvr_version = ''v1'', gvr_resource = kind\<rparr> ns name (hx_world env) of
                   None \<Rightarrow> Some ''resource not found''
                 | Some obj \<Rightarrow>
                     if declared_named_port obj kind port then None
                     else Some ''named port is not declared by the resource'')))"

text \<open>What the caller gets: an error, or a status with headers, a body, and whether the body was cut.\<close>

datatype access_result =
    Refused "unit response"
  | Served int headers string bool

text \<open>The response of the target: too long when it says so, otherwise streamed up to the limit.\<close>

definition get_headers :: "upstream_response \<Rightarrow> headers" where
  "get_headers up =
     (let h = header_del ''Content-Length'' (filter_response_headers (ur_headers up)) in
      if ur_length up < 0
      then header_add ''Trailer'' ''X-KubeVision-Response-Truncated'' (header_set ''Connection'' ''close'' h) else h)"

definition relay :: "access_request \<Rightarrow> upstream_response \<Rightarrow> access_result" where
  "relay rq up =
     (if hq_method rq = ''GET'' \<and> max_access_bytes < ur_length up
      then Refused (resp_error (hq_rid rq) CodeK8sUnavailable ''target response exceeds size limit'')
      else if hq_method rq = ''HEAD'' then Served (ur_status up) (filter_response_headers (ur_headers up)) [] False
      else Served (ur_status up) (get_headers up) (take (nat max_access_bytes) (ur_body up))
             (max_access_bytes < int (length (ur_body up))))"

text \<open>The checks before the database is read, in their order; the path is the one that the audit entry names.\<close>

definition precheck ::
  "('cfg, 'dyn, 'w) access_env \<Rightarrow> access_request \<Rightarrow> string \<times> (int \<times> string) option" where
  "precheck env rq =
     (if hq_method rq \<noteq> ''GET'' \<and> hq_method rq \<noteq> ''HEAD'' then (''/'', Some (CodeParamInvalid, ''method not allowed''))
      else if 0 < hq_length rq \<or> hq_encoded rq then (''/'', Some (CodeParamInvalid, ''request body is not allowed''))
      else if hq_kind rq \<noteq> ''pods'' \<and> hq_kind rq \<noteq> ''services''
        then (''/'', Some (CodeParamInvalid, ''only pods and services are supported''))
      else if \<not> hx_subdomain env (hq_ns rq) \<or> \<not> hx_subdomain env (hq_name rq)
        then (''/'', Some (CodeParamInvalid, ''invalid namespace or resource name''))
      else (case normalized_http_path (hq_path rq) of
              None \<Rightarrow> ([], Some (CodeParamInvalid, ''invalid relative path''))
            | Some rel \<Rightarrow>
                (rel, if role_has_permission (hx_faults env) (hx_roles env) (hq_role rq) (hq_kind rq) ''get'' then None
                      else Some (CodeForbidden, ''permission denied''))))"

definition target_config ::
  "('cfg, 'dyn, 'w) access_env \<Rightarrow> access_request \<Rightarrow> string \<Rightarrow> (int \<times> string) + ('cfg \<times> string \<times> string \<times> string)" where
  "target_config env rq port =
     (case parse_uint (hq_id rq) of
        None \<Rightarrow> Inl (CodeParamInvalid, ''invalid cluster ID'')
      | Some i \<Rightarrow>
          if i = 0 then Inl (CodeParamInvalid, ''invalid cluster ID'')
          else (case cluster_get_by_id (hx_faults env) i (cs_table (hx_state env)) of
                  Inl _ \<Rightarrow> Inl (CodeNotFound, ''cluster not found'')
                | Inr c \<Rightarrow>
                    (case validate_port env (c_name c) (hq_kind rq) (hq_ns rq) (hq_name rq) port of
                       Some m \<Rightarrow> Inl (CodeParamInvalid, m)
                     | None \<Rightarrow>
                         (case cm_rest_config (c_name c) (cs_conns (hx_state env)) of
                            Inl _ \<Rightarrow> Inl (CodeK8sUnavailable, ''kubernetes cluster unavailable'')
                          | Inr cfg \<Rightarrow>
                              (case new_access_client env cfg of
                                 None \<Rightarrow> Inl (CodeK8sUnavailable, ''kubernetes cluster unavailable'')
                               | Some server \<Rightarrow> Inr (cfg, server))))))"

text \<open>The result, the path of the audit entry, and the request that was sent, if one was.\<close>

definition access_serve ::
  "('cfg, 'dyn, 'w) access_env \<Rightarrow> access_request \<Rightarrow> access_result \<times> string \<times> upstream_request option" where
  "access_serve env rq =
     (let port = query_first (hq_query rq) ''port'' in
      case precheck env rq of
        (path, Some (code, m)) \<Rightarrow> (Refused (resp_error (hq_rid rq) code m), path, None)
      | (path, None) \<Rightarrow>
          (case target_config env rq port of
             Inl (code, m) \<Rightarrow> (Refused (resp_error (hq_rid rq) code m), path, None)
           | Inr (cfg, server) \<Rightarrow>
               (let fw = forward_request server rq port path (gm_del ''port'' (hq_query rq)) in
                (case hx_send env cfg fw of
                   None \<Rightarrow> (Refused (resp_error (hq_rid rq) CodeK8sUnavailable ''target endpoint unavailable''), path, Some fw)
                 | Some up \<Rightarrow> (relay rq up, path, Some fw)))))"

text \<open>An error is an envelope with the status 200.\<close>

definition result_status :: "access_result \<Rightarrow> int" where
  "result_status r = (case r of Refused _ \<Rightarrow> 200 | Served s _ _ _ \<Rightarrow> s)"

definition access_entry :: "gotime \<Rightarrow> gotime \<Rightarrow> access_request \<Rightarrow> access_result \<Rightarrow> string \<Rightarrow> audit_log" where
  "access_entry started now rq r path =
     empty_log\<lparr>al_created := now, al_user := hq_user rq, al_username := hq_username rq, al_action := ''http-access'',
       al_resource := hq_kind rq, al_name := hq_name rq, al_namespace := hq_ns rq, al_cluster := hq_id rq,
       al_status := result_status r, al_duration := (now - started) div millisecond, al_method := hq_method rq,
       al_port := query_first (hq_query rq) ''port'', al_path := path, al_ip := hq_ip rq\<rparr>"

text \<open>The deferred call records the entry, when there is an audit service.\<close>

definition serve_http_access ::
  "('cfg, 'dyn, 'w) access_env \<Rightarrow> bool \<Rightarrow> gotime \<Rightarrow> gotime \<Rightarrow> access_request \<Rightarrow> audit_service option \<Rightarrow>
     audit_service option \<times> access_result \<times> upstream_request option" where
  "serve_http_access env flt started now rq aud =
     (case access_serve env rq of
        (r, path, sent) \<Rightarrow> (map_option (audit_record flt (access_entry started now rq r path)) aud, r, sent))"

section \<open>Clean paths\<close>

definition plain_segment :: "string \<Rightarrow> bool" where
  "plain_segment w \<longleftrightarrow> w \<noteq> [] \<and> w \<noteq> ''.'' \<and> w \<noteq> ''..'' \<and> CHR ''/'' \<notin> set w"

lemma fold_clean_plain: "list_all plain_segment ws \<Longrightarrow> fold (clean_step rooted) ws stack = rev ws @ stack"
  by (induction ws arbitrary: stack) (auto simp: clean_step_def plain_segment_def)

lemma join_plain_start:
  assumes "list_all plain_segment ws" "ws \<noteq> []"
  shows "join_with CHR ''/'' ws \<noteq> [] \<and> \<not> has_prefix (join_with CHR ''/'' ws) ''/''"
proof -
  obtain c w' rest where ws: "ws = (c # w') # rest" and c: "c \<noteq> CHR ''/''"
    using assms by (cases ws) (auto simp: plain_segment_def neq_Nil_conv)
  then show ?thesis by (cases rest) (auto simp: has_prefix_def)
qed

lemma path_join_plain:
  assumes "list_all plain_segment ws" "ws \<noteq> []"
  shows "path_join ws = join_with CHR ''/'' ws"
proof -
  let ?j = "join_with CHR ''/'' ws"
  have sep: "\<forall>w \<in> set ws. CHR ''/'' \<notin> set w" using assms(1) by (auto simp: list_all_iff plain_segment_def)
  have "dropWhile (\<lambda>w. w = []) ws = ws" using assms by (cases ws) (auto simp: plain_segment_def)
  moreover have "\<not> list_all (\<lambda>w. w = []) ws" using assms by (cases ws) (auto simp: plain_segment_def)
  moreover have "path_clean ?j = ?j"
    using join_plain_start [OF assms] split_on_join [OF assms(2) sep] fold_clean_plain [OF assms(1), of False "[]"]
    by (simp add: path_clean_def Let_def)
  ultimately show ?thesis by (simp add: path_join_def)
qed

text \<open>A decoded part has no separator, no NUL and no percent sign, and is not a step upwards.\<close>

definition safe_segment :: "string \<Rightarrow> bool" where
  "safe_segment w \<longleftrightarrow> plain_segment w \<and> CHR 0x5C \<notin> set w \<and> CHR 0x00 \<notin> set w \<and> CHR ''%'' \<notin> set w"

lemma safe_part: "\<not> unsafe_part v \<Longrightarrow> v \<noteq> [] \<Longrightarrow> safe_segment v"
  unfolding unsafe_part_def list_ex_iff safe_segment_def plain_segment_def by blast

lemma decode_parts_safe: "decode_parts ps = Some vs \<Longrightarrow> list_all safe_segment vs"
proof (induction ps arbitrary: vs)
  case (Cons p ps)
  then obtain v vs' where v: "path_unescape p = Some v" "\<not> unsafe_part v" "decode_parts ps = Some vs'"
    "vs = (if v \<noteq> [] then v # vs' else vs')"
    by (cases "path_unescape p"; cases "decode_parts ps") (auto split: if_splits)
  with Cons.IH [OF v(3)] safe_part [OF v(2)] show ?case by simp
qed simp

lemma normalized_path_safe:
  assumes "normalized_http_path raw = Some rel"
  shows "\<exists>ws. list_all safe_segment ws \<and> rel = ''/'' @ join_with CHR ''/'' ws"
proof (cases "raw = [] \<or> raw = ''/''")
  case True
  then have "rel = ''/'' @ join_with CHR ''/'' []" using assms by (auto simp: normalized_http_path_def)
  then show ?thesis by (intro exI [of _ "[]"]) simp
next
  case False
  with assms obtain ws where ws: "decode_parts (split_on CHR ''/'' (trim_prefix raw ''/'')) = Some ws"
    "rel = (if ws = [] then ''/'' else ''/'' @ path_join ws)"
    by (auto simp: normalized_http_path_def split: if_splits option.splits)
  from decode_parts_safe [OF ws(1)] have safe: "list_all safe_segment ws" .
  then have "list_all plain_segment ws" by (auto simp: list_all_iff safe_segment_def)
  then have "rel = ''/'' @ join_with CHR ''/'' ws" using path_join_plain ws(2) by (cases "ws = []") auto
  with safe show ?thesis by blast
qed

section \<open>Headers that pass\<close>

lemma filter_fold_keys:
  assumes "gm_ok h"
  shows "gm_ok (fold (\<lambda>(k, vs) h. if blk (canonical_key k) then h else gm_put (canonical_key k) vs h) src h) \<and>
    fst ` set (fold (\<lambda>(k, vs) h. if blk (canonical_key k) then h else gm_put (canonical_key k) vs h) src h) =
      fst ` set h \<union> {canonical_key k |k. k \<in> fst ` set src \<and> \<not> blk (canonical_key k)}"
  using assms
proof (induction src arbitrary: h)
  case (Cons x src)
  obtain k vs where x: "x = (k, vs)" by (cases x)
  show ?case
  proof (cases "blk (canonical_key k)")
    case True
    with Cons.IH [OF Cons.prems] show ?thesis by (auto simp: x)
  next
    case False
    have "gm_ok (gm_put (canonical_key k) vs h)" using Cons.prems by simp
    from Cons.IH [OF this] False show ?thesis by (auto simp: x gm_put_keys)
  qed
qed simp

lemma filter_headers_keys:
  "k \<in> fst ` set (filter_headers source request) \<longleftrightarrow>
     (\<exists>k' \<in> fst ` set source. k = canonical_key k' \<and> \<not> header_blocked request source k)"
  using filter_fold_keys [of "[]" "header_blocked request source" source]
  by (auto simp: filter_headers_def gm_ok_def)

lemma header_del_keys: "fst ` set (header_del k h) = fst ` set h - {canonical_key k}"
  by (auto simp: header_del_def gm_del_set)

lemma sent_headers_clean:
  "fst ` set (header_del ''Content-Length'' (filter_request_headers h)) \<inter> (set blocked_headers \<union> set (connection_tokens h)) = {}"
proof -
  have "k \<notin> set blocked_headers \<union> set (connection_tokens h)" if "k \<in> fst ` set (filter_headers h True)" for k
    using that unfolding filter_headers_keys header_blocked_def by blast
  then show ?thesis unfolding header_del_keys filter_request_headers_def by blast
qed

section \<open>Names and ports\<close>

text \<open>What the validators of Kubernetes let through: a name is a DNS subdomain, the name of a port has no slash.\<close>

definition dns_name :: "string \<Rightarrow> bool" where
  "dns_name s \<longleftrightarrow> s \<noteq> [] \<and> lower_alnum (hd s) \<and> list_all (\<lambda>ch. lower_alnum ch \<or> ch = CHR ''-'' \<or> ch = CHR ''.'') s"

definition names_checked :: "('cfg, 'dyn, 'w) access_env \<Rightarrow> bool" where
  "names_checked env \<longleftrightarrow>
     (\<forall>s. (hx_subdomain env s \<longrightarrow> dns_name s) \<and> (hx_port_name env s \<longrightarrow> CHR ''/'' \<notin> set s))"

lemma dns_name_plain: "dns_name s \<Longrightarrow> plain_segment s"
  by (auto simp: dns_name_def plain_segment_def lower_alnum_def in_range_def list_all_iff)

lemma scan_uint_digits: "scan_uint s n = Some (Some m) \<Longrightarrow> CHR ''/'' \<notin> set s"
  by (induction s n rule: scan_uint.induct) (auto simp: Let_def split: if_splits)

lemma atoi_no_slash:
  assumes "snd (atoi p)"
  shows "CHR ''/'' \<notin> set p"
proof -
  let ?d = "case p of c # r \<Rightarrow> if c = CHR ''-'' \<or> c = CHR ''+'' then r else p | [] \<Rightarrow> p"
  obtain m where "unsigned ?d = Some (Some m)"
    using assms by (auto simp: atoi_def parse_int_def Let_def split: option.splits if_splits)
  then have "CHR ''/'' \<notin> set ?d" using scan_uint_digits by (auto simp: unsigned_def split: if_splits)
  then show ?thesis by (auto split: list.splits if_splits)
qed

lemma valid_port:
  assumes "validate_port env cl kind ns name port = None"
  shows "(snd (atoi port) \<and> 1 \<le> fst (atoi port) \<and> fst (atoi port) \<le> 65535) \<or> hx_port_name env port"
  using assms by (auto simp: validate_port_def split: if_splits)

lemma target_config_Inr:
  assumes "target_config env rq port = Inr (cfg, server)"
  obtains i c where "parse_uint (hq_id rq) = Some i" "i \<noteq> 0" "cluster_get_by_id (hx_faults env) i (cs_table (hx_state env)) = Inr c"
    "validate_port env (c_name c) (hq_kind rq) (hq_ns rq) (hq_name rq) port = None"
    "cm_rest_config (c_name c) (cs_conns (hx_state env)) = Inr cfg" "hx_url env cfg = Some server"
  using assms by (auto simp: target_config_def new_access_client_def split: option.splits if_splits sum.splits)

lemma precheck_None:
  assumes "precheck env rq = (path, None)"
  shows "hq_method rq = ''GET'' \<or> hq_method rq = ''HEAD''" "hq_kind rq = ''pods'' \<or> hq_kind rq = ''services''"
    "hx_subdomain env (hq_ns rq)" "hx_subdomain env (hq_name rq)" "normalized_http_path (hq_path rq) = Some path"
    "role_has_permission (hx_faults env) (hx_roles env) (hq_role rq) (hq_kind rq) ''get''"
  using assms by (auto simp: precheck_def split: if_splits option.splits)

lemma access_serve_sent:
  assumes "access_serve env rq = (r, path, Some fw)"
  obtains cfg server where "precheck env rq = (path, None)"
    "target_config env rq (query_first (hq_query rq) ''port'') = Inr (cfg, server)"
    "fw = forward_request server rq (query_first (hq_query rq) ''port'') path (gm_del ''port'' (hq_query rq))"
proof -
  obtain p m where p: "precheck env rq = (p, m)" by fastforce
  with assms have m: "m = None" by (cases m) (auto simp: access_serve_def)
  obtain cfg server where t: "target_config env rq (query_first (hq_query rq) ''port'') = Inr (cfg, server)"
    using assms p m by (cases "target_config env rq (query_first (hq_query rq) ''port'')") (auto simp: access_serve_def)
  have "p = path" "fw = forward_request server rq (query_first (hq_query rq) ''port'') p (gm_del ''port'' (hq_query rq))"
    using assms p m t by (auto simp: access_serve_def Let_def split: option.splits)
  with p m t that show ?thesis by blast
qed

section \<open>Properties\<close>

lemma segments_plain:
  assumes "names_checked env" "precheck env rq = (path, None)"
    and "validate_port env cl (hq_kind rq) (hq_ns rq) (hq_name rq) port = None"
  shows "list_all plain_segment [''api'', ''v1'', ''namespaces'', hq_ns rq, hq_kind rq, hq_name rq @ '':'' @ port, ''proxy'']"
proof -
  note pre = precheck_None [OF assms(2)]
  have names: "plain_segment (hq_ns rq)" "plain_segment (hq_name rq)"
    using assms(1) pre(3,4) by (auto simp: names_checked_def intro: dns_name_plain)
  have "CHR ''/'' \<notin> set port" using valid_port [OF assms(3)] assms(1) atoi_no_slash by (auto simp: names_checked_def)
  then have "plain_segment (hq_name rq @ '':'' @ port)" using names(2)
    by (auto simp: plain_segment_def append_eq_Cons_conv)
  with names pre(2) show ?thesis by (auto simp: plain_segment_def)
qed


text \<open>What comes back: at most the limit, the beginning of the body of the target, and never a cookie.\<close>

lemma response_header_safe: "''Set-Cookie'' \<notin> fst ` set (filter_response_headers h)"
  unfolding filter_response_headers_def filter_headers_keys header_blocked_def by blast

theorem http_access_response_bounded:
  assumes "serve_http_access env flt started now rq aud = (aud', Served st h body trunc, sent)"
  shows "int (length body) \<le> max_access_bytes \<and>
    (\<exists>cfg fw up. sent = Some fw \<and> hx_send env cfg fw = Some up \<and> (\<exists>rest. ur_body up = body @ rest) \<and> st = ur_status up \<and>
       (trunc \<longleftrightarrow> hq_method rq \<noteq> ''HEAD'' \<and> body \<noteq> ur_body up) \<and>
       (hq_method rq = ''HEAD'' \<or> ur_length up \<le> max_access_bytes \<or> hq_method rq \<noteq> ''GET''))"
proof -
  obtain path where s: "access_serve env rq = (Served st h body trunc, path, sent)"
    using assms by (auto simp: serve_http_access_def split: prod.splits)
  obtain cfg fw up where up: "sent = Some fw" "hx_send env cfg fw = Some up" "relay rq up = Served st h body trunc"
    using s by (auto simp: access_serve_def Let_def split: prod.splits option.splits sum.splits)
  show ?thesis
  proof (cases "hq_method rq = ''HEAD''")
    case True
    with up show ?thesis by (auto simp: relay_def max_access_bytes_def split: if_splits)
  next
    case False
    with up(3) have b: "st = ur_status up" "body = take (nat max_access_bytes) (ur_body up)"
      "trunc = (max_access_bytes < int (length (ur_body up)))" "hq_method rq \<noteq> ''GET'' \<or> ur_length up \<le> max_access_bytes"
      by (auto simp: relay_def split: if_splits)
    have n: "0 \<le> max_access_bytes" by (simp add: max_access_bytes_def)
    have "trunc \<longleftrightarrow> body \<noteq> ur_body up" unfolding b(2,3) using n by (auto simp: nat_le_iff)
    moreover have "int (length body) \<le> max_access_bytes" unfolding b(2) using n by simp
    moreover have "\<exists>rest. ur_body up = body @ rest" unfolding b(2) by (metis append_take_drop_id)
    ultimately have "int (length body) \<le> max_access_bytes \<and> (\<exists>rest. ur_body up = body @ rest) \<and> st = ur_status up \<and>
      (trunc \<longleftrightarrow> hq_method rq \<noteq> ''HEAD'' \<and> body \<noteq> ur_body up) \<and>
      (hq_method rq = ''HEAD'' \<or> ur_length up \<le> max_access_bytes \<or> hq_method rq \<noteq> ''GET'')"
      using b(1,4) False by blast
    note facts = this
    show ?thesis
    proof (intro conjI exI)
      show "sent = Some fw" "hx_send env cfg fw = Some up" using up(1,2) .
      show "int (length body) \<le> max_access_bytes" "ur_body up = body @ drop (nat max_access_bytes) (ur_body up)" "st = ur_status up"
        using facts by (simp_all add: b(2))
      show "trunc \<longleftrightarrow> hq_method rq \<noteq> ''HEAD'' \<and> body \<noteq> ur_body up"
        "hq_method rq = ''HEAD'' \<or> ur_length up \<le> max_access_bytes \<or> hq_method rq \<noteq> ''GET''"
        using facts by blast+
    qed
  qed
qed

section \<open>Examples\<close>

definition demo_access_env :: "upstream_response option \<Rightarrow> (string, string, unit) access_env" where
  "demo_access_env up =
     \<lparr>hx_faults = no_faults, hx_roles = empty_table, hx_state = demo_clusters, hx_get = (\<lambda>d g ns n w. None), hx_world = (),
      hx_subdomain = dns_name, hx_port_name = (\<lambda>s. False), hx_url = (\<lambda>c. Some (''https'', ''api:6443'', [])),
      hx_transport = (\<lambda>c. True), hx_send = (\<lambda>c fw. up)\<rparr>"

definition demo_access_request :: "string \<Rightarrow> headers \<Rightarrow> access_request" where
  "demo_access_request p h =
     \<lparr>hq_method = ''GET'', hq_length = 0, hq_encoded = False, hq_id = ''1'', hq_kind = ''pods'', hq_ns = ''default'', hq_name = ''web-0'',
      hq_path = p, hq_query = [(''port'', [''8080'']), (''v'', [''1''])], hq_headers = h, hq_user = 2, hq_username = ''ann'',
      hq_role = ''admin'', hq_ip = ''::1'', hq_rid = None\<rparr>"

lemma demo_paths:
  "map normalized_http_path [[], ''/health/ready'', ''/../secret'', ''/%2e%2e/secret'', ''/%252e%252e/secret'', ''/a%2fb'', ''/a%00b'', ''/%''] =
     [Some ''/'', Some ''/health/ready'', None, None, None, None, None, None]"
  by code_simp

lemma demo_access_fields:
  "hx_send (demo_access_env up) c fw = up" "hq_kind (demo_access_request p h) = ''pods''" "hq_ns (demo_access_request p h) = ''default''"
  "hq_name (demo_access_request p h) = ''web-0''"
  by (simp_all add: demo_access_env_def demo_access_request_def)

lemma demo_precheck: "precheck (demo_access_env None) (demo_access_request ''/health'' []) = (''/health'', None)"
  by code_simp

lemma demo_target: "target_config (demo_access_env None) (demo_access_request ''/health'' []) ''8080'' = Inr (''cfg'', ''https'', ''api:6443'', [])"
proof -
  have "parse_uint ''1'' = Some 1" by (simp add: parse_uint_def)
  moreover have "atoi ''8080'' = (8080, True)" by (simp add: atoi_def parse_int_def unsigned_def)
  ultimately show ?thesis
    by (simp add: target_config_def demo_access_request_def demo_access_env_def demo_clusters_def demo_cluster_def
        cluster_get_by_id_def first_where_def cluster_live_def validate_port_def cm_rest_config_def new_access_client_def)
qed

lemma demo_upstream_path:
  "upstream_path [] ''pods'' ''default'' ''web-0'' ''8080'' ''/health'' = ''/api/v1/namespaces/default/pods/web-0:8080/proxy/health''"
  by code_simp

lemma demo_access_sent:
  "map_option up_path (snd (snd (access_serve (demo_access_env None) (demo_access_request ''/health'' [])))) =
     Some ''/api/v1/namespaces/default/pods/web-0:8080/proxy/health''"
proof -
  have "query_first (hq_query (demo_access_request ''/health'' [])) ''port'' = ''8080''"
    by (simp add: query_first_def demo_access_request_def)
  then show ?thesis using demo_upstream_path
    by (simp add: access_serve_def demo_precheck demo_target forward_request_def demo_access_fields)
qed


text \<open>
  Two kinds of headers pass that the filter means to stop: the identity that Kubernetes takes from the headers of
  impersonation, and a hop-by-hop header named by the second of two connection headers.
\<close>

lemma impersonation_passes:
  "filter_request_headers [(''Impersonate-User'', [''system:admin'']), (''Authorization'', [''Bearer x''])] =
     [(''Impersonate-User'', [''system:admin''])]"
  by code_simp

lemma second_connection_header_ignored:
  "filter_request_headers [(''Connection'', [''close'', ''X-Secret'']), (''X-Secret'', [''s''])] = [(''X-Secret'', [''s''])]"
  by code_simp

text \<open>A trailing slash is lost, which a target may tell apart.\<close>

lemma trailing_slash_lost: "normalized_http_path ''/app/'' = normalized_http_path ''/app''"
  by code_simp

end
