(* ===== verification/Settings.thy ===== *)
theory Settings
  imports Auth_Gate Passkeys Oauth_Signin Audit_Trail Registry_Client Go_Integers
begin

text \<open>
  Configuration (\<open>config/config.go\<close>): the defaults, the YAML file, the environment, and the secrets that are
  generated at the first start and kept in a file. The YAML library and the parser of durations are
  parameters; the random bytes of the two secrets are arguments. An environment variable that is not set
  is the empty string.
\<close>

section \<open>The configuration\<close>

record server_config =
  sc_port :: int

record database_config =
  dc_driver :: string
  dc_dsn :: string
  dc_max_open :: int
  dc_max_idle :: int
  dc_lifetime :: duration
  dc_idle_time :: duration
  dc_ping :: duration

record auth_config =
  ac_jwt_secret :: string
  ac_access_ttl :: duration
  ac_refresh_ttl :: duration
  ac_public_key :: pk_config

record kube_config =
  kc_kubeconfig :: string
  kc_resync :: duration
  kc_discovery :: duration

record plugin_endpoint =
  pe_url :: string
  pe_token :: string

record plugins_config =
  pc_prometheus :: plugin_endpoint
  pc_grafana :: plugin_endpoint
  pc_argocd :: plugin_endpoint

record registry_config =
  rg_registries :: "string list"
  rg_auth_hosts :: "string list"
  rg_private :: bool
  rg_http :: bool
  rg_connect :: duration
  rg_header :: duration
  rg_total :: duration
  rg_cache_ttl :: duration
  rg_max_bytes :: int
  rg_max_entries :: int
  rg_max_tags :: int

record socket_config =
  so_buffer :: int
  so_heartbeat :: duration

record app_config =
  cf_server :: server_config
  cf_database :: database_config
  cf_auth :: auth_config
  cf_kube :: kube_config
  cf_socket :: socket_config
  cf_audit :: audit_config
  cf_oauth :: oauth_settings
  cf_plugins :: plugins_config
  cf_registry :: registry_config
  cf_encrypt_key :: string

definition no_endpoint :: plugin_endpoint where "no_endpoint = \<lparr>pe_url = [], pe_token = []\<rparr>"

definition default_config :: app_config where
  "default_config =
     \<lparr>cf_server = \<lparr>sc_port = 8080\<rparr>,
      cf_database = \<lparr>dc_driver = ''sqlite'', dc_dsn = ''kubevision.db'', dc_max_open = 0, dc_max_idle = 0, dc_lifetime = 0,
                     dc_idle_time = 0, dc_ping = 5 * second\<rparr>,
      cf_auth = \<lparr>ac_jwt_secret = [], ac_access_ttl = 30 * minute, ac_refresh_ttl = 12 * hour,
                 ac_public_key = \<lparr>pg_enabled = False, pg_rp_id = [], pg_rp_name = ''KubeVision'', pg_origins = [],
                                  pg_verification = ''required'', pg_policy = ''deny'', pg_ttl = 5 * minute\<rparr>\<rparr>,
      cf_kube = \<lparr>kc_kubeconfig = [], kc_resync = 30 * minute, kc_discovery = 5 * minute\<rparr>,
      cf_socket = \<lparr>so_buffer = 1024, so_heartbeat = 30 * second\<rparr>,
      cf_audit = \<lparr>ac_enabled = True, ac_sync = False, ac_flush = 5 * second, ac_batch = 100, ac_retention = 90\<rparr>,
      cf_oauth = \<lparr>oc_enabled = False, oc_providers = []\<rparr>,
      cf_plugins = \<lparr>pc_prometheus = no_endpoint, pc_grafana = no_endpoint, pc_argocd = no_endpoint\<rparr>,
      cf_registry = \<lparr>rg_registries = [''docker.io'', ''registry-1.docker.io''], rg_auth_hosts = [''auth.docker.io''],
                     rg_private = False, rg_http = False, rg_connect = 3 * second, rg_header = 5 * second, rg_total = 10 * second,
                     rg_cache_ttl = 30 * second, rg_max_bytes = 2 * 2 ^ 20, rg_max_entries = 128, rg_max_tags = 100\<rparr>,
      cf_encrypt_key = []\<rparr>"

section \<open>The environment\<close>

type_synonym setter = "string \<Rightarrow> app_config \<Rightarrow> app_config"

definition split_csv :: "string \<Rightarrow> string list" where
  "split_csv v = filter (\<lambda>i. i \<noteq> []) (map trim_space (split_on CHR '','' v))"

definition env_int :: "(int \<Rightarrow> app_config \<Rightarrow> app_config) \<Rightarrow> setter" where
  "env_int f v c = (if snd (atoi v) then f (fst (atoi v)) c else c)"

definition env_duration :: "(string \<Rightarrow> duration option) \<Rightarrow> (duration \<Rightarrow> app_config \<Rightarrow> app_config) \<Rightarrow> setter" where
  "env_duration pd f v c = (case pd v of Some d \<Rightarrow> f d c | None \<Rightarrow> c)"

definition env_flag :: "(bool \<Rightarrow> app_config \<Rightarrow> app_config) \<Rightarrow> setter" where
  "env_flag f v c = f (equal_fold v ''true'' \<or> v = ''1'') c"

abbreviation in_database :: "(database_config \<Rightarrow> database_config) \<Rightarrow> app_config \<Rightarrow> app_config" where
  "in_database g c \<equiv> c\<lparr>cf_database := g (cf_database c)\<rparr>"
abbreviation in_auth :: "(auth_config \<Rightarrow> auth_config) \<Rightarrow> app_config \<Rightarrow> app_config" where
  "in_auth g c \<equiv> c\<lparr>cf_auth := g (cf_auth c)\<rparr>"
abbreviation in_public_key :: "(pk_config \<Rightarrow> pk_config) \<Rightarrow> app_config \<Rightarrow> app_config" where
  "in_public_key g c \<equiv> in_auth (\<lambda>a. a\<lparr>ac_public_key := g (ac_public_key a)\<rparr>) c"
abbreviation in_kube :: "(kube_config \<Rightarrow> kube_config) \<Rightarrow> app_config \<Rightarrow> app_config" where
  "in_kube g c \<equiv> c\<lparr>cf_kube := g (cf_kube c)\<rparr>"
abbreviation in_socket :: "(socket_config \<Rightarrow> socket_config) \<Rightarrow> app_config \<Rightarrow> app_config" where
  "in_socket g c \<equiv> c\<lparr>cf_socket := g (cf_socket c)\<rparr>"
abbreviation in_audit :: "(audit_config \<Rightarrow> audit_config) \<Rightarrow> app_config \<Rightarrow> app_config" where
  "in_audit g c \<equiv> c\<lparr>cf_audit := g (cf_audit c)\<rparr>"
abbreviation in_registry :: "(registry_config \<Rightarrow> registry_config) \<Rightarrow> app_config \<Rightarrow> app_config" where
  "in_registry g c \<equiv> c\<lparr>cf_registry := g (cf_registry c)\<rparr>"

definition env_overrides :: "(string \<Rightarrow> duration option) \<Rightarrow> (string \<times> setter) list" where
  "env_overrides pd =
     [(''KUBEVISION_SERVER_PORT'', env_int (\<lambda>n c. c\<lparr>cf_server := (cf_server c)\<lparr>sc_port := n\<rparr>\<rparr>)),
      (''KUBEVISION_DB_DRIVER'', \<lambda>v. in_database (\<lambda>d. d\<lparr>dc_driver := v\<rparr>)),
      (''KUBEVISION_DB_DSN'', \<lambda>v. in_database (\<lambda>d. d\<lparr>dc_dsn := v\<rparr>)),
      (''KUBEVISION_DB_MAX_OPEN_CONNS'', env_int (\<lambda>n. in_database (\<lambda>d. d\<lparr>dc_max_open := n\<rparr>))),
      (''KUBEVISION_DB_MAX_IDLE_CONNS'', env_int (\<lambda>n. in_database (\<lambda>d. d\<lparr>dc_max_idle := n\<rparr>))),
      (''KUBEVISION_DB_CONN_MAX_LIFETIME'', env_duration pd (\<lambda>t. in_database (\<lambda>d. d\<lparr>dc_lifetime := t\<rparr>))),
      (''KUBEVISION_DB_CONN_MAX_IDLE_TIME'', env_duration pd (\<lambda>t. in_database (\<lambda>d. d\<lparr>dc_idle_time := t\<rparr>))),
      (''KUBEVISION_DB_PING_TIMEOUT'', env_duration pd (\<lambda>t. in_database (\<lambda>d. d\<lparr>dc_ping := t\<rparr>))),
      (''KUBEVISION_JWT_SECRET'', \<lambda>v. in_auth (\<lambda>a. a\<lparr>ac_jwt_secret := v\<rparr>)),
      (''KUBEVISION_ACCESS_TOKEN_TTL'', env_duration pd (\<lambda>t. in_auth (\<lambda>a. a\<lparr>ac_access_ttl := t\<rparr>))),
      (''KUBEVISION_REFRESH_TOKEN_TTL'', env_duration pd (\<lambda>t. in_auth (\<lambda>a. a\<lparr>ac_refresh_ttl := t\<rparr>))),
      (''KUBEVISION_PUBLIC_KEY_ENABLED'', env_flag (\<lambda>b. in_public_key (\<lambda>k. k\<lparr>pg_enabled := b\<rparr>))),
      (''KUBEVISION_PUBLIC_KEY_RP_ID'', \<lambda>v. in_public_key (\<lambda>k. k\<lparr>pg_rp_id := trim_space v\<rparr>)),
      (''KUBEVISION_PUBLIC_KEY_RP_NAME'', \<lambda>v. in_public_key (\<lambda>k. k\<lparr>pg_rp_name := trim_space v\<rparr>)),
      (''KUBEVISION_PUBLIC_KEY_ORIGINS'', \<lambda>v. in_public_key (\<lambda>k. k\<lparr>pg_origins := split_csv v\<rparr>)),
      (''KUBEVISION_PUBLIC_KEY_UV'', \<lambda>v. in_public_key (\<lambda>k. k\<lparr>pg_verification := to_lower (trim_space v)\<rparr>)),
      (''KUBEVISION_PUBLIC_KEY_COUNTER_POLICY'', \<lambda>v. in_public_key (\<lambda>k. k\<lparr>pg_policy := to_lower (trim_space v)\<rparr>)),
      (''KUBEVISION_PUBLIC_KEY_CHALLENGE_TTL'', env_duration pd (\<lambda>t. in_public_key (\<lambda>k. k\<lparr>pg_ttl := t\<rparr>))),
      (''KUBECONFIG'', \<lambda>v. in_kube (\<lambda>k. k\<lparr>kc_kubeconfig := v\<rparr>)),
      (''KUBEVISION_KUBECONFIG'', \<lambda>v. in_kube (\<lambda>k. k\<lparr>kc_kubeconfig := v\<rparr>)),
      (''KUBEVISION_INFORMER_RESYNC'', env_duration pd (\<lambda>t. in_kube (\<lambda>k. k\<lparr>kc_resync := t\<rparr>))),
      (''KUBEVISION_WS_BROADCAST_BUFFER'', env_int (\<lambda>n. in_socket (\<lambda>s. s\<lparr>so_buffer := n\<rparr>))),
      (''KUBEVISION_WS_HEARTBEAT_INTERVAL'', env_duration pd (\<lambda>t. in_socket (\<lambda>s. s\<lparr>so_heartbeat := t\<rparr>))),
      (''KUBEVISION_AUDIT_ENABLED'', env_flag (\<lambda>b. in_audit (\<lambda>a. a\<lparr>ac_enabled := b\<rparr>))),
      (''KUBEVISION_AUDIT_RETENTION_DAYS'', env_int (\<lambda>n. in_audit (\<lambda>a. a\<lparr>ac_retention := n\<rparr>))),
      (''KUBEVISION_ENCRYPT_KEY'', \<lambda>v c. c\<lparr>cf_encrypt_key := v\<rparr>),
      (''KUBEVISION_CRD_DISCOVERY_INTERVAL'', env_duration pd (\<lambda>t. in_kube (\<lambda>k. k\<lparr>kc_discovery := t\<rparr>))),
      (''KUBEVISION_OAUTH_ENABLED'', env_flag (\<lambda>b c. c\<lparr>cf_oauth := (cf_oauth c)\<lparr>oc_enabled := b\<rparr>\<rparr>)),
      (''KUBEVISION_REGISTRY_ALLOWED'', \<lambda>v. in_registry (\<lambda>r. r\<lparr>rg_registries := split_csv v\<rparr>)),
      (''KUBEVISION_REGISTRY_AUTH_HOSTS'', \<lambda>v. in_registry (\<lambda>r. r\<lparr>rg_auth_hosts := split_csv v\<rparr>)),
      (''KUBEVISION_REGISTRY_ALLOW_PRIVATE'', env_flag (\<lambda>b. in_registry (\<lambda>r. r\<lparr>rg_private := b\<rparr>))),
      (''KUBEVISION_REGISTRY_ALLOW_HTTP'', env_flag (\<lambda>b. in_registry (\<lambda>r. r\<lparr>rg_http := b\<rparr>)))]"

definition apply_env_overrides :: "(string \<Rightarrow> duration option) \<Rightarrow> (string \<Rightarrow> string) \<Rightarrow> app_config \<Rightarrow> app_config" where
  "apply_env_overrides pd env c = fold (\<lambda>(n, f) c. if env n \<noteq> [] then f (env n) c else c) (env_overrides pd) c"

section \<open>Files and secrets\<close>

text \<open>The files by their paths; reading or writing one may fail.\<close>

record file_system =
  fs_files :: "(string, string) gomap"
  fs_unreadable :: "string \<Rightarrow> bool"
  fs_unwritable :: "string \<Rightarrow> bool"

datatype read_result = Missing | Unreadable | Contents string

definition read_file :: "file_system \<Rightarrow> string \<Rightarrow> read_result" where
  "read_file fs p =
     (if fs_unreadable fs p then Unreadable
      else case gm_get (fs_files fs) p of None \<Rightarrow> Missing | Some d \<Rightarrow> Contents d)"

definition write_file :: "string \<Rightarrow> string \<Rightarrow> file_system \<Rightarrow> file_system option" where
  "write_file p d fs = (if fs_unwritable fs p then None else Some (fs\<lparr>fs_files := gm_put p d (fs_files fs)\<rparr>))"

record secrets_data =
  se_jwt :: string
  se_key :: string

text \<open>\<open>yaml.Unmarshal\<close> fills in what it can before it fails: the value and whether it was read without an error.\<close>

record yaml_lib =
  yl_config :: "string \<Rightarrow> app_config \<Rightarrow> app_config option"
  yl_secrets :: "string \<Rightarrow> secrets_data \<times> bool"
  yl_print :: "secrets_data \<Rightarrow> string option"

definition secrets_file_path :: "(string \<Rightarrow> string) \<Rightarrow> string" where
  "secrets_file_path env =
     (if env ''KUBEVISION_SECRETS_FILE'' \<noteq> [] then env ''KUBEVISION_SECRETS_FILE'' else ''.kubevision-secrets.yaml'')"

definition existing_secrets :: "yaml_lib \<Rightarrow> (string \<Rightarrow> string) \<Rightarrow> file_system \<Rightarrow> secrets_data" where
  "existing_secrets y env fs =
     (case read_file fs (secrets_file_path env) of
        Contents d \<Rightarrow> fst (yl_secrets y d) | _ \<Rightarrow> \<lparr>se_jwt = [], se_key = []\<rparr>)"

definition persist_secrets :: "yaml_lib \<Rightarrow> (string \<Rightarrow> string) \<Rightarrow> app_config \<Rightarrow> file_system \<Rightarrow> file_system option" where
  "persist_secrets y env c fs =
     (let ex = existing_secrets y env fs;
          ex1 = (if se_jwt ex = [] then ex\<lparr>se_jwt := ac_jwt_secret (cf_auth c)\<rparr> else ex);
          ex2 = (if se_key ex1 = [] then ex1\<lparr>se_key := cf_encrypt_key c\<rparr> else ex1)
      in case yl_print y ex2 of None \<Rightarrow> None | Some d \<Rightarrow> write_file (secrets_file_path env) d fs)"

definition use_secrets :: "secrets_data \<Rightarrow> app_config \<Rightarrow> app_config" where
  "use_secrets s c =
     (let c1 = (if ac_jwt_secret (cf_auth c) = [] \<and> se_jwt s \<noteq> [] then in_auth (\<lambda>a. a\<lparr>ac_jwt_secret := se_jwt s\<rparr>) c else c)
      in if cf_encrypt_key c1 = [] \<and> se_key s \<noteq> [] then c1\<lparr>cf_encrypt_key := se_key s\<rparr> else c1)"

definition load_secrets :: "yaml_lib \<Rightarrow> (string \<Rightarrow> string) \<Rightarrow> file_system \<Rightarrow> app_config \<Rightarrow> app_config" where
  "load_secrets y env fs c =
     (case read_file fs (secrets_file_path env) of
        Contents d \<Rightarrow> (case yl_secrets y d of (s, ok) \<Rightarrow> if ok then use_secrets s c else c)
      | _ \<Rightarrow> c)"

definition random_hex :: "string option \<Rightarrow> string option" where "random_hex r = map_option hex_encode r"

text \<open>The file and the environment.\<close>

definition read_config ::
  "yaml_lib \<Rightarrow> (string \<Rightarrow> duration option) \<Rightarrow> (string \<Rightarrow> string) \<Rightarrow> string \<Rightarrow> file_system \<Rightarrow> string + app_config" where
  "read_config y pd env path fs =
     (let read = (if path = [] then Inr default_config
                  else case read_file fs path of
                         Missing \<Rightarrow> Inr default_config
                       | Unreadable \<Rightarrow> Inl ''read config file''
                       | Contents d \<Rightarrow> (case yl_config y d default_config of None \<Rightarrow> Inl ''parse config file'' | Some c \<Rightarrow> Inr c))
      in case read of Inl m \<Rightarrow> Inl m | Inr c \<Rightarrow> Inr (apply_env_overrides pd env c))"

text \<open>A secret that is missing or too short is replaced; the flag says whether one was.\<close>

definition fill_jwt :: "string option \<Rightarrow> app_config \<Rightarrow> string + (app_config \<times> bool)" where
  "fill_jwt r c =
     (if ac_jwt_secret (cf_auth c) = [] \<or> length (ac_jwt_secret (cf_auth c)) < 32 then
        (case random_hex r of
           None \<Rightarrow> Inl ''generate jwt secret'' | Some s \<Rightarrow> Inr (in_auth (\<lambda>a. a\<lparr>ac_jwt_secret := s\<rparr>) c, True))
      else Inr (c, False))"

definition fill_key :: "string option \<Rightarrow> app_config \<Rightarrow> string + (app_config \<times> bool)" where
  "fill_key r c =
     (if cf_encrypt_key c = [] then
        (case random_hex r of None \<Rightarrow> Inl ''generate encrypt key'' | Some s \<Rightarrow> Inr (c\<lparr>cf_encrypt_key := s\<rparr>, True))
      else Inr (c, False))"

definition load_config ::
  "yaml_lib \<Rightarrow> (string \<Rightarrow> duration option) \<Rightarrow> (string \<Rightarrow> string) \<Rightarrow> string option \<Rightarrow> string option \<Rightarrow> string \<Rightarrow> file_system \<Rightarrow>
     file_system \<times> (string + app_config)" where
  "load_config y pd env r1 r2 path fs =
     (case read_config y pd env path fs of
        Inl m \<Rightarrow> (fs, Inl m)
      | Inr c0 \<Rightarrow>
          (case fill_jwt r1 (load_secrets y env fs c0) of
             Inl m \<Rightarrow> (fs, Inl m)
           | Inr (c1, new1) \<Rightarrow>
               (case fill_key r2 c1 of
                  Inl m \<Rightarrow> (fs, Inl m)
                | Inr (c2, new2) \<Rightarrow>
                    if new1 \<or> new2 then
                      (case persist_secrets y env c2 fs of None \<Rightarrow> (fs, Inl ''persist secrets'') | Some fs' \<Rightarrow> (fs', Inr c2))
                    else (fs, Inr c2))))"

section \<open>The two secrets\<close>

abbreviation jwt_secret :: "app_config \<Rightarrow> string" where "jwt_secret c \<equiv> ac_jwt_secret (cf_auth c)"

definition set_secrets :: "string \<Rightarrow> string \<Rightarrow> app_config \<Rightarrow> app_config" where
  "set_secrets j k c = c\<lparr>cf_auth := (cf_auth c)\<lparr>ac_jwt_secret := j\<rparr>, cf_encrypt_key := k\<rparr>"

definition pick :: "string \<Rightarrow> string \<Rightarrow> string" where "pick own stored = (if own = [] then stored else own)"

lemma set_secrets_simps [simp]:
  "jwt_secret (set_secrets j k c) = j" "cf_encrypt_key (set_secrets j k c) = k"
  "set_secrets j k (set_secrets j' k' c) = set_secrets j k c" "set_secrets (jwt_secret c) (cf_encrypt_key c) c = c"
  by (simp_all add: set_secrets_def)

lemma use_secrets_set:
  "use_secrets s c = set_secrets (pick (jwt_secret c) (se_jwt s)) (pick (cf_encrypt_key c) (se_key s)) c"
  by (auto simp: use_secrets_def set_secrets_def pick_def Let_def)

lemma fill_jwt_set:
  "fill_jwt r (set_secrets j k c) =
     (if length j < 32 then (case random_hex r of None \<Rightarrow> Inl ''generate jwt secret'' | Some s \<Rightarrow> Inr (set_secrets s k c, True))
      else Inr (set_secrets j k c, False))"
  by (auto simp: fill_jwt_def set_secrets_def split: option.split)

lemma fill_key_set:
  "fill_key r (set_secrets j k c) =
     (if k = [] then (case random_hex r of None \<Rightarrow> Inl ''generate encrypt key'' | Some s \<Rightarrow> Inr (set_secrets j s c, True))
      else Inr (set_secrets j k c, False))"
  by (auto simp: fill_key_def set_secrets_def split: option.split)

text \<open>The secrets file is absent, or it was read in full.\<close>

definition secrets_whole :: "yaml_lib \<Rightarrow> (string \<Rightarrow> string) \<Rightarrow> file_system \<Rightarrow> bool" where
  "secrets_whole y env fs \<longleftrightarrow>
     (case read_file fs (secrets_file_path env) of
        Missing \<Rightarrow> True | Unreadable \<Rightarrow> False | Contents d \<Rightarrow> snd (yl_secrets y d))"

lemma load_secrets_whole:
  "secrets_whole y env fs \<Longrightarrow> load_secrets y env fs c = use_secrets (existing_secrets y env fs) c"
  by (auto simp: secrets_whole_def load_secrets_def existing_secrets_def use_secrets_def split: read_result.splits prod.split)

definition own_or_stored :: "yaml_lib \<Rightarrow> (string \<Rightarrow> string) \<Rightarrow> file_system \<Rightarrow> app_config \<Rightarrow> string \<times> string" where
  "own_or_stored y env fs c =
     (pick (jwt_secret c) (se_jwt (existing_secrets y env fs)), pick (cf_encrypt_key c) (se_key (existing_secrets y env fs)))"

lemma load_config_settled:
  assumes "read_config y pd env path fs = Inr c" "secrets_whole y env fs" "own_or_stored y env fs c = (j, k)"
    "32 \<le> length j" "k \<noteq> []"
  shows "load_config y pd env r1 r2 path fs = (fs, Inr (set_secrets j k c))"
  using assms(3-) by (simp add: load_config_def assms(1) load_secrets_whole [OF assms(2)] use_secrets_set own_or_stored_def fill_jwt_set fill_key_set)

lemma load_config_Inr:
  assumes "load_config y pd env r1 r2 path fs = (fs', Inr cfg)" "secrets_whole y env fs"
  obtains c j0 k0 j k where "read_config y pd env path fs = Inr c" "own_or_stored y env fs c = (j0, k0)" "cfg = set_secrets j k c"
    "if length j0 < 32 then random_hex r1 = Some j else j = j0" "if k0 = [] then random_hex r2 = Some k else k = k0"
    "if length j0 < 32 \<or> k0 = [] then persist_secrets y env cfg fs = Some fs' else fs' = fs"
proof -
  from assms(1) obtain c where c: "read_config y pd env path fs = Inr c"
    by (cases "read_config y pd env path fs") (auto simp: load_config_def)
  obtain j0 k0 where o: "own_or_stored y env fs c = (j0, k0)" by fastforce
  then have u: "load_secrets y env fs c = set_secrets j0 k0 c"
    by (simp add: load_secrets_whole [OF assms(2)] use_secrets_set own_or_stored_def)
  show thesis
    by (rule that [OF c o, where j = "jwt_secret cfg" and k = "cf_encrypt_key cfg"]) (use assms(1) in
      \<open>auto simp: load_config_def c u fill_jwt_set fill_key_set split: if_splits option.splits\<close>)
qed

text \<open>What is assumed of the YAML library, and of the random bytes.\<close>

definition secrets_codec :: "yaml_lib \<Rightarrow> bool" where
  "secrets_codec y \<longleftrightarrow> (\<forall>s d. yl_print y s = Some d \<longrightarrow> yl_secrets y d = (s, True))"

definition drawn :: "string option \<Rightarrow> bool" where "drawn r \<longleftrightarrow> (case r of None \<Rightarrow> True | Some b \<Rightarrow> length b = 32)"

lemma hex_encode_length: "length (hex_encode b) = 2 * length b"
  by (induction b) (simp_all add: hex_encode_def)

lemma random_hex_length: "drawn r \<Longrightarrow> random_hex r = Some s \<Longrightarrow> length s = 64"
  by (auto simp: drawn_def random_hex_def hex_encode_length)

lemma persisted_file:
  assumes "persist_secrets y env c fs = Some fs'" "secrets_codec y" "\<not> fs_unreadable fs (secrets_file_path env)"
  shows "secrets_whole y env fs' \<and>
    existing_secrets y env fs' = \<lparr>se_jwt = pick (se_jwt (existing_secrets y env fs)) (jwt_secret c),
      se_key = pick (se_key (existing_secrets y env fs)) (cf_encrypt_key c)\<rparr> \<and>
    (p \<noteq> secrets_file_path env \<longrightarrow> read_file fs' p = read_file fs p)"
proof -
  let ?ex = "existing_secrets y env fs" and ?p = "secrets_file_path env"
  let ?s = "\<lparr>se_jwt = pick (se_jwt ?ex) (jwt_secret c), se_key = pick (se_key ?ex) (cf_encrypt_key c)\<rparr>"
  have "persist_secrets y env c fs = (case yl_print y ?s of None \<Rightarrow> None | Some d \<Rightarrow> write_file ?p d fs)"
    by (cases "?ex") (simp add: persist_secrets_def Let_def pick_def)
  with assms(1) obtain d where d: "yl_print y ?s = Some d" "fs' = fs\<lparr>fs_files := gm_put ?p d (fs_files fs)\<rparr>"
    by (auto simp: write_file_def split: option.splits if_splits)
  have "read_file fs' ?p = Contents d" using assms(3) by (simp add: d(2) read_file_def)
  moreover have "yl_secrets y d = (?s, True)" using assms(2) d(1) by (simp add: secrets_codec_def)
  moreover have "p \<noteq> ?p \<Longrightarrow> read_file fs' p = read_file fs p" by (simp add: d(2) read_file_def)
  ultimately show ?thesis by (simp add: secrets_whole_def existing_secrets_def)
qed

lemma read_config_cong:
  "(path \<noteq> [] \<Longrightarrow> read_file fs' path = read_file fs path) \<Longrightarrow> read_config y pd env path fs' = read_config y pd env path fs"
  by (cases "path = []") (simp_all add: read_config_def)

section \<open>Properties\<close>


text \<open>
  A signing secret that is configured but too short is drawn anew at every start: the file keeps the first one,
  and is not looked at while one is configured.
\<close>

lemma short_secret_redrawn:
  assumes "secrets_whole y env fs" "load_config y pd env r1 r2 path fs = (fs', Inr cfg)"
    and "read_config y pd env path fs = Inr c" "jwt_secret c \<noteq> []" "length (jwt_secret c) < 32"
  shows "random_hex r1 = Some (jwt_secret cfg)"
  by (rule load_config_Inr [OF assms(2,1)]) (use assms(3-) in \<open>auto simp: own_or_stored_def pick_def split: if_splits\<close>)

text \<open>
  A secrets file that is read only in part is not used, but what was read of it is kept when it is written: the key in
  use is then not the one in the file.
\<close>

lemma partly_read_key_kept:
  assumes "secrets_codec y" "read_file fs (secrets_file_path env) = Contents d" "yl_secrets y d = (s, False)" "se_key s \<noteq> []"
    and "read_config y pd env path fs = Inr c" "cf_encrypt_key c = []"
    and "load_config y pd env r1 r2 path fs = (fs', Inr cfg)"
  shows "se_key (existing_secrets y env fs') = se_key s \<and> random_hex r2 = Some (cf_encrypt_key cfg)"
proof -
  have l: "load_secrets y env fs c = c" by (simp add: load_secrets_def assms(2,3))
  have r: "\<not> fs_unreadable fs (secrets_file_path env)" using assms(2) by (auto simp: read_file_def split: if_splits)
  have ex: "existing_secrets y env fs = s" by (simp add: existing_secrets_def assms(2,3))
  obtain c1 new1 where c1: "fill_jwt r1 c = Inr (c1, new1)" "cf_encrypt_key c1 = []"
    using assms(6,7) by (auto simp: load_config_def assms(5) l fill_jwt_def split: if_splits option.splits)
  then obtain h where h: "random_hex r2 = Some h" "persist_secrets y env (c1\<lparr>cf_encrypt_key := h\<rparr>) fs = Some fs'"
    "cfg = c1\<lparr>cf_encrypt_key := h\<rparr>"
    using assms(7) by (auto simp: load_config_def assms(5) l fill_key_def split: if_splits option.splits)
  show ?thesis using persisted_file [OF h(2) assms(1) r] h(1,3) assms(4) by (simp add: ex pick_def)
qed

section \<open>Examples\<close>

definition demo_yaml :: yaml_lib where
  "demo_yaml =
     \<lparr>yl_config = (\<lambda>d c. None),
      yl_secrets = (\<lambda>d. case cut CHR 0x0A d of
                         Some (a, b) \<Rightarrow> (\<lparr>se_jwt = a, se_key = b\<rparr>, True) | None \<Rightarrow> (\<lparr>se_jwt = [], se_key = []\<rparr>, False)),
      yl_print = (\<lambda>s. if CHR 0x0A \<in> set (se_jwt s) then None else Some (se_jwt s @ CHR 0x0A # se_key s))\<rparr>"

definition demo_files :: file_system where
  "demo_files = \<lparr>fs_files = [], fs_unreadable = (\<lambda>p. False), fs_unwritable = (\<lambda>p. False)\<rparr>"

lemma demo_yaml_codec: "secrets_codec demo_yaml"
  by (auto simp: secrets_codec_def demo_yaml_def split: if_splits)

lemma demo_first_start:
  "isOk (snd (load_config demo_yaml (\<lambda>_. None) (\<lambda>_. []) (Some (replicate 32 CHR ''a'')) (Some (replicate 32 CHR ''b'')) [] demo_files))"
  by code_simp


end
