(* ===== verification/Ai_Client.thy ===== *)
theory Ai_Client
  imports Ai_Sessions Biz_Errors
begin

text \<open>
  The client of the model provider (\<open>ai/openai.go\<close>), the configuration it is built from and its defaults
  (\<open>ai/config.go\<close>), and the system prompt (\<open>ai/prompt.go\<close>). The HTTP exchange and the JSON decoders are parameters.
\<close>

section \<open>The configuration\<close>

record ai_config =
  ai_enabled :: bool
  ai_base_url :: string
  ai_api_key :: string
  ai_model :: string
  ai_max_tokens :: int

definition default_model :: string where "default_model = ''gpt-4o-mini''"
definition default_base_url :: string where "default_base_url = ''https://api.openai.com/v1''"
definition default_max_tokens :: int where "default_max_tokens = 4096"
definition maximum_max_tokens :: int where "maximum_max_tokens = 32768"

definition with_defaults :: "ai_config \<Rightarrow> ai_config" where
  "with_defaults c =
     c\<lparr>ai_base_url := (if ai_base_url c = [] then default_base_url else ai_base_url c),
       ai_model := (if ai_model c = [] then default_model else ai_model c),
       ai_max_tokens := (if ai_max_tokens c \<le> 0 then default_max_tokens
                         else if maximum_max_tokens < ai_max_tokens c then maximum_max_tokens else ai_max_tokens c)\<rparr>"

definition ai_ready :: "ai_config \<Rightarrow> bool" where "ai_ready c \<longleftrightarrow> ai_enabled c \<and> ai_api_key c \<noteq> []"

lemma with_defaults_idem [simp]: "with_defaults (with_defaults c) = with_defaults c"
  by (simp add: with_defaults_def default_base_url_def default_model_def default_max_tokens_def maximum_max_tokens_def)

lemma with_defaults_tokens: "1 \<le> ai_max_tokens (with_defaults c) \<and> ai_max_tokens (with_defaults c) \<le> 32768"
  by (simp add: with_defaults_def default_max_tokens_def maximum_max_tokens_def)

section \<open>The stream of an answer\<close>

record call_delta =
  cd_index :: int
  cd_id :: string
  cd_name :: string
  cd_args :: string

record stream_delta =
  sd_content :: string
  sd_calls :: "call_delta list"

record call_acc =
  acc_id :: string
  acc_name :: string
  acc_args :: string

definition no_call :: call_acc where "no_call = \<lparr>acc_id = [], acc_name = [], acc_args = []\<rparr>"

definition or_else :: "string \<Rightarrow> string \<Rightarrow> string" where "or_else new old = (if new \<noteq> [] then new else old)"

text \<open>The calls under way by index; \<open>gm_put\<close> puts a new index at the end, as the code's list of indices does.\<close>

definition add_call :: "call_delta \<Rightarrow> (int, call_acc) gomap \<Rightarrow> (int, call_acc) gomap" where
  "add_call d m =
     (let a = (case gm_get m (cd_index d) of Some a \<Rightarrow> a | None \<Rightarrow> no_call);
          a' = \<lparr>acc_id = or_else (cd_id d) (acc_id a), acc_name = or_else (cd_name d) (acc_name a), acc_args = acc_args a @ cd_args d\<rparr>
      in gm_put (cd_index d) a' m)"

definition finished_calls :: "(int, call_acc) gomap \<Rightarrow> tool_call list" where
  "finished_calls m =
     map (\<lambda>(i, a). \<lparr>tc_id = acc_id a, tc_type = ''function'', tc_name = acc_name a, tc_args = acc_args a\<rparr>)
       (filter (\<lambda>(i, a). acc_name a \<noteq> []) m)"

text \<open>
  A line of the stream is one of the scanner, which stops with an error at a line of a mebibyte. The decoder gives the
  delta of the first choice; \<open>None\<close> is a frame that is malformed or has no choice. The result is the deltas of text in
  order, and the message, or the text of the error.
\<close>

definition max_stream_line :: nat where "max_stream_line = 1024 * 1024"

datatype frame = Skip | Finish | Frame stream_delta

definition read_frame :: "(string \<Rightarrow> stream_delta option) \<Rightarrow> string \<Rightarrow> frame" where
  "read_frame dec line =
     (if \<not> has_prefix line ''data:'' then Skip
      else (let data = trim_space (trim_prefix line ''data:'') in
            if data = [] then Skip
            else if data = ''[DONE]'' then Finish
            else case dec data of None \<Rightarrow> Skip | Some d \<Rightarrow> Frame d))"

fun parse_lines ::
  "(string \<Rightarrow> stream_delta option) \<Rightarrow> string list \<Rightarrow> string list \<Rightarrow> (int, call_acc) gomap \<Rightarrow> string list \<times> (string + message)" where
  "parse_lines dec [] texts calls =
     (texts, Inr \<lparr>msg_role = ''assistant'', msg_content = concat texts, msg_calls = finished_calls calls, msg_call_id = []\<rparr>)"
| "parse_lines dec (l # ls) texts calls =
     (if max_stream_line \<le> length l then (texts, Inl ''read LLM stream: bufio.Scanner: token too long'')
      else (case read_frame dec l of
              Skip \<Rightarrow> parse_lines dec ls texts calls
            | Finish \<Rightarrow> parse_lines dec [] texts calls
            | Frame d \<Rightarrow>
                parse_lines dec ls (if sd_content d \<noteq> [] then texts @ [sd_content d] else texts) (fold add_call (sd_calls d) calls)))"

definition parse_stream :: "(string \<Rightarrow> stream_delta option) \<Rightarrow> string list \<Rightarrow> string list \<times> (string + message)" where
  "parse_stream dec ls = parse_lines dec ls [] []"

section \<open>The client\<close>

record ai_client =
  lc_base_url :: string
  lc_api_key :: string
  lc_model :: string
  lc_max_tokens :: int

definition trim_right_slashes :: "string \<Rightarrow> string" where
  "trim_right_slashes s = rev (dropWhile (\<lambda>c. c = CHR ''/'') (rev s))"

definition new_ai_client :: "ai_config \<Rightarrow> ai_client" where
  "new_ai_client cfg =
     (let c = with_defaults cfg in
      \<lparr>lc_base_url = trim_right_slashes (ai_base_url c), lc_api_key = ai_api_key c, lc_model = ai_model c,
       lc_max_tokens = ai_max_tokens c\<rparr>)"

text \<open>
  What is sent: the URL and the authorization, for a chat also the model, the messages and the token limit. \<open>an_bad_url\<close> is
  the error of a URL that makes no request. The answer is an
  error, or a status with the lines of the body; \<open>None\<close> of the first decoder is a list of models that does not decode.
\<close>

record ai_call =
  ap_url :: string
  ap_authorization :: string
  ap_body :: "(string \<times> message list \<times> int) option"

record ai_net =
  an_bad_url :: "string \<Rightarrow> string option"
  an_send :: "ai_call \<Rightarrow> string + int \<times> string list"
  an_models :: "string list \<Rightarrow> string list option"
  an_delta :: "string \<Rightarrow> stream_delta option"

definition provider_error :: "string \<Rightarrow> int \<Rightarrow> string list \<Rightarrow> string" where
  "provider_error what status body = what @ '' returned '' @ dec_int status @ '': '' @ trim_space (take 4096 (join_with CHR 0x0A body))"

definition list_models :: "ai_net \<Rightarrow> ai_client \<Rightarrow> string + string list" where
  "list_models n c =
     (case an_bad_url n (lc_base_url c @ ''/models'') of
        Some m \<Rightarrow> Inl m
      | None \<Rightarrow>
          (case an_send n \<lparr>ap_url = lc_base_url c @ ''/models'', ap_authorization = ''Bearer '' @ lc_api_key c, ap_body = None\<rparr> of
             Inl m \<Rightarrow> Inl (''list LLM models: '' @ m)
           | Inr (status, body) \<Rightarrow>
               if status \<noteq> 200 then Inl (provider_error ''model provider'' status body)
               else (case an_models n body of None \<Rightarrow> Inl ''decode model list'' | Some ms \<Rightarrow> Inr ms)))"

definition chat_call :: "ai_client \<Rightarrow> message list \<Rightarrow> ai_call" where
  "chat_call c msgs =
     \<lparr>ap_url = lc_base_url c @ ''/chat/completions'', ap_authorization = ''Bearer '' @ lc_api_key c,
      ap_body = Some (lc_model c, msgs, lc_max_tokens c)\<rparr>"

definition stream_chat :: "ai_net \<Rightarrow> ai_client \<Rightarrow> message list \<Rightarrow> string list \<times> (string + message)" where
  "stream_chat n c msgs =
     (case an_bad_url n (ap_url (chat_call c msgs)) of
        Some m \<Rightarrow> ([], Inl m)
      | None \<Rightarrow>
          (case an_send n (chat_call c msgs) of
             Inl m \<Rightarrow> ([], Inl (''call LLM: '' @ m))
           | Inr (status, body) \<Rightarrow>
               if status \<noteq> 200 then ([], Inl (provider_error ''LLM'' status body))
               else parse_stream (an_delta n) body))"

section \<open>The prompt\<close>

record prompt_context =
  px_cluster :: string
  px_role :: string
  px_page :: string
  px_namespace :: string
  px_kind :: string
  px_name :: string

text \<open>The contract of the assistant is a fixed text, the argument \<open>base\<close>.\<close>

definition context_line :: "string \<Rightarrow> string \<Rightarrow> string" where
  "context_line label v = (if v \<noteq> [] then ''- '' @ label @ '': '' @ v @ [CHR 0x0A] else [])"

definition build_system_prompt :: "string \<Rightarrow> prompt_context \<Rightarrow> string" where
  "build_system_prompt base c =
     base @ [CHR 0x0A, CHR 0x0A] @ ''Current context:'' @ [CHR 0x0A] @ ''- Cluster: '' @ px_cluster c @ [CHR 0x0A] @
     context_line ''Your role'' (px_role c) @ context_line ''Page'' (px_page c) @ context_line ''Namespace'' (px_namespace c) @
     (if px_kind c \<noteq> [] \<and> px_name c \<noteq> [] then ''- Focused resource: '' @ px_kind c @ ''/'' @ px_name c @ [CHR 0x0A] else [])"

section \<open>What the stream adds up to\<close>

text \<open>The reference: all frames at once, the fragments of one call picked out by their index.\<close>

fun frames :: "(string \<Rightarrow> stream_delta option) \<Rightarrow> string list \<Rightarrow> stream_delta list" where
  "frames dec [] = []"
| "frames dec (l # ls) = (case read_frame dec l of Skip \<Rightarrow> frames dec ls | Finish \<Rightarrow> [] | Frame d \<Rightarrow> d # frames dec ls)"

definition first_seen :: "int list \<Rightarrow> int list" where
  "first_seen is = fold (\<lambda>i seen. if i \<in> set seen then seen else seen @ [i]) is []"

definition call_at :: "call_delta list \<Rightarrow> int \<Rightarrow> call_acc" where
  "call_at ds i =
     (let es = filter (\<lambda>d. cd_index d = i) ds in
      \<lparr>acc_id = fold or_else (map cd_id es) [], acc_name = fold or_else (map cd_name es) [], acc_args = concat (map cd_args es)\<rparr>)"

lemma first_seen_snoc: "first_seen (is @ [i]) = (if i \<in> set (first_seen is) then first_seen is else first_seen is @ [i])"
  by (simp add: first_seen_def)

lemma first_seen_props: "distinct (first_seen is) \<and> set (first_seen is) = set is"
  by (induction "is" rule: rev_induct) (auto simp: first_seen_def)

lemma gm_put_map:
  assumes "distinct is"
  shows "gm_put k v (map (\<lambda>i. (i, f i)) is) =
    (if k \<in> set is then map (\<lambda>i. (i, if i = k then v else f i)) is else map (\<lambda>i. (i, f i)) is @ [(k, v)])"
  using assms by (induction "is") (auto simp: gm_put_def)

lemma gm_get_map: "gm_get (map (\<lambda>i. (i, f i)) is) k = (if k \<in> set is then Some (f k) else None)"
  by (induction "is") auto

lemma call_at_absent: "k \<notin> cd_index ` set ds \<Longrightarrow> call_at ds k = no_call"
proof -
  assume "k \<notin> cd_index ` set ds"
  then have "filter (\<lambda>d. cd_index d = k) ds = []" by (auto simp: filter_empty_conv)
  then show ?thesis by (simp add: call_at_def no_call_def)
qed

lemma fold_add_call: "fold add_call ds [] = map (\<lambda>i. (i, call_at ds i)) (first_seen (map cd_index ds))"
proof (induction ds rule: rev_induct)
  case (snoc d ds)
  let ?is = "first_seen (map cd_index ds)" and ?k = "cd_index d"
  have "is": "distinct ?is" "set ?is = cd_index ` set ds" using first_seen_props [of "map cd_index ds"] by auto
  let ?a = "case gm_get (map (\<lambda>i. (i, call_at ds i)) ?is) ?k of Some a \<Rightarrow> a | None \<Rightarrow> no_call"
  have a: "?a = call_at ds ?k" using "is"(2) by (auto simp: gm_get_map call_at_absent)
  have new: "\<lparr>acc_id = or_else (cd_id d) (acc_id (call_at ds ?k)), acc_name = or_else (cd_name d) (acc_name (call_at ds ?k)),
      acc_args = acc_args (call_at ds ?k) @ cd_args d\<rparr> = call_at (ds @ [d]) ?k"
    by (simp add: call_at_def Let_def)
  have other: "call_at (ds @ [d]) i = call_at ds i" if "i \<noteq> ?k" for i using that by (simp add: call_at_def)
  have "fold add_call (ds @ [d]) [] = gm_put ?k (call_at (ds @ [d]) ?k) (map (\<lambda>i. (i, call_at ds i)) ?is)"
    by (simp add: snoc.IH add_call_def Let_def a new)
  also have "\<dots> = map (\<lambda>i. (i, call_at (ds @ [d]) i)) (first_seen (map cd_index (ds @ [d])))"
  proof (cases "?k \<in> set ?is")
    case True
    then show ?thesis using other by (auto simp: gm_put_map [OF "is"(1)] first_seen_snoc)
  next
    case False
    then have "\<forall>i \<in> set ?is. call_at ds i = call_at (ds @ [d]) i" using other by metis
    with False show ?thesis by (simp add: gm_put_map [OF "is"(1)] first_seen_snoc)
  qed
  finally show ?case .
qed (simp add: first_seen_def)

lemma parse_lines_frames:
  assumes "list_all (\<lambda>l. length l < max_stream_line) ls"
  shows "parse_lines dec ls texts calls =
    (texts @ filter (\<lambda>t. t \<noteq> []) (map sd_content (frames dec ls)),
     Inr \<lparr>msg_role = ''assistant'', msg_content = concat texts @ concat (map sd_content (frames dec ls)),
       msg_calls = finished_calls (fold add_call (concat (map sd_calls (frames dec ls))) calls), msg_call_id = []\<rparr>)"
  using assms by (induction ls arbitrary: texts calls) (auto split: frame.split)

text \<open>
  C36. However the provider cuts an answer into frames and interleaves the fragments of its tool calls, what comes out is
  their sum: the text is the concatenation of the deltas, which are also what was shown, and the call of an index has the
  concatenation of the fragments of its arguments, the last identifier and name given for it, in the order in which
  the calls began. Frames that cannot be read and what follows the end mark change nothing.
\<close>

theorem stream_assembled_by_index:
  assumes "list_all (\<lambda>l. length l < max_stream_line) ls"
  shows "parse_stream dec ls =
    (filter (\<lambda>t. t \<noteq> []) (map sd_content (frames dec ls)),
     Inr \<lparr>msg_role = ''assistant'', msg_content = concat (map sd_content (frames dec ls)),
       msg_calls = (let ds = concat (map sd_calls (frames dec ls)) in
         map (\<lambda>i. \<lparr>tc_id = acc_id (call_at ds i), tc_type = ''function'', tc_name = acc_name (call_at ds i), tc_args = acc_args (call_at ds i)\<rparr>)
           (filter (\<lambda>i. acc_name (call_at ds i) \<noteq> []) (first_seen (map cd_index ds)))),
       msg_call_id = []\<rparr>)"
  by (simp add: parse_stream_def parse_lines_frames [OF assms] fold_add_call finished_calls_def Let_def filter_map comp_def)

section \<open>Examples\<close>

definition demo_delta :: "string \<Rightarrow> stream_delta option" where
  "demo_delta s =
     (if s = ''a'' then Some \<lparr>sd_content = ''Hi'', sd_calls = [\<lparr>cd_index = 1, cd_id = ''y'', cd_name = ''g'', cd_args = ''{''\<rparr>]\<rparr>
      else if s = ''b'' then Some \<lparr>sd_content = [], sd_calls = [\<lparr>cd_index = 0, cd_id = ''x'', cd_name = ''f'', cd_args = ''1''\<rparr>,
        \<lparr>cd_index = 1, cd_id = [], cd_name = [], cd_args = ''}''\<rparr>]\<rparr>
      else None)"

theorem stream_assembled_by_index_witness:
  "parse_stream demo_delta [''data: a'', '': ping'', ''data: b'', ''data: [DONE]'', ''data: a''] =
     ([''Hi''], Inr \<lparr>msg_role = ''assistant'', msg_content = ''Hi'', msg_calls =
        [\<lparr>tc_id = ''y'', tc_type = ''function'', tc_name = ''g'', tc_args = ''{}''\<rparr>,
         \<lparr>tc_id = ''x'', tc_type = ''function'', tc_name = ''f'', tc_args = ''1''\<rparr>], msg_call_id = []\<rparr>)"
proof -
  let ?ls = "[''data: a'', '': ping'', ''data: b'', ''data: [DONE]'', ''data: a'']"
  have "list_all (\<lambda>l. length l < max_stream_line) ?ls" by (simp add: max_stream_line_def)
  moreover have "frames demo_delta ?ls = [\<lparr>sd_content = ''Hi'', sd_calls = [\<lparr>cd_index = 1, cd_id = ''y'', cd_name = ''g'', cd_args = ''{''\<rparr>]\<rparr>,
      \<lparr>sd_content = [], sd_calls = [\<lparr>cd_index = 0, cd_id = ''x'', cd_name = ''f'', cd_args = ''1''\<rparr>, \<lparr>cd_index = 1, cd_id = [], cd_name = [], cd_args = ''}''\<rparr>]\<rparr>]"
    by code_simp
  ultimately show ?thesis
    by (subst stream_assembled_by_index) (simp_all add: Let_def first_seen_def call_at_def or_else_def)
qed

text \<open>What the caller says of the page he is on becomes part of the system message as it is, line breaks included.\<close>

lemma page_text_in_system_prompt:
  "build_system_prompt base \<lparr>px_cluster = c, px_role = [], px_page = ''x'' @ CHR 0x0A # t, px_namespace = [], px_kind = [], px_name = []\<rparr> =
     base @ [CHR 0x0A, CHR 0x0A] @ ''Current context:'' @ [CHR 0x0A] @ ''- Cluster: '' @ c @ [CHR 0x0A] @ ''- Page: x'' @ [CHR 0x0A] @ t @ [CHR 0x0A]"
  by (simp add: build_system_prompt_def context_line_def)

end
