(* ===== verification/Secret_Box.thy ===== *)
theory Secret_Box
  imports Biz_Errors
begin

text \<open>
  Encryption of stored secrets (\<open>auth/crypto.go\<close>): a text is sealed with AES-256-GCM under the SHA-256 of the key,
  with a random nonce in front, and written in base64. SHA-256 and GCM are parameters; base64 is modelled.
\<close>

section \<open>Base64\<close>

text \<open>The alphabet: upper case, lower case, digits, plus and slash.\<close>

definition b64_char :: "nat \<Rightarrow> char" where
  "b64_char n =
     char_of (if n < 26 then 65 + n else if n < 52 then 71 + n else if n < 62 then n - 4 else if n = 62 then 43 else 47)"

definition b64_value :: "char \<Rightarrow> nat option" where
  "b64_value c =
     (let n = of_char c :: nat in
      if 65 \<le> n \<and> n \<le> 90 then Some (n - 65)
      else if 97 \<le> n \<and> n \<le> 122 then Some (n - 71)
      else if 48 \<le> n \<and> n \<le> 57 then Some (n + 4)
      else if n = 43 then Some 62 else if n = 47 then Some 63 else None)"

fun b64_encode :: "nat list \<Rightarrow> string" where
  "b64_encode [] = []"
| "b64_encode [a] = [b64_char (a div 4), b64_char (a mod 4 * 16), CHR ''='', CHR ''='']"
| "b64_encode [a, b] = [b64_char (a div 4), b64_char (a mod 4 * 16 + b div 16), b64_char (b mod 16 * 4), CHR ''='']"
| "b64_encode (a # b # c # r) =
     b64_char (a div 4) # b64_char (a mod 4 * 16 + b div 16) # b64_char (b mod 16 * 4 + c div 64) # b64_char (c mod 64) # b64_encode r"

text \<open>The decoder skips line ends; padding is allowed in the last group only.\<close>

fun b64_groups :: "string \<Rightarrow> nat list option" where
  "b64_groups [] = Some []"
| "b64_groups (w # x # y # z # r) =
     (case (b64_value w, b64_value x) of
        (Some i, Some j) \<Rightarrow>
          if y = CHR ''='' then (if z = CHR ''='' \<and> r = [] then Some [i * 4 + j div 16] else None)
          else (case b64_value y of
                  None \<Rightarrow> None
                | Some k \<Rightarrow>
                    if z = CHR ''='' then (if r = [] then Some [i * 4 + j div 16, j mod 16 * 16 + k div 4] else None)
                    else (case b64_value z of
                            None \<Rightarrow> None
                          | Some l \<Rightarrow>
                              map_option (\<lambda>bs. (i * 4 + j div 16) # (j mod 16 * 16 + k div 4) # (k mod 4 * 64 + l) # bs) (b64_groups r)))
      | _ \<Rightarrow> None)"
| "b64_groups _ = None"

definition b64_decode :: "string \<Rightarrow> nat list option" where
  "b64_decode s = b64_groups (filter (\<lambda>c. c \<noteq> CHR 0x0A \<and> c \<noteq> CHR 0x0D) s)"

lemma b64_char_ok:
  assumes "n < 64"
  shows "b64_value (b64_char n) = Some n" "b64_char n \<noteq> CHR ''=''" "b64_char n \<noteq> CHR 0x0A" "b64_char n \<noteq> CHR 0x0D"
proof -
  show v: "b64_value (b64_char n) = Some n" using assms by (auto simp: b64_value_def b64_char_def Let_def)
  have "b64_value CHR ''='' = None" "b64_value CHR 0x0A = None" "b64_value CHR 0x0D = None" by (simp_all add: b64_value_def)
  with v show "b64_char n \<noteq> CHR ''=''" "b64_char n \<noteq> CHR 0x0A" "b64_char n \<noteq> CHR 0x0D" by (metis option.distinct(1))+
qed

text \<open>A sextet made of the end of one byte and the beginning of the next gives both back.\<close>

lemma b64_joint:
  fixes x y m n :: nat
  assumes "y < m * n" "0 < n"
  shows "(x * m + y div n) div m = x \<and> (x * m + y div n) mod m * n + y mod n = y"
proof -
  have "y div n < m" using assms by (simp add: less_mult_imp_div_less)
  then show ?thesis using div_mult_mod_eq [of y n] by simp
qed

lemma b64_bounds:
  fixes a b :: nat
  shows "a < 256 \<Longrightarrow> a div 4 < 64" "a mod 4 * 16 < 64" "b < 256 \<Longrightarrow> a mod 4 * 16 + b div 16 < 64" "a mod 16 * 4 < 64"
    "b < 256 \<Longrightarrow> a mod 16 * 4 + b div 64 < 64" "a mod 64 < 64"
  by auto

lemma b64_joins:
  fixes a b :: nat
  shows "a div 4 * 4 + a mod 4 * 16 div 16 = a" "b < 256 \<Longrightarrow> a div 4 * 4 + (a mod 4 * 16 + b div 16) div 16 = a"
    "a < 256 \<Longrightarrow> (x * 16 + a div 16) mod 16 * 16 + a mod 16 * 4 div 4 = a"
    "a < 256 \<Longrightarrow> b < 256 \<Longrightarrow> (x * 16 + a div 16) mod 16 * 16 + (a mod 16 * 4 + b div 64) div 4 = a"
    "b < 256 \<Longrightarrow> (x * 4 + b div 64) mod 4 * 64 + b mod 64 = b"
  using b64_joint [of b 16 16 "a mod 4"] b64_joint [of a 16 16 x] b64_joint [of b 4 64 "a mod 16"] b64_joint [of b 4 64 x] by simp_all

lemma b64_groups_encode: "list_all (\<lambda>b. b < 256) bs \<Longrightarrow> b64_groups (b64_encode bs) = Some bs"
proof (induction bs rule: b64_encode.induct)
  case (2 a)
  then show ?case using b64_joins(1) [of a] by (simp add: b64_char_ok b64_bounds)
next
  case (3 a b)
  then show ?case using b64_joins(2) [of b a] b64_joins(3) [of b "a mod 4"] by (simp add: b64_char_ok b64_bounds)
next
  case (4 a b c r)
  then show ?case
    using b64_joins(2) [of b a] b64_joins(4) [of b c "a mod 4"] b64_joins(5) [of c "b mod 16"] by (simp add: b64_char_ok b64_bounds)
qed simp

lemma b64_encode_plain: "list_all (\<lambda>b. b < 256) bs \<Longrightarrow> filter (\<lambda>c. c \<noteq> CHR 0x0A \<and> c \<noteq> CHR 0x0D) (b64_encode bs) = b64_encode bs"
  by (induction bs rule: b64_encode.induct) (simp_all add: b64_char_ok b64_bounds)

lemma b64_roundtrip: "list_all (\<lambda>b. b < 256) bs \<Longrightarrow> b64_decode (b64_encode bs) = Some bs"
  by (simp add: b64_decode_def b64_encode_plain b64_groups_encode)

section \<open>Encryption\<close>

text \<open>\<open>gcm_seal\<close> and \<open>gcm_open\<close> take the key, the nonce and the data; opening fails when the data was not sealed so.\<close>

record box_lib =
  bl_sha :: "string \<Rightarrow> nat list"
  bl_nonce_size :: nat
  bl_seal :: "nat list \<Rightarrow> nat list \<Rightarrow> nat list \<Rightarrow> nat list"
  bl_open :: "nat list \<Rightarrow> nat list \<Rightarrow> nat list \<Rightarrow> nat list option"

definition derive_key :: "box_lib \<Rightarrow> string \<Rightarrow> nat list" where "derive_key b key = bl_sha b key"

definition text_bytes :: "string \<Rightarrow> nat list" where "text_bytes s = map of_char s"
definition bytes_text :: "nat list \<Rightarrow> string" where "bytes_text bs = map char_of bs"

text \<open>The nonce is what the source of randomness gave; \<open>None\<close> when it failed.\<close>

definition box_encrypt :: "box_lib \<Rightarrow> nat list option \<Rightarrow> string \<Rightarrow> string \<Rightarrow> string option" where
  "box_encrypt b nonce plain key =
     (case nonce of
        None \<Rightarrow> None
      | Some n \<Rightarrow> Some (b64_encode (n @ bl_seal b (derive_key b key) n (text_bytes plain))))"

definition box_decrypt :: "box_lib \<Rightarrow> string \<Rightarrow> string \<Rightarrow> string + string" where
  "box_decrypt b c key =
     (case b64_decode c of
        None \<Rightarrow> Inl ''decode base64''
      | Some data \<Rightarrow>
          if length data < bl_nonce_size b then Inl ''ciphertext too short''
          else (case bl_open b (derive_key b key) (take (bl_nonce_size b) data) (drop (bl_nonce_size b) data) of
                  None \<Rightarrow> Inl ''decrypt'' | Some p \<Rightarrow> Inr (bytes_text p)))"

text \<open>What is assumed of GCM: opening undoes sealing, and bytes are bytes.\<close>

definition gcm_ok :: "box_lib \<Rightarrow> bool" where
  "gcm_ok b \<longleftrightarrow>
     (\<forall>k n p. length n = bl_nonce_size b \<longrightarrow> list_all (\<lambda>x. x < 256) p \<longrightarrow> bl_open b k n (bl_seal b k n p) = Some p) \<and>
     (\<forall>k n p. list_all (\<lambda>x. x < 256) (bl_seal b k n p))"

definition nonce_ok :: "box_lib \<Rightarrow> nat list option \<Rightarrow> bool" where
  "nonce_ok b r \<longleftrightarrow> (case r of None \<Rightarrow> True | Some n \<Rightarrow> length n = bl_nonce_size b \<and> list_all (\<lambda>x. x < 256) n)"

lemma bytes_text_inverse [simp]: "bytes_text (text_bytes s) = s"
  by (simp add: bytes_text_def text_bytes_def comp_def)

lemma box_roundtrip:
  assumes "gcm_ok b" "nonce_ok b r" "box_encrypt b r plain key = Some c"
  shows "box_decrypt b c key = Inr plain"
proof -
  from assms(2,3) obtain n where n: "length n = bl_nonce_size b" "list_all (\<lambda>x. x < 256) n"
    "c = b64_encode (n @ bl_seal b (derive_key b key) n (text_bytes plain))"
    by (cases r) (auto simp: box_encrypt_def nonce_ok_def)
  have "list_all (\<lambda>x. x < 256) (n @ bl_seal b (derive_key b key) n (text_bytes plain))"
    using n(2) assms(1) by (simp add: gcm_ok_def)
  moreover have "list_all (\<lambda>x. x < 256) (text_bytes plain)" by (simp add: text_bytes_def list_all_iff)
  ultimately show ?thesis using n assms(1) by (simp add: box_decrypt_def b64_roundtrip gcm_ok_def)
qed

lemma box_decrypt_short:
  "b64_decode c = Some data \<Longrightarrow> length data < bl_nonce_size b \<Longrightarrow> box_decrypt b c key = Inl ''ciphertext too short''"
  by (simp add: box_decrypt_def)

text \<open>A box for examples, which seals nothing.\<close>

definition demo_box :: box_lib where
  "demo_box =
     \<lparr>bl_sha = (\<lambda>k. map of_char k), bl_nonce_size = 2, bl_seal = (\<lambda>k n p. map (\<lambda>x. x mod 256) p), bl_open = (\<lambda>k n d. Some d)\<rparr>"

lemma demo_box_ok: "gcm_ok demo_box"
  by (auto simp: gcm_ok_def demo_box_def list_all_iff intro!: map_idI)

end
