(* ===== verification/Ai_Handlers.thy ===== *)
theory Ai_Handlers
  imports Ai_Agent Ai_Client Secret_Box Clusters Go_Sort
begin

text \<open>
  The settings of the assistant (\<open>repository/setting_repo.go\<close>, \<open>ai/config.go\<close>), a chat turn from its request
  (\<open>Chat\<close> in \<open>ai/agent.go\<close>), and the HTTP handlers (\<open>handler/ai_handler.go\<close>). The JSON of the stored configuration is
  a pair of parameters. A request body that does not bind is \<open>None\<close>.
\<close>

section \<open>Settings\<close>

record setting =
  st_key :: string
  st_value :: string
  st_category :: string

type_synonym setting_table = "(string, setting) gomap"

definition setting_get :: "faults \<Rightarrow> string \<Rightarrow> setting_table \<Rightarrow> setting option res" where
  "setting_get fl k t = (if fl DbGet then Inl db_error else Inr (gm_get t k))"

definition setting_set :: "faults \<Rightarrow> setting \<Rightarrow> setting_table \<Rightarrow> setting_table res" where
  "setting_set fl s t = (if fl DbUpdate then Inl db_error else Inr (gm_put (st_key s) s t))"

definition setting_list :: "faults \<Rightarrow> string \<Rightarrow> setting_table \<Rightarrow> setting list res" where
  "setting_list fl category t =
     (if fl DbList then Inl db_error
      else Inr (filter (\<lambda>s. category = [] \<or> st_category s = category)
        (map snd (sort_by (\<lambda>a b. str_less (fst a) (fst b)) t))))"

definition setting_delete :: "faults \<Rightarrow> string \<Rightarrow> setting_table \<Rightarrow> setting_table res" where
  "setting_delete fl k t = (if fl DbDelete then Inl db_error else Inr (gm_del k t))"

section \<open>The stored configuration\<close>

record persisted_config =
  pf_enabled :: bool
  pf_base_url :: string
  pf_api_key :: string
  pf_api_key_enc :: string
  pf_model :: string
  pf_max_tokens :: int

record ai_store =
  sx_key :: string
  sx_box :: box_lib
  sx_print :: "persisted_config \<Rightarrow> string option"
  sx_read :: "string \<Rightarrow> persisted_config option"

definition ai_setting_key :: string where "ai_setting_key = ''ai.config''"
definition ai_setting_category :: string where "ai_setting_category = ''ai''"

definition no_ai_config :: ai_config where
  "no_ai_config = \<lparr>ai_enabled = False, ai_base_url = [], ai_api_key = [], ai_model = [], ai_max_tokens = 0\<rparr>"

definition stored_api_key :: "ai_store \<Rightarrow> persisted_config \<Rightarrow> string res" where
  "stored_api_key s p =
     (if pf_api_key_enc p = [] then Inr (pf_api_key p)
      else if sx_key s = [] then Inl (OtherErr ''AI API key is encrypted but no encryption key is configured'' False)
      else case box_decrypt (sx_box s) (pf_api_key_enc p) (sx_key s) of
             Inl m \<Rightarrow> Inl (OtherErr (''decrypt AI API key: '' @ m) False) | Inr k \<Rightarrow> Inr k)"

definition ai_config_load :: "ai_store \<Rightarrow> faults \<Rightarrow> setting_table \<Rightarrow> ai_config res" where
  "ai_config_load s fl t =
     (case setting_get fl ai_setting_key t of
        Inl e \<Rightarrow> Inl e
      | Inr None \<Rightarrow> Inr no_ai_config
      | Inr (Some row) \<Rightarrow>
          if st_value row = [] then Inr no_ai_config
          else (case sx_read s (st_value row) of
                  None \<Rightarrow> Inl (OtherErr ''invalid JSON'' False)
                | Some p \<Rightarrow>
                    (case stored_api_key s p of
                       Inl e \<Rightarrow> Inl e
                     | Inr k \<Rightarrow>
                         Inr (with_defaults \<lparr>ai_enabled = pf_enabled p, ai_base_url = pf_base_url p, ai_api_key = k,
                                             ai_model = pf_model p, ai_max_tokens = pf_max_tokens p\<rparr>))))"

definition sealed_api_key :: "ai_store \<Rightarrow> nat list option \<Rightarrow> string \<Rightarrow> string res" where
  "sealed_api_key s nonce k =
     (if k = [] then Inr []
      else if sx_key s = [] then Inl (OtherErr ''cannot persist AI API key without an encryption key'' False)
      else case box_encrypt (sx_box s) nonce k (sx_key s) of
             None \<Rightarrow> Inl (OtherErr ''encrypt AI API key'' False) | Some c \<Rightarrow> Inr c)"

definition ai_config_save :: "ai_store \<Rightarrow> faults \<Rightarrow> nat list option \<Rightarrow> ai_config \<Rightarrow> setting_table \<Rightarrow> setting_table res" where
  "ai_config_save s fl nonce cfg t =
     (case sealed_api_key s nonce (ai_api_key cfg) of
        Inl e \<Rightarrow> Inl e
      | Inr enc \<Rightarrow>
          (case sx_print s \<lparr>pf_enabled = ai_enabled cfg, pf_base_url = ai_base_url cfg, pf_api_key = [], pf_api_key_enc = enc,
                            pf_model = ai_model cfg, pf_max_tokens = ai_max_tokens cfg\<rparr> of
             None \<Rightarrow> Inl (OtherErr ''unsupported value'' False)
           | Some v \<Rightarrow> setting_set fl \<lparr>st_key = ai_setting_key, st_value = v, st_category = ai_setting_category\<rparr> t))"

section \<open>The settings handlers\<close>

record config_view =
  vw_enabled :: bool
  vw_base_url :: string
  vw_model :: string
  vw_max_tokens :: int
  vw_has_key :: bool

definition view_of_config :: "ai_config \<Rightarrow> config_view" where
  "view_of_config c = \<lparr>vw_enabled = ai_enabled c, vw_base_url = ai_base_url c, vw_model = ai_model c,
     vw_max_tokens = ai_max_tokens c, vw_has_key = ai_api_key c \<noteq> []\<rparr>"

definition handle_get_ai_config :: "ai_store \<Rightarrow> faults \<Rightarrow> string option \<Rightarrow> setting_table \<Rightarrow> config_view response" where
  "handle_get_ai_config s fl rid t =
     (case ai_config_load s fl t of
        Inl _ \<Rightarrow> resp_error rid CodeInternal ''failed to load AI configuration''
      | Inr c \<Rightarrow> resp_success (view_of_config c))"

definition normalized_base_url :: "string \<Rightarrow> string" where
  "normalized_base_url v = trim_right_slashes (trim_space v)"

definition may_manage_ai :: "string \<Rightarrow> bool" where "may_manage_ai rl \<longleftrightarrow> rl = ''super-admin'' \<or> rl = ''admin''"

text \<open>The configuration that a discovery of models asks with: a request names a URL and a key, or reuses the stored ones.\<close>

definition models_config :: "ai_config \<Rightarrow> string \<Rightarrow> string \<Rightarrow> (int \<times> string) + ai_config" where
  "models_config existing url key =
     (if (url \<noteq> [] \<and> normalized_base_url url \<noteq> normalized_base_url (ai_base_url existing)) \<and> key = []
      then Inl (CodeParamMissing, ''API key is required when changing the AI provider URL'')
      else (let c1 = (if url \<noteq> [] then existing\<lparr>ai_base_url := url\<rparr> else existing);
                c2 = (if key \<noteq> [] then c1\<lparr>ai_api_key := key\<rparr> else c1)
            in if ai_api_key c2 = [] then Inl (CodeParamMissing, ''API key is required'') else Inr c2))"

text \<open>The answer, and the client that was asked, if one was.\<close>

definition handle_list_models ::
  "ai_store \<Rightarrow> ai_net \<Rightarrow> faults \<Rightarrow> string option \<Rightarrow> string \<Rightarrow> (string \<times> string) option \<Rightarrow> setting_table \<Rightarrow>
     string list response \<times> ai_client option" where
  "handle_list_models s n fl rid rl rq t =
     (if \<not> may_manage_ai rl then (resp_error rid CodeForbidden ''only administrators can discover AI models'', None)
      else case rq of
             None \<Rightarrow> (resp_error rid CodeParamInvalid ''invalid request body'', None)
           | Some (url, key) \<Rightarrow>
               (case ai_config_load s fl t of
                  Inl _ \<Rightarrow> (resp_error rid CodeInternal ''failed to load AI configuration'', None)
                | Inr existing \<Rightarrow>
                    (case models_config existing url key of
                       Inl (c, m) \<Rightarrow> (resp_error rid c m, None)
                     | Inr cfg \<Rightarrow>
                         ((case list_models n (new_ai_client cfg) of
                             Inl m \<Rightarrow> resp_error rid CodeInternal m | Inr ms \<Rightarrow> resp_success ms),
                          Some (new_ai_client cfg)))))"

definition handle_update_ai_config ::
  "ai_store \<Rightarrow> faults \<Rightarrow> nat list option \<Rightarrow> string option \<Rightarrow> string \<Rightarrow> ai_config option \<Rightarrow> setting_table \<Rightarrow>
     setting_table \<times> config_view response" where
  "handle_update_ai_config s fl nonce rid rl rq t =
     (if \<not> may_manage_ai rl then (t, resp_error rid CodeForbidden ''only administrators can change AI settings'')
      else case rq of
             None \<Rightarrow> (t, resp_error rid CodeParamInvalid ''invalid request body'')
           | Some q \<Rightarrow>
               (case ai_config_load s fl t of
                  Inl _ \<Rightarrow> (t, resp_error rid CodeInternal ''failed to load AI configuration'')
                | Inr existing \<Rightarrow>
                    if normalized_base_url (ai_base_url q) \<noteq> normalized_base_url (ai_base_url existing) \<and> ai_api_key q = []
                    then (t, resp_error rid CodeParamMissing ''API key is required when changing the AI provider URL'')
                    else if ai_max_tokens q < 1 \<or> 32768 < ai_max_tokens q
                    then (t, resp_error rid CodeParamInvalid ''maxTokens must be between 1 and 32768'')
                    else (let cfg = q\<lparr>ai_api_key := (if ai_api_key q = [] then ai_api_key existing else ai_api_key q)\<rparr> in
                          case ai_config_save s fl nonce cfg t of
                            Inl _ \<Rightarrow> (t, resp_error rid CodeInternal ''failed to save AI configuration'')
                          | Inr t' \<Rightarrow> (t', resp_success (view_of_config cfg)))))"

section \<open>A chat turn\<close>

record page_context =
  pg_page :: string
  pg_ns :: string
  pg_resource :: string
  pg_kind :: string

record ai_chat_request =
  cq_cluster :: nat
  cq_messages :: "(string \<times> string) list"
  cq_page :: "page_context option"

definition max_chat_messages :: nat where "max_chat_messages = 100"
definition max_message_bytes :: nat where "max_message_bytes = 32 * 1024"

definition user_turn :: "string \<Rightarrow> string \<Rightarrow> message" where
  "user_turn rl content = \<lparr>msg_role = rl, msg_content = content, msg_calls = [], msg_call_id = []\<rparr>"

text \<open>The turns of the caller; \<open>None\<close> when one is too large.\<close>

fun chat_history :: "(string \<times> string) list \<Rightarrow> message list option" where
  "chat_history [] = Some []"
| "chat_history ((rl, content) # ms) =
     (if rl \<noteq> ''user'' \<and> rl \<noteq> ''assistant'' then chat_history ms
      else if max_message_bytes < length content then None
      else if trim_space content = [] then chat_history ms
      else map_option (\<lambda>h. user_turn rl content # h) (chat_history ms))"

definition chat_checks :: "ai_chat_request option \<Rightarrow> (int \<times> string) + (ai_chat_request \<times> message list)" where
  "chat_checks rq =
     (case rq of
        None \<Rightarrow> Inl (CodeParamInvalid, ''invalid request body'')
      | Some q \<Rightarrow>
          if cq_cluster q = 0 then Inl (CodeParamMissing, ''clusterId is required'')
          else if cq_messages q = [] then Inl (CodeParamMissing, ''messages are required'')
          else if max_chat_messages < length (cq_messages q) then Inl (CodeParamInvalid, ''too many messages'')
          else (case chat_history (cq_messages q) of
                  None \<Rightarrow> Inl (CodeParamInvalid, ''message is too large'')
                | Some h \<Rightarrow>
                    if h = [] \<or> msg_role (last h) \<noteq> ''user'' then Inl (CodeParamInvalid, ''the last message must be from the user'')
                    else Inr (q, h)))"

text \<open>
  What a turn works with: the agent's environment, whose model is the client of the loaded configuration, the settings,
  the clusters and the text of the assistant's contract.
\<close>

record 'w chat_env =
  ch_agent :: "'w agent_env"
  ch_net :: ai_net
  ch_store :: ai_store
  ch_faults :: faults
  ch_settings :: setting_table
  ch_clusters :: cluster_table
  ch_base_prompt :: string

definition agent_for :: "'w chat_env \<Rightarrow> ai_config \<Rightarrow> 'w agent_env" where
  "agent_for env cfg = (ch_agent env)\<lparr>ae_llm := stream_chat (ch_net env) (new_ai_client cfg)\<rparr>"

definition system_message :: "'w chat_env \<Rightarrow> string \<Rightarrow> string \<Rightarrow> page_context option \<Rightarrow> message" where
  "system_message env cl rl page =
     \<lparr>msg_role = ''system'',
      msg_content = build_system_prompt (ch_base_prompt env)
        (case page of
           None \<Rightarrow> \<lparr>px_cluster = cl, px_role = rl, px_page = [], px_namespace = [], px_kind = [], px_name = []\<rparr>
         | Some p \<Rightarrow> \<lparr>px_cluster = cl, px_role = rl, px_page = pg_page p, px_namespace = pg_ns p, px_kind = pg_kind p, px_name = pg_resource p\<rparr>),
      msg_calls = [], msg_call_id = []\<rparr>"

definition svc_chat ::
  "'w chat_env \<Rightarrow> actor \<Rightarrow> nat \<Rightarrow> page_context option \<Rightarrow> message list \<Rightarrow> 'w \<Rightarrow> session_store \<Rightarrow> 'w \<times> session_store \<times> sse list" where
  "svc_chat env a i page turns w st =
     (case ai_config_load (ch_store env) (ch_faults env) (ch_settings env) of
        Inl _ \<Rightarrow> (w, st, [EvError ''failed to load AI configuration''])
      | Inr cfg \<Rightarrow>
          if \<not> ai_ready cfg then (w, st, [EvError ''AI assistant is not configured. Set an API key in settings.''])
          else (case cluster_get_by_id (ch_faults env) i (ch_clusters env) of
                  Inl _ \<Rightarrow> (w, st, [EvError ''cluster not found''])
                | Inr c \<Rightarrow>
                    agent_loop (agent_for env cfg) \<lparr>r_actor = a, r_cluster_id = i, r_cluster = c_name c\<rparr> max_iterations 0
                      (system_message env (c_name c) (a_role a) page # turns) w st))"

definition handle_chat ::
  "'w chat_env \<Rightarrow> actor \<Rightarrow> string option \<Rightarrow> ai_chat_request option \<Rightarrow> 'w \<Rightarrow> session_store \<Rightarrow>
     ('w \<times> session_store) \<times> (unit response + sse list)" where
  "handle_chat env a rid rq w st =
     (case chat_checks rq of
        Inl (c, m) \<Rightarrow> ((w, st), Inl (resp_error rid c m))
      | Inr (q, h) \<Rightarrow>
          (case svc_chat env a (cq_cluster q) (cq_page q) h w st of (w', st', evs) \<Rightarrow> ((w', st'), Inr evs)))"

section \<open>An approved change\<close>

datatype ai_event =
    AgentEvent sse
  | OperationQueued string string

definition ai_operation_kind :: string where "ai_operation_kind = ''ai_change''"

definition approved_input :: "actor \<Rightarrow> string \<Rightarrow> approved_action \<Rightarrow> approved_action op_input" where
  "approved_input a req ap =
     \<lparr>in_user = a_user a, in_username = a_name a, in_kind = ai_operation_kind, in_action = ''ai_change'', in_cluster = aa_cluster ap,
      in_namespace = [], in_resource = tc_name (aa_call ap), in_request_id = req, in_payload = ap\<rparr>"

text \<open>A business error shows its message, without the code that the text of an error has.\<close>

definition shown_error :: "go_error \<Rightarrow> string" where
  "shown_error e = (case e of BizErr c m \<Rightarrow> m | OtherErr t _ \<Rightarrow> t)"

definition handle_continue_action ::
  "(approved_action, 'r) op_env \<Rightarrow> submit_faults \<Rightarrow> gotime \<Rightarrow> string \<Rightarrow> string option \<Rightarrow> actor \<Rightarrow> string option \<Rightarrow>
     ('r manager \<times> op_db) option \<Rightarrow> session_store \<Rightarrow>
     session_store \<times> audit_log list \<times> ('r manager \<times> op_db) option \<times> (unit response + ai_event list)" where
  "handle_continue_action env sf now new_id rid a sid mgr st =
     (case sid of
        None \<Rightarrow> (st, [], mgr, Inl (resp_error rid CodeParamInvalid ''invalid request body''))
      | Some sid \<Rightarrow>
          if sid = [] then (st, [], mgr, Inl (resp_error rid CodeParamMissing ''sessionId is required''))
          else (case mgr of
                  None \<Rightarrow> (st, [], mgr, Inr [AgentEvent (EvError ''operation manager is unavailable'')])
                | Some (m, db) \<Rightarrow>
                    (case approve_action now sid a st of
                       (st', logs, Inl e) \<Rightarrow> (st', logs, mgr, Inr [AgentEvent (EvError (shown_error e))])
                     | (st', logs, Inr ap) \<Rightarrow>
                         (case op_submit env sf now new_id (approved_input a (case rid of Some r \<Rightarrow> r | None \<Rightarrow> []) ap) m db of
                            (mgr', Inl _) \<Rightarrow> (st', logs, Some mgr', Inr [AgentEvent (EvError ''failed to queue approved action'')])
                          | (mgr', Inr v) \<Rightarrow>
                              (st', logs, Some mgr',
                               Inr [OperationQueued (tc_id (aa_call ap)) (o_id (v_row v)),
                                    AgentEvent (EvMessage ''The approved change is running. [View progress in Operations](/operations).''),
                                    AgentEvent EvDone])))))"

section \<open>Properties of the settings\<close>

text \<open>What is assumed of the JSON of the configuration.\<close>

definition store_ok :: "ai_store \<Rightarrow> bool" where
  "store_ok s \<longleftrightarrow> gcm_ok (sx_box s) \<and> (\<forall>p v. sx_print s p = Some v \<longrightarrow> v \<noteq> [] \<and> sx_read s v = Some p)"

lemma b64_encode_not_Nil: "bs \<noteq> [] \<Longrightarrow> b64_encode bs \<noteq> []"
  by (cases bs rule: b64_encode.cases) simp_all

text \<open>
  A configuration that is saved is the one that is loaded, with the defaults filled in; the key is stored sealed only.
  A nonce is not empty, so that a sealed key is not either.
\<close>

lemma ai_config_saved:
  assumes "store_ok s" "nonce_ok (sx_box s) nonce" "0 < bl_nonce_size (sx_box s)" "ai_config_save s fl nonce cfg t = Inr t'" "\<not> fl' DbGet"
  shows "ai_config_load s fl' t' = Inr (with_defaults cfg)"
proof -
  obtain enc where enc: "sealed_api_key s nonce (ai_api_key cfg) = Inr enc"
    using assms(4) by (cases "sealed_api_key s nonce (ai_api_key cfg)") (auto simp: ai_config_save_def)
  let ?p = "\<lparr>pf_enabled = ai_enabled cfg, pf_base_url = ai_base_url cfg, pf_api_key = [], pf_api_key_enc = enc,
    pf_model = ai_model cfg, pf_max_tokens = ai_max_tokens cfg\<rparr>"
  obtain v where v: "sx_print s ?p = Some v" "t' = gm_put ai_setting_key \<lparr>st_key = ai_setting_key, st_value = v, st_category = ai_setting_category\<rparr> t"
    using assms(4) enc by (auto simp: ai_config_save_def setting_set_def split: option.splits if_splits)
  have read: "v \<noteq> []" "sx_read s v = Some ?p" using assms(1) v(1) by (auto simp: store_ok_def)
  have key: "stored_api_key s ?p = Inr (ai_api_key cfg)"
  proof (cases "ai_api_key cfg = []")
    case True
    then show ?thesis using enc by (simp add: sealed_api_key_def stored_api_key_def)
  next
    case False
    then obtain n where n: "sx_key s \<noteq> []" "box_encrypt (sx_box s) nonce (ai_api_key cfg) (sx_key s) = Some enc" "nonce = Some n"
      using enc by (auto simp: sealed_api_key_def box_encrypt_def split: option.splits if_splits)
    then have "enc \<noteq> []" using assms(2,3) by (auto simp: box_encrypt_def nonce_ok_def intro!: b64_encode_not_Nil)
    moreover have "box_decrypt (sx_box s) enc (sx_key s) = Inr (ai_api_key cfg)"
      using box_roundtrip assms(1,2) n(2) by (auto simp: store_ok_def)
    ultimately show ?thesis using n(1) by (simp add: stored_api_key_def)
  qed
  show ?thesis using read key assms(5) by (cases cfg) (simp add: ai_config_load_def setting_get_def v(2))
qed

lemma models_config_Inr:
  assumes "models_config existing url key = Inr cfg"
  shows "(key \<noteq> [] \<and> ai_api_key cfg = key) \<or>
    (ai_api_key cfg = ai_api_key existing \<and> normalized_base_url (ai_base_url cfg) = normalized_base_url (ai_base_url existing))"
  using assms by (auto simp: models_config_def Let_def split: if_splits)

lemma handle_list_models_asked:
  assumes "handle_list_models s n fl rid rl rq t = (resp, Some client)" "ai_config_load s fl t = Inr existing"
  obtains url key cfg where "rq = Some (url, key)" "models_config existing url key = Inr cfg" "client = new_ai_client cfg" "may_manage_ai rl"
  using assms by (auto simp: handle_list_models_def split: if_splits option.splits sum.splits)

lemma handle_update_stored:
  assumes "handle_update_ai_config s fl nonce rid rl rq t = (t', resp)" "ai_config_load s fl t = Inr existing"
  shows "t' = t \<or> (\<exists>q. rq = Some q \<and> may_manage_ai rl \<and>
    (normalized_base_url (ai_base_url q) = normalized_base_url (ai_base_url existing) \<or> ai_api_key q \<noteq> []) \<and>
    ai_config_save s fl nonce (q\<lparr>ai_api_key := (if ai_api_key q = [] then ai_api_key existing else ai_api_key q)\<rparr>) t = Inr t')"
proof (cases "may_manage_ai rl")
  case True
  show ?thesis
  proof (cases rq)
    case (Some q)
    let ?cfg = "q\<lparr>ai_api_key := (if ai_api_key q = [] then ai_api_key existing else ai_api_key q)\<rparr>"
    show ?thesis
    proof (cases "ai_config_save s fl nonce ?cfg t")
      case (Inl e)
      then show ?thesis using assms True Some by (auto simp: handle_update_ai_config_def Let_def split: if_splits)
    next
      case (Inr t2)
      then show ?thesis using assms True Some by (auto simp: handle_update_ai_config_def Let_def split: if_splits)
    qed
  qed (use assms in \<open>auto simp: handle_update_ai_config_def split: if_splits\<close>)
qed (use assms in \<open>auto simp: handle_update_ai_config_def split: if_splits\<close>)

text \<open>
  C28. The key that is stored for the model provider is only ever used with the URL it was stored for. When models are
  listed, the client asks either with the key of the request or with the stored key at the stored URL; after an update
  the key in use is either the one of the request or the stored one, still with the stored URL. Nobody but an
  administrator does either.
\<close>

theorem stored_key_stays_with_provider:
  assumes "store_ok s" and "nonce_ok (sx_box s) nonce" and "0 < bl_nonce_size (sx_box s)" and "\<not> fl DbGet"
    and "ai_config_load s fl t = Inr existing" and "normalized_base_url (ai_base_url existing) \<noteq> []"
    and "handle_list_models s n fl rid rl asked t = (models, client)"
    and "handle_update_ai_config s fl nonce rid rl rq t = (t', resp)"
  shows "(client = None \<or> may_manage_ai rl \<and> (\<exists>url key cfg. asked = Some (url, key) \<and> client = Some (new_ai_client cfg) \<and>
      (key \<noteq> [] \<and> ai_api_key cfg = key \<or>
       ai_api_key cfg = ai_api_key existing \<and> normalized_base_url (ai_base_url cfg) = normalized_base_url (ai_base_url existing)))) \<and>
    (t' = t \<or> may_manage_ai rl \<and> (\<exists>q new. rq = Some q \<and> ai_config_load s fl t' = Inr new \<and>
      (ai_api_key q \<noteq> [] \<and> ai_api_key new = ai_api_key q \<or>
       ai_api_key new = ai_api_key existing \<and> normalized_base_url (ai_base_url new) = normalized_base_url (ai_base_url existing))))"
proof (intro conjI)
  show "client = None \<or> may_manage_ai rl \<and> (\<exists>url key cfg. asked = Some (url, key) \<and> client = Some (new_ai_client cfg) \<and>
      (key \<noteq> [] \<and> ai_api_key cfg = key \<or>
       ai_api_key cfg = ai_api_key existing \<and> normalized_base_url (ai_base_url cfg) = normalized_base_url (ai_base_url existing)))"
  proof (cases client)
    case (Some cl)
    from assms(7) [unfolded Some] assms(5) obtain url key cfg where "asked = Some (url, key)"
      "models_config existing url key = Inr cfg" "cl = new_ai_client cfg" "may_manage_ai rl"
      by (rule handle_list_models_asked)
    moreover from this(2) have "key \<noteq> [] \<and> ai_api_key cfg = key \<or>
      ai_api_key cfg = ai_api_key existing \<and> normalized_base_url (ai_base_url cfg) = normalized_base_url (ai_base_url existing)"
      by (rule models_config_Inr)
    ultimately have "may_manage_ai rl \<and> asked = Some (url, key) \<and> Some cl = Some (new_ai_client cfg) \<and>
      (key \<noteq> [] \<and> ai_api_key cfg = key \<or>
       ai_api_key cfg = ai_api_key existing \<and> normalized_base_url (ai_base_url cfg) = normalized_base_url (ai_base_url existing))"
      by simp
    then show ?thesis unfolding Some by blast
  qed simp
  from handle_update_stored [OF assms(8,5)]
  show "t' = t \<or> may_manage_ai rl \<and> (\<exists>q new. rq = Some q \<and> ai_config_load s fl t' = Inr new \<and>
      (ai_api_key q \<noteq> [] \<and> ai_api_key new = ai_api_key q \<or>
       ai_api_key new = ai_api_key existing \<and> normalized_base_url (ai_base_url new) = normalized_base_url (ai_base_url existing)))"
  proof (elim disjE exE conjE)
    fix q :: ai_config
    let ?cfg = "q\<lparr>ai_api_key := (if ai_api_key q = [] then ai_api_key existing else ai_api_key q)\<rparr>"
    assume q: "rq = Some q" "may_manage_ai rl" "ai_config_save s fl nonce ?cfg t = Inr t'"
    have load: "ai_config_load s fl t' = Inr (with_defaults ?cfg)" by (rule ai_config_saved [where fl' = fl, OF assms(1-3) q(3) assms(4)])
    { assume "normalized_base_url (ai_base_url q) = normalized_base_url (ai_base_url existing)"
      moreover have "normalized_base_url [] = []" by (simp add: normalized_base_url_def trim_space_def trim_right_slashes_def)
      with calculation assms(6) have "ai_base_url q \<noteq> []" by auto
      ultimately show ?thesis using q(1,2) load by (cases "ai_api_key q = []") (simp_all add: with_defaults_def) }
    { assume "ai_api_key q \<noteq> []"
      then show ?thesis using q(1,2) load by (simp add: with_defaults_def) }
  qed simp
qed

text \<open>Settings for examples: a provider with a stored key, and an update that names the same provider without a key.\<close>

definition demo_stored :: "string \<Rightarrow> persisted_config" where
  "demo_stored url = \<lparr>pf_enabled = True, pf_base_url = url, pf_api_key = [], pf_api_key_enc = b64_encode ([1, 2] @ text_bytes ''k''),
     pf_model = ''m'', pf_max_tokens = 9\<rparr>"

definition demo_ai_store :: ai_store where
  "demo_ai_store = \<lparr>sx_key = ''e'', sx_box = demo_box,
     sx_print = (\<lambda>p. if p = demo_stored ''https://a/'' then Some ''new'' else None),
     sx_read = (\<lambda>v. Some (demo_stored (if v = ''new'' then ''https://a/'' else ''https://a'')))\<rparr>"

definition demo_ai_settings :: setting_table where
  "demo_ai_settings = [(ai_setting_key, \<lparr>st_key = ai_setting_key, st_value = ''old'', st_category = ai_setting_category\<rparr>)]"

definition demo_ai_config :: "string \<Rightarrow> string \<Rightarrow> ai_config" where
  "demo_ai_config url key = \<lparr>ai_enabled = True, ai_base_url = url, ai_api_key = key, ai_model = ''m'', ai_max_tokens = 9\<rparr>"

definition demo_ai_net :: ai_net where
  "demo_ai_net = \<lparr>an_bad_url = (\<lambda>u. None), an_send = (\<lambda>c. Inr (200, [])), an_models = (\<lambda>b. Some [''m'']), an_delta = (\<lambda>d. None)\<rparr>"

definition demo_ai_client :: ai_client where
  "demo_ai_client = \<lparr>lc_base_url = ''https://a'', lc_api_key = ''k'', lc_model = ''m'', lc_max_tokens = 9\<rparr>"

definition demo_ai_updated :: setting_table where
  "demo_ai_updated = [(ai_setting_key, \<lparr>st_key = ai_setting_key, st_value = ''new'', st_category = ai_setting_category\<rparr>)]"

lemma demo_ai_store_ok: "store_ok demo_ai_store"
  using demo_box_ok by (simp add: store_ok_def demo_ai_store_def)

lemma demo_ai_loaded: "ai_config_load demo_ai_store no_faults demo_ai_settings = Inr (demo_ai_config ''https://a'' ''k'')"
  by code_simp

lemma demo_ai_listed:
  "handle_list_models demo_ai_store demo_ai_net no_faults None ''admin'' (Some ([], [])) demo_ai_settings = (resp_success [''m''], Some demo_ai_client)"
  by code_simp

lemma demo_ai_update:
  "handle_update_ai_config demo_ai_store no_faults (Some [1, 2]) None ''admin'' (Some (demo_ai_config ''https://a/'' [])) demo_ai_settings =
     (demo_ai_updated, resp_success (view_of_config (demo_ai_config ''https://a/'' ''k'')))"
  by code_simp

theorem stored_key_stays_with_provider_witness:
  "\<exists>cfg new. demo_ai_client = new_ai_client cfg \<and> ai_api_key cfg = ''k'' \<and>
     ai_config_load demo_ai_store no_faults demo_ai_updated = Inr new \<and> ai_api_key new = ''k'' \<and>
     normalized_base_url (ai_base_url new) = ''https://a''"
proof -
  have "nonce_ok (sx_box demo_ai_store) (Some [1, 2])" "0 < bl_nonce_size (sx_box demo_ai_store)" "\<not> no_faults DbGet"
    "demo_ai_updated \<noteq> demo_ai_settings"
    and url: "normalized_base_url (ai_base_url (demo_ai_config ''https://a'' ''k'')) = ''https://a''"
    by (simp_all add: nonce_ok_def demo_ai_store_def demo_box_def demo_ai_updated_def demo_ai_settings_def
          demo_ai_config_def) (code_simp)
  with stored_key_stays_with_provider [OF demo_ai_store_ok _ _ _ demo_ai_loaded _ demo_ai_listed demo_ai_update]
  show ?thesis by (auto simp: demo_ai_config_def)
qed

section \<open>Properties of a turn and of an approval\<close>

lemma chat_history_turns:
  "chat_history ms = Some h \<Longrightarrow> list_all (\<lambda>m. (msg_role m = ''user'' \<or> msg_role m = ''assistant'') \<and> length (msg_content m) \<le> max_message_bytes \<and>
     trim_space (msg_content m) \<noteq> [] \<and> msg_calls m = [] \<and> (msg_role m, msg_content m) \<in> set ms) h"
  by (induction ms arbitrary: h rule: chat_history.induct) (force simp: user_turn_def list_all_iff split: if_splits)+

text \<open>
  A chat request that is not refused either ends with an error and changes nothing, or is a run of the agent as the
  caller, on the cluster that was named, with a ready configuration. The conversation starts with the one system message
  of the server; after it come only turns of the user and of the assistant that the caller sent, none of them too large, empty, or
  with a tool call, and the last one is of the user.
\<close>

theorem chat_runs_as_caller:
  assumes "handle_chat env a rid rq w st = ((w', st'), Inr evs)"
  shows "(\<exists>m. evs = [EvError m] \<and> w' = w \<and> st' = st) \<or>
    (\<exists>q h cfg c. rq = Some q \<and> ai_ready cfg \<and> cluster_get_by_id (ch_faults env) (cq_cluster q) (ch_clusters env) = Inr c \<and>
       agent_loop (agent_for env cfg) \<lparr>r_actor = a, r_cluster_id = cq_cluster q, r_cluster = c_name c\<rparr> max_iterations 0
         (system_message env (c_name c) (a_role a) (cq_page q) # h) w st = (w', st', evs) \<and>
       h \<noteq> [] \<and> msg_role (last h) = ''user'' \<and>
       list_all (\<lambda>m. (msg_role m = ''user'' \<or> msg_role m = ''assistant'') \<and> length (msg_content m) \<le> max_message_bytes \<and>
         trim_space (msg_content m) \<noteq> [] \<and> msg_calls m = [] \<and> (msg_role m, msg_content m) \<in> set (cq_messages q)) h)"
proof -
  obtain q h where c: "chat_checks rq = Inr (q, h)"
    using assms by (cases "chat_checks rq") (auto simp: handle_chat_def)
  then have q: "rq = Some q" "chat_history (cq_messages q) = Some h" "h \<noteq> []" "msg_role (last h) = ''user''"
    by (auto simp: chat_checks_def split: option.splits if_splits)
  have svc: "svc_chat env a (cq_cluster q) (cq_page q) h w st = (w', st', evs)"
    using assms by (auto simp: handle_chat_def c split: prod.splits)
  show ?thesis
  proof (cases "ai_config_load (ch_store env) (ch_faults env) (ch_settings env)")
    case (Inr cfg)
    show ?thesis
    proof (cases "ai_ready cfg")
      case True
      show ?thesis
      proof (cases "cluster_get_by_id (ch_faults env) (cq_cluster q) (ch_clusters env)")
        case (Inr cl)
        with svc True \<open>ai_config_load _ _ _ = Inr cfg\<close> have "agent_loop (agent_for env cfg)
            \<lparr>r_actor = a, r_cluster_id = cq_cluster q, r_cluster = c_name cl\<rparr> max_iterations 0
            (system_message env (c_name cl) (a_role a) (cq_page q) # h) w st = (w', st', evs)"
          by (simp add: svc_chat_def)
        with q True Inr chat_history_turns [OF q(2)] show ?thesis by blast
      qed (rule disjI1, use svc True Inr in \<open>auto simp: svc_chat_def\<close>)
    qed (rule disjI1, use svc Inr in \<open>auto simp: svc_chat_def\<close>)
  qed (rule disjI1, use svc in \<open>auto simp: svc_chat_def\<close>)
qed

lemma approve_action_Inr:
  assumes "approve_action now sid a st = (st', logs, Inr ap)"
  obtains s where "gm_get st sid = Some s" "ps_user s = a_user a" "now \<le> ps_expires s" "st' = gm_del sid st" "logs = []"
    "ap = \<lparr>aa_call = ps_call s, aa_cluster_id = ps_cluster_id s, aa_cluster = ps_cluster s, aa_ip = ps_ip s, aa_corr = ps_corr s\<rparr>"
  using assms
  by (auto simp: approve_action_def take_owned_def after_def split: option.splits if_splits)

text \<open>
  A change is queued only by an approval of its owner in time: the operation carries the tool call and the cluster
  that were saved when it was shown, belongs to the caller, and the session it was saved in is gone, so that it cannot be
  approved again.
\<close>

theorem approved_change_queued:
  assumes "handle_continue_action env sf now new_id rid a sid mgr st = (st', logs, mgr', Inr (OperationQueued call op # rest))"
  shows "\<exists>i s m db v. sid = Some i \<and> mgr = Some (m, db) \<and> gm_get st i = Some s \<and> ps_user s = a_user a \<and> now \<le> ps_expires s \<and>
    st' = gm_del i st \<and> call = tc_id (ps_call s) \<and> op = o_id (v_row v) \<and>
    (\<exists>m' db'. mgr' = Some (m', db') \<and>
       op_submit env sf now new_id
         (approved_input a (case rid of Some r \<Rightarrow> r | None \<Rightarrow> [])
           \<lparr>aa_call = ps_call s, aa_cluster_id = ps_cluster_id s, aa_cluster = ps_cluster s, aa_ip = ps_ip s, aa_corr = ps_corr s\<rparr>)
         m db = ((m', db'), Inr v))"
proof -
  obtain i where i: "sid = Some i" "i \<noteq> []" using assms by (cases sid) (auto simp: handle_continue_action_def split: if_splits)
  obtain m db where m: "mgr = Some (m, db)" using assms i by (cases mgr) (auto simp: handle_continue_action_def)
  obtain st1 logs1 r where ap: "approve_action now i a st = (st1, logs1, r)" by (cases "approve_action now i a st") auto
  show ?thesis
  proof (cases r)
    case (Inr p)
    obtain mg q where sub: "op_submit env sf now new_id (approved_input a (case rid of Some r \<Rightarrow> r | None \<Rightarrow> []) p) m db = (mg, q)" by fastforce
    obtain v where v: "q = Inr v" using assms i m ap Inr sub by (cases q) (auto simp: handle_continue_action_def)
    obtain m' db' where mg: "mg = (m', db')" by (cases mg)
    have eq: "st' = st1" "mgr' = Some mg" "call = tc_id (aa_call p)" "op = o_id (v_row v)"
      using assms i m ap Inr sub v by (simp_all add: handle_continue_action_def)
    show ?thesis
    proof (rule approve_action_Inr [OF ap [unfolded Inr]])
      fix s
      assume "gm_get st i = Some s" "ps_user s = a_user a" "now \<le> ps_expires s" "st1 = gm_del i st"
        "p = \<lparr>aa_call = ps_call s, aa_cluster_id = ps_cluster_id s, aa_cluster = ps_cluster s, aa_ip = ps_ip s, aa_corr = ps_corr s\<rparr>"
      then show ?thesis using i m eq sub v mg by (intro exI conjI) (assumption | simp)+
    qed
  qed (use assms i m ap in \<open>simp add: handle_continue_action_def\<close>)
qed

end
