(* ===== verification/Account_Handlers.thy ===== *)
theory Account_Handlers
  imports Kube_Handlers Clusters Auth_Gate Operations Passkeys Audit_Trail Go_Integers
begin

text \<open>
  The HTTP handlers of accounts, sign-in, API keys, public keys, clusters, operations and the audit trail
  (\<open>handler/user_handler.go\<close>, \<open>auth_handler.go\<close>, \<open>apikey_handler.go\<close>, \<open>publickey_handler.go\<close>, \<open>cluster_handler.go\<close>,
  \<open>operation_handler.go\<close>, \<open>audit_handler.go\<close>). The argument \<open>a\<close> is what the authentication middleware left in the context.
  A body that is not JSON of the right shape is \<open>None\<close>; a required field is checked not to be empty. A parameter of the path
  or the query is its text.
\<close>

section \<open>Answers\<close>

text \<open>The answer of an operation that changes a store, which an error leaves as it was.\<close>

definition answer_kept :: "string option \<Rightarrow> 't \<Rightarrow> ('t \<times> 'a) res \<Rightarrow> 't \<times> 'a response" where
  "answer_kept rid t r = (case r of Inl e \<Rightarrow> (t, respond_error rid e) | Inr (t', v) \<Rightarrow> (t', resp_success v))"

definition answer_done :: "string option \<Rightarrow> 't \<Rightarrow> 't res \<Rightarrow> 't \<times> unit response" where
  "answer_done rid t r = answer_kept rid t (case r of Inl e \<Rightarrow> Inl e | Inr t' \<Rightarrow> Inr (t', ()))"

definition refused :: "string option \<Rightarrow> 't \<Rightarrow> int \<Rightarrow> string \<Rightarrow> 't \<times> 'a response" where
  "refused rid t c m = (t, resp_error rid c m)"

section \<open>Users\<close>

definition handle_users_list :: "faults \<Rightarrow> string option \<Rightarrow> user_table \<Rightarrow> user_detail list response" where
  "handle_users_list fl rid t = answer rid (list_users fl t)"

definition handle_user_get :: "faults \<Rightarrow> string option \<Rightarrow> string \<Rightarrow> user_table \<Rightarrow> user_detail response" where
  "handle_user_get fl rid idp t =
     (case parse_uint idp of
        None \<Rightarrow> resp_error rid CodeParamInvalid ''invalid user id''
      | Some i \<Rightarrow> answer rid (get_user fl i t))"

record create_user_request =
  cu_username :: string
  cu_password :: string
  cu_role :: string

definition handle_user_create ::
  "faults \<Rightarrow> hasher \<Rightarrow> string option \<Rightarrow> create_user_request option \<Rightarrow> user_table \<Rightarrow> user_table \<times> user_detail response" where
  "handle_user_create fl hp rid body t =
     (case body of
        None \<Rightarrow> refused rid t CodeParamInvalid ''username, password, and role are required''
      | Some q \<Rightarrow>
          if cu_username q = [] \<or> cu_password q = [] \<or> cu_role q = []
          then refused rid t CodeParamInvalid ''username, password, and role are required''
          else answer_kept rid t (create_user fl hp (cu_username q) (cu_password q) (cu_role q) t))"

record update_user_request =
  uu_role :: string
  uu_active :: "bool option"

definition handle_user_update ::
  "faults \<Rightarrow> string option \<Rightarrow> auth_result \<Rightarrow> string \<Rightarrow> update_user_request option \<Rightarrow> user_table \<Rightarrow> user_table \<times> user_detail response" where
  "handle_user_update fl rid a idp body t =
     (case parse_uint idp of
        None \<Rightarrow> refused rid t CodeParamInvalid ''invalid user id''
      | Some i \<Rightarrow>
          (case body of
             None \<Rightarrow> refused rid t CodeParamInvalid ''invalid request body''
           | Some q \<Rightarrow>
               if ctx_user_id a = 0 then refused rid t CodeUnauthorized ''unauthorized''
               else answer_kept rid t
                      (update_user fl i (ctx_user_id a) (uu_role q) (case uu_active q of None \<Rightarrow> True | Some b \<Rightarrow> b) t)))"

definition handle_user_delete ::
  "faults \<Rightarrow> gotime \<Rightarrow> string option \<Rightarrow> auth_result \<Rightarrow> string \<Rightarrow> user_table \<Rightarrow> user_table \<times> unit response" where
  "handle_user_delete fl now rid a idp t =
     (case parse_uint idp of
        None \<Rightarrow> refused rid t CodeParamInvalid ''invalid user id''
      | Some i \<Rightarrow>
          if ctx_user_id a = 0 then refused rid t CodeUnauthorized ''unauthorized''
          else answer_done rid t (delete_user fl now i (ctx_user_id a) t))"

definition handle_reset_password ::
  "faults \<Rightarrow> hasher \<Rightarrow> string option \<Rightarrow> string \<Rightarrow> string option \<Rightarrow> user_table \<Rightarrow> user_table \<times> unit response" where
  "handle_reset_password fl hp rid idp body t =
     (case parse_uint idp of
        None \<Rightarrow> refused rid t CodeParamInvalid ''invalid user id''
      | Some i \<Rightarrow>
          (case body of
             None \<Rightarrow> refused rid t CodeParamInvalid ''newPassword is required''
           | Some pw \<Rightarrow>
               if pw = [] then refused rid t CodeParamInvalid ''newPassword is required''
               else answer_done rid t (reset_password fl hp i pw t)))"

definition handle_change_password ::
  "faults \<Rightarrow> hasher \<Rightarrow> (string \<Rightarrow> string \<Rightarrow> bool) \<Rightarrow> string option \<Rightarrow> auth_result \<Rightarrow> (string \<times> string) option \<Rightarrow> user_table \<Rightarrow>
     user_table \<times> unit response" where
  "handle_change_password fl hp cp rid a body t =
     (if ctx_user_id a = 0 then refused rid t CodeUnauthorized ''unauthorized''
      else case body of
             None \<Rightarrow> refused rid t CodeParamInvalid ''oldPassword and newPassword are required''
           | Some (old, new) \<Rightarrow>
               if old = [] \<or> new = [] then refused rid t CodeParamInvalid ''oldPassword and newPassword are required''
               else answer_done rid t (change_password fl hp cp (ctx_user_id a) old new t))"

section \<open>Sign-in and the second factor\<close>

record login_request =
  lq_username :: string
  lq_password :: string
  lq_provider :: string

text \<open>The answer that asks for the second factor has the temporary token as its data.\<close>

definition answer_login :: "string option \<Rightarrow> 'tok login_result res \<Rightarrow> 'tok login_result response" where
  "answer_login rid r =
     (case r of
        Inl e \<Rightarrow> respond_error rid e
      | Inr (TwoFARequired tok) \<Rightarrow>
          \<lparr>resp_code = Code2FARequired, resp_message = ''two-factor authentication required'',
           resp_data = Some (TwoFARequired tok), resp_meta = None\<rparr>
      | Inr (FullTokens l) \<Rightarrow> resp_success (FullTokens l))"

definition handle_login ::
  "'tok auth_env \<Rightarrow> faults \<Rightarrow> gotime \<Rightarrow> string option \<Rightarrow> login_request option \<Rightarrow> user_table \<Rightarrow> user_table \<times> 'tok login_result response" where
  "handle_login e fl now rid body t =
     (case body of
        None \<Rightarrow> refused rid t CodeParamInvalid ''username and password are required''
      | Some q \<Rightarrow>
          if lq_username q = [] \<or> lq_password q = [] then refused rid t CodeParamInvalid ''username and password are required''
          else if lq_provider q = ''directory''
          then (case login_directory e now (lq_username q) (lq_password q) t of (t', r) \<Rightarrow> (t', answer_login rid r))
          else (case login e fl now (lq_username q) (lq_password q) t of
                  Inl err \<Rightarrow> (t, respond_error rid err)
                | Inr (t', r) \<Rightarrow> (t', answer_login rid (Inr r))))"

definition handle_refresh ::
  "'tok auth_env \<Rightarrow> faults \<Rightarrow> gotime \<Rightarrow> string option \<Rightarrow> 'tok option \<Rightarrow> user_table \<Rightarrow> user_table \<times> 'tok login_response response" where
  "handle_refresh e fl now rid body t =
     (case body of
        None \<Rightarrow> refused rid t CodeParamInvalid ''refreshToken is required''
      | Some rt \<Rightarrow> (case refresh_token e fl now rt t of (t', r) \<Rightarrow> (t', answer rid r)))"

definition handle_me :: "string option \<Rightarrow> auth_result \<Rightarrow> user_info response" where
  "handle_me rid a =
     (if ctx_user_id a = 0 then resp_error rid CodeUnauthorized ''unauthorized''
      else resp_success \<lparr>ui_id = ctx_user_id a, ui_username = ctx_username a, ui_role = ctx_user_role a, ui_totp_enabled = False\<rparr>)"

definition handle_setup_2fa ::
  "'tok auth_env \<Rightarrow> faults \<Rightarrow> string option \<Rightarrow> auth_result \<Rightarrow> user_table \<Rightarrow> user_table \<times> setup_2fa_response response" where
  "handle_setup_2fa e fl rid a t =
     (if ctx_user_id a = 0 then refused rid t CodeUnauthorized ''unauthorized''
      else answer_kept rid t (setup_2fa e fl (ctx_user_id a) t))"

text \<open>A body with a code, and what is done with the code of the caller.\<close>

definition with_code ::
  "string option \<Rightarrow> auth_result \<Rightarrow> string option \<Rightarrow> user_table \<Rightarrow> (string \<Rightarrow> user_table res) \<Rightarrow> user_table \<times> unit response" where
  "with_code rid a body t f =
     (if ctx_user_id a = 0 then refused rid t CodeUnauthorized ''unauthorized''
      else case body of
             None \<Rightarrow> refused rid t CodeParamInvalid ''code is required''
           | Some code \<Rightarrow>
               if code = [] then refused rid t CodeParamInvalid ''code is required''
               else answer_done rid t (f code))"

definition handle_enable_2fa ::
  "'tok auth_env \<Rightarrow> faults \<Rightarrow> gotime \<Rightarrow> string option \<Rightarrow> auth_result \<Rightarrow> string option \<Rightarrow> user_table \<Rightarrow> user_table \<times> unit response" where
  "handle_enable_2fa e fl now rid a body t = with_code rid a body t (\<lambda>code. enable_2fa e fl now (ctx_user_id a) code t)"

definition handle_disable_2fa ::
  "'tok auth_env \<Rightarrow> faults \<Rightarrow> gotime \<Rightarrow> string option \<Rightarrow> auth_result \<Rightarrow> string option \<Rightarrow> user_table \<Rightarrow> user_table \<times> unit response" where
  "handle_disable_2fa e fl now rid a body t = with_code rid a body t (\<lambda>code. disable_2fa e fl now (ctx_user_id a) code t)"

text \<open>A temporary token is \<open>None\<close> when it is missing.\<close>

definition handle_verify_2fa ::
  "'tok auth_env \<Rightarrow> faults \<Rightarrow> gotime \<Rightarrow> string option \<Rightarrow> ('tok option \<times> string) option \<Rightarrow> user_table \<Rightarrow> 'tok login_response response" where
  "handle_verify_2fa e fl now rid body t =
     (case body of
        Some (Some temp, code) \<Rightarrow>
          if code = [] then resp_error rid CodeParamInvalid ''tempToken and code are required''
          else answer rid (verify_2fa e fl now temp code t)
      | _ \<Rightarrow> resp_error rid CodeParamInvalid ''tempToken and code are required'')"

definition handle_recovery_2fa ::
  "'tok auth_env \<Rightarrow> faults \<Rightarrow> gotime \<Rightarrow> string option \<Rightarrow> ('tok option \<times> string) option \<Rightarrow> user_table \<Rightarrow>
     user_table \<times> 'tok login_response response" where
  "handle_recovery_2fa e fl now rid body t =
     (case body of
        Some (Some temp, code) \<Rightarrow>
          if code = [] then refused rid t CodeParamInvalid ''tempToken and recoveryCode are required''
          else answer_kept rid t (use_recovery_code e fl now temp code t)
      | _ \<Rightarrow> refused rid t CodeParamInvalid ''tempToken and recoveryCode are required'')"

section \<open>API keys\<close>

definition handle_key_generate ::
  "(string \<Rightarrow> string) \<Rightarrow> faults \<Rightarrow> faults \<Rightarrow> gotime \<Rightarrow> string option \<Rightarrow> string option \<Rightarrow> auth_result \<Rightarrow> (string \<times> gotime option) option \<Rightarrow>
     user_table \<Rightarrow> key_table \<Rightarrow> key_table \<times> generate_key_response response" where
  "handle_key_generate sha ufl kfl now raw rid a body users t =
     (if ctx_user_id a = 0 then refused rid t CodeUnauthorized ''unauthorized''
      else case body of
             None \<Rightarrow> refused rid t CodeParamInvalid ''name is required''
           | Some (name, expires) \<Rightarrow>
               if name = [] then refused rid t CodeParamInvalid ''name is required''
               else answer_kept rid t (apikey_generate sha ufl kfl now raw (ctx_user_id a) name expires users t))"

definition handle_key_list :: "faults \<Rightarrow> string option \<Rightarrow> auth_result \<Rightarrow> key_table \<Rightarrow> api_key_info list response" where
  "handle_key_list fl rid a t =
     (if ctx_user_id a = 0 then resp_error rid CodeUnauthorized ''unauthorized''
      else answer rid (apikey_list_by_user fl (ctx_user_id a) t))"

definition handle_key_revoke ::
  "faults \<Rightarrow> string option \<Rightarrow> auth_result \<Rightarrow> string \<Rightarrow> key_table \<Rightarrow> key_table \<times> unit response" where
  "handle_key_revoke fl rid a idp t =
     (if ctx_user_id a = 0 then refused rid t CodeUnauthorized ''unauthorized''
      else case parse_uint idp of
             None \<Rightarrow> refused rid t CodeParamInvalid ''invalid key id''
           | Some i \<Rightarrow> answer_done rid t (apikey_revoke fl i (ctx_user_id a) t))"

section \<open>Public keys\<close>

definition handle_pk_config :: "('s, 'rq, 'tok) pk_env \<Rightarrow> bool response" where
  "handle_pk_config env = resp_success (pv_configured env)"

record registration_request =
  rr_label :: string
  rr_password :: string
  rr_totp :: string

definition handle_begin_registration ::
  "('s, 'rq, 'tok) pk_env \<Rightarrow> (nat \<Rightarrow> faults) \<Rightarrow> gotime \<Rightarrow> string \<Rightarrow> string option \<Rightarrow> string option \<Rightarrow> auth_result \<Rightarrow>
     registration_request option \<Rightarrow> pk_state \<Rightarrow> pk_state \<times> (string \<times> string) response" where
  "handle_begin_registration env fl now uuid rnd rid a body st =
     (case body of
        None \<Rightarrow> refused rid st CodeParamInvalid ''invalid request''
      | Some q \<Rightarrow>
          (case begin_registration env fl now uuid rnd (ctx_user_id a) (rr_label q) (rr_password q) (rr_totp q) st of
             (st', r) \<Rightarrow> (st', answer rid r)))"

definition max_webauthn_body :: int where "max_webauthn_body = 2 ^ 20"

text \<open>The body of an answer of the authenticator is cut at that size, which the engine sees as a request it cannot read.\<close>

definition prepare_webauthn :: "string \<Rightarrow> int \<Rightarrow> string option" where
  "prepare_webauthn ceremony len =
     (if trim_space ceremony = [] then Some ''ceremony id is required''
      else if max_webauthn_body < len then Some ''credential response is too large'' else None)"

definition handle_finish_registration ::
  "('s, 'rq, 'tok) pk_env \<Rightarrow> (nat \<Rightarrow> faults) \<Rightarrow> gotime \<Rightarrow> string option \<Rightarrow> auth_result \<Rightarrow> string \<Rightarrow> int \<Rightarrow> 'rq \<Rightarrow> pk_state \<Rightarrow>
     pk_state \<times> credential_info response" where
  "handle_finish_registration env fl now rid a ceremony len rq st =
     (case prepare_webauthn ceremony len of
        Some m \<Rightarrow> refused rid st CodeParamInvalid m
      | None \<Rightarrow> (case finish_registration env fl now (ctx_user_id a) ceremony rq st of (st', r) \<Rightarrow> (st', answer rid r)))"

text \<open>A request without a body names nobody.\<close>

definition handle_begin_login ::
  "('s, 'rq, 'tok) pk_env \<Rightarrow> (nat \<Rightarrow> faults) \<Rightarrow> gotime \<Rightarrow> string \<Rightarrow> string option \<Rightarrow> int \<Rightarrow> string option \<Rightarrow> pk_state \<Rightarrow>
     pk_state \<times> (string \<times> string) response" where
  "handle_begin_login env fl now uuid rid len body st =
     (case (if len \<noteq> 0 then body else Some []) of
        None \<Rightarrow> refused rid st CodeParamInvalid ''invalid request''
      | Some name \<Rightarrow> (case begin_login env fl now uuid name st of (st', r) \<Rightarrow> (st', answer rid r)))"

definition handle_finish_login ::
  "('s, 'rq, 'tok) pk_env \<Rightarrow> (nat \<Rightarrow> faults) \<Rightarrow> gotime \<Rightarrow> string option \<Rightarrow> string \<Rightarrow> int \<Rightarrow> 'rq \<Rightarrow> pk_state \<Rightarrow>
     pk_state \<times> 'tok login_response response" where
  "handle_finish_login env fl now rid ceremony len rq st =
     (case prepare_webauthn ceremony len of
        Some m \<Rightarrow> refused rid st CodeParamInvalid m
      | None \<Rightarrow> (case finish_login env fl now ceremony rq st of (st', r) \<Rightarrow> (st', answer rid r)))"

definition handle_pk_list :: "faults \<Rightarrow> string option \<Rightarrow> auth_result \<Rightarrow> pk_credential table \<Rightarrow> credential_info list response" where
  "handle_pk_list fl rid a t = answer rid (list_credentials fl (ctx_user_id a) t)"

definition handle_pk_rename ::
  "faults \<Rightarrow> gotime \<Rightarrow> string option \<Rightarrow> auth_result \<Rightarrow> string \<Rightarrow> string option \<Rightarrow> pk_credential table \<Rightarrow> pk_credential table \<times> unit response" where
  "handle_pk_rename fl now rid a idp body t =
     (case parse_uint idp of
        None \<Rightarrow> refused rid t CodeParamInvalid ''invalid credential id''
      | Some i \<Rightarrow>
          (case body of
             None \<Rightarrow> refused rid t CodeParamInvalid ''invalid request''
           | Some label \<Rightarrow> answer_done rid t (rename_credential fl now (ctx_user_id a) i label t)))"

definition handle_pk_revoke ::
  "(nat \<Rightarrow> faults) \<Rightarrow> gotime \<Rightarrow> string option \<Rightarrow> auth_result \<Rightarrow> string \<Rightarrow> user_table \<Rightarrow> pk_credential table \<Rightarrow> pk_credential table \<times> unit response" where
  "handle_pk_revoke fl now rid a idp users t =
     (case parse_uint idp of
        None \<Rightarrow> refused rid t CodeParamInvalid ''invalid credential id''
      | Some i \<Rightarrow> answer_done rid t (revoke_credential fl now (ctx_user_id a) i users t))"

section \<open>Clusters\<close>

definition handle_cluster_list :: "faults \<Rightarrow> string option \<Rightarrow> ('cfg, 'dyn) cluster_state \<Rightarrow> cluster_response list response" where
  "handle_cluster_list fl rid st = answer rid (cluster_svc_list fl st)"

definition handle_cluster_get :: "faults \<Rightarrow> string option \<Rightarrow> string \<Rightarrow> ('cfg, 'dyn) cluster_state \<Rightarrow> cluster_response response" where
  "handle_cluster_get fl rid idp st =
     (case parse_uint idp of
        None \<Rightarrow> resp_error rid CodeParamInvalid ''invalid cluster id''
      | Some i \<Rightarrow> answer rid (cluster_svc_get fl i st))"

definition handle_cluster_create ::
  "('cfg, 'dyn) kube_lib \<Rightarrow> cluster_env \<Rightarrow> faults \<Rightarrow> gotime \<Rightarrow> string option \<Rightarrow> add_request option \<Rightarrow> ('cfg, 'dyn) cluster_state \<Rightarrow>
     ('cfg, 'dyn) cluster_state \<times> cluster_response response" where
  "handle_cluster_create lib ce fl now rid body st =
     (case body of
        None \<Rightarrow> refused rid st CodeParamInvalid ''invalid request body''
      | Some q \<Rightarrow>
          if rq_name q = [] \<or> rq_auth q = [] then refused rid st CodeParamInvalid ''invalid request body''
          else (case cluster_add lib ce fl now q st of (st', r) \<Rightarrow> (st', answer rid r)))"

definition handle_cluster_delete ::
  "faults \<Rightarrow> string option \<Rightarrow> string \<Rightarrow> ('cfg, 'dyn) cluster_state \<Rightarrow> ('cfg, 'dyn) cluster_state \<times> unit response" where
  "handle_cluster_delete fl rid idp st =
     (case parse_uint idp of
        None \<Rightarrow> refused rid st CodeParamInvalid ''invalid cluster id''
      | Some i \<Rightarrow> (case cluster_svc_remove fl i st of (st', r) \<Rightarrow> (st', answer rid r)))"

section \<open>Operations and the audit trail\<close>

definition can_view_all :: "auth_result \<Rightarrow> string \<Rightarrow> bool" where
  "can_view_all a q \<longleftrightarrow> q = ''true'' \<and> (ctx_user_role a = ''admin'' \<or> ctx_user_role a = ''super-admin'')"

definition write_operation_result :: "string option \<Rightarrow> 'a res \<Rightarrow> 'a response" where
  "write_operation_result rid r =
     (case r of
        Inr v \<Rightarrow> resp_success v
      | Inl (BizErr c m) \<Rightarrow> resp_error_with_biz rid (BizErr c m)
      | Inl (OtherErr _ _) \<Rightarrow> resp_error rid CodeInternal ''failed to load operation'')"

text \<open>A limit that is not given is 100.\<close>

definition handle_op_list ::
  "bool \<Rightarrow> string option \<Rightarrow> auth_result \<Rightarrow> string option \<Rightarrow> string \<Rightarrow> op_db \<Rightarrow> op_view list response" where
  "handle_op_list flt rid a limit allq db =
     (case atoi (case limit of None \<Rightarrow> ''100'' | Some l \<Rightarrow> l) of
        (n, ok) \<Rightarrow>
          if \<not> ok then resp_error rid CodeParamInvalid ''invalid limit''
          else write_operation_result rid (op_list flt (ctx_user_id a) (can_view_all a allq) n db))"

definition handle_op_get :: "bool \<Rightarrow> string option \<Rightarrow> auth_result \<Rightarrow> string \<Rightarrow> string \<Rightarrow> op_db \<Rightarrow> op_view response" where
  "handle_op_get flt rid a i allq db =
     write_operation_result rid (op_get flt i (ctx_user_id a) (can_view_all a allq) db)"

definition handle_op_retry ::
  "bool \<Rightarrow> submit_faults \<Rightarrow> gotime \<Rightarrow> string \<Rightarrow> string option \<Rightarrow> auth_result \<Rightarrow> string \<Rightarrow> string \<Rightarrow> 'r manager \<Rightarrow> op_db \<Rightarrow>
     ('r manager \<times> op_db) \<times> op_view response" where
  "handle_op_retry flt sf now new_id rid a i allq m db =
     (case op_retry flt sf now new_id i \<lparr>pr_user = ctx_user_id a, pr_name = ctx_username a, pr_role = ctx_user_role a\<rparr>
             (can_view_all a allq) m db of
        (st, r) \<Rightarrow> (st, write_operation_result rid r))"

text \<open>The number of a query parameter, when it is one that is allowed.\<close>

definition query_number :: "(int \<Rightarrow> bool) \<Rightarrow> string \<Rightarrow> int \<Rightarrow> int" where
  "query_number good s dflt =
     (if s \<noteq> [] \<and> snd (atoi s) \<and> good (fst (atoi s)) then fst (atoi s) else dflt)"

record audit_query =
  aq_action :: string
  aq_cluster :: string
  aq_since :: string
  aq_limit :: string
  aq_offset :: string

definition audit_viewer :: "string \<Rightarrow> bool" where
  "audit_viewer rl \<longleftrightarrow> rl = ''super-admin'' \<or> rl = ''admin'' \<or> rl = ''ops''"

definition audit_filter_of :: "(string \<Rightarrow> gotime option) \<Rightarrow> audit_query \<Rightarrow> audit_filter" where
  "audit_filter_of pt q =
     \<lparr>af_user = 0, af_action = aq_action q, af_cluster = aq_cluster q,
      af_since = (if aq_since q = [] then None else pt (aq_since q)),
      af_offset = query_number (\<lambda>n. 0 \<le> n) (aq_offset q) 0,
      af_limit = query_number (\<lambda>n. 0 < n \<and> n \<le> 500) (aq_limit q) 50\<rparr>"

definition handle_audit_list ::
  "(string \<Rightarrow> gotime option) \<Rightarrow> faults \<Rightarrow> string option \<Rightarrow> string \<Rightarrow> auth_result \<Rightarrow> audit_query \<Rightarrow> audit_table \<Rightarrow> audit_log list response" where
  "handle_audit_list pt fl rid header a q t =
     (if \<not> audit_viewer (ctx_user_role a) then resp_error rid CodeForbidden ''only admin and ops roles may view audit logs''
      else case audit_list fl (audit_filter_of pt q) t of
             Inl _ \<Rightarrow> resp_error rid CodeInternal ''failed to list audit logs''
           | Inr (ls, n) \<Rightarrow> resp_paginated ls (int n) header)"

section \<open>Requests on accounts\<close>

text \<open>The requests that change an account: those of the administration, and those on the caller's own account.\<close>

datatype account_request =
    CreateAccount "create_user_request option"
  | UpdateAccount string "update_user_request option"
  | DeleteAccount string
  | ResetAccount string "string option"
  | OwnPassword "(string \<times> string) option"
  | OwnSetup
  | OwnEnable "string option"
  | OwnDisable "string option"

definition has_result :: "'a response \<Rightarrow> bool" where "has_result r \<longleftrightarrow> resp_data r \<noteq> None"

primrec account_exec ::
  "'tok auth_env \<Rightarrow> faults \<Rightarrow> hasher \<Rightarrow> gotime \<Rightarrow> string option \<Rightarrow> auth_result \<Rightarrow> account_request \<Rightarrow> user_table \<Rightarrow> user_table \<times> bool" where
  "account_exec e fl hp now rid a (CreateAccount b) t = apsnd has_result (handle_user_create fl hp rid b t)"
| "account_exec e fl hp now rid a (UpdateAccount i b) t = apsnd has_result (handle_user_update fl rid a i b t)"
| "account_exec e fl hp now rid a (DeleteAccount i) t = apsnd has_result (handle_user_delete fl now rid a i t)"
| "account_exec e fl hp now rid a (ResetAccount i b) t = apsnd has_result (handle_reset_password fl hp rid i b t)"
| "account_exec e fl hp now rid a (OwnPassword b) t = apsnd has_result (handle_change_password fl hp (ae_check_pw e) rid a b t)"
| "account_exec e fl hp now rid a OwnSetup t = apsnd has_result (handle_setup_2fa e fl rid a t)"
| "account_exec e fl hp now rid a (OwnEnable b) t = apsnd has_result (handle_enable_2fa e fl now rid a b t)"
| "account_exec e fl hp now rid a (OwnDisable b) t = apsnd has_result (handle_disable_2fa e fl now rid a b t)"

text \<open>The account a request is about; a new one has no row yet.\<close>

primrec account_target :: "auth_result \<Rightarrow> account_request \<Rightarrow> nat option" where
  "account_target a (CreateAccount b) = None"
| "account_target a (UpdateAccount i b) = parse_uint i"
| "account_target a (DeleteAccount i) = parse_uint i"
| "account_target a (ResetAccount i b) = parse_uint i"
| "account_target a (OwnPassword b) = Some (ctx_user_id a)"
| "account_target a OwnSetup = Some (ctx_user_id a)"
| "account_target a (OwnEnable b) = Some (ctx_user_id a)"
| "account_target a (OwnDisable b) = Some (ctx_user_id a)"

definition still_active :: "nat \<Rightarrow> user_table \<Rightarrow> bool" where
  "still_active i t \<longleftrightarrow> list_ex (\<lambda>u. u_id u = i \<and> user_live u \<and> u_is_active u) (rows t)"

definition confined :: "nat \<Rightarrow> nat \<Rightarrow> user_table \<Rightarrow> user_table \<Rightarrow> bool" where
  "confined c i t t' \<longleftrightarrow> users_ok t' \<and> other_rows_kept i t t' \<and> (still_active c t \<longrightarrow> still_active c t')"

lemma confined_refl: "users_ok t \<Longrightarrow> confined c i t t"
  by (simp add: confined_def)

lemma has_result_simps [simp]:
  "has_result (resp_success v)" "\<not> has_result (resp_error rid k m)" "\<not> has_result (respond_error rid e)"
  by (simp_all add: has_result_def resp_success_def resp_error_def respond_error_def resp_error_with_biz_def split: go_error.split)

lemma answer_kept_has:
  "apsnd has_result (answer_kept rid t r) = (t', ok) \<longleftrightarrow> (if ok then \<exists>v. r = Inr (t', v) else t' = t \<and> \<not> isOk r)"
  by (cases r) (auto simp: answer_kept_def)

lemma answer_done_has:
  "apsnd has_result (answer_done rid t r) = (t', ok) \<longleftrightarrow> (if ok then r = Inr t' else t' = t \<and> \<not> isOk r)"
  by (cases r) (auto simp: answer_done_def answer_kept_has)

lemma refused_has: "apsnd has_result (refused rid t k m) = (t', ok) \<longleftrightarrow> t' = t \<and> \<not> ok"
  by (auto simp: refused_def)

lemmas has_answers = answer_kept_has answer_done_has refused_has

lemma confined_update:
  assumes "users_ok t" "user_get_by_id fl i t = Inr u" "user_update fl u' t = Inr t'"
    and "u_id u' = u_id u" "u_username u' = u_username u" "u_pk_handle u' = u_pk_handle u" "u_deleted u' = u_deleted u"
    and "c = i \<Longrightarrow> u_is_active u \<Longrightarrow> u_is_active u'"
  shows "confined c i t t'"
proof -
  have u: "u \<in> set (rows t)" "user_live u" "u_id u = i" using user_get_by_id_Inr [OF assms(2)] by auto
  from users_ok_update [OF assms(1) u(1) assms(3-6)]
  have ok: "users_ok t'" and r: "rows t' = map (\<lambda>x. if u_id x = u_id u then u' else x) (rows t)" by auto
  have o: "other_rows_kept i t t'" and new: "u' \<in> set (rows t')"
    using other_rows_kept_update [OF assms(1) u(1) assms(3,4)] u(3) by auto
  have "still_active c t'" if s: "still_active c t"
  proof -
    from s obtain x where x: "x \<in> set (rows t)" "u_id x = c" "user_live x" "u_is_active x"
      by (auto simp: still_active_def list_ex_iff)
    show ?thesis
    proof (cases "c = i")
      case True
      then have "x = u" using assms(1) u x(1,2) by (auto simp: users_ok_def dest: table_ok_same)
      then show ?thesis using new True assms(4,7,8) u x
        by (auto simp: still_active_def list_ex_iff user_live_def intro!: bexI [of _ u'])
    next
      case False
      then have "x \<in> set (rows t')" using o x(1,2) by (auto simp: other_rows_kept_def)
      then show ?thesis using x by (auto simp: still_active_def list_ex_iff)
    qed
  qed
  with ok o show ?thesis by (simp add: confined_def)
qed

lemma update_user_confined:
  assumes "users_ok t" "update_user fl i c rl active t = Inr (t', d)"
  shows "confined c i t t'"
  by (rule update_user_Inr [OF assms(2)])
    (rule confined_update [OF assms(1)], assumption, assumption, auto)

lemma reset_password_confined: "users_ok t \<Longrightarrow> reset_password fl hp i pw t = Inr t' \<Longrightarrow> confined c i t t'"
  by (erule reset_password_Inr) (rule confined_update, assumption+, simp_all)

lemma change_password_confined: "users_ok t \<Longrightarrow> change_password fl hp cp i old pw t = Inr t' \<Longrightarrow> confined c i t t'"
  by (erule change_password_Inr) (rule confined_update, assumption+, simp_all)

lemma setup_2fa_confined:
  assumes "users_ok t" "setup_2fa e fl i t = Inr (t', r)"
  shows "confined c i t t'"
proof -
  obtain u x y where "user_get_by_id fl i t = Inr u" "user_update fl (u\<lparr>u_totp_secret_enc := x, u_recovery_codes_enc := y\<rparr>) t = Inr t'"
    using assms(2) by (auto simp: setup_2fa_def split: sum.splits if_splits option.splits)
  then show ?thesis by (rule confined_update [OF assms(1)]) simp_all
qed

lemma enable_2fa_confined:
  assumes "users_ok t" "enable_2fa e fl now i code t = Inr t'"
  shows "confined c i t t'"
proof -
  obtain u where "user_get_by_id fl i t = Inr u" "user_update fl (u\<lparr>u_totp_enabled := True\<rparr>) t = Inr t'"
    using assms(2) by (auto simp: enable_2fa_def split: sum.splits if_splits option.splits)
  then show ?thesis by (rule confined_update [OF assms(1)]) simp_all
qed

lemma disable_2fa_confined:
  assumes "users_ok t" "disable_2fa e fl now i code t = Inr t'"
  shows "confined c i t t'"
proof -
  obtain u where "user_get_by_id fl i t = Inr u"
    "user_update fl (u\<lparr>u_totp_enabled := False, u_totp_secret_enc := [], u_recovery_codes_enc := []\<rparr>) t = Inr t'"
    using assms(2) by (auto simp: disable_2fa_def split: sum.splits if_splits option.splits)
  then show ?thesis by (rule confined_update [OF assms(1)]) simp_all
qed

lemma delete_user_confined:
  assumes "users_ok t" "delete_user fl now i c t = Inr t'"
  shows "confined c i t t'"
proof (rule delete_user_Inr [OF assms(2)])
  fix u assume c: "i \<noteq> c" and d: "user_delete fl now i t = Inr t'"
  have r: "rows t' = map (\<lambda>u. if user_live u \<and> u_id u = i then u\<lparr>u_deleted := Some now\<rparr> else u) (rows t)"
    using d by (auto simp: user_delete_def split: if_splits)
  have "other_rows_kept i t t'" by (auto simp: other_rows_kept_def r image_iff split: if_splits)
  moreover have "still_active c t \<longrightarrow> still_active c t'"
    using c by (fastforce simp: still_active_def list_ex_iff r)
  ultimately show ?thesis using users_ok_delete [OF assms(1) d] by (simp add: confined_def)
qed

lemma create_user_kept:
  assumes "users_ok t" "create_user fl hp n pw rl t = Inr (t', d)"
  shows "users_ok t' \<and> set (rows t) \<subseteq> set (rows t') \<and> (still_active c t \<longrightarrow> still_active c t')"
proof -
  obtain h u' where c: "user_create fl (new_user n h rl) t = Inr (t', u')" using create_user_Inr [OF assms(2)] by blast
  then have "rows t' = rows t @ [u']" by (auto simp: user_create_def create_row_Inr)
  with users_ok_create [OF assms(1) c] show ?thesis by (auto simp: still_active_def)
qed

text \<open>
  C16. A request on an account leaves every other account as it is, whoever sends it; what the caller does to the own account
  touches no other one. The user table stays well formed, an answer without a result means that nothing was changed,
  and no request deletes or disables the account it is sent from.
\<close>

theorem account_requests_confined:
  assumes "users_ok t" and "account_exec e fl hp now rid a rq t = (t', ok)"
  shows "users_ok t' \<and> (ok \<or> t' = t) \<and>
    (case account_target a rq of Some i \<Rightarrow> other_rows_kept i t t' | None \<Rightarrow> set (rows t) \<subseteq> set (rows t')) \<and>
    (if still_active (ctx_user_id a) t then still_active (ctx_user_id a) t' else True)"
proof (cases "t' = t")
  case True
  with assms(1) show ?thesis by (auto split: option.splits)
next
  case False
  let ?c = "ctx_user_id a"
  have fin: ?thesis if "ok" "account_target a rq = Some i" "confined ?c i t t'" for i
    using that by (simp add: confined_def)
  show ?thesis
  proof (cases rq)
    case (CreateAccount b)
    with False assms(2) obtain n pw rl d where "create_user fl hp n pw rl t = Inr (t', d)" "ok"
      by (cases b) (auto simp: handle_user_create_def has_answers split: if_splits)
    with create_user_kept [OF assms(1)] CreateAccount show ?thesis by auto
  next
    case (UpdateAccount idp b)
    obtain i where i: "parse_uint idp = Some i" using False assms(2) UpdateAccount
      by (cases "parse_uint idp") (auto simp: handle_user_update_def has_answers)
    with False assms(2) UpdateAccount obtain rl act d where r: "update_user fl i ?c rl act t = Inr (t', d)" and ok: "ok"
      by (cases b) (auto simp: handle_user_update_def has_answers split: if_splits)
    show ?thesis by (rule fin [OF ok _ update_user_confined [OF assms(1) r]]) (simp add: UpdateAccount i)
  next
    case (DeleteAccount idp)
    with False assms(2) obtain i where i: "parse_uint idp = Some i" and r: "delete_user fl now i ?c t = Inr t'" and ok: "ok"
      by (cases "parse_uint idp") (auto simp: handle_user_delete_def has_answers split: if_splits)
    show ?thesis by (rule fin [OF ok _ delete_user_confined [OF assms(1) r]]) (simp add: DeleteAccount i)
  next
    case (ResetAccount idp b)
    obtain i where i: "parse_uint idp = Some i" using False assms(2) ResetAccount
      by (cases "parse_uint idp") (auto simp: handle_reset_password_def has_answers)
    with False assms(2) ResetAccount obtain pw where r: "reset_password fl hp i pw t = Inr t'" and ok: "ok"
      by (cases b) (auto simp: handle_reset_password_def has_answers split: if_splits)
    show ?thesis by (rule fin [OF ok _ reset_password_confined [OF assms(1) r]]) (simp add: ResetAccount i)
  next
    case (OwnPassword b)
    with False assms(2) obtain old pw where r: "change_password fl hp (ae_check_pw e) ?c old pw t = Inr t'" and ok: "ok"
      by (cases b) (auto simp: handle_change_password_def has_answers split: if_splits)
    show ?thesis by (rule fin [OF ok _ change_password_confined [OF assms(1) r]]) (simp add: OwnPassword)
  next
    case OwnSetup
    with False assms(2) obtain r where r: "setup_2fa e fl ?c t = Inr (t', r)" and ok: "ok"
      by (auto simp: handle_setup_2fa_def has_answers split: if_splits)
    show ?thesis by (rule fin [OF ok _ setup_2fa_confined [OF assms(1) r]]) (simp add: OwnSetup)
  next
    case (OwnEnable b)
    with False assms(2) obtain code where r: "enable_2fa e fl now ?c code t = Inr t'" and ok: "ok"
      by (cases b) (auto simp: handle_enable_2fa_def with_code_def has_answers split: if_splits)
    show ?thesis by (rule fin [OF ok _ enable_2fa_confined [OF assms(1) r]]) (simp add: OwnEnable)
  next
    case (OwnDisable b)
    with False assms(2) obtain code where r: "disable_2fa e fl now ?c code t = Inr t'" and ok: "ok"
      by (cases b) (auto simp: handle_disable_2fa_def with_code_def has_answers split: if_splits)
    show ?thesis by (rule fin [OF ok _ disable_2fa_confined [OF assms(1) r]]) (simp add: OwnDisable)
  qed
qed

section \<open>What the handlers let through\<close>

text \<open>A change of the role alone, without a status in the body, enables a disabled account.\<close>

lemma role_update_reactivates:
  assumes "users_ok t" "ctx_user_id a \<noteq> 0" "parse_uint idp = Some i" "user_get_by_id fl i t = Inr u"
    and "u_role u \<noteq> ''super-admin''" "valid_role rl" "rl \<noteq> []" "\<not> fl DbUpdate"
  shows "\<exists>t'. handle_user_update fl rid a idp (Some \<lparr>uu_role = rl, uu_active = None\<rparr>) t =
      (t', resp_success (to_user_detail (u\<lparr>u_role := rl, u_is_active := True\<rparr>))) \<and> still_active i t'"
proof -
  let ?u = "u\<lparr>u_role := rl, u_is_active := True\<rparr>"
  have u: "u \<in> set (rows t)" "user_live u" "u_id u = i" using user_get_by_id_Inr [OF assms(4)] by auto
  have "save_row fl u_id ?u t = Inr (t\<lparr>rows := map (\<lambda>x. if u_id x = u_id ?u then ?u else x) (rows t)\<rparr>)"
    by (rule save_row_existing [OF u(1)]) (simp_all add: assms(8))
  then obtain t' where up: "user_update fl ?u t = Inr t'" by (simp add: user_update_def)
  have "?u \<in> set (rows t')" using other_rows_kept_update [OF assms(1) u(1) up] by simp
  then have "still_active i t'" using u by (auto simp: still_active_def list_ex_iff user_live_def intro!: bexI [of _ ?u])
  moreover have "update_user fl i (ctx_user_id a) rl True t = Inr (t', to_user_detail ?u)"
    using assms(4-7) up by (simp add: update_user_def Let_def)
  ultimately show ?thesis using assms(2,3) by (simp add: handle_user_update_def answer_kept_def)
qed

text \<open>The status of a super-administrator cannot be changed without repeating the role: the refusal speaks of a change of the role.\<close>

lemma super_admin_status_refused:
  assumes "ctx_user_id a \<noteq> 0" "parse_uint idp = Some i" "user_get_by_id fl i t = Inr u" "u_role u = ''super-admin''"
  shows "handle_user_update fl rid a idp (Some \<lparr>uu_role = [], uu_active = act\<rparr>) t =
    (t, resp_error rid CodeForbidden ''cannot change the role of the super-admin'')"
  using assms
  by (simp add: handle_user_update_def update_user_def answer_kept_def respond_error_def biz_new_def resp_error_with_biz_def resp_error_def)

text \<open>Who may administer users may become a super-administrator, and take over the account of one.\<close>

lemma administrator_promotes_itself:
  assumes "ctx_user_id a \<noteq> 0" "parse_uint idp = Some (ctx_user_id a)" "user_get_by_id fl (ctx_user_id a) t = Inr u"
    and "user_update fl (u\<lparr>u_role := ''super-admin'', u_is_active := True\<rparr>) t = Inr t'"
  shows "fst (handle_user_update fl rid a idp (Some \<lparr>uu_role = ''super-admin'', uu_active = None\<rparr>) t) = t'"
  using assms by (simp add: handle_user_update_def update_user_def answer_kept_def Let_def valid_role_def valid_roles_def)

text \<open>What a caller is told about the own account never mentions the second factor.\<close>

lemma me_hides_second_factor: "resp_data (handle_me rid a) = Some i \<Longrightarrow> \<not> ui_totp_enabled i"
  by (auto simp: handle_me_def resp_success_def resp_error_def split: if_splits)

text \<open>No account that the user service creates or changes has the role that the audit trail names beside the administrators.\<close>

lemma ops_is_no_role: "audit_viewer ''ops'' \<and> \<not> valid_role ''ops''"
  by (simp add: audit_viewer_def valid_role_def valid_roles_def)

section \<open>Example\<close>

definition demo_caller :: auth_result where "demo_caller = Authenticated 2 ''eve'' ''admin''"

lemma demo_id: "parse_uint ''3'' = Some 3"
  by (simp add: parse_uint_def)

lemma demo_disabled:
  "account_exec demo_env no_faults (\<lambda>p. Some p) 0 None demo_caller (UpdateAccount ''3'' (Some \<lparr>uu_role = [], uu_active = Some False\<rparr>)) demo_users =
     (\<lparr>rows = [(new_user ''admin'' ''h0'' ''super-admin'')\<lparr>u_id := 1\<rparr>, (new_user ''eve'' ''h1'' ''admin'')\<lparr>u_id := 2\<rparr>,
              (new_user ''bob'' ''h2'' ''viewer'')\<lparr>u_id := 3, u_is_active := False\<rparr>], seq = 3\<rparr>, True)"
  by (simp add: handle_user_update_def demo_caller_def ctx_user_id_def demo_id update_user_def user_get_by_id_def first_where_def
      demo_users_def new_user_def user_live_def user_update_def save_row_def answer_kept_def Let_def)

theorem account_requests_confined_witness:
  "\<exists>t'. account_exec demo_env no_faults (\<lambda>p. Some p) 0 None demo_caller (UpdateAccount ''3'' (Some \<lparr>uu_role = [], uu_active = Some False\<rparr>)) demo_users =
     (t', True) \<and> other_rows_kept 3 demo_users t' \<and> still_active 2 t'"
proof -
  have "still_active 2 demo_users" by (simp add: still_active_def demo_users_def new_user_def user_live_def)
  with account_requests_confined [OF demo_users_ok demo_disabled] demo_id show ?thesis
    unfolding demo_disabled by (simp add: demo_caller_def ctx_user_id_def)
qed

end
