(* ===== verification/Plugins.thy ===== *)
theory Plugins
  imports Registry_Client Account_Handlers
begin

text \<open>
  Plugins: the registry (\<open>plugin/registry.go\<close>), the clients of Prometheus, Grafana and Argo CD (\<open>plugin/prometheus\<close>,
  \<open>plugin/grafana\<close>, \<open>plugin/argocd\<close>), their stored configuration (\<open>repository/plugin_repo.go\<close>,
  \<open>service/plugin_service.go\<close>) and the handlers (\<open>handler/plugin_handler.go\<close>). URLs, HTTP and JSON are parameters. A plugin is
  changed through a pointer; here the registry holds its value and is updated.
\<close>

section \<open>Plugins and what they reach\<close>

datatype plugin_kind = Prometheus | Grafana | ArgoCD

record plugin_inst =
  pi_kind :: plugin_kind
  pi_base :: string
  pi_token :: string

record query_result =
  qr_status :: string
  qr_data :: json

record dashboard =
  db_id :: int
  db_uid :: string
  db_title :: string
  db_url :: string
  db_tags :: "string list"

record argo_item =
  ai_name :: string
  ai_namespace :: string
  ai_project :: string
  ai_repo :: string
  ai_path :: string
  ai_revision :: string
  ai_sync :: string
  ai_health :: string

record argo_app =
  ap_item :: argo_item
  ap_app_url :: string

text \<open>
  \<open>pn_uri\<close> and \<open>pn_bad_url\<close> are the errors of \<open>url.ParseRequestURI\<close> and \<open>http.NewRequest\<close>. \<open>pn_get\<close> takes the URL and the authorization,
  empty when none is sent; its answer is an error, or the status and the body, which may fail to be read. The decoders give the
  text of their error.
\<close>

record plugin_net =
  pn_uri :: "string \<Rightarrow> string option"
  pn_bad_url :: "string \<Rightarrow> string option"
  pn_get :: "string \<Rightarrow> string \<Rightarrow> string + int \<times> (string + string)"
  pn_query :: "string \<Rightarrow> string + query_result"
  pn_dashboards :: "string \<Rightarrow> string + dashboard list"
  pn_apps :: "string \<Rightarrow> string + argo_item list"
  pn_app :: "string \<Rightarrow> string + argo_item"

definition kind_name :: "plugin_kind \<Rightarrow> string" where
  "kind_name k = (case k of Prometheus \<Rightarrow> ''prometheus'' | Grafana \<Rightarrow> ''grafana'' | ArgoCD \<Rightarrow> ''argocd'')"

definition kind_type :: "plugin_kind \<Rightarrow> string" where
  "kind_type k = (case k of Prometheus \<Rightarrow> ''monitoring'' | Grafana \<Rightarrow> ''dashboard'' | ArgoCD \<Rightarrow> ''gitops'')"

definition kind_description :: "plugin_kind \<Rightarrow> string" where
  "kind_description k =
     (case k of
        Prometheus \<Rightarrow> ''Prometheus metrics integration for pods and nodes''
      | Grafana \<Rightarrow> ''Grafana dashboard integration for embedded visualizations''
      | ArgoCD \<Rightarrow> ''ArgoCD GitOps integration for application sync status'')"

definition new_plugin :: "plugin_kind \<Rightarrow> plugin_inst" where
  "new_plugin k = \<lparr>pi_kind = k, pi_base = [], pi_token = []\<rparr>"

text \<open>Only Prometheus has no token.\<close>

definition plugin_init :: "plugin_net \<Rightarrow> (string, string) gomap \<Rightarrow> plugin_inst \<Rightarrow> string + plugin_inst" where
  "plugin_init n cfg p =
     (let nm = kind_name (pi_kind p) in
      case gm_get cfg ''url'' of
        None \<Rightarrow> Inl (nm @ '': url is required'')
      | Some u \<Rightarrow>
          if u = [] then Inl (nm @ '': url is required'')
          else (case pn_uri n u of
                  Some m \<Rightarrow> Inl (nm @ '': invalid url: '' @ m)
                | None \<Rightarrow>
                    Inr (if pi_kind p = Prometheus then p\<lparr>pi_base := u\<rparr>
                         else p\<lparr>pi_base := u, pi_token := (case gm_get cfg ''token'' of Some t \<Rightarrow> t | None \<Rightarrow> [])\<rparr>)))"

definition plugin_auth :: "plugin_inst \<Rightarrow> string" where
  "plugin_auth p = (if pi_kind p = Prometheus \<or> pi_token p = [] then [] else ''Bearer '' @ pi_token p)"

definition plugin_fetch :: "plugin_net \<Rightarrow> plugin_inst \<Rightarrow> string \<Rightarrow> string \<Rightarrow> string + int \<times> (string + string)" where
  "plugin_fetch n p url what =
     (case pn_bad_url n url of
        Some m \<Rightarrow> Inl m
      | None \<Rightarrow> (case pn_get n url (plugin_auth p) of Inl m \<Rightarrow> Inl (what @ '': '' @ m) | Inr r \<Rightarrow> Inr r))"

definition health_path :: "plugin_kind \<Rightarrow> string" where
  "health_path k = (case k of Prometheus \<Rightarrow> ''/-/healthy'' | Grafana \<Rightarrow> ''/api/health'' | ArgoCD \<Rightarrow> ''/api/v1/applications'')"

definition healthy_status :: "plugin_kind \<Rightarrow> int \<Rightarrow> bool" where
  "healthy_status k s \<longleftrightarrow> (case k of ArgoCD \<Rightarrow> s < 400 | _ \<Rightarrow> s = 200)"

definition plugin_health :: "plugin_net \<Rightarrow> plugin_inst \<Rightarrow> string option" where
  "plugin_health n p =
     (let nm = kind_name (pi_kind p) in
      case plugin_fetch n p (pi_base p @ health_path (pi_kind p)) (nm @ '' health check failed'') of
        Inl m \<Rightarrow> Some m
      | Inr (s, _) \<Rightarrow> if healthy_status (pi_kind p) s then None else Some (nm @ '' returned status '' @ dec_int s))"

text \<open>A body is read and decoded.\<close>

definition read_body :: "(string \<Rightarrow> string + 'a) \<Rightarrow> string + string \<Rightarrow> string + 'a" where
  "read_body dec body = (case body of Inl m \<Rightarrow> Inl m | Inr b \<Rightarrow> dec b)"

section \<open>Prometheus\<close>

text \<open>\<open>url.QueryEscape\<close>.\<close>

definition query_keeps :: "char \<Rightarrow> bool" where
  "query_keeps ch \<longleftrightarrow> word_char ch \<or> ch \<in> set ''-.~''"

definition query_escape :: "string \<Rightarrow> string" where
  "query_escape s = concat (map (\<lambda>ch. if query_keeps ch then [ch] else if ch = CHR '' '' then ''+''
     else [CHR ''%'', upper_hex (of_char ch div 16), upper_hex (of_char ch mod 16)]) s)"

definition prom_ask :: "plugin_net \<Rightarrow> plugin_inst \<Rightarrow> string \<Rightarrow> string \<Rightarrow> string + query_result" where
  "prom_ask n p path what =
     (if pi_base p = [] then Inl ''prometheus not configured''
      else case plugin_fetch n p (pi_base p @ path) what of
             Inl m \<Rightarrow> Inl m | Inr (_, body) \<Rightarrow> read_body (pn_query n) body)"

definition prom_query :: "plugin_net \<Rightarrow> plugin_inst \<Rightarrow> string \<Rightarrow> string + query_result" where
  "prom_query n p q = prom_ask n p (''/api/v1/query?query='' @ query_escape q) ''prometheus query failed''"

text \<open>Times are in seconds here; the step is printed by the caller.\<close>

definition prom_query_range :: "plugin_net \<Rightarrow> plugin_inst \<Rightarrow> string \<Rightarrow> int \<Rightarrow> int \<Rightarrow> string \<Rightarrow> string + query_result" where
  "prom_query_range n p q s e step =
     prom_ask n p (''/api/v1/query_range?query='' @ query_escape q @ ''&start='' @ dec_int s @ ''&end='' @ dec_int e @ ''&step='' @ step)
       ''prometheus range query failed''"

definition replace_char :: "char \<Rightarrow> string \<Rightarrow> string \<Rightarrow> string" where
  "replace_char c r s = concat (map (\<lambda>x. if x = c then r else [x]) s)"

definition escape_label :: "string \<Rightarrow> string" where
  "escape_label s =
     replace_char (CHR 0x0A) [backslash, CHR ''n''] (replace_char quote [backslash, quote] (replace_char backslash [backslash, backslash] s))"

definition pod_selector :: "string \<Rightarrow> string \<Rightarrow> string" where
  "pod_selector ns pod =
     ''{namespace='' @ quote # escape_label ns @ quote # '',pod='' @ quote # escape_label pod @ quote # '',container!='' @
       [quote, quote] @ ''}''"

definition pod_cpu :: "plugin_net \<Rightarrow> plugin_inst \<Rightarrow> string \<Rightarrow> string \<Rightarrow> string + query_result" where
  "pod_cpu n p ns pod = prom_query n p (''rate(container_cpu_usage_seconds_total'' @ pod_selector ns pod @ ''[5m])'')"

definition pod_memory :: "plugin_net \<Rightarrow> plugin_inst \<Rightarrow> string \<Rightarrow> string \<Rightarrow> string + query_result" where
  "pod_memory n p ns pod = prom_query n p (''container_memory_working_set_bytes'' @ pod_selector ns pod)"

section \<open>Grafana and Argo CD\<close>

definition absolute_url :: "string \<Rightarrow> string \<Rightarrow> string" where
  "absolute_url base u = (if u \<noteq> [] \<and> hd u = CHR ''/'' then base @ u else u)"

definition list_dashboards :: "plugin_net \<Rightarrow> plugin_inst \<Rightarrow> string + dashboard list" where
  "list_dashboards n p =
     (if pi_base p = [] then Inl ''grafana not configured''
      else case plugin_fetch n p (pi_base p @ ''/api/search?type=dash-db'') ''grafana API call failed'' of
             Inl m \<Rightarrow> Inl m
           | Inr (_, body) \<Rightarrow>
               (case read_body (pn_dashboards n) body of
                  Inl m \<Rightarrow> Inl m
                | Inr ds \<Rightarrow> Inr (map (\<lambda>d. d\<lparr>db_url := absolute_url (pi_base p) (db_url d)\<rparr>) ds)))"

definition embed_url :: "plugin_inst \<Rightarrow> string \<Rightarrow> int \<Rightarrow> string \<Rightarrow> string \<Rightarrow> string" where
  "embed_url p uid panel f t =
     pi_base p @ ''/d-solo/'' @ uid @ ''?panelId='' @ dec_int panel @ ''&from='' @ query_escape (if f = [] then ''now-1h'' else f) @
       ''&to='' @ query_escape (if t = [] then ''now'' else t) @ ''&theme=light''"

definition argo_app_of :: "plugin_inst \<Rightarrow> argo_item \<Rightarrow> argo_app" where
  "argo_app_of p i = \<lparr>ap_item = i, ap_app_url = pi_base p @ ''/applications/'' @ ai_name i\<rparr>"

definition list_applications :: "plugin_net \<Rightarrow> plugin_inst \<Rightarrow> string + argo_app list" where
  "list_applications n p =
     (if pi_base p = [] then Inl ''argocd not configured''
      else case plugin_fetch n p (pi_base p @ ''/api/v1/applications'') ''argocd API call failed'' of
             Inl m \<Rightarrow> Inl m
           | Inr (_, body) \<Rightarrow>
               (case read_body (pn_apps n) body of Inl m \<Rightarrow> Inl m | Inr is \<Rightarrow> Inr (map (argo_app_of p) is)))"

definition get_application :: "plugin_net \<Rightarrow> plugin_inst \<Rightarrow> string \<Rightarrow> string + argo_app" where
  "get_application n p name =
     (if pi_base p = [] then Inl ''argocd not configured''
      else case plugin_fetch n p (pi_base p @ ''/api/v1/applications/'' @ path_escape name) ''argocd API call failed'' of
             Inl m \<Rightarrow> Inl m
           | Inr (s, body) \<Rightarrow>
               (case body of
                  Inl m \<Rightarrow> Inl m
                | Inr b \<Rightarrow>
                    if s = 404 then Inl (''application '' @ go_quote name @ '' not found'')
                    else (case pn_app n b of Inl m \<Rightarrow> Inl m | Inr i \<Rightarrow> Inr (argo_app_of p i))))"

section \<open>The registry\<close>

type_synonym plugin_registry = "(string, plugin_inst) gomap"

definition registry_register :: "plugin_inst \<Rightarrow> plugin_registry \<Rightarrow> plugin_registry" where
  "registry_register p r = gm_put (kind_name (pi_kind p)) p r"

definition registry_get :: "string \<Rightarrow> plugin_registry \<Rightarrow> plugin_inst option" where "registry_get nm r = gm_get r nm"

definition registry_all :: "plugin_registry \<Rightarrow> plugin_inst list" where "registry_all r = map snd r"

definition registry_names :: "plugin_registry \<Rightarrow> string list" where "registry_names r = map fst r"

definition builtin_plugins :: plugin_registry where
  "builtin_plugins = fold registry_register [new_plugin Prometheus, new_plugin Grafana, new_plugin ArgoCD] []"

section \<open>The stored configuration\<close>

record plugin_config =
  pl_id :: nat
  pl_deleted :: "gotime option"
  pl_name :: string
  pl_type :: string
  pl_cluster :: string
  pl_enabled :: bool
  pl_config :: string

definition pl_live :: "plugin_config \<Rightarrow> bool" where "pl_live c \<longleftrightarrow> pl_deleted c = None"

definition pc_create :: "faults \<Rightarrow> plugin_config \<Rightarrow> plugin_config table \<Rightarrow> (plugin_config table \<times> plugin_config) res" where
  "pc_create fl c t = create_row fl (\<lambda>x y. pl_name x = pl_name y) (\<lambda>i x. x\<lparr>pl_id := i\<rparr>) c t"

definition pc_get_by_name :: "faults \<Rightarrow> string \<Rightarrow> plugin_config table \<Rightarrow> plugin_config res" where
  "pc_get_by_name fl nm t = first_where fl (\<lambda>c. pl_live c \<and> pl_name c = nm) t"

definition pc_update :: "faults \<Rightarrow> plugin_config \<Rightarrow> plugin_config table \<Rightarrow> plugin_config table res" where
  "pc_update fl c t = save_row fl pl_id c t"

definition pc_delete :: "faults \<Rightarrow> gotime \<Rightarrow> nat \<Rightarrow> plugin_config table \<Rightarrow> plugin_config table res" where
  "pc_delete fl now i t =
     (if fl DbDelete then Inl db_error
      else Inr (t\<lparr>rows := map (\<lambda>c. if pl_live c \<and> pl_id c = i then c\<lparr>pl_deleted := Some now\<rparr> else c) (rows t)\<rparr>))"

definition pc_list :: "faults \<Rightarrow> plugin_config table \<Rightarrow> plugin_config list res" where
  "pc_list fl t = find_where fl pl_live t"

section \<open>The service\<close>

record plugin_state =
  px_plugins :: plugin_registry
  px_configs :: "plugin_config table"

text \<open>The JSON of a configuration: a map of strings, or none.\<close>

record config_json =
  cj_marshal :: "(string, string) gomap option \<Rightarrow> string option"
  cj_unmarshal :: "string \<Rightarrow> (string, string) gomap option option"

record plugin_info =
  pf_name :: string
  pf_description :: string
  pf_version :: string
  pf_type :: string
  pf_on :: bool
  pf_healthy :: bool

definition info_of :: "plugin_net \<Rightarrow> plugin_config list \<Rightarrow> plugin_inst \<Rightarrow> plugin_info" where
  "info_of n cs p =
     (let on = (case find (\<lambda>c. pl_name c = kind_name (pi_kind p)) (rev cs) of Some c \<Rightarrow> pl_enabled c | None \<Rightarrow> False)
      in \<lparr>pf_name = kind_name (pi_kind p), pf_description = kind_description (pi_kind p), pf_version = ''1.0.0'',
          pf_type = kind_type (pi_kind p), pf_on = on, pf_healthy = on \<and> plugin_health n p = None\<rparr>)"

definition plugins_list :: "plugin_net \<Rightarrow> faults \<Rightarrow> plugin_state \<Rightarrow> plugin_info list res" where
  "plugins_list n fl st =
     (let cs = (case pc_list fl (px_configs st) of Inl _ \<Rightarrow> [] | Inr cs \<Rightarrow> cs)
      in Inr (map (info_of n cs) (registry_all (px_plugins st))))"

definition not_registered :: "string \<Rightarrow> 'a res" where
  "not_registered nm = fail CodeNotFound (''plugin '' @ go_quote nm @ '' not registered'')"

definition plugin_get_config :: "faults \<Rightarrow> string \<Rightarrow> plugin_state \<Rightarrow> plugin_config res" where
  "plugin_get_config fl nm st =
     (case registry_get nm (px_plugins st) of
        None \<Rightarrow> not_registered nm
      | Some _ \<Rightarrow>
          (case pc_get_by_name fl nm (px_configs st) of
             Inl _ \<Rightarrow> fail CodeNotFound (''plugin '' @ go_quote nm @ '' not configured'') | Inr c \<Rightarrow> Inr c))"

record plugin_request =
  pq_enabled :: bool
  pq_config :: "(string, string) gomap option"

definition upsert_config ::
  "faults \<Rightarrow> plugin_inst \<Rightarrow> string \<Rightarrow> bool \<Rightarrow> string \<Rightarrow> plugin_config table \<Rightarrow> plugin_config table \<times> plugin_config res" where
  "upsert_config fl p nm on cfg t =
     (case pc_get_by_name fl nm t of
        Inl _ \<Rightarrow>
          (case pc_create fl \<lparr>pl_id = 0, pl_deleted = None, pl_name = nm, pl_type = kind_type (pi_kind p), pl_cluster = [],
                  pl_enabled = on, pl_config = cfg\<rparr> t of
             Inl _ \<Rightarrow> (t, fail CodeInternal ''failed to save plugin config'') | Inr (t', c) \<Rightarrow> (t', Inr c))
      | Inr c \<Rightarrow>
          (let c' = c\<lparr>pl_enabled := on, pl_config := cfg\<rparr> in
           case pc_update fl c' t of
             Inl _ \<Rightarrow> (t, fail CodeInternal ''failed to update plugin config'') | Inr t' \<Rightarrow> (t', Inr c')))"

definition plugin_configure ::
  "plugin_net \<Rightarrow> config_json \<Rightarrow> faults \<Rightarrow> string \<Rightarrow> plugin_request \<Rightarrow> plugin_state \<Rightarrow> plugin_state \<times> plugin_config res" where
  "plugin_configure n js fl nm q st =
     (case registry_get nm (px_plugins st) of
        None \<Rightarrow> (st, not_registered nm)
      | Some p \<Rightarrow>
          (case (case (if pq_enabled q then pq_config q else None) of None \<Rightarrow> Inr p | Some cfg \<Rightarrow> plugin_init n cfg p) of
             Inl m \<Rightarrow> (st, fail CodeParamInvalid (''invalid config: '' @ m))
           | Inr p' \<Rightarrow>
               (let st1 = st\<lparr>px_plugins := gm_put nm p' (px_plugins st)\<rparr> in
                case cj_marshal js (pq_config q) of
                  None \<Rightarrow> (st1, fail CodeInternal ''failed to marshal config'')
                | Some cfg \<Rightarrow>
                    (case upsert_config fl p nm (pq_enabled q) cfg (px_configs st) of
                       (t', r) \<Rightarrow> (st1\<lparr>px_configs := t'\<rparr>, r)))))"

text \<open>The error of a plugin, as the text of an error.\<close>

definition plugin_health_check :: "plugin_net \<Rightarrow> string \<Rightarrow> plugin_state \<Rightarrow> go_error option" where
  "plugin_health_check n nm st =
     (case registry_get nm (px_plugins st) of
        None \<Rightarrow> Some (biz_new CodeNotFound (''plugin '' @ go_quote nm @ '' not registered''))
      | Some p \<Rightarrow> map_option (\<lambda>m. OtherErr m False) (plugin_health n p))"

definition init_stored :: "plugin_net \<Rightarrow> config_json \<Rightarrow> plugin_config \<Rightarrow> plugin_registry \<Rightarrow> plugin_registry" where
  "init_stored n js c r =
     (if \<not> pl_enabled c then r
      else case registry_get (pl_name c) r of
             None \<Rightarrow> r
           | Some p \<Rightarrow>
               (case cj_unmarshal js (pl_config c) of
                  None \<Rightarrow> r
                | Some cfg \<Rightarrow>
                    (case plugin_init n (case cfg of None \<Rightarrow> [] | Some m \<Rightarrow> m) p of
                       Inl _ \<Rightarrow> r | Inr p' \<Rightarrow> gm_put (pl_name c) p' r)))"

definition init_from_db :: "plugin_net \<Rightarrow> config_json \<Rightarrow> faults \<Rightarrow> plugin_state \<Rightarrow> plugin_state" where
  "init_from_db n js fl st =
     (case pc_list fl (px_configs st) of
        Inl _ \<Rightarrow> st
      | Inr cs \<Rightarrow> st\<lparr>px_plugins := fold (init_stored n js) cs (px_plugins st)\<rparr>)"

definition plugin_of_kind :: "plugin_kind \<Rightarrow> plugin_state \<Rightarrow> plugin_inst option" where
  "plugin_of_kind k st =
     (case registry_get (kind_name k) (px_plugins st) of
        Some p \<Rightarrow> (if pi_kind p = k then Some p else None) | None \<Rightarrow> None)"

section \<open>The handlers\<close>

definition max_promql_len :: nat where "max_promql_len = 1000"

definition validate_promql :: "string \<Rightarrow> (int \<times> string) option" where
  "validate_promql q =
     (if max_promql_len < length q then Some (CodeParamInvalid, ''query exceeds maximum allowed length'')
      else if contains q (''__name__=~'' @ quote # ''.*'' @ [quote]) then Some (CodeParamInvalid, ''query contains disallowed pattern'')
      else None)"

definition handle_plugins_list :: "plugin_net \<Rightarrow> faults \<Rightarrow> string option \<Rightarrow> plugin_state \<Rightarrow> plugin_info list response" where
  "handle_plugins_list n fl rid st = answer rid (plugins_list n fl st)"

definition handle_plugin_get :: "faults \<Rightarrow> string option \<Rightarrow> string \<Rightarrow> plugin_state \<Rightarrow> plugin_config response" where
  "handle_plugin_get fl rid nm st =
     (if nm = [] then resp_error rid CodeParamMissing ''plugin name required'' else answer rid (plugin_get_config fl nm st))"

text \<open>A body that does not bind is the text of its error.\<close>

definition handle_plugin_configure ::
  "plugin_net \<Rightarrow> config_json \<Rightarrow> faults \<Rightarrow> string option \<Rightarrow> string \<Rightarrow> string + plugin_request \<Rightarrow> plugin_state \<Rightarrow>
     plugin_state \<times> plugin_config response" where
  "handle_plugin_configure n js fl rid nm body st =
     (if nm = [] then refused rid st CodeParamMissing ''plugin name required''
      else case body of
             Inl m \<Rightarrow> refused rid st CodeParamInvalid m
           | Inr q \<Rightarrow> (case plugin_configure n js fl nm q st of (st', r) \<Rightarrow> (st', answer rid r)))"

definition handle_plugin_health :: "plugin_net \<Rightarrow> string option \<Rightarrow> string \<Rightarrow> plugin_state \<Rightarrow> string response" where
  "handle_plugin_health n rid nm st =
     (if nm = [] then resp_error rid CodeParamMissing ''plugin name required''
      else case plugin_health_check n nm st of
             None \<Rightarrow> resp_success ''healthy''
           | Some (BizErr c m) \<Rightarrow> resp_error_with_biz rid (BizErr c m)
           | Some (OtherErr m d) \<Rightarrow> resp_error rid CodeInternal m)"

definition text_answer :: "string option \<Rightarrow> string + 'a \<Rightarrow> 'a response" where
  "text_answer rid r = (case r of Inl m \<Rightarrow> resp_error rid CodeInternal m | Inr v \<Rightarrow> resp_success v)"

definition handle_prometheus_query :: "plugin_net \<Rightarrow> string option \<Rightarrow> string \<Rightarrow> plugin_state \<Rightarrow> query_result response" where
  "handle_prometheus_query n rid q st =
     (case plugin_of_kind Prometheus st of
        None \<Rightarrow> resp_error rid CodeNotFound ''prometheus plugin not available''
      | Some p \<Rightarrow>
          if q = [] then resp_error rid CodeParamMissing ''query parameter required''
          else (case validate_promql q of
                  Some (c, m) \<Rightarrow> resp_error_with_biz rid (BizErr c m)
                | None \<Rightarrow> text_answer rid (prom_query n p q)))"

definition handle_grafana_dashboards :: "plugin_net \<Rightarrow> string option \<Rightarrow> plugin_state \<Rightarrow> dashboard list response" where
  "handle_grafana_dashboards n rid st =
     (case plugin_of_kind Grafana st of
        None \<Rightarrow> resp_error rid CodeNotFound ''grafana plugin not available''
      | Some p \<Rightarrow> text_answer rid (list_dashboards n p))"

definition handle_argo_applications :: "plugin_net \<Rightarrow> string option \<Rightarrow> plugin_state \<Rightarrow> argo_app list response" where
  "handle_argo_applications n rid st =
     (case plugin_of_kind ArgoCD st of
        None \<Rightarrow> resp_error rid CodeNotFound ''argocd plugin not available''
      | Some p \<Rightarrow> text_answer rid (list_applications n p))"

section \<open>Values in a query\<close>

text \<open>
  How a string in double quotes is read in PromQL, from after the opening quote: the value and what follows the closing one.
  A line break ends it, and only the escapes of the language are ones.
\<close>

definition promql_escape :: "char \<Rightarrow> char option" where
  "promql_escape c =
     (if c = backslash \<or> c = quote then Some c
      else if c = CHR ''n'' then Some (CHR 0x0A) else if c = CHR ''t'' then Some (CHR 0x09)
      else if c = CHR ''r'' then Some (CHR 0x0D) else None)"

fun read_quoted :: "string \<Rightarrow> (string \<times> string) option" where
  "read_quoted [] = None"
| "read_quoted (c # s) =
     (if c = quote then Some ([], s)
      else if c = CHR 0x0A then None
      else if c = backslash then
        (case s of
           [] \<Rightarrow> None
         | d # s' \<Rightarrow>
             (case promql_escape d of
                None \<Rightarrow> None | Some x \<Rightarrow> (case read_quoted s' of None \<Rightarrow> None | Some (v, r) \<Rightarrow> Some (x # v, r))))
      else (case read_quoted s of None \<Rightarrow> None | Some (v, r) \<Rightarrow> Some (c # v, r)))"

lemma replace_char_simps [simp]:
  "replace_char c r [] = []"
  "replace_char c r (x # s) = (if x = c then r else [x]) @ replace_char c r s"
  "replace_char c r (s @ s') = replace_char c r s @ replace_char c r s'"
  by (simp_all add: replace_char_def)

lemma escape_label_simps:
  "escape_label [] = []"
  "escape_label (x # s) =
     (if x = backslash then [backslash, backslash] else if x = quote then [backslash, quote]
      else if x = CHR 0x0A then [backslash, CHR ''n''] else [x]) @ escape_label s"
  by (simp_all add: escape_label_def backslash_def quote_def)

lemma read_quoted_escaped: "read_quoted (escape_label s @ quote # r) = Some (s, r)"
  by (induction s) (simp_all add: escape_label_simps promql_escape_def backslash_def quote_def)

text \<open>
  C37. The names of a pod and of its namespace cannot break out of the query they are put into: in the selector each is
  one quoted string, which reads back as exactly the name that was given, and what follows it is the fixed rest of the query.
\<close>

theorem label_values_cannot_break_out:
  "\<exists>a b. pod_selector ns pod = ''{namespace='' @ quote # a \<and> read_quoted a = Some (ns, '',pod='' @ quote # b) \<and>
     read_quoted b = Some (pod, '',container!='' @ [quote, quote] @ ''}'')"
proof -
  let ?b = "escape_label pod @ quote # '',container!='' @ [quote, quote] @ ''}''"
  have "read_quoted (escape_label ns @ quote # '',pod='' @ quote # ?b) = Some (ns, '',pod='' @ quote # ?b)"
    by (rule read_quoted_escaped)
  moreover have "read_quoted ?b = Some (pod, '',container!='' @ [quote, quote] @ ''}'')"
    by (rule read_quoted_escaped)
  moreover have "pod_selector ns pod = ''{namespace='' @ quote # escape_label ns @ quote # '',pod='' @ quote # ?b"
    by (simp add: pod_selector_def)
  ultimately show ?thesis by blast
qed

section \<open>A restart\<close>

definition registry_ok :: "plugin_registry \<Rightarrow> bool" where
  "registry_ok r \<longleftrightarrow>
     (\<forall>nm p. gm_get r nm = Some p \<longrightarrow> nm = kind_name (pi_kind p) \<and> (pi_kind p = Prometheus \<longrightarrow> pi_token p = []))"

definition configs_ok :: "plugin_config table \<Rightarrow> bool" where
  "configs_ok t \<longleftrightarrow> table_ok pl_id t \<and> distinct (map pl_name (rows t))"

definition config_codec :: "config_json \<Rightarrow> bool" where
  "config_codec js \<longleftrightarrow> (\<forall>m d. cj_marshal js m = Some d \<longrightarrow> cj_unmarshal js d = Some m)"

lemma builtin_get: "gm_get builtin_plugins (kind_name k) = Some (new_plugin k)"
  by (cases k) (simp_all add: builtin_plugins_def registry_register_def kind_name_def new_plugin_def gm_put_def)

lemma builtin_ok: "registry_ok builtin_plugins"
  by (auto simp: registry_ok_def builtin_plugins_def registry_register_def kind_name_def new_plugin_def gm_put_def split: if_splits)

lemma plugin_init_kind: "plugin_init n cfg p = Inr p' \<Longrightarrow> pi_kind p' = pi_kind p \<and> (pi_kind p = Prometheus \<longrightarrow> pi_token p' = pi_token p)"
  by (auto simp: plugin_init_def Let_def split: option.splits if_splits)

text \<open>What \<open>Init\<close> makes of a plugin depends on its kind only.\<close>

lemma plugin_init_same:
  assumes "pi_kind p = pi_kind q" "pi_kind p = Prometheus \<Longrightarrow> pi_token p = [] \<and> pi_token q = []"
  shows "plugin_init n cfg p = plugin_init n cfg q"
proof (cases p, cases q)
  fix k b t k' b' t'
  assume "p = \<lparr>pi_kind = k, pi_base = b, pi_token = t\<rparr>" "q = \<lparr>pi_kind = k', pi_base = b', pi_token = t'\<rparr>"
  with assms show ?thesis by (cases "k = Prometheus") (auto simp: plugin_init_def Let_def split: option.split)
qed

lemma registry_ok_put:
  "registry_ok r \<Longrightarrow> gm_get r nm = Some p \<Longrightarrow> plugin_init n cfg p = Inr p' \<Longrightarrow> registry_ok (gm_put nm p' r)"
  by (auto simp: registry_ok_def dest: plugin_init_kind)

lemma init_stored_ok: "registry_ok r \<Longrightarrow> registry_ok (init_stored n js c r)"
  by (auto simp: init_stored_def registry_get_def intro: registry_ok_put split: option.split sum.split)

lemma fold_init_ok: "registry_ok r \<Longrightarrow> registry_ok (fold (init_stored n js) cs r)"
  by (induction cs arbitrary: r) (simp_all add: init_stored_ok)

lemma init_stored_other: "pl_name c \<noteq> nm \<Longrightarrow> gm_get (init_stored n js c r) nm = gm_get r nm"
  by (auto simp: init_stored_def registry_get_def split: option.split sum.split)

lemma fold_init_other: "nm \<notin> pl_name ` set cs \<Longrightarrow> gm_get (fold (init_stored n js) cs r) nm = gm_get r nm"
  by (induction cs arbitrary: r) (auto simp: init_stored_other)

lemma upsert_stored:
  assumes "configs_ok t" "upsert_config fl p nm on cfg t = (t', Inr c)"
  shows "distinct (map pl_name (rows t')) \<and> (\<exists>c' \<in> set (rows t'). pl_live c' \<and> pl_name c' = nm \<and> pl_enabled c' = on \<and> pl_config c' = cfg)"
proof (cases "pc_get_by_name fl nm t")
  case (Inl e)
  then obtain c' where "pc_create fl \<lparr>pl_id = 0, pl_deleted = None, pl_name = nm, pl_type = kind_type (pi_kind p), pl_cluster = [],
      pl_enabled = on, pl_config = cfg\<rparr> t = Inr (t', c')"
    using assms(2) by (auto simp: upsert_config_def split: sum.splits)
  then have "rows t' = rows t @ [c']" "pl_live c'" "pl_name c' = nm" "pl_enabled c' = on" "pl_config c' = cfg" "nm \<notin> pl_name ` set (rows t)"
    by (auto simp: pc_create_def create_row_Inr pl_live_def list_ex_iff)
  with assms(1) show ?thesis by (auto simp: configs_ok_def)
next
  case (Inr c0)
  let ?c = "c0\<lparr>pl_enabled := on, pl_config := cfg\<rparr>"
  have c0: "c0 \<in> set (rows t)" "pl_live c0" "pl_name c0 = nm" using Inr by (auto simp: pc_get_by_name_def dest: first_where_sat)
  have up: "pc_update fl ?c t = Inr t'" using assms(2) Inr by (auto simp: upsert_config_def Let_def split: sum.splits)
  have "\<not> fl DbUpdate" using up by (auto simp: pc_update_def save_row_def)
  then have r: "rows t' = map (\<lambda>x. if pl_id x = pl_id c0 then ?c else x) (rows t)"
    using up save_row_existing [OF c0(1), of pl_id ?c fl] by (auto simp: pc_update_def)
  have "x = c0" if "x \<in> set (rows t)" "pl_id x = pl_id c0" for x
    using assms(1) c0(1) that by (auto simp: configs_ok_def table_ok_def dest: inj_onD distinct_map [THEN iffD1])
  then have "map pl_name (rows t') = map pl_name (rows t)" by (auto simp: r)
  moreover have "?c \<in> set (rows t')" using c0(1) by (force simp: r)
  ultimately show ?thesis using assms(1) c0 by (auto simp: configs_ok_def pl_live_def intro!: bexI [of _ ?c])
qed

lemma init_from_db_row:
  assumes "distinct (map pl_name (rows t))" "c \<in> set (rows t)" "pl_live c" "pl_name c = nm" "\<not> fl DbList"
  obtains r where "registry_ok r" "gm_get r nm = gm_get builtin_plugins nm"
    "gm_get (px_plugins (init_from_db n js fl \<lparr>px_plugins = builtin_plugins, px_configs = t\<rparr>)) nm = gm_get (init_stored n js c r) nm"
proof -
  let ?cs = "filter pl_live (rows t)"
  obtain xs ys where cs: "?cs = xs @ c # ys" using assms(2,3) by (auto dest!: split_list)
  have "distinct (map pl_name ?cs)" using assms(1) by (simp add: distinct_map_filter)
  then have "nm \<notin> pl_name ` set xs" "nm \<notin> pl_name ` set ys" using assms(4) by (auto simp: cs)
  then have "gm_get (fold (init_stored n js) xs builtin_plugins) nm = gm_get builtin_plugins nm"
    "gm_get (fold (init_stored n js) ?cs builtin_plugins) nm = gm_get (init_stored n js c (fold (init_stored n js) xs builtin_plugins)) nm"
    by (simp_all add: cs fold_init_other)
  moreover have "px_plugins (init_from_db n js fl \<lparr>px_plugins = builtin_plugins, px_configs = t\<rparr>) = fold (init_stored n js) ?cs builtin_plugins"
    using assms(5) by (simp add: init_from_db_def pc_list_def find_where_def)
  ultimately show thesis using that [of "fold (init_stored n js) xs builtin_plugins"] by (simp add: fold_init_ok builtin_ok)
qed

text \<open>
  A plugin is after a restart what it was configured to be: when it was enabled with a configuration, reading the stored
  rows into a fresh registry gives the plugin that answers now; when it was disabled, the plugin is without a server and a token.
\<close>

theorem plugin_survives_restart:
  assumes "registry_ok (px_plugins st)" and "configs_ok (px_configs st)" and "config_codec js" and "\<not> fl' DbList"
    and "plugin_configure n js fl nm q st = (st', Inr c)"
  shows "let again = px_plugins (init_from_db n js fl' \<lparr>px_plugins = builtin_plugins, px_configs = px_configs st'\<rparr>) in
    (pq_enabled q \<and> pq_config q \<noteq> None \<longrightarrow> registry_get nm again = registry_get nm (px_plugins st')) \<and>
    (\<not> pq_enabled q \<longrightarrow> (\<exists>k. nm = kind_name k \<and> registry_get nm again = Some (new_plugin k)))"
proof -
  obtain p where p: "gm_get (px_plugins st) nm = Some p"
    using assms(5) by (cases "gm_get (px_plugins st) nm") (auto simp: plugin_configure_def registry_get_def not_registered_def)
  let ?k = "pi_kind p"
  have nm: "nm = kind_name ?k" and tok: "?k = Prometheus \<longrightarrow> pi_token p = []" using assms(1) p by (auto simp: registry_ok_def)
  obtain p' where p': "(case (if pq_enabled q then pq_config q else None) of None \<Rightarrow> Inr p | Some cfg \<Rightarrow> plugin_init n cfg p) = Inr p'"
    using assms(5) p by (auto simp: plugin_configure_def registry_get_def split: sum.splits)
  obtain d where d: "cj_marshal js (pq_config q) = Some d"
    using assms(5) p p' by (cases "cj_marshal js (pq_config q)") (auto simp: plugin_configure_def registry_get_def Let_def)
  obtain t' r' where up: "upsert_config fl p nm (pq_enabled q) d (px_configs st) = (t', r')" by fastforce
  have st': "px_plugins st' = gm_put nm p' (px_plugins st)" "px_configs st' = t'" "r' = Inr c"
    using assms(5) p p' d up by (auto simp: plugin_configure_def registry_get_def Let_def)
  obtain c' where c': "distinct (map pl_name (rows t'))" "c' \<in> set (rows t')" "pl_live c'" "pl_name c' = nm" "pl_enabled c' = pq_enabled q" "pl_config c' = d"
    using upsert_stored [OF assms(2) up [unfolded st'(3)]] by blast
  obtain r where r: "registry_ok r" "gm_get r nm = Some (new_plugin ?k)"
    "gm_get (px_plugins (init_from_db n js fl' \<lparr>px_plugins = builtin_plugins, px_configs = t'\<rparr>)) nm = gm_get (init_stored n js c' r) nm"
    by (rule init_from_db_row [where fl = fl', OF c'(1-4) assms(4)]) (simp add: nm builtin_get)
  have u: "cj_unmarshal js d = Some (pq_config q)" using assms(3) d by (simp add: config_codec_def)
  have "gm_get (init_stored n js c' r) nm = Some p'" if "pq_enabled q" "pq_config q = Some cfg" for cfg
  proof -
    have "plugin_init n cfg (new_plugin ?k) = plugin_init n cfg p"
      by (rule plugin_init_same) (use tok in \<open>simp_all add: new_plugin_def\<close>)
    then have "plugin_init n cfg (new_plugin ?k) = Inr p'" using p' that by simp
    with that show ?thesis by (simp add: init_stored_def registry_get_def c' r(2) u)
  qed
  moreover have "gm_get (init_stored n js c' r) nm = Some (new_plugin ?k)" if "\<not> pq_enabled q"
    using that by (simp add: init_stored_def c' r(2))
  ultimately show ?thesis unfolding Let_def registry_get_def st' r(3) using nm by auto
qed

section \<open>What the plugins let through\<close>

text \<open>Disabling a plugin is stored, but the plugin goes on answering until a restart.\<close>

lemma disabled_plugin_answers:
  assumes "plugin_configure n js fl nm q st = (st', Inr c)" "\<not> pq_enabled q"
  shows "handle_prometheus_query n rid query st' = handle_prometheus_query n rid query st"
proof -
  obtain p where p: "gm_get (px_plugins st) nm = Some p"
    using assms(1) by (cases "gm_get (px_plugins st) nm") (auto simp: plugin_configure_def registry_get_def not_registered_def)
  obtain d where d: "cj_marshal js (pq_config q) = Some d"
    using assms p by (cases "cj_marshal js (pq_config q)") (auto simp: plugin_configure_def registry_get_def Let_def)
  have "px_plugins st' = gm_put nm p (px_plugins st)"
    using assms p d by (auto simp: plugin_configure_def registry_get_def Let_def split: prod.splits)
  then have "gm_get (px_plugins st') k = gm_get (px_plugins st) k" for k using p by simp
  then show ?thesis by (simp add: handle_prometheus_query_def plugin_of_kind_def registry_get_def)
qed

text \<open>A configuration that could not be stored is in use all the same.\<close>

lemma unsaved_configuration_used:
  assumes "registry_get nm (px_plugins st) = Some p" "plugin_init n cfg p = Inr p'" "cj_marshal js (Some cfg) = Some d"
    and "fl DbGet" "fl DbCreate"
  shows "plugin_configure n js fl nm \<lparr>pq_enabled = True, pq_config = Some cfg\<rparr> st =
    (st\<lparr>px_plugins := gm_put nm p' (px_plugins st)\<rparr>, fail CodeInternal ''failed to save plugin config'')"
  using assms
  by (simp add: plugin_configure_def upsert_config_def pc_get_by_name_def first_where_def pc_create_def create_row_def)

text \<open>The check for a query of every metric is one for a text: a space before the operator, or another pattern, passes.\<close>

lemma wildcard_passes:
  "validate_promql (''{__name__ =~'' @ quote # ''.*'' @ quote # ''}'') = None" "validate_promql (''{__name__=~'' @ quote # ''.+'' @ quote # ''}'') = None"
  by (simp_all add: validate_promql_def max_promql_len_def has_prefix_def quote_def)

text \<open>Who may read the configuration of a plugin reads its token.\<close>

lemma token_is_returned:
  assumes "plugin_get_config fl nm st = Inr c" "nm \<noteq> []"
  shows "resp_data (handle_plugin_get fl rid nm st) = Some c"
  using assms by (simp add: handle_plugin_get_def answer_def resp_success_def)

section \<open>Example\<close>

definition demo_plugin_net :: plugin_net where
  "demo_plugin_net =
     \<lparr>pn_uri = (\<lambda>u. None), pn_bad_url = (\<lambda>u. None), pn_get = (\<lambda>u a. Inl ''refused''), pn_query = Inl, pn_dashboards = Inl,
      pn_apps = Inl, pn_app = Inl\<rparr>"

definition demo_plugin_json :: config_json where
  "demo_plugin_json = \<lparr>cj_marshal = (\<lambda>m. if m = Some [(''url'', ''https://g'')] then Some ''{}'' else None),
     cj_unmarshal = (\<lambda>d. Some (Some [(''url'', ''https://g'')]))\<rparr>"

definition demo_plugins :: plugin_state where
  "demo_plugins = \<lparr>px_plugins = builtin_plugins, px_configs = empty_table\<rparr>"

lemma demo_configured:
  "\<exists>st' c. plugin_configure demo_plugin_net demo_plugin_json no_faults ''grafana''
     \<lparr>pq_enabled = True, pq_config = Some [(''url'', ''https://g'')]\<rparr> demo_plugins = (st', Inr c) \<and>
   registry_get ''grafana'' (px_plugins st') = Some \<lparr>pi_kind = Grafana, pi_base = ''https://g'', pi_token = []\<rparr>"
  using builtin_get [of Grafana]
  by (simp add: plugin_configure_def registry_get_def demo_plugins_def kind_name_def new_plugin_def plugin_init_def demo_plugin_net_def
      demo_plugin_json_def upsert_config_def pc_get_by_name_def first_where_def pc_create_def create_row_def empty_table_def Let_def)

theorem plugin_survives_restart_witness:
  "\<exists>st' c. plugin_configure demo_plugin_net demo_plugin_json no_faults ''grafana''
     \<lparr>pq_enabled = True, pq_config = Some [(''url'', ''https://g'')]\<rparr> demo_plugins = (st', Inr c) \<and>
   registry_get ''grafana'' (px_plugins (init_from_db demo_plugin_net demo_plugin_json no_faults
     \<lparr>px_plugins = builtin_plugins, px_configs = px_configs st'\<rparr>)) = Some \<lparr>pi_kind = Grafana, pi_base = ''https://g'', pi_token = []\<rparr>"
proof -
  obtain st' c where c: "plugin_configure demo_plugin_net demo_plugin_json no_faults ''grafana''
     \<lparr>pq_enabled = True, pq_config = Some [(''url'', ''https://g'')]\<rparr> demo_plugins = (st', Inr c)"
    "registry_get ''grafana'' (px_plugins st') = Some \<lparr>pi_kind = Grafana, pi_base = ''https://g'', pi_token = []\<rparr>"
    using demo_configured by blast
  have "registry_ok (px_plugins demo_plugins)" "configs_ok (px_configs demo_plugins)" "config_codec demo_plugin_json" "\<not> no_faults DbList"
    by (simp_all add: demo_plugins_def builtin_ok configs_ok_def empty_table_def table_ok_def config_codec_def demo_plugin_json_def)
  from plugin_survives_restart [OF this c(1)] c show ?thesis by (auto simp: Let_def)
qed

end
