(* ===== verification/Topology.thy ===== *)
theory Topology
  imports Overview
begin

text \<open>
  The graph of a namespace (\<open>service/topology_service.go\<close>, \<open>handler/topology_handler.go\<close>): nodes for the objects and the
  owners they name, edges for owner references and for the selectors of services. A map of strings is its list of
  entries with unique keys.
\<close>

section \<open>The graph\<close>

record topology_node =
  tn_id :: string
  tn_kind :: string
  tn_name :: string
  tn_namespace :: string
  tn_status :: string
  tn_labels :: "(string, string) gomap option"

record topology_edge =
  te_source :: string
  te_target :: string
  te_relation :: string

record topology =
  tp_nodes :: "topology_node list"
  tp_edges :: "topology_edge list"

text \<open>The accessors of decoded objects; an object that is absent is \<open>None\<close>.\<close>

definition extract_map :: "fields option \<Rightarrow> string \<Rightarrow> fields option" where
  "extract_map m k = (case m of None \<Rightarrow> None | Some f \<Rightarrow> as_obj (gm_get f k))"

definition extract_string :: "fields option \<Rightarrow> string \<Rightarrow> string" where
  "extract_string m k = (case m of None \<Rightarrow> [] | Some f \<Rightarrow> str_or_empty (gm_get f k))"

definition extract_string_map :: "fields option \<Rightarrow> string \<Rightarrow> (string, string) gomap option" where
  "extract_string_map m k =
     (case extract_map m k of
        None \<Rightarrow> None
      | Some f \<Rightarrow> Some (List.map_filter (\<lambda>(n, v). map_option (Pair n) (as_str (Some v))) f))"

definition extract_slice :: "fields option \<Rightarrow> string \<Rightarrow> json list" where
  "extract_slice m k = (case m of None \<Rightarrow> [] | Some f \<Rightarrow> arr_or_nil (gm_get f k))"

definition available_condition :: "json \<Rightarrow> bool" where
  "available_condition v =
     (case as_obj (Some v) of
        None \<Rightarrow> False | Some c \<Rightarrow> extract_string (Some c) ''type'' = ''Available'' \<and> extract_string (Some c) ''status'' = ''True'')"

definition extract_resource_status :: "string \<Rightarrow> fields \<Rightarrow> string" where
  "extract_resource_status rt raw =
     (case extract_map (Some raw) ''status'' of
        None \<Rightarrow> []
      | Some st \<Rightarrow>
          if rt = ''pods'' then extract_string (Some st) ''phase''
          else if rt = ''deployments'' \<or> rt = ''statefulsets'' \<or> rt = ''daemonsets''
          then (if list_ex available_condition (extract_slice (Some st) ''conditions'') then ''Available'' else ''Progressing'')
          else [])"

text \<open>A label that is absent reads as the empty string.\<close>

definition match_labels :: "(string, string) gomap \<Rightarrow> (string, string) gomap option \<Rightarrow> bool" where
  "match_labels sel labels \<longleftrightarrow>
     sel \<noteq> [] \<and>
     list_all (\<lambda>(k, v). (case labels of None \<Rightarrow> [] | Some ls \<Rightarrow> (case gm_get ls k of None \<Rightarrow> [] | Some x \<Rightarrow> x)) = v) sel"

definition kind_to_resource_type :: "string \<Rightarrow> string" where
  "kind_to_resource_type k =
     (if k = ''Deployment'' then ''deployments'' else if k = ''ReplicaSet'' then ''replicasets''
      else if k = ''StatefulSet'' then ''statefulsets'' else if k = ''DaemonSet'' then ''daemonsets''
      else if k = ''Job'' then ''jobs'' else if k = ''CronJob'' then ''cronjobs'' else if k = ''Node'' then ''nodes''
      else if k = ''Service'' then ''services'' else k)"

definition node_id :: "string \<Rightarrow> string \<Rightarrow> string" where "node_id kind name = kind @ ''/'' @ name"

definition add_node ::
  "string \<Rightarrow> string \<Rightarrow> string \<Rightarrow> string \<Rightarrow> (string, string) gomap option \<Rightarrow> topology \<Rightarrow> topology" where
  "add_node kind name ns status labels g =
     (if list_ex (\<lambda>n. tn_id n = node_id kind name) (tp_nodes g) then g
      else g\<lparr>tp_nodes := tp_nodes g @ [\<lparr>tn_id = node_id kind name, tn_kind = kind, tn_name = name, tn_namespace = ns,
                                        tn_status = status, tn_labels = labels\<rparr>]\<rparr>)"

definition add_owner :: "string \<Rightarrow> string \<Rightarrow> json \<Rightarrow> topology \<Rightarrow> topology" where
  "add_owner nid ns ref g =
     (case as_obj (Some ref) of
        None \<Rightarrow> g
      | Some r \<Rightarrow>
          (let k = extract_string (Some r) ''kind''; nm = extract_string (Some r) ''name'' in
           if k = [] \<or> nm = [] then g
           else (let ty = kind_to_resource_type k; g1 = add_node ty nm ns [] None g in
                 g1\<lparr>tp_edges := tp_edges g1 @ [\<lparr>te_source = node_id ty nm, te_target = nid, te_relation = ''owns''\<rparr>]\<rparr>)))"

definition meta_of :: "fields \<Rightarrow> fields option" where "meta_of raw = extract_map (Some raw) ''metadata''"

definition name_of :: "fields \<Rightarrow> string" where "name_of raw = extract_string (meta_of raw) ''name''"

text \<open>An object without content, a nil map in the code, is skipped.\<close>

definition add_resource :: "string \<Rightarrow> fields \<Rightarrow> topology \<Rightarrow> topology" where
  "add_resource rt raw g =
     (if raw = [] then g
      else (let meta = meta_of raw; ns = extract_string meta ''namespace'';
                g1 = add_node rt (name_of raw) ns (extract_resource_status rt raw) (extract_string_map meta ''labels'') g
            in fold (add_owner (node_id rt (name_of raw)) ns) (extract_slice meta ''ownerReferences'') g1))"

definition topology_types :: "string list" where
  "topology_types = [''deployments'', ''statefulsets'', ''daemonsets'', ''replicasets'', ''pods'', ''services'']"

definition selected_pods :: "fields \<Rightarrow> fields list \<Rightarrow> fields list" where
  "selected_pods svc pods =
     (case extract_string_map (extract_map (Some svc) ''spec'') ''selector'' of
        None \<Rightarrow> []
      | Some sel \<Rightarrow> filter (\<lambda>p. p \<noteq> [] \<and> match_labels sel (extract_string_map (meta_of p) ''labels'')) pods)"

definition service_edges :: "fields list \<Rightarrow> fields \<Rightarrow> topology_edge list" where
  "service_edges pods svc =
     (if svc = [] then []
      else map (\<lambda>p. \<lparr>te_source = node_id ''services'' (name_of svc), te_target = node_id ''pods'' (name_of p), te_relation = ''selects''\<rparr>)
             (selected_pods svc pods))"

text \<open>The graph of the objects of each type.\<close>

definition build_topology :: "(string \<Rightarrow> fields list) \<Rightarrow> topology" where
  "build_topology objs =
     (let g = fold (\<lambda>rt. fold (add_resource rt) (objs rt)) topology_types \<lparr>tp_nodes = [], tp_edges = []\<rparr>
      in g\<lparr>tp_edges := tp_edges g @ concat (map (service_edges (objs ''pods'')) (objs ''services''))\<rparr>)"

text \<open>A type that cannot be listed is left out.\<close>

definition get_namespace_topology ::
  "('cfg, 'dyn, 'w) resource_env \<Rightarrow> nat \<Rightarrow> string \<Rightarrow> 'w \<Rightarrow> topology res" where
  "get_namespace_topology env i ns w =
     (case cluster_get_by_id (re_faults env) i (cs_table (re_state env)) of
        Inl _ \<Rightarrow> fail CodeNotFound (''cluster '' @ dec_nat i @ '' not found'')
      | Inr c \<Rightarrow>
          Inr (build_topology (\<lambda>rt.
            case repo_list (re_api env) (re_registry env) (re_now env) (re_state env) (c_name c) rt ns no_options w of
              Inl _ \<Rightarrow> [] | Inr l \<Rightarrow> map ko_raw (rl_items l))))"

definition handle_topology ::
  "('cfg, 'dyn, 'w) resource_env \<Rightarrow> string option \<Rightarrow> string \<Rightarrow> string \<Rightarrow> 'w \<Rightarrow> topology response" where
  "handle_topology env rid raw ns w =
     (case parse_uint raw of
        None \<Rightarrow> resp_error rid CodeParamInvalid ''invalid clusterID''
      | Some i \<Rightarrow>
          if ns = [] then resp_error rid CodeParamMissing ''namespace is required''
          else answer rid (get_namespace_topology env i ns w))"

section \<open>The graph is closed\<close>

definition node_ids :: "topology \<Rightarrow> string set" where "node_ids g = tn_id ` set (tp_nodes g)"

definition edge_ends :: "topology \<Rightarrow> string set" where
  "edge_ends g = te_source ` set (tp_edges g) \<union> te_target ` set (tp_edges g)"

definition graph_ok :: "topology \<Rightarrow> bool" where
  "graph_ok g \<longleftrightarrow> distinct (map tn_id (tp_nodes g)) \<and> edge_ends g \<subseteq> node_ids g"

text \<open>A graph grows from \<open>g\<close> to \<open>g'\<close>: it stays closed and keeps its nodes.\<close>

definition grows :: "topology \<Rightarrow> topology \<Rightarrow> bool" where
  "grows g g' \<longleftrightarrow> (graph_ok g \<longrightarrow> graph_ok g') \<and> node_ids g \<subseteq> node_ids g'"

lemma grows_refl [simp]: "grows g g" by (simp add: grows_def)

lemma grows_trans: "grows a b \<Longrightarrow> grows b c \<Longrightarrow> grows a c"
  by (auto simp: grows_def)

lemma grows_fold: "(\<And>x g. x \<in> set xs \<Longrightarrow> grows g (f x g)) \<Longrightarrow> grows g (fold f xs g)"
proof (induction xs arbitrary: g)
  case (Cons x xs)
  have "grows g (f x g)" by (simp add: Cons.prems)
  moreover have "grows (f x g) (fold f xs (f x g))" by (rule Cons.IH) (simp add: Cons.prems)
  ultimately show ?case by (simp add: grows_trans)
qed simp

lemma add_node_ids [simp]: "node_ids (add_node k n ns s ls g) = insert (node_id k n) (node_ids g)"
  by (force simp: add_node_def node_ids_def list_ex_iff image_iff)

lemma add_node_grows: "grows g (add_node k n ns s ls g)"
proof -
  have "edge_ends (add_node k n ns s ls g) = edge_ends g" by (simp add: add_node_def edge_ends_def)
  moreover have "distinct (map tn_id (tp_nodes g)) \<Longrightarrow> distinct (map tn_id (tp_nodes (add_node k n ns s ls g)))"
    by (auto simp: add_node_def list_ex_iff)
  ultimately show ?thesis by (auto simp: grows_def graph_ok_def)
qed

lemma add_edges_ok:
  "graph_ok g \<Longrightarrow> te_source ` set es \<union> te_target ` set es \<subseteq> node_ids g \<Longrightarrow> graph_ok (g\<lparr>tp_edges := tp_edges g @ es\<rparr>)"
  by (auto simp: graph_ok_def edge_ends_def node_ids_def)

lemma add_owner_keeps:
  assumes "graph_ok g" "nid \<in> node_ids g"
  shows "graph_ok (add_owner nid ns ref g) \<and> node_ids g \<subseteq> node_ids (add_owner nid ns ref g)"
proof (cases "as_obj (Some ref)")
  case (Some r)
  let ?k = "extract_string (Some r) ''kind''" and ?nm = "extract_string (Some r) ''name''"
  let ?g = "add_node (kind_to_resource_type ?k) ?nm ns [] None g"
  let ?e = "\<lparr>te_source = node_id (kind_to_resource_type ?k) ?nm, te_target = nid, te_relation = ''owns''\<rparr>"
  have "graph_ok ?g" using add_node_grows assms(1) by (auto simp: grows_def)
  then have "graph_ok (?g\<lparr>tp_edges := tp_edges ?g @ [?e]\<rparr>)" by (rule add_edges_ok) (use assms(2) in auto)
  moreover have "node_ids (?g\<lparr>tp_edges := tp_edges ?g @ [?e]\<rparr>) = node_ids ?g" by (simp add: node_ids_def)
  ultimately show ?thesis using assms(1) Some by (auto simp: add_owner_def Let_def)
qed (use assms in \<open>simp add: add_owner_def\<close>)

lemma fold_owners_keep:
  "graph_ok g \<Longrightarrow> nid \<in> node_ids g \<Longrightarrow>
     graph_ok (fold (add_owner nid ns) refs g) \<and> node_ids g \<subseteq> node_ids (fold (add_owner nid ns) refs g)"
proof (induction refs arbitrary: g)
  case (Cons r refs)
  have k: "graph_ok (add_owner nid ns r g)" "node_ids g \<subseteq> node_ids (add_owner nid ns r g)"
    using add_owner_keeps [OF Cons.prems] by auto
  have "nid \<in> node_ids (add_owner nid ns r g)" using k(2) Cons.prems(2) by blast
  from Cons.IH [OF k(1) this] k(2) show ?case by auto
qed simp

lemma add_resource_keeps:
  assumes "graph_ok g"
  shows "graph_ok (add_resource rt raw g) \<and> node_ids g \<subseteq> node_ids (add_resource rt raw g) \<and>
    (raw \<noteq> [] \<longrightarrow> node_id rt (name_of raw) \<in> node_ids (add_resource rt raw g))"
proof (cases "raw = []")
  case False
  let ?ns = "extract_string (meta_of raw) ''namespace''"
  let ?g = "add_node rt (name_of raw) ?ns (extract_resource_status rt raw) (extract_string_map (meta_of raw) ''labels'') g"
  have "graph_ok ?g" using add_node_grows assms by (auto simp: grows_def)
  from fold_owners_keep [OF this, of "node_id rt (name_of raw)" ?ns "extract_slice (meta_of raw) ''ownerReferences''"] False
  show ?thesis by (auto simp: add_resource_def Let_def)
qed (simp add: add_resource_def assms)

lemma fold_resources_keep:
  "graph_ok g \<Longrightarrow> graph_ok (fold (add_resource rt) raws g) \<and> node_ids g \<subseteq> node_ids (fold (add_resource rt) raws g) \<and>
     (\<lambda>raw. node_id rt (name_of raw)) ` (set raws - {[]}) \<subseteq> node_ids (fold (add_resource rt) raws g)"
proof (induction raws arbitrary: g)
  case (Cons raw raws)
  from add_resource_keeps [OF Cons.prems, of rt raw] Cons.IH [of "add_resource rt raw g"] show ?case by auto
qed simp

lemma fold_types_keep:
  "graph_ok g \<Longrightarrow> graph_ok (fold (\<lambda>rt. fold (add_resource rt) (objs rt)) rts g) \<and>
     node_ids g \<subseteq> node_ids (fold (\<lambda>rt. fold (add_resource rt) (objs rt)) rts g) \<and>
     (\<lambda>(rt, raw). node_id rt (name_of raw)) ` (SIGMA rt : set rts. set (objs rt) - {[]})
       \<subseteq> node_ids (fold (\<lambda>rt. fold (add_resource rt) (objs rt)) rts g)"
proof (induction rts arbitrary: g)
  case (Cons rt rts)
  from fold_resources_keep [OF Cons.prems, of rt "objs rt"] Cons.IH [of "fold (add_resource rt) (objs rt) g"] show ?case
    by (auto simp: image_subset_iff)
qed simp

text \<open>
  The graph of a namespace is one: no two nodes have the same identifier, every edge joins two nodes that are in it, and
  every object that was listed has its node, whatever the objects say about their owners and selectors.
\<close>

theorem topology_well_formed:
  "graph_ok (build_topology objs) \<and>
   (\<lambda>(rt, raw). node_id rt (name_of raw)) ` (SIGMA rt : set topology_types. set (objs rt) - {[]}) \<subseteq> node_ids (build_topology objs)"
proof -
  let ?g = "fold (\<lambda>rt. fold (add_resource rt) (objs rt)) topology_types \<lparr>tp_nodes = [], tp_edges = []\<rparr>"
  let ?es = "concat (map (service_edges (objs ''pods'')) (objs ''services''))"
  have ok: "graph_ok ?g"
    and ns: "(\<lambda>(rt, raw). node_id rt (name_of raw)) ` (SIGMA rt : set topology_types. set (objs rt) - {[]}) \<subseteq> node_ids ?g"
    using fold_types_keep [of "\<lparr>tp_nodes = [], tp_edges = []\<rparr>" objs topology_types] by (auto simp: graph_ok_def edge_ends_def)
  have "te_source e \<in> node_ids ?g \<and> te_target e \<in> node_ids ?g" if "e \<in> set ?es" for e
  proof -
    from that obtain svc p where e: "svc \<in> set (objs ''services'')" "svc \<noteq> []" "p \<in> set (objs ''pods'')" "p \<noteq> []"
      "e = \<lparr>te_source = node_id ''services'' (name_of svc), te_target = node_id ''pods'' (name_of p), te_relation = ''selects''\<rparr>"
      by (auto simp: service_edges_def selected_pods_def split: if_splits option.splits)
    have "(''services'', svc) \<in> (SIGMA rt : set topology_types. set (objs rt) - {[]})"
      "(''pods'', p) \<in> (SIGMA rt : set topology_types. set (objs rt) - {[]})"
      using e by (simp_all add: topology_types_def)
    from ns [THEN subsetD, OF imageI [OF this(1)]] ns [THEN subsetD, OF imageI [OF this(2)]] show ?thesis by (simp add: e(5))
  qed
  then have "graph_ok (?g\<lparr>tp_edges := tp_edges ?g @ ?es\<rparr>)" by (intro add_edges_ok [OF ok]) blast
  moreover have "node_ids (?g\<lparr>tp_edges := tp_edges ?g @ ?es\<rparr>) = node_ids ?g" by (simp add: node_ids_def)
  ultimately show ?thesis using ns by (simp add: build_topology_def Let_def)
qed

text \<open>A selector of a label with the empty value selects pods without that label.\<close>

lemma absent_label_matches: "match_labels [(k, [])] None"
  by (simp add: match_labels_def)

end
