(* ===== verification/Spec2Isabelle.thy ===== *)
theory Spec2Isabelle
  imports Auth_Gate Operation_Steps Ai_Agent Clusters Router Favorites Helm_Upgrades
    Kube_Handlers Watch_Hub Image_Registry Terminals Webhooks Resource_Search Passkeys Directory_Sync
    Oauth_Signin Overview Cluster_Reports Rate_Limit Registry_Client Http_Access
    Settings Ai_Handlers Account_Handlers Plugins Topology
begin

text \<open>
  KubeVision is a web console for Kubernetes clusters: a Go server that keeps accounts, roles, clusters and
  settings in a relational database, answers a JSON API and WebSocket connections, and acts on the
  clusters through client-go and Helm. This development translates the server's own logic, from the
  requests down to the rows it stores and the calls it makes to a cluster, and proves what makes each
  part correct. File names below are relative to \<open>src/internal\<close>.

  \<^bold>\<open>How the code is modelled.\<close> A Go struct is a record, an enumeration a datatype, a method a function that
  takes the state it reads or writes and returns it beside the result. Code that can fail returns
  \<open>go_error + 'a\<close>: \<open>BizErr\<close> is a business error with its code, \<open>OtherErr\<close> any other. A panic, where the code has
  one, is the value \<open>None\<close> or a state of its own. A database table is a list of rows with its key sequence
  (\<open>Sql_Table\<close>); the parameter \<open>faults\<close> says which kinds of statement fail, so the error branches of every
  repository call are branches of the model. A Go map is an association list with unique keys (\<open>gomap\<close>);
  where the code ranges over a map the order of the result is one of those Go may give. Times and
  durations are integers in nanoseconds. A machine integer wraps where the code can overflow
  (\<open>int64\<close> in \<open>Go_Integers\<close>). Strings are byte strings; only the case of ASCII letters is folded.
  Goroutines are either the operations they perform, called one at a time, or an inductive step
  relation over the shared state when their interleaving matters (background operations, terminals,
  the watch hub, the webhook senders).

  \<^bold>\<open>What is a parameter.\<close> Code that is not in the repository is an argument of the definitions that use it,
  gathered in records: signing and hashing (\<open>jwt_manager\<close>, \<open>auth_env\<close>), client-go (\<open>kube_api\<close>, \<open>resource_env\<close>,
  the clients of \<open>Clusters\<close> and \<open>Kube_Actions\<close>), Helm (\<open>Helm_Adapter\<close>), the model provider of the
  assistant (\<open>ai_net\<close>), AES-GCM and SHA-256 (\<open>box_lib\<close>), the registries and their resolver (\<open>reg_net\<close>), the transport to a pod
  (\<open>access_env\<close>), YAML (\<open>yaml_lib\<close>), LDAP (\<open>ldap_env\<close>), OAuth (\<open>oauth_env\<close>), WebAuthn (\<open>wa_engine\<close>), HTTP, DNS and HMAC
  (\<open>webhook_net\<close>), the token bucket (\<open>bucket_lib\<close>), quantities (\<open>quantity_lib\<close>) and floating-point reading.
  What a theorem needs of them is a named hypothesis (\<open>signs_ok\<close>, \<open>crypt_ok\<close>, \<open>rand_ok\<close>, \<open>refills\<close>, \<open>gcm_ok\<close>, \<open>secrets_codec\<close>), and its witness
  instantiates them with concrete functions.

  \<^bold>\<open>Foundations.\<close> \<open>Go_Prelude\<close> (strings, maps, faults, the locales \<open>keyed_store\<close> and \<open>single_use\<close> and their
  interpretation), \<open>Go_Integers\<close> and \<open>Go_Sort\<close> and \<open>Go_Net\<close> (packages strconv, sort, net), \<open>Sql_Table\<close> (gorm),
  \<open>Json_Values\<close> and \<open>Json_Parse\<close> (encoding/json), \<open>Biz_Errors\<close> (\<open>pkg/errors\<close>, \<open>pkg/response\<close>).

  \<^bold>\<open>Identity and access.\<close> \<open>Users\<close> (\<open>repository/user_repo.go\<close>, \<open>service/user_service.go\<close>), \<open>Rbac\<close> (roles, permission
  matching, \<open>middleware/rbac.go\<close>), \<open>Jwt_Tokens\<close> (\<open>auth/jwt.go\<close>), \<open>Auth_Service\<close> (login, refresh, second factor,
  recovery codes), \<open>Auth_Gate\<close> (API keys and \<open>middleware/auth.go\<close>), \<open>Rate_Limit\<close> (\<open>middleware/ratelimit.go\<close>),
  \<open>Directory_Sync\<close> (\<open>directory/client.go\<close>, \<open>service/directory_service.go\<close> and its handlers), \<open>Oauth_Signin\<close>
  (\<open>service/oauth_service.go\<close>), \<open>Passkeys\<close> (\<open>service/publickey_service.go\<close>), \<open>Router\<close> (the route table of
  \<open>server/router.go\<close>), \<open>Settings\<close> (\<open>config/config.go\<close>), \<open>Secret_Box\<close> (\<open>auth/crypto.go\<close>), \<open>Audit_Trail\<close> (\<open>middleware/audit.go\<close>, \<open>service/audit_service.go\<close>),
  \<open>Account_Handlers\<close> (the HTTP handlers of these services, of clusters and of operations). The lemmas show that a
  request is let through only with a live token or key of an active account at the current token version,
  that the kinds of token cannot stand for each other, that each way to sign in checks what it promises,
  that codes, ceremonies and states are redeemed once, that a changed password or role ends sessions, that a
  second start finds the secrets of the first, that what is encrypted can be decrypted, and
  what the audit trail keeps of a request and in which order, and that a request on one account leaves the others alone.

  \<^bold>\<open>Clusters.\<close> \<open>Clusters\<close> with \<open>Informers\<close> (\<open>service/cluster_service.go\<close>, \<open>kubernetes/cluster\<close>, \<open>kubernetes/informer\<close>):
  rows, connections and caches stay wired to each other. \<open>Resource_Registry\<close>, \<open>Kube_Types\<close>, \<open>Kube_Resources\<close>,
  \<open>Kube_Metrics\<close>, \<open>Kube_Actions\<close>, \<open>Kube_Handlers\<close> (\<open>repository/k8s_repo.go\<close>, \<open>service/resource_service.go\<close>,
  \<open>resource_action_service.go\<close>, \<open>pod_metrics_service.go\<close> and their handlers), \<open>Resource_Search\<close>, \<open>Overview\<close>,
  \<open>Cluster_Reports\<close> (search, overview, quota, comparison), \<open>Watch_Hub\<close> (\<open>handler/ws/hub.go\<close>), \<open>Terminals\<close> and
  \<open>Terminal_Sessions\<close> (\<open>handler/ws/terminal.go\<close>, \<open>logs.go\<close>, recordings), \<open>Image_Registry\<close> (\<open>registry/reference.go\<close>,
  \<open>service.go\<close>), \<open>Registry_Client\<close> (\<open>registry/client.go\<close>), \<open>Http_Access\<close> (\<open>handler/http_access_handler.go\<close>,
  \<open>kubernetes/httpaccess\<close>), \<open>Plugins\<close> (\<open>plugin/*\<close>, \<open>service/plugin_service.go\<close>), \<open>Topology\<close>
  (\<open>service/topology_service.go\<close>), \<open>Favorites\<close>, \<open>Webhooks\<close> (\<open>service/webhook_service.go\<close>). Refused requests change nothing, a dry
  run reaches the server only as one, a restart deletes only pods a controller recreates, listings are ranked
  and paged as asked, reports agree with what was listed, a recording is what the browser was shown, registries and pods are reached only within the
  allowed hosts, paths and headers, names cannot break out of a query to Prometheus, the graph of a namespace is closed, and
  the senders of webhooks end having sent everything.

  \<^bold>\<open>Background operations.\<close> \<open>Operations\<close> (\<open>operation/manager.go\<close>): submission, claim, execution, recovery, retry.
  \<open>Operation_Steps\<close> is their interleaving by several workers as a step relation, with the invariant of the
  reachable tables and at most one execution per claim.

  \<^bold>\<open>Assistant.\<close> \<open>Ai_Authz\<close>, \<open>Ai_Sessions\<close>, \<open>Ai_Agent\<close> (\<open>ai/authz.go\<close>, \<open>session.go\<close>, \<open>agent.go\<close>, tools), \<open>Ai_Client\<close>
  (\<open>ai/openai.go\<close>, \<open>prompt.go\<close>) and \<open>Ai_Handlers\<close> (\<open>ai/config.go\<close>, \<open>repository/setting_repo.go\<close>, \<open>handler/ai_handler.go\<close>): what the assistant
  may do is within the permissions of the caller, a mutation runs only after an approval by its owner, once,
  and exactly as it was shown. The stream of an answer is put together by the index of its calls, and the stored key of
  the provider is used only with the URL it was stored for.

  \<^bold>\<open>Packages.\<close> \<open>Helm_Access\<close>, \<open>Helm_Charts\<close>, \<open>Helm_Catalog\<close>, \<open>Helm_Adapter\<close>, \<open>Helm_Service\<close>, \<open>Helm_Safety\<close>,
  \<open>Helm_Upgrades\<close> (\<open>packages/*.go\<close>): access per cluster and namespace, the assessment of a manifest, sources, and
  the path from a preview through its confirmation to the change, interactive or automatic.

  \<^bold>\<open>Interfaces.\<close> The contracts between the parts are locales, each interpreted on the definitions of the
  component that provides it: the keyed store of Go maps, tokens that are redeemed once (pending
  approvals, previews, ceremonies, OAuth states), permission matching, and the ones the theories state where
  they are used.

  \<^bold>\<open>Bounds and fuel.\<close> The JSON parser runs on fuel \<open>2 * Suc (length s)\<close>, which suffices because every nested value
  consumes a byte; the nesting limit 10000 of the decoder is modelled. The agent loop runs for the number of
  rounds the code allows. Every other recursion is structural or has its measure.

  \<^bold>\<open>Not modelled.\<close> Start-up and command line (\<open>cmd\<close>, \<open>cli\<close>, \<open>server/server.go\<close>): flags and wiring. The helper
  \<open>auth/password.go\<close> only calls bcrypt, which is a parameter. Clients of other services that decide nothing
  (\<open>kubernetes/exec\<close>): streams. The handlers of packages and favorites, which bind a request and call one
  service: the services behind them are modelled. The templates
  and custom resources services, which only read objects for the browser. Logging, metrics of the
  process, response headers and request identifiers.
\<close>

end
